(* ===== verification/Prelude.thy ===== *)
theory Prelude
  imports Complex_Main "HOL-Library.Multiset"
begin

text \<open>
  Shared vocabulary of the development.

  \<^item> Python numbers: an \<open>int\<close> is \<open>int\<close>; a \<open>float\<close> is a \<open>real\<close> (every finite float is
    one; rounding of float operations is not modelled, and code that tests for NaN or infinity
    takes its argument as an option). \<open>py_int\<close> is \<open>int(x)\<close>, \<open>py_round\<close> is \<open>round(x)\<close>
    (ties to even), \<open>py_round1\<close> is \<open>round(x, 1)\<close>, \<open>np_clip\<close> and \<open>np_interp\<close> are numpy's.
  \<^item> Python's \<open>bisect\<close> module, as the binary searches the standard library documents, with the
    proof that on sorted lists they find the partition points.
  \<^item> The text operations the alert callbacks use (\<open>str\<close>, \<open>:.0f\<close>, \<open>:.1f\<close>, \<open>join\<close>).
  \<^item> \<open>dict_get\<close> is \<open>dict.get(key, default)\<close> on a map.
  \<^item> The time steps and unit conversions of \<open>common/realtime.py\<close> and \<open>common/constants.py\<close>.
  \<^item> Runs of deterministic frame machines (\<open>frames\<close>) with their induction principles,
    stated once as the locale \<open>frame_machine\<close>.
\<close>

named_theorems model_defs \<open>definitions of the program's operations, unfolded by case analysis\<close>
named_theorems const_defs \<open>numeric constants of the program\<close>

subsection \<open>Python numbers\<close>

definition py_int :: "real \<Rightarrow> int" where
  "py_int x = (if 0 \<le> x then \<lfloor>x\<rfloor> else \<lceil>x\<rceil>)"

definition py_round :: "real \<Rightarrow> int" where
  "py_round x =
     (let f = \<lfloor>x\<rfloor>; d = x - of_int f
      in if d < 1/2 then f else if 1/2 < d then f + 1
         else if even f then f else f + 1)"

definition py_round1 :: "real \<Rightarrow> real" where
  "py_round1 x = of_int (py_round (10 * x)) / 10"

definition np_clip :: "'a::linorder \<Rightarrow> 'a \<Rightarrow> 'a \<Rightarrow> 'a" where
  "np_clip x lo hi = min (max x lo) hi"

fun np_interp :: "real \<Rightarrow> (real \<times> real) list \<Rightarrow> real" where
  "np_interp x [] = 0"
| "np_interp x [(a, b)] = b"
| "np_interp x ((x0, y0) # (x1, y1) # ps) =
     (if x \<le> x0 then y0
      else if x < x1 then y0 + (y1 - y0) * (x - x0) / (x1 - x0)
      else np_interp x ((x1, y1) # ps))"

subsection \<open>Constants of common/realtime.py and common/constants.py\<close>

definition DT_CTRL :: real where "DT_CTRL = 1 / 100"
definition DT_MDL :: real where "DT_MDL = 1 / 20"
definition DT_DMON :: real where "DT_DMON = 1 / 20"
definition MPH_TO_KPH :: real where "MPH_TO_KPH = 1609344 / 1000000"
definition KPH_TO_MPH :: real where "KPH_TO_MPH = 1 / MPH_TO_KPH"
definition MS_TO_KPH :: real where "MS_TO_KPH = 36 / 10"
definition KPH_TO_MS :: real where "KPH_TO_MS = 1 / MS_TO_KPH"
definition MS_TO_MPH :: real where "MS_TO_MPH = MS_TO_KPH * KPH_TO_MPH"
definition MPH_TO_MS :: real where "MPH_TO_MS = MPH_TO_KPH * KPH_TO_MS"

declare DT_CTRL_def [const_defs] DT_MDL_def [const_defs] DT_DMON_def [const_defs]
  MPH_TO_KPH_def [const_defs] KPH_TO_MPH_def [const_defs] MS_TO_KPH_def [const_defs]
  KPH_TO_MS_def [const_defs] MS_TO_MPH_def [const_defs] MPH_TO_MS_def [const_defs]

subsection \<open>Dictionaries\<close>

definition dict_get :: "('k \<rightharpoonup> 'v) \<Rightarrow> 'k \<Rightarrow> 'v \<Rightarrow> 'v" where
  "dict_get m k d = (case m k of None \<Rightarrow> d | Some v \<Rightarrow> v)"

definition dict_setdefault :: "('k \<rightharpoonup> 'v) \<Rightarrow> 'k \<Rightarrow> 'v \<Rightarrow> ('k \<rightharpoonup> 'v)" where
  "dict_setdefault m k d = (case m k of None \<Rightarrow> m(k \<mapsto> d) | Some _ \<Rightarrow> m)"

subsection \<open>The bisect module\<close>

function bisect_left_loop :: "int list \<Rightarrow> int \<Rightarrow> nat \<Rightarrow> nat \<Rightarrow> nat" where
  "bisect_left_loop a x lo hi =
     (if lo < hi then
        (let mid = (lo + hi) div 2
         in if a ! mid < x then bisect_left_loop a x (mid + 1) hi
            else bisect_left_loop a x lo mid)
      else lo)"
  by pat_completeness auto
termination
  by (relation "measure (\<lambda>(a, x, lo, hi). hi - lo)") auto

function bisect_right_loop :: "int list \<Rightarrow> int \<Rightarrow> nat \<Rightarrow> nat \<Rightarrow> nat" where
  "bisect_right_loop a x lo hi =
     (if lo < hi then
        (let mid = (lo + hi) div 2
         in if x < a ! mid then bisect_right_loop a x lo mid
            else bisect_right_loop a x (mid + 1) hi)
      else lo)"
  by pat_completeness auto
termination
  by (relation "measure (\<lambda>(a, x, lo, hi). hi - lo)") auto

declare bisect_left_loop.simps [simp del] bisect_right_loop.simps [simp del]

definition bisect_left :: "int list \<Rightarrow> int \<Rightarrow> nat" where
  "bisect_left a x = bisect_left_loop a x 0 (length a)"

definition bisect_right :: "int list \<Rightarrow> int \<Rightarrow> nat" where
  "bisect_right a x = bisect_right_loop a x 0 (length a)"

definition bisect_insort :: "int list \<Rightarrow> int \<Rightarrow> int list" where
  "bisect_insort a x = (let i = bisect_right a x in take i a @ x # drop i a)"

subsection \<open>Exceptions\<close>

text \<open>
  Code that raises returns the left value of a sum. \<open>bind_result\<close> sequences, \<open>py_index\<close> is a list
  access with a non-negative index; the collection \<open>return_iff\<close> inverts successful runs.
\<close>

datatype py_error = IndexError | ValueError | KeyError | ZeroDivisionError | AssertionError | StructError | OSError | UnboundLocalError
  | EOFError | AttributeError | TypeError

definition bind_result :: "'e + 'a \<Rightarrow> ('a \<Rightarrow> 'e + 'b) \<Rightarrow> 'e + 'b" where
  "bind_result r f = (case r of Inl e \<Rightarrow> Inl e | Inr a \<Rightarrow> f a)"

definition py_index :: "'a list \<Rightarrow> nat \<Rightarrow> py_error + 'a" where
  "py_index xs k = (if k < length xs then Inr (xs ! k) else Inl IndexError)"

named_theorems return_iff \<open>inversion of successful runs\<close>

lemma bind_result_return_iff [return_iff]: "bind_result r f = Inr y \<longleftrightarrow> (\<exists>x. r = Inr x \<and> f x = Inr y)"
  by (cases r) (simp_all add: bind_result_def)

lemma py_index_return_iff [return_iff]: "py_index xs k = Inr y \<longleftrightarrow> k < length xs \<and> y = xs ! k"
  by (auto simp: py_index_def)

lemma bind_result_simps [simp]: "bind_result (Inr x) f = f x" "bind_result (Inl e) f = Inl e"
  by (simp_all add: bind_result_def)

lemma py_index_Inr: "k < length xs \<Longrightarrow> py_index xs k = Inr (xs ! k)"
  by (simp add: py_index_def)

lemma py_index_0: "2 \<le> length xs \<Longrightarrow> py_index xs 0 = Inr (xs ! 0)"
  by (cases xs) (simp_all add: py_index_def)

subsection \<open>Python text\<close>

text \<open>
  \<open>str(n)\<close> for an integer, the format specs \<open>:.0f\<close> and \<open>:.1f\<close> (the exact value rounded,
  ties to even) and \<open>', '.join(xs)\<close>.
\<close>

fun py_str_nat :: "nat \<Rightarrow> string" where
  "py_str_nat n =
     (if n < 10 then [char_of (48 + n)] else py_str_nat (n div 10) @ [char_of (48 + n mod 10)])"

definition py_str_int :: "int \<Rightarrow> string" where
  "py_str_int n = (if n < 0 then ''-'' @ py_str_nat (nat (- n)) else py_str_nat (nat n))"

definition py_fixed0 :: "real \<Rightarrow> string" where
  "py_fixed0 x = (if x < 0 then ''-'' else '''') @ py_str_nat (nat (py_round \<bar>x\<bar>))"

definition py_fixed1 :: "real \<Rightarrow> string" where
  "py_fixed1 x =
     (let k = nat (py_round (10 * \<bar>x\<bar>))
      in (if x < 0 then ''-'' else '''') @ py_str_nat (k div 10) @ ''.'' @ py_str_nat (k mod 10))"

fun py_join :: "string \<Rightarrow> string list \<Rightarrow> string" where
  "py_join sep [] = ''''"
| "py_join sep [x] = x"
| "py_join sep (x # y # ys) = x @ sep @ py_join sep (y # ys)"

declare py_str_nat.simps [simp del]

text \<open>\<open>s.split(sep)\<close> with a separator of one character.\<close>

fun py_split :: "char \<Rightarrow> string \<Rightarrow> string list" where
  "py_split sep [] = [[]]"
| "py_split sep (c # cs) = (if c = sep then [] # py_split sep cs else (c # hd (py_split sep cs)) # tl (py_split sep cs))"

subsection \<open>Runs of frame machines\<close>

text \<open>The state after each input of a list, one call of \<open>step\<close> per input.\<close>

fun frames :: "('s \<Rightarrow> 'i \<Rightarrow> 's) \<Rightarrow> 's \<Rightarrow> 'i list \<Rightarrow> 's" where
  "frames step s [] = s"
| "frames step s (i # is) = frames step (step s i) is"

subsection \<open>Lemmas on numbers\<close>

lemma np_clip_bounds [simp]:
  "lo \<le> hi \<Longrightarrow> lo \<le> np_clip x lo hi" "np_clip x lo hi \<le> hi"
  by (auto simp: np_clip_def)

lemma np_clip_id: "lo \<le> x \<Longrightarrow> x \<le> hi \<Longrightarrow> np_clip x lo hi = x"
  by (auto simp: np_clip_def)

lemma py_int_of_int [simp]: "py_int (of_int n) = n"
  by (simp add: py_int_def)

lemma py_int_numeral [simp]: "py_int (numeral n) = numeral n" "py_int 0 = 0" "py_int 1 = 1"
  by (simp_all add: py_int_def)

lemma py_round_of_int [simp]: "py_round (of_int n) = n"
  by (simp add: py_round_def)

lemma py_round_lower: "x - 1/2 \<le> of_int (py_round x)"
  unfolding py_round_def Let_def by (auto; linarith)

lemma py_round_upper: "of_int (py_round x) \<le> x + 1/2"
  unfolding py_round_def Let_def by (auto; linarith)

lemma py_round_mono_int:
  assumes "of_int n \<le> x"
  shows "n \<le> py_round x"
proof -
  have "n \<le> \<lfloor>x\<rfloor>" using assms by linarith
  then show ?thesis by (auto simp: py_round_def Let_def)
qed

lemma py_round_mono_int2:
  assumes "x \<le> of_int n"
  shows "py_round x \<le> n"
proof (cases "x = of_int n")
  case False
  with assms have "\<lfloor>x\<rfloor> + 1 \<le> n" by linarith
  then show ?thesis by (auto simp: py_round_def Let_def)
qed simp

subsection \<open>Lemmas on dictionaries\<close>

lemma dict_get_upd [simp]: "dict_get (m(k \<mapsto> v)) k' d = (if k' = k then v else dict_get m k' d)"
  by (simp add: dict_get_def)

lemma dict_get_del [simp]: "dict_get (m(k := None)) k' d = (if k' = k then d else dict_get m k' d)"
  by (simp add: dict_get_def)

lemma dom_setdefault [simp]: "dom (dict_setdefault m k d) = insert k (dom m)"
  by (auto simp: dict_setdefault_def split: option.splits)

lemma dict_get_setdefault: "dict_get (dict_setdefault m k d) k' d = dict_get m k' d"
  by (auto simp: dict_setdefault_def dict_get_def split: option.splits)

subsection \<open>Correctness of the binary searches\<close>

lemma bisect_left_loop_bounds:
  "lo \<le> hi \<Longrightarrow> lo \<le> bisect_left_loop a x lo hi \<and> bisect_left_loop a x lo hi \<le> hi"
proof (induction a x lo hi rule: bisect_left_loop.induct)
  case (1 a x lo hi)
  show ?case
  proof (cases "lo < hi")
    case True
    let ?mid = "(lo + hi) div 2"
    have mid: "lo \<le> ?mid" "?mid < hi" using True by auto
    show ?thesis
    proof (cases "a ! ?mid < x")
      case less: True
      with "1.IH"(1) [OF True refl less] mid True show ?thesis
        by (subst (1 2) bisect_left_loop.simps) (auto simp: Let_def)
    next
      case False
      with "1.IH"(2) [OF True refl False] mid True show ?thesis
        by (subst (1 2) bisect_left_loop.simps) (auto simp: Let_def)
    qed
  next
    case False
    with "1.prems" show ?thesis by (subst (1 2) bisect_left_loop.simps) simp
  qed
qed

text \<open>
  Partition property: with everything left of \<open>lo\<close> below \<open>x\<close> and everything from \<open>hi\<close> on at
  least \<open>x\<close>, the loop returns the boundary.
\<close>

lemma bisect_left_loop_partition:
  assumes "sorted a" "lo \<le> hi" "hi \<le> length a"
    and "\<And>i. i < lo \<Longrightarrow> a ! i < x" and "\<And>i. hi \<le> i \<Longrightarrow> i < length a \<Longrightarrow> x \<le> a ! i"
  shows "(\<forall>i < bisect_left_loop a x lo hi. a ! i < x) \<and>
         (\<forall>i. bisect_left_loop a x lo hi \<le> i \<longrightarrow> i < length a \<longrightarrow> x \<le> a ! i)"
  using assms
proof (induction a x lo hi rule: bisect_left_loop.induct)
  case (1 a x lo hi)
  show ?case
  proof (cases "lo < hi")
    case True
    let ?mid = "(lo + hi) div 2"
    have mid: "lo \<le> ?mid" "?mid < hi" "?mid < length a" using True "1.prems" by auto
    show ?thesis
    proof (cases "a ! ?mid < x")
      case less: True
      have below: "a ! i < x" if "i < ?mid + 1" for i
        using sorted_nth_mono [OF "1.prems"(1), of i ?mid] that mid less by simp
      from "1.IH"(1) [OF True refl less "1.prems"(1) _ "1.prems"(3) below "1.prems"(5)] mid
      show ?thesis using less True by (subst (1 2) bisect_left_loop.simps) (simp add: Let_def)
    next
      case ge: False
      have above: "x \<le> a ! i" if "?mid \<le> i" "i < length a" for i
        using sorted_nth_mono [OF "1.prems"(1), of ?mid i] that ge by simp
      from "1.IH"(2) [OF True refl ge "1.prems"(1) _ _ "1.prems"(4) above] mid
      show ?thesis using ge True by (subst (1 2) bisect_left_loop.simps) (simp add: Let_def)
    qed
  next
    case False
    with "1.prems" have "lo = hi" by simp
    with "1.prems" False show ?thesis by (subst (1 2) bisect_left_loop.simps) simp
  qed
qed

lemma bisect_right_loop_bounds:
  "lo \<le> hi \<Longrightarrow> lo \<le> bisect_right_loop a x lo hi \<and> bisect_right_loop a x lo hi \<le> hi"
proof (induction a x lo hi rule: bisect_right_loop.induct)
  case (1 a x lo hi)
  show ?case
  proof (cases "lo < hi")
    case True
    let ?mid = "(lo + hi) div 2"
    have mid: "lo \<le> ?mid" "?mid < hi" using True by auto
    show ?thesis
    proof (cases "x < a ! ?mid")
      case less: True
      with "1.IH"(1) [OF True refl less] mid True show ?thesis
        by (subst (1 2) bisect_right_loop.simps) (auto simp: Let_def)
    next
      case False
      with "1.IH"(2) [OF True refl False] mid True show ?thesis
        by (subst (1 2) bisect_right_loop.simps) (auto simp: Let_def)
    qed
  next
    case False
    with "1.prems" show ?thesis by (subst (1 2) bisect_right_loop.simps) simp
  qed
qed

lemma bisect_right_loop_partition:
  assumes "sorted a" "lo \<le> hi" "hi \<le> length a"
    and "\<And>i. i < lo \<Longrightarrow> a ! i \<le> x" and "\<And>i. hi \<le> i \<Longrightarrow> i < length a \<Longrightarrow> x < a ! i"
  shows "(\<forall>i < bisect_right_loop a x lo hi. a ! i \<le> x) \<and>
         (\<forall>i. bisect_right_loop a x lo hi \<le> i \<longrightarrow> i < length a \<longrightarrow> x < a ! i)"
  using assms
proof (induction a x lo hi rule: bisect_right_loop.induct)
  case (1 a x lo hi)
  show ?case
  proof (cases "lo < hi")
    case True
    let ?mid = "(lo + hi) div 2"
    have mid: "lo \<le> ?mid" "?mid < hi" "?mid < length a" using True "1.prems" by auto
    show ?thesis
    proof (cases "x < a ! ?mid")
      case less: True
      have above: "x < a ! i" if "?mid \<le> i" "i < length a" for i
        using sorted_nth_mono [OF "1.prems"(1), of ?mid i] that less by simp
      from "1.IH"(1) [OF True refl less "1.prems"(1) _ _ "1.prems"(4) above] mid
      show ?thesis using less True by (subst (1 2) bisect_right_loop.simps) (simp add: Let_def)
    next
      case ge: False
      have below: "a ! i \<le> x" if "i < ?mid + 1" for i
        using sorted_nth_mono [OF "1.prems"(1), of i ?mid] that mid ge by simp
      from "1.IH"(2) [OF True refl ge "1.prems"(1) _ "1.prems"(3) below "1.prems"(5)] mid
      show ?thesis using ge True by (subst (1 2) bisect_right_loop.simps) (simp add: Let_def)
    qed
  next
    case False
    with "1.prems" have "lo = hi" by simp
    with "1.prems" False show ?thesis by (subst (1 2) bisect_right_loop.simps) simp
  qed
qed

lemma bisect_left_partition:
  assumes "sorted a"
  shows "bisect_left a x \<le> length a"
    and "i < bisect_left a x \<Longrightarrow> a ! i < x"
    and "bisect_left a x \<le> i \<Longrightarrow> i < length a \<Longrightarrow> x \<le> a ! i"
  using bisect_left_loop_partition [OF assms, of 0 "length a" x]
    bisect_left_loop_bounds [of 0 "length a" a x]
  by (auto simp: bisect_left_def)

lemma bisect_right_partition:
  assumes "sorted a"
  shows "bisect_right a x \<le> length a"
    and "i < bisect_right a x \<Longrightarrow> a ! i \<le> x"
    and "bisect_right a x \<le> i \<Longrightarrow> i < length a \<Longrightarrow> x < a ! i"
  using bisect_right_loop_partition [OF assms, of 0 "length a" x]
    bisect_right_loop_bounds [of 0 "length a" a x]
  by (auto simp: bisect_right_def)

text \<open>On a sorted list, \<open>bisect.insort\<close> is insertion into a sorted list.\<close>

lemma bisect_insort_eq:
  assumes "sorted a"
  shows "bisect_insort a x = insort x a"
proof (rule properties_for_sort [symmetric, THEN trans, rotated 2])
  let ?i = "bisect_right a x"
  note part = bisect_right_partition [OF assms, where x = x]
  have "mset (take ?i a) + mset (drop ?i a) = mset a"
    by (metis append_take_drop_id mset_append)
  then show "mset (bisect_insort a x) = mset (x # a)"
    by (simp add: bisect_insort_def Let_def)
  have "sorted (take ?i a)" "sorted (drop ?i a)"
    using assms by (simp_all add: sorted_wrt_take sorted_wrt_drop)
  moreover have "\<forall>y \<in> set (take ?i a). y \<le> x"
    using part(1,2) by (auto simp: in_set_conv_nth)
  moreover have "\<forall>y \<in> set (drop ?i a). x \<le> y"
    using part(1) by (auto simp: in_set_conv_nth intro!: part(3) [THEN less_imp_le])
  ultimately show "sorted (bisect_insort a x)"
    by (force simp: bisect_insort_def Let_def sorted_append)
  show "sort (x # a) = insort x a" using assms by (simp add: sorted_sort_id)
qed

subsection \<open>Lemmas on runs\<close>

lemma frames_append [simp]: "frames step s (xs @ ys) = frames step (frames step s xs) ys"
  by (induction xs arbitrary: s) simp_all

text \<open>
  A frame machine with an invariant: what one frame keeps, every run keeps. Components
  interpret this locale on their own step function and invariant.
\<close>

locale frame_machine =
  fixes step :: "'s \<Rightarrow> 'i \<Rightarrow> 's"
    and ok :: "'i \<Rightarrow> bool"
    and inv :: "'s \<Rightarrow> bool"
  assumes step_inv: "inv s \<Longrightarrow> ok i \<Longrightarrow> inv (step s i)"
begin

lemma run_inv: "inv s \<Longrightarrow> \<forall>i \<in> set is. ok i \<Longrightarrow> inv (frames step s is)"
  by (induction "is" arbitrary: s) (simp_all add: step_inv)

end

text \<open>
  A frame machine in which every accepted input also uses up one unit of a rank: a run of
  \<open>n\<close> accepted inputs leaves at most \<open>rank s - n\<close>. This is how the development proves that a
  timer or a countdown of the program runs out.
\<close>

locale ranked_machine = frame_machine +
  fixes rank :: "'a \<Rightarrow> nat"
  assumes rank_step: "inv s \<Longrightarrow> ok i \<Longrightarrow> rank (step s i) \<le> rank s - 1"
begin

lemma run_rank: "inv s \<Longrightarrow> \<forall>i \<in> set is. ok i \<Longrightarrow> rank (frames step s is) \<le> rank s - length is"
proof (induction "is" arbitrary: s)
  case (Cons i "is")
  then have "rank (frames step (step s i) is) \<le> rank (step s i) - length is"
    by (simp add: step_inv)
  with rank_step [of s i] Cons.prems show ?case by simp
qed simp

lemma run_exhausted:
  "inv s \<Longrightarrow> \<forall>i \<in> set is. ok i \<Longrightarrow> rank s \<le> length is \<Longrightarrow> rank (frames step s is) = 0"
  using run_rank [of s "is"] by simp

end

end
