(* ===== verification/Events_Base.thy ===== *)
theory Events_Base
  imports Prelude
begin

text \<open>
  The event store of \<open>sunnypilot/selfdrive/selfdrived/events_base.py\<close>: event types, alerts and
  the class \<open>EventsBase\<close> with its sorted event lists and its counting caches.

  The store keeps every event twice: as a sorted list and as two dictionaries of counters, one by
  event name and one by event type, from which \<open>has\<close> and \<open>contains\<close> answer. \<open>ev_wf\<close> states that
  the dictionaries count exactly the lists; the refinement lemmas show that under it every
  operation acts on the bag of events (\<open>ev_bag\<close>) as its specification, the locale
  \<open>event_store\<close>, says. The locale \<open>event_mapping\<close> is the interface to an event table: a
  mapping whose entries have distinct event types.
\<close>

subsection \<open>Event types, priorities, alerts\<close>

datatype et =
    ET_ENABLE | ET_PRE_ENABLE | ET_OVERRIDE_LATERAL | ET_OVERRIDE_LONGITUDINAL | ET_NO_ENTRY
  | ET_WARNING | ET_USER_DISABLE | ET_SOFT_DISABLE | ET_IMMEDIATE_DISABLE | ET_PERMANENT

fun et_str :: "et \<Rightarrow> string" where
  "et_str ET_ENABLE = ''enable''"
| "et_str ET_PRE_ENABLE = ''preEnable''"
| "et_str ET_OVERRIDE_LATERAL = ''overrideLateral''"
| "et_str ET_OVERRIDE_LONGITUDINAL = ''overrideLongitudinal''"
| "et_str ET_NO_ENTRY = ''noEntry''"
| "et_str ET_WARNING = ''warning''"
| "et_str ET_USER_DISABLE = ''userDisable''"
| "et_str ET_SOFT_DISABLE = ''softDisable''"
| "et_str ET_IMMEDIATE_DISABLE = ''immediateDisable''"
| "et_str ET_PERMANENT = ''permanent''"

datatype priority = P_LOWEST | P_LOWER | P_LOW | P_MID | P_HIGH | P_HIGHEST

fun priority_val :: "priority \<Rightarrow> nat" where
  "priority_val P_LOWEST = 0"
| "priority_val P_LOWER = 1"
| "priority_val P_LOW = 2"
| "priority_val P_MID = 3"
| "priority_val P_HIGH = 4"
| "priority_val P_HIGHEST = 5"

lemma priority_val_inj: "priority_val p = priority_val q \<Longrightarrow> p = q"
  by (cases p; cases q) auto

instantiation priority :: linorder
begin

definition less_eq_priority :: "priority \<Rightarrow> priority \<Rightarrow> bool" where
  "less_eq_priority p q \<longleftrightarrow> priority_val p \<le> priority_val q"

definition less_priority :: "priority \<Rightarrow> priority \<Rightarrow> bool" where
  "less_priority p q \<longleftrightarrow> priority_val p < priority_val q"

instance
  by standard (auto simp: less_eq_priority_def less_priority_def intro: priority_val_inj)

end

datatype alert_status = AS_normal | AS_userPrompt | AS_critical
datatype alert_size = SZ_none | SZ_small | SZ_mid | SZ_full
datatype visual_alert = VA_none | VA_fcw | VA_steerRequired | VA_brakePressed | VA_ldw
datatype audible_alert =
    AA_none | AA_engage | AA_disengage | AA_refuse | AA_warningSoft | AA_warningImmediate
  | AA_prompt | AA_promptRepeat | AA_promptDistracted | AA_preAlert
  | AA_promptSingleLow | AA_promptSingleHigh

record alert =
  alert_text_1 :: string
  alert_text_2 :: string
  al_status :: alert_status
  al_size :: alert_size
  al_priority :: priority
  al_visual :: visual_alert
  al_audible :: audible_alert
  al_duration :: int
  al_creation_delay :: real
  al_type :: string
  al_event_type :: "et option"

definition Alert ::
  "string \<Rightarrow> string \<Rightarrow> alert_status \<Rightarrow> alert_size \<Rightarrow> priority \<Rightarrow> visual_alert \<Rightarrow> audible_alert
    \<Rightarrow> real \<Rightarrow> real \<Rightarrow> alert" where
  "Alert text_1 text_2 status sz prio visual audible duration creation_delay =
     \<lparr>alert_text_1 = text_1, alert_text_2 = text_2, al_status = status, al_size = sz,
      al_priority = prio, al_visual = visual, al_audible = audible,
      al_duration = py_int (duration / DT_CTRL), al_creation_delay = creation_delay,
      al_type = '''', al_event_type = None\<rparr>"

definition alert_gt :: "alert \<Rightarrow> alert \<Rightarrow> bool" where
  "alert_gt a b \<longleftrightarrow> al_priority b < al_priority a"

text \<open>A table entry is an alert object or a callback on the callback arguments.\<close>

datatype 'c alert_entry = StaticAlert alert | AlertCallback "'c \<Rightarrow> alert"

type_synonym 'c events_mapping = "int \<rightharpoonup> (et \<times> 'c alert_entry) list"

definition EmptyAlert :: alert where
  "EmptyAlert = Alert '''' '''' AS_normal SZ_none P_LOWEST VA_none AA_none 0 0"

text \<open>The alert classes. \<open>mici\<close> is \<open>HARDWARE.get_device_type() == 'mici'\<close>.\<close>

definition NoEntryAlert :: "bool \<Rightarrow> string \<Rightarrow> string \<Rightarrow> visual_alert \<Rightarrow> priority \<Rightarrow> alert" where
  "NoEntryAlert mici text_2 text_1 visual prio =
     (let (t1, t2) = (if mici then (text_2, text_1) else (text_1, text_2))
      in Alert t1 t2 AS_normal SZ_mid prio visual AA_refuse 3 0)"

definition SoftDisableAlert :: "string \<Rightarrow> alert" where
  "SoftDisableAlert text_2 =
     Alert ''TAKE CONTROL IMMEDIATELY'' text_2 AS_userPrompt SZ_full P_MID VA_steerRequired
       AA_warningSoft 2 0"

definition UserSoftDisableAlert :: "string \<Rightarrow> alert" where
  "UserSoftDisableAlert text_2 =
     (SoftDisableAlert text_2)\<lparr>alert_text_1 := ''openpilot will disengage''\<rparr>"

definition ImmediateDisableAlert :: "string \<Rightarrow> alert" where
  "ImmediateDisableAlert text_2 =
     Alert ''TAKE CONTROL IMMEDIATELY'' text_2 AS_critical SZ_full P_HIGHEST VA_steerRequired
       AA_warningImmediate 4 0"

definition EngagementAlert :: "audible_alert \<Rightarrow> alert" where
  "EngagementAlert audible =
     Alert '''' '''' AS_normal SZ_none P_MID VA_none audible (2 / 10) 0"

definition NormalPermanentAlert :: "string \<Rightarrow> string \<Rightarrow> real \<Rightarrow> priority \<Rightarrow> real \<Rightarrow> alert" where
  "NormalPermanentAlert text_1 text_2 duration prio creation_delay =
     Alert text_1 text_2 AS_normal (if text_2 \<noteq> [] then SZ_mid else SZ_small) prio VA_none
       AA_none duration creation_delay"

definition startup_default_text :: string where
  "startup_default_text = ''Always keep hands on wheel and eyes on road''"

definition StartupAlert :: "bool \<Rightarrow> string \<Rightarrow> string \<Rightarrow> alert_status \<Rightarrow> alert" where
  "StartupAlert mici text_1 text_2 status =
     (let (t2, sz) =
        (if mici then (if text_2 = startup_default_text then '''' else text_2, SZ_small)
         else (text_2, SZ_mid))
      in Alert text_1 t2 status sz P_LOWER VA_none AA_none 5 0)"

subsection \<open>The state of EventsBase\<close>

text \<open>
  Keys that the code looks up in the type counters: an event type (a string in Python) or, where
  a caller passes an event name, an integer, which the type counters never hold.
\<close>

datatype pykey = KType et | KName int

record events_base =
  eb_events :: "int list"
  eb_static_events :: "int list"
  eb_event_counters :: "int \<rightharpoonup> int"
  eb_event_counts :: "int \<rightharpoonup> int"
  eb_static_event_counts :: "int \<rightharpoonup> int"
  eb_event_type_counts :: "pykey \<rightharpoonup> int"
  eb_static_event_type_counts :: "pykey \<rightharpoonup> int"

text \<open>The constructor; subclasses pass the keys of their table for the event counters.\<close>

definition events_init :: "int list \<Rightarrow> events_base" where
  "events_init ks =
     \<lparr>eb_events = [], eb_static_events = [],
      eb_event_counters = (\<lambda>k. if k \<in> set ks then Some 0 else None),
      eb_event_counts = Map.empty, eb_static_event_counts = Map.empty,
      eb_event_type_counts = Map.empty, eb_static_event_type_counts = Map.empty\<rparr>"

definition types_of :: "'c events_mapping \<Rightarrow> int \<Rightarrow> et list" where
  "types_of M e = map fst (dict_get M e [])"

definition remove_sorted :: "int list \<Rightarrow> int \<Rightarrow> int list \<times> bool" where
  "remove_sorted items e =
     (let idx = bisect_left items e
      in if idx < length items \<and> items ! idx = e
         then (take idx items @ drop (Suc idx) items, True) else (items, False))"

definition adjust_count :: "('k \<rightharpoonup> int) \<Rightarrow> 'k \<Rightarrow> int \<Rightarrow> ('k \<rightharpoonup> int)" where
  "adjust_count counts k delta =
     (let c = dict_get counts k 0 + delta
      in if c > 0 then counts(k \<mapsto> c) else counts(k := None))"

definition adjust_cache ::
  "(int \<rightharpoonup> int) \<Rightarrow> (pykey \<rightharpoonup> int) \<Rightarrow> int \<Rightarrow> int \<Rightarrow> et list \<Rightarrow> (int \<rightharpoonup> int) \<times> (pykey \<rightharpoonup> int)" where
  "adjust_cache counts type_counts e delta event_types =
     (adjust_count counts e delta,
      fold (\<lambda>t tc. adjust_count tc (KType t) delta) event_types type_counts)"

definition ev_insert :: "'c events_mapping \<Rightarrow> events_base \<Rightarrow> int \<Rightarrow> events_base" where
  "ev_insert M s e =
     (let (c, tc) = adjust_cache (eb_event_counts s) (eb_event_type_counts s) e 1 (types_of M e)
      in s\<lparr>eb_events := bisect_insort (eb_events s) e, eb_event_counts := c,
           eb_event_type_counts := tc\<rparr>)"

definition ev_insert_static :: "'c events_mapping \<Rightarrow> events_base \<Rightarrow> int \<Rightarrow> events_base" where
  "ev_insert_static M s e =
     (let (c, tc) = adjust_cache (eb_static_event_counts s) (eb_static_event_type_counts s)
                      e 1 (types_of M e)
      in s\<lparr>eb_static_events := bisect_insort (eb_static_events s) e,
           eb_static_event_counts := c, eb_static_event_type_counts := tc\<rparr>)"

definition ev_add :: "'c events_mapping \<Rightarrow> bool \<Rightarrow> events_base \<Rightarrow> int \<Rightarrow> events_base" where
  "ev_add M static s e =
     (let s1 = s\<lparr>eb_event_counters := dict_setdefault (eb_event_counters s) e 0\<rparr>;
          s2 = (if static then ev_insert_static M s1 e else s1)
      in ev_insert M s2 e)"

definition ev_clear :: "events_base \<Rightarrow> events_base" where
  "ev_clear s =
     (let counts = eb_event_counts s;
          cs = (\<lambda>k. case eb_event_counters s k of
                      None \<Rightarrow> if counts k \<noteq> None then Some 0 else None
                    | Some v \<Rightarrow> Some v)
      in s\<lparr>eb_event_counters :=
             (\<lambda>k. map_option (\<lambda>v. if dict_get counts k 0 \<noteq> 0 then v + 1 else 0) (cs k)),
           eb_events := eb_static_events s,
           eb_event_counts := eb_static_event_counts s,
           eb_event_type_counts := eb_static_event_type_counts s\<rparr>)"

definition ev_contains_key :: "events_base \<Rightarrow> pykey \<Rightarrow> bool" where
  "ev_contains_key s k \<longleftrightarrow> dict_get (eb_event_type_counts s) k 0 > 0"

abbreviation ev_contains :: "events_base \<Rightarrow> et \<Rightarrow> bool" where
  "ev_contains s t \<equiv> ev_contains_key s (KType t)"

definition ev_has :: "events_base \<Rightarrow> int \<Rightarrow> bool" where
  "ev_has s e \<longleftrightarrow> dict_get (eb_event_counts s) e 0 > 0"

definition ev_contains_in_list :: "events_base \<Rightarrow> int list \<Rightarrow> bool" where
  "ev_contains_in_list s es \<longleftrightarrow> list_ex (\<lambda>e. dict_get (eb_event_counts s) e 0 > 0) es"

definition ev_remove :: "'c events_mapping \<Rightarrow> bool \<Rightarrow> events_base \<Rightarrow> int \<Rightarrow> events_base" where
  "ev_remove M static s e =
     (let ts = types_of M e;
          s1 = (if static then
                  (let (l, found) = remove_sorted (eb_static_events s) e
                   in if found then
                        (let (c, tc) = adjust_cache (eb_static_event_counts s)
                                         (eb_static_event_type_counts s) e (-1) ts
                         in s\<lparr>eb_static_events := l, eb_static_event_counts := c,
                              eb_static_event_type_counts := tc\<rparr>)
                      else s)
                else s);
          (l, found) = remove_sorted (eb_events s1) e
      in if found then
           (let (c, tc) = adjust_cache (eb_event_counts s1) (eb_event_type_counts s1) e (-1) ts
            in s1\<lparr>eb_events := l,
                 eb_event_counters :=
                   (eb_event_counters s1)(e \<mapsto> dict_get (eb_event_counters s1) e 0 + 1),
                 eb_event_counts := c, eb_event_type_counts := tc\<rparr>)
         else s1)"

subsection \<open>Messages and alerts\<close>

text \<open>A message is one event name with the type flags that are set on it.\<close>

type_synonym event_msg = "int \<times> et list"

definition ev_to_msg :: "'c events_mapping \<Rightarrow> events_base \<Rightarrow> event_msg list" where
  "ev_to_msg M s = map (\<lambda>e. (e, types_of M e)) (eb_events s)"

definition ev_add_msg :: "'c events_mapping \<Rightarrow> events_base \<Rightarrow> event_msg \<Rightarrow> events_base" where
  "ev_add_msg M s m =
     ev_insert M (s\<lparr>eb_event_counters := dict_setdefault (eb_event_counters s) (fst m) 0\<rparr>) (fst m)"

definition ev_add_from_msg :: "'c events_mapping \<Rightarrow> events_base \<Rightarrow> event_msg list \<Rightarrow> events_base" where
  "ev_add_from_msg M s ms = fold (\<lambda>m s. ev_add_msg M s m) ms s"

fun entry_alert :: "'c alert_entry \<Rightarrow> 'c \<Rightarrow> alert" where
  "entry_alert (StaticAlert a) args = a"
| "entry_alert (AlertCallback f) args = f args"

fun create_event_alerts ::
  "string option \<Rightarrow> int \<Rightarrow> (et \<times> 'c alert_entry) list \<Rightarrow> 'c \<Rightarrow> et list \<Rightarrow> py_error + alert list" where
  "create_event_alerts name cnt alerts args [] = Inr []"
| "create_event_alerts name cnt alerts args (t # ts) =
     (case map_of alerts t of
        None \<Rightarrow> create_event_alerts name cnt alerts args ts
      | Some entry \<Rightarrow>
          (let a = entry_alert entry args
           in if DT_CTRL * (of_int cnt + 1) \<ge> al_creation_delay a then
                (case name of
                   None \<Rightarrow> Inl KeyError
                 | Some nm \<Rightarrow>
                     (case create_event_alerts name cnt alerts args ts of
                        Inl err \<Rightarrow> Inl err
                      | Inr rest \<Rightarrow>
                          Inr (a\<lparr>al_type := nm @ ''/'' @ et_str t, al_event_type := Some t\<rparr> # rest)))
              else create_event_alerts name cnt alerts args ts))"

fun create_alerts_loop ::
  "'c events_mapping \<Rightarrow> (int \<rightharpoonup> string) \<Rightarrow> (int \<rightharpoonup> int) \<Rightarrow> et list \<Rightarrow> 'c \<Rightarrow> int list
    \<Rightarrow> py_error + alert list" where
  "create_alerts_loop M names counters ts args [] = Inr []"
| "create_alerts_loop M names counters ts args (e # es) =
     (case M e of
        None \<Rightarrow> Inl KeyError
      | Some alerts \<Rightarrow>
          (case create_event_alerts (names e) (dict_get counters e 0) alerts args ts of
             Inl err \<Rightarrow> Inl err
           | Inr xs \<Rightarrow>
               (case create_alerts_loop M names counters ts args es of
                  Inl err \<Rightarrow> Inl err
                | Inr ys \<Rightarrow> Inr (xs @ ys))))"

definition create_alerts ::
  "'c events_mapping \<Rightarrow> (int \<rightharpoonup> string) \<Rightarrow> events_base \<Rightarrow> et list \<Rightarrow> 'c \<Rightarrow> py_error + alert list" where
  "create_alerts M names s ts args =
     create_alerts_loop M names (eb_event_counters s) ts args (eb_events s)"

subsection \<open>The specification: a bag of events\<close>

definition ev_bag :: "events_base \<Rightarrow> int multiset" where
  "ev_bag s = mset (eb_events s)"

definition ev_static_bag :: "events_base \<Rightarrow> int multiset" where
  "ev_static_bag s = mset (eb_static_events s)"

text \<open>The number of events of a bag that carry an event type.\<close>

definition type_count :: "'c events_mapping \<Rightarrow> int multiset \<Rightarrow> pykey \<Rightarrow> int" where
  "type_count M b k =
     (case k of KName _ \<Rightarrow> 0
      | KType t \<Rightarrow> int (size (filter_mset (\<lambda>e. t \<in> set (types_of M e)) b)))"

definition name_count :: "int multiset \<Rightarrow> int \<Rightarrow> int" where
  "name_count b e = int (count b e)"

text \<open>A counting dictionary holds exactly the positive counts.\<close>

definition cache_of :: "('k \<Rightarrow> int) \<Rightarrow> ('k \<rightharpoonup> int)" where
  "cache_of f = (\<lambda>k. if f k > 0 then Some (f k) else None)"

definition ev_wf :: "'c events_mapping \<Rightarrow> events_base \<Rightarrow> bool" where
  "ev_wf M s \<longleftrightarrow>
     sorted (eb_events s) \<and> sorted (eb_static_events s) \<and>
     eb_event_counts s = cache_of (name_count (ev_bag s)) \<and>
     eb_event_type_counts s = cache_of (type_count M (ev_bag s)) \<and>
     eb_static_event_counts s = cache_of (name_count (ev_static_bag s)) \<and>
     eb_static_event_type_counts s = cache_of (type_count M (ev_static_bag s))"

subsection \<open>The caches count the lists\<close>

lemma type_count_nonneg [simp]: "0 \<le> type_count M b k"
  by (simp add: type_count_def split: pykey.split)

lemma name_count_nonneg [simp]: "0 \<le> name_count b e"
  by (simp add: name_count_def)

lemma dict_get_cache_of: "0 \<le> f k \<Longrightarrow> dict_get (cache_of f) k 0 = f k"
  by (simp add: cache_of_def dict_get_def)

lemma adjust_count_cache:
  "0 \<le> f k \<Longrightarrow> adjust_count (cache_of f) k d = cache_of (f(k := f k + d))"
  by (auto simp: adjust_count_def dict_get_cache_of Let_def fun_eq_iff)
    (auto simp: cache_of_def)

lemma adjust_types_cache:
  assumes "distinct ts" "\<And>t. t \<in> set ts \<Longrightarrow> 0 \<le> f (KType t)"
  shows "fold (\<lambda>t tc. adjust_count tc (KType t) d) ts (cache_of f) =
         cache_of (\<lambda>k. f k + (if k \<in> KType ` set ts then d else 0))"
  using assms
proof (induction ts arbitrary: f)
  case (Cons t ts)
  let ?g = "f(KType t := f (KType t) + d)"
  have g: "0 \<le> ?g (KType u)" if "u \<in> set ts" for u
    using Cons.prems that by auto
  have "fold (\<lambda>t tc. adjust_count tc (KType t) d) (t # ts) (cache_of f) =
        fold (\<lambda>t tc. adjust_count tc (KType t) d) ts (cache_of ?g)"
    using Cons.prems(2) by (simp add: adjust_count_cache)
  also have "\<dots> = cache_of (\<lambda>k. ?g k + (if k \<in> KType ` set ts then d else 0))"
    using Cons.prems(1) g by (intro Cons.IH) auto
  also have "(\<lambda>k. ?g k + (if k \<in> KType ` set ts then d else 0)) =
             (\<lambda>k. f k + (if k \<in> KType ` set (t # ts) then d else 0))"
    using Cons.prems(1) by (auto simp: fun_eq_iff)
  finally show ?case .
qed simp

lemma type_count_add_mset:
  "type_count M (add_mset e b) =
   (\<lambda>k. type_count M b k + (if k \<in> KType ` set (types_of M e) then 1 else 0))"
  by (auto simp: type_count_def fun_eq_iff split: pykey.splits)

lemma type_count_remove:
  assumes "e \<in># b"
  shows "type_count M (b - {#e#}) =
         (\<lambda>k. type_count M b k + (if k \<in> KType ` set (types_of M e) then - 1 else 0))"
proof -
  obtain c where "b = add_mset e c" using assms by (metis insert_DiffM)
  then show ?thesis by (simp add: type_count_add_mset fun_eq_iff)
qed

lemma name_count_add_mset:
  "name_count (add_mset e b) = (name_count b)(e := name_count b e + 1)"
  by (auto simp: name_count_def fun_eq_iff)

lemma name_count_remove:
  "e \<in># b \<Longrightarrow> name_count (b - {#e#}) = (name_count b)(e := name_count b e + - 1)"
  by (auto simp: name_count_def fun_eq_iff of_nat_diff Suc_leI count_greater_zero_iff)

lemma adjust_cache_add:
  assumes "distinct (types_of M e)"
  shows "adjust_cache (cache_of (name_count b)) (cache_of (type_count M b)) e 1 (types_of M e) =
         (cache_of (name_count (add_mset e b)), cache_of (type_count M (add_mset e b)))"
  using assms
  by (simp add: adjust_cache_def adjust_count_cache adjust_types_cache
      name_count_add_mset type_count_add_mset)

lemma adjust_cache_remove:
  assumes "distinct (types_of M e)" "e \<in># b"
  shows "adjust_cache (cache_of (name_count b)) (cache_of (type_count M b)) e (-1) (types_of M e) =
         (cache_of (name_count (b - {#e#})), cache_of (type_count M (b - {#e#})))"
  using assms
  by (simp add: adjust_cache_def adjust_count_cache adjust_types_cache
      name_count_remove type_count_remove)

subsection \<open>Removal by binary search\<close>

lemma bisect_left_found:
  assumes "sorted a"
  shows "(bisect_left a x < length a \<and> a ! bisect_left a x = x) \<longleftrightarrow> x \<in> set a"
proof
  assume "x \<in> set a"
  then obtain i where i: "i < length a" "a ! i = x" by (auto simp: in_set_conv_nth)
  note part = bisect_left_partition [OF assms, where x = x]
  have le: "bisect_left a x \<le> i" using part(2) [of i] i by (metis leI less_irrefl)
  then have "x \<le> a ! bisect_left a x" using part(3) i(1) by simp
  moreover have "a ! bisect_left a x \<le> x"
    using sorted_nth_mono [OF assms le] i by simp
  ultimately show "bisect_left a x < length a \<and> a ! bisect_left a x = x"
    using le i(1) by simp
qed (metis nth_mem)

lemma remove_sorted_found:
  "sorted a \<Longrightarrow> snd (remove_sorted a e) \<longleftrightarrow> e \<in> set a"
  using bisect_left_found [of a e] by (auto simp: remove_sorted_def Let_def)

lemma mset_remove_sorted:
  assumes "sorted a"
  shows "mset (fst (remove_sorted a e)) = mset a - {#e#}"
proof (cases "e \<in> set a")
  case True
  let ?i = "bisect_left a e"
  have i: "?i < length a" "a ! ?i = e" using bisect_left_found [OF assms, of e] True by auto
  have "mset a = mset (take ?i a) + mset (drop ?i a)"
    by (metis append_take_drop_id mset_append)
  also have "drop ?i a = e # drop (Suc ?i) a" using i by (metis Cons_nth_drop_Suc)
  finally show ?thesis using i by (simp add: remove_sorted_def Let_def)
next
  case False
  then have "fst (remove_sorted a e) = a"
    using bisect_left_found [OF assms, of e] by (auto simp: remove_sorted_def Let_def)
  with False show ?thesis by (simp add: diff_single_trivial)
qed

lemma sorted_remove_sorted:
  assumes "sorted a"
  shows "sorted (fst (remove_sorted a e))"
proof (cases "snd (remove_sorted a e)")
  case True
  let ?i = "bisect_left a e"
  have eq: "fst (remove_sorted a e) = take ?i a @ drop (Suc ?i) a"
    using True by (auto simp: remove_sorted_def Let_def split: if_splits)
  have "x \<le> y" if "x \<in> set (take ?i a)" "y \<in> set (drop (Suc ?i) a)" for x y
  proof -
    have "sorted (take (Suc ?i) a @ drop (Suc ?i) a)" using assms by simp
    moreover have "x \<in> set (take (Suc ?i) a)"
      using that(1) set_take_subset_set_take [of ?i "Suc ?i" a] by auto
    ultimately show ?thesis using that(2) by (auto simp: sorted_append simp del: append_take_drop_id)
  qed
  then show ?thesis
    using assms by (auto simp: eq sorted_append sorted_wrt_take sorted_wrt_drop)
next
  case False
  with assms show ?thesis by (auto simp: remove_sorted_def Let_def split: if_splits)
qed

subsection \<open>Every operation refines its specification\<close>

lemma ev_wfD:
  assumes "ev_wf M s"
  shows "sorted (eb_events s)" "sorted (eb_static_events s)"
    "eb_event_counts s = cache_of (name_count (ev_bag s))"
    "eb_event_type_counts s = cache_of (type_count M (ev_bag s))"
    "eb_static_event_counts s = cache_of (name_count (ev_static_bag s))"
    "eb_static_event_type_counts s = cache_of (type_count M (ev_static_bag s))"
  using assms by (auto simp: ev_wf_def)

lemma ev_wf_counters [simp]: "ev_wf M (s\<lparr>eb_event_counters := c\<rparr>) = ev_wf M s"
  by (simp add: ev_wf_def ev_bag_def ev_static_bag_def)

lemma ev_bag_counters [simp]: "ev_bag (s\<lparr>eb_event_counters := c\<rparr>) = ev_bag s"
  by (simp add: ev_bag_def)

lemma ev_wf_init [simp]: "ev_wf M (events_init ks)"
  by (auto simp: ev_wf_def events_init_def ev_bag_def ev_static_bag_def cache_of_def
      name_count_def type_count_def fun_eq_iff split: pykey.splits)

lemma ev_bag_init [simp]: "ev_bag (events_init ks) = {#}" "ev_static_bag (events_init ks) = {#}"
  by (simp_all add: ev_bag_def ev_static_bag_def events_init_def)

lemma ev_insert_refines:
  assumes "ev_wf M s" "distinct (types_of M e)"
  shows "ev_wf M (ev_insert M s e)" "ev_bag (ev_insert M s e) = add_mset e (ev_bag s)"
    "ev_static_bag (ev_insert M s e) = ev_static_bag s"
  using ev_wfD [OF assms(1)] assms(2)
  by (simp_all add: ev_insert_def adjust_cache_add ev_wf_def ev_bag_def ev_static_bag_def
      bisect_insort_eq sorted_insort)

lemma ev_insert_static_refines:
  assumes "ev_wf M s" "distinct (types_of M e)"
  shows "ev_wf M (ev_insert_static M s e)" "ev_bag (ev_insert_static M s e) = ev_bag s"
    "ev_static_bag (ev_insert_static M s e) = add_mset e (ev_static_bag s)"
  using ev_wfD [OF assms(1)] assms(2)
  by (simp_all add: ev_insert_static_def adjust_cache_add ev_wf_def ev_bag_def ev_static_bag_def
      bisect_insort_eq sorted_insort)

lemma ev_add_refines:
  assumes "ev_wf M s" "distinct (types_of M e)"
  shows "ev_wf M (ev_add M static s e)" "ev_bag (ev_add M static s e) = add_mset e (ev_bag s)"
    "ev_static_bag (ev_add M static s e) =
       (if static then add_mset e (ev_static_bag s) else ev_static_bag s)"
  using assms
  by (simp_all add: ev_add_def Let_def ev_insert_refines ev_insert_static_refines)
    (simp_all add: ev_static_bag_def)

lemma ev_clear_refines:
  assumes "ev_wf M s"
  shows "ev_wf M (ev_clear s)" "ev_bag (ev_clear s) = ev_static_bag s"
    "ev_static_bag (ev_clear s) = ev_static_bag s"
  using ev_wfD [OF assms]
  by (simp_all add: ev_clear_def Let_def ev_wf_def ev_bag_def ev_static_bag_def)

lemma remove_list_refines:
  assumes "sorted l" "distinct (types_of M e)" "remove_sorted l e = (l', found)"
    and "c = cache_of (name_count (mset l))" "tc = cache_of (type_count M (mset l))"
  shows "sorted l'" "mset l' = mset l - {#e#}" "found \<longleftrightarrow> e \<in># mset l"
    and "found \<Longrightarrow> adjust_cache c tc e (-1) (types_of M e) =
           (cache_of (name_count (mset l')), cache_of (type_count M (mset l')))"
  using assms remove_sorted_found [OF assms(1), of e] mset_remove_sorted [OF assms(1), of e]
    sorted_remove_sorted [OF assms(1), of e]
  by (auto simp: adjust_cache_remove)

lemma ev_remove_dynamic_refines:
  assumes "ev_wf M s" "distinct (types_of M e)"
  shows "ev_wf M (ev_remove M False s e)" "ev_bag (ev_remove M False s e) = ev_bag s - {#e#}"
    "ev_static_bag (ev_remove M False s e) = ev_static_bag s"
proof -
  obtain l found where r: "remove_sorted (eb_events s) e = (l, found)" by fastforce
  note wf = ev_wfD [OF assms(1)]
  note rl = remove_list_refines [OF wf(1) assms(2) r wf(3,4) [unfolded ev_bag_def]]
  show "ev_wf M (ev_remove M False s e)" "ev_bag (ev_remove M False s e) = ev_bag s - {#e#}"
    "ev_static_bag (ev_remove M False s e) = ev_static_bag s"
    using rl wf assms(1) r
    by (cases found; simp add: ev_remove_def Let_def ev_wf_def ev_bag_def ev_static_bag_def
        diff_single_trivial)+
qed

text \<open>Removing with \<open>static\<close> set removes from the static list first, then as without it.\<close>

definition ev_remove_static_part :: "'c events_mapping \<Rightarrow> events_base \<Rightarrow> int \<Rightarrow> events_base" where
  "ev_remove_static_part M s e =
     (let (l, found) = remove_sorted (eb_static_events s) e
      in if found then
           (let (c, tc) = adjust_cache (eb_static_event_counts s)
                            (eb_static_event_type_counts s) e (-1) (types_of M e)
            in s\<lparr>eb_static_events := l, eb_static_event_counts := c,
                 eb_static_event_type_counts := tc\<rparr>)
         else s)"

lemma ev_remove_static_split:
  "ev_remove M True s e = ev_remove M False (ev_remove_static_part M s e) e"
  by (simp add: ev_remove_def ev_remove_static_part_def Let_def)

lemma ev_remove_static_part_refines:
  assumes "ev_wf M s" "distinct (types_of M e)"
  shows "ev_wf M (ev_remove_static_part M s e)" "ev_bag (ev_remove_static_part M s e) = ev_bag s"
    "ev_static_bag (ev_remove_static_part M s e) = ev_static_bag s - {#e#}"
proof -
  obtain l found where r: "remove_sorted (eb_static_events s) e = (l, found)" by fastforce
  note wf = ev_wfD [OF assms(1)]
  note rl = remove_list_refines [OF wf(2) assms(2) r wf(5,6) [unfolded ev_static_bag_def]]
  show "ev_wf M (ev_remove_static_part M s e)" "ev_bag (ev_remove_static_part M s e) = ev_bag s"
    "ev_static_bag (ev_remove_static_part M s e) = ev_static_bag s - {#e#}"
    using rl wf assms(1) r
    by (cases found; simp add: ev_remove_static_part_def Let_def ev_wf_def ev_bag_def
        ev_static_bag_def diff_single_trivial)+
qed

lemma ev_remove_refines:
  assumes "ev_wf M s" "distinct (types_of M e)"
  shows "ev_wf M (ev_remove M static s e)" "ev_bag (ev_remove M static s e) = ev_bag s - {#e#}"
    "ev_static_bag (ev_remove M static s e) =
       (if static then ev_static_bag s - {#e#} else ev_static_bag s)"
  using assms
  by (cases static; simp add: ev_remove_static_split ev_remove_dynamic_refines
      ev_remove_static_part_refines)+

lemma ev_has_iff: "ev_wf M s \<Longrightarrow> ev_has s e \<longleftrightarrow> e \<in># ev_bag s"
  by (simp add: ev_has_def ev_wfD dict_get_cache_of name_count_def)

lemma ev_contains_iff:
  "ev_wf M s \<Longrightarrow> ev_contains s t \<longleftrightarrow> (\<exists>e \<in># ev_bag s. t \<in> set (types_of M e))"
  by (auto simp: ev_contains_key_def ev_wfD dict_get_cache_of type_count_def
      size_eq_0_iff_empty filter_mset_eq_conv nonempty_has_size [symmetric]
      simp flip: multiset_nonemptyE)

lemma ev_contains_name: "ev_wf M s \<Longrightarrow> \<not> ev_contains_key s (KName n)"
  by (simp add: ev_contains_key_def ev_wfD dict_get_cache_of type_count_def)

lemma ev_contains_in_list_iff:
  "ev_wf M s \<Longrightarrow> ev_contains_in_list s es \<longleftrightarrow> (\<exists>e \<in> set es. e \<in># ev_bag s)"
  by (auto simp: ev_contains_in_list_def list_ex_iff ev_wfD dict_get_cache_of name_count_def)

subsection \<open>The interface of an event store\<close>

text \<open>
  What clients of \<open>EventsBase\<close> rely on: adding and removing act on a bag of events, \<open>has\<close> is
  membership, and \<open>contains\<close> asks for an event of the bag with the given type.
\<close>

locale event_store =
  fixes types :: "int \<Rightarrow> et list"
    and invar :: "'s \<Rightarrow> bool"
    and bag :: "'s \<Rightarrow> int multiset"
    and add :: "'s \<Rightarrow> int \<Rightarrow> 's"
    and remove :: "'s \<Rightarrow> int \<Rightarrow> 's"
    and has :: "'s \<Rightarrow> int \<Rightarrow> bool"
    and contains :: "'s \<Rightarrow> et \<Rightarrow> bool"
  assumes invar_add: "invar s \<Longrightarrow> invar (add s e)"
    and invar_remove: "invar s \<Longrightarrow> invar (remove s e)"
    and bag_add: "invar s \<Longrightarrow> bag (add s e) = add_mset e (bag s)"
    and bag_remove: "invar s \<Longrightarrow> bag (remove s e) = bag s - {#e#}"
    and has_bag: "invar s \<Longrightarrow> has s e \<longleftrightarrow> e \<in># bag s"
    and contains_bag: "invar s \<Longrightarrow> contains s t \<longleftrightarrow> (\<exists>e \<in># bag s. t \<in> set (types e))"
begin

lemma has_add: "invar s \<Longrightarrow> has (add s e) e' \<longleftrightarrow> e' = e \<or> has s e'"
  by (auto simp: has_bag invar_add bag_add)

lemma has_remove: "invar s \<Longrightarrow> e' \<noteq> e \<Longrightarrow> has (remove s e) e' \<longleftrightarrow> has s e'"
  by (simp add: has_bag invar_remove bag_remove in_diff_count count_greater_zero_iff
      flip: count_greater_zero_iff)

lemma has_remove_imp: "invar s \<Longrightarrow> has (remove s e) e' \<Longrightarrow> has s e'"
  by (auto simp: has_bag invar_remove bag_remove dest: in_diffD)

lemma contains_add: "invar s \<Longrightarrow> contains (add s e) t \<longleftrightarrow> t \<in> set (types e) \<or> contains s t"
  by (auto simp: contains_bag invar_add bag_add)

lemma contains_remove_imp: "invar s \<Longrightarrow> contains (remove s e) t \<Longrightarrow> contains s t"
  by (auto simp: contains_bag invar_remove bag_remove dest: in_diffD)

lemma contains_remove_other:
  assumes "invar s" "t \<notin> set (types e)"
  shows "contains (remove s e) t \<longleftrightarrow> contains s t"
proof
  assume "contains s t"
  then obtain e' where e': "e' \<in># bag s" "t \<in> set (types e')"
    using assms(1) by (auto simp: contains_bag)
  with assms(2) have "e' \<in># bag s - {#e#}"
    by (auto simp: in_diff_count)
  with e' assms(1) show "contains (remove s e) t"
    by (auto simp: contains_bag invar_remove bag_remove)
qed (rule contains_remove_imp [OF assms(1)])

lemma has_contains: "invar s \<Longrightarrow> has s e \<Longrightarrow> t \<in> set (types e) \<Longrightarrow> contains s t"
  by (auto simp: has_bag contains_bag)

lemma fold_add_invar: "invar s \<Longrightarrow> invar (fold (\<lambda>e s. add s e) es s)"
  by (induction es arbitrary: s) (auto simp: invar_add)

lemma fold_add_bag: "invar s \<Longrightarrow> bag (fold (\<lambda>e s. add s e) es s) = bag s + mset es"
  by (induction es arbitrary: s) (auto simp: invar_add bag_add)

lemma fold_remove_invar: "invar s \<Longrightarrow> invar (fold (\<lambda>e s. remove s e) es s)"
  by (induction es arbitrary: s) (auto simp: invar_remove)

lemma fold_remove_bag: "invar s \<Longrightarrow> bag (fold (\<lambda>e s. remove s e) es s) = bag s - mset es"
  by (induction es arbitrary: s) (auto simp: invar_remove bag_remove)

lemma add_remove_bag: "invar s \<Longrightarrow> bag (remove (add s e) e) = bag s"
  by (simp add: invar_add bag_add bag_remove)

end

text \<open>An event table gives an event store as soon as no entry lists an event type twice.\<close>

locale event_mapping =
  fixes M :: "'c events_mapping"
  assumes distinct_types: "distinct (types_of M e)"

sublocale event_mapping \<subseteq> event_store
  "types_of M" "ev_wf M" ev_bag "ev_add M static" "ev_remove M static'" ev_has ev_contains
  for static static'
  by unfold_locales
    (simp_all add: ev_add_refines ev_remove_refines ev_has_iff ev_contains_iff distinct_types)

context event_mapping
begin

lemma clear_wf: "ev_wf M s \<Longrightarrow> ev_wf M (ev_clear s)"
  by (rule ev_clear_refines)

lemma add_msg_refines:
  assumes "ev_wf M s"
  shows "ev_wf M (ev_add_msg M s m)" "ev_bag (ev_add_msg M s m) = add_mset (fst m) (ev_bag s)"
  using assms by (simp_all add: ev_add_msg_def ev_insert_refines distinct_types)

lemma add_from_msg_refines:
  assumes "ev_wf M s"
  shows "ev_wf M (ev_add_from_msg M s ms) \<and>
         ev_bag (ev_add_from_msg M s ms) = ev_bag s + mset (map fst ms)"
  using assms
  by (induction ms arbitrary: s) (simp_all add: ev_add_from_msg_def add_msg_refines)

lemma add_from_msg_has:
  assumes "ev_wf M s"
  shows "ev_has (ev_add_from_msg M s ms) e \<longleftrightarrow> ev_has s e \<or> e \<in> fst ` set ms"
  using add_from_msg_refines [OF assms, of ms] ev_has_iff [of M] assms by auto

lemma wf_events_eq:
  assumes "ev_wf M s" "ev_wf M s'" "ev_bag s = ev_bag s'"
  shows "eb_events s = eb_events s'"
proof -
  have "sort (eb_events s) = eb_events s'"
    using assms(3) ev_wfD(1) [OF assms(2)]
    by (intro properties_for_sort) (simp_all add: ev_bag_def)
  then show ?thesis using ev_wfD(1) [OF assms(1)] by (simp add: sorted_sort_id)
qed

text \<open>Publishing events and reading them back into an empty store gives the same events.\<close>

lemma msg_roundtrip:
  assumes "ev_wf M s" "ev_wf M s0" "ev_bag s0 = {#}"
  shows "eb_events (ev_add_from_msg M s0 (ev_to_msg M s)) = eb_events s"
proof (rule wf_events_eq)
  show "ev_wf M (ev_add_from_msg M s0 (ev_to_msg M s))"
    using add_from_msg_refines [OF assms(2)] by simp
  have "map fst (ev_to_msg M s) = eb_events s" by (simp add: ev_to_msg_def comp_def)
  then show "ev_bag (ev_add_from_msg M s0 (ev_to_msg M s)) = ev_bag s"
    using add_from_msg_refines [OF assms(2), of "ev_to_msg M s"] assms(3)
    by (simp add: ev_bag_def)
qed (rule assms(1))

end

subsection \<open>Alert creation\<close>

lemma create_event_alerts_ok:
  "\<exists>xs. create_event_alerts (Some nm) cnt alerts args ts = Inr xs"
  by (induction ts) (auto simp: Let_def split: option.split)

lemma create_event_alerts_types:
  assumes "create_event_alerts name cnt alerts args ts = Inr xs" "a \<in> set xs"
  shows "\<exists>t \<in> set ts. al_event_type a = Some t \<and> t \<in> set (map fst alerts)"
  using assms
proof (induction ts arbitrary: xs)
  case (Cons t ts)
  show ?case
  proof (cases "map_of alerts t")
    case None
    with Cons show ?thesis by auto
  next
    case (Some entry)
    then have "t \<in> set (map fst alerts)" by (metis map_of_eq_None_iff option.distinct(1) set_map)
    with Some Cons show ?thesis
      by (auto simp: Let_def split: if_splits option.splits sum.splits)
  qed
qed simp

text \<open>
  Alert creation raises no KeyError when every event of the store has a table entry and a name.
\<close>

lemma create_alerts_ok:
  assumes "\<And>e. e \<in> set (eb_events s) \<Longrightarrow> M e \<noteq> None \<and> names e \<noteq> None"
  shows "\<exists>xs. create_alerts M names s ts args = Inr xs"
proof -
  have "\<exists>xs. create_alerts_loop M names counters ts args es = Inr xs"
    if "\<And>e. e \<in> set es \<Longrightarrow> M e \<noteq> None \<and> names e \<noteq> None" for counters es
    using that
  proof (induction es)
    case (Cons e es)
    then obtain al nm where "M e = Some al" "names e = Some nm" by force
    moreover obtain xs where "create_event_alerts (Some nm) (dict_get counters e 0) al args ts = Inr xs"
      using create_event_alerts_ok [of nm "dict_get counters e 0" al args ts] by auto
    moreover obtain ys where "create_alerts_loop M names counters ts args es = Inr ys"
      using Cons by auto
    ultimately show ?case by simp
  qed simp
  with assms show ?thesis by (auto simp: create_alerts_def)
qed

lemma create_alerts_loop_types:
  assumes "create_alerts_loop M names counters ts args es = Inr xs" "a \<in> set xs"
  shows "\<exists>e \<in> set es. \<exists>t \<in> set ts. al_event_type a = Some t \<and> t \<in> set (types_of M e)"
  using assms
proof (induction es arbitrary: xs)
  case (Cons e es)
  from Cons.prems(1) obtain al ys zs where
    al: "M e = Some al" "create_event_alerts (names e) (dict_get counters e 0) al args ts = Inr ys"
    and zs: "create_alerts_loop M names counters ts args es = Inr zs" "xs = ys @ zs"
    by (auto split: option.splits sum.splits)
  show ?case
  proof (cases "a \<in> set ys")
    case True
    with create_event_alerts_types [OF al(2)] al(1) show ?thesis
      by (fastforce simp: types_of_def dict_get_def)
  next
    case False
    with Cons zs show ?thesis by auto
  qed
qed simp

text \<open>
  The alerts as a specification: those the table gives for a present event under a requested type,
  once the event has lasted as long as the alert asks for, labelled with event and type.
\<close>

definition alert_of :: "'c alert_entry \<Rightarrow> 'c \<Rightarrow> string \<Rightarrow> et \<Rightarrow> alert" where
  "alert_of x args nm t = (entry_alert x args)\<lparr>al_type := nm @ ''/'' @ et_str t, al_event_type := Some t\<rparr>"

definition alert_due :: "'c alert_entry \<Rightarrow> 'c \<Rightarrow> int \<Rightarrow> bool" where
  "alert_due x args cnt \<longleftrightarrow> al_creation_delay (entry_alert x args) \<le> DT_CTRL * (of_int cnt + 1)"

lemma create_event_alerts_set:
  assumes "create_event_alerts (Some nm) cnt alerts args ts = Inr xs"
  shows "a \<in> set xs \<longleftrightarrow> (\<exists>t \<in> set ts. \<exists>x. map_of alerts t = Some x \<and> alert_due x args cnt \<and> a = alert_of x args nm t)"
  using assms
proof (induction ts arbitrary: xs)
  case (Cons t ts)
  show ?case
  proof (cases "map_of alerts t")
    case None
    with Cons show ?thesis by auto
  next
    case (Some x)
    show ?thesis
    proof (cases "alert_due x args cnt")
      case True
      then obtain ys where "create_event_alerts (Some nm) cnt alerts args ts = Inr ys" "xs = alert_of x args nm t # ys"
        using Cons.prems Some by (auto simp: alert_due_def alert_of_def Let_def split: sum.splits)
      then show ?thesis using Cons.IH [of ys] True Some by auto
    next
      case False
      then have "create_event_alerts (Some nm) cnt alerts args ts = Inr xs"
        using Cons.prems Some by (auto simp: alert_due_def Let_def)
      then show ?thesis using Cons.IH [of xs] False Some by auto
    qed
  qed
qed simp

lemma create_alerts_loop_set:
  assumes "create_alerts_loop M names counters ts args es = Inr xs" "\<And>e. e \<in> set es \<Longrightarrow> M e \<noteq> None \<and> names e \<noteq> None"
  shows "a \<in> set xs \<longleftrightarrow>
    (\<exists>e \<in> set es. \<exists>t \<in> set ts. \<exists>x. map_of (the (M e)) t = Some x \<and> alert_due x args (dict_get counters e 0) \<and>
       a = alert_of x args (the (names e)) t)"
  using assms
proof (induction es arbitrary: xs)
  case (Cons e es)
  obtain al nm where e: "M e = Some al" "names e = Some nm" using Cons.prems(2) [of e] by auto
  then obtain ys zs where yz: "create_event_alerts (Some nm) (dict_get counters e 0) al args ts = Inr ys"
    "create_alerts_loop M names counters ts args es = Inr zs" "xs = ys @ zs"
    using Cons.prems(1) by (auto split: sum.splits)
  have "a \<in> set zs \<longleftrightarrow> (\<exists>e \<in> set es. \<exists>t \<in> set ts. \<exists>x. map_of (the (M e)) t = Some x \<and> alert_due x args (dict_get counters e 0) \<and>
       a = alert_of x args (the (names e)) t)" using Cons.IH [OF yz(2)] Cons.prems(2) by simp
  then show ?case using create_event_alerts_set [OF yz(1), of a] e yz(3) by auto
qed simp

end
