(* ===== verification/Event_Names.thy ===== *)
theory Event_Names
  imports Events_Base
begin

text \<open>
  The event names of \<open>cereal/log.capnp\<close> (\<open>OnroadEvent.EventName\<close>) and \<open>cereal/custom.capnp\<close>
  (\<open>OnroadEventSP.EventName\<close>). In the Python code an event name is the enumerant's raw
  integer, so the names are abbreviations for integers; the two enumerations overlap as
  integers and live in separate stores. \<open>EVENT_NAME\<close> and \<open>EVENT_NAME_SP\<close> map a raw value
  back to its name.
\<close>

subsection \<open>OnroadEvent.EventName\<close>

abbreviation (input) EV_canError :: int where "EV_canError \<equiv> 0"
abbreviation (input) EV_steerUnavailable :: int where "EV_steerUnavailable \<equiv> 1"
abbreviation (input) EV_wrongGear :: int where "EV_wrongGear \<equiv> 2"
abbreviation (input) EV_doorOpen :: int where "EV_doorOpen \<equiv> 3"
abbreviation (input) EV_seatbeltNotLatched :: int where "EV_seatbeltNotLatched \<equiv> 4"
abbreviation (input) EV_espDisabled :: int where "EV_espDisabled \<equiv> 5"
abbreviation (input) EV_wrongCarMode :: int where "EV_wrongCarMode \<equiv> 6"
abbreviation (input) EV_steerTempUnavailable :: int where "EV_steerTempUnavailable \<equiv> 7"
abbreviation (input) EV_reverseGear :: int where "EV_reverseGear \<equiv> 8"
abbreviation (input) EV_buttonCancel :: int where "EV_buttonCancel \<equiv> 9"
abbreviation (input) EV_buttonEnable :: int where "EV_buttonEnable \<equiv> 10"
abbreviation (input) EV_pedalPressed :: int where "EV_pedalPressed \<equiv> 11"
abbreviation (input) EV_preEnableStandstill :: int where "EV_preEnableStandstill \<equiv> 12"
abbreviation (input) EV_gasPressedOverride :: int where "EV_gasPressedOverride \<equiv> 13"
abbreviation (input) EV_steerOverride :: int where "EV_steerOverride \<equiv> 14"
abbreviation (input) EV_cruiseDisabled :: int where "EV_cruiseDisabled \<equiv> 15"
abbreviation (input) EV_speedTooLow :: int where "EV_speedTooLow \<equiv> 16"
abbreviation (input) EV_outOfSpace :: int where "EV_outOfSpace \<equiv> 17"
abbreviation (input) EV_overheat :: int where "EV_overheat \<equiv> 18"
abbreviation (input) EV_calibrationIncomplete :: int where "EV_calibrationIncomplete \<equiv> 19"
abbreviation (input) EV_calibrationInvalid :: int where "EV_calibrationInvalid \<equiv> 20"
abbreviation (input) EV_calibrationRecalibrating :: int where "EV_calibrationRecalibrating \<equiv> 21"
abbreviation (input) EV_controlsMismatch :: int where "EV_controlsMismatch \<equiv> 22"
abbreviation (input) EV_pcmEnable :: int where "EV_pcmEnable \<equiv> 23"
abbreviation (input) EV_pcmDisable :: int where "EV_pcmDisable \<equiv> 24"
abbreviation (input) EV_radarFault :: int where "EV_radarFault \<equiv> 25"
abbreviation (input) EV_brakeHold :: int where "EV_brakeHold \<equiv> 26"
abbreviation (input) EV_parkBrake :: int where "EV_parkBrake \<equiv> 27"
abbreviation (input) EV_manualRestart :: int where "EV_manualRestart \<equiv> 28"
abbreviation (input) EV_joystickDebug :: int where "EV_joystickDebug \<equiv> 29"
abbreviation (input) EV_longitudinalManeuver :: int where "EV_longitudinalManeuver \<equiv> 30"
abbreviation (input) EV_steerTempUnavailableSilent :: int where "EV_steerTempUnavailableSilent \<equiv> 31"
abbreviation (input) EV_resumeRequired :: int where "EV_resumeRequired \<equiv> 32"
abbreviation (input) EV_driverDistracted1 :: int where "EV_driverDistracted1 \<equiv> 33"
abbreviation (input) EV_driverDistracted2 :: int where "EV_driverDistracted2 \<equiv> 34"
abbreviation (input) EV_driverDistracted3 :: int where "EV_driverDistracted3 \<equiv> 35"
abbreviation (input) EV_driverUnresponsive1 :: int where "EV_driverUnresponsive1 \<equiv> 36"
abbreviation (input) EV_driverUnresponsive2 :: int where "EV_driverUnresponsive2 \<equiv> 37"
abbreviation (input) EV_driverUnresponsive3 :: int where "EV_driverUnresponsive3 \<equiv> 38"
abbreviation (input) EV_belowSteerSpeed :: int where "EV_belowSteerSpeed \<equiv> 39"
abbreviation (input) EV_lowBattery :: int where "EV_lowBattery \<equiv> 40"
abbreviation (input) EV_accFaulted :: int where "EV_accFaulted \<equiv> 41"
abbreviation (input) EV_sensorDataInvalid :: int where "EV_sensorDataInvalid \<equiv> 42"
abbreviation (input) EV_commIssue :: int where "EV_commIssue \<equiv> 43"
abbreviation (input) EV_commIssueAvgFreq :: int where "EV_commIssueAvgFreq \<equiv> 44"
abbreviation (input) EV_tooDistracted :: int where "EV_tooDistracted \<equiv> 45"
abbreviation (input) EV_posenetInvalid :: int where "EV_posenetInvalid \<equiv> 46"
abbreviation (input) EV_soundsUnavailableDEPRECATED :: int where "EV_soundsUnavailableDEPRECATED \<equiv> 47"
abbreviation (input) EV_preLaneChangeLeft :: int where "EV_preLaneChangeLeft \<equiv> 48"
abbreviation (input) EV_preLaneChangeRight :: int where "EV_preLaneChangeRight \<equiv> 49"
abbreviation (input) EV_laneChange :: int where "EV_laneChange \<equiv> 50"
abbreviation (input) EV_lowMemory :: int where "EV_lowMemory \<equiv> 51"
abbreviation (input) EV_stockAeb :: int where "EV_stockAeb \<equiv> 52"
abbreviation (input) EV_ldw :: int where "EV_ldw \<equiv> 53"
abbreviation (input) EV_carUnrecognized :: int where "EV_carUnrecognized \<equiv> 54"
abbreviation (input) EV_invalidLkasSetting :: int where "EV_invalidLkasSetting \<equiv> 55"
abbreviation (input) EV_speedTooHigh :: int where "EV_speedTooHigh \<equiv> 56"
abbreviation (input) EV_laneChangeBlocked :: int where "EV_laneChangeBlocked \<equiv> 57"
abbreviation (input) EV_relayMalfunction :: int where "EV_relayMalfunction \<equiv> 58"
abbreviation (input) EV_stockFcw :: int where "EV_stockFcw \<equiv> 59"
abbreviation (input) EV_startup :: int where "EV_startup \<equiv> 60"
abbreviation (input) EV_startupNoCar :: int where "EV_startupNoCar \<equiv> 61"
abbreviation (input) EV_startupNoControl :: int where "EV_startupNoControl \<equiv> 62"
abbreviation (input) EV_startupNoSecOcKey :: int where "EV_startupNoSecOcKey \<equiv> 63"
abbreviation (input) EV_startupMaster :: int where "EV_startupMaster \<equiv> 64"
abbreviation (input) EV_fcw :: int where "EV_fcw \<equiv> 65"
abbreviation (input) EV_steerSaturated :: int where "EV_steerSaturated \<equiv> 66"
abbreviation (input) EV_belowEngageSpeed :: int where "EV_belowEngageSpeed \<equiv> 67"
abbreviation (input) EV_noGps :: int where "EV_noGps \<equiv> 68"
abbreviation (input) EV_wrongCruiseMode :: int where "EV_wrongCruiseMode \<equiv> 69"
abbreviation (input) EV_modeldLagging :: int where "EV_modeldLagging \<equiv> 70"
abbreviation (input) EV_deviceFalling :: int where "EV_deviceFalling \<equiv> 71"
abbreviation (input) EV_fanMalfunction :: int where "EV_fanMalfunction \<equiv> 72"
abbreviation (input) EV_cameraMalfunction :: int where "EV_cameraMalfunction \<equiv> 73"
abbreviation (input) EV_cameraFrameRate :: int where "EV_cameraFrameRate \<equiv> 74"
abbreviation (input) EV_processNotRunning :: int where "EV_processNotRunning \<equiv> 75"
abbreviation (input) EV_dashcamMode :: int where "EV_dashcamMode \<equiv> 76"
abbreviation (input) EV_selfdriveInitializing :: int where "EV_selfdriveInitializing \<equiv> 77"
abbreviation (input) EV_usbError :: int where "EV_usbError \<equiv> 78"
abbreviation (input) EV_cruiseMismatch :: int where "EV_cruiseMismatch \<equiv> 79"
abbreviation (input) EV_canBusMissing :: int where "EV_canBusMissing \<equiv> 80"
abbreviation (input) EV_selfdrivedLagging :: int where "EV_selfdrivedLagging \<equiv> 81"
abbreviation (input) EV_resumeBlocked :: int where "EV_resumeBlocked \<equiv> 82"
abbreviation (input) EV_steerTimeLimit :: int where "EV_steerTimeLimit \<equiv> 83"
abbreviation (input) EV_vehicleSensorsInvalid :: int where "EV_vehicleSensorsInvalid \<equiv> 84"
abbreviation (input) EV_locationdTemporaryError :: int where "EV_locationdTemporaryError \<equiv> 85"
abbreviation (input) EV_locationdPermanentError :: int where "EV_locationdPermanentError \<equiv> 86"
abbreviation (input) EV_paramsdTemporaryError :: int where "EV_paramsdTemporaryError \<equiv> 87"
abbreviation (input) EV_paramsdPermanentError :: int where "EV_paramsdPermanentError \<equiv> 88"
abbreviation (input) EV_actuatorsApiUnavailable :: int where "EV_actuatorsApiUnavailable \<equiv> 89"
abbreviation (input) EV_espActive :: int where "EV_espActive \<equiv> 90"
abbreviation (input) EV_personalityChanged :: int where "EV_personalityChanged \<equiv> 91"
abbreviation (input) EV_aeb :: int where "EV_aeb \<equiv> 92"
abbreviation (input) EV_radarTempUnavailable :: int where "EV_radarTempUnavailable \<equiv> 93"
abbreviation (input) EV_steerDisengage :: int where "EV_steerDisengage \<equiv> 94"
abbreviation (input) EV_userBookmark :: int where "EV_userBookmark \<equiv> 95"
abbreviation (input) EV_excessiveActuation :: int where "EV_excessiveActuation \<equiv> 96"
abbreviation (input) EV_audioFeedback :: int where "EV_audioFeedback \<equiv> 97"
abbreviation (input) EV_stockLkas :: int where "EV_stockLkas \<equiv> 98"
abbreviation (input) EV_lateralManeuver :: int where "EV_lateralManeuver \<equiv> 99"

subsection \<open>OnroadEventSP.EventName\<close>

abbreviation (input) SP_lkasEnable :: int where "SP_lkasEnable \<equiv> 0"
abbreviation (input) SP_lkasDisable :: int where "SP_lkasDisable \<equiv> 1"
abbreviation (input) SP_manualSteeringRequired :: int where "SP_manualSteeringRequired \<equiv> 2"
abbreviation (input) SP_manualLongitudinalRequired :: int where "SP_manualLongitudinalRequired \<equiv> 3"
abbreviation (input) SP_silentLkasEnable :: int where "SP_silentLkasEnable \<equiv> 4"
abbreviation (input) SP_silentLkasDisable :: int where "SP_silentLkasDisable \<equiv> 5"
abbreviation (input) SP_silentBrakeHold :: int where "SP_silentBrakeHold \<equiv> 6"
abbreviation (input) SP_silentWrongGear :: int where "SP_silentWrongGear \<equiv> 7"
abbreviation (input) SP_silentReverseGear :: int where "SP_silentReverseGear \<equiv> 8"
abbreviation (input) SP_silentDoorOpen :: int where "SP_silentDoorOpen \<equiv> 9"
abbreviation (input) SP_silentSeatbeltNotLatched :: int where "SP_silentSeatbeltNotLatched \<equiv> 10"
abbreviation (input) SP_silentParkBrake :: int where "SP_silentParkBrake \<equiv> 11"
abbreviation (input) SP_controlsMismatchLateral :: int where "SP_controlsMismatchLateral \<equiv> 12"
abbreviation (input) SP_hyundaiRadarTracksConfirmed :: int where "SP_hyundaiRadarTracksConfirmed \<equiv> 13"
abbreviation (input) SP_experimentalModeSwitched :: int where "SP_experimentalModeSwitched \<equiv> 14"
abbreviation (input) SP_wrongCarModeAlertOnly :: int where "SP_wrongCarModeAlertOnly \<equiv> 15"
abbreviation (input) SP_pedalPressedAlertOnly :: int where "SP_pedalPressedAlertOnly \<equiv> 16"
abbreviation (input) SP_laneTurnLeft :: int where "SP_laneTurnLeft \<equiv> 17"
abbreviation (input) SP_laneTurnRight :: int where "SP_laneTurnRight \<equiv> 18"
abbreviation (input) SP_speedLimitPreActive :: int where "SP_speedLimitPreActive \<equiv> 19"
abbreviation (input) SP_speedLimitActive :: int where "SP_speedLimitActive \<equiv> 20"
abbreviation (input) SP_speedLimitChanged :: int where "SP_speedLimitChanged \<equiv> 21"
abbreviation (input) SP_speedLimitPending :: int where "SP_speedLimitPending \<equiv> 22"
abbreviation (input) SP_e2eChime :: int where "SP_e2eChime \<equiv> 23"
abbreviation (input) SP_customLongitudinalFault :: int where "SP_customLongitudinalFault \<equiv> 24"

subsection \<open>Names of raw values\<close>

definition EVENT_NAME_list :: "(int \<times> string) list" where
  "EVENT_NAME_list =
    [(0, ''canError''),
     (1, ''steerUnavailable''),
     (2, ''wrongGear''),
     (3, ''doorOpen''),
     (4, ''seatbeltNotLatched''),
     (5, ''espDisabled''),
     (6, ''wrongCarMode''),
     (7, ''steerTempUnavailable''),
     (8, ''reverseGear''),
     (9, ''buttonCancel''),
     (10, ''buttonEnable''),
     (11, ''pedalPressed''),
     (12, ''preEnableStandstill''),
     (13, ''gasPressedOverride''),
     (14, ''steerOverride''),
     (15, ''cruiseDisabled''),
     (16, ''speedTooLow''),
     (17, ''outOfSpace''),
     (18, ''overheat''),
     (19, ''calibrationIncomplete''),
     (20, ''calibrationInvalid''),
     (21, ''calibrationRecalibrating''),
     (22, ''controlsMismatch''),
     (23, ''pcmEnable''),
     (24, ''pcmDisable''),
     (25, ''radarFault''),
     (26, ''brakeHold''),
     (27, ''parkBrake''),
     (28, ''manualRestart''),
     (29, ''joystickDebug''),
     (30, ''longitudinalManeuver''),
     (31, ''steerTempUnavailableSilent''),
     (32, ''resumeRequired''),
     (33, ''driverDistracted1''),
     (34, ''driverDistracted2''),
     (35, ''driverDistracted3''),
     (36, ''driverUnresponsive1''),
     (37, ''driverUnresponsive2''),
     (38, ''driverUnresponsive3''),
     (39, ''belowSteerSpeed''),
     (40, ''lowBattery''),
     (41, ''accFaulted''),
     (42, ''sensorDataInvalid''),
     (43, ''commIssue''),
     (44, ''commIssueAvgFreq''),
     (45, ''tooDistracted''),
     (46, ''posenetInvalid''),
     (47, ''soundsUnavailableDEPRECATED''),
     (48, ''preLaneChangeLeft''),
     (49, ''preLaneChangeRight''),
     (50, ''laneChange''),
     (51, ''lowMemory''),
     (52, ''stockAeb''),
     (53, ''ldw''),
     (54, ''carUnrecognized''),
     (55, ''invalidLkasSetting''),
     (56, ''speedTooHigh''),
     (57, ''laneChangeBlocked''),
     (58, ''relayMalfunction''),
     (59, ''stockFcw''),
     (60, ''startup''),
     (61, ''startupNoCar''),
     (62, ''startupNoControl''),
     (63, ''startupNoSecOcKey''),
     (64, ''startupMaster''),
     (65, ''fcw''),
     (66, ''steerSaturated''),
     (67, ''belowEngageSpeed''),
     (68, ''noGps''),
     (69, ''wrongCruiseMode''),
     (70, ''modeldLagging''),
     (71, ''deviceFalling''),
     (72, ''fanMalfunction''),
     (73, ''cameraMalfunction''),
     (74, ''cameraFrameRate''),
     (75, ''processNotRunning''),
     (76, ''dashcamMode''),
     (77, ''selfdriveInitializing''),
     (78, ''usbError''),
     (79, ''cruiseMismatch''),
     (80, ''canBusMissing''),
     (81, ''selfdrivedLagging''),
     (82, ''resumeBlocked''),
     (83, ''steerTimeLimit''),
     (84, ''vehicleSensorsInvalid''),
     (85, ''locationdTemporaryError''),
     (86, ''locationdPermanentError''),
     (87, ''paramsdTemporaryError''),
     (88, ''paramsdPermanentError''),
     (89, ''actuatorsApiUnavailable''),
     (90, ''espActive''),
     (91, ''personalityChanged''),
     (92, ''aeb''),
     (93, ''radarTempUnavailable''),
     (94, ''steerDisengage''),
     (95, ''userBookmark''),
     (96, ''excessiveActuation''),
     (97, ''audioFeedback''),
     (98, ''stockLkas''),
     (99, ''lateralManeuver'')]"

definition EVENT_NAME :: "int \<rightharpoonup> string" where
  "EVENT_NAME = map_of EVENT_NAME_list"

definition EVENT_NAME_SP_list :: "(int \<times> string) list" where
  "EVENT_NAME_SP_list =
    [(0, ''lkasEnable''),
     (1, ''lkasDisable''),
     (2, ''manualSteeringRequired''),
     (3, ''manualLongitudinalRequired''),
     (4, ''silentLkasEnable''),
     (5, ''silentLkasDisable''),
     (6, ''silentBrakeHold''),
     (7, ''silentWrongGear''),
     (8, ''silentReverseGear''),
     (9, ''silentDoorOpen''),
     (10, ''silentSeatbeltNotLatched''),
     (11, ''silentParkBrake''),
     (12, ''controlsMismatchLateral''),
     (13, ''hyundaiRadarTracksConfirmed''),
     (14, ''experimentalModeSwitched''),
     (15, ''wrongCarModeAlertOnly''),
     (16, ''pedalPressedAlertOnly''),
     (17, ''laneTurnLeft''),
     (18, ''laneTurnRight''),
     (19, ''speedLimitPreActive''),
     (20, ''speedLimitActive''),
     (21, ''speedLimitChanged''),
     (22, ''speedLimitPending''),
     (23, ''e2eChime''),
     (24, ''customLongitudinalFault'')]"

definition EVENT_NAME_SP :: "int \<rightharpoonup> string" where
  "EVENT_NAME_SP = map_of EVENT_NAME_SP_list"

text \<open>The enumerants are numbered without gaps, so a name exists for exactly these integers.\<close>

lemma EVENT_NAME_iff: "EVENT_NAME k \<noteq> None \<longleftrightarrow> 0 \<le> k \<and> k \<le> 99"
proof -
  have "map fst EVENT_NAME_list = [0..99]" by code_simp
  then have "fst ` set EVENT_NAME_list = {0..99}" by (metis set_map set_upto)
  then show ?thesis by (auto simp: EVENT_NAME_def map_of_eq_None_iff)
qed

end
