(* ===== verification/Events_Table.thy ===== *)
theory Events_Table
  imports Event_Names
begin

text \<open>
  The event table of \<open>selfdrive/selfdrived/events.py\<close>: the alert callbacks and \<open>EVENTS\<close>, the
  mapping from an event to its event types with their alerts, including the replacements made
  on a \<open>mici\<close> device. \<open>cbargs\<close> holds what the callbacks read of their arguments
  \<open>(CP, CS, sm, metric, soft_disable_time, personality)\<close> and of the environment
  (the branch name of \<open>startup_master_alert\<close>).

  The table's lemmas decide properties of all its entries; the interpretation \<open>ev\<close> makes it an
  event store.
\<close>

subsection \<open>Callback arguments\<close>

datatype cal_status = CAL_uncalibrated | CAL_calibrated | CAL_invalid | CAL_recalibrating

record cbargs =
  cb_brand :: string
  cb_minEnableSpeed :: real
  cb_minSteerSpeed :: real
  cb_openpilotLongitudinalControl :: bool
  cb_pcmCruise :: bool
  cb_vEgo :: real
  cb_vCruiseCluster :: real
  cb_calStatus :: cal_status
  cb_calPerc :: int
  cb_rpyCalib :: "real list"
  cb_lockout :: bool
  cb_lockoutMinutesRemaining :: int
  cb_audio_blockNum :: int
  cb_freeSpacePercent :: real
  cb_cpuTempC :: "real list"
  cb_gpuTempC :: "real list"
  cb_memoryTempC :: real
  cb_memoryUsagePercent :: int
  cb_cpuUsagePercent :: "int list"
  cb_model_velocity_x :: "real list"
  cb_frameDropPerc :: real
  cb_processes :: "(string \<times> bool \<times> bool) list"  \<comment> \<open>name, running, shouldBeRunning\<close>
  cb_services :: "(string \<times> bool) list"  \<comment> \<open>\<open>sm.data\<close> keys with \<open>sm.all_checks([s])\<close>\<close>
  cb_angleOffsetValid :: bool
  cb_angleOffsetDeg :: real
  cb_steerRatioValid :: bool
  cb_steerRatio :: real
  cb_stiffnessFactorValid :: bool
  cb_stiffnessFactor :: real
  cb_actuators_accel :: real
  cb_actuators_torque :: real
  cb_alertText1 :: string
  cb_alertText2 :: string
  cb_short_branch :: string
  cb_replay :: bool
  cb_metric :: bool
  cb_soft_disable_time :: int
  cb_personality :: string
  cb_resolver_speedLimit :: real
  cb_resolver_speedLimitFinalLast :: real
  cb_controls_vCruise :: real

subsection \<open>Alert callbacks\<close>

definition get_display_speed :: "real \<Rightarrow> bool \<Rightarrow> string" where
  "get_display_speed speed_ms metric =
     py_str_int (py_round (speed_ms * (if metric then MS_TO_KPH else MS_TO_MPH))) @ '' '' @
     (if metric then ''km/h'' else ''mph'')"

definition SOFT_DISABLE_IMMEDIATE_FRAMES :: int where
  "SOFT_DISABLE_IMMEDIATE_FRAMES = py_int ((1 / 2) / DT_CTRL)"

definition soft_disable_alert :: "string \<Rightarrow> cbargs \<Rightarrow> alert" where
  "soft_disable_alert text_2 c =
     (if cb_soft_disable_time c < SOFT_DISABLE_IMMEDIATE_FRAMES then ImmediateDisableAlert text_2
      else SoftDisableAlert text_2)"

definition user_soft_disable_alert :: "string \<Rightarrow> cbargs \<Rightarrow> alert" where
  "user_soft_disable_alert text_2 c =
     (if cb_soft_disable_time c < SOFT_DISABLE_IMMEDIATE_FRAMES then ImmediateDisableAlert text_2
      else UserSoftDisableAlert text_2)"

definition startup_master_alert :: "bool \<Rightarrow> cbargs \<Rightarrow> alert" where
  "startup_master_alert mici c =
     StartupAlert mici ''WARNING: This branch is not tested''
       (if cb_replay c then ''replay'' else cb_short_branch c) AS_userPrompt"

abbreviation (input) no_entry_default :: "bool \<Rightarrow> string \<Rightarrow> alert" where
  "no_entry_default mici text_2 \<equiv> NoEntryAlert mici text_2 ''openpilot Unavailable'' VA_none P_LOW"

abbreviation (input) permanent_default :: "string \<Rightarrow> string \<Rightarrow> alert" where
  "permanent_default text_1 text_2 \<equiv> NormalPermanentAlert text_1 text_2 (2 / 10) P_LOWER 0"

definition below_engage_speed_alert :: "bool \<Rightarrow> cbargs \<Rightarrow> alert" where
  "below_engage_speed_alert mici c =
     no_entry_default mici
       (''Drive above '' @ get_display_speed (cb_minEnableSpeed c) (cb_metric c) @ '' to engage'')"

definition below_steer_speed_alert :: "cbargs \<Rightarrow> alert" where
  "below_steer_speed_alert c =
     Alert (''Steer Assist Unavailable Below '' @
            get_display_speed (cb_minSteerSpeed c) (cb_metric c)) ''''
       AS_userPrompt SZ_small P_LOW VA_none AA_prompt (4 / 10) 0"

definition MIN_SPEED_FILTER :: real where "MIN_SPEED_FILTER = 15 * MPH_TO_MS"

definition calibration_incomplete_alert :: "cbargs \<Rightarrow> alert" where
  "calibration_incomplete_alert c =
     (let first_word = (if cb_calStatus c = CAL_recalibrating then ''Recalibrating'' else ''Calibrating'')
      in Alert (first_word @ '': '' @ py_fixed0 (of_int (cb_calPerc c)) @ ''%'')
           (''Drive Above '' @ get_display_speed MIN_SPEED_FILTER (cb_metric c))
           AS_normal SZ_mid P_LOWEST VA_none AA_none (2 / 10) 0)"

definition too_distracted_alert :: "bool \<Rightarrow> cbargs \<Rightarrow> alert" where
  "too_distracted_alert mici c =
     (if cb_lockout c then
        (let mins_left = cb_lockoutMinutesRemaining c
         in NoEntryAlert mici ''Too Distracted''
              (py_str_int mins_left @ '' minute'' @ (if mins_left \<noteq> 1 then ''s'' else '''') @ '' Left'')
              VA_none P_HIGH)
      else NoEntryAlert mici ''Pay Attention to Engage'' ''openpilot Unavailable'' VA_none P_HIGH)"

definition audio_feedback_alert :: "cbargs \<Rightarrow> alert" where
  "audio_feedback_alert c =
     (let duration = 10 - (of_int (cb_audio_blockNum c) + 1) * 800 / 16000;
          r = py_round duration
      in NormalPermanentAlert ''Recording Audio Feedback''
           (py_str_int r @ '' second'' @ (if r \<noteq> 1 then ''s'' else '''') @
            '' remaining. Press again to save early.'') (2 / 10) P_LOW 0)"

definition out_of_space_alert :: "cbargs \<Rightarrow> alert" where
  "out_of_space_alert c =
     permanent_default ''Out of Storage'' (py_str_int (py_round (100 - cb_freeSpacePercent c)) @ ''% full'')"

definition posenet_invalid_alert :: "bool \<Rightarrow> cbargs \<Rightarrow> alert" where
  "posenet_invalid_alert mici c =
     NoEntryAlert mici
       (''Speed Error: '' @
        (case cb_model_velocity_x c of [] \<Rightarrow> ''nan'' | mdl # _ \<Rightarrow> py_fixed1 (cb_vEgo c - mdl)) @ '' m/s'')
       ''Posenet Speed Invalid'' VA_none P_LOW"

definition process_not_running_alert :: "bool \<Rightarrow> cbargs \<Rightarrow> alert" where
  "process_not_running_alert mici c =
     (let not_running = [n. (n, running, should) \<leftarrow> cb_processes c, \<not> running \<and> should]
      in NoEntryAlert mici (py_join '', '' not_running) ''Process Not Running'' VA_none P_LOW)"

definition comm_issue_alert :: "bool \<Rightarrow> cbargs \<Rightarrow> alert" where
  "comm_issue_alert mici c =
     (let bs = [s. (s, checks) \<leftarrow> cb_services c, \<not> checks]
      in NoEntryAlert mici (py_join '', '' (take 4 bs)) ''Communication Issue Between Processes''
           VA_none P_LOW)"

definition camera_malfunction_alert :: "cbargs \<Rightarrow> alert" where
  "camera_malfunction_alert c =
     (let all_cams = [(''roadCameraState'', ''roadCamera''), (''driverCameraState'', ''driverCamera''),
                      (''wideRoadCameraState'', ''wideRoadCamera'')];
          bad_cams = [short. (s, short) \<leftarrow> all_cams, map_of (cb_services c) s = Some False]
      in permanent_default ''Camera Malfunction'' (py_join '', '' bad_cams))"

definition py_degrees :: "real \<Rightarrow> real" where "py_degrees x = x * 180 / pi"

definition DEGREE_SIGN :: string where "DEGREE_SIGN = [CHR 0xB0]"

definition calibration_invalid_alert :: "cbargs \<Rightarrow> alert" where
  "calibration_invalid_alert c =
     (let rpy = cb_rpyCalib c;
          angle = (\<lambda>i. if length rpy = 3 then py_fixed1 (py_degrees (rpy ! i)) else ''nan'')
      in permanent_default ''Calibration Invalid''
           (''Remount Device (Pitch: '' @ angle 1 @ DEGREE_SIGN @ '', Yaw: '' @ angle 2 @ DEGREE_SIGN @ '')''))"

definition paramsd_invalid_alert :: "bool \<Rightarrow> cbargs \<Rightarrow> alert" where
  "paramsd_invalid_alert mici c =
     (if \<not> cb_angleOffsetValid c then
        NoEntryAlert mici
          (''Angle offset too high (Offset: '' @ py_fixed1 (cb_angleOffsetDeg c) @ DEGREE_SIGN @ '')'')
          ''Steering misalignment detected'' VA_none P_LOW
      else if \<not> cb_steerRatioValid c then
        NoEntryAlert mici
          (''Steering rack geometry may be off (Ratio: '' @ py_fixed1 (cb_steerRatio c) @ '')'')
          ''Steer ratio mismatch'' VA_none P_LOW
      else if \<not> cb_stiffnessFactorValid c then
        NoEntryAlert mici
          (''Check tires, pressure, or alignment (Factor: '' @ py_fixed1 (cb_stiffnessFactor c) @ '')'')
          ''Abnormal tire stiffness'' VA_none P_LOW
      else no_entry_default mici ''paramsd Temporary Error'')"

definition overheat_alert :: "cbargs \<Rightarrow> alert" where
  "overheat_alert c =
     (let max0 = (\<lambda>xs. if xs = [] then 0 else foldr max (tl xs) (hd xs));
          temp = max (max (max0 (cb_cpuTempC c)) (max0 (cb_gpuTempC c))) (cb_memoryTempC c)
      in permanent_default ''System Overheated'' (py_fixed0 temp @ '' '' @ DEGREE_SIGN @ ''C''))"

definition low_memory_alert :: "cbargs \<Rightarrow> alert" where
  "low_memory_alert c =
     permanent_default ''Low Memory'' (py_str_int (cb_memoryUsagePercent c) @ ''% used'')"

definition high_cpu_usage_alert :: "cbargs \<Rightarrow> alert" where
  "high_cpu_usage_alert c =
     (let x = (case cb_cpuUsagePercent c of [] \<Rightarrow> ''0.0'' | u # us \<Rightarrow> py_str_int (foldr max us u))
      in permanent_default ''High CPU Usage'' (x @ ''% used''))"

definition modeld_lagging_alert :: "cbargs \<Rightarrow> alert" where
  "modeld_lagging_alert c =
     permanent_default ''Driving Model Lagging'' (py_fixed1 (cb_frameDropPerc c) @ ''% frames dropped'')"

definition joystick_alert :: "cbargs \<Rightarrow> alert" where
  "joystick_alert c =
     (let gb = cb_actuators_accel c / 4; steer = cb_actuators_torque c
      in permanent_default ''Joystick Mode''
           (''Gas: '' @ py_str_int (py_round (gb * 100)) @ ''%, Steer: '' @
            py_str_int (py_round (steer * 100)) @ ''%''))"

text \<open>\<open>'Active' in text\<close>, the substring test.\<close>

fun has_substring :: "string \<Rightarrow> string \<Rightarrow> bool" where
  "has_substring w [] = (w = [])"
| "has_substring w (c # cs) = (take (length w) (c # cs) = w \<or> has_substring w cs)"

definition longitudinal_maneuver_alert :: "cbargs \<Rightarrow> alert" where
  "longitudinal_maneuver_alert c =
     (let act = has_substring ''Active'' (cb_alertText1 c)
      in Alert (cb_alertText1 c) (cb_alertText2 c)
           (if act then AS_userPrompt else AS_normal)
           (if cb_alertText2 c \<noteq> [] then SZ_mid else SZ_small)
           P_LOW VA_none (if act then AA_prompt else AA_none) (2 / 10) 0)"

text \<open>\<open>str.title()\<close> on the lower-case enumerant names.\<close>

definition py_title :: "string \<Rightarrow> string" where
  "py_title s =
     (case s of [] \<Rightarrow> [] | ch # cs \<Rightarrow>
        (let n = of_char ch :: nat in if 97 \<le> n \<and> n \<le> 122 then char_of (n - 32) else ch) # cs)"

definition personality_changed_alert :: "cbargs \<Rightarrow> alert" where
  "personality_changed_alert c =
     NormalPermanentAlert (''Driving Personality: '' @ py_title (cb_personality c)) '''' (3 / 2) P_LOWER 0"

definition invalid_lkas_setting_alert :: "cbargs \<Rightarrow> alert" where
  "invalid_lkas_setting_alert c =
     (let text =
        (if cb_brand c = ''tesla'' then ''Switch to Traffic-Aware Cruise Control to engage''
         else if cb_brand c = ''mazda'' then ''Enable your car's LKAS to engage''
         else if cb_brand c = ''nissan'' then ''Disable your car's stock LKAS to engage''
         else ''Toggle stock LKAS on or off to engage'')
      in permanent_default ''Invalid LKAS setting'' text)"

definition wrong_car_mode_alert :: "bool \<Rightarrow> cbargs \<Rightarrow> alert" where
  "wrong_car_mode_alert mici c =
     no_entry_default mici
       (if cb_brand c = ''honda'' then ''Enable Main Switch to Engage''
        else ''Enable Adaptive Cruise to Engage'')"

subsection \<open>The table\<close>

definition EVENTS_part1 :: "bool \<Rightarrow> (int \<times> (et \<times> cbargs alert_entry) list) list" where
  "EVENTS_part1 mici =
    [(EV_stockFcw, []),
     (EV_actuatorsApiUnavailable, []),
     (EV_joystickDebug,
       [(ET_WARNING, AlertCallback joystick_alert),
        (ET_PERMANENT, StaticAlert (NormalPermanentAlert ''Joystick Mode'' '''' (2 / 10) P_LOWER 0))]),
     (EV_longitudinalManeuver,
       [(ET_WARNING, AlertCallback longitudinal_maneuver_alert),
        (ET_PERMANENT, StaticAlert (NormalPermanentAlert ''Longitudinal Maneuver Mode'' ''Ensure road ahead is clear'' (2 / 10) P_LOWER 0))]),
     (EV_lateralManeuver,
       [(ET_WARNING, AlertCallback longitudinal_maneuver_alert),
        (ET_PERMANENT, StaticAlert (NormalPermanentAlert ''Lateral Maneuver Mode'' '''' (2 / 10) P_LOWER 0))]),
     (EV_selfdriveInitializing,
       [(ET_NO_ENTRY, StaticAlert (NoEntryAlert mici ''System Initializing'' ''openpilot Unavailable'' VA_none P_LOW))]),
     (EV_startup,
       [(ET_PERMANENT, StaticAlert (StartupAlert mici ''Be ready to take over at any time'' startup_default_text AS_normal))]),
     (EV_startupMaster,
       [(ET_PERMANENT, AlertCallback (startup_master_alert mici))]),
     (EV_startupNoControl,
       [(ET_PERMANENT, StaticAlert (StartupAlert mici ''Dashcam mode'' startup_default_text AS_normal)),
        (ET_NO_ENTRY, StaticAlert (NoEntryAlert mici ''Dashcam mode'' ''openpilot Unavailable'' VA_none P_LOW))]),
     (EV_startupNoCar,
       [(ET_PERMANENT, StaticAlert (StartupAlert mici ''Dashcam mode for unsupported car'' startup_default_text AS_normal))]),
     (EV_startupNoSecOcKey,
       [(ET_PERMANENT, StaticAlert (NormalPermanentAlert ''Dashcam Mode'' ''Security Key Not Available'' (2 / 10) P_HIGH 0))]),
     (EV_dashcamMode,
       [(ET_PERMANENT, StaticAlert (NormalPermanentAlert ''Dashcam Mode'' '''' (2 / 10) P_LOWEST 0))]),
     (EV_invalidLkasSetting,
       [(ET_PERMANENT, AlertCallback invalid_lkas_setting_alert),
        (ET_NO_ENTRY, StaticAlert (NoEntryAlert mici ''Invalid LKAS setting'' ''openpilot Unavailable'' VA_none P_LOW))]),
     (EV_cruiseMismatch, []),
     (EV_carUnrecognized,
       [(ET_PERMANENT, StaticAlert (NormalPermanentAlert ''Dashcam Mode'' ''Car Unrecognized'' (2 / 10) P_LOWEST 0))]),
     (EV_aeb,
       [(ET_PERMANENT, StaticAlert (Alert ''BRAKE!'' ''Emergency Braking: Risk of Collision'' AS_critical SZ_full P_HIGHEST VA_fcw AA_none 2 0)),
        (ET_NO_ENTRY, StaticAlert (NoEntryAlert mici ''AEB: Risk of Collision'' ''openpilot Unavailable'' VA_none P_LOW))]),
     (EV_stockAeb,
       [(ET_PERMANENT, StaticAlert (Alert ''BRAKE!'' ''Stock AEB: Risk of Collision'' AS_critical SZ_full P_HIGHEST VA_fcw AA_none 2 0)),
        (ET_NO_ENTRY, StaticAlert (NoEntryAlert mici ''Stock AEB: Risk of Collision'' ''openpilot Unavailable'' VA_none P_LOW))]),
     (EV_stockLkas,
       [(ET_NO_ENTRY, StaticAlert (NoEntryAlert mici ''Stock LKAS: Lane Departure Detected'' ''openpilot Unavailable'' VA_none P_LOW))]),
     (EV_fcw,
       [(ET_PERMANENT, StaticAlert (Alert ''BRAKE!'' ''Risk of Collision'' AS_critical SZ_full P_HIGHEST VA_fcw AA_warningSoft 2 0))]),
     (EV_ldw,
       [(ET_PERMANENT, StaticAlert (Alert ''Lane Departure Detected'' '''' AS_userPrompt SZ_small P_LOW VA_ldw AA_prompt 3 0))]),
     (EV_steerTempUnavailableSilent,
       [(ET_WARNING, StaticAlert (Alert ''Steering Assist Temporarily Unavailable'' '''' AS_userPrompt SZ_small P_LOW VA_steerRequired AA_prompt (9 / 5) 0))]),
     (EV_driverDistracted1,
       [(ET_PERMANENT, StaticAlert (Alert ''Pay Attention'' '''' AS_normal SZ_small P_LOW VA_none AA_preAlert (1 / 10) 0))]),
     (EV_driverDistracted2,
       [(ET_PERMANENT, StaticAlert (Alert ''Pay Attention'' ''Driver Distracted'' AS_userPrompt SZ_mid P_MID VA_steerRequired AA_promptDistracted (1 / 10) 0))])]"

definition EVENTS_part2 :: "bool \<Rightarrow> (int \<times> (et \<times> cbargs alert_entry) list) list" where
  "EVENTS_part2 mici =
    [(EV_driverDistracted3,
       [(ET_PERMANENT, StaticAlert (Alert ''DISENGAGE IMMEDIATELY'' ''Driver Distracted'' AS_critical SZ_full P_HIGH VA_steerRequired AA_warningImmediate (1 / 10) 0))]),
     (EV_driverUnresponsive1,
       [(ET_PERMANENT, StaticAlert (Alert ''Touch Steering Wheel: No Face Detected'' '''' AS_normal SZ_small P_LOW VA_steerRequired AA_none (1 / 10) 0))]),
     (EV_driverUnresponsive2,
       [(ET_PERMANENT, StaticAlert (Alert ''Touch Steering Wheel'' ''Driver Unresponsive'' AS_userPrompt SZ_mid P_MID VA_steerRequired AA_promptDistracted (1 / 10) 0))]),
     (EV_driverUnresponsive3,
       [(ET_PERMANENT, StaticAlert (Alert ''DISENGAGE IMMEDIATELY'' ''Driver Unresponsive'' AS_critical SZ_full P_HIGH VA_steerRequired AA_warningImmediate (1 / 10) 0))]),
     (EV_manualRestart,
       [(ET_WARNING, StaticAlert (Alert ''TAKE CONTROL'' ''Resume Driving Manually'' AS_userPrompt SZ_mid P_LOW VA_none AA_none (1 / 5) 0))]),
     (EV_resumeRequired,
       [(ET_WARNING, StaticAlert (Alert ''Press Resume to Exit Standstill'' '''' AS_userPrompt SZ_small P_LOW VA_none AA_none (1 / 5) 0))]),
     (EV_belowSteerSpeed,
       [(ET_WARNING, AlertCallback below_steer_speed_alert)]),
     (EV_preLaneChangeLeft,
       [(ET_WARNING, StaticAlert (Alert ''Steer Left to Start Lane Change Once Safe'' '''' AS_normal SZ_small P_LOW VA_none AA_none (1 / 10) 0))]),
     (EV_preLaneChangeRight,
       [(ET_WARNING, StaticAlert (Alert ''Steer Right to Start Lane Change Once Safe'' '''' AS_normal SZ_small P_LOW VA_none AA_none (1 / 10) 0))]),
     (EV_laneChangeBlocked,
       [(ET_WARNING, StaticAlert (Alert ''Car Detected in Blindspot'' '''' AS_userPrompt SZ_small P_LOW VA_none AA_prompt (1 / 10) 0))]),
     (EV_laneChange,
       [(ET_WARNING, StaticAlert (Alert ''Changing Lanes'' '''' AS_normal SZ_small P_LOW VA_none AA_none (1 / 10) 0))]),
     (EV_steerSaturated,
       [(ET_WARNING, StaticAlert (Alert ''Take Control'' ''Turn Exceeds Steering Limit'' AS_userPrompt SZ_mid P_LOW VA_steerRequired AA_promptRepeat 2 0))]),
     (EV_fanMalfunction,
       [(ET_PERMANENT, StaticAlert (NormalPermanentAlert ''Fan Malfunction'' ''Likely Hardware Issue'' (2 / 10) P_LOWER 0))]),
     (EV_cameraMalfunction,
       [(ET_PERMANENT, AlertCallback camera_malfunction_alert),
        (ET_SOFT_DISABLE, AlertCallback (soft_disable_alert ''Camera Malfunction'')),
        (ET_NO_ENTRY, StaticAlert (NoEntryAlert mici ''Camera Malfunction: Reboot Your Device'' ''openpilot Unavailable'' VA_none P_LOW))]),
     (EV_cameraFrameRate,
       [(ET_PERMANENT, StaticAlert (NormalPermanentAlert ''Camera Frame Rate Low'' ''Reboot your Device'' (2 / 10) P_LOWER 0)),
        (ET_SOFT_DISABLE, AlertCallback (soft_disable_alert ''Camera Frame Rate Low'')),
        (ET_NO_ENTRY, StaticAlert (NoEntryAlert mici ''Camera Frame Rate Low: Reboot Your Device'' ''openpilot Unavailable'' VA_none P_LOW))]),
     (EV_locationdTemporaryError,
       [(ET_NO_ENTRY, StaticAlert (NoEntryAlert mici ''locationd Temporary Error'' ''openpilot Unavailable'' VA_none P_LOW)),
        (ET_SOFT_DISABLE, AlertCallback (soft_disable_alert ''locationd Temporary Error''))]),
     (EV_locationdPermanentError,
       [(ET_NO_ENTRY, StaticAlert (NoEntryAlert mici ''locationd Permanent Error'' ''openpilot Unavailable'' VA_none P_LOW)),
        (ET_IMMEDIATE_DISABLE, StaticAlert (ImmediateDisableAlert ''locationd Permanent Error'')),
        (ET_PERMANENT, StaticAlert (NormalPermanentAlert ''locationd Permanent Error'' '''' (2 / 10) P_LOWER 0))]),
     (EV_paramsdTemporaryError,
       [(ET_NO_ENTRY, AlertCallback (paramsd_invalid_alert mici)),
        (ET_SOFT_DISABLE, AlertCallback (soft_disable_alert ''paramsd Temporary Error''))])]"

definition EVENTS_part3 :: "bool \<Rightarrow> (int \<times> (et \<times> cbargs alert_entry) list) list" where
  "EVENTS_part3 mici =
    [(EV_paramsdPermanentError,
       [(ET_NO_ENTRY, StaticAlert (NoEntryAlert mici ''paramsd Permanent Error'' ''openpilot Unavailable'' VA_none P_LOW)),
        (ET_IMMEDIATE_DISABLE, StaticAlert (ImmediateDisableAlert ''paramsd Permanent Error'')),
        (ET_PERMANENT, StaticAlert (NormalPermanentAlert ''paramsd Permanent Error'' '''' (2 / 10) P_LOWER 0))]),
     (EV_pcmEnable,
       [(ET_ENABLE, StaticAlert (EngagementAlert AA_engage))]),
     (EV_buttonEnable,
       [(ET_ENABLE, StaticAlert (EngagementAlert AA_engage))]),
     (EV_pcmDisable,
       [(ET_USER_DISABLE, StaticAlert (EngagementAlert AA_disengage))]),
     (EV_buttonCancel,
       [(ET_USER_DISABLE, StaticAlert (EngagementAlert AA_disengage)),
        (ET_NO_ENTRY, StaticAlert (NoEntryAlert mici ''Cancel Pressed'' ''openpilot Unavailable'' VA_none P_LOW))]),
     (EV_brakeHold,
       [(ET_WARNING, StaticAlert (Alert ''Press Resume to Exit Brake Hold'' '''' AS_userPrompt SZ_small P_LOW VA_none AA_none (1 / 5) 0))]),
     (EV_parkBrake,
       [(ET_USER_DISABLE, StaticAlert (EngagementAlert AA_disengage)),
        (ET_NO_ENTRY, StaticAlert (NoEntryAlert mici ''Parking Brake Engaged'' ''openpilot Unavailable'' VA_none P_LOW))]),
     (EV_pedalPressed,
       [(ET_USER_DISABLE, StaticAlert (EngagementAlert AA_disengage)),
        (ET_NO_ENTRY, StaticAlert (NoEntryAlert mici ''Pedal Pressed'' ''openpilot Unavailable'' VA_brakePressed P_LOW))]),
     (EV_steerDisengage,
       [(ET_USER_DISABLE, StaticAlert (EngagementAlert AA_disengage)),
        (ET_NO_ENTRY, StaticAlert (NoEntryAlert mici ''Steering Pressed'' ''openpilot Unavailable'' VA_none P_LOW))]),
     (EV_preEnableStandstill,
       [(ET_PRE_ENABLE, StaticAlert (Alert ''Release Brake to Engage'' '''' AS_normal SZ_small P_LOWEST VA_none AA_none (1 / 10) 1))]),
     (EV_gasPressedOverride,
       [(ET_OVERRIDE_LONGITUDINAL, StaticAlert (Alert '''' '''' AS_normal SZ_none P_LOWEST VA_none AA_none (1 / 10) 0))]),
     (EV_steerOverride,
       [(ET_OVERRIDE_LATERAL, StaticAlert (Alert '''' '''' AS_normal SZ_none P_LOWEST VA_none AA_none (1 / 10) 0))]),
     (EV_wrongCarMode,
       [(ET_USER_DISABLE, StaticAlert (EngagementAlert AA_disengage)),
        (ET_NO_ENTRY, AlertCallback (wrong_car_mode_alert mici))]),
     (EV_resumeBlocked,
       [(ET_NO_ENTRY, StaticAlert (NoEntryAlert mici ''Press Set to Engage'' ''openpilot Unavailable'' VA_none P_LOW))]),
     (EV_wrongCruiseMode,
       [(ET_USER_DISABLE, StaticAlert (EngagementAlert AA_disengage)),
        (ET_NO_ENTRY, StaticAlert (NoEntryAlert mici ''Adaptive Cruise Disabled'' ''openpilot Unavailable'' VA_none P_LOW))]),
     (EV_steerTempUnavailable,
       [(ET_SOFT_DISABLE, AlertCallback (soft_disable_alert ''Steering Assist Temporarily Unavailable'')),
        (ET_NO_ENTRY, StaticAlert (NoEntryAlert mici ''Steering Temporarily Unavailable'' ''openpilot Unavailable'' VA_none P_LOW))]),
     (EV_steerTimeLimit,
       [(ET_SOFT_DISABLE, AlertCallback (soft_disable_alert ''Vehicle Steering Time Limit'')),
        (ET_NO_ENTRY, StaticAlert (NoEntryAlert mici ''Vehicle Steering Time Limit'' ''openpilot Unavailable'' VA_none P_LOW))]),
     (EV_outOfSpace,
       [(ET_PERMANENT, AlertCallback out_of_space_alert),
        (ET_NO_ENTRY, StaticAlert (NoEntryAlert mici ''Out of Storage'' ''openpilot Unavailable'' VA_none P_LOW))]),
     (EV_belowEngageSpeed,
       [(ET_NO_ENTRY, AlertCallback (below_engage_speed_alert mici))]),
     (EV_sensorDataInvalid,
       [(ET_PERMANENT, StaticAlert (Alert ''Sensor Data Invalid'' ''Possible Hardware Issue'' AS_normal SZ_mid P_LOWER VA_none AA_none (1 / 5) 1)),
        (ET_NO_ENTRY, StaticAlert (NoEntryAlert mici ''Sensor Data Invalid'' ''openpilot Unavailable'' VA_none P_LOW)),
        (ET_SOFT_DISABLE, AlertCallback (soft_disable_alert ''Sensor Data Invalid''))]),
     (EV_noGps, []),
     (EV_tooDistracted,
       [(ET_NO_ENTRY, AlertCallback (too_distracted_alert mici))]),
     (EV_excessiveActuation,
       [(ET_SOFT_DISABLE, AlertCallback (soft_disable_alert ''Excessive Actuation'')),
        (ET_NO_ENTRY, StaticAlert (NoEntryAlert mici ''Excessive Actuation'' ''openpilot Unavailable'' VA_none P_LOW))]),
     (EV_overheat,
       [(ET_PERMANENT, AlertCallback overheat_alert),
        (ET_SOFT_DISABLE, AlertCallback (soft_disable_alert ''System Overheated'')),
        (ET_NO_ENTRY, StaticAlert (NoEntryAlert mici ''System Overheated'' ''openpilot Unavailable'' VA_none P_LOW))]),
     (EV_wrongGear,
       [(ET_SOFT_DISABLE, AlertCallback (user_soft_disable_alert ''Gear not D'')),
        (ET_NO_ENTRY, StaticAlert (NoEntryAlert mici ''Gear not D'' ''openpilot Unavailable'' VA_none P_LOW))])]"

definition EVENTS_part4 :: "bool \<Rightarrow> (int \<times> (et \<times> cbargs alert_entry) list) list" where
  "EVENTS_part4 mici =
    [(EV_calibrationInvalid,
       [(ET_PERMANENT, AlertCallback calibration_invalid_alert),
        (ET_SOFT_DISABLE, AlertCallback (soft_disable_alert ''Calibration Invalid: Remount Device & Recalibrate'')),
        (ET_NO_ENTRY, StaticAlert (NoEntryAlert mici ''Calibration Invalid: Remount Device & Recalibrate'' ''openpilot Unavailable'' VA_none P_LOW))]),
     (EV_calibrationIncomplete,
       [(ET_PERMANENT, AlertCallback calibration_incomplete_alert),
        (ET_SOFT_DISABLE, AlertCallback (soft_disable_alert ''Calibration Incomplete'')),
        (ET_NO_ENTRY, StaticAlert (NoEntryAlert mici ''Calibration in Progress'' ''openpilot Unavailable'' VA_none P_LOW))]),
     (EV_calibrationRecalibrating,
       [(ET_PERMANENT, AlertCallback calibration_incomplete_alert),
        (ET_SOFT_DISABLE, AlertCallback (soft_disable_alert ''Device Remount Detected: Recalibrating'')),
        (ET_NO_ENTRY, StaticAlert (NoEntryAlert mici ''Remount Detected: Recalibrating'' ''openpilot Unavailable'' VA_none P_LOW))]),
     (EV_doorOpen,
       [(ET_SOFT_DISABLE, AlertCallback (user_soft_disable_alert ''Door Open'')),
        (ET_NO_ENTRY, StaticAlert (NoEntryAlert mici ''Door Open'' ''openpilot Unavailable'' VA_none P_LOW))]),
     (EV_seatbeltNotLatched,
       [(ET_SOFT_DISABLE, AlertCallback (user_soft_disable_alert ''Seatbelt Unlatched'')),
        (ET_NO_ENTRY, StaticAlert (NoEntryAlert mici ''Seatbelt Unlatched'' ''openpilot Unavailable'' VA_none P_LOW))]),
     (EV_espDisabled,
       [(ET_SOFT_DISABLE, AlertCallback (soft_disable_alert ''Electronic Stability Control Disabled'')),
        (ET_NO_ENTRY, StaticAlert (NoEntryAlert mici ''Electronic Stability Control Disabled'' ''openpilot Unavailable'' VA_none P_LOW))]),
     (EV_lowBattery,
       [(ET_SOFT_DISABLE, AlertCallback (soft_disable_alert ''Low Battery'')),
        (ET_NO_ENTRY, StaticAlert (NoEntryAlert mici ''Low Battery'' ''openpilot Unavailable'' VA_none P_LOW))]),
     (EV_commIssue,
       [(ET_SOFT_DISABLE, AlertCallback (soft_disable_alert ''Communication Issue Between Processes'')),
        (ET_NO_ENTRY, AlertCallback (comm_issue_alert mici))]),
     (EV_commIssueAvgFreq,
       [(ET_SOFT_DISABLE, AlertCallback (soft_disable_alert ''Low Communication Rate Between Processes'')),
        (ET_NO_ENTRY, StaticAlert (NoEntryAlert mici ''Low Communication Rate Between Processes'' ''openpilot Unavailable'' VA_none P_LOW))]),
     (EV_selfdrivedLagging,
       [(ET_SOFT_DISABLE, AlertCallback (soft_disable_alert ''System Lagging'')),
        (ET_NO_ENTRY, StaticAlert (NoEntryAlert mici ''Selfdrive Process Lagging: Reboot Your Device'' ''openpilot Unavailable'' VA_none P_LOW))]),
     (EV_processNotRunning,
       [(ET_NO_ENTRY, AlertCallback (process_not_running_alert mici)),
        (ET_SOFT_DISABLE, AlertCallback (soft_disable_alert ''Process Not Running''))]),
     (EV_radarFault,
       [(ET_SOFT_DISABLE, AlertCallback (soft_disable_alert ''Radar Error: Restart the Car'')),
        (ET_NO_ENTRY, StaticAlert (NoEntryAlert mici ''Radar Error: Restart the Car'' ''openpilot Unavailable'' VA_none P_LOW))]),
     (EV_radarTempUnavailable,
       [(ET_SOFT_DISABLE, AlertCallback (soft_disable_alert ''Radar Temporarily Unavailable'')),
        (ET_NO_ENTRY, StaticAlert (NoEntryAlert mici ''Radar Temporarily Unavailable'' ''openpilot Unavailable'' VA_none P_LOW))]),
     (EV_modeldLagging,
       [(ET_SOFT_DISABLE, AlertCallback (soft_disable_alert ''Driving Model Lagging'')),
        (ET_NO_ENTRY, StaticAlert (NoEntryAlert mici ''Driving Model Lagging'' ''openpilot Unavailable'' VA_none P_LOW)),
        (ET_PERMANENT, AlertCallback modeld_lagging_alert)]),
     (EV_posenetInvalid,
       [(ET_SOFT_DISABLE, AlertCallback (soft_disable_alert ''Posenet Speed Invalid'')),
        (ET_NO_ENTRY, AlertCallback (posenet_invalid_alert mici))]),
     (EV_deviceFalling,
       [(ET_SOFT_DISABLE, AlertCallback (soft_disable_alert ''Device Fell Off Mount'')),
        (ET_NO_ENTRY, StaticAlert (NoEntryAlert mici ''Device Fell Off Mount'' ''openpilot Unavailable'' VA_none P_LOW))]),
     (EV_lowMemory,
       [(ET_SOFT_DISABLE, AlertCallback (soft_disable_alert ''Low Memory: Reboot Your Device'')),
        (ET_PERMANENT, AlertCallback low_memory_alert),
        (ET_NO_ENTRY, StaticAlert (NoEntryAlert mici ''Low Memory: Reboot Your Device'' ''openpilot Unavailable'' VA_none P_LOW))]),
     (EV_accFaulted,
       [(ET_IMMEDIATE_DISABLE, StaticAlert (ImmediateDisableAlert ''Cruise Fault: Restart the Car'')),
        (ET_PERMANENT, StaticAlert (NormalPermanentAlert ''Cruise Fault: Restart the car to engage'' '''' (2 / 10) P_LOWER 0)),
        (ET_NO_ENTRY, StaticAlert (NoEntryAlert mici ''Cruise Fault: Restart the Car'' ''openpilot Unavailable'' VA_none P_LOW))]),
     (EV_espActive,
       [(ET_SOFT_DISABLE, AlertCallback (soft_disable_alert ''Electronic Stability Control Active'')),
        (ET_NO_ENTRY, StaticAlert (NoEntryAlert mici ''Electronic Stability Control Active'' ''openpilot Unavailable'' VA_none P_LOW))]),
     (EV_controlsMismatch,
       [(ET_IMMEDIATE_DISABLE, StaticAlert (ImmediateDisableAlert ''Controls Mismatch'')),
        (ET_NO_ENTRY, StaticAlert (NoEntryAlert mici ''Controls Mismatch'' ''openpilot Unavailable'' VA_none P_LOW))]),
     (EV_usbError,
       [(ET_SOFT_DISABLE, AlertCallback (soft_disable_alert ''USB Error: Reboot Your Device'')),
        (ET_PERMANENT, StaticAlert (NormalPermanentAlert ''USB Error: Reboot Your Device'' '''' (2 / 10) P_LOWER 0)),
        (ET_NO_ENTRY, StaticAlert (NoEntryAlert mici ''USB Error: Reboot Your Device'' ''openpilot Unavailable'' VA_none P_LOW))])]"

definition EVENTS_part5 :: "bool \<Rightarrow> (int \<times> (et \<times> cbargs alert_entry) list) list" where
  "EVENTS_part5 mici =
    [(EV_canError,
       [(ET_IMMEDIATE_DISABLE, StaticAlert (ImmediateDisableAlert ''Unknown Vehicle Variant'')),
        (ET_PERMANENT, StaticAlert (Alert ''Unknown Vehicle Variant'' '''' AS_normal SZ_small P_LOW VA_none AA_none 1 1)),
        (ET_NO_ENTRY, StaticAlert (NoEntryAlert mici ''Unknown Vehicle Variant'' ''openpilot Unavailable'' VA_none P_LOW))]),
     (EV_canBusMissing,
       [(ET_IMMEDIATE_DISABLE, StaticAlert (ImmediateDisableAlert ''CAN Bus Disconnected'')),
        (ET_PERMANENT, StaticAlert (Alert ''CAN Bus Disconnected: Likely Faulty Cable'' '''' AS_normal SZ_small P_LOW VA_none AA_none 1 1)),
        (ET_NO_ENTRY, StaticAlert (NoEntryAlert mici ''CAN Bus Disconnected: Check Connections'' ''openpilot Unavailable'' VA_none P_LOW))]),
     (EV_steerUnavailable,
       [(ET_IMMEDIATE_DISABLE, StaticAlert (ImmediateDisableAlert ''LKAS Fault: Restart the Car'')),
        (ET_PERMANENT, StaticAlert (NormalPermanentAlert ''LKAS Fault: Restart the car to engage'' '''' (2 / 10) P_LOWER 0)),
        (ET_NO_ENTRY, StaticAlert (NoEntryAlert mici ''LKAS Fault: Restart the Car'' ''openpilot Unavailable'' VA_none P_LOW))]),
     (EV_reverseGear,
       [(ET_PERMANENT, StaticAlert (Alert (''Reverse'' @ [CHR 0x0A] @ ''Gear'') '''' AS_normal SZ_full P_LOWEST VA_none AA_none (1 / 5) (1 / 2))),
        (ET_USER_DISABLE, StaticAlert (ImmediateDisableAlert ''Reverse Gear'')),
        (ET_NO_ENTRY, StaticAlert (NoEntryAlert mici ''Reverse Gear'' ''openpilot Unavailable'' VA_none P_LOW))]),
     (EV_cruiseDisabled,
       [(ET_IMMEDIATE_DISABLE, StaticAlert (ImmediateDisableAlert ''Cruise Is Off''))]),
     (EV_relayMalfunction,
       [(ET_IMMEDIATE_DISABLE, StaticAlert (ImmediateDisableAlert ''Harness Relay Malfunction'')),
        (ET_PERMANENT, StaticAlert (NormalPermanentAlert ''Harness Relay Malfunction'' ''Check Hardware'' (2 / 10) P_LOWER 0)),
        (ET_NO_ENTRY, StaticAlert (NoEntryAlert mici ''Harness Relay Malfunction'' ''openpilot Unavailable'' VA_none P_LOW))]),
     (EV_speedTooLow,
       [(ET_IMMEDIATE_DISABLE, StaticAlert (Alert ''openpilot Canceled'' ''Speed too low'' AS_normal SZ_mid P_HIGH VA_none AA_disengage 3 0))]),
     (EV_speedTooHigh,
       [(ET_WARNING, StaticAlert (Alert ''Speed Too High'' ''Model uncertain at this speed'' AS_userPrompt SZ_mid P_HIGH VA_steerRequired AA_promptRepeat 4 0)),
        (ET_NO_ENTRY, StaticAlert (NoEntryAlert mici ''Slow down to engage'' ''openpilot Unavailable'' VA_none P_LOW))]),
     (EV_vehicleSensorsInvalid,
       [(ET_IMMEDIATE_DISABLE, StaticAlert (ImmediateDisableAlert ''Vehicle Sensors Invalid'')),
        (ET_PERMANENT, StaticAlert (NormalPermanentAlert ''Vehicle Sensors Calibrating'' ''Drive to Calibrate'' (2 / 10) P_LOWER 0)),
        (ET_NO_ENTRY, StaticAlert (NoEntryAlert mici ''Vehicle Sensors Calibrating'' ''openpilot Unavailable'' VA_none P_LOW))]),
     (EV_personalityChanged,
       [(ET_WARNING, AlertCallback personality_changed_alert)]),
     (EV_userBookmark,
       [(ET_PERMANENT, StaticAlert (NormalPermanentAlert ''Bookmark Saved'' '''' (3 / 2) P_LOWER 0))]),
     (EV_audioFeedback,
       [(ET_PERMANENT, AlertCallback audio_feedback_alert)])]"

definition EVENTS_mici :: "bool \<Rightarrow> (int \<times> (et \<times> cbargs alert_entry) list) list" where
  "EVENTS_mici mici =
    [(EV_driverDistracted1,
       [(ET_PERMANENT, StaticAlert (Alert ''Pay Attention'' '''' AS_normal SZ_small P_LOW VA_none AA_preAlert 2 0))]),
     (EV_driverDistracted2,
       [(ET_PERMANENT, StaticAlert (Alert ''Pay Attention'' ''Driver Distracted'' AS_userPrompt SZ_mid P_MID VA_steerRequired AA_promptDistracted 1 0))]),
     (EV_resumeRequired,
       [(ET_WARNING, StaticAlert (Alert ''Press Resume'' '''' AS_userPrompt SZ_small P_LOW VA_none AA_none (1 / 5) 0))]),
     (EV_preLaneChangeLeft,
       [(ET_WARNING, StaticAlert (Alert ''Steer Left'' ''Confirm Lane Change'' AS_normal SZ_mid P_LOW VA_none AA_none (1 / 10) 0))]),
     (EV_preLaneChangeRight,
       [(ET_WARNING, StaticAlert (Alert ''Steer Right'' ''Confirm Lane Change'' AS_normal SZ_mid P_LOW VA_none AA_none (1 / 10) 0))]),
     (EV_laneChangeBlocked,
       [(ET_WARNING, StaticAlert (Alert ''Car in Blindspot'' '''' AS_userPrompt SZ_small P_LOW VA_none AA_prompt (1 / 10) 0))]),
     (EV_steerSaturated,
       [(ET_WARNING, StaticAlert (Alert ''take control'' ''turn exceeds limit'' AS_userPrompt SZ_mid P_LOW VA_steerRequired AA_promptRepeat 2 0))]),
     (EV_calibrationIncomplete,
       [(ET_PERMANENT, AlertCallback calibration_incomplete_alert),
        (ET_SOFT_DISABLE, AlertCallback (soft_disable_alert ''Calibration Incomplete'')),
        (ET_NO_ENTRY, StaticAlert (NoEntryAlert mici ''Calibrating'' ''openpilot Unavailable'' VA_none P_LOW))]),
     (EV_reverseGear,
       [(ET_PERMANENT, StaticAlert (Alert ''Reverse'' '''' AS_normal SZ_full P_LOWEST VA_none AA_none (1 / 5) (1 / 2))),
        (ET_USER_DISABLE, StaticAlert (ImmediateDisableAlert ''Reverse'')),
        (ET_NO_ENTRY, StaticAlert (NoEntryAlert mici ''Reverse'' ''openpilot Unavailable'' VA_none P_LOW))])]"

definition EVENTS_list :: "bool \<Rightarrow> (int \<times> (et \<times> cbargs alert_entry) list) list" where
  "EVENTS_list mici =
     (if mici then EVENTS_mici mici else []) @ EVENTS_part1 mici @ EVENTS_part2 mici @ EVENTS_part3 mici @ EVENTS_part4 mici @ EVENTS_part5 mici"

definition EVENTS :: "bool \<Rightarrow> cbargs events_mapping" where
  "EVENTS mici = map_of (EVENTS_list mici)"

subsection \<open>Lemmas about all entries\<close>

lemmas EVENTS_parts = EVENTS_list_def EVENTS_mici_def EVENTS_part1_def EVENTS_part2_def
  EVENTS_part3_def EVENTS_part4_def EVENTS_part5_def

text \<open>The event types of every entry, without the alerts.\<close>

definition type_table :: "(int \<times> (et \<times> 'c alert_entry) list) list \<Rightarrow> (int \<times> et list) list" where
  "type_table xs = map (\<lambda>(e, al). (e, map fst al)) xs"

lemma types_of_map_of: "types_of (map_of xs) e = dict_get (map_of (type_table xs)) e []"
  by (induction xs) (auto simp: types_of_def dict_get_def type_table_def split: if_splits)

definition EVENTS_types :: "bool \<Rightarrow> (int \<times> et list) list" where
  "EVENTS_types mici = type_table (EVENTS_list mici)"

lemma types_of_EVENTS: "types_of (EVENTS m) e = dict_get (map_of (EVENTS_types m)) e []"
  by (simp add: EVENTS_def EVENTS_types_def types_of_map_of)

definition EVENTS_main_types :: "(int \<times> et list) list" where
  "EVENTS_main_types = [
     (EV_stockFcw, []),
     (EV_actuatorsApiUnavailable, []),
     (EV_joystickDebug, [ET_WARNING, ET_PERMANENT]),
     (EV_longitudinalManeuver, [ET_WARNING, ET_PERMANENT]),
     (EV_lateralManeuver, [ET_WARNING, ET_PERMANENT]),
     (EV_selfdriveInitializing, [ET_NO_ENTRY]),
     (EV_startup, [ET_PERMANENT]),
     (EV_startupMaster, [ET_PERMANENT]),
     (EV_startupNoControl, [ET_PERMANENT, ET_NO_ENTRY]),
     (EV_startupNoCar, [ET_PERMANENT]),
     (EV_startupNoSecOcKey, [ET_PERMANENT]),
     (EV_dashcamMode, [ET_PERMANENT]),
     (EV_invalidLkasSetting, [ET_PERMANENT, ET_NO_ENTRY]),
     (EV_cruiseMismatch, []),
     (EV_carUnrecognized, [ET_PERMANENT]),
     (EV_aeb, [ET_PERMANENT, ET_NO_ENTRY]),
     (EV_stockAeb, [ET_PERMANENT, ET_NO_ENTRY]),
     (EV_stockLkas, [ET_NO_ENTRY]),
     (EV_fcw, [ET_PERMANENT]),
     (EV_ldw, [ET_PERMANENT]),
     (EV_steerTempUnavailableSilent, [ET_WARNING]),
     (EV_driverDistracted1, [ET_PERMANENT]),
     (EV_driverDistracted2, [ET_PERMANENT]),
     (EV_driverDistracted3, [ET_PERMANENT]),
     (EV_driverUnresponsive1, [ET_PERMANENT]),
     (EV_driverUnresponsive2, [ET_PERMANENT]),
     (EV_driverUnresponsive3, [ET_PERMANENT]),
     (EV_manualRestart, [ET_WARNING]),
     (EV_resumeRequired, [ET_WARNING]),
     (EV_belowSteerSpeed, [ET_WARNING]),
     (EV_preLaneChangeLeft, [ET_WARNING]),
     (EV_preLaneChangeRight, [ET_WARNING]),
     (EV_laneChangeBlocked, [ET_WARNING]),
     (EV_laneChange, [ET_WARNING]),
     (EV_steerSaturated, [ET_WARNING]),
     (EV_fanMalfunction, [ET_PERMANENT]),
     (EV_cameraMalfunction, [ET_PERMANENT, ET_SOFT_DISABLE, ET_NO_ENTRY]),
     (EV_cameraFrameRate, [ET_PERMANENT, ET_SOFT_DISABLE, ET_NO_ENTRY]),
     (EV_locationdTemporaryError, [ET_NO_ENTRY, ET_SOFT_DISABLE]),
     (EV_locationdPermanentError, [ET_NO_ENTRY, ET_IMMEDIATE_DISABLE, ET_PERMANENT]),
     (EV_paramsdTemporaryError, [ET_NO_ENTRY, ET_SOFT_DISABLE]),
     (EV_paramsdPermanentError, [ET_NO_ENTRY, ET_IMMEDIATE_DISABLE, ET_PERMANENT]),
     (EV_pcmEnable, [ET_ENABLE]),
     (EV_buttonEnable, [ET_ENABLE]),
     (EV_pcmDisable, [ET_USER_DISABLE]),
     (EV_buttonCancel, [ET_USER_DISABLE, ET_NO_ENTRY]),
     (EV_brakeHold, [ET_WARNING]),
     (EV_parkBrake, [ET_USER_DISABLE, ET_NO_ENTRY]),
     (EV_pedalPressed, [ET_USER_DISABLE, ET_NO_ENTRY]),
     (EV_steerDisengage, [ET_USER_DISABLE, ET_NO_ENTRY]),
     (EV_preEnableStandstill, [ET_PRE_ENABLE]),
     (EV_gasPressedOverride, [ET_OVERRIDE_LONGITUDINAL]),
     (EV_steerOverride, [ET_OVERRIDE_LATERAL]),
     (EV_wrongCarMode, [ET_USER_DISABLE, ET_NO_ENTRY]),
     (EV_resumeBlocked, [ET_NO_ENTRY]),
     (EV_wrongCruiseMode, [ET_USER_DISABLE, ET_NO_ENTRY]),
     (EV_steerTempUnavailable, [ET_SOFT_DISABLE, ET_NO_ENTRY]),
     (EV_steerTimeLimit, [ET_SOFT_DISABLE, ET_NO_ENTRY]),
     (EV_outOfSpace, [ET_PERMANENT, ET_NO_ENTRY]),
     (EV_belowEngageSpeed, [ET_NO_ENTRY]),
     (EV_sensorDataInvalid, [ET_PERMANENT, ET_NO_ENTRY, ET_SOFT_DISABLE]),
     (EV_noGps, []),
     (EV_tooDistracted, [ET_NO_ENTRY]),
     (EV_excessiveActuation, [ET_SOFT_DISABLE, ET_NO_ENTRY]),
     (EV_overheat, [ET_PERMANENT, ET_SOFT_DISABLE, ET_NO_ENTRY]),
     (EV_wrongGear, [ET_SOFT_DISABLE, ET_NO_ENTRY]),
     (EV_calibrationInvalid, [ET_PERMANENT, ET_SOFT_DISABLE, ET_NO_ENTRY]),
     (EV_calibrationIncomplete, [ET_PERMANENT, ET_SOFT_DISABLE, ET_NO_ENTRY]),
     (EV_calibrationRecalibrating, [ET_PERMANENT, ET_SOFT_DISABLE, ET_NO_ENTRY]),
     (EV_doorOpen, [ET_SOFT_DISABLE, ET_NO_ENTRY]),
     (EV_seatbeltNotLatched, [ET_SOFT_DISABLE, ET_NO_ENTRY]),
     (EV_espDisabled, [ET_SOFT_DISABLE, ET_NO_ENTRY]),
     (EV_lowBattery, [ET_SOFT_DISABLE, ET_NO_ENTRY]),
     (EV_commIssue, [ET_SOFT_DISABLE, ET_NO_ENTRY]),
     (EV_commIssueAvgFreq, [ET_SOFT_DISABLE, ET_NO_ENTRY]),
     (EV_selfdrivedLagging, [ET_SOFT_DISABLE, ET_NO_ENTRY]),
     (EV_processNotRunning, [ET_NO_ENTRY, ET_SOFT_DISABLE]),
     (EV_radarFault, [ET_SOFT_DISABLE, ET_NO_ENTRY]),
     (EV_radarTempUnavailable, [ET_SOFT_DISABLE, ET_NO_ENTRY]),
     (EV_modeldLagging, [ET_SOFT_DISABLE, ET_NO_ENTRY, ET_PERMANENT]),
     (EV_posenetInvalid, [ET_SOFT_DISABLE, ET_NO_ENTRY]),
     (EV_deviceFalling, [ET_SOFT_DISABLE, ET_NO_ENTRY]),
     (EV_lowMemory, [ET_SOFT_DISABLE, ET_PERMANENT, ET_NO_ENTRY]),
     (EV_accFaulted, [ET_IMMEDIATE_DISABLE, ET_PERMANENT, ET_NO_ENTRY]),
     (EV_espActive, [ET_SOFT_DISABLE, ET_NO_ENTRY]),
     (EV_controlsMismatch, [ET_IMMEDIATE_DISABLE, ET_NO_ENTRY]),
     (EV_usbError, [ET_SOFT_DISABLE, ET_PERMANENT, ET_NO_ENTRY]),
     (EV_canError, [ET_IMMEDIATE_DISABLE, ET_PERMANENT, ET_NO_ENTRY]),
     (EV_canBusMissing, [ET_IMMEDIATE_DISABLE, ET_PERMANENT, ET_NO_ENTRY]),
     (EV_steerUnavailable, [ET_IMMEDIATE_DISABLE, ET_PERMANENT, ET_NO_ENTRY]),
     (EV_reverseGear, [ET_PERMANENT, ET_USER_DISABLE, ET_NO_ENTRY]),
     (EV_cruiseDisabled, [ET_IMMEDIATE_DISABLE]),
     (EV_relayMalfunction, [ET_IMMEDIATE_DISABLE, ET_PERMANENT, ET_NO_ENTRY]),
     (EV_speedTooLow, [ET_IMMEDIATE_DISABLE]),
     (EV_speedTooHigh, [ET_WARNING, ET_NO_ENTRY]),
     (EV_vehicleSensorsInvalid, [ET_IMMEDIATE_DISABLE, ET_PERMANENT, ET_NO_ENTRY]),
     (EV_personalityChanged, [ET_WARNING]),
     (EV_userBookmark, [ET_PERMANENT]),
     (EV_audioFeedback, [ET_PERMANENT])]"

definition EVENTS_mici_types :: "(int \<times> et list) list" where
  "EVENTS_mici_types = [
     (EV_driverDistracted1, [ET_PERMANENT]),
     (EV_driverDistracted2, [ET_PERMANENT]),
     (EV_resumeRequired, [ET_WARNING]),
     (EV_preLaneChangeLeft, [ET_WARNING]),
     (EV_preLaneChangeRight, [ET_WARNING]),
     (EV_laneChangeBlocked, [ET_WARNING]),
     (EV_steerSaturated, [ET_WARNING]),
     (EV_calibrationIncomplete, [ET_PERMANENT, ET_SOFT_DISABLE, ET_NO_ENTRY]),
     (EV_reverseGear, [ET_PERMANENT, ET_USER_DISABLE, ET_NO_ENTRY])]"

lemma EVENTS_types_eq:
  "EVENTS_types d = (if d then EVENTS_mici_types else []) @ EVENTS_main_types"
  by (cases d)
    (simp_all only: EVENTS_types_def type_table_def EVENTS_parts EVENTS_main_types_def
      EVENTS_mici_types_def list.map append.simps prod.case fst_conv if_True if_False)

lemmas EVENTS_type_lists = EVENTS_types_eq EVENTS_main_types_def EVENTS_mici_types_def

text \<open>The types of one event, by evaluation of the type lists.\<close>

lemma event_types_by:
  assumes "dict_get (map_of EVENTS_main_types) e [] = ts" "map_of EVENTS_mici_types e = None"
  shows "types_of (EVENTS d) e = ts"
  using assms by (simp add: types_of_EVENTS EVENTS_types_eq dict_get_def map_add_def split: option.splits)

text \<open>A property of all entries of a table holds of every event's types.\<close>

lemma table_all:
  assumes "\<forall>(k, ts) \<in> set T. P k ts" "\<And>k. P k []"
  shows "P e (dict_get (map_of T) e [])"
  using assms by (cases "map_of T e") (auto simp: dict_get_def dest!: map_of_SomeD)

lemma EVENTS_types_distinct: "\<forall>(k, ts) \<in> set (EVENTS_types m). distinct ts"
  by (cases m) (simp_all add: EVENTS_type_lists)

lemma EVENTS_distinct: "distinct (types_of (EVENTS m) e)"
  unfolding types_of_EVENTS by (rule table_all [OF EVENTS_types_distinct]) simp

interpretation ev: event_mapping "EVENTS m" for m
  by unfold_locales (rule EVENTS_distinct)

subsection \<open>Runs of operations on an event store\<close>

datatype ev_op = OpAdd bool int | OpRemove bool int | OpClear | OpAddFromMsg "event_msg list"

fun ev_exec :: "'c events_mapping \<Rightarrow> events_base \<Rightarrow> ev_op \<Rightarrow> events_base" where
  "ev_exec M s (OpAdd static e) = ev_add M static s e"
| "ev_exec M s (OpRemove static e) = ev_remove M static s e"
| "ev_exec M s OpClear = ev_clear s"
| "ev_exec M s (OpAddFromMsg ms) = ev_add_from_msg M s ms"

text \<open>The same operations on the pair of bags (current events, static events).\<close>

fun bag_exec :: "int multiset \<times> int multiset \<Rightarrow> ev_op \<Rightarrow> int multiset \<times> int multiset" where
  "bag_exec (b, sb) (OpAdd static e) = (add_mset e b, if static then add_mset e sb else sb)"
| "bag_exec (b, sb) (OpRemove static e) = (b - {#e#}, if static then sb - {#e#} else sb)"
| "bag_exec (b, sb) OpClear = (sb, sb)"
| "bag_exec (b, sb) (OpAddFromMsg ms) = (b + mset (map fst ms), sb)"

definition bags :: "events_base \<Rightarrow> int multiset \<times> int multiset" where
  "bags s = (ev_bag s, ev_static_bag s)"

lemma add_from_msg_static: "ev_wf (EVENTS d) s \<Longrightarrow> ev_static_bag (ev_add_from_msg (EVENTS d) s ms) = ev_static_bag s"
proof (induction ms arbitrary: s)
  case (Cons m ms)
  have "ev_static_bag (ev_add_msg (EVENTS d) s m) = ev_static_bag s"
    using Cons.prems by (simp add: ev_add_msg_def ev_insert_refines EVENTS_distinct)
      (simp add: ev_static_bag_def)
  with Cons show ?case by (simp add: ev_add_from_msg_def ev.add_msg_refines)
qed (simp add: ev_add_from_msg_def)

lemma ev_exec_refines:
  assumes "ev_wf (EVENTS d) s"
  shows "ev_wf (EVENTS d) (ev_exec (EVENTS d) s op)"
    and "bags (ev_exec (EVENTS d) s op) = bag_exec (bags s) op"
  using assms
  by (cases op; simp add: bags_def ev_add_refines ev_remove_refines ev_clear_refines EVENTS_distinct
      ev.add_from_msg_refines add_from_msg_static)+

interpretation ev_run: frame_machine "ev_exec (EVENTS d)" "\<lambda>_. True" "ev_wf (EVENTS d)" for d
  by unfold_locales (rule ev_exec_refines(1))

lemma ev_run_bags:
  "ev_wf (EVENTS d) s \<Longrightarrow> bags (frames (ev_exec (EVENTS d)) s ops) = frames bag_exec (bags s) ops"
  by (induction ops arbitrary: s) (simp_all add: ev_exec_refines)

subsection \<open>Properties\<close>

text \<open>
  C7. The counting caches never go stale: after any sequence of \<open>add\<close>, \<open>remove\<close>, \<open>clear\<close> and
  \<open>add_from_msg\<close> on a new \<open>Events\<close> object, its events are exactly those the abstract bags
  hold, \<open>has\<close> is membership, \<open>contains\<close> finds a type exactly when an event of the bag carries
  it in the event table, and the event list is sorted.
\<close>

theorem event_store_refines_bags:
  "let s = frames (ev_exec (EVENTS d)) (events_init ks) ops;
       (b, sb) = frames bag_exec ({#}, {#}) ops
   in mset (eb_events s) = b \<and> mset (eb_static_events s) = sb \<and> sorted (eb_events s) \<and>
      (\<forall>e. ev_has s e \<longleftrightarrow> e \<in># b) \<and>
      (\<forall>t. ev_contains s t \<longleftrightarrow> (\<exists>e. e \<in># b \<and> t \<in> set (types_of (EVENTS d) e)))"
proof -
  let ?s = "frames (ev_exec (EVENTS d)) (events_init ks) ops"
  have wf: "ev_wf (EVENTS d) ?s" by (rule ev_run.run_inv) simp_all
  have "frames bag_exec ({#}, {#}) ops = (ev_bag ?s, ev_static_bag ?s)"
    using ev_run_bags [of d "events_init ks" ops] by (simp add: bags_def)
  then show ?thesis
    using ev_wfD(1) [OF wf]
    by (simp add: Let_def Bex_def ev.has_bag [OF wf] ev.contains_bag [OF wf] flip: ev_bag_def ev_static_bag_def)
qed

text \<open>
  Publishing and reading back: the events a store publishes with \<open>to_msg\<close> and another,
  empty store reads with \<open>add_from_msg\<close> are the same list of events.
\<close>

theorem events_msg_roundtrip:
  "eb_events (ev_add_from_msg (EVENTS d) (events_init ks')
     (ev_to_msg (EVENTS d) (frames (ev_exec (EVENTS d)) (events_init ks) ops))) =
   eb_events (frames (ev_exec (EVENTS d)) (events_init ks) ops)"
  by (rule ev.msg_roundtrip) (simp_all add: ev_run.run_inv)

text \<open>Every event of the table has a name.\<close>

lemma EVENTS_types_None: "EVENTS d e = None \<longleftrightarrow> map_of (EVENTS_types d) e = None"
  by (auto simp: EVENTS_def EVENTS_types_def type_table_def map_of_eq_None_iff image_iff case_prod_beta)

lemma EVENTS_named:
  assumes "EVENTS d e \<noteq> None"
  shows "EVENT_NAME e \<noteq> None"
proof -
  have "\<forall>(k, ts) \<in> set (EVENTS_types d). 0 \<le> k \<and> k \<le> 99"
    by (cases d) (simp_all add: EVENTS_type_lists)
  moreover obtain ts where "(e, ts) \<in> set (EVENTS_types d)"
    using assms by (auto simp: EVENTS_types_None dest: map_of_SomeD)
  ultimately show ?thesis unfolding EVENT_NAME_iff by fastforce
qed

text \<open>
  C10. Creating alerts never fails on events of the table, and the alerts created are exactly those
  the table gives for an event of the store under a requested event type, with the text, status and
  sound of the entry (or of its callback on the arguments), as soon as the event has lasted for the
  creation delay of the alert; each is labelled with the name of its event and its type.
\<close>

theorem create_alerts_from_table:
  assumes "\<forall>e \<in> set (eb_events s). EVENTS d e \<noteq> None"
  shows "\<exists>al. create_alerts (EVENTS d) EVENT_NAME s ts args = Inr al \<and>
    (\<forall>a. a \<in> set al \<longleftrightarrow>
       (\<exists>e \<in> set (eb_events s). \<exists>t \<in> set ts. \<exists>x. map_of (the (EVENTS d e)) t = Some x \<and>
          al_creation_delay (entry_alert x args) \<le> DT_CTRL * (of_int (dict_get (eb_event_counters s) e 0) + 1) \<and>
          a = (entry_alert x args)\<lparr>al_type := the (EVENT_NAME e) @ ''/'' @ et_str t, al_event_type := Some t\<rparr>))"
proof -
  have ok: "\<And>e. e \<in> set (eb_events s) \<Longrightarrow> EVENTS d e \<noteq> None \<and> EVENT_NAME e \<noteq> None" using assms EVENTS_named by blast
  then obtain al where al: "create_alerts (EVENTS d) EVENT_NAME s ts args = Inr al"
    using create_alerts_ok [of s "EVENTS d" EVENT_NAME] by blast
  then have "create_alerts_loop (EVENTS d) EVENT_NAME (eb_event_counters s) ts args (eb_events s) = Inr al"
    by (simp add: create_alerts_def)
  from create_alerts_loop_set [OF this ok] al show ?thesis unfolding alert_due_def alert_of_def by blast
qed

theorem create_alerts_from_table_witness:
  "\<forall>args. \<exists>al. create_alerts (EVENTS False) EVENT_NAME
     (ev_add (EVENTS False) False (events_init []) EV_overheat) [ET_SOFT_DISABLE] args = Inr al"
proof -
  have e: "eb_events (ev_add (EVENTS False) False (events_init []) EV_overheat) = [EV_overheat]"
    by (simp add: ev_add_def ev_insert_def events_init_def bisect_insort_eq Let_def case_prod_beta)
  have "EVENTS False EV_overheat \<noteq> None"
    by (simp add: EVENTS_types_None EVENTS_type_lists)
  with e have "\<forall>e \<in> set (eb_events (ev_add (EVENTS False) False (events_init []) EV_overheat)).
      EVENTS False e \<noteq> None" by simp
  from create_alerts_from_table [OF this, of "[ET_SOFT_DISABLE]"] show ?thesis by blast
qed

end
