(* ===== verification/Events_SP_Table.thy ===== *)
theory Events_SP_Table
  imports Events_Table
begin

text \<open>
  The sunnypilot events of \<open>sunnypilot/selfdrive/selfdrived/events.py\<close>: its alert callbacks, the
  table \<open>EVENTS_SP\<close> and \<open>StateMachineEvents\<close>, the view through which the main state machine
  sees the two stores.
\<close>

subsection \<open>Alert callbacks\<close>

definition PCM_LONG_REQUIRED_MAX_SET_SPEED :: "bool \<Rightarrow> real \<times> real" where
  "PCM_LONG_REQUIRED_MAX_SET_SPEED metric =
     (if metric then (333333 / 10000, 361111 / 10000) else (312928 / 10000, 357632 / 10000))"

definition CONFIRM_SPEED_THRESHOLD :: "bool \<Rightarrow> int" where
  "CONFIRM_SPEED_THRESHOLD metric = (if metric then 80 else 50)"

definition speed_limit_adjust_alert :: "cbargs \<Rightarrow> alert" where
  "speed_limit_adjust_alert c =
     (let speed = py_round (cb_resolver_speedLimit c * (if cb_metric c then MS_TO_KPH else MS_TO_MPH))
      in Alert (''Adjusting to '' @ py_str_int speed @ '' '' @ (if cb_metric c then ''km/h'' else ''mph'') @
                '' speed limit'') '''' AS_normal SZ_small P_LOW VA_none AA_none 4 0)"

definition speed_limit_pre_active_alert :: "bool \<Rightarrow> cbargs \<Rightarrow> alert" where
  "speed_limit_pre_active_alert mici c =
     (let speed_conv = (if cb_metric c then MS_TO_KPH else MS_TO_MPH);
          v_cruise_cluster = cb_vCruiseCluster c;
          set_speed = (if v_cruise_cluster = 0 then cb_controls_vCruise c else v_cruise_cluster);
          set_speed_conv = py_round (set_speed * speed_conv);
          final_last_conv = py_round (cb_resolver_speedLimitFinalLast c * speed_conv);
          (alert_1_str, sz) =
            (if cb_openpilotLongitudinalControl c \<and> cb_pcmCruise c then
               (let (cst_low, cst_high) = PCM_LONG_REQUIRED_MAX_SET_SPEED (cb_metric c);
                    required_max = (if final_last_conv < CONFIRM_SPEED_THRESHOLD (cb_metric c)
                                    then cst_low else cst_high);
                    required_conv = py_round (required_max * speed_conv)
                in (''Speed Limit Assist: set to '' @ py_str_int required_conv @ '' '' @
                    (if cb_metric c then ''km/h'' else ''mph'') @ '' to engage'', SZ_small))
             else if mici then
               (if set_speed_conv < final_last_conv then ''Press + to confirm speed limit''
                else if set_speed_conv > final_last_conv then ''Press - to confirm speed limit''
                else '''', SZ_small)
             else ('''', SZ_none))
      in Alert alert_1_str '''' AS_normal sz P_LOW VA_none AA_promptSingleLow (1 / 10) 0)"

subsection \<open>The table\<close>

definition EVENTS_SP_part1 :: "bool \<Rightarrow> (int \<times> (et \<times> cbargs alert_entry) list) list" where
  "EVENTS_SP_part1 mici =
    [(SP_lkasEnable,
       [(ET_ENABLE, StaticAlert (EngagementAlert AA_engage))]),
     (SP_lkasDisable,
       [(ET_USER_DISABLE, StaticAlert (EngagementAlert AA_disengage))]),
     (SP_manualSteeringRequired,
       [(ET_USER_DISABLE, StaticAlert (Alert ''Automatic Lane Centering is OFF'' ''Manual Steering Required'' AS_normal SZ_mid P_LOW VA_none AA_disengage 1 0))]),
     (SP_manualLongitudinalRequired,
       [(ET_WARNING, StaticAlert (Alert ''Smart/Adaptive Cruise Control: OFF'' ''Manual Speed Control Required'' AS_normal SZ_mid P_LOW VA_none AA_none 1 0))]),
     (SP_silentLkasEnable,
       [(ET_ENABLE, StaticAlert (EngagementAlert AA_none))]),
     (SP_silentLkasDisable,
       [(ET_USER_DISABLE, StaticAlert (EngagementAlert AA_none))]),
     (SP_silentBrakeHold,
       [(ET_WARNING, StaticAlert (EngagementAlert AA_none)),
        (ET_NO_ENTRY, StaticAlert (NoEntryAlert mici ''Brake Hold Active'' ''openpilot Unavailable'' VA_none P_LOW))]),
     (SP_silentWrongGear,
       [(ET_WARNING, StaticAlert (Alert '''' '''' AS_normal SZ_none P_LOWEST VA_none AA_none 0 0)),
        (ET_NO_ENTRY, StaticAlert (Alert ''Gear not D'' ''openpilot Unavailable'' AS_normal SZ_mid P_LOW VA_none AA_none 0 0))]),
     (SP_silentReverseGear,
       [(ET_PERMANENT, StaticAlert (Alert (''Reverse'' @ [CHR 0x0A] @ ''Gear'') '''' AS_normal SZ_full P_LOWEST VA_none AA_none (1 / 5) (1 / 2))),
        (ET_NO_ENTRY, StaticAlert (NoEntryAlert mici ''Reverse Gear'' ''openpilot Unavailable'' VA_none P_LOW))]),
     (SP_silentDoorOpen,
       [(ET_WARNING, StaticAlert (Alert '''' '''' AS_normal SZ_none P_LOWEST VA_none AA_none 0 0)),
        (ET_NO_ENTRY, StaticAlert (NoEntryAlert mici ''Door Open'' ''openpilot Unavailable'' VA_none P_LOW))]),
     (SP_silentSeatbeltNotLatched,
       [(ET_WARNING, StaticAlert (Alert '''' '''' AS_normal SZ_none P_LOWEST VA_none AA_none 0 0)),
        (ET_NO_ENTRY, StaticAlert (NoEntryAlert mici ''Seatbelt Unlatched'' ''openpilot Unavailable'' VA_none P_LOW))]),
     (SP_silentParkBrake,
       [(ET_WARNING, StaticAlert (Alert '''' '''' AS_normal SZ_none P_LOWEST VA_none AA_none 0 0)),
        (ET_NO_ENTRY, StaticAlert (NoEntryAlert mici ''Parking Brake Engaged'' ''openpilot Unavailable'' VA_none P_LOW))])]"

definition EVENTS_SP_part2 :: "bool \<Rightarrow> (int \<times> (et \<times> cbargs alert_entry) list) list" where
  "EVENTS_SP_part2 mici =
    [(SP_controlsMismatchLateral,
       [(ET_IMMEDIATE_DISABLE, StaticAlert (ImmediateDisableAlert ''Controls Mismatch: Lateral'')),
        (ET_NO_ENTRY, StaticAlert (NoEntryAlert mici ''Controls Mismatch: Lateral'' ''openpilot Unavailable'' VA_none P_LOW))]),
     (SP_experimentalModeSwitched,
       [(ET_WARNING, StaticAlert (NormalPermanentAlert ''Experimental Mode Switched'' '''' (3 / 2) P_LOWER 0))]),
     (SP_wrongCarModeAlertOnly,
       [(ET_WARNING, AlertCallback (wrong_car_mode_alert mici))]),
     (SP_pedalPressedAlertOnly,
       [(ET_WARNING, StaticAlert (NoEntryAlert mici ''Pedal Pressed'' ''openpilot Unavailable'' VA_none P_LOW))]),
     (SP_laneTurnLeft,
       [(ET_WARNING, StaticAlert (Alert ''Turning Left'' '''' AS_normal SZ_small P_LOW VA_none AA_none 1 0))]),
     (SP_laneTurnRight,
       [(ET_WARNING, StaticAlert (Alert ''Turning Right'' '''' AS_normal SZ_small P_LOW VA_none AA_none 1 0))]),
     (SP_speedLimitActive,
       [(ET_WARNING, StaticAlert (Alert ''Auto adjusting to speed limit'' '''' AS_normal SZ_small P_LOW VA_none AA_promptSingleHigh 5 0))]),
     (SP_speedLimitChanged,
       [(ET_WARNING, StaticAlert (Alert ''Set speed changed'' '''' AS_normal SZ_small P_LOW VA_none AA_promptSingleHigh 5 0))]),
     (SP_speedLimitPreActive,
       [(ET_WARNING, AlertCallback (speed_limit_pre_active_alert mici))]),
     (SP_speedLimitPending,
       [(ET_WARNING, StaticAlert (Alert ''Auto adjusting to last speed limit'' '''' AS_normal SZ_small P_LOW VA_none AA_promptSingleHigh 5 0))]),
     (SP_e2eChime,
       [(ET_PERMANENT, StaticAlert (Alert '''' '''' AS_normal SZ_none P_MID VA_none AA_prompt 3 0))]),
     (SP_customLongitudinalFault,
       [(ET_IMMEDIATE_DISABLE, StaticAlert (ImmediateDisableAlert ''Custom Longitudinal Fault''))])]"

definition EVENTS_SP_list :: "bool \<Rightarrow> (int \<times> (et \<times> cbargs alert_entry) list) list" where
  "EVENTS_SP_list mici = EVENTS_SP_part1 mici @ EVENTS_SP_part2 mici"

definition EVENTS_SP :: "bool \<Rightarrow> cbargs events_mapping" where
  "EVENTS_SP mici = map_of (EVENTS_SP_list mici)"

subsection \<open>The view of the main state machine\<close>

definition sm_events_contains :: "events_base \<Rightarrow> events_base \<Rightarrow> et \<Rightarrow> bool" where
  "sm_events_contains events events_sp t \<longleftrightarrow>
     (if ev_contains events t then True
      else t = ET_IMMEDIATE_DISABLE \<and> ev_has events_sp SP_customLongitudinalFault)"

subsection \<open>Lemmas about all entries\<close>

lemmas EVENTS_SP_parts = EVENTS_SP_list_def EVENTS_SP_part1_def EVENTS_SP_part2_def

definition EVENTS_SP_types :: "bool \<Rightarrow> (int \<times> et list) list" where
  "EVENTS_SP_types mici = type_table (EVENTS_SP_list mici)"

lemma types_of_EVENTS_SP: "types_of (EVENTS_SP m) e = dict_get (map_of (EVENTS_SP_types m)) e []"
  by (simp add: EVENTS_SP_def EVENTS_SP_types_def types_of_map_of)

lemma EVENTS_SP_types_distinct: "\<forall>(k, ts) \<in> set (EVENTS_SP_types m). distinct ts"
  by (simp add: EVENTS_SP_types_def type_table_def EVENTS_SP_parts)

lemma EVENTS_SP_distinct: "distinct (types_of (EVENTS_SP m) e)"
  unfolding types_of_EVENTS_SP by (rule table_all [OF EVENTS_SP_types_distinct]) simp

interpretation sp: event_mapping "EVENTS_SP m" for m
  by unfold_locales (rule EVENTS_SP_distinct)

end
