(* ===== verification/Selfdrive_State.thy ===== *)
theory Selfdrive_State
  imports Events_SP_Table
begin

text \<open>
  The engagement state machine of \<open>selfdrive/selfdrived/state.py\<close>. \<open>sd_update\<close> is
  \<open>StateMachine.update\<close>: it reads the events only through \<open>events.contains(ET.x)\<close>, so its
  argument is that view, \<open>et \<Rightarrow> bool\<close>. \<open>sd_trans\<close> is the transition system the code is meant
  to implement, one rule per edge; \<open>sd_update_trans\<close> shows that one call of the code is exactly
  one such edge, and the invariants are proved by rule induction over the reachable states
  (\<open>sd_reach\<close>) and, for runs, through the locale \<open>frame_machine\<close>.
\<close>

subsection \<open>State and update\<close>

datatype op_state = OP_disabled | OP_preEnabled | OP_enabled | OP_softDisabling | OP_overriding

definition SOFT_DISABLE_TIME :: real where "SOFT_DISABLE_TIME = 3"

definition ACTIVE_STATES :: "op_state list" where
  "ACTIVE_STATES = [OP_enabled, OP_softDisabling, OP_overriding]"

definition ENABLED_STATES :: "op_state list" where
  "ENABLED_STATES = OP_preEnabled # ACTIVE_STATES"

text \<open>\<open>int(SOFT_DISABLE_TIME / DT_CTRL)\<close>\<close>

definition soft_disable_frames :: int where
  "soft_disable_frames = py_int (SOFT_DISABLE_TIME / DT_CTRL)"

record state_machine =
  sm_current_alert_types :: "et list"
  sm_state :: op_state
  sm_soft_disable_timer :: int

definition sd_init :: state_machine where
  "sd_init = \<lparr>sm_current_alert_types = [ET_PERMANENT], sm_state = OP_disabled,
              sm_soft_disable_timer = 0\<rparr>"

definition append_alert_types :: "et list \<Rightarrow> state_machine \<Rightarrow> state_machine" where
  "append_alert_types ts s = s\<lparr>sm_current_alert_types := sm_current_alert_types s @ ts\<rparr>"

text \<open>The branches of \<open>update\<close> for each state, after user and immediate disables.\<close>

definition sd_enter_soft_disabling :: "state_machine \<Rightarrow> state_machine" where
  "sd_enter_soft_disabling s =
     append_alert_types [ET_SOFT_DISABLE]
       (s\<lparr>sm_state := OP_softDisabling, sm_soft_disable_timer := soft_disable_frames\<rparr>)"

definition sd_update_engaged :: "(et \<Rightarrow> bool) \<Rightarrow> state_machine \<Rightarrow> state_machine" where
  "sd_update_engaged c s =
     (case sm_state s of
        OP_enabled \<Rightarrow>
          if c ET_SOFT_DISABLE then sd_enter_soft_disabling s
          else if c ET_OVERRIDE_LATERAL \<or> c ET_OVERRIDE_LONGITUDINAL then
            append_alert_types [ET_OVERRIDE_LATERAL, ET_OVERRIDE_LONGITUDINAL]
              (s\<lparr>sm_state := OP_overriding\<rparr>)
          else s
      | OP_softDisabling \<Rightarrow>
          if \<not> c ET_SOFT_DISABLE then s\<lparr>sm_state := OP_enabled\<rparr>
          else if sm_soft_disable_timer s > 0 then append_alert_types [ET_SOFT_DISABLE] s
          else s\<lparr>sm_state := OP_disabled\<rparr>
      | OP_preEnabled \<Rightarrow>
          if \<not> c ET_PRE_ENABLE then s\<lparr>sm_state := OP_enabled\<rparr>
          else append_alert_types [ET_PRE_ENABLE] s
      | OP_overriding \<Rightarrow>
          if c ET_SOFT_DISABLE then sd_enter_soft_disabling s
          else if \<not> (c ET_OVERRIDE_LATERAL \<or> c ET_OVERRIDE_LONGITUDINAL) then
            s\<lparr>sm_state := OP_enabled\<rparr>
          else append_alert_types [ET_OVERRIDE_LATERAL, ET_OVERRIDE_LONGITUDINAL] s
      | OP_disabled \<Rightarrow> s)"

definition sd_update_disabled :: "(et \<Rightarrow> bool) \<Rightarrow> state_machine \<Rightarrow> state_machine" where
  "sd_update_disabled c s =
     (if c ET_ENABLE then
        (if c ET_NO_ENTRY then append_alert_types [ET_NO_ENTRY] s
         else append_alert_types [ET_ENABLE]
           (if c ET_PRE_ENABLE then s\<lparr>sm_state := OP_preEnabled\<rparr>
            else if c ET_OVERRIDE_LATERAL \<or> c ET_OVERRIDE_LONGITUDINAL then
              s\<lparr>sm_state := OP_overriding\<rparr>
            else s\<lparr>sm_state := OP_enabled\<rparr>))
      else s)"

definition sd_update :: "state_machine \<Rightarrow> (et \<Rightarrow> bool) \<Rightarrow> state_machine \<times> bool \<times> bool" where
  "sd_update s c =
     (let s1 = s\<lparr>sm_soft_disable_timer := max 0 (sm_soft_disable_timer s - 1),
                 sm_current_alert_types := [ET_PERMANENT]\<rparr>;
          s2 = (if sm_state s1 \<noteq> OP_disabled then
                  (if c ET_IMMEDIATE_DISABLE then
                     append_alert_types [ET_IMMEDIATE_DISABLE] (s1\<lparr>sm_state := OP_disabled\<rparr>)
                   else if c ET_USER_DISABLE then
                     append_alert_types [ET_USER_DISABLE] (s1\<lparr>sm_state := OP_disabled\<rparr>)
                   else sd_update_engaged c s1)
                else sd_update_disabled c s1);
          enabled = sm_state s2 \<in> set ENABLED_STATES;
          active = sm_state s2 \<in> set ACTIVE_STATES;
          s3 = (if active then append_alert_types [ET_WARNING] s2 else s2)
      in (s3, enabled, active))"

abbreviation sd_step :: "state_machine \<Rightarrow> (et \<Rightarrow> bool) \<Rightarrow> state_machine" where
  "sd_step s c \<equiv> fst (sd_update s c)"

subsection \<open>The transition system\<close>

text \<open>
  The intended edges on state and timer. Every rule's timer argument is the timer after the
  decrement of the frame.
\<close>

inductive sd_trans :: "(et \<Rightarrow> bool) \<Rightarrow> op_state \<Rightarrow> int \<Rightarrow> op_state \<Rightarrow> int \<Rightarrow> bool" for c where
  disable: "st \<noteq> OP_disabled \<Longrightarrow> c ET_IMMEDIATE_DISABLE \<or> c ET_USER_DISABLE \<Longrightarrow>
    sd_trans c st t OP_disabled t"
| engage_pre: "c ET_ENABLE \<Longrightarrow> \<not> c ET_NO_ENTRY \<Longrightarrow> c ET_PRE_ENABLE \<Longrightarrow>
    sd_trans c OP_disabled t OP_preEnabled t"
| engage_override: "c ET_ENABLE \<Longrightarrow> \<not> c ET_NO_ENTRY \<Longrightarrow> \<not> c ET_PRE_ENABLE \<Longrightarrow>
    c ET_OVERRIDE_LATERAL \<or> c ET_OVERRIDE_LONGITUDINAL \<Longrightarrow> sd_trans c OP_disabled t OP_overriding t"
| engage: "c ET_ENABLE \<Longrightarrow> \<not> c ET_NO_ENTRY \<Longrightarrow> \<not> c ET_PRE_ENABLE \<Longrightarrow>
    \<not> c ET_OVERRIDE_LATERAL \<Longrightarrow> \<not> c ET_OVERRIDE_LONGITUDINAL \<Longrightarrow> sd_trans c OP_disabled t OP_enabled t"
| stay_disabled: "\<not> c ET_ENABLE \<or> c ET_NO_ENTRY \<Longrightarrow> sd_trans c OP_disabled t OP_disabled t"
| start_soft: "\<not> c ET_IMMEDIATE_DISABLE \<Longrightarrow> \<not> c ET_USER_DISABLE \<Longrightarrow> c ET_SOFT_DISABLE \<Longrightarrow>
    st = OP_enabled \<or> st = OP_overriding \<Longrightarrow> sd_trans c st t OP_softDisabling soft_disable_frames"
| keep_soft: "\<not> c ET_IMMEDIATE_DISABLE \<Longrightarrow> \<not> c ET_USER_DISABLE \<Longrightarrow> c ET_SOFT_DISABLE \<Longrightarrow> t > 0 \<Longrightarrow>
    sd_trans c OP_softDisabling t OP_softDisabling t"
| end_soft: "\<not> c ET_IMMEDIATE_DISABLE \<Longrightarrow> \<not> c ET_USER_DISABLE \<Longrightarrow> c ET_SOFT_DISABLE \<Longrightarrow> t \<le> 0 \<Longrightarrow>
    sd_trans c OP_softDisabling t OP_disabled t"
| recover: "\<not> c ET_IMMEDIATE_DISABLE \<Longrightarrow> \<not> c ET_USER_DISABLE \<Longrightarrow> \<not> c ET_SOFT_DISABLE \<Longrightarrow>
    sd_trans c OP_softDisabling t OP_enabled t"
| hold_pre: "\<not> c ET_IMMEDIATE_DISABLE \<Longrightarrow> \<not> c ET_USER_DISABLE \<Longrightarrow> c ET_PRE_ENABLE \<Longrightarrow>
    sd_trans c OP_preEnabled t OP_preEnabled t"
| release_pre: "\<not> c ET_IMMEDIATE_DISABLE \<Longrightarrow> \<not> c ET_USER_DISABLE \<Longrightarrow> \<not> c ET_PRE_ENABLE \<Longrightarrow>
    sd_trans c OP_preEnabled t OP_enabled t"
| override: "\<not> c ET_IMMEDIATE_DISABLE \<Longrightarrow> \<not> c ET_USER_DISABLE \<Longrightarrow> \<not> c ET_SOFT_DISABLE \<Longrightarrow>
    c ET_OVERRIDE_LATERAL \<or> c ET_OVERRIDE_LONGITUDINAL \<Longrightarrow> st = OP_enabled \<or> st = OP_overriding \<Longrightarrow>
    sd_trans c st t OP_overriding t"
| drive: "\<not> c ET_IMMEDIATE_DISABLE \<Longrightarrow> \<not> c ET_USER_DISABLE \<Longrightarrow> \<not> c ET_SOFT_DISABLE \<Longrightarrow>
    \<not> c ET_OVERRIDE_LATERAL \<Longrightarrow> \<not> c ET_OVERRIDE_LONGITUDINAL \<Longrightarrow> st = OP_enabled \<or> st = OP_overriding \<Longrightarrow>
    sd_trans c st t OP_enabled t"

inductive_cases sd_trans_disabledE: "sd_trans c OP_disabled t st' t'"
inductive_cases sd_trans_softE: "sd_trans c OP_softDisabling t st' t'"

text \<open>States reachable from the constructor by any sequence of event views.\<close>

inductive sd_reach :: "state_machine \<Rightarrow> bool" where
  init: "sd_reach sd_init"
| step: "sd_reach s \<Longrightarrow> sd_reach (sd_step s c)"

definition sd_inv :: "state_machine \<Rightarrow> bool" where
  "sd_inv s \<longleftrightarrow> 0 \<le> sm_soft_disable_timer s \<and> sm_soft_disable_timer s \<le> soft_disable_frames \<and>
     (\<exists>ts. sm_current_alert_types s = ET_PERMANENT # ts) \<and>
     (ET_WARNING \<in> set (sm_current_alert_types s) \<longleftrightarrow> sm_state s \<in> set ACTIVE_STATES) \<and>
     (sm_state s = OP_softDisabling \<longrightarrow> 0 < sm_soft_disable_timer s)"

subsection \<open>One call of update is one transition\<close>

lemma soft_disable_frames_eq [simp]: "soft_disable_frames = 300"
  by (simp add: soft_disable_frames_def SOFT_DISABLE_TIME_def DT_CTRL_def)

lemmas sd_update_defs = sd_update_def sd_update_engaged_def sd_update_disabled_def
  sd_enter_soft_disabling_def append_alert_types_def Let_def

lemma member_active [simp]: "st \<in> set ACTIVE_STATES \<longleftrightarrow> st \<noteq> OP_disabled \<and> st \<noteq> OP_preEnabled"
  by (cases st) (simp_all add: ACTIVE_STATES_def)

lemma member_enabled [simp]: "st \<in> set ENABLED_STATES \<longleftrightarrow> st \<noteq> OP_disabled"
  by (cases st) (simp_all add: ENABLED_STATES_def ACTIVE_STATES_def)

lemmas sd_trans_intros = sd_trans.intros start_soft [simplified]

lemma sd_update_trans:
  "sd_trans c (sm_state s) (max 0 (sm_soft_disable_timer s - 1))
     (sm_state (sd_step s c)) (sm_soft_disable_timer (sd_step s c))"
  by (cases "sm_state s") (auto simp: sd_update_defs intro: sd_trans_intros)

lemma sd_trans_deterministic:
  assumes "sd_trans c st t st1 t1" "sd_trans c st t st2 t2"
  shows "st1 = st2 \<and> t1 = t2"
  using assms by (cases rule: sd_trans.cases) (auto elim!: sd_trans.cases)

lemma sd_update_flags:
  "fst (snd (sd_update s c)) \<longleftrightarrow> sm_state (sd_step s c) \<noteq> OP_disabled"
  "snd (snd (sd_update s c)) \<longleftrightarrow>
     sm_state (sd_step s c) \<noteq> OP_disabled \<and> sm_state (sd_step s c) \<noteq> OP_preEnabled"
  by (simp_all add: sd_update_def Let_def append_alert_types_def)

lemma sd_enabled_cond:
  "sm_state (sd_step s c) \<noteq> OP_disabled \<longleftrightarrow>
     (if sm_state s = OP_disabled then c ET_ENABLE \<and> \<not> c ET_NO_ENTRY
      else \<not> c ET_IMMEDIATE_DISABLE \<and> \<not> c ET_USER_DISABLE \<and>
           \<not> (sm_state s = OP_softDisabling \<and> c ET_SOFT_DISABLE \<and> sm_soft_disable_timer s \<le> 1))"
  using sd_update_trans [of c s] by (auto elim!: sd_trans.cases)

lemma sd_step_timer:
  assumes "0 \<le> sm_soft_disable_timer s" "sm_soft_disable_timer s \<le> 300"
  shows "0 \<le> sm_soft_disable_timer (sd_step s c)" "sm_soft_disable_timer (sd_step s c) \<le> 300"
    "sm_state (sd_step s c) = OP_softDisabling \<Longrightarrow> 0 < sm_soft_disable_timer (sd_step s c)"
  using sd_update_trans [of c s] assms by (auto elim!: sd_trans.cases)

lemma sd_step_alert_types:
  "\<exists>ts. sm_current_alert_types (sd_step s c) = ET_PERMANENT # ts"
  "ET_WARNING \<in> set (sm_current_alert_types (sd_step s c)) \<longleftrightarrow>
     sm_state (sd_step s c) \<noteq> OP_disabled \<and> sm_state (sd_step s c) \<noteq> OP_preEnabled"
proof -
  show "\<exists>ts. sm_current_alert_types (sd_step s c) = ET_PERMANENT # ts"
    by (cases "sm_state s") (simp_all add: sd_update_defs)
  show "ET_WARNING \<in> set (sm_current_alert_types (sd_step s c)) \<longleftrightarrow>
     sm_state (sd_step s c) \<noteq> OP_disabled \<and> sm_state (sd_step s c) \<noteq> OP_preEnabled"
    by (cases "sm_state s") (simp_all add: sd_update_defs)
qed

lemma sd_inv_step: "sd_inv s \<Longrightarrow> sd_inv (sd_step s c)"
  using sd_step_alert_types [of s c] sd_step_timer [of s c] by (simp add: sd_inv_def)

lemma sd_inv_init: "sd_inv sd_init"
  by (simp add: sd_inv_def sd_init_def)

interpretation sd: frame_machine sd_step "\<lambda>_. True" sd_inv
  by unfold_locales (rule sd_inv_step)

lemma sd_reach_inv: "sd_reach s \<Longrightarrow> sd_inv s"
  by (induction rule: sd_reach.induct) (simp_all add: sd_inv_init sd_inv_step)

lemma sd_reach_frames: "sd_reach s \<Longrightarrow> sd_reach (frames sd_step s cs)"
  by (induction cs arbitrary: s) (auto intro: sd_reach.step)

subsection \<open>Soft disabling ends\<close>

text \<open>
  While every frame shows a soft-disable and a no-entry event, the frames left until the machine
  is disabled are its rank; the machine does not engage again meanwhile.
\<close>

definition sd_rank :: "state_machine \<Rightarrow> nat" where
  "sd_rank s = (case sm_state s of OP_disabled \<Rightarrow> 0 | OP_softDisabling \<Rightarrow> nat (sm_soft_disable_timer s)
                | _ \<Rightarrow> 301)"

definition sd_inv_not_pre :: "state_machine \<Rightarrow> bool" where
  "sd_inv_not_pre s \<longleftrightarrow> sd_inv s \<and> sm_state s \<noteq> OP_preEnabled"

lemma sd_rank_step:
  assumes "sd_inv_not_pre s" "c ET_SOFT_DISABLE" "c ET_NO_ENTRY"
  shows "sd_rank (sd_step s c) \<le> sd_rank s - 1" "sm_state (sd_step s c) \<noteq> OP_preEnabled"
  using sd_update_trans [of c s] assms
  by (auto simp: sd_rank_def sd_inv_not_pre_def sd_inv_def elim!: sd_trans.cases)

interpretation sd_soft: ranked_machine sd_step "\<lambda>c. c ET_SOFT_DISABLE \<and> c ET_NO_ENTRY"
  sd_inv_not_pre sd_rank
  by unfold_locales
    (use sd_rank_step sd_inv_step in \<open>auto simp: sd_inv_not_pre_def simp del: One_nat_def\<close>)

lemma sd_rank_le: "sd_inv s \<Longrightarrow> sd_rank s \<le> 301"
  by (auto simp: sd_rank_def sd_inv_def split: op_state.split)

lemma sd_rank_0: "sd_inv_not_pre s \<Longrightarrow> sd_rank s = 0 \<Longrightarrow> sm_state s = OP_disabled"
  by (auto simp: sd_rank_def sd_inv_def sd_inv_not_pre_def split: op_state.splits)

lemma sd_soft_run_disabled:
  assumes "sd_inv s" "sm_state s \<noteq> OP_preEnabled"
    and "\<forall>c \<in> set cs. c ET_SOFT_DISABLE \<and> c ET_NO_ENTRY" "301 \<le> length cs"
  shows "sm_state (frames sd_step s cs) = OP_disabled"
proof (rule sd_rank_0)
  have inv: "sd_inv_not_pre s" using assms(1,2) by (simp add: sd_inv_not_pre_def)
  then show "sd_inv_not_pre (frames sd_step s cs)" using assms(3) by (rule sd_soft.run_inv)
  show "sd_rank (frames sd_step s cs) = 0"
    using sd_rank_le [OF assms(1)] assms(4) by (intro sd_soft.run_exhausted [OF inv assms(3)]) simp
qed

text \<open>Every event of the table that soft-disables also refuses entry.\<close>

lemma EVENTS_soft_no_entry:
  assumes "ET_SOFT_DISABLE \<in> set (types_of (EVENTS m) e)"
  shows "ET_NO_ENTRY \<in> set (types_of (EVENTS m) e)"
proof -
  have "\<forall>(k, ts) \<in> set (EVENTS_types m). ET_SOFT_DISABLE \<in> set ts \<longrightarrow> ET_NO_ENTRY \<in> set ts"
    by (cases m) (simp_all add: EVENTS_type_lists)
  from table_all [OF this, of e] assms show ?thesis by (simp add: types_of_EVENTS)
qed

lemma contains_soft_no_entry:
  assumes "ev_wf (EVENTS m) ev" "sm_events_contains ev esp ET_SOFT_DISABLE"
  shows "sm_events_contains ev esp ET_NO_ENTRY"
  using assms EVENTS_soft_no_entry
  by (auto simp: sm_events_contains_def ev.contains_bag split: if_splits)

subsection \<open>Properties\<close>

text \<open>
  The complete condition under which one frame leaves openpilot enabled: from disabled,
  exactly an ENABLE event with no NO_ENTRY event; from any other state, no immediate or user
  disable event, and not a soft-disable whose countdown has run out.
\<close>

theorem sd_enabled_iff:
  "fst (snd (sd_update s c)) \<longleftrightarrow>
     (if sm_state s = OP_disabled then c ET_ENABLE \<and> \<not> c ET_NO_ENTRY
      else \<not> c ET_IMMEDIATE_DISABLE \<and> \<not> c ET_USER_DISABLE \<and>
           \<not> (sm_state s = OP_softDisabling \<and> c ET_SOFT_DISABLE \<and> sm_soft_disable_timer s \<le> 1))"
  unfolding sd_update_flags by (rule sd_enabled_cond)

text \<open>
  C2. Soft disabling always ends in a disengagement: from any reachable state other than
  preEnabled, if the event store of every one of 301 or more frames contains a soft-disable
  event (whatever else it contains, and whatever the SP events are), openpilot is disabled
  afterwards, and stays so although the driver may press engage meanwhile.
\<close>

theorem soft_disable_ends_disabled:
  assumes "sd_reach s" "sm_state s \<noteq> OP_preEnabled" "301 \<le> length es"
    and "\<forall>(ev, esp) \<in> set es. ev_wf (EVENTS m) ev \<and> ev_contains ev ET_SOFT_DISABLE"
  shows "sm_state (frames sd_step s (map (\<lambda>(ev, esp). sm_events_contains ev esp) es)) = OP_disabled"
proof (rule sd_soft_run_disabled [OF sd_reach_inv [OF assms(1)] assms(2)])
  show "\<forall>c \<in> set (map (\<lambda>(ev, esp). sm_events_contains ev esp) es).
          c ET_SOFT_DISABLE \<and> c ET_NO_ENTRY"
    using assms(4) contains_soft_no_entry [of m] by (fastforce simp: sm_events_contains_def)
qed (use assms(3) in simp)

text \<open>A store with the soft-disable event \<open>overheat\<close>, and an engaged machine.\<close>

theorem soft_disable_ends_disabled_witness:
  "sm_state (frames sd_step (sd_step sd_init (\<lambda>t. t = ET_ENABLE))
     (map (\<lambda>(ev, esp). sm_events_contains ev esp)
       (replicate 301 (ev_add (EVENTS False) False (events_init []) EV_overheat, events_init [])))) =
   OP_disabled \<and> sm_state (sd_step sd_init (\<lambda>t. t = ET_ENABLE)) = OP_enabled"
proof
  let ?s = "sd_step sd_init (\<lambda>t. t = ET_ENABLE)"
  show st: "sm_state ?s = OP_enabled" by (simp add: sd_init_def sd_update_defs)
  have soft: "ET_SOFT_DISABLE \<in> set (types_of (EVENTS False) EV_overheat)"
    by (simp add: types_of_EVENTS EVENTS_type_lists dict_get_def)
  show "sm_state (frames sd_step ?s (map (\<lambda>(ev, esp). sm_events_contains ev esp)
     (replicate 301 (ev_add (EVENTS False) False (events_init []) EV_overheat, events_init [])))) =
     OP_disabled"
    by (rule soft_disable_ends_disabled [where m = False])
      (auto simp: sd_reach.init sd_reach.step st ev.invar_add ev.contains_add soft)
qed

text \<open>
  Invariant of every reachable state: the soft-disable countdown stays within 0 and 300
  frames and is positive while soft disabling, permanent alerts are always shown, and warning
  alerts are enabled exactly while openpilot is active.
\<close>

theorem sd_reach_invariant:
  assumes "sd_reach s"
  shows "0 \<le> sm_soft_disable_timer s \<and> sm_soft_disable_timer s \<le> 300 \<and>
    (sm_state s = OP_softDisabling \<longrightarrow> 0 < sm_soft_disable_timer s) \<and>
    ET_PERMANENT \<in> set (sm_current_alert_types s) \<and>
    (ET_WARNING \<in> set (sm_current_alert_types s) \<longleftrightarrow>
       sm_state s = OP_enabled \<or> sm_state s = OP_softDisabling \<or> sm_state s = OP_overriding)"
  using sd_reach_inv [OF assms] by (cases "sm_state s") (auto simp: sd_inv_def)

theorem sd_reach_invariant_witness:
  "sm_soft_disable_timer (sd_step sd_init (\<lambda>t. t = ET_ENABLE)) \<le> 300"
  using sd_reach_invariant [OF sd_reach.step [OF sd_reach.init]] by simp

text \<open>
  Refinement: one call of \<open>update\<close> takes exactly one edge of the transition system, and
  the transition system has no other edge from that state under the same events.
\<close>

theorem sd_update_refines:
  "sd_trans c (sm_state s) (max 0 (sm_soft_disable_timer s - 1)) st t \<longleftrightarrow>
     st = sm_state (sd_step s c) \<and> t = sm_soft_disable_timer (sd_step s c)"
  using sd_update_trans [of c s] sd_trans_deterministic by metis

end
