(* ===== verification/Car_State.thy ===== *)
theory Car_State
  imports Prelude
begin

text \<open>
  The car messages the modelled components read: \<open>CarState\<close> with its cruise state and button
  events, \<open>CarParams\<close> and \<open>CarParamsSP\<close>. Their schemas belong to the \<open>opendbc\<close> submodule, so a
  record holds exactly the fields the modelled code reads, and an enumeration the members it
  names plus a constructor for all others. What the code asks of \<open>opendbc\<close>'s tables (the
  drivable gears of a fingerprint, flag bits, speed limits) is a field of the parameters.
\<close>

datatype button_type =
    BT_accelCruise | BT_decelCruise | BT_setCruise | BT_resumeCruise | BT_cancel | BT_mainCruise
  | BT_gapAdjustCruise | BT_lkas | BT_other int

record button_event =
  be_type :: button_type
  be_pressed :: bool

datatype gear_shifter = GS_park | GS_drive | GS_reverse | GS_low | GS_other int

datatype safety_model = SM_silent | SM_noOutput | SM_other int

definition IGNORED_SAFETY_MODES :: "safety_model list" where
  "IGNORED_SAFETY_MODES = [SM_silent, SM_noOutput]"

record cruise_state =
  cr_enabled :: bool
  cr_available :: bool
  cr_speed :: real
  cr_speedCluster :: real
  cr_standstill :: bool
  cr_nonAdaptive :: bool

record car_state =
  cs_vEgo :: real
  cs_aEgo :: real
  cs_vCruise :: real
  cs_standstill :: bool
  cs_gasPressed :: bool
  cs_brakePressed :: bool
  cs_regenBraking :: bool
  cs_brakeHoldActive :: bool
  cs_parkingBrake :: bool
  cs_gearShifter :: gear_shifter
  cs_cruiseState :: cruise_state
  cs_buttonEvents :: "button_event list"
  cs_buttonEnable :: bool
  cs_blockPcmEnable :: bool
  cs_steeringPressed :: bool
  cs_steeringDisengage :: bool
  cs_steeringTorque :: real
  cs_steerFaultTemporary :: bool
  cs_steerFaultPermanent :: bool
  cs_leftBlinker :: bool
  cs_rightBlinker :: bool
  cs_leftBlindspot :: bool
  cs_rightBlindspot :: bool
  cs_doorOpen :: bool
  cs_seatbeltUnlatched :: bool
  cs_espDisabled :: bool
  cs_espActive :: bool
  cs_stockFcw :: bool
  cs_stockAeb :: bool
  cs_stockLkas :: bool
  cs_accFaulted :: bool
  cs_vehicleSensorsInvalid :: bool
  cs_invalidLkasSetting :: bool
  cs_lowSpeedAlert :: bool
  cs_canValid :: bool
  cs_canTimeout :: bool

record car_params =
  cp_brand :: string
  cp_passive :: bool
  cp_notCar :: bool
  cp_pcmCruise :: bool
  cp_openpilotLongitudinalControl :: bool
  cp_minEnableSpeed :: real
  cp_minSteerSpeed :: real
  cp_fwdCamera :: bool  \<comment> \<open>\<open>networkLocation == NetworkLocation.fwdCamera\<close>\<close>
  cp_toyota_hybrid :: bool  \<comment> \<open>\<open>flags & ToyotaFlags.HYBRID.value\<close>\<close>
  cp_hyundai_lda_or_canfd :: bool  \<comment> \<open>\<open>flags & (HAS_LDA_BUTTON | CANFD)\<close>\<close>
  cp_ram_dt :: bool  \<comment> \<open>\<open>carFingerprint in RAM_DT\<close>\<close>
  cp_drivable_gears :: "gear_shifter list"  \<comment> \<open>\<open>interfaces[carFingerprint].DRIVABLE_GEARS\<close>\<close>
  cp_max_ctrl_speed :: real  \<comment> \<open>\<open>opendbc.car.interfaces.MAX_CTRL_SPEED\<close>\<close>
  cp_safetyConfigs :: "(safety_model \<times> int) list"
  cp_alternativeExperience :: int

record car_params_sp =
  cpsp_tesla_has_vehicle_bus :: bool  \<comment> \<open>\<open>flags & TeslaFlagsSP.HAS_VEHICLE_BUS\<close>\<close>
  cpsp_enableGasInterceptor :: bool
  cpsp_pcmCruiseSpeed :: bool
  cpsp_intelligentCruiseButtonManagementAvailable :: bool

text \<open>What the components read of a panda's state.\<close>

record panda_state =
  ps_safetyModel :: safety_model
  ps_safetyParam :: int
  ps_alternativeExperience :: int
  ps_controlsAllowed :: bool
  ps_controlsAllowedLateral :: bool
  ps_safetyRxChecksInvalid :: bool
  ps_relayMalfunction :: bool  \<comment> \<open>\<open>FaultType.relayMalfunction in faults\<close>\<close>

definition panda_ignored :: "panda_state \<Rightarrow> bool" where
  "panda_ignored ps \<longleftrightarrow> ps_safetyModel ps \<in> set IGNORED_SAFETY_MODES"

definition any_button :: "button_type list \<Rightarrow> car_state \<Rightarrow> bool" where
  "any_button ts CS \<longleftrightarrow> list_ex (\<lambda>be. be_type be \<in> set ts) (cs_buttonEvents CS)"

text \<open>A default \<open>CarState\<close> message (\<open>CarState.new_message()\<close>).\<close>

definition cruise_state_default :: cruise_state where
  "cruise_state_default = \<lparr>cr_enabled = False, cr_available = False, cr_speed = 0,
     cr_speedCluster = 0, cr_standstill = False, cr_nonAdaptive = False\<rparr>"

definition car_state_default :: "gear_shifter \<Rightarrow> car_state" where
  "car_state_default g =
     \<lparr>cs_vEgo = 0, cs_aEgo = 0, cs_vCruise = 0, cs_standstill = False, cs_gasPressed = False,
      cs_brakePressed = False, cs_regenBraking = False, cs_brakeHoldActive = False,
      cs_parkingBrake = False, cs_gearShifter = g, cs_cruiseState = cruise_state_default,
      cs_buttonEvents = [], cs_buttonEnable = False, cs_blockPcmEnable = False,
      cs_steeringPressed = False, cs_steeringDisengage = False, cs_steeringTorque = 0,
      cs_steerFaultTemporary = False, cs_steerFaultPermanent = False, cs_leftBlinker = False,
      cs_rightBlinker = False, cs_leftBlindspot = False, cs_rightBlindspot = False,
      cs_doorOpen = False, cs_seatbeltUnlatched = False, cs_espDisabled = False,
      cs_espActive = False, cs_stockFcw = False, cs_stockAeb = False, cs_stockLkas = False,
      cs_accFaulted = False, cs_vehicleSensorsInvalid = False, cs_invalidLkasSetting = False,
      cs_lowSpeedAlert = False, cs_canValid = False, cs_canTimeout = False\<rparr>"

text \<open>Enumerations of \<open>cereal/log.capnp\<close> and \<open>cereal/custom.capnp\<close> that several components share.\<close>

datatype lane_change_state = LC_off | LC_preLaneChange | LC_laneChangeStarting | LC_laneChangeFinishing
datatype lane_change_direction = LD_none | LD_left | LD_right
datatype turn_direction = TD_none | TD_turnLeft | TD_turnRight
datatype alert_level = AL_none | AL_one | AL_two | AL_three
datatype longitudinal_mode = LM_ACC | LM_E2E | LM_SCC

end
