(* ===== verification/Mads.thy ===== *)
theory Mads
  imports Selfdrive_State Car_State
begin

text \<open>
  The Modular Assistive Driving System of \<open>sunnypilot/mads\<close>: its state machine (\<open>state.py\<close>),
  its event handling and update (\<open>mads.py\<close>) and the parameter helpers (\<open>helpers.py\<close>).

  MADS works on objects it shares with \<open>SelfdriveD\<close>: the two event stores, the main state
  machine (whose soft-disable timer and alert types it reads and writes) and the flags
  \<open>enabled\<close> and \<open>enabled_prev\<close>. The record \<open>shared\<close> holds them and is passed through every
  operation in the order of the code. The argument \<open>d\<close> selects the event tables (a \<open>mici\<close>
  device or not).
\<close>

subsection \<open>State machine of state.py\<close>

datatype mads_state = MS_disabled | MS_paused | MS_enabled | MS_softDisabling | MS_overriding

definition MADS_ACTIVE_STATES :: "mads_state list" where
  "MADS_ACTIVE_STATES = [MS_enabled, MS_softDisabling, MS_overriding]"

definition MADS_ENABLED_STATES :: "mads_state list" where
  "MADS_ENABLED_STATES = MS_paused # MADS_ACTIVE_STATES"

definition GEARS_ALLOW_PAUSED_SILENT :: "int list" where
  "GEARS_ALLOW_PAUSED_SILENT =
     [SP_silentWrongGear, SP_silentReverseGear, SP_silentBrakeHold, SP_silentDoorOpen,
      SP_silentSeatbeltNotLatched, SP_silentParkBrake]"

definition GEARS_ALLOW_PAUSED :: "int list" where
  "GEARS_ALLOW_PAUSED =
     [EV_wrongGear, EV_reverseGear, EV_brakeHold, EV_doorOpen, EV_seatbeltNotLatched, EV_parkBrake]"

definition add_current_alert_types :: "bool \<Rightarrow> et \<Rightarrow> state_machine \<Rightarrow> state_machine" where
  "add_current_alert_types sd_enabled t sm =
     (if \<not> sd_enabled then append_alert_types [t] sm else sm)"

definition check_contains :: "events_base \<Rightarrow> events_base \<Rightarrow> et \<Rightarrow> bool" where
  "check_contains ev esp t \<longleftrightarrow> ev_contains ev t \<or> ev_contains esp t"

definition check_contains_in_list :: "events_base \<Rightarrow> events_base \<Rightarrow> bool" where
  "check_contains_in_list ev esp \<longleftrightarrow>
     ev_contains_in_list ev GEARS_ALLOW_PAUSED \<or> ev_contains_in_list esp GEARS_ALLOW_PAUSED_SILENT"

text \<open>
  What the state machine reads of the event stores: \<open>check_contains\<close>, whether
  \<open>silentLkasDisable\<close> is present, and \<open>check_contains_in_list\<close>.
\<close>

record mads_view =
  mv_contains :: "et \<Rightarrow> bool"
  mv_silent_disable :: bool
  mv_pausing :: bool

definition mads_view_of :: "events_base \<Rightarrow> events_base \<Rightarrow> mads_view" where
  "mads_view_of ev esp =
     \<lparr>mv_contains = check_contains ev esp, mv_silent_disable = ev_has esp SP_silentLkasDisable,
      mv_pausing = check_contains_in_list ev esp\<rparr>"

definition mads_enter_soft_disabling :: "bool \<Rightarrow> state_machine \<Rightarrow> mads_state \<times> state_machine" where
  "mads_enter_soft_disabling sd_enabled sm =
     (MS_softDisabling,
      if \<not> sd_enabled then
        append_alert_types [ET_SOFT_DISABLE] (sm\<lparr>sm_soft_disable_timer := soft_disable_frames\<rparr>)
      else sm)"

definition mads_engage :: "mads_view \<Rightarrow> bool \<Rightarrow> state_machine \<Rightarrow> mads_state \<times> state_machine" where
  "mads_engage v sd_enabled sm =
     (if mv_contains v ET_OVERRIDE_LATERAL then MS_overriding else MS_enabled,
      add_current_alert_types sd_enabled ET_ENABLE sm)"

definition mads_sm_engaged ::
  "mads_view \<Rightarrow> bool \<Rightarrow> mads_state \<Rightarrow> state_machine \<Rightarrow> mads_state \<times> state_machine" where
  "mads_sm_engaged v sd_enabled st sm =
     (let c = mv_contains v in
      case st of
        MS_enabled \<Rightarrow>
          if c ET_SOFT_DISABLE then mads_enter_soft_disabling sd_enabled sm
          else if c ET_OVERRIDE_LATERAL then
            (MS_overriding, add_current_alert_types sd_enabled ET_OVERRIDE_LATERAL sm)
          else (st, sm)
      | MS_softDisabling \<Rightarrow>
          if \<not> c ET_SOFT_DISABLE then (MS_enabled, sm)
          else if sm_soft_disable_timer sm > 0 then
            (st, add_current_alert_types sd_enabled ET_SOFT_DISABLE sm)
          else (MS_disabled, sm)
      | MS_paused \<Rightarrow>
          if c ET_ENABLE then
            (if c ET_NO_ENTRY then (st, add_current_alert_types sd_enabled ET_NO_ENTRY sm)
             else mads_engage v sd_enabled sm)
          else (st, sm)
      | MS_overriding \<Rightarrow>
          if c ET_SOFT_DISABLE then mads_enter_soft_disabling sd_enabled sm
          else if \<not> c ET_OVERRIDE_LATERAL then (MS_enabled, sm)
          else (st, append_alert_types [ET_OVERRIDE_LATERAL] sm)
      | MS_disabled \<Rightarrow> (st, sm))"

definition mads_sm_disabled ::
  "mads_view \<Rightarrow> bool \<Rightarrow> state_machine \<Rightarrow> mads_state \<times> state_machine" where
  "mads_sm_disabled v sd_enabled sm =
     (let c = mv_contains v in
      if c ET_ENABLE then
        (if c ET_NO_ENTRY then
           (if mv_pausing v then MS_paused else MS_disabled,
            add_current_alert_types sd_enabled ET_NO_ENTRY sm)
         else mads_engage v sd_enabled sm)
      else (MS_disabled, sm))"

definition mads_sm_update ::
  "mads_view \<Rightarrow> bool \<Rightarrow> mads_state \<Rightarrow> state_machine \<Rightarrow> mads_state \<times> state_machine \<times> bool \<times> bool" where
  "mads_sm_update v sd_enabled st sm =
     (let c = mv_contains v;
          (st', sm') =
            (if st \<noteq> MS_disabled then
               (if c ET_USER_DISABLE then
                  (if mv_silent_disable v then MS_paused else MS_disabled,
                   append_alert_types [ET_USER_DISABLE] sm)
                else if c ET_IMMEDIATE_DISABLE then
                  (MS_disabled, add_current_alert_types sd_enabled ET_IMMEDIATE_DISABLE sm)
                else mads_sm_engaged v sd_enabled st sm)
             else mads_sm_disabled v sd_enabled sm);
          enabled = st' \<in> set MADS_ENABLED_STATES;
          active = st' \<in> set MADS_ACTIVE_STATES
      in (st', if active then add_current_alert_types sd_enabled ET_WARNING sm' else sm',
          enabled, active))"

subsection \<open>Parameters and constructor\<close>

definition MODE_REMAIN_ACTIVE :: int where "MODE_REMAIN_ACTIVE = 0"
definition MODE_PAUSE :: int where "MODE_PAUSE = 1"
definition MODE_DISENGAGE :: int where "MODE_DISENGAGE = 2"

definition MADS_NO_ACC_MAIN_BUTTON :: "string list" where
  "MADS_NO_ACC_MAIN_BUTTON = [''rivian'', ''tesla'']"

text \<open>
  The stored parameters MADS reads. \<open>mp_tesla_screen_button_off\<close> is the comparison of
  \<open>TeslaMadsScreenButton\<close> with \<open>opendbc\<close>'s \<open>MadsScreenButtonType.OFF\<close>.
\<close>

record mads_params =
  mp_Mads :: bool
  mp_MadsMainCruiseAllowed :: bool
  mp_MadsUnifiedEngagementMode :: bool
  mp_MadsSteeringMode :: int
  mp_DisengageOnAccelerator :: bool
  mp_tesla_screen_button_off :: bool

definition get_mads_limited_brands :: "car_params \<Rightarrow> car_params_sp \<Rightarrow> mads_params \<Rightarrow> bool" where
  "get_mads_limited_brands CP CPSP p =
     (if cp_brand CP = ''rivian'' then True
      else if cp_brand CP = ''tesla'' then
        (if \<not> cpsp_tesla_has_vehicle_bus CPSP then True else mp_tesla_screen_button_off p)
      else False)"

definition read_steering_mode_param :: "car_params \<Rightarrow> car_params_sp \<Rightarrow> mads_params \<Rightarrow> int" where
  "read_steering_mode_param CP CPSP p =
     (if get_mads_limited_brands CP CPSP p then MODE_DISENGAGE else mp_MadsSteeringMode p)"

text \<open>
  The bits of \<open>alternativeExperience\<close> that the panda's safety code reads; their values belong
  to \<open>opendbc.safety\<close>.
\<close>

record alt_exp_bits =
  ae_ENABLE_MADS :: int
  ae_DISENGAGE_LATERAL_ON_BRAKE :: int
  ae_PAUSE_LATERAL_ON_BRAKE :: int

definition set_alternative_experience ::
  "alt_exp_bits \<Rightarrow> car_params \<Rightarrow> car_params_sp \<Rightarrow> mads_params \<Rightarrow> car_params" where
  "set_alternative_experience E CP CPSP p =
     (let steering_mode = read_steering_mode_param CP CPSP p
      in if mp_Mads p then
           (let x = Bit_Operations.or (cp_alternativeExperience CP) (ae_ENABLE_MADS E)
            in CP\<lparr>cp_alternativeExperience :=
                 (if steering_mode = MODE_DISENGAGE then
                    Bit_Operations.or x (ae_DISENGAGE_LATERAL_ON_BRAKE E)
                  else if steering_mode = MODE_PAUSE then
                    Bit_Operations.or x (ae_PAUSE_LATERAL_ON_BRAKE E)
                  else x)\<rparr>)
         else CP)"

text \<open>
  \<open>set_car_specific_params\<close>: the flags and the safety parameter of \<open>CP_SP\<close> (with \<open>opendbc\<close>'s
  Hyundai bits as arguments) and the stored parameters. A removed boolean parameter reads False.
\<close>

definition set_car_specific_params ::
  "int \<Rightarrow> int \<Rightarrow> car_params \<Rightarrow> car_params_sp \<Rightarrow> int \<times> int \<Rightarrow> mads_params \<Rightarrow> (int \<times> int) \<times> mads_params" where
  "set_car_specific_params main_toggleable safety_main_toggleable CP CPSP fs p =
     (let (flags, safetyParam) = fs;
          fs = (if cp_brand CP = ''hyundai'' then
                  (Bit_Operations.or flags main_toggleable, Bit_Operations.or safetyParam safety_main_toggleable)
                else fs);
          p = (if get_mads_limited_brands CP CPSP p then
                 p\<lparr>mp_MadsSteeringMode := 2, mp_MadsUnifiedEngagementMode := True\<rparr> else p);
          p = (if cp_brand CP \<in> set MADS_NO_ACC_MAIN_BUTTON then p\<lparr>mp_MadsMainCruiseAllowed := False\<rparr> else p)
      in (fs, p))"

record mads =
  md_enabled :: bool
  md_active :: bool
  md_state :: mads_state
  md_lateral_mismatch_counter :: int
  md_allow_always :: bool
  md_no_main_cruise :: bool
  md_disengage_on_accelerator :: bool
  md_enabled_toggle :: bool
  md_main_enabled_toggle :: bool
  md_steering_mode_on_brake :: int
  md_unified_engagement_mode :: bool

definition mads_init :: "car_params \<Rightarrow> car_params_sp \<Rightarrow> mads_params \<Rightarrow> mads" where
  "mads_init CP CPSP p =
     \<lparr>md_enabled = False, md_active = False, md_state = MS_disabled,
      md_lateral_mismatch_counter = 0,
      md_allow_always = (cp_brand CP = ''hyundai'' \<and> cp_hyundai_lda_or_canfd CP \<or> cp_brand CP = ''tesla''),
      md_no_main_cruise = (cp_brand CP \<in> set MADS_NO_ACC_MAIN_BUTTON),
      md_disengage_on_accelerator = mp_DisengageOnAccelerator p,
      md_enabled_toggle = mp_Mads p, md_main_enabled_toggle = mp_MadsMainCruiseAllowed p,
      md_steering_mode_on_brake = read_steering_mode_param CP CPSP p,
      md_unified_engagement_mode = mp_MadsUnifiedEngagementMode p\<rparr>"

definition mads_read_params :: "mads_params \<Rightarrow> mads \<Rightarrow> mads" where
  "mads_read_params p m =
     m\<lparr>md_main_enabled_toggle := mp_MadsMainCruiseAllowed p,
       md_unified_engagement_mode := mp_MadsUnifiedEngagementMode p\<rparr>"

subsection \<open>Event handling of mads.py\<close>

record shared =
  sh_events :: events_base
  sh_events_sp :: events_base
  sh_sm :: state_machine
  sh_enabled :: bool
  sh_enabled_prev :: bool

definition sh_add :: "bool \<Rightarrow> int \<Rightarrow> shared \<Rightarrow> shared" where
  "sh_add d e sh = sh\<lparr>sh_events := ev_add (EVENTS d) False (sh_events sh) e\<rparr>"

definition sh_remove :: "bool \<Rightarrow> int \<Rightarrow> shared \<Rightarrow> shared" where
  "sh_remove d e sh = sh\<lparr>sh_events := ev_remove (EVENTS d) False (sh_events sh) e\<rparr>"

definition sh_add_sp :: "bool \<Rightarrow> int \<Rightarrow> shared \<Rightarrow> shared" where
  "sh_add_sp d e sh = sh\<lparr>sh_events_sp := ev_add (EVENTS_SP d) False (sh_events_sp sh) e\<rparr>"

definition sh_remove_sp :: "bool \<Rightarrow> int \<Rightarrow> shared \<Rightarrow> shared" where
  "sh_remove_sp d e sh = sh\<lparr>sh_events_sp := ev_remove (EVENTS_SP d) False (sh_events_sp sh) e\<rparr>"

text \<open>\<open>if b: f()\<close> on the shared state.\<close>

definition py_when :: "bool \<Rightarrow> ('a \<Rightarrow> 'a) \<Rightarrow> 'a \<Rightarrow> 'a" where
  "py_when b f x = (if b then f x else x)"

definition pedal_pressed_non_gas_pressed :: "mads \<Rightarrow> car_state \<Rightarrow> car_state \<Rightarrow> shared \<Rightarrow> bool" where
  "pedal_pressed_non_gas_pressed m CS CSp sh \<longleftrightarrow>
     ev_has (sh_events sh) EV_pedalPressed \<and>
     \<not> (cs_gasPressed CS \<and> \<not> cs_gasPressed CSp \<and> md_disengage_on_accelerator m)"

definition should_silent_lkas_enable :: "mads \<Rightarrow> car_state \<Rightarrow> car_state \<Rightarrow> shared \<Rightarrow> bool" where
  "should_silent_lkas_enable m CS CSp sh =
     (if md_steering_mode_on_brake m = MODE_PAUSE \<and>
         (cs_brakePressed CS \<or> cs_regenBraking CS \<or> pedal_pressed_non_gas_pressed m CS CSp sh)
      then False
      else if ev_contains_in_list (sh_events_sp sh) GEARS_ALLOW_PAUSED_SILENT then False
      else True)"

definition block_unified_engagement_mode :: "mads \<Rightarrow> shared \<Rightarrow> bool" where
  "block_unified_engagement_mode m sh =
     (if \<not> md_unified_engagement_mode m then True
      else if md_enabled m then True
      else if sh_enabled sh \<and> sh_enabled_prev sh then True
      else False)"

definition replace_event :: "bool \<Rightarrow> int \<Rightarrow> int \<Rightarrow> shared \<Rightarrow> shared" where
  "replace_event d old new sh = sh_add_sp d new (sh_remove d old sh)"

definition get_wrong_car_mode :: "bool \<Rightarrow> bool \<Rightarrow> shared \<Rightarrow> shared" where
  "get_wrong_car_mode d alert_only sh =
     (if alert_only then
        py_when (ev_has (sh_events sh) EV_wrongCarMode)
          (replace_event d EV_wrongCarMode SP_wrongCarModeAlertOnly) sh
      else sh_remove d EV_wrongCarMode sh)"

definition transition_paused_state :: "bool \<Rightarrow> mads \<Rightarrow> shared \<Rightarrow> shared" where
  "transition_paused_state d m = py_when (md_state m \<noteq> MS_paused) (sh_add_sp d SP_silentLkasDisable)"

text \<open>\<open>if self.events.has(old) and guard: replace_event(old, new); transition_paused_state()\<close>\<close>

definition replace_and_pause :: "bool \<Rightarrow> mads \<Rightarrow> bool \<Rightarrow> int \<Rightarrow> int \<Rightarrow> shared \<Rightarrow> shared" where
  "replace_and_pause d m guard old new sh =
     py_when (ev_has (sh_events sh) old \<and> guard)
       (\<lambda>sh. transition_paused_state d m (replace_event d old new sh)) sh"

definition mads_data_sample :: "panda_state list \<Rightarrow> shared \<Rightarrow> mads \<Rightarrow> mads" where
  "mads_data_sample pandas sh m =
     (if \<not> md_active m \<or> sh_enabled sh then m\<lparr>md_lateral_mismatch_counter := 0\<rparr>
      else if list_ex (\<lambda>ps. \<not> ps_controlsAllowedLateral ps) (filter (\<lambda>ps. \<not> panda_ignored ps) pandas)
      then m\<lparr>md_lateral_mismatch_counter := md_lateral_mismatch_counter m + 1\<rparr>
      else m)"

text \<open>While only lateral control is engaged: blocking events become silent pauses.\<close>

definition mads_silence_events :: "bool \<Rightarrow> mads \<Rightarrow> car_state \<Rightarrow> shared \<Rightarrow> shared" where
  "mads_silence_events d m CS sh =
     (let sh = replace_and_pause d m (cs_standstill CS) EV_doorOpen SP_silentDoorOpen sh;
          sh = replace_and_pause d m (cs_standstill CS) EV_seatbeltNotLatched
                 SP_silentSeatbeltNotLatched sh;
          sh = replace_and_pause d m (cs_vEgo CS < 5/2 \<or> cs_gearShifter CS = GS_reverse)
                 EV_wrongGear SP_silentWrongGear sh;
          sh = replace_and_pause d m True EV_reverseGear SP_silentReverseGear sh;
          sh = replace_and_pause d m True EV_brakeHold SP_silentBrakeHold sh
      in replace_and_pause d m True EV_parkBrake SP_silentParkBrake sh)"

definition mads_lateral_only_events :: "bool \<Rightarrow> mads \<Rightarrow> car_state \<Rightarrow> car_state \<Rightarrow> shared \<Rightarrow> shared" where
  "mads_lateral_only_events d m CS CSp sh =
     (let sh = mads_silence_events d m CS sh;
          sh = py_when (md_steering_mode_on_brake m = MODE_PAUSE \<and>
                        pedal_pressed_non_gas_pressed m CS CSp sh)
                 (transition_paused_state d m) sh
      in fold (sh_remove d)
           [EV_preEnableStandstill, EV_belowEngageSpeed, EV_speedTooLow, EV_cruiseDisabled,
            EV_manualRestart, EV_espActive] sh)"

definition SET_SPEED_BUTTONS :: "button_type list" where
  "SET_SPEED_BUTTONS = [BT_accelCruise, BT_resumeCruise, BT_decelCruise, BT_setCruise]"

definition mads_enable_events :: "bool \<Rightarrow> mads \<Rightarrow> car_state \<Rightarrow> car_state \<Rightarrow> shared \<Rightarrow> shared" where
  "mads_enable_events d m CS CSp sh =
     (let selfdrive_enable_events =
            ev_has (sh_events sh) EV_pcmEnable \<or> ev_has (sh_events sh) EV_buttonEnable;
          set_speed_btns_enable = any_button SET_SPEED_BUTTONS CS;
          sh = get_wrong_car_mode d (selfdrive_enable_events \<or> set_speed_btns_enable) sh
      in if selfdrive_enable_events then
           (let sh = py_when (pedal_pressed_non_gas_pressed m CS CSp sh)
                       (sh_add_sp d SP_pedalPressedAlertOnly) sh
            in py_when (block_unified_engagement_mode m sh)
                 (\<lambda>sh. sh_remove d EV_buttonEnable (sh_remove d EV_pcmEnable sh)) sh)
         else
           py_when (md_main_enabled_toggle m \<and> cr_available (cs_cruiseState CS) \<and>
                    \<not> cr_available (cs_cruiseState CSp))
             (sh_add_sp d SP_lkasEnable) sh)"

definition mads_button_event :: "bool \<Rightarrow> mads \<Rightarrow> car_state \<Rightarrow> button_event \<Rightarrow> shared \<Rightarrow> shared" where
  "mads_button_event d m CS be sh =
     (let sh = py_when (be_type be = BT_cancel \<and> \<not> sh_enabled sh \<and> sh_enabled_prev sh)
                 (sh_add_sp d SP_manualLongitudinalRequired) sh
      in py_when (be_type be = BT_lkas \<and> be_pressed be \<and>
                  (cr_available (cs_cruiseState CS) \<or> md_allow_always m))
           (\<lambda>sh. if md_enabled m then
                   (if sh_enabled sh then sh_add_sp d SP_manualSteeringRequired sh
                    else sh_add_sp d SP_lkasDisable sh)
                 else sh_add_sp d SP_lkasEnable sh) sh)"

definition mads_brake_events :: "bool \<Rightarrow> mads \<Rightarrow> car_state \<Rightarrow> car_state \<Rightarrow> shared \<Rightarrow> shared" where
  "mads_brake_events d m CS CSp sh =
     py_when (md_steering_mode_on_brake m = MODE_DISENGAGE \<and> pedal_pressed_non_gas_pressed m CS CSp sh)
       (\<lambda>sh. if md_enabled m then sh_add_sp d SP_lkasDisable sh
             else if ev_contains_key (sh_events_sp sh) (KName SP_lkasEnable) then
               sh_add_sp d SP_pedalPressedAlertOnly (sh_remove_sp d SP_lkasEnable sh)
             else sh) sh"

definition mads_update_events :: "bool \<Rightarrow> mads \<Rightarrow> car_state \<Rightarrow> car_state \<Rightarrow> shared \<Rightarrow> shared" where
  "mads_update_events d m CS CSp sh =
     (let sh = py_when (\<not> sh_enabled sh \<and> md_enabled m) (mads_lateral_only_events d m CS CSp) sh;
          sh = mads_enable_events d m CS CSp sh;
          sh = fold (mads_button_event d m CS) (cs_buttonEvents CS) sh;
          sh = py_when (\<not> cr_available (cs_cruiseState CS) \<and> \<not> md_no_main_cruise m)
                 (\<lambda>sh. py_when (cr_available (cs_cruiseState CSp)) (sh_add_sp d SP_lkasDisable)
                         (sh_remove d EV_buttonEnable sh)) sh;
          sh = mads_brake_events d m CS CSp sh;
          sh = py_when (should_silent_lkas_enable m CS CSp sh \<and> md_state m = MS_paused)
                 (sh_add_sp d SP_silentLkasEnable) sh;
          sh = py_when (md_lateral_mismatch_counter m \<ge> 200) (sh_add_sp d SP_controlsMismatchLateral) sh
      in fold (sh_remove d) [EV_pcmDisable, EV_buttonCancel, EV_pedalPressed, EV_wrongCruiseMode] sh)"

definition mads_update ::
  "bool \<Rightarrow> car_params \<Rightarrow> bool \<Rightarrow> panda_state list \<Rightarrow> car_state \<Rightarrow> car_state \<Rightarrow> mads \<Rightarrow> shared
    \<Rightarrow> mads \<times> shared" where
  "mads_update d CP initialized pandas CS CSp m sh =
     (if \<not> md_enabled_toggle m then (m, sh)
      else
        (let m1 = mads_data_sample pandas sh m;
             sh1 = mads_update_events d m1 CS CSp sh;
             (m2, sh2) =
               (if \<not> cp_passive CP \<and> initialized then
                  (let (st, sm, enabled, active) =
                         mads_sm_update (mads_view_of (sh_events sh1) (sh_events_sp sh1))
                           (sh_enabled sh1) (md_state m1) (sh_sm sh1)
                   in (m1\<lparr>md_state := st, md_enabled := enabled, md_active := active\<rparr>,
                       sh1\<lparr>sh_sm := sm\<rparr>))
                else (m1, sh1))
         in (m2, sh2\<lparr>sh_enabled_prev := sh_enabled sh2\<rparr>)))"

subsection \<open>Lemmas on the state machine\<close>

lemma member_mads_active [simp]:
  "st \<in> set MADS_ACTIVE_STATES \<longleftrightarrow> st \<noteq> MS_disabled \<and> st \<noteq> MS_paused"
  by (cases st) (simp_all add: MADS_ACTIVE_STATES_def)

lemma member_mads_enabled [simp]: "st \<in> set MADS_ENABLED_STATES \<longleftrightarrow> st \<noteq> MS_disabled"
  by (cases st) (simp_all add: MADS_ENABLED_STATES_def MADS_ACTIVE_STATES_def)

abbreviation mads_next :: "mads_view \<Rightarrow> bool \<Rightarrow> mads_state \<Rightarrow> state_machine \<Rightarrow> mads_state" where
  "mads_next v b st sm \<equiv> fst (mads_sm_update v b st sm)"

abbreviation mads_next_sm :: "mads_view \<Rightarrow> bool \<Rightarrow> mads_state \<Rightarrow> state_machine \<Rightarrow> state_machine" where
  "mads_next_sm v b st sm \<equiv> fst (snd (mads_sm_update v b st sm))"

lemmas mads_sm_defs = mads_sm_update_def mads_sm_engaged_def mads_sm_disabled_def
  mads_enter_soft_disabling_def mads_engage_def Let_def

lemma add_current_alert_types_simps [simp]:
  "sm_soft_disable_timer (add_current_alert_types b t sm) = sm_soft_disable_timer sm"
  "sm_state (add_current_alert_types b t sm) = sm_state sm"
  by (simp_all add: add_current_alert_types_def append_alert_types_def)

lemma append_alert_types_simps [simp]:
  "sm_soft_disable_timer (append_alert_types ts sm) = sm_soft_disable_timer sm"
  "sm_state (append_alert_types ts sm) = sm_state sm"
  "sm_current_alert_types (append_alert_types ts sm) = sm_current_alert_types sm @ ts"
  by (simp_all add: append_alert_types_def)

lemma mads_next_cases:
  "mads_next v b st sm =
     (let c = mv_contains v;
          engaged = (if c ET_OVERRIDE_LATERAL then MS_overriding else MS_enabled)
      in if st = MS_disabled then
           (if \<not> c ET_ENABLE then MS_disabled
            else if c ET_NO_ENTRY then (if mv_pausing v then MS_paused else MS_disabled)
            else engaged)
         else if c ET_USER_DISABLE then (if mv_silent_disable v then MS_paused else MS_disabled)
         else if c ET_IMMEDIATE_DISABLE then MS_disabled
         else if st = MS_paused then (if c ET_ENABLE \<and> \<not> c ET_NO_ENTRY then engaged else MS_paused)
         else if st = MS_softDisabling then
           (if \<not> c ET_SOFT_DISABLE then MS_enabled
            else if sm_soft_disable_timer sm > 0 then MS_softDisabling else MS_disabled)
         else if c ET_SOFT_DISABLE then MS_softDisabling else engaged)"
  by (cases st) (auto simp: mads_sm_defs)

lemma mads_next_timer:
  "sm_soft_disable_timer (mads_next_sm v b st sm) =
     (if (st = MS_enabled \<or> st = MS_overriding) \<and> \<not> b \<and> mads_next v b st sm = MS_softDisabling
      then 300 else sm_soft_disable_timer sm)"
  by (cases st) (auto simp: mads_sm_defs)

lemma mads_next_sm_state [simp]: "sm_state (mads_next_sm v b st sm) = sm_state sm"
  by (cases st) (auto simp: mads_sm_defs)

lemma mads_sm_flags:
  "snd (snd (mads_sm_update v b st sm)) =
     (mads_next v b st sm \<noteq> MS_disabled,
      mads_next v b st sm \<noteq> MS_disabled \<and> mads_next v b st sm \<noteq> MS_paused)"
  by (simp add: mads_sm_update_def Let_def split: prod.split)

subsection \<open>What event handling changes\<close>

definition sh_wf :: "bool \<Rightarrow> shared \<Rightarrow> bool" where
  "sh_wf d sh \<longleftrightarrow> ev_wf (EVENTS d) (sh_events sh) \<and> ev_wf (EVENTS_SP d) (sh_events_sp sh)"

text \<open>
  From well-formed stores, a step of MADS's event handling keeps the stores well-formed, only
  removes main events, all of them in \<open>R\<close>, only adds SP events, and leaves the rest alone.
\<close>

definition sh_le :: "bool \<Rightarrow> int set \<Rightarrow> shared \<Rightarrow> shared \<Rightarrow> bool" where
  "sh_le d R sh sh' \<longleftrightarrow>
     (sh_wf d sh \<longrightarrow>
       sh_wf d sh' \<and> ev_bag (sh_events sh') \<subseteq># ev_bag (sh_events sh) \<and>
       (\<forall>e. e \<notin> R \<longrightarrow> count (ev_bag (sh_events sh')) e = count (ev_bag (sh_events sh)) e) \<and>
       ev_bag (sh_events_sp sh) \<subseteq># ev_bag (sh_events_sp sh') \<and>
       sh_sm sh' = sh_sm sh \<and> sh_enabled sh' = sh_enabled sh \<and> sh_enabled_prev sh' = sh_enabled_prev sh)"

named_theorems sh_intros \<open>rules that carry sh_le over one more step\<close>

lemma sh_le_refl: "sh_le d R sh sh"
  by (simp add: sh_le_def)

lemma sh_le_trans: "sh_le d R sh1 sh2 \<Longrightarrow> sh_le d R sh2 sh3 \<Longrightarrow> sh_le d R sh1 sh3"
  unfolding sh_le_def by (auto intro: subset_mset.order_trans)

lemma sh_le_add_sp [sh_intros]: "sh_le d R s0 sh \<Longrightarrow> sh_le d R s0 (sh_add_sp d e sh)"
  by (erule sh_le_trans) (simp add: sh_le_def sh_wf_def sh_add_sp_def sp.invar_add sp.bag_add)

lemma sh_le_remove [sh_intros]:
  "sh_le d R s0 sh \<Longrightarrow> e \<in> R \<Longrightarrow> sh_le d R s0 (sh_remove d e sh)"
  by (erule sh_le_trans)
    (auto simp: sh_le_def sh_wf_def sh_remove_def ev.invar_remove ev.bag_remove)

lemma sh_le_when [sh_intros]:
  "sh_le d R s0 sh \<Longrightarrow> (\<And>sh. sh_le d R s0 sh \<Longrightarrow> sh_le d R s0 (f sh)) \<Longrightarrow>
   sh_le d R s0 (py_when b f sh)"
  by (simp add: py_when_def)

lemma sh_le_fold [sh_intros]:
  assumes "sh_le d R s0 sh" "\<And>x sh. x \<in> set xs \<Longrightarrow> sh_le d R s0 sh \<Longrightarrow> sh_le d R s0 (f x sh)"
  shows "sh_le d R s0 (fold f xs sh)"
  using assms by (induction xs arbitrary: sh) simp_all

lemma sh_le_replace [sh_intros]:
  "sh_le d R s0 sh \<Longrightarrow> old \<in> R \<Longrightarrow> sh_le d R s0 (replace_event d old new sh)"
  unfolding replace_event_def by (intro sh_intros)

lemma sh_le_transition [sh_intros]:
  "sh_le d R s0 sh \<Longrightarrow> sh_le d R s0 (transition_paused_state d m sh)"
  unfolding transition_paused_state_def by (intro sh_intros)

lemma sh_le_replace_and_pause [sh_intros]:
  "sh_le d R s0 sh \<Longrightarrow> old \<in> R \<Longrightarrow> sh_le d R s0 (replace_and_pause d m g old new sh)"
  unfolding replace_and_pause_def by (intro sh_intros)

text \<open>The main events MADS may remove before it looks at the pedals, and in all.\<close>

definition MADS_REMOVED :: "int set" where
  "MADS_REMOVED = {EV_doorOpen, EV_seatbeltNotLatched, EV_wrongGear, EV_reverseGear, EV_brakeHold,
     EV_parkBrake, EV_preEnableStandstill, EV_belowEngageSpeed, EV_speedTooLow, EV_cruiseDisabled,
     EV_manualRestart, EV_espActive, EV_wrongCarMode, EV_pcmEnable, EV_buttonEnable}"

definition MADS_REMOVED_ALL :: "int set" where
  "MADS_REMOVED_ALL =
     MADS_REMOVED \<union> {EV_pcmDisable, EV_buttonCancel, EV_pedalPressed, EV_wrongCruiseMode}"

lemma sh_le_mono: "sh_le d R sh sh' \<Longrightarrow> R \<subseteq> R' \<Longrightarrow> sh_le d R' sh sh'"
  by (auto simp: sh_le_def)

lemma sh_le_wrong_car_mode [sh_intros]:
  "sh_le d R s0 sh \<Longrightarrow> EV_wrongCarMode \<in> R \<Longrightarrow> sh_le d R s0 (get_wrong_car_mode d b sh)"
  unfolding get_wrong_car_mode_def by (cases b) (simp_all add: sh_intros)

lemma sh_le_silence [sh_intros]:
  "sh_le d MADS_REMOVED s0 sh \<Longrightarrow> sh_le d MADS_REMOVED s0 (mads_silence_events d m CS sh)"
  unfolding mads_silence_events_def Let_def
  by (intro sh_intros) (auto simp: MADS_REMOVED_def)

lemma sh_le_lateral_only [sh_intros]:
  "sh_le d MADS_REMOVED s0 sh \<Longrightarrow> sh_le d MADS_REMOVED s0 (mads_lateral_only_events d m CS CSp sh)"
  unfolding mads_lateral_only_events_def Let_def
  by (intro sh_intros) (auto simp: MADS_REMOVED_def)

lemma sh_le_enable_events [sh_intros]:
  "sh_le d MADS_REMOVED s0 sh \<Longrightarrow> sh_le d MADS_REMOVED s0 (mads_enable_events d m CS CSp sh)"
  unfolding mads_enable_events_def Let_def
  by (rule if_split [THEN iffD2], intro conjI impI; intro sh_intros) (auto simp: MADS_REMOVED_def)

lemma sh_le_button_event [sh_intros]:
  "sh_le d R s0 sh \<Longrightarrow> sh_le d R s0 (mads_button_event d m CS be sh)"
  unfolding mads_button_event_def Let_def
  by (intro sh_intros) (auto intro: sh_intros)

lemma sh_le_brake_events [sh_intros]:
  assumes "sh_le d R s0 sh"
  shows "sh_le d R s0 (mads_brake_events d m CS CSp sh)"
proof (cases "sh_wf d s0")
  case True
  with assms have "sh_wf d sh" by (simp add: sh_le_def)
  then have "\<not> ev_contains_key (sh_events_sp sh) (KName SP_lkasEnable)"
    unfolding sh_wf_def by (blast dest: ev_contains_name)
  with assms show ?thesis unfolding mads_brake_events_def py_when_def by (auto intro: sh_intros)
qed (simp add: sh_le_def)

lemma sh_le_removed_all: "sh_le d MADS_REMOVED s0 sh \<Longrightarrow> sh_le d MADS_REMOVED_ALL s0 sh"
  by (erule sh_le_mono) (auto simp: MADS_REMOVED_ALL_def)

text \<open>The events before and after the pedal check of \<open>mads_update_events\<close>.\<close>

definition mads_events_before_brake :: "bool \<Rightarrow> mads \<Rightarrow> car_state \<Rightarrow> car_state \<Rightarrow> shared \<Rightarrow> shared" where
  "mads_events_before_brake d m CS CSp sh =
     py_when (\<not> cr_available (cs_cruiseState CS) \<and> \<not> md_no_main_cruise m)
       (\<lambda>sh. py_when (cr_available (cs_cruiseState CSp)) (sh_add_sp d SP_lkasDisable)
               (sh_remove d EV_buttonEnable sh))
       (fold (mads_button_event d m CS) (cs_buttonEvents CS)
         (mads_enable_events d m CS CSp
           (py_when (\<not> sh_enabled sh \<and> md_enabled m) (mads_lateral_only_events d m CS CSp) sh)))"

definition mads_events_after_brake :: "bool \<Rightarrow> mads \<Rightarrow> car_state \<Rightarrow> car_state \<Rightarrow> shared \<Rightarrow> shared" where
  "mads_events_after_brake d m CS CSp sh =
     fold (sh_remove d) [EV_pcmDisable, EV_buttonCancel, EV_pedalPressed, EV_wrongCruiseMode]
       (py_when (md_lateral_mismatch_counter m \<ge> 200) (sh_add_sp d SP_controlsMismatchLateral)
         (py_when (should_silent_lkas_enable m CS CSp sh \<and> md_state m = MS_paused)
           (sh_add_sp d SP_silentLkasEnable) sh))"

lemma mads_update_events_split:
  "mads_update_events d m CS CSp sh =
     mads_events_after_brake d m CS CSp
       (mads_brake_events d m CS CSp (mads_events_before_brake d m CS CSp sh))"
  by (simp add: mads_update_events_def mads_events_after_brake_def mads_events_before_brake_def Let_def)

lemma sh_le_before_brake [sh_intros]:
  "sh_le d MADS_REMOVED s0 sh \<Longrightarrow> sh_le d MADS_REMOVED s0 (mads_events_before_brake d m CS CSp sh)"
  unfolding mads_events_before_brake_def by (intro sh_intros) (auto simp: MADS_REMOVED_def)

lemma sh_le_after_brake [sh_intros]:
  "sh_le d MADS_REMOVED_ALL s0 sh \<Longrightarrow> sh_le d MADS_REMOVED_ALL s0 (mads_events_after_brake d m CS CSp sh)"
  unfolding mads_events_after_brake_def by (intro sh_intros) (auto simp: MADS_REMOVED_ALL_def)

lemma sh_le_update_events: "sh_le d MADS_REMOVED_ALL sh (mads_update_events d m CS CSp sh)"
  unfolding mads_update_events_split
  by (intro sh_le_after_brake sh_le_brake_events sh_le_removed_all sh_le_before_brake sh_le_refl)

lemma sh_leD:
  assumes "sh_le d R sh sh'" "sh_wf d sh"
  shows "sh_wf d sh'" "sh_sm sh' = sh_sm sh" "sh_enabled sh' = sh_enabled sh"
    "ev_has (sh_events_sp sh) e \<Longrightarrow> ev_has (sh_events_sp sh') e"
    "f \<notin> R \<Longrightarrow> ev_has (sh_events sh') f = ev_has (sh_events sh) f"
  using assms unfolding sh_le_def sh_wf_def
  by (auto simp: ev.has_bag sp.has_bag dest: mset_subset_eqD simp flip: count_greater_zero_iff)

text \<open>The types of the SP events by which MADS disengages itself.\<close>

lemma sp_types [simp]:
  "types_of (EVENTS_SP d) SP_lkasDisable = [ET_USER_DISABLE]"
  "types_of (EVENTS_SP d) SP_silentLkasDisable = [ET_USER_DISABLE]"
  "types_of (EVENTS_SP d) SP_controlsMismatchLateral = [ET_IMMEDIATE_DISABLE, ET_NO_ENTRY]"
  by (simp_all add: types_of_EVENTS_SP EVENTS_SP_types_def type_table_def EVENTS_SP_parts dict_get_def)

lemma view_contains_sp:
  assumes "sh_wf d sh" "ev_has (sh_events_sp sh) e" "t \<in> set (types_of (EVENTS_SP d) e)"
  shows "mv_contains (mads_view_of (sh_events sh) (sh_events_sp sh)) t"
  using assms sp.has_contains [of d] by (auto simp: sh_wf_def mads_view_of_def check_contains_def)

lemma has_add_sp [simp]:
  "sh_wf d sh \<Longrightarrow> ev_has (sh_events_sp (sh_add_sp d e sh)) e' \<longleftrightarrow> e' = e \<or> ev_has (sh_events_sp sh) e'"
  by (simp add: sh_wf_def sh_add_sp_def sp.has_add)

lemma before_brake_pedal:
  assumes "sh_wf d sh"
  shows "pedal_pressed_non_gas_pressed m CS CSp (mads_events_before_brake d m CS CSp sh) =
         pedal_pressed_non_gas_pressed m CS CSp sh"
  using sh_leD(5) [OF sh_le_before_brake [OF sh_le_refl] assms, of EV_pedalPressed m CS CSp]
  by (simp add: pedal_pressed_non_gas_pressed_def MADS_REMOVED_def)

text \<open>In DISENGAGE mode a pedal press while MADS is enabled raises \<open>lkasDisable\<close>.\<close>

lemma disengage_raises_lkasDisable:
  assumes "sh_wf d sh" "md_steering_mode_on_brake m = MODE_DISENGAGE" "md_enabled m"
    and "pedal_pressed_non_gas_pressed m CS CSp sh"
  shows "ev_has (sh_events_sp (mads_update_events d m CS CSp sh)) SP_lkasDisable"
proof -
  let ?sh1 = "mads_events_before_brake d m CS CSp sh"
  let ?sh2 = "mads_brake_events d m CS CSp ?sh1"
  have wf1: "sh_wf d ?sh1" using sh_leD(1) [OF sh_le_before_brake [OF sh_le_refl] assms(1)] .
  have "?sh2 = sh_add_sp d SP_lkasDisable ?sh1"
    using assms before_brake_pedal [OF assms(1), of m CS CSp]
    by (simp add: mads_brake_events_def py_when_def)
  moreover have wf2: "sh_wf d ?sh2" using sh_leD(1) [OF sh_le_brake_events [OF sh_le_refl] wf1] .
  ultimately have "ev_has (sh_events_sp ?sh2) SP_lkasDisable" using wf1 by simp
  then show ?thesis
    unfolding mads_update_events_split
    using sh_leD(4) [OF sh_le_after_brake [OF sh_le_refl] wf2] by blast
qed

text \<open>In PAUSE mode it raises \<open>silentLkasDisable\<close>, unless MADS is already paused.\<close>

lemma pause_raises_silentLkasDisable:
  assumes "sh_wf d sh" "md_steering_mode_on_brake m = MODE_PAUSE" "md_enabled m" "\<not> sh_enabled sh"
    and "md_state m \<noteq> MS_paused" "pedal_pressed_non_gas_pressed m CS CSp sh"
  shows "ev_has (sh_events_sp (mads_update_events d m CS CSp sh)) SP_silentLkasDisable"
proof -
  let ?s1 = "mads_silence_events d m CS sh" and ?R = MADS_REMOVED
  let ?s2 = "sh_add_sp d SP_silentLkasDisable ?s1"
  have wf1: "sh_wf d ?s1" using sh_leD(1) [OF sh_le_silence [OF sh_le_refl] assms(1)] .
  then have wf2: "sh_wf d ?s2" using sh_leD(1) [OF sh_le_add_sp [OF sh_le_refl]] by blast
  have "pedal_pressed_non_gas_pressed m CS CSp ?s1"
    using sh_leD(5) [OF sh_le_silence [OF sh_le_refl] assms(1), of EV_pedalPressed m CS] assms(6)
    by (simp add: pedal_pressed_non_gas_pressed_def MADS_REMOVED_def)
  then have lat: "py_when (\<not> sh_enabled sh \<and> md_enabled m) (mads_lateral_only_events d m CS CSp) sh =
      fold (sh_remove d) [EV_preEnableStandstill, EV_belowEngageSpeed, EV_speedTooLow,
        EV_cruiseDisabled, EV_manualRestart, EV_espActive] ?s2"
    using assms by (simp add: mads_lateral_only_events_def transition_paused_state_def py_when_def)
  have "sh_le d ?R ?s2 (mads_events_before_brake d m CS CSp sh)"
    unfolding mads_events_before_brake_def lat
    by (intro sh_intros sh_le_refl) (auto simp: MADS_REMOVED_def)
  then have "sh_le d MADS_REMOVED_ALL ?s2 (mads_update_events d m CS CSp sh)"
    unfolding mads_update_events_split
    by (intro sh_le_after_brake sh_le_brake_events sh_le_removed_all)
  from sh_leD(4) [OF this wf2] wf1 show ?thesis by simp
qed

subsection \<open>One whole update\<close>

text \<open>The flags always describe the state.\<close>

definition mads_inv :: "mads \<Rightarrow> bool" where
  "mads_inv m \<longleftrightarrow> (md_enabled m \<longleftrightarrow> md_state m \<noteq> MS_disabled) \<and>
     (md_active m \<longleftrightarrow> md_state m \<noteq> MS_disabled \<and> md_state m \<noteq> MS_paused)"

lemma mads_data_sample_simps [simp]:
  "md_state (mads_data_sample ps sh m) = md_state m" "md_enabled (mads_data_sample ps sh m) = md_enabled m"
  "md_active (mads_data_sample ps sh m) = md_active m"
  "md_steering_mode_on_brake (mads_data_sample ps sh m) = md_steering_mode_on_brake m"
  "md_disengage_on_accelerator (mads_data_sample ps sh m) = md_disengage_on_accelerator m"
  "md_enabled_toggle (mads_data_sample ps sh m) = md_enabled_toggle m"
  by (simp_all add: mads_data_sample_def)

lemma mads_update_flags:
  assumes "mads_inv m" shows "mads_inv (fst (mads_update d CP ini pandas CS CSp m sh))"
  using assms by (simp add: mads_inv_def mads_update_def Let_def case_prod_beta mads_sm_flags)

lemma mads_update_state:
  assumes "md_enabled_toggle m" "\<not> cp_passive CP" "ini"
  shows "md_state (fst (mads_update d CP ini pandas CS CSp m sh)) =
    (let sh1 = mads_update_events d (mads_data_sample pandas sh m) CS CSp sh
     in mads_next (mads_view_of (sh_events sh1) (sh_events_sp sh1)) (sh_enabled sh1) (md_state m) (sh_sm sh1))"
  using assms by (simp add: mads_update_def Let_def case_prod_beta)

lemma mads_next_user_disable:
  "st \<noteq> MS_disabled \<Longrightarrow> mv_contains v ET_USER_DISABLE \<Longrightarrow>
   mads_next v b st sm = (if mv_silent_disable v then MS_paused else MS_disabled)"
  by (simp add: mads_next_cases)

text \<open>Any SP event of type USER_DISABLE takes an engaged MADS out of the active states.\<close>

lemma mads_update_user_disable:
  assumes "sh_wf d sh" "md_enabled_toggle m" "\<not> cp_passive CP" "ini" "md_state m \<noteq> MS_disabled"
    and "ev_has (sh_events_sp (mads_update_events d (mads_data_sample pandas sh m) CS CSp sh)) e"
    and "ET_USER_DISABLE \<in> set (types_of (EVENTS_SP d) e)"
  shows "md_state (fst (mads_update d CP ini pandas CS CSp m sh)) =
    (if ev_has (sh_events_sp (mads_update_events d (mads_data_sample pandas sh m) CS CSp sh))
          SP_silentLkasDisable then MS_paused else MS_disabled)"
proof -
  let ?sh1 = "mads_update_events d (mads_data_sample pandas sh m) CS CSp sh"
  have "sh_wf d ?sh1" using sh_leD(1) [OF sh_le_update_events assms(1)] .
  then have "mv_contains (mads_view_of (sh_events ?sh1) (sh_events_sp ?sh1)) ET_USER_DISABLE"
    using assms(6,7) by (rule view_contains_sp)
  with assms(5) show ?thesis
    by (simp add: mads_update_state [OF assms(2-4)] Let_def mads_next_user_disable mads_view_of_def)
qed

lemma brake_ends_steering_aux:
  assumes "sh_wf d sh" "mads_inv m" "md_active m" "md_enabled_toggle m" "\<not> cp_passive CP"
    and "\<not> sh_enabled sh" "pedal_pressed_non_gas_pressed m CS CSp sh"
  shows "(md_steering_mode_on_brake m = MODE_PAUSE \<longrightarrow>
            md_state (fst (mads_update d CP True pandas CS CSp m sh)) = MS_paused) \<and>
         (md_steering_mode_on_brake m = MODE_DISENGAGE \<longrightarrow>
            \<not> md_active (fst (mads_update d CP True pandas CS CSp m sh)))"
proof (intro conjI impI)
  let ?m = "mads_data_sample pandas sh m"
  have st: "md_state m \<noteq> MS_disabled" "md_state m \<noteq> MS_paused" "md_enabled m"
    using assms(2,3) by (simp_all add: mads_inv_def)
  have ped: "pedal_pressed_non_gas_pressed ?m CS CSp sh"
    using assms(7) by (simp add: pedal_pressed_non_gas_pressed_def)
  note upd = mads_update_user_disable [OF assms(1,4,5) TrueI st(1)]
  { assume "md_steering_mode_on_brake m = MODE_PAUSE"
    with assms st ped have
      "ev_has (sh_events_sp (mads_update_events d ?m CS CSp sh)) SP_silentLkasDisable"
      by (intro pause_raises_silentLkasDisable) simp_all
    from upd [OF this] this
    show "md_state (fst (mads_update d CP True pandas CS CSp m sh)) = MS_paused" by simp }
  { assume "md_steering_mode_on_brake m = MODE_DISENGAGE"
    with assms st ped have "ev_has (sh_events_sp (mads_update_events d ?m CS CSp sh)) SP_lkasDisable"
      by (intro disengage_raises_lkasDisable) simp_all
    from upd [OF this] have "md_state (fst (mads_update d CP True pandas CS CSp m sh)) \<in> {MS_paused, MS_disabled}"
      by simp
    then show "\<not> md_active (fst (mads_update d CP True pandas CS CSp m sh))"
      using mads_update_flags [OF assms(2), of d CP True pandas CS CSp sh] by (auto simp: mads_inv_def) }
qed

lemma brake_mads_inactive:
  assumes "sh_wf d sh" "mads_inv m" "md_active m" "md_enabled_toggle m" "\<not> cp_passive CP"
    and "\<not> sh_enabled sh" "pedal_pressed_non_gas_pressed m CS CSp sh"
    and "md_steering_mode_on_brake m = MODE_PAUSE \<or> md_steering_mode_on_brake m = MODE_DISENGAGE"
  shows "\<not> md_active (fst (mads_update d CP True pandas CS CSp m sh))"
  using brake_ends_steering_aux [OF assms(1-7), of pandas] assms(8)
    mads_update_flags [OF assms(2), of d CP True pandas CS CSp sh] by (auto simp: mads_inv_def)

subsection \<open>Both state machines in one frame\<close>

text \<open>
  The order of \<open>SelfdriveD.step\<close>: the main state machine first, then MADS on the same timer. A
  frame's input is the main machine's view and MADS's view of the events.
\<close>

definition both_step :: "state_machine \<times> mads_state \<Rightarrow> (et \<Rightarrow> bool) \<times> mads_view \<Rightarrow> state_machine \<times> mads_state" where
  "both_step = (\<lambda>(sm, st) (c, v).
     (let (sm1, enabled, active) = sd_update sm c;
          (st2, sm2, mads_enabled, mads_active) = mads_sm_update v enabled st sm1
      in (sm2, st2)))"

definition both_rank :: "state_machine \<times> mads_state \<Rightarrow> nat" where
  "both_rank = (\<lambda>(sm, st).
     if sm_state sm = OP_enabled \<or> sm_state sm = OP_overriding \<or> st = MS_enabled \<or> st = MS_overriding
     then 301
     else if sm_state sm = OP_softDisabling \<or> st = MS_softDisabling
     then nat (max 1 (sm_soft_disable_timer sm)) else 0)"

definition both_inv :: "state_machine \<times> mads_state \<Rightarrow> bool" where
  "both_inv = (\<lambda>(sm, st). 0 \<le> sm_soft_disable_timer sm \<and> sm_soft_disable_timer sm \<le> 300 \<and>
     sm_state sm \<noteq> OP_preEnabled)"

definition both_soft :: "(et \<Rightarrow> bool) \<times> mads_view \<Rightarrow> bool" where
  "both_soft = (\<lambda>(c, v). c ET_SOFT_DISABLE \<and> c ET_NO_ENTRY \<and>
     mv_contains v ET_SOFT_DISABLE \<and> mv_contains v ET_NO_ENTRY)"

lemma both_step_eq:
  "both_step (sm, st) (c, v) =
     (let sm1 = sd_step sm c; b = (sm_state sm1 \<noteq> OP_disabled)
      in (mads_next_sm v b st sm1, mads_next v b st sm1))"
  by (simp add: both_step_def Let_def case_prod_beta sd_update_flags)

lemma both_rank_step:
  assumes "both_inv (sm, st)" "both_soft (c, v)"
  shows "both_rank (both_step (sm, st) (c, v)) \<le> both_rank (sm, st) - 1"
    and "both_inv (both_step (sm, st) (c, v))"
proof -
  let ?sm1 = "sd_step sm c"
  have t1: "sm_soft_disable_timer ?sm1 =
      (if (sm_state sm = OP_enabled \<or> sm_state sm = OP_overriding) \<and> sm_state ?sm1 = OP_softDisabling
       then 300 else max 0 (sm_soft_disable_timer sm - 1))"
    and s1: "sm_state ?sm1 = OP_disabled \<or> sm_state ?sm1 = OP_softDisabling \<and>
      (sm_state sm \<noteq> OP_softDisabling \<or> 1 < sm_soft_disable_timer sm) \<and> sm_state sm \<noteq> OP_disabled"
    using sd_update_trans [of c sm] assms
    by (auto simp: both_inv_def both_soft_def elim!: sd_trans.cases)
  have m1: "mads_next v b st ?sm1 \<in> {MS_disabled, MS_paused} \<or>
      mads_next v b st ?sm1 = MS_softDisabling \<and> st \<noteq> MS_disabled \<and> st \<noteq> MS_paused \<and>
      (st = MS_softDisabling \<longrightarrow> 0 < sm_soft_disable_timer ?sm1)" for b
    using assms(2) by (cases st) (auto simp: mads_next_cases both_soft_def Let_def)
  show "both_inv (both_step (sm, st) (c, v))"
    using assms(1) s1 t1 by (auto simp: both_inv_def both_step_eq Let_def mads_next_timer)
  show "both_rank (both_step (sm, st) (c, v)) \<le> both_rank (sm, st) - 1"
    using assms(1) s1 t1 m1 [of "sm_state ?sm1 \<noteq> OP_disabled"]
    by (cases st; cases "sm_state sm";
        force simp: both_inv_def both_rank_def both_step_eq Let_def mads_next_timer)
qed

interpretation both: ranked_machine both_step both_soft both_inv both_rank
proof
  show "both_inv (both_step s i)" if "both_inv s" "both_soft i" for s i
    using both_rank_step(2) [of "fst s" "snd s" "fst i" "snd i"] that by simp
  show "both_rank (both_step s i) \<le> both_rank s - 1" if "both_inv s" "both_soft i" for s i
    using both_rank_step(1) [of "fst s" "snd s" "fst i" "snd i"] that by simp
qed

subsection \<open>Properties\<close>

text \<open>
  The complete condition under which one update of the MADS state machine leaves steering
  active: from disabled, an ENABLE event without NO_ENTRY; from paused, the same and no
  disabling event; from enabled or overriding, no user or immediate disable; while soft
  disabling, in addition not a soft-disable condition whose countdown has run out.
\<close>

theorem mads_active_iff:
  "snd (snd (snd (mads_sm_update v b st sm))) \<longleftrightarrow>
     (let c = mv_contains v; entry = c ET_ENABLE \<and> \<not> c ET_NO_ENTRY;
          disabling = c ET_USER_DISABLE \<or> c ET_IMMEDIATE_DISABLE
      in case st of
           MS_disabled \<Rightarrow> entry
         | MS_paused \<Rightarrow> entry \<and> \<not> disabling
         | MS_softDisabling \<Rightarrow> \<not> disabling \<and> \<not> (c ET_SOFT_DISABLE \<and> sm_soft_disable_timer sm \<le> 0)
         | _ \<Rightarrow> \<not> disabling)"
  by (cases st) (auto simp: mads_sm_flags mads_next_cases Let_def)

text \<open>
  Braking takes steering away: if MADS is active, openpilot itself is not engaged (a pedal
  press disengages it first) and a pedal press that is not the accelerator is among the events,
  then with the steering mode PAUSE the update ends in the paused state, and with DISENGAGE it
  ends with steering inactive (disabled, or paused when another cause pauses in the same frame).
\<close>

theorem brake_ends_steering:
  assumes "sh_wf d sh" "mads_inv m" "md_active m" "md_enabled_toggle m" "\<not> cp_passive CP"
    and "\<not> sh_enabled sh" "pedal_pressed_non_gas_pressed m CS CSp sh"
  shows "(md_steering_mode_on_brake m = MODE_PAUSE \<longrightarrow>
            md_state (fst (mads_update d CP True pandas CS CSp m sh)) = MS_paused) \<and>
         (md_steering_mode_on_brake m = MODE_DISENGAGE \<longrightarrow>
            \<not> md_active (fst (mads_update d CP True pandas CS CSp m sh)))"
  using assms by (rule brake_ends_steering_aux)

text \<open>An engaged MADS of a car in PAUSE mode, with a pedal event.\<close>

definition example_params :: mads_params where
  "example_params = \<lparr>mp_Mads = True, mp_MadsMainCruiseAllowed = True,
     mp_MadsUnifiedEngagementMode = True, mp_MadsSteeringMode = MODE_PAUSE,
     mp_DisengageOnAccelerator = False, mp_tesla_screen_button_off = False\<rparr>"

definition example_CP :: car_params where
  "example_CP = \<lparr>cp_brand = ''toyota'', cp_passive = False, cp_notCar = False, cp_pcmCruise = True,
     cp_openpilotLongitudinalControl = False, cp_minEnableSpeed = 0, cp_minSteerSpeed = 0,
     cp_fwdCamera = True, cp_toyota_hybrid = False, cp_hyundai_lda_or_canfd = False,
     cp_ram_dt = False, cp_drivable_gears = [], cp_max_ctrl_speed = 50,
     cp_safetyConfigs = [], cp_alternativeExperience = 0\<rparr>"

definition example_CPSP :: car_params_sp where
  "example_CPSP = \<lparr>cpsp_tesla_has_vehicle_bus = False, cpsp_enableGasInterceptor = False,
     cpsp_pcmCruiseSpeed = True, cpsp_intelligentCruiseButtonManagementAvailable = False\<rparr>"

definition example_shared :: "int list \<Rightarrow> shared" where
  "example_shared es =
     \<lparr>sh_events = fold (\<lambda>e s. ev_add (EVENTS False) False s e) es (events_init []),
      sh_events_sp = events_init [], sh_sm = sd_init, sh_enabled = False, sh_enabled_prev = False\<rparr>"

lemmas example_defs = example_params_def example_CP_def example_CPSP_def example_shared_def
  mads_init_def read_steering_mode_param_def get_mads_limited_brands_def

lemma example_shared_wf [simp]: "sh_wf False (example_shared es)"
  by (simp add: sh_wf_def example_shared_def ev.fold_add_invar)

lemma example_shared_has [simp]: "ev_has (sh_events (example_shared es)) e \<longleftrightarrow> e \<in> set es"
proof -
  have "ev_bag (fold (\<lambda>e s. ev_add (EVENTS False) False s e) es (events_init [])) = mset es"
    by (subst ev.fold_add_bag) simp_all
  then show ?thesis
    using ev.has_bag [of False "sh_events (example_shared es)"] example_shared_wf [of es]
    by (simp add: sh_wf_def example_shared_def)
qed

theorem brake_ends_steering_witness:
  "md_state (fst (mads_update False example_CP True [] (car_state_default GS_drive)
     (car_state_default GS_drive)
     ((mads_init example_CP example_CPSP example_params)
        \<lparr>md_enabled := True, md_active := True, md_state := MS_enabled\<rparr>)
     (example_shared [EV_pedalPressed]))) = MS_paused"
proof -
  let ?m = "(mads_init example_CP example_CPSP example_params)
        \<lparr>md_enabled := True, md_active := True, md_state := MS_enabled\<rparr>"
  have "mads_inv ?m" "md_active ?m" "md_enabled_toggle ?m" "\<not> cp_passive example_CP"
    "md_steering_mode_on_brake ?m = MODE_PAUSE" "\<not> sh_enabled (example_shared [EV_pedalPressed])"
    by (simp_all add: mads_inv_def example_defs)
  moreover have "pedal_pressed_non_gas_pressed ?m (car_state_default GS_drive)
      (car_state_default GS_drive) (example_shared [EV_pedalPressed])"
    by (simp add: pedal_pressed_non_gas_pressed_def car_state_default_def)
  ultimately show ?thesis
    using brake_ends_steering [OF example_shared_wf] by blast
qed

text \<open>
  Soft disabling ends for both state machines together, although they share one timer that
  either may restart: if in 301 consecutive frames both see soft-disable and no-entry events
  and the main machine is not pre-enabled, the main machine ends disabled and MADS ends
  disabled or paused.
\<close>

theorem both_soft_disable_ends:
  assumes "0 \<le> sm_soft_disable_timer sm" "sm_soft_disable_timer sm \<le> 300"
    and "sm_state sm \<noteq> OP_preEnabled" "301 \<le> length is"
    and "\<forall>(c, v) \<in> set is. c ET_SOFT_DISABLE \<and> c ET_NO_ENTRY \<and>
           mv_contains v ET_SOFT_DISABLE \<and> mv_contains v ET_NO_ENTRY"
  shows "sm_state (fst (frames both_step (sm, st) is)) = OP_disabled \<and>
         snd (frames both_step (sm, st) is) \<in> {MS_disabled, MS_paused}"
proof -
  let ?s = "frames both_step (sm, st) is"
  have inv: "both_inv (sm, st)" and ok: "\<forall>i \<in> set is. both_soft i"
    using assms by (auto simp: both_inv_def both_soft_def)
  have "both_rank (sm, st) \<le> 301" using assms(2) by (auto simp: both_rank_def)
  then have "both_rank ?s = 0" using assms(4) by (intro both.run_exhausted [OF inv ok]) simp
  moreover have "both_inv ?s" by (rule both.run_inv [OF inv ok])
  ultimately show ?thesis
    by (cases ?s; cases "snd ?s"; cases "sm_state (fst ?s)")
      (auto simp: both_rank_def both_inv_def split: if_splits)
qed

theorem both_soft_disable_ends_witness:
  "snd (frames both_step (sd_init, MS_enabled)
     (replicate 301 (\<lambda>t. True, \<lparr>mv_contains = \<lambda>t. t = ET_SOFT_DISABLE \<or> t = ET_NO_ENTRY,
        mv_silent_disable = False, mv_pausing = False\<rparr>))) \<in> {MS_disabled, MS_paused}"
  by (rule both_soft_disable_ends [THEN conjunct2]) (auto simp: sd_init_def)

text \<open>
  What MADS does to the events it shares with openpilot: on well-formed stores its event
  handling never adds a main event and removes none outside the fixed list
  \<open>MADS_REMOVED_ALL\<close> of nineteen, never removes an SP event, and does not touch the main
  state machine.
\<close>

theorem mads_events_confined:
  assumes "sh_wf d sh"
  shows "let sh' = mads_update_events d m CS CSp sh in
    ev_bag (sh_events sh') \<subseteq># ev_bag (sh_events sh) \<and>
    (\<forall>e. ev_has (sh_events sh) e \<and> \<not> ev_has (sh_events sh') e \<longrightarrow> e \<in> MADS_REMOVED_ALL) \<and>
    ev_bag (sh_events_sp sh) \<subseteq># ev_bag (sh_events_sp sh') \<and> sh_sm sh' = sh_sm sh \<and> sh_wf d sh'"
  using sh_le_update_events [of d sh m CS CSp] sh_leD(5) [OF sh_le_update_events assms] assms
  by (auto simp: sh_le_def Let_def)

theorem mads_events_confined_witness:
  "let sh = example_shared [EV_relayMalfunction];
       sh' = mads_update_events False (mads_init example_CP example_CPSP example_params)
               (car_state_default GS_drive) (car_state_default GS_drive) sh
   in ev_has (sh_events sh') EV_relayMalfunction"
proof -
  let ?sh = "example_shared [EV_relayMalfunction]"
  have "EV_relayMalfunction \<notin> MADS_REMOVED_ALL" by (simp add: MADS_REMOVED_ALL_def MADS_REMOVED_def)
  moreover have "ev_has (sh_events ?sh) EV_relayMalfunction" by simp
  ultimately show ?thesis
    using mads_events_confined [OF example_shared_wf [of "[EV_relayMalfunction]"]]
    unfolding Let_def by blast
qed

text \<open>
  The panda's veto reaches MADS: when MADS is active without openpilot, a panda that is not
  in an ignored safety mode denies lateral control, and it is at least the 200th such sample in a
  row, then steering is inactive after the update.
\<close>

theorem lateral_mismatch_ends_steering:
  assumes "sh_wf d sh" "mads_inv m" "md_active m" "md_enabled_toggle m" "\<not> cp_passive CP"
    and "\<not> sh_enabled sh" "199 \<le> md_lateral_mismatch_counter m"
    and "ps \<in> set pandas" "\<not> panda_ignored ps" "\<not> ps_controlsAllowedLateral ps"
  shows "\<not> md_active (fst (mads_update d CP True pandas CS CSp m sh))"
proof -
  let ?m = "mads_data_sample pandas sh m"
  let ?s1 = "mads_events_before_brake d ?m CS CSp sh"
  let ?s2 = "mads_brake_events d ?m CS CSp ?s1"
  let ?s3 = "py_when (should_silent_lkas_enable ?m CS CSp ?s2 \<and> md_state ?m = MS_paused)
               (sh_add_sp d SP_silentLkasEnable) ?s2"
  let ?sh = "mads_update_events d ?m CS CSp sh"
  have "200 \<le> md_lateral_mismatch_counter ?m"
    using assms by (auto simp: mads_data_sample_def list_ex_iff)
  then have upd: "?sh = fold (sh_remove d) [EV_pcmDisable, EV_buttonCancel, EV_pedalPressed, EV_wrongCruiseMode]
      (sh_add_sp d SP_controlsMismatchLateral ?s3)"
    by (simp add: mads_update_events_split mads_events_after_brake_def py_when_def)
  have wf3: "sh_wf d ?s3"
    by (rule sh_leD(1) [OF _ assms(1), of MADS_REMOVED]) (intro sh_intros sh_le_refl)
  then have wf4: "sh_wf d (sh_add_sp d SP_controlsMismatchLateral ?s3)"
    using sh_leD(1) [OF sh_le_add_sp [OF sh_le_refl]] by blast
  have "sh_le d MADS_REMOVED_ALL (sh_add_sp d SP_controlsMismatchLateral ?s3) ?sh"
    unfolding upd by (rule sh_le_fold, rule sh_le_refl, rule sh_le_remove)
      (auto simp: MADS_REMOVED_ALL_def)
  from sh_leD(4) [OF this wf4] has_add_sp [OF wf3]
  have "ev_has (sh_events_sp ?sh) SP_controlsMismatchLateral" by blast
  then have "mv_contains (mads_view_of (sh_events ?sh) (sh_events_sp ?sh)) ET_IMMEDIATE_DISABLE"
    by (rule view_contains_sp [OF sh_leD(1) [OF sh_le_update_events assms(1)]]) simp
  then have "md_state (fst (mads_update d CP True pandas CS CSp m sh)) \<in> {MS_disabled, MS_paused}"
    using assms(2,3)
    by (auto simp: mads_update_state [OF assms(4,5)] Let_def mads_next_cases mads_inv_def)
  then show ?thesis
    using mads_update_flags [OF assms(2), of d CP True pandas CS CSp sh] by (auto simp: mads_inv_def)
qed

definition example_panda :: panda_state where
  "example_panda = \<lparr>ps_safetyModel = SM_other 2, ps_safetyParam = 0, ps_alternativeExperience = 0,
     ps_controlsAllowed = False, ps_controlsAllowedLateral = False, ps_safetyRxChecksInvalid = False,
     ps_relayMalfunction = False\<rparr>"

theorem lateral_mismatch_ends_steering_witness:
  "\<not> md_active (fst (mads_update False example_CP True [example_panda]
     (car_state_default GS_drive) (car_state_default GS_drive)
     ((mads_init example_CP example_CPSP example_params)
        \<lparr>md_enabled := True, md_active := True, md_state := MS_enabled,
         md_lateral_mismatch_counter := 199\<rparr>)
     (example_shared [])))"
  by (rule lateral_mismatch_ends_steering [OF example_shared_wf, where ps = example_panda])
    (simp_all add: mads_inv_def example_defs example_panda_def panda_ignored_def IGNORED_SAFETY_MODES_def)

text \<open>
  The guard that should keep MADS from engaging while braking never fires. \<open>mads.py\<close> asks
  \<open>events_sp.contains(EventNameSP.lkasEnable)\<close>, a query by event type, with an event name; on
  a well-formed store that is never true. So with the steering mode DISENGAGE, the brake pressed
  and MADS disabled, the pedal handling changes nothing: an \<open>lkasEnable\<close> event stays and no
  \<open>pedalPressedAlertOnly\<close> alert is raised.
\<close>

theorem brake_guard_never_fires:
  assumes "sh_wf d sh" "\<not> md_enabled m"
  shows "mads_brake_events d m CS CSp sh = sh"
proof -
  have "\<not> ev_contains_key (sh_events_sp sh) (KName SP_lkasEnable)"
    using assms(1) unfolding sh_wf_def by (blast dest: ev_contains_name)
  with assms(2) show ?thesis by (simp add: mads_brake_events_def py_when_def)
qed

theorem brake_guard_never_fires_witness:
  "mads_brake_events False
     ((mads_init example_CP example_CPSP example_params)\<lparr>md_steering_mode_on_brake := MODE_DISENGAGE\<rparr>)
     (car_state_default GS_drive) (car_state_default GS_drive)
     (sh_add_sp False SP_lkasEnable (example_shared [EV_pedalPressed])) =
   sh_add_sp False SP_lkasEnable (example_shared [EV_pedalPressed])"
  by (rule brake_guard_never_fires [OF sh_leD(1) [OF sh_le_add_sp [OF sh_le_refl] example_shared_wf]])
    (simp add: example_defs)

end
