(* ===== verification/Cruise.thy ===== *)
theory Cruise
  imports Car_State
begin

text \<open>
  The cruise set speed: \<open>VCruiseHelper\<close> of \<open>selfdrive/car/cruise.py\<close> with its sunnypilot base
  class \<open>VCruiseHelperSP\<close> (\<open>sunnypilot/selfdrive/car/cruise_ext.py\<close>), and the intelligent cruise
  button management that steers a stock cruise control by its buttons
  (\<open>intelligent_cruise_button_management/controller.py\<close>).

  Speeds are kilometres per hour where the names say so. A dictionary of button timers is an
  association list in the order of the Python literal, because a loop picks its first entry.
\<close>

subsection \<open>Button timers\<close>

type_synonym button_timers = "(button_type \<times> int) list"

definition CRUISE_BUTTON_TIMER :: button_timers where
  "CRUISE_BUTTON_TIMER =
     [(BT_decelCruise, 0), (BT_accelCruise, 0), (BT_setCruise, 0), (BT_resumeCruise, 0),
      (BT_cancel, 0), (BT_mainCruise, 0)]"

definition timers_set :: "button_type \<Rightarrow> int \<Rightarrow> button_timers \<Rightarrow> button_timers" where
  "timers_set k n = map (\<lambda>(b, t). (b, if b = k then n else t))"

definition timers_tick :: "button_timers \<Rightarrow> button_timers" where
  "timers_tick = map (\<lambda>(b, t). (b, if t > 0 then t + 1 else t))"

definition update_manual_button_timers :: "car_state \<Rightarrow> button_timers \<Rightarrow> button_timers" where
  "update_manual_button_timers CS timers =
     fold (\<lambda>b ts. timers_set (be_type b) (if be_pressed b then 1 else 0) ts)
       (cs_buttonEvents CS) (timers_tick timers)"

definition any_timer :: "button_timers \<Rightarrow> bool" where
  "any_timer ts \<longleftrightarrow> list_ex (\<lambda>(b, t). t > 0) ts"

definition get_minimum_set_speed :: "bool \<Rightarrow> real" where
  "get_minimum_set_speed is_metric = (if is_metric then 30 else 20)"

subsection \<open>The cruise helper\<close>

definition V_CRUISE_MIN :: real where "V_CRUISE_MIN = 8"
definition V_CRUISE_MAX :: real where "V_CRUISE_MAX = 145"
definition V_CRUISE_UNSET :: real where "V_CRUISE_UNSET = 255"
definition V_CRUISE_INITIAL :: real where "V_CRUISE_INITIAL = 40"
definition V_CRUISE_INITIAL_EXPERIMENTAL_MODE :: real where "V_CRUISE_INITIAL_EXPERIMENTAL_MODE = 105"
definition CRUISE_LONG_PRESS :: int where "CRUISE_LONG_PRESS = 50"
definition IMPERIAL_INCREMENT :: real where "IMPERIAL_INCREMENT = py_round1 MPH_TO_KPH"

declare V_CRUISE_MIN_def [const_defs] V_CRUISE_MAX_def [const_defs] V_CRUISE_UNSET_def [const_defs]
  V_CRUISE_INITIAL_def [const_defs] V_CRUISE_INITIAL_EXPERIMENTAL_MODE_def [const_defs]
  CRUISE_LONG_PRESS_def [const_defs]

datatype sla_state = SLA_disabled | SLA_inactive | SLA_preActive | SLA_pending | SLA_adapting | SLA_active

definition SLA_ACTIVE_STATES :: "sla_state list" where
  "SLA_ACTIVE_STATES = [SLA_active, SLA_adapting]"

record v_cruise =
  vc_kph :: real
  vc_cluster_kph :: real
  vc_kph_last :: real
  vc_button_timers :: button_timers
  vc_change_states :: "button_type \<Rightarrow> bool \<times> bool"  \<comment> \<open>standstill, enabled\<close>
  vc_min :: real
  vc_enabled_prev :: bool
  vc_custom_acc_enabled :: bool
  vc_short_increment :: int
  vc_long_increment :: int
  vc_enable_button_timers :: button_timers
  vc_sla_state :: sla_state
  vc_prev_sla_state :: sla_state
  vc_has_speed_limit :: bool
  vc_speed_limit_final_last :: real
  vc_speed_limit_final_last_kph :: real
  vc_prev_speed_limit_final_last_kph :: real
  vc_req_plus :: bool
  vc_req_minus :: bool

text \<open>The constructor, with the three stored parameters it reads.\<close>

definition vc_init :: "bool \<Rightarrow> int \<Rightarrow> int \<Rightarrow> v_cruise" where
  "vc_init custom short long =
     \<lparr>vc_kph = V_CRUISE_UNSET, vc_cluster_kph = V_CRUISE_UNSET, vc_kph_last = 0,
      vc_button_timers = [(BT_decelCruise, 0), (BT_accelCruise, 0)],
      vc_change_states = (\<lambda>_. (False, False)), vc_min = 0, vc_enabled_prev = False,
      vc_custom_acc_enabled = custom, vc_short_increment = short, vc_long_increment = long,
      vc_enable_button_timers = CRUISE_BUTTON_TIMER,
      vc_sla_state = SLA_disabled, vc_prev_sla_state = SLA_disabled, vc_has_speed_limit = False,
      vc_speed_limit_final_last = 0, vc_speed_limit_final_last_kph = 0,
      vc_prev_speed_limit_final_last_kph = 0, vc_req_plus = False, vc_req_minus = False\<rparr>"

definition read_custom_set_speed_params :: "bool \<Rightarrow> int \<Rightarrow> int \<Rightarrow> v_cruise \<Rightarrow> v_cruise" where
  "read_custom_set_speed_params custom short long s =
     s\<lparr>vc_custom_acc_enabled := custom, vc_short_increment := short, vc_long_increment := long\<rparr>"

definition v_cruise_initialized :: "v_cruise \<Rightarrow> bool" where
  "v_cruise_initialized s \<longleftrightarrow> vc_kph s \<noteq> V_CRUISE_UNSET"

definition update_v_cruise_delta :: "v_cruise \<Rightarrow> bool \<Rightarrow> real \<Rightarrow> bool \<times> real" where
  "update_v_cruise_delta s long_press delta =
     (if \<not> vc_custom_acc_enabled s then (long_press, delta * (if long_press then 5 else 1))
      else
        (let short = np_clip (vc_short_increment s) 1 10;
             long = np_clip (vc_long_increment s) 1 10;
             actual = (if long_press then long else short);
             round_to_nearest = (actual = 5 \<or> actual = 10)
         in (round_to_nearest, delta * of_int actual)))"

definition vc_get_minimum_set_speed :: "car_params_sp \<Rightarrow> bool \<Rightarrow> v_cruise \<Rightarrow> v_cruise" where
  "vc_get_minimum_set_speed CPSP is_metric s =
     (if cpsp_pcmCruiseSpeed CPSP then s\<lparr>vc_min := V_CRUISE_MIN\<rparr>
      else s\<lparr>vc_min := get_minimum_set_speed is_metric\<rparr>)"

definition update_enabled_state :: "car_params_sp \<Rightarrow> car_state \<Rightarrow> bool \<Rightarrow> v_cruise \<Rightarrow> v_cruise \<times> bool" where
  "update_enabled_state CPSP CS enabled s =
     (if \<not> cpsp_pcmCruiseSpeed CPSP then
        (let s = s\<lparr>vc_enable_button_timers := update_manual_button_timers CS (vc_enable_button_timers s)\<rparr>;
             button_pressed = any_timer (vc_enable_button_timers s);
             (s, enabled) =
               (if enabled \<and> \<not> vc_enabled_prev s then (s\<lparr>vc_enabled_prev := \<not> button_pressed\<rparr>, False)
                else if \<not> enabled then (s\<lparr>vc_enabled_prev := enabled\<rparr>, enabled)
                else (s, enabled))
         in (s, enabled \<and> vc_enabled_prev s))
      else (s, enabled))"

definition compare_cluster_target :: "real \<Rightarrow> real \<Rightarrow> bool \<Rightarrow> bool \<times> bool" where
  "compare_cluster_target v_cruise_cluster target_set_speed is_metric =
     (let speed_conv = (if is_metric then MS_TO_KPH else MS_TO_MPH);
          c = py_round (v_cruise_cluster * speed_conv);
          t = py_round (target_set_speed * speed_conv)
      in (c < t, c > t))"

text \<open>What \<open>update_speed_limit_assist\<close> reads of \<open>longitudinalPlanSP.speedLimit\<close>.\<close>

record lp_speed_limit =
  ls_speedLimitValid :: bool
  ls_speedLimitLastValid :: bool
  ls_speedLimitFinalLast :: real
  ls_assist_state :: sla_state

definition vc_update_speed_limit_assist :: "bool \<Rightarrow> lp_speed_limit \<Rightarrow> v_cruise \<Rightarrow> v_cruise" where
  "vc_update_speed_limit_assist is_metric LP s =
     (let (plus, minus) = compare_cluster_target (vc_cluster_kph s * KPH_TO_MS)
                            (ls_speedLimitFinalLast LP) is_metric
      in s\<lparr>vc_has_speed_limit := (ls_speedLimitValid LP \<or> ls_speedLimitLastValid LP),
           vc_speed_limit_final_last := ls_speedLimitFinalLast LP,
           vc_speed_limit_final_last_kph := ls_speedLimitFinalLast LP * MS_TO_KPH,
           vc_sla_state := ls_assist_state LP, vc_req_plus := plus, vc_req_minus := minus\<rparr>)"

definition speed_limit_final_last_changed :: "v_cruise \<Rightarrow> bool" where
  "speed_limit_final_last_changed s \<longleftrightarrow> vc_has_speed_limit s \<and>
     vc_speed_limit_final_last_kph s \<noteq> vc_prev_speed_limit_final_last_kph s"

definition sla_pre_active_confirmed :: "v_cruise \<Rightarrow> button_type \<Rightarrow> bool" where
  "sla_pre_active_confirmed s b \<longleftrightarrow>
     (vc_sla_state s = SLA_preActive \<or> vc_prev_sla_state s = SLA_preActive) \<and>
     (b = BT_decelCruise \<and> vc_req_minus s \<or> b = BT_accelCruise \<and> vc_req_plus s)"

definition sla_update_v_cruise_non_pcm :: "v_cruise \<Rightarrow> v_cruise" where
  "sla_update_v_cruise_non_pcm s =
     (let s = (if vc_sla_state s \<in> set SLA_ACTIVE_STATES \<and>
                  (vc_prev_sla_state s \<notin> set SLA_ACTIVE_STATES \<or> speed_limit_final_last_changed s)
               then s\<lparr>vc_kph := np_clip (py_round1 (vc_speed_limit_final_last_kph s)) (vc_min s) V_CRUISE_MAX\<rparr>
               else s)
      in s\<lparr>vc_prev_sla_state := vc_sla_state s,
           vc_prev_speed_limit_final_last_kph := vc_speed_limit_final_last_kph s\<rparr>)"

text \<open>
  The button that changes the speed in this frame, and whether it is a long press. \<open>None\<close> stands
  for both early returns: the end of a long press, and no button. In the loop over the button
  events the first release of a timed button decides.
\<close>

fun released_button :: "button_timers \<Rightarrow> button_event list \<Rightarrow> button_type option" where
  "released_button ts [] = None"
| "released_button ts (b # bs) =
     (if map_of ts (be_type b) \<noteq> None \<and> \<not> be_pressed b then Some (be_type b) else released_button ts bs)"

fun held_button :: "button_timers \<Rightarrow> button_type option" where
  "held_button [] = None"
| "held_button ((k, t) # ts) =
     (if t \<noteq> 0 \<and> t mod CRUISE_LONG_PRESS = 0 then Some k else held_button ts)"

definition cruise_button_press :: "button_timers \<Rightarrow> button_event list \<Rightarrow> (button_type \<times> bool) option" where
  "cruise_button_press ts bs =
     (case released_button ts bs of
        Some b \<Rightarrow> if dict_get (map_of ts) b 0 > CRUISE_LONG_PRESS then None else Some (b, False)
      | None \<Rightarrow> map_option (\<lambda>b. (b, True)) (held_button ts))"

definition cruise_nearest :: "button_type \<Rightarrow> real \<Rightarrow> int" where
  "cruise_nearest b x = (if b = BT_accelCruise then \<lceil>x\<rceil> else \<lfloor>x\<rfloor>)"

definition cruise_interval_sign :: "button_type \<Rightarrow> real" where
  "cruise_interval_sign b = (if b = BT_accelCruise then 1 else -1)"

text \<open>\<open>x % d\<close> of floats with \<open>d > 0\<close>\<close>

definition py_fmod :: "real \<Rightarrow> real \<Rightarrow> real" where
  "py_fmod x d = x - d * of_int \<lfloor>x / d\<rfloor>"

definition cruise_speed_after_press :: "v_cruise \<Rightarrow> button_type \<Rightarrow> bool \<Rightarrow> real \<Rightarrow> real" where
  "cruise_speed_after_press s b long_press delta =
     (if long_press \<and> py_fmod (vc_kph s) delta \<noteq> 0
      then of_int (cruise_nearest b (vc_kph s / delta)) * delta
      else vc_kph s + delta * cruise_interval_sign b)"

definition update_v_cruise_non_pcm :: "car_state \<Rightarrow> bool \<Rightarrow> bool \<Rightarrow> v_cruise \<Rightarrow> v_cruise" where
  "update_v_cruise_non_pcm CS enabled is_metric s =
     (if \<not> enabled then s
      else
        (let delta = (if is_metric then 1 else IMPERIAL_INCREMENT)
         in case cruise_button_press (vc_button_timers s) (cs_buttonEvents CS) of
              None \<Rightarrow> s
            | Some (b, long_press) \<Rightarrow>
                if b = BT_accelCruise \<and>
                   (fst (vc_change_states s b) \<or> cr_standstill (cs_cruiseState CS)) then s
                else if \<not> snd (vc_change_states s b) then s
                else if sla_pre_active_confirmed s b then s
                else
                  (let (long_press, delta) = update_v_cruise_delta s long_press delta;
                       v = cruise_speed_after_press s b long_press delta;
                       v = (if cs_gasPressed CS \<and> (b = BT_decelCruise \<or> b = BT_setCruise)
                            then max v (cs_vEgo CS * MS_TO_KPH) else v)
                   in s\<lparr>vc_kph := np_clip (py_round1 v) (vc_min s) V_CRUISE_MAX\<rparr>)))"

definition vc_button_event :: "car_state \<Rightarrow> bool \<Rightarrow> button_event \<Rightarrow> v_cruise \<Rightarrow> v_cruise" where
  "vc_button_event CS enabled b s =
     (if map_of (vc_button_timers s) (be_type b) \<noteq> None then
        s\<lparr>vc_button_timers := timers_set (be_type b) (if be_pressed b then 1 else 0) (vc_button_timers s),
          vc_change_states := (vc_change_states s)
            (be_type b := (cr_standstill (cs_cruiseState CS), enabled))\<rparr>
      else s)"

definition vc_update_button_timers :: "car_state \<Rightarrow> bool \<Rightarrow> v_cruise \<Rightarrow> v_cruise" where
  "vc_update_button_timers CS enabled s =
     fold (vc_button_event CS enabled) (cs_buttonEvents CS)
       (s\<lparr>vc_button_timers := timers_tick (vc_button_timers s)\<rparr>)"

definition vc_pcm_speed :: "cruise_state \<Rightarrow> v_cruise \<Rightarrow> v_cruise" where
  "vc_pcm_speed cr s =
     (if cr_speed cr = 0 then s\<lparr>vc_kph := V_CRUISE_UNSET, vc_cluster_kph := V_CRUISE_UNSET\<rparr>
      else if cr_speed cr = -1 then s\<lparr>vc_kph := -1, vc_cluster_kph := -1\<rparr>
      else s\<lparr>vc_kph := cr_speed cr * MS_TO_KPH, vc_cluster_kph := cr_speedCluster cr * MS_TO_KPH\<rparr>)"

definition update_v_cruise ::
  "car_params \<Rightarrow> car_params_sp \<Rightarrow> car_state \<Rightarrow> bool \<Rightarrow> bool \<Rightarrow> v_cruise \<Rightarrow> v_cruise" where
  "update_v_cruise CP CPSP CS enabled is_metric s =
     (let s = s\<lparr>vc_kph_last := vc_kph s\<rparr>;
          s = vc_get_minimum_set_speed CPSP is_metric s;
          (s, en) = update_enabled_state CPSP CS enabled s;
          s = (if cr_available (cs_cruiseState CS) then
                 (if \<not> cp_pcmCruise CP \<or> \<not> cpsp_pcmCruiseSpeed CPSP \<and> en then
                    (let s = update_v_cruise_non_pcm CS en is_metric s;
                         s = sla_update_v_cruise_non_pcm s
                     in s\<lparr>vc_cluster_kph := vc_kph s\<rparr>)
                  else vc_pcm_speed (cs_cruiseState CS) s)
               else s\<lparr>vc_kph := V_CRUISE_UNSET, vc_cluster_kph := V_CRUISE_UNSET\<rparr>)
      in if \<not> cp_pcmCruise CP \<or> \<not> cpsp_pcmCruiseSpeed CPSP
         then vc_update_button_timers CS enabled s else s)"

definition initialize_v_cruise ::
  "car_params \<Rightarrow> car_state \<Rightarrow> bool \<Rightarrow> bool \<Rightarrow> v_cruise \<Rightarrow> v_cruise" where
  "initialize_v_cruise CP CS experimental_mode dynamic_experimental_control s =
     (if cp_pcmCruise CP then s
      else
        (let initial = (if experimental_mode \<and> \<not> dynamic_experimental_control
                        then V_CRUISE_INITIAL_EXPERIMENTAL_MODE else V_CRUISE_INITIAL);
             s = (if any_button [BT_accelCruise, BT_resumeCruise] CS \<and> v_cruise_initialized s
                  then s\<lparr>vc_kph := vc_kph_last s\<rparr>
                  else s\<lparr>vc_kph := of_int (py_round (np_clip (cs_vEgo CS * MS_TO_KPH) initial V_CRUISE_MAX))\<rparr>)
         in s\<lparr>vc_cluster_kph := vc_kph s\<rparr>))"

text \<open>
  One frame of the car process (\<open>card.py\<close>): the speed-limit message, the update, and the
  initialisation when controls have just become enabled, from the previous car state.
\<close>

definition card_cruise_frame ::
  "car_params \<Rightarrow> car_params_sp \<Rightarrow> bool \<Rightarrow> lp_speed_limit \<Rightarrow> car_state \<Rightarrow> car_state \<Rightarrow> bool \<Rightarrow> bool
    \<Rightarrow> bool \<Rightarrow> bool \<Rightarrow> v_cruise \<Rightarrow> v_cruise" where
  "card_cruise_frame CP CPSP is_metric LP CS CSp enabled enabled_prev experimental dec s =
     (let s = vc_update_speed_limit_assist is_metric LP s;
          s = update_v_cruise CP CPSP CS enabled is_metric s
      in if enabled \<and> \<not> enabled_prev then initialize_v_cruise CP CSp experimental dec s else s)"

subsection \<open>The set speed stays in range\<close>

definition set_speed_ok :: "real \<Rightarrow> bool" where
  "set_speed_ok v \<longleftrightarrow> v = V_CRUISE_UNSET \<or> V_CRUISE_MIN \<le> v \<and> v \<le> V_CRUISE_MAX"

definition vc_ok :: "v_cruise \<Rightarrow> bool" where
  "vc_ok s \<longleftrightarrow> set_speed_ok (vc_kph s) \<and> set_speed_ok (vc_cluster_kph s)"

text \<open>The inputs of the helper's process: frames, and parameter reads in between.\<close>

datatype vc_op =
    VFrame bool lp_speed_limit car_state car_state bool bool bool bool
  | VReadParams bool int int

fun vc_exec :: "car_params \<Rightarrow> car_params_sp \<Rightarrow> v_cruise \<Rightarrow> vc_op \<Rightarrow> v_cruise" where
  "vc_exec CP CPSP s (VFrame is_metric LP CS CSp en en_prev e d) =
     card_cruise_frame CP CPSP is_metric LP CS CSp en en_prev e d s"
| "vc_exec CP CPSP s (VReadParams c a b) = read_custom_set_speed_params c a b s"

lemma vc_min_bounds:
  "V_CRUISE_MIN \<le> vc_min (vc_get_minimum_set_speed CPSP m s)"
  "vc_min (vc_get_minimum_set_speed CPSP m s) \<le> V_CRUISE_MAX"
  by (simp_all add: vc_get_minimum_set_speed_def get_minimum_set_speed_def const_defs)

lemma clip_set_speed_ok:
  "V_CRUISE_MIN \<le> lo \<Longrightarrow> lo \<le> V_CRUISE_MAX \<Longrightarrow> set_speed_ok (np_clip v lo V_CRUISE_MAX)"
  using np_clip_bounds(1) [of lo V_CRUISE_MAX v] by (auto simp: set_speed_ok_def intro: order_trans)

lemma update_enabled_state_keeps [simp]:
  "vc_kph (fst (update_enabled_state CPSP CS en s)) = vc_kph s"
  "vc_kph_last (fst (update_enabled_state CPSP CS en s)) = vc_kph_last s"
  "vc_cluster_kph (fst (update_enabled_state CPSP CS en s)) = vc_cluster_kph s"
  "vc_min (fst (update_enabled_state CPSP CS en s)) = vc_min s"
  "vc_sla_state (fst (update_enabled_state CPSP CS en s)) = vc_sla_state s"
  "vc_button_timers (fst (update_enabled_state CPSP CS en s)) = vc_button_timers s"
  by (simp_all add: update_enabled_state_def Let_def)

lemma min_set_speed_keeps [simp]:
  "vc_kph (vc_get_minimum_set_speed CPSP m s) = vc_kph s"
  "vc_kph_last (vc_get_minimum_set_speed CPSP m s) = vc_kph_last s"
  "vc_sla_state (vc_get_minimum_set_speed CPSP m s) = vc_sla_state s"
  "vc_button_timers (vc_get_minimum_set_speed CPSP m s) = vc_button_timers s"
  by (simp_all add: vc_get_minimum_set_speed_def)

lemma non_pcm_keeps [simp]:
  "vc_kph_last (update_v_cruise_non_pcm CS en m s) = vc_kph_last s"
  "vc_min (update_v_cruise_non_pcm CS en m s) = vc_min s"
  "vc_sla_state (update_v_cruise_non_pcm CS en m s) = vc_sla_state s"
  by (simp_all add: update_v_cruise_non_pcm_def Let_def case_prod_beta split: option.split)

lemma sla_non_pcm_keeps [simp]:
  "vc_kph_last (sla_update_v_cruise_non_pcm s) = vc_kph_last s"
  by (simp add: sla_update_v_cruise_non_pcm_def Let_def)

lemma update_button_timers_keeps [simp]:
  "vc_kph (vc_update_button_timers CS en s) = vc_kph s"
  "vc_kph_last (vc_update_button_timers CS en s) = vc_kph_last s"
  "vc_cluster_kph (vc_update_button_timers CS en s) = vc_cluster_kph s"
proof -
  have "vc_kph (fold (vc_button_event CS en) bs t) = vc_kph t \<and>
      vc_kph_last (fold (vc_button_event CS en) bs t) = vc_kph_last t \<and>
      vc_cluster_kph (fold (vc_button_event CS en) bs t) = vc_cluster_kph t" for bs t
    by (induction bs arbitrary: t) (simp_all add: vc_button_event_def)
  then show "vc_kph (vc_update_button_timers CS en s) = vc_kph s"
    "vc_kph_last (vc_update_button_timers CS en s) = vc_kph_last s"
    "vc_cluster_kph (vc_update_button_timers CS en s) = vc_cluster_kph s"
    by (simp_all add: vc_update_button_timers_def)
qed

lemma non_pcm_ok:
  assumes "set_speed_ok (vc_kph s)" "V_CRUISE_MIN \<le> vc_min s" "vc_min s \<le> V_CRUISE_MAX"
  shows "set_speed_ok (vc_kph (update_v_cruise_non_pcm CS en m s))"
    and "set_speed_ok (vc_kph (sla_update_v_cruise_non_pcm s))"
  using assms clip_set_speed_ok [OF assms(2,3)]
  by (auto simp: update_v_cruise_non_pcm_def sla_update_v_cruise_non_pcm_def Let_def case_prod_beta
      split: option.split)

lemma update_v_cruise_ok:
  assumes "vc_ok s" "\<not> cp_pcmCruise CP"
  shows "vc_ok (update_v_cruise CP CPSP CS en m s)"
    and "vc_kph_last (update_v_cruise CP CPSP CS en m s) = vc_kph s"
proof -
  define t where "t = fst (update_enabled_state CPSP CS en
    (vc_get_minimum_set_speed CPSP m (s\<lparr>vc_kph_last := vc_kph s\<rparr>)))"
  have t: "set_speed_ok (vc_kph t)" "vc_kph_last t = vc_kph s"
    "V_CRUISE_MIN \<le> vc_min t" "vc_min t \<le> V_CRUISE_MAX"
    using assms(1) vc_min_bounds by (simp_all add: t_def vc_ok_def)
  have unset: "set_speed_ok V_CRUISE_UNSET" by (simp add: set_speed_ok_def)
  from t assms unset show "vc_ok (update_v_cruise CP CPSP CS en m s)"
    "vc_kph_last (update_v_cruise CP CPSP CS en m s) = vc_kph s"
    by (auto simp: update_v_cruise_def Let_def case_prod_beta vc_ok_def non_pcm_ok
        simp flip: t_def)
qed

lemma initialize_v_cruise_ok:
  assumes "vc_ok s" "set_speed_ok (vc_kph_last s)"
  shows "vc_ok (initialize_v_cruise CP CS e d s)"
proof -
  define lo where "lo = (if e \<and> \<not> d then V_CRUISE_INITIAL_EXPERIMENTAL_MODE else V_CRUISE_INITIAL)"
  define v where "v = py_round (np_clip (cs_vEgo CS * MS_TO_KPH) lo V_CRUISE_MAX)"
  have lo: "40 \<le> lo" "lo \<le> V_CRUISE_MAX" by (simp_all add: lo_def const_defs)
  then have "40 \<le> np_clip (cs_vEgo CS * MS_TO_KPH) lo V_CRUISE_MAX"
    using np_clip_bounds(1) [OF lo(2)] by (meson order_trans)
  then have "40 \<le> v" unfolding v_def using py_round_mono_int [of 40] by simp
  moreover have "v \<le> 145" unfolding v_def
    using np_clip_bounds(2) [of _ lo V_CRUISE_MAX] by (intro py_round_mono_int2) (simp add: V_CRUISE_MAX_def)
  ultimately have "set_speed_ok (of_int v)" by (simp add: set_speed_ok_def const_defs)
  with assms show ?thesis
    unfolding initialize_v_cruise_def Let_def lo_def [symmetric] v_def [symmetric]
    by (auto simp: vc_ok_def v_cruise_initialized_def)
qed

lemma card_cruise_frame_ok:
  assumes "vc_ok s" "\<not> cp_pcmCruise CP"
  shows "vc_ok (card_cruise_frame CP CPSP m LP CS CSp en en_prev e d s)"
proof -
  let ?s = "vc_update_speed_limit_assist m LP s"
  have "vc_ok ?s" using assms(1) by (simp add: vc_ok_def vc_update_speed_limit_assist_def case_prod_beta)
  then have "vc_ok (update_v_cruise CP CPSP CS en m ?s)"
    "set_speed_ok (vc_kph_last (update_v_cruise CP CPSP CS en m ?s))"
    using update_v_cruise_ok [of ?s, OF _ assms(2)] by (auto simp: vc_ok_def)
  then show ?thesis by (cases en) (simp_all add: card_cruise_frame_def Let_def initialize_v_cruise_ok)
qed

interpretation vc: frame_machine "vc_exec CP CPSP" "\<lambda>_. \<not> cp_pcmCruise CP" vc_ok for CP CPSP
proof
  fix s op assume "vc_ok s" "\<not> cp_pcmCruise CP"
  then show "vc_ok (vc_exec CP CPSP s op)"
  proof (cases op)
    case (VReadParams c a b)
    with \<open>vc_ok s\<close> show ?thesis by (simp add: vc_ok_def read_custom_set_speed_params_def)
  qed (simp add: card_cruise_frame_ok)
qed

lemma vc_ok_init: "vc_ok (vc_init c a b)"
  by (simp add: vc_ok_def vc_init_def set_speed_ok_def)

subsection \<open>Properties\<close>

text \<open>
  C9. On a car whose cruise is not driven by its own cruise computer, the set speed and the one
  shown are always either unset or between 8 and 145 km/h, whatever sequence of frames
  (car states, speed-limit messages, engagements) and parameter changes the helper sees.
\<close>

theorem set_speed_in_range:
  assumes "\<not> cp_pcmCruise CP"
  shows "let s = frames (vc_exec CP CPSP) (vc_init c a b) ops in
    (vc_kph s = 255 \<or> 8 \<le> vc_kph s \<and> vc_kph s \<le> 145) \<and>
    (vc_cluster_kph s = 255 \<or> 8 \<le> vc_cluster_kph s \<and> vc_cluster_kph s \<le> 145)"
  using vc.run_inv [OF vc_ok_init, of ops CP CPSP c a b] assms
  by (simp add: vc_ok_def set_speed_ok_def const_defs Let_def)

definition example_car :: car_params where
  "example_car = \<lparr>cp_brand = ''honda'', cp_passive = False, cp_notCar = False, cp_pcmCruise = False,
     cp_openpilotLongitudinalControl = True, cp_minEnableSpeed = 0, cp_minSteerSpeed = 0,
     cp_fwdCamera = True, cp_toyota_hybrid = False, cp_hyundai_lda_or_canfd = False,
     cp_ram_dt = False, cp_drivable_gears = [], cp_max_ctrl_speed = 50,
     cp_safetyConfigs = [], cp_alternativeExperience = 0\<rparr>"

definition example_car_sp :: car_params_sp where
  "example_car_sp = \<lparr>cpsp_tesla_has_vehicle_bus = False, cpsp_enableGasInterceptor = False,
     cpsp_pcmCruiseSpeed = True, cpsp_intelligentCruiseButtonManagementAvailable = False\<rparr>"

definition example_limit :: lp_speed_limit where
  "example_limit = \<lparr>ls_speedLimitValid = False, ls_speedLimitLastValid = False,
     ls_speedLimitFinalLast = 0, ls_assist_state = SLA_disabled\<rparr>"

theorem set_speed_in_range_witness:
  "let s = frames (vc_exec example_car example_car_sp) (vc_init False 1 5)
             [VFrame True example_limit (car_state_default GS_drive) (car_state_default GS_drive)
                True False False False]
   in vc_kph s = 255 \<or> 8 \<le> vc_kph s \<and> vc_kph s \<le> 145"
proof -
  have "\<not> cp_pcmCruise example_car" by (simp add: example_car_def)
  from set_speed_in_range [OF this] show ?thesis unfolding Let_def by blast
qed

text \<open>
  A long press moves the set speed to the next multiple of the increment in the direction of
  the button: strictly in that direction, by at most one increment, onto an exact multiple.
\<close>

theorem long_press_aligns:
  assumes "0 < delta" "b = BT_accelCruise \<or> b = BT_decelCruise"
  shows "\<exists>k. cruise_speed_after_press s b True delta = of_int k * delta \<and>
    (if b = BT_accelCruise
     then vc_kph s < of_int k * delta \<and> of_int k * delta \<le> vc_kph s + delta
     else of_int k * delta < vc_kph s \<and> vc_kph s - delta \<le> of_int k * delta)"
proof -
  let ?v = "vc_kph s" let ?q = "vc_kph s / delta"
  have q: "?v = ?q * delta" using assms(1) by simp
  show ?thesis
  proof (cases "py_fmod ?v delta = 0")
    case True
    then have int: "?v = of_int \<lfloor>?q\<rfloor> * delta" by (simp add: py_fmod_def mult.commute)
    let ?k = "if b = BT_accelCruise then \<lfloor>?q\<rfloor> + 1 else \<lfloor>?q\<rfloor> - 1"
    have "cruise_speed_after_press s b True delta = of_int ?k * delta"
      using True int by (simp add: cruise_speed_after_press_def cruise_interval_sign_def algebra_simps)
    with int assms(1) show ?thesis by (intro exI [of _ ?k]) (auto simp: algebra_simps)
  next
    case False
    let ?k = "cruise_nearest b ?q"
    have ni: "of_int \<lfloor>?q\<rfloor> \<noteq> ?q"
      using False assms(1) by (auto simp: py_fmod_def mult.commute field_simps)
    have up: "of_int \<lfloor>?q\<rfloor> < ?q" "?q < of_int \<lceil>?q\<rceil>"
      using ni le_of_int_ceiling [of ?q] by (linarith, metis ceiling_of_int floor_of_int order_less_le)
    have b: "of_int \<lceil>?q\<rceil> \<le> ?q + 1" "?q - 1 \<le> of_int \<lfloor>?q\<rfloor>" by linarith+
    have "?q * delta < of_int \<lceil>?q\<rceil> * delta" "of_int \<lfloor>?q\<rfloor> * delta < ?q * delta"
      using up assms(1) by (simp_all only: mult_less_cancel_right_pos)
    moreover have "of_int \<lceil>?q\<rceil> * delta \<le> (?q + 1) * delta" "(?q - 1) * delta \<le> of_int \<lfloor>?q\<rfloor> * delta"
      using b assms(1) by (simp_all only: mult_le_cancel_right_pos)
    moreover have "(?q + 1) * delta = ?v + delta" "(?q - 1) * delta = ?v - delta"
      using assms(1) by (simp_all add: algebra_simps)
    ultimately show ?thesis
      using False assms(2) q
      by (intro exI [of _ ?k]) (auto simp: cruise_speed_after_press_def cruise_nearest_def)
  qed
qed

theorem long_press_aligns_witness:
  "\<exists>k. cruise_speed_after_press ((vc_init False 1 5)\<lparr>vc_kph := 52\<rparr>) BT_accelCruise True 5 = of_int k * 5"
  using long_press_aligns [of 5 BT_accelCruise "(vc_init False 1 5)\<lparr>vc_kph := 52\<rparr>"] by auto

end
