(* ===== verification/Icbm.thy ===== *)
theory Icbm
  imports Cruise
begin

text \<open>
  Intelligent cruise button management
  (\<open>sunnypilot/selfdrive/car/intelligent_cruise_button_management/controller.py\<close>): a state
  machine that presses the buttons of a stock cruise control until its set speed is the
  planner's target. \<open>opendbc\<close>'s \<open>apply_hysteresis\<close> is the argument \<open>hyst\<close>.
\<close>

subsection \<open>State and operations\<close>

datatype icbm_state = IB_inactive | IB_preActive | IB_increasing | IB_decreasing | IB_holding
datatype send_button = SB_none | SB_increase | SB_decrease

definition HYST_GAP :: real where "HYST_GAP = 0"
definition INACTIVE_TIMER :: real where "INACTIVE_TIMER = 4 / 10"

record icbm =
  ib_v_target :: int
  ib_v_cruise_cluster :: int
  ib_v_cruise_min :: real
  ib_cruise_button :: send_button
  ib_state :: icbm_state
  ib_pre_active_timer :: int
  ib_is_ready :: bool
  ib_is_ready_prev :: bool
  ib_v_target_ms_last :: real
  ib_is_metric :: bool
  ib_cruise_button_timers :: button_timers

definition icbm_init :: icbm where
  "icbm_init = \<lparr>ib_v_target = 0, ib_v_cruise_cluster = 0, ib_v_cruise_min = 0,
     ib_cruise_button = SB_none, ib_state = IB_inactive, ib_pre_active_timer = 0,
     ib_is_ready = False, ib_is_ready_prev = False, ib_v_target_ms_last = 0, ib_is_metric = False,
     ib_cruise_button_timers = CRUISE_BUTTON_TIMER\<rparr>"

text \<open>What the components read of \<open>carControl\<close>.\<close>

record car_control =
  cc_enabled :: bool
  cc_latActive :: bool
  cc_longActive :: bool
  cc_accel :: real
  cc_override :: bool
  cc_cancel :: bool
  cc_resume :: bool

definition v_cruise_equal :: "icbm \<Rightarrow> bool" where
  "v_cruise_equal s \<longleftrightarrow> ib_v_target s = ib_v_cruise_cluster s"

definition icbm_update_calculations ::
  "(real \<Rightarrow> real \<Rightarrow> real \<Rightarrow> real) \<Rightarrow> car_state \<Rightarrow> real \<Rightarrow> icbm \<Rightarrow> icbm" where
  "icbm_update_calculations hyst CS vTarget s =
     (let speed_conv = (if ib_is_metric s then MS_TO_KPH else MS_TO_MPH);
          ms_conv = (if ib_is_metric s then KPH_TO_MS else MPH_TO_MS);
          last = hyst vTarget (ib_v_target_ms_last s) (HYST_GAP * ms_conv)
      in s\<lparr>ib_v_target_ms_last := last,
           ib_v_target := py_round (last * speed_conv),
           ib_v_cruise_min := get_minimum_set_speed (ib_is_metric s),
           ib_v_cruise_cluster := py_round (cr_speedCluster (cs_cruiseState CS) * speed_conv)\<rparr>)"

definition icbm_next_state :: "icbm \<Rightarrow> icbm_state" where
  "icbm_next_state s =
     (let tgt = ib_v_target s; clu = ib_v_cruise_cluster s; min = ib_v_cruise_min s in
      case ib_state s of
        IB_preActive \<Rightarrow>
          if ib_pre_active_timer s \<le> 0 then
            (if v_cruise_equal s then IB_holding
             else if tgt > clu then IB_increasing
             else if tgt < clu \<and> of_int clu > min then IB_decreasing
             else IB_preActive)
          else IB_preActive
      | IB_holding \<Rightarrow> if \<not> v_cruise_equal s then IB_preActive else IB_holding
      | IB_increasing \<Rightarrow> if tgt \<le> clu then IB_holding else IB_increasing
      | IB_decreasing \<Rightarrow> if tgt \<ge> clu \<or> of_int clu \<le> min then IB_holding else IB_decreasing
      | IB_inactive \<Rightarrow> IB_inactive)"

definition SEND_BUTTONS :: "icbm_state \<Rightarrow> send_button" where
  "SEND_BUTTONS st = (case st of IB_increasing \<Rightarrow> SB_increase | IB_decreasing \<Rightarrow> SB_decrease | _ \<Rightarrow> SB_none)"

definition icbm_update_state_machine :: "icbm \<Rightarrow> icbm \<times> send_button" where
  "icbm_update_state_machine s0 =
     (let s = s0\<lparr>ib_pre_active_timer := max 0 (ib_pre_active_timer s0 - 1)\<rparr>;
          s = (if ib_state s \<noteq> IB_inactive then
                 (if \<not> ib_is_ready s then s\<lparr>ib_state := IB_inactive\<rparr>
                  else s\<lparr>ib_state := icbm_next_state s\<rparr>)
               else if ib_is_ready s \<and> \<not> ib_is_ready_prev s then
                 s\<lparr>ib_pre_active_timer := py_int (INACTIVE_TIMER / DT_CTRL), ib_state := IB_preActive\<rparr>
               else s)
      in (s, SEND_BUTTONS (ib_state s)))"

definition icbm_update_readiness :: "car_state \<Rightarrow> car_control \<Rightarrow> icbm \<Rightarrow> icbm" where
  "icbm_update_readiness CS CC s =
     (let s = s\<lparr>ib_cruise_button_timers := update_manual_button_timers CS (ib_cruise_button_timers s)\<rparr>;
          ready = cc_enabled CC \<and> \<not> cc_override CC \<and> \<not> cc_cancel CC \<and> \<not> cc_resume CC
      in s\<lparr>ib_is_ready := (ready \<and> \<not> any_timer (ib_cruise_button_timers s))\<rparr>)"

definition icbm_run ::
  "(real \<Rightarrow> real \<Rightarrow> real \<Rightarrow> real) \<Rightarrow> car_params_sp \<Rightarrow> car_state \<Rightarrow> car_control \<Rightarrow> real \<Rightarrow> bool \<Rightarrow> icbm \<Rightarrow> icbm" where
  "icbm_run hyst CPSP CS CC vTarget is_metric s =
     (if cpsp_pcmCruiseSpeed CPSP then s
      else
        (let s = s\<lparr>ib_is_metric := is_metric\<rparr>;
             s = icbm_update_calculations hyst CS vTarget s;
             s = icbm_update_readiness CS CC s;
             (s, button) = icbm_update_state_machine s;
             s = s\<lparr>ib_cruise_button := button\<rparr>
         in s\<lparr>ib_is_ready_prev := ib_is_ready s\<rparr>))"

subsection \<open>Lemmas\<close>

lemmas icbm_defs = icbm_run_def icbm_update_calculations_def icbm_update_readiness_def
  icbm_update_state_machine_def icbm_next_state_def v_cruise_equal_def SEND_BUTTONS_def Let_def

text \<open>The button always mirrors the state, and an active state implies readiness.\<close>

definition icbm_ok :: "icbm \<Rightarrow> bool" where
  "icbm_ok s \<longleftrightarrow> ib_cruise_button s = SEND_BUTTONS (ib_state s) \<and>
     (ib_state s \<noteq> IB_inactive \<longrightarrow> ib_is_ready s) \<and>
     (ib_state s = IB_increasing \<longrightarrow> ib_v_target s > ib_v_cruise_cluster s) \<and>
     (ib_state s = IB_decreasing \<longrightarrow> ib_v_target s < ib_v_cruise_cluster s \<and>
        of_int (ib_v_cruise_cluster s) > ib_v_cruise_min s) \<and>
     0 \<le> ib_pre_active_timer s \<and> ib_pre_active_timer s \<le> 40"

lemma icbm_run_ok:
  assumes "icbm_ok s"
  shows "icbm_ok (icbm_run hyst CPSP CS CC v m s)"
proof (cases "cpsp_pcmCruiseSpeed CPSP")
  case False
  have "py_int (INACTIVE_TIMER / DT_CTRL) = 40" by (simp add: INACTIVE_TIMER_def DT_CTRL_def)
  with assms False show ?thesis
    by (cases "ib_state s") (auto simp: icbm_ok_def icbm_defs)
qed (use assms in \<open>simp add: icbm_run_def\<close>)

lemma icbm_ok_init: "icbm_ok icbm_init"
  by (simp add: icbm_ok_def icbm_init_def SEND_BUTTONS_def)

type_synonym icbm_input = "car_state \<times> car_control \<times> real \<times> bool"

definition icbm_step :: "(real \<Rightarrow> real \<Rightarrow> real \<Rightarrow> real) \<Rightarrow> car_params_sp \<Rightarrow> icbm \<Rightarrow> icbm_input \<Rightarrow> icbm" where
  "icbm_step hyst CPSP s = (\<lambda>(CS, CC, v, m). icbm_run hyst CPSP CS CC v m s)"

interpretation icbm: frame_machine "icbm_step hyst CPSP" "\<lambda>_. True" icbm_ok for hyst CPSP
  by unfold_locales (simp add: icbm_step_def icbm_run_ok split: prod.split)

text \<open>A button pressed in the frame or held from before makes the machine not ready.\<close>

lemma timers_set_any: "0 < n \<Longrightarrow> b \<in> fst ` set ts \<Longrightarrow> any_timer (timers_set b n ts)"
  by (force simp: any_timer_def timers_set_def list_ex_iff)

lemma timers_set_keys [simp]: "fst ` set (timers_set b n ts) = fst ` set ts"
  "fst ` set (timers_tick ts) = fst ` set ts"
  by (force simp: timers_set_def timers_tick_def)+

lemma manual_timers_last_press:
  assumes "cs_buttonEvents CS = bs @ [be]" "be_pressed be" "be_type be \<in> fst ` set ts"
  shows "any_timer (update_manual_button_timers CS ts)"
proof -
  have keys: "fst ` set (fold (\<lambda>b ts. timers_set (be_type b) (if be_pressed b then 1 else 0) ts) bs us) =
      fst ` set us" for bs us
    by (induction bs arbitrary: us) simp_all
  show ?thesis
    unfolding update_manual_button_timers_def assms(1) fold_append comp_apply fold_simps
    using assms(2,3) by (intro timers_set_any) (simp_all add: keys)
qed

subsection \<open>Properties\<close>

text \<open>
  Buttons are pressed only when they are needed: in every run from the constructor, an
  increase is sent only while controls are ready and the rounded target is above the set speed,
  a decrease only while the target is below a set speed that is itself above the minimum (so
  the set speed is never driven below it), and nothing is sent when they agree or when controls
  are not ready.
\<close>

theorem icbm_buttons_justified:
  "let s = frames (icbm_step hyst CPSP) icbm_init is in
    (ib_cruise_button s = SB_increase \<longrightarrow> ib_is_ready s \<and> ib_v_target s > ib_v_cruise_cluster s) \<and>
    (ib_cruise_button s = SB_decrease \<longrightarrow> ib_is_ready s \<and> ib_v_target s < ib_v_cruise_cluster s \<and>
       of_int (ib_v_cruise_cluster s) > ib_v_cruise_min s) \<and>
    (v_cruise_equal s \<or> \<not> ib_is_ready s \<longrightarrow> ib_cruise_button s = SB_none)"
proof -
  have "icbm_ok (frames (icbm_step hyst CPSP) icbm_init is)"
    by (rule icbm.run_inv) (simp_all add: icbm_ok_init)
  then show ?thesis
    by (auto simp: icbm_ok_def Let_def v_cruise_equal_def SEND_BUTTONS_def split: icbm_state.splits)
qed

theorem icbm_buttons_justified_witness:
  "let s = frames (icbm_step (\<lambda>v l g. v) example_car_sp) icbm_init [] in
     v_cruise_equal s \<and> ib_cruise_button s = SB_none"
  using icbm_buttons_justified [of "\<lambda>v l g. v" example_car_sp "[]"]
  by (simp add: Let_def icbm_init_def v_cruise_equal_def)

text \<open>
  The driver's own button press wins: if the last button event of a frame presses one of the
  watched cruise buttons, no button is sent in that frame and the machine is inactive.
\<close>

theorem icbm_manual_press_wins:
  assumes "cs_buttonEvents CS = bs @ [be]" "be_pressed be"
    and "be_type be \<in> fst ` set (ib_cruise_button_timers s)" "\<not> cpsp_pcmCruiseSpeed CPSP"
  shows "ib_cruise_button (icbm_run hyst CPSP CS CC v m s) = SB_none \<and>
         ib_state (icbm_run hyst CPSP CS CC v m s) = IB_inactive"
  using assms(4) manual_timers_last_press [OF assms(1-3)]
  by (auto simp: icbm_run_def icbm_update_calculations_def icbm_update_readiness_def
      icbm_update_state_machine_def SEND_BUTTONS_def Let_def)

theorem icbm_manual_press_wins_witness:
  "ib_cruise_button (icbm_run (\<lambda>v l g. v) (example_car_sp\<lparr>cpsp_pcmCruiseSpeed := False\<rparr>)
     ((car_state_default GS_drive)\<lparr>cs_buttonEvents := [\<lparr>be_type = BT_setCruise, be_pressed = True\<rparr>]\<rparr>)
     \<lparr>cc_enabled = True, cc_latActive = True, cc_longActive = True, cc_accel = 0,
      cc_override = False, cc_cancel = False, cc_resume = False\<rparr>
     30 True icbm_init) = SB_none"
  by (rule icbm_manual_press_wins [where bs = "[]", THEN conjunct1])
    (auto simp: icbm_init_def CRUISE_BUTTON_TIMER_def)

end
