(* ===== verification/Car_Events.thy ===== *)
theory Car_Events
  imports Events_SP_Table Icbm
begin

text \<open>
  Where the events of one frame come from, below \<open>SelfdriveD\<close>: \<open>CarSpecificEvents\<close>
  (\<open>selfdrive/car/car_specific.py\<close>), \<open>CarSpecificEventsSP\<close>
  (\<open>sunnypilot/selfdrive/car/car_specific.py\<close>), the cruise helper with the long press on the
  distance button (\<open>sunnypilot/selfdrive/car/cruise_helpers.py\<close>) and the excessive-actuation
  check (\<open>selfdrive/selfdrived/helpers.py\<close>).

  A run of \<open>if cond: events.add(name)\<close> statements is \<open>add_all\<close> of the list of conditions with
  their events.
\<close>

subsection \<open>Conditional additions\<close>

definition add_all :: "'c events_mapping \<Rightarrow> (bool \<times> int) list \<Rightarrow> events_base \<Rightarrow> events_base" where
  "add_all M xs s = fold (\<lambda>(b, e) s. if b then ev_add M False s e else s) xs s"

lemma add_all_Nil [simp]: "add_all M [] s = s"
  by (simp add: add_all_def)

lemma add_all_Cons [simp]:
  "add_all M ((b, e) # xs) s = add_all M xs (if b then ev_add M False s e else s)"
  by (simp add: add_all_def)

context event_mapping
begin

lemma add_all_wf: "ev_wf M s \<Longrightarrow> ev_wf M (add_all M xs s)"
  by (induction xs arbitrary: s) (auto simp: ev_add_refines distinct_types)

lemma add_all_bag: "ev_wf M s \<Longrightarrow> ev_bag (add_all M xs s) = ev_bag s + mset (map snd (filter fst xs))"
  by (induction xs arbitrary: s) (auto simp: ev_add_refines distinct_types)

lemma add_all_has: "ev_wf M s \<Longrightarrow> ev_has (add_all M xs s) e \<longleftrightarrow> ev_has s e \<or> (True, e) \<in> set xs"
  using ev_has_iff [of M] add_all_wf [of s xs] add_all_bag [of s xs] by force

end

subsection \<open>Car-specific events\<close>

record car_specific =
  cse_steering_unpressed :: int
  cse_low_speed_alert :: bool
  cse_no_steer_warning :: bool
  cse_silent_steer_warning :: bool

definition car_specific_init :: car_specific where
  "car_specific_init = \<lparr>cse_steering_unpressed = 0, cse_low_speed_alert = False,
     cse_no_steer_warning = False, cse_silent_steer_warning = True\<rparr>"

definition common_event_conditions :: "car_params \<Rightarrow> car_state \<Rightarrow> car_state \<Rightarrow> (bool \<times> int) list" where
  "common_event_conditions CP CS CSp =
     [(cs_doorOpen CS, EV_doorOpen),
      (cs_seatbeltUnlatched CS, EV_seatbeltNotLatched),
      (cs_gearShifter CS \<noteq> GS_drive \<and> cs_gearShifter CS \<notin> set (cp_drivable_gears CP), EV_wrongGear),
      (cs_gearShifter CS = GS_reverse, EV_reverseGear),
      (\<not> cr_available (cs_cruiseState CS), EV_wrongCarMode),
      (cs_espDisabled CS, EV_espDisabled),
      (cs_espActive CS, EV_espActive),
      (cs_stockFcw CS, EV_stockFcw),
      (cs_stockAeb CS, EV_stockAeb),
      (cs_stockLkas CS, EV_stockLkas),
      (cs_vEgo CS > cp_max_ctrl_speed CP, EV_speedTooHigh),
      (cr_nonAdaptive (cs_cruiseState CS), EV_wrongCruiseMode),
      (cs_brakeHoldActive CS \<and> cp_openpilotLongitudinalControl CP, EV_brakeHold),
      (cs_parkingBrake CS, EV_parkBrake),
      (cs_accFaulted CS, EV_accFaulted),
      (cs_steeringPressed CS, EV_steerOverride),
      (cs_steeringDisengage CS \<and> \<not> cs_steeringDisengage CSp, EV_steerDisengage),
      (cs_brakePressed CS \<and> cs_standstill CS, EV_preEnableStandstill),
      (cs_gasPressed CS, EV_gasPressedOverride),
      (cs_vehicleSensorsInvalid CS, EV_vehicleSensorsInvalid),
      (cs_invalidLkasSetting CS, EV_invalidLkasSetting),
      (cs_lowSpeedAlert CS, EV_belowSteerSpeed),
      (cs_buttonEnable CS, EV_buttonEnable)]"

definition cancel_conditions :: "car_params \<Rightarrow> car_state \<Rightarrow> (bool \<times> int) list" where
  "cancel_conditions CP CS =
     (let allow_button_cancel = cp_brand CP \<noteq> ''hyundai''
      in map (\<lambda>b. (be_type b = BT_cancel \<and> (allow_button_cancel \<or> \<not> cp_pcmCruise CP), EV_buttonCancel))
           (cs_buttonEvents CS))"

text \<open>Permanent and temporary steering faults: the new state and the events to add.\<close>

definition steer_fault_update ::
  "car_state \<Rightarrow> car_state \<Rightarrow> car_specific \<Rightarrow> car_specific \<times> (bool \<times> int) list" where
  "steer_fault_update CS CSp c =
     (let c = c\<lparr>cse_steering_unpressed :=
                  (if cs_steeringPressed CS then 0 else cse_steering_unpressed c + 1)\<rparr>
      in if cs_steerFaultTemporary CS then
           (if cs_steeringPressed CS \<and> (\<not> cs_steerFaultTemporary CSp \<or> cse_no_steer_warning c) then
              (c\<lparr>cse_no_steer_warning := True\<rparr>, [])
            else if cse_silent_steer_warning c \<or> cs_standstill CS \<or>
                    cse_steering_unpressed c < py_int ((3/2) / DT_CTRL) then
              (c\<lparr>cse_no_steer_warning := False, cse_silent_steer_warning := True\<rparr>,
               [(True, EV_steerTempUnavailableSilent)])
            else (c\<lparr>cse_no_steer_warning := False\<rparr>, [(True, EV_steerTempUnavailable)]))
         else (c\<lparr>cse_no_steer_warning := False, cse_silent_steer_warning := False\<rparr>, []))"

definition pcm_conditions :: "car_params \<Rightarrow> car_state \<Rightarrow> car_state \<Rightarrow> (bool \<times> int) list" where
  "pcm_conditions CP CS CSp =
     (let pcm_enable = cp_pcmCruise CP \<and> cp_brand CP \<noteq> ''honda'';
          en = cr_enabled (cs_cruiseState CS); en_prev = cr_enabled (cs_cruiseState CSp)
      in if pcm_enable then
           (if en \<and> \<not> en_prev \<and> \<not> cs_blockPcmEnable CS then [(True, EV_pcmEnable)]
            else if \<not> en then [(True, EV_pcmDisable)] else [])
         else [])"

definition create_common_events ::
  "bool \<Rightarrow> car_params \<Rightarrow> car_state \<Rightarrow> car_state \<Rightarrow> car_specific \<Rightarrow> car_specific \<times> events_base" where
  "create_common_events d CP CS CSp c =
     (let ev = events_init (map fst (EVENTS_list d));
          ev = add_all (EVENTS d) (common_event_conditions CP CS CSp) ev;
          ev = add_all (EVENTS d) (cancel_conditions CP CS) ev;
          (c, faults) = steer_fault_update CS CSp c;
          ev = add_all (EVENTS d) faults ev;
          ev = add_all (EVENTS d) [(cs_steerFaultPermanent CS, EV_steerUnavailable)] ev;
          ev = add_all (EVENTS d) (pcm_conditions CP CS CSp) ev
      in (c, ev))"

text \<open>The events of each brand, after the common ones.\<close>

definition honda_conditions :: "car_params \<Rightarrow> car_state \<Rightarrow> car_state \<Rightarrow> car_control \<Rightarrow> (bool \<times> int) list" where
  "honda_conditions CP CS CSp CC =
     (let en = cr_enabled (cs_cruiseState CS); en_prev = cr_enabled (cs_cruiseState CSp)
      in [(cp_pcmCruise CP \<and> cs_vEgo CS < cp_minEnableSpeed CP, EV_belowEngageSpeed)] @
         (if cp_pcmCruise CP then
            (if en \<and> \<not> en_prev then [(True, EV_pcmEnable)]
             else if \<not> en \<and> (cc_accel CC \<ge> 0 \<or> \<not> cp_openpilotLongitudinalControl CP) then
               (if cs_vEgo CS < cp_minEnableSpeed CP + 2 then [(True, EV_speedTooLow)]
                else [(True, EV_cruiseDisabled)])
             else [])
          else []) @
         [(cp_minEnableSpeed CP > 0 \<and> cs_vEgo CS < 1/1000, EV_manualRestart),
          (cs_brakeHoldActive CS \<and> cs_blockPcmEnable CS, EV_belowEngageSpeed)])"

definition toyota_conditions :: "car_params \<Rightarrow> car_state \<Rightarrow> car_control \<Rightarrow> (bool \<times> int) list" where
  "toyota_conditions CP CS CC =
     (if cp_openpilotLongitudinalControl CP then
        [(cr_standstill (cs_cruiseState CS) \<and> \<not> cs_brakePressed CS \<and>
            (cc_resume CC \<or> cp_toyota_hybrid CP), EV_resumeRequired)] @
        (if cs_vEgo CS < cp_minEnableSpeed CP then
           [(True, EV_belowEngageSpeed), (cc_accel CC > 3/10, EV_speedTooLow),
            (cs_vEgo CS < 1/1000, EV_manualRestart)]
         else [])
      else [])"

definition gm_conditions :: "car_params \<Rightarrow> car_state \<Rightarrow> (bool \<times> int) list" where
  "gm_conditions CP CS =
     [(cs_vEgo CS < cp_minEnableSpeed CP \<and>
         \<not> (cs_standstill CS \<and> cs_brakePressed CS \<and> cp_fwdCamera CP), EV_belowEngageSpeed),
      (cr_standstill (cs_cruiseState CS), EV_resumeRequired)]"

definition volkswagen_conditions :: "car_params \<Rightarrow> car_state \<Rightarrow> car_control \<Rightarrow> (bool \<times> int) list" where
  "volkswagen_conditions CP CS CC =
     (if cp_openpilotLongitudinalControl CP then
        [(cs_vEgo CS < cp_minEnableSpeed CP + 1/2, EV_belowEngageSpeed),
         (cc_enabled CC \<and> cs_vEgo CS < cp_minEnableSpeed CP, EV_speedTooLow)]
      else [])"

definition chrysler_low_speed :: "car_params \<Rightarrow> car_state \<Rightarrow> car_specific \<Rightarrow> car_specific" where
  "chrysler_low_speed CP CS c =
     (if cp_minSteerSpeed CP > 0 \<and> cs_vEgo CS < cp_minSteerSpeed CP + 1/2 then c\<lparr>cse_low_speed_alert := True\<rparr>
      else if cs_vEgo CS > cp_minSteerSpeed CP + 1 then c\<lparr>cse_low_speed_alert := False\<rparr>
      else c)"

definition car_specific_update ::
  "bool \<Rightarrow> car_params \<Rightarrow> car_state \<Rightarrow> car_state \<Rightarrow> car_control \<Rightarrow> car_specific \<Rightarrow> car_specific \<times> events_base" where
  "car_specific_update d CP CS CSp CC c =
     (if cp_brand CP \<in> {''body'', ''mock''} then (c, events_init (map fst (EVENTS_list d)))
      else
        (let (c, ev) = create_common_events d CP CS CSp c
         in if cp_brand CP = ''chrysler'' then
              (let c = chrysler_low_speed CP CS c
               in (c, add_all (EVENTS d) [(cse_low_speed_alert c, EV_belowSteerSpeed)] ev))
            else if cp_brand CP = ''honda'' then (c, add_all (EVENTS d) (honda_conditions CP CS CSp CC) ev)
            else if cp_brand CP = ''toyota'' then (c, add_all (EVENTS d) (toyota_conditions CP CS CC) ev)
            else if cp_brand CP = ''gm'' then (c, add_all (EVENTS d) (gm_conditions CP CS) ev)
            else if cp_brand CP = ''volkswagen'' then (c, add_all (EVENTS d) (volkswagen_conditions CP CS CC) ev)
            else (c, ev)))"

text \<open>
  \<open>CarSpecificEventsSP.update\<close>: it edits the main events it is given; the SP events it returns
  are always empty.
\<close>

definition car_specific_sp_update ::
  "bool \<Rightarrow> car_params \<Rightarrow> car_params_sp \<Rightarrow> car_state \<Rightarrow> events_base \<Rightarrow> bool \<Rightarrow> bool \<times> events_base \<times> events_base" where
  "car_specific_sp_update d CP CPSP CS ev low =
     (let esp = events_init (map fst (EVENTS_SP_list d))
      in if cp_brand CP = ''chrysler'' then
           (let (low, ev) =
                  (if cp_ram_dt CP then
                     (let ev = (if ev_has ev EV_belowSteerSpeed
                                then ev_remove (EVENTS d) False ev EV_belowSteerSpeed else ev);
                          low = (if cs_vEgo CS \<ge> cp_minEnableSpeed CP then False else low);
                          low = (if cp_minEnableSpeed CP \<ge> 145/10 \<and> cs_gearShifter CS \<noteq> GS_drive
                                 then True else low)
                      in (low, ev))
                   else (low, ev))
            in (low, add_all (EVENTS d) [(low, EV_belowSteerSpeed)] ev, esp))
         else if cp_brand CP = ''toyota'' then
           (low,
            if cp_openpilotLongitudinalControl CP \<and> cr_standstill (cs_cruiseState CS) \<and>
               \<not> cs_brakePressed CS \<and> cpsp_enableGasInterceptor CPSP \<and> ev_has ev EV_resumeRequired
            then ev_remove (EVENTS d) False ev EV_resumeRequired else ev,
            esp)
         else (low, ev, esp))"

subsection \<open>The cruise helper\<close>

definition DISTANCE_LONG_PRESS :: int where "DISTANCE_LONG_PRESS = 50"

record cruise_helper =
  ch_gap_frames :: int  \<comment> \<open>\<open>button_frame_counts[gapAdjustCruise]\<close>\<close>
  ch_experimental_mode :: bool
  ch_experimental_mode_switched :: bool

definition cruise_helper_init :: cruise_helper where
  "cruise_helper_init = \<lparr>ch_gap_frames = 0, ch_experimental_mode = False,
     ch_experimental_mode_switched = False\<rparr>"

definition update_button_frame_counts :: "car_state \<Rightarrow> cruise_helper \<Rightarrow> cruise_helper" where
  "update_button_frame_counts CS h =
     (let n = (if ch_gap_frames h > 0 then ch_gap_frames h + 1 else ch_gap_frames h)
      in h\<lparr>ch_gap_frames :=
            fold (\<lambda>b n. if be_type b = BT_gapAdjustCruise then (if be_pressed b then 1 else 0) else n)
              (cs_buttonEvents CS) n\<rparr>)"

text \<open>\<open>custom_long\<close> is the stored parameter \<open>CustomLongitudinalEnabled\<close>; the second result is
  the value written to \<open>ExperimentalMode\<close>, when it is written.\<close>

definition update_experimental_mode ::
  "bool \<Rightarrow> bool \<Rightarrow> bool \<Rightarrow> events_base \<Rightarrow> cruise_helper \<Rightarrow> cruise_helper \<times> events_base \<times> bool option" where
  "update_experimental_mode d custom_long experimental_mode esp h =
     (if ch_gap_frames h < DISTANCE_LONG_PRESS \<or> ch_experimental_mode_switched h then (h, esp, None)
      else if custom_long then (h, esp, None)
      else (h\<lparr>ch_experimental_mode := \<not> experimental_mode, ch_experimental_mode_switched := True\<rparr>,
            ev_add (EVENTS_SP d) False esp SP_experimentalModeSwitched, Some (\<not> experimental_mode)))"

definition cruise_helper_update ::
  "bool \<Rightarrow> car_params \<Rightarrow> bool \<Rightarrow> car_state \<Rightarrow> events_base \<Rightarrow> bool \<Rightarrow> cruise_helper
    \<Rightarrow> cruise_helper \<times> events_base \<times> bool option" where
  "cruise_helper_update d CP custom_long CS esp experimental_mode h =
     (if cp_openpilotLongitudinalControl CP \<and> cr_available (cs_cruiseState CS) then
        update_experimental_mode d custom_long experimental_mode esp (update_button_frame_counts CS h)
      else (h, esp, None))"

subsection \<open>Excessive actuation\<close>

definition MIN_EXCESSIVE_ACTUATION_COUNT :: int where
  "MIN_EXCESSIVE_ACTUATION_COUNT = py_int ((1/4) / DT_CTRL)"

definition MIN_LATERAL_ENGAGE_BUFFER :: int where
  "MIN_LATERAL_ENGAGE_BUFFER = py_int (1 / DT_CTRL)"

datatype excessive_type = EA_LONGITUDINAL | EA_LATERAL

record excessive_check =
  xc_excessive_counter :: int
  xc_engaged_counter :: int

definition excessive_init :: excessive_check where
  "excessive_init = \<lparr>xc_excessive_counter = 0, xc_engaged_counter = 0\<rparr>"

text \<open>
  Limits of \<open>opendbc\<close> the check uses (accelerations in m/s^2), and what it reads in a frame.
\<close>

record accel_limits =
  lim_ACCEL_MIN :: real
  lim_ACCEL_MAX :: real
  lim_ISO_LATERAL_ACCEL :: real
  lim_GRAVITY :: real

record excessive_input =
  xi_longActive :: bool
  xi_latActive :: bool
  xi_accel :: real  \<comment> \<open>\<open>calibrated_pose.acceleration.x\<close>\<close>
  xi_yaw_rate :: real
  xi_roll :: real
  xi_vEgo :: real
  xi_aEgo :: real
  xi_steeringPressed :: bool

definition excessive_long :: "accel_limits \<Rightarrow> excessive_input \<Rightarrow> bool" where
  "excessive_long L i \<longleftrightarrow> xi_longActive i \<and>
     (xi_accel i > lim_ACCEL_MAX L * 2 \<or> xi_accel i < lim_ACCEL_MIN L * 2)"

definition excessive_update ::
  "accel_limits \<Rightarrow> excessive_input \<Rightarrow> excessive_check \<Rightarrow> excessive_check \<times> excessive_type option" where
  "excessive_update L i x =
     (let lat_accel = xi_vEgo i * xi_yaw_rate i - sin (xi_roll i) * lim_GRAVITY L;
          engaged = (if xi_latActive i \<and> \<not> xi_steeringPressed i then xc_engaged_counter x + 1 else 0);
          excessive_lat = (engaged > MIN_LATERAL_ENGAGE_BUFFER \<and> \<bar>lat_accel\<bar> > lim_ISO_LATERAL_ACCEL L * 2);
          livepose_valid = \<bar>xi_aEgo i - xi_accel i\<bar> < 2;
          cnt = (if livepose_valid \<and> (excessive_long L i \<or> excessive_lat)
                 then xc_excessive_counter x + 1 else 0)
      in (\<lparr>xc_excessive_counter = cnt, xc_engaged_counter = engaged\<rparr>,
          if cnt > MIN_EXCESSIVE_ACTUATION_COUNT then
            Some (if excessive_long L i then EA_LONGITUDINAL else EA_LATERAL)
          else None))"

end
