(* ===== verification/Alert_Manager.thy ===== *)
theory Alert_Manager
  imports Events_Base "HOL-Library.AList" "HOL-Library.Product_Lexorder"
begin

text \<open>
  The alert manager of \<open>selfdrive/selfdrived/alertmanager.py\<close>: the entries it keeps per alert
  type, how long an alert stays, and which one is shown. The dictionary of entries is an
  association list in insertion order, because the loop over it picks the first of equals.
\<close>

subsection \<open>Entries and operations\<close>

record am_entry =
  ae_alert :: "alert option"
  ae_start_frame :: int
  ae_end_frame :: int
  ae_added_frame :: int

definition AlertEntry :: am_entry where
  "AlertEntry = \<lparr>ae_alert = None, ae_start_frame = -1, ae_end_frame = -1, ae_added_frame = -1\<rparr>"

definition entry_active :: "am_entry \<Rightarrow> int \<Rightarrow> bool" where
  "entry_active v frame \<longleftrightarrow> frame \<le> ae_end_frame v"

definition entry_just_added :: "am_entry \<Rightarrow> int \<Rightarrow> bool" where
  "entry_just_added v frame \<longleftrightarrow> entry_active v frame \<and> frame = ae_added_frame v + 1"

record alert_manager =
  am_alerts :: "(string \<times> am_entry) list"
  am_current_alert :: alert

definition am_init :: alert_manager where
  "am_init = \<lparr>am_alerts = [], am_current_alert = EmptyAlert\<rparr>"

definition am_add_entry :: "int \<Rightarrow> alert \<Rightarrow> am_entry \<Rightarrow> am_entry" where
  "am_add_entry frame a v =
     (let start = (if entry_just_added v frame then ae_start_frame v else frame);
          min_end_frame = start + al_duration a
      in \<lparr>ae_alert = Some a, ae_start_frame = start, ae_end_frame = max (frame + 1) min_end_frame,
          ae_added_frame = frame\<rparr>)"

definition am_add :: "int \<Rightarrow> alert \<Rightarrow> (string \<times> am_entry) list \<Rightarrow> (string \<times> am_entry) list" where
  "am_add frame a al =
     AList.update (al_type a) (am_add_entry frame a (dict_get (map_of al) (al_type a) AlertEntry)) al"

definition am_add_many :: "int \<Rightarrow> alert list \<Rightarrow> alert_manager \<Rightarrow> alert_manager" where
  "am_add_many frame alerts am = am\<lparr>am_alerts := fold (am_add frame) alerts (am_alerts am)\<rparr>"

text \<open>The loop of \<open>process_alerts\<close>: the entries are updated in place, \<open>ae\<close> is the best so far.\<close>

definition am_clear_entry :: "et set \<Rightarrow> am_entry \<Rightarrow> am_entry" where
  "am_clear_entry clear v =
     (case ae_alert v of None \<Rightarrow> v
      | Some a \<Rightarrow> (case al_event_type a of None \<Rightarrow> v
                   | Some t \<Rightarrow> if t \<in> clear then v\<lparr>ae_end_frame := -1\<rparr> else v))"

definition am_greater :: "am_entry \<Rightarrow> alert \<Rightarrow> am_entry \<Rightarrow> bool" where
  "am_greater v a ae \<longleftrightarrow>
     (case ae_alert ae of None \<Rightarrow> True
      | Some b \<Rightarrow> (al_priority a, ae_start_frame v) > (al_priority b, ae_start_frame ae))"

fun am_process_loop ::
  "int \<Rightarrow> et set \<Rightarrow> am_entry \<Rightarrow> (string \<times> am_entry) list \<Rightarrow> am_entry \<times> (string \<times> am_entry) list" where
  "am_process_loop frame clear ae [] = (ae, [])"
| "am_process_loop frame clear ae ((k, v) # rest) =
     (case ae_alert v of
        None \<Rightarrow> (let (ae', rest') = am_process_loop frame clear ae rest in (ae', (k, v) # rest'))
      | Some a \<Rightarrow>
          (let v' = am_clear_entry clear v;
               ae1 = (if entry_active v' frame \<and> am_greater v' a ae then v' else ae);
               (ae', rest') = am_process_loop frame clear ae1 rest
           in (ae', (k, v') # rest')))"

definition am_process_alerts :: "int \<Rightarrow> et set \<Rightarrow> alert_manager \<Rightarrow> alert_manager" where
  "am_process_alerts frame clear am =
     (let (ae, al) = am_process_loop frame clear AlertEntry (am_alerts am)
      in \<lparr>am_alerts = al,
          am_current_alert = (case ae_alert ae of None \<Rightarrow> EmptyAlert | Some a \<Rightarrow> a)\<rparr>)"

subsection \<open>Selection of the shown alert\<close>

text \<open>The rank by which the manager compares entries.\<close>

definition entry_key :: "am_entry \<Rightarrow> (priority \<times> int)" where
  "entry_key v = (case ae_alert v of None \<Rightarrow> (P_LOWEST, -1) | Some a \<Rightarrow> (al_priority a, ae_start_frame v))"

definition showable :: "int \<Rightarrow> am_entry \<Rightarrow> bool" where
  "showable frame v \<longleftrightarrow> ae_alert v \<noteq> None \<and> entry_active v frame"

lemma am_clear_entry_alert [simp]:
  "ae_alert (am_clear_entry clear v) = ae_alert v"
  "ae_start_frame (am_clear_entry clear v) = ae_start_frame v"
  by (simp_all add: am_clear_entry_def split: option.split)

lemma process_loop_entries:
  "snd (am_process_loop frame clear ae al) = map (\<lambda>(k, v). (k, am_clear_entry clear v)) al"
  by (induction al arbitrary: ae)
    (auto simp: Let_def am_clear_entry_def case_prod_beta split: option.splits)

text \<open>
  Loop invariant: the result is the start entry or a showable entry of the list, and no showable
  entry of the list ranks above it.
\<close>

lemma process_loop_best:
  assumes "ae_alert ae \<noteq> None \<longrightarrow> showable frame ae"
  shows "let (ae', al') = am_process_loop frame clear ae al in
    (ae' = ae \<or> showable frame ae' \<and> ae' \<in> snd ` set al') \<and>
    (ae_alert ae \<noteq> None \<longrightarrow> ae_alert ae' \<noteq> None \<and> entry_key ae \<le> entry_key ae') \<and>
    (\<forall>v \<in> snd ` set al'. showable frame v \<longrightarrow> ae_alert ae' \<noteq> None \<and> entry_key v \<le> entry_key ae')"
  using assms
proof (induction al arbitrary: ae)
  case (Cons kv al)
  obtain k v where kv: "kv = (k, v)" by force
  let ?v = "am_clear_entry clear v"
  show ?case
  proof (cases "ae_alert v")
    case None
    obtain ae' al' where rec: "am_process_loop frame clear ae al = (ae', al')" by force
    have eq: "am_process_loop frame clear ae (kv # al) = (ae', (k, v) # al')"
      using None rec by (simp add: kv)
    have "\<not> showable frame v" using None by (simp add: showable_def)
    with Cons.IH [OF Cons.prems] rec show ?thesis unfolding eq by auto
  next
    case (Some a)
    let ?ae1 = "if entry_active ?v frame \<and> am_greater ?v a ae then ?v else ae"
    have ok: "ae_alert ?ae1 \<noteq> None \<longrightarrow> showable frame ?ae1"
      using Cons.prems Some by (simp add: showable_def)
    have le: "ae_alert ae \<noteq> None \<longrightarrow> ae_alert ?ae1 \<noteq> None \<and> entry_key ae \<le> entry_key ?ae1"
      using Some by (auto simp: am_greater_def entry_key_def split: option.splits)
    have v: "showable frame ?v \<longrightarrow> ae_alert ?ae1 \<noteq> None \<and> entry_key ?v \<le> entry_key ?ae1"
      using Some by (auto simp: showable_def am_greater_def entry_key_def split: option.splits)
    obtain ae' al' where rec: "am_process_loop frame clear ?ae1 al = (ae', al')" by force
    have eq: "am_process_loop frame clear ae (kv # al) = (ae', (k, ?v) # al')"
      using Some rec by (simp add: kv Let_def)
    have ih: "(ae' = ?ae1 \<or> showable frame ae' \<and> ae' \<in> snd ` set al')"
      "ae_alert ?ae1 \<noteq> None \<longrightarrow> ae_alert ae' \<noteq> None \<and> entry_key ?ae1 \<le> entry_key ae'"
      "\<forall>v \<in> snd ` set al'. showable frame v \<longrightarrow> ae_alert ae' \<noteq> None \<and> entry_key v \<le> entry_key ae'"
      using Cons.IH [OF ok] rec by simp_all
    have "ae' = ae \<or> showable frame ae' \<and> ae' \<in> snd ` set ((k, ?v) # al')"
      using ih(1) Some by (auto simp: showable_def split: if_splits)
    moreover have "ae_alert ae \<noteq> None \<longrightarrow> ae_alert ae' \<noteq> None \<and> entry_key ae \<le> entry_key ae'"
      using le ih(2) by (meson order_trans)
    moreover have "showable frame ?v \<longrightarrow> ae_alert ae' \<noteq> None \<and> entry_key ?v \<le> entry_key ae'"
      using v ih(2) by (meson order_trans)
    ultimately show ?thesis unfolding eq using ih(3) by simp
  qed
qed simp

subsection \<open>Properties\<close>

text \<open>
  The alert shown is the right one: after \<open>process_alerts\<close>, if no entry is both set and
  unexpired (entries of cleared event types count as expired), the empty alert is shown;
  otherwise the shown alert belongs to such an entry, and no such entry has a higher priority,
  nor the same priority with a later start.
\<close>

theorem process_alerts_shows_best:
  assumes "am_process_alerts frame clear am = am'"
  shows "((\<nexists>v. v \<in> snd ` set (am_alerts am') \<and> showable frame v) \<and> am_current_alert am' = EmptyAlert) \<or>
    (\<exists>v \<in> snd ` set (am_alerts am'). showable frame v \<and> ae_alert v = Some (am_current_alert am') \<and>
       (\<forall>w \<in> snd ` set (am_alerts am'). showable frame w \<longrightarrow> entry_key w \<le> entry_key v))"
proof -
  obtain ae al where l: "am_process_loop frame clear AlertEntry (am_alerts am) = (ae, al)" by force
  have best: "ae = AlertEntry \<or> showable frame ae \<and> ae \<in> snd ` set al"
    "\<forall>v \<in> snd ` set al. showable frame v \<longrightarrow> ae_alert ae \<noteq> None \<and> entry_key v \<le> entry_key ae"
    using process_loop_best [of AlertEntry frame clear "am_alerts am"] l by (simp_all add: AlertEntry_def)
  have am': "am_alerts am' = al"
    "am_current_alert am' = (case ae_alert ae of None \<Rightarrow> EmptyAlert | Some a \<Rightarrow> a)"
    using assms l by (auto simp: am_process_alerts_def)
  show ?thesis
  proof (cases "ae = AlertEntry")
    case True
    then have "ae_alert ae = None" by (simp add: AlertEntry_def)
    with best(2) am' show ?thesis by auto
  next
    case False
    with best am' show ?thesis by (auto simp: showable_def)
  qed
qed

definition example_alert :: "string \<Rightarrow> priority \<Rightarrow> alert" where
  "example_alert nm p = (Alert ''a'' ''b'' AS_normal SZ_small p VA_none AA_none 1 0)\<lparr>al_type := nm\<rparr>"

lemmas am_example_defs = am_process_alerts_def am_add_many_def am_add_def am_add_entry_def am_init_def
  entry_just_added_def entry_active_def AlertEntry_def example_alert_def Alert_def DT_CTRL_def
  am_greater_def am_clear_entry_def dict_get_def Let_def

theorem process_alerts_shows_best_witness:
  "\<exists>v \<in> snd ` set (am_alerts (am_process_alerts 5 {} (am_add_many 5
      [example_alert ''x'' P_LOW, example_alert ''y'' P_HIGH] am_init))).
     showable 5 v \<and> ae_alert v = Some (example_alert ''y'' P_HIGH)"
proof -
  let ?am = "am_process_alerts 5 {} (am_add_many 5
      [example_alert ''x'' P_LOW, example_alert ''y'' P_HIGH] am_init)"
  have "am_current_alert ?am = example_alert ''y'' P_HIGH"
    by (simp add: am_example_defs less_priority_def)
  moreover have "\<exists>v \<in> snd ` set (am_alerts ?am). showable 5 v"
    by (simp add: am_example_defs less_priority_def showable_def)
  ultimately show ?thesis
    using process_alerts_shows_best [of 5 "{}" _ ?am] by auto
qed

text \<open>The entries that compete: set, not expired, and not of an event type that is cleared now.\<close>

definition competes :: "int \<Rightarrow> et set \<Rightarrow> am_entry \<Rightarrow> bool" where
  "competes frame clear v \<longleftrightarrow>
     (\<exists>a. ae_alert v = Some a \<and> al_event_type a \<notin> Some ` clear) \<and> frame \<le> ae_end_frame v"

lemma showable_after_clear:
  "0 \<le> frame \<Longrightarrow> showable frame (am_clear_entry clear v) \<longleftrightarrow> competes frame clear v"
  by (auto simp: showable_def competes_def entry_active_def am_clear_entry_def split: option.splits)

lemma competes_uncleared: "competes frame clear v \<Longrightarrow> am_clear_entry clear v = v"
  by (auto simp: competes_def am_clear_entry_def split: option.splits)

text \<open>Raising alerts of different types leaves one entry per alert, each as \<open>am_add_entry\<close> makes it.\<close>

lemma add_many_entry:
  assumes "distinct (map al_type alerts)" "a \<in> set alerts"
  shows "\<exists>v. (al_type a, am_add_entry frame a v) \<in> set (fold (am_add frame) alerts al)"
proof -
  have keep: "map_of (fold (am_add frame) as al) k = map_of al k" if "k \<notin> al_type ` set as" for as al k
    using that by (induction as arbitrary: al) (auto simp: am_add_def update_conv')
  show ?thesis
    using assms
  proof (induction alerts arbitrary: al)
    case (Cons b alerts)
    show ?case
    proof (cases "a = b")
      case True
      with Cons.prems(1) have "map_of (fold (am_add frame) alerts (am_add frame a al)) (al_type a) =
          Some (am_add_entry frame a (dict_get (map_of al) (al_type a) AlertEntry))"
        by (subst keep) (auto simp: am_add_def update_conv')
      from map_of_SomeD [OF this] show ?thesis using True by auto
    next
      case False
      with Cons.IH Cons.prems show ?thesis by simp
    qed
  qed simp
qed

text \<open>
  C5. The alert on the screen is the right one. In a frame in which selfdrived raises alerts of
  different types (\<open>add_many\<close>) and then lets the manager choose (\<open>process_alerts\<close>), the alerts that
  compete are those raised now or earlier whose time is not over and whose event type is not
  cleared in this frame. If none competes, the empty alert is shown; otherwise a competing alert is
  shown such that no other has a higher priority, or the same priority and a later start. So no
  alert raised in this frame, unless its event type is cleared, has a higher priority than the one
  shown.
\<close>

theorem shown_alert_is_best:
  assumes "0 \<le> frame" "distinct (map al_type alerts)"
  shows "let raised = am_add_many frame alerts am;
             rivals = {v \<in> snd ` set (am_alerts raised). competes frame clear v};
             shown = am_current_alert (am_process_alerts frame clear raised)
    in (if rivals = {} then shown = EmptyAlert
        else \<exists>v \<in> rivals. ae_alert v = Some shown \<and> (\<forall>w \<in> rivals. entry_key w \<le> entry_key v)) \<and>
       (\<forall>a \<in> set alerts. al_event_type a \<notin> Some ` clear \<longrightarrow> al_priority a \<le> al_priority shown)"
proof -
  define raised where "raised = am_add_many frame alerts am"
  define am' where "am' = am_process_alerts frame clear raised"
  let ?R = "{v \<in> snd ` set (am_alerts raised). competes frame clear v}"
  have alerts': "am_alerts am' = map (\<lambda>(k, v). (k, am_clear_entry clear v)) (am_alerts raised)"
    using process_loop_entries [of frame clear AlertEntry "am_alerts raised"]
    by (simp add: am'_def am_process_alerts_def case_prod_beta)
  have rivals: "{v \<in> snd ` set (am_alerts am'). showable frame v} = ?R"
  proof -
    have "snd ` set (am_alerts am') = am_clear_entry clear ` snd ` set (am_alerts raised)"
      by (simp add: alerts' image_image case_prod_beta)
    then show ?thesis
      by (auto simp: showable_after_clear [OF assms(1)] competes_uncleared)
        (metis competes_uncleared image_eqI snd_conv showable_after_clear [OF assms(1)])+
  qed
  have best: "(if ?R = {} then am_current_alert am' = EmptyAlert
      else \<exists>v \<in> ?R. ae_alert v = Some (am_current_alert am') \<and> (\<forall>w \<in> ?R. entry_key w \<le> entry_key v))"
    using process_alerts_shows_best [of frame clear raised am'] unfolding rivals [symmetric] am'_def
    by auto
  have "al_priority a \<le> al_priority (am_current_alert am')"
    if a: "a \<in> set alerts" "al_event_type a \<notin> Some ` clear" for a
  proof -
    obtain v where "(al_type a, am_add_entry frame a v) \<in> set (am_alerts raised)"
      using add_many_entry [OF assms(2) a(1), of frame "am_alerts am"]
      by (auto simp: raised_def am_add_many_def)
    then have r: "am_add_entry frame a v \<in> ?R"
      using a(2) by (force simp: competes_def am_add_entry_def Let_def)
    with best obtain w where "ae_alert w = Some (am_current_alert am')"
      "entry_key (am_add_entry frame a v) \<le> entry_key w" by (auto split: if_splits)
    then show ?thesis by (auto simp: entry_key_def am_add_entry_def Let_def)
  qed
  with best show ?thesis unfolding Let_def am'_def raised_def by blast
qed

theorem shown_alert_is_best_witness:
  "al_priority (example_alert ''y'' P_HIGH) \<le> al_priority (am_current_alert
     (am_process_alerts 5 {} (am_add_many 5 [example_alert ''x'' P_LOW, example_alert ''y'' P_HIGH] am_init)))"
  using shown_alert_is_best [of 5 "[example_alert ''x'' P_LOW, example_alert ''y'' P_HIGH]" am_init "{}"]
  by (simp add: Let_def example_alert_def)

text \<open>
  An alert that is raised in every frame from \<open>f\<close> to \<open>f + n\<close> keeps its first start frame and
  stays active until its own duration has passed since the start, and at least one frame longer
  than it was raised.
\<close>

theorem repeated_alert_lifetime:
  assumes "0 \<le> al_duration a" "\<not> entry_just_added v f"
  shows "let w = fold (\<lambda>k v. am_add_entry (f + int k) a v) [0..<Suc n] v in
    ae_start_frame w = f \<and> ae_added_frame w = f + int n \<and>
    (\<forall>frame. entry_active w frame \<longleftrightarrow> frame \<le> f + int n + 1 \<or> frame \<le> f + al_duration a)"
proof (induction n)
  case 0
  show ?case using assms by (simp add: am_add_entry_def Let_def entry_active_def) linarith
next
  case (Suc n)
  let ?w = "fold (\<lambda>k v. am_add_entry (f + int k) a v) [0..<Suc n] v"
  have w: "ae_start_frame ?w = f" "ae_added_frame ?w = f + int n" "entry_active ?w (f + int n + 1)"
    using Suc.IH by (simp_all add: Let_def)
  have "entry_just_added ?w (f + int (Suc n))"
    using w by (simp add: entry_just_added_def algebra_simps)
  moreover have "fold (\<lambda>k v. am_add_entry (f + int k) a v) [0..<Suc (Suc n)] v =
      am_add_entry (f + int (Suc n)) a ?w" by (simp add: upt_Suc_append [of 0 "Suc n"] del: upt_Suc)
  ultimately show ?case
    using w(1) by (simp add: am_add_entry_def Let_def entry_active_def del: upt_Suc) linarith
qed

theorem repeated_alert_lifetime_witness:
  "let w = fold (\<lambda>k v. am_add_entry (7 + int k) (example_alert ''x'' P_LOW) v) [0..<Suc 3] AlertEntry
   in ae_start_frame w = 7 \<and> ae_added_frame w = 10"
proof -
  have "0 \<le> al_duration (example_alert ''x'' P_LOW)" "\<not> entry_just_added AlertEntry 7"
    by (simp_all add: am_example_defs)
  from repeated_alert_lifetime [OF this, of 3] show ?thesis by (simp add: Let_def del: upt_Suc)
qed

end
