(* ===== verification/SelfdriveD.thy ===== *)
theory SelfdriveD
  imports Mads Car_Events Alert_Manager
begin

text \<open>
  \<open>SelfdriveD\<close> of \<open>selfdrive/selfdrived/selfdrived.py\<close>: one call of \<open>step\<close> samples the inputs,
  computes the events, advances the main state machine and MADS, creates and selects the
  alerts and composes the published state.

  \<^item> \<open>sm_in\<close> is what one frame reads: the car state message and the fields of the \<open>SubMaster\<close>
    messages, with the liveness checks of the messaging library (\<open>all_checks\<close> and so on) and the
    calibrated pose (matrix algebra of \<open>locationd\<close>) as given values.
  \<^item> \<open>env\<close> holds what is fixed for the process: the environment variables, the device type, the
    car parameters, \<open>opendbc\<close>'s limits and its \<open>apply_hysteresis\<close>.
  \<^item> \<open>sdd\<close> is the object's state. Writes to the parameter store and offroad alerts are appended to
    \<open>sdd_effects\<close>. Log calls and the two variables that only serve them
    (\<open>logged_comm_issue\<close>, \<open>not_running_prev\<close>) are left out.
  \<^item> The parameter thread runs between steps (\<open>params_thread_step\<close>); \<open>step\<close> itself reads one
    configuration snapshot, as the code does.

  Where the code divides by \<open>abs(1e-3 + actual_lateral_accel)\<close>, Python raises if that is exactly
  zero; the model's real division is then 0.
\<close>

subsection \<open>Inputs, environment and state\<close>

record sm_in =
  in_carState :: "car_state option"
  in_frame :: int
  in_managerState_updated :: bool
  in_managerState_recv :: bool
  in_processes :: "(string \<times> bool \<times> bool) list"  \<comment> \<open>name, running, shouldBeRunning\<close>
  in_debugState :: bool
  in_lateralManeuverPlan_recv :: int
  in_alertDebug_recv :: int
  in_userBookmark :: bool
  in_audioFeedback :: bool
  in_dm_lockout :: bool
  in_dm_alwaysOnLockout :: bool
  in_dm_vision :: bool
  in_dm_alertLevel :: alert_level
  in_dm_uncertain_percent :: int
  in_lpsp_events :: "event_msg list"
  in_lpsp_vTarget :: real
  in_carControl :: car_control
  in_overheated :: bool
  in_freeSpacePercent :: real
  in_memoryUsagePercent :: int
  in_fanSpeedPercentDesired :: int
  in_pandaType_known :: bool
  in_fanSpeedRpm :: int
  in_calStatus :: cal_status
  in_driverAssistance_valid :: bool
  in_leftLaneDeparture :: bool
  in_rightLaneDeparture :: bool
  in_livePose_updated :: bool
  in_calibrated_accel :: real
  in_calibrated_yaw :: real
  in_roll :: real
  in_laneChangeState :: lane_change_state
  in_laneChangeDirection :: lane_change_direction
  in_laneTurnDirection :: turn_direction
  in_pandaStates :: "panda_state list"
  in_pandaStates_valid :: bool
  in_cameras_alive :: bool
  in_cameras_freq_ok :: bool
  in_lagging :: bool
  in_radar_canError :: bool
  in_radar_tempUnavailable :: bool
  in_radar_anyError :: bool
  in_all_checks :: bool
  in_all_alive :: bool
  in_all_freq_ok :: bool
  in_posenetOK :: bool
  in_inputsOK :: bool
  in_liveParameters_valid :: bool
  in_sensor_recv_frames :: "int list"
  in_lac_active :: bool
  in_lac_saturated :: bool
  in_curvature :: real
  in_desiredCurvature :: real
  in_hardBrakePredicted :: bool
  in_longitudinalPlan_fcw :: bool
  in_gps_recv_frame :: int
  in_frameDropPerc :: real
  in_param_CustomLongitudinalEnabled :: bool
  in_cbargs :: cbargs

record env =
  env_mici :: bool
  env_SIMULATION :: bool
  env_REPLAY :: bool
  env_TESTING_CLOSET :: bool
  env_CP :: car_params
  env_CPSP :: car_params_sp
  env_limits :: accel_limits
  env_hyst :: "real \<Rightarrow> real \<Rightarrow> real \<Rightarrow> real"

record sd_config =
  cf_is_metric :: bool
  cf_is_ldw_enabled :: bool
  cf_disengage_on_accelerator :: bool
  cf_custom_longitudinal_enabled :: bool
  cf_custom_longitudinal_mode :: longitudinal_mode
  cf_experimental_mode :: bool
  cf_personality :: int

datatype effect =
    PutBool string bool
  | PutInt string int
  | RemoveParam string
  | OffroadAlert string

record sdd =
  sdd_shared :: shared
  sdd_active :: bool
  sdd_initialized :: bool
  sdd_CS_prev :: car_state
  sdd_car_events :: car_specific
  sdd_car_events_sp :: bool
  sdd_cruise_helper :: cruise_helper
  sdd_mads :: mads
  sdd_icbm :: icbm
  sdd_excessive_check :: excessive_check
  sdd_excessive_actuation :: bool
  sdd_calibrated_pose :: "(real \<times> real) option"
  sdd_mismatch_counter :: int
  sdd_cruise_mismatch_counter :: int
  sdd_last_steering_pressed_frame :: int
  sdd_distance_traveled :: real
  sdd_last_functional_fan_frame :: int
  sdd_startup_event :: "int option"
  sdd_not_running :: "string list"
  sdd_recalibrating_seen :: bool
  sdd_dm_lockout_set :: bool
  sdd_dm_uncertain_alerted :: bool
  sdd_config :: sd_config
  sdd_active_mode :: longitudinal_mode
  sdd_AM :: alert_manager
  sdd_effects :: "effect list"

text \<open>What the constructor reads of the build, the parameter store and the car.\<close>

record init_in =
  ii_is_remote :: bool
  ii_tested_channel :: bool
  ii_secOcRequired :: bool
  ii_secOcKeyAvailable :: bool
  ii_alphaLongitudinalAvailable :: bool
  ii_excessive_param :: bool
  ii_config :: sd_config
  ii_mads_params :: mads_params
  ii_default_gear :: gear_shifter  \<comment> \<open>of a new \<open>CarState\<close> message\<close>

definition startup_event_of :: "env \<Rightarrow> init_in \<Rightarrow> int option" where
  "startup_event_of E ii =
     (let CP = env_CP E;
          car_recognized = cp_brand CP \<noteq> ''mock'';
          e = (if ii_is_remote ii \<and> ii_tested_channel ii then Some EV_startup else Some EV_startupMaster);
          e = (if env_mici E then None else e)
      in if \<not> car_recognized then Some EV_startupNoCar
         else if car_recognized \<and> cp_passive CP then Some EV_startupNoControl
         else if ii_secOcRequired ii \<and> \<not> ii_secOcKeyAvailable ii then Some EV_startupNoSecOcKey
         else e)"

definition init_events :: "env \<Rightarrow> events_base" where
  "init_events E =
     (let M = EVENTS (env_mici E); ev = events_init (map fst (EVENTS_list (env_mici E)))
      in if cp_brand (env_CP E) = ''mock'' then ev_add M True ev EV_carUnrecognized
         else if cp_passive (env_CP E) then ev_add M True ev EV_dashcamMode
         else ev)"

definition sdd_init :: "env \<Rightarrow> init_in \<Rightarrow> sdd" where
  "sdd_init E ii =
     \<lparr>sdd_shared = \<lparr>sh_events = init_events E,
        sh_events_sp = events_init (map fst (EVENTS_SP_list (env_mici E))),
        sh_sm = sd_init, sh_enabled = False, sh_enabled_prev = False\<rparr>,
      sdd_active = False, sdd_initialized = False, sdd_CS_prev = car_state_default (ii_default_gear ii),
      sdd_car_events = car_specific_init, sdd_car_events_sp = False,
      sdd_cruise_helper = cruise_helper_init,
      sdd_mads = mads_init (env_CP E) (env_CPSP E) (ii_mads_params ii),
      sdd_icbm = icbm_init, sdd_excessive_check = excessive_init,
      sdd_excessive_actuation = ii_excessive_param ii, sdd_calibrated_pose = None,
      sdd_mismatch_counter = 0, sdd_cruise_mismatch_counter = 0,
      sdd_last_steering_pressed_frame = 0, sdd_distance_traveled = 0,
      sdd_last_functional_fan_frame = 0, sdd_startup_event = startup_event_of E ii,
      sdd_not_running = [], sdd_recalibrating_seen = False, sdd_dm_lockout_set = False,
      sdd_dm_uncertain_alerted = False,
      sdd_config = (ii_config ii)\<lparr>cf_experimental_mode := False\<rparr>,
      sdd_active_mode = cf_custom_longitudinal_mode (ii_config ii), sdd_AM = am_init,
      sdd_effects =
        (if \<not> ii_alphaLongitudinalAvailable ii then [RemoveParam ''AlphaLongitudinalEnabled''] else []) @
        (if \<not> cp_openpilotLongitudinalControl (env_CP E) then [RemoveParam ''ExperimentalMode''] else []) @
        (if cp_brand (env_CP E) = ''mock'' then [OffroadAlert ''Offroad_CarUnrecognized''] else [])\<rparr>"

definition sdd_events :: "sdd \<Rightarrow> events_base" where
  "sdd_events s = sh_events (sdd_shared s)"

definition sdd_enabled :: "sdd \<Rightarrow> bool" where
  "sdd_enabled s = sh_enabled (sdd_shared s)"

definition sdd_map_shared :: "(shared \<Rightarrow> shared) \<Rightarrow> sdd \<Rightarrow> sdd" where
  "sdd_map_shared f s = s\<lparr>sdd_shared := f (sdd_shared s)\<rparr>"

definition sdd_map_events :: "(events_base \<Rightarrow> events_base) \<Rightarrow> sdd \<Rightarrow> sdd" where
  "sdd_map_events f = sdd_map_shared (\<lambda>sh. sh\<lparr>sh_events := f (sh_events sh)\<rparr>)"

definition sdd_map_events_sp :: "(events_base \<Rightarrow> events_base) \<Rightarrow> sdd \<Rightarrow> sdd" where
  "sdd_map_events_sp f = sdd_map_shared (\<lambda>sh. sh\<lparr>sh_events_sp := f (sh_events_sp sh)\<rparr>)"

definition sdd_add :: "env \<Rightarrow> (bool \<times> int) list \<Rightarrow> sdd \<Rightarrow> sdd" where
  "sdd_add E xs = sdd_map_events (add_all (EVENTS (env_mici E)) xs)"

definition sdd_add_sp :: "env \<Rightarrow> (bool \<times> int) list \<Rightarrow> sdd \<Rightarrow> sdd" where
  "sdd_add_sp E xs = sdd_map_events_sp (add_all (EVENTS_SP (env_mici E)) xs)"

definition sdd_effect :: "bool \<Rightarrow> effect \<Rightarrow> sdd \<Rightarrow> sdd" where
  "sdd_effect b e s = (if b then s\<lparr>sdd_effects := sdd_effects s @ [e]\<rparr> else s)"

subsection \<open>update_events\<close>

definition ue_start :: "env \<Rightarrow> sm_in \<Rightarrow> sdd \<Rightarrow> sdd" where
  "ue_start E i s =
     (let s = (if in_managerState_updated i then
                 s\<lparr>sdd_not_running := map fst (filter (\<lambda>(nm, running, should). \<not> running \<and> should) (in_processes i))\<rparr>
               else s);
          s = sdd_map_events ev_clear s;
          s = sdd_map_events_sp ev_clear s;
          s = sdd_add E [(in_debugState i, EV_joystickDebug)] s;
          s = (if in_debugState i then s\<lparr>sdd_startup_event := None\<rparr> else s);
          lateral = in_lateralManeuverPlan_recv i > 0;
          long = \<not> lateral \<and> in_alertDebug_recv i > 0;
          s = sdd_add E [(lateral, EV_lateralManeuver), (long, EV_longitudinalManeuver)] s;
          s = (if lateral \<or> long then s\<lparr>sdd_startup_event := None\<rparr> else s)
      in case sdd_startup_event s of
           None \<Rightarrow> s
         | Some e \<Rightarrow> (sdd_add E [(True, e)] s)\<lparr>sdd_startup_event := None\<rparr>)"

definition dm_level_event :: "bool \<Rightarrow> alert_level \<Rightarrow> (bool \<times> int) list" where
  "dm_level_event vision lvl =
     (case lvl of
        AL_none \<Rightarrow> []
      | AL_one \<Rightarrow> [(True, if vision then EV_driverDistracted1 else EV_driverUnresponsive1)]
      | AL_two \<Rightarrow> [(True, if vision then EV_driverDistracted2 else EV_driverUnresponsive2)]
      | AL_three \<Rightarrow> [(True, if vision then EV_driverDistracted3 else EV_driverUnresponsive3)])"

definition ue_driver_monitoring :: "env \<Rightarrow> sm_in \<Rightarrow> sdd \<Rightarrow> sdd" where
  "ue_driver_monitoring E i s =
     (if cp_notCar (env_CP E) then s
      else
        (let s = (if in_dm_lockout i \<and> \<not> sdd_dm_lockout_set s then
                    (sdd_effect True (PutBool ''DriverTooDistracted'' True) s)\<lparr>sdd_dm_lockout_set := True\<rparr>
                  else if \<not> in_dm_lockout i \<and> sdd_dm_lockout_set s then
                    (sdd_effect True (RemoveParam ''DriverTooDistracted'') s)\<lparr>sdd_dm_lockout_set := False\<rparr>
                  else s);
             s = sdd_add E [(in_dm_lockout i \<or> in_dm_alwaysOnLockout i, EV_tooDistracted)] s;
             s = sdd_add E (dm_level_event (in_dm_vision i) (in_dm_alertLevel i)) s;
             s = (if in_dm_uncertain_percent i \<ge> 100 \<and> \<not> sdd_dm_uncertain_alerted s then
                    (sdd_effect True (OffroadAlert ''Offroad_DriverMonitoringUncertain'') s)
                      \<lparr>sdd_dm_uncertain_alerted := True\<rparr>
                  else s)
         in sdd_map_events_sp (\<lambda>ev. ev_add_from_msg (EVENTS_SP (env_mici E)) ev (in_lpsp_events i)) s))"

definition pedal_event :: "car_state \<Rightarrow> car_state \<Rightarrow> bool \<Rightarrow> bool" where
  "pedal_event CS CSp disengage_on_accelerator \<longleftrightarrow>
     (cs_gasPressed CS \<and> \<not> cs_gasPressed CSp \<and> disengage_on_accelerator) \<or>
     (cs_brakePressed CS \<and> (\<not> cs_brakePressed CSp \<or> \<not> cs_standstill CS)) \<or>
     (cs_regenBraking CS \<and> (\<not> cs_regenBraking CSp \<or> \<not> cs_standstill CS))"

definition ue_car :: "env \<Rightarrow> sd_config \<Rightarrow> sm_in \<Rightarrow> car_state \<Rightarrow> sdd \<Rightarrow> sdd" where
  "ue_car E cfg i CS s =
     (if \<not> cs_canValid CS then s
      else
        (let d = env_mici E; CP = env_CP E;
             (c, cev) = car_specific_update d CP CS (sdd_CS_prev s) (in_carControl i) (sdd_car_events s);
             s = s\<lparr>sdd_car_events := c\<rparr>;
             s = sdd_map_events (\<lambda>ev. ev_add_from_msg (EVENTS d) ev (ev_to_msg (EVENTS d) cev)) s;
             (low, ev, cesp) = car_specific_sp_update d CP (env_CPSP E) CS (sdd_events s) (sdd_car_events_sp s);
             s = (sdd_map_events (\<lambda>_. ev) s)\<lparr>sdd_car_events_sp := low\<rparr>;
             s = sdd_map_events_sp (\<lambda>ev. ev_add_from_msg (EVENTS_SP d) ev (ev_to_msg (EVENTS_SP d) cesp)) s
         in sdd_add E
              [(cp_notCar CP \<and> in_frame i > py_int (2 / DT_CTRL) \<and> sdd_initialized s, EV_pcmEnable),
               (pedal_event CS (sdd_CS_prev s) (cf_disengage_on_accelerator cfg), EV_pedalPressed)] s))"

definition ue_device :: "env \<Rightarrow> sm_in \<Rightarrow> sdd \<Rightarrow> sdd" where
  "ue_device E i s =
     (let s = sdd_add E
                [(in_overheated i, EV_overheat),
                 (in_freeSpacePercent i < 7 \<and> \<not> env_SIMULATION E, EV_outOfSpace),
                 (in_memoryUsagePercent i > 90 \<and> \<not> env_SIMULATION E, EV_lowMemory)] s
      in if in_pandaType_known i then
           (if in_fanSpeedRpm i < 500 \<and> in_fanSpeedPercentDesired i > 50 then
              sdd_add E [(of_int (in_frame i - sdd_last_functional_fan_frame s) * DT_CTRL > 15,
                          EV_fanMalfunction)] s
            else s\<lparr>sdd_last_functional_fan_frame := in_frame i\<rparr>)
         else s)"

definition ue_calibration :: "env \<Rightarrow> sm_in \<Rightarrow> sdd \<Rightarrow> sdd" where
  "ue_calibration E i s =
     (case in_calStatus i of
        CAL_calibrated \<Rightarrow> s
      | CAL_uncalibrated \<Rightarrow> sdd_add E [(True, EV_calibrationIncomplete)] s
      | CAL_recalibrating \<Rightarrow>
          sdd_add E [(True, EV_calibrationRecalibrating)]
            ((sdd_effect (\<not> sdd_recalibrating_seen s) (OffroadAlert ''Offroad_Recalibration'') s)
               \<lparr>sdd_recalibrating_seen := True\<rparr>)
      | CAL_invalid \<Rightarrow> sdd_add E [(True, EV_calibrationInvalid)] s)"

definition ue_ldw :: "env \<Rightarrow> sd_config \<Rightarrow> sm_in \<Rightarrow> sdd \<Rightarrow> sdd" where
  "ue_ldw E cfg i =
     sdd_add E [(cf_is_ldw_enabled cfg \<and> in_driverAssistance_valid i \<and>
                 (in_leftLaneDeparture i \<or> in_rightLaneDeparture i), EV_ldw)]"

definition ue_excessive :: "env \<Rightarrow> sm_in \<Rightarrow> car_state \<Rightarrow> sdd \<Rightarrow> sdd" where
  "ue_excessive E i CS s =
     (let s = (if in_livePose_updated i then
                 s\<lparr>sdd_calibrated_pose := Some (in_calibrated_accel i, in_calibrated_yaw i)\<rparr> else s);
          s = (case sdd_calibrated_pose s of
                 None \<Rightarrow> s
               | Some (acc, yaw) \<Rightarrow>
                   (let (x, r) = excessive_update (env_limits E)
                          \<lparr>xi_longActive = cc_longActive (in_carControl i),
                           xi_latActive = cc_latActive (in_carControl i), xi_accel = acc,
                           xi_yaw_rate = yaw, xi_roll = in_roll i, xi_vEgo = cs_vEgo CS,
                           xi_aEgo = cs_aEgo CS, xi_steeringPressed = cs_steeringPressed CS\<rparr>
                          (sdd_excessive_check s);
                        s = s\<lparr>sdd_excessive_check := x\<rparr>
                    in if \<not> sdd_excessive_actuation s \<and> r \<noteq> None then
                         (sdd_effect True (OffroadAlert ''Offroad_ExcessiveActuation'') s)
                           \<lparr>sdd_excessive_actuation := True\<rparr>
                       else s))
      in sdd_add E [(sdd_excessive_actuation s, EV_excessiveActuation)] s)"

definition ue_lanes :: "env \<Rightarrow> sm_in \<Rightarrow> car_state \<Rightarrow> sdd \<Rightarrow> sdd" where
  "ue_lanes E i CS s =
     (let dir = in_laneChangeDirection i;
          s = sdd_add E
                (case in_laneChangeState i of
                   LC_preLaneChange \<Rightarrow>
                     if cs_leftBlindspot CS \<and> dir = LD_left \<or> cs_rightBlindspot CS \<and> dir = LD_right
                     then [(True, EV_laneChangeBlocked)]
                     else if dir = LD_left then [(True, EV_preLaneChangeLeft)]
                     else [(True, EV_preLaneChangeRight)]
                 | LC_laneChangeStarting \<Rightarrow> [(True, EV_laneChange)]
                 | LC_laneChangeFinishing \<Rightarrow> [(True, EV_laneChange)]
                 | LC_off \<Rightarrow> []) s
      in sdd_add_sp E
           (case in_laneTurnDirection i of
              TD_turnLeft \<Rightarrow> [(True, SP_laneTurnLeft)]
            | TD_turnRight \<Rightarrow> [(True, SP_laneTurnRight)]
            | TD_none \<Rightarrow> []) s)"

definition safety_mismatch :: "car_params \<Rightarrow> nat \<Rightarrow> panda_state \<Rightarrow> bool" where
  "safety_mismatch CP k ps =
     (if k < length (cp_safetyConfigs CP) then
        ps_safetyModel ps \<noteq> fst (cp_safetyConfigs CP ! k) \<or>
        ps_safetyParam ps \<noteq> snd (cp_safetyConfigs CP ! k) \<or>
        ps_alternativeExperience ps \<noteq> cp_alternativeExperience CP
      else \<not> panda_ignored ps)"

definition panda_conditions :: "env \<Rightarrow> sm_in \<Rightarrow> int \<Rightarrow> (bool \<times> int) list" where
  "panda_conditions E i mismatch_counter =
     concat (map (\<lambda>(k, ps).
       [((safety_mismatch (env_CP E) k ps \<and> of_int (in_frame i) * DT_CTRL > 10) \<or>
         ps_safetyRxChecksInvalid ps \<or> mismatch_counter \<ge> 200, EV_controlsMismatch),
        (ps_relayMalfunction ps, EV_relayMalfunction)])
       (List.enumerate 0 (in_pandaStates i)))"

definition ue_pandas :: "env \<Rightarrow> sm_in \<Rightarrow> sdd \<Rightarrow> sdd" where
  "ue_pandas E i s = sdd_add E (panda_conditions E i (sdd_mismatch_counter s)) s"

definition ignored_processes :: "string list" where
  "ignored_processes = [''mapd'']"

definition process_not_running :: "sm_in \<Rightarrow> string list \<Rightarrow> bool" where
  "process_not_running i not_running \<longleftrightarrow>
     in_managerState_recv i \<and> list_ex (\<lambda>p. p \<notin> set ignored_processes) not_running"

definition system_conditions :: "env \<Rightarrow> sm_in \<Rightarrow> car_state \<Rightarrow> string list \<Rightarrow> (bool \<times> int) list" where
  "system_conditions E i CS not_running =
     (if process_not_running i not_running then [(True, EV_processNotRunning)]
      else if \<not> env_SIMULATION E \<and> \<not> in_lagging i then
        [(\<not> in_cameras_alive i, EV_cameraMalfunction),
         (in_cameras_alive i \<and> \<not> in_cameras_freq_ok i, EV_cameraFrameRate)]
      else []) @
     [(\<not> env_REPLAY E \<and> in_lagging i, EV_selfdrivedLagging)] @
     (if cp_openpilotLongitudinalControl (env_CP E) then
        (if in_radar_canError i then [(True, EV_canError)]
         else if in_radar_tempUnavailable i then [(True, EV_radarTempUnavailable)]
         else if in_radar_anyError i then [(True, EV_radarFault)] else [])
      else []) @
     [(\<not> in_pandaStates_valid i, EV_usbError)] @
     (if cs_canTimeout CS then [(True, EV_canBusMissing)]
      else if \<not> cs_canValid CS then [(True, EV_canError)] else [])"

definition ue_system :: "env \<Rightarrow> sm_in \<Rightarrow> car_state \<Rightarrow> sdd \<Rightarrow> sdd" where
  "ue_system E i CS s =
     (let num_events = length (eb_events (sdd_events s));
          s = sdd_add E (system_conditions E i CS (sdd_not_running s)) s;
          ev = sdd_events s;
          has_disable_events = ev_contains ev ET_NO_ENTRY \<and>
            (ev_contains ev ET_SOFT_DISABLE \<or> ev_contains ev ET_IMMEDIATE_DISABLE);
          no_system_errors = (\<not> has_disable_events \<or> length (eb_events ev) = num_events)
      in if \<not> in_all_checks i \<and> no_system_errors then
           sdd_add E [(True, if \<not> in_all_alive i then EV_commIssue
                             else if \<not> in_all_freq_ok i then EV_commIssueAvgFreq
                             else EV_commIssue)] s
         else s)"

definition ue_localization :: "env \<Rightarrow> sm_in \<Rightarrow> sdd \<Rightarrow> sdd" where
  "ue_localization E i s =
     (let s = (if cp_notCar (env_CP E) then s
               else sdd_add E
                 [(\<not> in_posenetOK i, EV_posenetInvalid),
                  (\<not> in_inputsOK i, EV_locationdTemporaryError),
                  (\<not> in_liveParameters_valid i \<and> in_calStatus i = CAL_calibrated \<and>
                   \<not> env_TESTING_CLOSET E \<and> (\<not> env_SIMULATION E \<or> env_REPLAY E), EV_paramsdTemporaryError)] s)
      in sdd_add E
           [(list_ex (\<lambda>f. of_int (in_frame i - f) * DT_CTRL > 10) (in_sensor_recv_frames i),
             EV_sensorDataInvalid)] s)"

definition ue_cruise_mismatch :: "env \<Rightarrow> car_state \<Rightarrow> sdd \<Rightarrow> sdd" where
  "ue_cruise_mismatch E CS s =
     (if env_REPLAY E then s
      else
        (let mismatch = cr_enabled (cs_cruiseState CS) \<and> (\<not> sdd_enabled s \<or> \<not> cp_pcmCruise (env_CP E));
             s = s\<lparr>sdd_cruise_mismatch_counter := (if mismatch then sdd_cruise_mismatch_counter s + 1 else 0)\<rparr>
         in sdd_add E [(sdd_cruise_mismatch_counter s > py_int (6 / DT_CTRL), EV_cruiseMismatch)] s))"

definition ue_steering :: "env \<Rightarrow> sm_in \<Rightarrow> car_state \<Rightarrow> sdd \<Rightarrow> sdd" where
  "ue_steering E i CS s =
     (let s = (if cs_steeringPressed CS then s\<lparr>sdd_last_steering_pressed_frame := in_frame i\<rparr> else s);
          recent = of_int (in_frame i - sdd_last_steering_pressed_frame s) * DT_CTRL < 2
      in if in_lac_active i \<and> \<not> recent \<and> \<not> cp_notCar (env_CP E) then
           (let v = max (cs_vEgo CS) (3/10);
                actual = in_curvature i * v ^ 2;
                desired = in_desiredCurvature i * v ^ 2;
                undershooting = \<bar>desired\<bar> / \<bar>1/1000 + actual\<bar> > 12/10;
                turning = \<bar>desired\<bar> > 1
            in sdd_add E [(undershooting \<and> turning \<and> in_lac_saturated i, EV_steerSaturated)] s)
         else s)"

definition ue_fcw :: "env \<Rightarrow> sm_in \<Rightarrow> car_state \<Rightarrow> sdd \<Rightarrow> sdd" where
  "ue_fcw E i CS s =
     (let stock_long_is_braking = sdd_enabled s \<and> \<not> cp_openpilotLongitudinalControl (env_CP E) \<and>
            cs_aEgo CS < - 5/4;
          model_fcw = in_hardBrakePredicted i \<and> \<not> cs_brakePressed CS \<and> \<not> stock_long_is_braking;
          planner_fcw = in_longitudinalPlan_fcw i \<and> sdd_enabled s
      in sdd_add E [((planner_fcw \<or> model_fcw) \<and> \<not> cp_notCar (env_CP E), EV_fcw)] s)"

definition ue_gps :: "env \<Rightarrow> sm_in \<Rightarrow> car_state \<Rightarrow> sdd \<Rightarrow> sdd" where
  "ue_gps E i CS s =
     (let gps_ok = in_gps_recv_frame i > 0 \<and> of_int (in_frame i - in_gps_recv_frame i) * DT_CTRL < 2;
          s = sdd_add E [(\<not> gps_ok \<and> in_inputsOK i \<and> sdd_distance_traveled s > 1500, EV_noGps)] s;
          s = (if gps_ok then s\<lparr>sdd_distance_traveled := 0\<rparr> else s)
      in s\<lparr>sdd_distance_traveled := sdd_distance_traveled s + \<bar>cs_vEgo CS\<bar> * DT_CTRL\<rparr>)"

definition ue_mute_park :: "env \<Rightarrow> car_state \<Rightarrow> sdd \<Rightarrow> sdd" where
  "ue_mute_park E CS s =
     (if cs_gearShifter CS = GS_park \<and> md_enabled (sdd_mads s)
      then sdd_map_events (\<lambda>ev. ev_remove (EVENTS (env_mici E)) False ev EV_canBusMissing) s else s)"

definition ue_cruise_helper :: "env \<Rightarrow> sd_config \<Rightarrow> sm_in \<Rightarrow> car_state \<Rightarrow> sdd \<Rightarrow> sdd" where
  "ue_cruise_helper E cfg i CS s =
     (let (h, esp, w) = cruise_helper_update (env_mici E) (env_CP E) (in_param_CustomLongitudinalEnabled i)
                          CS (sh_events_sp (sdd_shared s)) (cf_experimental_mode cfg) (sdd_cruise_helper s);
          s = (sdd_map_events_sp (\<lambda>_. esp) s)\<lparr>sdd_cruise_helper := h\<rparr>
      in case w of None \<Rightarrow> s | Some b \<Rightarrow> sdd_effect True (PutBool ''ExperimentalMode'' b) s)"

definition ue_personality :: "env \<Rightarrow> car_state \<Rightarrow> sdd \<Rightarrow> sdd" where
  "ue_personality E CS s =
     (if cp_openpilotLongitudinalControl (env_CP E) \<and>
         list_ex (\<lambda>be. \<not> be_pressed be \<and> be_type be = BT_gapAdjustCruise) (cs_buttonEvents CS) then
        (let s = (if \<not> ch_experimental_mode_switched (sdd_cruise_helper s) then
                    (let p = (cf_personality (sdd_config s) - 1) mod 3;
                         s = s\<lparr>sdd_config := (sdd_config s)\<lparr>cf_personality := p\<rparr>\<rparr>;
                         s = sdd_effect True (PutInt ''LongitudinalPersonality'' p) s
                     in sdd_add E [(True, EV_personalityChanged)] s)
                  else s)
         in s\<lparr>sdd_cruise_helper := (sdd_cruise_helper s)\<lparr>ch_experimental_mode_switched := False\<rparr>\<rparr>)
      else s)"

definition ue_initialized :: "env \<Rightarrow> sd_config \<Rightarrow> sm_in \<Rightarrow> car_state \<Rightarrow> sdd \<Rightarrow> sdd" where
  "ue_initialized E cfg i CS s =
     (let s = sdd_add E [(\<not> cp_pcmCruise (env_CP E) \<and> cs_vCruise CS > 250 \<and>
                          any_button [BT_accelCruise, BT_resumeCruise] CS, EV_resumeBlocked)] s;
          s = ue_driver_monitoring E i s;
          s = ue_car E cfg i CS s;
          s = ue_device E i s;
          s = ue_calibration E i s;
          s = ue_ldw E cfg i s;
          s = ue_excessive E i CS s;
          s = ue_lanes E i CS s;
          s = ue_pandas E i s;
          s = ue_system E i CS s;
          s = ue_localization E i s;
          s = ue_cruise_mismatch E CS s;
          s = ue_steering E i CS s;
          s = ue_fcw E i CS s;
          s = ue_gps E i CS s;
          s = sdd_add E [((\<not> env_SIMULATION E \<or> env_REPLAY E) \<and> in_frameDropPerc i > 1, EV_modeldLagging)] s;
          s = ue_mute_park E CS s;
          s = ue_cruise_helper E cfg i CS s;
          s = ue_personality E CS s
      in s\<lparr>sdd_icbm := icbm_run (env_hyst E) (env_CPSP E) CS (in_carControl i) (in_lpsp_vTarget i)
                        (cf_is_metric cfg) (sdd_icbm s)\<rparr>)"

definition update_events :: "env \<Rightarrow> sd_config \<Rightarrow> sm_in \<Rightarrow> car_state \<Rightarrow> sdd \<Rightarrow> sdd" where
  "update_events E cfg i CS s =
     (let s = ue_start E i s
      in if \<not> sdd_initialized s then sdd_add E [(True, EV_selfdriveInitializing)] s
         else
           (let s = sdd_add E [(in_userBookmark i, EV_userBookmark), (in_audioFeedback i, EV_audioFeedback)] s
            in if cp_passive (env_CP E) then s else ue_initialized E cfg i CS s))"

subsection \<open>step\<close>

text \<open>
  \<open>data_sample\<close>: the car state of this frame (the previous one when no message came) and the
  state after initialisation and the controls-allowed check. The camera streams that are
  missing at initialisation change what \<open>all_checks\<close> covers, which is part of the input.
\<close>

definition data_sample :: "env \<Rightarrow> sm_in \<Rightarrow> sdd \<Rightarrow> car_state \<times> sdd" where
  "data_sample E i s =
     (let CS = (case in_carState i of Some CS \<Rightarrow> CS | None \<Rightarrow> sdd_CS_prev s);
          s = (if \<not> sdd_initialized s \<and>
                  (cs_canValid CS \<and> in_all_checks i \<or> of_int (in_frame i) * DT_CTRL > 6 \<or>
                   env_SIMULATION E \<and> \<not> env_REPLAY E) then
                 (let s = (if env_REPLAY E \<and> list_ex ps_controlsAllowed (in_pandaStates i) then
                             sdd_map_shared (\<lambda>sh. sh\<lparr>sh_sm := (sh_sm sh)\<lparr>sm_state := OP_enabled\<rparr>\<rparr>) s
                           else s)
                  in s\<lparr>sdd_initialized := True\<rparr>)
               else s);
          s = (if \<not> sdd_enabled s then s\<lparr>sdd_mismatch_counter := 0\<rparr> else s);
          s = (if sdd_enabled s \<and>
                  list_ex (\<lambda>ps. \<not> ps_controlsAllowed ps) (filter (\<lambda>ps. \<not> panda_ignored ps) (in_pandaStates i))
               then s\<lparr>sdd_mismatch_counter := sdd_mismatch_counter s + 1\<rparr> else s)
      in (CS, s))"

definition LONGITUDINAL_PERSONALITY_MAP :: "int \<rightharpoonup> string" where
  "LONGITUDINAL_PERSONALITY_MAP = map_of [(0, ''aggressive''), (1, ''standard''), (2, ''relaxed'')]"

definition update_alerts :: "env \<Rightarrow> sd_config \<Rightarrow> sm_in \<Rightarrow> sdd \<Rightarrow> py_error + sdd" where
  "update_alerts E cfg i s =
     (let d = env_mici E; sm = sh_sm (sdd_shared s); ts = sm_current_alert_types sm;
          clear = (if ET_WARNING \<notin> set ts then {ET_WARNING} else {}) \<union>
                  (if sdd_enabled s then {ET_NO_ENTRY} else {})
      in case LONGITUDINAL_PERSONALITY_MAP (cf_personality cfg) of
           None \<Rightarrow> Inl KeyError
         | Some pers \<Rightarrow>
             (let args = (in_cbargs i)\<lparr>cb_metric := cf_is_metric cfg,
                            cb_soft_disable_time := sm_soft_disable_timer sm, cb_personality := pers\<rparr>
              in case create_alerts (EVENTS d) EVENT_NAME (sdd_events s) ts args of
                   Inl err \<Rightarrow> Inl err
                 | Inr alerts \<Rightarrow>
                     (case create_alerts (EVENTS_SP d) EVENT_NAME_SP (sh_events_sp (sdd_shared s)) ts args of
                        Inl err \<Rightarrow> Inl err
                      | Inr alerts_sp \<Rightarrow>
                          Inr (s\<lparr>sdd_AM := am_process_alerts (in_frame i) clear
                                 (am_add_many (in_frame i) (alerts @ alerts_sp) (sdd_AM s))\<rparr>))))"

text \<open>The fields of the published \<open>selfdriveState\<close> and \<open>selfdriveStateSP\<close> messages.\<close>

record selfdrive_state_msg =
  ss_enabled :: bool
  ss_active :: bool
  ss_state :: op_state
  ss_engageable :: bool
  ss_experimentalMode :: bool
  ss_personality :: int
  ss_alert :: alert
  ss_mads_state :: mads_state
  ss_mads_enabled :: bool
  ss_mads_active :: bool
  ss_mads_available :: bool
  ss_icbm_state :: icbm_state
  ss_icbm_sendButton :: send_button
  ss_icbm_vTarget :: int
  ss_activeLongitudinalMode :: longitudinal_mode

definition publish_selfdriveState :: "sd_config \<Rightarrow> sdd \<Rightarrow> selfdrive_state_msg" where
  "publish_selfdriveState cfg s =
     \<lparr>ss_enabled = sdd_enabled s, ss_active = sdd_active s, ss_state = sm_state (sh_sm (sdd_shared s)),
      ss_engageable = (\<not> ev_contains (sdd_events s) ET_NO_ENTRY),
      ss_experimentalMode = cf_experimental_mode cfg, ss_personality = cf_personality cfg,
      ss_alert = am_current_alert (sdd_AM s),
      ss_mads_state = md_state (sdd_mads s), ss_mads_enabled = md_enabled (sdd_mads s),
      ss_mads_active = md_active (sdd_mads s), ss_mads_available = md_enabled_toggle (sdd_mads s),
      ss_icbm_state = ib_state (sdd_icbm s), ss_icbm_sendButton = ib_cruise_button (sdd_icbm s),
      ss_icbm_vTarget = ib_v_target (sdd_icbm s), ss_activeLongitudinalMode = sdd_active_mode s\<rparr>"

text \<open>The part of \<open>step\<close> that decides engagement, up to the alerts.\<close>

definition step_main_machine :: "env \<Rightarrow> sdd \<Rightarrow> sdd" where
  "step_main_machine E s =
     (if \<not> cp_passive (env_CP E) \<and> sdd_initialized s then
        (let sh = sdd_shared s;
             (sm, enabled, active) = sd_update (sh_sm sh) (sm_events_contains (sh_events sh) (sh_events_sp sh))
         in s\<lparr>sdd_shared := sh\<lparr>sh_sm := sm, sh_enabled := enabled\<rparr>, sdd_active := active\<rparr>)
      else s)"

definition step_mads :: "env \<Rightarrow> sm_in \<Rightarrow> car_state \<Rightarrow> sdd \<Rightarrow> sdd" where
  "step_mads E i CS s =
     (if \<not> cp_notCar (env_CP E) then
        (let (m, sh) = mads_update (env_mici E) (env_CP E) (sdd_initialized s) (in_pandaStates i)
                         CS (sdd_CS_prev s) (sdd_mads s) (sdd_shared s)
         in s\<lparr>sdd_mads := m, sdd_shared := sh\<rparr>)
      else s)"

definition step_controls :: "env \<Rightarrow> sm_in \<Rightarrow> sdd \<Rightarrow> car_state \<times> sdd" where
  "step_controls E i s =
     (let cfg = sdd_config s;
          (CS, s) = data_sample E i s;
          s = update_events E cfg i CS s;
          s = step_main_machine E s;
          s = (if \<not> sdd_enabled s then s\<lparr>sdd_active_mode := cf_custom_longitudinal_mode (sdd_config s)\<rparr> else s)
      in (CS, step_mads E i CS s))"

definition sdd_step :: "env \<Rightarrow> sm_in \<Rightarrow> sdd \<Rightarrow> py_error + (sdd \<times> selfdrive_state_msg)" where
  "sdd_step E i s =
     (let (CS, s) = step_controls E i s
      in case update_alerts E (sdd_config s) i s of
           Inl err \<Rightarrow> Inl err
         | Inr s \<Rightarrow> Inr (s\<lparr>sdd_CS_prev := CS\<rparr>, publish_selfdriveState (sdd_config s) s))"

text \<open>One pass of the parameter thread, with the stored parameters it reads.\<close>

record sd_params =
  pr_IsMetric :: bool
  pr_IsLdwEnabled :: bool
  pr_DisengageOnAccelerator :: bool
  pr_CustomLongitudinalEnabled :: bool
  pr_CustomLongitudinalMode :: longitudinal_mode  \<comment> \<open>after \<open>LongitudinalMode.from_value\<close>\<close>
  pr_ExperimentalMode :: bool
  pr_LongitudinalPersonality :: int
  pr_mads :: mads_params

definition params_thread_step :: "env \<Rightarrow> sd_params \<Rightarrow> sdd \<Rightarrow> sdd" where
  "params_thread_step E p s =
     (let op_long = cp_openpilotLongitudinalControl (env_CP E);
          experimental =
            (if pr_CustomLongitudinalEnabled p then op_long \<and> sdd_active_mode s = LM_E2E
             else pr_ExperimentalMode p \<and> op_long)
      in s\<lparr>sdd_config :=
             \<lparr>cf_is_metric = pr_IsMetric p, cf_is_ldw_enabled = pr_IsLdwEnabled p,
              cf_disengage_on_accelerator = pr_DisengageOnAccelerator p,
              cf_custom_longitudinal_enabled = pr_CustomLongitudinalEnabled p,
              cf_custom_longitudinal_mode = pr_CustomLongitudinalMode p,
              cf_experimental_mode = experimental, cf_personality = pr_LongitudinalPersonality p\<rparr>,
           sdd_mads := mads_read_params (pr_mads p) (sdd_mads s)\<rparr>)"

subsection \<open>What a step of update_events changes\<close>

text \<open>
  The frame relation of the event computation: stores stay well-formed, main events only come
  in, apart from the removal of events of \<open>R\<close>, and the state machine, the flags and MADS are
  untouched.
\<close>

definition sdd_wf :: "env \<Rightarrow> sdd \<Rightarrow> bool" where
  "sdd_wf E s \<longleftrightarrow> sh_wf (env_mici E) (sdd_shared s)"

definition UE_REMOVED :: "int set" where
  "UE_REMOVED = {EV_canBusMissing, EV_belowSteerSpeed, EV_resumeRequired}"

definition ue_le :: "env \<Rightarrow> int set \<Rightarrow> sdd \<Rightarrow> sdd \<Rightarrow> bool" where
  "ue_le E R s s' \<longleftrightarrow>
     (sdd_wf E s \<longrightarrow>
       sdd_wf E s' \<and>
       (\<forall>e. e \<notin> R \<longrightarrow> ev_has (sdd_events s) e \<longrightarrow> ev_has (sdd_events s') e) \<and>
       sh_sm (sdd_shared s') = sh_sm (sdd_shared s) \<and>
       sh_enabled (sdd_shared s') = sh_enabled (sdd_shared s) \<and>
       sh_enabled_prev (sdd_shared s') = sh_enabled_prev (sdd_shared s) \<and>
       sdd_mads s' = sdd_mads s \<and> sdd_initialized s' = sdd_initialized s \<and>
       sdd_CS_prev s' = sdd_CS_prev s \<and> sdd_active_mode s' = sdd_active_mode s \<and>
       sdd_mismatch_counter s' = sdd_mismatch_counter s \<and>
       (sdd_excessive_actuation s \<longrightarrow> sdd_excessive_actuation s'))"

named_theorems ue_intros \<open>rules that carry ue_le over one more step\<close>

lemma ue_le_refl: "ue_le E R s s"
  by (simp add: ue_le_def)

lemma ue_le_trans: "ue_le E R s1 s2 \<Longrightarrow> ue_le E R s2 s3 \<Longrightarrow> ue_le E R s1 s3"
  unfolding ue_le_def by auto

lemma ue_leD:
  assumes "ue_le E R s s'" "sdd_wf E s"
  shows "sdd_wf E s'" "e \<notin> R \<Longrightarrow> ev_has (sdd_events s) e \<Longrightarrow> ev_has (sdd_events s') e"
    "sh_sm (sdd_shared s') = sh_sm (sdd_shared s)" "sdd_enabled s' = sdd_enabled s"
    "sdd_mads s' = sdd_mads s" "sdd_initialized s' = sdd_initialized s" "sdd_CS_prev s' = sdd_CS_prev s"
    "sdd_active_mode s' = sdd_active_mode s" "sdd_mismatch_counter s' = sdd_mismatch_counter s"
    "sdd_excessive_actuation s \<Longrightarrow> sdd_excessive_actuation s'"
  using assms by (auto simp: ue_le_def sdd_enabled_def)

text \<open>Updating fields that \<open>ue_le\<close> does not mention.\<close>

lemma ue_le_upd [ue_intros]:
  "ue_le E R s0 s \<Longrightarrow> ue_le E R s0 (s\<lparr>sdd_not_running := x1\<rparr>)"
  "ue_le E R s0 s \<Longrightarrow> ue_le E R s0 (s\<lparr>sdd_startup_event := x2\<rparr>)"
  "ue_le E R s0 s \<Longrightarrow> ue_le E R s0 (s\<lparr>sdd_dm_lockout_set := x3\<rparr>)"
  "ue_le E R s0 s \<Longrightarrow> ue_le E R s0 (s\<lparr>sdd_dm_uncertain_alerted := x3\<rparr>)"
  "ue_le E R s0 s \<Longrightarrow> ue_le E R s0 (s\<lparr>sdd_car_events := x4\<rparr>)"
  "ue_le E R s0 s \<Longrightarrow> ue_le E R s0 (s\<lparr>sdd_car_events_sp := x3\<rparr>)"
  "ue_le E R s0 s \<Longrightarrow> ue_le E R s0 (s\<lparr>sdd_last_functional_fan_frame := x5\<rparr>)"
  "ue_le E R s0 s \<Longrightarrow> ue_le E R s0 (s\<lparr>sdd_recalibrating_seen := x3\<rparr>)"
  "ue_le E R s0 s \<Longrightarrow> ue_le E R s0 (s\<lparr>sdd_calibrated_pose := x6\<rparr>)"
  "ue_le E R s0 s \<Longrightarrow> ue_le E R s0 (s\<lparr>sdd_excessive_check := x7\<rparr>)"
  "ue_le E R s0 s \<Longrightarrow> ue_le E R s0 (s\<lparr>sdd_excessive_actuation := True\<rparr>)"
  "ue_le E R s0 s \<Longrightarrow> ue_le E R s0 (s\<lparr>sdd_cruise_mismatch_counter := x5\<rparr>)"
  "ue_le E R s0 s \<Longrightarrow> ue_le E R s0 (s\<lparr>sdd_last_steering_pressed_frame := x5\<rparr>)"
  "ue_le E R s0 s \<Longrightarrow> ue_le E R s0 (s\<lparr>sdd_distance_traveled := x8\<rparr>)"
  "ue_le E R s0 s \<Longrightarrow> ue_le E R s0 (s\<lparr>sdd_cruise_helper := x9\<rparr>)"
  "ue_le E R s0 s \<Longrightarrow> ue_le E R s0 (s\<lparr>sdd_config := x10\<rparr>)"
  "ue_le E R s0 s \<Longrightarrow> ue_le E R s0 (s\<lparr>sdd_icbm := x11\<rparr>)"
  "ue_le E R s0 s \<Longrightarrow> ue_le E R s0 (s\<lparr>sdd_effects := x12\<rparr>)"
  by (simp_all add: ue_le_def sdd_wf_def sdd_events_def)

lemma ue_le_effect [ue_intros]: "ue_le E R s0 s \<Longrightarrow> ue_le E R s0 (sdd_effect b e s)"
  by (simp add: sdd_effect_def ue_le_upd)

lemma ue_le_map_events:
  assumes "ue_le E R s0 s"
    and "\<And>ev. ev_wf (EVENTS (env_mici E)) ev \<Longrightarrow> ev_wf (EVENTS (env_mici E)) (f ev)"
    and "\<And>ev e. ev_wf (EVENTS (env_mici E)) ev \<Longrightarrow> e \<notin> R \<Longrightarrow> ev_has ev e \<Longrightarrow> ev_has (f ev) e"
  shows "ue_le E R s0 (sdd_map_events f s)"
  using assms(1) by (rule ue_le_trans)
    (use assms(2,3) in \<open>auto simp: ue_le_def sdd_wf_def sh_wf_def sdd_events_def sdd_map_events_def
      sdd_map_shared_def\<close>)

lemma ue_le_map_events_sp:
  assumes "ue_le E R s0 s"
    and "\<And>ev. ev_wf (EVENTS_SP (env_mici E)) ev \<Longrightarrow> ev_wf (EVENTS_SP (env_mici E)) (f ev)"
  shows "ue_le E R s0 (sdd_map_events_sp f s)"
  using assms(1) by (rule ue_le_trans)
    (use assms(2) in \<open>auto simp: ue_le_def sdd_wf_def sh_wf_def sdd_events_def sdd_map_events_sp_def
      sdd_map_shared_def\<close>)

lemma ue_le_add [ue_intros]: "ue_le E R s0 s \<Longrightarrow> ue_le E R s0 (sdd_add E xs s)"
  unfolding sdd_add_def by (rule ue_le_map_events) (auto simp: ev.add_all_wf ev.add_all_has)

lemma ue_le_add_sp [ue_intros]: "ue_le E R s0 s \<Longrightarrow> ue_le E R s0 (sdd_add_sp E xs s)"
  unfolding sdd_add_sp_def by (rule ue_le_map_events_sp) (auto simp: sp.add_all_wf)

lemma ue_le_if [ue_intros]:
  "(b \<Longrightarrow> ue_le E R s0 s1) \<Longrightarrow> (\<not> b \<Longrightarrow> ue_le E R s0 s2) \<Longrightarrow> ue_le E R s0 (if b then s1 else s2)"
  by simp

lemma ue_le_case_option [ue_intros]:
  "(x = None \<Longrightarrow> ue_le E R s0 a) \<Longrightarrow> (\<And>e. x = Some e \<Longrightarrow> ue_le E R s0 (f e)) \<Longrightarrow>
   ue_le E R s0 (case x of None \<Rightarrow> a | Some e \<Rightarrow> f e)"
  by (cases x) simp_all

text \<open>Each section of \<open>update_events\<close> after the start keeps the frame relation.\<close>

lemma ue_le_driver_monitoring [ue_intros]:
  "ue_le E R s0 s \<Longrightarrow> ue_le E R s0 (ue_driver_monitoring E i s)"
  unfolding ue_driver_monitoring_def Let_def
  by (intro ue_intros ue_le_map_events_sp) (use sp.add_from_msg_refines in auto)

lemma ue_le_car_sp_update:
  assumes "ue_le E R s0 s" "{EV_belowSteerSpeed, EV_resumeRequired} \<subseteq> R"
    and "car_specific_sp_update (env_mici E) CP CPSP CS (sdd_events s) low = (low', ev, cesp)"
  shows "ue_le E R s0 (sdd_map_events (\<lambda>_. ev) s)" "ev_wf (EVENTS_SP (env_mici E)) cesp"
proof -
  let ?M = "EVENTS (env_mici E)"
  have "ev_wf ?M ev \<and> (\<forall>e. e \<noteq> EV_belowSteerSpeed \<and> e \<noteq> EV_resumeRequired \<longrightarrow>
      ev_has (sdd_events s) e \<longrightarrow> ev_has ev e)"
    if "ev_wf ?M (sdd_events s)"
    using assms(3) that
    by (auto simp: car_specific_sp_update_def Let_def ev.invar_add ev.invar_remove
        ev.has_add ev.has_remove split: if_splits)
  then have "ev_wf ?M ev \<and> (\<forall>e. e \<notin> R \<longrightarrow> ev_has (sdd_events s) e \<longrightarrow> ev_has ev e)"
    if "ev_wf ?M (sdd_events s)"
    using assms(2) that by blast
  then have "ue_le E R s (sdd_map_events (\<lambda>_. ev) s)"
    by (auto simp: ue_le_def sdd_wf_def sh_wf_def sdd_events_def sdd_map_events_def sdd_map_shared_def)
  with assms(1) show "ue_le E R s0 (sdd_map_events (\<lambda>_. ev) s)" by (rule ue_le_trans)
  show "ev_wf (EVENTS_SP (env_mici E)) cesp"
    using assms(3) by (auto simp: car_specific_sp_update_def Let_def split: if_splits prod.splits)
qed

lemma ue_le_add_from_msg:
  "ue_le E R s0 s \<Longrightarrow> ue_le E R s0 (sdd_map_events (\<lambda>ev. ev_add_from_msg (EVENTS (env_mici E)) ev ms) s)"
proof (rule ue_le_map_events)
  fix ev e assume "ev_wf (EVENTS (env_mici E)) ev" "ev_has ev e"
  then show "ev_has (ev_add_from_msg (EVENTS (env_mici E)) ev ms) e"
    by (simp add: ev.add_from_msg_has)
qed (use ev.add_from_msg_refines in auto)

lemma ue_le_add_from_msg_sp:
  "ue_le E R s0 s \<Longrightarrow> ue_le E R s0 (sdd_map_events_sp (\<lambda>ev. ev_add_from_msg (EVENTS_SP (env_mici E)) ev ms) s)"
  by (rule ue_le_map_events_sp) (use sp.add_from_msg_refines in auto)

lemma ue_le_car [ue_intros]:
  assumes "ue_le E R s0 s" "{EV_belowSteerSpeed, EV_resumeRequired} \<subseteq> R"
  shows "ue_le E R s0 (ue_car E cfg i CS s)"
proof -
  let ?d = "env_mici E"
  obtain c cev where c: "car_specific_update ?d (env_CP E) CS (sdd_CS_prev s) (in_carControl i)
    (sdd_car_events s) = (c, cev)" by force
  define s1 where "s1 = sdd_map_events (\<lambda>ev. ev_add_from_msg (EVENTS ?d) ev (ev_to_msg (EVENTS ?d) cev))
    (s\<lparr>sdd_car_events := c\<rparr>)"
  obtain low ev cesp where sp: "car_specific_sp_update ?d (env_CP E) (env_CPSP E) CS (sdd_events s1)
    (sdd_car_events_sp s1) = (low, ev, cesp)" by (metis prod_cases3)
  have "ue_le E R s0 s1" unfolding s1_def by (intro ue_le_add_from_msg ue_intros assms(1))
  note s2 = ue_le_car_sp_update [OF this assms(2) sp]
  show ?thesis
    unfolding ue_car_def Let_def c prod.case s1_def [symmetric] sp
    by (intro ue_intros ue_le_add_from_msg_sp s2 assms(1))
qed

lemma ue_le_device [ue_intros]: "ue_le E R s0 s \<Longrightarrow> ue_le E R s0 (ue_device E i s)"
  unfolding ue_device_def Let_def by (intro ue_intros)

lemma ue_le_calibration [ue_intros]: "ue_le E R s0 s \<Longrightarrow> ue_le E R s0 (ue_calibration E i s)"
  unfolding ue_calibration_def by (cases "in_calStatus i") (simp_all add: ue_intros)

lemma ue_le_ldw [ue_intros]: "ue_le E R s0 s \<Longrightarrow> ue_le E R s0 (ue_ldw E cfg i s)"
  unfolding ue_ldw_def by (intro ue_intros)

lemma ue_le_excessive [ue_intros]: "ue_le E R s0 s \<Longrightarrow> ue_le E R s0 (ue_excessive E i CS s)"
  unfolding ue_excessive_def Let_def
  by (intro ue_intros) (auto intro!: ue_intros split: option.split prod.split)

lemma ue_le_lanes [ue_intros]: "ue_le E R s0 s \<Longrightarrow> ue_le E R s0 (ue_lanes E i CS s)"
  unfolding ue_lanes_def Let_def by (intro ue_intros)

lemma ue_le_pandas [ue_intros]: "ue_le E R s0 s \<Longrightarrow> ue_le E R s0 (ue_pandas E i s)"
  unfolding ue_pandas_def by (intro ue_intros)

lemma ue_le_system [ue_intros]: "ue_le E R s0 s \<Longrightarrow> ue_le E R s0 (ue_system E i CS s)"
  unfolding ue_system_def Let_def by (intro ue_intros)

lemma ue_le_localization [ue_intros]: "ue_le E R s0 s \<Longrightarrow> ue_le E R s0 (ue_localization E i s)"
  unfolding ue_localization_def Let_def by (intro ue_intros)

lemma ue_le_cruise_mismatch [ue_intros]: "ue_le E R s0 s \<Longrightarrow> ue_le E R s0 (ue_cruise_mismatch E CS s)"
  unfolding ue_cruise_mismatch_def Let_def by (intro ue_intros)

lemma ue_le_steering [ue_intros]: "ue_le E R s0 s \<Longrightarrow> ue_le E R s0 (ue_steering E i CS s)"
  unfolding ue_steering_def Let_def by (intro ue_intros)

lemma ue_le_fcw [ue_intros]: "ue_le E R s0 s \<Longrightarrow> ue_le E R s0 (ue_fcw E i CS s)"
  unfolding ue_fcw_def Let_def by (intro ue_intros)

lemma ue_le_gps [ue_intros]: "ue_le E R s0 s \<Longrightarrow> ue_le E R s0 (ue_gps E i CS s)"
  unfolding ue_gps_def Let_def by (intro ue_intros)

lemma ue_le_mute_park [ue_intros]:
  "ue_le E R s0 s \<Longrightarrow> (cs_gearShifter CS = GS_park \<Longrightarrow> EV_canBusMissing \<in> R) \<Longrightarrow>
   ue_le E R s0 (ue_mute_park E CS s)"
  unfolding ue_mute_park_def
  by (intro ue_intros ue_le_map_events) (simp_all add: ev.invar_remove, metis ev.has_remove)

lemma ue_le_cruise_helper [ue_intros]:
  assumes "ue_le E R s0 s"
  shows "ue_le E R s0 (ue_cruise_helper E cfg i CS s)"
proof -
  obtain h esp w where c: "cruise_helper_update (env_mici E) (env_CP E) (in_param_CustomLongitudinalEnabled i)
    CS (sh_events_sp (sdd_shared s)) (cf_experimental_mode cfg) (sdd_cruise_helper s) = (h, esp, w)"
    by (metis prod_cases3)
  have "ev_wf (EVENTS_SP (env_mici E)) esp" if "ev_wf (EVENTS_SP (env_mici E)) (sh_events_sp (sdd_shared s))"
    using c that by (auto simp: cruise_helper_update_def update_experimental_mode_def sp.invar_add
        split: if_splits)
  then have "ue_le E R s (sdd_map_events_sp (\<lambda>_. esp) s)"
    by (auto simp: ue_le_def sdd_wf_def sh_wf_def sdd_events_def sdd_map_events_sp_def sdd_map_shared_def)
  with assms have "ue_le E R s0 (sdd_map_events_sp (\<lambda>_. esp) s)" by (rule ue_le_trans)
  then show ?thesis
    by (auto simp: ue_cruise_helper_def c Let_def intro: ue_intros split: option.split)
qed

lemma ue_le_personality [ue_intros]: "ue_le E R s0 s \<Longrightarrow> ue_le E R s0 (ue_personality E CS s)"
  unfolding ue_personality_def Let_def by (intro ue_intros)

lemma ue_le_initialized: "ue_le E UE_REMOVED s (ue_initialized E cfg i CS s)"
  unfolding ue_initialized_def Let_def
  by (intro ue_intros ue_le_refl) (simp_all add: UE_REMOVED_def)

lemma ue_le_mono: "ue_le E R s s' \<Longrightarrow> R \<subseteq> R' \<Longrightarrow> ue_le E R' s s'"
  by (auto simp: ue_le_def)

lemma ue_le_start: "ue_le E UNIV s (ue_start E i s)"
proof -
  have clear: "ue_le E UNIV s0 (sdd_map_events ev_clear s)" "ue_le E UNIV s0 (sdd_map_events_sp ev_clear s)"
    if "ue_le E UNIV s0 s" for s0 s
    using that by (auto intro!: ue_le_map_events ue_le_map_events_sp ev.clear_wf sp.clear_wf)
  show ?thesis
    unfolding ue_start_def Let_def by (intro ue_intros clear ue_le_refl)
qed

lemma ue_le_update_events: "ue_le E UNIV s (update_events E cfg i CS s)"
  unfolding update_events_def Let_def
  by (intro ue_intros ue_le_start ue_le_trans [OF _ ue_le_mono [OF ue_le_initialized]]) simp

lemma sdd_add_has:
  "sdd_wf E s \<Longrightarrow> ev_has (sdd_events (sdd_add E xs s)) e \<longleftrightarrow> ev_has (sdd_events s) e \<or> (True, e) \<in> set xs"
  by (simp add: sdd_wf_def sh_wf_def sdd_events_def sdd_add_def sdd_map_events_def sdd_map_shared_def
      ev.add_all_has)

text \<open>\<open>update_events\<close> once initialised and not passive.\<close>

lemma update_events_initialized:
  assumes "sdd_wf E s" "sdd_initialized s" "\<not> cp_passive (env_CP E)"
  obtains s1 where "update_events E cfg i CS s = ue_initialized E cfg i CS s1" "ue_le E UNIV s s1"
    "sdd_excessive_actuation s1 = sdd_excessive_actuation s"
proof
  let ?s1 = "sdd_add E [(in_userBookmark i, EV_userBookmark), (in_audioFeedback i, EV_audioFeedback)]
    (ue_start E i s)"
  have "sdd_initialized (ue_start E i s)" using ue_leD(6) [OF ue_le_start assms(1)] assms(2) by simp
  then show "update_events E cfg i CS s = ue_initialized E cfg i CS ?s1"
    using assms(3) by (simp add: update_events_def Let_def)
  show "ue_le E UNIV s ?s1" by (intro ue_intros ue_le_start)
  show "sdd_excessive_actuation ?s1 = sdd_excessive_actuation s"
    by (simp add: ue_start_def Let_def sdd_add_def sdd_map_events_def sdd_map_events_sp_def
        sdd_map_shared_def split: option.split)
qed

text \<open>The sections of an initialised frame around the car events and around the panda checks.\<close>

definition ue_before_car :: "env \<Rightarrow> sm_in \<Rightarrow> car_state \<Rightarrow> sdd \<Rightarrow> sdd" where
  "ue_before_car E i CS s =
     ue_driver_monitoring E i
       (sdd_add E [(\<not> cp_pcmCruise (env_CP E) \<and> cs_vCruise CS > 250 \<and>
                    any_button [BT_accelCruise, BT_resumeCruise] CS, EV_resumeBlocked)] s)"

definition ue_middle :: "env \<Rightarrow> sd_config \<Rightarrow> sm_in \<Rightarrow> car_state \<Rightarrow> sdd \<Rightarrow> sdd" where
  "ue_middle E cfg i CS s =
     ue_lanes E i CS (ue_excessive E i CS (ue_ldw E cfg i (ue_calibration E i (ue_device E i s))))"

definition ue_tail :: "env \<Rightarrow> sd_config \<Rightarrow> sm_in \<Rightarrow> car_state \<Rightarrow> sdd \<Rightarrow> sdd" where
  "ue_tail E cfg i CS s =
     (let s = ue_localization E i s;
          s = ue_cruise_mismatch E CS s;
          s = ue_steering E i CS s;
          s = ue_fcw E i CS s;
          s = ue_gps E i CS s;
          s = sdd_add E [((\<not> env_SIMULATION E \<or> env_REPLAY E) \<and> in_frameDropPerc i > 1, EV_modeldLagging)] s;
          s = ue_mute_park E CS s;
          s = ue_cruise_helper E cfg i CS s;
          s = ue_personality E CS s
      in s\<lparr>sdd_icbm := icbm_run (env_hyst E) (env_CPSP E) CS (in_carControl i) (in_lpsp_vTarget i)
                        (cf_is_metric cfg) (sdd_icbm s)\<rparr>)"

lemma ue_initialized_split:
  "ue_initialized E cfg i CS s =
     ue_tail E cfg i CS (ue_system E i CS (ue_pandas E i (ue_middle E cfg i CS
       (ue_car E cfg i CS (ue_before_car E i CS s)))))"
  by (simp add: ue_initialized_def ue_tail_def ue_middle_def ue_before_car_def Let_def)

lemma ue_le_before_car [ue_intros]: "ue_le E R s0 s \<Longrightarrow> ue_le E R s0 (ue_before_car E i CS s)"
  unfolding ue_before_car_def by (intro ue_intros)

lemma ue_le_middle [ue_intros]: "ue_le E R s0 s \<Longrightarrow> ue_le E R s0 (ue_middle E cfg i CS s)"
  unfolding ue_middle_def by (intro ue_intros)

lemma ue_le_tail [ue_intros]:
  "ue_le E R s0 s \<Longrightarrow> (cs_gearShifter CS = GS_park \<Longrightarrow> EV_canBusMissing \<in> R) \<Longrightarrow>
   ue_le E R s0 (ue_tail E cfg i CS s)"
  unfolding ue_tail_def Let_def by (intro ue_intros)

lemma ue_car_pedal:
  assumes "sdd_wf E s" "cs_canValid CS" "pedal_event CS (sdd_CS_prev s) (cf_disengage_on_accelerator cfg)"
  shows "ev_has (sdd_events (ue_car E cfg i CS s)) EV_pedalPressed"
proof -
  let ?d = "env_mici E" and ?R = "{EV_belowSteerSpeed, EV_resumeRequired}"
  obtain c cev where c: "car_specific_update ?d (env_CP E) CS (sdd_CS_prev s) (in_carControl i)
    (sdd_car_events s) = (c, cev)" by force
  define s1 where "s1 = sdd_map_events (\<lambda>ev. ev_add_from_msg (EVENTS ?d) ev (ev_to_msg (EVENTS ?d) cev))
    (s\<lparr>sdd_car_events := c\<rparr>)"
  obtain low ev cesp where sp: "car_specific_sp_update ?d (env_CP E) (env_CPSP E) CS (sdd_events s1)
    (sdd_car_events_sp s1) = (low, ev, cesp)" by (metis prod_cases3)
  define s2 where "s2 = sdd_map_events_sp (\<lambda>ev. ev_add_from_msg (EVENTS_SP ?d) ev (ev_to_msg (EVENTS_SP ?d) cesp))
    ((sdd_map_events (\<lambda>_. ev) s1)\<lparr>sdd_car_events_sp := low\<rparr>)"
  have "ue_le E ?R s s1" unfolding s1_def by (intro ue_le_add_from_msg ue_intros ue_le_refl)
  then have "ue_le E ?R s s2"
    unfolding s2_def by (intro ue_le_add_from_msg_sp ue_intros ue_le_car_sp_update(1) [OF _ _ sp] order_refl)
  note s2 = ue_leD(1,7) [OF this assms(1)]
  show ?thesis
    using assms(2,3) s2
    by (simp add: ue_car_def Let_def c sp sdd_add_has flip: s1_def) (simp add: s2_def sdd_add_has)
qed

subsection \<open>One step\<close>

lemma ev_types [simp]:
  "types_of (EVENTS d) EV_pedalPressed = [ET_USER_DISABLE, ET_NO_ENTRY]"
  "types_of (EVENTS d) EV_controlsMismatch = [ET_IMMEDIATE_DISABLE, ET_NO_ENTRY]"
  "types_of (EVENTS d) EV_excessiveActuation = [ET_SOFT_DISABLE, ET_NO_ENTRY]"
  "types_of (EVENTS d) EV_commIssue = [ET_SOFT_DISABLE, ET_NO_ENTRY]"
  "types_of (EVENTS d) EV_commIssueAvgFreq = [ET_SOFT_DISABLE, ET_NO_ENTRY]"
  "types_of (EVENTS d) EV_tooDistracted = [ET_NO_ENTRY]"
  by (rule event_types_by; code_simp)+

abbreviation sample_CS :: "sm_in \<Rightarrow> sdd \<Rightarrow> car_state" where
  "sample_CS i s \<equiv> (case in_carState i of Some CS \<Rightarrow> CS | None \<Rightarrow> sdd_CS_prev s)"

text \<open>\<open>data_sample\<close>: initialisation, then the mismatch counter.\<close>

definition sample_init :: "env \<Rightarrow> sm_in \<Rightarrow> sdd \<Rightarrow> sdd" where
  "sample_init E i s =
     (if \<not> sdd_initialized s \<and>
         (cs_canValid (sample_CS i s) \<and> in_all_checks i \<or> of_int (in_frame i) * DT_CTRL > 6 \<or>
          env_SIMULATION E \<and> \<not> env_REPLAY E) then
        (let s = (if env_REPLAY E \<and> list_ex ps_controlsAllowed (in_pandaStates i) then
                    sdd_map_shared (\<lambda>sh. sh\<lparr>sh_sm := (sh_sm sh)\<lparr>sm_state := OP_enabled\<rparr>\<rparr>) s
                  else s)
         in s\<lparr>sdd_initialized := True\<rparr>)
      else s)"

definition sample_mismatch :: "sm_in \<Rightarrow> sdd \<Rightarrow> sdd" where
  "sample_mismatch i s =
     (let s = (if \<not> sdd_enabled s then s\<lparr>sdd_mismatch_counter := 0\<rparr> else s)
      in if sdd_enabled s \<and>
            list_ex (\<lambda>ps. \<not> ps_controlsAllowed ps) (filter (\<lambda>ps. \<not> panda_ignored ps) (in_pandaStates i))
         then s\<lparr>sdd_mismatch_counter := sdd_mismatch_counter s + 1\<rparr> else s)"

lemma data_sample_split: "data_sample E i s = (sample_CS i s, sample_mismatch i (sample_init E i s))"
  by (simp add: data_sample_def sample_init_def sample_mismatch_def Let_def)

lemma sample_init_keeps [simp]:
  "sdd_wf E (sample_init E i s) = sdd_wf E s" "sdd_enabled (sample_init E i s) = sdd_enabled s"
  "sdd_mads (sample_init E i s) = sdd_mads s" "sdd_CS_prev (sample_init E i s) = sdd_CS_prev s"
  "sdd_active_mode (sample_init E i s) = sdd_active_mode s"
  "sdd_excessive_actuation (sample_init E i s) = sdd_excessive_actuation s"
  "sdd_mismatch_counter (sample_init E i s) = sdd_mismatch_counter s"
  "sdd_initialized s \<Longrightarrow> sample_init E i s = s"
  by (simp_all add: sample_init_def Let_def sdd_wf_def sh_wf_def sdd_enabled_def sdd_map_shared_def)

lemma sample_mismatch_keeps [simp]:
  "sdd_shared (sample_mismatch i s) = sdd_shared s" "sdd_initialized (sample_mismatch i s) = sdd_initialized s"
  "sdd_mads (sample_mismatch i s) = sdd_mads s" "sdd_CS_prev (sample_mismatch i s) = sdd_CS_prev s"
  "sdd_active_mode (sample_mismatch i s) = sdd_active_mode s"
  "sdd_excessive_actuation (sample_mismatch i s) = sdd_excessive_actuation s"
  by (simp_all add: sample_mismatch_def Let_def)

lemma data_sample_keeps:
  assumes "data_sample E i s = (CS, s1)"
  shows "CS = sample_CS i s" "sdd_wf E s1 = sdd_wf E s" "sdd_enabled s1 = sdd_enabled s"
    "sdd_mads s1 = sdd_mads s" "sdd_CS_prev s1 = sdd_CS_prev s" "sdd_active_mode s1 = sdd_active_mode s"
    "sdd_excessive_actuation s1 = sdd_excessive_actuation s"
    "sdd_initialized s \<Longrightarrow> sdd_initialized s1 \<and> sdd_shared s1 = sdd_shared s"
proof -
  have s1: "CS = sample_CS i s" "s1 = sample_mismatch i (sample_init E i s)"
    using assms by (simp_all add: data_sample_split)
  have "sdd_wf E (sample_mismatch i t) = sdd_wf E t" "sdd_enabled (sample_mismatch i t) = sdd_enabled t" for t
    by (simp_all add: sdd_wf_def sdd_enabled_def)
  with s1 show "CS = sample_CS i s" "sdd_wf E s1 = sdd_wf E s" "sdd_enabled s1 = sdd_enabled s"
    "sdd_mads s1 = sdd_mads s" "sdd_CS_prev s1 = sdd_CS_prev s" "sdd_active_mode s1 = sdd_active_mode s"
    "sdd_excessive_actuation s1 = sdd_excessive_actuation s"
    "sdd_initialized s \<Longrightarrow> sdd_initialized s1 \<and> sdd_shared s1 = sdd_shared s" by simp_all
qed

lemma data_sample_mismatch:
  assumes "sdd_enabled s" "ps \<in> set (in_pandaStates i)" "\<not> panda_ignored ps" "\<not> ps_controlsAllowed ps"
  shows "sdd_mismatch_counter (snd (data_sample E i s)) = sdd_mismatch_counter s + 1"
proof -
  have "list_ex (\<lambda>ps. \<not> ps_controlsAllowed ps) (filter (\<lambda>ps. \<not> panda_ignored ps) (in_pandaStates i))"
    using assms by (auto simp: list_ex_iff)
  then show ?thesis using assms(1) by (simp add: data_sample_split sample_mismatch_def)
qed

text \<open>After the main machine, \<open>enabled\<close> says that its state is not disabled.\<close>

lemma step_main_machine_enabled:
  assumes "\<not> cp_passive (env_CP E)" "sdd_initialized s"
  shows "sdd_enabled (step_main_machine E s) \<longleftrightarrow>
    sm_state (sd_step (sh_sm (sdd_shared s))
      (sm_events_contains (sdd_events s) (sh_events_sp (sdd_shared s)))) \<noteq> OP_disabled"
  using assms by (simp add: step_main_machine_def Let_def case_prod_beta sd_update_flags sdd_enabled_def sdd_events_def)

lemma step_main_machine_keeps [simp]:
  "sdd_mads (step_main_machine E s) = sdd_mads s" "sdd_CS_prev (step_main_machine E s) = sdd_CS_prev s"
  "sdd_initialized (step_main_machine E s) = sdd_initialized s"
  "sdd_active_mode (step_main_machine E s) = sdd_active_mode s"
  "sdd_events (step_main_machine E s) = sdd_events s"
  "sdd_excessive_actuation (step_main_machine E s) = sdd_excessive_actuation s"
  "sdd_wf E (step_main_machine E s) = sdd_wf E s"
  by (simp_all add: step_main_machine_def Let_def case_prod_beta sdd_events_def sdd_wf_def sh_wf_def)

lemma wf_contains:
  assumes "sdd_wf E s" "ev_has (sdd_events s) e" "t \<in> set (types_of (EVENTS (env_mici E)) e)"
  shows "sm_events_contains (sdd_events s) (sh_events_sp (sdd_shared s)) t"
  using assms ev.has_contains [of "env_mici E"]
  by (auto simp: sdd_wf_def sh_wf_def sdd_events_def sm_events_contains_def)

text \<open>An event that refuses entry and disables at once leaves the main machine disabled.\<close>

lemma disabling_event:
  assumes "sdd_wf E s" "\<not> cp_passive (env_CP E)" "sdd_initialized s" "ev_has (sdd_events s) e"
    and "ET_NO_ENTRY \<in> set (types_of (EVENTS (env_mici E)) e)"
    and "ET_USER_DISABLE \<in> set (types_of (EVENTS (env_mici E)) e) \<or>
         ET_IMMEDIATE_DISABLE \<in> set (types_of (EVENTS (env_mici E)) e)"
  shows "\<not> sdd_enabled (step_main_machine E s)"
  using wf_contains [OF assms(1,4)] assms(5,6)
  by (auto simp: step_main_machine_enabled [OF assms(2,3)] sd_enabled_cond)

lemma step_mads_enabled [simp]: "sdd_wf E s \<Longrightarrow> sdd_enabled (step_mads E i CS s) = sdd_enabled s"
  using sh_leD(3) [OF sh_le_update_events, of "env_mici E" "sdd_shared s"]
  by (auto simp: step_mads_def mads_update_def Let_def case_prod_beta sdd_enabled_def sdd_wf_def)

lemma step_mads_keeps [simp]:
  "sdd_active_mode (step_mads E i CS s) = sdd_active_mode s"
  "sdd_excessive_actuation (step_mads E i CS s) = sdd_excessive_actuation s"
  "sdd_initialized (step_mads E i CS s) = sdd_initialized s"
  by (simp_all add: step_mads_def case_prod_beta)

lemma step_mads_wf: "sdd_wf E s \<Longrightarrow> sdd_wf E (step_mads E i CS s)"
  using sh_leD(1) [OF sh_le_update_events, of "env_mici E" "sdd_shared s"]
  by (auto simp: step_mads_def mads_update_def Let_def case_prod_beta sdd_wf_def sh_wf_def)

text \<open>The invariant of the whole process: well-formed stores, and flags that match MADS's state.\<close>

definition sdd_inv :: "env \<Rightarrow> sdd \<Rightarrow> bool" where
  "sdd_inv E s \<longleftrightarrow> sdd_wf E s \<and> mads_inv (sdd_mads s)"

text \<open>A step, cut after the events: \<open>s1\<close> is sampled, \<open>s2\<close> has this frame's events.\<close>

lemma step_controls_cases:
  assumes "sdd_inv E s"
  obtains s1 s2 s3 where
    "data_sample E i s = (sample_CS i s, s1)" "sdd_inv E s1"
    "s2 = update_events E (sdd_config s) i (sample_CS i s) s1" "sdd_inv E s2"
    "s3 = (let t = step_main_machine E s2 in
           if \<not> sdd_enabled t then t\<lparr>sdd_active_mode := cf_custom_longitudinal_mode (sdd_config t)\<rparr> else t)"
    "sdd_inv E s3" "step_controls E i s = (sample_CS i s, step_mads E i (sample_CS i s) s3)"
proof -
  obtain CS s1 where d: "data_sample E i s = (CS, s1)" by force
  note k = data_sample_keeps [OF d]
  define s2 where "s2 = update_events E (sdd_config s) i CS s1"
  define s3 where "s3 = (let t = step_main_machine E s2 in
    if \<not> sdd_enabled t then t\<lparr>sdd_active_mode := cf_custom_longitudinal_mode (sdd_config t)\<rparr> else t)"
  have i1: "sdd_inv E s1" using assms k by (simp add: sdd_inv_def)
  have i2: "sdd_inv E s2"
    using ue_leD(1,5) [OF ue_le_update_events, of E s1] i1 by (simp add: sdd_inv_def s2_def)
  have i3: "sdd_inv E s3"
    using i2 step_main_machine_keeps(7) [of E s2]
    by (auto simp: sdd_inv_def s3_def Let_def sdd_wf_def simp del: step_main_machine_keeps(7))
  have "step_controls E i s = (CS, step_mads E i CS s3)"
    by (simp add: step_controls_def d Let_def s3_def s2_def)
  with that d k(1) i1 i2 i3 s2_def s3_def show ?thesis by blast
qed

lemma step_controls_inv: "sdd_inv E s \<Longrightarrow> sdd_inv E (snd (step_controls E i s))"
  using mads_update_flags
  by (erule_tac i = i in step_controls_cases)
    (simp add: sdd_inv_def step_mads_wf, auto simp: step_mads_def case_prod_beta)

lemma contains_mono:
  assumes "ue_le E {} s s'" "sdd_wf E s" "ev_contains (sdd_events s) t"
  shows "ev_contains (sdd_events s') t"
proof -
  have wf: "ev_wf (EVENTS (env_mici E)) (sdd_events s)" "ev_wf (EVENTS (env_mici E)) (sdd_events s')"
    using assms(2) ue_leD(1) [OF assms(1,2)] by (simp_all add: sdd_wf_def sh_wf_def sdd_events_def)
  with assms(3) obtain e where "ev_has (sdd_events s) e" "t \<in> set (types_of (EVENTS (env_mici E)) e)"
    by (auto simp: ev.contains_bag ev.has_bag)
  with ue_leD(2) [OF assms(1,2)] ev.has_contains [OF wf(2)] show ?thesis by blast
qed

lemma wf_events: "sdd_wf E s \<Longrightarrow> ev_wf (EVENTS (env_mici E)) (sdd_events s)"
  by (simp add: sdd_wf_def sh_wf_def sdd_events_def)

text \<open>A failed liveness check always ends in an event that disables and refuses entry.\<close>

lemma ue_system_disables:
  assumes "sdd_wf E s" "\<not> in_all_checks i"
  shows "let ev = sdd_events (ue_system E i CS s) in ev_contains ev ET_NO_ENTRY \<and>
    (ev_contains ev ET_SOFT_DISABLE \<or> ev_contains ev ET_IMMEDIATE_DISABLE)"
proof -
  define s1 where "s1 = sdd_add E (system_conditions E i CS (sdd_not_running s)) s"
  have wf1: "sdd_wf E s1" using ue_leD(1) [OF ue_le_add [OF ue_le_refl] assms(1)] by (simp add: s1_def)
  define e where "e = (if \<not> in_all_alive i then EV_commIssue
                       else if \<not> in_all_freq_ok i then EV_commIssueAvgFreq else EV_commIssue)"
  let ?s2 = "sdd_add E [(True, e)] s1"
  have wf2: "sdd_wf E ?s2" using ue_leD(1) [OF ue_le_add [OF ue_le_refl] wf1] .
  have has: "ev_has (sdd_events ?s2) e" using wf1 by (simp add: sdd_add_has)
  have "types_of (EVENTS (env_mici E)) e = [ET_SOFT_DISABLE, ET_NO_ENTRY]" by (simp add: e_def)
  with ev.has_contains [OF wf_events [OF wf2] has]
  have new: "ev_contains (sdd_events ?s2) ET_NO_ENTRY" "ev_contains (sdd_events ?s2) ET_SOFT_DISABLE" by simp_all
  show ?thesis
    unfolding ue_system_def Let_def s1_def [symmetric] e_def [symmetric]
    using new assms(2) by auto
qed

lemma ue_excessive_event:
  assumes "sdd_wf E s" "sdd_excessive_actuation s"
  shows "ev_has (sdd_events (ue_excessive E i CS s)) EV_excessiveActuation"
    "sdd_excessive_actuation (ue_excessive E i CS s)"
proof -
  define s1 where "s1 = (if in_livePose_updated i then
    s\<lparr>sdd_calibrated_pose := Some (in_calibrated_accel i, in_calibrated_yaw i)\<rparr> else s)"
  have s1: "ue_le E {} s s1" "sdd_excessive_actuation s1"
    using assms(2) by (auto simp: s1_def intro: ue_intros ue_le_refl)
  obtain s2 where eq: "ue_excessive E i CS s = sdd_add E [(sdd_excessive_actuation s2, EV_excessiveActuation)] s2"
    and s2: "ue_le E {} s1 s2" "sdd_excessive_actuation s2"
  proof (cases "sdd_calibrated_pose s1")
    case None
    with s1 show ?thesis by (intro that [of s1]) (simp_all add: ue_excessive_def s1_def Let_def ue_le_refl)
  next
    case (Some p)
    with s1 show ?thesis
      by (intro that [of "s1\<lparr>sdd_excessive_check := fst (excessive_update (env_limits E)
              \<lparr>xi_longActive = cc_longActive (in_carControl i),
               xi_latActive = cc_latActive (in_carControl i), xi_accel = fst p,
               xi_yaw_rate = snd p, xi_roll = in_roll i, xi_vEgo = cs_vEgo CS,
               xi_aEgo = cs_aEgo CS, xi_steeringPressed = cs_steeringPressed CS\<rparr>
              (sdd_excessive_check s1))\<rparr>"])
        (simp_all add: ue_excessive_def Let_def case_prod_beta ue_intros ue_le_refl flip: s1_def)
  qed
  have "sdd_wf E s2" using ue_leD(1) [OF ue_le_trans [OF s1(1) s2(1)] assms(1)] .
  with s2(2) show "ev_has (sdd_events (ue_excessive E i CS s)) EV_excessiveActuation"
    by (simp add: eq sdd_add_has)
  show "sdd_excessive_actuation (ue_excessive E i CS s)"
    using s2(2) by (simp add: eq sdd_add_def sdd_map_events_def sdd_map_shared_def)
qed

subsection \<open>What the events of one frame show\<close>

text \<open>This frame's events, for an initialised process that is not in dashcam mode.\<close>

lemma frame_pedal:
  assumes "sdd_wf E s" "sdd_initialized s" "\<not> cp_passive (env_CP E)" "cs_canValid CS"
    and "pedal_event CS (sdd_CS_prev s) (cf_disengage_on_accelerator cfg)"
  shows "ev_has (sdd_events (update_events E cfg i CS s)) EV_pedalPressed"
proof -
  obtain s1 where s1: "update_events E cfg i CS s = ue_initialized E cfg i CS s1" "ue_le E UNIV s s1"
    using update_events_initialized [OF assms(1-3)] by metis
  let ?s2 = "ue_before_car E i CS s1"
  have le: "ue_le E UNIV s ?s2" by (intro ue_intros s1(2))
  have "ev_has (sdd_events (ue_car E cfg i CS ?s2)) EV_pedalPressed"
    using ue_leD(1,7) [OF le assms(1)] assms(4,5) by (intro ue_car_pedal) simp_all
  moreover have "sdd_wf E (ue_car E cfg i CS ?s2)"
    by (rule ue_leD(1) [OF _ ue_leD(1) [OF le assms(1)], of UNIV]) (intro ue_intros ue_le_refl; simp)
  moreover have "ue_le E UE_REMOVED (ue_car E cfg i CS ?s2) (ue_initialized E cfg i CS s1)"
    unfolding ue_initialized_split by (intro ue_intros ue_le_refl) (simp add: UE_REMOVED_def)
  ultimately show ?thesis unfolding s1(1) using ue_leD(2) by (auto simp: UE_REMOVED_def)
qed

lemma frame_controls_mismatch:
  assumes "sdd_wf E s" "sdd_initialized s" "\<not> cp_passive (env_CP E)"
    and "200 \<le> sdd_mismatch_counter s" "in_pandaStates i \<noteq> []"
  shows "ev_has (sdd_events (update_events E cfg i CS s)) EV_controlsMismatch"
proof -
  obtain s1 where s1: "update_events E cfg i CS s = ue_initialized E cfg i CS s1" "ue_le E UNIV s s1"
    using update_events_initialized [OF assms(1-3)] by metis
  let ?s2 = "ue_middle E cfg i CS (ue_car E cfg i CS (ue_before_car E i CS s1))"
  have le: "ue_le E UNIV s ?s2" by (intro ue_intros s1(2)) simp
  note wf = ue_leD(1) [OF le assms(1)]
  have "(True, EV_controlsMismatch) \<in> set (panda_conditions E i (sdd_mismatch_counter ?s2))"
    using ue_leD(9) [OF le assms(1)] assms(4,5)
    by (cases "in_pandaStates i") (auto simp: panda_conditions_def)
  then have "ev_has (sdd_events (ue_pandas E i ?s2)) EV_controlsMismatch"
    using wf by (simp add: ue_pandas_def sdd_add_has)
  moreover have "sdd_wf E (ue_pandas E i ?s2)"
    by (rule ue_leD(1) [OF _ wf]) (intro ue_intros ue_le_refl)
  moreover have "ue_le E UE_REMOVED (ue_pandas E i ?s2) (ue_initialized E cfg i CS s1)"
    unfolding ue_initialized_split by (intro ue_intros ue_le_refl) (simp add: UE_REMOVED_def)
  ultimately show ?thesis unfolding s1(1) using ue_leD(2) by (auto simp: UE_REMOVED_def)
qed

lemma frame_health:
  assumes "sdd_wf E s" "sdd_initialized s" "\<not> cp_passive (env_CP E)"
    and "\<not> in_all_checks i" "cs_gearShifter CS \<noteq> GS_park"
  shows "let ev = sdd_events (update_events E cfg i CS s) in ev_contains ev ET_NO_ENTRY \<and>
    (ev_contains ev ET_SOFT_DISABLE \<or> ev_contains ev ET_IMMEDIATE_DISABLE)"
proof -
  obtain s1 where s1: "update_events E cfg i CS s = ue_initialized E cfg i CS s1" "ue_le E UNIV s s1"
    using update_events_initialized [OF assms(1-3)] by metis
  let ?s2 = "ue_pandas E i (ue_middle E cfg i CS (ue_car E cfg i CS (ue_before_car E i CS s1)))"
  let ?s3 = "ue_system E i CS ?s2"
  have wf2: "sdd_wf E ?s2" by (rule ue_leD(1) [OF _ assms(1), of UNIV]) (intro ue_intros s1(2), simp)
  have wf3: "sdd_wf E ?s3" by (rule ue_leD(1) [OF _ wf2]) (intro ue_intros ue_le_refl)
  have "ue_le E {} ?s3 (ue_initialized E cfg i CS s1)"
    unfolding ue_initialized_split by (intro ue_intros ue_le_refl) (use assms(5) in simp)
  from contains_mono [OF this wf3] ue_system_disables [OF wf2 assms(4), of CS]
  show ?thesis unfolding s1(1) Let_def by blast
qed

lemma frame_excessive:
  assumes "sdd_wf E s" "sdd_initialized s" "\<not> cp_passive (env_CP E)" "sdd_excessive_actuation s"
  shows "ev_has (sdd_events (update_events E cfg i CS s)) EV_excessiveActuation"
    and "sdd_excessive_actuation (update_events E cfg i CS s)"
proof -
  obtain s1 where s1: "update_events E cfg i CS s = ue_initialized E cfg i CS s1" "ue_le E UNIV s s1"
    using update_events_initialized [OF assms(1-3)] by metis
  let ?s2 = "ue_ldw E cfg i (ue_calibration E i (ue_device E i (ue_car E cfg i CS (ue_before_car E i CS s1))))"
  have le: "ue_le E UNIV s ?s2" by (intro ue_intros s1(2)) simp
  note wf = ue_leD(1,10) [OF le assms(1)]
  note ex = ue_excessive_event [OF wf(1) wf(2) [OF assms(4)], of i CS]
  have "sdd_wf E (ue_excessive E i CS ?s2)" by (rule ue_leD(1) [OF _ wf(1)]) (intro ue_intros ue_le_refl)
  moreover have "ue_le E UE_REMOVED (ue_excessive E i CS ?s2) (ue_initialized E cfg i CS s1)"
    unfolding ue_initialized_split ue_middle_def
    by (intro ue_intros ue_le_refl) (simp add: UE_REMOVED_def)
  ultimately show "ev_has (sdd_events (update_events E cfg i CS s)) EV_excessiveActuation"
    "sdd_excessive_actuation (update_events E cfg i CS s)"
    unfolding s1(1) using ex ue_leD(2,10) by (auto simp: UE_REMOVED_def)
qed

subsection \<open>From an event of the frame to the state after the step\<close>

text \<open>
  The facts about an initialised step that the properties share: what this frame's event
  computation starts from, and how the main machine's verdict reaches the end of the step.
\<close>

lemma step_initialized:
  fixes i :: sm_in
  assumes "sdd_inv E s" "sdd_initialized s" "\<not> cp_passive (env_CP E)"
  defines "s1 \<equiv> snd (data_sample E i s)"
  defines "s2 \<equiv> update_events E (sdd_config s) i (sample_CS i s) s1"
  obtains s3 where
    "sdd_wf E s1" "sdd_initialized s1" "sdd_CS_prev s1 = sdd_CS_prev s"
    "sdd_excessive_actuation s1 = sdd_excessive_actuation s"
    "sdd_wf E s2" "sdd_initialized s2" "sh_sm (sdd_shared s2) = sh_sm (sdd_shared s)"
    "sdd_wf E s3" "sdd_initialized s3" "sdd_mads s3 = sdd_mads s" "sdd_CS_prev s3 = sdd_CS_prev s"
    "sdd_events s3 = sdd_events s2" "sdd_enabled s3 = sdd_enabled (step_main_machine E s2)"
    "sh_sm (sdd_shared s3) = sh_sm (sdd_shared (step_main_machine E s2))"
    "sdd_excessive_actuation s3 = sdd_excessive_actuation s2"
    "step_controls E i s = (sample_CS i s, step_mads E i (sample_CS i s) s3)"
proof -
  obtain t1 t2 s3 where
    t1: "data_sample E i s = (sample_CS i s, t1)" "sdd_inv E t1" and
    t2: "t2 = update_events E (sdd_config s) i (sample_CS i s) t1" "sdd_inv E t2" and
    s3: "s3 = (let t = step_main_machine E t2 in
        if \<not> sdd_enabled t then t\<lparr>sdd_active_mode := cf_custom_longitudinal_mode (sdd_config t)\<rparr> else t)"
      "sdd_inv E s3" and
    step: "step_controls E i s = (sample_CS i s, step_mads E i (sample_CS i s) s3)"
    by (rule step_controls_cases [OF assms(1)])
  note k = data_sample_keeps [OF t1(1)]
  have eq: "s1 = t1" "s2 = t2" using t1(1) t2(1) by (simp_all add: s1_def s2_def)
  have wf: "sdd_wf E s1" "sdd_wf E s2" "sdd_wf E s3" using t1 t2 s3 eq by (simp_all add: sdd_inv_def)
  note u = ue_leD [OF ue_le_update_events [of E s1 "sdd_config s" i "sample_CS i s"] wf(1), folded s2_def]
  have ini: "sdd_initialized s1" "sdd_initialized s2" using k(8) assms(2) u(6) eq by simp_all
  have s3': "sdd_initialized s3" "sdd_mads s3 = sdd_mads s" "sdd_CS_prev s3 = sdd_CS_prev s"
    "sdd_events s3 = sdd_events s2" "sdd_enabled s3 = sdd_enabled (step_main_machine E s2)"
    "sh_sm (sdd_shared s3) = sh_sm (sdd_shared (step_main_machine E s2))"
    "sdd_excessive_actuation s3 = sdd_excessive_actuation s2"
    using u k ini eq
    by (simp_all add: s3(1) Let_def sdd_enabled_def) (simp_all add: sdd_events_def step_main_machine_def Let_def case_prod_beta)
  show ?thesis
    by (rule that [OF wf(1) ini(1) _ _ wf(2) ini(2) _ wf(3) s3' step])
      (use k eq u(3) assms(2) in simp_all)
qed

lemma step_mads_sm_state [simp]:
  "sdd_wf E s \<Longrightarrow> sm_state (sh_sm (sdd_shared (step_mads E i CS s))) = sm_state (sh_sm (sdd_shared s))"
  using sh_leD(2) [OF sh_le_update_events, of "env_mici E" "sdd_shared s"]
  by (auto simp: step_mads_def mads_update_def Let_def case_prod_beta sdd_wf_def)

lemma step_main_machine_state:
  assumes "\<not> cp_passive (env_CP E)" "sdd_initialized s"
  shows "sm_state (sh_sm (sdd_shared (step_main_machine E s))) =
    sm_state (sd_step (sh_sm (sdd_shared s))
      (sm_events_contains (sdd_events s) (sh_events_sp (sdd_shared s))))"
  using assms by (simp add: step_main_machine_def Let_def case_prod_beta sdd_events_def)

text \<open>While an event of the store refuses entry, a disabled main machine stays disabled.\<close>

lemma no_entry_stays_disabled:
  assumes "\<not> cp_passive (env_CP E)" "sdd_initialized s" "sm_state (sh_sm (sdd_shared s)) = OP_disabled"
    and "ev_contains (sdd_events s) ET_NO_ENTRY"
  shows "sm_state (sh_sm (sdd_shared (step_main_machine E s))) = OP_disabled"
    "\<not> sdd_enabled (step_main_machine E s)"
  using sd_enabled_cond [of "sh_sm (sdd_shared s)" "sm_events_contains (sdd_events s) (sh_events_sp (sdd_shared s))"]
    assms by (simp_all add: step_main_machine_state step_main_machine_enabled sm_events_contains_def)

subsection \<open>Runs of the process\<close>

text \<open>
  A run interleaves frames and passes of the parameter thread. \<open>sdd_exec\<close> is the state after the
  controls part of a frame: the alerts do not feed back into it (\<open>sdd_step_exec\<close>).
\<close>

datatype sdd_op = Frame sm_in | ParamsThread sd_params

fun sdd_exec :: "env \<Rightarrow> sdd \<Rightarrow> sdd_op \<Rightarrow> sdd" where
  "sdd_exec E s (Frame i) = (let (CS, s) = step_controls E i s in s\<lparr>sdd_CS_prev := CS\<rparr>)"
| "sdd_exec E s (ParamsThread p) = params_thread_step E p s"

lemma update_alerts_only_AM: "update_alerts E cfg i s = Inr s' \<Longrightarrow> s' = s\<lparr>sdd_AM := sdd_AM s'\<rparr>"
  by (auto simp: update_alerts_def Let_def split: sum.splits option.splits)

lemma sdd_step_exec:
  assumes "sdd_step E i s = Inr (s', m)"
  shows "s' = (sdd_exec E s (Frame i))\<lparr>sdd_AM := sdd_AM s'\<rparr>"
proof -
  obtain CS s1 where c: "step_controls E i s = (CS, s1)" by force
  with assms obtain s2 where s2: "update_alerts E (sdd_config s1) i s1 = Inr s2" "s' = s2\<lparr>sdd_CS_prev := CS\<rparr>"
    by (auto simp: sdd_step_def split: sum.splits)
  from update_alerts_only_AM [OF s2(1)] obtain am where "s2 = s1\<lparr>sdd_AM := am\<rparr>" by blast
  then show ?thesis by (simp add: s2(2) c)
qed

lemma mads_read_params_inv [simp]: "mads_inv (mads_read_params p m) = mads_inv m"
  by (simp add: mads_inv_def mads_read_params_def)

lemma sdd_exec_inv: "sdd_inv E s \<Longrightarrow> sdd_inv E (sdd_exec E s op)"
proof (cases op)
  case (Frame i)
  assume "sdd_inv E s"
  then show ?thesis
    using step_controls_inv [of E s i] Frame by (simp add: sdd_inv_def sdd_wf_def case_prod_beta)
qed (simp add: sdd_inv_def sdd_wf_def params_thread_step_def Let_def)

interpretation sdd_run: frame_machine "sdd_exec E" "\<lambda>_. True" "sdd_inv E" for E
  by unfold_locales (rule sdd_exec_inv)

lemma sdd_init_inv: "sdd_inv E (sdd_init E ii)"
  by (simp add: sdd_inv_def sdd_wf_def sh_wf_def sdd_init_def init_events_def Let_def ev.invar_add
      mads_inv_def mads_init_def)

text \<open>An operation that leaves openpilot engaged leaves the active mode alone.\<close>

lemma exec_enabled_mode:
  assumes "sdd_inv E s" "sdd_enabled (sdd_exec E s op)"
  shows "sdd_active_mode (sdd_exec E s op) = sdd_active_mode s"
proof (cases op)
  case (Frame i)
  obtain s1 s2 s3 where
    s1: "data_sample E i s = (sample_CS i s, s1)" "sdd_inv E s1" and
    s2: "s2 = update_events E (sdd_config s) i (sample_CS i s) s1" and
    s3: "s3 = (let t = step_main_machine E s2 in
        if \<not> sdd_enabled t then t\<lparr>sdd_active_mode := cf_custom_longitudinal_mode (sdd_config t)\<rparr> else t)"
      "sdd_inv E s3" and
    step: "step_controls E i s = (sample_CS i s, step_mads E i (sample_CS i s) s3)"
    by (rule step_controls_cases [OF assms(1)])
  have "sdd_enabled s3"
    using assms(2) Frame s3(2) step_mads_enabled [of E s3] by (simp add: step sdd_inv_def sdd_enabled_def)
  then have "sdd_enabled (step_main_machine E s2)" by (simp add: s3(1) Let_def sdd_enabled_def split: if_splits)
  then have "sdd_active_mode s3 = sdd_active_mode s2" by (simp add: s3(1) Let_def)
  also have "\<dots> = sdd_active_mode s"
    using ue_leD(8) [OF ue_le_update_events, of E s1] s1(2) data_sample_keeps(6) [OF s1(1)]
    by (simp add: s2 sdd_inv_def)
  finally show ?thesis using Frame by (simp add: step)
qed (simp add: params_thread_step_def Let_def)

subsection \<open>A concrete process\<close>

text \<open>An engaged process on an example car, for the instances below.\<close>

definition example_cbargs :: cbargs where
  "example_cbargs = \<lparr>cb_brand = '''', cb_minEnableSpeed = 0, cb_minSteerSpeed = 0, cb_openpilotLongitudinalControl =
     False, cb_pcmCruise = False, cb_vEgo = 0, cb_vCruiseCluster = 0, cb_calStatus = CAL_calibrated,
     cb_calPerc = 0, cb_rpyCalib = [], cb_lockout = False, cb_lockoutMinutesRemaining = 0,
     cb_audio_blockNum = 0, cb_freeSpacePercent = 0, cb_cpuTempC = [], cb_gpuTempC = [],
     cb_memoryTempC = 0, cb_memoryUsagePercent = 0, cb_cpuUsagePercent = [], cb_model_velocity_x =
     [], cb_frameDropPerc = 0, cb_processes = [], cb_services = [], cb_angleOffsetValid = False,
     cb_angleOffsetDeg = 0, cb_steerRatioValid = False, cb_steerRatio = 0, cb_stiffnessFactorValid =
     False, cb_stiffnessFactor = 0, cb_actuators_accel = 0, cb_actuators_torque = 0, cb_alertText1 =
     '''', cb_alertText2 = '''', cb_short_branch = '''', cb_replay = False, cb_metric = False,
     cb_soft_disable_time = 0, cb_personality = '''', cb_resolver_speedLimit = 0,
     cb_resolver_speedLimitFinalLast = 0, cb_controls_vCruise = 0\<rparr>"

definition example_CC :: car_control where
  "example_CC = \<lparr>cc_enabled = True, cc_latActive = True, cc_longActive = True, cc_accel = 0,
     cc_override = False, cc_cancel = False, cc_resume = False\<rparr>"

definition example_in :: "car_state \<Rightarrow> panda_state list \<Rightarrow> bool \<Rightarrow> sm_in" where
  "example_in CS pandas checks = \<lparr>in_carState = Some CS, in_frame = 1000, in_managerState_updated = False, in_managerState_recv =
     False, in_processes = [], in_debugState = False, in_lateralManeuverPlan_recv = 0,
     in_alertDebug_recv = 0, in_userBookmark = False, in_audioFeedback = False, in_dm_lockout =
     False, in_dm_alwaysOnLockout = False, in_dm_vision = False, in_dm_alertLevel = AL_none,
     in_dm_uncertain_percent = 0, in_lpsp_events = [], in_lpsp_vTarget = 0, in_carControl =
     example_CC, in_overheated = False, in_freeSpacePercent = 50, in_memoryUsagePercent = 0,
     in_fanSpeedPercentDesired = 0, in_pandaType_known = False, in_fanSpeedRpm = 0, in_calStatus =
     CAL_calibrated, in_driverAssistance_valid = False, in_leftLaneDeparture = False,
     in_rightLaneDeparture = False, in_livePose_updated = False, in_calibrated_accel = 0,
     in_calibrated_yaw = 0, in_roll = 0, in_laneChangeState = LC_off, in_laneChangeDirection =
     LD_none, in_laneTurnDirection = TD_none, in_pandaStates = pandas, in_pandaStates_valid = True,
     in_cameras_alive = True, in_cameras_freq_ok = True, in_lagging = False, in_radar_canError =
     False, in_radar_tempUnavailable = False, in_radar_anyError = False, in_all_checks = checks,
     in_all_alive = True, in_all_freq_ok = True, in_posenetOK = True, in_inputsOK = True,
     in_liveParameters_valid = True, in_sensor_recv_frames = [], in_lac_active = False,
     in_lac_saturated = False, in_curvature = 0, in_desiredCurvature = 0, in_hardBrakePredicted =
     False, in_longitudinalPlan_fcw = False, in_gps_recv_frame = 0, in_frameDropPerc = 0,
     in_param_CustomLongitudinalEnabled = False, in_cbargs = example_cbargs\<rparr>"

definition example_env :: env where
  "example_env = \<lparr>env_mici = False, env_SIMULATION = False, env_REPLAY = False,
     env_TESTING_CLOSET = False, env_CP = example_CP, env_CPSP = example_CPSP,
     env_limits = \<lparr>lim_ACCEL_MIN = -4, lim_ACCEL_MAX = 2, lim_ISO_LATERAL_ACCEL = 3, lim_GRAVITY = 981/100\<rparr>,
     env_hyst = (\<lambda>v l g. v)\<rparr>"

definition example_config :: sd_config where
  "example_config = \<lparr>cf_is_metric = True, cf_is_ldw_enabled = False, cf_disengage_on_accelerator = False,
     cf_custom_longitudinal_enabled = True, cf_custom_longitudinal_mode = LM_SCC,
     cf_experimental_mode = False, cf_personality = 1\<rparr>"

definition example_sdd :: "bool \<Rightarrow> sdd" where
  "example_sdd mads_on =
     \<lparr>sdd_shared = \<lparr>sh_events = events_init [], sh_events_sp = events_init [],
        sh_sm = sd_step sd_init (\<lambda>t. t = ET_ENABLE), sh_enabled = True, sh_enabled_prev = True\<rparr>,
      sdd_active = True, sdd_initialized = True, sdd_CS_prev = car_state_default GS_drive,
      sdd_car_events = car_specific_init, sdd_car_events_sp = False,
      sdd_cruise_helper = cruise_helper_init,
      sdd_mads = (if mads_on then (mads_init example_CP example_CPSP example_params)
                    \<lparr>md_enabled := True, md_active := True, md_state := MS_enabled\<rparr>
                  else mads_init example_CP example_CPSP example_params),
      sdd_icbm = icbm_init, sdd_excessive_check = excessive_init, sdd_excessive_actuation = False,
      sdd_calibrated_pose = None, sdd_mismatch_counter = 0, sdd_cruise_mismatch_counter = 0,
      sdd_last_steering_pressed_frame = 0, sdd_distance_traveled = 0,
      sdd_last_functional_fan_frame = 0, sdd_startup_event = None, sdd_not_running = [],
      sdd_recalibrating_seen = False, sdd_dm_lockout_set = False, sdd_dm_uncertain_alerted = False,
      sdd_config = example_config, sdd_active_mode = LM_SCC, sdd_AM = am_init, sdd_effects = []\<rparr>"

definition example_brake :: car_state where
  "example_brake = (car_state_default GS_drive)\<lparr>cs_brakePressed := True, cs_canValid := True\<rparr>"

lemma example_sdd_inv [simp]: "sdd_inv example_env (example_sdd b)"
  by (simp add: sdd_inv_def sdd_wf_def sh_wf_def example_sdd_def example_env_def mads_inv_def mads_init_def)

lemma example_sdd_simps [simp]:
  "sdd_initialized (example_sdd b)" "\<not> cp_passive (env_CP example_env)" "\<not> cp_notCar (env_CP example_env)"
  "sdd_CS_prev (example_sdd b) = car_state_default GS_drive"
  "sdd_config (example_sdd b) = example_config" "in_carState (example_in CS ps ch) = Some CS"
  "in_pandaStates (example_in CS ps ch) = ps" "in_all_checks (example_in CS ps ch) = ch"
  "sdd_active_mode (example_sdd b) = LM_SCC" "sdd_enabled (example_sdd b)"
  by (simp_all add: example_sdd_def example_env_def example_CP_def example_in_def sdd_enabled_def)

subsection \<open>Properties\<close>

text \<open>
  Pressing the brake disengages, end to end. In an initialised process that is not in dashcam
  mode, a frame with a valid car state in which the brake goes down or is held while moving (or
  regenerative braking, or the accelerator if so configured) leaves openpilot disengaged, no
  matter what other events there are. If the pedal is not the accelerator and MADS was steering
  with its steering mode set to PAUSE or DISENGAGE, MADS no longer steers after the frame.
\<close>

theorem brake_press_disengages:
  assumes "sdd_inv E s" "sdd_initialized s" "\<not> cp_passive (env_CP E)" "cs_canValid (sample_CS i s)"
    and "pedal_event (sample_CS i s) (sdd_CS_prev s) (cf_disengage_on_accelerator (sdd_config s))"
  shows "\<not> sdd_enabled (snd (step_controls E i s)) \<and>
    (\<not> cp_notCar (env_CP E) \<and> \<not> cs_gasPressed (sample_CS i s) \<and> md_active (sdd_mads s) \<and>
     md_enabled_toggle (sdd_mads s) \<and> md_steering_mode_on_brake (sdd_mads s) \<in> {MODE_PAUSE, MODE_DISENGAGE} \<longrightarrow>
     \<not> md_active (sdd_mads (snd (step_controls E i s))))"
proof -
  let ?CS = "sample_CS i s" and ?s1 = "snd (data_sample E i s)"
  let ?s2 = "update_events E (sdd_config s) i ?CS ?s1"
  obtain s3 where s1: "sdd_wf E ?s1" "sdd_initialized ?s1" "sdd_CS_prev ?s1 = sdd_CS_prev s"
    and s2: "sdd_wf E ?s2" "sdd_initialized ?s2"
    and s3: "sdd_wf E s3" "sdd_initialized s3" "sdd_mads s3 = sdd_mads s" "sdd_CS_prev s3 = sdd_CS_prev s"
      "sdd_events s3 = sdd_events ?s2" "sdd_enabled s3 = sdd_enabled (step_main_machine E ?s2)"
    and step: "step_controls E i s = (?CS, step_mads E i ?CS s3)"
    by (rule step_initialized [OF assms(1-3), of i])
  have pedal: "ev_has (sdd_events ?s2) EV_pedalPressed"
    using assms(3-5) s1 by (intro frame_pedal) simp_all
  have dis: "\<not> sdd_enabled s3"
    unfolding s3(6) by (rule disabling_event [OF s2(1) assms(3) s2(2) pedal]) simp_all
  show ?thesis
  proof (intro conjI impI)
    show "\<not> sdd_enabled (snd (step_controls E i s))" using dis s3(1) by (simp add: step)
    assume a: "\<not> cp_notCar (env_CP E) \<and> \<not> cs_gasPressed ?CS \<and> md_active (sdd_mads s) \<and>
      md_enabled_toggle (sdd_mads s) \<and> md_steering_mode_on_brake (sdd_mads s) \<in> {MODE_PAUSE, MODE_DISENGAGE}"
    have inv: "mads_inv (sdd_mads s)" using assms(1) by (simp add: sdd_inv_def)
    have "pedal_pressed_non_gas_pressed (sdd_mads s) ?CS (sdd_CS_prev s) (sdd_shared s3)"
      using pedal a s3(5) by (simp add: pedal_pressed_non_gas_pressed_def sdd_events_def)
    with a inv dis s3(1) assms(3) have "\<not> md_active (fst (mads_update (env_mici E) (env_CP E) True
        (in_pandaStates i) ?CS (sdd_CS_prev s) (sdd_mads s) (sdd_shared s3)))"
      by (intro brake_mads_inactive) (auto simp: sdd_wf_def sdd_enabled_def)
    then show "\<not> md_active (sdd_mads (snd (step_controls E i s)))"
      using a s3 by (simp add: step step_mads_def case_prod_beta)
  qed
qed

theorem brake_press_disengages_witness:
  "let s' = snd (step_controls example_env (example_in example_brake [] True) (example_sdd True))
   in \<not> sdd_enabled s' \<and> \<not> md_active (sdd_mads s')"
proof -
  have "pedal_event example_brake (car_state_default GS_drive) False" "cs_canValid example_brake"
    "\<not> cs_gasPressed example_brake"
    by (simp_all add: pedal_event_def example_brake_def car_state_default_def)
  moreover have "md_active (sdd_mads (example_sdd True))" "md_enabled_toggle (sdd_mads (example_sdd True))"
    "md_steering_mode_on_brake (sdd_mads (example_sdd True)) = MODE_PAUSE"
    by (simp_all add: example_sdd_def example_defs)
  ultimately show ?thesis
    using brake_press_disengages [of example_env "example_sdd True" "example_in example_brake [] True"]
    by (simp add: Let_def example_config_def)
qed

text \<open>
  C3. The panda's veto disengages openpilot: when openpilot is engaged, a panda outside the
  ignored safety modes denies controls, and at least 199 such samples were counted before this
  one, openpilot is disengaged after the frame.
\<close>

theorem controls_mismatch_disengages:
  assumes "sdd_inv E s" "sdd_initialized s" "\<not> cp_passive (env_CP E)" "sdd_enabled s"
    and "199 \<le> sdd_mismatch_counter s"
    and "ps \<in> set (in_pandaStates i)" "\<not> panda_ignored ps" "\<not> ps_controlsAllowed ps"
  shows "\<not> sdd_enabled (snd (step_controls E i s))"
proof -
  let ?CS = "sample_CS i s" and ?s1 = "snd (data_sample E i s)"
  let ?s2 = "update_events E (sdd_config s) i ?CS ?s1"
  obtain s3 where s1: "sdd_wf E ?s1" "sdd_initialized ?s1" and s2: "sdd_wf E ?s2" "sdd_initialized ?s2"
    and s3: "sdd_wf E s3" "sdd_enabled s3 = sdd_enabled (step_main_machine E ?s2)"
    and step: "step_controls E i s = (?CS, step_mads E i ?CS s3)"
    by (rule step_initialized [OF assms(1-3), of i])
  have "200 \<le> sdd_mismatch_counter ?s1"
    using data_sample_mismatch [OF assms(4,6-8), of E] assms(5) by simp
  moreover have "in_pandaStates i \<noteq> []" using assms(6) by auto
  ultimately have ev: "ev_has (sdd_events ?s2) EV_controlsMismatch"
    by (rule frame_controls_mismatch [OF s1 assms(3)])
  have "\<not> sdd_enabled s3"
    unfolding s3(2) by (rule disabling_event [OF s2(1) assms(3) s2(2) ev]) simp_all
  then show ?thesis using s3(1) by (simp add: step)
qed

theorem controls_mismatch_disengages_witness:
  "\<not> sdd_enabled (snd (step_controls example_env (example_in example_brake [example_panda] True)
     ((example_sdd False)\<lparr>sdd_mismatch_counter := 199\<rparr>)))"
proof (rule controls_mismatch_disengages [where ps = example_panda])
  show "sdd_inv example_env ((example_sdd False)\<lparr>sdd_mismatch_counter := 199\<rparr>)"
    using example_sdd_inv [of False] by (simp add: sdd_inv_def sdd_wf_def)
qed (simp_all add: example_panda_def panda_ignored_def IGNORED_SAFETY_MODES_def
    sdd_enabled_def example_sdd_def example_env_def example_CP_def example_in_def)

text \<open>
  C6. A failing liveness check keeps openpilot out: while a checked service is dead, invalid or
  slow, a disengaged process with the car not in park never engages, whatever buttons are
  pressed, and the frame's events call for a soft or immediate disable.
\<close>

theorem failed_checks_block_engagement:
  assumes "sdd_inv E s" "sdd_initialized s" "\<not> cp_passive (env_CP E)" "\<not> in_all_checks i"
    and "cs_gearShifter (sample_CS i s) \<noteq> GS_park"
  shows "(sm_state (sh_sm (sdd_shared s)) = OP_disabled \<longrightarrow>
           sm_state (sh_sm (sdd_shared (snd (step_controls E i s)))) = OP_disabled \<and>
           \<not> sdd_enabled (snd (step_controls E i s))) \<and>
    (let ev = sdd_events (update_events E (sdd_config s) i (sample_CS i s) (snd (data_sample E i s)))
     in ev_contains ev ET_NO_ENTRY \<and> (ev_contains ev ET_SOFT_DISABLE \<or> ev_contains ev ET_IMMEDIATE_DISABLE))"
proof -
  let ?CS = "sample_CS i s" and ?s1 = "snd (data_sample E i s)"
  let ?s2 = "update_events E (sdd_config s) i ?CS ?s1"
  obtain s3 where s1: "sdd_wf E ?s1" "sdd_initialized ?s1"
    and s2: "sdd_initialized ?s2" "sh_sm (sdd_shared ?s2) = sh_sm (sdd_shared s)"
    and s3: "sdd_wf E s3" "sdd_enabled s3 = sdd_enabled (step_main_machine E ?s2)"
      "sh_sm (sdd_shared s3) = sh_sm (sdd_shared (step_main_machine E ?s2))"
    and step: "step_controls E i s = (?CS, step_mads E i ?CS s3)"
    by (rule step_initialized [OF assms(1-3), of i])
  have health: "let ev = sdd_events ?s2 in ev_contains ev ET_NO_ENTRY \<and>
      (ev_contains ev ET_SOFT_DISABLE \<or> ev_contains ev ET_IMMEDIATE_DISABLE)"
    by (rule frame_health [OF s1 assms(3-5)])
  moreover have "sm_state (sh_sm (sdd_shared (snd (step_controls E i s)))) = OP_disabled \<and>
      \<not> sdd_enabled (snd (step_controls E i s))" if "sm_state (sh_sm (sdd_shared s)) = OP_disabled"
    using no_entry_stays_disabled [OF assms(3) s2(1)] that s2(2) health s3 by (simp add: step Let_def)
  ultimately show ?thesis by blast
qed

theorem failed_checks_block_engagement_witness:
  "let ev = sdd_events (update_events example_env example_config (example_in example_brake [] False) example_brake
              (snd (data_sample example_env (example_in example_brake [] False) (example_sdd False))))
   in ev_contains ev ET_NO_ENTRY"
proof -
  have "cs_gearShifter example_brake \<noteq> GS_park" by (simp add: example_brake_def car_state_default_def)
  then show ?thesis
    using failed_checks_block_engagement [of example_env "example_sdd False" "example_in example_brake [] False"]
    by (simp add: Let_def)
qed

text \<open>The state after excessive actuation has been found and openpilot has disengaged.\<close>

definition locked_out :: "env \<Rightarrow> sdd \<Rightarrow> bool" where
  "locked_out E s \<longleftrightarrow> sdd_inv E s \<and> sdd_initialized s \<and> sdd_excessive_actuation s \<and>
     sm_state (sh_sm (sdd_shared s)) = OP_disabled \<and> \<not> sdd_enabled s"

lemma locked_out_frame:
  assumes "locked_out E s" "\<not> cp_passive (env_CP E)"
  shows "locked_out E (sdd_exec E s (Frame i))"
proof -
  let ?CS = "sample_CS i s" and ?s1 = "snd (data_sample E i s)"
  let ?s2 = "update_events E (sdd_config s) i ?CS ?s1"
  have a: "sdd_inv E s" "sdd_initialized s" "sdd_excessive_actuation s"
    "sm_state (sh_sm (sdd_shared s)) = OP_disabled" using assms(1) by (simp_all add: locked_out_def)
  obtain s3 where s1: "sdd_wf E ?s1" "sdd_initialized ?s1" "sdd_excessive_actuation ?s1 = sdd_excessive_actuation s"
    and s2: "sdd_wf E ?s2" "sdd_initialized ?s2" "sh_sm (sdd_shared ?s2) = sh_sm (sdd_shared s)"
    and s3: "sdd_wf E s3" "sdd_initialized s3" "sdd_enabled s3 = sdd_enabled (step_main_machine E ?s2)"
      "sh_sm (sdd_shared s3) = sh_sm (sdd_shared (step_main_machine E ?s2))"
      "sdd_excessive_actuation s3 = sdd_excessive_actuation ?s2"
    and step: "step_controls E i s = (?CS, step_mads E i ?CS s3)"
    by (rule step_initialized [OF a(1,2) assms(2), of i])
  note ex = frame_excessive [OF s1(1,2) assms(2) s1(3) [THEN iffD2, OF a(3)], of "sdd_config s" i ?CS]
  have "ev_contains (sdd_events ?s2) ET_NO_ENTRY"
    by (rule ev.has_contains [OF wf_events [OF s2(1)] ex(1)]) simp
  from no_entry_stays_disabled [OF assms(2) s2(2) _ this] a(4) s2(3)
  have dis: "sm_state (sh_sm (sdd_shared s3)) = OP_disabled" "\<not> sdd_enabled s3" using s3 by simp_all
  have ne: "sdd_enabled (s\<lparr>sdd_CS_prev := c\<rparr>) = sdd_enabled s" for s c by (simp add: sdd_enabled_def)
  show ?thesis
    using dis ex(2) s3 sdd_exec_inv [OF a(1), of "Frame i"] by (simp add: locked_out_def step ne)
qed

interpretation lockout: frame_machine "sdd_exec E" "\<lambda>_. \<not> cp_passive (env_CP E)" "locked_out E" for E
proof
  fix s op assume a: "locked_out E s" "\<not> cp_passive (env_CP E)"
  show "locked_out E (sdd_exec E s op)"
  proof (cases op)
    case (ParamsThread p)
    with a(1) sdd_exec_inv [of E s op] show ?thesis
      by (simp add: locked_out_def params_thread_step_def Let_def sdd_enabled_def)
  qed (simp only: locked_out_frame [OF a])
qed

text \<open>
  C8. Excessive actuation locks openpilot out: once it has been detected and openpilot is
  disengaged, openpilot stays disengaged for the rest of the process's life, through any
  sequence of frames and parameter changes.
\<close>

theorem excessive_actuation_locks_out:
  assumes "sdd_inv E s" "sdd_initialized s" "sdd_excessive_actuation s"
    and "sm_state (sh_sm (sdd_shared s)) = OP_disabled" "\<not> sdd_enabled s" "\<not> cp_passive (env_CP E)"
  shows "\<not> sdd_enabled (frames (sdd_exec E) s ops)"
  using lockout.run_inv [of E s ops] assms by (simp add: locked_out_def)

theorem excessive_actuation_locks_out_witness:
  "\<not> sdd_enabled (frames (sdd_exec example_env)
     ((example_sdd False)\<lparr>sdd_excessive_actuation := True,
        sdd_shared := (sdd_shared (example_sdd False))\<lparr>sh_sm := sd_init, sh_enabled := False\<rparr>\<rparr>)
     [Frame (example_in example_brake [] True)])"
  by (rule excessive_actuation_locks_out)
    (simp_all add: sdd_inv_def sdd_wf_def sh_wf_def sdd_enabled_def example_sdd_def example_env_def
      example_CP_def mads_inv_def mads_init_def sd_init_def)

text \<open>
  Engagement-cycle latch: the active longitudinal mode never changes while openpilot is
  engaged: through any sequence of frames and parameter changes that leaves openpilot engaged
  after each of them, it stays what it was.
\<close>

theorem longitudinal_mode_latched:
  assumes "sdd_inv E s"
    and "\<forall>n \<le> length ops. n > 0 \<longrightarrow> sdd_enabled (frames (sdd_exec E) s (take n ops))"
  shows "sdd_active_mode (frames (sdd_exec E) s ops) = sdd_active_mode s"
  using assms
proof (induction ops arbitrary: s)
  case (Cons op ops)
  let ?s = "sdd_exec E s op"
  have "sdd_enabled (frames (sdd_exec E) ?s (take n ops))" if "n \<le> length ops" for n
    using Cons.prems(2) [rule_format, of "Suc n"] that by simp
  then have later: "\<forall>n \<le> length ops. n > 0 \<longrightarrow> sdd_enabled (frames (sdd_exec E) ?s (take n ops))"
    and now: "sdd_enabled ?s"
    by (simp, metis frames.simps(1) le0 take0)
  have "sdd_active_mode ?s = sdd_active_mode s" by (rule exec_enabled_mode [OF Cons.prems(1) now])
  with Cons.IH [OF sdd_exec_inv [OF Cons.prems(1)] later] show ?case by simp
qed simp

theorem longitudinal_mode_latched_witness:
  "sdd_active_mode (frames (sdd_exec example_env) (example_sdd False)
     [ParamsThread \<lparr>pr_IsMetric = True, pr_IsLdwEnabled = False, pr_DisengageOnAccelerator = False,
        pr_CustomLongitudinalEnabled = True, pr_CustomLongitudinalMode = LM_ACC, pr_ExperimentalMode = False,
        pr_LongitudinalPersonality = 1, pr_mads = example_params\<rparr>]) = LM_SCC"
  by (subst longitudinal_mode_latched [OF example_sdd_inv])
    (auto simp: less_Suc_eq_le le_Suc_eq sdd_enabled_def params_thread_step_def Let_def example_sdd_def)

text \<open>
  The invariant of the whole process, from its constructor on and through any sequence of
  frames and parameter changes: both event stores answer by their event lists, and MADS's
  flags \<open>enabled\<close> and \<open>active\<close> say what its state says.
\<close>

theorem process_invariant:
  "let s = frames (sdd_exec E) (sdd_init E ii) ops; d = env_mici E; m = sdd_mads s in
     ev_wf (EVENTS d) (sdd_events s) \<and> ev_wf (EVENTS_SP d) (sh_events_sp (sdd_shared s)) \<and>
     (md_enabled m \<longleftrightarrow> md_state m \<noteq> MS_disabled) \<and>
     (md_active m \<longleftrightarrow> md_state m \<noteq> MS_disabled \<and> md_state m \<noteq> MS_paused)"
  using sdd_run.run_inv [OF sdd_init_inv, of ops E ii]
  by (simp add: Let_def sdd_inv_def sdd_wf_def sh_wf_def sdd_events_def mads_inv_def)

text \<open>
  Published engagement matches the state machine: the message that a step of an initialised
  process outside dashcam mode publishes, whatever alert it shows, has the \<open>enabled\<close> flag set
  exactly if the published state is engaged, a MADS that is published as active is also
  published as enabled, and \<open>engageable\<close> says that no event of the store refuses entry.
\<close>

theorem published_state_consistent:
  assumes "sdd_inv E s" "sdd_initialized s" "\<not> cp_passive (env_CP E)"
  shows "let t = snd (step_controls E i s); m = publish_selfdriveState (sdd_config t) (t\<lparr>sdd_AM := am\<rparr>) in
    (ss_enabled m \<longleftrightarrow> ss_state m \<noteq> OP_disabled) \<and> (ss_mads_active m \<longrightarrow> ss_mads_enabled m) \<and>
    (ss_engageable m \<longleftrightarrow>
       \<not> (\<exists>e. e \<in># ev_bag (sdd_events t) \<and> ET_NO_ENTRY \<in> set (types_of (EVENTS (env_mici E)) e)))"
proof -
  let ?s2 = "update_events E (sdd_config s) i (sample_CS i s) (snd (data_sample E i s))"
  obtain s3 where s3: "sdd_wf E s3" "sdd_enabled s3 = sdd_enabled (step_main_machine E ?s2)"
      "sh_sm (sdd_shared s3) = sh_sm (sdd_shared (step_main_machine E ?s2))"
    and s2: "sdd_initialized ?s2"
    and step: "step_controls E i s = (sample_CS i s, step_mads E i (sample_CS i s) s3)"
    by (rule step_initialized [OF assms, of i])
  define t where "t = snd (step_controls E i s)"
  have t: "t = step_mads E i (sample_CS i s) s3" by (simp add: t_def step)
  have en: "sdd_enabled t \<longleftrightarrow> sm_state (sh_sm (sdd_shared t)) \<noteq> OP_disabled"
    unfolding t using s3 step_main_machine_enabled [OF assms(3) s2] step_main_machine_state [OF assms(3) s2]
    by simp
  have inv: "sdd_inv E t" unfolding t_def by (rule step_controls_inv [OF assms(1)])
  then have "mads_inv (sdd_mads t)" "ev_wf (EVENTS (env_mici E)) (sdd_events t)"
    using wf_events by (simp_all add: sdd_inv_def)
  with en show ?thesis
    unfolding Let_def t_def [symmetric]
    by (auto simp: publish_selfdriveState_def mads_inv_def sdd_enabled_def sdd_events_def ev.contains_bag)
qed

theorem published_state_consistent_witness:
  "let t = snd (step_controls example_env (example_in example_brake [] True) (example_sdd False));
       m = publish_selfdriveState (sdd_config t) (t\<lparr>sdd_AM := am_init\<rparr>)
   in ss_enabled m \<longleftrightarrow> ss_state m \<noteq> OP_disabled"
  using published_state_consistent [OF example_sdd_inv example_sdd_simps(1,2)] by (simp add: Let_def)

end
