(* ===== verification/Filters.thy ===== *)
theory Filters
  imports Prelude
begin

text \<open>
  The running filters of \<open>common/filter_simple.py\<close> (\<open>FirstOrderFilter\<close>) and
  \<open>common/stat_live.py\<close> (\<open>RunningStat\<close>, \<open>RunningStatFilter\<close>): the filter's value stays between
  its inputs and converges geometrically, and a running statistic's variance is never
  negative, so that its standard deviation is defined.
\<close>

subsection \<open>FirstOrderFilter\<close>

record first_order_filter =
  fo_x :: real
  fo_dt :: real
  fo_alpha :: real
  fo_initialized :: bool

definition fo_update_alpha :: "real \<Rightarrow> first_order_filter \<Rightarrow> first_order_filter" where
  "fo_update_alpha rc f = f\<lparr>fo_alpha := fo_dt f / (rc + fo_dt f)\<rparr>"

definition FirstOrderFilter :: "real \<Rightarrow> real \<Rightarrow> real \<Rightarrow> bool \<Rightarrow> first_order_filter" where
  "FirstOrderFilter x0 rc dt initialized =
     fo_update_alpha rc \<lparr>fo_x = x0, fo_dt = dt, fo_alpha = 0, fo_initialized = initialized\<rparr>"

definition fo_update :: "real \<Rightarrow> first_order_filter \<Rightarrow> first_order_filter" where
  "fo_update x f =
     (if fo_initialized f then f\<lparr>fo_x := (1 - fo_alpha f) * fo_x f + fo_alpha f * x\<rparr>
      else f\<lparr>fo_initialized := True, fo_x := x\<rparr>)"

subsection \<open>RunningStat\<close>

record running_stat =
  rs_M :: real
  rs_S :: real
  rs_M_last :: real
  rs_S_last :: real
  rs_n :: int
  rs_max_trackable :: int

definition rs_reset :: "running_stat \<Rightarrow> running_stat" where
  "rs_reset r = r\<lparr>rs_M := 0, rs_S := 0, rs_M_last := 0, rs_S_last := 0, rs_n := 0\<rparr>"

definition RunningStat :: "(real \<times> real \<times> int) option \<Rightarrow> int \<Rightarrow> running_stat" where
  "RunningStat priors max_trackable =
     (case priors of
        Some (m, s, n) \<Rightarrow>
          \<lparr>rs_M = m, rs_S = s, rs_M_last = m, rs_S_last = s, rs_n = n, rs_max_trackable = max_trackable\<rparr>
      | None \<Rightarrow>
          rs_reset \<lparr>rs_M = 0, rs_S = 0, rs_M_last = 0, rs_S_last = 0, rs_n = 0,
            rs_max_trackable = max_trackable\<rparr>)"

definition rs_push_data :: "real \<Rightarrow> running_stat \<Rightarrow> running_stat" where
  "rs_push_data x r =
     (let r = (if rs_max_trackable r < 0 \<or> rs_n r < rs_max_trackable r then r\<lparr>rs_n := rs_n r + 1\<rparr> else r)
      in if rs_n r = 0 then r\<lparr>rs_M_last := x, rs_M := x, rs_S_last := 0\<rparr>
         else
           (let M = rs_M_last r + (x - rs_M_last r) / of_int (rs_n r);
                S = rs_S_last r + (x - rs_M_last r) * (x - M)
            in r\<lparr>rs_M := M, rs_S := S, rs_M_last := M, rs_S_last := S\<rparr>))"

definition rs_variance :: "running_stat \<Rightarrow> real" where
  "rs_variance r = (if rs_n r \<ge> 2 then rs_S r / (of_int (rs_n r) - 1) else 0)"

definition rs_std :: "running_stat \<Rightarrow> real" where
  "rs_std r = sqrt (rs_variance r)"

subsection \<open>RunningStatFilter\<close>

record running_stat_filter =
  rf_raw :: running_stat
  rf_filtered :: running_stat

definition RunningStatFilter ::
  "(real \<times> real \<times> int) option \<Rightarrow> (real \<times> real \<times> int) option \<Rightarrow> int \<Rightarrow> running_stat_filter" where
  "RunningStatFilter raw_priors filtered_priors max_trackable =
     \<lparr>rf_raw = RunningStat raw_priors (-1), rf_filtered = RunningStat filtered_priors max_trackable\<rparr>"

definition rf_push_and_update :: "real \<Rightarrow> running_stat_filter \<Rightarrow> running_stat_filter" where
  "rf_push_and_update x f =
     (let std_last = rs_std (rf_raw f);
          f = f\<lparr>rf_raw := rs_push_data x (rf_raw f)\<rparr>
      in if rs_std (rf_raw f) - std_last \<le> 0
         then f\<lparr>rf_filtered := rs_push_data x (rf_filtered f)\<rparr> else f)"

subsection \<open>The first-order filter\<close>

definition fo_ok :: "first_order_filter \<Rightarrow> bool" where
  "fo_ok f \<longleftrightarrow> fo_initialized f \<and> 0 \<le> fo_alpha f \<and> fo_alpha f \<le> 1"

lemma fo_update_fields [simp]:
  "fo_alpha (fo_update x f) = fo_alpha f" "fo_dt (fo_update x f) = fo_dt f"
  "fo_initialized (fo_update x f)"
  by (simp_all add: fo_update_def)

lemma fo_update_ok: "fo_ok f \<Longrightarrow> fo_ok (fo_update x f)"
  by (simp add: fo_ok_def)

text \<open>A convex combination: the value stays in any interval that holds it and the input.\<close>

lemma fo_update_bounds:
  assumes "fo_ok f" "lo \<le> fo_x f" "fo_x f \<le> hi" "lo \<le> x" "x \<le> hi"
  shows "lo \<le> fo_x (fo_update x f)" "fo_x (fo_update x f) \<le> hi"
proof -
  let ?a = "fo_alpha f"
  have a: "0 \<le> ?a" "0 \<le> 1 - ?a" and i: "fo_initialized f" using assms(1) by (auto simp: fo_ok_def)
  have "(1 - ?a) * lo + ?a * lo \<le> (1 - ?a) * fo_x f + ?a * x"
    using a assms(2,4) by (intro add_mono mult_left_mono) auto
  then show "lo \<le> fo_x (fo_update x f)" using i by (simp add: fo_update_def algebra_simps)
  have "(1 - ?a) * fo_x f + ?a * x \<le> (1 - ?a) * hi + ?a * hi"
    using a assms(3,5) by (intro add_mono mult_left_mono) auto
  then show "fo_x (fo_update x f) \<le> hi" using i by (simp add: fo_update_def algebra_simps)
qed

lemma fo_update_error: "fo_initialized f \<Longrightarrow> c - fo_x (fo_update c f) = (1 - fo_alpha f) * (c - fo_x f)"
  by (simp add: fo_update_def algebra_simps)

text \<open>Geometric convergence to a constant input.\<close>

lemma fo_converges:
  assumes "fo_initialized f"
  shows "c - fo_x ((fo_update c ^^ n) f) = (1 - fo_alpha f) ^ n * (c - fo_x f)"
proof (induction n)
  case (Suc n)
  have "fo_initialized ((fo_update c ^^ n) f)" "fo_alpha ((fo_update c ^^ n) f) = fo_alpha f"
    using assms by (induction n) simp_all
  with Suc show ?case by (simp add: fo_update_error)
qed simp

subsection \<open>The running statistic\<close>

definition rs_ok :: "running_stat \<Rightarrow> bool" where
  "rs_ok r \<longleftrightarrow> 0 \<le> rs_n r \<and> 0 \<le> rs_S r \<and> 0 \<le> rs_S_last r"

lemma rs_push_step_nonneg:
  fixes x m :: real
  assumes "(n::int) \<ge> 1"
  shows "0 \<le> (x - m) * (x - (m + (x - m) / of_int n))"
proof -
  define k :: real where "k = 1 / of_int n"
  have "(x - m) * (x - (m + (x - m) / of_int n)) = (x - m)\<^sup>2 * (1 - k)"
    by (simp add: k_def power2_eq_square algebra_simps diff_divide_distrib)
  moreover have "0 \<le> 1 - k" using assms by (simp add: k_def)
  ultimately show ?thesis by simp
qed

lemma rs_push_data_ok:
  assumes "rs_ok r"
  shows "rs_ok (rs_push_data x r)"
proof -
  let ?r = "if rs_max_trackable r < 0 \<or> rs_n r < rs_max_trackable r then r\<lparr>rs_n := rs_n r + 1\<rparr> else r"
  have "rs_ok ?r" using assms by (simp add: rs_ok_def)
  then show ?thesis
    unfolding rs_push_data_def Let_def
    using rs_push_step_nonneg [of "rs_n ?r" x "rs_M_last ?r"]
    by (auto simp: rs_ok_def add_nonneg_nonneg)
qed

lemma rs_variance_nonneg: "rs_ok r \<Longrightarrow> 0 \<le> rs_variance r"
  by (simp add: rs_variance_def rs_ok_def)

text \<open>The count never passes the trackable maximum and never falls.\<close>

lemma rs_push_data_n:
  "rs_n r \<le> rs_n (rs_push_data x r)"
  "rs_max_trackable (rs_push_data x r) = rs_max_trackable r"
  "0 \<le> rs_max_trackable r \<Longrightarrow> rs_n r \<le> rs_max_trackable r \<Longrightarrow>
     rs_n (rs_push_data x r) \<le> rs_max_trackable r"
  by (auto simp: rs_push_data_def Let_def)

lemma rf_push_and_update_ok:
  "rs_ok (rf_raw f) \<Longrightarrow> rs_ok (rf_filtered f) \<Longrightarrow>
   rs_ok (rf_raw (rf_push_and_update x f)) \<and> rs_ok (rf_filtered (rf_push_and_update x f))"
  by (simp add: rf_push_and_update_def Let_def rs_push_data_ok)

end
