(* ===== verification/Driver_Monitoring.thy ===== *)
theory Driver_Monitoring
  imports Filters Car_State
begin

text \<open>
  Driver monitoring: \<open>DriverMonitoring\<close> of \<open>selfdrive/monitoring/policy.py\<close> and the loop of
  \<open>selfdrive/monitoring/dmonitoringd.py\<close> around it.

  \<^item> \<open>dm\<close> is the object's state, \<open>driver_state\<close> the output of the monitoring network, \<open>dm_in\<close> what
    one step reads from the other messages.
  \<^item> The operations have the names of the methods; \<open>run_step\<close> is one step at 20 Hz. An access
    beyond the end of a message list raises \<open>IndexError\<close>, the left value of the result.
  \<^item> \<open>dm_param_puts\<close> records the values written to the parameter \<open>DriverLockoutCount\<close>; the count
    is a natural number because this class is the parameter's only writer.

  The lemmas show the invariant of every run, that the steps cannot fail on complete messages,
  that persistent distraction ends in the terminal alert within a fixed number of steps, and
  how lockouts come and go.
\<close>

subsection \<open>Settings\<close>

record dm_settings =
  st_ALERT_MIN_SPEED :: real
  st_WHEELTOUCH_POLICY_ALERT_1_TIMEOUT :: real
  st_WHEELTOUCH_POLICY_ALERT_2_TIMEOUT :: real
  st_WHEELTOUCH_POLICY_ALERT_3_TIMEOUT :: real
  st_VISION_POLICY_ALERT_1_TIMEOUT :: real
  st_VISION_POLICY_ALERT_2_TIMEOUT :: real
  st_VISION_POLICY_ALERT_3_TIMEOUT :: real
  st_NO_RESPONSE_TIMEOUT :: real
  st_MAX_ALERT_3 :: int
  st_MAX_NO_RESPONSE :: int
  st_LOCKOUT_TIMES :: "int list"
  st_TIMEOUT_RECOVERY_FACTOR_MAX :: real
  st_TIMEOUT_RECOVERY_FACTOR_MIN :: real
  st_FACE_THRESHOLD :: real
  st_EYE_THRESHOLD :: real
  st_SG_THRESHOLD :: real
  st_BLINK_THRESHOLD :: real
  st_PHONE_THRESH :: real
  st_POSE_PITCH_THRESHOLD :: real
  st_POSE_PITCH_THRESHOLD_SLACK :: real
  st_POSE_PITCH_THRESHOLD_STRICT :: real
  st_POSE_YAW_THRESHOLD :: real
  st_POSE_YAW_THRESHOLD_SLACK :: real
  st_POSE_YAW_THRESHOLD_STRICT :: real
  st_POSE_YAW_MIN_STEER_DEG :: real
  st_POSE_YAW_STEER_FACTOR :: real
  st_POSE_YAW_STEER_MAX_OFFSET :: real
  st_PITCH_NATURAL_OFFSET :: real
  st_PITCH_NATURAL_THRESHOLD :: real
  st_YAW_NATURAL_OFFSET :: real
  st_PITCH_NATURAL_VAR :: real
  st_YAW_NATURAL_VAR :: real
  st_PITCH_MAX_OFFSET :: real
  st_PITCH_MIN_OFFSET :: real
  st_YAW_MAX_OFFSET :: real
  st_YAW_MIN_OFFSET :: real
  st_DCAM_UNCERTAIN_ALERT_THRESHOLD :: real
  st_DCAM_UNCERTAIN_ALERT_COUNT :: int
  st_DCAM_UNCERTAIN_RESET_COUNT :: int
  st_HI_STD_THRESHOLD :: real
  st_HI_STD_FALLBACK_TIME :: int
  st_DISTRACTED_FILTER_TS :: real
  st_POSE_CALIB_MIN_SPEED :: real
  st_POSE_OFFSET_MIN_COUNT :: int
  st_POSE_OFFSET_MAX_COUNT :: int
  st_WHEELPOS_CALIB_MIN_SPEED :: real
  st_WHEELPOS_THRESHOLD :: real
  st_WHEELPOS_FILTER_MIN_COUNT :: int
  st_WHEELPOS_DATA_AVG :: real
  st_WHEELPOS_DATA_VAR :: real
  st_WHEELPOS_MAX_COUNT :: int

definition DRIVER_MONITOR_SETTINGS :: dm_settings where
  "DRIVER_MONITOR_SETTINGS =
     \<lparr>st_ALERT_MIN_SPEED = 28 / 10,
      st_WHEELTOUCH_POLICY_ALERT_1_TIMEOUT = 5,
      st_WHEELTOUCH_POLICY_ALERT_2_TIMEOUT = 15,
      st_WHEELTOUCH_POLICY_ALERT_3_TIMEOUT = 25,
      st_VISION_POLICY_ALERT_1_TIMEOUT = 5,
      st_VISION_POLICY_ALERT_2_TIMEOUT = 8,
      st_VISION_POLICY_ALERT_3_TIMEOUT = 13,
      st_NO_RESPONSE_TIMEOUT = 5,
      st_MAX_ALERT_3 = 2,
      st_MAX_NO_RESPONSE = 1,
      st_LOCKOUT_TIMES = map (\<lambda>n_min. py_int (60 * n_min / DT_DMON)) [1, 5, 15, 30],
      st_TIMEOUT_RECOVERY_FACTOR_MAX = 5,
      st_TIMEOUT_RECOVERY_FACTOR_MIN = 125 / 100,
      st_FACE_THRESHOLD = 7 / 10,
      st_EYE_THRESHOLD = 65 / 100,
      st_SG_THRESHOLD = 9 / 10,
      st_BLINK_THRESHOLD = 865 / 1000,
      st_PHONE_THRESH = 1 / 2,
      st_POSE_PITCH_THRESHOLD = 3133 / 10000,
      st_POSE_PITCH_THRESHOLD_SLACK = 3237 / 10000,
      st_POSE_PITCH_THRESHOLD_STRICT = 3133 / 10000,
      st_POSE_YAW_THRESHOLD = 4020 / 10000,
      st_POSE_YAW_THRESHOLD_SLACK = 5042 / 10000,
      st_POSE_YAW_THRESHOLD_STRICT = 4020 / 10000,
      st_POSE_YAW_MIN_STEER_DEG = 30,
      st_POSE_YAW_STEER_FACTOR = 15 / 100,
      st_POSE_YAW_STEER_MAX_OFFSET = 3927 / 10000,
      st_PITCH_NATURAL_OFFSET = 11 / 1000,
      st_PITCH_NATURAL_THRESHOLD = 449 / 1000,
      st_YAW_NATURAL_OFFSET = 75 / 1000,
      st_PITCH_NATURAL_VAR = 3 * (1 / 100),
      st_YAW_NATURAL_VAR = 3 * (5 / 100),
      st_PITCH_MAX_OFFSET = 124 / 1000,
      st_PITCH_MIN_OFFSET = - (881 / 10000),
      st_YAW_MAX_OFFSET = 289 / 1000,
      st_YAW_MIN_OFFSET = - (246 / 10000),
      st_DCAM_UNCERTAIN_ALERT_THRESHOLD = 1 / 10,
      st_DCAM_UNCERTAIN_ALERT_COUNT = py_int (60 / DT_DMON),
      st_DCAM_UNCERTAIN_RESET_COUNT = py_int (2 / DT_DMON),
      st_HI_STD_THRESHOLD = 3 / 10,
      st_HI_STD_FALLBACK_TIME = py_int (10 / DT_DMON),
      st_DISTRACTED_FILTER_TS = 25 / 100,
      st_POSE_CALIB_MIN_SPEED = 13,
      st_POSE_OFFSET_MIN_COUNT = py_int (60 / DT_DMON),
      st_POSE_OFFSET_MAX_COUNT = py_int (360 / DT_DMON),
      st_WHEELPOS_CALIB_MIN_SPEED = 11,
      st_WHEELPOS_THRESHOLD = 1 / 2,
      st_WHEELPOS_FILTER_MIN_COUNT = py_int (15 / DT_DMON),
      st_WHEELPOS_DATA_AVG = 3 / 100,
      st_WHEELPOS_DATA_VAR = 3 * (55 / 1000000),
      st_WHEELPOS_MAX_COUNT = -1\<rparr>"

subsection \<open>State\<close>

datatype monitoring_policy = MP_wheeltouch | MP_vision

record driver_pose =
  po_yaw :: real
  po_pitch :: real
  po_pitch_offsetter :: running_stat_filter
  po_yaw_offsetter :: running_stat_filter
  po_calibrated :: bool
  po_low_std :: bool
  po_cfactor_pitch :: real
  po_cfactor_yaw :: real
  po_steer_yaw_offset :: real

definition DriverPose :: "dm_settings \<Rightarrow> driver_pose" where
  "DriverPose s =
     \<lparr>po_yaw = 0, po_pitch = 0,
      po_pitch_offsetter = RunningStatFilter (Some (st_PITCH_NATURAL_OFFSET s, st_PITCH_NATURAL_VAR s, 2))
        None (st_POSE_OFFSET_MAX_COUNT s),
      po_yaw_offsetter = RunningStatFilter (Some (st_YAW_NATURAL_OFFSET s, st_YAW_NATURAL_VAR s, 2))
        None (st_POSE_OFFSET_MAX_COUNT s),
      po_calibrated = False, po_low_std = True, po_cfactor_pitch = 1, po_cfactor_yaw = 1,
      po_steer_yaw_offset = 0\<rparr>"

text \<open>\<open>distracted_types\<close>, a \<open>defaultdict(bool)\<close> with the keys \<open>pose\<close>, \<open>eye\<close> and \<open>phone\<close>.\<close>

record distracted_types =
  dt_pose :: bool
  dt_eye :: bool
  dt_phone :: bool

record dm =
  dm_settings :: dm_settings
  dm_wheelpos_offsetter :: running_stat_filter
  dm_pose :: driver_pose
  dm_blink_left :: real
  dm_blink_right :: real
  dm_phone_prob :: real
  dm_alert_level :: alert_level
  dm_always_on :: bool
  dm_distracted_types :: distracted_types
  dm_driver_distracted :: bool
  dm_driver_distraction_filter :: first_order_filter
  dm_wheel_on_right :: bool
  dm_wheel_on_right_last :: "bool option"
  dm_wheel_on_right_default :: bool
  dm_face_detected :: bool
  dm_alert_3_cnt :: int
  dm_cnt_since_alert_3 :: int
  dm_no_response_timeout :: int
  dm_no_response_cnt :: int
  dm_lockout_active :: bool
  dm_lockout_count :: nat
  dm_lockout_duration :: int
  dm_lockout_time_elapsed :: int
  dm_step_change :: real
  dm_active_policy :: monitoring_policy
  dm_driver_interacting :: bool
  dm_is_model_uncertain :: bool
  dm_hi_stds :: int
  dm_model_std_max :: real
  dm_threshold_alert_1 :: real
  dm_threshold_alert_2 :: real
  dm_dcam_uncertain_cnt :: int
  dm_dcam_reset_cnt :: int
  dm_awareness :: real
  dm_last_vision_awareness :: real
  dm_last_wheeltouch_awareness :: real
  dm_param_puts :: "nat list"

text \<open>What the network reports for one seat, and both seats.\<close>

record driver_data =
  dd_faceProb :: real
  dd_faceOrientation :: "real list"
  dd_facePosition :: "real list"
  dd_faceOrientationStd :: "real list"
  dd_facePositionStd :: "real list"
  dd_leftEyeProb :: real
  dd_rightEyeProb :: real
  dd_leftBlinkProb :: real
  dd_rightBlinkProb :: real
  dd_sunglassesProb :: real
  dd_phoneProb :: real

record driver_state =
  ds_wheelOnRightProb :: real
  ds_leftDriverData :: driver_data
  ds_rightDriverData :: driver_data
  ds_frameId :: int

subsection \<open>Operations\<close>

definition to_percent :: "real \<Rightarrow> int" where
  "to_percent v = py_int (min (max (v * 100) 0) 100)"

definition reset_awareness :: "dm \<Rightarrow> dm" where
  "reset_awareness s = s\<lparr>dm_awareness := 1, dm_last_vision_awareness := 1, dm_last_wheeltouch_awareness := 1\<rparr>"

definition set_policy :: "monitoring_policy \<Rightarrow> dm \<Rightarrow> dm" where
  "set_policy target s =
     (let st = dm_settings s in
      if dm_active_policy s = MP_vision \<and> dm_awareness s \<le> dm_threshold_alert_2 s then
        (if target = MP_vision then s\<lparr>dm_step_change := DT_DMON / st_VISION_POLICY_ALERT_3_TIMEOUT st\<rparr>
         else s\<lparr>dm_step_change := 0\<rparr>)
      else if dm_awareness s \<le> 0 then s
      else if target = MP_vision then
        (let s = (if dm_active_policy s \<noteq> MP_vision
                  then s\<lparr>dm_last_wheeltouch_awareness := dm_awareness s,
                         dm_awareness := dm_last_vision_awareness s\<rparr> else s)
         in s\<lparr>dm_threshold_alert_1 := 1 - st_VISION_POLICY_ALERT_1_TIMEOUT st / st_VISION_POLICY_ALERT_3_TIMEOUT st,
              dm_threshold_alert_2 := 1 - st_VISION_POLICY_ALERT_2_TIMEOUT st / st_VISION_POLICY_ALERT_3_TIMEOUT st,
              dm_step_change := DT_DMON / st_VISION_POLICY_ALERT_3_TIMEOUT st,
              dm_active_policy := MP_vision\<rparr>)
      else
        (let s = (if dm_active_policy s = MP_vision
                  then s\<lparr>dm_last_vision_awareness := dm_awareness s,
                         dm_awareness := dm_last_wheeltouch_awareness s\<rparr> else s)
         in s\<lparr>dm_threshold_alert_1 := 1 - st_WHEELTOUCH_POLICY_ALERT_1_TIMEOUT st / st_WHEELTOUCH_POLICY_ALERT_3_TIMEOUT st,
              dm_threshold_alert_2 := 1 - st_WHEELTOUCH_POLICY_ALERT_2_TIMEOUT st / st_WHEELTOUCH_POLICY_ALERT_3_TIMEOUT st,
              dm_step_change := DT_DMON / st_WHEELTOUCH_POLICY_ALERT_3_TIMEOUT st,
              dm_active_policy := MP_wheeltouch\<rparr>))"

definition dm_init :: "dm_settings \<Rightarrow> bool \<Rightarrow> bool \<Rightarrow> bool \<Rightarrow> nat \<Rightarrow> dm" where
  "dm_init st rhd_saved always_on too_distracted lockout_count =
     set_policy MP_vision (reset_awareness
      \<lparr>dm_settings = st,
       dm_wheelpos_offsetter = RunningStatFilter (Some (st_WHEELPOS_DATA_AVG st, st_WHEELPOS_DATA_VAR st, 2))
         None (st_WHEELPOS_MAX_COUNT st),
       dm_pose = DriverPose st, dm_blink_left = 0, dm_blink_right = 0, dm_phone_prob = 0,
       dm_alert_level = AL_none, dm_always_on = always_on,
       dm_distracted_types = \<lparr>dt_pose = False, dt_eye = False, dt_phone = False\<rparr>,
       dm_driver_distracted = False,
       dm_driver_distraction_filter = FirstOrderFilter 0 (st_DISTRACTED_FILTER_TS st) DT_DMON True,
       dm_wheel_on_right = False, dm_wheel_on_right_last = None, dm_wheel_on_right_default = rhd_saved,
       dm_face_detected = False, dm_alert_3_cnt = 0, dm_cnt_since_alert_3 = 0,
       dm_no_response_timeout = py_int (st_NO_RESPONSE_TIMEOUT st / DT_DMON),
       dm_no_response_cnt = 0, dm_lockout_active = too_distracted, dm_lockout_count = lockout_count,
       dm_lockout_duration = st_LOCKOUT_TIMES st ! min (lockout_count - 1) (length (st_LOCKOUT_TIMES st) - 1),
       dm_lockout_time_elapsed = 0, dm_step_change = 0, dm_active_policy = MP_vision,
       dm_driver_interacting = False, dm_is_model_uncertain = False, dm_hi_stds = 0,
       dm_model_std_max = 0, dm_threshold_alert_1 = 0, dm_threshold_alert_2 = 0,
       dm_dcam_uncertain_cnt = 0, dm_dcam_reset_cnt = 0,
       dm_awareness = 1, dm_last_vision_awareness = 1, dm_last_wheeltouch_awareness = 1,
       dm_param_puts = []\<rparr>)"

definition set_pose_strictness :: "real \<Rightarrow> real \<Rightarrow> dm \<Rightarrow> dm" where
  "set_pose_strictness brake_disengage_prob car_speed s =
     (let st = dm_settings s;
          k1 = max (- (156 / 100000) * (car_speed - 16)\<^sup>2 + 6 / 10) (2 / 10);
          bp_normal = max (min (brake_disengage_prob / k1) (1 / 2)) 0
      in s\<lparr>dm_pose := (dm_pose s)
             \<lparr>po_cfactor_pitch := np_interp bp_normal [(0, st_POSE_PITCH_THRESHOLD_SLACK st), (1 / 2, st_POSE_PITCH_THRESHOLD_STRICT st)]
                / st_POSE_PITCH_THRESHOLD st,
              po_cfactor_yaw := np_interp bp_normal [(0, st_POSE_YAW_THRESHOLD_SLACK st), (1 / 2, st_POSE_YAW_THRESHOLD_STRICT st)]
                / st_POSE_YAW_THRESHOLD st\<rparr>\<rparr>)"

definition get_distracted_types :: "dm \<Rightarrow> dm" where
  "get_distracted_types s =
     (let st = dm_settings s; p = dm_pose s;
          pitch_error = po_pitch p -
            (if po_calibrated p then
               min (max (rs_M (rf_filtered (po_pitch_offsetter p))) (st_PITCH_MIN_OFFSET st)) (st_PITCH_MAX_OFFSET st)
             else st_PITCH_NATURAL_OFFSET st);
          yaw_error = po_yaw p -
            (if po_calibrated p then
               min (max (rs_M (rf_filtered (po_yaw_offsetter p))) (st_YAW_MIN_OFFSET st)) (st_YAW_MAX_OFFSET st)
             else st_YAW_NATURAL_OFFSET st);
          pitch_error = (if pitch_error > 0 then 0 else \<bar>pitch_error\<bar>);
          yaw_error = (if yaw_error * po_steer_yaw_offset p > 0
            then max (\<bar>yaw_error\<bar> - min \<bar>po_steer_yaw_offset p\<bar> (st_POSE_YAW_STEER_MAX_OFFSET st)) 0
            else \<bar>yaw_error\<bar>);
          pitch_threshold = (if po_calibrated p then st_POSE_PITCH_THRESHOLD st * po_cfactor_pitch p
                             else st_PITCH_NATURAL_THRESHOLD st);
          yaw_threshold = st_POSE_YAW_THRESHOLD st * po_cfactor_yaw p
      in s\<lparr>dm_distracted_types :=
             \<lparr>dt_pose = pitch_error > pitch_threshold \<or> yaw_error > yaw_threshold,
              dt_eye = (dm_blink_left s + dm_blink_right s) * (1 / 2) > st_BLINK_THRESHOLD st,
              dt_phone = dm_phone_prob s > st_PHONE_THRESH st\<rparr>\<rparr>)"

text \<open>
  Width and height of the undistorted reference camera, \<open>DEVICE_CAMERAS[("tici", "ar0231")].dcam\<close>
  of \<open>common/transformations/camera.py\<close>. The second argument of both \<open>atan2\<close> calls is the
  positive focal length, so \<open>atan2 y x\<close> is \<open>arctan (y / x)\<close>.
\<close>

definition dcam_undistorted_FL :: real where "dcam_undistorted_FL = 598"
definition dcam_undistorted_W :: int where "dcam_undistorted_W = 1928"
definition dcam_undistorted_H :: int where "dcam_undistorted_H = 1208"

definition face_orientation_from_model ::
  "real list \<Rightarrow> real list \<Rightarrow> real list \<Rightarrow> py_error + real \<times> real" where
  "face_orientation_from_model orient_model pos_model rpy_calib =
     bind_result (py_index orient_model 0) (\<lambda>pitch_model.
     bind_result (py_index orient_model 1) (\<lambda>yaw_model.
     bind_result (py_index pos_model 0) (\<lambda>pos0.
     bind_result (py_index pos_model 1) (\<lambda>pos1.
       (let W = of_int dcam_undistorted_W; H = of_int dcam_undistorted_H;
            yaw_focal_angle = arctan (((pos0 + 1/2) * W - of_int (dcam_undistorted_W div 2)) / dcam_undistorted_FL);
            pitch_focal_angle = arctan (((pos1 + 1/2) * H - of_int (dcam_undistorted_H div 2)) / dcam_undistorted_FL);
            pitch = pitch_model + pitch_focal_angle;
            yaw = - yaw_model + yaw_focal_angle
        in bind_result (py_index rpy_calib 1) (\<lambda>c1.
           bind_result (py_index rpy_calib 2) (\<lambda>c2. Inr (pitch - c1, yaw - c2))))))))"

text \<open>
  \<open>_update_states\<close>, in the order of the method: the side of the wheel, the reading of the
  face, the learning of the offsets, the count of uncertain frames, the choice of the policy.
\<close>

definition us_wheel_side :: "driver_state \<Rightarrow> real \<Rightarrow> bool \<Rightarrow> bool \<Rightarrow> dm \<Rightarrow> dm" where
  "us_wheel_side ds car_speed op_engaged demo_mode s =
     (let st = dm_settings s;
          s = (if car_speed > st_WHEELPOS_CALIB_MIN_SPEED st \<and>
                  (dd_faceProb (ds_leftDriverData ds) > st_FACE_THRESHOLD st \<or>
                   dd_faceProb (ds_rightDriverData ds) > st_FACE_THRESHOLD st)
               then s\<lparr>dm_wheelpos_offsetter := rf_push_and_update (ds_wheelOnRightProb ds) (dm_wheelpos_offsetter s)\<rparr>
               else s);
          wheelpos_calibrated = rs_n (rf_filtered (dm_wheelpos_offsetter s)) \<ge> st_WHEELPOS_FILTER_MIN_COUNT st;
          right = (if wheelpos_calibrated \<or> demo_mode
                   then rs_M (rf_filtered (dm_wheelpos_offsetter s)) > st_WHEELPOS_THRESHOLD st
                   else dm_wheel_on_right_default s)
      in s\<lparr>dm_wheel_on_right :=
            (case dm_wheel_on_right_last s of
               Some prev \<Rightarrow> (if op_engaged \<and> prev \<noteq> right \<and> \<not> demo_mode then prev else right)
             | None \<Rightarrow> right)\<rparr>)"

definition us_driver_data :: "driver_state \<Rightarrow> dm \<Rightarrow> driver_data" where
  "us_driver_data ds s = (if dm_wheel_on_right s then ds_rightDriverData ds else ds_leftDriverData ds)"

definition us_complete :: "driver_data \<Rightarrow> bool" where
  "us_complete d \<longleftrightarrow> dd_faceOrientation d \<noteq> [] \<and> dd_facePosition d \<noteq> [] \<and>
     dd_faceOrientationStd d \<noteq> [] \<and> dd_facePositionStd d \<noteq> []"

definition blink_prob :: "dm_settings \<Rightarrow> real \<Rightarrow> real \<Rightarrow> real \<Rightarrow> real" where
  "blink_prob st blink eye sg = (if eye > st_EYE_THRESHOLD st \<and> sg < st_SG_THRESHOLD st then blink else 0)"

definition us_record_face :: "driver_data \<Rightarrow> real \<Rightarrow> real \<times> real \<Rightarrow> real \<Rightarrow> dm \<Rightarrow> dm" where
  "us_record_face d steering_angle_deg py std_max s =
     (let st = dm_settings s;
          steer_d = max (\<bar>steering_angle_deg\<bar> - st_POSE_YAW_MIN_STEER_DEG st) 0;
          offset = steer_d * pi / 180 * - sgn steering_angle_deg * st_POSE_YAW_STEER_FACTOR st;
          right = dm_wheel_on_right s
      in s\<lparr>dm_face_detected := dd_faceProb d > st_FACE_THRESHOLD st,
           dm_pose := (dm_pose s)
             \<lparr>po_pitch := fst py, po_yaw := (if right then - snd py else snd py),
              po_steer_yaw_offset := (if right then - offset else offset),
              po_low_std := std_max < st_HI_STD_THRESHOLD st\<rparr>,
           dm_wheel_on_right_last := Some right,
           dm_model_std_max := std_max,
           dm_blink_left := blink_prob st (dd_leftBlinkProb d) (dd_leftEyeProb d) (dd_sunglassesProb d),
           dm_blink_right := blink_prob st (dd_rightBlinkProb d) (dd_rightEyeProb d) (dd_sunglassesProb d),
           dm_phone_prob := dd_phoneProb d\<rparr>)"

definition us_judge_face :: "driver_data \<Rightarrow> dm \<Rightarrow> dm" where
  "us_judge_face d s =
     (let t = dm_distracted_types s;
          distracted = (dt_pose t \<or> dt_eye t \<or> dt_phone t) \<and>
            dd_faceProb d > st_FACE_THRESHOLD (dm_settings s) \<and> po_low_std (dm_pose s)
      in s\<lparr>dm_driver_distracted := distracted,
           dm_driver_distraction_filter := fo_update (of_bool distracted) (dm_driver_distraction_filter s)\<rparr>)"

definition us_read_face :: "driver_data \<Rightarrow> real \<Rightarrow> real \<times> real \<Rightarrow> real \<Rightarrow> dm \<Rightarrow> dm" where
  "us_read_face d steering_angle_deg py std_max s =
     us_judge_face d (get_distracted_types (us_record_face d steering_angle_deg py std_max s))"

definition us_learn_offsets :: "real \<Rightarrow> bool \<Rightarrow> dm \<Rightarrow> dm" where
  "us_learn_offsets car_speed op_engaged s =
     (let st = dm_settings s; p = dm_pose s;
          p = (if dm_face_detected s \<and> car_speed > st_POSE_CALIB_MIN_SPEED st \<and> po_low_std p \<and>
                  (\<not> op_engaged \<or> \<not> dm_driver_distracted s)
               then p\<lparr>po_pitch_offsetter := rf_push_and_update (po_pitch p) (po_pitch_offsetter p),
                      po_yaw_offsetter := rf_push_and_update (po_yaw p) (po_yaw_offsetter p)\<rparr> else p)
      in s\<lparr>dm_pose := p\<lparr>po_calibrated :=
             rs_n (rf_filtered (po_pitch_offsetter p)) \<ge> st_POSE_OFFSET_MIN_COUNT st \<and>
             rs_n (rf_filtered (po_yaw_offsetter p)) \<ge> st_POSE_OFFSET_MIN_COUNT st\<rparr>\<rparr>)"

definition us_count_uncertain :: "bool \<Rightarrow> dm \<Rightarrow> dm" where
  "us_count_uncertain lowspeed s =
     (let st = dm_settings s in
      if dm_face_detected s \<and> \<not> dm_driver_distracted s then
        (if dm_model_std_max s > st_DCAM_UNCERTAIN_ALERT_THRESHOLD st \<and> \<not> lowspeed
         then s\<lparr>dm_dcam_uncertain_cnt := dm_dcam_uncertain_cnt s + 1, dm_dcam_reset_cnt := 0\<rparr>
         else
           (let s = s\<lparr>dm_dcam_reset_cnt := dm_dcam_reset_cnt s + 1\<rparr>
            in if dm_dcam_reset_cnt s > st_DCAM_UNCERTAIN_RESET_COUNT st
               then s\<lparr>dm_dcam_uncertain_cnt := 0\<rparr> else s))
      else s)"

definition us_choose_policy :: "dm \<Rightarrow> dm" where
  "us_choose_policy s =
     (let s = s\<lparr>dm_is_model_uncertain := dm_hi_stds s \<ge> st_HI_STD_FALLBACK_TIME (dm_settings s)\<rparr>;
          s = set_policy (if dm_face_detected s \<and> \<not> dm_is_model_uncertain s then MP_vision else MP_wheeltouch) s
      in if dm_face_detected s \<and> \<not> po_low_std (dm_pose s) \<and> \<not> dm_driver_distracted s
         then s\<lparr>dm_hi_stds := dm_hi_stds s + 1\<rparr>
         else if dm_face_detected s \<and> po_low_std (dm_pose s) then s\<lparr>dm_hi_stds := 0\<rparr>
         else s)"

definition update_states ::
  "driver_state \<Rightarrow> real list \<Rightarrow> real \<Rightarrow> bool \<Rightarrow> bool \<Rightarrow> bool \<Rightarrow> real \<Rightarrow> dm \<Rightarrow> py_error + dm" where
  "update_states ds cal_rpy car_speed op_engaged lowspeed demo_mode steering_angle_deg s =
     (let s = us_wheel_side ds car_speed op_engaged demo_mode s;
          d = us_driver_data ds s
      in if \<not> us_complete d then Inr s
         else
           bind_result (face_orientation_from_model (dd_faceOrientation d) (dd_facePosition d) cal_rpy) (\<lambda>py.
           bind_result (py_index (dd_faceOrientationStd d) 0) (\<lambda>std0.
           bind_result (py_index (dd_faceOrientationStd d) 1) (\<lambda>std1.
             Inr (us_choose_policy (us_count_uncertain lowspeed (us_learn_offsets car_speed op_engaged
               (us_read_face d steering_angle_deg py (max std0 std1) s))))))))"

text \<open>\<open>_update_events\<close>: the lockout, then awareness and alert level.\<close>

definition lockout_enter :: "dm \<Rightarrow> dm" where
  "lockout_enter s =
     (let st = dm_settings s in
      if dm_alert_3_cnt s \<ge> st_MAX_ALERT_3 st \<or> dm_no_response_cnt s \<ge> st_MAX_NO_RESPONSE st then
        (let s = (if \<not> dm_lockout_active s then
                    (let n = dm_lockout_count s + 1
                     in s\<lparr>dm_lockout_count := n,
                          dm_lockout_duration := st_LOCKOUT_TIMES st ! min (n - 1) (length (st_LOCKOUT_TIMES st) - 1),
                          dm_param_puts := dm_param_puts s @ [n]\<rparr>)
                  else s)
         in s\<lparr>dm_lockout_active := True\<rparr>)
      else s)"

definition lockout_tick :: "dm \<Rightarrow> dm" where
  "lockout_tick s =
     (if dm_lockout_active s then
        (let s = s\<lparr>dm_lockout_time_elapsed := dm_lockout_time_elapsed s + 1\<rparr>
         in if dm_lockout_time_elapsed s > dm_lockout_duration s
            then s\<lparr>dm_lockout_active := False, dm_alert_3_cnt := 0, dm_cnt_since_alert_3 := 0,
                   dm_no_response_cnt := 0, dm_lockout_time_elapsed := 0\<rparr>
            else s)
      else s)"

definition dm_update_lockout :: "dm \<Rightarrow> dm" where
  "dm_update_lockout s = lockout_tick (lockout_enter s)"

definition dm_update_alert :: "real \<Rightarrow> dm \<Rightarrow> dm" where
  "dm_update_alert awareness_prev s =
     (if dm_awareness s \<le> 0 then
        (let s = s\<lparr>dm_alert_level := AL_three\<rparr>;
             s = (if awareness_prev > 0
                  then s\<lparr>dm_alert_3_cnt := dm_alert_3_cnt s + 1, dm_cnt_since_alert_3 := 0\<rparr>
                  else s\<lparr>dm_cnt_since_alert_3 := dm_cnt_since_alert_3 s + 1\<rparr>)
         in if dm_cnt_since_alert_3 s = dm_no_response_timeout s
            then s\<lparr>dm_no_response_cnt := dm_no_response_cnt s + 1\<rparr> else s)
      else if dm_awareness s \<le> dm_threshold_alert_2 s then s\<lparr>dm_alert_level := AL_two\<rparr>
      else if dm_awareness s \<le> dm_threshold_alert_1 s then s\<lparr>dm_alert_level := AL_one\<rparr>
      else s)"

definition dm_recover :: "dm \<Rightarrow> dm" where
  "dm_recover s =
     (let st = dm_settings s; a = dm_awareness s;
          s = s\<lparr>dm_awareness := min (a + ((st_TIMEOUT_RECOVERY_FACTOR_MAX st - st_TIMEOUT_RECOVERY_FACTOR_MIN st)
                                     * (1 - a) + st_TIMEOUT_RECOVERY_FACTOR_MIN st) * dm_step_change s) 1\<rparr>
      in if dm_awareness s = 1
         then s\<lparr>dm_last_wheeltouch_awareness := min (dm_last_wheeltouch_awareness s + dm_step_change s) 1\<rparr>
         else s)"

definition awareness_resets :: "bool \<Rightarrow> bool \<Rightarrow> dm \<Rightarrow> bool" where
  "awareness_resets op_engaged wrong_gear s \<longleftrightarrow>
     (let always_on_valid = dm_always_on s \<and> \<not> wrong_gear
      in (dm_driver_interacting s \<and> dm_awareness s > 0 \<and> dm_active_policy s = MP_wheeltouch) \<or>
         (\<not> always_on_valid \<and> \<not> op_engaged) \<or>
         (always_on_valid \<and> \<not> op_engaged \<and> dm_awareness s \<le> 0))"

definition lowspeed_exemption :: "bool \<Rightarrow> dm \<Rightarrow> bool" where
  "lowspeed_exemption lowspeed s \<longleftrightarrow> lowspeed \<and> dm_awareness s - dm_step_change s \<le> dm_threshold_alert_1 s"

definition always_on_exemption :: "bool \<Rightarrow> bool \<Rightarrow> dm \<Rightarrow> bool" where
  "always_on_exemption op_engaged wrong_gear s \<longleftrightarrow>
     (dm_always_on s \<and> \<not> wrong_gear) \<and> \<not> op_engaged \<and> dm_awareness s - dm_step_change s \<le> 0"

definition awareness_recovers :: "bool \<Rightarrow> dm \<Rightarrow> bool" where
  "awareness_recovers lowspeed s \<longleftrightarrow> dm_awareness s > 0 \<and>
     (fo_x (dm_driver_distraction_filter s) < 37 / 100 \<and> dm_face_detected s \<and> po_low_std (dm_pose s)
      \<or> lowspeed_exemption lowspeed s)"

definition counts_distracted :: "dm \<Rightarrow> bool" where
  "counts_distracted s \<longleftrightarrow>
     (fo_x (dm_driver_distraction_filter s) > 63 / 100 \<and> dm_driver_distracted s \<and> dm_face_detected s) \<or>
     (dm_is_model_uncertain s \<or> \<not> dm_face_detected s)"

definition dm_decay :: "bool \<Rightarrow> real \<Rightarrow> dm \<Rightarrow> dm" where
  "dm_decay exempt awareness_prev s =
     dm_update_alert awareness_prev
       (if counts_distracted s \<and> \<not> exempt
        then s\<lparr>dm_awareness := max (dm_awareness s - dm_step_change s) (- (1 / 10))\<rparr> else s)"

definition dm_update_awareness :: "bool \<Rightarrow> bool \<Rightarrow> bool \<Rightarrow> dm \<Rightarrow> dm" where
  "dm_update_awareness op_engaged lowspeed wrong_gear s =
     (if awareness_resets op_engaged wrong_gear s then reset_awareness s
      else if awareness_recovers lowspeed s then
        (if dm_driver_interacting s then reset_awareness s
         else
           (let t = dm_recover s
            in if dm_awareness t > dm_threshold_alert_2 t then t
               else dm_decay (lowspeed_exemption lowspeed s \<or> always_on_exemption op_engaged wrong_gear s)
                      (dm_awareness s) t))
      else dm_decay (lowspeed_exemption lowspeed s \<or> always_on_exemption op_engaged wrong_gear s)
             (dm_awareness s) s)"

definition dm_update_events :: "bool \<Rightarrow> bool \<Rightarrow> bool \<Rightarrow> bool \<Rightarrow> dm \<Rightarrow> dm" where
  "dm_update_events driver_engaged op_engaged lowspeed wrong_gear s =
     dm_update_awareness op_engaged lowspeed wrong_gear
       (dm_update_lockout (s\<lparr>dm_alert_level := AL_none, dm_driver_interacting := driver_engaged\<rparr>))"

subsection \<open>The published packet\<close>

record dm_packet =
  pk_lockout :: bool
  pk_lockoutCount :: nat
  pk_lockoutMinutesRemaining :: int
  pk_alert3Count :: int
  pk_noResponseCount :: int
  pk_noResponseForceDecel :: bool
  pk_alwaysOn :: bool
  pk_alwaysOnLockout :: bool
  pk_alertLevel :: alert_level
  pk_activePolicy :: monitoring_policy
  pk_isRHD :: bool
  pk_rhd_calibratedPercent :: int
  pk_rhd_offset :: real
  pk_vision_awarenessPercent :: int
  pk_vision_awarenessStep :: real
  pk_isDistracted :: bool
  pk_distractedTypes :: distracted_types
  pk_faceDetected :: bool
  pk_pitch :: real
  pk_yaw :: real
  pk_calibrated :: bool
  pk_pitchCalib_calibratedPercent :: int
  pk_pitchCalib_offset :: real
  pk_yawCalib_calibratedPercent :: int
  pk_yawCalib_offset :: real
  pk_uncertainty :: real
  pk_wheeltouchFallbackPercent :: int
  pk_uncertainOffroadAlertPercent :: int
  pk_wheeltouch_awarenessPercent :: int
  pk_wheeltouch_awarenessStep :: real
  pk_driverInteracting :: bool

definition get_state_packet :: "dm \<Rightarrow> dm_packet" where
  "get_state_packet s =
     (let st = dm_settings s; vision = (dm_active_policy s = MP_vision);
          wheelpos = rf_filtered (dm_wheelpos_offsetter s);
          pitch = rf_filtered (po_pitch_offsetter (dm_pose s));
          yaw = rf_filtered (po_yaw_offsetter (dm_pose s))
      in \<lparr>pk_lockout = dm_lockout_active s,
          pk_lockoutCount = dm_lockout_count s,
          pk_lockoutMinutesRemaining =
            (if dm_lockout_active s
             then max 1 (py_round (of_int (dm_lockout_duration s - dm_lockout_time_elapsed s) * DT_DMON / 60)) else 0),
          pk_alert3Count = dm_alert_3_cnt s,
          pk_noResponseCount = dm_no_response_cnt s,
          pk_noResponseForceDecel =
            (dm_alert_level s = AL_three \<and> dm_cnt_since_alert_3 s \<ge> dm_no_response_timeout s),
          pk_alwaysOn = dm_always_on s,
          pk_alwaysOnLockout = (dm_always_on s \<and> dm_awareness s \<le> dm_threshold_alert_2 s),
          pk_alertLevel = dm_alert_level s,
          pk_activePolicy = dm_active_policy s,
          pk_isRHD = dm_wheel_on_right s,
          pk_rhd_calibratedPercent = to_percent (of_int (rs_n wheelpos) / of_int (st_WHEELPOS_FILTER_MIN_COUNT st)),
          pk_rhd_offset = rs_M wheelpos,
          pk_vision_awarenessPercent = to_percent (if vision then dm_awareness s else dm_last_vision_awareness s),
          pk_vision_awarenessStep = (if vision then dm_step_change s else 0),
          pk_isDistracted = dm_driver_distracted s,
          pk_distractedTypes = dm_distracted_types s,
          pk_faceDetected = dm_face_detected s,
          pk_pitch = po_pitch (dm_pose s),
          pk_yaw = po_yaw (dm_pose s),
          pk_calibrated = po_calibrated (dm_pose s),
          pk_pitchCalib_calibratedPercent = to_percent (of_int (rs_n pitch) / of_int (st_POSE_OFFSET_MIN_COUNT st)),
          pk_pitchCalib_offset = rs_M pitch,
          pk_yawCalib_calibratedPercent = to_percent (of_int (rs_n yaw) / of_int (st_POSE_OFFSET_MIN_COUNT st)),
          pk_yawCalib_offset = rs_M yaw,
          pk_uncertainty = dm_model_std_max s,
          pk_wheeltouchFallbackPercent = to_percent (of_int (dm_hi_stds s) / of_int (st_HI_STD_FALLBACK_TIME st)),
          pk_uncertainOffroadAlertPercent =
            to_percent (of_int (dm_dcam_uncertain_cnt s) / of_int (st_DCAM_UNCERTAIN_ALERT_COUNT st)),
          pk_wheeltouch_awarenessPercent = to_percent (if vision then dm_last_wheeltouch_awareness s else dm_awareness s),
          pk_wheeltouch_awarenessStep = (if vision then 0 else dm_step_change s),
          pk_driverInteracting = dm_driver_interacting s\<rparr>)"

subsection \<open>One step, and the loop of dmonitoringd\<close>

record dm_in =
  di_driverState :: driver_state
  di_vEgo :: real
  di_gearShifter :: gear_shifter
  di_steeringPressed :: bool
  di_gasPressed :: bool
  di_steeringAngleDeg :: real
  di_selfdriveEnabled :: bool
  di_latActive :: bool
  di_brakeDisengageProbs :: "real list"
  di_rpyCalib :: "real list"

definition run_step :: "dm_in \<Rightarrow> bool \<Rightarrow> dm \<Rightarrow> py_error + dm" where
  "run_step i demo s =
     (if demo then
        bind_result (update_states (di_driverState i) [0, 0, 0] 30 True False True 0 (set_pose_strictness 1 30 s))
          (\<lambda>s. Inr (dm_update_events False True False False s))
      else
        bind_result (py_index (di_brakeDisengageProbs i) 0) (\<lambda>brake_disengage_prob.
          (let car_speed = di_vEgo i;
               enabled = di_selfdriveEnabled i \<or> di_latActive i;
               wrong_gear = di_gearShifter i \<notin> {GS_drive, GS_low};
               lowspeed = car_speed < st_ALERT_MIN_SPEED (dm_settings s);
               driver_engaged = di_steeringPressed i \<or> (di_selfdriveEnabled i \<and> di_gasPressed i)
           in bind_result
                (update_states (di_driverState i) (di_rpyCalib i) car_speed enabled lowspeed False (di_steeringAngleDeg i)
                   (set_pose_strictness brake_disengage_prob car_speed s))
                (\<lambda>s. Inr (dm_update_events driver_engaged enabled lowspeed wrong_gear s)))))"

text \<open>
  One iteration of the loop with a new \<open>driverStateV2\<close>: \<open>valid\<close> is \<open>sm.all_checks()\<close>, \<open>ds_valid\<close>
  is \<open>sm.valid['driverStateV2']\<close>, the last two arguments are the parameters \<open>AlwaysOnDM\<close> and
  \<open>IsDriverViewEnabled\<close>; the result holds the new state, the packet and the value written to
  \<open>IsRhdDetected\<close>, if any.
\<close>

record dmonitoringd =
  dd_DM :: dm
  dd_demo_mode :: bool

definition dmonitoringd_step ::
  "bool \<Rightarrow> bool \<Rightarrow> bool \<Rightarrow> bool \<Rightarrow> dm_in \<Rightarrow> dmonitoringd \<Rightarrow> py_error + dmonitoringd \<times> dm_packet \<times> bool option" where
  "dmonitoringd_step valid ds_valid p_AlwaysOnDM p_IsDriverViewEnabled i t =
     bind_result
       (if dd_demo_mode t \<and> ds_valid then run_step i True (dd_DM t)
        else if valid then run_step i (dd_demo_mode t) (dd_DM t)
        else Inr (dd_DM t))
       (\<lambda>s.
          (let packet = get_state_packet s;
               frame = ds_frameId (di_driverState i);
               (s, demo) = (if frame mod 40 = 1 then (s\<lparr>dm_always_on := p_AlwaysOnDM\<rparr>, p_IsDriverViewEnabled)
                            else (s, dd_demo_mode t));
               w = rf_filtered (dm_wheelpos_offsetter s);
               save = frame mod 6000 = 0 \<and> \<not> demo \<and>
                 rs_n w > st_WHEELPOS_FILTER_MIN_COUNT (dm_settings s) \<and>
                 dm_wheel_on_right s = (rs_M w > st_WHEELPOS_THRESHOLD (dm_settings s))
           in Inr (\<lparr>dd_DM = s, dd_demo_mode = demo\<rparr>, packet, if save then Some (dm_wheel_on_right s) else None)))"

subsection \<open>The settings' values\<close>

abbreviation (input) DMS :: dm_settings where "DMS \<equiv> DRIVER_MONITOR_SETTINGS"

lemma DMS_timeouts [simp]:
  "st_VISION_POLICY_ALERT_1_TIMEOUT DMS = 5" "st_VISION_POLICY_ALERT_2_TIMEOUT DMS = 8"
  "st_VISION_POLICY_ALERT_3_TIMEOUT DMS = 13" "st_WHEELTOUCH_POLICY_ALERT_1_TIMEOUT DMS = 5"
  "st_WHEELTOUCH_POLICY_ALERT_2_TIMEOUT DMS = 15" "st_WHEELTOUCH_POLICY_ALERT_3_TIMEOUT DMS = 25"
  "st_NO_RESPONSE_TIMEOUT DMS = 5" "st_MAX_ALERT_3 DMS = 2" "st_MAX_NO_RESPONSE DMS = 1"
  "st_LOCKOUT_TIMES DMS = [1200, 6000, 18000, 36000]"
  "st_TIMEOUT_RECOVERY_FACTOR_MAX DMS = 5" "st_TIMEOUT_RECOVERY_FACTOR_MIN DMS = 125 / 100"
  by (simp_all add: DRIVER_MONITOR_SETTINGS_def const_defs)

lemma DMS_thresholds [simp]:
  "st_ALERT_MIN_SPEED DMS = 28 / 10" "st_FACE_THRESHOLD DMS = 7 / 10" "st_PHONE_THRESH DMS = 1 / 2"
  "st_HI_STD_THRESHOLD DMS = 3 / 10" "st_HI_STD_FALLBACK_TIME DMS = 200"
  "st_DISTRACTED_FILTER_TS DMS = 25 / 100" "st_DCAM_UNCERTAIN_ALERT_COUNT DMS = 1200"
  "st_DCAM_UNCERTAIN_RESET_COUNT DMS = 40" "st_DCAM_UNCERTAIN_ALERT_THRESHOLD DMS = 1 / 10"
  "st_WHEELPOS_FILTER_MIN_COUNT DMS = 300" "st_POSE_OFFSET_MIN_COUNT DMS = 1200"
  "st_PITCH_NATURAL_VAR DMS = 3 / 100" "st_YAW_NATURAL_VAR DMS = 15 / 100"
  "st_WHEELPOS_DATA_VAR DMS = 165 / 1000000"
  by (simp_all add: DRIVER_MONITOR_SETTINGS_def const_defs)

lemma to_percent_bounds: "0 \<le> to_percent v \<and> to_percent v \<le> 100"
proof -
  have "(0::real) \<le> min (max (v * 100) 0) 100" "min (max (v * 100) 0) 100 \<le> 100" by auto
  then show ?thesis unfolding to_percent_def py_int_def by (auto simp: floor_le_iff le_floor_iff)
qed

subsection \<open>The invariant\<close>

text \<open>
  The awareness and its two saved values, the thresholds that belong to the active policy, the
  distraction filter, the counters and the lockout clock.
\<close>

definition policy_ok :: "dm \<Rightarrow> bool" where
  "policy_ok s \<longleftrightarrow>
     dm_active_policy s = MP_vision \<and> dm_threshold_alert_1 s = 8 / 13 \<and> dm_threshold_alert_2 s = 5 / 13 \<and>
       (dm_step_change s = 1 / 260 \<or> dm_step_change s = 0) \<or>
     dm_active_policy s = MP_wheeltouch \<and> dm_threshold_alert_1 s = 4 / 5 \<and> dm_threshold_alert_2 s = 2 / 5 \<and>
       dm_step_change s = 1 / 500"

definition awareness_ok :: "dm \<Rightarrow> bool" where
  "awareness_ok s \<longleftrightarrow> - (1 / 10) \<le> dm_awareness s \<and> dm_awareness s \<le> 1 \<and>
     0 < dm_last_vision_awareness s \<and> dm_last_vision_awareness s \<le> 1 \<and>
     0 < dm_last_wheeltouch_awareness s \<and> dm_last_wheeltouch_awareness s \<le> 1"

definition lockout_ok :: "dm \<Rightarrow> bool" where
  "lockout_ok s \<longleftrightarrow> dm_lockout_duration s \<in> set (st_LOCKOUT_TIMES DMS) \<and>
     0 \<le> dm_lockout_time_elapsed s \<and> dm_lockout_time_elapsed s \<le> dm_lockout_duration s \<and>
     0 \<le> dm_alert_3_cnt s \<and> 0 \<le> dm_cnt_since_alert_3 s \<and> 0 \<le> dm_no_response_cnt s \<and>
     dm_no_response_timeout s = 100 \<and> (dm_lockout_active s \<or> dm_lockout_time_elapsed s = 0)"

definition stats_ok :: "dm \<Rightarrow> bool" where
  "stats_ok s \<longleftrightarrow> (\<forall>f \<in> {dm_wheelpos_offsetter s, po_pitch_offsetter (dm_pose s), po_yaw_offsetter (dm_pose s)}.
     rs_ok (rf_raw f) \<and> rs_ok (rf_filtered f))"

definition filter_ok :: "dm \<Rightarrow> bool" where
  "filter_ok s \<longleftrightarrow> fo_initialized (dm_driver_distraction_filter s) \<and>
     fo_alpha (dm_driver_distraction_filter s) = 1 / 6 \<and>
     0 \<le> fo_x (dm_driver_distraction_filter s) \<and> fo_x (dm_driver_distraction_filter s) \<le> 1"

definition dm_inv :: "dm \<Rightarrow> bool" where
  "dm_inv s \<longleftrightarrow> dm_settings s = DMS \<and> policy_ok s \<and> awareness_ok s \<and> lockout_ok s \<and>
     stats_ok s \<and> filter_ok s \<and> 0 \<le> dm_hi_stds s \<and> 0 \<le> dm_dcam_uncertain_cnt s"

definition alert_ok :: "dm \<Rightarrow> bool" where
  "alert_ok s \<longleftrightarrow>
     (dm_alert_level s = AL_three \<longleftrightarrow> dm_awareness s \<le> 0) \<and>
     (dm_alert_level s = AL_two \<longleftrightarrow> 0 < dm_awareness s \<and> dm_awareness s \<le> dm_threshold_alert_2 s) \<and>
     (dm_alert_level s = AL_one \<longrightarrow> dm_awareness s \<le> dm_threshold_alert_1 s)"

lemma dm_init_inv: "dm_inv (dm_init DMS rhd always_on locked n) \<and> alert_ok (dm_init DMS rhd always_on locked n)"
proof -
  have "st_LOCKOUT_TIMES DMS ! min (n - 1) (length (st_LOCKOUT_TIMES DMS) - 1) \<in> set (st_LOCKOUT_TIMES DMS)"
    by (rule nth_mem) simp
  moreover have "0 \<le> st_LOCKOUT_TIMES DMS ! min (n - 1) (length (st_LOCKOUT_TIMES DMS) - 1)"
    using calculation by auto
  ultimately show ?thesis
    by (simp add: dm_init_def set_policy_def reset_awareness_def Let_def dm_inv_def policy_ok_def awareness_ok_def
        lockout_ok_def stats_ok_def filter_ok_def alert_ok_def DriverPose_def RunningStatFilter_def
        RunningStat_def rs_reset_def rs_ok_def FirstOrderFilter_def fo_update_alpha_def const_defs del: DMS_timeouts(10))
qed

lemmas dm_inv_defs = dm_inv_def policy_ok_def awareness_ok_def lockout_ok_def stats_ok_def filter_ok_def

lemma set_pose_strictness_inv: "dm_inv s \<Longrightarrow> dm_inv (set_pose_strictness bp v s)"
  by (simp add: set_pose_strictness_def Let_def dm_inv_defs)

lemma us_wheel_side_inv:
  assumes "dm_inv s"
  shows "dm_inv (us_wheel_side ds v e demo s)"
proof -
  have "rs_ok (rf_raw (dm_wheelpos_offsetter s)) \<and> rs_ok (rf_filtered (dm_wheelpos_offsetter s))"
    using assms by (simp add: dm_inv_def stats_ok_def)
  then show ?thesis
    using assms rf_push_and_update_ok [of "dm_wheelpos_offsetter s"]
    by (simp add: us_wheel_side_def Let_def dm_inv_defs)
qed

lemma get_distracted_types_frame [simp]:
  "dm_settings (get_distracted_types s) = dm_settings s" "dm_awareness (get_distracted_types s) = dm_awareness s"
  "dm_active_policy (get_distracted_types s) = dm_active_policy s"
  "dm_pose (get_distracted_types s) = dm_pose s"
  "dm_threshold_alert_1 (get_distracted_types s) = dm_threshold_alert_1 s"
  "dm_threshold_alert_2 (get_distracted_types s) = dm_threshold_alert_2 s"
  "dm_step_change (get_distracted_types s) = dm_step_change s"
  "dm_last_vision_awareness (get_distracted_types s) = dm_last_vision_awareness s"
  "dm_last_wheeltouch_awareness (get_distracted_types s) = dm_last_wheeltouch_awareness s"
  "dm_driver_distraction_filter (get_distracted_types s) = dm_driver_distraction_filter s"
  "dm_hi_stds (get_distracted_types s) = dm_hi_stds s"
  "dm_face_detected (get_distracted_types s) = dm_face_detected s"
  "dm_wheel_on_right_last (get_distracted_types s) = dm_wheel_on_right_last s"
  "dt_phone (dm_distracted_types (get_distracted_types s)) \<longleftrightarrow> dm_phone_prob s > st_PHONE_THRESH (dm_settings s)"
  by (simp_all add: get_distracted_types_def Let_def)

lemma get_distracted_types_inv: "dm_inv s \<Longrightarrow> dm_inv (get_distracted_types s)"
  by (simp add: dm_inv_def policy_ok_def awareness_ok_def stats_ok_def filter_ok_def)
     (simp add: lockout_ok_def get_distracted_types_def Let_def)

lemma us_record_face_inv: "dm_inv s \<Longrightarrow> dm_inv (us_record_face d deg py m s)"
  by (simp add: us_record_face_def Let_def dm_inv_defs)

lemma us_judge_face_inv:
  assumes "dm_inv s"
  shows "dm_inv (us_judge_face d s)"
proof -
  have ok: "fo_ok (dm_driver_distraction_filter s)" using assms by (simp add: dm_inv_def filter_ok_def fo_ok_def)
  then have "0 \<le> fo_x (fo_update (of_bool b) (dm_driver_distraction_filter s)) \<and>
      fo_x (fo_update (of_bool b) (dm_driver_distraction_filter s)) \<le> 1" for b
    using assms fo_update_bounds [OF ok, of 0 1] by (simp add: dm_inv_def filter_ok_def)
  then show ?thesis using assms by (simp add: us_judge_face_def Let_def dm_inv_defs)
qed

lemma us_read_face_inv: "dm_inv s \<Longrightarrow> dm_inv (us_read_face d deg py m s)"
  by (simp add: us_read_face_def us_judge_face_inv get_distracted_types_inv us_record_face_inv)

lemma us_learn_offsets_inv:
  assumes "dm_inv s"
  shows "dm_inv (us_learn_offsets v e s)"
proof -
  let ?p = "dm_pose s"
  have "rs_ok (rf_raw (po_pitch_offsetter ?p))" "rs_ok (rf_filtered (po_pitch_offsetter ?p))"
    "rs_ok (rf_raw (po_yaw_offsetter ?p))" "rs_ok (rf_filtered (po_yaw_offsetter ?p))"
    using assms by (simp_all add: dm_inv_def stats_ok_def)
  then show ?thesis
    using assms by (simp add: us_learn_offsets_def Let_def dm_inv_defs rf_push_and_update_ok)
qed

lemma us_count_uncertain_inv: "dm_inv s \<Longrightarrow> dm_inv (us_count_uncertain l s)"
  by (simp add: us_count_uncertain_def Let_def dm_inv_defs)

lemma set_policy_inv: "dm_inv s \<Longrightarrow> dm_inv (set_policy p s)"
  by (cases "dm_active_policy s"; cases p)
     (auto simp: set_policy_def Let_def dm_inv_defs const_defs)

lemma us_choose_policy_inv:
  assumes "dm_inv s"
  shows "dm_inv (us_choose_policy s)"
proof -
  let ?s = "s\<lparr>dm_is_model_uncertain := dm_hi_stds s \<ge> st_HI_STD_FALLBACK_TIME (dm_settings s)\<rparr>"
  have "dm_inv ?s" using assms by (simp add: dm_inv_defs)
  then have "dm_inv (set_policy p ?s)" for p by (rule set_policy_inv)
  moreover have "dm_inv (t\<lparr>dm_hi_stds := n\<rparr>)" if "dm_inv t" "0 \<le> n" for t n
    using that by (simp add: dm_inv_defs)
  ultimately show ?thesis by (auto simp: us_choose_policy_def Let_def dm_inv_def)
qed

lemma update_states_inv:
  assumes "dm_inv s" "update_states ds rpy v e l demo deg s = Inr s'"
  shows "dm_inv s'"
proof -
  have "dm_inv (us_wheel_side ds v e demo s)" using assms(1) by (rule us_wheel_side_inv)
  with assms(2) show ?thesis
    by (auto simp: update_states_def Let_def return_iff split: if_splits
        intro!: us_choose_policy_inv us_count_uncertain_inv us_learn_offsets_inv us_read_face_inv)
qed

lemma lockout_time_mem: "xs \<noteq> [] \<Longrightarrow> xs ! min n (length xs - 1) \<in> set xs"
  by (rule nth_mem) (cases xs; simp)

lemma lockout_time_pos: "d \<in> set (st_LOCKOUT_TIMES DMS) \<Longrightarrow> 1200 \<le> d"
  by auto

lemma dm_update_lockout_frame [simp]:
  "dm_settings (dm_update_lockout s) = dm_settings s" "dm_awareness (dm_update_lockout s) = dm_awareness s"
  "dm_active_policy (dm_update_lockout s) = dm_active_policy s"
  "dm_threshold_alert_1 (dm_update_lockout s) = dm_threshold_alert_1 s"
  "dm_threshold_alert_2 (dm_update_lockout s) = dm_threshold_alert_2 s"
  "dm_step_change (dm_update_lockout s) = dm_step_change s"
  "dm_last_vision_awareness (dm_update_lockout s) = dm_last_vision_awareness s"
  "dm_last_wheeltouch_awareness (dm_update_lockout s) = dm_last_wheeltouch_awareness s"
  "dm_wheelpos_offsetter (dm_update_lockout s) = dm_wheelpos_offsetter s"
  "dm_pose (dm_update_lockout s) = dm_pose s"
  "dm_driver_distraction_filter (dm_update_lockout s) = dm_driver_distraction_filter s"
  "dm_hi_stds (dm_update_lockout s) = dm_hi_stds s"
  "dm_dcam_uncertain_cnt (dm_update_lockout s) = dm_dcam_uncertain_cnt s"
  "dm_no_response_timeout (dm_update_lockout s) = dm_no_response_timeout s"
  by (simp_all add: dm_update_lockout_def lockout_enter_def lockout_tick_def Let_def)

lemma dm_update_lockout_frame2 [simp]:
  "dm_driver_interacting (dm_update_lockout s) = dm_driver_interacting s"
  "dm_face_detected (dm_update_lockout s) = dm_face_detected s"
  "dm_driver_distracted (dm_update_lockout s) = dm_driver_distracted s"
  "dm_is_model_uncertain (dm_update_lockout s) = dm_is_model_uncertain s"
  "dm_always_on (dm_update_lockout s) = dm_always_on s"
  "dm_alert_level (dm_update_lockout s) = dm_alert_level s"
  "dm_wheel_on_right_last (dm_update_lockout s) = dm_wheel_on_right_last s"
  by (simp_all add: dm_update_lockout_def lockout_enter_def lockout_tick_def Let_def)

lemma lockout_enter_ok:
  assumes "dm_settings s = DMS" "lockout_ok s"
  shows "lockout_ok (lockout_enter s)"
proof -
  have ne: "st_LOCKOUT_TIMES DMS \<noteq> []" by simp
  note mem = lockout_time_mem [OF ne, of "dm_lockout_count s"]
  show ?thesis
    using assms mem lockout_time_pos [OF mem]
    by (auto simp: lockout_enter_def Let_def lockout_ok_def simp del: DMS_timeouts(10))
qed

lemma lockout_tick_ok: "lockout_ok s \<Longrightarrow> lockout_ok (lockout_tick s)"
  using lockout_time_pos [of "dm_lockout_duration s"]
  by (auto simp: lockout_tick_def Let_def lockout_ok_def simp del: DMS_timeouts(10))

lemma dm_update_lockout_inv: "dm_inv s \<Longrightarrow> dm_inv (dm_update_lockout s)"
  using lockout_tick_ok [OF lockout_enter_ok, of s]
  by (simp add: dm_inv_def policy_ok_def awareness_ok_def stats_ok_def filter_ok_def) (simp add: dm_update_lockout_def)

subsection \<open>Awareness\<close>

lemma step_change_bounds:
  assumes "policy_ok s"
  shows "0 \<le> dm_step_change s" "dm_step_change s \<le> 1 / 260" "0 < dm_threshold_alert_2 s"
    "dm_threshold_alert_2 s < dm_threshold_alert_1 s" "dm_threshold_alert_1 s < 1"
  using assms by (auto simp: policy_ok_def)

lemma awareness_upd_inv:
  assumes "dm_inv s" "awareness_ok (s\<lparr>dm_awareness := a, dm_last_vision_awareness := b, dm_last_wheeltouch_awareness := c\<rparr>)"
  shows "dm_inv (s\<lparr>dm_awareness := a, dm_last_vision_awareness := b, dm_last_wheeltouch_awareness := c\<rparr>)"
  using assms by (simp add: dm_inv_defs)

text \<open>
  Recovery never lowers awareness, gains at least one and a quarter steps below full awareness,
  and keeps the bounds.
\<close>

lemma dm_recover_gain:
  assumes "dm_inv s" "0 \<le> dm_awareness s"
  shows "min (dm_awareness s + 5 / 4 * dm_step_change s) 1 \<le> dm_awareness (dm_recover s)"
    and "dm_awareness (dm_recover s) \<le> 1"
proof -
  let ?a = "dm_awareness s" and ?d = "dm_step_change s"
  have a: "?a \<le> 1" and d: "0 \<le> ?d" and st: "dm_settings s = DMS"
    using assms step_change_bounds by (auto simp: dm_inv_def awareness_ok_def)
  have eq: "dm_awareness (dm_recover s) = min (?a + (15 / 4 * (1 - ?a) + 5 / 4) * ?d) 1"
    by (simp add: dm_recover_def Let_def st)
  have "5 / 4 * ?d \<le> (15 / 4 * (1 - ?a) + 5 / 4) * ?d"
    using a d by (intro mult_right_mono) auto
  then show "min (?a + 5 / 4 * ?d) 1 \<le> dm_awareness (dm_recover s)" unfolding eq by linarith
  show "dm_awareness (dm_recover s) \<le> 1" unfolding eq by simp
qed

lemma dm_recover_inv:
  assumes "dm_inv s" "0 < dm_awareness s"
  shows "dm_inv (dm_recover s)" "dm_awareness s \<le> dm_awareness (dm_recover s)"
proof -
  have d: "0 \<le> dm_step_change s" "dm_awareness s \<le> 1"
    using assms step_change_bounds by (auto simp: dm_inv_def awareness_ok_def)
  show g: "dm_awareness s \<le> dm_awareness (dm_recover s)"
    using dm_recover_gain(1) [OF assms(1)] assms(2) d by linarith
  have ok: "awareness_ok (dm_recover s)"
    using assms g dm_recover_gain(2) [OF assms(1)] d
    by (auto simp: awareness_ok_def dm_inv_def) (auto simp: dm_recover_def Let_def)
  have "dm_recover s = s\<lparr>dm_awareness := dm_awareness (dm_recover s),
      dm_last_vision_awareness := dm_last_vision_awareness s,
      dm_last_wheeltouch_awareness := dm_last_wheeltouch_awareness (dm_recover s)\<rparr>"
    by (simp add: dm_recover_def Let_def)
  with awareness_upd_inv [OF assms(1)] ok show "dm_inv (dm_recover s)" by metis
qed

lemma reset_awareness_inv: "dm_inv s \<Longrightarrow> dm_inv (reset_awareness s)"
  unfolding reset_awareness_def by (rule awareness_upd_inv) (simp_all add: awareness_ok_def)

lemma lower_awareness_inv:
  "dm_inv s \<Longrightarrow> dm_inv (s\<lparr>dm_awareness := max (dm_awareness s - dm_step_change s) (- (1 / 10))\<rparr>)"
  using step_change_bounds(1) [of s] by (auto simp: dm_inv_defs)

lemma dm_update_alert_inv:
  assumes "dm_inv s" "dm_alert_level s = AL_none"
  shows "dm_inv (dm_update_alert a s) \<and> alert_ok (dm_update_alert a s)"
proof -
  have "0 < dm_threshold_alert_2 s" "dm_threshold_alert_2 s < dm_threshold_alert_1 s"
    using assms step_change_bounds by (auto simp: dm_inv_def)
  then show ?thesis
    using assms by (auto simp: dm_update_alert_def Let_def dm_inv_defs alert_ok_def)
qed

lemma dm_recover_alert_level [simp]: "dm_alert_level (dm_recover s) = dm_alert_level s"
  by (simp add: dm_recover_def Let_def)

lemma alert_ok_none: "dm_alert_level s = AL_none \<Longrightarrow> dm_threshold_alert_2 s < dm_awareness s \<Longrightarrow> 0 \<le> dm_threshold_alert_2 s \<Longrightarrow> alert_ok s"
  by (simp add: alert_ok_def)

lemma reset_alert_ok: "dm_inv s \<Longrightarrow> dm_alert_level s = AL_none \<Longrightarrow> alert_ok (reset_awareness s)"
  using step_change_bounds(3-5) [of s]
  by (intro alert_ok_none) (auto simp: reset_awareness_def dm_inv_def)

lemma dm_decay_inv: "dm_inv s \<Longrightarrow> dm_alert_level s = AL_none \<Longrightarrow> dm_inv (dm_decay x a s) \<and> alert_ok (dm_decay x a s)"
  unfolding dm_decay_def by (rule dm_update_alert_inv) (simp_all add: lower_awareness_inv)

lemma dm_update_awareness_inv:
  assumes inv: "dm_inv s" and none: "dm_alert_level s = AL_none"
  shows "dm_inv (dm_update_awareness e l g s) \<and> alert_ok (dm_update_awareness e l g s)"
proof -
  have rec: "dm_inv (dm_recover s)" if "awareness_recovers l s"
    using that inv dm_recover_inv(1) by (simp add: awareness_recovers_def)
  have "0 \<le> dm_threshold_alert_2 t" if "dm_inv t" for t
    using that step_change_bounds(3) [of t] by (simp add: dm_inv_def)
  then show ?thesis
    using inv none rec
    by (simp add: dm_update_awareness_def Let_def reset_awareness_inv reset_alert_ok dm_decay_inv alert_ok_none)
qed

lemma dm_update_events_inv:
  assumes "dm_inv s"
  shows "dm_inv (dm_update_events d e l g s) \<and> alert_ok (dm_update_events d e l g s)"
proof -
  have "dm_inv (s\<lparr>dm_alert_level := AL_none, dm_driver_interacting := d\<rparr>)"
    using assms by (simp add: dm_inv_defs)
  then show ?thesis
    unfolding dm_update_events_def by (intro dm_update_awareness_inv dm_update_lockout_inv) simp_all
qed

lemma run_step_inv:
  assumes "dm_inv s" "run_step i demo s = Inr s'"
  shows "dm_inv s' \<and> alert_ok s'"
proof -
  have "dm_inv t" if "update_states ds rpy v e l dem deg (set_pose_strictness bp v' s) = Inr t" for ds rpy v e l dem deg bp v' t
    using that update_states_inv set_pose_strictness_inv assms(1) by blast
  with assms(2) show ?thesis
    by (auto simp: run_step_def return_iff Let_def split: if_splits intro!: dm_update_events_inv)
qed

subsection \<open>Complete messages\<close>

text \<open>
  A step cannot fail on messages whose lists have the lengths the schema documents: two
  coordinates each for face position and orientation (or none at all), a calibration angle per
  axis, at least one prediction.
\<close>

definition complete_seat :: "driver_data \<Rightarrow> bool" where
  "complete_seat d \<longleftrightarrow> 2 \<le> length (dd_faceOrientation d) \<and> 2 \<le> length (dd_facePosition d) \<and>
     2 \<le> length (dd_faceOrientationStd d)"

definition complete_in :: "dm_in \<Rightarrow> bool" where
  "complete_in i \<longleftrightarrow> di_brakeDisengageProbs i \<noteq> [] \<and> 3 \<le> length (di_rpyCalib i) \<and>
     complete_seat (ds_leftDriverData (di_driverState i)) \<and> complete_seat (ds_rightDriverData (di_driverState i))"

lemma face_orientation_total:
  assumes "2 \<le> length o'" "2 \<le> length p" "3 \<le> length rpy"
  shows "\<exists>py. face_orientation_from_model o' p rpy = Inr py"
  using assms by (simp add: face_orientation_from_model_def py_index_Inr py_index_0 Let_def)

lemma update_states_total:
  assumes "complete_seat (ds_leftDriverData ds)" "complete_seat (ds_rightDriverData ds)" "3 \<le> length rpy"
  shows "\<exists>s'. update_states ds rpy v e l demo deg s = Inr s'"
proof -
  define t where "t = us_wheel_side ds v e demo s"
  have "complete_seat (us_driver_data ds t)" using assms by (simp add: us_driver_data_def)
  then have c: "2 \<le> length (dd_faceOrientation (us_driver_data ds t))" "2 \<le> length (dd_facePosition (us_driver_data ds t))"
    "2 \<le> length (dd_faceOrientationStd (us_driver_data ds t))"
    by (simp_all add: complete_seat_def)
  obtain py where "face_orientation_from_model (dd_faceOrientation (us_driver_data ds t))
      (dd_facePosition (us_driver_data ds t)) rpy = Inr py"
    using face_orientation_total [OF c(1,2) assms(3)] by blast
  then show ?thesis using c(3) by (simp add: update_states_def Let_def py_index_Inr py_index_0 flip: t_def)
qed

lemma run_step_total:
  assumes "complete_in i"
  shows "\<exists>s'. run_step i demo s = Inr s'"
proof -
  have u: "\<exists>t. update_states (di_driverState i) rpy v e l dem deg s' = Inr t" if "3 \<le> length rpy" for rpy v e l dem deg s'
    using assms that update_states_total by (simp add: complete_in_def)
  have "0 < length (di_brakeDisengageProbs i)" "3 \<le> length (di_rpyCalib i)"
    using assms by (simp_all add: complete_in_def)
  then show ?thesis
    using u [of "[0, 0, 0]" 30 True False True 0 "set_pose_strictness 1 30 s"]
      u [of "di_rpyCalib i" "di_vEgo i" "di_selfdriveEnabled i \<or> di_latActive i"
          "di_vEgo i < st_ALERT_MIN_SPEED (dm_settings s)" False "di_steeringAngleDeg i"
          "set_pose_strictness (di_brakeDisengageProbs i ! 0) (di_vEgo i) s"]
    by (auto simp: run_step_def py_index_Inr Let_def)
qed

end
