(* ===== verification/Driver_Monitoring_Runs.thy ===== *)
theory Driver_Monitoring_Runs
  imports Driver_Monitoring
begin

text \<open>
  Runs of the driver monitor: the invariant of every run, the lockout clock, and what happens
  to a driver who does not pay attention and to one who does.
\<close>

subsection \<open>Runs of the monitor\<close>

text \<open>
  A run: steps, in demo mode or not, with changes of the always-on toggle between them. \<open>dm_run\<close>
  stops at the first failing step; on complete messages it is a run of the frame machine
  \<open>dm_exec\<close>.
\<close>

datatype dm_op = Dm_step dm_in bool | Dm_always_on bool

definition dm_exec_result :: "dm \<Rightarrow> dm_op \<Rightarrow> py_error + dm" where
  "dm_exec_result s op =
     (case op of Dm_step i demo \<Rightarrow> run_step i demo s | Dm_always_on b \<Rightarrow> Inr (s\<lparr>dm_always_on := b\<rparr>))"

definition dm_exec :: "dm \<Rightarrow> dm_op \<Rightarrow> dm" where
  "dm_exec s op = (case dm_exec_result s op of Inr s' \<Rightarrow> s' | Inl _ \<Rightarrow> s)"

fun dm_run :: "dm_op list \<Rightarrow> dm \<Rightarrow> py_error + dm" where
  "dm_run [] s = Inr s"
| "dm_run (op # ops) s = bind_result (dm_exec_result s op) (dm_run ops)"

definition complete_op :: "dm_op \<Rightarrow> bool" where
  "complete_op op = (case op of Dm_step i demo \<Rightarrow> complete_in i | Dm_always_on b \<Rightarrow> True)"

lemma dm_exec_result_total:
  assumes "complete_op op"
  shows "dm_exec_result s op = Inr (dm_exec s op)"
proof (cases op)
  case (Dm_step i demo)
  with assms obtain s' where "run_step i demo s = Inr s'"
    using run_step_total [of i demo s] by (auto simp: complete_op_def)
  with Dm_step show ?thesis by (simp add: dm_exec_result_def dm_exec_def)
qed (simp add: dm_exec_result_def dm_exec_def)

lemma dm_run_frames: "\<forall>op \<in> set ops. complete_op op \<Longrightarrow> dm_run ops s = Inr (frames dm_exec s ops)"
  by (induction ops arbitrary: s) (simp_all add: dm_exec_result_total)

lemma dm_exec_inv:
  assumes "dm_inv s \<and> alert_ok s"
  shows "dm_inv (dm_exec s op) \<and> alert_ok (dm_exec s op)"
proof (cases op)
  case (Dm_step i demo)
  then show ?thesis
    using assms run_step_inv [of s i demo] by (auto simp: dm_exec_def dm_exec_result_def split: sum.splits)
next
  case (Dm_always_on b)
  then show ?thesis using assms by (simp add: dm_exec_def dm_exec_result_def dm_inv_defs alert_ok_def)
qed

interpretation dmm: frame_machine dm_exec complete_op "\<lambda>s. dm_inv s \<and> alert_ok s"
  by unfold_locales (rule dm_exec_inv)

subsection \<open>Lockouts\<close>

text \<open>The lockout clock: only \<open>dm_update_lockout\<close> moves it.\<close>

definition lockout_view :: "dm \<Rightarrow> bool \<times> int \<times> int" where
  "lockout_view s = (dm_lockout_active s, dm_lockout_time_elapsed s, dm_lockout_duration s)"

definition lockout_due :: "dm \<Rightarrow> nat \<times> bool" where
  "lockout_due s = (dm_lockout_count s, dm_alert_3_cnt s \<ge> 2 \<or> dm_no_response_cnt s \<ge> 1)"

lemma lockout_view_us [simp]:
  "lockout_view (set_pose_strictness bp v s) = lockout_view s"
  "lockout_view (us_wheel_side ds v e demo s) = lockout_view s"
  "lockout_view (get_distracted_types s) = lockout_view s"
  "lockout_view (us_learn_offsets v e s) = lockout_view s"
  "lockout_view (us_count_uncertain l s) = lockout_view s"
  "lockout_view (set_policy p s) = lockout_view s"
  by (simp_all add: lockout_view_def set_pose_strictness_def us_wheel_side_def get_distracted_types_def
      us_learn_offsets_def us_count_uncertain_def set_policy_def Let_def)

lemma lockout_due_us [simp]:
  "lockout_due (set_pose_strictness bp v s) = lockout_due s"
  "lockout_due (us_wheel_side ds v e demo s) = lockout_due s"
  "lockout_due (get_distracted_types s) = lockout_due s"
  "lockout_due (us_learn_offsets v e s) = lockout_due s"
  "lockout_due (us_count_uncertain l s) = lockout_due s"
  "lockout_due (set_policy p s) = lockout_due s"
  by (simp_all add: lockout_due_def set_pose_strictness_def us_wheel_side_def get_distracted_types_def
      us_learn_offsets_def us_count_uncertain_def set_policy_def Let_def)

lemma us_read_face_lockout [simp]:
  "lockout_view (us_read_face d deg py m s) = lockout_view s"
  "lockout_due (us_read_face d deg py m s) = lockout_due s"
proof -
  have "lockout_view (us_judge_face d t) = lockout_view t" "lockout_due (us_judge_face d t) = lockout_due t"
    "lockout_view (us_record_face d deg py m t) = lockout_view t" "lockout_due (us_record_face d deg py m t) = lockout_due t" for t
    by (simp_all add: us_judge_face_def us_record_face_def lockout_view_def lockout_due_def Let_def)
  then show "lockout_view (us_read_face d deg py m s) = lockout_view s"
    "lockout_due (us_read_face d deg py m s) = lockout_due s"
    by (simp_all add: us_read_face_def)
qed

lemma us_choose_policy_lockout [simp]:
  "lockout_view (us_choose_policy s) = lockout_view s" "lockout_due (us_choose_policy s) = lockout_due s"
proof -
  have upd: "lockout_view (t\<lparr>dm_hi_stds := n\<rparr>) = lockout_view t" "lockout_due (t\<lparr>dm_hi_stds := n\<rparr>) = lockout_due t"
    "lockout_view (t\<lparr>dm_is_model_uncertain := b\<rparr>) = lockout_view t"
    "lockout_due (t\<lparr>dm_is_model_uncertain := b\<rparr>) = lockout_due t" for t n b
    by (simp_all add: lockout_view_def lockout_due_def)
  show "lockout_view (us_choose_policy s) = lockout_view s" "lockout_due (us_choose_policy s) = lockout_due s"
    by (simp_all add: us_choose_policy_def Let_def upd)
qed

lemma update_states_lockout:
  assumes "update_states ds rpy v e l demo deg s = Inr s'"
  shows "lockout_view s' = lockout_view s" "lockout_due s' = lockout_due s"
  using assms by (auto simp: update_states_def Let_def return_iff split: if_splits)

lemma awareness_lockout_view [simp]: "lockout_view (dm_update_awareness e l g s) = lockout_view s"
proof -
  have "lockout_view (reset_awareness t) = lockout_view t" "lockout_view (dm_recover t) = lockout_view t"
    "lockout_view (dm_update_alert a t) = lockout_view t" "lockout_view (t\<lparr>dm_awareness := b\<rparr>) = lockout_view t" for t a b
    by (simp_all add: lockout_view_def reset_awareness_def dm_recover_def dm_update_alert_def Let_def)
  then show ?thesis by (simp add: dm_update_awareness_def dm_decay_def Let_def)
qed

text \<open>One step, seen by the clock.\<close>

lemma run_step_split:
  assumes "dm_inv s" "run_step i demo s = Inr s'"
  obtains bp v v' ds rpy e l dem deg u d e' l' g where
    "update_states ds rpy v' e l dem deg (set_pose_strictness bp v s) = Inr u" "dm_inv u"
    "s' = dm_update_events d e' l' g u"
proof -
  obtain bp v ds rpy v' e l dem deg u d e' l' g where
    u: "update_states ds rpy v' e l dem deg (set_pose_strictness bp v s) = Inr u" and s': "s' = dm_update_events d e' l' g u"
    using assms(2) by (auto simp: run_step_def return_iff Let_def split: if_splits)
  from u have "dm_inv u" by (rule update_states_inv [rotated]) (rule set_pose_strictness_inv [OF assms(1)])
  from that [OF u this s'] show ?thesis .
qed

lemma run_step_lockout:
  assumes "dm_inv s" "run_step i demo s = Inr s'"
  obtains t where "lockout_view t = lockout_view s" "lockout_due t = lockout_due s" "dm_settings t = DMS"
    "lockout_view s' = lockout_view (dm_update_lockout t)"
  using assms
proof (rule run_step_split)
  fix bp v v' ds rpy e l dem deg u d e' l' g
  assume u: "update_states ds rpy v' e l dem deg (set_pose_strictness bp v s) = Inr u" "dm_inv u"
    and s': "s' = dm_update_events d e' l' g u"
  let ?t = "u\<lparr>dm_alert_level := AL_none, dm_driver_interacting := d\<rparr>"
  have "lockout_view ?t = lockout_view u" "lockout_due ?t = lockout_due u" "dm_settings ?t = DMS"
    using u(2) by (simp_all add: lockout_view_def lockout_due_def dm_inv_def)
  then show ?thesis
    using that [of ?t] update_states_lockout [OF u(1)] s' by (simp add: dm_update_events_def)
qed

text \<open>While a lockout is served the clock advances; at its end it stops and is reset.\<close>

lemma run_step_lockout_served:
  assumes "dm_inv s" "dm_lockout_active s" "run_step i demo s = Inr s'"
  shows "lockout_view s' =
    (if dm_lockout_time_elapsed s < dm_lockout_duration s
     then (True, dm_lockout_time_elapsed s + 1, dm_lockout_duration s) else (False, 0, dm_lockout_duration s))"
proof -
  obtain t where t: "lockout_view t = lockout_view s" "lockout_view s' = lockout_view (dm_update_lockout t)"
    using run_step_lockout [OF assms(1,3)] by metis
  have "lockout_view (lockout_enter t) = lockout_view t"
    using t(1) assms(2) by (simp add: lockout_enter_def lockout_view_def Let_def)
  moreover have "lockout_view (lockout_tick u) =
      (if dm_lockout_time_elapsed s < dm_lockout_duration s
       then (True, dm_lockout_time_elapsed s + 1, dm_lockout_duration s) else (False, 0, dm_lockout_duration s))"
    if "lockout_view u = lockout_view s" for u
    using that assms(2) by (simp add: lockout_tick_def lockout_view_def Let_def)
  ultimately show ?thesis using t by (simp add: dm_update_lockout_def)
qed

lemma run_step_lockout_starts:
  assumes "dm_inv s" "\<not> dm_lockout_active s" "snd (lockout_due s)" "run_step i demo s = Inr s'"
  shows "lockout_view s' = (True, 1, st_LOCKOUT_TIMES DMS ! min (dm_lockout_count s) 3)"
proof -
  obtain t where t: "lockout_view t = lockout_view s" "lockout_due t = lockout_due s" "dm_settings t = DMS"
    "lockout_view s' = lockout_view (dm_update_lockout t)"
    using run_step_lockout [OF assms(1,4)] .
  have c: "dm_lockout_count t = dm_lockout_count s" "dm_alert_3_cnt t \<ge> 2 \<or> dm_no_response_cnt t \<ge> 1"
    "\<not> dm_lockout_active t" "dm_lockout_time_elapsed t = 0"
    using t assms(1-3) by (auto simp: lockout_due_def lockout_view_def dm_inv_def lockout_ok_def)
  have "st_LOCKOUT_TIMES DMS ! min n 3 \<in> set (st_LOCKOUT_TIMES DMS)" for n
    by (rule nth_mem) simp
  then have "1 \<le> st_LOCKOUT_TIMES DMS ! min (dm_lockout_count s) 3"
    by (meson lockout_time_pos one_le_numeral order_trans)
  then show ?thesis
    using t(3) c unfolding t(4)
    by (auto simp: dm_update_lockout_def lockout_enter_def lockout_tick_def lockout_view_def Let_def numeral_3_eq_3)
qed

definition dm_steps :: "(dm_in \<times> bool) list \<Rightarrow> dm_op list" where
  "dm_steps is = map (\<lambda>(i, demo). Dm_step i demo) is"

lemma dm_steps_simps [simp]: "dm_steps [] = []" "dm_steps ((i, demo) # is) = Dm_step i demo # dm_steps is"
  by (simp_all add: dm_steps_def)

lemma dm_exec_step:
  assumes "complete_in i"
  shows "run_step i demo s = Inr (dm_exec s (Dm_step i demo))"
  using dm_exec_result_total [of "Dm_step i demo" s] assms by (simp add: complete_op_def dm_exec_result_def)

lemma lockout_run:
  assumes "dm_inv s \<and> alert_ok s" "dm_lockout_active s" "\<forall>(i, demo) \<in> set is. complete_in i"
    and "int (length is) \<le> dm_lockout_duration s - dm_lockout_time_elapsed s + 1"
  shows "dm_lockout_active (frames dm_exec s (dm_steps is)) \<longleftrightarrow>
    int (length is) \<le> dm_lockout_duration s - dm_lockout_time_elapsed s"
  using assms
proof (induction "is" arbitrary: s)
  case Nil
  then show ?case by (simp add: dm_inv_def lockout_ok_def)
next
  case (Cons p "is")
  obtain i demo where p: "p = (i, demo)" by fastforce
  let ?t = "dm_exec s (Dm_step i demo)"
  have step: "run_step i demo s = Inr ?t" using Cons.prems(3) p by (simp add: dm_exec_step)
  have view: "lockout_view ?t =
    (if dm_lockout_time_elapsed s < dm_lockout_duration s
     then (True, dm_lockout_time_elapsed s + 1, dm_lockout_duration s) else (False, 0, dm_lockout_duration s))"
    using run_step_lockout_served [OF _ Cons.prems(2) step] Cons.prems(1) by simp
  have inv: "dm_inv ?t \<and> alert_ok ?t" using dm_exec_inv Cons.prems(1) .
  show ?case
  proof (cases "dm_lockout_time_elapsed s < dm_lockout_duration s")
    case True
    with view have "dm_lockout_active ?t" "dm_lockout_time_elapsed ?t = dm_lockout_time_elapsed s + 1"
      "dm_lockout_duration ?t = dm_lockout_duration s" by (simp_all add: lockout_view_def)
    with Cons.IH [OF inv] Cons.prems(3,4) p show ?thesis by auto
  next
    case False
    with Cons.prems(4) have "is = []" by (cases "is") simp_all
    with False Cons.prems(4) view p show ?thesis by (simp add: lockout_view_def)
  qed
qed

text \<open>
  C12. Lockouts escalate and last exactly as long as they should: when two terminal alerts or one
  ignored terminal alert have been counted and no lockout is running, the next step starts one;
  it is in force for 1 minute the first time, then 5, 15 and 30 minutes (1200, 6000, 18000 and
  36000 steps of 50 ms), and the step after that releases it.
\<close>

theorem lockout_lasts:
  assumes "dm_inv s \<and> alert_ok s" "\<not> dm_lockout_active s" "dm_alert_3_cnt s \<ge> 2 \<or> dm_no_response_cnt s \<ge> 1"
    and "\<forall>(i, demo) \<in> set is. complete_in i" "is \<noteq> []"
    and "T = [1200, 6000, 18000, 36000] ! min (dm_lockout_count s) 3" "int (length is) \<le> T + 1"
  shows "dm_lockout_active (frames dm_exec s (dm_steps is)) \<longleftrightarrow> int (length is) \<le> T"
proof -
  obtain i demo js where js: "is = (i, demo) # js" using assms(5) by (cases "is") auto
  let ?t = "dm_exec s (Dm_step i demo)"
  have step: "run_step i demo s = Inr ?t" using assms(4) js by (simp add: dm_exec_step)
  have inv: "dm_inv ?t \<and> alert_ok ?t" using dm_exec_inv assms(1) .
  have "lockout_view ?t = (True, 1, T)"
    using run_step_lockout_starts [OF _ assms(2) _ step] assms(1,3,6) by (simp add: lockout_due_def)
  then have "dm_lockout_active ?t" "dm_lockout_time_elapsed ?t = 1" "dm_lockout_duration ?t = T"
    by (simp_all add: lockout_view_def)
  with lockout_run [OF inv, of js] assms(4,7) js show ?thesis by auto
qed

text \<open>
  C13. Driver monitoring is safe to run: on messages with complete lists, any sequence of steps (in
  demo mode or not) and toggles from the constructor returns, the awareness stays between -10% and
  100%, the alert level says what the awareness says (terminal exactly when none is left, the
  second level exactly when it is positive but below the second threshold), the distraction filter
  stays a probability, and a lockout never outlasts its duration.
\<close>

theorem monitoring_invariant:
  assumes "\<forall>op \<in> set ops. complete_op op"
  shows "\<exists>s. dm_run ops (dm_init DRIVER_MONITOR_SETTINGS rhd always_on locked n) = Inr s \<and>
    - (1 / 10) \<le> dm_awareness s \<and> dm_awareness s \<le> 1 \<and>
    (dm_alert_level s = AL_three \<longleftrightarrow> dm_awareness s \<le> 0) \<and>
    (dm_alert_level s = AL_two \<longleftrightarrow> 0 < dm_awareness s \<and> dm_awareness s \<le> dm_threshold_alert_2 s) \<and>
    0 \<le> fo_x (dm_driver_distraction_filter s) \<and> fo_x (dm_driver_distraction_filter s) \<le> 1 \<and>
    dm_lockout_time_elapsed s \<le> dm_lockout_duration s"
proof -
  let ?s = "frames dm_exec (dm_init DRIVER_MONITOR_SETTINGS rhd always_on locked n) ops"
  have "dm_inv ?s \<and> alert_ok ?s" using dmm.run_inv [OF dm_init_inv assms] .
  then show ?thesis
    using dm_run_frames [OF assms] by (simp add: dm_inv_defs alert_ok_def)
qed

subsection \<open>A distracted driver\<close>

text \<open>
  What the awareness depends on. The reading part of a step leaves it alone; the collection
  below says so field by field.
\<close>

definition awareness_view :: "dm \<Rightarrow> real \<times> monitoring_policy \<times> real \<times> real \<times> real \<times> real \<times> int" where
  "awareness_view s = (dm_awareness s, dm_active_policy s, dm_threshold_alert_1 s, dm_threshold_alert_2 s,
     dm_step_change s, dm_last_vision_awareness s, dm_hi_stds s)"

lemma awareness_view_us [simp]:
  "awareness_view (set_pose_strictness bp v s) = awareness_view s"
  "awareness_view (us_wheel_side ds v e demo s) = awareness_view s"
  "awareness_view (us_record_face d deg py m s) = awareness_view s"
  "awareness_view (get_distracted_types s) = awareness_view s"
  "awareness_view (us_judge_face d s) = awareness_view s"
  "awareness_view (us_learn_offsets v e s) = awareness_view s"
  "awareness_view (us_count_uncertain l s) = awareness_view s"
  by (simp_all add: awareness_view_def set_pose_strictness_def us_wheel_side_def us_record_face_def
      us_judge_face_def us_learn_offsets_def us_count_uncertain_def Let_def)

definition face_view :: "dm \<Rightarrow> bool \<times> bool \<times> bool \<times> real \<times> bool option" where
  "face_view s = (dm_face_detected s, po_low_std (dm_pose s), dm_driver_distracted s,
     fo_x (dm_driver_distraction_filter s), dm_wheel_on_right_last s)"

lemma face_view_us [simp]:
  "face_view (us_learn_offsets v e s) = face_view s"
  "face_view (us_count_uncertain l s) = face_view s"
  "face_view (set_pose_strictness bp v s) = face_view s"
  "face_view (set_policy p s) = face_view s"
  by (simp_all add: face_view_def us_learn_offsets_def us_count_uncertain_def set_pose_strictness_def
      set_policy_def Let_def)

text \<open>
  A driver on the phone: the face of the seat on side \<open>r\<close> is seen clearly with a phone in
  sight, the car drives faster than 10 km/h with controls engaged, and the driver touches
  neither wheel nor accelerator.
\<close>

definition phone_seat :: "driver_data \<Rightarrow> bool" where
  "phone_seat d \<longleftrightarrow> complete_seat d \<and> dd_facePositionStd d \<noteq> [] \<and>
     7 / 10 < dd_faceProb d \<and> 1 / 2 < dd_phoneProb d \<and>
     dd_faceOrientationStd d ! 0 < 3 / 10 \<and> dd_faceOrientationStd d ! 1 < 3 / 10"

definition phone_frame :: "bool \<Rightarrow> dm_in \<Rightarrow> bool" where
  "phone_frame r i \<longleftrightarrow> complete_in i \<and> (di_selfdriveEnabled i \<or> di_latActive i) \<and> 28 / 10 \<le> di_vEgo i \<and>
     \<not> di_steeringPressed i \<and> \<not> (di_selfdriveEnabled i \<and> di_gasPressed i) \<and>
     phone_seat (if r then ds_rightDriverData (di_driverState i) else ds_leftDriverData (di_driverState i))"

text \<open>The wheel side never changes while engaged, so it is this seat's data that is read.\<close>

lemma us_wheel_side_known:
  "dm_wheel_on_right_last s = Some r \<Longrightarrow> dm_wheel_on_right (us_wheel_side ds v True False s) = r"
  by (simp add: us_wheel_side_def Let_def)

lemma us_read_face_phone:
  assumes "dm_inv s" "phone_seat d" "m < 3 / 10"
  shows "face_view (us_read_face d deg py m s) =
    (True, True, True, fo_x (dm_driver_distraction_filter s) + (1 - fo_x (dm_driver_distraction_filter s)) / 6,
     Some (dm_wheel_on_right s))"
    and "awareness_view (us_read_face d deg py m s) = awareness_view s"
proof -
  let ?t = "get_distracted_types (us_record_face d deg py m s)"
  have st: "dm_settings s = DMS" and f: "fo_initialized (dm_driver_distraction_filter s)"
    "fo_alpha (dm_driver_distraction_filter s) = 1 / 6"
    using assms(1) by (simp_all add: dm_inv_def filter_ok_def)
  have "dm_settings ?t = DMS" "dm_face_detected ?t" "po_low_std (dm_pose ?t)" "dt_phone (dm_distracted_types ?t)"
    "dm_driver_distraction_filter ?t = dm_driver_distraction_filter s"
    "dm_wheel_on_right_last ?t = Some (dm_wheel_on_right s)"
    using assms(2,3) st by (simp_all add: us_record_face_def Let_def phone_seat_def)
  then show "face_view (us_read_face d deg py m s) =
    (True, True, True, fo_x (dm_driver_distraction_filter s) + (1 - fo_x (dm_driver_distraction_filter s)) / 6,
     Some (dm_wheel_on_right s))"
    using assms(2) f
    by (simp add: us_read_face_def us_judge_face_def face_view_def Let_def phone_seat_def fo_update_def field_simps)
  show "awareness_view (us_read_face d deg py m s) = awareness_view s" by (simp add: us_read_face_def)
qed

text \<open>One step with such a frame, split at the choice of the policy.\<close>

lemma phone_update_states:
  assumes inv: "dm_inv s" and side: "dm_wheel_on_right_last s = Some r" and ok: "phone_frame r i"
  obtains u where "run_step i False s =
      Inr (dm_update_events False True False (di_gearShifter i \<notin> {GS_drive, GS_low}) (us_choose_policy u))"
    "dm_inv u" "awareness_view u = awareness_view s"
    "face_view u = (True, True, True, fo_x (dm_driver_distraction_filter s) +
       (1 - fo_x (dm_driver_distraction_filter s)) / 6, Some r)"
proof -
  define ds where "ds = di_driverState i"
  define s0 where "s0 = set_pose_strictness (di_brakeDisengageProbs i ! 0) (di_vEgo i) s"
  define s1 where "s1 = us_wheel_side ds (di_vEgo i) True False s0"
  define d where "d = us_driver_data ds s1"
  have inv0: "dm_inv s0" unfolding s0_def using inv by (rule set_pose_strictness_inv)
  then have inv1: "dm_inv s1" unfolding s1_def by (rule us_wheel_side_inv)
  have s0: "dm_wheel_on_right_last s0 = Some r" "dm_driver_distraction_filter s0 = dm_driver_distraction_filter s"
    using side by (simp_all add: s0_def set_pose_strictness_def Let_def)
  then have s1: "dm_wheel_on_right s1 = r" "dm_driver_distraction_filter s1 = dm_driver_distraction_filter s"
    by (simp_all add: s1_def us_wheel_side_known) (simp add: us_wheel_side_def Let_def)
  have seat: "phone_seat d" using ok s1(1) by (simp add: d_def us_driver_data_def ds_def phone_frame_def)
  then have c: "2 \<le> length (dd_faceOrientation d)" "2 \<le> length (dd_facePosition d)"
    "2 \<le> length (dd_faceOrientationStd d)" "us_complete d"
    by (auto simp: phone_seat_def complete_seat_def us_complete_def)
  have in': "di_brakeDisengageProbs i \<noteq> []" "3 \<le> length (di_rpyCalib i)" "\<not> di_vEgo i < 28 / 10"
    "di_selfdriveEnabled i \<or> di_latActive i" "\<not> (di_steeringPressed i \<or> di_selfdriveEnabled i \<and> di_gasPressed i)"
    using ok by (auto simp: phone_frame_def complete_in_def)
  obtain py where py: "face_orientation_from_model (dd_faceOrientation d) (dd_facePosition d) (di_rpyCalib i) = Inr py"
    using face_orientation_total [OF c(1,2) in'(2)] by blast
  define m where "m = max (dd_faceOrientationStd d ! 0) (dd_faceOrientationStd d ! 1)"
  define u where "u = us_count_uncertain False (us_learn_offsets (di_vEgo i) True
      (us_read_face d (di_steeringAngleDeg i) py m s1))"
  have m: "m < 3 / 10" unfolding m_def max_less_iff_conj using seat by (simp add: phone_seat_def)
  have "update_states ds (di_rpyCalib i) (di_vEgo i) True False False (di_steeringAngleDeg i) s0 = Inr (us_choose_policy u)"
    using py c(3,4)
    by (simp add: update_states_def Let_def py_index_Inr py_index_0 m_def u_def flip: s1_def d_def)
  moreover have "dm_settings s = DMS" using inv by (simp add: dm_inv_def)
  ultimately have run: "run_step i False s =
      Inr (dm_update_events False True False (di_gearShifter i \<notin> {GS_drive, GS_low}) (us_choose_policy u))"
    using in' by (auto simp: run_step_def py_index_Inr Let_def ds_def s0_def)
  have "dm_inv u" unfolding u_def
    by (intro us_count_uncertain_inv us_learn_offsets_inv us_read_face_inv inv1)
  moreover have "awareness_view u = awareness_view s"
    by (simp add: u_def us_read_face_def s1_def s0_def)
  moreover have "face_view u = (True, True, True, fo_x (dm_driver_distraction_filter s) +
       (1 - fo_x (dm_driver_distraction_filter s)) / 6, Some r)"
    by (simp add: u_def us_read_face_phone(1) [OF inv1 seat m] s1)
  ultimately show ?thesis using that run by blast
qed

text \<open>The choice of the policy for a driver whose face is seen clearly.\<close>

lemma us_choose_policy_clear:
  assumes "dm_inv u" "face_view u = (True, True, b, x, r)"
  shows "face_view (us_choose_policy u) = face_view u" "dm_hi_stds (us_choose_policy u) = 0"
    "dm_is_model_uncertain (us_choose_policy u) \<longleftrightarrow> 200 \<le> dm_hi_stds u"
    "dm_hi_stds u < 200 \<Longrightarrow> dm_awareness (us_choose_policy u) \<le> 0 \<or>
       dm_active_policy (us_choose_policy u) = MP_vision \<and> dm_step_change (us_choose_policy u) = 1 / 260"
    "dm_hi_stds u < 200 \<Longrightarrow> dm_active_policy u = MP_vision \<or> dm_awareness u \<le> 0 \<Longrightarrow>
       dm_awareness (us_choose_policy u) = dm_awareness u"
  using assms
  by (auto simp: us_choose_policy_def face_view_def set_policy_def Let_def dm_inv_def const_defs)

text \<open>
  The events part for an engaged driver who touches nothing: no reset; the awareness falls by one
  step once the distraction filter is above 0.63, and never rises once it is above 0.37.
\<close>

lemma dm_update_alert_view [simp]:
  "awareness_view (dm_update_alert a s) = awareness_view s" "face_view (dm_update_alert a s) = face_view s"
  by (simp_all add: dm_update_alert_def awareness_view_def face_view_def Let_def)

lemma dm_update_awareness_view: "face_view (dm_update_awareness e l g s) = face_view s"
proof -
  have "face_view (reset_awareness t) = face_view t" "face_view (dm_recover t) = face_view t"
    "face_view (t\<lparr>dm_awareness := a\<rparr>) = face_view t" for t a
    by (simp_all add: face_view_def reset_awareness_def dm_recover_def Let_def)
  then show ?thesis by (simp add: dm_update_awareness_def dm_decay_def Let_def)
qed

lemma dm_update_events_view [simp]: "face_view (dm_update_events d e l g s) = face_view s"
  unfolding dm_update_events_def dm_update_awareness_view by (simp add: face_view_def)

lemma dm_update_awareness_policy:
  "dm_active_policy (dm_update_awareness e l g s) = dm_active_policy s"
  "dm_hi_stds (dm_update_awareness e l g s) = dm_hi_stds s"
proof -
  have *: "dm_active_policy (dm_update_alert a t) = dm_active_policy t" "dm_hi_stds (dm_update_alert a t) = dm_hi_stds t" for a t
    using dm_update_alert_view(1) [of a t] by (simp_all add: awareness_view_def)
  show "dm_active_policy (dm_update_awareness e l g s) = dm_active_policy s"
    "dm_hi_stds (dm_update_awareness e l g s) = dm_hi_stds s"
    by (simp_all add: dm_update_awareness_def dm_decay_def reset_awareness_def dm_recover_def * Let_def)
qed

lemma dm_update_events_policy [simp]:
  "dm_active_policy (dm_update_events d e l g s) = dm_active_policy s"
  "dm_hi_stds (dm_update_events d e l g s) = dm_hi_stds s"
  by (simp_all add: dm_update_events_def dm_update_awareness_policy)

lemma dm_update_events_idle:
  assumes "37 / 100 \<le> fo_x (dm_driver_distraction_filter s) \<or> dm_awareness s \<le> 0"
  shows "dm_awareness (dm_update_events False True False g s) =
    (if counts_distracted s then max (dm_awareness s - dm_step_change s) (- (1 / 10)) else dm_awareness s)"
proof -
  let ?t = "dm_update_lockout (s\<lparr>dm_alert_level := AL_none, dm_driver_interacting := False\<rparr>)"
  have "\<not> awareness_resets True g ?t" by (simp add: awareness_resets_def Let_def)
  moreover have "\<not> awareness_recovers False ?t"
    using assms by (auto simp: awareness_recovers_def lowspeed_exemption_def)
  moreover have "counts_distracted ?t = counts_distracted s" by (simp add: counts_distracted_def)
  moreover have "dm_awareness (dm_update_alert a t) = dm_awareness t" for a t
    using dm_update_alert_view(1) [of a t] by (simp add: awareness_view_def)
  ultimately show ?thesis
    by (simp add: dm_update_events_def dm_update_awareness_def dm_decay_def lowspeed_exemption_def always_on_exemption_def)
qed

text \<open>
  The two phases of a run with a phone in sight: the filter and the policy settle, then the
  awareness falls by one step of 1/260 per frame.
\<close>

definition phone_inv :: "bool \<Rightarrow> dm \<Rightarrow> bool" where
  "phone_inv r s \<longleftrightarrow> dm_inv s \<and> alert_ok s \<and> dm_wheel_on_right_last s = Some r"

definition settled :: "dm \<Rightarrow> bool" where
  "settled s \<longleftrightarrow> dm_hi_stds s = 0 \<and> (dm_active_policy s = MP_vision \<or> dm_awareness s \<le> 0)"

lemma phone_step:
  assumes "phone_inv r s" "phone_frame r i"
  defines "t \<equiv> dm_exec s (Dm_step i False)"
  shows "phone_inv r t"
    and "dm_hi_stds t = 0" "dm_hi_stds s = 0 \<Longrightarrow> settled t"
    and "1 - fo_x (dm_driver_distraction_filter t) = 5 / 6 * (1 - fo_x (dm_driver_distraction_filter s))"
    and "settled s \<Longrightarrow> 63 / 100 < fo_x (dm_driver_distraction_filter s) \<Longrightarrow>
      (if dm_awareness s \<le> 0 then dm_awareness t \<le> 0
       else dm_awareness t = max (dm_awareness s - 1 / 260) (- (1 / 10)))"
proof -
  have inv: "dm_inv s" "dm_wheel_on_right_last s = Some r" and i: "complete_in i"
    using assms by (simp_all add: phone_inv_def phone_frame_def)
  let ?x = "fo_x (dm_driver_distraction_filter s)"
  obtain u where run: "run_step i False s =
      Inr (dm_update_events False True False (di_gearShifter i \<notin> {GS_drive, GS_low}) (us_choose_policy u))"
    and u: "dm_inv u" "awareness_view u = awareness_view s"
      "face_view u = (True, True, True, ?x + (1 - ?x) / 6, Some r)"
    using phone_update_states [OF inv assms(2)] by metis
  define w where "w = us_choose_policy u"
  have t: "t = dm_update_events False True False (di_gearShifter i \<notin> {GS_drive, GS_low}) w"
    using run dm_exec_step [OF i] by (simp add: w_def t_def)
  note w = us_choose_policy_clear [OF u(1,3), folded w_def]
  have view: "face_view t = (True, True, True, ?x + (1 - ?x) / 6, Some r)" using t w(1) u(3) by simp
  have "dm_inv w" unfolding w_def using u(1) by (rule us_choose_policy_inv)
  then show "phone_inv r t"
    using dm_update_events_inv [of w False True False] view t by (simp add: phone_inv_def face_view_def)
  show "dm_hi_stds t = 0" using t w(2) by simp
  show "1 - fo_x (dm_driver_distraction_filter t) = 5 / 6 * (1 - ?x)"
    using view by (simp add: face_view_def field_simps)
  have xs: "dm_hi_stds u = dm_hi_stds s" "dm_awareness u = dm_awareness s" "dm_active_policy u = dm_active_policy s"
    using u(2) by (simp_all add: awareness_view_def)
  have xw: "fo_x (dm_driver_distraction_filter w) = ?x + (1 - ?x) / 6" "dm_driver_distracted w" "dm_face_detected w"
    using w(1) u(3) by (simp_all add: face_view_def)
  have low: "dm_awareness t \<le> 0" if "dm_awareness w \<le> 0"
    using that dm_update_events_idle [of w] step_change_bounds(1) [of w] \<open>dm_inv w\<close> t by (auto simp: dm_inv_def)
  show "settled t" if "dm_hi_stds s = 0"
    using w(2,4) t low xs that by (auto simp: settled_def)
  show "if dm_awareness s \<le> 0 then dm_awareness t \<le> 0
       else dm_awareness t = max (dm_awareness s - 1 / 260) (- (1 / 10))"
    if s: "settled s" and x: "63 / 100 < ?x"
  proof -
    have "?x \<le> 1" using inv by (simp add: dm_inv_def filter_ok_def)
    then have x': "63 / 100 < fo_x (dm_driver_distraction_filter w)" unfolding xw(1) using x by argo
    have aw: "dm_awareness w = dm_awareness s" using w(5) xs s by (simp add: settled_def)
    have step: "dm_awareness w \<le> 0 \<or> dm_step_change w = 1 / 260" using w(4) xs s by (auto simp: settled_def)
    have "counts_distracted w" using x' xw by (simp add: counts_distracted_def)
    then show ?thesis
      using dm_update_events_idle [of w] x' aw step low t by auto
  qed
qed

text \<open>
  Settling takes six frames: after \<open>n\<close> of them the filter is within \<open>(5/6)^n\<close> of one, and
  \<open>(5/6)^6 < 0.37\<close>; the policy is settled from the second frame on.
\<close>

abbreviation phone_exec :: "dm \<Rightarrow> dm_in \<Rightarrow> dm" where
  "phone_exec s i \<equiv> dm_exec s (Dm_step i False)"

lemma phone_run_filter:
  assumes "phone_inv r s" "\<forall>i \<in> set is. phone_frame r i"
  shows "phone_inv r (frames phone_exec s is) \<and>
    1 - fo_x (dm_driver_distraction_filter (frames phone_exec s is)) =
      (5 / 6) ^ length is * (1 - fo_x (dm_driver_distraction_filter s))"
  using assms
proof (induction "is" arbitrary: s)
  case (Cons i "is")
  have inv: "phone_inv r (phone_exec s i)" using phone_step(1) Cons.prems by simp
  show ?case
    using Cons.IH [OF inv] Cons.prems phone_step(4) [of r s i] by simp
qed simp

lemma phone_run_settles:
  assumes "phone_inv r s" "\<forall>i \<in> set is. phone_frame r i" "length is = 6"
  shows "phone_inv r (frames phone_exec s is)" "settled (frames phone_exec s is)"
    "63 / 100 < fo_x (dm_driver_distraction_filter (frames phone_exec s is))"
proof -
  note run = phone_run_filter [OF assms(1,2)]
  show "phone_inv r (frames phone_exec s is)" using run by simp
  have "0 \<le> fo_x (dm_driver_distraction_filter s)"
    using assms(1) by (simp add: phone_inv_def dm_inv_def filter_ok_def)
  then have "(5 / 6) ^ 6 * (1 - fo_x (dm_driver_distraction_filter s)) \<le> (5 / 6) ^ 6 * (1::real)"
    by (intro mult_left_mono) auto
  also have "\<dots> < 37 / 100" by (simp add: eval_nat_numeral)
  finally show "63 / 100 < fo_x (dm_driver_distraction_filter (frames phone_exec s is))"
    using run assms(3) by simp
  obtain ks j where ks: "is = ks @ [j]" using assms(3) by (cases "is" rule: rev_cases) auto
  obtain js i where "ks = js @ [i]" using assms(3) ks by (cases ks rule: rev_cases) auto
  with ks have js: "is = js @ [i, j]" by simp
  let ?a = "frames phone_exec s js"
  have a: "phone_inv r ?a" using phone_run_filter [OF assms(1), of js] assms(2) js by simp
  have ij: "phone_frame r i" "phone_frame r j" using assms(2) js by simp_all
  note b = phone_step(1,2) [OF a ij(1)]
  show "settled (frames phone_exec s is)"
    using phone_step(3) [OF b(1) ij(2) b(2)] js by simp
qed

text \<open>The rank: how many steps of 1/260 are left.\<close>

definition awareness_rank :: "dm \<Rightarrow> nat" where
  "awareness_rank s = nat \<lceil>260 * dm_awareness s\<rceil>"

definition phone_settled :: "bool \<Rightarrow> dm \<Rightarrow> bool" where
  "phone_settled r s \<longleftrightarrow> phone_inv r s \<and> settled s \<and> 63 / 100 < fo_x (dm_driver_distraction_filter s)"

lemma phone_settled_step:
  assumes "phone_settled r s" "phone_frame r i"
  shows "phone_settled r (phone_exec s i)" "awareness_rank (phone_exec s i) \<le> awareness_rank s - 1"
proof -
  have s: "phone_inv r s" "settled s" "63 / 100 < fo_x (dm_driver_distraction_filter s)" "dm_hi_stds s = 0"
    using assms(1) by (auto simp: phone_settled_def settled_def)
  note step = phone_step [OF s(1) assms(2)]
  show "phone_settled r (phone_exec s i)"
    using step(1,3,4) s(3,4) by (simp add: phone_settled_def)
  show "awareness_rank (phone_exec s i) \<le> awareness_rank s - 1"
  proof (cases "dm_awareness s \<le> 0")
    case True
    with step(5) [OF s(2,3)] have "dm_awareness (phone_exec s i) \<le> 0" by simp
    then show ?thesis by (simp add: awareness_rank_def ceiling_le_zero)
  next
    case False
    with step(5) [OF s(2,3)] have "dm_awareness (phone_exec s i) = max (dm_awareness s - 1 / 260) (- (1 / 10))" by simp
    then have "\<lceil>260 * dm_awareness (phone_exec s i)\<rceil> \<le> max (\<lceil>260 * dm_awareness s\<rceil> - 1) 0"
      by (simp add: ceiling_le_iff max_def algebra_simps)
    then show ?thesis unfolding awareness_rank_def by linarith
  qed
qed

interpretation phone: ranked_machine phone_exec "phone_frame r" "phone_settled r" awareness_rank for r
  by unfold_locales (rule phone_settled_step, assumption+)+

text \<open>
  C11. Driver monitoring catches a driver on the phone while driving: from any state of the monitor
  in which the side of the driver is known, if in 266 or more consecutive frames (13.3 seconds) the
  driver's face is seen clearly with a phone in sight, controls are engaged, the car drives at
  2.8 m/s or more, and the driver touches neither the wheel nor (while openpilot is engaged) the
  accelerator, no step fails and the monitor ends in the terminal alert, whatever it had learned before
  and whichever policy was active. Slower cars, which have an exemption, are not covered.
\<close>

theorem phone_use_ends_in_alert:
  assumes "dm_inv s \<and> alert_ok s" "dm_wheel_on_right_last s = Some r"
    and "\<forall>i \<in> set is. phone_frame r i" "266 \<le> length is"
  shows "\<exists>t. dm_run (map (\<lambda>i. Dm_step i False) is) s = Inr t \<and> dm_alert_level t = AL_three"
proof -
  let ?ops = "map (\<lambda>i. Dm_step i False) is" and ?mid = "frames phone_exec s (take 6 is)"
  have frames_map: "frames dm_exec u (map (\<lambda>i. Dm_step i False) js) = frames phone_exec u js" for u js
    by (induction js arbitrary: u) simp_all
  have first: "\<forall>i \<in> set (take 6 is). phone_frame r i" and rest: "\<forall>i \<in> set (drop 6 is). phone_frame r i"
    using assms(3) in_set_takeD in_set_dropD by fast+
  have "phone_inv r s" using assms(1,2) by (simp add: phone_inv_def)
  then have mid: "phone_settled r ?mid"
    using phone_run_settles [OF _ first] assms(4) by (simp add: phone_settled_def)
  then have "dm_awareness ?mid \<le> 1" by (simp add: phone_settled_def phone_inv_def dm_inv_def awareness_ok_def)
  then have "awareness_rank ?mid \<le> 260" by (simp add: awareness_rank_def ceiling_le_iff)
  then have "awareness_rank (frames phone_exec ?mid (drop 6 is)) = 0"
    using phone.run_exhausted [OF mid rest] assms(4) by simp
  moreover have "phone_settled r (frames phone_exec ?mid (drop 6 is))" using phone.run_inv [OF mid rest] .
  moreover have "frames phone_exec ?mid (drop 6 is) = frames phone_exec s is"
    by (simp flip: frames_append)
  ultimately have "dm_awareness (frames phone_exec s is) \<le> 0" "alert_ok (frames phone_exec s is)"
    by (simp_all add: awareness_rank_def ceiling_le_zero phone_settled_def phone_inv_def)
  then have "dm_alert_level (frames phone_exec s is) = AL_three" by (simp add: alert_ok_def)
  moreover have "\<forall>op \<in> set ?ops. complete_op op" using assms(3) by (auto simp: complete_op_def phone_frame_def)
  ultimately show ?thesis using dm_run_frames [of ?ops s] frames_map by simp
qed

text \<open>A concrete driver for the witnesses: on the left seat, phone in hand, at 20 m/s.\<close>

definition example_driver :: driver_data where
  "example_driver = \<lparr>dd_faceProb = 1, dd_faceOrientation = [0, 0, 0], dd_facePosition = [0, 0],
     dd_faceOrientationStd = [0, 0, 0], dd_facePositionStd = [0, 0], dd_leftEyeProb = 1, dd_rightEyeProb = 1,
     dd_leftBlinkProb = 0, dd_rightBlinkProb = 0, dd_sunglassesProb = 0, dd_phoneProb = 1\<rparr>"

definition example_phone :: dm_in where
  "example_phone = \<lparr>di_driverState = \<lparr>ds_wheelOnRightProb = 0, ds_leftDriverData = example_driver,
       ds_rightDriverData = example_driver, ds_frameId = 2\<rparr>,
     di_vEgo = 20, di_gearShifter = GS_drive, di_steeringPressed = False, di_gasPressed = False,
     di_steeringAngleDeg = 0, di_selfdriveEnabled = True, di_latActive = True,
     di_brakeDisengageProbs = [0], di_rpyCalib = [0, 0, 0]\<rparr>"

definition example_monitor :: dm where
  "example_monitor = (dm_init DRIVER_MONITOR_SETTINGS False True False 0)\<lparr>dm_wheel_on_right_last := Some False\<rparr>"

lemma example_monitor_ok: "dm_inv example_monitor \<and> alert_ok example_monitor" "\<not> dm_lockout_active example_monitor"
  "dm_lockout_count example_monitor = 0"
  using dm_init_inv [of False True False 0]
  by (simp_all add: example_monitor_def dm_inv_defs alert_ok_def)
    (simp_all add: dm_init_def set_policy_def reset_awareness_def Let_def)

lemma example_phone_ok: "complete_in example_phone" "phone_frame False example_phone"
  by (simp_all add: example_phone_def example_driver_def complete_in_def complete_seat_def phone_frame_def phone_seat_def)

theorem phone_use_ends_in_alert_witness:
  "\<exists>t. dm_run (map (\<lambda>i. Dm_step i False) (replicate 300 example_phone)) example_monitor = Inr t \<and>
     dm_alert_level t = AL_three"
  by (rule phone_use_ends_in_alert [OF example_monitor_ok(1), of False])
     (simp_all add: example_monitor_def example_phone_ok)

theorem monitoring_invariant_witness:
  "\<exists>s. dm_run [Dm_step example_phone False, Dm_always_on False, Dm_step example_phone True]
      (dm_init DRIVER_MONITOR_SETTINGS False True False 3) = Inr s \<and> dm_awareness s \<le> 1"
  using monitoring_invariant [of "[Dm_step example_phone False, Dm_always_on False, Dm_step example_phone True]" False True False 3]
  by (auto simp: complete_op_def example_phone_ok)

theorem lockout_lasts_witness:
  "dm_lockout_active (frames dm_exec (example_monitor\<lparr>dm_no_response_cnt := 1\<rparr>)
     (dm_steps (replicate 1200 (example_phone, False)))) \<and>
   \<not> dm_lockout_active (frames dm_exec (example_monitor\<lparr>dm_no_response_cnt := 1\<rparr>)
     (dm_steps (replicate 1201 (example_phone, False))))"
proof -
  let ?s = "example_monitor\<lparr>dm_no_response_cnt := 1\<rparr>"
  have s: "dm_inv ?s \<and> alert_ok ?s" "\<not> dm_lockout_active ?s" "dm_lockout_count ?s = 0"
    using example_monitor_ok by (simp_all add: dm_inv_defs alert_ok_def)
  show ?thesis
    using lockout_lasts [OF s(1,2), of "replicate 1200 (example_phone, False)" 1200]
      lockout_lasts [OF s(1,2), of "replicate 1201 (example_phone, False)" 1200] s(3)
    by (simp add: example_phone_ok)
qed

end
