(* ===== verification/Monitoring_Link.thy ===== *)
theory Monitoring_Link
  imports SelfdriveD Driver_Monitoring_Runs
begin

text \<open>
  Driver monitoring and \<open>selfdrived\<close> together: the fields of \<open>driverMonitoringState\<close> that a frame of
  \<open>selfdrived\<close> reads are those of the packet the monitor published, and a lockout or an always-on
  lockout keeps openpilot from engaging.
\<close>

definition reads_packet :: "sm_in \<Rightarrow> dm_packet \<Rightarrow> bool" where
  "reads_packet i p \<longleftrightarrow>
     in_dm_lockout i = pk_lockout p \<and> in_dm_alwaysOnLockout i = pk_alwaysOnLockout p \<and>
     in_dm_vision i = (pk_activePolicy p = MP_vision) \<and> in_dm_alertLevel i = pk_alertLevel p \<and>
     in_dm_uncertain_percent i = pk_uncertainOffroadAlertPercent p"

lemma ue_driver_monitoring_event:
  assumes "sdd_wf E s" "\<not> cp_notCar (env_CP E)" "in_dm_lockout i \<or> in_dm_alwaysOnLockout i"
  shows "ev_has (sdd_events (ue_driver_monitoring E i s)) EV_tooDistracted"
proof -
  define s1 where "s1 = (if in_dm_lockout i \<and> \<not> sdd_dm_lockout_set s then
        (sdd_effect True (PutBool ''DriverTooDistracted'' True) s)\<lparr>sdd_dm_lockout_set := True\<rparr>
      else if \<not> in_dm_lockout i \<and> sdd_dm_lockout_set s then
        (sdd_effect True (RemoveParam ''DriverTooDistracted'') s)\<lparr>sdd_dm_lockout_set := False\<rparr>
      else s)"
  define s2 where "s2 = sdd_add E [(in_dm_lockout i \<or> in_dm_alwaysOnLockout i, EV_tooDistracted)] s1"
  have "ue_le E {} s s1" unfolding s1_def by (intro ue_intros ue_le_refl)
  then have wf1: "sdd_wf E s1" using assms(1) by (rule ue_leD(1))
  then have wf2: "sdd_wf E s2" unfolding s2_def by (rule ue_leD(1) [rotated]) (intro ue_intros ue_le_refl)
  have "ev_has (sdd_events s2) EV_tooDistracted"
    using wf1 assms(3) by (simp add: s2_def sdd_add_has)
  moreover have "ue_le E {} s2 (ue_driver_monitoring E i s)"
    using assms(2) unfolding ue_driver_monitoring_def Let_def
    by (simp flip: s1_def s2_def) (intro ue_le_add_from_msg_sp conjI impI ue_intros ue_le_refl)
  ultimately show ?thesis using ue_leD(2) wf2 by blast
qed

lemma frame_too_distracted:
  assumes "sdd_wf E s" "sdd_initialized s" "\<not> cp_passive (env_CP E)" "\<not> cp_notCar (env_CP E)"
    and "in_dm_lockout i \<or> in_dm_alwaysOnLockout i"
  shows "ev_has (sdd_events (update_events E cfg i CS s)) EV_tooDistracted"
proof -
  obtain s1 where s1: "update_events E cfg i CS s = ue_initialized E cfg i CS s1" "ue_le E UNIV s s1"
    using update_events_initialized [OF assms(1-3)] by metis
  let ?s2 = "ue_before_car E i CS s1"
  have wf1: "sdd_wf E s1" using ue_leD(1) [OF s1(2) assms(1)] .
  have wf2: "sdd_wf E ?s2" by (rule ue_leD(1) [OF _ wf1]) (intro ue_intros ue_le_refl)
  have "sdd_wf E (sdd_add E xs s1)" for xs by (rule ue_leD(1) [OF _ wf1]) (intro ue_intros ue_le_refl)
  then have "ev_has (sdd_events ?s2) EV_tooDistracted"
    unfolding ue_before_car_def using assms(4,5) by (rule ue_driver_monitoring_event)
  moreover have "ue_le E (UE_REMOVED \<union> {EV_belowSteerSpeed, EV_resumeRequired}) ?s2 (ue_initialized E cfg i CS s1)"
    unfolding ue_initialized_split by (intro ue_intros ue_le_refl) (auto simp: UE_REMOVED_def)
  ultimately show ?thesis unfolding s1(1) using ue_leD(2) wf2 by (auto simp: UE_REMOVED_def)
qed

text \<open>
  C14. A locked-out driver cannot engage: while the last packet of the driver monitor reports a
  lockout (or, with always-on monitoring, an awareness below the second threshold), a disengaged
  process on a car that is neither in dashcam mode nor a body (\<open>notCar\<close>) stays disengaged, whatever
  the driver presses.
\<close>

theorem locked_out_driver_cannot_engage:
  assumes "sdd_inv E s" "sdd_initialized s" "\<not> cp_passive (env_CP E)" "\<not> cp_notCar (env_CP E)"
    and "sm_state (sh_sm (sdd_shared s)) = OP_disabled" "reads_packet i (get_state_packet d)"
    and "dm_lockout_active d \<or> dm_always_on d \<and> dm_awareness d \<le> dm_threshold_alert_2 d"
  shows "sm_state (sh_sm (sdd_shared (snd (step_controls E i s)))) = OP_disabled \<and>
    \<not> sdd_enabled (snd (step_controls E i s))"
proof -
  let ?CS = "sample_CS i s" and ?s1 = "snd (data_sample E i s)"
  let ?s2 = "update_events E (sdd_config s) i ?CS ?s1"
  obtain s3 where s1: "sdd_wf E ?s1" "sdd_initialized ?s1"
    and s2: "sdd_wf E ?s2" "sdd_initialized ?s2" "sh_sm (sdd_shared ?s2) = sh_sm (sdd_shared s)"
    and s3: "sdd_wf E s3" "sdd_enabled s3 = sdd_enabled (step_main_machine E ?s2)"
      "sh_sm (sdd_shared s3) = sh_sm (sdd_shared (step_main_machine E ?s2))"
    and step: "step_controls E i s = (?CS, step_mads E i ?CS s3)"
    by (rule step_initialized [OF assms(1-3), of i])
  have "in_dm_lockout i \<or> in_dm_alwaysOnLockout i"
    using assms(6,7) by (auto simp: reads_packet_def get_state_packet_def Let_def)
  with frame_too_distracted [OF s1 assms(3,4)]
  have "ev_has (sdd_events ?s2) EV_tooDistracted" by blast
  then have "ev_contains (sdd_events ?s2) ET_NO_ENTRY"
    by (rule ev.has_contains [OF wf_events [OF s2(1)]]) simp
  from no_entry_stays_disabled [OF assms(3) s2(2) _ this] assms(5) s2(3) s3 step
  show ?thesis by simp
qed

theorem locked_out_driver_cannot_engage_witness:
  "let d = example_monitor\<lparr>dm_lockout_active := True\<rparr>; p = get_state_packet d;
       s = (example_sdd False)\<lparr>sdd_shared := (sdd_shared (example_sdd False))\<lparr>sh_sm := sd_init, sh_enabled := False\<rparr>\<rparr>;
       i = (example_in example_brake [] True)\<lparr>in_dm_lockout := pk_lockout p, in_dm_alwaysOnLockout := pk_alwaysOnLockout p,
         in_dm_vision := pk_activePolicy p = MP_vision, in_dm_alertLevel := pk_alertLevel p,
         in_dm_uncertain_percent := pk_uncertainOffroadAlertPercent p\<rparr>
   in \<not> sdd_enabled (snd (step_controls example_env i s))"
proof -
  let ?s = "(example_sdd False)\<lparr>sdd_shared := (sdd_shared (example_sdd False))\<lparr>sh_sm := sd_init, sh_enabled := False\<rparr>\<rparr>"
  have inv: "sdd_inv example_env ?s" "sdd_initialized ?s" "sm_state (sh_sm (sdd_shared ?s)) = OP_disabled"
    by (simp_all add: sdd_inv_def sdd_wf_def sh_wf_def example_sdd_def example_env_def mads_inv_def mads_init_def sd_init_def)
  show ?thesis
    unfolding Let_def
    by (rule locked_out_driver_cannot_engage [where d = "example_monitor\<lparr>dm_lockout_active := True\<rparr>",
          OF inv(1,2) _ _ inv(3), THEN conjunct2])
      (simp_all add: reads_packet_def)
qed

end
