(* ===== verification/Lane_Change.thy ===== *)
theory Lane_Change
  imports Car_State
begin

text \<open>
  Lane changes: \<open>DesireHelper\<close> of \<open>selfdrive/controls/lib/desire_helper.py\<close> with
  \<open>AutoLaneChangeController\<close> and \<open>LaneTurnController\<close> of \<open>sunnypilot/selfdrive/controls/lib\<close>, the
  lane departure warning (\<open>ldw.py\<close>) and \<open>BlinkerPauseLateral\<close>. The controllers' references to
  their parent are arguments; parameter reads are inputs of the frame. A parameter that is a
  number or not (\<open>float(value)\<close> fails or is not finite) is an option.
\<close>

subsection \<open>AutoLaneChangeController\<close>

definition ALC_OFF :: int where "ALC_OFF = -1"
definition ALC_NUDGE :: int where "ALC_NUDGE = 0"
definition ALC_NUDGELESS :: int where "ALC_NUDGELESS = 1"

definition AUTO_LANE_CHANGE_TIMER :: "int \<rightharpoonup> real" where
  "AUTO_LANE_CHANGE_TIMER = map_of
     [(ALC_OFF, 0), (ALC_NUDGE, 0), (ALC_NUDGELESS, 5 / 100), (2, 1 / 2), (3, 1), (4, 2), (5, 3)]"

definition ONE_SECOND_DELAY :: real where "ONE_SECOND_DELAY = -1"

record lc_params =
  lcp_AutoLaneChangeTimer :: int
  lcp_AutoLaneChangeBsmDelay :: bool
  lcp_LaneTurnDesire :: bool
  lcp_LaneTurnValue :: "real option"

record alc =
  alc_wait_timer :: real
  alc_param_read_counter :: int
  alc_delay :: real
  alc_set_timer :: int
  alc_bsm_delay :: bool
  alc_prev_brake_pressed :: bool
  alc_allowed :: bool
  alc_prev_lane_change :: bool

definition alc_read_params :: "lc_params \<Rightarrow> alc \<Rightarrow> alc" where
  "alc_read_params p s = s\<lparr>alc_bsm_delay := lcp_AutoLaneChangeBsmDelay p, alc_set_timer := lcp_AutoLaneChangeTimer p\<rparr>"

definition alc_init :: "lc_params \<Rightarrow> alc" where
  "alc_init p = alc_read_params p
     \<lparr>alc_wait_timer = 0, alc_param_read_counter = 0, alc_delay = 0, alc_set_timer = lcp_AutoLaneChangeTimer p,
      alc_bsm_delay = False, alc_prev_brake_pressed = False, alc_allowed = False, alc_prev_lane_change = False\<rparr>"

definition alc_reset :: "lane_change_state \<Rightarrow> lane_change_direction \<Rightarrow> alc \<Rightarrow> alc" where
  "alc_reset st dir s =
     (if st = LC_off \<and> dir = LD_none
      then s\<lparr>alc_wait_timer := 0, alc_prev_brake_pressed := False, alc_prev_lane_change := False\<rparr> else s)"

definition alc_update_params :: "lc_params \<Rightarrow> alc \<Rightarrow> alc" where
  "alc_update_params p s =
     (let s = (if alc_param_read_counter s mod 50 = 0 then alc_read_params p s else s)
      in s\<lparr>alc_param_read_counter := alc_param_read_counter s + 1\<rparr>)"

definition update_lane_change_timers :: "bool \<Rightarrow> alc \<Rightarrow> alc" where
  "update_lane_change_timers blindspot_detected s =
     (let s = s\<lparr>alc_delay := dict_get AUTO_LANE_CHANGE_TIMER (alc_set_timer s) 0,
                alc_wait_timer := alc_wait_timer s + DT_MDL\<rparr>
      in if alc_bsm_delay s \<and> blindspot_detected \<and> alc_delay s > 0 then
           (if alc_delay s = 5 / 100 then s\<lparr>alc_wait_timer := ONE_SECOND_DELAY\<rparr>
            else s\<lparr>alc_wait_timer := alc_delay s + ONE_SECOND_DELAY\<rparr>)
         else s)"

definition update_allowed :: "alc \<Rightarrow> bool" where
  "update_allowed s \<longleftrightarrow>
     (if alc_set_timer s \<in> {ALC_OFF, ALC_NUDGE} then False
      else if alc_prev_brake_pressed s then False
      else if alc_prev_lane_change s then False
      else alc_wait_timer s > alc_delay s)"

definition update_lane_change :: "bool \<Rightarrow> bool \<Rightarrow> alc \<Rightarrow> alc" where
  "update_lane_change blindspot_detected brake_pressed s =
     (let s = (if brake_pressed \<and> \<not> alc_prev_brake_pressed s
               then s\<lparr>alc_prev_brake_pressed := brake_pressed\<rparr> else s);
          s = update_lane_change_timers blindspot_detected s
      in s\<lparr>alc_allowed := update_allowed s\<rparr>)"

definition alc_update_state :: "lane_change_state \<Rightarrow> lane_change_direction \<Rightarrow> alc \<Rightarrow> alc" where
  "alc_update_state st dir s =
     alc_reset st dir (if st = LC_laneChangeStarting then s\<lparr>alc_prev_lane_change := True\<rparr> else s)"

subsection \<open>LaneTurnController\<close>

definition LANE_CHANGE_SPEED_MIN :: real where "LANE_CHANGE_SPEED_MIN = 20 * MPH_TO_MS"

definition lane_turn_speed_from_param :: "real option \<Rightarrow> real" where
  "lane_turn_speed_from_param v =
     (case v of None \<Rightarrow> 0
      | Some speed_mph \<Rightarrow> if speed_mph \<le> 0 then 0 else min LANE_CHANGE_SPEED_MIN (speed_mph * MPH_TO_MS))"

record lane_turn =
  lt_turn_direction :: turn_direction
  lt_value :: real
  lt_param_read_counter :: int
  lt_enabled :: bool

definition lt_init :: "lc_params \<Rightarrow> lane_turn" where
  "lt_init p = \<lparr>lt_turn_direction = TD_none, lt_value = lane_turn_speed_from_param (lcp_LaneTurnValue p),
     lt_param_read_counter = 0, lt_enabled = lcp_LaneTurnDesire p\<rparr>"

definition lt_read_params :: "lc_params \<Rightarrow> lane_turn \<Rightarrow> lane_turn" where
  "lt_read_params p s = s\<lparr>lt_enabled := lcp_LaneTurnDesire p,
     lt_value := lane_turn_speed_from_param (lcp_LaneTurnValue p)\<rparr>"

definition lt_update_params :: "lc_params \<Rightarrow> lane_turn \<Rightarrow> lane_turn" where
  "lt_update_params p s =
     (let s = (if lt_param_read_counter s mod 50 = 0 then lt_read_params p s else s)
      in s\<lparr>lt_param_read_counter := lt_param_read_counter s + 1\<rparr>)"

definition update_lane_turn :: "car_state \<Rightarrow> lane_turn \<Rightarrow> lane_turn" where
  "update_lane_turn CS s =
     s\<lparr>lt_turn_direction :=
         (if cs_leftBlinker CS \<and> \<not> cs_rightBlinker CS \<and> cs_vEgo CS < lt_value s \<and> \<not> cs_leftBlindspot CS then TD_turnLeft
          else if cs_rightBlinker CS \<and> \<not> cs_leftBlinker CS \<and> cs_vEgo CS < lt_value s \<and> \<not> cs_rightBlindspot CS then TD_turnRight
          else TD_none)\<rparr>"

definition get_turn_direction :: "lane_turn \<Rightarrow> turn_direction" where
  "get_turn_direction s = (if \<not> lt_enabled s then TD_none else lt_turn_direction s)"

subsection \<open>DesireHelper\<close>

datatype desire = D_none | D_turnLeft | D_turnRight | D_laneChangeLeft | D_laneChangeRight

definition LANE_CHANGE_TIME_MAX :: real where "LANE_CHANGE_TIME_MAX = 10"
definition LANE_CHANGE_START_TIME :: real where "LANE_CHANGE_START_TIME = 1 / 2"

fun TURN_DESIRES :: "turn_direction \<Rightarrow> desire" where
  "TURN_DESIRES TD_none = D_none"
| "TURN_DESIRES TD_turnLeft = D_turnLeft"
| "TURN_DESIRES TD_turnRight = D_turnRight"

record desire_helper =
  dh_state :: lane_change_state
  dh_direction :: lane_change_direction
  dh_timer :: real
  dh_prev_one_blinker :: bool
  dh_desire :: desire
  dh_alc :: alc
  dh_lane_turn :: lane_turn
  dh_turn_direction :: turn_direction

definition dh_init :: "lc_params \<Rightarrow> desire_helper" where
  "dh_init p = \<lparr>dh_state = LC_off, dh_direction = LD_none, dh_timer = 0, dh_prev_one_blinker = False,
     dh_desire = D_none, dh_alc = alc_init p, dh_lane_turn = lt_init p, dh_turn_direction = TD_none\<rparr>"

definition get_lane_change_direction :: "car_state \<Rightarrow> lane_change_direction" where
  "get_lane_change_direction CS = (if cs_leftBlinker CS then LD_left else LD_right)"

definition one_blinker :: "car_state \<Rightarrow> bool" where
  "one_blinker CS \<longleftrightarrow> cs_leftBlinker CS \<noteq> cs_rightBlinker CS"

definition torque_applied :: "car_state \<Rightarrow> lane_change_direction \<Rightarrow> bool" where
  "torque_applied CS dir \<longleftrightarrow> cs_steeringPressed CS \<and>
     ((cs_steeringTorque CS > 0 \<and> dir = LD_left) \<or> (cs_steeringTorque CS < 0 \<and> dir = LD_right))"

definition blindspot_detected :: "car_state \<Rightarrow> lane_change_direction \<Rightarrow> bool" where
  "blindspot_detected CS dir \<longleftrightarrow>
     (cs_leftBlindspot CS \<and> dir = LD_left) \<or> (cs_rightBlindspot CS \<and> dir = LD_right)"

definition dh_off :: "desire_helper \<Rightarrow> desire_helper" where
  "dh_off s = s\<lparr>dh_state := LC_off, dh_direction := LD_none, dh_timer := 0\<rparr>"

definition dh_pre_lane_change :: "car_state \<Rightarrow> desire_helper \<Rightarrow> desire_helper" where
  "dh_pre_lane_change CS s =
     (let dir = get_lane_change_direction CS;
          bsm = blindspot_detected CS dir;
          s = s\<lparr>dh_direction := dir, dh_alc := update_lane_change bsm (cs_brakePressed CS) (dh_alc s)\<rparr>
      in if \<not> one_blinker CS \<or> cs_vEgo CS < LANE_CHANGE_SPEED_MIN then dh_off s
         else if (torque_applied CS dir \<or> alc_allowed (dh_alc s)) \<and> \<not> bsm
         then s\<lparr>dh_state := LC_laneChangeStarting, dh_timer := 0\<rparr>
         else s)"

definition dh_starting :: "car_state \<Rightarrow> real \<Rightarrow> desire_helper \<Rightarrow> desire_helper" where
  "dh_starting CS lane_change_prob s =
     (let s = s\<lparr>dh_timer := dh_timer s + DT_MDL\<rparr>
      in if lane_change_prob < 2 / 100 \<and> dh_timer s \<ge> LANE_CHANGE_START_TIME then
           (if one_blinker CS
            then s\<lparr>dh_timer := 0, dh_state := LC_preLaneChange, dh_direction := get_lane_change_direction CS\<rparr>
            else s\<lparr>dh_timer := 0, dh_state := LC_off, dh_direction := LD_none\<rparr>)
         else s)"

definition dh_transition :: "car_state \<Rightarrow> bool \<Rightarrow> real \<Rightarrow> desire_helper \<Rightarrow> desire_helper" where
  "dh_transition CS lateral_active lane_change_prob s =
     (if \<not> lateral_active \<or> dh_timer s > LANE_CHANGE_TIME_MAX \<or> alc_set_timer (dh_alc s) = ALC_OFF then dh_off s
      else if dh_state s = LC_off \<and> one_blinker CS \<and> \<not> dh_prev_one_blinker s \<and> \<not> cs_vEgo CS < LANE_CHANGE_SPEED_MIN
      then s\<lparr>dh_state := LC_preLaneChange, dh_timer := 0, dh_direction := get_lane_change_direction CS\<rparr>
      else if dh_state s = LC_preLaneChange then dh_pre_lane_change CS s
      else if dh_state s = LC_laneChangeStarting then dh_starting CS lane_change_prob s
      else s)"

definition dh_desire_of :: "desire_helper \<Rightarrow> desire" where
  "dh_desire_of s =
     (if dh_turn_direction s \<noteq> TD_none then TURN_DESIRES (dh_turn_direction s)
      else if dh_state s = LC_laneChangeStarting then
        (case dh_direction s of LD_left \<Rightarrow> D_laneChangeLeft | LD_right \<Rightarrow> D_laneChangeRight | LD_none \<Rightarrow> D_none)
      else D_none)"

definition dh_update :: "lc_params \<Rightarrow> car_state \<Rightarrow> bool \<Rightarrow> real \<Rightarrow> desire_helper \<Rightarrow> desire_helper" where
  "dh_update p CS lateral_active lane_change_prob s =
     (let s = s\<lparr>dh_alc := alc_update_params p (dh_alc s), dh_lane_turn := lt_update_params p (dh_lane_turn s)\<rparr>;
          lt = update_lane_turn CS (dh_lane_turn s);
          s = s\<lparr>dh_lane_turn := lt, dh_turn_direction := get_turn_direction lt\<rparr>;
          s = dh_transition CS lateral_active lane_change_prob s;
          s = s\<lparr>dh_prev_one_blinker := one_blinker CS \<and> lateral_active\<rparr>;
          s = s\<lparr>dh_desire := dh_desire_of s\<rparr>
      in s\<lparr>dh_alc := alc_update_state (dh_state s) (dh_direction s) (dh_alc s)\<rparr>)"

subsection \<open>Lane departure warning\<close>

record ldw =
  ldw_left :: bool
  ldw_right :: bool
  ldw_last_blinker_frame :: int

definition CAMERA_OFFSET :: real where "CAMERA_OFFSET = 4 / 100"
definition LDW_MIN_SPEED :: real where "LDW_MIN_SPEED = 31 * MPH_TO_MS"
definition LANE_DEPARTURE_THRESHOLD :: real where "LANE_DEPARTURE_THRESHOLD = 1 / 10"

definition ldw_init :: ldw where
  "ldw_init = \<lparr>ldw_left = False, ldw_right = False, ldw_last_blinker_frame = 0\<rparr>"

text \<open>
  The model output: the probabilities of the desires in the order of the enumeration (a lane
  change to the left is entry 3, to the right entry 4), the probabilities of the four lane lines
  and the lateral offset at which each begins.
\<close>

record ldw_model =
  lm_desirePrediction :: "real list"
  lm_laneLineProbs :: "real list"
  lm_laneLines_y0 :: "real list"

definition ldw_allowed :: "int \<Rightarrow> car_state \<Rightarrow> bool \<Rightarrow> ldw \<Rightarrow> bool" where
  "ldw_allowed frame CS latActive s \<longleftrightarrow>
     cs_vEgo CS > LDW_MIN_SPEED \<and> \<not> of_int (frame - ldw_last_blinker_frame s) * DT_CTRL < 5 \<and> \<not> latActive"

definition ldw_update :: "int \<Rightarrow> ldw_model \<Rightarrow> car_state \<Rightarrow> bool \<Rightarrow> ldw \<Rightarrow> py_error + ldw" where
  "ldw_update frame M CS latActive s =
     (let s = (if cs_leftBlinker CS \<or> cs_rightBlinker CS then s\<lparr>ldw_last_blinker_frame := frame\<rparr> else s)
      in if lm_desirePrediction M \<noteq> [] \<and> ldw_allowed frame CS latActive s then
           bind_result (py_index (lm_laneLineProbs M) 2) (\<lambda>p2.
           bind_result (py_index (lm_laneLineProbs M) 1) (\<lambda>p1.
           bind_result (py_index (lm_desirePrediction M) 3) (\<lambda>l_lane_change_prob.
           bind_result (py_index (lm_desirePrediction M) 4) (\<lambda>r_lane_change_prob.
           bind_result (if p1 > 1/2 then bind_result (py_index (lm_laneLines_y0 M) 1) (\<lambda>y. Inr (y > - (108/100 + CAMERA_OFFSET)))
                        else Inr False) (\<lambda>l_lane_close.
           bind_result (if p2 > 1/2 then bind_result (py_index (lm_laneLines_y0 M) 2) (\<lambda>y. Inr (y < 108/100 - CAMERA_OFFSET))
                        else Inr False) (\<lambda>r_lane_close.
             Inr (s\<lparr>ldw_left := l_lane_change_prob > LANE_DEPARTURE_THRESHOLD \<and> l_lane_close,
                    ldw_right := r_lane_change_prob > LANE_DEPARTURE_THRESHOLD \<and> r_lane_close\<rparr>)))))))
         else Inr (s\<lparr>ldw_left := False, ldw_right := False\<rparr>))"

definition ldw_warning :: "ldw \<Rightarrow> bool" where
  "ldw_warning s \<longleftrightarrow> ldw_left s \<or> ldw_right s"

subsection \<open>BlinkerPauseLateral\<close>

definition nonnegative_float :: "real option \<Rightarrow> real \<Rightarrow> real" where
  "nonnegative_float v d = (case v of None \<Rightarrow> d | Some x \<Rightarrow> max 0 x)"

record blinker_pause =
  bp_enabled :: bool
  bp_is_metric :: bool
  bp_min_speed :: real
  bp_reengage_delay :: real
  bp_blinker_off_timer :: real

definition bp_init :: "bool \<Rightarrow> bool \<Rightarrow> blinker_pause" where
  "bp_init enabled is_metric = \<lparr>bp_enabled = enabled, bp_is_metric = is_metric, bp_min_speed = 0,
     bp_reengage_delay = 0, bp_blinker_off_timer = 0\<rparr>"

definition bp_get_params :: "bool \<Rightarrow> bool \<Rightarrow> real option \<Rightarrow> real option \<Rightarrow> blinker_pause \<Rightarrow> blinker_pause" where
  "bp_get_params enabled is_metric min_speed delay s =
     s\<lparr>bp_enabled := enabled, bp_is_metric := is_metric, bp_min_speed := nonnegative_float min_speed 0,
       bp_reengage_delay := nonnegative_float delay 0\<rparr>"

definition bp_update :: "car_state \<Rightarrow> blinker_pause \<Rightarrow> blinker_pause \<times> bool" where
  "bp_update CS s =
     (if \<not> bp_enabled s then (s, False)
      else
        (let speed_factor = (if bp_is_metric s then KPH_TO_MS else MPH_TO_MS);
             below_speed = cs_vEgo CS < nonnegative_float (Some (bp_min_speed s)) 0 * speed_factor;
             pause = one_blinker CS \<and> below_speed;
             s = (if pause then s\<lparr>bp_blinker_off_timer := nonnegative_float (Some (bp_reengage_delay s)) 0\<rparr>
                  else if bp_blinker_off_timer s > 0 then s\<lparr>bp_blinker_off_timer := bp_blinker_off_timer s - DT_CTRL\<rparr>
                  else s)
         in (s, pause \<or> bp_blinker_off_timer s > 0)))"

subsection \<open>Runs of the desire helper\<close>

text \<open>One frame of \<open>modeld\<close>: the parameters, the car state, lateral control, the network's probability.\<close>

record lc_frame =
  lf_params :: lc_params
  lf_CS :: car_state
  lf_active :: bool
  lf_prob :: real

definition dh_frame :: "desire_helper \<Rightarrow> lc_frame \<Rightarrow> desire_helper" where
  "dh_frame s f = dh_update (lf_params f) (lf_CS f) (lf_active f) (lf_prob f) s"

text \<open>
  What a driver has to have done for a lane change towards \<open>d\<close> to start in frame \<open>f\<close>, when the
  parameter \<open>AutoLaneChangeTimer\<close> had the values \<open>ms\<close> so far.
\<close>

definition lc_requested :: "int set \<Rightarrow> lane_change_direction \<Rightarrow> lc_frame \<Rightarrow> bool" where
  "lc_requested ms d f \<longleftrightarrow>
     one_blinker (lf_CS f) \<and> d = get_lane_change_direction (lf_CS f) \<and>
     LANE_CHANGE_SPEED_MIN \<le> cs_vEgo (lf_CS f) \<and> \<not> blindspot_detected (lf_CS f) d \<and>
     (torque_applied (lf_CS f) d \<or> \<not> cs_brakePressed (lf_CS f) \<and> \<not> ms \<subseteq> {ALC_OFF, ALC_NUDGE})"

definition lc_modes :: "lc_params \<Rightarrow> lc_frame list \<Rightarrow> int set" where
  "lc_modes p fs = set (map lcp_AutoLaneChangeTimer (p # map lf_params fs))"

named_theorems lane_defs \<open>definitions of the lane change controllers\<close>

declare alc_reset_def [lane_defs] alc_update_state_def [lane_defs] update_lane_change_def [lane_defs]
  update_lane_change_timers_def [lane_defs] update_allowed_def [lane_defs] dh_off_def [lane_defs]
  alc_update_params_def [lane_defs] alc_read_params_def [lane_defs] Let_def [lane_defs]

lemma set_timer_keeps [simp]:
  "alc_set_timer (update_lane_change b br a) = alc_set_timer a"
  "alc_set_timer (alc_update_state st d a) = alc_set_timer a"
  by (auto simp: lane_defs)

lemma set_timer_update_params:
  "alc_set_timer (alc_update_params p a) \<in> {lcp_AutoLaneChangeTimer p, alc_set_timer a}"
  by (auto simp: lane_defs)

lemma update_lane_change_allowed:
  "alc_allowed (update_lane_change b br a) \<Longrightarrow> \<not> br \<and> alc_set_timer a \<notin> {ALC_OFF, ALC_NUDGE}"
  by (auto simp: lane_defs split: if_splits)

lemma dh_transition_set_timer [simp]: "alc_set_timer (dh_alc (dh_transition CS la pr s)) = alc_set_timer (dh_alc s)"
  by (simp add: dh_transition_def dh_off_def dh_pre_lane_change_def dh_starting_def Let_def)

lemma dh_transition_starting:
  assumes "dh_state (dh_transition CS la pr s) = LC_laneChangeStarting"
  shows "la \<and> dh_timer s \<le> LANE_CHANGE_TIME_MAX \<and>
    (dh_state s = LC_laneChangeStarting \<and> dh_direction (dh_transition CS la pr s) = dh_direction s \<and>
       dh_timer (dh_transition CS la pr s) = dh_timer s + DT_MDL \<or>
     dh_timer (dh_transition CS la pr s) = 0 \<and>
       lc_requested {alc_set_timer (dh_alc s)} (dh_direction (dh_transition CS la pr s))
         \<lparr>lf_params = p, lf_CS = CS, lf_active = la, lf_prob = pr\<rparr>)"
proof (cases "dh_state s")
  case LC_preLaneChange
  let ?d = "get_lane_change_direction CS"
  let ?a = "update_lane_change (blindspot_detected CS ?d) (cs_brakePressed CS) (dh_alc s)"
  from assms LC_preLaneChange show ?thesis
    using update_lane_change_allowed [of "blindspot_detected CS ?d" "cs_brakePressed CS" "dh_alc s"]
    by (auto simp: dh_transition_def dh_pre_lane_change_def lc_requested_def dh_off_def Let_def split: if_splits)
qed (use assms in \<open>auto simp: dh_transition_def dh_starting_def dh_off_def Let_def split: if_splits\<close>)

lemma lc_requested_mono: "lc_requested ms d f \<Longrightarrow> ms \<subseteq> ns \<Longrightarrow> lc_requested ns d f"
  by (auto simp: lc_requested_def)

lemma dh_update_via_transition:
  fixes s :: desire_helper
  obtains s1 s2 where "s2 = dh_transition CS la pr s1" "dh_update p CS la pr s = (let s' = s2\<lparr>dh_prev_one_blinker := one_blinker CS \<and> la\<rparr>;
      s' = s'\<lparr>dh_desire := dh_desire_of s'\<rparr> in s'\<lparr>dh_alc := alc_update_state (dh_state s') (dh_direction s') (dh_alc s')\<rparr>)"
    "dh_state s1 = dh_state s" "dh_direction s1 = dh_direction s" "dh_timer s1 = dh_timer s"
    "alc_set_timer (dh_alc s1) \<in> {lcp_AutoLaneChangeTimer p, alc_set_timer (dh_alc s)}"
  by (rule that, rule refl, unfold dh_update_def Let_def, rule refl)
    (use set_timer_update_params in simp_all)

lemma dh_frame_desire: "dh_desire (dh_frame s f) = dh_desire_of (dh_frame s f)"
  by (simp add: dh_frame_def dh_update_def Let_def dh_desire_of_def)

lemma dh_frame_set_timer:
  "alc_set_timer (dh_alc (dh_frame s f)) \<in> {lcp_AutoLaneChangeTimer (lf_params f), alc_set_timer (dh_alc s)}"
  by (rule dh_update_via_transition [of "lf_CS f" "lf_active f" "lf_prob f" "lf_params f" s])
    (simp add: dh_frame_def Let_def)

lemma dh_frame_starting:
  assumes "dh_state (dh_frame s f) = LC_laneChangeStarting"
  shows "lf_active f \<and> dh_timer s \<le> LANE_CHANGE_TIME_MAX \<and>
    (dh_state s = LC_laneChangeStarting \<and> dh_direction (dh_frame s f) = dh_direction s \<and>
       dh_timer (dh_frame s f) = dh_timer s + DT_MDL \<or>
     dh_timer (dh_frame s f) = 0 \<and>
       lc_requested {lcp_AutoLaneChangeTimer (lf_params f), alc_set_timer (dh_alc s)} (dh_direction (dh_frame s f)) f)"
proof -
  obtain s1 s2 where t: "s2 = dh_transition (lf_CS f) (lf_active f) (lf_prob f) s1"
    and eq: "dh_state (dh_frame s f) = dh_state s2" "dh_direction (dh_frame s f) = dh_direction s2"
      "dh_timer (dh_frame s f) = dh_timer s2"
    and s1: "dh_state s1 = dh_state s" "dh_direction s1 = dh_direction s" "dh_timer s1 = dh_timer s"
      "alc_set_timer (dh_alc s1) \<in> {lcp_AutoLaneChangeTimer (lf_params f), alc_set_timer (dh_alc s)}"
    by (rule dh_update_via_transition [of "lf_CS f" "lf_active f" "lf_prob f" "lf_params f" s])
      (simp add: dh_frame_def Let_def)
  have f: "\<lparr>lf_params = lf_params f, lf_CS = lf_CS f, lf_active = lf_active f, lf_prob = lf_prob f\<rparr> = f" by simp
  from dh_transition_starting [of "lf_CS f" "lf_active f" "lf_prob f" s1 "lf_params f", unfolded f, folded t] assms
  show ?thesis unfolding eq
    using s1 lc_requested_mono [of "{alc_set_timer (dh_alc s1)}" "dh_direction s2" f
        "{lcp_AutoLaneChangeTimer (lf_params f), alc_set_timer (dh_alc s)}"] by auto
qed

lemma lc_run_set_timer: "alc_set_timer (dh_alc (frames dh_frame (dh_init p) fs)) \<in> lc_modes p fs"
proof (induction fs rule: rev_induct)
  case (snoc f fs)
  then show ?case using dh_frame_set_timer [of "frames dh_frame (dh_init p) fs" f] by (auto simp: lc_modes_def)
qed (simp add: dh_init_def alc_init_def alc_read_params_def lc_modes_def)

lemma lc_run_starting:
  assumes "dh_state (frames dh_frame (dh_init p) fs) = LC_laneChangeStarting"
  shows "\<exists>pre f post. fs = pre @ f # post \<and> dh_timer (frames dh_frame (dh_init p) fs) = real (length post) * DT_MDL \<and>
    length post \<le> 201 \<and> lc_requested (lc_modes p fs) (dh_direction (frames dh_frame (dh_init p) fs)) f \<and>
    list_all lf_active (f # post)"
  using assms
proof (induction fs rule: rev_induct)
  case (snoc g fs)
  let ?s = "frames dh_frame (dh_init p) fs"
  have modes: "{lcp_AutoLaneChangeTimer (lf_params g), alc_set_timer (dh_alc ?s)} \<subseteq> lc_modes p (fs @ [g])"
    "lc_modes p fs \<subseteq> lc_modes p (fs @ [g])"
    using lc_run_set_timer [of p fs] by (auto simp: lc_modes_def)
  from dh_frame_starting [of ?s g] snoc.prems have act: "lf_active g" and short: "dh_timer ?s \<le> LANE_CHANGE_TIME_MAX"
    and alt: "dh_state ?s = LC_laneChangeStarting \<and> dh_direction (dh_frame ?s g) = dh_direction ?s \<and>
       dh_timer (dh_frame ?s g) = dh_timer ?s + DT_MDL \<or>
     dh_timer (dh_frame ?s g) = 0 \<and>
       lc_requested {lcp_AutoLaneChangeTimer (lf_params g), alc_set_timer (dh_alc ?s)} (dh_direction (dh_frame ?s g)) g"
    by simp_all
  from alt show ?case
  proof
    assume old: "dh_state ?s = LC_laneChangeStarting \<and> dh_direction (dh_frame ?s g) = dh_direction ?s \<and>
       dh_timer (dh_frame ?s g) = dh_timer ?s + DT_MDL"
    with snoc.IH obtain pre f post where "fs = pre @ f # post" "dh_timer ?s = real (length post) * DT_MDL"
      "lc_requested (lc_modes p fs) (dh_direction ?s) f" "list_all lf_active (f # post)" by blast
    moreover from this short have "length post \<le> 200" by (simp add: const_defs LANE_CHANGE_TIME_MAX_def)
    ultimately have "fs @ [g] = pre @ f # (post @ [g])"
      "dh_timer (dh_frame ?s g) = real (length (post @ [g])) * DT_MDL" "length (post @ [g]) \<le> 201"
      "lc_requested (lc_modes p (fs @ [g])) (dh_direction (dh_frame ?s g)) f" "list_all lf_active (f # post @ [g])"
      using old act lc_requested_mono [OF _ modes(2)] by (auto simp: algebra_simps)
    then show ?case unfolding frames_append frames.simps by blast
  next
    assume "dh_timer (dh_frame ?s g) = 0 \<and>
       lc_requested {lcp_AutoLaneChangeTimer (lf_params g), alc_set_timer (dh_alc ?s)} (dh_direction (dh_frame ?s g)) g"
    then show ?case using act lc_requested_mono [OF _ modes(1)]
      by (intro exI [of _ fs] exI [of _ g] exI [of _ "[]"]) simp
  qed
qed (simp add: dh_init_def)

lemma dh_desire_of_lane_change:
  "dh_desire_of s \<in> {D_laneChangeLeft, D_laneChangeRight} \<longleftrightarrow>
     dh_turn_direction s = TD_none \<and> dh_state s = LC_laneChangeStarting \<and> dh_direction s \<noteq> LD_none"
  by (cases "dh_turn_direction s"; cases "dh_direction s") (auto simp: dh_desire_of_def)

text \<open>
  C17. No lane change without a driver's request: whenever, in any run of the desire helper, the
  driving model is told to change lanes, then at most 201 frames (about ten seconds) earlier there was a frame in
  which exactly one blinker was on, on the side of the change, the car was at least 20 mph fast
  with no vehicle in the blind spot of that side, and the driver pushed the wheel to that side or,
  with a mode of automatic lane changes selected and without braking, let it happen; and lateral
  control was active in every frame since.
\<close>

theorem lane_change_was_requested:
  assumes "dh_desire (frames dh_frame (dh_init p) fs) \<in> {D_laneChangeLeft, D_laneChangeRight}"
  shows "\<exists>pre f post. fs = pre @ f # post \<and> length post \<le> 201 \<and>
    lc_requested (lc_modes p fs) (if dh_desire (frames dh_frame (dh_init p) fs) = D_laneChangeLeft then LD_left else LD_right) f \<and>
    list_all lf_active (f # post)"
proof -
  let ?s = "frames dh_frame (dh_init p) fs"
  have des: "dh_desire ?s = dh_desire_of ?s"
    by (cases fs rule: rev_cases) (simp_all add: dh_frame_desire dh_init_def dh_desire_of_def)
  with assms have st: "dh_turn_direction ?s = TD_none" "dh_state ?s = LC_laneChangeStarting" "dh_direction ?s \<noteq> LD_none"
    using dh_desire_of_lane_change [of ?s] by auto
  then have "dh_direction ?s = (if dh_desire ?s = D_laneChangeLeft then LD_left else LD_right)"
    unfolding des by (cases "dh_direction ?s") (simp_all add: dh_desire_of_def)
  then show ?thesis using lc_run_starting [OF st(2)] by (elim exE conjE) (intro exI conjI, assumption, assumption, simp_all)
qed

text \<open>Two frames: the left blinker comes on at 30 m/s, then the driver pushes the wheel to the left.\<close>

definition example_lc_params :: lc_params where
  "example_lc_params = \<lparr>lcp_AutoLaneChangeTimer = ALC_NUDGE, lcp_AutoLaneChangeBsmDelay = False,
     lcp_LaneTurnDesire = False, lcp_LaneTurnValue = None\<rparr>"

definition example_lc_frame :: "bool \<Rightarrow> lc_frame" where
  "example_lc_frame nudge = \<lparr>lf_params = example_lc_params,
     lf_CS = (car_state_default GS_drive)\<lparr>cs_vEgo := 30, cs_leftBlinker := True, cs_steeringPressed := nudge,
       cs_steeringTorque := (if nudge then 1 else 0)\<rparr>, lf_active = True, lf_prob = 1\<rparr>"

lemma example_lc_frame_simps [simp]:
  "lf_params (example_lc_frame n) = example_lc_params" "lf_active (example_lc_frame n)"
  "one_blinker (lf_CS (example_lc_frame n))" "get_lane_change_direction (lf_CS (example_lc_frame n)) = LD_left"
  "\<not> blindspot_detected (lf_CS (example_lc_frame n)) d" "torque_applied (lf_CS (example_lc_frame True)) LD_left"
  "\<not> cs_vEgo (lf_CS (example_lc_frame n)) < LANE_CHANGE_SPEED_MIN"
  by (simp_all add: example_lc_frame_def car_state_default_def one_blinker_def get_lane_change_direction_def
      blindspot_detected_def torque_applied_def LANE_CHANGE_SPEED_MIN_def const_defs)

lemma example_set_timer:
  "alc_set_timer a = ALC_NUDGE \<Longrightarrow> alc_set_timer (alc_update_params example_lc_params a) = ALC_NUDGE"
  using set_timer_update_params [of example_lc_params a] by (simp add: example_lc_params_def)

lemma example_turn:
  "lt_enabled s = False \<Longrightarrow> get_turn_direction (update_lane_turn CS (lt_update_params example_lc_params s)) = TD_none"
  by (simp add: get_turn_direction_def update_lane_turn_def lt_update_params_def lt_read_params_def example_lc_params_def Let_def)

lemma example_lc_first:
  fixes s0 :: desire_helper
  defines "s0 \<equiv> dh_init example_lc_params" and "s1 \<equiv> dh_frame (dh_init example_lc_params) (example_lc_frame False)"
  shows "dh_state s1 = LC_preLaneChange" "dh_timer s1 = 0" "alc_set_timer (dh_alc s1) = ALC_NUDGE"
    "lt_enabled (dh_lane_turn s1) = False"
proof -
  have s0: "dh_state s0 = LC_off" "dh_timer s0 = 0" "alc_set_timer (dh_alc s0) = ALC_NUDGE" "\<not> dh_prev_one_blinker s0"
    "lt_enabled (dh_lane_turn s0) = False" "lcp_LaneTurnDesire example_lc_params = False"
    by (simp_all add: s0_def dh_init_def alc_init_def alc_read_params_def lt_init_def example_lc_params_def)
  have off: "ALC_NUDGE \<noteq> ALC_OFF" "\<not> 0 > LANE_CHANGE_TIME_MAX" by (simp_all add: ALC_NUDGE_def ALC_OFF_def LANE_CHANGE_TIME_MAX_def)
  note [simp] = s0 off example_set_timer
  show "dh_state s1 = LC_preLaneChange" "dh_timer s1 = 0" "alc_set_timer (dh_alc s1) = ALC_NUDGE"
    "lt_enabled (dh_lane_turn s1) = False"
    unfolding s1_def s0_def [symmetric]
    by (simp_all add: dh_frame_def dh_update_def dh_transition_def Let_def lt_update_params_def lt_read_params_def update_lane_turn_def)
qed

lemma example_lc_run:
  "dh_desire (frames dh_frame (dh_init example_lc_params) [example_lc_frame False, example_lc_frame True]) = D_laneChangeLeft"
  using example_lc_first
  by (simp add: dh_frame_def [of _ "example_lc_frame True"] dh_update_def Let_def dh_desire_of_def dh_transition_def
      dh_pre_lane_change_def example_set_timer example_turn ALC_NUDGE_def ALC_OFF_def LANE_CHANGE_TIME_MAX_def)

theorem lane_change_was_requested_witness:
  "\<exists>pre f post. [example_lc_frame False, example_lc_frame True] = pre @ f # post \<and> length post \<le> 201 \<and>
     lc_requested (lc_modes example_lc_params [example_lc_frame False, example_lc_frame True]) LD_left f \<and>
     list_all lf_active (f # post)"
  using lane_change_was_requested [of example_lc_params "[example_lc_frame False, example_lc_frame True]"]
  unfolding example_lc_run by simp

end
