(* ===== verification/Modem_Diag.thy ===== *)
theory Modem_Diag
  imports Prelude "HOL-Library.Word"
begin

text \<open>
  The diagnostic protocol of the modem, \<open>system/qcomgpsd/modemdiag.py\<close>: the CRC-16 of the frames,
  the HDLC framing, sending and receiving over the serial line, and the set-up of the log masks.
  Bytes and the CRC register are machine words. The serial line is given by the results of the
  successive \<open>read\<close> calls; a receiver that waits for a read which never comes returns \<open>None\<close>.
  The lemmas show that the table-driven CRC is the bitwise one and detects any damaged byte, that
  framing and unframing are inverse, and that packets arrive whole and in order however the line
  splits them.
\<close>

unbundle bit_operations_syntax

type_synonym byte = "8 word"
type_synonym bytes = "byte list"

subsection \<open>CRC-16\<close>

definition crc_shift :: "16 word \<Rightarrow> 16 word \<Rightarrow> 16 word" where
  "crc_shift poly crc = (if crc AND 1 \<noteq> 0 then drop_bit 1 crc XOR poly else drop_bit 1 crc)"

definition gen_crc16_reflected_table :: "16 word \<Rightarrow> 16 word list" where
  "gen_crc16_reflected_table poly = map (\<lambda>i. (crc_shift poly ^^ 8) (word_of_nat i)) [0..<256]"

definition CRC16_X25_TABLE :: "16 word list" where
  "CRC16_X25_TABLE = gen_crc16_reflected_table 0x8408"

definition crc16_step :: "16 word \<Rightarrow> byte \<Rightarrow> 16 word" where
  "crc16_step crc b = CRC16_X25_TABLE ! unat ((crc XOR ucast b) AND 0xFF) XOR drop_bit 8 crc"

definition crc16_x25 :: "bytes \<Rightarrow> 16 word" where
  "crc16_x25 data = foldl crc16_step 0xFFFF data XOR 0xFFFF"

subsection \<open>Python bytes\<close>

text \<open>\<open>bytes.replace(old, new)\<close> and \<open>bytes.split(sep, 1)\<close> with a separator of one byte.\<close>

function py_replace :: "'a list \<Rightarrow> 'a list \<Rightarrow> 'a list \<Rightarrow> 'a list" where
  "py_replace old new xs =
     (if old = [] then concat (map (\<lambda>x. new @ [x]) xs) @ new
      else case xs of [] \<Rightarrow> []
        | x # ys \<Rightarrow> if take (length old) xs = old then new @ py_replace old new (drop (length old) xs)
                   else x # py_replace old new ys)"
  by pat_completeness auto
termination
  by (relation "measure (\<lambda>(old, new, xs). length xs)") auto

declare py_replace.simps [simp del]

definition py_split1 :: "'a \<Rightarrow> 'a list \<Rightarrow> 'a list list" where
  "py_split1 sep xs =
     (if sep \<in> set xs then [takeWhile (\<lambda>x. x \<noteq> sep) xs, tl (dropWhile (\<lambda>x. x \<noteq> sep) xs)] else [xs])"

text \<open>The integer formats of \<open>struct\<close>, little endian.\<close>

definition pack_H :: "16 word \<Rightarrow> bytes" where
  "pack_H w = [ucast w, ucast (drop_bit 8 w)]"

definition pack_I :: "32 word \<Rightarrow> bytes" where
  "pack_I w = [ucast w, ucast (drop_bit 8 w), ucast (drop_bit 16 w), ucast (drop_bit 24 w)]"

fun unpack_I :: "bytes \<Rightarrow> 32 word" where
  "unpack_I [a, b, c, d] =
     ucast a OR push_bit 8 (ucast b) OR push_bit 16 (ucast c) OR push_bit 24 (ucast d)"
| "unpack_I _ = 0"

definition unpack_from_I :: "nat \<Rightarrow> bytes \<Rightarrow> nat \<Rightarrow> py_error + 32 word list" where
  "unpack_from_I n bs off =
     (if length bs < off + 4 * n then Inl StructError
      else Inr (map (\<lambda>k. unpack_I (take 4 (drop (off + 4 * k) bs))) [0..<n]))"

subsection \<open>HDLC framing\<close>

definition ESCAPE_CHAR :: byte where "ESCAPE_CHAR = 0x7d"
definition TRAILER_CHAR :: byte where "TRAILER_CHAR = 0x7e"

definition hdlc_escape :: "bytes \<Rightarrow> bytes" where
  "hdlc_escape payload =
     py_replace [TRAILER_CHAR] [ESCAPE_CHAR, TRAILER_CHAR XOR 0x20]
       (py_replace [ESCAPE_CHAR] [ESCAPE_CHAR, ESCAPE_CHAR XOR 0x20] payload)"

definition hdlc_encapsulate :: "bytes \<Rightarrow> bytes" where
  "hdlc_encapsulate payload = hdlc_escape (payload @ pack_H (crc16_x25 payload)) @ [TRAILER_CHAR]"

definition hdlc_unescape :: "bytes \<Rightarrow> bytes" where
  "hdlc_unescape payload =
     py_replace [ESCAPE_CHAR, ESCAPE_CHAR XOR 0x20] [ESCAPE_CHAR]
       (py_replace [ESCAPE_CHAR, TRAILER_CHAR XOR 0x20] [TRAILER_CHAR] payload)"

definition hdlc_decapsulate :: "bytes \<Rightarrow> py_error + bytes" where
  "hdlc_decapsulate payload =
     (if \<not> length payload \<ge> 3 then Inl AssertionError
      else if drop (length payload - 1) payload \<noteq> [TRAILER_CHAR] then Inl AssertionError
      else
        (let payload = hdlc_unescape (take (length payload - 1) payload);
             n = length payload - 2
         in if drop n payload \<noteq> pack_H (crc16_x25 (take n payload)) then Inl AssertionError
            else Inr (take n payload)))"

subsection \<open>The serial line\<close>

record diag =
  dg_pend :: bytes
  dg_incoming :: "bytes list"  \<comment> \<open>what the next \<open>serial.read\<close> calls return\<close>
  dg_sent :: "bytes list"  \<comment> \<open>what was written\<close>

definition ModemDiag :: "bytes list \<Rightarrow> diag" where
  "ModemDiag incoming = \<lparr>dg_pend = [], dg_incoming = incoming, dg_sent = []\<rparr>"

type_synonym 'a diag_result = "((py_error + 'a) \<times> diag) option"

definition diag_bind :: "'a diag_result \<Rightarrow> ('a \<Rightarrow> diag \<Rightarrow> 'b diag_result) \<Rightarrow> 'b diag_result" where
  "diag_bind r f =
     (case r of None \<Rightarrow> None
      | Some (Inl e, d) \<Rightarrow> Some (Inl e, d)
      | Some (Inr a, d) \<Rightarrow> f a d)"

fun recv_loop :: "bytes \<Rightarrow> bytes \<Rightarrow> bytes list \<Rightarrow> (bytes \<times> bytes list) option" where
  "recv_loop chunk raw_payload [] = (if TRAILER_CHAR \<in> set chunk then Some (raw_payload, []) else None)"
| "recv_loop chunk raw_payload (raw # reads) =
     (if TRAILER_CHAR \<in> set chunk then Some (raw_payload, raw # reads)
      else recv_loop raw (raw_payload @ raw) reads)"

definition recv :: "diag \<Rightarrow> (byte \<times> bytes) diag_result" where
  "recv d =
     (case recv_loop (dg_pend d) (dg_pend d) (dg_incoming d) of
        None \<Rightarrow> None
      | Some (raw_payload, reads) \<Rightarrow>
          (let d = d\<lparr>dg_incoming := reads\<rparr>
           in case py_split1 TRAILER_CHAR raw_payload of
                [raw_payload, pend] \<Rightarrow>
                  Some (bind_result (hdlc_decapsulate (raw_payload @ [TRAILER_CHAR])) (\<lambda>unframed_message.
                          case unframed_message of [] \<Rightarrow> Inl IndexError | t # ms \<Rightarrow> Inr (t, ms)),
                        d\<lparr>dg_pend := pend\<rparr>)
              | _ \<Rightarrow> Some (Inl ValueError, d)))"

definition send :: "byte \<Rightarrow> bytes \<Rightarrow> diag \<Rightarrow> diag" where
  "send packet_type packet_payload d =
     d\<lparr>dg_sent := dg_sent d @ [hdlc_encapsulate (packet_type # packet_payload)]\<rparr>"

definition DIAG_LOG_F :: byte where "DIAG_LOG_F = 16"
definition DIAG_LOG_CONFIG_F :: byte where "DIAG_LOG_CONFIG_F = 115"
definition LOG_CONFIG_RETRIEVE_ID_RANGES_OP :: "32 word" where "LOG_CONFIG_RETRIEVE_ID_RANGES_OP = 1"
definition LOG_CONFIG_SET_MASK_OP :: "32 word" where "LOG_CONFIG_SET_MASK_OP = 3"
definition LOG_CONFIG_SUCCESS_S :: "32 word" where "LOG_CONFIG_SUCCESS_S = 0"

partial_function (option) recv_answer :: "diag \<Rightarrow> (byte \<times> bytes) diag_result" where
  "recv_answer d =
     (case recv d of
        None \<Rightarrow> None
      | Some (Inl e, d') \<Rightarrow> Some (Inl e, d')
      | Some (Inr (opcode, payload), d') \<Rightarrow>
          if opcode \<noteq> DIAG_LOG_F then Some (Inr (opcode, payload), d') else recv_answer d')"

definition send_recv :: "byte \<Rightarrow> bytes \<Rightarrow> diag \<Rightarrow> (byte \<times> bytes) diag_result" where
  "send_recv packet_type packet_payload d = recv_answer (send packet_type packet_payload d)"

subsection \<open>Log masks\<close>

definition log_mask_of :: "nat set \<Rightarrow> nat \<Rightarrow> nat \<Rightarrow> bytes" where
  "log_mask_of types_to_log log_type log_mask_bitsize =
     foldl (\<lambda>log_mask i. if (push_bit 12 log_type OR i) \<in> types_to_log
                         then log_mask[i div 8 := log_mask ! (i div 8) OR push_bit (i mod 8) 1] else log_mask)
       (replicate ((log_mask_bitsize + 7) div 8) 0) [0..<log_mask_bitsize]"

definition check_status :: "32 word \<Rightarrow> bytes \<Rightarrow> py_error + unit" where
  "check_status op payload =
     bind_result (unpack_from_I 2 payload 3) (\<lambda>os.
       if os ! 0 \<noteq> op then Inl AssertionError
       else if os ! 1 \<noteq> LOG_CONFIG_SUCCESS_S then Inl AssertionError else Inr ())"

fun set_log_masks :: "nat set \<Rightarrow> (nat \<times> 32 word) list \<Rightarrow> diag \<Rightarrow> unit diag_result" where
  "set_log_masks types_to_log [] d = Some (Inr (), d)"
| "set_log_masks types_to_log ((log_type, log_mask_bitsize) # ms) d =
     (if log_mask_bitsize \<noteq> 0 then
        diag_bind (send_recv DIAG_LOG_CONFIG_F
            ([0, 0, 0] @ pack_I LOG_CONFIG_SET_MASK_OP @ pack_I (word_of_nat log_type) @ pack_I log_mask_bitsize @
             log_mask_of types_to_log log_type (unat log_mask_bitsize)) d)
          (\<lambda>(opcode, payload) d.
             if opcode \<noteq> DIAG_LOG_CONFIG_F then Some (Inl AssertionError, d)
             else diag_bind (Some (check_status LOG_CONFIG_SET_MASK_OP payload, d))
                    (\<lambda>_ d. set_log_masks types_to_log ms d))
      else set_log_masks types_to_log ms d)"

definition setup_logs :: "nat set \<Rightarrow> diag \<Rightarrow> unit diag_result" where
  "setup_logs types_to_log d =
     diag_bind (send_recv DIAG_LOG_CONFIG_F ([0, 0, 0] @ pack_I LOG_CONFIG_RETRIEVE_ID_RANGES_OP) d)
       (\<lambda>(opcode, payload) d.
          diag_bind (Some (check_status LOG_CONFIG_RETRIEVE_ID_RANGES_OP payload, d)) (\<lambda>_ d.
          diag_bind (Some (unpack_from_I 16 payload 11, d)) (\<lambda>log_masks d.
            set_log_masks types_to_log (zip [0..<16] log_masks) d)))"

subsection \<open>The table is the bitwise CRC\<close>

text \<open>The reference: the textbook CRC, one bit at a time, without a table.\<close>

definition crc16_bitwise :: "bytes \<Rightarrow> 16 word" where
  "crc16_bitwise data =
     foldl (\<lambda>crc b. (crc_shift 0x8408 ^^ 8) (crc XOR ucast b)) 0xFFFF data XOR 0xFFFF"

lemma crc_shift_alt: "crc_shift poly crc = drop_bit 1 crc XOR (if odd crc then poly else 0)"
  by (simp add: crc_shift_def and_one_eq odd_iff_mod_2_eq_one)

lemma crc_shift_linear: "crc_shift p (a XOR b) = crc_shift p a XOR crc_shift p b"
  by (simp add: crc_shift_alt even_xor_iff ac_simps)

lemma crc_shift_funpow_linear: "(crc_shift p ^^ n) (a XOR b) = (crc_shift p ^^ n) a XOR (crc_shift p ^^ n) b"
  by (induction n) (simp_all add: crc_shift_linear)

lemma crc_shift_funpow_zeros: "take_bit n crc = 0 \<Longrightarrow> (crc_shift p ^^ n) crc = drop_bit n crc"
proof (induction n)
  case (Suc n)
  have bits: "\<not> bit crc k" if "k < Suc n" for k
    using Suc.prems that by (metis bit_0_eq bit_take_bit_iff bot_apply bot_bool_def)
  then have "take_bit n crc = 0" by (auto simp: bit_eq_iff bit_simps)
  moreover have "even (drop_bit n crc)" using bits [of n] by (simp add: bit_iff_odd_drop_bit)
  ultimately show ?case using Suc.IH by (simp add: crc_shift_alt)
qed simp

lemma CRC16_table_nth: "i < 256 \<Longrightarrow> CRC16_X25_TABLE ! i = (crc_shift 0x8408 ^^ 8) (word_of_nat i)"
  by (simp add: CRC16_X25_TABLE_def gen_crc16_reflected_table_def)

lemma byte_mask: "(0xFF :: 16 word) = mask 8"
  by (simp add: mask_eq_exp_minus_1)

lemma crc16_step_bitwise: "crc16_step crc b = (crc_shift 0x8408 ^^ 8) (crc XOR ucast b)"
proof -
  define x where "x = crc XOR ucast b"
  have "unat (take_bit 8 x) < 2 ^ 8" by (simp only: unsigned_take_bit_eq take_bit_nat_less_exp)
  then have tab: "CRC16_X25_TABLE ! unat (x AND 0xFF) = (crc_shift 0x8408 ^^ 8) (take_bit 8 x)"
    by (subst CRC16_table_nth) (simp_all add: byte_mask take_bit_eq_mask [symmetric])
  define y where "y = push_bit 8 (drop_bit 8 x)"
  have split: "x = take_bit 8 x XOR y"
    unfolding y_def by (rule bit_word_eqI) (auto simp: bit_simps)
  have "take_bit 8 y = 0" unfolding y_def by (rule bit_word_eqI) (auto simp: bit_simps)
  then have "(crc_shift 0x8408 ^^ 8) y = drop_bit 8 y" by (rule crc_shift_funpow_zeros)
  also have "\<dots> = drop_bit 8 crc"
    unfolding y_def x_def by (rule bit_word_eqI) (auto simp: bit_simps dest: bit_imp_le_length)
  finally have "(crc_shift 0x8408 ^^ 8) x = (crc_shift 0x8408 ^^ 8) (take_bit 8 x) XOR drop_bit 8 crc"
    by (subst split) (simp only: crc_shift_funpow_linear)
  then show ?thesis unfolding crc16_step_def x_def [symmetric] tab by simp
qed

lemma crc16_foldl: "foldl crc16_step crc data = foldl (\<lambda>crc b. (crc_shift 0x8408 ^^ 8) (crc XOR ucast b)) crc data"
  by (simp add: crc16_step_bitwise cong: foldl_cong)

text \<open>
  C18. The table-driven checksum of the frames is the bitwise CRC-16 with the reflected polynomial
  0x8408 and initial and final value 0xFFFF, on data of any length.
\<close>

theorem crc16_is_bitwise: "crc16_x25 data = crc16_bitwise data"
  by (simp add: crc16_x25_def crc16_bitwise_def crc16_foldl)

subsection \<open>Damaged bytes change the checksum\<close>

lemma xor_eq_0_iff: "(a :: 'a::len word) XOR b = 0 \<longleftrightarrow> a = b"
  by (metis bit.xor_self bit.xor_left_self xor.right_neutral)

lemma xor_cancel: "(a :: 'a::len word) XOR c = b XOR c \<longleftrightarrow> a = b" "c XOR a = c XOR b \<longleftrightarrow> a = b"
  by (metis bit.xor_left_self xor.commute)+

lemma byte_ucast_inj: "(ucast b :: 16 word) = ucast b' \<Longrightarrow> (b :: byte) = b'"
proof (rule bit_word_eqI)
  fix n assume eq: "(ucast b :: 16 word) = ucast b'" and "n < LENGTH(8)"
  from eq have "bit (ucast b :: 16 word) n = bit (ucast b' :: 16 word) n" by simp
  with \<open>n < LENGTH(8)\<close> show "bit b n = bit b' n" by (simp add: bit_simps)
qed

lemma crc_shift_zero: "crc_shift 0x8408 x = 0 \<Longrightarrow> x = 0"
proof -
  assume z: "crc_shift 0x8408 x = 0"
  have "bit (0x8408 :: 16 word) 15" by simp
  with z have "even x"
    by (auto simp: crc_shift_alt bit_eq_iff [of _ 0] bit_simps split: if_splits dest!: spec [of _ 15] dest: bit_imp_le_length)
  then have "drop_bit 1 x = 0" using z by (simp add: crc_shift_alt)
  then have "x = take_bit 1 x" by (metis push_bit_of_0 bits_ident add_0)
  then show "x = 0" using \<open>even x\<close> by (simp add: take_bit_Suc even_iff_mod_2_eq_zero)
qed

lemma crc_shift_funpow_zero: "(crc_shift 0x8408 ^^ n) x = 0 \<Longrightarrow> x = 0"
  by (induction n) (auto dest: crc_shift_zero)

lemma crc16_step_eq_iff: "crc16_step c b = crc16_step c' b' \<longleftrightarrow> c XOR ucast b = c' XOR ucast b'"
  unfolding crc16_step_bitwise
  by (metis crc_shift_funpow_linear crc_shift_funpow_zero xor_eq_0_iff)

lemma crc16_foldl_inj: "foldl crc16_step c data = foldl crc16_step c' data \<Longrightarrow> c = c'"
proof (induction data arbitrary: c c')
  case (Cons b data)
  have "crc16_step c b = crc16_step c' b" by (rule Cons.IH) (use Cons.prems in simp)
  then show ?case by (simp add: crc16_step_eq_iff xor_cancel)
qed simp

lemma crc16_damage:
  assumes "b \<noteq> b'"
  shows "crc16_x25 (xs @ b # ys) \<noteq> crc16_x25 (xs @ b' # ys)"
proof
  assume "crc16_x25 (xs @ b # ys) = crc16_x25 (xs @ b' # ys)"
  then have "foldl crc16_step (crc16_step (foldl crc16_step 0xFFFF xs) b) ys =
    foldl crc16_step (crc16_step (foldl crc16_step 0xFFFF xs) b') ys"
    by (simp add: crc16_x25_def xor_cancel)
  then have "(ucast b :: 16 word) = ucast b'"
    by (auto dest!: crc16_foldl_inj simp: crc16_step_eq_iff xor_cancel)
  then show False using assms byte_ucast_inj by blast
qed

subsection \<open>Framing\<close>

lemma py_replace_single: "py_replace [c] new xs = concat (map (\<lambda>x. if x = c then new else [x]) xs)"
  by (induction xs) (simp_all add: py_replace.simps)

lemma py_replace_pair:
  "py_replace [a, b] new [] = []"
  "x \<noteq> a \<Longrightarrow> py_replace [a, b] new (x # ys) = x # py_replace [a, b] new ys"
  "py_replace [a, b] new (a # b # ys) = new @ py_replace [a, b] new ys"
  "y \<noteq> b \<Longrightarrow> py_replace [a, b] new (a # y # ys) = a # py_replace [a, b] new (y # ys)"
  by (simp_all add: py_replace.simps)

definition escaped :: "byte \<Rightarrow> bytes" where
  "escaped b = (if b = 0x7d then [0x7d, 0x5d] else if b = 0x7e then [0x7d, 0x5e] else [b])"

lemma hdlc_chars [simp]: "TRAILER_CHAR XOR 0x20 = 0x5e" "ESCAPE_CHAR XOR 0x20 = 0x5d" "TRAILER_CHAR \<noteq> ESCAPE_CHAR"
  "ESCAPE_CHAR \<noteq> TRAILER_CHAR"
  by (simp_all add: TRAILER_CHAR_def ESCAPE_CHAR_def)

lemma hdlc_escape_eq: "hdlc_escape xs = concat (map escaped xs)"
  by (induction xs) (auto simp: hdlc_escape_def py_replace_single escaped_def TRAILER_CHAR_def ESCAPE_CHAR_def)

lemma unescape_trailer:
  "py_replace [0x7d, 0x5e] [0x7e] (concat (map escaped xs)) = concat (map (\<lambda>x. if x = 0x7d then [0x7d, 0x5d] else [x]) xs)"
  by (induction xs) (simp_all add: escaped_def py_replace_pair)

lemma unescape_escape:
  "py_replace [0x7d, 0x5d] [0x7d] (concat (map (\<lambda>x. if x = 0x7d then [0x7d, 0x5d] else [x]) xs)) = (xs :: bytes)"
  by (induction xs) (simp_all add: py_replace_pair)

lemma hdlc_unescape_escape [simp]: "hdlc_unescape (hdlc_escape xs) = xs"
  using unescape_trailer [of xs] unescape_escape [of xs]
  by (simp add: hdlc_unescape_def hdlc_escape_eq) (simp add: TRAILER_CHAR_def ESCAPE_CHAR_def)

lemma trailer_notin_escape [simp]: "TRAILER_CHAR \<notin> set (hdlc_escape xs)"
  by (auto simp: hdlc_escape_eq escaped_def TRAILER_CHAR_def)

lemma hdlc_escape_length: "length xs \<le> length (hdlc_escape xs)"
  by (induction xs) (simp_all add: hdlc_escape_eq escaped_def)

lemma length_pack_H [simp]: "length (pack_H w) = 2"
  by (simp add: pack_H_def)

lemma pack_H_inj: "pack_H v = pack_H w \<longleftrightarrow> v = w"
proof
  assume eq: "pack_H v = pack_H w"
  show "v = w"
  proof (rule bit_word_eqI)
    fix n assume n: "n < LENGTH(16)"
    have "bit (ucast v :: byte) k = bit (ucast w :: byte) k" "bit (ucast (drop_bit 8 v) :: byte) k = bit (ucast (drop_bit 8 w) :: byte) k" for k
      using eq by (simp_all add: pack_H_def)
    from this(1) [of n] this(2) [of "n - 8"] n show "bit v n = bit w n"
      by (cases "n < 8") (simp_all add: bit_simps less_diff_conv2)
  qed
qed simp

text \<open>What the receiver makes of a frame whose content, after unescaping, is \<open>xs\<close> and two bytes.\<close>

lemma hdlc_decapsulate_frame:
  assumes "length c = 2"
  shows "hdlc_decapsulate (hdlc_escape (xs @ c) @ [TRAILER_CHAR]) =
    (if c = pack_H (crc16_x25 xs) then Inr xs else Inl AssertionError)"
proof -
  have "2 \<le> length (hdlc_escape (xs @ c))" using hdlc_escape_length [of "xs @ c"] assms by simp
  then have "\<not> length (hdlc_escape (xs @ c)) < 2" by simp
  then show ?thesis using assms by (simp add: hdlc_decapsulate_def Let_def)
qed

lemma hdlc_decapsulate_encapsulate: "hdlc_decapsulate (hdlc_encapsulate xs) = Inr xs"
  by (simp add: hdlc_encapsulate_def hdlc_decapsulate_frame)

text \<open>
  A frame in which one byte of the payload was damaged is never taken for a packet: with
  any byte replaced by a different one under the checksum of the original payload, unframing
  fails its assertion.
\<close>

theorem damaged_frame_rejected:
  assumes "b \<noteq> b'"
  shows "hdlc_decapsulate (hdlc_escape (xs @ b' # ys @ pack_H (crc16_x25 (xs @ b # ys))) @ [TRAILER_CHAR]) = Inl AssertionError"
  using hdlc_decapsulate_frame [of "pack_H (crc16_x25 (xs @ b # ys))" "xs @ b' # ys"] crc16_damage [OF assms, of xs ys]
  by (simp add: pack_H_inj)

theorem damaged_frame_rejected_witness:
  "hdlc_decapsulate (hdlc_escape ([16] @ 3 # [126] @ pack_H (crc16_x25 ([16] @ 2 # [126]))) @ [TRAILER_CHAR]) = Inl AssertionError"
  using damaged_frame_rejected [of 2 3 "[16]" "[126]"] by simp

subsection \<open>The line delivers packets whole and in order\<close>

definition dg_stream :: "diag \<Rightarrow> bytes" where
  "dg_stream d = dg_pend d @ concat (dg_incoming d)"

definition packet_frame :: "byte \<times> bytes \<Rightarrow> bytes" where
  "packet_frame p = hdlc_encapsulate (fst p # snd p)"

fun recv_many :: "nat \<Rightarrow> diag \<Rightarrow> (byte \<times> bytes) list diag_result" where
  "recv_many 0 d = Some (Inr [], d)"
| "recv_many (Suc n) d = diag_bind (recv d) (\<lambda>p d. diag_bind (recv_many n d) (\<lambda>ps d. Some (Inr (p # ps), d)))"

lemma diag_bind_simps [simp]:
  "diag_bind None f = None" "diag_bind (Some (Inl e, d)) f = Some (Inl e, d)" "diag_bind (Some (Inr a, d)) f = f a d"
  by (simp_all add: diag_bind_def)

lemma recv_loop_finds:
  assumes "TRAILER_CHAR \<in> set raw \<longleftrightarrow> TRAILER_CHAR \<in> set chunk" and "TRAILER_CHAR \<in> set (raw @ concat reads)"
  shows "\<exists>raw' reads'. recv_loop chunk raw reads = Some (raw', reads') \<and>
    raw' @ concat reads' = raw @ concat reads \<and> TRAILER_CHAR \<in> set raw'"
  using assms
proof (induction chunk raw reads rule: recv_loop.induct)
  case (2 chunk raw r reads)
  show ?case
  proof (cases "TRAILER_CHAR \<in> set chunk")
    case False
    with "2.prems"(1) have "TRAILER_CHAR \<in> set (raw @ r) \<longleftrightarrow> TRAILER_CHAR \<in> set r" by simp
    from "2.IH" [OF False this] "2.prems"(2) False show ?thesis by simp
  qed (use "2.prems" in auto)
qed auto

lemma recv_frame:
  assumes stream: "dg_stream d = packet_frame p @ rest"
  shows "\<exists>d'. recv d = Some (Inr p, d') \<and> dg_stream d' = rest \<and> dg_sent d' = dg_sent d"
proof -
  let ?e = "hdlc_escape (fst p # snd p @ pack_H (crc16_x25 (fst p # snd p)))"
  have frame: "packet_frame p = ?e @ [TRAILER_CHAR]" by (simp add: packet_frame_def hdlc_encapsulate_def)
  have has: "TRAILER_CHAR \<in> set (dg_pend d @ concat (dg_incoming d))"
    unfolding dg_stream_def [symmetric] stream frame by simp
  obtain raw reads where loop: "recv_loop (dg_pend d) (dg_pend d) (dg_incoming d) = Some (raw, reads)"
    and cat: "raw @ concat reads = ?e @ TRAILER_CHAR # rest" and tr: "TRAILER_CHAR \<in> set raw"
    using recv_loop_finds [of "dg_pend d" "dg_pend d" "dg_incoming d"] has
    by (metis stream append_Cons append_Nil append_assoc dg_stream_def frame)
  let ?P = "\<lambda>x. x \<noteq> TRAILER_CHAR"
  have "takeWhile ?P (?e @ TRAILER_CHAR # rest) = ?e" "dropWhile ?P (?e @ TRAILER_CHAR # rest) = TRAILER_CHAR # rest"
    using trailer_notin_escape by (auto simp: takeWhile_append dropWhile_append)
  moreover have "takeWhile ?P (raw @ concat reads) = takeWhile ?P raw"
    "dropWhile ?P (raw @ concat reads) = dropWhile ?P raw @ concat reads"
    using tr by (auto intro: takeWhile_append1 dropWhile_append1)
  ultimately have take: "takeWhile ?P raw = ?e" and drop: "dropWhile ?P raw @ concat reads = TRAILER_CHAR # rest"
    by (simp_all add: cat)
  moreover have "dropWhile ?P raw \<noteq> []" using tr by (auto simp: dropWhile_eq_Nil_conv)
  ultimately have rest: "tl (dropWhile ?P raw) @ concat reads = rest" by (cases "dropWhile ?P raw") simp_all
  have "hdlc_decapsulate (?e @ [TRAILER_CHAR]) = Inr (fst p # snd p)"
    using hdlc_decapsulate_encapsulate [of "fst p # snd p"] by (simp add: hdlc_encapsulate_def)
  then have "recv d = Some (Inr p, d\<lparr>dg_incoming := reads, dg_pend := tl (dropWhile ?P raw)\<rparr>)"
    by (simp add: recv_def loop py_split1_def tr take)
  with rest show ?thesis by (auto simp: dg_stream_def)
qed

lemma recv_many_frames:
  "dg_stream d = concat (map packet_frame ps) @ rest \<Longrightarrow>
     \<exists>d'. recv_many (length ps) d = Some (Inr ps, d') \<and> dg_stream d' = rest"
proof (induction ps arbitrary: d)
  case (Cons p ps)
  then have "dg_stream d = packet_frame p @ concat (map packet_frame ps) @ rest" by simp
  from recv_frame [OF this] obtain d1 where "recv d = Some (Inr p, d1)"
    "dg_stream d1 = concat (map packet_frame ps) @ rest" by blast
  with Cons.IH [of d1] show ?case by fastforce
qed simp

lemma sent_frames: "concat (dg_sent (frames (\<lambda>d p. send (fst p) (snd p) d) d ps)) = concat (dg_sent d) @ concat (map packet_frame ps)"
  by (induction ps arbitrary: d) (simp_all add: send_def packet_frame_def)

text \<open>
  C19. The protocol delivers: however the serial line cuts the bytes that one side has sent into
  reads, the other side's successive calls of \<open>recv\<close> return the packets sent, whole and in order,
  and leave nothing over.
\<close>

theorem packets_arrive:
  assumes "concat reads = concat (dg_sent (frames (\<lambda>d p. send (fst p) (snd p) d) (ModemDiag []) ps))"
  shows "\<exists>d. recv_many (length ps) (ModemDiag reads) = Some (Inr ps, d) \<and> dg_pend d @ concat (dg_incoming d) = []"
  using recv_many_frames [of "ModemDiag reads" ps "[]"] assms
  by (simp add: sent_frames dg_stream_def ModemDiag_def)

text \<open>The answer to a request: log packets that arrive before it are skipped, and it is returned.\<close>

lemma recv_answer_skips_logs:
  "dg_stream d = concat (map (\<lambda>l. packet_frame (DIAG_LOG_F, l)) logs) @ packet_frame p @ rest \<Longrightarrow> fst p \<noteq> DIAG_LOG_F \<Longrightarrow>
     \<exists>d'. recv_answer d = Some (Inr p, d') \<and> dg_stream d' = rest \<and> dg_sent d' = dg_sent d"
proof (induction logs arbitrary: d)
  case Nil
  then obtain d' where "recv d = Some (Inr p, d')" "dg_stream d' = rest" "dg_sent d' = dg_sent d"
    using recv_frame [of d p rest] by auto
  then show ?case using Nil.prems(2) by (cases p) (auto simp: recv_answer.simps)
next
  case (Cons l logs)
  then obtain d1 where d1: "recv d = Some (Inr (DIAG_LOG_F, l), d1)"
    "dg_stream d1 = concat (map (\<lambda>l. packet_frame (DIAG_LOG_F, l)) logs) @ packet_frame p @ rest" "dg_sent d1 = dg_sent d"
    using recv_frame [of d "(DIAG_LOG_F, l)"] by auto
  with Cons.IH [of d1] Cons.prems(2) show ?case by (auto simp: recv_answer.simps [of d])
qed

text \<open>The mask asks for exactly the listed types: bit \<open>i\<close> is set when type \<open>log_type << 12 | i\<close> is listed.\<close>

lemma log_mask_of_bits:
  assumes "i < n"
  shows "bit (log_mask_of ts t n ! (i div 8)) (i mod 8) \<longleftrightarrow> (push_bit 12 t OR i) \<in> ts"
proof -
  define f where "f = (\<lambda>(log_mask :: bytes) i. if (push_bit 12 t OR i) \<in> ts
    then log_mask[i div 8 := log_mask ! (i div 8) OR push_bit (i mod 8) 1] else log_mask)"
  have "length (foldl f (replicate ((n + 7) div 8) 0) [0..<m]) = (n + 7) div 8 \<and>
    (\<forall>j < n. bit (foldl f (replicate ((n + 7) div 8) 0) [0..<m] ! (j div 8)) (j mod 8) \<longleftrightarrow>
       j < m \<and> (push_bit 12 t OR j) \<in> ts)" if "m \<le> n" for m
    using that
  proof (induction m)
    case 0
    then show ?case by auto
  next
    case (Suc m)
    let ?xs = "foldl f (replicate ((n + 7) div 8) 0) [0..<m]"
    from Suc have IH: "length ?xs = (n + 7) div 8"
      "\<And>j. j < n \<Longrightarrow> bit (?xs ! (j div 8)) (j mod 8) \<longleftrightarrow> j < m \<and> (push_bit 12 t OR j) \<in> ts" by auto
    have m8: "m div 8 < length ?xs" using Suc.prems by (simp add: IH(1))
    have same: "j div 8 = m div 8 \<and> j mod 8 = m mod 8 \<longleftrightarrow> j = m" for j :: nat
      by (metis mod_mult_div_eq)
    have "bit (f ?xs m ! (j div 8)) (j mod 8) \<longleftrightarrow> j < Suc m \<and> (push_bit 12 t OR j) \<in> ts" if "j < n" for j
    proof (cases "(push_bit 12 t OR m) \<in> ts \<and> j div 8 = m div 8")
      case True
      then have "bit (f ?xs m ! (j div 8)) (j mod 8) \<longleftrightarrow> bit (?xs ! (j div 8)) (j mod 8) \<or> j mod 8 = m mod 8"
        using m8 by (auto simp: f_def bit_simps)
      then show ?thesis using IH(2) [OF that] True same [of j] by (auto simp: less_Suc_eq)
    next
      case False
      then have "f ?xs m ! (j div 8) = ?xs ! (j div 8)" by (auto simp: f_def)
      then show ?thesis using IH(2) [OF that] False same [of j] by (auto simp: less_Suc_eq)
    qed
    moreover have "length (f ?xs m) = (n + 7) div 8" using IH(1) by (simp add: f_def)
    ultimately show ?case by simp
  qed
  from this [of n] assms show ?thesis by (simp add: log_mask_of_def f_def)
qed

text \<open>Two packets, one with bytes that need escaping, arriving in reads that cut the frames.\<close>

definition example_packets :: "(byte \<times> bytes) list" where
  "example_packets = [(115, [0x7e, 0x7d]), (16, [])]"

theorem packets_arrive_witness:
  "let bs = concat (map packet_frame example_packets)
   in \<exists>d. recv_many 2 (ModemDiag [take 3 bs, [], drop 3 bs]) = Some (Inr example_packets, d) \<and>
     dg_pend d @ concat (dg_incoming d) = []"
proof -
  let ?bs = "concat (map packet_frame example_packets)"
  have "length example_packets = 2" by (simp add: example_packets_def)
  then show ?thesis
    using packets_arrive [of "[take 3 ?bs, [], drop 3 ?bs]" example_packets]
    by (simp add: sent_frames Let_def ModemDiag_def)
qed

end
