(* ===== verification/Long_Control.thy ===== *)
theory Long_Control
  imports Car_State
begin

text \<open>
  Longitudinal actuation and the shared drive helpers: \<open>PIDController\<close> of \<open>common/pid.py\<close>,
  \<open>LongControl\<close> of \<open>selfdrive/controls/lib/longcontrol.py\<close> and the functions of
  \<open>selfdrive/controls/lib/drive_helpers.py\<close>. The lemmas show that outputs respect the limits of
  the frame, that the integrator does not wind up, that stopping reaches the stopping
  deceleration, and that the commanded curvature respects its jerk, acceleration and absolute
  limits. The gain tables (pairs of breakpoint and value) and \<open>stopAccel\<close> come from the car's
  parameters.
\<close>

subsection \<open>PIDController\<close>

type_synonym gain = "(real \<times> real) list"

record pid =
  pid_k_p :: gain
  pid_k_i :: gain
  pid_k_d :: gain
  pid_pos_limit :: real
  pid_neg_limit :: real
  pid_i_dt :: real
  pid_speed :: real
  pid_p :: real
  pid_i :: real
  pid_d :: real
  pid_f :: real
  pid_control :: real

definition pid_reset :: "pid \<Rightarrow> pid" where
  "pid_reset s = s\<lparr>pid_p := 0, pid_i := 0, pid_d := 0, pid_f := 0, pid_control := 0\<rparr>"

definition pid_set_limits :: "real \<Rightarrow> real \<Rightarrow> pid \<Rightarrow> pid" where
  "pid_set_limits pos_limit neg_limit s = s\<lparr>pid_pos_limit := pos_limit, pid_neg_limit := neg_limit\<rparr>"

definition PIDController :: "gain \<Rightarrow> gain \<Rightarrow> gain \<Rightarrow> real \<Rightarrow> real \<Rightarrow> real \<Rightarrow> pid" where
  "PIDController k_p k_i k_d pos_limit neg_limit rate =
     pid_reset (pid_set_limits pos_limit neg_limit
       \<lparr>pid_k_p = k_p, pid_k_i = k_i, pid_k_d = k_d, pid_pos_limit = 0, pid_neg_limit = 0,
        pid_i_dt = 1 / rate, pid_speed = 0, pid_p = 0, pid_i = 0, pid_d = 0, pid_f = 0, pid_control = 0\<rparr>)"

definition pid_update :: "real \<Rightarrow> real \<Rightarrow> real \<Rightarrow> real \<Rightarrow> bool \<Rightarrow> pid \<Rightarrow> pid" where
  "pid_update error error_rate speed feedforward freeze_integrator s =
     (let s = s\<lparr>pid_speed := speed, pid_p := np_interp speed (pid_k_p s) * error,
                pid_d := np_interp speed (pid_k_d s) * error_rate, pid_f := feedforward\<rparr>;
          s = (if freeze_integrator then s
               else
                 (let i = pid_i s + np_interp speed (pid_k_i s) * pid_i_dt s * error;
                      test_control = pid_p s + i + pid_d s + pid_f s;
                      i_upperbound = (if test_control > pid_pos_limit s then pid_i s else pid_pos_limit s);
                      i_lowerbound = (if test_control < pid_neg_limit s then pid_i s else pid_neg_limit s)
                  in s\<lparr>pid_i := np_clip i i_lowerbound i_upperbound\<rparr>))
      in s\<lparr>pid_control := np_clip (pid_p s + pid_i s + pid_d s + pid_f s) (pid_neg_limit s) (pid_pos_limit s)\<rparr>)"

subsection \<open>LongControl\<close>

datatype long_ctrl_state = LCS_off | LCS_pid | LCS_stopping

definition long_control_state_trans ::
  "car_params_sp \<Rightarrow> bool \<Rightarrow> long_ctrl_state \<Rightarrow> bool \<Rightarrow> bool \<Rightarrow> bool \<Rightarrow> long_ctrl_state" where
  "long_control_state_trans CP_SP active st should_stop brake_pressed cruise_standstill =
     (let cruise_standstill = cruise_standstill \<and> \<not> cpsp_enableGasInterceptor CP_SP;
          starting_condition = \<not> should_stop \<and> \<not> cruise_standstill \<and> \<not> brake_pressed
      in if \<not> active then LCS_off
         else case st of
             LCS_off \<Rightarrow> (if \<not> starting_condition then LCS_stopping else LCS_pid)
           | LCS_stopping \<Rightarrow> (if starting_condition then LCS_pid else LCS_stopping)
           | LCS_pid \<Rightarrow> (if should_stop then LCS_stopping else LCS_pid))"

record long_params =
  lp_kp :: gain
  lp_ki :: gain
  lp_stopAccel :: real

record long_control =
  lc_state :: long_ctrl_state
  lc_pid :: pid
  lc_last_output_accel :: real

text \<open>The limits of a new controller are \<open>1e308\<close> and \<open>-1e308\<close> until the first update sets them.\<close>

definition PID_DEFAULT_LIMIT :: real where "PID_DEFAULT_LIMIT = 10 ^ 308"

definition LongControl :: "long_params \<Rightarrow> long_control" where
  "LongControl P = \<lparr>lc_state = LCS_off,
     lc_pid = PIDController (lp_kp P) (lp_ki P) [(0, 0)] PID_DEFAULT_LIMIT (- PID_DEFAULT_LIMIT) (1 / DT_CTRL),
     lc_last_output_accel = 0\<rparr>"

definition lc_reset :: "long_control \<Rightarrow> long_control" where
  "lc_reset s = s\<lparr>lc_pid := pid_reset (lc_pid s)\<rparr>"

definition lc_update ::
  "long_params \<Rightarrow> car_params_sp \<Rightarrow> bool \<Rightarrow> car_state \<Rightarrow> real \<Rightarrow> bool \<Rightarrow> real \<times> real \<Rightarrow> long_control \<Rightarrow> long_control" where
  "lc_update P CP_SP active CS a_target should_stop accel_limits s =
     (let s = s\<lparr>lc_pid := (lc_pid s)\<lparr>pid_neg_limit := fst accel_limits, pid_pos_limit := snd accel_limits\<rparr>,
                lc_state := long_control_state_trans CP_SP active (lc_state s) should_stop
                  (cs_brakePressed CS) (cr_standstill (cs_cruiseState CS))\<rparr>;
          (s, output_accel) =
            (case lc_state s of
               LCS_off \<Rightarrow> (lc_reset s, 0)
             | LCS_stopping \<Rightarrow>
                 (lc_reset s,
                  if lc_last_output_accel s > lp_stopAccel P
                  then min (lc_last_output_accel s) 0 - 1 * DT_CTRL else lc_last_output_accel s)
             | LCS_pid \<Rightarrow>
                 (let p = pid_update (a_target - cs_aEgo CS) 0 (cs_vEgo CS) a_target False (lc_pid s)
                  in (s\<lparr>lc_pid := p\<rparr>, pid_control p)))
      in s\<lparr>lc_last_output_accel := np_clip output_accel (fst accel_limits) (snd accel_limits)\<rparr>)"

subsection \<open>Drive helpers\<close>

definition MIN_SPEED :: real where "MIN_SPEED = 1"
definition MAX_CURVATURE :: real where "MAX_CURVATURE = 2 / 10"
definition MIN_STABLE_DELAY :: real where "MIN_STABLE_DELAY = 3 / 10"
definition MAX_LATERAL_JERK :: real where "MAX_LATERAL_JERK = 5"
definition MAX_LATERAL_ACCEL_NO_ROLL :: real where "MAX_LATERAL_ACCEL_NO_ROLL = 3"
definition ACCELERATION_DUE_TO_GRAVITY :: real where "ACCELERATION_DUE_TO_GRAVITY = 981 / 100"

definition should_stop :: "real \<Rightarrow> real \<Rightarrow> bool" where
  "should_stop v_ego a_target \<longleftrightarrow> v_ego < 25 / 100 \<and> a_target < 1 / 10"

definition clamp :: "real \<Rightarrow> real \<Rightarrow> real \<Rightarrow> real \<times> bool" where
  "clamp v min_val max_val = (let c = np_clip v min_val max_val in (c, c \<noteq> v))"

definition smooth_value :: "real \<Rightarrow> real \<Rightarrow> real \<Rightarrow> real \<Rightarrow> real" where
  "smooth_value v prev_val tau dt =
     (let alpha = (if tau > 0 then 1 - exp (- dt / tau) else 1) in alpha * v + (1 - alpha) * prev_val)"

definition clip_curvature :: "real \<Rightarrow> real \<Rightarrow> real \<Rightarrow> real \<Rightarrow> real \<times> bool" where
  "clip_curvature v_ego prev_curvature new_curvature roll =
     (let v_ego = max v_ego MIN_SPEED;
          max_curvature_rate = MAX_LATERAL_JERK / v_ego\<^sup>2;
          new_curvature = np_clip new_curvature (prev_curvature - max_curvature_rate * DT_CTRL)
                            (prev_curvature + max_curvature_rate * DT_CTRL);
          roll_compensation = roll * ACCELERATION_DUE_TO_GRAVITY;
          max_lat_accel = MAX_LATERAL_ACCEL_NO_ROLL + roll_compensation;
          min_lat_accel = - MAX_LATERAL_ACCEL_NO_ROLL + roll_compensation;
          (new_curvature, limited_accel) = clamp new_curvature (min_lat_accel / v_ego\<^sup>2) (max_lat_accel / v_ego\<^sup>2);
          (new_curvature, limited_max_curv) = clamp new_curvature (- MAX_CURVATURE) MAX_CURVATURE
      in (new_curvature, limited_accel \<or> limited_max_curv))"

text \<open>
  A plan is a list of values over the time indices. \<open>np.interp\<close> raises on empty or unequal
  lists, \<open>speeds[0]\<close> and \<open>accels[0]\<close> on empty ones; \<open>action_t\<close>, the actuator delay, is positive.
\<close>

definition np_interp_lists :: "real \<Rightarrow> real list \<Rightarrow> real list \<Rightarrow> py_error + real" where
  "np_interp_lists x xp fp =
     (if xp = [] \<or> length xp \<noteq> length fp then Inl ValueError else Inr (np_interp x (zip xp fp)))"

definition get_accel_from_plan ::
  "real list \<Rightarrow> real list \<Rightarrow> real list \<Rightarrow> real \<Rightarrow> py_error + real \<times> bool" where
  "get_accel_from_plan speeds accels t_idxs action_t =
     (if length speeds = length t_idxs then
        bind_result (py_index speeds 0) (\<lambda>v_now.
        bind_result (py_index accels 0) (\<lambda>a_now.
        bind_result
          (if action_t < MIN_STABLE_DELAY
           then bind_result (np_interp_lists MIN_STABLE_DELAY t_idxs speeds) (\<lambda>v.
                  Inr (v_now + action_t / MIN_STABLE_DELAY * (v - v_now)))
           else np_interp_lists action_t t_idxs speeds) (\<lambda>v_target.
          (let a_target = 2 * (v_target - v_now) / action_t - a_now
           in Inr (a_target, should_stop v_now a_target)))))
      else Inr (0, should_stop 0 0))"

definition curv_from_psis :: "real \<Rightarrow> real \<Rightarrow> real \<Rightarrow> real \<Rightarrow> real" where
  "curv_from_psis psi_target psi_rate vego action_t =
     (let vego = max vego MIN_SPEED in 2 * (psi_target / (vego * action_t)) - psi_rate / vego)"

definition get_curvature_from_plan ::
  "real list \<Rightarrow> real list \<Rightarrow> real list \<Rightarrow> real \<Rightarrow> real \<Rightarrow> py_error + real" where
  "get_curvature_from_plan yaws yaw_rates t_idxs vego action_t =
     bind_result
       (if action_t < MIN_STABLE_DELAY
        then bind_result (np_interp_lists MIN_STABLE_DELAY t_idxs yaws) (\<lambda>psi.
               Inr (action_t / MIN_STABLE_DELAY * psi))
        else np_interp_lists action_t t_idxs yaws) (\<lambda>psi_target.
     bind_result (py_index yaw_rates 0) (\<lambda>psi_rate. Inr (curv_from_psis psi_target psi_rate vego action_t)))"

subsection \<open>The PID loop\<close>

lemma pid_update_fields [simp]:
  "pid_pos_limit (pid_update e r v f fr s) = pid_pos_limit s" "pid_neg_limit (pid_update e r v f fr s) = pid_neg_limit s"
  "pid_k_i (pid_update e r v f fr s) = pid_k_i s" "pid_i_dt (pid_update e r v f fr s) = pid_i_dt s"
  by (simp_all add: pid_update_def Let_def)

lemma pid_control_bounds:
  assumes "pid_neg_limit s \<le> pid_pos_limit s"
  shows "pid_neg_limit s \<le> pid_control (pid_update e r v f fr s)" "pid_control (pid_update e r v f fr s) \<le> pid_pos_limit s"
  using assms by (simp_all add: pid_update_def Let_def)

text \<open>The integrator stays within the limits and is not driven further into a limit it already hits.\<close>

lemma np_clip_in: "lo \<le> a \<Longrightarrow> lo \<le> b \<Longrightarrow> a \<le> hi \<Longrightarrow> b \<le> hi \<Longrightarrow> lo \<le> np_clip x a b \<and> np_clip x a b \<le> hi"
  by (auto simp: np_clip_def min_def max_def)

lemma pid_i_update:
  "pid_i (pid_update e r v f fr s) =
     (if fr then pid_i s
      else
        (let i = pid_i s + np_interp v (pid_k_i s) * pid_i_dt s * e;
             c = np_interp v (pid_k_p s) * e + i + np_interp v (pid_k_d s) * r + f
         in np_clip i (if c < pid_neg_limit s then pid_i s else pid_neg_limit s)
              (if c > pid_pos_limit s then pid_i s else pid_pos_limit s)))"
  by (simp add: pid_update_def Let_def)

lemma pid_integrator_bounds:
  assumes "pid_neg_limit s \<le> pid_i s" "pid_i s \<le> pid_pos_limit s"
  shows "pid_neg_limit s \<le> pid_i (pid_update e r v f fr s)" "pid_i (pid_update e r v f fr s) \<le> pid_pos_limit s"
  using assms np_clip_in [of "pid_neg_limit s" _ _ "pid_pos_limit s"] by (simp_all add: pid_i_update Let_def)

lemma pid_no_windup:
  fixes s :: pid and e v :: real
  defines "i \<equiv> pid_i s + np_interp v (pid_k_i s) * pid_i_dt s * e"
  assumes "pid_neg_limit s \<le> pid_pos_limit s"
  shows "pid_pos_limit s < np_interp v (pid_k_p s) * e + i + np_interp v (pid_k_d s) * r + f \<Longrightarrow>
      pid_i (pid_update e r v f False s) \<le> pid_i s"
    and "np_interp v (pid_k_p s) * e + i + np_interp v (pid_k_d s) * r + f < pid_neg_limit s \<Longrightarrow> pid_i s \<le> pid_pos_limit s \<Longrightarrow>
      pid_i s \<le> pid_i (pid_update e r v f False s)"
  using assms(2) by (simp_all add: pid_i_update Let_def np_clip_def flip: i_def)

subsection \<open>The actuation\<close>

lemma lc_output_bounds:
  assumes "lo \<le> hi"
  shows "lo \<le> lc_last_output_accel (lc_update P SP a CS t st (lo, hi) s) \<and>
    lc_last_output_accel (lc_update P SP a CS t st (lo, hi) s) \<le> hi"
  using assms by (auto simp: lc_update_def Let_def split: long_ctrl_state.split prod.split)

text \<open>
  One frame of stopping: the output falls by 0.01 m/s^2 until the stopping deceleration is
  reached, then is held.
\<close>

definition lc_stop :: "long_params \<Rightarrow> car_params_sp \<Rightarrow> real \<Rightarrow> real \<Rightarrow> long_control \<Rightarrow> car_state \<times> real \<Rightarrow> long_control" where
  "lc_stop P SP lo hi s = (\<lambda>(CS, a_target). lc_update P SP True CS a_target True (lo, hi) s)"

lemma lc_stop_state: "lc_state (lc_stop P SP lo hi s i) = LCS_stopping"
  by (cases "lc_state s")
     (simp_all add: lc_stop_def lc_update_def Let_def long_control_state_trans_def lc_reset_def split: prod.split)

lemma lc_stop_output:
  "lc_last_output_accel (lc_stop P SP lo hi s i) =
     np_clip (if lp_stopAccel P < lc_last_output_accel s then min (lc_last_output_accel s) 0 - 1 / 100
              else lc_last_output_accel s) lo hi"
  by (cases "lc_state s")
     (simp_all add: lc_stop_def lc_update_def Let_def long_control_state_trans_def lc_reset_def const_defs split: prod.split)

definition stop_rank :: "long_params \<Rightarrow> long_control \<Rightarrow> nat" where
  "stop_rank P s = nat \<lceil>100 * (lc_last_output_accel s - lp_stopAccel P)\<rceil>"

lemma lc_stop_rank:
  assumes "lo \<le> lp_stopAccel P" "lp_stopAccel P \<le> hi"
  shows "stop_rank P (lc_stop P SP lo hi s i) \<le> stop_rank P s - 1"
proof -
  let ?a = "lc_last_output_accel s" and ?b = "lc_last_output_accel (lc_stop P SP lo hi s i)" and ?c = "lp_stopAccel P"
  have "100 * (?b - ?c) \<le> max (100 * (?a - ?c) - 1) 0"
    using assms unfolding lc_stop_output np_clip_def by (auto simp: max_def min_def)
  then have "\<lceil>100 * (?b - ?c)\<rceil> \<le> \<lceil>max (100 * (?a - ?c) - 1) 0\<rceil>" by (rule ceiling_mono)
  also have "\<dots> = max (\<lceil>100 * (?a - ?c)\<rceil> - 1) 0"
    by (simp add: max_def)
  finally show ?thesis unfolding stop_rank_def by linarith
qed

interpretation stopping: ranked_machine "lc_stop P SP lo hi" "\<lambda>_. lo \<le> lp_stopAccel P \<and> lp_stopAccel P \<le> hi" "\<lambda>_. True" "stop_rank P"
  for P SP lo hi
  by unfold_locales (use lc_stop_rank in auto)

lemma lc_stop_run_state: "is \<noteq> [] \<Longrightarrow> lc_state (frames (lc_stop P SP lo hi) s is) = LCS_stopping"
  by (induction "is" rule: rev_induct) (simp_all add: lc_stop_state)

text \<open>
  C15. Stopping arrives: while a stop is requested with the car's stopping deceleration within the
  limits, the controller is in the stopping state after every frame and its output has reached the
  stopping deceleration after at most 100 frames per m/s^2 of difference, from whatever output and
  state it started, whatever the car does.
\<close>

theorem stopping_reaches_stop_accel:
  assumes "lo \<le> lp_stopAccel P" "lp_stopAccel P \<le> hi" "is \<noteq> []"
    and "100 * (lc_last_output_accel s - lp_stopAccel P) \<le> real (length is)"
  shows "lc_state (frames (lc_stop P SP lo hi) s is) = LCS_stopping \<and>
    lc_last_output_accel (frames (lc_stop P SP lo hi) s is) \<le> lp_stopAccel P"
proof -
  have "stop_rank P s \<le> length is" using assms(4) by (simp add: stop_rank_def ceiling_le_iff nat_le_iff)
  then have "stop_rank P (frames (lc_stop P SP lo hi) s is) = 0"
    by (intro stopping.run_exhausted) (use assms in auto)
  then have "lc_last_output_accel (frames (lc_stop P SP lo hi) s is) \<le> lp_stopAccel P"
    by (simp add: stop_rank_def ceiling_le_zero)
  with assms(3) show ?thesis by (simp add: lc_stop_run_state)
qed

subsection \<open>Curvature\<close>

lemma np_clip_keeps:
  fixes x lo hi m :: real
  assumes "lo \<le> 0" "0 \<le> hi" "lo \<le> x" "x \<le> hi" "a \<le> 0" "0 \<le> b"
  shows "lo \<le> np_clip x a b \<and> np_clip x a b \<le> hi"
  using assms by (auto simp: np_clip_def)

lemma np_clip_closer:
  fixes x c a b :: real
  shows "a \<le> c \<Longrightarrow> c \<le> b \<Longrightarrow> \<bar>np_clip x a b - c\<bar> \<le> \<bar>x - c\<bar>"
  by (auto simp: np_clip_def max_def min_def)

lemma clamp_fst: "fst (clamp v lo hi) = np_clip v lo hi"
  by (simp add: clamp_def Let_def)

lemma clip_curvature_fst:
  "fst (clip_curvature v c0 c roll) =
     np_clip (np_clip (np_clip c (c0 - 5 / (max v 1)\<^sup>2 / 100) (c0 + 5 / (max v 1)\<^sup>2 / 100))
       ((-3 + roll * (981 / 100)) / (max v 1)\<^sup>2) ((3 + roll * (981 / 100)) / (max v 1)\<^sup>2)) (-1/5) (1/5)"
  by (simp add: clip_curvature_def Let_def case_prod_beta clamp_fst MIN_SPEED_def MAX_LATERAL_JERK_def
      MAX_LATERAL_ACCEL_NO_ROLL_def ACCELERATION_DUE_TO_GRAVITY_def MAX_CURVATURE_def const_defs)

text \<open>
  The commanded curvature is always safe: on a road banked so little that standing straight is
  within the lateral acceleration limits, the clipped curvature never exceeds 0.2 1/m, keeps the
  roll-compensated lateral acceleration at the clipped speed within 3 m/s^2, and if the previous
  command satisfied both, differs from it by no more than the jerk limit of 5 m/s^3 allows in one
  frame.
\<close>

theorem clip_curvature_safe:
  fixes v c0 c roll :: real
  assumes "\<bar>roll * (981 / 100)\<bar> \<le> 3"
  shows "let k = fst (clip_curvature v c0 c roll); w = (max v 1)\<^sup>2 in
    \<bar>k\<bar> \<le> 1 / 5 \<and> \<bar>k * w - roll * (981 / 100)\<bar> \<le> 3 \<and>
    (\<bar>c0\<bar> \<le> 1 / 5 \<and> \<bar>c0 * w - roll * (981 / 100)\<bar> \<le> 3 \<longrightarrow> \<bar>k - c0\<bar> * w \<le> 5 * DT_CTRL)"
proof -
  let ?w = "(max v 1)\<^sup>2" and ?r = "roll * (981 / 100)"
  have "1 \<le> max v 1" by simp
  then have w: "1 \<le> ?w" by (simp add: one_le_power)
  define d lo hi where "d = 5 / ?w / 100" and "lo = (-3 + ?r) / ?w" and "hi = (3 + ?r) / ?w"
  define k where "k = fst (clip_curvature v c0 c roll)"
  have keq: "k = np_clip (np_clip (np_clip c (c0 - d) (c0 + d)) lo hi) (-1/5) (1/5)"
    by (simp add: k_def clip_curvature_fst d_def lo_def hi_def)
  have sg: "lo \<le> 0" "0 \<le> hi" "0 \<le> d" using assms w by (auto simp: lo_def hi_def d_def divide_nonpos_pos)
  have in_window: "lo \<le> x \<and> x \<le> hi \<longleftrightarrow> \<bar>x * ?w - ?r\<bar> \<le> 3" for x
    using w by (auto simp: lo_def hi_def divide_le_eq le_divide_eq abs_le_iff algebra_simps)
  have "-1/5 \<le> k" "k \<le> 1/5" unfolding keq by (rule np_clip_bounds; simp)+
  then have "\<bar>k\<bar> \<le> 1 / 5" by linarith
  moreover have "lo \<le> k \<and> k \<le> hi" unfolding keq using sg by (intro np_clip_keeps) simp_all
  moreover have "\<bar>k - c0\<bar> \<le> d" if "\<bar>c0\<bar> \<le> 1 / 5" "lo \<le> c0 \<and> c0 \<le> hi"
  proof -
    have "\<bar>k - c0\<bar> \<le> \<bar>np_clip (np_clip c (c0 - d) (c0 + d)) lo hi - c0\<bar>"
      unfolding keq using that by (intro np_clip_closer) auto
    also have "\<dots> \<le> \<bar>np_clip c (c0 - d) (c0 + d) - c0\<bar>" using that by (intro np_clip_closer) auto
    also have "\<dots> \<le> d" using sg(3) by (auto simp: np_clip_def)
    finally show ?thesis .
  qed
  moreover have "\<bar>k - c0\<bar> \<le> d \<Longrightarrow> \<bar>k - c0\<bar> * ?w \<le> 5 * DT_CTRL"
    using w by (simp add: d_def const_defs field_simps)
  ultimately show ?thesis unfolding Let_def k_def [symmetric] in_window by blast
qed

text \<open>The default car for the examples: gains of one and a stopping deceleration of 2 m/s^2.\<close>

definition example_long_params :: long_params where
  "example_long_params = \<lparr>lp_kp = [(0, 1)], lp_ki = [(0, 1)], lp_stopAccel = -2\<rparr>"

theorem stopping_reaches_stop_accel_witness:
  "let s = frames (lc_stop example_long_params \<lparr>cpsp_tesla_has_vehicle_bus = False, cpsp_enableGasInterceptor = False,
         cpsp_pcmCruiseSpeed = True, cpsp_intelligentCruiseButtonManagementAvailable = False\<rparr> (-4) 2)
       (LongControl example_long_params) (replicate 200 (car_state_default GS_drive, 0))
   in lc_state s = LCS_stopping \<and> lc_last_output_accel s \<le> lp_stopAccel example_long_params"
  unfolding Let_def
  by (rule stopping_reaches_stop_accel) (simp_all add: example_long_params_def LongControl_def)

theorem clip_curvature_safe_witness: "\<bar>fst (clip_curvature 20 0 1 0)\<bar> \<le> 1 / 5"
  using clip_curvature_safe [of 0 20 0 1] by (simp add: Let_def)

end
