(* ===== verification/Speed_Limit.thy ===== *)
theory Speed_Limit
  imports Cruise Events_SP_Table Long_Control
begin

text \<open>
  Speed limits, \<open>sunnypilot/custom/longitudinal/speed_limit\<close>: the resolver that chooses among the
  limits of the car and of the map, and the assist that lets a chosen limit govern the car once
  the driver has confirmed it. A message value that may not be a finite number is an option; the
  clocks (\<open>time.time\<close>, \<open>time.monotonic\<close>) are inputs of a frame, and the parameter store is a record
  that the operations read and write.
\<close>

subsection \<open>Types and constants\<close>

datatype sl_policy = SLP_car_state_only | SLP_map_data_only | SLP_car_state_priority | SLP_map_data_priority | SLP_combined
datatype sl_offset_type = SLO_off | SLO_fixed | SLO_percentage
datatype sl_source = SRC_none | SRC_car | SRC_map

definition SL_MODE_WARNING :: int where "SL_MODE_WARNING = 2"
definition SL_MODE_ASSIST :: int where "SL_MODE_ASSIST = 3"

definition LIMIT_ADAPT_ACC :: real where "LIMIT_ADAPT_ACC = -1"
definition LIMIT_MAX_MAP_DATA_AGE :: real where "LIMIT_MAX_MAP_DATA_AGE = 10"
definition DISABLED_GUARD_PERIOD :: real where "DISABLED_GUARD_PERIOD = 1 / 2"
definition LIMIT_SPEED_OFFSET_TH :: real where "LIMIT_SPEED_OFFSET_TH = -1"
definition CRUISE_BUTTON_CONFIRM_HOLD :: real where "CRUISE_BUTTON_CONFIRM_HOLD = 1 / 2"
definition PARAMS_UPDATE_PERIOD :: real where "PARAMS_UPDATE_PERIOD = 3"

definition PCM_LONG_REQUIRED_MAX_SET_SPEED :: "bool \<Rightarrow> real \<times> real" where
  "PCM_LONG_REQUIRED_MAX_SET_SPEED is_metric =
     (if is_metric then (333333 / 10000, 361111 / 10000) else (312928 / 10000, 357632 / 10000))"

definition CONFIRM_SPEED_THRESHOLD :: "bool \<Rightarrow> int" where
  "CONFIRM_SPEED_THRESHOLD is_metric = (if is_metric then 80 else 50)"

definition PRE_ACTIVE_GUARD_PERIOD :: "bool \<Rightarrow> real" where
  "PRE_ACTIVE_GUARD_PERIOD pcm_op_long = (if pcm_op_long then 15 else 5)"

definition CRUISE_BUTTONS_PLUS :: "button_type list" where "CRUISE_BUTTONS_PLUS = [BT_accelCruise, BT_resumeCruise]"
definition CRUISE_BUTTONS_MINUS :: "button_type list" where "CRUISE_BUTTONS_MINUS = [BT_decelCruise, BT_setCruise]"

definition SLA_ENABLED_STATES :: "sla_state list" where
  "SLA_ENABLED_STATES = SLA_preActive # SLA_pending # SLA_ACTIVE_STATES"

subsection \<open>Parameters\<close>

record sl_params =
  slp_IsMetric :: bool
  slp_IsReleaseSpBranch :: bool
  slp_SpeedLimitMode :: int
  slp_SpeedLimitPolicy :: "int option"  \<comment> \<open>\<open>None\<close>: \<open>int(value)\<close> fails\<close>
  slp_SpeedLimitOffsetType :: "int option"
  slp_SpeedLimitValueOffset :: "real option"

definition get_sanitize_int_param :: "int option \<Rightarrow> int \<Rightarrow> int \<Rightarrow> int" where
  "get_sanitize_int_param raw_val min_val max_val =
     (let v = (case raw_val of Some v \<Rightarrow> v | None \<Rightarrow> min_val) in max min_val (min max_val v))"

fun sl_policy_of :: "int \<Rightarrow> sl_policy" where
  "sl_policy_of n =
     (if n = 1 then SLP_map_data_only else if n = 2 then SLP_car_state_priority
      else if n = 3 then SLP_map_data_priority else if n = 4 then SLP_combined else SLP_car_state_only)"

fun sl_offset_type_of :: "int \<Rightarrow> sl_offset_type" where
  "sl_offset_type_of n = (if n = 1 then SLO_fixed else if n = 2 then SLO_percentage else SLO_off)"

definition set_speed_limit_assist_availability :: "car_params \<Rightarrow> car_params_sp \<Rightarrow> sl_params \<Rightarrow> sl_params \<times> bool" where
  "set_speed_limit_assist_availability CP CP_SP params =
     (let disallow_in_release = cp_brand CP = ''tesla'' \<and> slp_IsReleaseSpBranch params;
          always_disallow = cp_brand CP = ''rivian'';
          allowed = \<not> (disallow_in_release \<or> always_disallow);
          allowed = (if \<not> cp_openpilotLongitudinalControl CP \<and> cpsp_pcmCruiseSpeed CP_SP then False else allowed)
      in (if \<not> allowed \<and> slp_SpeedLimitMode params = SL_MODE_ASSIST
          then params\<lparr>slp_SpeedLimitMode := SL_MODE_WARNING\<rparr> else params, allowed))"

subsection \<open>SpeedLimitResolver\<close>

record sl_resolver =
  rs_frame :: int
  rs_limit_solutions :: "sl_source \<Rightarrow> real"
  rs_distance_solutions :: "sl_source \<Rightarrow> real"
  rs_policy :: sl_policy
  rs_source :: sl_source
  rs_is_metric :: bool
  rs_offset_type :: sl_offset_type
  rs_offset_value :: "real option"
  rs_v_ego :: real
  rs_distance :: real
  rs_speed_limit :: real
  rs_speed_limit_last :: real
  rs_speed_limit_final :: real
  rs_speed_limit_final_last :: real
  rs_speed_limit_offset :: real

text \<open>
  The messages: \<open>carStateSP.speedLimit\<close>, \<open>liveMapDataSP\<close>, the time stamp of the GPS fix, and the
  two readings of \<open>time.time()\<close>. The resolver reads the GPS service chosen at start.
\<close>

record sl_messages =
  sm_car_speedLimit :: "real option"
  sm_map_speedLimitValid :: bool
  sm_map_speedLimit :: "real option"
  sm_map_speedLimitAheadValid :: bool
  sm_map_speedLimitAhead :: "real option"
  sm_map_speedLimitAheadDistance :: "real option"
  sm_gps_unixTimestampMillis :: int
  sm_time1 :: real
  sm_time2 :: real

definition finite_positive :: "real option \<Rightarrow> real" where
  "finite_positive v = (case v of Some x \<Rightarrow> if x > 0 then x else 0 | None \<Rightarrow> 0)"

definition finite_nonnegative_or_none :: "real option \<Rightarrow> real option" where
  "finite_nonnegative_or_none v = (case v of Some x \<Rightarrow> if x \<ge> 0 then Some x else None | None \<Rightarrow> None)"

definition policy_to_sources :: "sl_policy \<Rightarrow> sl_source list" where
  "policy_to_sources p =
     (case p of SLP_car_state_only \<Rightarrow> [SRC_car] | SLP_map_data_only \<Rightarrow> [SRC_map]
      | SLP_car_state_priority \<Rightarrow> [SRC_car, SRC_map] | SLP_map_data_priority \<Rightarrow> [SRC_map, SRC_car]
      | SLP_combined \<Rightarrow> [SRC_car, SRC_map])"

definition rs_read_params :: "sl_params \<Rightarrow> sl_resolver \<Rightarrow> sl_params \<times> sl_resolver" where
  "rs_read_params params s =
     (let pol = get_sanitize_int_param (slp_SpeedLimitPolicy params) 0 4;
          off = get_sanitize_int_param (slp_SpeedLimitOffsetType params) 0 2
      in (params\<lparr>slp_SpeedLimitPolicy := Some pol, slp_SpeedLimitOffsetType := Some off\<rparr>,
          s\<lparr>rs_policy := sl_policy_of pol, rs_is_metric := slp_IsMetric params,
            rs_offset_type := sl_offset_type_of off, rs_offset_value := slp_SpeedLimitValueOffset params\<rparr>))"

definition rs_init :: "sl_params \<Rightarrow> sl_params \<times> sl_resolver" where
  "rs_init params = rs_read_params params
     \<lparr>rs_frame = -1, rs_limit_solutions = (\<lambda>_. 0), rs_distance_solutions = (\<lambda>_. 0), rs_policy = SLP_car_state_only,
      rs_source = SRC_none, rs_is_metric = False, rs_offset_type = SLO_off, rs_offset_value = None,
      rs_v_ego = 0, rs_distance = 0, rs_speed_limit = 0, rs_speed_limit_last = 0, rs_speed_limit_final = 0,
      rs_speed_limit_final_last = 0, rs_speed_limit_offset = 0\<rparr>"

definition update_speed_limit_states :: "sl_resolver \<Rightarrow> sl_resolver" where
  "update_speed_limit_states s =
     (let s = s\<lparr>rs_speed_limit_final := rs_speed_limit s + rs_speed_limit_offset s\<rparr>;
          s = (if rs_speed_limit_final s \<le> 0
               then s\<lparr>rs_speed_limit_offset := 0,
                      rs_speed_limit_final := (if rs_speed_limit s > 0 then rs_speed_limit s else 0)\<rparr> else s)
      in if rs_speed_limit s > 0
         then s\<lparr>rs_speed_limit_last := rs_speed_limit s, rs_speed_limit_final_last := rs_speed_limit_final s\<rparr> else s)"

definition speed_limit_valid :: "sl_resolver \<Rightarrow> bool" where "speed_limit_valid s \<longleftrightarrow> rs_speed_limit s > 0"
definition speed_limit_last_valid :: "sl_resolver \<Rightarrow> bool" where "speed_limit_last_valid s \<longleftrightarrow> rs_speed_limit_last s > 0"

definition rs_update_params :: "sl_params \<Rightarrow> sl_resolver \<Rightarrow> sl_params \<times> sl_resolver" where
  "rs_update_params params s =
     (if rs_frame s mod py_int (PARAMS_UPDATE_PERIOD / DT_MDL) = 0 then rs_read_params params s else (params, s))"

definition get_speed_limit_offset :: "sl_resolver \<Rightarrow> real" where
  "get_speed_limit_offset s =
     (case rs_offset_value s of None \<Rightarrow> 0
      | Some offset_value \<Rightarrow>
          (case rs_offset_type s of
             SLO_off \<Rightarrow> 0
           | SLO_fixed \<Rightarrow> offset_value * (if rs_is_metric s then KPH_TO_MS else MPH_TO_MS)
           | SLO_percentage \<Rightarrow> offset_value * (1 / 100) * rs_speed_limit s))"

definition reset_limit_sources :: "sl_source \<Rightarrow> sl_resolver \<Rightarrow> sl_resolver" where
  "reset_limit_sources src s =
     s\<lparr>rs_limit_solutions := (rs_limit_solutions s)(src := 0), rs_distance_solutions := (rs_distance_solutions s)(src := 0)\<rparr>"

definition get_from_car_state :: "sl_messages \<Rightarrow> sl_resolver \<Rightarrow> sl_resolver" where
  "get_from_car_state sm s =
     (let s = reset_limit_sources SRC_car s
      in s\<lparr>rs_limit_solutions := (rs_limit_solutions s)(SRC_car := finite_positive (sm_car_speedLimit sm)),
           rs_distance_solutions := (rs_distance_solutions s)(SRC_car := 0)\<rparr>)"

definition calculate_map_data_limits :: "sl_messages \<Rightarrow> real \<Rightarrow> real \<Rightarrow> sl_resolver \<Rightarrow> sl_resolver" where
  "calculate_map_data_limits sm speed_limit next_speed_limit s =
     (let distance_since_fix = rs_v_ego s * (sm_time2 sm - of_int (sm_gps_unixTimestampMillis sm) / 1000);
          s = s\<lparr>rs_limit_solutions := (rs_limit_solutions s)(SRC_map := speed_limit),
                rs_distance_solutions := (rs_distance_solutions s)(SRC_map := 0)\<rparr>
      in case finite_nonnegative_or_none (sm_map_speedLimitAheadDistance sm) of
           None \<Rightarrow> s
         | Some speed_limit_ahead_distance \<Rightarrow>
             (let distance_to_speed_limit_ahead = max 0 (speed_limit_ahead_distance - distance_since_fix)
              in if 0 < next_speed_limit \<and> next_speed_limit < rs_v_ego s then
                   (let adapt_time = (next_speed_limit - rs_v_ego s) / LIMIT_ADAPT_ACC;
                        adapt_distance = rs_v_ego s * adapt_time + 1 / 2 * LIMIT_ADAPT_ACC * adapt_time\<^sup>2
                    in if distance_to_speed_limit_ahead \<le> adapt_distance
                       then s\<lparr>rs_limit_solutions := (rs_limit_solutions s)(SRC_map := next_speed_limit),
                              rs_distance_solutions := (rs_distance_solutions s)(SRC_map := distance_to_speed_limit_ahead)\<rparr>
                       else s)
                 else s))"

definition process_map_data :: "sl_messages \<Rightarrow> sl_resolver \<Rightarrow> sl_resolver" where
  "process_map_data sm s =
     (let gps_fix_age = sm_time1 sm - of_int (sm_gps_unixTimestampMillis sm) / 1000
      in if gps_fix_age > LIMIT_MAX_MAP_DATA_AGE then s
         else
           (let speed_limit = (if sm_map_speedLimitValid sm then finite_positive (sm_map_speedLimit sm) else 0);
                next_speed_limit = (if sm_map_speedLimitAheadValid sm then finite_positive (sm_map_speedLimitAhead sm) else 0)
            in calculate_map_data_limits sm speed_limit next_speed_limit s))"

definition get_from_map_data :: "sl_messages \<Rightarrow> sl_resolver \<Rightarrow> sl_resolver" where
  "get_from_map_data sm s = process_map_data sm (reset_limit_sources SRC_map s)"

definition get_source_solution_according_to_policy :: "sl_resolver \<Rightarrow> sl_source" where
  "get_source_solution_according_to_policy s =
     (let sources_for_policy = policy_to_sources (rs_policy s);
          sources_with_limits = filter (\<lambda>src. rs_limit_solutions s src > 0) sources_for_policy
      in if rs_policy s \<noteq> SLP_combined then (case sources_with_limits of [] \<Rightarrow> SRC_none | src # _ \<Rightarrow> src)
         else if sources_with_limits \<noteq> [] then arg_min_list (rs_limit_solutions s) sources_with_limits
         else SRC_none)"

definition resolve_limit_sources :: "sl_messages \<Rightarrow> sl_resolver \<Rightarrow> sl_resolver \<times> real \<times> real \<times> sl_source" where
  "resolve_limit_sources sm s =
     (let s = get_from_map_data sm (get_from_car_state sm s);
          src = get_source_solution_according_to_policy s
      in (s, if src \<noteq> SRC_none then rs_limit_solutions s src else 0,
          if src \<noteq> SRC_none then rs_distance_solutions s src else 0, src))"

definition rs_update :: "real \<Rightarrow> sl_messages \<Rightarrow> sl_params \<Rightarrow> sl_resolver \<Rightarrow> sl_params \<times> sl_resolver" where
  "rs_update v_ego sm params s =
     (let (params, s) = rs_update_params params (s\<lparr>rs_v_ego := v_ego\<rparr>);
          (s, speed_limit, distance, src) = resolve_limit_sources sm s;
          s = s\<lparr>rs_speed_limit := speed_limit, rs_distance := distance, rs_source := src\<rparr>;
          s = s\<lparr>rs_speed_limit_offset := get_speed_limit_offset s\<rparr>;
          s = update_speed_limit_states s
      in (params, s\<lparr>rs_frame := rs_frame s + 1\<rparr>))"

subsection \<open>SpeedLimitAssist\<close>

record sla =
  sa_frame :: int
  sa_long_engaged_timer :: int
  sa_pre_active_timer :: int
  sa_is_metric :: bool
  sa_enabled :: bool
  sa_long_enabled :: bool
  sa_long_enabled_prev :: bool
  sa_is_enabled :: bool
  sa_is_active :: bool
  sa_output_v_target :: real
  sa_output_a_target :: real
  sa_v_ego :: real
  sa_a_ego :: real
  sa_v_offset :: real
  sa_target_set_speed_conv :: int
  sa_prev_target_set_speed_conv :: int
  sa_v_cruise_cluster :: real
  sa_v_cruise_cluster_prev :: real
  sa_v_cruise_cluster_conv :: int
  sa_prev_v_cruise_cluster_conv :: int
  sa_has_speed_limit :: bool
  sa_speed_limit :: real
  sa_speed_limit_final_last :: real
  sa_speed_limit_prev :: real
  sa_speed_limit_final_last_conv :: int
  sa_prev_speed_limit_final_last_conv :: int
  sa_distance :: real
  sa_state :: sla_state
  sa_state_prev :: sla_state
  sa_pcm_op_long :: bool
  sa_plus_hold :: real
  sa_minus_hold :: real
  sa_last_carstate_ts :: real

definition sla_read_params :: "car_params \<Rightarrow> car_params_sp \<Rightarrow> sl_params \<Rightarrow> sla \<Rightarrow> sl_params \<times> sla" where
  "sla_read_params CP CP_SP params s =
     (let s = s\<lparr>sa_is_metric := slp_IsMetric params\<rparr>;
          (params, _) = set_speed_limit_assist_availability CP CP_SP params
      in (params, s\<lparr>sa_enabled := slp_SpeedLimitMode params = SL_MODE_ASSIST\<rparr>))"

definition sla_init :: "car_params \<Rightarrow> car_params_sp \<Rightarrow> sl_params \<Rightarrow> sl_params \<times> sla" where
  "sla_init CP CP_SP params = sla_read_params CP CP_SP params
     \<lparr>sa_frame = -1, sa_long_engaged_timer = 0, sa_pre_active_timer = 0, sa_is_metric = False, sa_enabled = False,
      sa_long_enabled = False, sa_long_enabled_prev = False, sa_is_enabled = False, sa_is_active = False,
      sa_output_v_target = V_CRUISE_UNSET, sa_output_a_target = 0, sa_v_ego = 0, sa_a_ego = 0, sa_v_offset = 0,
      sa_target_set_speed_conv = 0, sa_prev_target_set_speed_conv = 0, sa_v_cruise_cluster = 0,
      sa_v_cruise_cluster_prev = 0, sa_v_cruise_cluster_conv = 0, sa_prev_v_cruise_cluster_conv = 0,
      sa_has_speed_limit = False, sa_speed_limit = 0, sa_speed_limit_final_last = 0, sa_speed_limit_prev = 0,
      sa_speed_limit_final_last_conv = 0, sa_prev_speed_limit_final_last_conv = 0, sa_distance = 0,
      sa_state = SLA_disabled, sa_state_prev = SLA_disabled,
      sa_pcm_op_long = (cp_openpilotLongitudinalControl CP \<and> cp_pcmCruise CP),
      sa_plus_hold = 0, sa_minus_hold = 0, sa_last_carstate_ts = 0\<rparr>"

definition speed_limit_changed :: "sla \<Rightarrow> bool" where
  "speed_limit_changed s \<longleftrightarrow> sa_has_speed_limit s \<and> sa_speed_limit s \<noteq> sa_speed_limit_prev s"

definition v_cruise_cluster_changed :: "sla \<Rightarrow> bool" where
  "v_cruise_cluster_changed s \<longleftrightarrow> sa_v_cruise_cluster_conv s \<noteq> sa_prev_v_cruise_cluster_conv s"

definition target_set_speed_confirmed :: "sla \<Rightarrow> bool" where
  "target_set_speed_confirmed s \<longleftrightarrow> sa_v_cruise_cluster_conv s = sa_target_set_speed_conv s"

definition cluster_below_confirm_speed_threshold :: "sla \<Rightarrow> bool" where
  "cluster_below_confirm_speed_threshold s \<longleftrightarrow> sa_v_cruise_cluster_conv s < CONFIRM_SPEED_THRESHOLD (sa_is_metric s)"

definition sla_active_event :: "sla \<Rightarrow> int" where
  "sla_active_event s = (if cluster_below_confirm_speed_threshold s then SP_speedLimitChanged else SP_speedLimitActive)"

definition get_v_target_from_control :: "sla \<Rightarrow> real" where
  "get_v_target_from_control s =
     (if sa_has_speed_limit s \<and> sa_pcm_op_long s \<and> sa_is_enabled s then sa_speed_limit_final_last s
      else if sa_has_speed_limit s \<and> \<not> sa_pcm_op_long s \<and> sa_is_active s then sa_speed_limit_final_last s
      else V_CRUISE_UNSET)"

definition get_a_target_from_control :: "sla \<Rightarrow> real" where
  "get_a_target_from_control s = sa_a_ego s"

definition sla_update_params :: "car_params \<Rightarrow> car_params_sp \<Rightarrow> sl_params \<Rightarrow> sla \<Rightarrow> sl_params \<times> sla" where
  "sla_update_params CP CP_SP params s =
     (if sa_frame s mod py_int (PARAMS_UPDATE_PERIOD / DT_MDL) = 0 then sla_read_params CP CP_SP params s
      else (params, s))"

definition sla_update_car_state :: "real \<Rightarrow> car_state \<Rightarrow> sla \<Rightarrow> sla" where
  "sla_update_car_state now CS s =
     fold (\<lambda>b s. if \<not> be_pressed b then
                   (if be_type b \<in> set CRUISE_BUTTONS_PLUS
                    then s\<lparr>sa_plus_hold := max (sa_plus_hold s) (now + CRUISE_BUTTON_CONFIRM_HOLD)\<rparr>
                    else if be_type b \<in> set CRUISE_BUTTONS_MINUS
                    then s\<lparr>sa_minus_hold := max (sa_minus_hold s) (now + CRUISE_BUTTON_CONFIRM_HOLD)\<rparr> else s)
                 else s)
       (cs_buttonEvents CS) (s\<lparr>sa_last_carstate_ts := now\<rparr>)"

definition get_button_release :: "real \<Rightarrow> bool \<Rightarrow> bool \<Rightarrow> sla \<Rightarrow> sla \<times> bool" where
  "get_button_release now req_plus req_minus s =
     (if req_plus \<and> now \<le> sa_plus_hold s then (s\<lparr>sa_plus_hold := 0\<rparr>, True)
      else if req_minus \<and> now \<le> sa_minus_hold s then (s\<lparr>sa_minus_hold := 0\<rparr>, True)
      else
        (let s = (if now > sa_plus_hold s then s\<lparr>sa_plus_hold := 0\<rparr> else s);
             s = (if now > sa_minus_hold s then s\<lparr>sa_minus_hold := 0\<rparr> else s)
         in (s, False)))"

definition update_calculations :: "real \<Rightarrow> sla \<Rightarrow> sla" where
  "update_calculations v_cruise_cluster s =
     (let speed_conv = (if sa_is_metric s then MS_TO_KPH else MS_TO_MPH);
          s = s\<lparr>sa_v_cruise_cluster := v_cruise_cluster, sa_v_offset := sa_speed_limit_final_last s - sa_v_ego s,
                sa_speed_limit_final_last_conv := py_round (sa_speed_limit_final_last s * speed_conv),
                sa_v_cruise_cluster_conv := py_round (v_cruise_cluster * speed_conv)\<rparr>;
          (cst_low, cst_high) = PCM_LONG_REQUIRED_MAX_SET_SPEED (sa_is_metric s);
          pcm_long_required_max =
            (if sa_has_speed_limit s \<and> sa_speed_limit_final_last_conv s < CONFIRM_SPEED_THRESHOLD (sa_is_metric s)
             then cst_low else cst_high);
          pcm_long_required_max_set_speed_conv = py_round (pcm_long_required_max * speed_conv)
      in s\<lparr>sa_target_set_speed_conv :=
             (if sa_pcm_op_long s then pcm_long_required_max_set_speed_conv else sa_speed_limit_final_last_conv s)\<rparr>)"

definition apply_confirm_speed_threshold :: "sla \<Rightarrow> bool" where
  "apply_confirm_speed_threshold s \<longleftrightarrow>
     (if cluster_below_confirm_speed_threshold s then True
      else sa_speed_limit_final_last_conv s < CONFIRM_SPEED_THRESHOLD (sa_is_metric s))"

text \<open>The time index \<open>T_IDXS[CONTROL_N]\<close> with \<open>CONTROL_N = 17\<close> of the 33 indices over ten seconds.\<close>

definition T_IDX_CONTROL_N :: real where "T_IDX_CONTROL_N = 10 * (17 / 32)\<^sup>2"

definition get_adapting_state_target_acceleration :: "sla \<Rightarrow> real" where
  "get_adapting_state_target_acceleration s =
     (if sa_distance s > 0 then ((sa_speed_limit_final_last s)\<^sup>2 - (sa_v_ego s)\<^sup>2) / (2 * sa_distance s)
      else sa_v_offset s / T_IDX_CONTROL_N)"

definition get_active_state_target_acceleration :: "sla \<Rightarrow> real" where
  "get_active_state_target_acceleration s = sa_v_offset s / T_IDX_CONTROL_N"

definition acceleration_solutions :: "sla_state \<Rightarrow> sla \<Rightarrow> real" where
  "acceleration_solutions st s =
     (case st of SLA_adapting \<Rightarrow> get_adapting_state_target_acceleration s
      | SLA_active \<Rightarrow> get_active_state_target_acceleration s | _ \<Rightarrow> sa_a_ego s)"

definition update_confirmed_state :: "sla \<Rightarrow> sla" where
  "update_confirmed_state s =
     s\<lparr>sa_state := (if sa_has_speed_limit s then
                      (if sa_v_offset s < LIMIT_SPEED_OFFSET_TH then SLA_adapting else SLA_active)
                    else SLA_pending)\<rparr>"

definition update_non_pcm_long_confirmed_state :: "real \<Rightarrow> sla \<Rightarrow> sla \<times> bool" where
  "update_non_pcm_long_confirmed_state now s =
     (if target_set_speed_confirmed s then (s, True)
      else if sa_state s \<noteq> SLA_preActive then (s, False)
      else (let (req_plus, req_minus) = compare_cluster_target (sa_v_cruise_cluster s) (sa_speed_limit_final_last s) (sa_is_metric s)
            in get_button_release now req_plus req_minus s))"

definition sla_tick :: "sla \<Rightarrow> sla" where
  "sla_tick s = s\<lparr>sa_long_engaged_timer := max 0 (sa_long_engaged_timer s - 1),
                  sa_pre_active_timer := max 0 (sa_pre_active_timer s - 1)\<rparr>"

definition sla_to_pre_active :: "sla \<Rightarrow> sla" where
  "sla_to_pre_active s = s\<lparr>sa_state := SLA_preActive,
     sa_pre_active_timer := py_int (PRE_ACTIVE_GUARD_PERIOD (sa_pcm_op_long s) / DT_MDL)\<rparr>"

definition sla_pcm_active :: "sla \<Rightarrow> sla" where
  "sla_pcm_active s =
     (if v_cruise_cluster_changed s then s\<lparr>sa_state := SLA_inactive\<rparr>
      else if speed_limit_changed s \<and> apply_confirm_speed_threshold s then sla_to_pre_active s
      else if sa_has_speed_limit s \<and> sa_v_offset s < LIMIT_SPEED_OFFSET_TH then s\<lparr>sa_state := SLA_adapting\<rparr>
      else s)"

definition sla_pcm_adapting :: "sla \<Rightarrow> sla" where
  "sla_pcm_adapting s =
     (if v_cruise_cluster_changed s then s\<lparr>sa_state := SLA_inactive\<rparr>
      else if speed_limit_changed s \<and> apply_confirm_speed_threshold s then sla_to_pre_active s
      else if sa_v_offset s \<ge> LIMIT_SPEED_OFFSET_TH then s\<lparr>sa_state := SLA_active\<rparr>
      else s)"

definition sla_pcm_disabled :: "sla \<Rightarrow> sla" where
  "sla_pcm_disabled s =
     (if sa_long_enabled s \<and> sa_enabled s then
        (if \<not> sa_long_enabled_prev s \<or> v_cruise_cluster_changed s
         then s\<lparr>sa_long_engaged_timer := py_int (DISABLED_GUARD_PERIOD / DT_MDL)\<rparr>
         else if sa_long_engaged_timer s \<le> 0 then
           (if target_set_speed_confirmed s then update_confirmed_state s
            else if sa_has_speed_limit s then sla_to_pre_active s
            else s\<lparr>sa_state := SLA_pending\<rparr>)
         else s)
      else s)"

definition sla_state_flags :: "sla \<Rightarrow> bool \<times> bool" where
  "sla_state_flags s = (sa_state s \<in> set SLA_ENABLED_STATES, sa_state s \<in> set SLA_ACTIVE_STATES)"

definition update_state_machine_pcm_op_long :: "sla \<Rightarrow> sla" where
  "update_state_machine_pcm_op_long s =
     (let s = sla_tick s
      in if sa_state s \<noteq> SLA_disabled then
           (if \<not> sa_long_enabled s \<or> \<not> sa_enabled s then s\<lparr>sa_state := SLA_disabled\<rparr>
            else case sa_state s of
                SLA_active \<Rightarrow> sla_pcm_active s
              | SLA_adapting \<Rightarrow> sla_pcm_adapting s
              | SLA_pending \<Rightarrow> (if target_set_speed_confirmed s then update_confirmed_state s
                               else if speed_limit_changed s then sla_to_pre_active s else s)
              | SLA_preActive \<Rightarrow> (if target_set_speed_confirmed s then update_confirmed_state s
                                 else if sa_pre_active_timer s \<le> 0 then s\<lparr>sa_state := SLA_inactive\<rparr> else s)
              | _ \<Rightarrow> s)
         else sla_pcm_disabled s)"

definition sla_confirm_or :: "real \<Rightarrow> (sla \<Rightarrow> sla) \<Rightarrow> sla \<Rightarrow> sla" where
  "sla_confirm_or now otherwise s =
     (let (s, confirmed) = update_non_pcm_long_confirmed_state now s
      in if confirmed then s\<lparr>sa_state := SLA_active\<rparr> else otherwise s)"

definition update_state_machine_non_pcm_long :: "real \<Rightarrow> sla \<Rightarrow> sla" where
  "update_state_machine_non_pcm_long now s =
     (let s = sla_tick s
      in if sa_state s \<noteq> SLA_disabled then
           (if \<not> sa_long_enabled s \<or> \<not> sa_enabled s then s\<lparr>sa_state := SLA_disabled\<rparr>
            else case sa_state s of
                SLA_active \<Rightarrow> (if v_cruise_cluster_changed s then s\<lparr>sa_state := SLA_inactive\<rparr>
                              else if speed_limit_changed s \<and> apply_confirm_speed_threshold s then sla_to_pre_active s
                              else s)
              | SLA_preActive \<Rightarrow> sla_confirm_or now
                  (\<lambda>s. if sa_pre_active_timer s \<le> 0 then s\<lparr>sa_state := SLA_inactive\<rparr> else s) s
              | SLA_inactive \<Rightarrow> (if speed_limit_changed s then sla_to_pre_active s
                                else sla_confirm_or now (\<lambda>s. s) s)
              | _ \<Rightarrow> s)
         else if sa_long_enabled s \<and> sa_enabled s then
           (if \<not> sa_long_enabled_prev s \<or> v_cruise_cluster_changed s
            then s\<lparr>sa_long_engaged_timer := py_int (DISABLED_GUARD_PERIOD / DT_MDL)\<rparr>
            else if sa_long_engaged_timer s \<le> 0 then
              sla_confirm_or now (\<lambda>s. if sa_has_speed_limit s then sla_to_pre_active s else s\<lparr>sa_state := SLA_inactive\<rparr>) s
            else s)
         else s)"

definition sla_update_events :: "sla \<Rightarrow> int list" where
  "sla_update_events s =
     (if sa_state s = SLA_preActive then [SP_speedLimitPreActive] else []) @
     (if sa_state s = SLA_pending \<and> sa_state_prev s \<noteq> SLA_pending then [SP_speedLimitPending] else []) @
     (if sa_is_active s then
        (if sa_state_prev s \<notin> set SLA_ACTIVE_STATES then [sla_active_event s]
         else if sa_speed_limit s \<noteq> sa_speed_limit_prev s then
           (if sa_speed_limit_prev s \<le> 0 then [sla_active_event s]
            else if sa_speed_limit_prev s > 0 \<and> sa_speed_limit s > 0 then [sla_active_event s] else [])
         else [])
      else [])"

text \<open>The arguments of one call of \<open>update\<close>, with the reading of \<open>time.monotonic()\<close> in it.\<close>

record sla_input =
  si_long_enabled :: bool
  si_v_ego :: real
  si_a_ego :: real
  si_v_cruise_cluster :: real
  si_speed_limit :: real
  si_speed_limit_final_last :: real
  si_has_speed_limit :: bool
  si_distance :: real
  si_now :: real

definition sla_step :: "sla_input \<Rightarrow> sla \<Rightarrow> sla" where
  "sla_step i s =
     (let s = update_calculations (si_v_cruise_cluster i) s;
          s = s\<lparr>sa_state_prev := sa_state s\<rparr>;
          s = (if sa_pcm_op_long s then update_state_machine_pcm_op_long s else update_state_machine_non_pcm_long (si_now i) s);
          (e, a) = sla_state_flags s
      in s\<lparr>sa_is_enabled := e, sa_is_active := a\<rparr>)"

definition sla_finish :: "sla \<Rightarrow> sla" where
  "sla_finish s =
     (let s = s\<lparr>sa_speed_limit_prev := sa_speed_limit s, sa_v_cruise_cluster_prev := sa_v_cruise_cluster s,
                sa_long_enabled_prev := sa_long_enabled s, sa_prev_target_set_speed_conv := sa_target_set_speed_conv s,
                sa_prev_v_cruise_cluster_conv := sa_v_cruise_cluster_conv s,
                sa_prev_speed_limit_final_last_conv := sa_speed_limit_final_last_conv s\<rparr>
      in s\<lparr>sa_output_v_target := get_v_target_from_control s, sa_output_a_target := get_a_target_from_control s,
           sa_frame := sa_frame s + 1\<rparr>)"

definition sla_update ::
  "bool \<Rightarrow> car_params \<Rightarrow> car_params_sp \<Rightarrow> sla_input \<Rightarrow> sl_params \<Rightarrow> events_base \<Rightarrow> sla \<Rightarrow> sl_params \<times> events_base \<times> sla" where
  "sla_update mici CP CP_SP i params events_sp s =
     (let s = s\<lparr>sa_long_enabled := si_long_enabled i, sa_v_ego := si_v_ego i, sa_a_ego := si_a_ego i,
                sa_has_speed_limit := si_has_speed_limit i, sa_speed_limit := si_speed_limit i,
                sa_speed_limit_final_last := si_speed_limit_final_last i, sa_distance := si_distance i\<rparr>;
          (params, s) = sla_update_params CP CP_SP params s;
          s = sla_step i s;
          events_sp = fold (\<lambda>e es. ev_add (EVENTS_SP mici) False es e) (sla_update_events s) events_sp
      in (params, events_sp, sla_finish s))"

subsection \<open>Activation needs a confirmation\<close>

named_theorems sla_defs \<open>predicates of the assist that read its fields\<close>

declare speed_limit_changed_def [sla_defs] v_cruise_cluster_changed_def [sla_defs] target_set_speed_confirmed_def [sla_defs]
  cluster_below_confirm_speed_threshold_def [sla_defs] apply_confirm_speed_threshold_def [sla_defs]

lemma sla_tick_simps [simp]:
  "sa_state (sla_tick s) = sa_state s" "sa_pre_active_timer (sla_tick s) = max 0 (sa_pre_active_timer s - 1)"
  "speed_limit_changed (sla_tick s) = speed_limit_changed s" "v_cruise_cluster_changed (sla_tick s) = v_cruise_cluster_changed s"
  "target_set_speed_confirmed (sla_tick s) = target_set_speed_confirmed s"
  "apply_confirm_speed_threshold (sla_tick s) = apply_confirm_speed_threshold s"
  "sa_long_enabled (sla_tick s) = sa_long_enabled s" "sa_enabled (sla_tick s) = sa_enabled s"
  "sa_plus_hold (sla_tick s) = sa_plus_hold s" "sa_minus_hold (sla_tick s) = sa_minus_hold s"
  "sa_v_cruise_cluster (sla_tick s) = sa_v_cruise_cluster s" "sa_speed_limit_final_last (sla_tick s) = sa_speed_limit_final_last s"
  "sa_is_metric (sla_tick s) = sa_is_metric s" "sa_has_speed_limit (sla_tick s) = sa_has_speed_limit s"
  "sa_long_enabled_prev (sla_tick s) = sa_long_enabled_prev s" "sa_pcm_op_long (sla_tick s) = sa_pcm_op_long s"
  by (simp_all add: sla_tick_def sla_defs)

lemma active_states_simps [simp]:
  "SLA_active \<in> set SLA_ACTIVE_STATES" "SLA_adapting \<in> set SLA_ACTIVE_STATES" "SLA_disabled \<notin> set SLA_ACTIVE_STATES"
  "SLA_inactive \<notin> set SLA_ACTIVE_STATES" "SLA_preActive \<notin> set SLA_ACTIVE_STATES" "SLA_pending \<notin> set SLA_ACTIVE_STATES"
  by (simp_all add: SLA_ACTIVE_STATES_def)

lemma to_pre_active_state [simp]: "sa_state (sla_to_pre_active s) = SLA_preActive"
  by (simp add: sla_to_pre_active_def)

lemma pcm_activation:
  assumes "sa_state (update_state_machine_pcm_op_long s) \<in> set SLA_ACTIVE_STATES"
  shows "sa_long_enabled s \<and> sa_enabled s \<and>
    (if sa_state s \<in> set SLA_ACTIVE_STATES then \<not> (speed_limit_changed s \<and> apply_confirm_speed_threshold s)
     else target_set_speed_confirmed s)"
  using assms
  by (cases "sa_state s") (auto simp: update_state_machine_pcm_op_long_def sla_pcm_active_def sla_pcm_adapting_def
      sla_pcm_disabled_def Let_def split: if_splits)

text \<open>The button that confirms without a matching set speed: released at most half a second ago, towards the limit.\<close>

definition released_towards :: "real \<Rightarrow> sla \<Rightarrow> bool" where
  "released_towards now s \<longleftrightarrow>
     (let (req_plus, req_minus) = compare_cluster_target (sa_v_cruise_cluster s) (sa_speed_limit_final_last s) (sa_is_metric s)
      in req_plus \<and> now \<le> sa_plus_hold s \<or> req_minus \<and> now \<le> sa_minus_hold s)"

lemma non_pcm_confirmed:
  "snd (update_non_pcm_long_confirmed_state now s) \<longleftrightarrow>
     target_set_speed_confirmed s \<or> sa_state s = SLA_preActive \<and> released_towards now s"
  by (simp add: update_non_pcm_long_confirmed_state_def get_button_release_def released_towards_def Let_def case_prod_beta)

lemma non_pcm_confirmed_state [simp]: "sa_state (fst (update_non_pcm_long_confirmed_state now s)) = sa_state s"
  by (simp add: update_non_pcm_long_confirmed_state_def get_button_release_def Let_def case_prod_beta)

lemma confirm_or_active:
  assumes "sa_state (sla_confirm_or now g s) \<in> set SLA_ACTIVE_STATES" "\<And>t. sa_state (g t) \<in> set SLA_ACTIVE_STATES \<Longrightarrow> sa_state t \<in> set SLA_ACTIVE_STATES"
    and "sa_state s \<notin> set SLA_ACTIVE_STATES"
  shows "target_set_speed_confirmed s \<or> released_towards now s"
  using assms(1,3) assms(2) [of "fst (update_non_pcm_long_confirmed_state now s)"] non_pcm_confirmed [of now s]
  by (auto simp: sla_confirm_or_def Let_def case_prod_beta split: if_splits)

lemma released_towards_tick [simp]: "released_towards now (sla_tick s) = released_towards now s"
  by (simp add: released_towards_def)

lemma non_pcm_activation:
  assumes "sa_state (update_state_machine_non_pcm_long now s) \<in> set SLA_ACTIVE_STATES"
  shows "sa_long_enabled s \<and> sa_enabled s \<and>
    (if sa_state s \<in> set SLA_ACTIVE_STATES then sa_state s = SLA_active \<longrightarrow> \<not> (speed_limit_changed s \<and> apply_confirm_speed_threshold s)
     else target_set_speed_confirmed s \<or> released_towards now s)"
proof (cases "sa_state s")
  case SLA_preActive
  let ?g = "\<lambda>s. if sa_pre_active_timer s \<le> 0 then s\<lparr>sa_state := SLA_inactive\<rparr> else s"
  from assms SLA_preActive have on: "sa_long_enabled s \<and> sa_enabled s"
    and st: "sa_state (sla_confirm_or now ?g (sla_tick s)) \<in> set SLA_ACTIVE_STATES"
    by (simp_all add: update_state_machine_non_pcm_long_def Let_def split: if_splits)
  have "target_set_speed_confirmed (sla_tick s) \<or> released_towards now (sla_tick s)"
    by (rule confirm_or_active [OF st]) (simp_all add: SLA_preActive split: if_splits)
  with on show ?thesis by (simp add: SLA_preActive)
next
  case SLA_inactive
  from assms SLA_inactive have on: "sa_long_enabled s \<and> sa_enabled s"
    and st: "sa_state (sla_confirm_or now (\<lambda>s. s) (sla_tick s)) \<in> set SLA_ACTIVE_STATES"
    by (simp_all add: update_state_machine_non_pcm_long_def Let_def split: if_splits)
  have "target_set_speed_confirmed (sla_tick s) \<or> released_towards now (sla_tick s)"
    by (rule confirm_or_active [OF st]) (simp_all add: SLA_inactive)
  with on show ?thesis by (simp add: SLA_inactive)
next
  case SLA_disabled
  let ?g = "\<lambda>s. if sa_has_speed_limit s then sla_to_pre_active s else s\<lparr>sa_state := SLA_inactive\<rparr>"
  from assms SLA_disabled have on: "sa_long_enabled s \<and> sa_enabled s"
    and st: "sa_state (sla_confirm_or now ?g (sla_tick s)) \<in> set SLA_ACTIVE_STATES"
    by (simp_all add: update_state_machine_non_pcm_long_def Let_def split: if_splits)
  have "target_set_speed_confirmed (sla_tick s) \<or> released_towards now (sla_tick s)"
    by (rule confirm_or_active [OF st]) (simp_all add: SLA_disabled split: if_splits)
  with on show ?thesis by (simp add: SLA_disabled)
qed (use assms in \<open>auto simp: update_state_machine_non_pcm_long_def Let_def split: if_splits\<close>)

end
