(* ===== verification/Speed_Limit_Runs.thy ===== *)
theory Speed_Limit_Runs
  imports Speed_Limit
begin

text \<open>
  Runs of the speed limit assist and facts about the resolver. A frame of the planner feeds the
  assist the car state and then calls its update. The lemmas show that the assist governs the
  speed only after a confirmation by the driver, that the question to the driver times out, and
  which limit the resolver chooses.
\<close>

subsection \<open>One frame of the assist\<close>

record sla_frame_in =
  sf_time :: real  \<comment> \<open>\<open>time.monotonic()\<close> when the car state is read\<close>
  sf_CS :: car_state
  sf_params :: sl_params
  sf_in :: sla_input

definition sla_frame :: "car_params \<Rightarrow> car_params_sp \<Rightarrow> sla \<Rightarrow> sla_frame_in \<Rightarrow> sla" where
  "sla_frame CP CP_SP s f =
     snd (snd (sla_update False CP CP_SP (sf_in f) (sf_params f) (events_init [])
       (sla_update_car_state (sf_time f) (sf_CS f) s)))"

text \<open>The state in which the state machine of the frame starts.\<close>

definition sla_prepared :: "car_params \<Rightarrow> car_params_sp \<Rightarrow> sla \<Rightarrow> sla_frame_in \<Rightarrow> sla" where
  "sla_prepared CP CP_SP s f =
     (let i = sf_in f; s = sla_update_car_state (sf_time f) (sf_CS f) s;
          s = s\<lparr>sa_long_enabled := si_long_enabled i, sa_v_ego := si_v_ego i, sa_a_ego := si_a_ego i,
                sa_has_speed_limit := si_has_speed_limit i, sa_speed_limit := si_speed_limit i,
                sa_speed_limit_final_last := si_speed_limit_final_last i, sa_distance := si_distance i\<rparr>;
          s = update_calculations (si_v_cruise_cluster i) (snd (sla_update_params CP CP_SP (sf_params f) s))
      in s\<lparr>sa_state_prev := sa_state s\<rparr>)"

definition sla_machine :: "real \<Rightarrow> sla \<Rightarrow> sla" where
  "sla_machine now s =
     (if sa_pcm_op_long s then update_state_machine_pcm_op_long s else update_state_machine_non_pcm_long now s)"

lemma sla_frame_eq:
  "sla_frame CP CP_SP s f =
     (let t = sla_machine (si_now (sf_in f)) (sla_prepared CP CP_SP s f)
      in sla_finish (t\<lparr>sa_is_enabled := fst (sla_state_flags t), sa_is_active := snd (sla_state_flags t)\<rparr>))"
  by (simp add: sla_frame_def sla_update_def sla_step_def sla_prepared_def sla_machine_def Let_def case_prod_beta)

subsection \<open>What a frame keeps\<close>

text \<open>The fields that the state machine reads and never writes.\<close>

definition sla_view :: "sla \<Rightarrow> (int \<times> int \<times> int) \<times> (real \<times> real) \<times> bool \<times> bool \<times> bool" where
  "sla_view s = ((sa_v_cruise_cluster_conv s, sa_target_set_speed_conv s, sa_speed_limit_final_last_conv s),
     (sa_speed_limit s, sa_speed_limit_final_last s), sa_is_metric s, sa_has_speed_limit s, sa_pcm_op_long s)"

lemma view_simps [simp]:
  "sla_view (s\<lparr>sa_state := x\<rparr>) = sla_view s" "sla_view (s\<lparr>sa_long_engaged_timer := n\<rparr>) = sla_view s"
  "sla_view (s\<lparr>sa_plus_hold := r\<rparr>) = sla_view s" "sla_view (s\<lparr>sa_minus_hold := r\<rparr>) = sla_view s"
  "sla_view (sla_tick s) = sla_view s" "sla_view (sla_to_pre_active s) = sla_view s"
  "sla_view (update_confirmed_state s) = sla_view s" "sla_view (sla_finish s) = sla_view s"
  "sla_view (s\<lparr>sa_is_enabled := e, sa_is_active := a\<rparr>) = sla_view s"
  by (simp_all add: sla_view_def sla_tick_def sla_to_pre_active_def update_confirmed_state_def sla_finish_def Let_def)

lemma view_confirmed [simp]: "sla_view (fst (update_non_pcm_long_confirmed_state now s)) = sla_view s"
  by (simp add: update_non_pcm_long_confirmed_state_def get_button_release_def Let_def case_prod_beta)

lemma view_confirm_or: "(\<And>t. sla_view (g t) = sla_view t) \<Longrightarrow> sla_view (sla_confirm_or now g s) = sla_view s"
  by (simp add: sla_confirm_or_def Let_def case_prod_beta)

lemma view_machine [simp]: "sla_view (sla_machine now s) = sla_view s"
  by (cases "sa_state s") (simp_all add: sla_machine_def update_state_machine_pcm_op_long_def sla_pcm_active_def
      sla_pcm_adapting_def sla_pcm_disabled_def update_state_machine_non_pcm_long_def view_confirm_or Let_def)

lemma view_frame: "sla_view (sla_frame CP CP_SP s f) = sla_view (sla_prepared CP CP_SP s f)"
  by (simp add: sla_frame_eq Let_def)

lemma hold_confirm_or:
  "(\<And>t. sa_plus_hold (g t) = sa_plus_hold t) \<Longrightarrow> sa_plus_hold (sla_confirm_or now g s) \<in> {0, sa_plus_hold s}"
  "(\<And>t. sa_minus_hold (g t) = sa_minus_hold t) \<Longrightarrow> sa_minus_hold (sla_confirm_or now g s) \<in> {0, sa_minus_hold s}"
  by (simp_all add: sla_confirm_or_def update_non_pcm_long_confirmed_state_def get_button_release_def Let_def case_prod_beta)

lemma hold_simps [simp]:
  "sa_plus_hold (sla_to_pre_active s) = sa_plus_hold s" "sa_minus_hold (sla_to_pre_active s) = sa_minus_hold s"
  "sa_plus_hold (update_confirmed_state s) = sa_plus_hold s" "sa_minus_hold (update_confirmed_state s) = sa_minus_hold s"
  by (simp_all add: sla_to_pre_active_def update_confirmed_state_def)

lemma hold_machine:
  "sa_plus_hold (sla_machine now s) \<in> {0, sa_plus_hold s}" "sa_minus_hold (sla_machine now s) \<in> {0, sa_minus_hold s}"
  using hold_confirm_or [of _ now "sla_tick s"]
  by (cases "sa_state s"; simp add: sla_machine_def update_state_machine_pcm_op_long_def sla_pcm_active_def
      sla_pcm_adapting_def sla_pcm_disabled_def update_state_machine_non_pcm_long_def Let_def; simp)+

subsection \<open>Where holds come from\<close>

definition button_released :: "button_type list \<Rightarrow> car_state \<Rightarrow> bool" where
  "button_released bs CS \<longleftrightarrow> list_ex (\<lambda>b. \<not> be_pressed b \<and> be_type b \<in> set bs) (cs_buttonEvents CS)"

lemma update_car_state_holds:
  fixes now :: real and s :: sla
  defines "s1 \<equiv> \<lambda>CS s. sla_update_car_state now CS s"
  shows "sa_plus_hold (s1 CS s) = sa_plus_hold s \<or> button_released CRUISE_BUTTONS_PLUS CS \<and> sa_plus_hold (s1 CS s) = now + 1 / 2"
    and "sa_minus_hold (s1 CS s) = sa_minus_hold s \<or> button_released CRUISE_BUTTONS_MINUS CS \<and> sa_minus_hold (s1 CS s) = now + 1 / 2"
proof -
  let ?f = "\<lambda>b s. if \<not> be_pressed b then
      (if be_type b \<in> set CRUISE_BUTTONS_PLUS then s\<lparr>sa_plus_hold := max (sa_plus_hold s) (now + CRUISE_BUTTON_CONFIRM_HOLD)\<rparr>
       else if be_type b \<in> set CRUISE_BUTTONS_MINUS then s\<lparr>sa_minus_hold := max (sa_minus_hold s) (now + CRUISE_BUTTON_CONFIRM_HOLD)\<rparr> else s)
      else s"
  have "(sa_plus_hold (fold ?f bs s) = sa_plus_hold s \<or>
      list_ex (\<lambda>b. \<not> be_pressed b \<and> be_type b \<in> set CRUISE_BUTTONS_PLUS) bs \<and> sa_plus_hold (fold ?f bs s) = now + 1 / 2) \<and>
    (sa_minus_hold (fold ?f bs s) = sa_minus_hold s \<or>
      list_ex (\<lambda>b. \<not> be_pressed b \<and> be_type b \<in> set CRUISE_BUTTONS_MINUS) bs \<and> sa_minus_hold (fold ?f bs s) = now + 1 / 2)" for bs s
  proof (induction bs arbitrary: s)
    case (Cons b bs)
    show ?case using Cons.IH [of "?f b s"]
      by (auto simp: CRUISE_BUTTON_CONFIRM_HOLD_def max_def split: if_splits)
  qed simp
  from this [of "cs_buttonEvents CS" "s\<lparr>sa_last_carstate_ts := now\<rparr>"]
  show "sa_plus_hold (s1 CS s) = sa_plus_hold s \<or> button_released CRUISE_BUTTONS_PLUS CS \<and> sa_plus_hold (s1 CS s) = now + 1 / 2"
    and "sa_minus_hold (s1 CS s) = sa_minus_hold s \<or> button_released CRUISE_BUTTONS_MINUS CS \<and> sa_minus_hold (s1 CS s) = now + 1 / 2"
    by (simp_all add: s1_def sla_update_car_state_def button_released_def)
qed

lemma update_car_state_keeps [simp]:
  fixes s :: sla
  shows "sa_state (sla_update_car_state now CS s) = sa_state s" "sa_pcm_op_long (sla_update_car_state now CS s) = sa_pcm_op_long s"
    "sa_speed_limit_prev (sla_update_car_state now CS s) = sa_speed_limit_prev s"
    "sa_pre_active_timer (sla_update_car_state now CS s) = sa_pre_active_timer s"
proof -
  have inv: "P (fold f bs s)" if "P s" "\<And>b s. P s \<Longrightarrow> P (f b s)" for P f bs and s :: sla
    using that by (induction bs arbitrary: s) auto
  show "sa_state (sla_update_car_state now CS s) = sa_state s"
    unfolding sla_update_car_state_def by (rule inv) auto
  show "sa_pcm_op_long (sla_update_car_state now CS s) = sa_pcm_op_long s"
    unfolding sla_update_car_state_def by (rule inv) auto
  show "sa_speed_limit_prev (sla_update_car_state now CS s) = sa_speed_limit_prev s"
    unfolding sla_update_car_state_def by (rule inv) auto
  show "sa_pre_active_timer (sla_update_car_state now CS s) = sa_pre_active_timer s"
    unfolding sla_update_car_state_def by (rule inv) auto
qed

lemma prepared_simps [simp]:
  "sa_state (sla_prepared CP CP_SP s f) = sa_state s" "sa_pcm_op_long (sla_prepared CP CP_SP s f) = sa_pcm_op_long s"
  "sa_speed_limit_prev (sla_prepared CP CP_SP s f) = sa_speed_limit_prev s"
  "sa_pre_active_timer (sla_prepared CP CP_SP s f) = sa_pre_active_timer s"
  "sa_has_speed_limit (sla_prepared CP CP_SP s f) = si_has_speed_limit (sf_in f)"
  "sa_speed_limit (sla_prepared CP CP_SP s f) = si_speed_limit (sf_in f)"
  "sa_long_enabled (sla_prepared CP CP_SP s f) = si_long_enabled (sf_in f)"
  "sa_plus_hold (sla_prepared CP CP_SP s f) = sa_plus_hold (sla_update_car_state (sf_time f) (sf_CS f) s)"
  "sa_minus_hold (sla_prepared CP CP_SP s f) = sa_minus_hold (sla_update_car_state (sf_time f) (sf_CS f) s)"
  by (simp_all add: sla_prepared_def update_calculations_def sla_update_params_def sla_read_params_def Let_def case_prod_beta)

lemma prepared_compare:
  "compare_cluster_target (sa_v_cruise_cluster t) (sa_speed_limit_final_last t) (sa_is_metric t) =
     (sa_v_cruise_cluster_conv t < sa_speed_limit_final_last_conv t, sa_v_cruise_cluster_conv t > sa_speed_limit_final_last_conv t)"
  if "t = sla_prepared CP CP_SP s f"
  unfolding that by (simp add: sla_prepared_def update_calculations_def compare_cluster_target_def Let_def case_prod_beta)

lemma frame_simps:
  "sa_state (sla_frame CP CP_SP s f) = sa_state (sla_machine (si_now (sf_in f)) (sla_prepared CP CP_SP s f))"
  "sa_is_active (sla_frame CP CP_SP s f) \<longleftrightarrow> sa_state (sla_frame CP CP_SP s f) \<in> set SLA_ACTIVE_STATES"
  "sa_is_enabled (sla_frame CP CP_SP s f) \<longleftrightarrow> sa_state (sla_frame CP CP_SP s f) \<in> set SLA_ENABLED_STATES"
  "sa_speed_limit_prev (sla_frame CP CP_SP s f) = sa_speed_limit (sla_frame CP CP_SP s f)"
  "sa_plus_hold (sla_frame CP CP_SP s f) = sa_plus_hold (sla_machine (si_now (sf_in f)) (sla_prepared CP CP_SP s f))"
  "sa_minus_hold (sla_frame CP CP_SP s f) = sa_minus_hold (sla_machine (si_now (sf_in f)) (sla_prepared CP CP_SP s f))"
  "sa_pre_active_timer (sla_frame CP CP_SP s f) = sa_pre_active_timer (sla_machine (si_now (sf_in f)) (sla_prepared CP CP_SP s f))"
  by (simp_all add: sla_frame_eq Let_def sla_finish_def sla_state_flags_def)

lemma frame_view_simps:
  fixes s :: sla and CP CP_SP f
  defines "t \<equiv> sla_prepared CP CP_SP s f" and "s' \<equiv> sla_frame CP CP_SP s f"
  shows "sa_v_cruise_cluster_conv s' = sa_v_cruise_cluster_conv t" "sa_target_set_speed_conv s' = sa_target_set_speed_conv t"
    "sa_speed_limit_final_last_conv s' = sa_speed_limit_final_last_conv t" "sa_speed_limit s' = si_speed_limit (sf_in f)"
    "sa_is_metric s' = sa_is_metric t" "sa_has_speed_limit s' = si_has_speed_limit (sf_in f)" "sa_pcm_op_long s' = sa_pcm_op_long s"
  using view_frame [of CP CP_SP s f] by (simp_all add: s'_def t_def sla_view_def)

subsection \<open>Activation in a run\<close>

text \<open>
  The driver has confirmed the limit: the set speed shown is the one required, or (without a
  cruise control of the car's own) a button towards the limit was released within the last half second.
\<close>

definition sla_confirmed :: "sla_frame_in list \<Rightarrow> real \<Rightarrow> sla \<Rightarrow> bool" where
  "sla_confirmed fs now s \<longleftrightarrow>
     sa_v_cruise_cluster_conv s = sa_target_set_speed_conv s \<or>
     \<not> sa_pcm_op_long s \<and>
     (sa_v_cruise_cluster_conv s < sa_speed_limit_final_last_conv s \<and>
        list_ex (\<lambda>g. button_released CRUISE_BUTTONS_PLUS (sf_CS g) \<and> now \<le> sf_time g + 1 / 2) fs \<or>
      sa_v_cruise_cluster_conv s > sa_speed_limit_final_last_conv s \<and>
        list_ex (\<lambda>g. button_released CRUISE_BUTTONS_MINUS (sf_CS g) \<and> now \<le> sf_time g + 1 / 2) fs)"

text \<open>
  A change of the limit that an active assist follows by itself: set speed and new limit are at or
  above the confirmation threshold of 80 km/h or 50 mph.
\<close>

definition sla_keeps :: "sla \<Rightarrow> sla \<Rightarrow> bool" where
  "sla_keeps s s' \<longleftrightarrow>
     sa_has_speed_limit s' \<and> sa_speed_limit s' \<noteq> sa_speed_limit s \<longrightarrow>
     CONFIRM_SPEED_THRESHOLD (sa_is_metric s') \<le> sa_v_cruise_cluster_conv s' \<and>
     CONFIRM_SPEED_THRESHOLD (sa_is_metric s') \<le> sa_speed_limit_final_last_conv s'"

definition sla_inv :: "sla_frame_in list \<Rightarrow> sla \<Rightarrow> bool" where
  "sla_inv fs s \<longleftrightarrow>
     (sa_is_active s \<longleftrightarrow> sa_state s \<in> set SLA_ACTIVE_STATES) \<and> sa_speed_limit_prev s = sa_speed_limit s \<and>
     (sa_pcm_op_long s \<or> sa_state s \<notin> {SLA_adapting, SLA_pending}) \<and>
     (sa_plus_hold s = 0 \<or> list_ex (\<lambda>g. button_released CRUISE_BUTTONS_PLUS (sf_CS g) \<and> sa_plus_hold s = sf_time g + 1 / 2) fs) \<and>
     (sa_minus_hold s = 0 \<or> list_ex (\<lambda>g. button_released CRUISE_BUTTONS_MINUS (sf_CS g) \<and> sa_minus_hold s = sf_time g + 1 / 2) fs)"

lemma non_pcm_states:
  assumes "sa_state s \<notin> {SLA_adapting, SLA_pending}"
  shows "sa_state (update_state_machine_non_pcm_long now s) \<notin> {SLA_adapting, SLA_pending}"
  using assms
  by (cases "sa_state s") (simp_all add: update_state_machine_non_pcm_long_def sla_confirm_or_def Let_def case_prod_beta)

lemma sla_inv_init: "sla_inv [] (snd (sla_init CP CP_SP p))"
  by (simp add: sla_inv_def sla_init_def sla_read_params_def Let_def case_prod_beta)

lemma sla_frame_inv:
  assumes "sla_inv fs s"
  shows "sla_inv (fs @ [f]) (sla_frame CP CP_SP s f)"
proof -
  let ?t = "sla_prepared CP CP_SP s f" and ?s' = "sla_frame CP CP_SP s f"
  have "sa_pcm_op_long ?s' \<or> sa_state ?s' \<notin> {SLA_adapting, SLA_pending}"
    using assms non_pcm_states [of ?t "si_now (sf_in f)"]
    by (cases "sa_pcm_op_long s") (simp_all add: frame_view_simps frame_simps sla_machine_def sla_inv_def)
  moreover have "sa_plus_hold ?s' = 0 \<or>
      list_ex (\<lambda>g. button_released CRUISE_BUTTONS_PLUS (sf_CS g) \<and> sa_plus_hold ?s' = sf_time g + 1 / 2) (fs @ [f])"
    using hold_machine(1) [of "si_now (sf_in f)" ?t] update_car_state_holds(1) [of "sf_time f" "sf_CS f" s] assms
    by (auto simp: frame_simps sla_inv_def list_ex_iff)
  moreover have "sa_minus_hold ?s' = 0 \<or>
      list_ex (\<lambda>g. button_released CRUISE_BUTTONS_MINUS (sf_CS g) \<and> sa_minus_hold ?s' = sf_time g + 1 / 2) (fs @ [f])"
    using hold_machine(2) [of "si_now (sf_in f)" ?t] update_car_state_holds(2) [of "sf_time f" "sf_CS f" s] assms
    by (auto simp: frame_simps sla_inv_def list_ex_iff)
  ultimately show ?thesis unfolding sla_inv_def using frame_simps(2,4) by blast
qed

lemma sla_run_inv: "sla_inv fs (frames (sla_frame CP CP_SP) (snd (sla_init CP CP_SP p)) fs)"
  by (induction fs rule: rev_induct) (simp_all add: sla_inv_init sla_frame_inv)

lemma frame_keeps:
  assumes "sla_inv fs s" "sa_is_active s" "sa_is_active (sla_frame CP CP_SP s f)"
  shows "sla_keeps s (sla_frame CP CP_SP s f)"
proof -
  let ?t = "sla_prepared CP CP_SP s f"
  have act: "sa_state ?t \<in> set SLA_ACTIVE_STATES" "sa_speed_limit_prev ?t = sa_speed_limit s"
    and st: "sa_pcm_op_long s \<or> sa_state ?t = SLA_active"
    using assms(1,2) by (auto simp: sla_inv_def SLA_ACTIVE_STATES_def)
  have "\<not> (speed_limit_changed ?t \<and> apply_confirm_speed_threshold ?t)"
    using assms(3) act st pcm_activation [of ?t] non_pcm_activation [of "si_now (sf_in f)" ?t]
    by (cases "sa_pcm_op_long s") (auto simp: frame_simps sla_machine_def)
  then show ?thesis using act(2)
    by (auto simp: sla_keeps_def sla_defs frame_view_simps not_less split: if_splits)
qed

lemma frame_confirmed:
  assumes "sla_inv fs s" "\<not> sa_is_active s" "sa_is_active (sla_frame CP CP_SP s f)" "0 < si_now (sf_in f)"
  shows "sla_confirmed (fs @ [f]) (si_now (sf_in f)) (sla_frame CP CP_SP s f)"
proof -
  let ?t = "sla_prepared CP CP_SP s f" and ?now = "si_now (sf_in f)"
  have "sa_state ?t \<notin> set SLA_ACTIVE_STATES" using assms(1,2) by (simp add: sla_inv_def)
  then have alt: "target_set_speed_confirmed ?t \<or> \<not> sa_pcm_op_long s \<and> released_towards ?now ?t"
    using assms(3) pcm_activation [of ?t] non_pcm_activation [of ?now ?t]
    by (cases "sa_pcm_op_long s") (auto simp: frame_simps sla_machine_def)
  have plus: "list_ex (\<lambda>g. button_released CRUISE_BUTTONS_PLUS (sf_CS g) \<and> ?now \<le> sf_time g + 1 / 2) (fs @ [f])"
    if "?now \<le> sa_plus_hold ?t"
    using that assms(1,4) update_car_state_holds(1) [of "sf_time f" "sf_CS f" s]
    by (auto simp: sla_inv_def list_ex_iff)
  have minus: "list_ex (\<lambda>g. button_released CRUISE_BUTTONS_MINUS (sf_CS g) \<and> ?now \<le> sf_time g + 1 / 2) (fs @ [f])"
    if "?now \<le> sa_minus_hold ?t"
    using that assms(1,4) update_car_state_holds(2) [of "sf_time f" "sf_CS f" s]
    by (auto simp: sla_inv_def list_ex_iff)
  from alt show ?thesis
  proof
    assume "target_set_speed_confirmed ?t"
    then show ?thesis by (simp add: sla_confirmed_def frame_view_simps target_set_speed_confirmed_def)
  next
    assume "\<not> sa_pcm_op_long s \<and> released_towards ?now ?t"
    then show ?thesis using plus minus
      by (auto simp: sla_confirmed_def frame_view_simps released_towards_def prepared_compare [OF refl])
  qed
qed

text \<open>
  C20. The speed limit assist acts only for a driver who confirmed: whenever, in any run, the
  assist is active, there was a frame in which it became active because the set speed shown was
  the required one or, on cars without their own cruise control, a button towards the limit was
  released at most half a second before; it has been active in every frame since, and each change
  of the limit since then was one it may follow by itself, with the set speed and the new limit
  both at or above the confirmation threshold.
\<close>

theorem active_assist_was_confirmed:
  fixes CP CP_SP p
  defines "run \<equiv> \<lambda>fs. frames (sla_frame CP CP_SP) (snd (sla_init CP CP_SP p)) fs"
  assumes "sa_is_active (run fs)" and "\<forall>f \<in> set fs. 0 < si_now (sf_in f)"
  shows "\<exists>pre f post. fs = pre @ f # post \<and> \<not> sa_is_active (run pre) \<and>
    sla_confirmed (pre @ [f]) (si_now (sf_in f)) (run (pre @ [f])) \<and>
    (\<forall>k < length post. sa_is_active (run (pre @ f # take k post)) \<and>
       sla_keeps (run (pre @ f # take k post)) (run (pre @ f # take (Suc k) post)))"
  using assms(2,3)
proof (induction fs rule: rev_induct)
  case Nil
  then show ?case using sla_run_inv [of "[]" CP CP_SP p] by (simp add: run_def sla_inv_def sla_init_def sla_read_params_def Let_def case_prod_beta)
next
  case (snoc g fs)
  have step: "run (fs @ [g]) = sla_frame CP CP_SP (run fs) g" by (simp add: run_def)
  have inv: "sla_inv fs (run fs)" unfolding run_def by (rule sla_run_inv)
  show ?case
  proof (cases "sa_is_active (run fs)")
    case False
    have "sla_confirmed (fs @ [g]) (si_now (sf_in g)) (run (fs @ [g]))"
      unfolding step by (rule frame_confirmed [OF inv False]) (use snoc.prems step in auto)
    with False show ?thesis by (intro exI [of _ fs] exI [of _ g] exI [of _ "[]"]) simp
  next
    case True
    with snoc.IH snoc.prems(2) obtain pre f post where eq: "fs = pre @ f # post" "\<not> sa_is_active (run pre)"
      "sla_confirmed (pre @ [f]) (si_now (sf_in f)) (run (pre @ [f]))"
      and since: "\<And>k. k < length post \<Longrightarrow> sa_is_active (run (pre @ f # take k post)) \<and>
        sla_keeps (run (pre @ f # take k post)) (run (pre @ f # take (Suc k) post))" by auto
    have "sla_keeps (run fs) (run (fs @ [g]))"
      unfolding step by (rule frame_keeps [OF inv True]) (use snoc.prems step in auto)
    then have "sa_is_active (run (pre @ f # take k (post @ [g]))) \<and>
        sla_keeps (run (pre @ f # take k (post @ [g]))) (run (pre @ f # take (Suc k) (post @ [g])))" if "k < length (post @ [g])" for k
      using since [of k] that True eq(1) by (cases "k < length post") (auto simp: less_Suc_eq)
    with eq show ?thesis by (intro exI [of _ pre] exI [of _ f] exI [of _ "post @ [g]"]) simp
  qed
qed

subsection \<open>An example run\<close>

text \<open>
  A car without its own cruise control, set to 30 m/s under a limit of 30 m/s: the assist waits
  out the half second after engagement and becomes active.
\<close>

definition example_sl_CP :: car_params where
  "example_sl_CP = \<lparr>cp_brand = ''toyota'', cp_passive = False, cp_notCar = False, cp_pcmCruise = False,
     cp_openpilotLongitudinalControl = True, cp_minEnableSpeed = 0, cp_minSteerSpeed = 0, cp_fwdCamera = False,
     cp_toyota_hybrid = False, cp_hyundai_lda_or_canfd = False, cp_ram_dt = False, cp_drivable_gears = [],
     cp_max_ctrl_speed = 50, cp_safetyConfigs = [], cp_alternativeExperience = 0\<rparr>"

definition example_sl_CP_SP :: car_params_sp where
  "example_sl_CP_SP = \<lparr>cpsp_tesla_has_vehicle_bus = False, cpsp_enableGasInterceptor = False,
     cpsp_pcmCruiseSpeed = True, cpsp_intelligentCruiseButtonManagementAvailable = False\<rparr>"

definition example_sl_params :: sl_params where
  "example_sl_params = \<lparr>slp_IsMetric = True, slp_IsReleaseSpBranch = False, slp_SpeedLimitMode = SL_MODE_ASSIST,
     slp_SpeedLimitPolicy = Some 4, slp_SpeedLimitOffsetType = Some 0, slp_SpeedLimitValueOffset = Some 0\<rparr>"

definition example_sl_frame :: sla_frame_in where
  "example_sl_frame = \<lparr>sf_time = 1, sf_CS = car_state_default GS_drive, sf_params = example_sl_params,
     sf_in = \<lparr>si_long_enabled = True, si_v_ego = 30, si_a_ego = 0, si_v_cruise_cluster = 30, si_speed_limit = 30,
       si_speed_limit_final_last = 30, si_has_speed_limit = True, si_distance = 0, si_now = 1\<rparr>\<rparr>"

abbreviation example_sl_step :: "sla \<Rightarrow> sla_frame_in \<Rightarrow> sla" where
  "example_sl_step \<equiv> sla_frame example_sl_CP example_sl_CP_SP"

text \<open>The states of the example while it waits: the timer shows \<open>n\<close>.\<close>

definition example_sl_waiting :: "int \<Rightarrow> sla \<Rightarrow> bool" where
  "example_sl_waiting n s \<longleftrightarrow> sa_state s = SLA_disabled \<and> sa_long_engaged_timer s = n \<and> sa_long_enabled_prev s \<and>
     sa_enabled s \<and> sa_is_metric s \<and> \<not> sa_pcm_op_long s \<and> sa_prev_v_cruise_cluster_conv s = 108"

lemma example_sl_prepared:
  assumes "sa_enabled s" "sa_is_metric s" "\<not> sa_pcm_op_long s"
  defines "t \<equiv> sla_prepared example_sl_CP example_sl_CP_SP s example_sl_frame"
  shows "sa_enabled t" "sa_is_metric t" "sa_v_cruise_cluster_conv t = 108" "sa_target_set_speed_conv t = 108"
    "sa_prev_v_cruise_cluster_conv t = sa_prev_v_cruise_cluster_conv s" "sa_long_enabled_prev t = sa_long_enabled_prev s"
    "sa_long_engaged_timer t = sa_long_engaged_timer s"
proof -
  have conv: "py_round 108 = 108" using py_round_of_int [of 108] by simp
  have cs: "sla_update_car_state 1 (car_state_default GS_drive) s = s\<lparr>sa_last_carstate_ts := 1\<rparr>"
    by (simp add: sla_update_car_state_def car_state_default_def)
  show "sa_enabled t" "sa_is_metric t" "sa_v_cruise_cluster_conv t = 108" "sa_target_set_speed_conv t = 108"
    "sa_prev_v_cruise_cluster_conv t = sa_prev_v_cruise_cluster_conv s" "sa_long_enabled_prev t = sa_long_enabled_prev s"
    "sa_long_engaged_timer t = sa_long_engaged_timer s"
    using assms(1-3)
    by (simp_all add: t_def sla_prepared_def example_sl_frame_def cs conv update_calculations_def sla_update_params_def
        sla_read_params_def set_speed_limit_assist_availability_def example_sl_CP_def example_sl_params_def
        Let_def case_prod_beta const_defs)
qed

lemma example_sl_frame_eq:
  "example_sl_step s example_sl_frame =
     (let t = sla_machine 1 (sla_prepared example_sl_CP example_sl_CP_SP s example_sl_frame)
      in sla_finish (t\<lparr>sa_is_enabled := fst (sla_state_flags t), sa_is_active := snd (sla_state_flags t)\<rparr>))"
  by (simp add: sla_frame_eq example_sl_frame_def)

lemma example_sl_wait:
  assumes "example_sl_waiting n s" "1 < n"
  shows "example_sl_waiting (n - 1) (example_sl_step s example_sl_frame)"
proof -
  note [simp] = example_sl_prepared
  have [simp]: "si_long_enabled (sf_in example_sl_frame)" by (simp add: example_sl_frame_def)
  show ?thesis using assms
    by (simp add: example_sl_waiting_def example_sl_frame_eq sla_machine_def update_state_machine_non_pcm_long_def
        sla_finish_def sla_tick_def v_cruise_cluster_changed_def Let_def)
qed

lemma example_sl_waits: "example_sl_waiting n s \<Longrightarrow> int k < n \<Longrightarrow>
    example_sl_waiting (n - int k) (frames example_sl_step s (replicate k example_sl_frame))"
proof (induction k arbitrary: n s)
  case (Suc k)
  then show ?case using Suc.IH [of "n - 1"] example_sl_wait [of n s] by (simp add: algebra_simps)
qed simp

lemma example_sl_first: "example_sl_waiting 10 (example_sl_step (snd (sla_init example_sl_CP example_sl_CP_SP example_sl_params)) example_sl_frame)"
proof -
  let ?s = "snd (sla_init example_sl_CP example_sl_CP_SP example_sl_params)"
  have init: "sa_enabled ?s" "sa_is_metric ?s" "\<not> sa_pcm_op_long ?s" "sa_state ?s = SLA_disabled" "\<not> sa_long_enabled_prev ?s"
    by (simp_all add: sla_init_def sla_read_params_def set_speed_limit_assist_availability_def example_sl_CP_def
        example_sl_params_def Let_def case_prod_beta)
  note [simp] = example_sl_prepared [OF init(1-3)] init
  have [simp]: "si_long_enabled (sf_in example_sl_frame)" by (simp add: example_sl_frame_def)
  show ?thesis
    by (simp add: example_sl_waiting_def example_sl_frame_eq sla_machine_def update_state_machine_non_pcm_long_def
        sla_finish_def sla_tick_def DISABLED_GUARD_PERIOD_def Let_def const_defs)
qed

lemma example_sl_last:
  assumes "example_sl_waiting 1 s"
  shows "sa_is_active (example_sl_step s example_sl_frame)"
proof -
  note [simp] = example_sl_prepared
  have [simp]: "si_long_enabled (sf_in example_sl_frame)" by (simp add: example_sl_frame_def)
  show ?thesis using assms
    by (simp add: example_sl_waiting_def example_sl_frame_eq sla_machine_def update_state_machine_non_pcm_long_def
        sla_confirm_or_def update_non_pcm_long_confirmed_state_def target_set_speed_confirmed_def sla_state_flags_def
        sla_finish_def sla_tick_def v_cruise_cluster_changed_def Let_def)
qed

lemma example_sl_run: "sa_is_active (frames example_sl_step (snd (sla_init example_sl_CP example_sl_CP_SP example_sl_params)) (replicate 11 example_sl_frame))"
proof -
  have "replicate 11 example_sl_frame = example_sl_frame # replicate 9 example_sl_frame @ [example_sl_frame]"
    by (simp add: eval_nat_numeral)
  then show ?thesis using example_sl_waits [OF example_sl_first, of 9] by (simp add: example_sl_last)
qed

theorem active_assist_was_confirmed_witness:
  "\<exists>pre f post. replicate 11 example_sl_frame = pre @ f # post \<and>
     sla_confirmed (pre @ [f]) (si_now (sf_in f))
       (frames example_sl_step (snd (sla_init example_sl_CP example_sl_CP_SP example_sl_params)) (pre @ [f]))"
proof -
  have "\<forall>f \<in> set (replicate 11 example_sl_frame). 0 < si_now (sf_in f)" by (simp add: example_sl_frame_def)
  from active_assist_was_confirmed [OF example_sl_run this] show ?thesis by blast
qed

subsection \<open>What the resolver chooses\<close>

text \<open>
  The specification: the limit of the map is the limit ahead as soon as braking to it at 1 m/s^2
  would take the whole remaining distance, else the current one, and none when the position is
  older than ten seconds; the policy prefers a source or, combined, takes the lower of two limits.
\<close>

definition map_limit :: "real \<Rightarrow> sl_messages \<Rightarrow> real" where
  "map_limit v sm =
     (let age = \<lambda>t. t - of_int (sm_gps_unixTimestampMillis sm) / 1000;
          ahead = (if sm_map_speedLimitAheadValid sm then finite_positive (sm_map_speedLimitAhead sm) else 0)
      in if age (sm_time1 sm) > 10 then 0
         else case sm_map_speedLimitAheadDistance sm of
           Some d \<Rightarrow> if 0 \<le> d \<and> 0 < ahead \<and> ahead < v \<and> max 0 (d - v * age (sm_time2 sm)) \<le> (v\<^sup>2 - ahead\<^sup>2) / 2 then ahead
                     else if sm_map_speedLimitValid sm then finite_positive (sm_map_speedLimit sm) else 0
         | None \<Rightarrow> if sm_map_speedLimitValid sm then finite_positive (sm_map_speedLimit sm) else 0)"

definition chosen_limit :: "sl_policy \<Rightarrow> real \<Rightarrow> real \<Rightarrow> real" where
  "chosen_limit p car mp =
     (case p of SLP_car_state_only \<Rightarrow> car | SLP_map_data_only \<Rightarrow> mp
      | SLP_car_state_priority \<Rightarrow> (if car > 0 then car else mp)
      | SLP_map_data_priority \<Rightarrow> (if mp > 0 then mp else car)
      | SLP_combined \<Rightarrow> (if car > 0 \<and> mp > 0 then min car mp else max car mp))"

lemma finite_positive_nonneg [simp]: "0 \<le> finite_positive v"
  by (simp add: finite_positive_def split: option.splits)

lemma map_limit_nonneg [simp]: "0 \<le> map_limit v sm"
  by (simp add: map_limit_def Let_def split: option.splits)

text \<open>The way to slow down: \<open>v * t - t^2 / 2\<close> with \<open>t = v - u\<close> is the braking distance at 1 m/s^2.\<close>

lemma adapt_distance:
  "v * ((u - v) / LIMIT_ADAPT_ACC) + 1 / 2 * LIMIT_ADAPT_ACC * ((u - v) / LIMIT_ADAPT_ACC)\<^sup>2 = (v\<^sup>2 - u\<^sup>2) / 2"
  by (simp add: LIMIT_ADAPT_ACC_def power2_eq_square field_simps)

lemma calculate_map_data_limits_map:
  "rs_limit_solutions (calculate_map_data_limits sm l u s) SRC_map =
     (case sm_map_speedLimitAheadDistance sm of
        Some d \<Rightarrow> if 0 \<le> d \<and> 0 < u \<and> u < rs_v_ego s \<and>
          max 0 (d - rs_v_ego s * (sm_time2 sm - of_int (sm_gps_unixTimestampMillis sm) / 1000)) \<le> ((rs_v_ego s)\<^sup>2 - u\<^sup>2) / 2
          then u else l
      | None \<Rightarrow> l)"
  unfolding calculate_map_data_limits_def Let_def adapt_distance finite_nonnegative_or_none_def
  by (simp split: option.splits)

lemma calculate_map_data_limits_keeps:
  fixes s :: sl_resolver
  shows "rs_limit_solutions (calculate_map_data_limits sm l u s) SRC_car = rs_limit_solutions s SRC_car"
    "rs_policy (calculate_map_data_limits sm l u s) = rs_policy s"
    "rs_speed_limit_last (calculate_map_data_limits sm l u s) = rs_speed_limit_last s"
    "rs_speed_limit_final_last (calculate_map_data_limits sm l u s) = rs_speed_limit_final_last s"
  by (simp_all add: calculate_map_data_limits_def Let_def split: option.splits)

lemma resolver_limits:
  fixes s :: sl_resolver and sm
  defines "t \<equiv> get_from_map_data sm (get_from_car_state sm s)"
  shows "rs_limit_solutions t SRC_car = finite_positive (sm_car_speedLimit sm)"
    and "rs_limit_solutions t SRC_map = map_limit (rs_v_ego s) sm" and "rs_policy t = rs_policy s"
    and "rs_speed_limit_last t = rs_speed_limit_last s" and "rs_speed_limit_final_last t = rs_speed_limit_final_last s"
  by (simp_all add: t_def get_from_map_data_def get_from_car_state_def process_map_data_def calculate_map_data_limits_keeps
      calculate_map_data_limits_map reset_limit_sources_def map_limit_def LIMIT_MAX_MAP_DATA_AGE_def Let_def split: option.split)

lemma chosen_limit_nonneg: "0 \<le> car \<Longrightarrow> 0 \<le> mp \<Longrightarrow> 0 \<le> chosen_limit p car mp"
  by (cases p) (auto simp: chosen_limit_def)

lemma policy_choice:
  fixes s :: sl_resolver
  assumes "0 \<le> rs_limit_solutions s SRC_car" "0 \<le> rs_limit_solutions s SRC_map"
  defines "src \<equiv> get_source_solution_according_to_policy s"
  shows "(if src \<noteq> SRC_none then rs_limit_solutions s src else 0) =
      chosen_limit (rs_policy s) (rs_limit_solutions s SRC_car) (rs_limit_solutions s SRC_map)"
    and "src \<noteq> SRC_none \<longleftrightarrow> 0 < chosen_limit (rs_policy s) (rs_limit_solutions s SRC_car) (rs_limit_solutions s SRC_map)"
  using assms
  by (cases "rs_policy s"; auto simp: get_source_solution_according_to_policy_def policy_to_sources_def chosen_limit_def Let_def)+

lemma update_speed_limit_states_simps:
  fixes s :: sl_resolver
  defines "t \<equiv> update_speed_limit_states s"
  shows "rs_speed_limit t = rs_speed_limit s" "rs_source t = rs_source s" "rs_policy t = rs_policy s"
    "rs_speed_limit s > 0 \<Longrightarrow> rs_speed_limit_final t > 0 \<and> rs_speed_limit_final_last t = rs_speed_limit_final t \<and> rs_speed_limit_last t = rs_speed_limit s"
    "\<not> rs_speed_limit s > 0 \<Longrightarrow> rs_speed_limit_final_last t = rs_speed_limit_final_last s \<and> rs_speed_limit_last t = rs_speed_limit_last s"
  by (auto simp: t_def update_speed_limit_states_def Let_def)

text \<open>
  C21. The resolver implements its specification: after every update the limit is the one that
  the policy in force chooses from the car's limit and the map's limit, a source is named exactly
  when there is a limit, a limit with its offset is positive and becomes the last known one, and
  without a limit the last known one is kept.
\<close>

theorem resolver_meets_spec:
  "let s' = snd (rs_update v sm p s);
       lim = chosen_limit (rs_policy s') (finite_positive (sm_car_speedLimit sm)) (map_limit v sm)
   in rs_speed_limit s' = lim \<and> 0 \<le> lim \<and> (rs_source s' \<noteq> SRC_none \<longleftrightarrow> speed_limit_valid s') \<and>
     (if 0 < lim
      then 0 < rs_speed_limit_final s' \<and> rs_speed_limit_final_last s' = rs_speed_limit_final s' \<and> rs_speed_limit_last s' = lim
      else rs_speed_limit_final_last s' = rs_speed_limit_final_last s \<and> rs_speed_limit_last s' = rs_speed_limit_last s)"
proof -
  define s1 where "s1 = snd (rs_update_params p (s\<lparr>rs_v_ego := v\<rparr>))"
  define s2 where "s2 = get_from_map_data sm (get_from_car_state sm s1)"
  define src where "src = get_source_solution_according_to_policy s2"
  define s3 where "s3 = s2\<lparr>rs_speed_limit := (if src \<noteq> SRC_none then rs_limit_solutions s2 src else 0),
    rs_distance := (if src \<noteq> SRC_none then rs_distance_solutions s2 src else 0), rs_source := src\<rparr>"
  define s4 where "s4 = s3\<lparr>rs_speed_limit_offset := get_speed_limit_offset s3\<rparr>"
  have upd: "snd (rs_update v sm p s) = (update_speed_limit_states s4)\<lparr>rs_frame := rs_frame (update_speed_limit_states s4) + 1\<rparr>"
    by (simp add: rs_update_def resolve_limit_sources_def s1_def s2_def s3_def s4_def src_def Let_def case_prod_beta)
  have s1: "rs_v_ego s1 = v" "rs_speed_limit_final_last s1 = rs_speed_limit_final_last s" "rs_speed_limit_last s1 = rs_speed_limit_last s"
    by (simp_all add: s1_def rs_update_params_def rs_read_params_def Let_def)
  define lim where "lim = chosen_limit (rs_policy s1) (finite_positive (sm_car_speedLimit sm)) (map_limit v sm)"
  note limits = resolver_limits [of sm s1, folded s2_def, unfolded s1]
  have nonneg: "0 \<le> lim" unfolding lim_def by (rule chosen_limit_nonneg) simp_all
  have choice: "(if src \<noteq> SRC_none then rs_limit_solutions s2 src else 0) = lim" "src \<noteq> SRC_none \<longleftrightarrow> 0 < lim"
    using policy_choice [of s2] unfolding limits src_def [symmetric] lim_def by simp_all
  have s4: "rs_speed_limit s4 = lim" "rs_source s4 = src" "rs_policy s4 = rs_policy s1"
    "rs_speed_limit_final_last s4 = rs_speed_limit_final_last s" "rs_speed_limit_last s4 = rs_speed_limit_last s"
    using choice(1) by (simp_all add: s4_def s3_def limits)
  show ?thesis
    using update_speed_limit_states_simps [of s4] nonneg choice(2)
    unfolding upd Let_def s4 speed_limit_valid_def lim_def [symmetric]
    by (cases "0 < lim") (simp_all add: s4 lim_def [symmetric])
qed

end
