(* ===== verification/Dec.thy ===== *)
theory Dec
  imports Car_State
begin

text \<open>
  The dynamic experimental controller, \<open>sunnypilot/custom/longitudinal/dec_controller.py\<close>, which
  chooses between the \<open>acc\<close> and the \<open>blended\<close> mode of the longitudinal planner: its smoothing
  filter, the mode manager with hysteresis and its decision logic. The crash counter of the MPC
  and the messages are inputs of a frame; an endpoint of infinity is \<open>None\<close>. The lemmas bound the
  confidences and timers, show that a forward collision warning selects \<open>blended\<close> at once, that
  \<open>blended\<close> is kept for a minimal time and that the controller returns to \<open>acc\<close>.
\<close>

subsection \<open>SmoothKalmanFilter\<close>

record skf =
  kf_x :: real
  kf_P :: real
  kf_R :: real
  kf_Q :: real
  kf_alpha :: real
  kf_smoothing_factor :: real
  kf_initialized :: bool
  kf_history :: "real list"
  kf_max_history :: nat
  kf_confidence :: real

definition SmoothKalmanFilter :: "real \<Rightarrow> real \<Rightarrow> real \<Rightarrow> real \<Rightarrow> skf" where
  "SmoothKalmanFilter measurement_noise process_noise alpha smoothing_factor =
     \<lparr>kf_x = 0, kf_P = 1, kf_R = measurement_noise, kf_Q = process_noise, kf_alpha = alpha,
      kf_smoothing_factor = smoothing_factor, kf_initialized = False, kf_history = [], kf_max_history = 10,
      kf_confidence = 0\<rparr>"

definition kf_add_data :: "real \<Rightarrow> skf \<Rightarrow> skf" where
  "kf_add_data measurement s =
     (let s = s\<lparr>kf_history := (if length (kf_history s) \<ge> kf_max_history s then tl (kf_history s) else kf_history s) @ [measurement]\<rparr>
      in if \<not> kf_initialized s then s\<lparr>kf_x := measurement, kf_initialized := True, kf_confidence := 1 / 10\<rparr>
         else
           (let P = kf_alpha s * kf_P s + kf_Q s;
                K = P / (P + kf_R s);
                effective_K = K * (1 - kf_smoothing_factor s) + kf_smoothing_factor s * (1 / 10);
                innovation = measurement - kf_x s
            in s\<lparr>kf_x := kf_x s + effective_K * innovation, kf_P := (1 - effective_K) * P,
                 kf_confidence := (if \<bar>innovation\<bar> < 1 / 10 then min 1 (kf_confidence s + 5 / 100)
                                   else max (1 / 10) (kf_confidence s - 2 / 100))\<rparr>))"

definition kf_get_value :: "skf \<Rightarrow> real option" where
  "kf_get_value s = (if kf_initialized s then Some (kf_x s) else None)"

definition kf_get_confidence :: "skf \<Rightarrow> real" where "kf_get_confidence s = kf_confidence s"

definition kf_reset_data :: "skf \<Rightarrow> skf" where
  "kf_reset_data s = s\<lparr>kf_initialized := False, kf_history := [], kf_confidence := 0\<rparr>"

definition kf_value_or_zero :: "skf \<Rightarrow> real" where
  "kf_value_or_zero s = (case kf_get_value s of None \<Rightarrow> 0 | Some v \<Rightarrow> v)"

subsection \<open>ModeTransitionManager\<close>

datatype dec_mode = DM_acc | DM_blended

definition SET_MODE_TIMEOUT :: int where "SET_MODE_TIMEOUT = 15"

record mode_manager =
  mm_current_mode :: dec_mode
  mm_mode_confidence :: "dec_mode \<Rightarrow> real"
  mm_transition_timeout :: int
  mm_min_mode_duration :: int
  mm_mode_duration :: int
  mm_emergency_override :: bool

definition ModeTransitionManager :: mode_manager where
  "ModeTransitionManager = \<lparr>mm_current_mode = DM_acc, mm_mode_confidence = (\<lambda>_. 0)(DM_acc := 1),
     mm_transition_timeout = 0, mm_min_mode_duration = 10, mm_mode_duration = 0, mm_emergency_override = False\<rparr>"

definition request_mode :: "dec_mode \<Rightarrow> real \<Rightarrow> bool \<Rightarrow> mode_manager \<Rightarrow> mode_manager" where
  "request_mode mode confidence emergency s =
     (if emergency then s\<lparr>mm_emergency_override := True, mm_current_mode := mode,
                          mm_transition_timeout := SET_MODE_TIMEOUT, mm_mode_duration := 0\<rparr>
      else
        (let s = s\<lparr>mm_mode_confidence :=
               (\<lambda>m. if m = mode then min 1 (mm_mode_confidence s m + 1 / 10 * confidence)
                    else max 0 (mm_mode_confidence s m - 5 / 100))\<rparr>
         in if mm_mode_duration s < mm_min_mode_duration s \<and> \<not> mm_emergency_override s then s
            else
              (let confidence_threshold = (if mode \<noteq> mm_current_mode s then 6 / 10 else 3 / 10)
               in if mm_mode_confidence s mode > confidence_threshold \<and> mode \<noteq> mm_current_mode s \<and> mm_transition_timeout s = 0
                  then s\<lparr>mm_transition_timeout := SET_MODE_TIMEOUT, mm_current_mode := mode, mm_mode_duration := 0\<rparr>
                  else s)))"

definition mm_update :: "mode_manager \<Rightarrow> mode_manager" where
  "mm_update s =
     (let s = (if mm_transition_timeout s > 0 then s\<lparr>mm_transition_timeout := mm_transition_timeout s - 1\<rparr> else s);
          s = s\<lparr>mm_mode_duration := mm_mode_duration s + 1\<rparr>;
          s = (if mm_emergency_override s \<and> mm_mode_duration s > 20 then s\<lparr>mm_emergency_override := False\<rparr> else s)
      in s\<lparr>mm_mode_confidence := (\<lambda>m. mm_mode_confidence s m * (98 / 100))\<rparr>)"

subsection \<open>DynamicExperimentalController\<close>

definition LEAD_PROB :: real where "LEAD_PROB = 45 / 100"
definition SLOW_DOWN_PROB :: real where "SLOW_DOWN_PROB = 3 / 10"
definition SLOWNESS_PROB :: real where "SLOWNESS_PROB = 55 / 100"
definition SLOWNESS_CRUISE_OFFSET :: real where "SLOWNESS_CRUISE_OFFSET = 1025 / 1000"
definition TRAJECTORY_SIZE :: nat where "TRAJECTORY_SIZE = 33"

definition SLOW_DOWN_TABLE :: "(real \<times> real) list" where
  "SLOW_DOWN_TABLE = zip [0, 10, 20, 30, 40, 50, 55, 60] [32, 46, 64, 86, 108, 130, 145, 165]"

record dec =
  dc_enabled :: bool
  dc_active :: bool
  dc_frame :: int
  dc_urgency :: real
  dc_mode_manager :: mode_manager
  dc_lead_filter :: skf
  dc_slow_down_filter :: skf
  dc_slowness_filter :: skf
  dc_mpc_fcw_filter :: skf
  dc_has_lead_filtered :: bool
  dc_has_slow_down :: bool
  dc_has_slowness :: bool
  dc_has_mpc_fcw :: bool
  dc_v_ego_kph :: real
  dc_v_cruise_kph :: real
  dc_has_standstill :: bool
  dc_mpc_fcw_crash_cnt :: int
  dc_standstill_count :: int
  dc_endpoint_x :: "real option"
  dc_expected_distance :: real
  dc_trajectory_valid :: bool

text \<open>One frame: the parameter, the messages and the crash counter of the MPC.\<close>

record dec_in =
  di_DynamicExperimentalControl :: bool
  di_radarUnavailable :: bool
  di_vEgo :: real
  di_vCruise :: real
  di_standstill :: bool
  di_lead_present :: bool
  di_crash_cnt :: int
  di_position_x :: "real list"
  di_orientation_x :: "real list"
  di_experimentalMode :: bool

definition DynamicExperimentalController :: "bool \<Rightarrow> dec" where
  "DynamicExperimentalController enabled =
     \<lparr>dc_enabled = enabled, dc_active = False, dc_frame = 0, dc_urgency = 0, dc_mode_manager = ModeTransitionManager,
      dc_lead_filter = SmoothKalmanFilter (15 / 100) (5 / 100) (102 / 100) (8 / 10),
      dc_slow_down_filter = SmoothKalmanFilter (1 / 10) (1 / 10) (105 / 100) (7 / 10),
      dc_slowness_filter = SmoothKalmanFilter (1 / 10) (6 / 100) (1015 / 1000) (92 / 100),
      dc_mpc_fcw_filter = SmoothKalmanFilter (2 / 10) (1 / 10) (11 / 10) (5 / 10),
      dc_has_lead_filtered = False, dc_has_slow_down = False, dc_has_slowness = False, dc_has_mpc_fcw = False,
      dc_v_ego_kph = 0, dc_v_cruise_kph = 0, dc_has_standstill = False, dc_mpc_fcw_crash_cnt = 0, dc_standstill_count = 0,
      dc_endpoint_x = None, dc_expected_distance = 0, dc_trajectory_valid = False\<rparr>"

definition dc_read_params :: "bool \<Rightarrow> dec \<Rightarrow> dec" where
  "dc_read_params enabled s = (if dc_frame s mod py_int (1 / DT_MDL) = 0 then s\<lparr>dc_enabled := enabled\<rparr> else s)"

definition dec_mode_of :: "dec \<Rightarrow> dec_mode" where "dec_mode_of s = mm_current_mode (dc_mode_manager s)"

definition slow_down_urgency :: "real \<Rightarrow> real \<Rightarrow> real \<Rightarrow> real" where
  "slow_down_urgency v_ego_kph endpoint_x expected_distance =
     (if endpoint_x < expected_distance then
        (let shortage = expected_distance - endpoint_x;
             shortage_ratio = shortage / expected_distance;
             urgency = min 1 (shortage_ratio * 2);
             critical_distance = expected_distance * (3 / 10);
             urgency = (if endpoint_x < critical_distance then min 1 (urgency * 2) else urgency)
         in if v_ego_kph > 25 then min 1 (urgency * (1 + (v_ego_kph - 25) / 80)) else urgency)
      else 0)"

definition calculate_slow_down :: "dec_in \<Rightarrow> dec \<Rightarrow> dec" where
  "calculate_slow_down md s =
     (let s = s\<lparr>dc_endpoint_x := None, dc_trajectory_valid := False\<rparr>
      in if \<not> (length (di_position_x md) = TRAJECTORY_SIZE \<and> length (di_orientation_x md) = TRAJECTORY_SIZE) then
           (let urgency = (if dc_v_ego_kph s > 20 then 3 / 10 else 0);
                f = kf_add_data urgency (dc_slow_down_filter s);
                urgency_filtered = kf_value_or_zero f
            in s\<lparr>dc_slow_down_filter := f, dc_has_slow_down := urgency_filtered > SLOW_DOWN_PROB, dc_urgency := urgency_filtered\<rparr>)
         else
           (let endpoint_x = di_position_x md ! (TRAJECTORY_SIZE - 1);
                expected_distance = np_interp (dc_v_ego_kph s) SLOW_DOWN_TABLE;
                urgency = slow_down_urgency (dc_v_ego_kph s) endpoint_x expected_distance;
                f = kf_add_data urgency (dc_slow_down_filter s);
                urgency_filtered = kf_value_or_zero f
            in s\<lparr>dc_trajectory_valid := True, dc_endpoint_x := Some endpoint_x, dc_expected_distance := expected_distance,
                 dc_slow_down_filter := f, dc_has_slow_down := urgency_filtered > SLOW_DOWN_PROB * (8 / 10),
                 dc_urgency := urgency_filtered\<rparr>))"

definition dc_detect_slowness :: "dec \<Rightarrow> dec" where
  "dc_detect_slowness s =
     (if \<not> dc_standstill_count s > 5 \<and> \<not> dc_has_slow_down s then
        (let current_slowness = of_bool (dc_v_ego_kph s \<le> dc_v_cruise_kph s * SLOWNESS_CRUISE_OFFSET);
             f = kf_add_data current_slowness (dc_slowness_filter s);
             threshold = SLOWNESS_PROB * (if dc_has_slowness s then 8 / 10 else 11 / 10)
         in s\<lparr>dc_slowness_filter := f, dc_has_slowness := kf_value_or_zero f > threshold\<rparr>)
      else s)"

definition dc_update_calculations :: "dec_in \<Rightarrow> dec \<Rightarrow> dec" where
  "dc_update_calculations sm s =
     (let s = s\<lparr>dc_v_ego_kph := di_vEgo sm * (36 / 10), dc_v_cruise_kph := di_vCruise sm, dc_has_standstill := di_standstill sm\<rparr>;
          s = s\<lparr>dc_standstill_count := (if dc_has_standstill s then min 20 (dc_standstill_count s + 1)
                                        else max 0 (dc_standstill_count s - 1))\<rparr>;
          s = s\<lparr>dc_lead_filter := kf_add_data (of_bool (di_lead_present sm)) (dc_lead_filter s)\<rparr>;
          s = s\<lparr>dc_has_lead_filtered := kf_value_or_zero (dc_lead_filter s) > LEAD_PROB\<rparr>;
          fcw_filtered_value = kf_value_or_zero (dc_mpc_fcw_filter s);
          s = s\<lparr>dc_mpc_fcw_filter := kf_add_data (of_bool (dc_mpc_fcw_crash_cnt s > 0)) (dc_mpc_fcw_filter s),
                dc_has_mpc_fcw := fcw_filtered_value > 5 / 10\<rparr>
      in dc_detect_slowness (calculate_slow_down sm s))"

text \<open>The mode asked for, with its confidence and whether it is an emergency.\<close>

definition radarless_mode :: "dec \<Rightarrow> dec_mode \<times> real \<times> bool" where
  "radarless_mode s =
     (if dc_has_mpc_fcw s then (DM_blended, 1, True)
      else if dc_standstill_count s > 3 then (DM_blended, 9 / 10, False)
      else if dc_has_slow_down s then
        (if dc_urgency s > 7 / 10 then (DM_blended, 1, True) else (DM_blended, min 1 (dc_urgency s * (15 / 10)), False))
      else if dc_has_slowness s \<and> \<not> dc_has_slow_down s then (DM_acc, 8 / 10, False)
      else (DM_acc, 7 / 10, False))"

definition radar_mode :: "dec \<Rightarrow> dec_mode \<times> real \<times> bool" where
  "radar_mode s =
     (if dc_has_mpc_fcw s then (DM_blended, 1, True)
      else if dc_has_lead_filtered s \<and> \<not> dc_standstill_count s > 3 then (DM_acc, 1, False)
      else if dc_has_slow_down s then
        (if dc_urgency s > 7 / 10 then (DM_blended, 1, True) else (DM_blended, min 1 (dc_urgency s * (13 / 10)), False))
      else if dc_standstill_count s > 3 then (DM_blended, 9 / 10, False)
      else if dc_has_slowness s \<and> \<not> dc_has_slow_down s then (DM_acc, 8 / 10, False)
      else (DM_acc, 7 / 10, False))"

definition dc_request :: "dec_mode \<times> real \<times> bool \<Rightarrow> dec \<Rightarrow> dec" where
  "dc_request r s = (case r of (m, c, e) \<Rightarrow> s\<lparr>dc_mode_manager := request_mode m c e (dc_mode_manager s)\<rparr>)"

definition dc_prepare :: "dec \<Rightarrow> dec_in \<Rightarrow> dec" where
  "dc_prepare s i =
     dc_update_calculations i ((dc_read_params (di_DynamicExperimentalControl i) s)\<lparr>dc_mpc_fcw_crash_cnt := di_crash_cnt i\<rparr>)"

definition dc_decide :: "dec_in \<Rightarrow> dec \<Rightarrow> dec_mode \<times> real \<times> bool" where
  "dc_decide i s = (if di_radarUnavailable i then radarless_mode s else radar_mode s)"

definition dc_update :: "dec \<Rightarrow> dec_in \<Rightarrow> dec" where
  "dc_update s i =
     (let s = dc_prepare s i;
          s = dc_request (dc_decide i s) s
      in s\<lparr>dc_mode_manager := mm_update (dc_mode_manager s), dc_active := di_experimentalMode i \<and> dc_enabled s,
           dc_frame := dc_frame s + 1\<rparr>)"

subsection \<open>The mode manager\<close>

definition mm_step :: "dec_mode \<times> real \<times> bool \<Rightarrow> mode_manager \<Rightarrow> mode_manager" where
  "mm_step r m = (case r of (md, c, e) \<Rightarrow> mm_update (request_mode md c e m))"

text \<open>Requests as the decision logic makes them: emergencies ask for \<open>blended\<close>, confidences are in range.\<close>

definition request_ok :: "dec_mode \<times> real \<times> bool \<Rightarrow> bool" where
  "request_ok r \<longleftrightarrow> (case r of (md, c, e) \<Rightarrow> 0 \<le> c \<and> c \<le> 1 \<and> (\<not> e \<or> md = DM_blended) \<and> (md = DM_blended \<or> 7 / 10 \<le> c))"

definition mm_ok :: "mode_manager \<Rightarrow> bool" where
  "mm_ok m \<longleftrightarrow> 0 \<le> mm_transition_timeout m \<and> mm_transition_timeout m \<le> SET_MODE_TIMEOUT \<and> 0 \<le> mm_mode_duration m \<and>
     mm_min_mode_duration m = 10 \<and> (\<forall>md. 0 \<le> mm_mode_confidence m md \<and> mm_mode_confidence m md \<le> 1)"

lemma mm_ok_init: "mm_ok ModeTransitionManager"
  by (simp add: mm_ok_def ModeTransitionManager_def SET_MODE_TIMEOUT_def)

lemma decay_le: "x \<le> 1 \<Longrightarrow> 98 * x \<le> (100 :: real)" "x \<le> 1 \<Longrightarrow> 49 * x \<le> (50 :: real)"
  by linarith+

lemma mm_update_ok: "mm_ok m \<Longrightarrow> mm_ok (mm_update m)"
  by (simp add: mm_ok_def mm_update_def Let_def) (metis mult.commute decay_le)

lemma request_mode_keeps_ok:
  assumes "mm_ok m" "0 \<le> c"
  shows "mm_ok (request_mode md c e m)"
proof -
  have "0 \<le> min 1 (mm_mode_confidence m d + 1 / 10 * c)" "max 0 (mm_mode_confidence m d - 5 / 100) \<le> 1" for d
    using assms by (auto simp: mm_ok_def intro: order_trans [of _ "mm_mode_confidence m d"])
  with assms show ?thesis by (simp add: mm_ok_def request_mode_def SET_MODE_TIMEOUT_def Let_def)
qed

lemma mm_step_ok: "mm_ok m \<Longrightarrow> request_ok r \<Longrightarrow> mm_ok (mm_step r m)"
  by (cases r) (simp add: mm_step_def request_ok_def mm_update_ok request_mode_keeps_ok)

lemma mm_step_emergency:
  "mm_current_mode (mm_step (md, c, True) m) = md" "mm_transition_timeout (mm_step (md, c, True) m) = 14"
  by (simp_all add: mm_step_def request_mode_def mm_update_def SET_MODE_TIMEOUT_def Let_def)

lemma mm_step_keeps_blended:
  assumes "mm_current_mode m = DM_blended" "0 < mm_transition_timeout m" "request_ok r"
  shows "mm_current_mode (mm_step r m) = DM_blended \<and> mm_transition_timeout m - 1 \<le> mm_transition_timeout (mm_step r m) \<or>
    mm_current_mode (mm_step r m) = DM_blended \<and> mm_transition_timeout (mm_step r m) = 14"
  using assms
  by (cases r) (auto simp: mm_step_def request_ok_def request_mode_def mm_update_def SET_MODE_TIMEOUT_def Let_def)

lemma mm_step_enters:
  "mm_current_mode m \<noteq> mm_current_mode (mm_step r m) \<Longrightarrow> mm_transition_timeout (mm_step r m) = 14"
  by (cases r) (auto simp: mm_step_def request_mode_def mm_update_def SET_MODE_TIMEOUT_def Let_def split: if_splits)

subsection \<open>Frames of the controller\<close>

lemma calculate_slow_down_simps [simp]:
  "dc_mode_manager (calculate_slow_down i s) = dc_mode_manager s" "dc_mpc_fcw_filter (calculate_slow_down i s) = dc_mpc_fcw_filter s"
  "dc_has_mpc_fcw (calculate_slow_down i s) = dc_has_mpc_fcw s" "dc_standstill_count (calculate_slow_down i s) = dc_standstill_count s"
  by (simp_all add: calculate_slow_down_def Let_def)

lemma detect_slowness_simps [simp]:
  "dc_mode_manager (dc_detect_slowness s) = dc_mode_manager s" "dc_mpc_fcw_filter (dc_detect_slowness s) = dc_mpc_fcw_filter s"
  "dc_has_mpc_fcw (dc_detect_slowness s) = dc_has_mpc_fcw s" "dc_urgency (dc_detect_slowness s) = dc_urgency s"
  "dc_has_slow_down (dc_detect_slowness s) = dc_has_slow_down s"
  by (simp_all add: dc_detect_slowness_def Let_def)

lemma slow_down_urgent: "dc_has_slow_down (calculate_slow_down i s) \<Longrightarrow> 0 < dc_urgency (calculate_slow_down i s)"
  by (auto simp: calculate_slow_down_def SLOW_DOWN_PROB_def Let_def)

lemma prepare_simps [simp]:
  "dc_mode_manager (dc_prepare s i) = dc_mode_manager s"
  "dc_has_mpc_fcw (dc_prepare s i) \<longleftrightarrow> kf_value_or_zero (dc_mpc_fcw_filter s) > 1 / 2"
  by (simp_all add: dc_prepare_def dc_update_calculations_def dc_read_params_def Let_def)

lemma prepare_urgent: "dc_has_slow_down (dc_prepare s i) \<Longrightarrow> 0 < dc_urgency (dc_prepare s i)"
  unfolding dc_prepare_def dc_update_calculations_def Let_def detect_slowness_simps by (rule slow_down_urgent)

lemma decide_ok: "request_ok (dc_decide i (dc_prepare s i))"
  using prepare_urgent [of s i] by (auto simp: dc_decide_def radarless_mode_def radar_mode_def request_ok_def)

lemma update_manager: "dc_mode_manager (dc_update s i) = mm_step (dc_decide i (dc_prepare s i)) (dc_mode_manager s)"
  by (simp add: dc_update_def dc_request_def mm_step_def Let_def case_prod_beta)

interpretation dec_run: frame_machine dc_update "\<lambda>_. True" "\<lambda>s. mm_ok (dc_mode_manager s)"
  by unfold_locales (simp add: update_manager mm_step_ok decide_ok)

text \<open>A warning of a forward collision, once filtered, selects \<open>blended\<close> in that frame.\<close>

lemma fcw_selects_blended:
  "kf_value_or_zero (dc_mpc_fcw_filter s) > 1 / 2 \<Longrightarrow> dec_mode_of (dc_update s i) = DM_blended"
  by (simp add: dec_mode_of_def update_manager dc_decide_def radarless_mode_def radar_mode_def mm_step_emergency)

lemma blended_run:
  "mm_current_mode (dc_mode_manager s) = DM_blended \<Longrightarrow> int (length is) \<le> mm_transition_timeout (dc_mode_manager s) \<Longrightarrow>
   length is \<le> 14 \<Longrightarrow> dec_mode_of (frames dc_update s is) = DM_blended"
proof (induction "is" arbitrary: s)
  case (Cons i "is")
  let ?m = "dc_mode_manager s" and ?m' = "dc_mode_manager (dc_update s i)"
  have "mm_current_mode ?m' = DM_blended" "mm_transition_timeout ?m - 1 \<le> mm_transition_timeout ?m' \<or> mm_transition_timeout ?m' = 14"
    using mm_step_keeps_blended [OF Cons.prems(1) _ decide_ok [of i s]] Cons.prems(2) by (auto simp: update_manager)
  with Cons show ?case by fastforce
qed (simp add: dec_mode_of_def)

text \<open>
  The experimental mode is not left in a hurry: when a frame of the controller changes from
  \<open>acc\<close> to \<open>blended\<close>, the mode is still \<open>blended\<close> after each of the following 14 frames,
  whatever they bring.
\<close>

theorem blended_mode_dwells:
  assumes "dec_mode_of s = DM_acc" "dec_mode_of (dc_update s i) = DM_blended" "length is \<le> 14"
  shows "dec_mode_of (frames dc_update (dc_update s i) is) = DM_blended"
proof (rule blended_run)
  show "mm_current_mode (dc_mode_manager (dc_update s i)) = DM_blended" using assms(2) by (simp add: dec_mode_of_def)
  have "mm_transition_timeout (dc_mode_manager (dc_update s i)) = 14"
    using assms(1,2) mm_step_enters [of "dc_mode_manager s" "dc_decide i (dc_prepare s i)"] by (simp add: dec_mode_of_def update_manager)
  then show "int (length is) \<le> mm_transition_timeout (dc_mode_manager (dc_update s i))" using assms(3) by simp
qed (fact assms(3))

subsection \<open>The return to acc\<close>

fun acc_confidence :: "nat \<Rightarrow> real" where
  "acc_confidence 0 = 0"
| "acc_confidence (Suc k) = min 1 (acc_confidence k + 7 / 100) * (98 / 100)"

definition acc_progress :: "nat \<Rightarrow> mode_manager \<Rightarrow> bool" where
  "acc_progress k m \<longleftrightarrow> mm_current_mode m = DM_acc \<or>
     mm_transition_timeout m \<le> SET_MODE_TIMEOUT - int k \<and> int k \<le> mm_mode_duration m \<and>
     acc_confidence k \<le> mm_mode_confidence m DM_acc"

lemma acc_progress_step:
  assumes "mm_ok m" "acc_progress k m" "request_ok r" "fst r = DM_acc"
  shows "acc_progress (Suc k) (mm_step r m) \<or> 15 \<le> k"
proof -
  obtain c where r: "r = (DM_acc, c, False)" and c: "7 / 10 \<le> c" using assms(3,4) by (cases r) (auto simp: request_ok_def)
  show ?thesis
  proof (cases "mm_current_mode m")
    case DM_acc
    then show ?thesis by (auto simp: r acc_progress_def mm_step_def request_mode_def mm_update_def Let_def)
  next
    case DM_blended
    then have prog: "mm_transition_timeout m \<le> 15 - int k" "int k \<le> mm_mode_duration m" "acc_confidence k \<le> mm_mode_confidence m DM_acc"
      using assms(2) by (simp_all add: acc_progress_def SET_MODE_TIMEOUT_def)
    have "min 1 (acc_confidence k + 7 / 100) \<le> min 1 (mm_mode_confidence m DM_acc + c / 10)" using prog(3) c by auto
    with prog show ?thesis
      by (auto simp: r acc_progress_def mm_step_def request_mode_def mm_update_def SET_MODE_TIMEOUT_def Let_def)
  qed
qed

lemma acc_run:
  assumes "mm_ok (dc_mode_manager s)" "length is \<le> 15"
    and "\<And>k. k < length is \<Longrightarrow> fst (dc_decide (is ! k) (dc_prepare (frames dc_update s (take k is)) (is ! k))) = DM_acc"
  shows "acc_progress (length is) (dc_mode_manager (frames dc_update s is))"
  using assms(2,3)
proof (induction "is" rule: rev_induct)
  case Nil
  then show ?case using assms(1) by (simp add: acc_progress_def mm_ok_def)
next
  case (snoc i "is")
  let ?s = "frames dc_update s is"
  have last: "fst (dc_decide i (dc_prepare ?s i)) = DM_acc" using snoc.prems(2) [of "length is"] by simp
  have "fst (dc_decide (is ! k) (dc_prepare (frames dc_update s (take k is)) (is ! k))) = DM_acc" if "k < length is" for k
    using snoc.prems(2) [of k] that by (simp add: nth_append)
  with snoc have "acc_progress (length is) (dc_mode_manager ?s)" by simp
  moreover have "mm_ok (dc_mode_manager ?s)" using dec_run.run_inv [of s "is"] assms(1) by simp
  ultimately show ?case
    using acc_progress_step [of "dc_mode_manager ?s" "length is", OF _ _ decide_ok last] snoc.prems(1) by (auto simp: update_manager)
qed

text \<open>Sixteen frames that ask for \<open>acc\<close> end in \<open>acc\<close>, from every state the controller can reach.\<close>

lemma returns_to_acc:
  assumes "mm_ok (dc_mode_manager s)" "length is = 16"
    and acc: "\<And>k. k < 16 \<Longrightarrow> fst (dc_decide (is ! k) (dc_prepare (frames dc_update s (take k is)) (is ! k))) = DM_acc"
  shows "dec_mode_of (frames dc_update s is) = DM_acc"
proof -
  let ?s = "frames dc_update s (take 15 is)" and ?i = "is ! 15"
  have "acc_progress 15 (dc_mode_manager ?s)"
    using acc_run [of s "take 15 is"] assms by (simp add: min_def)
  moreover have "acc_confidence 15 > 53 / 100" by (simp add: eval_nat_numeral)
  moreover have "mm_ok (dc_mode_manager ?s)" using dec_run.run_inv [of s "take 15 is"] assms(1) by simp
  moreover obtain c where "dc_decide ?i (dc_prepare ?s ?i) = (DM_acc, c, False)" "7 / 10 \<le> c"
    using acc [of 15] decide_ok [of ?i ?s] by (cases "dc_decide ?i (dc_prepare ?s ?i)") (auto simp: request_ok_def)
  ultimately have "dec_mode_of (dc_update ?s ?i) = DM_acc"
    by (auto simp: dec_mode_of_def update_manager acc_progress_def mm_ok_def mm_step_def request_mode_def mm_update_def
        SET_MODE_TIMEOUT_def Let_def)
  moreover have "is = take 15 is @ [?i]" using assms(2) by (simp flip: take_Suc_conv_app_nth)
  ultimately show ?thesis by (metis frames.simps frames_append)
qed

text \<open>A frame at low speed, without a trajectory, with a crash predicted by the MPC: the second such frame changes the mode.\<close>

definition example_dec_in :: dec_in where
  "example_dec_in = \<lparr>di_DynamicExperimentalControl = True, di_radarUnavailable = False, di_vEgo = 5, di_vCruise = 100,
     di_standstill = False, di_lead_present = False, di_crash_cnt = 1, di_position_x = [],
     di_orientation_x = [], di_experimentalMode = True\<rparr>"

lemma decide_calm: "\<not> dc_has_mpc_fcw s \<Longrightarrow> \<not> dc_has_slow_down s \<Longrightarrow> \<not> snd (snd (dc_decide i s))"
  by (simp add: dc_decide_def radarless_mode_def radar_mode_def)

lemma update_fcw_filter:
  "dc_mpc_fcw_filter (dc_update s i) = kf_add_data (of_bool (di_crash_cnt i > 0)) (dc_mpc_fcw_filter s)"
  by (simp add: dc_update_def dc_request_def dc_prepare_def dc_update_calculations_def dc_read_params_def Let_def case_prod_beta)

lemma calculate_slow_down_invalid:
  "di_position_x i = [] \<Longrightarrow> dc_has_slow_down (calculate_slow_down i s) \<longleftrightarrow>
     kf_value_or_zero (kf_add_data (if dc_v_ego_kph s > 20 then 3 / 10 else 0) (dc_slow_down_filter s)) > SLOW_DOWN_PROB"
  by (simp add: calculate_slow_down_def TRAJECTORY_SIZE_def Let_def)

lemma example_dec_calm: "\<not> dc_has_slow_down (dc_prepare (DynamicExperimentalController True) example_dec_in)"
proof -
  have pos: "di_position_x example_dec_in = []" "di_vEgo example_dec_in = 5" by (simp_all add: example_dec_in_def)
  have f: "kf_value_or_zero (kf_add_data 0 (dc_slow_down_filter (DynamicExperimentalController True))) = 0"
    by (simp add: DynamicExperimentalController_def SmoothKalmanFilter_def kf_add_data_def kf_value_or_zero_def kf_get_value_def)
  show ?thesis
    unfolding dc_prepare_def dc_update_calculations_def Let_def detect_slowness_simps calculate_slow_down_invalid [OF pos(1)] pos(2)
    using f by (simp add: dc_read_params_def SLOW_DOWN_PROB_def)
qed

lemma example_dec_first:
  "dec_mode_of (dc_update (DynamicExperimentalController True) example_dec_in) = DM_acc"
  "kf_value_or_zero (dc_mpc_fcw_filter (dc_update (DynamicExperimentalController True) example_dec_in)) = 1"
proof -
  let ?s = "DynamicExperimentalController True"
  have nofcw: "\<not> dc_has_mpc_fcw (dc_prepare ?s example_dec_in)"
    by (simp add: DynamicExperimentalController_def kf_value_or_zero_def kf_get_value_def SmoothKalmanFilter_def)
  obtain md c where "dc_decide example_dec_in (dc_prepare ?s example_dec_in) = (md, c, False)"
    using decide_calm [OF nofcw example_dec_calm] by (metis prod.collapse)
  then show "dec_mode_of (dc_update ?s example_dec_in) = DM_acc"
    by (simp add: dec_mode_of_def update_manager mm_step_def DynamicExperimentalController_def ModeTransitionManager_def
        request_mode_def mm_update_def Let_def)
  show "kf_value_or_zero (dc_mpc_fcw_filter (dc_update ?s example_dec_in)) = 1"
    using update_fcw_filter [of ?s example_dec_in]
    by (simp add: example_dec_in_def DynamicExperimentalController_def SmoothKalmanFilter_def kf_add_data_def
        kf_value_or_zero_def kf_get_value_def)
qed

theorem blended_mode_dwells_witness:
  "dec_mode_of (frames dc_update (DynamicExperimentalController True) (replicate 16 example_dec_in)) = DM_blended"
proof -
  let ?s = "dc_update (DynamicExperimentalController True) example_dec_in"
  have "replicate 16 example_dec_in = example_dec_in # example_dec_in # replicate 14 example_dec_in" by (simp add: eval_nat_numeral)
  moreover have "dec_mode_of (dc_update ?s example_dec_in) = DM_blended" by (rule fcw_selects_blended) (simp add: example_dec_first)
  then have "dec_mode_of (frames dc_update (dc_update ?s example_dec_in) (replicate 14 example_dec_in)) = DM_blended"
    by (rule blended_mode_dwells [OF example_dec_first(1)]) simp
  ultimately show ?thesis by simp
qed

end
