(* ===== verification/Long_Decision.thy ===== *)
theory Long_Decision
  imports Car_State
begin

text \<open>
  The decision core of the custom longitudinal stack, \<open>sunnypilot/custom/longitudinal\<close>: the gate
  that admits classes of evidence per mode (\<open>modes.py\<close>), the arbitration of candidates
  (\<open>decision.py\<close>) and the gate for research actuation (\<open>research_actuation.py\<close>). A number that may
  be missing or not finite is an option. The lemmas show that hazards bind, that caps restrict,
  and that excluded evidence has no effect on the command.
\<close>

subsection \<open>Modes and evidence\<close>

text \<open>\<open>str.strip().lower()\<close>; letters outside ASCII never make a mode name.\<close>

definition py_space :: "char \<Rightarrow> bool" where
  "py_space c \<longleftrightarrow> (of_char c :: nat) \<in> set ([9..<14] @ [28..<33] @ [133, 160])"

definition py_lower_char :: "char \<Rightarrow> char" where
  "py_lower_char c = (let n = (of_char c :: nat) in if 65 \<le> n \<and> n \<le> 90 then char_of (n + 32) else c)"

definition py_strip :: "string \<Rightarrow> string" where
  "py_strip s = rev (dropWhile py_space (rev (dropWhile py_space s)))"

definition py_strip_lower :: "string \<Rightarrow> string" where
  "py_strip_lower s = map py_lower_char (py_strip s)"

text \<open>A parameter value: a mode, or text (bytes are decoded; a false value is the empty text).\<close>

datatype mode_value = MV_mode longitudinal_mode | MV_text string

definition mode_names :: "(string \<times> longitudinal_mode) list" where
  "mode_names = [(''acc'', LM_ACC), (''e2e'', LM_E2E), (''scc'', LM_SCC)]"

definition from_value :: "mode_value \<Rightarrow> longitudinal_mode option \<Rightarrow> longitudinal_mode" where
  "from_value v dflt =
     (case v of
        MV_mode m \<Rightarrow> m
      | MV_text s \<Rightarrow>
          (let text = py_strip_lower s; d = (case dflt of Some m \<Rightarrow> m | None \<Rightarrow> LM_ACC)
           in case map_of mode_names text of
                Some m \<Rightarrow> m
              | None \<Rightarrow> dict_get (map_of [(''0'', LM_ACC), (''1'', LM_E2E), (''2'', LM_SCC)]) text d))"

datatype evidence_class = EC_CRUISE | EC_LEAD | EC_MODEL_STOP | EC_SPEED_LIMIT | EC_CURVE_VISION | EC_CURVE_MAP

record source_toggles =
  st_scc_curve_vision_enabled :: bool
  st_scc_curve_map_enabled :: bool

definition ACC_EVIDENCE :: "evidence_class list" where "ACC_EVIDENCE = [EC_CRUISE, EC_LEAD]"
definition E2E_EVIDENCE :: "evidence_class list" where "E2E_EVIDENCE = ACC_EVIDENCE @ [EC_MODEL_STOP]"
definition SCC_BASE_EVIDENCE :: "evidence_class list" where "SCC_BASE_EVIDENCE = E2E_EVIDENCE @ [EC_SPEED_LIMIT]"

definition admitted_evidence :: "longitudinal_mode \<Rightarrow> source_toggles \<Rightarrow> evidence_class list" where
  "admitted_evidence mode sources =
     (case mode of
        LM_ACC \<Rightarrow> ACC_EVIDENCE
      | LM_E2E \<Rightarrow> E2E_EVIDENCE
      | LM_SCC \<Rightarrow> SCC_BASE_EVIDENCE @ (if st_scc_curve_vision_enabled sources then [EC_CURVE_VISION] else []) @
          (if st_scc_curve_map_enabled sources then [EC_CURVE_MAP] else []))"

definition is_admitted :: "longitudinal_mode \<Rightarrow> evidence_class \<Rightarrow> source_toggles \<Rightarrow> bool" where
  "is_admitted mode evidence sources \<longleftrightarrow> evidence \<in> set (admitted_evidence mode sources)"

text \<open>
  The research gate. \<open>None\<close> for a cached flag means that the parameter is read; a read that raises
  is \<open>None\<close> and closes the gate.
\<close>

definition research_actuation_allowed ::
  "bool \<Rightarrow> bool option \<Rightarrow> bool option \<Rightarrow> bool option \<Rightarrow> bool option \<Rightarrow> bool" where
  "research_actuation_allowed op_long param_custom param_research custom_long_enabled allow_research =
     (if \<not> op_long then False
      else case (case custom_long_enabled of Some b \<Rightarrow> Some b | None \<Rightarrow> param_custom) of
          None \<Rightarrow> False
        | Some custom \<Rightarrow>
            (case (case allow_research of Some b \<Rightarrow> Some b | None \<Rightarrow> param_research) of
               None \<Rightarrow> False
             | Some research \<Rightarrow> custom \<and> research))"

subsection \<open>Arbitration of candidates\<close>

definition INTENT_HOLD_MARGIN :: real where "INTENT_HOLD_MARGIN = 5 / 100"

datatype candidate_role = CR_PHYSICAL_HAZARD | CR_ADVISORY_CAP | CR_COMFORT_RELAX | CR_PROGRESS | CR_CRUISE

fun role_value :: "candidate_role \<Rightarrow> string" where
  "role_value CR_PHYSICAL_HAZARD = ''physical_hazard''"
| "role_value CR_ADVISORY_CAP = ''advisory_cap''"
| "role_value CR_COMFORT_RELAX = ''comfort_relax''"
| "role_value CR_PROGRESS = ''progress''"
| "role_value CR_CRUISE = ''cruise''"

record candidate =
  cd_a_target :: "real option"
  cd_role :: candidate_role
  cd_source :: evidence_class
  cd_intent :: string
  cd_authorized :: bool
  cd_is_stop :: bool

record decision =
  dn_a_target :: real
  dn_should_stop :: bool
  dn_selected_intent :: string
  dn_reason :: string
  dn_admitted_sources :: "evidence_class list"
  dn_rejected :: "string list"

definition str_or :: "string \<Rightarrow> string \<Rightarrow> string" where
  "str_or a b = (if a = '''' then b else a)"

definition cd_a :: "candidate \<Rightarrow> real" where
  "cd_a c = (case cd_a_target c of Some a \<Rightarrow> a | None \<Rightarrow> 0)"

definition cd_usable :: "evidence_class list \<Rightarrow> candidate \<Rightarrow> bool" where
  "cd_usable admitted c \<longleftrightarrow> cd_a_target c \<noteq> None \<and> cd_source c \<in> set admitted"

definition cd_rejection :: "evidence_class list \<Rightarrow> candidate \<Rightarrow> string list" where
  "cd_rejection admitted c =
     (if cd_a_target c = None then [str_or (cd_intent c) (role_value (cd_role c)) @ '':nonfinite'']
      else if cd_source c \<notin> set admitted then [str_or (cd_intent c) (role_value (cd_role c)) @ '':mode_excluded'']
      else [])"

text \<open>\<open>max(xs, key=...)\<close> returns the first of the greatest; the key is the pair of target and role.\<close>

definition desire_less :: "candidate \<Rightarrow> candidate \<Rightarrow> bool" where
  "desire_less c d \<longleftrightarrow> cd_a c < cd_a d \<or> cd_a c = cd_a d \<and> cd_role c \<noteq> CR_PROGRESS \<and> cd_role d = CR_PROGRESS"

fun desire_winner :: "candidate list \<Rightarrow> candidate option" where
  "desire_winner [] = None"
| "desire_winner (c # cs) = Some (foldl (\<lambda>b d. if desire_less b d then d else b) c cs)"

definition with_role :: "candidate_role \<Rightarrow> candidate list \<Rightarrow> candidate list" where
  "with_role r cs = filter (\<lambda>c. cd_role c = r) cs"

definition desires :: "candidate list \<Rightarrow> candidate list" where
  "desires usable = with_role CR_CRUISE usable @ filter cd_authorized (with_role CR_PROGRESS usable)"

definition advisory_cap :: "real \<Rightarrow> candidate list \<Rightarrow> real" where
  "advisory_cap a_max usable =
     (let caps = map cd_a (with_role CR_ADVISORY_CAP usable); relaxes = map cd_a (with_role CR_COMFORT_RELAX usable);
          cap = (if caps = [] then a_max else Min (set caps))
      in if relaxes \<noteq> [] \<and> caps \<noteq> [] then max cap (min (Max (set relaxes)) a_max) else cap)"

definition base_target :: "real \<Rightarrow> candidate list \<Rightarrow> real" where
  "base_target a_max usable =
     min (case desire_winner (desires usable) of Some w \<Rightarrow> cd_a w | None \<Rightarrow> min 0 a_max) (advisory_cap a_max usable)"

definition base_intent :: "candidate list \<Rightarrow> string" where
  "base_intent usable =
     (case desire_winner (desires usable) of
        Some w \<Rightarrow> if cd_role w = CR_PROGRESS then str_or (cd_intent w) ''progress'' else ''cruise''
      | None \<Rightarrow> ''cruise'')"

definition bind_hazards :: "candidate list \<Rightarrow> real \<times> string \<times> string \<Rightarrow> real \<times> string \<times> string" where
  "bind_hazards hazards t =
     (case t of (a_target, intent, reason) \<Rightarrow>
        if hazards \<noteq> [] \<and> cd_a (arg_min_list cd_a hazards) < a_target
        then (cd_a (arg_min_list cd_a hazards), str_or (cd_intent (arg_min_list cd_a hazards)) ''physical_hazard'', ''physical_hazard'')
        else t)"

definition hold_intent :: "candidate list \<Rightarrow> string \<Rightarrow> real \<Rightarrow> string \<Rightarrow> string" where
  "hold_intent usable previous_intent a_target intent =
     (if previous_intent \<noteq> '''' \<and> previous_intent \<noteq> intent then
        (case filter (\<lambda>c. cd_intent c = previous_intent) usable of
           incumbent # _ \<Rightarrow> if \<bar>cd_a incumbent - a_target\<bar> \<le> INTENT_HOLD_MARGIN then previous_intent else intent
         | [] \<Rightarrow> intent)
      else intent)"

definition decide ::
  "candidate list \<Rightarrow> longitudinal_mode \<Rightarrow> real option \<times> real option \<Rightarrow> source_toggles \<Rightarrow> string \<Rightarrow> decision" where
  "decide candidates mode accel_limits sources previous_intent =
     (case accel_limits of
        (Some a_min, Some a_max) \<Rightarrow>
          if a_min > a_max
          then \<lparr>dn_a_target = 0, dn_should_stop = False, dn_selected_intent = ''fault'', dn_reason = ''invalid_accel_limits'',
                dn_admitted_sources = [], dn_rejected = []\<rparr>
          else
            (let admitted = admitted_evidence mode sources;
                 usable = filter (cd_usable admitted) candidates;
                 hazards = with_role CR_PHYSICAL_HAZARD usable;
                 reason = (if with_role CR_ADVISORY_CAP usable = [] then ''cruise'' else ''advisory_capped'');
                 (a_target, intent, reason) = bind_hazards hazards (base_target a_max usable, base_intent usable, reason);
                 a_target = min (max a_target a_min) a_max
             in \<lparr>dn_a_target = a_target, dn_should_stop = list_ex cd_is_stop hazards,
                 dn_selected_intent = hold_intent usable previous_intent a_target intent, dn_reason = reason,
                 dn_admitted_sources = admitted, dn_rejected = concat (map (cd_rejection admitted) candidates)\<rparr>)
      | _ \<Rightarrow> \<lparr>dn_a_target = 0, dn_should_stop = False, dn_selected_intent = ''fault'', dn_reason = ''invalid_accel_limits'',
              dn_admitted_sources = [], dn_rejected = []\<rparr>)"

subsection \<open>Hazards bind, caps restrict, excluded evidence is without effect\<close>

text \<open>The target before clipping, as a specification: the desire, under the cap, under every hazard.\<close>

lemma arg_min_list_le: "x \<in> set xs \<Longrightarrow> f (arg_min_list f xs) \<le> (f x :: real)"
  using f_arg_min_list_f [of xs f] by (cases xs) auto

lemma bind_hazards_target:
  "fst (bind_hazards hs (a, i, r)) = Min (insert a (set (map cd_a hs)))"
proof (cases "hs = []")
  case False
  have "cd_a (arg_min_list cd_a hs) \<in> set (map cd_a hs)" using arg_min_list_in [OF False, of cd_a] by simp
  then have "Min (set (map cd_a hs)) = cd_a (arg_min_list cd_a hs)"
    using arg_min_list_le [of _ hs cd_a] by (intro Min_eqI) auto
  with False show ?thesis by (auto simp: bind_hazards_def Min_insert2 min_def)
qed (simp add: bind_hazards_def)

lemma decide_target:
  fixes cs mode sources
  assumes "a_min \<le> a_max"
  defines "usable \<equiv> filter (cd_usable (admitted_evidence mode sources)) cs"
  shows "dn_a_target (decide cs mode (Some a_min, Some a_max) sources prev) =
      min (max (Min (insert (base_target a_max usable) (set (map cd_a (with_role CR_PHYSICAL_HAZARD usable))))) a_min) a_max"
  using assms by (simp add: decide_def Let_def case_prod_beta bind_hazards_target)

lemma decide_stop:
  assumes "a_min \<le> a_max"
  shows "dn_should_stop (decide cs mode (Some a_min, Some a_max) sources prev) \<longleftrightarrow>
    list_ex cd_is_stop (with_role CR_PHYSICAL_HAZARD (filter (cd_usable (admitted_evidence mode sources)) cs))"
  using assms by (simp add: decide_def Let_def case_prod_beta)

lemma base_target_le_cap:
  assumes "c \<in> set usable" "cd_role c = CR_ADVISORY_CAP"
  shows "base_target a_max usable \<le> cd_a c \<or> (\<exists>x \<in> set usable. cd_role x = CR_COMFORT_RELAX \<and> base_target a_max usable \<le> cd_a x)"
proof -
  let ?caps = "set (map cd_a (with_role CR_ADVISORY_CAP usable))" and ?rs = "set (map cd_a (with_role CR_COMFORT_RELAX usable))"
  have c: "c \<in> set (with_role CR_ADVISORY_CAP usable)" using assms by (simp add: with_role_def)
  then have min: "Min ?caps \<le> cd_a c" by auto
  have b: "base_target a_max usable \<le> advisory_cap a_max usable" by (simp add: base_target_def)
  show ?thesis
  proof (cases "with_role CR_COMFORT_RELAX usable = []")
    case True
    then have "advisory_cap a_max usable = Min ?caps" using c by (auto simp: advisory_cap_def Let_def)
    then show ?thesis using b min by simp
  next
    case False
    then have "advisory_cap a_max usable = max (Min ?caps) (min (Max ?rs) a_max)"
      using c by (auto simp: advisory_cap_def Let_def)
    then have "advisory_cap a_max usable \<le> max (Min ?caps) (Max ?rs)" by simp
    moreover have "Max ?rs \<in> ?rs" using False by (intro Max_in) simp_all
    then obtain x where "x \<in> set usable" "cd_role x = CR_COMFORT_RELAX" "cd_a x = Max ?rs" by (auto simp: with_role_def)
    ultimately show ?thesis using b min by (auto simp: le_max_iff_disj intro: order_trans)
  qed
qed

lemma decide_ignores_excluded:
  fixes cs mode sources
  defines "us \<equiv> filter (cd_usable (admitted_evidence mode sources)) cs"
  shows "(decide us mode lims sources prev)\<lparr>dn_rejected := rs\<rparr> = (decide cs mode lims sources prev)\<lparr>dn_rejected := rs\<rparr>"
proof -
  have idem: "filter P (filter P xs) = filter P xs" for P and xs :: "candidate list" by (induction xs) simp_all
  obtain lo hi where l: "lims = (lo, hi)" by (cases lims)
  show ?thesis
  proof (cases "\<exists>a_min a_max. lo = Some a_min \<and> hi = Some a_max \<and> \<not> a_min > a_max")
    case True
    then obtain a_min a_max where v: "lims = (Some a_min, Some a_max)" "\<not> a_min > a_max" using l by blast
    show ?thesis unfolding decide_def us_def v(1) Let_def
      by (simp only: case_prod_beta) (simp only: fst_conv snd_conv option.case v(2) if_False idem decision.simps)
  next
    case False
    then show ?thesis unfolding decide_def l by (cases lo; cases hi) simp_all
  qed
qed

text \<open>
  C22. The decision core keeps its promises. With valid limits the command lies within them; every
  admitted physical hazard binds: the command is at most the hazard's target (or the lower limit),
  and a stop hazard makes the core ask for a stop. Every admitted advisory cap restricts the command
  in the same way, unless an admitted comfort candidate softens it: then the command exceeds the
  cap at most up to the target of that comfort candidate; without comfort candidates the cap
  binds. Candidates that are not finite or that the mode excludes have no effect on the decision
  beyond their entry in the list of rejected ones; and the intent of the last frame has no effect on
  the command.
\<close>

theorem decision_is_safe:
  fixes cs :: "candidate list" and a_min a_max :: real and mode sources prev
  assumes "a_min \<le> a_max"
  defines "d \<equiv> decide cs mode (Some a_min, Some a_max) sources prev"
    and "us \<equiv> filter (cd_usable (admitted_evidence mode sources)) cs"
  shows "a_min \<le> dn_a_target d \<and> dn_a_target d \<le> a_max \<and>
    (\<forall>c \<in> set us. cd_role c = CR_PHYSICAL_HAZARD \<longrightarrow>
       dn_a_target d \<le> max a_min (cd_a c) \<and> (cd_is_stop c \<longrightarrow> dn_should_stop d)) \<and>
    (\<forall>c \<in> set us. cd_role c = CR_ADVISORY_CAP \<longrightarrow>
       dn_a_target d \<le> max a_min (cd_a c) \<or>
       (\<exists>x \<in> set us. cd_role x = CR_COMFORT_RELAX \<and> dn_a_target d \<le> max a_min (cd_a x))) \<and>
    (decide us mode (Some a_min, Some a_max) sources prev)\<lparr>dn_rejected := dn_rejected d\<rparr> = d \<and>
    dn_a_target (decide cs mode (Some a_min, Some a_max) sources prev') = dn_a_target d"
proof -
  let ?hs = "with_role CR_PHYSICAL_HAZARD us"
  let ?m = "Min (insert (base_target a_max us) (set (map cd_a ?hs)))"
  have t: "dn_a_target (decide cs mode (Some a_min, Some a_max) sources p) = min (max ?m a_min) a_max" for p
    unfolding us_def by (rule decide_target [OF assms(1)])
  have le: "dn_a_target d \<le> max a_min x" if "?m \<le> x" for x
    unfolding d_def t using that by (auto simp: le_max_iff_disj min_le_iff_disj)
  have "?m \<le> cd_a c \<and> (cd_is_stop c \<longrightarrow> dn_should_stop d)" if "c \<in> set us" "cd_role c = CR_PHYSICAL_HAZARD" for c
  proof -
    have c: "c \<in> set ?hs" using that by (simp add: with_role_def)
    then have "?m \<le> cd_a c" by (intro Min_le) auto
    with c show ?thesis by (auto simp: d_def decide_stop [OF assms(1)] us_def list_ex_iff)
  qed
  moreover have "?m \<le> base_target a_max us" by simp
  then have "?m \<le> cd_a c \<or> (\<exists>x \<in> set us. cd_role x = CR_COMFORT_RELAX \<and> ?m \<le> cd_a x)" if "c \<in> set us" "cd_role c = CR_ADVISORY_CAP" for c
    using base_target_le_cap [OF that, of a_max] by (blast intro: order_trans)
  moreover have "(decide us mode (Some a_min, Some a_max) sources prev)\<lparr>dn_rejected := dn_rejected d\<rparr> = d"
    unfolding us_def d_def decide_ignores_excluded by simp
  moreover have "a_min \<le> dn_a_target d" "dn_a_target d \<le> a_max" unfolding d_def t using assms(1) by simp_all
  moreover have "dn_a_target (decide cs mode (Some a_min, Some a_max) sources prev') = dn_a_target d" by (simp add: d_def t)
  ultimately show ?thesis using le by blast
qed

text \<open>A confirmed stop behind an excluded curve cap, in the mode that follows leads only.\<close>

definition example_candidates :: "candidate list" where
  "example_candidates =
     [\<lparr>cd_a_target = Some 1, cd_role = CR_CRUISE, cd_source = EC_CRUISE, cd_intent = ''cruise'', cd_authorized = True, cd_is_stop = False\<rparr>,
      \<lparr>cd_a_target = Some (-3), cd_role = CR_ADVISORY_CAP, cd_source = EC_CURVE_MAP, cd_intent = ''curve'', cd_authorized = True, cd_is_stop = False\<rparr>,
      \<lparr>cd_a_target = Some (-1), cd_role = CR_PHYSICAL_HAZARD, cd_source = EC_LEAD, cd_intent = ''lead'', cd_authorized = True, cd_is_stop = True\<rparr>]"

theorem decision_is_safe_witness:
  "let d = decide example_candidates LM_ACC (Some (-2), Some 2) \<lparr>st_scc_curve_vision_enabled = True, st_scc_curve_map_enabled = True\<rparr> ''''
   in dn_a_target d \<le> -1 \<and> dn_should_stop d \<and> -2 \<le> dn_a_target d"
  using decision_is_safe [of "-2" 2 example_candidates LM_ACC "\<lparr>st_scc_curve_vision_enabled = True, st_scc_curve_map_enabled = True\<rparr>" "[]" "[]"]
  by (simp add: example_candidates_def cd_usable_def admitted_evidence_def ACC_EVIDENCE_def cd_a_def Let_def)

end
