(* ===== verification/Long_Shaping.thy ===== *)
theory Long_Shaping
  imports Long_Control Long_Decision
begin

text \<open>
  Shaping stages of the custom longitudinal stack, \<open>sunnypilot/custom/longitudinal\<close>: the coast
  horizon with the drag estimate, the runway governor, the synthesis of a jerk-limited trajectory,
  the envelope for following a lead, the release of a lead that leaves the path, the brake assist
  for cut-ins and the confidence of a standstill release. A number that may be missing or not
  finite is an option, infinity is \<open>None\<close> in a result.
\<close>

definition finite_or :: "real option \<Rightarrow> real \<Rightarrow> real" where
  "finite_or v d = (case v of Some x \<Rightarrow> x | None \<Rightarrow> d)"

definition clip :: "real \<Rightarrow> real \<Rightarrow> real \<Rightarrow> real" where
  "clip v lo hi = max lo (min hi v)"

subsection \<open>Coast horizon\<close>

definition MIN_COAST_DECEL :: real where "MIN_COAST_DECEL = -2"
definition MAX_COAST_DECEL :: real where "MAX_COAST_DECEL = -2 / 100"
definition DEFAULT_COAST_DECEL :: real where "DEFAULT_COAST_DECEL = -25 / 100"
definition COAST_ARRIVAL_MARGIN_S :: real where "COAST_ARRIVAL_MARGIN_S = 6 / 10"
definition MIN_USEFUL_DISTANCE :: real where "MIN_USEFUL_DISTANCE = 1"

datatype coast_action = CA_CRUISE | CA_COAST | CA_BRAKE

record coast_inputs =
  ci_v_ego :: "real option"
  ci_v_target :: "real option"
  ci_distance_to_constraint :: "real option"
  ci_accel_coast :: "real option"

record coast_result =
  cr_action :: coast_action
  cr_recommended_accel :: real
  cr_coast_distance :: real
  cr_lift_off_distance :: real
  cr_slack :: real

definition coast_decel_from_grade :: "real option \<Rightarrow> real option \<Rightarrow> real" where
  "coast_decel_from_grade rolling_coast_decel pitch_rad =
     (let grade_decel = - ACCELERATION_DUE_TO_GRAVITY * sin (finite_or pitch_rad 0)
      in clip (finite_or rolling_coast_decel 0 + grade_decel) MIN_COAST_DECEL (-1 / 1000))"

definition coast_horizon :: "coast_inputs \<Rightarrow> coast_result" where
  "coast_horizon inp =
     (let v0 = max 0 (finite_or (ci_v_ego inp) 0);
          v_t = max 0 (finite_or (ci_v_target inp) 0);
          dist = finite_or (ci_distance_to_constraint inp) 0;
          a_coast = clip (finite_or (ci_accel_coast inp) 0) MIN_COAST_DECEL MAX_COAST_DECEL
      in if v_t \<ge> v0
         then \<lparr>cr_action = CA_CRUISE, cr_recommended_accel = 0, cr_coast_distance = 0, cr_lift_off_distance = 0, cr_slack = dist\<rparr>
         else if dist \<le> MIN_USEFUL_DISTANCE
         then \<lparr>cr_action = CA_BRAKE, cr_recommended_accel = (v_t * v_t - v0 * v0) / (2 * MIN_USEFUL_DISTANCE),
               cr_coast_distance = 0, cr_lift_off_distance = 0, cr_slack = dist\<rparr>
         else
           (let coast_distance = (v_t * v_t - v0 * v0) / (2 * a_coast);
                lift_off_distance = coast_distance + COAST_ARRIVAL_MARGIN_S * v0;
                slack = dist - lift_off_distance;
                res = \<lparr>cr_action = CA_CRUISE, cr_recommended_accel = 0, cr_coast_distance = coast_distance,
                       cr_lift_off_distance = lift_off_distance, cr_slack = slack\<rparr>
            in if dist > lift_off_distance then res
               else if dist \<ge> coast_distance then res\<lparr>cr_action := CA_COAST, cr_recommended_accel := a_coast\<rparr>
               else res\<lparr>cr_action := CA_BRAKE,
                        cr_recommended_accel := (v_t * v_t - v0 * v0) / (2 * max dist MIN_USEFUL_DISTANCE)\<rparr>))"

record drag_estimator =
  de_alpha :: real
  de_coast_decel :: real

definition DragEstimator :: "real \<Rightarrow> drag_estimator" where
  "DragEstimator alpha = \<lparr>de_alpha = alpha, de_coast_decel = DEFAULT_COAST_DECEL\<rparr>"

definition de_update :: "real option \<Rightarrow> real option \<Rightarrow> real option \<Rightarrow> bool \<Rightarrow> bool \<Rightarrow> drag_estimator \<Rightarrow> drag_estimator" where
  "de_update v_ego a_ego pitch_rad on_throttle on_brake s =
     (if on_throttle \<or> on_brake \<or> finite_or v_ego 0 < 3 then s
      else
        (let grade_decel = - ACCELERATION_DUE_TO_GRAVITY * sin (finite_or pitch_rad 0);
             rolling = finite_or a_ego 0 - grade_decel
         in if MIN_COAST_DECEL \<le> rolling \<and> rolling \<le> MAX_COAST_DECEL
            then s\<lparr>de_coast_decel := clip (de_coast_decel s + de_alpha s * (rolling - de_coast_decel s)) MIN_COAST_DECEL MAX_COAST_DECEL\<rparr>
            else s))"

definition runway_comfort_governor :: "real option \<Rightarrow> real option \<Rightarrow> real option \<Rightarrow> real \<Rightarrow> real option \<Rightarrow> real" where
  "runway_comfort_governor v_ego v_target distance raw coast_decel =
     (let r = coast_horizon \<lparr>ci_v_ego = v_ego, ci_v_target = v_target, ci_distance_to_constraint = distance, ci_accel_coast = coast_decel\<rparr>
      in if cr_action r = CA_BRAKE
         then (if raw < 0 then min raw (cr_recommended_accel r) else cr_recommended_accel r)
         else max raw (cr_recommended_accel r))"

definition map_curve_soft_advance :: "real option \<Rightarrow> real option \<Rightarrow> real option \<Rightarrow> real \<Rightarrow> real option \<Rightarrow> real" where
  "map_curve_soft_advance v_ego curve_speed distance_to_curve raw_curve_accel coast_decel =
     runway_comfort_governor v_ego curve_speed distance_to_curve raw_curve_accel coast_decel"

subsection \<open>Trajectory synthesis\<close>

definition SYNTH_TRAJECTORY_DT :: real where "SYNTH_TRAJECTORY_DT = 2 / 10"
definition POSITIVE_PROGRESS_JERK :: real where "POSITIVE_PROGRESS_JERK = 4"
definition NORMAL_NEGATIVE_RETREAT_JERK :: real where "NORMAL_NEGATIVE_RETREAT_JERK = -5"
definition A_TARGET_EPS :: real where "A_TARGET_EPS = 1 / 10000"
definition CONTROL_N :: nat where "CONTROL_N = 17"

text \<open>\<open>math.isclose(a, b, abs_tol=...)\<close>, with the default relative tolerance.\<close>

definition py_isclose :: "real \<Rightarrow> real \<Rightarrow> real \<Rightarrow> bool" where
  "py_isclose a b abs_tol \<longleftrightarrow> \<bar>a - b\<bar> \<le> max (1 / 10 ^ 9 * max \<bar>a\<bar> \<bar>b\<bar>) abs_tol"

definition preserve_seed_trajectory :: "real \<Rightarrow> bool \<Rightarrow> real \<Rightarrow> bool" where
  "preserve_seed_trajectory output_a_target planner_seed_scalar a_target \<longleftrightarrow>
     (if planner_seed_scalar then False else py_isclose output_a_target a_target A_TARGET_EPS)"

definition MODEL_T_IDXS :: "real option list" where
  "MODEL_T_IDXS = map (\<lambda>i. Some (10 * (real i / 32)\<^sup>2)) [0..<33]"

definition synth_trajectory_dts :: "real option list \<Rightarrow> real list" where
  "synth_trajectory_dts t_idxs =
     (let times = take CONTROL_N t_idxs; fallback = replicate CONTROL_N SYNTH_TRAJECTORY_DT
      in if length times < CONTROL_N \<or> None \<in> set times then fallback
         else
           (let times = map the times;
                intervals = map (\<lambda>idx. times ! (idx + 1) - times ! idx) [0..<CONTROL_N - 1];
                dts = intervals @ [last intervals]
            in if \<not> list_all (\<lambda>dt. dt > 0) dts then fallback else dts))"

fun synth_accels :: "real \<Rightarrow> bool \<Rightarrow> real \<Rightarrow> real list \<Rightarrow> real list \<times> real list" where
  "synth_accels a_target limit_jerk current_accel [] = ([], [])"
| "synth_accels a_target limit_jerk current_accel (dt # dts) =
     (let next_accel =
            (if limit_jerk
             then current_accel + clip (a_target - current_accel) (NORMAL_NEGATIVE_RETREAT_JERK * dt) (POSITIVE_PROGRESS_JERK * dt)
             else a_target);
          (as, js) = synth_accels a_target limit_jerk next_accel dts
      in (next_accel # as, (next_accel - current_accel) / dt # js))"

fun synth_speeds :: "real \<Rightarrow> (real \<times> real) list \<Rightarrow> real list" where
  "synth_speeds current_speed [] = []"
| "synth_speeds current_speed ((accel, dt) # xs) = current_speed # synth_speeds (max 0 (current_speed + accel * dt)) xs"

definition synth_trajectory :: "real list \<Rightarrow> real list \<Rightarrow> real option \<Rightarrow> real \<Rightarrow> bool \<Rightarrow> real list \<times> real list \<times> real list" where
  "synth_trajectory speeds_in accels_in v_ego a_target limit_jerk =
     (let first = (case speeds_in of [] \<Rightarrow> 0 | v # _ \<Rightarrow> v);
          v0 = (case v_ego of Some v \<Rightarrow> if v \<ge> 0 then v else first | None \<Rightarrow> first);
          prev_accel = (case accels_in of [] \<Rightarrow> a_target | a # _ \<Rightarrow> a);
          dts = synth_trajectory_dts MODEL_T_IDXS;
          (accels, jerks) = synth_accels a_target limit_jerk prev_accel dts
      in (synth_speeds (max 0 v0) (zip accels dts), accels, jerks))"

subsection \<open>Standstill release confidence\<close>

datatype gate_mode = GM_off | GM_shadow | GM_gate

definition gate_mode_of :: "string \<Rightarrow> gate_mode" where
  "gate_mode_of mode =
     (let mode_s = py_strip_lower mode
      in if mode_s = ''shadow'' then GM_shadow else if mode_s = ''gate'' then GM_gate else GM_off)"

record release_result =
  rr_mode :: gate_mode
  rr_effective_mode :: gate_mode
  rr_apply_supported :: bool
  rr_eligible :: bool
  rr_block_reason :: string
  rr_confidence :: real
  rr_release_allowed :: bool
  rr_release_source :: string
  rr_release_reason :: string
  rr_release_a_target :: real

record release_in =
  ri_release_allowed :: bool
  ri_release_source :: string
  ri_release_reason :: string
  ri_release_a_target :: real
  ri_lead_progress_allowed :: bool
  ri_lead_gap_excess :: real
  ri_lead_shadow_active :: bool
  ri_alternate_threat_active :: bool
  ri_force_slow_decel :: bool
  ri_brake_pressed :: bool
  ri_gas_pressed :: bool
  ri_model_should_stop :: bool

definition release_confidence :: "release_in \<Rightarrow> real" where
  "release_confidence i =
     max 0 (min 1
       ((if ri_release_allowed i then 35 / 100 else 0) + (if ri_lead_progress_allowed i then 25 / 100 else 0) +
        (if ri_lead_gap_excess i > 0 then 10 / 100 else 0) +
        (if \<not> ri_lead_shadow_active i \<and> \<not> ri_alternate_threat_active i then 10 / 100 else 0) +
        (if \<not> (ri_force_slow_decel i \<or> ri_brake_pressed i \<or> ri_gas_pressed i \<or> ri_model_should_stop i) then 20 / 100 else 0)))"

definition predict_standstill_release_confidence :: "string \<Rightarrow> release_in \<Rightarrow> release_result" where
  "predict_standstill_release_confidence mode_text i =
     (let mode = gate_mode_of mode_text in if mode = GM_off
      then \<lparr>rr_mode = GM_off, rr_effective_mode = GM_off, rr_apply_supported = False, rr_eligible = False, rr_block_reason = ''mode_off'',
            rr_confidence = 0, rr_release_allowed = False, rr_release_source = '''', rr_release_reason = '''', rr_release_a_target = 0\<rparr>
      else
        (let confidence = release_confidence i;
             block = (if \<not> ri_release_allowed i then ''release_not_allowed''
                      else if ri_force_slow_decel i \<or> ri_brake_pressed i \<or> ri_gas_pressed i then ''driver_or_force_block''
                      else if ri_model_should_stop i then ''model_stop''
                      else if ri_lead_shadow_active i \<or> ri_alternate_threat_active i then ''lead_threat''
                      else if confidence < 6 / 10 then ''low_confidence'' else '''')
         in \<lparr>rr_mode = mode, rr_effective_mode = mode, rr_apply_supported = (mode = GM_gate), rr_eligible = (block = ''''), rr_block_reason = block,
             rr_confidence = confidence, rr_release_allowed = ri_release_allowed i,
             rr_release_source = ri_release_source i, rr_release_reason = ri_release_reason i, rr_release_a_target = ri_release_a_target i\<rparr>))"

subsection \<open>The envelope for following a lead\<close>

definition ENV_MIN_GAP_M :: real where "ENV_MIN_GAP_M = 6"
definition ENV_TIME_GAP_S :: real where "ENV_TIME_GAP_S = 15 / 10"
definition ENV_TTC_MIN_S :: real where "ENV_TTC_MIN_S = 3"
definition REQUIRED_DECEL_COMFORT_LIMIT :: real where "REQUIRED_DECEL_COMFORT_LIMIT = 1"
definition MAX_ACCEL_JERK :: real where "MAX_ACCEL_JERK = 1"
definition MAX_DECEL_JERK :: real where "MAX_DECEL_JERK = -2"
definition EPS_GAP_M :: real where "EPS_GAP_M = 1 / 10"

record envelope_in =
  ei_v_ego :: "real option"
  ei_candidate_a_target :: "real option"
  ei_previous_a_target :: "real option"
  ei_dt :: "real option"
  ei_openpilot_longitudinal_control :: bool
  ei_has_lead :: bool
  ei_lead_d_rel :: "real option"
  ei_lead_v_rel :: "real option"
  ei_lead_v_lead :: "real option"
  ei_lead_a_lead_k :: "real option"
  ei_lead_kinematics_valid :: bool
  ei_model_stale :: bool
  ei_model_progress_candidate :: bool
  ei_lead_compression_candidate :: bool
  ei_radar_stale :: bool
  ei_lead_required :: bool
  ei_min_gap_m :: real
  ei_time_gap_s :: real
  ei_ttc_min_s :: real
  ei_required_decel_limit :: real
  ei_max_accel_jerk :: real
  ei_max_decel_jerk :: real

datatype cap_reason = RE_invalid_data | RE_stock_longitudinal_control | RE_invalid_lead_kinematics | RE_invalid_lead_distance
  | RE_inside_time_gap | RE_ttc_low | RE_closing_decel_high | RE_model_stale_blocks_model_progress
  | RE_radar_stale_blocks_lead_progress | RE_jerk_limited

record envelope_result =
  er_active :: bool
  er_would_cap :: bool
  er_cap_reasons :: "cap_reason list"
  er_allowed_a_target :: real
  er_delta_a :: real
  er_desired_gap :: real
  er_time_gap :: "real option"
  er_ttc :: "real option"
  er_usable_stopping_gap :: real
  er_required_stopping_decel :: real
  er_closing_speed_decel :: real
  er_jerk_limited_a_target :: real

definition jerk_limit :: "real \<Rightarrow> real \<Rightarrow> real \<Rightarrow> real \<Rightarrow> real \<Rightarrow> real" where
  "jerk_limit candidate_a previous_a dt decel_jerk accel_jerk =
     min (max candidate_a (previous_a + decel_jerk * dt)) (previous_a + accel_jerk * dt)"

text \<open>What the envelope measures of a lead: gap in time, time to collision, usable gap, required deceleration.\<close>

record lead_measure =
  lm_reasons :: "cap_reason list"
  lm_time_gap :: "real option"
  lm_ttc :: "real option"
  lm_usable_gap :: real
  lm_required_decel :: real

definition measure_lead :: "envelope_in \<Rightarrow> real \<Rightarrow> real \<Rightarrow> real \<Rightarrow> real \<Rightarrow> lead_measure" where
  "measure_lead inp v_ego d_rel v_rel desired_gap =
     (let none = \<lparr>lm_reasons = [], lm_time_gap = None, lm_ttc = None, lm_usable_gap = 0, lm_required_decel = 0\<rparr>
      in if \<not> ei_has_lead inp then none
         else
           (let r0 = (if \<not> ei_lead_kinematics_valid inp then [RE_invalid_lead_kinematics] else [])
            in if d_rel \<le> 0 then none\<lparr>lm_reasons := r0 @ [RE_invalid_lead_distance]\<rparr>
               else
                 (let usable_gap = d_rel - desired_gap;
                      closing = max 0 (- v_rel);
                      ttc = (if closing > 1 / 1000 then Some (d_rel / closing) else None);
                      required_decel = (if closing > 0 then closing * closing / (2 * max usable_gap EPS_GAP_M) else 0)
                  in \<lparr>lm_reasons = r0 @ (if d_rel < desired_gap then [RE_inside_time_gap] else []) @
                        (if (case ttc of Some t \<Rightarrow> t < ei_ttc_min_s inp | None \<Rightarrow> False) then [RE_ttc_low] else []) @
                        (if required_decel > ei_required_decel_limit inp then [RE_closing_decel_high] else []),
                      lm_time_gap = Some (d_rel / max v_ego (1 / 10)), lm_ttc = ttc, lm_usable_gap = usable_gap,
                      lm_required_decel = required_decel\<rparr>)))"

definition envelope_allowed :: "envelope_in \<Rightarrow> cap_reason list \<Rightarrow> real \<Rightarrow> real \<Rightarrow> real" where
  "envelope_allowed inp reasons required_decel allowed_a =
     (let hard = min (min allowed_a 0) (- required_decel)
      in if ei_has_lead inp \<and> (RE_ttc_low \<in> set reasons \<or> RE_invalid_lead_kinematics \<in> set reasons \<or> RE_invalid_lead_distance \<in> set reasons)
         then hard
         else if ei_has_lead inp \<and> RE_closing_decel_high \<in> set reasons
         then (if \<not> ei_lead_compression_candidate inp then hard else allowed_a)
         else if ei_has_lead inp \<and> RE_inside_time_gap \<in> set reasons
         then (if \<not> ei_lead_compression_candidate inp then hard else allowed_a)
         else allowed_a)"

definition evaluate_acc_envelope :: "envelope_in \<Rightarrow> envelope_result" where
  "evaluate_acc_envelope inp =
     (if None \<in> {ei_v_ego inp, ei_candidate_a_target inp, ei_previous_a_target inp, ei_dt inp, ei_lead_d_rel inp,
                 ei_lead_v_rel inp, ei_lead_v_lead inp, ei_lead_a_lead_k inp} \<or> the (ei_dt inp) \<le> 0
      then \<lparr>er_active = False, er_would_cap = True, er_cap_reasons = [RE_invalid_data], er_allowed_a_target = 0, er_delta_a = 0,
            er_desired_gap = 0, er_time_gap = None, er_ttc = None, er_usable_stopping_gap = 0, er_required_stopping_decel = 0,
            er_closing_speed_decel = 0, er_jerk_limited_a_target = 0\<rparr>
      else
        (let candidate_a = the (ei_candidate_a_target inp);
             jerk_limited = jerk_limit candidate_a (the (ei_previous_a_target inp)) (the (ei_dt inp)) (ei_max_decel_jerk inp) (ei_max_accel_jerk inp);
             desired_gap = max (ei_min_gap_m inp) (ei_time_gap_s inp * max 0 (the (ei_v_ego inp)));
             m = measure_lead inp (the (ei_v_ego inp)) (the (ei_lead_d_rel inp)) (the (ei_lead_v_rel inp)) desired_gap;
             reasons = (if \<not> ei_openpilot_longitudinal_control inp then [RE_stock_longitudinal_control] else []) @ lm_reasons m @
               (if ei_model_stale inp \<and> ei_model_progress_candidate inp then [RE_model_stale_blocks_model_progress] else []) @
               (if ei_radar_stale inp \<and> ei_lead_required inp then [RE_radar_stale_blocks_lead_progress] else []) @
               (if jerk_limited < candidate_a - 1 / 10 ^ 6 then [RE_jerk_limited] else []);
             allowed_a = envelope_allowed inp reasons (lm_required_decel m) (min candidate_a jerk_limited)
         in \<lparr>er_active = True, er_would_cap = (allowed_a < candidate_a - 1 / 10 ^ 6 \<or> reasons \<noteq> []), er_cap_reasons = reasons,
             er_allowed_a_target = allowed_a, er_delta_a = allowed_a - candidate_a, er_desired_gap = desired_gap,
             er_time_gap = lm_time_gap m, er_ttc = lm_ttc m, er_usable_stopping_gap = lm_usable_gap m,
             er_required_stopping_decel = lm_required_decel m, er_closing_speed_decel = lm_required_decel m,
             er_jerk_limited_a_target = jerk_limited\<rparr>))"

subsection \<open>Cut-in brake assist\<close>

definition PATH_NEAR_Y_M :: real where "PATH_NEAR_Y_M = 17 / 10"
definition MAX_CLOSE_DISTANCE_M :: real where "MAX_CLOSE_DISTANCE_M = 45"
definition MAX_TTC_S :: real where "MAX_TTC_S = 5"
definition MIN_CLOSING_SPEED_MS :: real where "MIN_CLOSING_SPEED_MS = 4 / 10"
definition MAX_PROPOSED_DECEL :: real where "MAX_PROPOSED_DECEL = 25 / 10"

datatype assist_mode = AM_off | AM_shadow | AM_apply

definition assist_mode_of :: "string \<Rightarrow> assist_mode" where
  "assist_mode_of mode =
     (let mode_s = py_strip_lower mode
      in if mode_s = ''shadow'' then AM_shadow else if mode_s = ''apply'' then AM_apply else AM_off)"

text \<open>
  The lead state the assist reads: the behaviour or else the physical lead of the shadow context,
  or else of the actual one. \<open>path_y_rel\<close>, the time to collision and the required deceleration are
  those the code falls back to when an attribute is missing; \<open>stable\<close> may be unknown.
\<close>

record assist_lead =
  al_status :: bool
  al_path_y_rel :: "real option"
  al_d_rel :: "real option"
  al_v_rel :: "real option"
  al_confidence :: "real option"
  al_stable :: "bool option"
  al_ttc :: "real option"
  al_required_decel :: "real option"
  al_lead_idx :: "real option"

record lead_ctx =
  lx_behavior :: "assist_lead option"
  lx_physical :: "assist_lead option"

record assist_result =
  as_mode :: assist_mode
  as_apply_supported :: bool
  as_eligible :: bool
  as_block_reason :: string
  as_lead_idx :: int
  as_path_y_rel :: "real option"
  as_ttc :: real
  as_required_decel :: real
  as_proposed_cap :: real
  as_confidence :: real

definition ctx_primary :: "lead_ctx option \<Rightarrow> assist_lead option" where
  "ctx_primary ctx =
     (case ctx of None \<Rightarrow> None
      | Some c \<Rightarrow> (case lx_behavior c of Some l \<Rightarrow> Some l | None \<Rightarrow> lx_physical c))"

definition time_value :: "real option \<Rightarrow> real" where
  "time_value v = (let x = finite_or v 0 in if x > 0 then x else 0)"

definition assist_blocked :: "assist_mode \<Rightarrow> string \<Rightarrow> assist_result" where
  "assist_blocked mode reason =
     \<lparr>as_mode = mode, as_apply_supported = (mode = AM_apply), as_eligible = False, as_block_reason = reason, as_lead_idx = -1,
      as_path_y_rel = Some 0, as_ttc = 0, as_required_decel = 0, as_proposed_cap = 0, as_confidence = 0\<rparr>"

definition assist_block :: "assist_lead \<Rightarrow> string" where
  "assist_block l =
     (let d_rel = finite_or (al_d_rel l) 0; closing_speed = max 0 (- finite_or (al_v_rel l) 0); ttc = time_value (al_ttc l);
          stable_ok = (case al_stable l of None \<Rightarrow> finite_or (al_confidence l) 0 \<ge> 6 / 10 | Some b \<Rightarrow> b)
      in if (case al_path_y_rel l of None \<Rightarrow> True | Some y \<Rightarrow> \<bar>y\<bar> > PATH_NEAR_Y_M) then ''not_near_path''
         else if d_rel \<le> 0 \<or> d_rel > MAX_CLOSE_DISTANCE_M then ''not_close''
         else if closing_speed < MIN_CLOSING_SPEED_MS then ''not_closing''
         else if ttc \<le> 0 \<or> ttc > MAX_TTC_S then ''not_urgent''
         else if \<not> stable_ok then ''unstable_low_confidence'' else '''')"

definition predict_cut_in_brake_assist :: "string \<Rightarrow> lead_ctx option \<Rightarrow> lead_ctx option \<Rightarrow> bool \<Rightarrow> assist_result" where
  "predict_cut_in_brake_assist mode_text actual_ctx shadow_ctx long_active =
     (let mode = assist_mode_of mode_text in if mode = AM_off then assist_blocked AM_off ''mode_off''
      else if \<not> long_active then assist_blocked mode ''long_inactive''
      else
        (case (case ctx_primary shadow_ctx of Some l \<Rightarrow> Some l | None \<Rightarrow> ctx_primary actual_ctx) of
           None \<Rightarrow> assist_blocked mode ''no_lead''
         | Some l \<Rightarrow>
             if \<not> al_status l then assist_blocked mode ''no_lead''
             else
               (let closing_speed = max 0 (- finite_or (al_v_rel l) 0);
                    required_decel = max 0 (finite_or (al_required_decel l) 0);
                    block = assist_block l; eligible = (block = '''');
                    proposed_decel = (if eligible then max (required_decel + 2 / 10) (min MAX_PROPOSED_DECEL (closing_speed * (25 / 100))) else 0);
                    proposed_cap = (if eligible then - min MAX_PROPOSED_DECEL (max 0 proposed_decel) else 0)
                in \<lparr>as_mode = mode, as_apply_supported = (mode = AM_apply), as_eligible = eligible, as_block_reason = block,
                    as_lead_idx = py_int (finite_or (al_lead_idx l) (-1)), as_path_y_rel = al_path_y_rel l,
                    as_ttc = time_value (al_ttc l), as_required_decel = required_decel, as_proposed_cap = proposed_cap,
                    as_confidence = finite_or (al_confidence l) 0\<rparr>)))"

subsection \<open>Release of a lead that leaves the path\<close>

definition CUT_OUT_MIN_Y_REL :: real where "CUT_OUT_MIN_Y_REL = 2"
definition CUT_OUT_FAR_Y_REL :: real where "CUT_OUT_FAR_Y_REL = 3"
definition CUT_OUT_PERSIST_S :: real where "CUT_OUT_PERSIST_S = 4 / 10"
definition CUT_OUT_MIN_TTC_S :: real where "CUT_OUT_MIN_TTC_S = 4"
definition CUT_OUT_MIN_D_REL :: real where "CUT_OUT_MIN_D_REL = 15"
definition CUT_OUT_MIN_V_EGO :: real where "CUT_OUT_MIN_V_EGO = 3"

fun path_y_between :: "real \<Rightarrow> (real \<times> real) list \<Rightarrow> real option" where
  "path_y_between d ((x0, y0) # (x1, y1) # ps) =
     (if x0 \<le> d \<and> d \<le> x1
      then (if x1 = x0 then Some y1 else Some (y0 + (d - x0) / (x1 - x0) * (y1 - y0)))
      else path_y_between d ((x1, y1) # ps))"
| "path_y_between d _ = None"

definition path_relative_y_or_none :: "real \<Rightarrow> real \<Rightarrow> (real option list \<times> real option list) option \<Rightarrow> real option" where
  "path_relative_y_or_none y_rel d_rel model_msg =
     (case model_msg of
        None \<Rightarrow> None
      | Some (positions, path_y) \<Rightarrow>
          if length positions < 2 \<or> length positions \<noteq> length path_y \<or> None \<in> set (positions @ path_y) then None
          else
            (let xs = map the positions; ys = map the path_y
             in if d_rel < hd xs \<or> d_rel > last xs then None
                else map_option (\<lambda>y. y_rel + y) (path_y_between d_rel (zip xs ys))))"

record cut_out =
  co_track_id :: "int option"
  co_exit_timer_s :: real
  co_prev_abs_y_rel :: real
  co_suppressing :: bool
  co_block_reason :: string

definition CutOutLeadRelease :: cut_out where
  "CutOutLeadRelease = \<lparr>co_track_id = None, co_exit_timer_s = 0, co_prev_abs_y_rel = 0, co_suppressing = False, co_block_reason = ''init''\<rparr>"

definition co_reset :: "string \<Rightarrow> cut_out" where
  "co_reset reason = \<lparr>co_track_id = None, co_exit_timer_s = 0, co_prev_abs_y_rel = 0, co_suppressing = False, co_block_reason = reason\<rparr>"

record lead_one =
  l1_present :: bool
  l1_dRel :: "real option"
  l1_yRel :: "real option"
  l1_vRel :: "real option"
  l1_radarTrackId :: "real option"

record cut_out_in =
  oi_leadOne :: "lead_one option"
  oi_v_ego :: "real option"
  oi_dt :: "real option"
  oi_long_active :: bool
  oi_custom_long_enabled :: bool
  oi_research_actuation_allowed :: bool
  oi_mode_apply :: bool
  oi_model :: "(real option list \<times> real option list) option"

definition co_threat :: "real \<Rightarrow> real \<Rightarrow> real \<Rightarrow> bool" where
  "co_threat d_rel v_rel v_ego \<longleftrightarrow>
     (let closing = max 0 (- v_rel)
      in (closing > 5 / 100 \<and> d_rel / closing < CUT_OUT_MIN_TTC_S) \<or> d_rel < CUT_OUT_MIN_D_REL \<or> v_ego < CUT_OUT_MIN_V_EGO)"

definition co_track :: "int \<Rightarrow> real \<Rightarrow> bool \<Rightarrow> real \<Rightarrow> cut_out \<Rightarrow> cut_out" where
  "co_track track_id abs_y threat dt s =
     (let s = (if Some track_id \<noteq> co_track_id s
               then s\<lparr>co_track_id := Some track_id, co_exit_timer_s := 0, co_prev_abs_y_rel := abs_y\<rparr> else s);
          outward = abs_y \<ge> co_prev_abs_y_rel s - 5 / 100;
          exiting = \<not> threat \<and> (abs_y \<ge> CUT_OUT_FAR_Y_REL \<or> abs_y \<ge> CUT_OUT_MIN_Y_REL \<and> outward);
          s = s\<lparr>co_prev_abs_y_rel := abs_y, co_exit_timer_s := (if exiting then co_exit_timer_s s + max 0 dt else 0)\<rparr>;
          suppressing = co_exit_timer_s s \<ge> CUT_OUT_PERSIST_S
      in s\<lparr>co_suppressing := suppressing,
           co_block_reason := (if suppressing then '''' else if threat then ''threat'' else ''not_exiting'')\<rparr>)"

text \<open>The result says whether the planner is shown no first lead.\<close>

definition co_filtered :: "cut_out_in \<Rightarrow> cut_out \<Rightarrow> cut_out \<times> bool" where
  "co_filtered i s =
     (if \<not> (oi_mode_apply i \<and> oi_long_active i \<and> oi_custom_long_enabled i \<and> oi_research_actuation_allowed i)
      then (co_reset ''gates_off'', False)
      else case oi_leadOne i of
          None \<Rightarrow> (co_reset ''no_lead'', False)
        | Some l \<Rightarrow>
            if \<not> l1_present l then (co_reset ''no_lead'', False)
            else
              (let d_rel = finite_or (l1_dRel l) 0; v_rel = finite_or (l1_vRel l) 0;
                   track_id = py_int (finite_or (l1_radarTrackId l) (-1))
               in if track_id < 0 then (co_reset ''track_unknown'', False)
                  else case path_relative_y_or_none (finite_or (l1_yRel l) 0) d_rel (oi_model i) of
                      None \<Rightarrow> (co_reset ''path_unavailable'', False)
                    | Some y \<Rightarrow>
                        (let s = co_track track_id \<bar>y\<bar> (co_threat d_rel v_rel (finite_or (oi_v_ego i) 0)) (finite_or (oi_dt i) 0) s
                         in (s, co_suppressing s))))"


subsection \<open>Lemmas on the shaping stages\<close>

lemmas shaping_consts = MIN_COAST_DECEL_def MAX_COAST_DECEL_def COAST_ARRIVAL_MARGIN_S_def MIN_USEFUL_DISTANCE_def
  CUT_OUT_MIN_Y_REL_def CUT_OUT_FAR_Y_REL_def CUT_OUT_PERSIST_S_def CUT_OUT_MIN_TTC_S_def CUT_OUT_MIN_D_REL_def CUT_OUT_MIN_V_EGO_def

lemma clip_bounds [simp]: "lo \<le> clip v lo hi" "lo \<le> hi \<Longrightarrow> clip v lo hi \<le> hi"
  by (auto simp: clip_def)

lemma clip_pos: "0 < v \<Longrightarrow> lo \<le> 0 \<Longrightarrow> 0 \<le> hi \<Longrightarrow> 0 \<le> clip v lo hi \<and> clip v lo hi \<le> v"
  and clip_neg: "v < 0 \<Longrightarrow> lo \<le> 0 \<Longrightarrow> 0 \<le> hi \<Longrightarrow> v \<le> clip v lo hi \<and> clip v lo hi \<le> 0"
  and clip_zero: "lo \<le> 0 \<Longrightarrow> 0 \<le> hi \<Longrightarrow> clip 0 lo hi = 0"
  by (auto simp: clip_def)

text \<open>The learned drag stays in the range the coast horizon accepts, over any run.\<close>

definition drag_ok :: "drag_estimator \<Rightarrow> bool" where
  "drag_ok s \<longleftrightarrow> MIN_COAST_DECEL \<le> de_coast_decel s \<and> de_coast_decel s \<le> MAX_COAST_DECEL"

interpretation drag: frame_machine "\<lambda>s (v, a, p, t, b). de_update v a p t b s" "\<lambda>_. True" drag_ok
  by unfold_locales (auto simp: drag_ok_def de_update_def Let_def shaping_consts split: prod.splits)

subsubsection \<open>Coast horizon\<close>

lemma coast_horizon_cases:
  fixes inp :: coast_inputs
  defines "v0 \<equiv> max 0 (finite_or (ci_v_ego inp) 0)" and "v_t \<equiv> max 0 (finite_or (ci_v_target inp) 0)"
    and "gap \<equiv> finite_or (ci_distance_to_constraint inp) 0"
    and "a_coast \<equiv> clip (finite_or (ci_accel_coast inp) 0) MIN_COAST_DECEL MAX_COAST_DECEL"
  assumes "v_t < v0" and "MIN_USEFUL_DISTANCE \<le> gap"
  shows "(cr_action (coast_horizon inp) = CA_BRAKE \<longrightarrow>
           v0 * v0 + 2 * cr_recommended_accel (coast_horizon inp) * gap = v_t * v_t) \<and>
         (cr_action (coast_horizon inp) = CA_COAST \<longrightarrow>
           cr_recommended_accel (coast_horizon inp) = a_coast \<and> v0 * v0 + 2 * a_coast * gap \<le> v_t * v_t) \<and>
         (cr_action (coast_horizon inp) = CA_CRUISE \<longrightarrow>
           v0 * v0 + 2 * a_coast * (gap - COAST_ARRIVAL_MARGIN_S * v0) < v_t * v_t)"
proof -
  have a: "a_coast < 0" by (simp add: a_coast_def clip_def shaping_consts)
  have dp: "0 < gap" using assms(6) by (simp add: shaping_consts)
  define cd where "cd = (v_t * v_t - v0 * v0) / (2 * a_coast)"
  have cd: "v_t * v_t - v0 * v0 = 2 * a_coast * cd" using a by (simp add: cd_def)
  have mono: "2 * a_coast * x \<le> 2 * a_coast * cd" if "cd \<le> x" for x
    using mult_left_mono_neg [OF that, of a_coast] a by simp
  have mono': "2 * a_coast * x < 2 * a_coast * cd" if "cd < x" for x
    using mult_strict_left_mono_neg [OF that, of a_coast] a by simp
  have m: "max gap MIN_USEFUL_DISTANCE = gap" using assms(6) by simp
  show ?thesis
  proof (cases "gap \<le> MIN_USEFUL_DISTANCE")
    case True
    with assms(6) have "gap = MIN_USEFUL_DISTANCE" by simp
    moreover have "coast_horizon inp = \<lparr>cr_action = CA_BRAKE, cr_recommended_accel = (v_t * v_t - v0 * v0) / (2 * MIN_USEFUL_DISTANCE),
               cr_coast_distance = 0, cr_lift_off_distance = 0, cr_slack = gap\<rparr>"
      using assms(5) True unfolding v0_def v_t_def gap_def coast_horizon_def Let_def by (simp only: not_le [symmetric] if_False if_True)
    ultimately show ?thesis using dp by (simp add: field_simps)
  next
    case False
    have r: "coast_horizon inp =
       (let res = \<lparr>cr_action = CA_CRUISE, cr_recommended_accel = 0, cr_coast_distance = cd,
                   cr_lift_off_distance = cd + COAST_ARRIVAL_MARGIN_S * v0, cr_slack = gap - (cd + COAST_ARRIVAL_MARGIN_S * v0)\<rparr>
        in if gap > cd + COAST_ARRIVAL_MARGIN_S * v0 then res
           else if gap \<ge> cd then res\<lparr>cr_action := CA_COAST, cr_recommended_accel := a_coast\<rparr>
           else res\<lparr>cr_action := CA_BRAKE, cr_recommended_accel := (v_t * v_t - v0 * v0) / (2 * gap)\<rparr>)"
      using assms(5) False unfolding v0_def v_t_def gap_def cd_def a_coast_def coast_horizon_def Let_def
      by (simp only: not_le [symmetric] if_False if_True m [unfolded gap_def])
    show ?thesis
      using mono [of gap] mono' [of "gap - COAST_ARRIVAL_MARGIN_S * v0"] cd dp
      unfolding r Let_def by (auto simp: field_simps)
  qed
qed


text \<open>
  A slower speed ahead is met in time, and not too early. When the target is below the present
  speed and at least a metre away, and the governor brakes, its command brings the car to the
  target speed or below at the constraint (by \<open>v0\<^sup>2 + 2 a d \<le> v\<^sub>t\<^sup>2\<close>), and never brakes less than
  the model asks. When it coasts, coasting alone is enough to meet the target. When it cruises,
  coasting is still enough after 0.6 s more at the present speed. In the last two cases the
  governor brakes no harder than coasting needs.
\<close>

theorem slower_speed_met_in_time:
  fixes v_ego v_target distance coast :: "real option" and raw :: real
  defines "v0 \<equiv> max 0 (finite_or v_ego 0)" and "v_t \<equiv> max 0 (finite_or v_target 0)"
    and "d \<equiv> finite_or distance 0"
    and "a_coast \<equiv> clip (finite_or coast 0) MIN_COAST_DECEL MAX_COAST_DECEL"
    and "action \<equiv> cr_action (coast_horizon \<lparr>ci_v_ego = v_ego, ci_v_target = v_target, ci_distance_to_constraint = distance, ci_accel_coast = coast\<rparr>)"
    and "a \<equiv> runway_comfort_governor v_ego v_target distance raw coast"
  assumes "v_t < v0" and "MIN_USEFUL_DISTANCE \<le> d"
  shows "(action = CA_BRAKE \<longrightarrow> v0 * v0 + 2 * a * d \<le> v_t * v_t \<and> (raw < 0 \<longrightarrow> a \<le> raw)) \<and>
         (action = CA_COAST \<longrightarrow> v0 * v0 + 2 * a_coast * d \<le> v_t * v_t \<and> a = max raw a_coast) \<and>
         (action = CA_CRUISE \<longrightarrow> v0 * v0 + 2 * a_coast * (d - COAST_ARRIVAL_MARGIN_S * v0) < v_t * v_t \<and> a = max raw 0)"
proof -
  let ?i = "\<lparr>ci_v_ego = v_ego, ci_v_target = v_target, ci_distance_to_constraint = distance, ci_accel_coast = coast\<rparr>"
  let ?r = "cr_recommended_accel (coast_horizon ?i)"
  note k = coast_horizon_cases [of ?i, simplified coast_inputs.select_convs, folded v0_def v_t_def d_def a_coast_def, OF assms(7,8)]
  have cruise: "action = CA_CRUISE \<longrightarrow> ?r = 0"
    unfolding action_def coast_horizon_def Let_def by simp
  have a: "a = (if action = CA_BRAKE then (if raw < 0 then min raw ?r else ?r) else max raw ?r)"
    by (simp add: a_def runway_comfort_governor_def action_def Let_def)
  have "0 < d" using assms(8) by (simp add: shaping_consts)
  then have "2 * a * d \<le> 2 * ?r * d" if "a \<le> ?r" using that by simp
  moreover have "action = CA_BRAKE \<longrightarrow> a \<le> ?r" by (simp add: a)
  ultimately have "action = CA_BRAKE \<longrightarrow> v0 * v0 + 2 * a * d \<le> v_t * v_t"
    using k unfolding action_def by (metis add_left_mono)
  with k a cruise show ?thesis unfolding action_def by auto
qed

theorem slower_speed_met_in_time_witness:
  "cr_action (coast_horizon \<lparr>ci_v_ego = Some 20, ci_v_target = Some 10, ci_distance_to_constraint = Some 100, ci_accel_coast = Some (-1 / 4)\<rparr>) = CA_BRAKE \<and>
   20 * 20 + 2 * runway_comfort_governor (Some 20) (Some 10) (Some 100) (-1) (Some (-1 / 4)) * 100 \<le> 10 * 10"
proof -
  have "cr_action (coast_horizon \<lparr>ci_v_ego = Some 20, ci_v_target = Some 10, ci_distance_to_constraint = Some 100, ci_accel_coast = Some (-1 / 4)\<rparr>) = CA_BRAKE"
    by (simp add: coast_horizon_def finite_or_def clip_def shaping_consts Let_def)
  then show ?thesis
    using slower_speed_met_in_time [of "Some 10" "Some 20" "Some 100" "Some (-1 / 4)" "-1"]
    by (simp add: finite_or_def shaping_consts)
qed


subsubsection \<open>Cut-out release\<close>

text \<open>A frame in which track \<open>k\<close> leaves the path and is no threat, as a specification.\<close>

definition exit_frame :: "int \<Rightarrow> cut_out_in \<Rightarrow> bool" where
  "exit_frame k i \<longleftrightarrow>
     oi_mode_apply i \<and> oi_long_active i \<and> oi_custom_long_enabled i \<and> oi_research_actuation_allowed i \<and>
     (\<exists>l y. oi_leadOne i = Some l \<and> l1_present l \<and> py_int (finite_or (l1_radarTrackId l) (-1)) = k \<and> 0 \<le> k \<and>
        path_relative_y_or_none (finite_or (l1_yRel l) 0) (finite_or (l1_dRel l) 0) (oi_model i) = Some y \<and> 2 \<le> \<bar>y\<bar> \<and>
        15 \<le> finite_or (l1_dRel l) 0 \<and> 3 \<le> finite_or (oi_v_ego i) 0 \<and>
        (finite_or (l1_vRel l) 0 < - 5 / 100 \<longrightarrow> 4 * - finite_or (l1_vRel l) 0 \<le> finite_or (l1_dRel l) 0))"

text \<open>The distance of the lead from the path, and that it does not come back: once it is
  three metres away that does not matter, before it comes back by at most 5 cm from frame to frame.\<close>

definition off_path :: "cut_out_in \<Rightarrow> real" where
  "off_path i =
     (case oi_leadOne i of None \<Rightarrow> 0
      | Some l \<Rightarrow> (case path_relative_y_or_none (finite_or (l1_yRel l) 0) (finite_or (l1_dRel l) 0) (oi_model i) of
                    None \<Rightarrow> 0 | Some y \<Rightarrow> \<bar>y\<bar>))"

definition stays_out :: "cut_out_in \<Rightarrow> cut_out_in \<Rightarrow> bool" where
  "stays_out i j \<longleftrightarrow> 3 \<le> off_path j \<or> off_path i - 5 / 100 \<le> off_path j"

definition co_step :: "cut_out \<Rightarrow> cut_out_in \<Rightarrow> cut_out" where
  "co_step s i = fst (co_filtered i s)"

lemma not_threat:
  assumes "\<not> co_threat d v v_ego"
  shows "15 \<le> d \<and> 3 \<le> v_ego \<and> (v < - 5 / 100 \<longrightarrow> 4 * - v \<le> d)"
  using assms pos_le_divide_eq [of "- v" 4 d] by (auto simp: co_threat_def shaping_consts Let_def not_less)

lemma co_track_timer:
  "co_exit_timer_s (co_track k y threat dt s) =
     (if \<not> threat \<and> (y \<ge> 3 \<or> y \<ge> 2 \<and> (Some k = co_track_id s \<longrightarrow> y \<ge> co_prev_abs_y_rel s - 5 / 100))
      then (if Some k = co_track_id s then co_exit_timer_s s else 0) + max 0 dt else 0)"
  "co_track_id (co_track k y threat dt s) = Some k"
  "co_prev_abs_y_rel (co_track k y threat dt s) = y"
  "co_suppressing (co_track k y threat dt s) \<longleftrightarrow> 4 / 10 \<le> co_exit_timer_s (co_track k y threat dt s)"
  by (auto simp: co_track_def shaping_consts Let_def)

lemma co_step_cases:
  fixes s :: cut_out and i :: cut_out_in
  obtains (reset) r where "co_filtered i s = (co_reset r, False)"
  | (other) k y threat dt where "co_filtered i s = (let s' = co_track k y threat dt s in (s', co_suppressing s'))"
      "co_exit_timer_s (co_step s i) = 0"
  | (exit) k y where "exit_frame k i" "y = off_path i"
      "Some k = co_track_id s \<Longrightarrow> 3 \<le> y \<or> co_prev_abs_y_rel s - 5 / 100 \<le> y"
      "co_filtered i s = (let s' = co_track k y False (finite_or (oi_dt i) 0) s in (s', co_suppressing s'))"
      "co_exit_timer_s (co_step s i) = (if Some k = co_track_id s then co_exit_timer_s s else 0) + max 0 (finite_or (oi_dt i) 0)"
proof (cases "\<exists>r. co_filtered i s = (co_reset r, False)")
  case False
  let ?gates = "oi_mode_apply i \<and> oi_long_active i \<and> oi_custom_long_enabled i \<and> oi_research_actuation_allowed i"
  have "co_filtered i s = (co_reset ''gates_off'', False)" if "\<not> ?gates"
    unfolding co_filtered_def if_P [OF that] ..
  with False have g: ?gates by blast
  have "oi_leadOne i \<noteq> None" using g False by (cases "oi_leadOne i") (auto simp: co_filtered_def)
  then obtain l where l: "oi_leadOne i = Some l" by blast
  have p: "l1_present l" using g l False by (cases "l1_present l") (auto simp: co_filtered_def)
  have t: "\<not> py_int (finite_or (l1_radarTrackId l) (-1)) < 0"
    using g l p False by (cases "py_int (finite_or (l1_radarTrackId l) (-1)) < 0") (auto simp: co_filtered_def)
  have "path_relative_y_or_none (finite_or (l1_yRel l) 0) (finite_or (l1_dRel l) 0) (oi_model i) \<noteq> None"
    using g l p t False
    by (cases "path_relative_y_or_none (finite_or (l1_yRel l) 0) (finite_or (l1_dRel l) 0) (oi_model i)") (auto simp: co_filtered_def)
  then obtain y where y: "path_relative_y_or_none (finite_or (l1_yRel l) 0) (finite_or (l1_dRel l) 0) (oi_model i) = Some y" by blast
  let ?k = "py_int (finite_or (l1_radarTrackId l) (-1))"
  let ?t = "co_threat (finite_or (l1_dRel l) 0) (finite_or (l1_vRel l) 0) (finite_or (oi_v_ego i) 0)"
  have f: "co_filtered i s = (let s' = co_track ?k \<bar>y\<bar> ?t (finite_or (oi_dt i) 0) s in (s', co_suppressing s'))"
    using g l p t y by (simp add: co_filtered_def Let_def)
  then have st: "co_step s i = co_track ?k \<bar>y\<bar> ?t (finite_or (oi_dt i) 0) s" by (simp add: co_step_def Let_def)
  show thesis
  proof (cases "\<not> ?t \<and> (\<bar>y\<bar> \<ge> 3 \<or> \<bar>y\<bar> \<ge> 2 \<and> (Some ?k = co_track_id s \<longrightarrow> \<bar>y\<bar> \<ge> co_prev_abs_y_rel s - 5 / 100))")
    case True
    then have "exit_frame ?k i" using g l p t y not_threat [of "finite_or (l1_dRel l) 0"] by (auto simp: exit_frame_def)
    moreover have "\<bar>y\<bar> = off_path i" using l y by (simp add: off_path_def)
    ultimately show thesis using f True by (intro exit [of ?k "\<bar>y\<bar>"]) (auto simp: st co_track_timer(1))
  next
    case no: False
    have "co_exit_timer_s (co_step s i) = 0" unfolding st co_track_timer(1) by (rule if_not_P [OF no])
    with f show thesis by (rule other)
  qed
qed (use reset in blast)

lemma successively_snoc: "successively P (xs @ [x]) \<longleftrightarrow> successively P xs \<and> (xs \<noteq> [] \<longrightarrow> P (last xs) x)"
  by (auto simp: successively_append_iff)

lemma exit_trail:
  fixes ins :: "cut_out_in list"
  defines "s \<equiv> frames co_step CutOutLeadRelease ins"
  shows "\<exists>k zs ys. ins = zs @ ys \<and> (\<forall>i \<in> set ys. exit_frame k i) \<and> successively stays_out ys \<and>
    co_exit_timer_s s = sum_list (map (\<lambda>i. max 0 (finite_or (oi_dt i) 0)) ys) \<and>
    (ys \<noteq> [] \<longrightarrow> co_track_id s = Some k \<and> co_prev_abs_y_rel s = off_path (last ys))"
  unfolding s_def
proof (induction ins rule: rev_induct)
  case Nil
  show ?case by (simp add: CutOutLeadRelease_def)
next
  case (snoc i ins)
  let ?s = "frames co_step CutOutLeadRelease ins"
  have fr: "frames co_step CutOutLeadRelease (ins @ [i]) = co_step ?s i" by (simp add: frames_append)
  from snoc obtain k zs ys where IH: "ins = zs @ ys" "\<forall>i \<in> set ys. exit_frame k i" "successively stays_out ys"
    "co_exit_timer_s ?s = sum_list (map (\<lambda>i. max 0 (finite_or (oi_dt i) 0)) ys)"
    "ys \<noteq> [] \<longrightarrow> co_track_id ?s = Some k \<and> co_prev_abs_y_rel ?s = off_path (last ys)" by blast
  show ?case
  proof (cases i ?s rule: co_step_cases)
    case (reset r)
    then show ?thesis unfolding fr by - (rule exI [of _ k], rule exI [of _ "ins @ [i]"], rule exI [of _ "[]"], simp add: co_step_def [of ?s i] co_reset_def)
  next
    case other
    then show ?thesis unfolding fr by - (rule exI [of _ k], rule exI [of _ "ins @ [i]"], rule exI [of _ "[]"], simp)
  next
    case (exit k' y)
    have id: "co_track_id (co_step ?s i) = Some k'" "co_prev_abs_y_rel (co_step ?s i) = off_path i"
      using exit(2) by (simp_all add: co_step_def [of ?s i] exit(4) Let_def co_track_timer(2,3))
    show ?thesis
    proof (cases "Some k' = co_track_id ?s \<and> ys \<noteq> []")
      case True
      with IH(5) have k: "k' = k" and p: "co_prev_abs_y_rel ?s = off_path (last ys)" by simp_all
      have "stays_out (last ys) i" using exit(2,3) True p by (simp add: stays_out_def)
      with IH exit True id k show ?thesis unfolding fr
        by - (rule exI [of _ k], rule exI [of _ zs], rule exI [of _ "ys @ [i]"], simp add: successively_snoc)
    next
      case False
      with IH(4) have "co_exit_timer_s (co_step ?s i) = max 0 (finite_or (oi_dt i) 0)" by (auto simp: exit(5))
      with id exit(1) show ?thesis unfolding fr by - (rule exI [of _ k'], rule exI [of _ ins], rule exI [of _ "[i]"], simp)
    qed
  qed
qed

text \<open>
  C23. A lead is hidden from the planner only after a sustained, harmless departure. If, after any
  sequence of frames, \<open>filtered\<close> hides the first lead, then the most recent frames form an unbroken
  stretch of at least 0.4 s in which the gates are open, the same radar track is at least 2 m off
  the path, at least 15 m away and at least 4 s from a collision, the car drives at 3 m/s or more,
  and the track does not come back: from each frame of the stretch to the next it either is 3 m or
  more off the path or has come closer to the path by at most 5 cm. (The header of the module says that any
  shrinking of the offset resets the timer; the code tolerates these two cases.)
\<close>

theorem hidden_lead_has_left:
  assumes "snd (co_filtered i (frames co_step CutOutLeadRelease ins))"
  shows "\<exists>k zs ys. ins = zs @ ys \<and> (\<forall>j \<in> set (ys @ [i]). exit_frame k j) \<and> successively stays_out (ys @ [i]) \<and>
    4 / 10 \<le> sum_list (map (\<lambda>j. max 0 (finite_or (oi_dt j) 0)) (ys @ [i]))"
proof -
  let ?s = "frames co_step CutOutLeadRelease ins"
  have fr: "frames co_step CutOutLeadRelease (ins @ [i]) = co_step ?s i" by (simp add: frames_append)
  have t: "4 / 10 \<le> co_exit_timer_s (co_step ?s i)"
    using assms by (cases i ?s rule: co_step_cases) (simp_all add: co_step_def [of ?s i] Let_def co_track_timer(4))
  obtain k zs ys where w: "ins @ [i] = zs @ ys" "\<forall>i \<in> set ys. exit_frame k i" "successively stays_out ys"
    "co_exit_timer_s (co_step ?s i) = sum_list (map (\<lambda>i. max 0 (finite_or (oi_dt i) 0)) ys)"
    using exit_trail [of "ins @ [i]"] unfolding fr by blast
  with t have "ys \<noteq> []" by auto
  then obtain ys' where "ys = ys' @ [i]" "ins = zs @ ys'" using w(1) by (cases ys rule: rev_cases) auto
  with w(2-4) t show ?thesis by - (rule exI [of _ k], rule exI [of _ zs], rule exI [of _ ys'], simp)
qed

definition example_exit :: cut_out_in where
  "example_exit =
     \<lparr>oi_leadOne = Some \<lparr>l1_present = True, l1_dRel = Some 30, l1_yRel = Some 4, l1_vRel = Some 0, l1_radarTrackId = Some (real_of_int 5)\<rparr>,
      oi_v_ego = Some 20, oi_dt = Some (1 / 2), oi_long_active = True, oi_custom_long_enabled = True,
      oi_research_actuation_allowed = True, oi_mode_apply = True, oi_model = Some ([Some 0, Some 100], [Some 0, Some 0])\<rparr>"

theorem hidden_lead_has_left_witness:
  "snd (co_filtered example_exit (frames co_step CutOutLeadRelease [])) \<and> (\<exists>k. exit_frame k example_exit)"
proof -
  have "snd (co_filtered example_exit (frames co_step CutOutLeadRelease []))"
    by (simp add: co_filtered_def example_exit_def path_relative_y_or_none_def finite_or_def Let_def co_track_timer(4) del: of_int_numeral)
       (simp add: co_track_timer CutOutLeadRelease_def co_threat_def shaping_consts)
  with hidden_lead_has_left [OF this] show ?thesis by auto
qed

subsubsection \<open>Trajectory synthesis\<close>

lemma synth_dts: "length (synth_trajectory_dts ts) = CONTROL_N" "dt \<in> set (synth_trajectory_dts ts) \<Longrightarrow> 0 < dt"
  by (auto simp: synth_trajectory_dts_def Let_def CONTROL_N_def SYNTH_TRAJECTORY_DT_def list_all_iff split: if_splits)

lemma synth_accels_length:
  "length (fst (synth_accels a lj c dts)) = length dts" "length (snd (synth_accels a lj c dts)) = length dts"
  by (induction dts arbitrary: c) (simp_all add: Let_def case_prod_beta)

definition accel_next :: "real \<Rightarrow> bool \<Rightarrow> real \<Rightarrow> real \<Rightarrow> real" where
  "accel_next a_target limit_jerk current_accel dt =
     (if limit_jerk
      then current_accel + clip (a_target - current_accel) (NORMAL_NEGATIVE_RETREAT_JERK * dt) (POSITIVE_PROGRESS_JERK * dt)
      else a_target)"

lemma synth_accels_Cons:
  "synth_accels a lj c (dt # dts) =
     (accel_next a lj c dt # fst (synth_accels a lj (accel_next a lj c dt) dts),
      (accel_next a lj c dt - c) / dt # snd (synth_accels a lj (accel_next a lj c dt) dts))"
  by (simp add: accel_next_def Let_def case_prod_beta)

lemma accel_next_between: "0 < dt \<Longrightarrow> min c a \<le> accel_next a lj c dt \<and> accel_next a lj c dt \<le> max c a"
  by (auto simp: accel_next_def clip_def NORMAL_NEGATIVE_RETREAT_JERK_def POSITIVE_PROGRESS_JERK_def min_def max_def)

lemma accel_next_jerk:
  assumes "0 < dt" shows "-5 \<le> (accel_next a True c dt - c) / dt \<and> (accel_next a True c dt - c) / dt \<le> 4"
proof -
  have "-5 * dt \<le> clip (a - c) (NORMAL_NEGATIVE_RETREAT_JERK * dt) (POSITIVE_PROGRESS_JERK * dt)"
    "clip (a - c) (NORMAL_NEGATIVE_RETREAT_JERK * dt) (POSITIVE_PROGRESS_JERK * dt) \<le> 4 * dt"
    using assms clip_bounds [of "-5 * dt" "a - c" "4 * dt"]
    by (simp_all add: NORMAL_NEGATIVE_RETREAT_JERK_def POSITIVE_PROGRESS_JERK_def)
  with assms show ?thesis by (simp add: accel_next_def pos_le_divide_eq pos_divide_le_eq)
qed

lemma synth_accels_between:
  "\<forall>dt \<in> set dts. 0 < dt \<Longrightarrow> x \<in> set (fst (synth_accels a lj c dts)) \<Longrightarrow> min c a \<le> x \<and> x \<le> max c a"
proof (induction dts arbitrary: c)
  case (Cons dt dts)
  let ?n = "accel_next a lj c dt"
  from Cons.prems(1) have n: "min c a \<le> ?n" "?n \<le> max c a" using accel_next_between by auto
  from Cons.prems(2) consider "x = ?n" | "x \<in> set (fst (synth_accels a lj ?n dts))"
    by (auto simp del: synth_accels.simps simp: synth_accels_Cons)
  then show ?case
  proof cases
    case 2
    then have "min ?n a \<le> x \<and> x \<le> max ?n a" using Cons by simp
    with n show ?thesis by (auto simp: min_def max_def split: if_splits)
  qed (use n in simp)
qed simp

lemma synth_accels_jerk:
  "\<forall>dt \<in> set dts. 0 < dt \<Longrightarrow> j \<in> set (snd (synth_accels a True c dts)) \<Longrightarrow> -5 \<le> j \<and> j \<le> 4"
proof (induction dts arbitrary: c)
  case (Cons dt dts)
  then show ?case using accel_next_jerk [of dt a c]
    by (auto simp del: synth_accels.simps simp: synth_accels_Cons)
qed simp

lemma synth_speeds_props:
  "length (synth_speeds v xs) = length xs" "0 \<le> v \<Longrightarrow> u \<in> set (synth_speeds v xs) \<Longrightarrow> 0 \<le> u"
  by (induction v xs arbitrary: rule: synth_speeds.induct) auto

text \<open>
  The synthesised trajectory is well formed: 17 speeds, accelerations and jerks; no speed is
  negative; every acceleration lies between the first one and the target; and with the jerk limit
  every jerk lies between -5 and 4 m/s^3.
\<close>

theorem synth_trajectory_well_formed:
  fixes speeds_in accels_in :: "real list" and a_target :: real
  defines "prev \<equiv> (case accels_in of [] \<Rightarrow> a_target | a # _ \<Rightarrow> a)"
  assumes "synth_trajectory speeds_in accels_in v_ego a_target limit_jerk = (speeds, accels, jerks)"
  shows "length speeds = 17 \<and> length accels = 17 \<and> length jerks = 17 \<and> (\<forall>v \<in> set speeds. 0 \<le> v) \<and>
    (\<forall>a \<in> set accels. min prev a_target \<le> a \<and> a \<le> max prev a_target) \<and>
    (limit_jerk \<longrightarrow> (\<forall>j \<in> set jerks. -5 \<le> j \<and> j \<le> 4))"
proof -
  let ?dts = "synth_trajectory_dts MODEL_T_IDXS"
  let ?r = "synth_accels a_target limit_jerk prev ?dts"
  let ?v = "case v_ego of Some v \<Rightarrow> if v \<ge> 0 then v else (case speeds_in of [] \<Rightarrow> 0 | v # _ \<Rightarrow> v)
            | None \<Rightarrow> (case speeds_in of [] \<Rightarrow> 0 | v # _ \<Rightarrow> v)"
  have eqs: "speeds = synth_speeds (max 0 ?v) (zip (fst ?r) ?dts)" "accels = fst ?r" "jerks = snd ?r"
    using assms(2) by (auto simp: synth_trajectory_def Let_def case_prod_beta prev_def)
  have pos: "\<forall>dt \<in> set ?dts. 0 < dt" using synth_dts(2) by blast
  have len: "length ?dts = 17" using synth_dts(1) by (simp add: CONTROL_N_def)
  have "\<forall>v \<in> set speeds. 0 \<le> v" unfolding eqs by (meson max.cobounded1 synth_speeds_props(2))
  moreover have "\<forall>a \<in> set accels. min prev a_target \<le> a \<and> a \<le> max prev a_target"
    unfolding eqs using synth_accels_between [OF pos] by blast
  moreover have "limit_jerk \<longrightarrow> (\<forall>j \<in> set jerks. -5 \<le> j \<and> j \<le> 4)"
    unfolding eqs using synth_accels_jerk [OF pos, of _ a_target prev] by (cases limit_jerk) auto
  ultimately show ?thesis unfolding eqs by (simp add: synth_speeds_props(1) synth_accels_length len)
qed


theorem synth_trajectory_well_formed_witness:
  "case synth_trajectory [12] [-1] (Some 12) 1 True of (speeds, accels, jerks) \<Rightarrow>
     length speeds = 17 \<and> (\<forall>a \<in> set accels. -1 \<le> a \<and> a \<le> 1) \<and> (\<forall>j \<in> set jerks. -5 \<le> j \<and> j \<le> 4)"
  using synth_trajectory_well_formed [of "[12]" "[-1]" "Some 12" 1 True]
  by (auto split: prod.split simp del: synth_accels.simps)

subsubsection \<open>The envelope for following a lead\<close>

lemma evaluate_acc_envelope_valid:
  assumes "er_active (evaluate_acc_envelope inp)"
  obtains v c p dt d vr where "ei_v_ego inp = Some v" "ei_candidate_a_target inp = Some c" "ei_previous_a_target inp = Some p"
    "ei_dt inp = Some dt" "0 < dt" "ei_lead_d_rel inp = Some d" "ei_lead_v_rel inp = Some vr"
proof -
  let ?bad = "None \<in> {ei_v_ego inp, ei_candidate_a_target inp, ei_previous_a_target inp, ei_dt inp, ei_lead_d_rel inp,
                 ei_lead_v_rel inp, ei_lead_v_lead inp, ei_lead_a_lead_k inp} \<or> the (ei_dt inp) \<le> 0"
  have "\<not> ?bad"
  proof
    assume ?bad
    then show False using assms unfolding evaluate_acc_envelope_def if_P [OF \<open>?bad\<close>] by simp
  qed
  then show thesis
    by (cases "ei_v_ego inp"; cases "ei_candidate_a_target inp"; cases "ei_previous_a_target inp"; cases "ei_dt inp";
        cases "ei_lead_d_rel inp"; cases "ei_lead_v_rel inp") (simp_all add: that)
qed

lemma envelope_allowed_le: "envelope_allowed inp rs rd a \<le> a"
  by (auto simp: envelope_allowed_def Let_def)

lemma envelope_allowed_hard:
  assumes "ei_has_lead inp" "RE_ttc_low \<in> set rs \<or> RE_invalid_lead_kinematics \<in> set rs \<or> RE_invalid_lead_distance \<in> set rs \<or>
      \<not> ei_lead_compression_candidate inp \<and> (RE_closing_decel_high \<in> set rs \<or> RE_inside_time_gap \<in> set rs)"
  shows "envelope_allowed inp rs rd a \<le> 0" "envelope_allowed inp rs rd a \<le> - rd"
  using assms by (auto simp: envelope_allowed_def Let_def)

lemma evaluate_acc_envelope_fields:
  assumes "ei_v_ego inp = Some v" "ei_candidate_a_target inp = Some c" "ei_previous_a_target inp = Some p"
    "ei_dt inp = Some dt" "ei_lead_d_rel inp = Some d" "ei_lead_v_rel inp = Some vr" "er_active (evaluate_acc_envelope inp)"
  defines "g \<equiv> max (ei_min_gap_m inp) (ei_time_gap_s inp * max 0 v)"
  shows "er_allowed_a_target (evaluate_acc_envelope inp) =
      envelope_allowed inp (er_cap_reasons (evaluate_acc_envelope inp)) (lm_required_decel (measure_lead inp v d vr g))
        (min c (jerk_limit c p dt (ei_max_decel_jerk inp) (ei_max_accel_jerk inp)))"
    and "set (lm_reasons (measure_lead inp v d vr g)) \<subseteq> set (er_cap_reasons (evaluate_acc_envelope inp))"
    and "er_desired_gap (evaluate_acc_envelope inp) = g"
  using assms(7) unfolding g_def evaluate_acc_envelope_def Let_def assms(1-6) option.sel
  by (simp_all split: if_split_asm) blast


lemma measure_lead_closing:
  assumes "ei_has_lead inp" "0 < d" "vr < 0"
  shows "vr * vr = 2 * lm_required_decel (measure_lead inp v d vr g) * max (d - g) EPS_GAP_M"
    and "d < g \<longrightarrow> RE_inside_time_gap \<in> set (lm_reasons (measure_lead inp v d vr g))"
    and "- vr > 1 / 1000 \<and> d / - vr < ei_ttc_min_s inp \<longrightarrow> RE_ttc_low \<in> set (lm_reasons (measure_lead inp v d vr g))"
proof -
  have "0 < max (d - g) EPS_GAP_M" by (simp add: EPS_GAP_M_def)
  with assms show "vr * vr = 2 * lm_required_decel (measure_lead inp v d vr g) * max (d - g) EPS_GAP_M"
    by (simp add: measure_lead_def Let_def)
qed (use assms in \<open>auto simp: measure_lead_def Let_def\<close>)

text \<open>
  C24. The envelope only restricts, and brakes enough for a lead. On valid data the allowed
  acceleration is at most the candidate's and exceeds the last command by at most the jerk limit.
  When the car closes in on a lead ahead and the time to collision is below its minimum, the allowed
  acceleration is not positive and strong enough to end the closing speed within the usable gap
  (\<open>v\<^sup>2 \<le> 2 a d\<close>, the gap taken as at least 0.1 m). The same holds when the lead is inside the
  desired gap, except for a candidate marked as a controlled compression of the gap
  (\<open>lead_compression_candidate\<close>), for which the code leaves the gap out on purpose.
\<close>

theorem envelope_brakes_for_lead:
  fixes inp :: envelope_in and c p dt d vr v :: real
  defines "r \<equiv> evaluate_acc_envelope inp"
  assumes "er_active r" "ei_v_ego inp = Some v" "ei_candidate_a_target inp = Some c" "ei_previous_a_target inp = Some p"
    "ei_dt inp = Some dt" "ei_lead_d_rel inp = Some d" "ei_lead_v_rel inp = Some vr"
  shows "er_allowed_a_target r \<le> c \<and> er_allowed_a_target r \<le> p + ei_max_accel_jerk inp * dt \<and>
    (ei_has_lead inp \<and> 0 < d \<and> vr < - 1 / 1000 \<and>
       (d / - vr < ei_ttc_min_s inp \<or> d < er_desired_gap r \<and> \<not> ei_lead_compression_candidate inp) \<longrightarrow>
     er_allowed_a_target r \<le> 0 \<and> vr * vr \<le> 2 * - er_allowed_a_target r * max (d - er_desired_gap r) EPS_GAP_M)"
proof -
  define g where "g = max (ei_min_gap_m inp) (ei_time_gap_s inp * max 0 v)"
  let ?m = "measure_lead inp v d vr g" and ?j = "jerk_limit c p dt (ei_max_decel_jerk inp) (ei_max_accel_jerk inp)"
  note f = evaluate_acc_envelope_fields [OF assms(3-8,2) [unfolded r_def], folded r_def g_def]
  have "?j \<le> p + ei_max_accel_jerk inp * dt" by (auto simp: jerk_limit_def)
  with envelope_allowed_le [of inp "er_cap_reasons r" "lm_required_decel ?m" "min c ?j"]
  have top: "er_allowed_a_target r \<le> c" "er_allowed_a_target r \<le> p + ei_max_accel_jerk inp * dt" unfolding f(1) by simp_all
  have "er_allowed_a_target r \<le> 0 \<and> vr * vr \<le> 2 * - er_allowed_a_target r * max (d - er_desired_gap r) EPS_GAP_M"
    if h: "ei_has_lead inp" "0 < d" "vr < - 1 / 1000"
      "d / - vr < ei_ttc_min_s inp \<or> d < er_desired_gap r \<and> \<not> ei_lead_compression_candidate inp"
  proof -
    have neg: "vr < 0" using h(3) by simp
    note m = measure_lead_closing [where v = v and g = g, OF h(1,2) neg]
    have "RE_ttc_low \<in> set (er_cap_reasons r) \<or> \<not> ei_lead_compression_candidate inp \<and> RE_inside_time_gap \<in> set (er_cap_reasons r)"
      using m(2,3) f(2) h(3,4) unfolding f(3) by (auto simp: subset_iff)
    then have a: "er_allowed_a_target r \<le> 0" "lm_required_decel ?m \<le> - er_allowed_a_target r"
      using envelope_allowed_hard [OF h(1), of "er_cap_reasons r" "lm_required_decel ?m" "min c ?j"] unfolding f(1) by auto
    have "0 \<le> max (d - g) EPS_GAP_M" by (simp add: EPS_GAP_M_def)
    from mult_right_mono [OF a(2) this]
    have "2 * lm_required_decel ?m * max (d - g) EPS_GAP_M \<le> 2 * - er_allowed_a_target r * max (d - g) EPS_GAP_M" by linarith
    with m(1) a(1) show ?thesis unfolding f(3) by linarith
  qed
  with top show ?thesis by blast
qed

definition example_envelope :: envelope_in where
  "example_envelope =
     \<lparr>ei_v_ego = Some 20, ei_candidate_a_target = Some 1, ei_previous_a_target = Some 0, ei_dt = Some (1 / 20),
      ei_openpilot_longitudinal_control = True, ei_has_lead = True, ei_lead_d_rel = Some 20, ei_lead_v_rel = Some (-10),
      ei_lead_v_lead = Some 10, ei_lead_a_lead_k = Some 0, ei_lead_kinematics_valid = True, ei_model_stale = False,
      ei_model_progress_candidate = False, ei_lead_compression_candidate = False, ei_radar_stale = False, ei_lead_required = False,
      ei_min_gap_m = ENV_MIN_GAP_M, ei_time_gap_s = ENV_TIME_GAP_S, ei_ttc_min_s = ENV_TTC_MIN_S,
      ei_required_decel_limit = REQUIRED_DECEL_COMFORT_LIMIT, ei_max_accel_jerk = MAX_ACCEL_JERK, ei_max_decel_jerk = MAX_DECEL_JERK\<rparr>"

theorem envelope_brakes_for_lead_witness:
  "er_active (evaluate_acc_envelope example_envelope) \<and> er_allowed_a_target (evaluate_acc_envelope example_envelope) \<le> 0"
proof -
  have a: "er_active (evaluate_acc_envelope example_envelope)"
    by (simp add: evaluate_acc_envelope_def example_envelope_def Let_def)
  then show ?thesis
    using envelope_brakes_for_lead [of example_envelope 20 1 0 "1 / 20" 20 "-10"]
    by (simp add: example_envelope_def ENV_TTC_MIN_S_def)
qed

end
