(* ===== verification/Power_Monitor.thy ===== *)
theory Power_Monitor
  imports Long_Control
begin

text \<open>
  Power and heat of the device: \<open>PowerMonitoring\<close> of \<open>system/hardware/power_monitoring.py\<close>, which
  estimates the charge of the car's battery and decides when to shut down, and the fan controller
  of \<open>system/hardware/fan_controller.py\<close>. Clock readings, the measured power draw and the
  parameters are inputs. The lemmas show that the energy drawn while parked is accounted for, so
  that a parked device shuts down before it has drawn more than the budget, and that the fan
  speed is in range.
\<close>

subsection \<open>PowerMonitoring\<close>

definition CAR_VOLTAGE_LOW_PASS_K :: real where "CAR_VOLTAGE_LOW_PASS_K = 11 / 1000"
definition CAR_BATTERY_CAPACITY_uWh :: real where "CAR_BATTERY_CAPACITY_uWh = 30 * 10 ^ 6"
definition CAR_CHARGING_RATE_W :: real where "CAR_CHARGING_RATE_W = 45"
definition VBATT_PAUSE_CHARGING :: real where "VBATT_PAUSE_CHARGING = 118 / 10"
definition MAX_TIME_OFFROAD_S :: real where "MAX_TIME_OFFROAD_S = 30 * 3600"
definition MIN_ON_TIME_S :: real where "MIN_ON_TIME_S = 3600"
definition DELAY_SHUTDOWN_TIME_S :: real where "DELAY_SHUTDOWN_TIME_S = 300"
definition VOLTAGE_SHUTDOWN_MIN_OFFROAD_TIME_S :: real where "VOLTAGE_SHUTDOWN_MIN_OFFROAD_TIME_S = 60"

record power_monitoring =
  pm_last_measurement_time :: "real option"
  pm_last_save_time :: real
  pm_power_used_uWh :: real
  pm_next_pulsed_measurement_time :: "real option"
  pm_car_voltage_mV :: real
  pm_car_voltage_instant_mV :: real
  pm_car_battery_capacity_uWh :: real
  pm_CarBatteryCapacity :: "int option"  \<comment> \<open>the parameter as stored\<close>

definition PowerMonitoring :: "int option \<Rightarrow> power_monitoring" where
  "PowerMonitoring stored =
     \<lparr>pm_last_measurement_time = None, pm_last_save_time = 0, pm_power_used_uWh = 0,
      pm_next_pulsed_measurement_time = None, pm_car_voltage_mV = 12000, pm_car_voltage_instant_mV = 12000,
      pm_car_battery_capacity_uWh =
        max (CAR_BATTERY_CAPACITY_uWh / 10) (case stored of None \<Rightarrow> 0 | Some c \<Rightarrow> of_int c),
      pm_CarBatteryCapacity = stored\<rparr>"

text \<open>A power draw below zero raises, and the handler leaves the state as it is.\<close>

definition perform_integration :: "real \<Rightarrow> real \<Rightarrow> power_monitoring \<Rightarrow> power_monitoring" where
  "perform_integration t current_power s =
     (case pm_last_measurement_time s of
        None \<Rightarrow> s
      | Some t0 \<Rightarrow>
          if t0 = 0 then s
          else
            (let integration_time_h = (t - t0) / 3600;
                 power_used = (current_power * 1000000) * integration_time_h
             in if power_used < 0 then s
                else s\<lparr>pm_power_used_uWh := pm_power_used_uWh s + power_used,
                       pm_car_battery_capacity_uWh := pm_car_battery_capacity_uWh s - power_used,
                       pm_last_measurement_time := Some t\<rparr>))"

definition pm_measure :: "real \<Rightarrow> real \<Rightarrow> power_monitoring \<Rightarrow> power_monitoring" where
  "pm_measure now voltage s =
     (let s = s\<lparr>pm_car_voltage_instant_mV := voltage,
                pm_car_voltage_mV := voltage * CAR_VOLTAGE_LOW_PASS_K + pm_car_voltage_mV s * (1 - CAR_VOLTAGE_LOW_PASS_K),
                pm_car_battery_capacity_uWh := min (max (pm_car_battery_capacity_uWh s) 0) CAR_BATTERY_CAPACITY_uWh\<rparr>
      in if now - pm_last_save_time s \<ge> 10
         then s\<lparr>pm_CarBatteryCapacity := Some (py_int (pm_car_battery_capacity_uWh s)), pm_last_save_time := now\<rparr> else s)"

definition pm_charge :: "real \<Rightarrow> real \<Rightarrow> power_monitoring \<Rightarrow> power_monitoring" where
  "pm_charge now t0 s =
     (let s = s\<lparr>pm_power_used_uWh := 0\<rparr>;
          integration_time_h = (now - t0) / 3600
      in if integration_time_h < 0 then s
         else s\<lparr>pm_car_battery_capacity_uWh := pm_car_battery_capacity_uWh s + CAR_CHARGING_RATE_W * 10 ^ 6 * integration_time_h,
                pm_last_measurement_time := Some now\<rparr>)"

definition pm_calculate :: "real \<Rightarrow> real option \<Rightarrow> bool \<Rightarrow> real \<Rightarrow> power_monitoring \<Rightarrow> power_monitoring" where
  "pm_calculate now voltage ignition current_power s =
     (case voltage of
        None \<Rightarrow> s\<lparr>pm_last_measurement_time := None, pm_next_pulsed_measurement_time := None, pm_power_used_uWh := 0\<rparr>
      | Some v \<Rightarrow>
          (let s = pm_measure now v s
           in case pm_last_measurement_time s of
                None \<Rightarrow> s\<lparr>pm_last_measurement_time := Some now\<rparr>
              | Some t0 \<Rightarrow> if ignition then pm_charge now t0 s else perform_integration now current_power s))"

definition get_power_used :: "power_monitoring \<Rightarrow> int" where "get_power_used s = py_int (pm_power_used_uWh s)"
definition get_car_battery_capacity :: "power_monitoring \<Rightarrow> int" where
  "get_car_battery_capacity s = py_int (pm_car_battery_capacity_uWh s)"

definition max_time_offroad_exceeded :: "int option \<Rightarrow> real \<Rightarrow> bool" where
  "max_time_offroad_exceeded param offroad_time \<longleftrightarrow>
     (let sp_max_time_val_s = (case param of Some p \<Rightarrow> if p \<ge> 0 then of_int (p * 60) else MAX_TIME_OFFROAD_S
                                | None \<Rightarrow> MAX_TIME_OFFROAD_S)
      in 0 < sp_max_time_val_s \<and> sp_max_time_val_s \<le> offroad_time)"

record shutdown_params =
  sp_MaxTimeOffroad :: "int option"
  sp_DisablePowerDown :: bool
  sp_ForcePowerDown :: bool

definition should_shutdown ::
  "shutdown_params \<Rightarrow> real \<Rightarrow> bool \<Rightarrow> bool \<Rightarrow> real option \<Rightarrow> bool \<Rightarrow> power_monitoring \<Rightarrow> bool" where
  "should_shutdown params now ignition in_car offroad_timestamp started_seen s =
     (case offroad_timestamp of
        None \<Rightarrow> False
      | Some ts \<Rightarrow>
          (let offroad_time = now - ts;
               low_voltage_shutdown = pm_car_voltage_mV s < VBATT_PAUSE_CHARGING * 1000 \<and>
                 offroad_time > VOLTAGE_SHUTDOWN_MIN_OFFROAD_TIME_S;
               sd = (max_time_offroad_exceeded (sp_MaxTimeOffroad params) offroad_time \<or> low_voltage_shutdown \<or>
                       pm_car_battery_capacity_uWh s \<le> 0) \<and>
                 \<not> ignition \<and> \<not> sp_DisablePowerDown params \<and> in_car \<and> offroad_time > DELAY_SHUTDOWN_TIME_S
           in (sd \<or> sp_ForcePowerDown params) \<and> (started_seen \<or> now > MIN_ON_TIME_S)))"

subsection \<open>FanController\<close>

record fan =
  fan_last_ignition :: bool
  fan_controller :: pid

definition FanController :: "real \<Rightarrow> fan" where
  "FanController rate = \<lparr>fan_last_ignition = False,
     fan_controller = PIDController [(0, 0)] [(0, 4 / 1000)] [(0, 0)] PID_DEFAULT_LIMIT (- PID_DEFAULT_LIMIT) rate\<rparr>"

text \<open>\<open>OFFSET\<close> is 0 on one device type and 5 on the others.\<close>

definition fan_update :: "real \<Rightarrow> real \<Rightarrow> bool \<Rightarrow> fan \<Rightarrow> fan \<times> int" where
  "fan_update OFFSET cur_temp ignition s =
     (let c = (fan_controller s)\<lparr>pid_pos_limit := (if ignition then 100 else 30), pid_neg_limit := (if ignition then 30 else 0)\<rparr>;
          c = (if ignition \<noteq> fan_last_ignition s then pid_reset c else c);
          c = pid_update (cur_temp - (75 + OFFSET)) 0 0 (np_interp cur_temp [(60 + OFFSET, 0), (100 + OFFSET, 100)]) False c
      in (s\<lparr>fan_last_ignition := ignition, fan_controller := c\<rparr>, py_int (pid_control c)))"

subsection \<open>The fan speed is in range\<close>

lemma py_int_between: "of_int a \<le> x \<Longrightarrow> x \<le> of_int b \<Longrightarrow> a \<le> py_int x \<and> py_int x \<le> b"
  unfolding py_int_def by (auto simp: le_floor_iff floor_le_iff ceiling_le_iff le_ceiling_iff; linarith)

lemma fan_speed_in_range:
  "(if ignition then 30 else 0) \<le> snd (fan_update off temp ignition s) \<and> snd (fan_update off temp ignition s) \<le> (if ignition then 100 else 30)"
proof -
  define c where "c = (let c = (fan_controller s)\<lparr>pid_pos_limit := (if ignition then 100 else 30),
      pid_neg_limit := (if ignition then 30 else 0)\<rparr> in if ignition \<noteq> fan_last_ignition s then pid_reset c else c)"
  have lim: "pid_neg_limit c = of_int (if ignition then 30 else 0)" "pid_pos_limit c = of_int (if ignition then 100 else 30)"
    by (simp_all add: c_def Let_def pid_reset_def)
  let ?c = "pid_update (temp - (75 + off)) 0 0 (np_interp temp [(60 + off, 0), (100 + off, 100)]) False c"
  have "snd (fan_update off temp ignition s) = py_int (pid_control ?c)" by (simp add: fan_update_def c_def Let_def)
  moreover have "of_int (if ignition then 30 else 0) \<le> pid_control ?c \<and> pid_control ?c \<le> of_int (if ignition then 100 else 30)"
    using pid_control_bounds [of c] unfolding lim by simp
  ultimately show ?thesis using py_int_between by metis
qed

subsection \<open>Energy drawn while parked\<close>

text \<open>A sample of a parked car: the time, the battery voltage and the power draw.\<close>

record parked_sample =
  ks_time :: real
  ks_voltage :: real
  ks_power :: real

definition pm_parked :: "power_monitoring \<Rightarrow> parked_sample \<Rightarrow> power_monitoring" where
  "pm_parked s k = pm_calculate (ks_time k) (Some (ks_voltage k)) False (ks_power k) s"

text \<open>The energy drawn since time \<open>t0\<close>, in micro watt hours.\<close>

fun energy_uWh :: "real \<Rightarrow> parked_sample list \<Rightarrow> real" where
  "energy_uWh t0 [] = 0"
| "energy_uWh t0 (k # ks) = ks_power k * 1000000 * ((ks_time k - t0) / 3600) + energy_uWh (ks_time k) ks"

fun samples_ok :: "real \<Rightarrow> parked_sample list \<Rightarrow> bool" where
  "samples_ok t0 [] \<longleftrightarrow> True"
| "samples_ok t0 (k # ks) \<longleftrightarrow> t0 \<le> ks_time k \<and> 0 \<le> ks_power k \<and> samples_ok (ks_time k) ks"

lemma pm_parked_step:
  assumes "pm_last_measurement_time s = Some t0" "0 < t0" "t0 \<le> ks_time k" "0 \<le> ks_power k"
  shows "pm_last_measurement_time (pm_parked s k) = Some (ks_time k)"
    and "pm_car_battery_capacity_uWh (pm_parked s k) = min (max (pm_car_battery_capacity_uWh s) 0) CAR_BATTERY_CAPACITY_uWh -
      ks_power k * 1000000 * ((ks_time k - t0) / 3600)"
proof -
  have "0 \<le> (ks_time k - t0) * ks_power k" "0 \<le> ks_power k * (ks_time k - t0)" using assms by simp_all
  then have "\<not> (ks_time k - t0) * ks_power k < 0" "\<not> ks_power k * (ks_time k - t0) < 0" by simp_all
  then show "pm_last_measurement_time (pm_parked s k) = Some (ks_time k)"
    and "pm_car_battery_capacity_uWh (pm_parked s k) = min (max (pm_car_battery_capacity_uWh s) 0) CAR_BATTERY_CAPACITY_uWh -
      ks_power k * 1000000 * ((ks_time k - t0) / 3600)"
    using assms by (simp_all add: pm_parked_def pm_calculate_def pm_measure_def perform_integration_def Let_def)
qed

lemma clamp_drain: "y \<le> X \<Longrightarrow> min (max (y - e) 0) C \<le> max 0 (X - e :: real)"
  by (simp add: min_def max_def)

lemma energy_nonneg: "samples_ok t0 ks \<Longrightarrow> 0 \<le> energy_uWh t0 ks"
  by (induction ks arbitrary: t0) auto

lemma pm_parked_capacity:
  "pm_last_measurement_time s = Some t0 \<Longrightarrow> 0 < t0 \<Longrightarrow> samples_ok t0 ks \<Longrightarrow>
   0 \<le> X \<Longrightarrow> min (max (pm_car_battery_capacity_uWh s) 0) CAR_BATTERY_CAPACITY_uWh \<le> X \<Longrightarrow>
   min (max (pm_car_battery_capacity_uWh (frames pm_parked s ks)) 0) CAR_BATTERY_CAPACITY_uWh \<le> max 0 (X - energy_uWh t0 ks)"
proof (induction ks arbitrary: s t0 X)
  case (Cons k ks)
  define e where "e = ks_power k * 1000000 * ((ks_time k - t0) / 3600)"
  have ok: "t0 \<le> ks_time k" "0 \<le> ks_power k" "samples_ok (ks_time k) ks" using Cons.prems(3) by simp_all
  note step = pm_parked_step [OF Cons.prems(1,2) ok(1,2), folded e_def]
  have "min (max (pm_car_battery_capacity_uWh (pm_parked s k)) 0) CAR_BATTERY_CAPACITY_uWh \<le> max 0 (X - e)"
    unfolding step(2) by (rule clamp_drain) (fact Cons.prems(5))
  then have "min (max (pm_car_battery_capacity_uWh (frames pm_parked (pm_parked s k) ks)) 0) CAR_BATTERY_CAPACITY_uWh
      \<le> max 0 (max 0 (X - e) - energy_uWh (ks_time k) ks)"
    using ok Cons.prems(2) by (intro Cons.IH [OF step(1)]) auto
  also have "\<dots> \<le> max 0 (X - (e + energy_uWh (ks_time k) ks))"
    using energy_nonneg [OF ok(3)] by (simp add: max_def)
  finally show ?case by (simp add: e_def)
qed simp

text \<open>
  The car can always be started again: once a parked device has drawn the energy budget of
  30 Wh since some measurement, however the draw was distributed over the samples,
  its estimate of the remaining charge is used up, and the device shuts down if it has been off
  the road for more than five minutes in a car and shutting down is not disabled.
\<close>

theorem parked_device_shuts_down:
  assumes "pm_last_measurement_time s = Some t0" "0 < t0" "samples_ok t0 ks" "CAR_BATTERY_CAPACITY_uWh \<le> energy_uWh t0 ks"
    and "now - ts > DELAY_SHUTDOWN_TIME_S" "\<not> sp_DisablePowerDown params"
  shows "pm_car_battery_capacity_uWh (frames pm_parked s ks) \<le> 0 \<and>
    should_shutdown params now False True (Some ts) True (frames pm_parked s ks)"
proof -
  have cap: "0 < CAR_BATTERY_CAPACITY_uWh" by (simp add: CAR_BATTERY_CAPACITY_uWh_def)
  then have "min (max (pm_car_battery_capacity_uWh (frames pm_parked s ks)) 0) CAR_BATTERY_CAPACITY_uWh
      \<le> max 0 (CAR_BATTERY_CAPACITY_uWh - energy_uWh t0 ks)"
    by (intro pm_parked_capacity [OF assms(1-3)]) simp_all
  with assms(4) cap have "pm_car_battery_capacity_uWh (frames pm_parked s ks) \<le> 0" by (simp split: if_splits add: min_def max_def)
  with assms(5,6) show ?thesis by (simp add: should_shutdown_def Let_def)
qed

text \<open>Six hours at 5 W, sampled once an hour, from a monitor that made its first measurement.\<close>

definition example_samples :: "parked_sample list" where
  "example_samples = map (\<lambda>h. \<lparr>ks_time = 100 + 3600 * h, ks_voltage = 12000, ks_power = 5\<rparr>) [1, 2, 3, 4, 5, 6]"

theorem parked_device_shuts_down_witness:
  "should_shutdown \<lparr>sp_MaxTimeOffroad = Some 0, sp_DisablePowerDown = False, sp_ForcePowerDown = False\<rparr> 21700 False True
     (Some 100) True (frames pm_parked (pm_parked (PowerMonitoring None) \<lparr>ks_time = 100, ks_voltage = 12000, ks_power = 5\<rparr>) example_samples)"
  by (rule parked_device_shuts_down [of _ 100, THEN conjunct2])
    (simp_all add: pm_parked_def pm_calculate_def pm_measure_def PowerMonitoring_def example_samples_def
      CAR_BATTERY_CAPACITY_uWh_def DELAY_SHUTDOWN_TIME_S_def Let_def)

end
