(* ===== verification/Process_Manager.thy ===== *)
theory Process_Manager
  imports Prelude
begin

text \<open>
  The process manager: \<open>system/manager/process.py\<close> (the life of one managed process),
  \<open>process_config.py\<close> (which process is wanted when) and \<open>manager.py\<close> (the main loop). The operating
  system is an explicit state: the processes that were started, the exit code of those that ended,
  and the signals sent. What a process does after a signal is decided by the environment. The
  lemmas show that a process never has two living instances, that an unwanted process is dead
  after two frames, and that the actuators never have two controllers.
\<close>

subsection \<open>The operating system\<close>

datatype os_signal = SIGINT | SIGKILL

record os_state =
  os_next :: nat
  os_name :: "nat \<Rightarrow> string"
  os_exit :: "nat \<Rightarrow> int option"
  os_signals :: "(nat \<times> os_signal) list"

definition os_init :: os_state where
  "os_init = \<lparr>os_next = 1, os_name = (\<lambda>_. ''''), os_exit = (\<lambda>_. None), os_signals = []\<rparr>"

definition os_spawn :: "string \<Rightarrow> os_state \<Rightarrow> nat \<times> os_state" where
  "os_spawn name os =
     (os_next os, os\<lparr>os_next := os_next os + 1, os_name := (os_name os)(os_next os := name), os_exit := (os_exit os)(os_next os := None)\<rparr>)"

text \<open>A process that is still running may end, by itself or after a signal, with some exit code.\<close>

definition os_end :: "nat \<Rightarrow> int \<Rightarrow> os_state \<Rightarrow> os_state" where
  "os_end pid code os = (if os_exit os pid = None then os\<lparr>os_exit := (os_exit os)(pid := Some code)\<rparr> else os)"

text \<open>The answer of the environment: the exit code of a process that ends within the five seconds it is given.\<close>

type_synonym os_env = "nat \<Rightarrow> int option"

definition join_process :: "os_env \<Rightarrow> nat \<Rightarrow> os_state \<Rightarrow> os_state" where
  "join_process env pid os = (case env pid of Some code \<Rightarrow> os_end pid code os | None \<Rightarrow> os)"

subsection \<open>One managed process\<close>

datatype proc_kind = Native_Process | Python_Process | Daemon_Process

record mparams =
  p_bool :: "string \<Rightarrow> bool"
  p_str :: "string \<Rightarrow> string option"
  p_runner_cache :: "int option"
  p_bundle_runner :: "int option"

text \<open>What the conditions look at besides the parameters: the car, the machine and its files.\<close>

record run_env =
  re_started :: bool
  re_params :: mparams
  re_notCar :: bool
  re_PC :: bool
  re_ublox_device :: bool
  re_use_quectel_gps :: bool
  re_mapd_root_exists :: bool
  re_osm_download :: "bool option"

record proc_config =
  pc_name :: string
  pc_kind :: proc_kind
  pc_should_run :: "run_env \<Rightarrow> bool"
  pc_writes :: "run_env \<Rightarrow> mparams"
  pc_enabled :: bool
  pc_sigkill :: bool
  pc_restart_if_crash :: bool

record managed_process =
  mp_config :: proc_config
  mp_proc :: "nat option"
  mp_shutting_down :: bool

definition ManagerProcess :: "proc_config \<Rightarrow> managed_process" where
  "ManagerProcess c = \<lparr>mp_config = c, mp_proc = None, mp_shutting_down = False\<rparr>"

abbreviation mp_name :: "managed_process \<Rightarrow> string" where
  "mp_name m \<equiv> pc_name (mp_config m)"

definition exitcode :: "os_state \<Rightarrow> nat \<Rightarrow> int option" where
  "exitcode os pid = os_exit os pid"

definition mp_signal :: "os_signal \<Rightarrow> managed_process \<Rightarrow> os_state \<Rightarrow> os_state" where
  "mp_signal sig m os =
     (case mp_proc m of
        None \<Rightarrow> os
      | Some pid \<Rightarrow> if exitcode os pid \<noteq> None then os else os\<lparr>os_signals := os_signals os @ [(pid, sig)]\<rparr>)"

text \<open>\<open>proc.join()\<close> after SIGKILL returns when the process is dead: by its own exit, or with code -9.\<close>

definition kill_and_join :: "os_env \<Rightarrow> nat \<Rightarrow> os_state \<Rightarrow> os_state" where
  "kill_and_join env pid os = os_end pid (case env pid of Some code \<Rightarrow> code | None \<Rightarrow> -9) os"

definition mp_reap :: "nat \<Rightarrow> managed_process \<Rightarrow> os_state \<Rightarrow> managed_process \<times> os_state \<times> int option" where
  "mp_reap pid m os =
     (if exitcode os pid \<noteq> None then (m\<lparr>mp_shutting_down := False, mp_proc := None\<rparr>, os, exitcode os pid) else (m, os, None))"

definition mp_stop :: "os_env \<Rightarrow> bool \<Rightarrow> bool \<Rightarrow> os_signal option \<Rightarrow> managed_process \<Rightarrow> os_state \<Rightarrow> managed_process \<times> os_state \<times> int option" where
  "mp_stop env retry block sig m os =
     (if pc_kind (mp_config m) = Daemon_Process then (m, os, None)
      else case mp_proc m of
          None \<Rightarrow> (m, os, None)
        | Some pid \<Rightarrow>
            if exitcode os pid = None then
              (let first = \<not> mp_shutting_down m;
                   sig = (case sig of Some s \<Rightarrow> s | None \<Rightarrow> if pc_sigkill (mp_config m) then SIGKILL else SIGINT);
                   os = (if first then mp_signal sig m os else os);
                   m = m\<lparr>mp_shutting_down := True\<rparr>
               in if first \<and> \<not> block then (m, os, None)
                  else
                    (let os = join_process env pid os;
                         os = (if exitcode os pid = None \<and> retry then kill_and_join env pid (mp_signal SIGKILL m os) else os)
                     in mp_reap pid m os))
            else mp_reap pid m os)"

text \<open>
  A daemon keeps its process id in a parameter; \<open>daemon_alive\<close> says whether that process still runs
  the module. Its process is not tracked by the manager.
\<close>

definition mp_start :: "os_env \<Rightarrow> bool \<Rightarrow> managed_process \<Rightarrow> os_state \<Rightarrow> managed_process \<times> os_state" where
  "mp_start env daemon_alive m os =
     (if pc_kind (mp_config m) = Daemon_Process
      then (if daemon_alive then (m, os) else (m, snd (os_spawn (mp_name m) os)))
      else
        (let (m, os) = (if mp_shutting_down m then (case mp_stop env True True None m os of (m, os, _) \<Rightarrow> (m, os)) else (m, os))
         in if mp_proc m \<noteq> None then (m, os)
            else (case os_spawn (mp_name m) os of (pid, os) \<Rightarrow> (m\<lparr>mp_proc := Some pid, mp_shutting_down := False\<rparr>, os))))"

definition mp_restart :: "os_env \<Rightarrow> bool \<Rightarrow> managed_process \<Rightarrow> os_state \<Rightarrow> managed_process \<times> os_state" where
  "mp_restart env daemon_alive m os =
     (case mp_stop env True True (Some SIGKILL) m os of (m, os, _) \<Rightarrow> mp_start env daemon_alive m os)"

record process_state_msg =
  ps_name :: string
  ps_running :: bool
  ps_shouldBeRunning :: bool
  ps_pid :: nat
  ps_exitCode :: int

definition get_process_state_msg :: "os_state \<Rightarrow> managed_process \<Rightarrow> process_state_msg" where
  "get_process_state_msg os m =
     (case mp_proc m of
        None \<Rightarrow> \<lparr>ps_name = mp_name m, ps_running = False, ps_shouldBeRunning = False, ps_pid = 0, ps_exitCode = 0\<rparr>
      | Some pid \<Rightarrow> \<lparr>ps_name = mp_name m, ps_running = (exitcode os pid = None), ps_shouldBeRunning = (\<not> mp_shutting_down m),
                     ps_pid = pid, ps_exitCode = (case exitcode os pid of Some c \<Rightarrow> c | None \<Rightarrow> 0)\<rparr>)"

subsection \<open>Keeping the wanted processes running\<close>

definition wanted :: "string list \<Rightarrow> run_env \<Rightarrow> proc_config \<Rightarrow> bool" where
  "wanted not_run e c \<longleftrightarrow> pc_enabled c \<and> pc_name c \<notin> set not_run \<and> pc_should_run c e"

text \<open>The first loop: restart what crashed, ask the unwanted to stop. Evaluating a condition may write a parameter.\<close>

fun er_scan :: "os_env \<Rightarrow> (string \<Rightarrow> bool) \<Rightarrow> string list \<Rightarrow> run_env \<Rightarrow> managed_process list \<Rightarrow> os_state \<Rightarrow> managed_process list \<times> os_state \<times> run_env" where
  "er_scan env alive not_run e [] os = ([], os, e)"
| "er_scan env alive not_run e (m # ms) os =
     (let c = mp_config m;
          e' = (if pc_enabled c \<and> pc_name c \<notin> set not_run then e\<lparr>re_params := pc_writes c e\<rparr> else e);
          (m, os) = (if wanted not_run e c
                     then (if pc_restart_if_crash c \<and> (case mp_proc m of Some pid \<Rightarrow> exitcode os pid \<noteq> None | None \<Rightarrow> False)
                           then mp_restart env (alive (mp_name m)) m os else (m, os))
                     else (case mp_stop env True False None m os of (m, os, _) \<Rightarrow> (m, os)));
          (ms, os, e'') = er_scan env alive not_run e' ms os
      in (m # ms, os, e''))"

fun er_wanted :: "string list \<Rightarrow> run_env \<Rightarrow> proc_config list \<Rightarrow> bool list" where
  "er_wanted not_run e [] = []"
| "er_wanted not_run e (c # cs) =
     wanted not_run e c # er_wanted not_run (if pc_enabled c \<and> pc_name c \<notin> set not_run then e\<lparr>re_params := pc_writes c e\<rparr> else e) cs"

fun er_start :: "os_env \<Rightarrow> (string \<Rightarrow> bool) \<Rightarrow> (managed_process \<times> bool) list \<Rightarrow> os_state \<Rightarrow> managed_process list \<times> os_state" where
  "er_start env alive [] os = ([], os)"
| "er_start env alive ((m, w) # ms) os =
     (let (m, os) = (if w then mp_start env (alive (mp_name m)) m os else (m, os));
          (ms, os) = er_start env alive ms os
      in (m # ms, os))"

definition ensure_running :: "os_env \<Rightarrow> (string \<Rightarrow> bool) \<Rightarrow> string list \<Rightarrow> run_env \<Rightarrow> managed_process list \<Rightarrow> os_state \<Rightarrow> managed_process list \<times> os_state \<times> run_env" where
  "ensure_running env alive not_run e ms os =
     (let ws = er_wanted not_run e (map mp_config ms);
          (ms, os, e') = er_scan env alive not_run e ms os;
          (ms, os) = er_start env alive (zip ms ws) os
      in (ms, os, e'))"


subsection \<open>When a process is wanted\<close>

definition get_bool :: "run_env \<Rightarrow> string \<Rightarrow> bool" where
  "get_bool e k = p_bool (re_params e) k"

definition driverview :: "run_env \<Rightarrow> bool" where "driverview e \<longleftrightarrow> re_started e \<or> get_bool e ''IsDriverViewEnabled''"
definition notcar :: "run_env \<Rightarrow> bool" where "notcar e \<longleftrightarrow> re_started e \<and> re_notCar e"
definition iscar :: "run_env \<Rightarrow> bool" where "iscar e \<longleftrightarrow> re_started e \<and> \<not> re_notCar e"
definition logging :: "run_env \<Rightarrow> bool" where "logging e \<longleftrightarrow> re_started e \<and> (\<not> re_notCar e \<or> \<not> get_bool e ''DisableLogging'')"
definition ublox_available :: "run_env \<Rightarrow> bool" where "ublox_available e \<longleftrightarrow> re_ublox_device e \<and> \<not> re_use_quectel_gps e"
definition ublox :: "run_env \<Rightarrow> bool" where "ublox e \<longleftrightarrow> re_started e \<and> ublox_available e"

definition ublox_writes :: "run_env \<Rightarrow> mparams" where
  "ublox_writes e =
     (if ublox_available e \<noteq> get_bool e ''UbloxAvailable''
      then (re_params e)\<lparr>p_bool := (p_bool (re_params e))(''UbloxAvailable'' := ublox_available e)\<rparr> else re_params e)"

definition joystick :: "run_env \<Rightarrow> bool" where "joystick e \<longleftrightarrow> re_started e \<and> get_bool e ''JoystickDebugMode''"
definition not_joystick :: "run_env \<Rightarrow> bool" where "not_joystick e \<longleftrightarrow> re_started e \<and> \<not> get_bool e ''JoystickDebugMode''"
definition long_maneuver :: "run_env \<Rightarrow> bool" where "long_maneuver e \<longleftrightarrow> re_started e \<and> get_bool e ''LongitudinalManeuverMode''"
definition lat_maneuver :: "run_env \<Rightarrow> bool" where "lat_maneuver e \<longleftrightarrow> re_started e \<and> get_bool e ''LateralManeuverMode''"
definition not_long_maneuver :: "run_env \<Rightarrow> bool" where "not_long_maneuver e \<longleftrightarrow> re_started e \<and> \<not> get_bool e ''LongitudinalManeuverMode''"
definition qcomgps :: "run_env \<Rightarrow> bool" where "qcomgps e \<longleftrightarrow> re_started e \<and> \<not> ublox_available e"
definition always_run :: "run_env \<Rightarrow> bool" where "always_run e \<longleftrightarrow> True"
definition only_onroad :: "run_env \<Rightarrow> bool" where "only_onroad e \<longleftrightarrow> re_started e"
definition only_offroad :: "run_env \<Rightarrow> bool" where "only_offroad e \<longleftrightarrow> \<not> re_started e"
definition livestream :: "run_env \<Rightarrow> bool" where "livestream e \<longleftrightarrow> get_bool e ''IsLiveStreaming''"

definition use_github_runner :: "run_env \<Rightarrow> bool" where
  "use_github_runner e \<longleftrightarrow> \<not> re_PC e \<and> get_bool e ''EnableGithubRunner'' \<and>
     (\<not> get_bool e ''NetworkMetered'' \<and> \<not> get_bool e ''GithubRunnerSufficientVoltage'')"

definition use_copyparty :: "run_env \<Rightarrow> bool" where "use_copyparty e \<longleftrightarrow> get_bool e ''EnableCopyparty''"

definition get_sunnylink_status :: "run_env \<Rightarrow> bool \<times> bool \<times> bool" where
  "get_sunnylink_status e =
     (get_bool e ''SunnylinkEnabled'',
      p_str (re_params e) ''SunnylinkDongleId'' \<notin> {None, Some ''UnregisteredDevice''},
      get_bool e ''SunnylinkTempFault'')"

definition sunnylink_ready :: "run_env \<Rightarrow> bool" where
  "sunnylink_ready e = (case get_sunnylink_status e of (enabled, registered, fault) \<Rightarrow> enabled \<and> registered \<and> \<not> fault)"

definition use_sunnylink_uploader :: "run_env \<Rightarrow> bool" where
  "use_sunnylink_uploader e \<longleftrightarrow> \<not> get_bool e ''NetworkMetered'' \<and> sunnylink_ready e \<and> get_bool e ''EnableSunnylinkUploader''"

definition sunnylink_need_register :: "run_env \<Rightarrow> bool" where
  "sunnylink_need_register e = (case get_sunnylink_status e of (enabled, registered, fault) \<Rightarrow> enabled \<and> \<not> registered \<and> \<not> fault)"

text \<open>Runner types of the message schema: 0 snpe, 1 tinygrad, 2 stock.\<close>

definition RUNNER_tinygrad :: int where "RUNNER_tinygrad = 1"
definition RUNNER_stock :: int where "RUNNER_stock = 2"

definition get_active_model_runner :: "run_env \<Rightarrow> int \<times> mparams" where
  "get_active_model_runner e =
     (let ps = re_params e; force_check = \<not> re_started e
      in case p_runner_cache ps of
           Some r \<Rightarrow> if \<not> force_check then (r, ps)
             else (let runner_type = (case p_bundle_runner ps of Some b \<Rightarrow> b | None \<Rightarrow> RUNNER_stock)
                   in (runner_type, if r \<noteq> runner_type then ps\<lparr>p_runner_cache := Some runner_type\<rparr> else ps))
         | None \<Rightarrow> (let runner_type = (case p_bundle_runner ps of Some b \<Rightarrow> b | None \<Rightarrow> RUNNER_stock)
                    in (runner_type, ps\<lparr>p_runner_cache := Some runner_type\<rparr>)))"

definition is_tinygrad_model :: "run_env \<Rightarrow> bool" where "is_tinygrad_model e \<longleftrightarrow> fst (get_active_model_runner e) = RUNNER_tinygrad"
definition is_stock_model :: "run_env \<Rightarrow> bool" where "is_stock_model e \<longleftrightarrow> fst (get_active_model_runner e) = RUNNER_stock"
definition runner_writes :: "run_env \<Rightarrow> mparams" where "runner_writes e = snd (get_active_model_runner e)"

definition mapd_ready :: "run_env \<Rightarrow> bool" where
  "mapd_ready e =
     (if \<not> re_mapd_root_exists e then False else if re_started e then True
      else case re_osm_download e of Some b \<Rightarrow> b | None \<Rightarrow> True)"

definition uploader_ready :: "run_env \<Rightarrow> bool" where
  "uploader_ready e = (if \<not> get_bool e ''OnroadUploads'' then only_offroad e else always_run e)"

definition or_fn :: "(run_env \<Rightarrow> bool) \<Rightarrow> (run_env \<Rightarrow> bool) \<Rightarrow> run_env \<Rightarrow> bool" where "or_fn f g e \<longleftrightarrow> f e \<or> g e"
definition and_fn :: "(run_env \<Rightarrow> bool) \<Rightarrow> (run_env \<Rightarrow> bool) \<Rightarrow> run_env \<Rightarrow> bool" where "and_fn f g e \<longleftrightarrow> f e \<and> g e"
definition not_fn :: "(run_env \<Rightarrow> bool) \<Rightarrow> run_env \<Rightarrow> bool" where "not_fn f e \<longleftrightarrow> \<not> f e"


subsection \<open>The table of processes\<close>

record machine =
  mc_PC :: bool
  mc_TICI :: bool
  mc_WEBCAM :: bool
  mc_Darwin :: bool
  mc_github_runner :: bool
  mc_sunnylink_uploader :: bool
  mc_copyparty :: bool

definition NativeProcess :: "string \<Rightarrow> (run_env \<Rightarrow> bool) \<Rightarrow> (run_env \<Rightarrow> mparams) \<Rightarrow> bool \<Rightarrow> proc_config" where
  "NativeProcess name should_run writes enabled =
     \<lparr>pc_name = name, pc_kind = Native_Process, pc_should_run = should_run, pc_writes = writes, pc_enabled = enabled,
      pc_sigkill = False, pc_restart_if_crash = False\<rparr>"

definition PythonProcess :: "string \<Rightarrow> (run_env \<Rightarrow> bool) \<Rightarrow> (run_env \<Rightarrow> mparams) \<Rightarrow> bool \<Rightarrow> bool \<Rightarrow> proc_config" where
  "PythonProcess name should_run writes enabled restart_if_crash =
     \<lparr>pc_name = name, pc_kind = Python_Process, pc_should_run = should_run, pc_writes = writes, pc_enabled = enabled,
      pc_sigkill = False, pc_restart_if_crash = restart_if_crash\<rparr>"

definition DaemonProcess :: "string \<Rightarrow> proc_config" where
  "DaemonProcess name =
     \<lparr>pc_name = name, pc_kind = Daemon_Process, pc_should_run = always_run, pc_writes = re_params, pc_enabled = True,
      pc_sigkill = False, pc_restart_if_crash = False\<rparr>"

definition procs_base :: "machine \<Rightarrow> proc_config list" where
  "procs_base mc =
     [DaemonProcess ''manage_athenad'',
      NativeProcess ''loggerd'' logging re_params True,
      NativeProcess ''encoderd'' only_onroad re_params True,
      NativeProcess ''stream_encoderd'' (or_fn (and_fn livestream (not_fn iscar)) notcar) re_params True,
      PythonProcess ''logmessaged'' always_run re_params True False,
      NativeProcess ''camerad'' (or_fn driverview livestream) re_params (\<not> mc_WEBCAM mc),
      PythonProcess ''webcamerad'' driverview re_params (mc_WEBCAM mc) False,
      PythonProcess ''proclogd'' only_onroad re_params (\<not> mc_Darwin mc) False,
      PythonProcess ''journald'' only_onroad re_params (\<not> mc_Darwin mc) False,
      PythonProcess ''micd'' iscar re_params True False,
      PythonProcess ''timed'' always_run re_params (\<not> mc_PC mc) False,
      PythonProcess ''modeld'' (and_fn only_onroad is_stock_model) runner_writes True False,
      PythonProcess ''dmonitoringmodeld'' driverview re_params (mc_WEBCAM mc \<or> \<not> mc_PC mc) False,
      PythonProcess ''sensord'' only_onroad re_params (\<not> mc_PC mc) False,
      PythonProcess ''ui'' always_run re_params True True,
      PythonProcess ''soundd'' driverview re_params True False,
      PythonProcess ''locationd'' only_onroad re_params True False,
      NativeProcess ''_pandad'' always_run re_params False,
      PythonProcess ''calibrationd'' only_onroad re_params True False,
      PythonProcess ''torqued'' only_onroad re_params True False,
      PythonProcess ''controlsd'' (and_fn not_joystick iscar) re_params True False,
      PythonProcess ''joystickd'' (or_fn joystick notcar) re_params True False,
      PythonProcess ''selfdrived'' only_onroad re_params True False,
      PythonProcess ''card'' only_onroad re_params True False,
      PythonProcess ''deleter'' always_run re_params True False,
      PythonProcess ''dmonitoringd'' driverview re_params (mc_WEBCAM mc \<or> \<not> mc_PC mc) False,
      PythonProcess ''qcomgpsd'' qcomgps re_params (mc_TICI mc) False,
      PythonProcess ''pandad'' always_run re_params True False,
      PythonProcess ''paramsd'' only_onroad re_params True False,
      PythonProcess ''lagd'' only_onroad re_params True False,
      PythonProcess ''ubloxd'' ublox ublox_writes (mc_TICI mc) False,
      PythonProcess ''pigeond'' ublox ublox_writes (mc_TICI mc) False,
      PythonProcess ''plannerd'' not_long_maneuver re_params True False,
      PythonProcess ''maneuversd'' long_maneuver re_params True False,
      PythonProcess ''lateral_maneuversd'' lat_maneuver re_params True False,
      PythonProcess ''radard'' only_onroad re_params True False,
      PythonProcess ''hardwared'' always_run re_params True False,
      PythonProcess ''modem'' always_run re_params (mc_TICI mc) False,
      PythonProcess ''tombstoned'' always_run re_params (\<not> mc_PC mc) False,
      PythonProcess ''updated'' only_offroad re_params (\<not> mc_PC mc) False,
      PythonProcess ''uploader'' uploader_ready re_params True False,
      PythonProcess ''statsd'' always_run re_params True False,
      PythonProcess ''feedbackd'' only_onroad re_params True False,
      NativeProcess ''bridge'' notcar re_params True,
      PythonProcess ''webrtcd'' (or_fn (and_fn livestream (not_fn iscar)) notcar) re_params True False,
      PythonProcess ''joystick'' (and_fn joystick iscar) re_params True False,
      DaemonProcess ''manage_sunnylinkd'',
      DaemonProcess ''manage_tailscaled'',
      PythonProcess ''sunnylink_registration_manager'' sunnylink_need_register re_params True False,
      PythonProcess ''statsd_sp'' (and_fn always_run sunnylink_ready) re_params True False]"

definition procs_sp :: "proc_config list" where
  "procs_sp =
     [PythonProcess ''models_manager'' only_offroad re_params True False,
      NativeProcess ''modeld_tinygrad'' (and_fn only_onroad is_tinygrad_model) runner_writes True,
      PythonProcess ''backup_manager'' (and_fn only_offroad sunnylink_ready) re_params True False,
      NativeProcess ''mapd'' mapd_ready re_params True,
      PythonProcess ''mapd_manager'' always_run re_params True False,
      NativeProcess ''locationd_llk'' only_onroad re_params True]"

definition procs_optional :: "machine \<Rightarrow> proc_config list" where
  "procs_optional mc =
     (if mc_github_runner mc then [NativeProcess ''github_runner_start'' (and_fn only_offroad use_github_runner) re_params True] else []) @
     (if mc_sunnylink_uploader mc then [PythonProcess ''sunnylink_uploader'' use_sunnylink_uploader re_params True False] else []) @
     (if mc_copyparty mc then [NativeProcess ''copyparty-sfx'' (and_fn only_offroad use_copyparty) re_params True] else [])"

definition procs :: "machine \<Rightarrow> proc_config list" where
  "procs mc = procs_base mc @ procs_sp @ procs_optional mc"

subsection \<open>The manager's loop\<close>

datatype param_flag = CLEAR_ON_MANAGER_START | CLEAR_ON_ONROAD_TRANSITION | CLEAR_ON_OFFROAD_TRANSITION | CLEAR_ON_IGNITION_ON

definition clear_all :: "(param_flag \<Rightarrow> string \<Rightarrow> bool) \<Rightarrow> param_flag \<Rightarrow> mparams \<Rightarrow> mparams" where
  "clear_all flags f ps =
     ps\<lparr>p_bool := (\<lambda>k. if flags f k then False else p_bool ps k), p_str := (\<lambda>k. if flags f k then None else p_str ps k),
        p_runner_cache := (if flags f ''ModelRunnerTypeCache'' then None else p_runner_cache ps)\<rparr>"

definition put_bool :: "string \<Rightarrow> bool \<Rightarrow> mparams \<Rightarrow> mparams" where
  "put_bool k b ps = ps\<lparr>p_bool := (p_bool ps)(k := b)\<rparr>"

record manager =
  mg_procs :: "managed_process list"
  mg_os :: os_state
  mg_params :: mparams
  mg_ignore :: "string list"
  mg_started_prev :: bool
  mg_ignition_prev :: bool
  mg_exit_reason :: "string option"
  mg_done :: bool

text \<open>One round of inputs. Each panda says whether its type is known and both ignition signals.\<close>

record manager_in =
  mi_started :: bool
  mi_pandas :: "(bool \<times> bool \<times> bool) list"
  mi_notCar :: bool
  mi_facts :: "run_env"
  mi_params :: "mparams \<Rightarrow> mparams"
  mi_env :: os_env
  mi_daemon_alive :: "string \<Rightarrow> bool"

definition mi_run_env :: "manager_in \<Rightarrow> bool \<Rightarrow> mparams \<Rightarrow> run_env" where
  "mi_run_env i started ps = (mi_facts i)\<lparr>re_started := started, re_params := ps, re_notCar := mi_notCar i\<rparr>"

definition manager_ignore :: "string option \<Rightarrow> bool \<Rightarrow> string list \<Rightarrow> string list" where
  "manager_ignore dongle_id noboard block =
     (if dongle_id \<in> {None, Some ''UnregisteredDevice''} then [''manage_athenad'', ''uploader''] else []) @
     (if noboard then [''pandad''] else []) @ filter (\<lambda>x. length x > 0) block"

definition manager_start :: "machine \<Rightarrow> string list \<Rightarrow> manager_in \<Rightarrow> mparams \<Rightarrow> os_state \<Rightarrow> manager" where
  "manager_start mc ignore i ps os =
     (let ps = put_bool ''IsOffroad'' True ps;
          (ms, os, e) = ensure_running (mi_env i) (mi_daemon_alive i) ignore (mi_run_env i False ps) (map ManagerProcess (procs mc)) os
      in \<lparr>mg_procs = ms, mg_os = os, mg_params = re_params e, mg_ignore = ignore, mg_started_prev = False, mg_ignition_prev = False,
          mg_exit_reason = None, mg_done = False\<rparr>)"

definition manager_transitions :: "(param_flag \<Rightarrow> string \<Rightarrow> bool) \<Rightarrow> manager_in \<Rightarrow> manager \<Rightarrow> manager" where
  "manager_transitions flags i g =
     (let started = mi_started i; ps = mi_params i (mg_params g);
          ps = (if started \<and> \<not> mg_started_prev g then clear_all flags CLEAR_ON_ONROAD_TRANSITION ps
                else if \<not> started \<and> mg_started_prev g then clear_all flags CLEAR_ON_OFFROAD_TRANSITION ps else ps);
          ignition = list_ex (\<lambda>(known, line, can). known \<and> (line \<or> can)) (mi_pandas i);
          ps = (if ignition \<and> \<not> mg_ignition_prev g then clear_all flags CLEAR_ON_IGNITION_ON ps else ps);
          ps = (if started \<noteq> mg_started_prev g then put_bool ''IsOffroad'' (\<not> started) ps else ps)
      in g\<lparr>mg_params := ps, mg_started_prev := started, mg_ignition_prev := ignition\<rparr>)"

definition exit_params :: "string list" where
  "exit_params = [''DoUninstall'', ''DoShutdown'', ''DoReboot'']"

definition manager_frame :: "(param_flag \<Rightarrow> string \<Rightarrow> bool) \<Rightarrow> manager_in \<Rightarrow> manager \<Rightarrow> manager" where
  "manager_frame flags i g =
     (let g = manager_transitions flags i g;
          (ms, os, e) = ensure_running (mi_env i) (mi_daemon_alive i) (mg_ignore g) (mi_run_env i (mi_started i) (mg_params g)) (mg_procs g) (mg_os g);
          reasons = filter (p_bool (re_params e)) exit_params
      in g\<lparr>mg_procs := ms, mg_os := os, mg_params := re_params e,
           mg_exit_reason := (if reasons = [] then mg_exit_reason g else Some (last reasons)), mg_done := reasons \<noteq> []\<rparr>)"

fun stop_all :: "os_env \<Rightarrow> bool \<Rightarrow> managed_process list \<Rightarrow> os_state \<Rightarrow> managed_process list \<times> os_state" where
  "stop_all env block [] os = ([], os)"
| "stop_all env block (m # ms) os =
     (case mp_stop env True block None m os of (m, os, _) \<Rightarrow>
        (case stop_all env block ms os of (ms, os) \<Rightarrow> (m # ms, os)))"

definition manager_cleanup :: "os_env \<Rightarrow> manager \<Rightarrow> manager" where
  "manager_cleanup env g =
     (let (ms, os) = stop_all env False (mg_procs g) (mg_os g); (ms, os) = stop_all env True ms os
      in g\<lparr>mg_procs := ms, mg_os := os\<rparr>)"

datatype final_action = FA_uninstall | FA_reboot | FA_shutdown | FA_none

definition final_action_of :: "mparams \<Rightarrow> final_action" where
  "final_action_of ps =
     (if p_bool ps ''DoUninstall'' then FA_uninstall else if p_bool ps ''DoReboot'' then FA_reboot
      else if p_bool ps ''DoShutdown'' then FA_shutdown else FA_none)"


subsection \<open>What one operation may do to the system\<close>

definition mp_ok :: "os_state \<Rightarrow> managed_process \<Rightarrow> bool" where
  "mp_ok os m \<longleftrightarrow>
     (case mp_proc m of
        Some pid \<Rightarrow> pid < os_next os \<and> os_name os pid = mp_name m \<and> pc_kind (mp_config m) \<noteq> Daemon_Process
      | None \<Rightarrow> \<not> mp_shutting_down m)"

text \<open>
  The contract of every operation on one process: other processes are left alone, dead ones stay
  dead, new ones carry its name and are tracked, and its own process is forgotten only when dead.
\<close>

definition op_result :: "os_state \<Rightarrow> managed_process \<Rightarrow> os_state \<Rightarrow> managed_process \<Rightarrow> bool" where
  "op_result os m os' m' \<longleftrightarrow>
     mp_config m' = mp_config m \<and> mp_ok os' m' \<and> os_next os \<le> os_next os' \<and>
     (\<forall>q. mp_proc m' = Some q \<longrightarrow> mp_proc m = Some q \<or> os_next os \<le> q) \<and>
     (\<forall>q < os_next os. os_name os' q = os_name os q \<and> (Some q \<noteq> mp_proc m \<or> os_exit os q \<noteq> None \<longrightarrow> os_exit os' q = os_exit os q)) \<and>
     (\<forall>q. os_next os \<le> q \<and> q < os_next os' \<longrightarrow> os_name os' q = mp_name m \<and>
        (pc_kind (mp_config m) = Daemon_Process \<or> os_exit os' q \<noteq> None \<or> mp_proc m' = Some q)) \<and>
     (\<forall>q. mp_proc m = Some q \<and> os_exit os' q = None \<longrightarrow> mp_proc m' = Some q)"

lemma op_result_refl: "mp_ok os m \<Longrightarrow> op_result os m os m"
  by (auto simp: op_result_def)

text \<open>The contract, taken apart.\<close>

lemma op_resultD:
  assumes "op_result os m os' m'"
  shows "mp_config m' = mp_config m" "mp_ok os' m'" "os_next os \<le> os_next os'"
    "mp_proc m' = Some q \<Longrightarrow> mp_proc m = Some q \<or> os_next os \<le> q"
    "q < os_next os \<Longrightarrow> os_name os' q = os_name os q"
    "q < os_next os \<Longrightarrow> Some q \<noteq> mp_proc m \<Longrightarrow> os_exit os' q = os_exit os q"
    "q < os_next os \<Longrightarrow> os_exit os q \<noteq> None \<Longrightarrow> os_exit os' q = os_exit os q"
    "os_next os \<le> q \<Longrightarrow> q < os_next os' \<Longrightarrow> os_name os' q = mp_name m"
    "os_next os \<le> q \<Longrightarrow> q < os_next os' \<Longrightarrow> pc_kind (mp_config m) \<noteq> Daemon_Process \<Longrightarrow> os_exit os' q = None \<Longrightarrow> mp_proc m' = Some q"
    "mp_proc m = Some q \<Longrightarrow> os_exit os' q = None \<Longrightarrow> mp_proc m' = Some q"
  using assms unfolding op_result_def by blast+

lemma op_resultI:
  assumes "mp_config m' = mp_config m" "mp_ok os' m'" "os_next os \<le> os_next os'"
    "\<And>q. mp_proc m' = Some q \<Longrightarrow> mp_proc m = Some q \<or> os_next os \<le> q"
    "\<And>q. q < os_next os \<Longrightarrow> os_name os' q = os_name os q"
    "\<And>q. q < os_next os \<Longrightarrow> Some q \<noteq> mp_proc m \<Longrightarrow> os_exit os' q = os_exit os q"
    "\<And>q. q < os_next os \<Longrightarrow> os_exit os q \<noteq> None \<Longrightarrow> os_exit os' q = os_exit os q"
    "\<And>q. os_next os \<le> q \<Longrightarrow> q < os_next os' \<Longrightarrow> os_name os' q = mp_name m"
    "\<And>q. os_next os \<le> q \<Longrightarrow> q < os_next os' \<Longrightarrow> pc_kind (mp_config m) \<noteq> Daemon_Process \<Longrightarrow> os_exit os' q = None \<Longrightarrow> mp_proc m' = Some q"
    "\<And>q. mp_proc m = Some q \<Longrightarrow> os_exit os' q = None \<Longrightarrow> mp_proc m' = Some q"
  shows "op_result os m os' m'"
  unfolding op_result_def using assms by blast

lemma op_result_trans:
  assumes "op_result os m os1 m1" "op_result os1 m1 os2 m2" "mp_ok os m"
  shows "op_result os m os2 m2"
proof -
  note d1 = op_resultD [OF assms(1)] and d2 = op_resultD [OF assms(2)]
  note n = d1(3) d2(3)
  have name: "os_name os2 q = os_name os q" if "q < os_next os" for q
    using d1(5) [OF that] d2(5) [of q] that n(1) by simp
  have dead: "os_exit os2 q = os_exit os q" if "q < os_next os" "os_exit os q \<noteq> None" for q
    using d1(7) [OF that] d2(7) [of q] that n(1) by simp
  have other: "os_exit os2 q = os_exit os q" if "q < os_next os" "Some q \<noteq> mp_proc m" for q
  proof -
    have "Some q \<noteq> mp_proc m1" using d1(4) [of q] that by auto
    then show ?thesis using d1(6) [OF that] d2(6) [of q] that n(1) by simp
  qed
  have own: "mp_proc m2 = Some q" if "mp_proc m = Some q" "os_exit os2 q = None" for q
  proof -
    have q: "q < os_next os" using assms(3) that(1) by (auto simp: mp_ok_def)
    have "os_exit os1 q = None" using d2(7) [of q] q n(1) that(2) by fastforce
    then show ?thesis using d1(10) [OF that(1)] d2(10) that(2) by blast
  qed
  have fresh_name: "os_name os2 q = mp_name m" if "os_next os \<le> q" "q < os_next os2" for q
    using d1(1) d1(8) [OF that(1)] d2(5) [of q] d2(8) [OF _ that(2)] by (cases "q < os_next os1") auto
  have fresh: "mp_proc m2 = Some q"
    if "os_next os \<le> q" "q < os_next os2" "pc_kind (mp_config m) \<noteq> Daemon_Process" "os_exit os2 q = None" for q
  proof (cases "q < os_next os1")
    case True
    then have "os_exit os1 q = None" using d2(7) [of q] that(4) by fastforce
    with d1(9) [OF that(1) True that(3)] d2(10) [OF _ that(4)] show ?thesis by blast
  next
    case False
    with d2(9) [of q] d1(1) that show ?thesis by simp
  qed
  have known: "mp_proc m = Some q \<or> os_next os \<le> q" if "mp_proc m2 = Some q" for q
    using d2(4) [OF that] d1(4) [of q] n(1) by auto
  show ?thesis
    by (rule op_resultI) (use d1(1) d2(1,2) n in \<open>simp_all add: name dead other own fresh fresh_name known\<close>)
qed

lemma op_result_keeps_ok:
  assumes "op_result os m os' m'" "mp_ok os n" shows "mp_ok os' n"
  using assms by (auto simp: op_result_def mp_ok_def split: option.splits)

subsubsection \<open>Every operation meets the contract\<close>

lemma os_end_simps [simp]:
  "os_next (os_end p c os) = os_next os" "os_name (os_end p c os) = os_name os" "os_signals (os_end p c os) = os_signals os"
  "os_exit (os_end p c os) q = (if q = p \<and> os_exit os p = None then Some c else os_exit os q)"
  by (auto simp: os_end_def)

lemma join_process_simps [simp]:
  "os_next (join_process env p os) = os_next os" "os_name (join_process env p os) = os_name os"
  "q \<noteq> p \<Longrightarrow> os_exit (join_process env p os) q = os_exit os q"
  "os_exit os q \<noteq> None \<Longrightarrow> os_exit (join_process env p os) q = os_exit os q"
  by (auto simp: join_process_def split: option.splits)

lemma mp_signal_simps [simp]:
  "os_next (mp_signal s m os) = os_next os" "os_name (mp_signal s m os) = os_name os" "os_exit (mp_signal s m os) = os_exit os"
  by (auto simp: mp_signal_def split: option.splits)

text \<open>What changes the state of process \<open>pid\<close> at most by ending it.\<close>

definition ends_at_most :: "nat \<Rightarrow> os_state \<Rightarrow> os_state \<Rightarrow> bool" where
  "ends_at_most pid os os' \<longleftrightarrow> os_next os' = os_next os \<and> os_name os' = os_name os \<and>
     (\<forall>q. q \<noteq> pid \<or> os_exit os q \<noteq> None \<longrightarrow> os_exit os' q = os_exit os q)"

lemma ends_at_most_refl [simp]: "ends_at_most pid os os"
  by (simp add: ends_at_most_def)

lemma ends_at_most_steps:
  assumes "ends_at_most pid os os'"
  shows "ends_at_most pid os (mp_signal s m os')" "ends_at_most pid os (join_process env pid os')" "ends_at_most pid os (kill_and_join env pid os')"
proof -
  have "os_exit (join_process env pid os') q = os_exit os' q" if "q \<noteq> pid \<or> os_exit os' q \<noteq> None" for q
    using that join_process_simps(3) [of q pid env os'] join_process_simps(4) [of os' q env pid] by blast
  with assms show "ends_at_most pid os (join_process env pid os')" by (simp add: ends_at_most_def)
qed (use assms in \<open>auto simp: ends_at_most_def kill_and_join_def\<close>)

lemma mp_reap_result:
  assumes "mp_ok os m" "mp_proc m = Some pid" "ends_at_most pid os os'" "mp_config m' = mp_config m" "mp_proc m' = Some pid"
    "mp_reap pid m' os' = (m'', os'', r)"
  shows "op_result os m os'' m''"
  using assms by (auto simp: mp_reap_def op_result_def mp_ok_def ends_at_most_def exitcode_def split: if_splits)

lemma ends_at_most_result:
  assumes "mp_ok os m" "mp_proc m = Some pid" "ends_at_most pid os os'"
  shows "op_result os m os' (m\<lparr>mp_shutting_down := True\<rparr>)"
  using assms by (auto simp: op_result_def mp_ok_def ends_at_most_def)

lemma mp_stop_result:
  assumes "mp_ok os m" "mp_stop env retry block sig m os = (m', os', r)"
  shows "op_result os m os' m'"
proof (cases "mp_proc m")
  case None
  with assms show ?thesis by (auto simp: mp_stop_def intro: op_result_refl split: if_splits)
next
  case (Some pid)
  then have nd: "pc_kind (mp_config m) \<noteq> Daemon_Process" using assms(1) by (simp add: mp_ok_def)
  show ?thesis
  proof (cases "exitcode os pid = None")
    case False
    with assms(2) Some nd have "mp_reap pid m os = (m', os', r)" by (simp add: mp_stop_def)
    then show ?thesis using mp_reap_result [OF assms(1) Some ends_at_most_refl refl Some] by blast
  next
    case True
    let ?s = "case sig of Some s \<Rightarrow> s | None \<Rightarrow> if pc_sigkill (mp_config m) then SIGKILL else SIGINT"
    let ?os1 = "if \<not> mp_shutting_down m then mp_signal ?s m os else os"
    let ?m = "m\<lparr>mp_shutting_down := True\<rparr>"
    let ?os2 = "join_process env pid ?os1"
    let ?os3 = "if exitcode ?os2 pid = None \<and> retry then kill_and_join env pid (mp_signal SIGKILL ?m ?os2) else ?os2"
    have e1: "ends_at_most pid os ?os1" by (simp add: ends_at_most_steps)
    then have e3: "ends_at_most pid os ?os3" using ends_at_most_steps by simp
    have "mp_stop env retry block sig m os = (if \<not> mp_shutting_down m \<and> \<not> block then (?m, ?os1, None) else mp_reap pid ?m ?os3)"
      using Some nd True unfolding mp_stop_def Let_def by simp
    with assms(2) consider "m' = ?m" "os' = ?os1" | "mp_reap pid ?m ?os3 = (m', os', r)" by (auto split: if_split_asm)
    then show ?thesis
      using ends_at_most_result [OF assms(1) Some e1] mp_reap_result [OF assms(1) Some e3, of ?m] Some by cases auto
  qed
qed

lemma os_spawn_result:
  assumes "mp_ok os m" "mp_proc m = None" "os_spawn (mp_name m) os = (pid, os')" "pc_kind (mp_config m) \<noteq> Daemon_Process"
  shows "op_result os m os' (m\<lparr>mp_proc := Some pid, mp_shutting_down := False\<rparr>)"
  using assms by (auto simp: op_result_def mp_ok_def os_spawn_def less_Suc_eq)

lemma mp_start_result:
  assumes "mp_ok os m" "mp_start env alive m os = (m', os')"
  shows "op_result os m os' m'"
proof (cases "pc_kind (mp_config m) = Daemon_Process")
  case True
  with assms show ?thesis by (auto simp: mp_start_def op_result_def mp_ok_def os_spawn_def split: if_splits option.splits)
next
  case False
  obtain m1 os1 where s: "(if mp_shutting_down m then (case mp_stop env True True None m os of (m, os, _) \<Rightarrow> (m, os)) else (m, os)) = (m1, os1)"
    by fastforce
  have r1: "op_result os m os1 m1"
    using s mp_stop_result [OF assms(1)] op_result_refl [OF assms(1)] by (auto split: if_splits prod.splits)
  then have k: "mp_config m1 = mp_config m" "mp_ok os1 m1" by (auto simp: op_result_def)
  show ?thesis
  proof (cases "mp_proc m1")
    case None
    obtain pid os2 where sp: "os_spawn (mp_name m1) os1 = (pid, os2)" by fastforce
    with assms(2) False s None have "m' = m1\<lparr>mp_proc := Some pid, mp_shutting_down := False\<rparr>" "os' = os2"
      by (auto simp: mp_start_def Let_def)
    with os_spawn_result [OF k(2) None sp] k(1) False have "op_result os1 m1 os' m'" by simp
    from op_result_trans [OF r1 this assms(1)] show ?thesis .
  next
    case (Some a)
    with assms(2) False s r1 show ?thesis by (auto simp: mp_start_def Let_def)
  qed
qed

lemma mp_restart_result:
  assumes "mp_ok os m" "mp_restart env alive m os = (m', os')"
  shows "op_result os m os' m'"
proof -
  obtain m1 os1 r where s: "mp_stop env True True (Some SIGKILL) m os = (m1, os1, r)" by (cases "mp_stop env True True (Some SIGKILL) m os")
  note r1 = mp_stop_result [OF assms(1) s]
  then have "op_result os1 m1 os' m'" using assms(2) s mp_start_result [of os1 m1] by (simp add: mp_restart_def op_result_def)
  from op_result_trans [OF r1 this assms(1)] show ?thesis .
qed


subsection \<open>The system of all processes\<close>

definition os_live :: "os_state \<Rightarrow> nat \<Rightarrow> bool" where
  "os_live os q \<longleftrightarrow> 1 \<le> q \<and> q < os_next os \<and> os_exit os q = None"

text \<open>Names are unique, tracked processes exist, and every living process is tracked (or is a daemon).\<close>

definition sys_inv :: "managed_process list \<Rightarrow> os_state \<Rightarrow> bool" where
  "sys_inv ms os \<longleftrightarrow>
     distinct (map mp_name ms) \<and> (\<forall>m \<in> set ms. mp_ok os m) \<and>
     (\<forall>q. os_live os q \<longrightarrow> (\<exists>m \<in> set ms. mp_name m = os_name os q \<and> (mp_proc m = Some q \<or> pc_kind (mp_config m) = Daemon_Process)))"

lemma sys_inv_unique:
  assumes "sys_inv ms os" "m \<in> set ms" "pc_kind (mp_config m) \<noteq> Daemon_Process" "os_live os q" "os_name os q = mp_name m"
  shows "mp_proc m = Some q"
proof -
  from assms obtain n where n: "n \<in> set ms" "mp_name n = mp_name m" "mp_proc n = Some q \<or> pc_kind (mp_config n) = Daemon_Process"
    by (auto simp: sys_inv_def)
  then have "n = m" using assms(1,2) by (auto simp: sys_inv_def distinct_map dest: inj_onD)
  with n(3) assms(3) show ?thesis by simp
qed

lemma sys_inv_step:
  assumes inv: "sys_inv (pre @ m # ms) os" and r: "op_result os m os' m'"
  shows "sys_inv (pre @ m' # ms) os'"
proof -
  note d = op_resultD [OF r]
  have ok: "\<forall>n \<in> set (pre @ m' # ms). mp_ok os' n" using inv d(2) op_result_keeps_ok [OF r] by (auto simp: sys_inv_def)
  have "\<exists>n \<in> set (pre @ m' # ms). mp_name n = os_name os' q \<and> (mp_proc n = Some q \<or> pc_kind (mp_config n) = Daemon_Process)"
    if "os_live os' q" for q
  proof (cases "q < os_next os")
    case True
    then have "os_live os q" using that d(7) [of q] by (cases "os_exit os q") (auto simp: os_live_def)
    then obtain n where n: "n \<in> set (pre @ m # ms)" "mp_name n = os_name os q" "mp_proc n = Some q \<or> pc_kind (mp_config n) = Daemon_Process"
      using inv unfolding sys_inv_def by blast
    show ?thesis
    proof (cases "n = m")
      case True
      have "mp_proc m = Some q \<longrightarrow> mp_proc m' = Some q" using d(10) that by (simp add: os_live_def)
      with True n d(1) d(5) [OF \<open>q < os_next os\<close>] show ?thesis by auto
    next
      case False
      with n d(5) [OF \<open>q < os_next os\<close>] show ?thesis by auto
    qed
  next
    case False
    with that d(1) d(8) [of q] d(9) [of q] show ?thesis by (auto simp: os_live_def)
  qed
  with ok inv d(1) show ?thesis by (simp add: sys_inv_def)
qed

text \<open>
  An operation applied to every process in turn, with a flag per process. The locale is the
  contract of such an operation; the loops of the manager are three instances of it.
\<close>

type_synonym proc_op = "bool \<Rightarrow> managed_process \<Rightarrow> os_state \<Rightarrow> managed_process \<times> os_state"

fun each_proc :: "proc_op \<Rightarrow> (managed_process \<times> bool) list \<Rightarrow> os_state \<Rightarrow> managed_process list \<times> os_state" where
  "each_proc f [] os = ([], os)"
| "each_proc f ((m, w) # ms) os =
     (let (m, os) = f w m os; (ms, os) = each_proc f ms os in (m # ms, os))"

locale process_op =
  fixes f :: proc_op
  assumes op_contract: "mp_ok os m \<Longrightarrow> f w m os = (m', os') \<Longrightarrow> op_result os m os' m'"
begin

lemma each_proc_inv_aux:
  assumes "sys_inv (pre @ map fst xs) os" "each_proc f xs os = (ms', os')"
  shows "sys_inv (pre @ ms') os'"
  using assms
proof (induction xs arbitrary: pre os ms')
  case (Cons x xs)
  obtain m w where x: "x = (m, w)" by (cases x)
  obtain m1 os1 where f1: "f w m os = (m1, os1)" by fastforce
  obtain ms2 where f2: "each_proc f xs os1 = (ms2, os')" "ms' = m1 # ms2"
    using Cons.prems(2) f1 by (auto simp: x Let_def split: prod.splits)
  have "mp_ok os m" using Cons.prems(1) by (simp add: x sys_inv_def)
  then have "sys_inv (pre @ m1 # map fst xs) os1" using Cons.prems(1) op_contract f1 sys_inv_step by (simp add: x)
  then have "sys_inv ((pre @ [m1]) @ map fst xs) os1" by simp
  from Cons.IH [OF this f2(1)] f2(2) show ?case by simp
qed simp

lemma each_proc_inv:
  "sys_inv ms os \<Longrightarrow> length ws = length ms \<Longrightarrow> each_proc f (zip ms ws) os = (ms', os') \<Longrightarrow> sys_inv ms' os'"
  using each_proc_inv_aux [of "[]" "zip ms ws"] by simp

text \<open>Position by position, the result is what the operation made of the process in some state.\<close>

lemma each_proc_nth:
  assumes "sys_inv (pre @ map fst xs) os" "each_proc f xs os = (ms', os')"
  shows "length ms' = length xs \<and> map mp_config ms' = map mp_config (map fst xs) \<and>
    (\<forall>k < length xs. \<exists>o1. mp_ok o1 (fst (xs ! k)) \<and> ms' ! k = fst (f (snd (xs ! k)) (fst (xs ! k)) o1))"
  using assms
proof (induction xs arbitrary: pre os ms')
  case (Cons x xs)
  obtain m w where x: "x = (m, w)" by (cases x)
  obtain m1 os1 where f1: "f w m os = (m1, os1)" by fastforce
  obtain ms2 where f2: "each_proc f xs os1 = (ms2, os')" "ms' = m1 # ms2"
    using Cons.prems(2) f1 by (auto simp: x Let_def split: prod.splits)
  have ok: "mp_ok os m" using Cons.prems(1) by (simp add: x sys_inv_def)
  note r = op_contract [OF ok f1]
  then have "sys_inv ((pre @ [m1]) @ map fst xs) os1" using Cons.prems(1) sys_inv_step by (simp add: x)
  from Cons.IH [OF this f2(1)] f2(2) f1 ok op_resultD(1) [OF r] show ?case
    by (auto simp: x nth_Cons split: nat.split intro: exI [of _ os])
qed simp

end

definition scan_op :: "os_env \<Rightarrow> (string \<Rightarrow> bool) \<Rightarrow> proc_op" where
  "scan_op env alive w m os =
     (if w then (if pc_restart_if_crash (mp_config m) \<and> (case mp_proc m of Some pid \<Rightarrow> exitcode os pid \<noteq> None | None \<Rightarrow> False)
                 then mp_restart env (alive (mp_name m)) m os else (m, os))
      else (case mp_stop env True False None m os of (m, os, _) \<Rightarrow> (m, os)))"

definition start_op :: "os_env \<Rightarrow> (string \<Rightarrow> bool) \<Rightarrow> proc_op" where
  "start_op env alive w m os = (if w then mp_start env (alive (mp_name m)) m os else (m, os))"

definition stop_op :: "os_env \<Rightarrow> proc_op" where
  "stop_op env w m os = (case mp_stop env True w None m os of (m, os, _) \<Rightarrow> (m, os))"

interpretation scan: process_op "scan_op env alive" for env alive
  by unfold_locales
     (auto simp: scan_op_def split: if_splits prod.splits intro: op_result_refl mp_restart_result mp_stop_result)

interpretation start: process_op "start_op env alive" for env alive
  by unfold_locales (auto simp: start_op_def split: if_splits intro: op_result_refl mp_start_result)

interpretation stopping: process_op "stop_op env" for env
  by unfold_locales (auto simp: stop_op_def split: prod.splits intro: mp_stop_result)

lemma er_wanted_length [simp]: "length (er_wanted not_run e cs) = length cs"
  by (induction cs arbitrary: e) simp_all

lemma er_scan_Cons:
  "er_scan env alive not_run e (m # ms) os =
     (let (m1, os1) = scan_op env alive (wanted not_run e (mp_config m)) m os;
          e' = (if pc_enabled (mp_config m) \<and> mp_name m \<notin> set not_run then e\<lparr>re_params := pc_writes (mp_config m) e\<rparr> else e);
          (ms2, os2, e'') = er_scan env alive not_run e' ms os1
      in (m1 # ms2, os2, e''))"
  unfolding er_scan.simps scan_op_def Let_def by simp

lemma er_scan_each:
  "\<exists>e'. er_scan env alive not_run e ms os =
     (fst (each_proc (scan_op env alive) (zip ms (er_wanted not_run e (map mp_config ms))) os),
      snd (each_proc (scan_op env alive) (zip ms (er_wanted not_run e (map mp_config ms))) os), e')"
proof (induction ms arbitrary: e os)
  case (Cons m ms)
  let ?e = "if pc_enabled (mp_config m) \<and> mp_name m \<notin> set not_run then e\<lparr>re_params := pc_writes (mp_config m) e\<rparr> else e"
  obtain m1 os1 where s: "scan_op env alive (wanted not_run e (mp_config m)) m os = (m1, os1)" by fastforce
  obtain e' where "er_scan env alive not_run ?e ms os1 =
     (fst (each_proc (scan_op env alive) (zip ms (er_wanted not_run ?e (map mp_config ms))) os1),
      snd (each_proc (scan_op env alive) (zip ms (er_wanted not_run ?e (map mp_config ms))) os1), e')" using Cons.IH by blast
  with s show ?case unfolding er_scan_Cons by (simp add: Let_def case_prod_beta)
qed simp

lemma er_start_each: "er_start env alive xs os = each_proc (start_op env alive) xs os"
  by (induction xs arbitrary: os) (auto simp: start_op_def split: prod.splits)

lemma stop_all_each: "stop_all env block ms os = each_proc (stop_op env) (zip ms (replicate (length ms) block)) os"
  by (induction ms arbitrary: os) (auto simp: stop_op_def split: prod.splits)


text \<open>The two loops of \<open>ensure_running\<close>, position by position.\<close>

lemma ensure_running_split:
  assumes "sys_inv ms os" "ensure_running env alive not_run e ms os = (ms', os', e')"
  obtains ms1 os1 where "sys_inv ms1 os1" "sys_inv ms' os'" "map mp_config ms1 = map mp_config ms" "map mp_config ms' = map mp_config ms"
    "\<And>k. k < length ms \<Longrightarrow> \<exists>o1. mp_ok o1 (ms ! k) \<and> ms1 ! k = fst (scan_op env alive (er_wanted not_run e (map mp_config ms) ! k) (ms ! k) o1)"
    "\<And>k. k < length ms \<Longrightarrow> \<exists>o1. mp_ok o1 (ms1 ! k) \<and> ms' ! k = fst (start_op env alive (er_wanted not_run e (map mp_config ms) ! k) (ms1 ! k) o1)"
proof -
  let ?ws = "er_wanted not_run e (map mp_config ms)"
  obtain ms1 os1 where s: "each_proc (scan_op env alive) (zip ms ?ws) os = (ms1, os1)" by fastforce
  have i1: "sys_inv ms1 os1" using scan.each_proc_inv [OF assms(1) _ s] by simp
  have i0: "sys_inv ([] @ map fst (zip ms ?ws)) os" using assms(1) by simp
  note n1 = scan.each_proc_nth [OF i0 s]
  have l1: "length ms1 = length ms" "map mp_config ms1 = map mp_config ms" using n1 by simp_all
  have t: "each_proc (start_op env alive) (zip ms1 ?ws) os1 = (ms', os')"
    using assms(2) er_scan_each [of env alive not_run e ms os] s
    by (auto simp: ensure_running_def er_start_each Let_def split: prod.splits)
  have "sys_inv ([] @ map fst (zip ms1 ?ws)) os1" using i1 l1 by simp
  note n2 = start.each_proc_nth [OF this t]
  show thesis
    by (rule that [of ms1 os1]) (use i1 start.each_proc_inv [OF i1 _ t] l1 n1 n2 in auto)
qed

lemma ensure_running_inv:
  assumes "sys_inv ms os" "ensure_running env alive not_run e ms os = (ms', os', e')"
  shows "sys_inv ms' os'" "map mp_config ms' = map mp_config ms"
  using ensure_running_split [OF assms] by blast+

text \<open>What happens to an unwanted process: it is asked to stop, and ended when it was asked before.\<close>

abbreviation going_down :: "managed_process \<Rightarrow> bool" where
  "going_down m \<equiv> mp_proc m = None \<or> mp_shutting_down m"

lemma kill_and_join_exit: "exitcode (kill_and_join env pid os) pid \<noteq> None"
  by (simp add: exitcode_def kill_and_join_def)

lemma mp_stop_going_down: "mp_ok os m \<Longrightarrow> going_down (fst (mp_stop env retry block sig m os))"
  by (cases "mp_proc m") (auto simp: mp_stop_def mp_ok_def mp_reap_def Let_def)

lemma mp_stop_dead:
  assumes "mp_ok os m" "mp_shutting_down m \<or> block"
  shows "mp_proc (fst (mp_stop env True block sig m os)) = None"
proof (cases "mp_proc m")
  case None
  then show ?thesis by (simp add: mp_stop_def)
next
  case (Some pid)
  then have nd: "pc_kind (mp_config m) \<noteq> Daemon_Process" using assms(1) by (simp add: mp_ok_def)
  have reap: "mp_proc (fst (mp_reap pid n o1)) = None" if "exitcode o1 pid \<noteq> None" for n o1
    using that by (simp add: mp_reap_def)
  show ?thesis
  proof (cases "exitcode os pid = None")
    case True
    let ?J = "\<lambda>o1. if exitcode (join_process env pid o1) pid = None \<and> True
       then kill_and_join env pid (mp_signal SIGKILL (m\<lparr>mp_shutting_down := True\<rparr>) (join_process env pid o1)) else join_process env pid o1"
    have J: "exitcode (?J o1) pid \<noteq> None" for o1 using kill_and_join_exit by simp
    show ?thesis unfolding mp_stop_def Let_def using Some nd True assms(2) reap [OF J] by simp
  qed (use Some nd reap in \<open>auto simp: mp_stop_def\<close>)
qed

lemma mp_start_up:
  assumes "mp_ok os m" "pc_kind (mp_config m) \<noteq> Daemon_Process"
  shows "\<not> going_down (fst (mp_start env alive m os))"
proof (cases "mp_shutting_down m")
  case True
  obtain m1 os1 r where s: "mp_stop env True True None m os = (m1, os1, r)" by (cases "mp_stop env True True None m os")
  have "mp_proc m1 = None" using mp_stop_dead [OF assms(1), of True env None] s by simp
  with True s assms(2) show ?thesis by (auto simp: mp_start_def os_spawn_def)
next
  case False
  with assms show ?thesis by (auto simp: mp_start_def os_spawn_def)
qed

lemma ensure_running_wanted:
  assumes "sys_inv ms os" "ensure_running env alive not_run e ms os = (ms', os', e')"
    and "k < length ms" "pc_kind (mp_config (ms ! k)) \<noteq> Daemon_Process"
  shows "going_down (ms' ! k) \<longleftrightarrow> \<not> er_wanted not_run e (map mp_config ms) ! k"
    and "\<not> er_wanted not_run e (map mp_config ms) ! k \<Longrightarrow> going_down (ms ! k) \<Longrightarrow> mp_proc (ms' ! k) = None"
proof -
  let ?w = "er_wanted not_run e (map mp_config ms) ! k"
  obtain ms1 os1 where c: "map mp_config ms1 = map mp_config ms"
    and s1: "\<exists>o1. mp_ok o1 (ms ! k) \<and> ms1 ! k = fst (scan_op env alive ?w (ms ! k) o1)"
    and s2: "\<exists>o1. mp_ok o1 (ms1 ! k) \<and> ms' ! k = fst (start_op env alive ?w (ms1 ! k) o1)"
    using ensure_running_split [OF assms(1,2)] assms(3) by metis
  have "k < length ms1" using assms(3) map_eq_imp_length_eq [OF c] by simp
  then have k1: "mp_config (ms1 ! k) = mp_config (ms ! k)" using assms(3) c by (metis nth_map)
  obtain o1 where o1: "mp_ok o1 (ms ! k)" "ms1 ! k = fst (scan_op env alive ?w (ms ! k) o1)" using s1 by blast
  obtain o2 where o2: "mp_ok o2 (ms1 ! k)" "ms' ! k = fst (start_op env alive ?w (ms1 ! k) o2)" using s2 by blast
  have "\<not> going_down (ms' ! k)" if ?w
    using mp_start_up [OF o2(1)] o2(2) k1 assms(4) that by (simp add: start_op_def)
  moreover have u: "ms' ! k = fst (mp_stop env True False None (ms ! k) o1)" if "\<not> ?w"
    using o1(2) o2(2) that by (simp add: start_op_def scan_op_def case_prod_beta)
  ultimately show "going_down (ms' ! k) \<longleftrightarrow> \<not> ?w" using mp_stop_going_down [OF o1(1), of env True False None] by auto
  show "mp_proc (ms' ! k) = None" if "\<not> ?w" "going_down (ms ! k)"
    using u [OF that(1)] mp_stop_dead [OF o1(1)] that(2) by (cases "mp_proc (ms ! k) = None") (auto simp: mp_stop_def)
qed

subsection \<open>Runs of the manager\<close>

text \<open>One step of the system: some processes end by themselves, then the manager runs a frame.\<close>

definition mg_step :: "(param_flag \<Rightarrow> string \<Rightarrow> bool) \<Rightarrow> manager \<Rightarrow> (nat \<times> int) list \<times> manager_in \<Rightarrow> manager" where
  "mg_step flags g x = manager_frame flags (snd x) (g\<lparr>mg_os := foldl (\<lambda>os (pid, code). os_end pid code os) (mg_os g) (fst x)\<rparr>)"

definition mg_inv :: "proc_config list \<Rightarrow> manager \<Rightarrow> bool" where
  "mg_inv cs g \<longleftrightarrow> sys_inv (mg_procs g) (mg_os g) \<and> map mp_config (mg_procs g) = cs"

lemma os_end_inv: "sys_inv ms os \<Longrightarrow> sys_inv ms (os_end pid code os)"
  by (auto simp: sys_inv_def mp_ok_def os_live_def split: option.splits if_splits)

lemma os_ends_inv: "sys_inv ms os \<Longrightarrow> sys_inv ms (foldl (\<lambda>os (pid, code). os_end pid code os) os xs)"
  by (induction xs arbitrary: os) (auto simp: os_end_inv)

lemma manager_transitions_keeps [simp]:
  "mg_procs (manager_transitions flags i g) = mg_procs g" "mg_os (manager_transitions flags i g) = mg_os g"
  "mg_ignore (manager_transitions flags i g) = mg_ignore g"
  by (simp_all add: manager_transitions_def Let_def)

lemma manager_frame_eq:
  obtains e ms os e' where
    "e = mi_run_env i (mi_started i) (mg_params (manager_transitions flags i g))"
    "ensure_running (mi_env i) (mi_daemon_alive i) (mg_ignore g) e (mg_procs g) (mg_os g) = (ms, os, e')"
    "mg_procs (manager_frame flags i g) = ms" "mg_os (manager_frame flags i g) = os" "mg_ignore (manager_frame flags i g) = mg_ignore g"
  by (cases "ensure_running (mi_env i) (mi_daemon_alive i) (mg_ignore g)
               (mi_run_env i (mi_started i) (mg_params (manager_transitions flags i g))) (mg_procs g) (mg_os g)")
     (simp add: manager_frame_def Let_def)

interpretation mgr: frame_machine "mg_step flags" "\<lambda>_. True" "mg_inv cs" for flags cs
proof
  fix g and x :: "(nat \<times> int) list \<times> manager_in" assume "mg_inv cs g"
  let ?g = "g\<lparr>mg_os := foldl (\<lambda>os (pid, code). os_end pid code os) (mg_os g) (fst x)\<rparr>"
  have i: "sys_inv (mg_procs ?g) (mg_os ?g)" "map mp_config (mg_procs ?g) = cs"
    using \<open>mg_inv cs g\<close> os_ends_inv by (simp_all add: mg_inv_def)
  show "mg_inv cs (mg_step flags g x)"
  proof (rule manager_frame_eq [of "snd x" flags ?g])
    fix e ms os e'
    assume "ensure_running (mi_env (snd x)) (mi_daemon_alive (snd x)) (mg_ignore ?g) e (mg_procs ?g) (mg_os ?g) = (ms, os, e')"
      "mg_procs (manager_frame flags (snd x) ?g) = ms" "mg_os (manager_frame flags (snd x) ?g) = os"
    with ensure_running_inv [OF i(1)] i(2) show ?thesis by (simp add: mg_inv_def mg_step_def)
  qed
qed

lemma distinct_append_part: "distinct (xs @ ys) \<Longrightarrow> distinct zs \<Longrightarrow> set zs \<subseteq> set ys \<Longrightarrow> distinct (xs @ zs)"
  by auto

lemma procs_names: "distinct (map pc_name (procs mc))"
proof -
  have "distinct (map pc_name (procs_base mc @ procs_sp) @ [''github_runner_start'', ''sunnylink_uploader'', ''copyparty-sfx''])"
    by (simp add: procs_base_def procs_sp_def NativeProcess_def PythonProcess_def DaemonProcess_def)
  then have "distinct (map pc_name (procs_base mc @ procs_sp) @ map pc_name (procs_optional mc))"
    by (rule distinct_append_part) (auto simp: procs_optional_def NativeProcess_def PythonProcess_def)
  then show ?thesis by (simp add: procs_def)
qed

lemma manager_start_inv: "mg_inv (procs mc) (manager_start mc ignore i ps os_init)"
proof -
  have s: "sys_inv (map ManagerProcess (procs mc)) os_init" "map mp_config (map ManagerProcess (procs mc)) = procs mc"
    using procs_names [of mc] by (auto simp: sys_inv_def ManagerProcess_def mp_ok_def os_live_def os_init_def comp_def)
  from ensure_running_inv [OF s(1)] s(2) show ?thesis
    by (auto simp: manager_start_def mg_inv_def Let_def split: prod.splits)
qed


abbreviation mg_run :: "(param_flag \<Rightarrow> string \<Rightarrow> bool) \<Rightarrow> machine \<Rightarrow> string list \<Rightarrow> manager_in \<Rightarrow> mparams \<Rightarrow> ((nat \<times> int) list \<times> manager_in) list \<Rightarrow> manager" where
  "mg_run flags mc ignore i ps ins \<equiv> frames (mg_step flags) (manager_start mc ignore i ps os_init) ins"

lemma mg_run_inv: "mg_inv (procs mc) (mg_run flags mc ignore i ps ins)"
  using mgr.run_inv [OF manager_start_inv] by simp

text \<open>A process of the table, at its place in a manager that satisfies the invariant.\<close>

lemma mg_inv_nth:
  assumes "mg_inv cs g" "k < length cs"
  shows "k < length (mg_procs g)" "mp_config (mg_procs g ! k) = cs ! k"
proof -
  have c: "cs = map mp_config (mg_procs g)" using assms(1) by (simp add: mg_inv_def)
  with assms(2) show "k < length (mg_procs g)" by simp
  then show "mp_config (mg_procs g ! k) = cs ! k" by (simp add: c)
qed

lemma mg_inv_dead:
  assumes "mg_inv cs g" "k < length (mg_procs g)" "mp_proc (mg_procs g ! k) = None"
    "pc_kind (mp_config (mg_procs g ! k)) \<noteq> Daemon_Process"
  shows "\<not> (os_live (mg_os g) q \<and> os_name (mg_os g) q = mp_name (mg_procs g ! k))"
proof
  assume "os_live (mg_os g) q \<and> os_name (mg_os g) q = mp_name (mg_procs g ! k)"
  with sys_inv_unique [of "mg_procs g" "mg_os g" "mg_procs g ! k" q] assms show False by (simp add: mg_inv_def)
qed

text \<open>
  C25. No managed process that the manager starts and stops runs twice. In every reachable state of
  the manager, whatever the processes do and however they react to signals, two living processes of
  the system with the name of the same Python or native process of the table are one and the same.
  The daemons of the table (\<open>manage_athenad\<close>, \<open>manage_sunnylinkd\<close>, \<open>manage_tailscaled\<close>), which are started
  once and outlive the manager, are not covered.
\<close>

theorem one_instance_per_process:
  fixes flags mc ignore i ps ins
  defines "g \<equiv> mg_run flags mc ignore i ps ins"
  assumes "c \<in> set (procs mc)" "pc_kind c \<noteq> Daemon_Process"
  shows "finite {q. os_live (mg_os g) q \<and> os_name (mg_os g) q = pc_name c} \<and>
    card {q. os_live (mg_os g) q \<and> os_name (mg_os g) q = pc_name c} \<le> 1"
proof -
  have inv: "mg_inv (procs mc) g" unfolding g_def by (rule mg_run_inv)
  obtain k where "k < length (procs mc)" "procs mc ! k = c" using assms(2) by (auto simp: in_set_conv_nth)
  with mg_inv_nth [OF inv] have k: "k < length (mg_procs g)" "mp_config (mg_procs g ! k) = c" by auto
  have s: "sys_inv (mg_procs g) (mg_os g)" using inv by (simp add: mg_inv_def)
  have "mp_proc (mg_procs g ! k) = Some p" if "os_live (mg_os g) p" "os_name (mg_os g) p = pc_name c" for p
    using sys_inv_unique [OF s, of "mg_procs g ! k" p] k assms(3) that by simp
  then have sub: "{q. os_live (mg_os g) q \<and> os_name (mg_os g) q = pc_name c} \<subseteq> set_option (mp_proc (mg_procs g ! k))" by auto
  have f: "finite (set_option r)" "card (set_option r) \<le> 1" for r :: "nat option" by (cases r; simp)+
  from finite_subset [OF sub f(1)] order_trans [OF card_mono [OF f(1) sub] f(2)] show ?thesis by blast
qed

text \<open>One frame, for a process of the table: what is wanted is up, what is not goes down and is then dead.\<close>

definition mg_wanted :: "(param_flag \<Rightarrow> string \<Rightarrow> bool) \<Rightarrow> manager \<Rightarrow> manager_in \<Rightarrow> bool list" where
  "mg_wanted flags g i =
     er_wanted (mg_ignore g) (mi_run_env i (mi_started i) (mg_params (manager_transitions flags i g))) (map mp_config (mg_procs g))"

lemma mg_step_wanted:
  assumes "mg_inv cs g" "k < length (mg_procs g)" "pc_kind (mp_config (mg_procs g ! k)) \<noteq> Daemon_Process"
  shows "going_down (mg_procs (mg_step flags g x) ! k) \<longleftrightarrow> \<not> mg_wanted flags g (snd x) ! k"
    and "\<not> mg_wanted flags g (snd x) ! k \<Longrightarrow> going_down (mg_procs g ! k) \<Longrightarrow> mp_proc (mg_procs (mg_step flags g x) ! k) = None"
proof -
  let ?g = "g\<lparr>mg_os := foldl (\<lambda>os (pid, code). os_end pid code os) (mg_os g) (fst x)\<rparr>"
  have inv: "sys_inv (mg_procs ?g) (mg_os ?g)" using assms(1) os_ends_inv by (simp add: mg_inv_def)
  have tr: "mg_params (manager_transitions flags (snd x) ?g) = mg_params (manager_transitions flags (snd x) g)"
    by (simp add: manager_transitions_def Let_def)
  obtain e ms os e' where
    "e = mi_run_env (snd x) (mi_started (snd x)) (mg_params (manager_transitions flags (snd x) ?g))"
    and f: "ensure_running (mi_env (snd x)) (mi_daemon_alive (snd x)) (mg_ignore ?g) e (mg_procs ?g) (mg_os ?g) = (ms, os, e')"
    and m: "mg_procs (manager_frame flags (snd x) ?g) = ms"
    by (rule manager_frame_eq [of "snd x" flags ?g])
  then have "er_wanted (mg_ignore ?g) e (map mp_config (mg_procs ?g)) = mg_wanted flags g (snd x)" by (simp add: mg_wanted_def tr)
  with ensure_running_wanted [OF inv f, of k] assms(2,3) m
  show "going_down (mg_procs (mg_step flags g x) ! k) \<longleftrightarrow> \<not> mg_wanted flags g (snd x) ! k"
    and "\<not> mg_wanted flags g (snd x) ! k \<Longrightarrow> going_down (mg_procs g ! k) \<Longrightarrow> mp_proc (mg_procs (mg_step flags g x) ! k) = None"
    by (simp_all add: mg_step_def)
qed

text \<open>
  The published state says what is wanted. After every frame, from any reachable state, the
  message of a managed process says that it should be running exactly if the frame wants it; so
  a wanted process that is not running is visible to the process that watches this message.
\<close>

theorem manager_state_says_wanted:
  fixes flags mc ignore i ps ins x
  defines "g \<equiv> mg_run flags mc ignore i ps ins"
  assumes "k < length (procs mc)" "pc_kind (procs mc ! k) \<noteq> Daemon_Process"
  shows "ps_shouldBeRunning (get_process_state_msg (mg_os (mg_step flags g x)) (mg_procs (mg_step flags g x) ! k)) =
    mg_wanted flags g (snd x) ! k"
proof -
  have inv: "mg_inv (procs mc) g" unfolding g_def by (rule mg_run_inv)
  from mg_step_wanted(1) [OF inv mg_inv_nth(1) [OF inv assms(2)], of flags x] mg_inv_nth(2) [OF inv assms(2)] assms(3)
  show ?thesis by (auto simp: get_process_state_msg_def split: option.split)
qed

lemma unwanted_nth:
  assumes "j < length cs" "\<not> re_started e" "\<forall>e. \<not> re_started e \<longrightarrow> \<not> pc_should_run (cs ! j) e"
  shows "\<not> er_wanted ign e cs ! j"
  using assms
proof (induction cs arbitrary: e j)
  case (Cons c cs)
  then show ?case by (cases j) (auto simp: wanted_def)
qed simp

text \<open>
  Going offroad ends the driving processes. A process of the table that is never wanted offroad
  is dead after two frames of the manager in which the device is not started, from any reachable
  state and however it reacts to signals: no living process of the system has its name.
\<close>

lemma offroad_ends_driving:
  fixes flags mc ignore i ps ins x y
  defines "g \<equiv> mg_run flags mc ignore i ps (ins @ [x, y])"
  assumes "c \<in> set (procs mc)" "pc_kind c \<noteq> Daemon_Process" "\<forall>e. \<not> re_started e \<longrightarrow> \<not> pc_should_run c e"
    and "\<not> mi_started (snd x)" "\<not> mi_started (snd y)"
  shows "\<not> (os_live (mg_os g) q \<and> os_name (mg_os g) q = pc_name c)"
proof -
  let ?g0 = "mg_run flags mc ignore i ps ins"
  let ?g1 = "mg_step flags ?g0 x"
  have i0: "mg_inv (procs mc) ?g0" by (rule mg_run_inv)
  then have i1: "mg_inv (procs mc) ?g1" by (simp add: mgr.step_inv)
  have g: "g = mg_step flags ?g1 y" by (simp add: g_def)
  then have i2: "mg_inv (procs mc) g" using i1 by (simp add: mgr.step_inv)
  obtain k where k: "k < length (procs mc)" "procs mc ! k = c" using assms(2) by (auto simp: in_set_conv_nth)
  have at: "k < length (mg_procs h)" "mp_config (mg_procs h ! k) = c" if "mg_inv (procs mc) h" for h
    using mg_inv_nth [OF that k(1)] k(2) by simp_all
  have un: "\<not> mg_wanted flags h (snd z) ! k" if "mg_inv (procs mc) h" "\<not> mi_started (snd z)" for h z
    using unwanted_nth [of k "procs mc"] k assms(4) that by (auto simp: mg_wanted_def mg_inv_def mi_run_env_def)
  have "going_down (mg_procs ?g1 ! k)" using mg_step_wanted(1) [OF i0 at(1) [OF i0]] at(2) [OF i0] assms(3) un [OF i0 assms(5)] by simp
  then have "mp_proc (mg_procs g ! k) = None"
    using mg_step_wanted(2) [OF i1 at(1) [OF i1]] at(2) [OF i1] assms(3) un [OF i1 assms(6)] by (simp add: g)
  from mg_inv_dead [OF i2 at(1) [OF i2] this] at(2) [OF i2] assms(3) show ?thesis by simp
qed


text \<open>Inputs for the examples: a car that is not started, on a machine without special parts.\<close>

definition example_params :: mparams where
  "example_params = \<lparr>p_bool = (\<lambda>_. False), p_str = (\<lambda>_. None), p_runner_cache = None, p_bundle_runner = None\<rparr>"

definition example_parked :: manager_in where
  "example_parked =
     \<lparr>mi_started = False, mi_pandas = [], mi_notCar = False,
      mi_facts = \<lparr>re_started = False, re_params = example_params, re_notCar = False, re_PC = False, re_ublox_device = True,
        re_use_quectel_gps = False, re_mapd_root_exists = False, re_osm_download = None\<rparr>,
      mi_params = (\<lambda>p. p), mi_env = (\<lambda>_. None), mi_daemon_alive = (\<lambda>_. False)\<rparr>"

definition example_device :: machine where
  "example_device = \<lparr>mc_PC = False, mc_TICI = True, mc_WEBCAM = False, mc_Darwin = False, mc_github_runner = False,
     mc_sunnylink_uploader = False, mc_copyparty = False\<rparr>"

lemma selfdrived_in_table: "PythonProcess ''selfdrived'' only_onroad re_params True False \<in> set (procs mc)"
  by (simp add: procs_def procs_base_def)

theorem one_instance_per_process_witness:
  "card {q. os_live (mg_os (mg_run (\<lambda>_ _. False) example_device [] example_parked example_params [([], example_parked\<lparr>mi_started := True\<rparr>)])) q \<and>
     os_name (mg_os (mg_run (\<lambda>_ _. False) example_device [] example_parked example_params [([], example_parked\<lparr>mi_started := True\<rparr>)])) q = ''selfdrived''} \<le> 1"
proof -
  let ?c = "PythonProcess ''selfdrived'' only_onroad re_params True False"
  have "pc_kind ?c \<noteq> Daemon_Process" "pc_name ?c = ''selfdrived''" by (simp_all add: PythonProcess_def)
  with one_instance_per_process [OF selfdrived_in_table, of "\<lambda>_ _. False" example_device "[]" example_parked example_params
    "[([], example_parked\<lparr>mi_started := True\<rparr>)]"] show ?thesis by metis
qed

text \<open>The frame of the second theorem, at the first place of the table that is not a daemon.\<close>

theorem manager_state_says_wanted_witness:
  "let g = mg_run (\<lambda>_ _. False) example_device [] example_parked example_params []; x = ([], example_parked)
   in ps_shouldBeRunning (get_process_state_msg (mg_os (mg_step (\<lambda>_ _. False) g x)) (mg_procs (mg_step (\<lambda>_ _. False) g x) ! 1)) =
        mg_wanted (\<lambda>_ _. False) g example_parked ! 1"
  using manager_state_says_wanted [of 1 example_device "\<lambda>_ _. False" "[]" example_parked example_params "[]" "([], example_parked)"]
  by (simp add: procs_def procs_base_def NativeProcess_def Let_def)

text \<open>Stopping everything at the end of the manager.\<close>

lemma stop_all_inv:
  assumes "sys_inv ms os" "stop_all env block ms os = (ms', os')"
  shows "sys_inv ms' os'" "map mp_config ms' = map mp_config ms"
    "k < length ms \<Longrightarrow> \<exists>o1. mp_ok o1 (ms ! k) \<and> ms' ! k = fst (mp_stop env True block None (ms ! k) o1)"
proof -
  let ?xs = "zip ms (replicate (length ms) block)"
  have e: "each_proc (stop_op env) ?xs os = (ms', os')" using assms(2) by (simp add: stop_all_each)
  show "sys_inv ms' os'" using stopping.each_proc_inv [OF assms(1) _ e] by simp
  have "sys_inv ([] @ map fst ?xs) os" using assms(1) by simp
  note n = stopping.each_proc_nth [OF this e]
  from n show "map mp_config ms' = map mp_config ms" by simp
  show "\<exists>o1. mp_ok o1 (ms ! k) \<and> ms' ! k = fst (mp_stop env True block None (ms ! k) o1)" if "k < length ms"
    using n that by (auto simp: stop_op_def case_prod_beta)
qed

text \<open>
  Nothing survives the manager. When the manager ends, from any reachable state and whatever the
  processes do with the signals, no process that it started is alive after the clean-up, except
  the daemons, which it leaves running on purpose.
\<close>

theorem cleanup_kills_all:
  fixes flags mc ignore i ps ins env
  defines "g \<equiv> manager_cleanup env (mg_run flags mc ignore i ps ins)"
  shows "os_live (mg_os g) q \<longrightarrow> (\<exists>c \<in> set (procs mc). pc_kind c = Daemon_Process \<and> os_name (mg_os g) q = pc_name c)"
proof -
  let ?g = "mg_run flags mc ignore i ps ins"
  have inv: "sys_inv (mg_procs ?g) (mg_os ?g)" "map mp_config (mg_procs ?g) = procs mc" using mg_run_inv by (simp_all add: mg_inv_def)
  obtain ms1 os1 where s1: "stop_all env False (mg_procs ?g) (mg_os ?g) = (ms1, os1)" by fastforce
  obtain ms2 os2 where s2: "stop_all env True ms1 os1 = (ms2, os2)" by fastforce
  note i1 = stop_all_inv [OF inv(1) s1]
  note i2 = stop_all_inv [OF i1(1) s2]
  have g: "mg_procs g = ms2" "mg_os g = os2" by (simp_all add: g_def manager_cleanup_def s1 s2)
  have dead: "mp_proc m = None" if "m \<in> set ms2" for m
  proof -
    obtain k where k: "k < length ms1" "ms2 ! k = m" using \<open>m \<in> set ms2\<close> map_eq_imp_length_eq [OF i2(2)] by (auto simp: in_set_conv_nth)
    from i2(3) [OF k(1)] k(2) show ?thesis using mp_stop_dead by auto
  qed
  have "\<exists>c \<in> set (procs mc). pc_kind c = Daemon_Process \<and> os_name (mg_os g) q = pc_name c" if live: "os_live (mg_os g) q"
  proof -
    obtain m where m: "m \<in> set ms2" "mp_name m = os_name os2 q" "pc_kind (mp_config m) = Daemon_Process"
      using i2(1) live dead by (fastforce simp: sys_inv_def g)
    have "mp_config m \<in> set (procs mc)" using m(1) i2(2) i1(2) inv(2) by (metis image_eqI set_map)
    with m g show ?thesis by auto
  qed
  then show ?thesis by blast
qed

theorem cleanup_kills_all_witness:
  "\<not> (\<exists>q. os_live (mg_os (manager_cleanup (\<lambda>_. None) (mg_run (\<lambda>_ _. False) example_device [] example_parked example_params []))) q \<and>
   os_name (mg_os (manager_cleanup (\<lambda>_. None) (mg_run (\<lambda>_ _. False) example_device [] example_parked example_params []))) q = ''ui'')"
proof -
  have "\<not> (\<exists>c \<in> set (procs example_device). pc_kind c = Daemon_Process \<and> ''ui'' = pc_name c)"
    by (simp add: procs_def procs_base_def procs_sp_def procs_optional_def NativeProcess_def PythonProcess_def DaemonProcess_def example_device_def)
  with cleanup_kills_all [of "\<lambda>_. None" "\<lambda>_ _. False" example_device "[]" example_parked example_params "[]"]
  show ?thesis by metis
qed


subsection \<open>Processes that exclude each other\<close>

definition wants :: "string list \<Rightarrow> run_env \<Rightarrow> proc_config list \<Rightarrow> string \<Rightarrow> bool" where
  "wants ign e cs n \<longleftrightarrow> (\<exists>j < length cs. pc_name (cs ! j) = n \<and> er_wanted ign e cs ! j)"

text \<open>Evaluating the conditions writes parameters, but none that another condition depends on.\<close>

definition same_view :: "run_env \<Rightarrow> run_env \<Rightarrow> bool" where
  "same_view e e' \<longleftrightarrow> re_started e' = re_started e \<and> re_notCar e' = re_notCar e \<and>
     (\<forall>k. k \<noteq> ''UbloxAvailable'' \<longrightarrow> get_bool e' k = get_bool e k) \<and>
     fst (get_active_model_runner e') = fst (get_active_model_runner e)"

lemma same_view_writes:
  "same_view e (e\<lparr>re_params := re_params e\<rparr>)" "same_view e (e\<lparr>re_params := ublox_writes e\<rparr>)"
  "same_view e (e\<lparr>re_params := runner_writes e\<rparr>)"
  by (auto simp: same_view_def ublox_writes_def runner_writes_def get_bool_def get_active_model_runner_def Let_def split: option.splits)

lemma same_view_refl: "same_view e e" and same_view_trans: "same_view e e' \<Longrightarrow> same_view e' e'' \<Longrightarrow> same_view e e''"
  by (auto simp: same_view_def)

lemma er_wanted_nth:
  assumes "\<forall>c \<in> set cs. pc_writes c \<in> {re_params, ublox_writes, runner_writes}" "j < length cs"
  shows "\<exists>e'. same_view e e' \<and> er_wanted ign e cs ! j = wanted ign e' (cs ! j)"
  using assms
proof (induction cs arbitrary: e j)
  case (Cons c cs)
  show ?case
  proof (cases j)
    case 0
    then show ?thesis using same_view_refl by auto
  next
    case (Suc j')
    let ?e = "if pc_enabled c \<and> pc_name c \<notin> set ign then e\<lparr>re_params := pc_writes c e\<rparr> else e"
    have v: "same_view e ?e" using Cons.prems(1) same_view_writes [of e] same_view_refl [of e] by auto
    obtain e' where "same_view ?e e'" "er_wanted ign ?e cs ! j' = wanted ign e' (cs ! j')"
      using Cons.IH [of j' ?e] Cons.prems Suc by auto
    with Suc show ?thesis by (intro exI [of _ e'] conjI same_view_trans [OF v]) simp_all
  qed
qed simp

lemma procs_writes: "\<forall>c \<in> set (procs mc). pc_writes c \<in> {re_params, ublox_writes, runner_writes}"
  by (simp add: procs_def procs_base_def procs_sp_def procs_optional_def NativeProcess_def PythonProcess_def DaemonProcess_def) auto

lemma wants_eq:
  assumes "c \<in> set (procs mc)" "\<And>e'. same_view e e' \<Longrightarrow> pc_should_run c e' = b"
  shows "wants ign e (procs mc) (pc_name c) \<longleftrightarrow> pc_enabled c \<and> pc_name c \<notin> set ign \<and> b"
proof -
  obtain j where j: "j < length (procs mc)" "procs mc ! j = c" using assms(1) by (auto simp: in_set_conv_nth)
  have u: "j' = j" if "j' < length (procs mc)" "pc_name (procs mc ! j') = pc_name c" for j'
    using nth_eq_iff_index_eq [OF procs_names [of mc], of j' j] j that by simp
  have "wants ign e (procs mc) (pc_name c) \<longleftrightarrow> er_wanted ign e (procs mc) ! j"
    unfolding wants_def using j u by blast
  with er_wanted_nth [OF procs_writes j(1), of e ign] j(2) assms(2) show ?thesis unfolding wanted_def by metis
qed

lemma in_table:
  "PythonProcess ''controlsd'' (and_fn not_joystick iscar) re_params True False \<in> set (procs mc)"
  "PythonProcess ''joystickd'' (or_fn joystick notcar) re_params True False \<in> set (procs mc)"
  "PythonProcess ''plannerd'' not_long_maneuver re_params True False \<in> set (procs mc)"
  "PythonProcess ''maneuversd'' long_maneuver re_params True False \<in> set (procs mc)"
  "PythonProcess ''modeld'' (and_fn only_onroad is_stock_model) runner_writes True False \<in> set (procs mc)"
  "NativeProcess ''modeld_tinygrad'' (and_fn only_onroad is_tinygrad_model) runner_writes True \<in> set (procs mc)"
  by (simp_all add: procs_def procs_base_def procs_sp_def)

lemma wants_simps:
  "wants ign e (procs mc) ''controlsd'' \<longleftrightarrow> ''controlsd'' \<notin> set ign \<and> not_joystick e \<and> iscar e"
  "wants ign e (procs mc) ''joystickd'' \<longleftrightarrow> ''joystickd'' \<notin> set ign \<and> (joystick e \<or> notcar e)"
  "wants ign e (procs mc) ''plannerd'' \<longleftrightarrow> ''plannerd'' \<notin> set ign \<and> not_long_maneuver e"
  "wants ign e (procs mc) ''maneuversd'' \<longleftrightarrow> ''maneuversd'' \<notin> set ign \<and> long_maneuver e"
  "wants ign e (procs mc) ''modeld'' \<longleftrightarrow> ''modeld'' \<notin> set ign \<and> re_started e \<and> is_stock_model e"
  "wants ign e (procs mc) ''modeld_tinygrad'' \<longleftrightarrow> ''modeld_tinygrad'' \<notin> set ign \<and> re_started e \<and> is_tinygrad_model e"
proof -
  note defs = PythonProcess_def NativeProcess_def same_view_def and_fn_def or_fn_def not_joystick_def joystick_def
      iscar_def notcar_def not_long_maneuver_def long_maneuver_def only_onroad_def is_stock_model_def is_tinygrad_model_def
  show "wants ign e (procs mc) ''controlsd'' \<longleftrightarrow> ''controlsd'' \<notin> set ign \<and> not_joystick e \<and> iscar e"
    using wants_eq [OF in_table(1) [of mc], of e "not_joystick e \<and> iscar e" ign] by (simp add: defs)
  show "wants ign e (procs mc) ''joystickd'' \<longleftrightarrow> ''joystickd'' \<notin> set ign \<and> (joystick e \<or> notcar e)"
    using wants_eq [OF in_table(2) [of mc], of e "joystick e \<or> notcar e" ign] by (simp add: defs)
  show "wants ign e (procs mc) ''plannerd'' \<longleftrightarrow> ''plannerd'' \<notin> set ign \<and> not_long_maneuver e"
    using wants_eq [OF in_table(3) [of mc], of e "not_long_maneuver e" ign] by (simp add: defs)
  show "wants ign e (procs mc) ''maneuversd'' \<longleftrightarrow> ''maneuversd'' \<notin> set ign \<and> long_maneuver e"
    using wants_eq [OF in_table(4) [of mc], of e "long_maneuver e" ign] by (simp add: defs)
  show "wants ign e (procs mc) ''modeld'' \<longleftrightarrow> ''modeld'' \<notin> set ign \<and> re_started e \<and> is_stock_model e"
    using wants_eq [OF in_table(5) [of mc], of e "re_started e \<and> is_stock_model e" ign] by (simp add: defs)
  show "wants ign e (procs mc) ''modeld_tinygrad'' \<longleftrightarrow> ''modeld_tinygrad'' \<notin> set ign \<and> re_started e \<and> is_tinygrad_model e"
    using wants_eq [OF in_table(6) [of mc], of e "re_started e \<and> is_tinygrad_model e" ign] by (simp add: defs)
qed

text \<open>
  The actuators have one controller. In every frame at most one of \<open>controlsd\<close> and \<open>joystickd\<close>, at
  most one of \<open>plannerd\<close> and \<open>maneuversd\<close> and at most one driving model is wanted; onroad, when none of
  them is blocked, exactly one controller and exactly one planner; offroad none of them.
\<close>

theorem one_controller_wanted:
  fixes mc ign e
  defines "w \<equiv> wants ign e (procs mc)"
  shows "\<not> (w ''controlsd'' \<and> w ''joystickd'') \<and> \<not> (w ''plannerd'' \<and> w ''maneuversd'') \<and> \<not> (w ''modeld'' \<and> w ''modeld_tinygrad'') \<and>
    (re_started e \<and> set ign \<inter> {''controlsd'', ''joystickd'', ''plannerd'', ''maneuversd''} = {} \<longrightarrow>
       (w ''controlsd'' \<or> w ''joystickd'') \<and> (w ''plannerd'' \<or> w ''maneuversd'')) \<and>
    (\<not> re_started e \<longrightarrow> \<not> (\<exists>n \<in> {''controlsd'', ''joystickd'', ''plannerd'', ''maneuversd'', ''modeld'', ''modeld_tinygrad''}. w n))"
  unfolding w_def
  by (auto simp: wants_simps not_joystick_def joystick_def iscar_def notcar_def not_long_maneuver_def long_maneuver_def
      is_stock_model_def is_tinygrad_model_def RUNNER_stock_def RUNNER_tinygrad_def)

theorem one_controller_wanted_witness:
  "let e = (mi_facts example_parked)\<lparr>re_started := True\<rparr>; w = wants [] e (procs example_device)
   in (w ''controlsd'' \<or> w ''joystickd'') \<and> \<not> (w ''controlsd'' \<and> w ''joystickd'')"
  using one_controller_wanted [of "[]" "(mi_facts example_parked)\<lparr>re_started := True\<rparr>" example_device]
  by (simp add: example_parked_def Let_def)

end
