(* ===== verification/Hardwared.thy ===== *)
theory Hardwared
  imports Power_Monitor Filters Process_Manager
begin

text \<open>
  The hardware daemon, \<open>system/hardware/hardwared.py\<close>: ignition, the thermal bands, the conditions
  for going onroad, the times of the transitions, power monitoring and the request to shut down.
  One call of \<open>hw_iteration\<close> is one pass of the loop of \<open>hardware_thread\<close>; the clock is read once per
  pass. The lemmas show that the device is started only under all its conditions, and what leads
  offroad. The last part joins the daemon to the process manager.
\<close>

subsection \<open>Thermal bands\<close>

datatype thermal_status = TS_ok | TS_overheated | TS_critical

fun thermal_raw :: "thermal_status \<Rightarrow> int" where
  "thermal_raw TS_ok = 0" | "thermal_raw TS_overheated = 2" | "thermal_raw TS_critical = 3"

record thermal_band =
  min_temp :: "real option"
  max_temp :: "real option"

definition THERMAL_BANDS :: "bool \<Rightarrow> (thermal_status \<times> thermal_band) list" where
  "THERMAL_BANDS mici =
     (if mici
      then [(TS_ok, \<lparr>min_temp = None, max_temp = Some 100\<rparr>), (TS_overheated, \<lparr>min_temp = Some 92, max_temp = Some 107\<rparr>),
            (TS_critical, \<lparr>min_temp = Some 98, max_temp = None\<rparr>)]
      else [(TS_ok, \<lparr>min_temp = None, max_temp = Some 96\<rparr>), (TS_overheated, \<lparr>min_temp = Some 88, max_temp = Some 107\<rparr>),
            (TS_critical, \<lparr>min_temp = Some 94, max_temp = None\<rparr>)])"

definition OFFROAD_DANGER_TEMP :: "bool \<Rightarrow> real" where "OFFROAD_DANGER_TEMP mici = (if mici then 85 else 75)"
definition TEMP_TAU :: real where "TEMP_TAU = 5"
definition DT_HW :: real where "DT_HW = 1 / 2"
definition DISCONNECT_TIMEOUT :: real where "DISCONNECT_TIMEOUT = 5"
definition ONROAD_CYCLE_TIME :: int where "ONROAD_CYCLE_TIME = 1"
definition PANDA_STATES_FREQ :: int where "PANDA_STATES_FREQ = 10"

fun band_index :: "thermal_status \<Rightarrow> (thermal_status \<times> thermal_band) list \<Rightarrow> nat" where
  "band_index t [] = 0"
| "band_index t (b # bs) = (if fst b = t then 0 else Suc (band_index t bs))"

text \<open>The keys are indexed as the code does; an index outside the list would be an error (\<open>None\<close>).\<close>

definition next_band :: "bool \<Rightarrow> real \<Rightarrow> thermal_status \<Rightarrow> thermal_status option" where
  "next_band mici temp status =
     (let bands = THERMAL_BANDS mici; keys = map fst bands; idx = band_index status bands
      in case map_of bands status of
           None \<Rightarrow> None
         | Some current_band \<Rightarrow>
             if (case min_temp current_band of Some lo \<Rightarrow> temp < lo | None \<Rightarrow> False)
             then (if idx = 0 then Some (last keys) else Some (keys ! (idx - 1)))
             else if (case max_temp current_band of Some hi \<Rightarrow> temp > hi | None \<Rightarrow> False)
             then (if idx + 1 < length keys then Some (keys ! (idx + 1)) else None)
             else Some status)"

subsection \<open>State and inputs\<close>

record startup_conditions =
  sc_up_to_date :: bool
  sc_no_excessive_actuation :: bool
  sc_not_uninstalling :: bool
  sc_accepted_terms :: bool
  sc_accepted_terms_sp :: bool
  sc_free_space :: bool
  sc_completed_training :: bool
  sc_not_driver_view :: bool
  sc_device_temp_engageable :: bool
  sc_device_booted :: bool
  sc_not_always_offroad :: bool
  sc_not_tici :: bool

definition startup_all :: "startup_conditions \<Rightarrow> bool" where
  "startup_all c \<longleftrightarrow> sc_up_to_date c \<and> sc_no_excessive_actuation c \<and> sc_not_uninstalling c \<and> sc_accepted_terms c \<and>
     sc_accepted_terms_sp c \<and> sc_free_space c \<and> sc_completed_training c \<and> sc_not_driver_view c \<and>
     sc_device_temp_engageable c \<and> sc_device_booted c \<and> sc_not_always_offroad c \<and> sc_not_tici c"

record onroad_conditions =
  oc_ignition :: bool
  oc_not_onroad_cycle :: bool
  oc_device_temp_good :: bool
  oc_not_always_offroad :: bool
  oc_not_tici :: bool

definition onroad_all :: "onroad_conditions \<Rightarrow> bool" where
  "onroad_all c \<longleftrightarrow> oc_ignition c \<and> oc_not_onroad_cycle c \<and> oc_device_temp_good c \<and> oc_not_always_offroad c \<and> oc_not_tici c"

text \<open>The last two keys are added in the first full pass; a missing key does not affect \<open>all(...)\<close>.\<close>

record hardware =
  hw_onroad :: onroad_conditions
  hw_startup_prev :: "startup_conditions option"
  hw_device_booted :: bool
  hw_off_ts :: "real option"
  hw_started_ts :: "real option"
  hw_started_seen :: bool
  hw_startup_blocked_ts :: "real option"
  hw_thermal_status :: thermal_status
  hw_all_temp_filter :: first_order_filter
  hw_offroad_temp_filter :: first_order_filter
  hw_should_start_prev :: bool
  hw_in_car :: bool
  hw_engaged_prev :: bool
  hw_pwrsave :: bool
  hw_offroad_cycle_count :: int
  hw_count :: nat
  hw_uptime_offroad :: real
  hw_uptime_onroad :: real
  hw_last_uptime_ts :: real
  hw_power_monitor :: power_monitoring
  hw_fan :: fan

definition hw_init :: "int option \<Rightarrow> real \<Rightarrow> real \<Rightarrow> real \<Rightarrow> hardware" where
  "hw_init capacity uptime_offroad uptime_onroad now =
     \<lparr>hw_onroad = \<lparr>oc_ignition = False, oc_not_onroad_cycle = True, oc_device_temp_good = True, oc_not_always_offroad = True, oc_not_tici = True\<rparr>,
      hw_startup_prev = None, hw_device_booted = False, hw_off_ts = None, hw_started_ts = None, hw_started_seen = False,
      hw_startup_blocked_ts = None, hw_thermal_status = TS_ok,
      hw_all_temp_filter = FirstOrderFilter 0 TEMP_TAU DT_HW False, hw_offroad_temp_filter = FirstOrderFilter 0 TEMP_TAU DT_HW False,
      hw_should_start_prev = False, hw_in_car = False, hw_engaged_prev = False, hw_pwrsave = False, hw_offroad_cycle_count = 0, hw_count = 0,
      hw_uptime_offroad = uptime_offroad, hw_uptime_onroad = uptime_onroad, hw_last_uptime_ts = now,
      hw_power_monitor = PowerMonitoring capacity, hw_fan = FanController (of_int (py_int (1 / DT_HW)))\<rparr>"

text \<open>A panda: whether its type is known, both ignition signals, and whether the harness is connected.\<close>

record panda_in =
  pi_known :: bool
  pi_ignitionLine :: bool
  pi_ignitionCan :: bool
  pi_harness_connected :: bool

record hw_in =
  hi_mici :: bool
  hi_now :: real
  hi_frame :: int
  hi_pandas_updated :: bool
  hi_pandas :: "panda_in list"
  hi_pandas_recv_time :: real
  hi_OnroadCycleRequested :: bool
  hi_memoryTempC :: real
  hi_cpuTempC :: "real list"
  hi_gpuTempC :: "real list"
  hi_pmicTempC :: "real list"
  hi_freeSpacePercent :: real
  hi_screenBrightnessPercent :: real
  hi_ConnectivityNeeded :: bool
  hi_DisableUpdates :: bool
  hi_SnoozeUpdate :: bool
  hi_ExcessiveActuation :: bool
  hi_DoUninstall :: bool
  hi_accepted_terms :: bool
  hi_accepted_terms_sp :: bool
  hi_completed_training :: bool
  hi_IsDriverViewEnabled :: bool
  hi_OffroadMode :: bool
  hi_booted :: bool
  hi_unsupported_combo :: bool
  hi_selfdrive_enabled :: "bool option"
  hi_voltage :: "real option"
  hi_current_power :: real
  hi_shutdown_params :: shutdown_params

text \<open>What one full pass publishes and writes.\<close>

record device_state =
  ds_started :: bool
  ds_startedMonoTime :: int
  ds_thermalStatus :: thermal_status
  ds_maxTempC :: real
  ds_fanSpeedPercentDesired :: int
  ds_offroadPowerUsageUwh :: int
  ds_carBatteryCapacityUwh :: int
  ds_show_temp_alert :: bool
  ds_IsEngaged :: "bool option"
  ds_power_save :: "bool option"
  ds_GithubRunnerSufficientVoltage :: bool
  ds_DoShutdown :: bool

subsection \<open>One pass of the loop\<close>

definition hw_update_ignition :: "hw_in \<Rightarrow> hardware \<Rightarrow> hardware" where
  "hw_update_ignition i s =
     (let s = (if hi_OnroadCycleRequested i then s\<lparr>hw_offroad_cycle_count := hi_frame i\<rparr> else s);
          oc = (hw_onroad s)\<lparr>oc_not_onroad_cycle := (hi_frame i - hw_offroad_cycle_count s \<ge> ONROAD_CYCLE_TIME * PANDA_STATES_FREQ)\<rparr>
      in if hi_pandas_updated i \<and> hi_pandas i \<noteq> []
         then s\<lparr>hw_onroad := oc\<lparr>oc_ignition := list_ex (\<lambda>p. pi_known p \<and> (pi_ignitionLine p \<or> pi_ignitionCan p)) (hi_pandas i)\<rparr>,
                hw_in_car := pi_harness_connected (hd (hi_pandas i))\<rparr>
         else if hi_now i - hi_pandas_recv_time i > DISCONNECT_TIMEOUT
         then s\<lparr>hw_onroad := oc\<lparr>oc_ignition := False\<rparr>\<rparr>
         else s\<lparr>hw_onroad := oc\<rparr>)"

definition hw_skips :: "hw_in \<Rightarrow> hardware \<Rightarrow> bool" where
  "hw_skips i s \<longleftrightarrow>
     (let ign_edge = ((hw_started_ts s \<noteq> None) \<noteq> onroad_all (hw_onroad s))
      in hi_frame i mod py_round (of_int PANDA_STATES_FREQ * DT_HW) \<noteq> 0 \<and> \<not> ign_edge)"

definition max_temp_of :: "real list \<Rightarrow> real" where
  "max_temp_of ts = (if ts = [] then 0 else Max (set ts))"

text \<open>The filtered temperatures and the fan; the speed of the fan is returned as well.\<close>

definition hw_update_temps :: "hw_in \<Rightarrow> hardware \<Rightarrow> hardware \<times> int" where
  "hw_update_temps i s =
     (let sources = [hi_memoryTempC i, max_temp_of (hi_cpuTempC i), max_temp_of (hi_gpuTempC i)];
          offroad_filter = fo_update (Max (set sources)) (hw_offroad_temp_filter s);
          all_filter = fo_update (Max (set (sources @ [max_temp_of (hi_pmicTempC i)]))) (hw_all_temp_filter s);
          fan = fan_update (if hi_mici i then 0 else 5) (fo_x all_filter) (oc_ignition (hw_onroad s)) (hw_fan s)
      in (s\<lparr>hw_offroad_temp_filter := offroad_filter, hw_all_temp_filter := all_filter, hw_fan := fst fan\<rparr>, snd fan))"

definition hw_next_status :: "hw_in \<Rightarrow> hardware \<Rightarrow> thermal_status option" where
  "hw_next_status i s =
     (let is_offroad_for_5_min = (hw_started_ts s = None \<and> (\<not> hw_started_seen s \<or>
            (case hw_off_ts s of None \<Rightarrow> True | Some t \<Rightarrow> hi_now i - t > 60 * 5)))
      in if is_offroad_for_5_min \<and> fo_x (hw_offroad_temp_filter s) > OFFROAD_DANGER_TEMP (hi_mici i)
         then Some TS_critical
         else next_band (hi_mici i) (fo_x (hw_all_temp_filter s)) (hw_thermal_status s))"

definition hw_update_thermal :: "hw_in \<Rightarrow> hardware \<Rightarrow> (hardware \<times> int) option" where
  "hw_update_thermal i s =
     (case hw_update_temps i s of (s, speed) \<Rightarrow>
        map_option (\<lambda>t. (s\<lparr>hw_thermal_status := t\<rparr>, speed)) (hw_next_status i s))"

definition hw_startup_conditions :: "hw_in \<Rightarrow> hardware \<Rightarrow> startup_conditions" where
  "hw_startup_conditions i s =
     \<lparr>sc_up_to_date = (\<not> hi_ConnectivityNeeded i \<or> hi_DisableUpdates i \<or> hi_SnoozeUpdate i),
      sc_no_excessive_actuation = (\<not> hi_ExcessiveActuation i), sc_not_uninstalling = (\<not> hi_DoUninstall i),
      sc_accepted_terms = hi_accepted_terms i, sc_accepted_terms_sp = hi_accepted_terms_sp i,
      sc_free_space = (hi_freeSpacePercent i > 2), sc_completed_training = hi_completed_training i,
      sc_not_driver_view = (\<not> hi_IsDriverViewEnabled i),
      sc_device_temp_engageable = (thermal_raw (hw_thermal_status s) < thermal_raw TS_overheated),
      sc_device_booted = (hw_device_booted s \<or> hi_booted i),
      sc_not_always_offroad = (\<not> hi_OffroadMode i), sc_not_tici = (\<not> hi_unsupported_combo i)\<rparr>"

definition hw_update_conditions :: "hw_in \<Rightarrow> hardware \<Rightarrow> hardware" where
  "hw_update_conditions i s =
     s\<lparr>hw_device_booted := hw_device_booted s \<or> hi_booted i,
       hw_onroad := (hw_onroad s)\<lparr>oc_not_always_offroad := \<not> hi_OffroadMode i, oc_not_tici := \<not> hi_unsupported_combo i,
         oc_device_temp_good := (thermal_raw (hw_thermal_status s) < thermal_raw TS_critical)\<rparr>\<rparr>"

definition hw_should_start :: "startup_conditions \<Rightarrow> hardware \<Rightarrow> bool" where
  "hw_should_start sc s \<longleftrightarrow> onroad_all (hw_onroad s) \<and> (hw_started_ts s = None \<longrightarrow> startup_all sc)"

text \<open>\<open>IsEngaged\<close>: cleared when the wish to start changes, set from the state of \<open>selfdrived\<close>.\<close>

definition hw_update_engaged :: "hw_in \<Rightarrow> bool \<Rightarrow> hardware \<Rightarrow> hardware \<times> bool option" where
  "hw_update_engaged i should_start s =
     (let cleared = (should_start \<noteq> hw_should_start_prev s \<or> hw_count s = 0);
          s = (if cleared then s\<lparr>hw_engaged_prev := False\<rparr> else s);
          written = (if cleared then Some False else None)
      in case hi_selfdrive_enabled i of
           None \<Rightarrow> (s, written)
         | Some engaged \<Rightarrow> if engaged \<noteq> hw_engaged_prev s then (s\<lparr>hw_engaged_prev := engaged\<rparr>, Some engaged) else (s, written))"

definition hw_update_timestamps :: "hw_in \<Rightarrow> startup_conditions \<Rightarrow> bool \<Rightarrow> hardware \<Rightarrow> hardware" where
  "hw_update_timestamps i sc should_start s =
     (if should_start
      then (let s = s\<lparr>hw_off_ts := None\<rparr>;
                s = (if hw_started_ts s = None then s\<lparr>hw_started_ts := Some (hi_now i), hw_started_seen := True\<rparr> else s)
            in s\<lparr>hw_startup_blocked_ts := None\<rparr>)
      else (let s = (if oc_ignition (hw_onroad s) \<and> Some sc \<noteq> hw_startup_prev s
                     then s\<lparr>hw_startup_prev := Some sc, hw_startup_blocked_ts := Some (hi_now i)\<rparr> else s)
            in s\<lparr>hw_started_ts := None, hw_off_ts := (case hw_off_ts s of None \<Rightarrow> Some (hi_now i) | Some t \<Rightarrow> Some t)\<rparr>))"

definition hw_update_uptime :: "hw_in \<Rightarrow> hardware \<Rightarrow> hardware" where
  "hw_update_uptime i s =
     (let s' = (case hw_off_ts s of
                  Some t \<Rightarrow> if t \<noteq> 0 then Some (s\<lparr>hw_uptime_offroad := hw_uptime_offroad s + (hi_now i - max (hw_last_uptime_ts s) t)\<rparr>) else None
                | None \<Rightarrow> None);
          s = (case s' of
                 Some s' \<Rightarrow> s'
               | None \<Rightarrow> (case hw_started_ts s of
                    Some t \<Rightarrow> if t \<noteq> 0 then s\<lparr>hw_uptime_onroad := hw_uptime_onroad s + (hi_now i - max (hw_last_uptime_ts s) t)\<rparr> else s
                  | None \<Rightarrow> s))
      in s\<lparr>hw_last_uptime_ts := hi_now i\<rparr>)"

text \<open>The transition between offroad and onroad: the new state, the wish to start and what is written.\<close>

definition hw_transition :: "hw_in \<Rightarrow> startup_conditions \<Rightarrow> hardware \<Rightarrow> hardware \<times> bool \<times> bool option \<times> bool option" where
  "hw_transition i sc s =
     (let should_start = hw_should_start sc s;
          engaged = hw_update_engaged i should_start s;
          should_pwrsave = (\<not> oc_ignition (hw_onroad s) \<and> hi_screenBrightnessPercent i < 1 / 1000);
          power_save = (if should_pwrsave \<noteq> hw_pwrsave s \<or> hw_count s = 0 then Some should_pwrsave else None)
      in (hw_update_timestamps i sc should_start ((fst engaged)\<lparr>hw_pwrsave := should_pwrsave\<rparr>), should_start, snd engaged, power_save))"

definition hw_update_power :: "hw_in \<Rightarrow> hardware \<Rightarrow> hardware" where
  "hw_update_power i s =
     s\<lparr>hw_power_monitor := pm_calculate (hi_now i) (hi_voltage i) (oc_ignition (hw_onroad s)) (hi_current_power i) (hw_power_monitor s)\<rparr>"

definition hw_message :: "hw_in \<Rightarrow> bool \<Rightarrow> int \<Rightarrow> bool option \<Rightarrow> bool option \<Rightarrow> hardware \<Rightarrow> device_state" where
  "hw_message i show_alert speed engaged power_save s =
     \<lparr>ds_started = (hw_started_ts s \<noteq> None \<and> \<not> hi_OffroadMode i),
      ds_startedMonoTime = py_int (10 ^ 9 * (case hw_started_ts s of Some t \<Rightarrow> t | None \<Rightarrow> 0)),
      ds_thermalStatus = hw_thermal_status s, ds_maxTempC = fo_x (hw_all_temp_filter s),
      ds_fanSpeedPercentDesired = (if show_alert then 100 else speed),
      ds_offroadPowerUsageUwh = get_power_used (hw_power_monitor s),
      ds_carBatteryCapacityUwh = max 0 (get_car_battery_capacity (hw_power_monitor s)),
      ds_show_temp_alert = show_alert, ds_IsEngaged = engaged, ds_power_save = power_save,
      ds_GithubRunnerSufficientVoltage = (case hi_voltage i of Some v \<Rightarrow> v \<noteq> 0 \<and> v > 9000 | None \<Rightarrow> False),
      ds_DoShutdown = should_shutdown (hi_shutdown_params i) (hi_now i) (oc_ignition (hw_onroad s)) (hw_in_car s) (hw_off_ts s)
        (hw_started_seen s) (hw_power_monitor s)\<rparr>"

text \<open>A full pass, after the ignition part; \<open>None\<close> only if a thermal band were missing.\<close>

definition hw_full_pass :: "hw_in \<Rightarrow> hardware \<Rightarrow> (hardware \<times> device_state) option" where
  "hw_full_pass i s =
     (case hw_update_thermal i s of
        None \<Rightarrow> None
      | Some (s, speed) \<Rightarrow>
          (let sc = hw_startup_conditions i s;
               s = hw_update_conditions i s;
               show_alert = ((\<not> oc_device_temp_good (hw_onroad s) \<or> \<not> sc_device_temp_engageable sc) \<and> oc_ignition (hw_onroad s))
           in case hw_transition i sc s of (s, should_start, engaged, power_save) \<Rightarrow>
                (let s = hw_update_power i s
                 in Some ((hw_update_uptime i s)\<lparr>hw_count := hw_count s + 1, hw_should_start_prev := should_start\<rparr>,
                          hw_message i show_alert speed engaged power_save s))))"

definition hw_iteration :: "hw_in \<Rightarrow> hardware \<Rightarrow> (hardware \<times> device_state option) option" where
  "hw_iteration i s =
     (let s = hw_update_ignition i s
      in if hw_skips i s then Some (s, None)
         else map_option (\<lambda>(s, ds). (s, Some ds)) (hw_full_pass i s))"


subsection \<open>Thermal bands\<close>

lemma THERMAL_BANDS_simps [simp]:
  "map_of (THERMAL_BANDS mici) TS_ok = Some \<lparr>min_temp = None, max_temp = Some (if mici then 100 else 96)\<rparr>"
  "map_of (THERMAL_BANDS mici) TS_overheated = Some \<lparr>min_temp = Some (if mici then 92 else 88), max_temp = Some 107\<rparr>"
  "map_of (THERMAL_BANDS mici) TS_critical = Some \<lparr>min_temp = Some (if mici then 98 else 94), max_temp = None\<rparr>"
  "map fst (THERMAL_BANDS mici) = [TS_ok, TS_overheated, TS_critical]"
  "band_index TS_ok (THERMAL_BANDS mici) = 0" "band_index TS_overheated (THERMAL_BANDS mici) = 1" "band_index TS_critical (THERMAL_BANDS mici) = 2"
  by (simp_all add: THERMAL_BANDS_def)

lemma next_band_simps:
  "next_band mici t TS_ok = Some (if t > (if mici then 100 else 96) then TS_overheated else TS_ok)"
  "next_band mici t TS_overheated = Some (if t < (if mici then 92 else 88) then TS_ok else if t > 107 then TS_critical else TS_overheated)"
  "next_band mici t TS_critical = Some (if t < (if mici then 98 else 94) then TS_overheated else TS_critical)"
  by (simp_all add: next_band_def Let_def)

lemma thermal_raw_less [simp]: "thermal_raw t < 2 \<longleftrightarrow> t = TS_ok" "thermal_raw t < 3 \<longleftrightarrow> t \<noteq> TS_critical"
  by (cases t; simp)+

lemma next_band_total: "\<exists>t'. next_band mici temp t = Some t'"
  by (cases t) (simp_all add: next_band_simps)

text \<open>What a full pass needs of its parts.\<close>

lemma update_temps_keeps [simp]:
  "hw_onroad (fst (hw_update_temps i s)) = hw_onroad s" "hw_started_ts (fst (hw_update_temps i s)) = hw_started_ts s"
  "hw_off_ts (fst (hw_update_temps i s)) = hw_off_ts s" "hw_device_booted (fst (hw_update_temps i s)) = hw_device_booted s"
  "hw_started_seen (fst (hw_update_temps i s)) = hw_started_seen s" "hw_thermal_status (fst (hw_update_temps i s)) = hw_thermal_status s"
  by (simp_all add: hw_update_temps_def Let_def)

lemma next_status_cases:
  "hw_next_status i s = Some t \<Longrightarrow> t = TS_critical \<or> next_band (hi_mici i) (fo_x (hw_all_temp_filter s)) (hw_thermal_status s) = Some t"
  "hw_next_status i s \<noteq> None"
  using next_band_total [of "hi_mici i" "fo_x (hw_all_temp_filter s)" "hw_thermal_status s"]
  by (auto simp: hw_next_status_def Let_def split: if_splits)

lemma hw_update_thermal_keeps:
  assumes "hw_update_thermal i s = Some (s', speed)"
  shows "hw_onroad s' = hw_onroad s" "hw_started_ts s' = hw_started_ts s" "hw_off_ts s' = hw_off_ts s" "hw_device_booted s' = hw_device_booted s"
    "hw_thermal_status s' = TS_critical \<or> next_band (hi_mici i) (fo_x (hw_all_temp_filter s')) (hw_thermal_status s) = Some (hw_thermal_status s')"
proof -
  let ?s = "fst (hw_update_temps i s)"
  obtain t where t: "hw_next_status i ?s = Some t" and s': "s' = ?s\<lparr>hw_thermal_status := t\<rparr>"
    using assms by (auto simp: hw_update_thermal_def case_prod_beta)
  from next_status_cases(1) [OF t] show "hw_thermal_status s' = TS_critical \<or> next_band (hi_mici i) (fo_x (hw_all_temp_filter s')) (hw_thermal_status s) = Some (hw_thermal_status s')"
    by (simp add: s')
qed (use assms in \<open>auto simp: hw_update_thermal_def case_prod_beta\<close>)

lemma hw_update_thermal_total: "hw_update_thermal i s \<noteq> None"
  using next_status_cases(2) by (simp add: hw_update_thermal_def case_prod_beta)

lemma update_engaged_keeps [simp]:
  "hw_onroad (fst (hw_update_engaged i b s)) = hw_onroad s" "hw_started_ts (fst (hw_update_engaged i b s)) = hw_started_ts s"
  "hw_off_ts (fst (hw_update_engaged i b s)) = hw_off_ts s" "hw_thermal_status (fst (hw_update_engaged i b s)) = hw_thermal_status s"
  "hw_all_temp_filter (fst (hw_update_engaged i b s)) = hw_all_temp_filter s"
  by (auto simp: hw_update_engaged_def Let_def split: option.split)

lemma update_uptime_keeps [simp]:
  "hw_onroad (hw_update_uptime i s) = hw_onroad s" "hw_started_ts (hw_update_uptime i s) = hw_started_ts s"
  "hw_off_ts (hw_update_uptime i s) = hw_off_ts s" "hw_thermal_status (hw_update_uptime i s) = hw_thermal_status s"
  "hw_all_temp_filter (hw_update_uptime i s) = hw_all_temp_filter s"
  by (auto simp: hw_update_uptime_def Let_def split: option.split)

lemma update_power_keeps [simp]:
  "hw_onroad (hw_update_power i s) = hw_onroad s" "hw_started_ts (hw_update_power i s) = hw_started_ts s"
  "hw_off_ts (hw_update_power i s) = hw_off_ts s" "hw_thermal_status (hw_update_power i s) = hw_thermal_status s"
  "hw_all_temp_filter (hw_update_power i s) = hw_all_temp_filter s"
  by (simp_all add: hw_update_power_def)

lemma update_timestamps_simps [simp]:
  "hw_onroad (hw_update_timestamps i sc b s) = hw_onroad s" "hw_thermal_status (hw_update_timestamps i sc b s) = hw_thermal_status s"
  "hw_all_temp_filter (hw_update_timestamps i sc b s) = hw_all_temp_filter s"
  "hw_started_ts (hw_update_timestamps i sc b s) = (if b then (case hw_started_ts s of None \<Rightarrow> Some (hi_now i) | Some t \<Rightarrow> Some t) else None)"
  "hw_off_ts (hw_update_timestamps i sc b s) = (if b then None else (case hw_off_ts s of None \<Rightarrow> Some (hi_now i) | Some t \<Rightarrow> Some t))"
  by (auto simp: hw_update_timestamps_def Let_def split: option.split)

lemma hw_transition_view:
  assumes "hw_transition i sc s = (s', b, engaged, power_save)"
  shows "b = hw_should_start sc s" "hw_onroad s' = hw_onroad s" "hw_thermal_status s' = hw_thermal_status s"
    "hw_all_temp_filter s' = hw_all_temp_filter s" "hw_started_ts s' \<noteq> None \<longleftrightarrow> b" "hw_off_ts s' = None \<longleftrightarrow> b"
  using assms by (auto simp: hw_transition_def Let_def split: option.splits)

lemma update_conditions_keeps [simp]:
  "hw_thermal_status (hw_update_conditions i s) = hw_thermal_status s" "hw_started_ts (hw_update_conditions i s) = hw_started_ts s"
  "hw_all_temp_filter (hw_update_conditions i s) = hw_all_temp_filter s"
  by (simp_all add: hw_update_conditions_def)

text \<open>The full pass, reduced to what decides about going onroad.\<close>

lemma hw_full_pass_view:
  assumes "hw_full_pass i s = Some (s', ds)"
  obtains s1 speed where "hw_update_thermal i s = Some (s1, speed)"
    "hw_onroad s' = hw_onroad (hw_update_conditions i s1)" "hw_thermal_status s' = hw_thermal_status s1"
    "hw_all_temp_filter s' = hw_all_temp_filter s1" "ds_thermalStatus ds = hw_thermal_status s1"
    "hw_started_ts s' \<noteq> None \<longleftrightarrow> hw_should_start (hw_startup_conditions i s1) (hw_update_conditions i s1)"
    "ds_started ds \<longleftrightarrow> hw_started_ts s' \<noteq> None \<and> \<not> hi_OffroadMode i"
    "hw_off_ts s' = None \<longleftrightarrow> hw_started_ts s' \<noteq> None" "ds_DoShutdown ds \<longrightarrow> hw_off_ts s' \<noteq> None"
proof -
  obtain s1 speed where t: "hw_update_thermal i s = Some (s1, speed)" using assms by (auto simp: hw_full_pass_def split: option.splits)
  obtain s3 b en pw where tr: "hw_transition i (hw_startup_conditions i s1) (hw_update_conditions i s1) = (s3, b, en, pw)"
    by (cases "hw_transition i (hw_startup_conditions i s1) (hw_update_conditions i s1)")
  note v = hw_transition_view [OF tr]
  have s': "s' = (hw_update_uptime i (hw_update_power i s3))\<lparr>hw_count := hw_count (hw_update_power i s3) + 1, hw_should_start_prev := b\<rparr>"
    and ds: "\<exists>al. ds = hw_message i al speed en pw (hw_update_power i s3)"
    using assms by (auto simp: hw_full_pass_def t tr Let_def)
  have "ds_thermalStatus ds = hw_thermal_status s3" "ds_started ds \<longleftrightarrow> hw_started_ts s3 \<noteq> None \<and> \<not> hi_OffroadMode i"
    "ds_DoShutdown ds \<longrightarrow> hw_off_ts s3 \<noteq> None"
    using ds by (auto simp: hw_message_def should_shutdown_def split: option.splits)
  then show thesis by (intro that [OF t]) (simp_all add: s' v v(5) [simplified])
qed

lemma hw_full_pass_total: "hw_full_pass i s \<noteq> None"
proof -
  obtain s1 speed where "hw_update_thermal i s = Some (s1, speed)" using hw_update_thermal_total [of i s] by fastforce
  then show ?thesis by (simp add: hw_full_pass_def Let_def case_prod_beta)
qed


subsection \<open>Going onroad\<close>

lemma update_ignition_keeps [simp]:
  "hw_started_ts (hw_update_ignition i s) = hw_started_ts s" "hw_off_ts (hw_update_ignition i s) = hw_off_ts s"
  "hw_thermal_status (hw_update_ignition i s) = hw_thermal_status s" "hw_device_booted (hw_update_ignition i s) = hw_device_booted s"
  "hw_all_temp_filter (hw_update_ignition i s) = hw_all_temp_filter s"
  by (auto simp: hw_update_ignition_def Let_def)

lemma hw_iteration_total: "\<exists>s' out. hw_iteration i s = Some (s', out)"
  using hw_full_pass_total [of i "hw_update_ignition i s"] by (auto simp: hw_iteration_def Let_def)

text \<open>An iteration that publishes went through a full pass.\<close>

lemma hw_iteration_published:
  assumes "hw_iteration i s = Some (s', Some ds)"
  shows "hw_full_pass i (hw_update_ignition i s) = Some (s', ds)"
  using assms by (auto simp: hw_iteration_def Let_def split: if_splits)

text \<open>
  C26. The device is onroad only under all its conditions. An iteration always succeeds. When it
  publishes that the device is started, the ignition is on, no onroad cycle is running, the
  temperature is below critical, the user has not forced it offroad and the hardware is supported;
  when the device was not started before, moreover every startup condition holds (updates, no
  excessive actuation recorded, both terms accepted, training completed, space left, not
  overheated, booted). A request to shut down is only made when the device is not started.
\<close>

theorem started_needs_all_conditions:
  shows "\<exists>s' out. hw_iteration i s = Some (s', out) \<and> (\<forall>ds. out = Some ds \<longrightarrow>
     (ds_started ds \<longrightarrow>
        oc_ignition (hw_onroad (hw_update_ignition i s)) \<and> oc_not_onroad_cycle (hw_onroad (hw_update_ignition i s)) \<and>
        ds_thermalStatus ds \<noteq> TS_critical \<and> \<not> hi_OffroadMode i \<and> \<not> hi_unsupported_combo i \<and>
        (hw_started_ts s = None \<longrightarrow>
           (\<not> hi_ConnectivityNeeded i \<or> hi_DisableUpdates i \<or> hi_SnoozeUpdate i) \<and> \<not> hi_ExcessiveActuation i \<and> \<not> hi_DoUninstall i \<and>
           hi_accepted_terms i \<and> hi_accepted_terms_sp i \<and> hi_completed_training i \<and> \<not> hi_IsDriverViewEnabled i \<and>
           2 < hi_freeSpacePercent i \<and> ds_thermalStatus ds = TS_ok \<and> (hw_device_booted s \<or> hi_booted i))) \<and>
     (ds_DoShutdown ds \<longrightarrow> \<not> ds_started ds))"
proof -
  obtain s' out where it: "hw_iteration i s = Some (s', out)" using hw_iteration_total by blast
  have "(ds_started ds \<longrightarrow>
        oc_ignition (hw_onroad (hw_update_ignition i s)) \<and> oc_not_onroad_cycle (hw_onroad (hw_update_ignition i s)) \<and>
        ds_thermalStatus ds \<noteq> TS_critical \<and> \<not> hi_OffroadMode i \<and> \<not> hi_unsupported_combo i \<and>
        (hw_started_ts s = None \<longrightarrow>
           (\<not> hi_ConnectivityNeeded i \<or> hi_DisableUpdates i \<or> hi_SnoozeUpdate i) \<and> \<not> hi_ExcessiveActuation i \<and> \<not> hi_DoUninstall i \<and>
           hi_accepted_terms i \<and> hi_accepted_terms_sp i \<and> hi_completed_training i \<and> \<not> hi_IsDriverViewEnabled i \<and>
           2 < hi_freeSpacePercent i \<and> ds_thermalStatus ds = TS_ok \<and> (hw_device_booted s \<or> hi_booted i))) \<and>
     (ds_DoShutdown ds \<longrightarrow> \<not> ds_started ds)" if "out = Some ds" for ds
  proof -
    have f: "hw_full_pass i (hw_update_ignition i s) = Some (s', ds)" using hw_iteration_published it that by simp
    show ?thesis
    proof (rule hw_full_pass_view [OF f])
      fix s1 speed
      assume v: "hw_update_thermal i (hw_update_ignition i s) = Some (s1, speed)" "ds_thermalStatus ds = hw_thermal_status s1"
        "hw_started_ts s' \<noteq> None \<longleftrightarrow> hw_should_start (hw_startup_conditions i s1) (hw_update_conditions i s1)"
        "ds_started ds \<longleftrightarrow> hw_started_ts s' \<noteq> None \<and> \<not> hi_OffroadMode i"
        "hw_off_ts s' = None \<longleftrightarrow> hw_started_ts s' \<noteq> None" "ds_DoShutdown ds \<longrightarrow> hw_off_ts s' \<noteq> None"
      note k = hw_update_thermal_keeps [OF v(1)]
      have "ds_DoShutdown ds \<longrightarrow> \<not> ds_started ds" using v(4-6) by auto
      moreover have "ds_started ds \<longrightarrow> onroad_all (hw_onroad (hw_update_conditions i s1)) \<and>
          (hw_started_ts s = None \<longrightarrow> startup_all (hw_startup_conditions i s1))"
        using v(3,4) k(2) by (auto simp: hw_should_start_def)
      then have "ds_started ds \<longrightarrow> oc_ignition (hw_onroad (hw_update_ignition i s)) \<and> oc_not_onroad_cycle (hw_onroad (hw_update_ignition i s)) \<and>
          hw_thermal_status s1 \<noteq> TS_critical \<and> \<not> hi_OffroadMode i \<and> \<not> hi_unsupported_combo i"
        "ds_started ds \<and> hw_started_ts s = None \<longrightarrow> startup_all (hw_startup_conditions i s1)"
        using k(1) by (auto simp: onroad_all_def hw_update_conditions_def)
      ultimately show ?thesis using k(4) unfolding v(2) startup_all_def hw_startup_conditions_def by simp
    qed
  qed
  with it show ?thesis by blast
qed

text \<open>
  A lost panda ends the drive. When a started device has received no panda state for more than
  five seconds, the very next iteration publishes, and publishes that the device is not started.
\<close>

lemma lost_panda_goes_offroad:
  assumes "hw_started_ts s \<noteq> None" "\<not> hi_pandas_updated i \<or> hi_pandas i = []" "hi_now i - hi_pandas_recv_time i > 5"
  shows "\<exists>s' ds. hw_iteration i s = Some (s', Some ds) \<and> \<not> ds_started ds \<and> hw_started_ts s' = None"
proof -
  let ?s = "hw_update_ignition i s"
  have ign: "\<not> oc_ignition (hw_onroad ?s)"
    using assms(2,3) by (auto simp: hw_update_ignition_def Let_def DISCONNECT_TIMEOUT_def)
  then have "\<not> hw_skips i ?s" using assms(1) by (simp add: hw_skips_def Let_def onroad_all_def)
  then obtain s' ds where f: "hw_full_pass i ?s = Some (s', ds)" "hw_iteration i s = Some (s', Some ds)"
    using hw_full_pass_total [of i ?s] by (auto simp: hw_iteration_def Let_def)
  have "hw_started_ts s' = None \<and> \<not> ds_started ds"
  proof (rule hw_full_pass_view [OF f(1)])
    fix s1 speed
    assume v: "hw_update_thermal i ?s = Some (s1, speed)"
      "hw_started_ts s' \<noteq> None \<longleftrightarrow> hw_should_start (hw_startup_conditions i s1) (hw_update_conditions i s1)"
      "ds_started ds \<longleftrightarrow> hw_started_ts s' \<noteq> None \<and> \<not> hi_OffroadMode i"
    have "\<not> oc_ignition (hw_onroad (hw_update_conditions i s1))"
      using ign hw_update_thermal_keeps(1) [OF v(1)] by (simp add: hw_update_conditions_def)
    with v(2,3) show ?thesis by (simp add: hw_should_start_def onroad_all_def)
  qed
  with f(2) show ?thesis by blast
qed


subsection \<open>Cooling down\<close>

definition hw_next :: "hardware \<Rightarrow> hw_in \<Rightarrow> hardware" where
  "hw_next s i = fst (the (hw_iteration i s))"

lemma hw_next_cases:
  obtains (skip) "hw_iteration i s = Some (hw_next s i, None)" "hw_next s i = hw_update_ignition i s"
  | (full) ds where "hw_iteration i s = Some (hw_next s i, Some ds)" "hw_full_pass i (hw_update_ignition i s) = Some (hw_next s i, ds)"
proof (cases "hw_skips i (hw_update_ignition i s)")
  case True
  then show thesis using skip by (simp add: hw_iteration_def hw_next_def Let_def)
next
  case False
  obtain s' ds where "hw_full_pass i (hw_update_ignition i s) = Some (s', ds)" using hw_full_pass_total [of i "hw_update_ignition i s"] by fastforce
  with False show thesis using full by (simp add: hw_iteration_def hw_next_def Let_def)
qed

text \<open>Temperature below which the overheated band is left for the normal one.\<close>

definition cool_temp :: "bool \<Rightarrow> real" where "cool_temp mici = (if mici then 92 else 88)"

lemma hot_step:
  assumes "hw_started_ts s = None" "hw_thermal_status s \<noteq> TS_ok"
  shows "hw_started_ts (hw_next s i) = None \<and> hw_thermal_status (hw_next s i) \<noteq> TS_ok \<or>
    fo_x (hw_all_temp_filter (hw_next s i)) < cool_temp (hi_mici i)"
proof (cases i s rule: hw_next_cases)
  case skip
  then show ?thesis using assms by simp
next
  case (full ds)
  from full(2) show ?thesis
  proof (rule hw_full_pass_view)
    fix s1 speed
    assume v: "hw_update_thermal i (hw_update_ignition i s) = Some (s1, speed)" "hw_thermal_status (hw_next s i) = hw_thermal_status s1"
      "hw_all_temp_filter (hw_next s i) = hw_all_temp_filter s1"
      "hw_started_ts (hw_next s i) \<noteq> None \<longleftrightarrow> hw_should_start (hw_startup_conditions i s1) (hw_update_conditions i s1)"
    note k = hw_update_thermal_keeps [OF v(1)]
    have hot: "hw_thermal_status s1 \<noteq> TS_ok \<or> fo_x (hw_all_temp_filter s1) < cool_temp (hi_mici i)"
      using k(5) assms(2) by (cases "hw_thermal_status s") (auto simp: next_band_simps cool_temp_def split: if_splits)
    have "hw_started_ts (hw_next s i) = None" if "hw_thermal_status s1 \<noteq> TS_ok"
      using that v(4) k(2) assms(1) by (auto simp: hw_should_start_def startup_all_def hw_startup_conditions_def)
    with hot v(2,3) show ?thesis by auto
  qed
qed

text \<open>
  An overheated device cools down before it drives again. Take any state in which the device is
  offroad and its thermal status is above normal. If some later iteration of any run publishes that
  the device is started, then at that iteration or before the filtered temperature was below the
  lower end of the overheated band: 88 degrees, or 92 on the smaller device.
\<close>

theorem overheated_device_cools_first:
  assumes "hw_started_ts s = None" "hw_thermal_status s \<noteq> TS_ok"
    and "hw_iteration j (frames hw_next s ins) = Some (s', Some ds)" "ds_started ds"
  shows "\<exists>ks k rest. ins @ [j] = ks @ k # rest \<and> fo_x (hw_all_temp_filter (frames hw_next s (ks @ [k]))) < cool_temp (hi_mici k)"
proof -
  have run: "hw_started_ts (frames hw_next s xs) = None \<and> hw_thermal_status (frames hw_next s xs) \<noteq> TS_ok \<or>
    (\<exists>ks k rest. xs = ks @ k # rest \<and> fo_x (hw_all_temp_filter (frames hw_next s (ks @ [k]))) < cool_temp (hi_mici k))" for xs
  proof (induction xs rule: rev_induct)
    case (snoc i xs)
    then show ?case
    proof
      assume "hw_started_ts (frames hw_next s xs) = None \<and> hw_thermal_status (frames hw_next s xs) \<noteq> TS_ok"
      with hot_step [of "frames hw_next s xs" i] show ?thesis by (auto intro: exI [of _ xs])
    next
      assume "\<exists>ks k rest. xs = ks @ k # rest \<and> fo_x (hw_all_temp_filter (frames hw_next s (ks @ [k]))) < cool_temp (hi_mici k)"
      then show ?thesis by (metis append.assoc append_Cons)
    qed
  qed (use assms in simp)
  have "hw_started_ts (frames hw_next s (ins @ [j])) \<noteq> None"
  proof (rule hw_full_pass_view [OF hw_iteration_published [OF assms(3)]])
    assume "ds_started ds \<longleftrightarrow> hw_started_ts s' \<noteq> None \<and> \<not> hi_OffroadMode j"
    with assms(3,4) show ?thesis by (simp add: hw_next_def)
  qed
  with run [of "ins @ [j]"] show ?thesis by auto
qed


subsection \<open>Examples\<close>

definition example_hw_in :: hw_in where
  "example_hw_in =
     \<lparr>hi_mici = False, hi_now = 100, hi_frame = 10, hi_pandas_updated = True,
      hi_pandas = [\<lparr>pi_known = True, pi_ignitionLine = True, pi_ignitionCan = False, pi_harness_connected = True\<rparr>],
      hi_pandas_recv_time = 100, hi_OnroadCycleRequested = False, hi_memoryTempC = 50, hi_cpuTempC = [60, 55], hi_gpuTempC = [52], hi_pmicTempC = [40],
      hi_freeSpacePercent = 50, hi_screenBrightnessPercent = 30, hi_ConnectivityNeeded = False, hi_DisableUpdates = False, hi_SnoozeUpdate = False,
      hi_ExcessiveActuation = False, hi_DoUninstall = False, hi_accepted_terms = True, hi_accepted_terms_sp = True, hi_completed_training = True,
      hi_IsDriverViewEnabled = False, hi_OffroadMode = False, hi_booted = True, hi_unsupported_combo = False, hi_selfdrive_enabled = None,
      hi_voltage = Some 12500, hi_current_power = 5,
      hi_shutdown_params = \<lparr>sp_MaxTimeOffroad = None, sp_DisablePowerDown = False, sp_ForcePowerDown = False\<rparr>\<rparr>"

definition example_hot :: hardware where
  "example_hot = (hw_init None 0 0 0)\<lparr>hw_thermal_status := TS_overheated\<rparr>"

lemma example_thermal:
  assumes "hw_thermal_status s \<noteq> TS_critical" "hw_all_temp_filter s = FirstOrderFilter 0 TEMP_TAU DT_HW False"
    "hw_offroad_temp_filter s = FirstOrderFilter 0 TEMP_TAU DT_HW False"
  shows "\<exists>s1 speed. hw_update_thermal example_hw_in s = Some (s1, speed) \<and> hw_thermal_status s1 = TS_ok"
  using assms
  by (cases "hw_thermal_status s")
     (simp_all add: hw_update_thermal_def hw_update_temps_def hw_next_status_def next_band_simps example_hw_in_def Let_def fo_update_def
      FirstOrderFilter_def fo_update_alpha_def max_temp_of_def OFFROAD_DANGER_TEMP_def case_prod_beta)

lemma example_starts:
  assumes "hw_thermal_status s \<noteq> TS_critical" "hw_all_temp_filter s = FirstOrderFilter 0 TEMP_TAU DT_HW False"
    "hw_offroad_temp_filter s = FirstOrderFilter 0 TEMP_TAU DT_HW False" "hw_started_ts s = None" "hw_offroad_cycle_count s = 0"
  shows "\<exists>s' ds. hw_iteration example_hw_in s = Some (s', Some ds) \<and> ds_started ds"
proof -
  let ?i = example_hw_in and ?s = "hw_update_ignition example_hw_in s"
  have on: "oc_ignition (hw_onroad ?s)" "oc_not_onroad_cycle (hw_onroad ?s)"
    "hw_all_temp_filter ?s = hw_all_temp_filter s" "hw_offroad_temp_filter ?s = hw_offroad_temp_filter s"
    using assms(5) by (simp_all add: hw_update_ignition_def Let_def example_hw_in_def ONROAD_CYCLE_TIME_def PANDA_STATES_FREQ_def)
  have "\<not> hw_skips ?i ?s" by (simp add: hw_skips_def example_hw_in_def PANDA_STATES_FREQ_def DT_HW_def py_round_def Let_def)
  then obtain s' ds where f: "hw_full_pass ?i ?s = Some (s', ds)" "hw_iteration ?i s = Some (s', Some ds)"
    using hw_full_pass_total [of ?i ?s] by (auto simp: hw_iteration_def Let_def)
  obtain s1 speed where t: "hw_update_thermal ?i ?s = Some (s1, speed)" "hw_thermal_status s1 = TS_ok"
    using example_thermal [of ?s] assms(1-3) on(3,4) by auto
  have "ds_started ds"
  proof (rule hw_full_pass_view [OF f(1)])
    fix s2 speed'
    assume v: "hw_update_thermal ?i ?s = Some (s2, speed')"
      "hw_started_ts s' \<noteq> None \<longleftrightarrow> hw_should_start (hw_startup_conditions ?i s2) (hw_update_conditions ?i s2)"
      "ds_started ds \<longleftrightarrow> hw_started_ts s' \<noteq> None \<and> \<not> hi_OffroadMode ?i"
    with t have s2: "s2 = s1" by simp
    note k = hw_update_thermal_keeps [OF t(1)]
    have "onroad_all (hw_onroad (hw_update_conditions ?i s1))"
      using on(1,2) t(2) k(1) by (simp add: onroad_all_def hw_update_conditions_def example_hw_in_def)
    moreover have "startup_all (hw_startup_conditions ?i s1)"
      using t(2) by (simp add: startup_all_def hw_startup_conditions_def example_hw_in_def)
    ultimately have "hw_should_start (hw_startup_conditions ?i s1) (hw_update_conditions ?i s1)" by (simp add: hw_should_start_def)
    with v(2,3) s2 show ?thesis by (simp add: example_hw_in_def)
  qed
  with f(2) show ?thesis by blast
qed

theorem started_needs_all_conditions_witness:
  "\<exists>s' ds. hw_iteration example_hw_in (hw_init None 0 0 0) = Some (s', Some ds) \<and> ds_started ds \<and> ds_thermalStatus ds = TS_ok"
proof -
  obtain s' ds where "hw_iteration example_hw_in (hw_init None 0 0 0) = Some (s', Some ds)" "ds_started ds"
    using example_starts [of "hw_init None 0 0 0"] by (auto simp: hw_init_def)
  with started_needs_all_conditions [of example_hw_in "hw_init None 0 0 0"] show ?thesis by (auto simp: hw_init_def)
qed

theorem overheated_device_cools_first_witness:
  "hw_thermal_status example_hot = TS_overheated \<and> fo_x (hw_all_temp_filter (frames hw_next example_hot [example_hw_in])) < 88"
proof -
  have "\<exists>s' ds. hw_iteration example_hw_in example_hot = Some (s', Some ds) \<and> ds_started ds"
    by (rule example_starts) (simp_all add: example_hot_def hw_init_def)
  then obtain s' ds where "hw_iteration example_hw_in (frames hw_next example_hot []) = Some (s', Some ds)" "ds_started ds" by auto
  from overheated_device_cools_first [OF _ _ this] show ?thesis
    by (auto simp: example_hot_def hw_init_def cool_temp_def example_hw_in_def append_eq_Cons_conv Cons_eq_append_conv)
qed

subsection \<open>From the hardware daemon to the process manager\<close>

text \<open>
  C27. The drive ends with its conditions. When an iteration of the hardware daemon publishes its
  state while the ignition is off, the user has forced the device offroad, or the temperature is
  critical, and the manager reads that message in two frames, then no process that runs onroad
  only is alive any more: no controller, planner or model, however it reacted to the signals.
\<close>

theorem drive_ends_with_its_conditions:
  assumes "hw_iteration i s = Some (s', Some ds)"
    and "\<not> oc_ignition (hw_onroad (hw_update_ignition i s)) \<or> hi_OffroadMode i \<or> ds_thermalStatus ds = TS_critical"
    and "mi_started (snd x) = ds_started ds" "mi_started (snd y) = ds_started ds"
    and "c \<in> set (procs mc)" "pc_kind c \<noteq> Daemon_Process" "\<forall>e. \<not> re_started e \<longrightarrow> \<not> pc_should_run c e"
  shows "\<not> (os_live (mg_os (mg_run flags mc ignore i0 ps (ins @ [x, y]))) q \<and>
    os_name (mg_os (mg_run flags mc ignore i0 ps (ins @ [x, y]))) q = pc_name c)"
proof -
  have "\<not> ds_started ds"
  proof (rule hw_full_pass_view [OF hw_iteration_published [OF assms(1)]])
    fix s1 speed
    assume v: "hw_update_thermal i (hw_update_ignition i s) = Some (s1, speed)" "ds_thermalStatus ds = hw_thermal_status s1"
      "hw_started_ts s' \<noteq> None \<longleftrightarrow> hw_should_start (hw_startup_conditions i s1) (hw_update_conditions i s1)"
      "ds_started ds \<longleftrightarrow> hw_started_ts s' \<noteq> None \<and> \<not> hi_OffroadMode i"
    have "\<not> onroad_all (hw_onroad (hw_update_conditions i s1))"
      using assms(2) v(2) hw_update_thermal_keeps(1) [OF v(1)] by (auto simp: onroad_all_def hw_update_conditions_def)
    with v(3,4) show ?thesis by (simp add: hw_should_start_def)
  qed
  with offroad_ends_driving [OF assms(5,6,7)] assms(3,4) show ?thesis by simp
qed


theorem drive_ends_with_its_conditions_witness:
  "\<not> (\<exists>q. os_live (mg_os (mg_run (\<lambda>_ _. False) example_device [] example_parked example_params
        ([([], example_parked\<lparr>mi_started := True\<rparr>)] @ [([], example_parked), ([], example_parked)]))) q \<and>
      os_name (mg_os (mg_run (\<lambda>_ _. False) example_device [] example_parked example_params
        ([([], example_parked\<lparr>mi_started := True\<rparr>)] @ [([], example_parked), ([], example_parked)]))) q = ''selfdrived'')"
proof -
  let ?i = "example_hw_in\<lparr>hi_OffroadMode := True\<rparr>" and ?s = "hw_init None 0 0 0"
  let ?c = "PythonProcess ''selfdrived'' only_onroad re_params True False"
  let ?g = "mg_run (\<lambda>_ _. False) example_device [] example_parked example_params
        ([([], example_parked\<lparr>mi_started := True\<rparr>)] @ [([], example_parked), ([], example_parked)])"
  have "\<not> hw_skips ?i (hw_update_ignition ?i ?s)"
    by (simp add: hw_skips_def example_hw_in_def PANDA_STATES_FREQ_def DT_HW_def py_round_def Let_def)
  then obtain s' ds where it: "hw_iteration ?i ?s = Some (s', Some ds)"
    using hw_full_pass_total [of ?i "hw_update_ignition ?i ?s"] by (auto simp: hw_iteration_def Let_def)
  have "\<not> ds_started ds" by (rule hw_full_pass_view [OF hw_iteration_published [OF it]]) simp
  then have "\<not> (os_live (mg_os ?g) q \<and> os_name (mg_os ?g) q = pc_name ?c)" for q
    by (intro drive_ends_with_its_conditions [OF it _ _ _ selfdrived_in_table]) (simp_all add: PythonProcess_def only_onroad_def example_parked_def)
  moreover have "pc_name ?c = ''selfdrived''" by (simp add: PythonProcess_def)
  ultimately show ?thesis by metis
qed

end
