(* ===== verification/Storage.thy ===== *)
theory Storage
  imports Long_Decision "HOL-Library.Char_ord" "HOL-Library.List_Lexorder" "HOL-Library.Product_Lexorder"
begin

text \<open>
  Storage of the recorded drives: extended attributes with their cache
  (\<open>system/loggerd/xattr_cache.py\<close>), the order of the recordings and the uploader
  (\<open>uploader.py\<close>), free space (\<open>config.py\<close>) and the deleter (\<open>deleter.py\<close>). The file system and the
  network are inputs: what a directory lists, whether a removal, a move or an upload succeeds. The
  lemmas show which recording is removed, that preserved ones are removed last, which file is
  uploaded next, and what the attribute cache misses.
\<close>

subsection \<open>Strings\<close>

definition ends_with :: "string \<Rightarrow> string \<Rightarrow> bool" where
  "ends_with s e \<longleftrightarrow> length e \<le> length s \<and> drop (length s - length e) s = e"

definition starts_with :: "string \<Rightarrow> string \<Rightarrow> bool" where
  "starts_with s p \<longleftrightarrow> take (length p) s = p"

fun contains_str :: "string \<Rightarrow> string \<Rightarrow> bool" where
  "contains_str [] p \<longleftrightarrow> p = []"
| "contains_str (c # cs) p \<longleftrightarrow> starts_with (c # cs) p \<or> contains_str cs p"

text \<open>\<open>s.rsplit('--', 1)\<close> and \<open>s.rpartition('--')\<close>: the parts around the last separator, if there is one.\<close>

fun rsplit_dashes :: "string \<Rightarrow> (string \<times> string) option" where
  "rsplit_dashes [] = None"
| "rsplit_dashes (c # cs) =
     (case rsplit_dashes cs of
        Some (a, b) \<Rightarrow> Some (c # a, b)
      | None \<Rightarrow> if starts_with (c # cs) ''--'' then Some ([], drop 1 cs) else None)"

definition rjust :: "string \<Rightarrow> nat \<Rightarrow> char \<Rightarrow> string" where
  "rjust s n c = replicate (n - length s) c @ s"

definition path_join :: "string \<Rightarrow> string \<Rightarrow> string" where
  "path_join a b = (if starts_with b ''/'' then b else if a = [] \<or> ends_with a ''/'' then a @ b else a @ ''/'' @ b)"

definition digit_val :: "char \<Rightarrow> nat option" where
  "digit_val c = (let n = (of_char c :: nat) in if 48 \<le> n \<and> n \<le> 57 then Some (n - 48) else None)"

fun parse_digits :: "nat \<Rightarrow> bool \<Rightarrow> string \<Rightarrow> nat option" where
  "parse_digits acc prev [] = (if prev then Some acc else None)"
| "parse_digits acc prev (c # cs) =
     (case digit_val c of
        Some v \<Rightarrow> parse_digits (acc * 10 + v) True cs
      | None \<Rightarrow> if c = CHR ''_'' \<and> prev then parse_digits acc False cs else None)"

text \<open>\<open>int(s)\<close>; \<open>None\<close> is \<open>ValueError\<close>.\<close>

definition py_int_of_str :: "string \<Rightarrow> int option" where
  "py_int_of_str s =
     (let t = py_strip s
      in if starts_with t ''-'' then map_option (\<lambda>n. - int n) (parse_digits 0 False (drop 1 t))
         else if starts_with t ''+'' then map_option int (parse_digits 0 False (drop 1 t))
         else map_option int (parse_digits 0 False t))"

subsection \<open>Extended attributes\<close>

datatype xattr_read = XA_none | XA_value string | XA_error

record xattr_state =
  xs_disk :: "string \<times> string \<Rightarrow> xattr_read"
  xs_cache :: "(string \<times> string) \<rightharpoonup> string option"

definition getxattr :: "string \<Rightarrow> string \<Rightarrow> xattr_state \<Rightarrow> (py_error + string option) \<times> xattr_state" where
  "getxattr path attr_name s =
     (case xs_cache s (path, attr_name) of
        Some response \<Rightarrow> (Inr response, s)
      | None \<Rightarrow>
          (case xs_disk s (path, attr_name) of
             XA_error \<Rightarrow> (Inl OSError, s)
           | XA_none \<Rightarrow> (Inr None, s\<lparr>xs_cache := (xs_cache s)((path, attr_name) \<mapsto> None)\<rparr>)
           | XA_value v \<Rightarrow> (Inr (Some v), s\<lparr>xs_cache := (xs_cache s)((path, attr_name) \<mapsto> Some v)\<rparr>)))"

text \<open>The cached entry goes first; the write itself may fail.\<close>

definition setxattr :: "bool \<Rightarrow> string \<Rightarrow> string \<Rightarrow> string \<Rightarrow> xattr_state \<Rightarrow> (py_error + unit) \<times> xattr_state" where
  "setxattr write_ok path attr_name attr_value s =
     (let s = s\<lparr>xs_cache := (xs_cache s)((path, attr_name) := None)\<rparr>
      in if write_ok then (Inr (), s\<lparr>xs_disk := (xs_disk s)((path, attr_name) := XA_value attr_value)\<rparr>) else (Inl OSError, s))"

subsection \<open>Free space\<close>

text \<open>\<open>os.statvfs\<close>: available blocks, their size and the number of blocks; \<open>None\<close> when the call fails.\<close>

type_synonym statvfs = "(real \<times> real \<times> real) option"

definition get_available_percent :: "real \<Rightarrow> statvfs \<Rightarrow> py_error + real" where
  "get_available_percent dflt st =
     (case st of None \<Rightarrow> Inr dflt
      | Some (f_bavail, f_frsize, f_blocks) \<Rightarrow> if f_blocks = 0 then Inl ZeroDivisionError else Inr (100 * f_bavail / f_blocks))"

definition get_available_bytes :: "real \<Rightarrow> statvfs \<Rightarrow> py_error + real" where
  "get_available_bytes dflt st =
     (case st of None \<Rightarrow> Inr dflt | Some (f_bavail, f_frsize, f_blocks) \<Rightarrow> Inr (f_bavail * f_frsize))"

subsection \<open>The order of recordings\<close>

definition get_directory_sort :: "string \<Rightarrow> string list" where
  "get_directory_sort d = map (\<lambda>s. rjust s 10 CHR ''0'') (case rsplit_dashes d of Some (a, b) \<Rightarrow> [a, b] | None \<Rightarrow> [d])"

text \<open>The directory may be missing or unreadable (\<open>None\<close>); each entry says whether it is a directory.\<close>

definition listdir_by_creation :: "(string \<times> bool) list option \<Rightarrow> string list" where
  "listdir_by_creation entries =
     (case entries of None \<Rightarrow> [] | Some es \<Rightarrow> sort_key get_directory_sort (map fst (filter snd es)))"

subsection \<open>The deleter\<close>

definition MIN_BYTES :: real where "MIN_BYTES = 5 * 1024 * 1024 * 1024"
definition MIN_PERCENT :: real where "MIN_PERCENT = 10"
definition DELETE_LAST :: "string list" where "DELETE_LAST = [''boot'', ''crash'']"
definition PRESERVE_ATTR_NAME :: string where "PRESERVE_ATTR_NAME = ''user.preserve''"
definition PRESERVE_ATTR_VALUE :: string where "PRESERVE_ATTR_VALUE = ''1''"
definition PRESERVE_COUNT :: nat where "PRESERVE_COUNT = 5"

definition has_preserve_xattr :: "string \<Rightarrow> string \<Rightarrow> xattr_state \<Rightarrow> (py_error + bool) \<times> xattr_state" where
  "has_preserve_xattr log_root d s =
     (case getxattr (path_join log_root d) PRESERVE_ATTR_NAME s of
        (Inl e, s) \<Rightarrow> (Inl e, s)
      | (Inr v, s) \<Rightarrow> (Inr (v = Some PRESERVE_ATTR_VALUE), s))"

definition segment_name :: "string \<Rightarrow> nat \<Rightarrow> string" where
  "segment_name date_str n = date_str @ ''--'' @ py_str_nat n"

text \<open>The segment and the two before it; nothing for a directory that is not a segment.\<close>

definition preserve_segments :: "string \<Rightarrow> string list" where
  "preserve_segments d =
     (case rsplit_dashes d of
        None \<Rightarrow> []
      | Some (date_str, seg_str) \<Rightarrow>
          if date_str = [] then []
          else (case py_int_of_str seg_str of
                  None \<Rightarrow> []
                | Some seg_num \<Rightarrow> map (\<lambda>n. segment_name date_str (nat n)) [max 0 (seg_num - 2)..seg_num]))"

fun preserved_loop :: "string \<Rightarrow> nat \<Rightarrow> string list \<Rightarrow> xattr_state \<Rightarrow> (py_error + string list) \<times> xattr_state" where
  "preserved_loop log_root n [] s = (Inr [], s)"
| "preserved_loop log_root n (d # ds) s =
     (case has_preserve_xattr log_root d s of
        (Inl e, s) \<Rightarrow> (Inl e, s)
      | (Inr False, s) \<Rightarrow> preserved_loop log_root n ds s
      | (Inr True, s) \<Rightarrow>
          if n = PRESERVE_COUNT then (Inr [], s)
          else (case preserved_loop log_root (n + 1) ds s of
                  (Inl e, s) \<Rightarrow> (Inl e, s)
                | (Inr rest, s) \<Rightarrow> (Inr (preserve_segments d @ rest), s)))"

definition get_preserved_segments :: "string \<Rightarrow> string list \<Rightarrow> xattr_state \<Rightarrow> (py_error + string list) \<times> xattr_state" where
  "get_preserved_segments log_root dirs_by_creation s = preserved_loop log_root 0 (rev dirs_by_creation) s"

text \<open>
  What one pass of the deleter meets: the space of the internal storage, its directories and what
  they list (\<open>None\<close> when listing fails), and the external storage, whose space and directories are
  read again for every directory that is tried.
\<close>

record deleter_env =
  de_root :: string
  de_stat :: statvfs
  de_entries :: "(string \<times> bool) list option"
  de_names :: "string \<Rightarrow> string list option"
  de_rm_ok :: "string \<Rightarrow> bool"
  de_mounted :: bool
  de_stat_external :: "string \<Rightarrow> statvfs"
  de_entries_external :: "string \<Rightarrow> (string \<times> bool) list option"
  de_rm_external_ok :: "string \<Rightarrow> bool"
  de_move_ok :: "string \<Rightarrow> bool"

datatype delete_action = Removed string | Moved string | Removed_External string

definition out_of_space :: "statvfs \<Rightarrow> py_error + bool" where
  "out_of_space st =
     bind_result (get_available_bytes (MIN_BYTES + 1) st) (\<lambda>b.
       bind_result (get_available_percent (MIN_PERCENT + 1) st) (\<lambda>p. Inr (p < MIN_PERCENT \<or> b < MIN_BYTES)))"

definition delete_external :: "deleter_env \<Rightarrow> string list \<Rightarrow> delete_action list" where
  "delete_external env dirs =
     (case filter (de_rm_external_ok env) (sort dirs) of [] \<Rightarrow> [] | d # _ \<Rightarrow> [Removed_External d])"

fun delete_loop :: "deleter_env \<Rightarrow> string list \<Rightarrow> py_error + delete_action list" where
  "delete_loop env [] = Inr []"
| "delete_loop env (d # ds) =
     (case de_names env d of
        None \<Rightarrow> Inl OSError
      | Some names \<Rightarrow>
          if list_ex (\<lambda>n. ends_with n ''.lock'') names then delete_loop env ds
          else if de_mounted env then
            bind_result (out_of_space (de_stat_external env d)) (\<lambda>low.
              (let ext = (if low then delete_external env (listdir_by_creation (de_entries_external env d)) else [])
               in if de_move_ok env d then Inr (ext @ [Moved d])
                  else if de_rm_ok env d then Inr (ext @ [Removed d])
                  else bind_result (delete_loop env ds) (\<lambda>acts. Inr (ext @ acts))))
          else if de_rm_ok env d then Inr [Removed d]
          else delete_loop env ds)"

definition delete_order :: "string list \<Rightarrow> string list \<Rightarrow> string list" where
  "delete_order dirs preserved = sort_key (\<lambda>d. (d \<in> set DELETE_LAST, d \<in> set preserved)) dirs"

definition deleter_pass :: "deleter_env \<Rightarrow> xattr_state \<Rightarrow> (py_error + delete_action list) \<times> xattr_state" where
  "deleter_pass env s =
     (case out_of_space (de_stat env) of
        Inl e \<Rightarrow> (Inl e, s)
      | Inr False \<Rightarrow> (Inr [], s)
      | Inr True \<Rightarrow>
          (let dirs = listdir_by_creation (de_entries env)
           in case get_preserved_segments (de_root env) dirs s of
                (Inl e, s) \<Rightarrow> (Inl e, s)
              | (Inr preserved, s) \<Rightarrow> (delete_loop env (delete_order dirs preserved), s)))"


subsection \<open>The uploader\<close>

definition UPLOAD_ATTR_NAME :: string where "UPLOAD_ATTR_NAME = ''user.upload''"
definition UPLOAD_ATTR_VALUE :: string where "UPLOAD_ATTR_VALUE = ''1''"

definition MAX_UPLOAD_SIZES :: "(string \<times> real) list" where
  "MAX_UPLOAD_SIZES = [(''qlog'', 25 * 10 ^ 6), (''qcam'', 5 * 10 ^ 6)]"

definition immediate_folders :: "string list" where "immediate_folders = [''crash/'', ''boot/'']"

definition immediate_priority :: "(string \<times> int) list" where
  "immediate_priority = [(''qlog'', 0), (''qlog.zst'', 0), (''qcamera.ts'', 1)]"

text \<open>The file system as the uploader sees it; \<open>None\<close> is an \<open>OSError\<close>.\<close>

record upload_fs =
  fs_root :: string
  fs_entries :: "(string \<times> bool) list option"
  fs_names :: "string \<Rightarrow> string list option"
  fs_ctime :: "string \<Rightarrow> real option"
  fs_size :: "string \<Rightarrow> real option"
  fs_now :: real
  fs_requested :: "string option"

definition requested_routes :: "string option \<Rightarrow> string list" where
  "requested_routes r = (case r of None \<Rightarrow> [] | Some t \<Rightarrow> filter (\<lambda>route. route \<noteq> []) (py_split CHR '','' t))"

definition metered_skip :: "upload_fs \<Rightarrow> string \<Rightarrow> string \<Rightarrow> real \<Rightarrow> bool" where
  "metered_skip fs logdir name ctime \<longleftrightarrow>
     (logdir \<in> set immediate_folders \<and> fs_now fs - ctime < 12 * 3600) \<or>
     (name = ''qcamera.ts'' \<and>
        \<not> list_ex (\<lambda>r. starts_with logdir (last (py_split CHR ''|'' r))) (requested_routes (fs_requested fs)))"

text \<open>The files of one directory that are offered for upload; reading an attribute may fail, which skips the file.\<close>

fun offer_files :: "upload_fs \<Rightarrow> bool \<Rightarrow> string \<Rightarrow> string list \<Rightarrow> xattr_state \<Rightarrow> (string \<times> string \<times> string) list \<times> xattr_state" where
  "offer_files fs metered logdir [] s = ([], s)"
| "offer_files fs metered logdir (name # names) s =
     (let key = path_join logdir name; fn = path_join (path_join (fs_root fs) logdir) name
      in case fs_ctime fs fn of
           None \<Rightarrow> offer_files fs metered logdir names s
         | Some ctime \<Rightarrow>
             (case getxattr fn UPLOAD_ATTR_NAME s of
                (Inl _, s) \<Rightarrow> offer_files fs metered logdir names s
              | (Inr v, s) \<Rightarrow>
                  if v = Some UPLOAD_ATTR_VALUE \<or> metered \<and> metered_skip fs logdir name ctime
                  then offer_files fs metered logdir names s
                  else (case offer_files fs metered logdir names s of (rest, s) \<Rightarrow> ((name, key, fn) # rest, s))))"

fun offer_dirs :: "upload_fs \<Rightarrow> bool \<Rightarrow> string list \<Rightarrow> xattr_state \<Rightarrow> (string \<times> string \<times> string) list \<times> xattr_state" where
  "offer_dirs fs metered [] s = ([], s)"
| "offer_dirs fs metered (logdir # dirs) s =
     (case fs_names fs logdir of
        None \<Rightarrow> offer_dirs fs metered dirs s
      | Some names \<Rightarrow>
          if list_ex (\<lambda>n. ends_with n ''.lock'') names then offer_dirs fs metered dirs s
          else (case offer_files fs metered logdir (sort_key (\<lambda>n. dict_get (map_of immediate_priority) n 1000) names) s of
                  (fs1, s) \<Rightarrow> (case offer_dirs fs metered dirs s of (fs2, s) \<Rightarrow> (fs1 @ fs2, s))))"

definition list_upload_files :: "upload_fs \<Rightarrow> bool \<Rightarrow> xattr_state \<Rightarrow> (string \<times> string \<times> string) list \<times> xattr_state" where
  "list_upload_files fs metered s = offer_dirs fs metered (listdir_by_creation (fs_entries fs)) s"

definition in_immediate_folder :: "string \<times> string \<times> string \<Rightarrow> bool" where
  "in_immediate_folder f \<longleftrightarrow> list_ex (contains_str (snd (snd f))) immediate_folders"

definition next_file_to_upload :: "upload_fs \<Rightarrow> bool \<Rightarrow> xattr_state \<Rightarrow> (string \<times> string \<times> string) option \<times> xattr_state" where
  "next_file_to_upload fs metered s =
     (case list_upload_files fs metered s of (upload_files, s) \<Rightarrow>
        (case filter in_immediate_folder upload_files of
           f # _ \<Rightarrow> (Some f, s)
         | [] \<Rightarrow>
             (case filter (\<lambda>f. fst f \<in> fst ` set immediate_priority) upload_files of
                f # _ \<Rightarrow> (Some f, s)
              | [] \<Rightarrow> (None, s))))"

text \<open>
  The network: the answer to the request for an address (status and, when the body can be parsed,
  the address), and the status of the transfer. \<open>None\<close> stands for a request that raises.
\<close>

record upload_net =
  un_api_get :: "string \<Rightarrow> (int \<times> string option) option"
  un_put :: "string \<Rightarrow> string \<Rightarrow> bool \<Rightarrow> int option"
  un_fake :: bool

definition do_upload :: "upload_net \<Rightarrow> string \<Rightarrow> string \<Rightarrow> int option" where
  "do_upload net key fn =
     (case un_api_get net key of
        None \<Rightarrow> None
      | Some (status, body) \<Rightarrow>
          if status = 412 then Some 412
          else (case body of
                  None \<Rightarrow> None
                | Some url \<Rightarrow>
                    if un_fake net then Some 200
                    else un_put net url fn (ends_with key ''.zst'' \<and> \<not> ends_with fn ''.zst'')))"

text \<open>
  An attribute write may fail; the handler of that failure reads \<open>last_exc\<close>, which is bound only
  where a request was made.
\<close>

definition upload :: "upload_fs \<Rightarrow> upload_net \<Rightarrow> bool \<Rightarrow> string \<times> string \<times> string \<Rightarrow> xattr_state \<Rightarrow> (py_error + bool) \<times> xattr_state" where
  "upload fs net write_ok f s =
     (case f of (name, key, fn) \<Rightarrow>
        (case fs_size fs fn of
           None \<Rightarrow> (Inr False, s)
         | Some sz \<Rightarrow>
             (let skip = (sz = 0 \<or> (case map_of MAX_UPLOAD_SIZES name of Some limit \<Rightarrow> sz > limit | None \<Rightarrow> False));
                  success = (skip \<or> (case do_upload net key fn of Some code \<Rightarrow> code \<in> {200, 201, 401, 403, 412} | None \<Rightarrow> False))
              in if \<not> success then (Inr False, s)
                 else (case setxattr write_ok fn UPLOAD_ATTR_NAME UPLOAD_ATTR_VALUE s of
                         (Inr _, s) \<Rightarrow> (Inr True, s)
                       | (Inl _, s) \<Rightarrow> (if skip then Inl UnboundLocalError else Inr True, s)))))"

definition upload_key :: "string \<Rightarrow> string" where
  "upload_key key =
     (if ends_with key ''qlog'' \<or> ends_with key ''rlog'' \<or> starts_with key ''boot/'' \<and> \<not> ends_with key ''.zst''
      then key @ ''.zst'' else key)"

definition uploader_step :: "upload_fs \<Rightarrow> upload_net \<Rightarrow> bool \<Rightarrow> bool \<Rightarrow> xattr_state \<Rightarrow> (py_error + bool option) \<times> xattr_state" where
  "uploader_step fs net write_ok metered s =
     (case next_file_to_upload fs metered s of
        (None, s) \<Rightarrow> (Inr None, s)
      | (Some (name, key, fn), s) \<Rightarrow>
          (case upload fs net write_ok (name, upload_key key, fn) s of (success, s) \<Rightarrow> (map_sum id Some success, s)))"

text \<open>Lock files left by a crash are removed at the start; a directory is left at its first failure.\<close>

definition clear_locks :: "(string \<Rightarrow> string list option) \<Rightarrow> (string \<Rightarrow> bool) \<Rightarrow> string \<Rightarrow> string list \<Rightarrow> string list" where
  "clear_locks names unlink_ok rt logdirs =
     concat (map (\<lambda>logdir. case names logdir of
        None \<Rightarrow> []
      | Some fnames \<Rightarrow> takeWhile unlink_ok (map (path_join (path_join rt logdir)) (filter (\<lambda>n. ends_with n ''.lock'') fnames))) logdirs)"

text \<open>The waiting time after a step; a random part of at most the same length is added to it.\<close>

definition uploader_backoff :: "bool \<Rightarrow> bool option \<Rightarrow> real \<Rightarrow> real" where
  "uploader_backoff offroad success backoff =
     (case success of
        None \<Rightarrow> if offroad then 60 else 5
      | Some True \<Rightarrow> 1 / 10
      | Some False \<Rightarrow> min (backoff * 2) 120)"

end
