(* ===== verification/Storage_Facts.thy ===== *)
theory Storage_Facts
  imports Storage
begin

text \<open>
  What the storage processes guarantee: the order of the segments of a drive, the segments that
  are kept, which directory the deleter removes, that the attribute cache misses changes of other
  processes, and that the uploader finishes.
\<close>

subsection \<open>Numbers in names\<close>

lemma digit_char: "d < 10 \<Longrightarrow> digit_val (char_of (48 + d)) = Some d"
proof -
  assume "d < 10"
  then have "(of_char (char_of (48 + d)) :: nat) = 48 + d" by simp
  with \<open>d < 10\<close> show ?thesis by (simp add: digit_val_def)
qed

lemma parse_digits_str: "parse_digits acc prev (py_str_nat n @ cs) = parse_digits (acc * 10 ^ length (py_str_nat n) + n) True cs"
proof (induction n arbitrary: acc prev cs rule: py_str_nat.induct)
  case (1 n)
  show ?case
  proof (cases "n < 10")
    case True
    then show ?thesis by (simp add: py_str_nat.simps [of n] digit_char)
  next
    case False
    have d: "digit_val (char_of (48 + n mod 10)) = Some (n mod 10)" by (simp add: digit_char)
    have "parse_digits acc prev (py_str_nat n @ cs) = parse_digits acc prev (py_str_nat (n div 10) @ char_of (48 + n mod 10) # cs)"
      using False by (simp add: py_str_nat.simps [of n])
    also have "\<dots> = parse_digits (acc * 10 ^ length (py_str_nat (n div 10)) + n div 10) True (char_of (48 + n mod 10) # cs)"
      using 1 False by simp
    also have "\<dots> = parse_digits ((acc * 10 ^ length (py_str_nat (n div 10)) + n div 10) * 10 + n mod 10) True cs"
      by (simp add: d)
    also have "(acc * 10 ^ length (py_str_nat (n div 10)) + n div 10) * 10 + n mod 10 = acc * 10 ^ length (py_str_nat n) + n"
      using False by (simp add: py_str_nat.simps [of n] algebra_simps)
    finally show ?thesis .
  qed
qed

lemma py_str_nat_chars: "c \<in> set (py_str_nat n) \<Longrightarrow> \<exists>d < (10 :: nat). c = char_of (48 + d)"
proof (induction n rule: py_str_nat.induct)
  case (1 n)
  show ?case
  proof (cases "n < 10")
    case True
    with 1(2) show ?thesis by (auto simp: py_str_nat.simps [of n])
  next
    case False
    with 1(2) consider "c \<in> set (py_str_nat (n div 10))" | "c = char_of (48 + n mod 10)" by (auto simp: py_str_nat.simps [of n])
    then show ?thesis
    proof cases
      case 2
      then show ?thesis by (intro exI [of _ "n mod 10"]) simp
    qed (use 1(1) False in blast)
  qed
qed

lemma py_str_nat_ne [simp]: "py_str_nat n \<noteq> []"
  by (subst py_str_nat.simps) simp

lemma digit_not_special: "d < 10 \<Longrightarrow> \<not> py_space (char_of (48 + d)) \<and> char_of (48 + d) \<noteq> CHR ''-'' \<and> char_of (48 + d) \<noteq> CHR ''+''" for d :: nat
proof -
  assume "d < (10 :: nat)"
  then have v: "(of_char (char_of (48 + d)) :: nat) = 48 + d" by simp
  have "(of_char CHR ''-'' :: nat) = 45" "(of_char CHR ''+'' :: nat) = 43" by code_simp+
  then have "char_of (48 + d) \<noteq> CHR ''-''" "char_of (48 + d) \<noteq> CHR ''+''" using v by fastforce+
  moreover have "\<not> py_space (char_of (48 + d))" using v \<open>d < 10\<close> by (simp add: py_space_def)
  ultimately show ?thesis by blast
qed

lemma py_str_nat_plain:
  assumes "c \<in> set (py_str_nat n)"
  shows "\<not> py_space c \<and> c \<noteq> CHR ''-'' \<and> c \<noteq> CHR ''+''"
proof -
  obtain d :: nat where d: "d < 10" "c = char_of (48 + d)" using py_str_nat_chars [OF assms] by (elim exE conjE)
  show ?thesis unfolding d(2) by (rule digit_not_special [OF d(1)])
qed

lemma py_int_of_str_nat: "py_int_of_str (py_str_nat n) = Some (int n)"
proof -
  note nosp = py_str_nat_plain [of _ n]
  have "dropWhile py_space (py_str_nat n) = py_str_nat n" "dropWhile py_space (rev (py_str_nat n)) = rev (py_str_nat n)"
    using nosp by (auto simp: dropWhile_eq_self_iff hd_rev)
  then have strip: "py_strip (py_str_nat n) = py_str_nat n" by (simp add: py_strip_def)
  have sign: "\<not> starts_with (py_str_nat n) ''-''" "\<not> starts_with (py_str_nat n) ''+''"
    using nosp by (cases "py_str_nat n"; force simp: starts_with_def)+
  have "parse_digits 0 False (py_str_nat n) = Some n" using parse_digits_str [of 0 False n "[]"] by simp
  then show ?thesis using strip sign by (simp add: py_int_of_str_def Let_def)
qed

lemma rsplit_dashes_none: "CHR ''-'' \<notin> set b \<Longrightarrow> rsplit_dashes b = None"
  by (induction b) (auto simp: starts_with_def)

lemma rsplit_dashes_append:
  assumes "CHR ''-'' \<notin> set b"
  shows "rsplit_dashes (a @ ''--'' @ b) = Some (a, b)"
proof (induction a)
  case Nil
  have "rsplit_dashes (CHR ''-'' # b) = None" using rsplit_dashes_none [OF assms] assms by (cases b) (auto simp: starts_with_def)
  then show ?case by (simp add: starts_with_def)
qed simp

lemma rsplit_segment: "rsplit_dashes (segment_name date n) = Some (date, py_str_nat n)"
  unfolding segment_name_def
  by (rule rsplit_dashes_append) (metis py_str_nat_plain)

text \<open>The name of a segment is understood again: it and the two segments before it are kept.\<close>

lemma preserve_segments_segment:
  assumes "date \<noteq> []"
  shows "set (preserve_segments (segment_name date n)) = segment_name date ` {n - 2..n}"
proof -
  have "set (preserve_segments (segment_name date n)) = (\<lambda>k. segment_name date (nat k)) ` {max 0 (int n - 2)..int n}"
    using assms by (simp add: preserve_segments_def rsplit_segment py_int_of_str_nat)
  also have "{max 0 (int n - 2)..int n} = int ` {n - 2..n}"
  proof -
    have "int (n - 2) = max 0 (int n - 2)" by simp
    then show ?thesis by (simp only: image_int_atLeastAtMost)
  qed
  finally show ?thesis by (simp add: image_image)
qed

subsection \<open>Segments in the order of their creation\<close>

fun padded :: "nat \<Rightarrow> nat \<Rightarrow> string" where
  "padded 0 n = []"
| "padded (Suc k) n = padded k (n div 10) @ [char_of (48 + n mod 10)]"

lemma padded_length [simp]: "length (padded k n) = k"
  by (induction k arbitrary: n) simp_all

lemma padded_zero: "padded k 0 = replicate k CHR ''0''"
proof (induction k)
  case (Suc k)
  have "char_of (48 :: nat) = CHR ''0''" by code_simp
  with Suc show ?case by (simp add: replicate_append_same)
qed simp

lemma rjust_padded: "n < 10 ^ k \<Longrightarrow> rjust (py_str_nat n) k CHR ''0'' = padded k n \<and> length (py_str_nat n) \<le> k" if "0 < k"
  using that
proof (induction k arbitrary: n)
  case (Suc k)
  show ?case
  proof (cases "n < 10")
    case True
    then show ?thesis using padded_zero [of k] by (simp add: rjust_def py_str_nat.simps [of n])
  next
    case False
    have k: "0 < k" using False Suc.prems by (cases k) auto
    have lt: "n div 10 < 10 ^ k" using Suc.prems by (simp add: div_less_iff_less_mult)
    have "py_str_nat n = py_str_nat (n div 10) @ [char_of (48 + n mod 10)]" using False by (simp add: py_str_nat.simps [of n])
    with Suc.IH [OF lt k] show ?thesis by (auto simp: rjust_def)
  qed
qed simp

lemma append_less: "length xs = length ys \<Longrightarrow> xs @ [a] < ys @ [b] \<longleftrightarrow> xs < ys \<or> xs = ys \<and> a < (b :: char)"
proof (induction xs ys rule: list_induct2)
  case (Cons x xs y ys)
  then show ?case by auto
qed simp

lemma char_of_less: "a < b \<Longrightarrow> b < 10 \<Longrightarrow> char_of (48 + a) < (char_of (48 + b) :: char)" for a b :: nat
  by (simp add: less_char_def)

lemma padded_less: "m < n \<Longrightarrow> n < 10 ^ k \<Longrightarrow> padded k m < padded k n"
proof (induction k arbitrary: m n)
  case (Suc k)
  have "n div 10 < 10 ^ k" using Suc.prems(2) by (simp add: div_less_iff_less_mult)
  have "m div 10 < n div 10 \<or> m div 10 = n div 10 \<and> m mod 10 < n mod 10"
    using Suc.prems(1) by (metis div_le_mono div_mod_decomp le_neq_implies_less less_imp_le_nat nat_add_left_cancel_less)
  then show ?case using Suc.IH [of "m div 10" "n div 10"] \<open>n div 10 < 10 ^ k\<close> char_of_less [of "m mod 10" "n mod 10"]
    by (auto simp: append_less)
qed simp

lemma segments_in_order:
  assumes "m < n" "n < 10 ^ 10"
  shows "get_directory_sort (segment_name date m) < get_directory_sort (segment_name date n)"
proof -
  have "rjust (py_str_nat k) 10 CHR ''0'' = padded 10 k" if "k < 10 ^ 10" for k using rjust_padded [of 10 k] that by simp
  then have "rjust (py_str_nat m) 10 CHR ''0'' < rjust (py_str_nat n) 10 CHR ''0''" using padded_less [OF assms] assms by simp
  then show ?thesis by (simp add: get_directory_sort_def rsplit_segment)
qed


subsection \<open>The attribute cache\<close>

text \<open>What a read returns: the cached value, or else the one on disk. Reading does not change it.\<close>

definition xattr_view :: "xattr_state \<Rightarrow> string \<times> string \<Rightarrow> py_error + string option" where
  "xattr_view s k =
     (case xs_cache s k of
        Some r \<Rightarrow> Inr r
      | None \<Rightarrow> (case xs_disk s k of XA_error \<Rightarrow> Inl OSError | XA_none \<Rightarrow> Inr None | XA_value v \<Rightarrow> Inr (Some v)))"

lemma getxattr_view: "fst (getxattr p a s) = xattr_view s (p, a)" "xattr_view (snd (getxattr p a s)) = xattr_view s"
  by (auto simp: getxattr_def xattr_view_def fun_eq_iff split: option.split xattr_read.split)

lemma setxattr_view: "xattr_view (snd (setxattr True p a v s)) = (xattr_view s)((p, a) := Inr (Some v))"
  by (auto simp: setxattr_def xattr_view_def fun_eq_iff Let_def split: option.split)

lemma getxattr_cached: "fst (getxattr p a s) = Inr r \<Longrightarrow> xs_cache (snd (getxattr p a s)) (p, a) = Some r"
  by (auto simp: getxattr_def split: option.splits xattr_read.splits)

text \<open>
  A bookmark that comes after the first look is missed. Once the deleter has asked for the
  preserve attribute of a recording and found none, it answers the same for ever, whatever
  another process (the recorder sets the attribute) writes to the disk in the meantime.
\<close>

theorem late_bookmark_is_missed:
  assumes "has_preserve_xattr log_root d s = (Inr False, s1)"
  shows "has_preserve_xattr log_root d (s1\<lparr>xs_disk := disk\<rparr>) = (Inr False, s1\<lparr>xs_disk := disk\<rparr>)"
proof -
  let ?p = "path_join log_root d"
  obtain v where v: "getxattr ?p PRESERVE_ATTR_NAME s = (Inr v, s1)" "v \<noteq> Some PRESERVE_ATTR_VALUE"
    using assms by (auto simp: has_preserve_xattr_def split: prod.splits sum.splits)
  then have "xs_cache s1 (?p, PRESERVE_ATTR_NAME) = Some v" using getxattr_cached [of ?p PRESERVE_ATTR_NAME s v] by simp
  with v(2) show ?thesis by (simp add: has_preserve_xattr_def getxattr_def)
qed

definition example_xattrs :: xattr_state where
  "example_xattrs = \<lparr>xs_disk = (\<lambda>_. XA_none), xs_cache = Map.empty\<rparr>"

theorem late_bookmark_is_missed_witness:
  "fst (has_preserve_xattr ''/data'' ''route--3'' ((snd (has_preserve_xattr ''/data'' ''route--3'' example_xattrs))\<lparr>xs_disk := (\<lambda>_. XA_value ''1'')\<rparr>)) = Inr False"
proof -
  have "has_preserve_xattr ''/data'' ''route--3'' example_xattrs = (Inr False, snd (has_preserve_xattr ''/data'' ''route--3'' example_xattrs))"
    by (simp add: has_preserve_xattr_def getxattr_def example_xattrs_def)
  from late_bookmark_is_missed [OF this] show ?thesis by simp
qed

subsection \<open>Segments that are kept\<close>

definition preserved_view :: "string \<Rightarrow> xattr_state \<Rightarrow> string \<Rightarrow> bool" where
  "preserved_view log_root s d \<longleftrightarrow> xattr_view s (path_join log_root d, PRESERVE_ATTR_NAME) = Inr (Some PRESERVE_ATTR_VALUE)"

lemma has_preserve_cases:
  assumes "has_preserve_xattr log_root d s = (Inr b, s')"
  shows "b \<longleftrightarrow> preserved_view log_root s d" "xattr_view s' = xattr_view s"
  using assms getxattr_view [of "path_join log_root d" PRESERVE_ATTR_NAME s]
  by (auto simp: has_preserve_xattr_def preserved_view_def split: prod.splits sum.splits)

lemma preserved_loop_spec:
  assumes "preserved_loop log_root n ds s = (Inr ps, s')" "n \<le> PRESERVE_COUNT"
  shows "ps = concat (map preserve_segments (take (PRESERVE_COUNT - n) (filter (preserved_view log_root s) ds)))"
  using assms
proof (induction ds arbitrary: n s ps s')
  case (Cons d ds)
  obtain b s1 where b: "has_preserve_xattr log_root d s = (Inr b, s1)"
    using Cons.prems(1) by (auto split: prod.splits sum.splits)
  note v = has_preserve_cases [OF b]
  have pv: "preserved_view log_root s1 = preserved_view log_root s" using v(2) by (simp add: preserved_view_def fun_eq_iff)
  show ?case
  proof (cases b)
    case False
    then show ?thesis using Cons.IH [of n s1 ps s'] Cons.prems b v(1) pv by simp
  next
    case True
    show ?thesis
    proof (cases "n = PRESERVE_COUNT")
      case True
      with \<open>b\<close> b Cons.prems show ?thesis by simp
    next
      case False
      then have n: "n + 1 \<le> PRESERVE_COUNT" "PRESERVE_COUNT - n = Suc (PRESERVE_COUNT - (n + 1))" using Cons.prems(2) by simp_all
      obtain rest s2 where r: "preserved_loop log_root (n + 1) ds s1 = (Inr rest, s2)" "ps = preserve_segments d @ rest"
        using Cons.prems(1) b \<open>b\<close> False by (auto split: prod.splits sum.splits)
      from Cons.IH [OF r(1) n(1)] r(2) n(2) v(1) \<open>b\<close> pv show ?thesis by simp
    qed
  qed
qed simp

subsection \<open>What the deleter removes\<close>

definition removable :: "deleter_env \<Rightarrow> string \<Rightarrow> bool" where
  "removable env d \<longleftrightarrow>
     (\<forall>ns. de_names env d = Some ns \<longrightarrow> \<not> list_ex (\<lambda>n. ends_with n ''.lock'') ns) \<and> (de_rm_ok env d \<or> de_mounted env \<and> de_move_ok env d)"

fun taken :: "delete_action \<Rightarrow> string list" where
  "taken (Removed d) = [d]" | "taken (Moved d) = [d]" | "taken (Removed_External d) = []"

lemma taken_external: "concat (map taken (delete_external env ds)) = []"
  by (auto simp: delete_external_def split: list.splits)

lemma delete_loop_taken:
  assumes "delete_loop env ds = Inr acts"
  shows "concat (map taken acts) = take 1 (filter (removable env) ds)"
  using assms
proof (induction ds arbitrary: acts)
  case (Cons d ds)
  obtain ns where ns: "de_names env d = Some ns" using Cons.prems by (auto split: option.splits)
  show ?case
  proof (cases "list_ex (\<lambda>n. ends_with n ''.lock'') ns")
    case True
    then show ?thesis using Cons ns by (simp add: removable_def)
  next
    case False
    show ?thesis
    proof (cases "de_mounted env")
      case True
      then obtain low where low: "out_of_space (de_stat_external env d) = Inr low"
        using Cons.prems ns False by (auto simp: bind_result_def split: sum.splits)
      with True Cons ns False show ?thesis
        by (auto simp: removable_def Let_def taken_external return_iff split: if_splits)
    next
      case nm: False
      with Cons ns False show ?thesis by (auto simp: removable_def split: if_splits)
    qed
  qed
qed simp

text \<open>
  C28. The deleter removes the least important recording. When a pass with too little space
  succeeds, at most one directory leaves the internal storage. It is unlocked, and no removable
  directory is less important: those that are neither boot or crash logs nor preserved go first,
  then preserved ones, then boot and crash logs, and among equals the earliest recording. If no
  directory is taken, none is removable. Preserved are the segments of the five most recent
  bookmarked recordings and the two segments before each.
\<close>

theorem deleter_takes_least_important:
  assumes "deleter_pass env s = (Inr acts, s')" "out_of_space (de_stat env) = Inr True"
  defines "dirs \<equiv> listdir_by_creation (de_entries env)"
    and "kept \<equiv> concat (map preserve_segments (take 5 (filter (preserved_view (de_root env) s) (rev (listdir_by_creation (de_entries env))))))"
  shows "length (concat (map taken acts)) \<le> 1 \<and>
    (concat (map taken acts) = [] \<longrightarrow> \<not> (\<exists>d \<in> set dirs. removable env d)) \<and>
    (\<forall>d \<in> set (concat (map taken acts)). d \<in> set dirs \<and> removable env d \<and>
      (\<forall>d' \<in> set dirs. removable env d' \<longrightarrow>
         (d \<in> set DELETE_LAST, d \<in> set kept) < (d' \<in> set DELETE_LAST, d' \<in> set kept) \<or>
         (d \<in> set DELETE_LAST, d \<in> set kept) = (d' \<in> set DELETE_LAST, d' \<in> set kept) \<and> get_directory_sort d \<le> get_directory_sort d'))"
proof -
  let ?key = "\<lambda>d. (d \<in> set DELETE_LAST, d \<in> set kept)"
  obtain ps s1 where ps: "get_preserved_segments (de_root env) dirs s = (Inr ps, s1)" and dl: "delete_loop env (delete_order dirs ps) = Inr acts"
    using assms(1,2) by (auto simp: deleter_pass_def dirs_def Let_def split: prod.splits sum.splits)
  have "ps = kept"
    using preserved_loop_spec [of "de_root env" 0 "rev dirs" s ps s1] ps
    by (simp add: get_preserved_segments_def kept_def dirs_def PRESERVE_COUNT_def)
  then have t: "concat (map taken acts) = take 1 (filter (removable env) (sort_key ?key dirs))"
    using delete_loop_taken [OF dl] by (simp add: delete_order_def)
  show ?thesis
  proof (cases "filter (removable env) (sort_key ?key dirs)")
    case Nil
    then have "\<not> (\<exists>d \<in> set dirs. removable env d)" by (simp add: filter_empty_conv)
    with t Nil show ?thesis unfolding t by simp
  next
    case (Cons d rest)
    then have "d \<in> set (filter (removable env) (sort_key ?key dirs))" by (simp only: list.set_intros)
    then have mem: "d \<in> set dirs" "removable env d" by simp_all
    have set: "set (d # rest) = {x \<in> set dirs. removable env x}" unfolding Cons [symmetric] by auto
    have "sorted (map ?key (filter (removable env) (sort_key ?key dirs)))" by (rule sorted_filter) simp
    then have srt: "sorted (map ?key (d # rest))" unfolding Cons .
    have min: "?key d \<le> ?key d'" if "d' \<in> set dirs" "removable env d'" for d'
    proof -
      have "d' \<in> set (d # rest)" using that unfolding set by simp
      with srt show ?thesis by auto
    qed
    have "filter (\<lambda>x. ?key x = ?key d) (filter (removable env) (sort_key ?key dirs)) =
        filter (removable env) (filter (\<lambda>x. ?key x = ?key d) (sort_key ?key dirs))"
      by (simp add: filter_filter conj_commute)
    also have "\<dots> = filter (removable env) (filter (\<lambda>x. ?key x = ?key d) dirs)" by (simp only: sort_key_stable)
    finally have eq: "filter (removable env) (filter (\<lambda>x. ?key x = ?key d) dirs) = d # filter (\<lambda>x. ?key x = ?key d) rest"
      unfolding Cons by simp
    have "sorted (map get_directory_sort dirs)" by (simp add: dirs_def listdir_by_creation_def split: option.split)
    then have srt2: "sorted (map get_directory_sort (d # filter (\<lambda>x. ?key x = ?key d) rest))"
      unfolding eq [symmetric] by (intro sorted_filter)
    have first: "get_directory_sort d \<le> get_directory_sort d'" if "d' \<in> set dirs" "removable env d'" "?key d' = ?key d" for d'
    proof -
      have "d' \<in> set (d # filter (\<lambda>x. ?key x = ?key d) rest)" unfolding eq [symmetric] using that by simp
      with srt2 show ?thesis by auto
    qed
    have tk: "concat (map taken acts) = [d]" using t Cons by simp
    show ?thesis unfolding tk using mem min first by (auto simp only: order.order_iff_strict list.set empty_iff insert_iff list.size)
  qed
qed


definition example_deleter :: deleter_env where
  "example_deleter =
     \<lparr>de_root = ''/data'', de_stat = Some (1, 1, 100), de_entries = Some [(''boot'', True), (''a--1'', True), (''a--0'', True)],
      de_names = (\<lambda>d. if d = ''a--0'' then Some [''rlog.lock''] else Some [''rlog'']), de_rm_ok = (\<lambda>_. True), de_mounted = False,
      de_stat_external = (\<lambda>_. None), de_entries_external = (\<lambda>_. None), de_rm_external_ok = (\<lambda>_. True), de_move_ok = (\<lambda>_. True)\<rparr>"

lemma example_deleter_pass: "fst (deleter_pass example_deleter example_xattrs) = Inr [Removed ''a--1'']"
  by code_simp

theorem deleter_takes_least_important_witness:
  "fst (deleter_pass example_deleter example_xattrs) = Inr [Removed ''a--1''] \<and>
   removable example_deleter ''a--1''"
proof -
  obtain s' where p: "deleter_pass example_deleter example_xattrs = (Inr [Removed ''a--1''], s')"
    using example_deleter_pass by (metis prod.collapse)
  have low: "out_of_space (de_stat example_deleter) = Inr True" by code_simp
  from deleter_takes_least_important [OF p low] have "removable example_deleter ''a--1''" by simp
  with example_deleter_pass show ?thesis by blast
qed


subsection \<open>The uploader finishes\<close>

text \<open>The files that are offered, as a function of what the attributes say.\<close>

definition offered :: "upload_fs \<Rightarrow> bool \<Rightarrow> (string \<times> string \<Rightarrow> py_error + string option) \<Rightarrow> string \<Rightarrow> string \<Rightarrow> bool" where
  "offered fs metered view logdir name \<longleftrightarrow>
     (let fn = path_join (path_join (fs_root fs) logdir) name
      in case fs_ctime fs fn of
           None \<Rightarrow> False
         | Some ctime \<Rightarrow>
             (case view (fn, UPLOAD_ATTR_NAME) of
                Inl _ \<Rightarrow> False
              | Inr v \<Rightarrow> v \<noteq> Some UPLOAD_ATTR_VALUE \<and> \<not> (metered \<and> metered_skip fs logdir name ctime)))"

definition file_entry :: "upload_fs \<Rightarrow> string \<Rightarrow> string \<Rightarrow> string \<times> string \<times> string" where
  "file_entry fs logdir name = (name, path_join logdir name, path_join (path_join (fs_root fs) logdir) name)"

lemma snd_file_entry: "snd (snd (file_entry fs logdir name)) = path_join (path_join (fs_root fs) logdir) name"
  by (simp add: file_entry_def)

lemma offer_files_view:
  "fst (offer_files fs metered logdir names s) = map (file_entry fs logdir) (filter (offered fs metered (xattr_view s) logdir) names) \<and>
   xattr_view (snd (offer_files fs metered logdir names s)) = xattr_view s"
proof (induction names arbitrary: s)
  case (Cons name names)
  let ?fn = "path_join (path_join (fs_root fs) logdir) name"
  show ?case
  proof (cases "fs_ctime fs ?fn")
    case None
    then show ?thesis using Cons by (simp add: offered_def)
  next
    case (Some ctime)
    obtain r s1 where g: "getxattr ?fn UPLOAD_ATTR_NAME s = (r, s1)" by fastforce
    have v: "r = xattr_view s (?fn, UPLOAD_ATTR_NAME)" "xattr_view s1 = xattr_view s" using getxattr_view [of ?fn UPLOAD_ATTR_NAME s] g by simp_all
    show ?thesis
    proof (cases r)
      case (Inl e)
      then show ?thesis using Cons [of s1] Some g v by (simp add: offered_def)
    next
      case (Inr w)
      then show ?thesis using Cons [of s1] Some g v by (auto simp: offered_def file_entry_def case_prod_beta)
    qed
  qed
qed simp

lemmas offer_files_views = offer_files_view [THEN conjunct1] offer_files_view [THEN conjunct2]

definition dir_entries :: "upload_fs \<Rightarrow> bool \<Rightarrow> (string \<times> string \<Rightarrow> py_error + string option) \<Rightarrow> string \<Rightarrow> (string \<times> string \<times> string) list" where
  "dir_entries fs metered view logdir =
     (case fs_names fs logdir of
        None \<Rightarrow> []
      | Some names \<Rightarrow> if list_ex (\<lambda>n. ends_with n ''.lock'') names then []
          else map (file_entry fs logdir) (filter (offered fs metered view logdir)
            (sort_key (\<lambda>n. dict_get (map_of immediate_priority) n 1000) names)))"

lemma offer_dirs_view:
  "fst (offer_dirs fs metered dirs s) =
     concat (map (dir_entries fs metered (xattr_view s)) dirs) \<and>
   xattr_view (snd (offer_dirs fs metered dirs s)) = xattr_view s"
proof (induction dirs arbitrary: s)
  case (Cons logdir dirs)
  then show ?case by (simp add: case_prod_beta offer_files_views dir_entries_def [of _ _ _ logdir] split: option.split)
qed simp

definition upload_list :: "upload_fs \<Rightarrow> bool \<Rightarrow> (string \<times> string \<Rightarrow> py_error + string option) \<Rightarrow> (string \<times> string \<times> string) list" where
  "upload_list fs metered view =
     concat (map (dir_entries fs metered view) (listdir_by_creation (fs_entries fs)))"

lemma list_upload_files_view:
  "fst (list_upload_files fs metered s) = upload_list fs metered (xattr_view s)"
  "xattr_view (snd (list_upload_files fs metered s)) = xattr_view s"
  using offer_dirs_view [of fs metered "listdir_by_creation (fs_entries fs)" s] by (simp_all add: list_upload_files_def upload_list_def)

text \<open>Marking a file as uploaded takes exactly it out of the list.\<close>

lemma upload_list_marked:
  "upload_list fs metered (view((fn, UPLOAD_ATTR_NAME) := Inr (Some UPLOAD_ATTR_VALUE))) =
     filter (\<lambda>f. snd (snd f) \<noteq> fn) (upload_list fs metered view)"
proof -
  let ?view = "view((fn, UPLOAD_ATTR_NAME) := Inr (Some UPLOAD_ATTR_VALUE))"
  have off: "offered fs metered ?view logdir name \<longleftrightarrow> path_join (path_join (fs_root fs) logdir) name \<noteq> fn \<and> offered fs metered view logdir name"
    for logdir name by (auto simp: offered_def Let_def split: option.split sum.split)
  have one: "map (file_entry fs logdir) (filter (offered fs metered ?view logdir) names) =
      filter (\<lambda>f. snd (snd f) \<noteq> fn) (map (file_entry fs logdir) (filter (offered fs metered view logdir) names))" for logdir names
    by (induction names) (simp_all add: off snd_file_entry del: fun_upd_apply)
  show ?thesis unfolding upload_list_def filter_concat map_map
    
    by (rule arg_cong [where f = concat], rule map_cong [OF refl]) (simp add: dir_entries_def one split: option.split)
qed

definition eligible :: "string \<times> string \<times> string \<Rightarrow> bool" where
  "eligible f \<longleftrightarrow> in_immediate_folder f \<or> fst f \<in> fst ` set immediate_priority"

lemma next_file_view:
  "fst (next_file_to_upload fs metered s) = None \<longleftrightarrow> \<not> list_ex eligible (upload_list fs metered (xattr_view s))"
  "fst (next_file_to_upload fs metered s) = Some f \<Longrightarrow> f \<in> set (upload_list fs metered (xattr_view s)) \<and> eligible f \<and>
     (list_ex in_immediate_folder (upload_list fs metered (xattr_view s)) \<longrightarrow> in_immediate_folder f)"
  "xattr_view (snd (next_file_to_upload fs metered s)) = xattr_view s"
proof -
  let ?l = "upload_list fs metered (xattr_view s)"
  let ?im = "filter in_immediate_folder ?l" and ?pr = "filter (\<lambda>f. fst f \<in> fst ` set immediate_priority) ?l"
  obtain s1 where l: "list_upload_files fs metered s = (?l, s1)" "xattr_view s1 = xattr_view s"
    using list_upload_files_view [of fs metered s] by (metis prod.collapse)
  have n: "next_file_to_upload fs metered s = (case ?im of f # _ \<Rightarrow> (Some f, s1) | [] \<Rightarrow> (case ?pr of f # _ \<Rightarrow> (Some f, s1) | [] \<Rightarrow> (None, s1)))"
    by (simp add: next_file_to_upload_def l(1))
  show "xattr_view (snd (next_file_to_upload fs metered s)) = xattr_view s" using l(2) by (simp add: n split: list.split)
  have "fst (next_file_to_upload fs metered s) = None \<longleftrightarrow> ?im = [] \<and> ?pr = []" by (simp only: n split: list.split) simp
  then show "fst (next_file_to_upload fs metered s) = None \<longleftrightarrow> \<not> list_ex eligible ?l"
    by (auto simp: filter_empty_conv list_ex_iff eligible_def)
  show "f \<in> set ?l \<and> eligible f \<and> (list_ex in_immediate_folder ?l \<longrightarrow> in_immediate_folder f)"
    if "fst (next_file_to_upload fs metered s) = Some f"
  proof (cases ?im)
    case Nil
    then have "f \<in> set ?pr" using that by (cases ?pr) (auto simp: n)
    then show ?thesis using Nil by (auto simp: eligible_def list_ex_iff filter_empty_conv)
  next
    case (Cons a as)
    then have "f \<in> set ?im" using that by (simp add: n)
    then show ?thesis by (auto simp: eligible_def)
  qed
qed


definition server_takes :: "upload_net \<Rightarrow> bool" where
  "server_takes net \<longleftrightarrow> (\<forall>key fn. do_upload net key fn \<in> Some ` {200, 201, 401, 403, 412})"

lemma upload_taken:
  assumes "server_takes net" "fs_size fs fn \<noteq> None"
  shows "fst (upload fs net True (name, key, fn) s) = Inr True"
    and "xattr_view (snd (upload fs net True (name, key, fn) s)) =
       (xattr_view s)((fn, UPLOAD_ATTR_NAME) := Inr (Some UPLOAD_ATTR_VALUE))"
proof -
  obtain sz where sz: "fs_size fs fn = Some sz" using assms(2) by blast
  have "do_upload net key fn \<in> Some ` {200, 201, 401, 403, 412}" using assms(1) unfolding server_takes_def by blast
  then obtain code where code: "do_upload net key fn = Some code" "code \<in> {200, 201, 401, 403, 412}" by blast
  obtain s' where set: "setxattr True fn UPLOAD_ATTR_NAME UPLOAD_ATTR_VALUE s = (Inr (), s')" by (simp add: setxattr_def)
  have "upload fs net True (name, key, fn) s = (Inr True, s')"
    using code(2) by (simp add: upload_def sz code(1) set Let_def)
  then show "fst (upload fs net True (name, key, fn) s) = Inr True"
    "xattr_view (snd (upload fs net True (name, key, fn) s)) = (xattr_view s)((fn, UPLOAD_ATTR_NAME) := Inr (Some UPLOAD_ATTR_VALUE))"
    using setxattr_view [of fn UPLOAD_ATTR_NAME UPLOAD_ATTR_VALUE s] set by simp_all
qed

lemma step_view:
  assumes "server_takes net" and "\<forall>f \<in> set (upload_list fs metered (xattr_view s)). fs_size fs (snd (snd f)) \<noteq> None"
  shows "(\<exists>f. fst (next_file_to_upload fs metered s) = Some f \<and> fst (uploader_step fs net True metered s) = Inr (Some True) \<and>
            upload_list fs metered (xattr_view (snd (uploader_step fs net True metered s))) =
              filter (\<lambda>g. snd (snd g) \<noteq> snd (snd f)) (upload_list fs metered (xattr_view s))) \<or>
         fst (next_file_to_upload fs metered s) = None \<and> fst (uploader_step fs net True metered s) = Inr None \<and>
            xattr_view (snd (uploader_step fs net True metered s)) = xattr_view s"
proof (cases "next_file_to_upload fs metered s")
  case (Pair d s1)
  show ?thesis
  proof (cases d)
    case None
    then show ?thesis using Pair next_file_view(3) [of fs metered s] by (simp add: uploader_step_def)
  next
    case (Some f)
    obtain name key fn where f: "f = (name, key, fn)" by (cases f) blast
    have "fs_size fs fn \<noteq> None" using next_file_view(2) [of fs metered s f] assms(2) Pair Some f by fastforce
    note up = upload_taken [OF assms(1) this, of name "upload_key key" s1]
    have v: "xattr_view s1 = xattr_view s" using next_file_view(3) [of fs metered s] Pair by simp
    have "uploader_step fs net True metered s = map_prod (map_sum id Some) id (upload fs net True (name, upload_key key, fn) s1)"
      by (simp add: uploader_step_def Pair Some f case_prod_beta map_prod_def)
    then show ?thesis using up v Pair Some f by (simp add: upload_list_marked)
  qed
qed

abbreviation (input) files_left :: "upload_fs \<Rightarrow> bool \<Rightarrow> xattr_state \<Rightarrow> (string \<times> string \<times> string) list" where
  "files_left fs metered s \<equiv> filter eligible (upload_list fs metered (xattr_view s))"

interpretation uploading: ranked_machine "\<lambda>s d. snd (uploader_step fs d True metered s)"
  server_takes "\<lambda>s. \<forall>f \<in> set (upload_list fs metered (xattr_view s)). fs_size fs (snd (snd f)) \<noteq> None"
  "\<lambda>s. length (files_left fs metered s)" for fs metered
proof
  fix s d
  assume sizes: "\<forall>f \<in> set (upload_list fs metered (xattr_view s)). fs_size fs (snd (snd f)) \<noteq> None" and ok: "server_takes d"
  let ?s = "snd (uploader_step fs d True metered s)" and ?l = "upload_list fs metered (xattr_view s)"
  from step_view [OF ok sizes] show "\<forall>f \<in> set (upload_list fs metered (xattr_view ?s)). fs_size fs (snd (snd f)) \<noteq> None"
    using sizes by auto
  from step_view [OF ok sizes] show "length (files_left fs metered ?s) \<le> length (files_left fs metered s) - 1"
  proof (elim disjE exE conjE)
    fix f
    assume f: "fst (next_file_to_upload fs metered s) = Some f"
      and l: "upload_list fs metered (xattr_view ?s) = filter (\<lambda>g. snd (snd g) \<noteq> snd (snd f)) ?l"
    from next_file_view(2) [OF f] have "f \<in> set (filter eligible ?l)" by simp
    then have "length (filter (\<lambda>g. snd (snd g) \<noteq> snd (snd f)) (filter eligible ?l)) < length (filter eligible ?l)"
      by (intro length_filter_less) auto
    then show ?thesis by (simp add: l conj_commute)
  next
    assume "fst (next_file_to_upload fs metered s) = None" and "xattr_view ?s = xattr_view s"
    then show ?thesis by (simp add: next_file_view(1) list_ex_iff filter_empty_conv)
  qed
qed

text \<open>
  C29. The uploader gets through its files. With a server that takes them, an attribute store
  that can be written and files whose size can be read, after as many steps as files were listed
  there is nothing left to upload: every step marks the file it chose, so the same file is never
  chosen twice, and no file starves behind another.
\<close>

theorem uploads_finish:
  assumes "\<forall>d \<in> set ds. server_takes d"
    and "\<forall>f \<in> set (fst (list_upload_files fs metered s)). fs_size fs (snd (snd f)) \<noteq> None"
    and "length (fst (list_upload_files fs metered s)) \<le> length ds"
  shows "fst (next_file_to_upload fs metered (frames (\<lambda>s d. snd (uploader_step fs d True metered s)) s ds)) = None"
proof -
  have "length (files_left fs metered s) \<le> length ds"
    using assms(3) by (intro order_trans [OF length_filter_le]) (simp add: list_upload_files_view)
  with uploading.run_exhausted [of fs metered s ds] assms(1,2)
  have "files_left fs metered (frames (\<lambda>s d. snd (uploader_step fs d True metered s)) s ds) = []" by (simp add: list_upload_files_view)
  then show ?thesis by (simp add: next_file_view(1) list_ex_iff filter_empty_conv)
qed

definition example_upload_fs :: upload_fs where
  "example_upload_fs =
     \<lparr>fs_root = ''/data'', fs_entries = Some [(''a--1'', True), (''boot'', True), (''note'', False)],
      fs_names = (\<lambda>d. if d = ''boot'' then Some [''7''] else Some [''rlog'', ''qlog'']),
      fs_ctime = (\<lambda>_. Some 0), fs_size = (\<lambda>_. Some 10), fs_now = 1000000, fs_requested = None\<rparr>"

definition example_net :: upload_net where
  "example_net = \<lparr>un_api_get = (\<lambda>key. Some (200, Some ''https://x'')), un_put = (\<lambda>_ _ _. Some 201), un_fake = False\<rparr>"

lemma example_net_takes: "server_takes example_net"
  by (simp add: server_takes_def do_upload_def example_net_def)

lemma example_uploads:
  "map fst (fst (list_upload_files example_upload_fs False example_xattrs)) = [''qlog'', ''rlog'', ''7'']"
  by code_simp

theorem uploads_finish_witness:
  "fst (next_file_to_upload example_upload_fs False
     (frames (\<lambda>s d. snd (uploader_step example_upload_fs d True False s)) example_xattrs (replicate 3 example_net))) = None \<and>
   fst (next_file_to_upload example_upload_fs False example_xattrs) = Some (''7'', ''boot/7'', ''/data/boot/7'')"
proof
  have "length (fst (list_upload_files example_upload_fs False example_xattrs)) = 3"
    using arg_cong [OF example_uploads, of length] by simp
  then show "fst (next_file_to_upload example_upload_fs False
     (frames (\<lambda>s d. snd (uploader_step example_upload_fs d True False s)) example_xattrs (replicate 3 example_net))) = None"
    by (intro uploads_finish) (simp_all add: example_net_takes example_upload_fs_def)
  show "fst (next_file_to_upload example_upload_fs False example_xattrs) = Some (''7'', ''boot/7'', ''/data/boot/7'')"
    by code_simp
qed

text \<open>
  An empty file whose mark cannot be written ends the uploader: the handler of the failed write
  reads a variable that only the branch with a request binds.
\<close>

lemma unwritable_mark_raises:
  assumes "fs_size fs fn = Some 0"
  shows "fst (upload fs net False (name, key, fn) s) = Inl UnboundLocalError"
  using assms by (simp add: upload_def setxattr_def Let_def)

text \<open>
  The rule that holds back young boot and crash logs on a metered connection has no effect: the
  folder names it compares with end in a slash, and a directory name has none. Only camera files
  are held back.
\<close>

lemma young_boot_logs_not_held_back:
  assumes "CHR ''/'' \<notin> set logdir" and "metered_skip fs logdir name ctime"
  shows "name = ''qcamera.ts''"
  using assms by (auto simp: metered_skip_def immediate_folders_def)

text \<open>Without failures the start removes every lock file of the listed directories and nothing else.\<close>

lemma clear_locks_complete:
  assumes "\<And>d. d \<in> set logdirs \<Longrightarrow> names d \<noteq> None" and "\<And>f. unlink_ok f"
  shows "set (clear_locks names unlink_ok rt logdirs) =
     (\<Union>d \<in> set logdirs. path_join (path_join rt d) ` {n \<in> set (the (names d)). ends_with n ''.lock''})"
proof -
  have all: "takeWhile unlink_ok xs = xs" for xs using assms(2) by (simp add: takeWhile_eq_all_conv)
  show ?thesis unfolding clear_locks_def all set_concat set_map image_image
    by (rule SUP_cong [OF refl]) (use assms(1) in \<open>fastforce split: option.split\<close>)
qed

text \<open>The size limits name no file that the uploader offers: only the uncompressed \<open>qlog\<close> is limited.\<close>

lemma only_plain_qlog_limited:
  "map_of MAX_UPLOAD_SIZES name = Some limit \<Longrightarrow> name \<in> fst ` set immediate_priority \<Longrightarrow> name = ''qlog''"
  by (auto simp: MAX_UPLOAD_SIZES_def immediate_priority_def split: if_splits)

end
