(* ===== verification/Binary_Struct.thy ===== *)
theory Binary_Struct
  imports Prelude "HOL-Library.Word"
begin

text \<open>
  The parser of binary structures, \<open>system/ubloxd/binary_struct.py\<close>: a reader with a bit position,
  the descriptors of fields and the interpretation of a schema. A schema is data, as in the
  source, where the annotations of a class list its fields; a parsed object is a structure with
  its class name and its attributes. Floating-point fields keep their bytes: their decoding is
  left to the reader of the message.

  The lemmas relate the reader to the sequence of bits of the data: reading bits byte by byte
  gives the number that the next bits spell, and integers of whole bytes are special cases.
\<close>

unbundle bit_operations_syntax

type_synonym octet = "8 word"
type_synonym octets = "octet list"

subsection \<open>The reader\<close>

record reader =
  rd_data :: octets
  rd_pos :: nat
  rd_bit_pos :: nat

definition BinaryReader :: "octets \<Rightarrow> reader" where
  "BinaryReader data = \<lparr>rd_data = data, rd_pos = 0, rd_bit_pos = 0\<rparr>"

definition rd_require :: "nat \<Rightarrow> reader \<Rightarrow> py_error + unit" where
  "rd_require n r = (if rd_pos r + n > length (rd_data r) then Inl EOFError else Inr ())"

definition align_to_byte :: "reader \<Rightarrow> reader" where
  "align_to_byte r = (if rd_bit_pos r > 0 then r\<lparr>rd_bit_pos := 0, rd_pos := rd_pos r + 1\<rparr> else r)"

definition read_bytes :: "nat \<Rightarrow> reader \<Rightarrow> py_error + octets \<times> reader" where
  "read_bytes n r =
     (let r = align_to_byte r
      in bind_result (rd_require n r) (\<lambda>_.
           Inr (take n (drop (rd_pos r) (rd_data r)), r\<lparr>rd_pos := rd_pos r + n\<rparr>)))"

text \<open>
  The loop of \<open>read_bits_int_be\<close>. A bit position above 8 would make the mask a negative shift,
  which raises; at 8 nothing is read and the position moves on.
\<close>

function read_bits_loop :: "nat \<Rightarrow> nat \<Rightarrow> reader \<Rightarrow> py_error + nat \<times> reader" where
  "read_bits_loop bits_remaining result r =
     (if bits_remaining = 0 then Inr (result, r)
      else if rd_pos r \<ge> length (rd_data r) then Inl EOFError
      else if rd_bit_pos r > 8 then Inl ValueError
      else
        let bits_in_byte = 8 - rd_bit_pos r;
            bits_to_read = min bits_remaining bits_in_byte;
            byte_val = unat (rd_data r ! rd_pos r);
            shift = bits_in_byte - bits_to_read;
            extracted = drop_bit shift byte_val AND mask bits_to_read;
            result = push_bit bits_to_read result OR extracted;
            bit_pos = rd_bit_pos r + bits_to_read
        in read_bits_loop (bits_remaining - bits_to_read) result
             (if bit_pos \<ge> 8 then r\<lparr>rd_bit_pos := 0, rd_pos := rd_pos r + 1\<rparr> else r\<lparr>rd_bit_pos := bit_pos\<rparr>))"
  by pat_completeness auto
termination
  by (relation "measure (\<lambda>(n, _, r). 9 * n + rd_bit_pos r)") (auto simp: min_def)

declare read_bits_loop.simps [simp del]

definition read_bits_int_be :: "nat \<Rightarrow> reader \<Rightarrow> py_error + nat \<times> reader" where
  "read_bits_int_be n r = read_bits_loop n 0 r"

subsection \<open>Integers\<close>

text \<open>The formats of \<open>struct\<close> for integers: byte order, then two's complement for signed fields.\<close>

definition be_bytes :: "octets \<Rightarrow> nat" where
  "be_bytes bs = foldl (\<lambda>acc b. 256 * acc + unat b) 0 bs"

definition le_bytes :: "octets \<Rightarrow> nat" where
  "le_bytes bs = be_bytes (rev bs)"

definition signed_of :: "nat \<Rightarrow> nat \<Rightarrow> int" where
  "signed_of n v = (if v \<ge> 2 ^ (n - 1) then int v - 2 ^ n else int v)"

definition unpack_int :: "nat \<Rightarrow> bool \<Rightarrow> bool \<Rightarrow> octets \<Rightarrow> int" where
  "unpack_int n is_signed big_endian bs =
     (let v = (if big_endian then be_bytes bs else le_bytes bs) in if is_signed then signed_of n v else int v)"

subsection \<open>Schemas\<close>

datatype val =
    VInt int
  | VBool bool
  | VBytes octets
  | VFloat octets
  | VEnum int
  | VNone
  | VList "val list"
  | VStruct string "(string \<times> val) list"

datatype field_type =
    IntType nat bool bool
  | FloatType nat
  | BitsType nat
  | BytesType nat
  | ArrayType field_type string
  | SwitchType string "(int \<times> field_type) list" "field_type option"
  | EnumType field_type "int list"
  | ConstType field_type val
  | SubstreamType string field_type
  | StructType string "(string \<times> field_type) list"

definition u8 :: field_type where "u8 = IntType 8 False False"
definition u16 :: field_type where "u16 = IntType 16 False False"
definition u32 :: field_type where "u32 = IntType 32 False False"
definition s8 :: field_type where "s8 = IntType 8 True False"
definition s16 :: field_type where "s16 = IntType 16 True False"
definition s32 :: field_type where "s32 = IntType 32 True False"
definition f32 :: field_type where "f32 = FloatType 32"
definition f64 :: field_type where "f64 = FloatType 64"
definition u16be :: field_type where "u16be = IntType 16 False True"
definition u32be :: field_type where "u32be = IntType 32 False True"
definition s16be :: field_type where "s16be = IntType 16 True True"
definition s32be :: field_type where "s32be = IntType 32 True True"

lemmas field_type_defs = u8_def u16_def u32_def s8_def s16_def s32_def f32_def f64_def u16be_def u32be_def s16be_def s32be_def

subsection \<open>Parsing\<close>

definition attr :: "string \<Rightarrow> val \<Rightarrow> py_error + val" where
  "attr name v =
     (case v of
        VStruct _ fs \<Rightarrow> (case map_of fs name of Some x \<Rightarrow> Inr x | None \<Rightarrow> Inl AttributeError)
      | _ \<Rightarrow> Inl AttributeError)"

fun resolve_parts :: "val \<Rightarrow> string list \<Rightarrow> py_error + val" where
  "resolve_parts cur [] = Inr cur"
| "resolve_parts cur (part # parts) = bind_result (attr part cur) (\<lambda>v. resolve_parts v parts)"

definition resolve_path :: "val \<Rightarrow> string \<Rightarrow> py_error + val" where
  "resolve_path obj path = resolve_parts obj (py_split CHR ''.'' path)"

text \<open>
  A value as a key of a dictionary of integers (an \<open>IntEnum\<close> member and a \<open>bool\<close> equal their
  integer), and as an integer.
\<close>

fun num_of :: "val \<Rightarrow> int option" where
  "num_of (VInt k) = Some k"
| "num_of (VEnum k) = Some k"
| "num_of (VBool b) = Some (of_bool b)"
| "num_of _ = None"

definition switch_target :: "val \<Rightarrow> (int \<times> field_type) list \<Rightarrow> field_type option \<Rightarrow> field_type option" where
  "switch_target key cases dflt =
     (case num_of key of
        Some k \<Rightarrow> (case map_of cases k of Some t \<Rightarrow> Some t | None \<Rightarrow> dflt)
      | None \<Rightarrow> dflt)"

definition enum_value :: "int list \<Rightarrow> val \<Rightarrow> val" where
  "enum_value members raw = (case num_of raw of Some k \<Rightarrow> if k \<in> set members then VEnum k else raw | None \<Rightarrow> raw)"

definition check_const :: "val \<Rightarrow> val \<Rightarrow> py_error + val" where
  "check_const expected value = (if value \<noteq> expected then Inl ValueError else Inr value)"

definition read_int :: "nat \<Rightarrow> bool \<Rightarrow> bool \<Rightarrow> reader \<Rightarrow> py_error + val \<times> reader" where
  "read_int n is_signed big_endian r =
     (if n \<notin> {8, 16, 32} then Inl ValueError
      else bind_result (read_bytes (n div 8) r) (\<lambda>(bs, r). Inr (VInt (unpack_int n is_signed big_endian bs), r)))"

definition read_float :: "nat \<Rightarrow> reader \<Rightarrow> py_error + val \<times> reader" where
  "read_float n r =
     (if n \<notin> {32, 64} then Inl ValueError
      else bind_result (read_bytes (n div 8) r) (\<lambda>(bs, r). Inr (VFloat bs, r)))"

definition read_bits_field :: "nat \<Rightarrow> reader \<Rightarrow> py_error + val \<times> reader" where
  "read_bits_field n r =
     bind_result (read_bits_int_be n r) (\<lambda>(v, r). Inr (if n = 1 then VBool (v \<noteq> 0) else VInt (int v), r))"

fun read_array :: "nat \<Rightarrow> (reader \<Rightarrow> py_error + val \<times> reader) \<Rightarrow> reader \<Rightarrow> py_error + val list \<times> reader" where
  "read_array 0 f r = Inr ([], r)"
| "read_array (Suc n) f r =
     bind_result (f r) (\<lambda>(v, r). bind_result (read_array n f r) (\<lambda>(vs, r). Inr (v # vs, r)))"

lemma read_array_cong [fundef_cong]:
  "n = n' \<Longrightarrow> (\<And>s. f s = f' s) \<Longrightarrow> r = r' \<Longrightarrow> read_array n f r = read_array n' f' r'"
  by presburger

lemma bind_result_cong [fundef_cong]:
  "r = r' \<Longrightarrow> (\<And>x. r' = Inr x \<Longrightarrow> f x = f' x) \<Longrightarrow> bind_result r f = bind_result r' f'"
  by (cases r') (simp_all add: bind_result_def)

lemma switch_target_size:
  "switch_target key cases dflt = Some t \<Longrightarrow>
     size t < Suc (size_list (size_prod (\<lambda>_. 0) size) cases + size_option size dflt)"
proof -
  assume "switch_target key cases dflt = Some t"
  then consider k where "(k, t) \<in> set cases" | "dflt = Some t"
    by (auto simp: switch_target_def split: option.splits dest: map_of_SomeD)
  then show ?thesis
  proof cases
    case 1
    then have "size_prod (\<lambda>_. 0) size (k, t) \<le> size_list (size_prod (\<lambda>_. 0) size) cases"
      by (rule size_list_estimation') simp
    then show ?thesis by simp
  qed simp
qed

text \<open>
  \<open>parse_field\<close> takes the object under construction, whose attributes the selectors and counts
  refer to; the fields of a structure are read in order and become its attributes. A count or
  length that is no number raises a type error.
\<close>

function parse_field :: "field_type \<Rightarrow> val \<Rightarrow> reader \<Rightarrow> py_error + val \<times> reader"
  and parse_fields :: "string \<Rightarrow> (string \<times> field_type) list \<Rightarrow> (string \<times> val) list \<Rightarrow> reader \<Rightarrow> py_error + val \<times> reader" where
  "parse_field (ConstType base expected) obj r =
     bind_result (parse_field base obj r) (\<lambda>(value, r).
       bind_result (check_const expected value) (\<lambda>value. Inr (value, r)))"
| "parse_field (EnumType base members) obj r =
     bind_result (parse_field base obj r) (\<lambda>(raw, r). Inr (enum_value members raw, r))"
| "parse_field (SwitchType selector cases dflt) obj r =
     bind_result (resolve_path obj selector) (\<lambda>key.
       (case switch_target key cases dflt of
          None \<Rightarrow> Inr (VNone, r)
        | Some target \<Rightarrow> parse_field target obj r))"
| "parse_field (ArrayType element count_field) obj r =
     bind_result (resolve_path obj count_field) (\<lambda>count.
       (case num_of count of
          None \<Rightarrow> Inl TypeError
        | Some k \<Rightarrow>
            bind_result (read_array (nat k) (\<lambda>r. parse_field element obj r) r) (\<lambda>(vs, r). Inr (VList vs, r))))"
| "parse_field (SubstreamType length_field element) obj r =
     bind_result (resolve_path obj length_field) (\<lambda>len.
       (case num_of len of
          None \<Rightarrow> Inl TypeError
        | Some k \<Rightarrow>
            bind_result (read_bytes (nat k) r) (\<lambda>(data, r).
              bind_result (parse_field element obj (BinaryReader data)) (\<lambda>(v, _). Inr (v, r)))))"
| "parse_field (IntType n is_signed big_endian) obj r = read_int n is_signed big_endian r"
| "parse_field (FloatType n) obj r = read_float n r"
| "parse_field (BitsType n) obj r = read_bits_field n r"
| "parse_field (BytesType n) obj r = bind_result (read_bytes n r) (\<lambda>(bs, r). Inr (VBytes bs, r))"
| "parse_field (StructType name specs) obj r = parse_fields name specs [] r"
| "parse_fields name [] done r = Inr (VStruct name done, r)"
| "parse_fields name ((n, spec) # specs) done r =
     bind_result (parse_field spec (VStruct name done) r) (\<lambda>(value, r).
       parse_fields name specs (done @ [(n, value)]) r)"
  by pat_completeness auto

termination
  by (relation "measure (\<lambda>s. case s of Inl (t, _) \<Rightarrow> size t | Inr (_, fs, _) \<Rightarrow> size_list (size_prod (\<lambda>_. 0) size) fs)")
    (auto dest!: switch_target_size)

definition from_bytes :: "field_type \<Rightarrow> octets \<Rightarrow> py_error + val" where
  "from_bytes cls data = bind_result (parse_field cls VNone (BinaryReader data)) (\<lambda>(v, _). Inr v)"


subsection \<open>The bits of the data\<close>

definition byte_bits :: "octet \<Rightarrow> bool list" where
  "byte_bits b = map (\<lambda>i. bit b (7 - i)) [0..<8]"

definition bits_of :: "octets \<Rightarrow> bool list" where
  "bits_of data = concat (map byte_bits data)"

definition bits_val :: "bool list \<Rightarrow> nat" where
  "bits_val bs = horner_sum of_bool 2 (rev bs)"

definition bit_slice :: "octets \<Rightarrow> nat \<Rightarrow> nat \<Rightarrow> nat" where
  "bit_slice data off n = bits_val (take n (drop off (bits_of data)))"

lemma length_byte_bits [simp]: "length (byte_bits b) = 8"
  by (simp add: byte_bits_def)

lemma bits_of_simps [simp]: "bits_of [] = []" "bits_of (b # bs) = byte_bits b @ bits_of bs" "bits_of (xs @ ys) = bits_of xs @ bits_of ys"
  by (simp_all add: bits_of_def)

lemma length_bits_of [simp]: "length (bits_of data) = 8 * length data"
  by (induction data) simp_all

lemma bits_val_Nil [simp]: "bits_val [] = 0"
  by (simp add: bits_val_def)

lemma bits_val_append: "bits_val (xs @ ys) = bits_val xs * 2 ^ length ys + bits_val ys"
  by (simp add: bits_val_def horner_sum_append)

lemma bits_val_less: "bits_val bs < 2 ^ length bs"
proof (induction bs)
  case (Cons b bs)
  then show ?case using bits_val_append [of "[b]" bs] by (cases b) (simp_all add: bits_val_def)
qed simp

lemma byte_slice:
  assumes "p + k \<le> 8"
  shows "bits_val (take k (drop p (byte_bits b))) = drop_bit (8 - p - k) (unat b) AND mask k"
proof -
  let ?w = "drop_bit (8 - p - k) b"
  have "rev (take k (drop p (byte_bits b))) = map (bit ?w) [0..<k]"
    using assms by (intro nth_equalityI) (auto simp: byte_bits_def rev_nth bit_drop_bit_eq intro!: arg_cong [where f = "bit b"])
  moreover have "bit (unat ?w) = bit ?w" by (rule ext) (simp add: bit_unsigned_iff)
  ultimately have "bits_val (take k (drop p (byte_bits b))) = horner_sum of_bool 2 (map (bit (unat ?w)) [0..<k])"
    by (simp add: bits_val_def)
  then show ?thesis by (simp add: horner_sum_bit_eq_take_bit unat_drop_bit_eq take_bit_eq_mask)
qed

lemma bits_of_nth_byte:
  "i < length data \<Longrightarrow> drop (8 * i) (bits_of data) = byte_bits (data ! i) @ drop (8 * Suc i) (bits_of data)"
proof (induction data arbitrary: i)
  case (Cons b data)
  then show ?case by (cases i) (simp_all add: drop_append)
qed simp

lemma slice_append:
  assumes "off + m + n \<le> 8 * length data"
  shows "bit_slice data off (m + n) = bit_slice data off m * 2 ^ n + bit_slice data (off + m) n"
proof -
  have "take (m + n) (drop off (bits_of data)) = take m (drop off (bits_of data)) @ take n (drop (off + m) (bits_of data))"
    by (simp add: take_add add.commute)
  with assms show ?thesis by (simp add: bit_slice_def bits_val_append)
qed

lemma slice_in_byte:
  assumes "i < length data" "p + k \<le> 8"
  shows "bit_slice data (8 * i + p) k = drop_bit (8 - p - k) (unat (data ! i)) AND mask k"
proof -
  have "drop (8 * i + p) (bits_of data) = drop p (drop (8 * i) (bits_of data))" by (simp add: add.commute)
  then have "take k (drop (8 * i + p) (bits_of data)) = take k (drop p (byte_bits (data ! i)))"
    using assms by (simp add: bits_of_nth_byte)
  then show ?thesis using byte_slice [OF assms(2)] by (simp add: bit_slice_def)
qed

lemma push_or: "x < 2 ^ k \<Longrightarrow> push_bit k a OR x = a * 2 ^ k + x" for a x :: nat
proof -
  assume "x < 2 ^ k"
  then have "x = take_bit k x" by (simp add: take_bit_nat_eq_self)
  then have "\<not> bit x n" if "k \<le> n" for n using that by (metis bit_take_bit_iff not_le)
  then have "push_bit k a AND x = 0" by (intro bit_eqI) (auto simp: bit_and_iff bit_push_bit_iff)
  then show ?thesis by (simp add: disjunctive_add_eq_or [symmetric] push_bit_eq_mult)
qed


text \<open>
  The position of a reader as a number of bits, and the position after the next bits. The loop
  over the bytes reads exactly the bits between them, or runs out of data.
\<close>

definition bit_offset :: "reader \<Rightarrow> nat" where
  "bit_offset r = 8 * rd_pos r + rd_bit_pos r"

definition at_bit :: "octets \<Rightarrow> nat \<Rightarrow> reader" where
  "at_bit data off = \<lparr>rd_data = data, rd_pos = off div 8, rd_bit_pos = off mod 8\<rparr>"

lemma at_bit_simps [simp]:
  "rd_data (at_bit data off) = data" "rd_pos (at_bit data off) = off div 8" "rd_bit_pos (at_bit data off) = off mod 8"
  by (simp_all add: at_bit_def)

lemma BinaryReader_at_bit: "BinaryReader data = at_bit data 0"
  by (simp add: BinaryReader_def at_bit_def)

lemma next_at_bit:
  assumes "off mod 8 + k \<le> 8"
  shows "(if off mod 8 + k \<ge> 8 then (at_bit data off)\<lparr>rd_bit_pos := 0, rd_pos := off div 8 + 1\<rparr>
     else (at_bit data off)\<lparr>rd_bit_pos := off mod 8 + k\<rparr>) = at_bit data (off + k)"
proof -
  obtain q m where off: "off = 8 * q + m" "m < 8" by (metis mod_less_divisor mult_div_mod_eq zero_less_numeral)
  then have m: "off mod 8 = m" "off div 8 = q" by simp_all
  show ?thesis
  proof (cases "m + k = 8")
    case True
    then have "off + k = 8 * (q + 1)" using off by simp
    then show ?thesis using True m by (simp add: at_bit_def)
  next
    case False
    then have "m + k < 8" using assms m by simp
    then have "(8 * q + (m + k)) div 8 = q" "(8 * q + (m + k)) mod 8 = m + k" by (simp_all only: div_mult_self4 mod_mult_self4) simp_all
    then show ?thesis using False assms m off(1) by (simp add: at_bit_def add.assoc)
  qed
qed

lemma read_bits_loop_at_bit:
  "read_bits_loop n res (at_bit data off) =
     (if n = 0 \<or> off + n \<le> 8 * length data then Inr (res * 2 ^ n + bit_slice data off n, at_bit data (off + n)) else Inl EOFError)"
proof (induction n arbitrary: res off rule: less_induct)
  case (less n)
  let ?p = "off mod 8" and ?i = "off div 8"
  define k where "k = min n (8 - ?p)"
  have off: "off = 8 * ?i + ?p" "?p < 8" by simp_all
  consider "n = 0" | "n > 0" "?i \<ge> length data" | "n > 0" "?i < length data" by linarith
  then show ?case
  proof cases
    case 1
    then show ?thesis by (simp add: read_bits_loop.simps bit_slice_def)
  next
    case 2
    then have "\<not> off + n \<le> 8 * length data" using off by linarith
    with 2 show ?thesis by (simp add: read_bits_loop.simps)
  next
    case 3
    have k: "0 < k" "k \<le> n" "?p + k \<le> 8" using 3(1) off(2) by (auto simp: k_def)
    have sl: "bit_slice data off k = drop_bit (8 - ?p - k) (unat (data ! ?i)) AND mask k"
      using slice_in_byte [OF 3(2) k(3)] by (simp flip: off(1))
    then have small: "bit_slice data off k < 2 ^ k" by (simp add: take_bit_eq_mask [symmetric])
    have ok8: "\<not> 8 < ?p" using less_imp_le [OF off(2)] by (simp only: not_less)
    have po: "push_bit k res OR (drop_bit (8 - ?p - k) (unat (data ! ?i)) AND mask k) = res * 2 ^ k + bit_slice data off k"
      using push_or [OF small, of res] by (simp only: sl)
    have "read_bits_loop n res (at_bit data off) = read_bits_loop (n - k) (res * 2 ^ k + bit_slice data off k) (at_bit data (off + k))"
      by (subst read_bits_loop.simps, simp only: k_def [symmetric] Let_def at_bit_simps po next_at_bit [OF k(3)]) (use 3 ok8 in simp)
    also have "\<dots> = (if n - k = 0 \<or> off + k + (n - k) \<le> 8 * length data
        then Inr ((res * 2 ^ k + bit_slice data off k) * 2 ^ (n - k) + bit_slice data (off + k) (n - k), at_bit data (off + k + (n - k)))
        else Inl EOFError)" using less.IH [of "n - k"] k by simp
    also have "\<dots> = (if n = 0 \<or> off + n \<le> 8 * length data then Inr (res * 2 ^ n + bit_slice data off n, at_bit data (off + n)) else Inl EOFError)"
    proof -
      have "off + k \<le> 8 * length data" using 3(2) k(3) off(1) by linarith
      moreover have "bit_slice data off n = bit_slice data off k * 2 ^ (n - k) + bit_slice data (off + k) (n - k)" if "off + n \<le> 8 * length data"
        using slice_append [of off k "n - k" data] that k(2) by simp
      moreover have "(2::nat) ^ n = 2 ^ k * 2 ^ (n - k)" using k(2) by (simp flip: power_add)
      ultimately show ?thesis using k by (auto simp: algebra_simps)
    qed
    finally show ?thesis .
  qed
qed


lemma be_bytes_snoc: "be_bytes (bs @ [b]) = 256 * be_bytes bs + unat b"
  by (simp add: be_bytes_def)

lemma bits_val_byte: "bits_val (byte_bits b) = unat b"
proof -
  have "unat b < 2 ^ 8" using unsigned_less [of b, where 'a = nat] by simp
  then show ?thesis using byte_slice [of 0 8 b] by (simp add: take_bit_eq_mask [symmetric] take_bit_nat_eq_self)
qed

lemma be_bytes_bits: "be_bytes bs = bits_val (bits_of bs)"
proof (induction bs rule: rev_induct)
  case Nil
  show ?case by (simp add: be_bytes_def)
next
  case (snoc b bs)
  then show ?case by (simp add: be_bytes_snoc bits_val_append bits_val_byte)
qed

lemma bits_of_drop: "bits_of (drop i data) = drop (8 * i) (bits_of data)"
proof (induction data arbitrary: i)
  case (Cons b data)
  then show ?case by (cases i) (simp_all add: drop_append)
qed simp

lemma bits_of_take: "bits_of (take m data) = take (8 * m) (bits_of data)"
proof (induction data arbitrary: m)
  case (Cons b data)
  then show ?case by (cases m) (simp_all add: take_append)
qed simp

lemma be_bytes_slice: "be_bytes (take m (drop i data)) = bit_slice data (8 * i) (8 * m)"
  by (simp add: be_bytes_bits bit_slice_def bits_of_take bits_of_drop)

text \<open>Reading bytes skips to the next byte boundary first.\<close>

definition aligned :: "nat \<Rightarrow> nat" where
  "aligned off = (off + 7) div 8"

lemma align_at_bit: "align_to_byte (at_bit data off) = at_bit data (8 * aligned off)"
proof -
  obtain q m where off: "off = 8 * q + m" "m < 8" by (metis mod_less_divisor mult_div_mod_eq zero_less_numeral)
  have "aligned off = (if m = 0 then q else q + 1)"
  proof (cases "m = 0")
    case False
    then have "off + 7 = 8 * (q + 1) + (m - 1)" "m - 1 < 8" using off by simp_all
    then show ?thesis using False by (simp only: aligned_def div_mult_self4) simp
  qed (simp add: aligned_def off)
  moreover have "off mod 8 = m" "off div 8 = q" using off by simp_all
  ultimately show ?thesis by (simp add: align_to_byte_def at_bit_def)
qed

named_theorems read_simps \<open>the reader at a known position\<close>

lemma read_bytes_at [read_simps]:
  "read_bytes n (at_bit data off) =
     (if aligned off + n \<le> length data then Inr (take n (drop (aligned off) data), at_bit data (8 * (aligned off + n))) else Inl EOFError)"
  unfolding read_bytes_def align_at_bit Let_def by (simp add: rd_require_def at_bit_def bind_result_def)

lemma read_bits_at [read_simps]:
  "read_bits_field n (at_bit data off) =
     (if n = 0 \<or> off + n \<le> 8 * length data
      then Inr (if n = 1 then VBool (bit_slice data off 1 \<noteq> 0) else VInt (int (bit_slice data off n)), at_bit data (off + n))
      else Inl EOFError)"
  by (auto simp: read_bits_field_def read_bits_int_be_def read_bits_loop_at_bit)

lemma read_int_at [read_simps]:
  "n \<in> {8, 16, 32} \<Longrightarrow> read_int n is_signed big_endian (at_bit data off) =
     (if aligned off + n div 8 \<le> length data
      then Inr (VInt (unpack_int n is_signed big_endian (take (n div 8) (drop (aligned off) data))), at_bit data (8 * (aligned off + n div 8)))
      else Inl EOFError)"
  by (simp add: read_int_def read_bytes_at)

lemma read_float_at [read_simps]:
  "n \<in> {32, 64} \<Longrightarrow> read_float n (at_bit data off) =
     (if aligned off + n div 8 \<le> length data
      then Inr (VFloat (take (n div 8) (drop (aligned off) data)), at_bit data (8 * (aligned off + n div 8)))
      else Inl EOFError)"
  by (simp add: read_float_def read_bytes_at)

lemma unpack_be [read_simps]:
  "unpack_int n is_signed True (take m (drop i data)) =
     (if is_signed then signed_of n (bit_slice data (8 * i) (8 * m)) else int (bit_slice data (8 * i) (8 * m)))"
  by (simp add: unpack_int_def be_bytes_slice Let_def)

lemma unpack_byte [read_simps]:
  "unpack_int n is_signed False (take (Suc 0) (drop i data)) =
     (if is_signed then signed_of n (bit_slice data (8 * i) 8) else int (bit_slice data (8 * i) 8))"
proof -
  have "rev (take (Suc 0) xs) = take (Suc 0) xs" for xs :: octets by (cases xs) simp_all
  then show ?thesis using be_bytes_slice [of "Suc 0" i data] by (simp add: unpack_int_def le_bytes_def Let_def)
qed

lemma bit_slice_less: "bit_slice data off n < 2 ^ n"
proof -
  have "length (take n (drop off (bits_of data))) \<le> n" by simp
  then have "(2::nat) ^ length (take n (drop off (bits_of data))) \<le> 2 ^ n" by (rule power_increasing) simp
  then show ?thesis unfolding bit_slice_def using bits_val_less order_less_le_trans by blast
qed

lemma signed_of_range: "v < 2 ^ n \<Longrightarrow> 0 < n \<Longrightarrow> - (2 ^ (n - 1)) \<le> signed_of n v \<and> signed_of n v < 2 ^ (n - 1)"
proof -
  assume v: "v < 2 ^ n" and "0 < n"
  then have "(2::int) ^ n = 2 * 2 ^ (n - 1)" by (cases n) simp_all
  moreover have "int v < 2 ^ n" using v by (metis of_nat_less_iff of_nat_numeral of_nat_power)
  moreover have "v \<ge> 2 ^ (n - 1) \<longleftrightarrow> int v \<ge> 2 ^ (n - 1)" by (metis of_nat_le_iff of_nat_numeral of_nat_power)
  ultimately show ?thesis by (auto simp: signed_of_def)
qed

text \<open>
  C32. Bit fields are read as they are written. Reading \<open>n\<close> bits, byte by byte with shifts and masks,
  gives the number that the next \<open>n\<close> bits of the data spell, most significant first, and leaves
  the reader behind them; the read fails exactly when the data ends before.
\<close>

theorem bits_read_as_written:
  assumes "rd_bit_pos r < 8"
  shows "read_bits_int_be n r =
     (if n = 0 \<or> bit_offset r + n \<le> 8 * length (rd_data r)
      then Inr (bits_val (take n (drop (bit_offset r) (bits_of (rd_data r)))), at_bit (rd_data r) (bit_offset r + n))
      else Inl EOFError)"
proof -
  have "r = at_bit (rd_data r) (bit_offset r)" using assms by (simp add: at_bit_def bit_offset_def)
  then show ?thesis using read_bits_loop_at_bit [of n 0 "rd_data r" "bit_offset r"] by (simp add: read_bits_int_be_def bit_slice_def)
qed

theorem bits_read_as_written_witness:
  "read_bits_int_be 7 \<lparr>rd_data = [0xB5, 0x62], rd_pos = 0, rd_bit_pos = 5\<rparr> =
     Inr (bits_val [True, False, True, False, True, True, False], \<lparr>rd_data = [0xB5, 0x62], rd_pos = 1, rd_bit_pos = 4\<rparr>)"
  using bits_read_as_written [of "\<lparr>rd_data = [0xB5, 0x62], rd_pos = 0, rd_bit_pos = 5\<rparr>" 7]
  by (simp add: bit_offset_def at_bit_def byte_bits_def upt_rec)

end
