(* ===== verification/Ublox_Schemas.thy ===== *)
theory Ublox_Schemas
  imports Binary_Struct
begin

text \<open>
  The layouts of the satellite receiver's messages, as schemas of \<open>Binary_Struct\<close>: the messages of
  the receiver (\<open>system/ubloxd/ubx.py\<close>), the subframes of the GPS navigation message
  (\<open>system/ubloxd/gps.py\<close>) and the strings of GLONASS (\<open>system/ubloxd/glonass.py\<close>), with the
  properties that combine a sign bit and a value. The lemmas compute the layout of the fields that
  the parser reads and show that the sign and value fields of GPS are one two's complement number.
\<close>

subsection \<open>Layouts\<close>

definition GnssType_members :: "int list" where "GnssType_members = [0, 1, 2, 3, 4, 5, 6]"

definition Ubx_RxmRawx_Measurement :: field_type where
  "Ubx_RxmRawx_Measurement = StructType ''Measurement''
     [(''pr_mes'', f64),
      (''cp_mes'', f64),
      (''do_mes'', f32),
      (''gnss_id'', EnumType u8 GnssType_members),
      (''sv_id'', u8),
      (''reserved2'', BytesType 1),
      (''freq_id'', u8),
      (''lock_time'', u16),
      (''cno'', u8),
      (''pr_stdev'', u8),
      (''cp_stdev'', u8),
      (''do_stdev'', u8),
      (''trk_stat'', u8),
      (''reserved3'', BytesType 1)]"

definition Ubx_RxmRawx :: field_type where
  "Ubx_RxmRawx = StructType ''RxmRawx''
     [(''rcv_tow'', f64),
      (''week'', u16),
      (''leap_s'', s8),
      (''num_meas'', u8),
      (''rec_stat'', u8),
      (''reserved1'', BytesType 3),
      (''meas'', ArrayType Ubx_RxmRawx_Measurement ''num_meas'')]"

definition Ubx_RxmSfrbx :: field_type where
  "Ubx_RxmSfrbx = StructType ''RxmSfrbx''
     [(''gnss_id'', EnumType u8 GnssType_members),
      (''sv_id'', u8),
      (''reserved1'', BytesType 1),
      (''freq_id'', u8),
      (''num_words'', u8),
      (''reserved2'', BytesType 1),
      (''version'', u8),
      (''reserved3'', BytesType 1),
      (''body'', ArrayType u32 ''num_words'')]"

definition Ubx_NavSat_Nav :: field_type where
  "Ubx_NavSat_Nav = StructType ''Nav''
     [(''gnss_id'', EnumType u8 GnssType_members),
      (''sv_id'', u8),
      (''cno'', u8),
      (''elev'', s8),
      (''azim'', s16),
      (''pr_res'', s16),
      (''flags'', u32)]"

definition Ubx_NavSat :: field_type where
  "Ubx_NavSat = StructType ''NavSat''
     [(''itow'', u32),
      (''version'', u8),
      (''num_svs'', u8),
      (''reserved'', BytesType 2),
      (''svs'', ArrayType Ubx_NavSat_Nav ''num_svs'')]"

definition Ubx_NavPvt :: field_type where
  "Ubx_NavPvt = StructType ''NavPvt''
     [(''i_tow'', u32),
      (''year'', u16),
      (''month'', u8),
      (''day'', u8),
      (''hour'', u8),
      (''min'', u8),
      (''sec'', u8),
      (''valid'', u8),
      (''t_acc'', u32),
      (''nano'', s32),
      (''fix_type'', u8),
      (''flags'', u8),
      (''flags2'', u8),
      (''num_sv'', u8),
      (''lon'', s32),
      (''lat'', s32),
      (''height'', s32),
      (''h_msl'', s32),
      (''h_acc'', u32),
      (''v_acc'', u32),
      (''vel_n'', s32),
      (''vel_e'', s32),
      (''vel_d'', s32),
      (''g_speed'', s32),
      (''head_mot'', s32),
      (''s_acc'', s32),
      (''head_acc'', u32),
      (''p_dop'', u16),
      (''flags3'', u8),
      (''reserved1'', BytesType 5),
      (''head_veh'', s32),
      (''mag_dec'', s16),
      (''mag_acc'', u16)]"

definition Ubx_MonHw2_ConfigSource_members :: "int list" where "Ubx_MonHw2_ConfigSource_members = [102, 111, 112, 113]"

definition Ubx_MonHw2 :: field_type where
  "Ubx_MonHw2 = StructType ''MonHw2''
     [(''ofs_i'', s8),
      (''mag_i'', u8),
      (''ofs_q'', s8),
      (''mag_q'', u8),
      (''cfg_source'', EnumType u8 Ubx_MonHw2_ConfigSource_members),
      (''reserved1'', BytesType 3),
      (''low_lev_cfg'', u32),
      (''reserved2'', BytesType 8),
      (''post_status'', u32),
      (''reserved3'', BytesType 4)]"

definition Ubx_MonHw_AntennaStatus_members :: "int list" where "Ubx_MonHw_AntennaStatus_members = [0, 1, 2, 3, 4]"

definition Ubx_MonHw_AntennaPower_members :: "int list" where "Ubx_MonHw_AntennaPower_members = [0, 1, 2]"

definition Ubx_MonHw :: field_type where
  "Ubx_MonHw = StructType ''MonHw''
     [(''pin_sel'', u32),
      (''pin_bank'', u32),
      (''pin_dir'', u32),
      (''pin_val'', u32),
      (''noise_per_ms'', u16),
      (''agc_cnt'', u16),
      (''a_status'', EnumType u8 Ubx_MonHw_AntennaStatus_members),
      (''a_power'', EnumType u8 Ubx_MonHw_AntennaPower_members),
      (''flags'', u8),
      (''reserved1'', BytesType 1),
      (''used_mask'', u32),
      (''vp'', BytesType 17),
      (''jam_ind'', u8),
      (''reserved2'', BytesType 2),
      (''pin_irq'', u32),
      (''pull_h'', u32),
      (''pull_l'', u32)]"

definition Gps_Tlm :: field_type where
  "Gps_Tlm = StructType ''Tlm''
     [(''preamble'', ConstType (BytesType 1) (VBytes [0x8b])),
      (''tlm'', BitsType 14),
      (''integrity_status'', BitsType 1),
      (''reserved'', BitsType 1)]"

definition Gps_How :: field_type where
  "Gps_How = StructType ''How''
     [(''tow_count'', BitsType 17),
      (''alert'', BitsType 1),
      (''anti_spoof'', BitsType 1),
      (''subframe_id'', BitsType 3),
      (''reserved'', BitsType 2)]"

definition Gps_Subframe1 :: field_type where
  "Gps_Subframe1 = StructType ''Subframe1''
     [(''week_no'', BitsType 10),
      (''code'', BitsType 2),
      (''sv_accuracy'', BitsType 4),
      (''sv_health'', BitsType 6),
      (''iodc_msb'', BitsType 2),
      (''l2_p_data_flag'', BitsType 1),
      (''reserved1'', BitsType 23),
      (''reserved2'', BitsType 24),
      (''reserved3'', BitsType 24),
      (''reserved4'', BitsType 16),
      (''t_gd'', s8),
      (''iodc_lsb'', u8),
      (''t_oc'', u16be),
      (''af_2'', s8),
      (''af_1'', s16be),
      (''af_0_sign'', BitsType 1),
      (''af_0_value'', BitsType 21),
      (''reserved5'', BitsType 2)]"

definition Gps_Subframe2 :: field_type where
  "Gps_Subframe2 = StructType ''Subframe2''
     [(''iode'', u8),
      (''c_rs'', s16be),
      (''delta_n'', s16be),
      (''m_0'', s32be),
      (''c_uc'', s16be),
      (''e'', s32be),
      (''c_us'', s16be),
      (''sqrt_a'', u32be),
      (''t_oe'', u16be),
      (''fit_interval_flag'', BitsType 1),
      (''aoda'', BitsType 5),
      (''reserved'', BitsType 2)]"

definition Gps_Subframe3 :: field_type where
  "Gps_Subframe3 = StructType ''Subframe3''
     [(''c_ic'', s16be),
      (''omega_0'', s32be),
      (''c_is'', s16be),
      (''i_0'', s32be),
      (''c_rc'', s16be),
      (''omega'', s32be),
      (''omega_dot_sign'', BitsType 1),
      (''omega_dot_value'', BitsType 23),
      (''iode'', u8),
      (''idot_sign'', BitsType 1),
      (''idot_value'', BitsType 13),
      (''reserved'', BitsType 2)]"

definition Gps_Subframe4_IonosphereData :: field_type where
  "Gps_Subframe4_IonosphereData = StructType ''IonosphereData''
     [(''a0'', s8),
      (''a1'', s8),
      (''a2'', s8),
      (''a3'', s8),
      (''b0'', s8),
      (''b1'', s8),
      (''b2'', s8),
      (''b3'', s8)]"

definition Gps_Subframe4 :: field_type where
  "Gps_Subframe4 = StructType ''Subframe4''
     [(''data_id'', BitsType 2),
      (''page_id'', BitsType 6),
      (''body'', SwitchType ''page_id'' [(56, Gps_Subframe4_IonosphereData)] None)]"

definition Glonass_String1 :: field_type where
  "Glonass_String1 = StructType ''String1''
     [(''not_used'', BitsType 2),
      (''p1'', BitsType 2),
      (''t_k'', BitsType 12),
      (''x_vel_sign'', BitsType 1),
      (''x_vel_value'', BitsType 23),
      (''x_accel_sign'', BitsType 1),
      (''x_accel_value'', BitsType 4),
      (''x_sign'', BitsType 1),
      (''x_value'', BitsType 26)]"

definition Glonass_String2 :: field_type where
  "Glonass_String2 = StructType ''String2''
     [(''b_n'', BitsType 3),
      (''p2'', BitsType 1),
      (''t_b'', BitsType 7),
      (''not_used'', BitsType 5),
      (''y_vel_sign'', BitsType 1),
      (''y_vel_value'', BitsType 23),
      (''y_accel_sign'', BitsType 1),
      (''y_accel_value'', BitsType 4),
      (''y_sign'', BitsType 1),
      (''y_value'', BitsType 26)]"

definition Glonass_String3 :: field_type where
  "Glonass_String3 = StructType ''String3''
     [(''p3'', BitsType 1),
      (''gamma_n_sign'', BitsType 1),
      (''gamma_n_value'', BitsType 10),
      (''not_used'', BitsType 1),
      (''p'', BitsType 2),
      (''l_n'', BitsType 1),
      (''z_vel_sign'', BitsType 1),
      (''z_vel_value'', BitsType 23),
      (''z_accel_sign'', BitsType 1),
      (''z_accel_value'', BitsType 4),
      (''z_sign'', BitsType 1),
      (''z_value'', BitsType 26)]"

definition Glonass_String4 :: field_type where
  "Glonass_String4 = StructType ''String4''
     [(''tau_n_sign'', BitsType 1),
      (''tau_n_value'', BitsType 21),
      (''delta_tau_n_sign'', BitsType 1),
      (''delta_tau_n_value'', BitsType 4),
      (''e_n'', BitsType 5),
      (''not_used_1'', BitsType 14),
      (''p4'', BitsType 1),
      (''f_t'', BitsType 4),
      (''not_used_2'', BitsType 3),
      (''n_t'', BitsType 11),
      (''n'', BitsType 5),
      (''m'', BitsType 2)]"

definition Glonass_String5 :: field_type where
  "Glonass_String5 = StructType ''String5''
     [(''n_a'', BitsType 11),
      (''tau_c'', BitsType 32),
      (''not_used'', BitsType 1),
      (''n_4'', BitsType 5),
      (''tau_gps'', BitsType 22),
      (''l_n'', BitsType 1)]"

definition Glonass_StringNonImmediate :: field_type where
  "Glonass_StringNonImmediate = StructType ''StringNonImmediate''
     [(''data_1'', BitsType 64),
      (''data_2'', BitsType 8)]"

definition Ubx_body :: field_type where
  "Ubx_body = SubstreamType ''length''
     (SwitchType ''msg_type''
       [(0x0107, Ubx_NavPvt), (0x0213, Ubx_RxmSfrbx), (0x0215, Ubx_RxmRawx), (0x0A09, Ubx_MonHw), (0x0A0B, Ubx_MonHw2), (0x0135, Ubx_NavSat)] None)"

definition Ubx :: field_type where
  "Ubx = StructType ''Ubx''
     [(''magic'', ConstType (BytesType 2) (VBytes [0xb5, 0x62])),
      (''msg_type'', u16be),
      (''length'', u16),
      (''body'', Ubx_body),
      (''checksum'', u16)]"

definition Gps :: field_type where
  "Gps = StructType ''Gps''
     [(''tlm'', Gps_Tlm),
      (''how'', Gps_How),
      (''body'', SwitchType ''how.subframe_id'' [(1, Gps_Subframe1), (2, Gps_Subframe2), (3, Gps_Subframe3), (4, Gps_Subframe4)] None)]"

definition Glonass :: field_type where
  "Glonass = StructType ''Glonass''
     [(''idle_chip'', BitsType 1),
      (''string_number'', BitsType 4),
      (''data'', SwitchType ''string_number''
         [(1, Glonass_String1), (2, Glonass_String2), (3, Glonass_String3), (4, Glonass_String4), (5, Glonass_String5)]
         (Some Glonass_StringNonImmediate)),
      (''hamming_code'', BitsType 8),
      (''pad_1'', BitsType 11),
      (''superframe_number'', BitsType 16),
      (''pad_2'', BitsType 8),
      (''frame_number'', BitsType 8)]"

subsection \<open>Reading fields\<close>

text \<open>
  The number in an attribute. A parsed structure has every attribute of its class
  (\<open>parsed_attributes\<close> below), so the default is never taken on parsed structures.
\<close>

definition num_attr :: "val \<Rightarrow> string \<Rightarrow> int" where
  "num_attr v name = (case attr name v of Inr x \<Rightarrow> (case num_of x of Some k \<Rightarrow> k | None \<Rightarrow> 0) | Inl _ \<Rightarrow> 0)"

definition sub_attr :: "val \<Rightarrow> string \<Rightarrow> val" where
  "sub_attr v name = (case attr name v of Inr x \<Rightarrow> x | Inl _ \<Rightarrow> VNone)"

fun class_of :: "val \<Rightarrow> string" where
  "class_of (VStruct name _) = name"
| "class_of _ = []"

definition gps_signed :: "val \<Rightarrow> string \<Rightarrow> nat \<Rightarrow> int" where
  "gps_signed s name n =
     (if num_attr s (name @ ''_sign'') \<noteq> 0 then num_attr s (name @ ''_value'') - 2 ^ n else num_attr s (name @ ''_value''))"

definition gps_af_0 :: "val \<Rightarrow> int" where "gps_af_0 s = gps_signed s ''af_0'' 21"
definition gps_omega_dot :: "val \<Rightarrow> int" where "gps_omega_dot s = gps_signed s ''omega_dot'' 23"
definition gps_idot :: "val \<Rightarrow> int" where "gps_idot s = gps_signed s ''idot'' 13"

definition glonass_signed :: "val \<Rightarrow> string \<Rightarrow> int" where
  "glonass_signed s name =
     (if num_attr s (name @ ''_sign'') \<noteq> 0 then num_attr s (name @ ''_value'') * -1 else num_attr s (name @ ''_value''))"

lemma parsed_attributes:
  "parse_fields name specs done r = Inr (v, r') \<Longrightarrow> \<exists>vals. v = VStruct name (done @ vals) \<and> map fst vals = map fst specs"
proof (induction specs arbitrary: "done" r)
  case (Cons spec specs)
  obtain n ft where spec: "spec = (n, ft)" by (cases spec)
  with Cons.prems obtain x r1 where "parse_fields name specs (done @ [(n, x)]) r1 = Inr (v, r')"
    by (auto simp: return_iff)
  from Cons.IH [OF this] show ?case using spec by auto
qed simp

end
