(* ===== verification/Ubloxd.thy ===== *)
theory Ubloxd
  imports Ublox_Schemas "HOL-Library.AList" "HOL-Library.Sublist"
begin

text \<open>
  The process that turns the bytes of the satellite receiver into messages,
  \<open>system/ubloxd/ubloxd.py\<close>: the framer, the caches of GPS subframes and GLONASS strings from which
  ephemerides are assembled, the other messages, and the loop. The integer fields of the published
  messages are taken as they are (the ranges of the message schema are not modelled); floating
  point fields that are copied keep their bytes, those that are scaled are real numbers.

  The lemmas show what the framer lets through and that a clean stream arrives frame by frame
  however it is cut, and that an ephemeris is assembled from one issue of data only.
\<close>

unbundle bit_operations_syntax

subsection \<open>Framing\<close>

record ubx_framer =
  fr_buf :: octets
  fr_last_log_time :: real

definition UbxFramer :: ubx_framer where
  "UbxFramer = \<lparr>fr_buf = [], fr_last_log_time = 0\<rparr>"

definition framer_reset :: "ubx_framer \<Rightarrow> ubx_framer" where
  "framer_reset f = f\<lparr>fr_buf := []\<rparr>"

definition HEADER_SIZE :: nat where "HEADER_SIZE = 6"
definition CHECKSUM_SIZE :: nat where "CHECKSUM_SIZE = 2"

definition checksum_step :: "octet \<times> octet \<Rightarrow> octet \<Rightarrow> octet \<times> octet" where
  "checksum_step ck b = (let ck_a = fst ck + b in (ck_a, snd ck + ck_a))"

definition checksum :: "octets \<Rightarrow> octet \<times> octet" where
  "checksum bs = foldl checksum_step (0, 0) bs"

text \<open>\<open>frame[2:-2]\<close> of a frame of at least four bytes; the frames that are checked have at least eight.\<close>

definition checksum_ok :: "octets \<Rightarrow> bool" where
  "checksum_ok frame =
     (checksum (take (length frame - 4) (drop 2 frame)) = (frame ! (length frame - 2), frame ! (length frame - 1)))"

fun find_preamble :: "octets \<Rightarrow> nat option" where
  "find_preamble (a # b # bs) = (if a = 0xB5 \<and> b = 0x62 then Some 0 else map_option Suc (find_preamble (b # bs)))"
| "find_preamble _ = None"

definition total_len :: "octets \<Rightarrow> nat" where
  "total_len buf = HEADER_SIZE + le_bytes (take 2 (drop 4 buf)) + CHECKSUM_SIZE"

function framer_loop :: "octets \<Rightarrow> octets list \<times> octets" where
  "framer_loop buf =
     (if length buf < 2 then ([], buf)
      else (case find_preamble buf of
              None \<Rightarrow> ([], [])
            | Some start \<Rightarrow>
                (let buf = drop start buf
                 in if length buf < HEADER_SIZE then ([], buf)
                    else if length buf < total_len buf then ([], buf)
                    else let candidate = take (total_len buf) buf
                         in if checksum_ok candidate
                            then (case framer_loop (drop (total_len buf) buf) of (out, buf) \<Rightarrow> (candidate # out, buf))
                            else framer_loop (drop 1 buf))))"
  by pat_completeness auto
termination
  by (relation "measure length") (auto simp: total_len_def HEADER_SIZE_def)

declare framer_loop.simps [simp del]

definition add_data :: "real \<Rightarrow> octets \<Rightarrow> ubx_framer \<Rightarrow> octets list \<times> ubx_framer" where
  "add_data log_time incoming f =
     (let f = f\<lparr>fr_last_log_time := log_time\<rparr>
      in if incoming = [] then ([], f)
         else (case framer_loop (fr_buf f @ incoming) of (out, buf) \<Rightarrow> (out, f\<lparr>fr_buf := buf\<rparr>)))"

subsection \<open>Messages\<close>

record gps_location =
  gl_flags :: int
  gl_hasFix :: bool
  gl_latitude :: real
  gl_longitude :: real
  gl_altitude :: real
  gl_speed :: real
  gl_bearingDeg :: real
  gl_horizontalAccuracy :: real
  gl_satelliteCount :: int
  gl_unixTimestampMillis :: int
  gl_vNED :: "real list"
  gl_verticalAccuracy :: real
  gl_speedAccuracy :: real
  gl_bearingAccuracyDeg :: real

record gps_ephemeris =
  ep_svId :: int
  ep_tgd :: real
  ep_toc :: real
  ep_af2 :: real
  ep_af1 :: real
  ep_af0 :: real
  ep_svHealth :: int
  ep_towCount :: int
  ep_crs :: real
  ep_deltaN :: real
  ep_m0 :: real
  ep_cuc :: real
  ep_ecc :: real
  ep_cus :: real
  ep_a :: real
  ep_toe :: real
  ep_cic :: real
  ep_omega0 :: real
  ep_cis :: real
  ep_i0 :: real
  ep_crc :: real
  ep_omega :: real
  ep_omegaDot :: real
  ep_iode :: int
  ep_iDot :: real
  ep_toeWeek :: int
  ep_tocWeek :: int

record glonass_ephemeris =
  ge_svId :: int
  ge_freqNum :: int
  ge_p1 :: int
  ge_tk :: int
  ge_xVel :: real
  ge_xAccel :: real
  ge_x :: real
  ge_svHealth :: int
  ge_p2 :: int
  ge_tb :: int
  ge_yVel :: real
  ge_yAccel :: real
  ge_y :: real
  ge_p3 :: int
  ge_gammaN :: real
  ge_zVel :: real
  ge_zAccel :: real
  ge_z :: real
  ge_nt :: int
  ge_tauN :: real
  ge_deltaTauN :: real
  ge_age :: int
  ge_p4 :: int
  ge_svURA :: real
  ge_svType :: int
  ge_n4 :: int
  ge_tkSeconds :: int

record raw_measurement =
  rm_svId :: int
  rm_pseudorange :: val
  rm_carrierCycles :: val
  rm_doppler :: val
  rm_gnssId :: int
  rm_glonassFrequencyIndex :: int
  rm_locktime :: int
  rm_cno :: int
  rm_pseudorangeStdev :: real
  rm_carrierPhaseStdev :: real
  rm_dopplerStdev :: real
  rm_trackingStatus :: "bool list"

record measurement_report =
  mr_rcvTow :: val
  mr_gpsWeek :: int
  mr_leapSeconds :: int
  mr_measurements :: "raw_measurement list"
  mr_numMeas :: int
  mr_leapSecValid :: bool
  mr_clkReset :: bool

record sat_info =
  sv_svId :: int
  sv_gnssId :: int
  sv_flagsBitfield :: int
  sv_cno :: int
  sv_elevationDeg :: int
  sv_azimuthDeg :: int
  sv_pseudorangeResidual :: real

record hw_status =
  hs_noisePerMS :: int
  hs_flags :: int
  hs_agcCnt :: int
  hs_aStatus :: int
  hs_aPower :: int
  hs_jamInd :: int

record hw_status2 =
  h2_ofsI :: int
  h2_magI :: int
  h2_ofsQ :: int
  h2_magQ :: int
  h2_cfgSource :: int
  h2_lowLevCfg :: int
  h2_postStatus :: int

datatype ublox_msg =
    GpsLocationExternal gps_location
  | GpsEphemeris gps_ephemeris
  | GlonassEphemeris glonass_ephemeris
  | MeasurementReport measurement_report
  | SatReport int "sat_info list"
  | HwStatus hw_status
  | HwStatus2 hw_status2


subsection \<open>GPS ephemerides\<close>

record ublox_parser =
  up_framer :: ubx_framer
  gps_subframes :: "int \<Rightarrow> (int \<times> octets) list"
  glonass_strings :: "int \<Rightarrow> (int \<times> octets) list"
  glonass_string_times :: "int \<Rightarrow> (int \<times> real) list"
  glonass_string_superframes :: "int \<Rightarrow> (int \<times> int) list"

definition UbloxMsgParser :: ublox_parser where
  "UbloxMsgParser = \<lparr>up_framer = UbxFramer, gps_subframes = (\<lambda>_. []), glonass_strings = (\<lambda>_. []),
     glonass_string_times = (\<lambda>_. []), glonass_string_superframes = (\<lambda>_. [])\<rparr>"

definition gpsPi :: real where "gpsPi = 3.1415926535898"

definition SECS_IN_MIN :: int where "SECS_IN_MIN = 60"
definition SECS_IN_HR :: int where "SECS_IN_HR = 60 * SECS_IN_MIN"
definition SECS_IN_DAY :: int where "SECS_IN_DAY = 24 * SECS_IN_HR"
definition SECS_IN_WEEK :: int where "SECS_IN_WEEK = 7 * SECS_IN_DAY"

definition gps_word_bytes :: "nat \<Rightarrow> octets" where
  "gps_word_bytes word = (let word = drop_bit 6 word in [word_of_nat (drop_bit 16 word), word_of_nat (drop_bit 8 word), word_of_nat word])"

definition gps_subframe_data :: "nat list \<Rightarrow> octets" where
  "gps_subframe_data body = concat (map gps_word_bytes body)"

text \<open>A cached subframe, parsed again, with the assertion on its class.\<close>

definition cached_struct :: "field_type \<Rightarrow> string \<Rightarrow> string \<Rightarrow> (int \<times> octets) list \<Rightarrow> int \<Rightarrow> py_error + val" where
  "cached_struct cls part name cached k =
     (case map_of cached k of
        None \<Rightarrow> Inl KeyError
      | Some data \<Rightarrow> bind_result (from_bytes cls data) (\<lambda>sf.
          if class_of (sub_attr sf part) = name then Inr sf else Inl AssertionError))"

definition gps_week :: "val \<Rightarrow> val \<Rightarrow> int \<Rightarrow> int" where
  "gps_week s1 s2 tow_count =
     (let week = num_attr s1 ''week_no'' + 1024;
          week = (if week < 1877 then week + 1024 else week)
      in if num_attr s2 ''t_oe'' = 0 \<and> tow_count * 6 \<ge> SECS_IN_WEEK - 2 * SECS_IN_HR then week + 1 else week)"

definition gps_ephemeris_of :: "int \<Rightarrow> val \<Rightarrow> val \<Rightarrow> val \<Rightarrow> gps_ephemeris" where
  "gps_ephemeris_of sv_id sf1 sf2 sf3 =
     (let s1 = sub_attr sf1 ''body''; s2 = sub_attr sf2 ''body''; s3 = sub_attr sf3 ''body'';
          week = gps_week s1 s2 (num_attr (sub_attr sf2 ''how'') ''tow_count'')
      in \<lparr>ep_svId = sv_id,
          ep_tgd = num_attr s1 ''t_gd'' / 2 ^ 31, ep_toc = num_attr s1 ''t_oc'' * 2 ^ 4, ep_af2 = num_attr s1 ''af_2'' / 2 ^ 55,
          ep_af1 = num_attr s1 ''af_1'' / 2 ^ 43, ep_af0 = gps_af_0 s1 / 2 ^ 31, ep_svHealth = num_attr s1 ''sv_health'',
          ep_towCount = num_attr (sub_attr sf1 ''how'') ''tow_count'',
          ep_crs = num_attr s2 ''c_rs'' / 2 ^ 5, ep_deltaN = num_attr s2 ''delta_n'' / 2 ^ 43 * gpsPi, ep_m0 = num_attr s2 ''m_0'' / 2 ^ 31 * gpsPi,
          ep_cuc = num_attr s2 ''c_uc'' / 2 ^ 29, ep_ecc = num_attr s2 ''e'' / 2 ^ 33, ep_cus = num_attr s2 ''c_us'' / 2 ^ 29,
          ep_a = (num_attr s2 ''sqrt_a'' / 2 ^ 19)\<^sup>2, ep_toe = num_attr s2 ''t_oe'' * 2 ^ 4,
          ep_cic = num_attr s3 ''c_ic'' / 2 ^ 29, ep_omega0 = num_attr s3 ''omega_0'' / 2 ^ 31 * gpsPi, ep_cis = num_attr s3 ''c_is'' / 2 ^ 29,
          ep_i0 = num_attr s3 ''i_0'' / 2 ^ 31 * gpsPi, ep_crc = num_attr s3 ''c_rc'' / 2 ^ 5, ep_omega = num_attr s3 ''omega'' / 2 ^ 31 * gpsPi,
          ep_omegaDot = gps_omega_dot s3 / 2 ^ 43 * gpsPi, ep_iode = num_attr s3 ''iode'', ep_iDot = gps_idot s3 / 2 ^ 43 * gpsPi,
          ep_toeWeek = week, ep_tocWeek = week\<rparr>)"

definition same_issue :: "val \<Rightarrow> val \<Rightarrow> val \<Rightarrow> bool" where
  "same_issue sf1 sf2 sf3 \<longleftrightarrow>
     num_attr (sub_attr sf1 ''body'') ''iodc_lsb'' = num_attr (sub_attr sf2 ''body'') ''iode'' \<and>
     num_attr (sub_attr sf2 ''body'') ''iode'' = num_attr (sub_attr sf3 ''body'') ''iode''"

definition gps_assemble :: "int \<Rightarrow> (int \<times> octets) list \<Rightarrow> py_error + ublox_msg option" where
  "gps_assemble sv_id cached =
     bind_result (cached_struct Gps ''body'' ''Subframe1'' cached 1) (\<lambda>sf1.
     bind_result (cached_struct Gps ''body'' ''Subframe2'' cached 2) (\<lambda>sf2.
     bind_result (cached_struct Gps ''body'' ''Subframe3'' cached 3) (\<lambda>sf3.
       Inr (if same_issue sf1 sf2 sf3 then Some (GpsEphemeris (gps_ephemeris_of sv_id sf1 sf2 sf3)) else None))))"

definition parse_gps_ephemeris :: "int \<Rightarrow> nat list \<Rightarrow> ublox_parser \<Rightarrow> (py_error + ublox_msg option) \<times> ublox_parser" where
  "parse_gps_ephemeris sv_id body p =
     (if length body \<noteq> 10 then (Inr None, p)
      else let data = gps_subframe_data body
        in case from_bytes Gps data of
             Inl e \<Rightarrow> (Inl e, p)
           | Inr sf \<Rightarrow>
               (let subframe_id = num_attr (sub_attr sf ''how'') ''subframe_id''
                in if subframe_id < 1 \<or> subframe_id > 3 then (Inr None, p)
                   else let cached = AList.update subframe_id data (gps_subframes p sv_id);
                            p = p\<lparr>gps_subframes := (gps_subframes p)(sv_id := cached)\<rparr>
                     in if length cached \<noteq> 3 then (Inr None, p)
                        else case gps_assemble sv_id cached of
                               Inl e \<Rightarrow> (Inl e, p)
                             | Inr res \<Rightarrow> (Inr res, p\<lparr>gps_subframes := (gps_subframes p)(sv_id := [])\<rparr>)))"

subsection \<open>GLONASS ephemerides\<close>

definition glonass_URA_lookup :: "(int \<times> real) list" where
  "glonass_URA_lookup =
     [(0, 1), (1, 2), (2, 2.5), (3, 4), (4, 5), (5, 7), (6, 10), (7, 12), (8, 14), (9, 16),
      (10, 32), (11, 64), (12, 128), (13, 256), (14, 512), (15, 1024)]"

definition glonass_string_bytes :: "nat list \<Rightarrow> octets" where
  "glonass_string_bytes body = concat (map (\<lambda>word. map (\<lambda>i. word_of_nat (drop_bit (8 * i) word)) [3, 2, 1, 0]) body)"

text \<open>
  The comparison of a new string with the cached ones: different superframes, or, once a
  superframe is unknown, times that do not fit the distance of two seconds between strings.
\<close>

definition glonass_check :: "real \<Rightarrow> int \<Rightarrow> int \<Rightarrow> ublox_parser \<Rightarrow> int \<Rightarrow> bool \<times> bool \<Rightarrow> int \<Rightarrow> bool \<times> bool" where
  "glonass_check now string_number superframe p freq_id st i =
     (if i \<notin> fst ` set (glonass_strings p freq_id) then st
      else let sf_prev = dict_get (map_of (glonass_string_superframes p freq_id)) i 0;
               unknown = (sf_prev = 0 \<or> superframe = 0 \<or> fst st);
               differs = (sf_prev \<noteq> 0 \<and> superframe \<noteq> 0 \<and> sf_prev \<noteq> superframe);
               prev_time = dict_get (map_of (glonass_string_times p freq_id)) i 0;
               off_time = (unknown \<and> \<bar>(prev_time - 2 * i) - (now - 2 * string_number)\<bar> > 10)
        in (unknown, snd st \<or> differs \<or> off_time))"

definition glonass_needs_clear :: "real \<Rightarrow> int \<Rightarrow> int \<Rightarrow> ublox_parser \<Rightarrow> int \<Rightarrow> bool" where
  "glonass_needs_clear now string_number superframe p freq_id =
     snd (foldl (glonass_check now string_number superframe p freq_id) (False, False) [1, 2, 3, 4, 5])"

definition glonass_clear :: "int \<Rightarrow> ublox_parser \<Rightarrow> ublox_parser" where
  "glonass_clear freq_id p =
     p\<lparr>glonass_strings := (glonass_strings p)(freq_id := []),
       glonass_string_superframes := (glonass_string_superframes p)(freq_id := []),
       glonass_string_times := (glonass_string_times p)(freq_id := [])\<rparr>"

definition glonass_store :: "int \<Rightarrow> int \<Rightarrow> octets \<Rightarrow> int \<Rightarrow> ublox_parser \<Rightarrow> ublox_parser" where
  "glonass_store freq_id string_number string_bytes superframe p =
     p\<lparr>glonass_strings := (glonass_strings p)(freq_id := AList.update string_number string_bytes (glonass_strings p freq_id)),
       glonass_string_superframes := (glonass_string_superframes p)(freq_id := AList.update string_number superframe (glonass_string_superframes p freq_id)),
       glonass_string_times := (glonass_string_times p)(freq_id := AList.update string_number (fr_last_log_time (up_framer p)) (glonass_string_times p freq_id))\<rparr>"

definition glonass_tk_seconds :: "int \<Rightarrow> int" where
  "glonass_tk_seconds tk =
     SECS_IN_HR * (drop_bit 7 tk AND 0x1F) + SECS_IN_MIN * (drop_bit 1 tk AND 0x3F) + (tk AND 1) * 30"

definition glonass_ephemeris_of :: "int \<Rightarrow> int \<Rightarrow> val \<Rightarrow> val \<Rightarrow> val \<Rightarrow> val \<Rightarrow> val \<Rightarrow> glonass_ephemeris" where
  "glonass_ephemeris_of sv_id freq_id s1 s2 s3 s4 s5 =
     \<lparr>ge_svId = sv_id, ge_freqNum = freq_id - 7, ge_p1 = num_attr s1 ''p1'', ge_tk = num_attr s1 ''t_k'',
      ge_xVel = glonass_signed s1 ''x_vel'' / 2 ^ 20, ge_xAccel = glonass_signed s1 ''x_accel'' / 2 ^ 30, ge_x = glonass_signed s1 ''x'' / 2 ^ 11,
      ge_svHealth = (drop_bit 2 (num_attr s2 ''b_n'') OR (if num_attr s3 ''l_n'' \<noteq> 0 then 1 else 0)),
      ge_p2 = num_attr s2 ''p2'', ge_tb = num_attr s2 ''t_b'',
      ge_yVel = glonass_signed s2 ''y_vel'' / 2 ^ 20, ge_yAccel = glonass_signed s2 ''y_accel'' / 2 ^ 30, ge_y = glonass_signed s2 ''y'' / 2 ^ 11,
      ge_p3 = num_attr s3 ''p3'', ge_gammaN = glonass_signed s3 ''gamma_n'' / 2 ^ 40,
      ge_zVel = glonass_signed s3 ''z_vel'' / 2 ^ 20, ge_zAccel = glonass_signed s3 ''z_accel'' / 2 ^ 30, ge_z = glonass_signed s3 ''z'' / 2 ^ 11,
      ge_nt = num_attr s4 ''n_t'', ge_tauN = glonass_signed s4 ''tau_n'' / 2 ^ 30, ge_deltaTauN = glonass_signed s4 ''delta_tau_n'' / 2 ^ 30,
      ge_age = num_attr s4 ''e_n'', ge_p4 = num_attr s4 ''p4'', ge_svURA = dict_get (map_of glonass_URA_lookup) (num_attr s4 ''f_t'') 0,
      ge_svType = num_attr s4 ''m'', ge_n4 = num_attr s5 ''n_4'', ge_tkSeconds = glonass_tk_seconds (num_attr s1 ''t_k'')\<rparr>"


text \<open>A cached string: a failed lookup or parse ends the call without a message, a wrong class asserts.\<close>

definition glonass_cached :: "(int \<times> octets) list \<Rightarrow> int \<Rightarrow> string \<Rightarrow> (val \<Rightarrow> py_error + ublox_msg option) \<Rightarrow> py_error + ublox_msg option" where
  "glonass_cached cached k name cont =
     (case map_of cached k of
        None \<Rightarrow> Inr None
      | Some data \<Rightarrow>
          (case bind_result (from_bytes Glonass data) (attr ''data'') of
             Inl _ \<Rightarrow> Inr None
           | Inr s \<Rightarrow> if class_of s = name then cont s else Inl AssertionError))"

definition glonass_assemble :: "int \<Rightarrow> int \<Rightarrow> (int \<times> octets) list \<Rightarrow> py_error + ublox_msg option" where
  "glonass_assemble sv_id freq_id cached =
     glonass_cached cached 1 ''String1'' (\<lambda>s1.
     glonass_cached cached 2 ''String2'' (\<lambda>s2.
     glonass_cached cached 3 ''String3'' (\<lambda>s3.
     glonass_cached cached 4 ''String4'' (\<lambda>s4.
     glonass_cached cached 5 ''String5'' (\<lambda>s5.
       Inr (Some (GlonassEphemeris (glonass_ephemeris_of sv_id freq_id s1 s2 s3 s4 s5))))))))"

definition glonass_receive :: "int \<Rightarrow> octets \<Rightarrow> val \<Rightarrow> ublox_parser \<Rightarrow> ublox_parser" where
  "glonass_receive freq_id data gl p =
     (let string_number = num_attr gl ''string_number''; superframe = num_attr gl ''superframe_number'';
          p = (if glonass_needs_clear (fr_last_log_time (up_framer p)) string_number superframe p freq_id then glonass_clear freq_id p else p)
      in glonass_store freq_id string_number data superframe p)"

definition parse_glonass_ephemeris :: "int \<Rightarrow> int \<Rightarrow> nat list \<Rightarrow> ublox_parser \<Rightarrow> (py_error + ublox_msg option) \<times> ublox_parser" where
  "parse_glonass_ephemeris sv_id freq_id body p =
     (if length body \<noteq> 4 then (Inr None, p)
      else let data = glonass_string_bytes body
        in case from_bytes Glonass data of
             Inl e \<Rightarrow> (Inl e, p)
           | Inr gl \<Rightarrow>
               if num_attr gl ''string_number'' < 1 \<or> num_attr gl ''string_number'' > 5 \<or> num_attr gl ''idle_chip'' \<noteq> 0 then (Inr None, p)
               else let p = glonass_receive freq_id data gl p
                 in if sv_id = 255 then (Inr None, p)
                    else if length (glonass_strings p freq_id) \<noteq> 5 then (Inr None, p)
                    else case glonass_assemble sv_id freq_id (glonass_strings p freq_id) of
                           Inr (Some m) \<Rightarrow> (Inr (Some m), p\<lparr>glonass_strings := (glonass_strings p)(freq_id := [])\<rparr>)
                         | res \<Rightarrow> (res, p))"

subsection \<open>The other messages\<close>

text \<open>
  \<open>calendar.timegm\<close> on a date: the days of the proleptic Gregorian calendar; years outside 1 to 9999
  and months outside 1 to 12 raise.
\<close>

definition is_leap_year :: "int \<Rightarrow> bool" where
  "is_leap_year y \<longleftrightarrow> y mod 4 = 0 \<and> (y mod 100 \<noteq> 0 \<or> y mod 400 = 0)"

definition days_before_year :: "int \<Rightarrow> int" where
  "days_before_year y = (y - 1) * 365 + (y - 1) div 4 - (y - 1) div 100 + (y - 1) div 400"

definition days_before_month :: "int \<Rightarrow> int \<Rightarrow> int" where
  "days_before_month y m =
     sum_list (take (nat (m - 1)) [31, if is_leap_year y then 29 else 28, 31, 30, 31, 30, 31, 31, 30, 31, 30, 31])"

definition timegm :: "int \<Rightarrow> int \<Rightarrow> int \<Rightarrow> int \<Rightarrow> int \<Rightarrow> int \<Rightarrow> py_error + int" where
  "timegm y mo d h mi s =
     (if y < 1 \<or> y > 9999 \<or> mo < 1 \<or> mo > 12 then Inl ValueError
      else let days = days_before_year y + days_before_month y mo + 1 - 719163 + d - 1
        in Inr (((days * 24 + h) * 60 + mi) * 60 + s))"

definition gen_nav_pvt :: "val \<Rightarrow> gps_location" where
  "gen_nav_pvt m =
     (let n = num_attr m;
          utc_tt = (case timegm (n ''year'') (n ''month'') (n ''day'') (n ''hour'') (n ''min'') (n ''sec'') of Inr t \<Rightarrow> t | Inl _ \<Rightarrow> 0)
      in \<lparr>gl_flags = n ''flags'', gl_hasFix = (n ''flags'' mod 2 = 1),
          gl_latitude = n ''lat'' / 10 ^ 7, gl_longitude = n ''lon'' / 10 ^ 7, gl_altitude = n ''height'' / 10 ^ 3,
          gl_speed = n ''g_speed'' / 10 ^ 3, gl_bearingDeg = n ''head_mot'' / 10 ^ 5, gl_horizontalAccuracy = n ''h_acc'' / 10 ^ 3,
          gl_satelliteCount = n ''num_sv'', gl_unixTimestampMillis = py_int (utc_tt * 10 ^ 3 + n ''nano'' / 10 ^ 6),
          gl_vNED = [n ''vel_n'' / 10 ^ 3, n ''vel_e'' / 10 ^ 3, n ''vel_d'' / 10 ^ 3],
          gl_verticalAccuracy = n ''v_acc'' / 10 ^ 3, gl_speedAccuracy = n ''s_acc'' / 10 ^ 3, gl_bearingAccuracyDeg = n ''head_acc'' / 10 ^ 5\<rparr>)"

text \<open>\<open>x.value\<close> exists on members of an enumeration only; an unknown number raises.\<close>

definition enum_attr :: "val \<Rightarrow> string \<Rightarrow> py_error + int" where
  "enum_attr v name = bind_result (attr name v) (\<lambda>x. case x of VEnum k \<Rightarrow> Inr k | _ \<Rightarrow> Inl AttributeError)"

fun map_result :: "('a \<Rightarrow> py_error + 'b) \<Rightarrow> 'a list \<Rightarrow> py_error + 'b list" where
  "map_result f [] = Inr []"
| "map_result f (x # xs) = bind_result (f x) (\<lambda>y. bind_result (map_result f xs) (\<lambda>ys. Inr (y # ys)))"

definition list_attr :: "val \<Rightarrow> string \<Rightarrow> val list" where
  "list_attr v name = (case sub_attr v name of VList vs \<Rightarrow> vs | _ \<Rightarrow> [])"

definition gen_measurement :: "val \<Rightarrow> py_error + raw_measurement" where
  "gen_measurement m =
     bind_result (enum_attr m ''gnss_id'') (\<lambda>gnss_id.
       Inr \<lparr>rm_svId = num_attr m ''sv_id'', rm_pseudorange = sub_attr m ''pr_mes'', rm_carrierCycles = sub_attr m ''cp_mes'',
            rm_doppler = sub_attr m ''do_mes'', rm_gnssId = gnss_id, rm_glonassFrequencyIndex = num_attr m ''freq_id'',
            rm_locktime = num_attr m ''lock_time'', rm_cno = num_attr m ''cno'',
            rm_pseudorangeStdev = 0.01 * 2 ^ nat (num_attr m ''pr_stdev'' AND 15),
            rm_carrierPhaseStdev = 0.004 * (num_attr m ''cp_stdev'' AND 15),
            rm_dopplerStdev = 0.002 * 2 ^ nat (num_attr m ''do_stdev'' AND 15),
            rm_trackingStatus = map (bit (num_attr m ''trk_stat'')) [0, 1, 2, 3]\<rparr>)"

definition gen_rxm_rawx :: "val \<Rightarrow> py_error + ublox_msg" where
  "gen_rxm_rawx m =
     bind_result (map_result gen_measurement (list_attr m ''meas'')) (\<lambda>ms.
       Inr (MeasurementReport \<lparr>mr_rcvTow = sub_attr m ''rcv_tow'', mr_gpsWeek = num_attr m ''week'', mr_leapSeconds = num_attr m ''leap_s'',
              mr_measurements = ms, mr_numMeas = num_attr m ''num_meas'',
              mr_leapSecValid = bit (num_attr m ''rec_stat'') 0, mr_clkReset = bit (num_attr m ''rec_stat'') 2\<rparr>))"

definition gen_sat_info :: "val \<Rightarrow> py_error + sat_info" where
  "gen_sat_info s =
     bind_result (enum_attr s ''gnss_id'') (\<lambda>gnss_id.
       Inr \<lparr>sv_svId = num_attr s ''sv_id'', sv_gnssId = gnss_id, sv_flagsBitfield = num_attr s ''flags'', sv_cno = num_attr s ''cno'',
            sv_elevationDeg = num_attr s ''elev'', sv_azimuthDeg = num_attr s ''azim'', sv_pseudorangeResidual = num_attr s ''pr_res'' * 0.1\<rparr>)"

definition gen_nav_sat :: "val \<Rightarrow> py_error + ublox_msg" where
  "gen_nav_sat m = bind_result (map_result gen_sat_info (list_attr m ''svs'')) (\<lambda>svs. Inr (SatReport (num_attr m ''itow'') svs))"

definition gen_mon_hw :: "val \<Rightarrow> py_error + ublox_msg" where
  "gen_mon_hw m =
     bind_result (enum_attr m ''a_status'') (\<lambda>a_status. bind_result (enum_attr m ''a_power'') (\<lambda>a_power.
       Inr (HwStatus \<lparr>hs_noisePerMS = num_attr m ''noise_per_ms'', hs_flags = num_attr m ''flags'', hs_agcCnt = num_attr m ''agc_cnt'',
              hs_aStatus = a_status, hs_aPower = a_power, hs_jamInd = num_attr m ''jam_ind''\<rparr>)))"

definition cfg_map :: "(int \<times> int) list" where
  "cfg_map = [(113, 1), (111, 2), (112, 3), (102, 4)]"

definition gen_mon_hw2 :: "val \<Rightarrow> ublox_msg" where
  "gen_mon_hw2 m =
     HwStatus2 \<lparr>h2_ofsI = num_attr m ''ofs_i'', h2_magI = num_attr m ''mag_i'', h2_ofsQ = num_attr m ''ofs_q'', h2_magQ = num_attr m ''mag_q'',
       h2_cfgSource = dict_get (map_of cfg_map) (num_attr m ''cfg_source'') 0,
       h2_lowLevCfg = num_attr m ''low_lev_cfg'', h2_postStatus = num_attr m ''post_status''\<rparr>"

subsection \<open>Frames and the loop\<close>

definition sfrbx_words :: "octets \<Rightarrow> nat \<Rightarrow> nat list" where
  "sfrbx_words payload num_words = map (\<lambda>k. le_bytes (take 4 (drop (8 + 4 * k) payload))) [0..<num_words]"

definition parse_sfrbx :: "octets \<Rightarrow> ublox_parser \<Rightarrow> (py_error + ublox_msg option) \<times> ublox_parser" where
  "parse_sfrbx payload p =
     (if length payload < 8 then (Inr None, p)
      else let gnss_id = int (unat (payload ! 0)); sv_id = int (unat (payload ! 1)); freq_id = int (unat (payload ! 3));
               num_words = unat (payload ! 4); words = sfrbx_words payload num_words
        in if 8 + 4 * num_words \<noteq> length payload then (Inr None, p)
           else if gnss_id \<notin> set GnssType_members then (Inl ValueError, p)
           else if gnss_id = 0 then parse_gps_ephemeris sv_id words p
           else if gnss_id = 6 then parse_glonass_ephemeris sv_id freq_id words p
           else (Inr None, p))"

definition frame_payload :: "octets \<Rightarrow> octets" where
  "frame_payload frame = take (length frame - 8) (drop 6 frame)"

definition parse_frame :: "octets \<Rightarrow> ublox_parser \<Rightarrow> (py_error + ublox_msg option) \<times> ublox_parser" where
  "parse_frame frame p =
     (let msg_type = be_bytes (take 2 (drop 2 frame)); payload = frame_payload frame;
          parsed = (\<lambda>cls gen. (bind_result (from_bytes cls payload) (\<lambda>body. bind_result (gen body) (\<lambda>m. Inr (Some m))), p))
      in if msg_type = 0x0107 then parsed Ubx_NavPvt (\<lambda>b. Inr (GpsLocationExternal (gen_nav_pvt b)))
         else if msg_type = 0x0213 then parse_sfrbx payload p
         else if msg_type = 0x0215 then parsed Ubx_RxmRawx gen_rxm_rawx
         else if msg_type = 0x0A09 then parsed Ubx_MonHw gen_mon_hw
         else if msg_type = 0x0A0B then parsed Ubx_MonHw2 (\<lambda>b. Inr (gen_mon_hw2 b))
         else if msg_type = 0x0135 then parsed Ubx_NavSat gen_nav_sat
         else (Inr None, p))"

text \<open>One read of the loop: a frame that raises is skipped, the caches it changed stay.\<close>

fun parse_frames :: "octets list \<Rightarrow> ublox_parser \<Rightarrow> ublox_msg list \<times> ublox_parser" where
  "parse_frames [] p = ([], p)"
| "parse_frames (frame # rest) p =
     (case parse_frame frame p of (res, p) \<Rightarrow>
        (case parse_frames rest p of (msgs, p) \<Rightarrow>
           (case res of Inr (Some m) \<Rightarrow> (m # msgs, p) | _ \<Rightarrow> (msgs, p))))"

definition ubloxd_step :: "real \<times> octets \<Rightarrow> ublox_parser \<Rightarrow> ublox_msg list \<times> ublox_parser" where
  "ubloxd_step msg p =
     (case add_data (fst msg) (snd msg) (up_framer p) of (fs, framer) \<Rightarrow> parse_frames fs (p\<lparr>up_framer := framer\<rparr>))"

end
