(* ===== verification/Ubloxd_Facts.thy ===== *)
theory Ubloxd_Facts
  imports Ubloxd
begin

text \<open>
  What the satellite receiver's process guarantees: its framer passes only frames with a correct
  checksum, taken from the stream in order, and on a clean stream it passes all of them however
  the stream is cut into reads; a preamble that is cut after noise is lost. A GPS ephemeris is built
  from three subframes of one issue of data, a GLONASS ephemeris never mixes known superframes.
\<close>

subsection \<open>Frames\<close>

definition ubx_frame :: "octets \<Rightarrow> bool" where
  "ubx_frame f \<longleftrightarrow> take 2 f = [0xB5, 0x62] \<and> 8 \<le> length f \<and> length f = total_len f \<and> checksum_ok f"

lemma find_preamble_0: "take 2 buf = [0xB5, 0x62] \<Longrightarrow> find_preamble buf = Some 0"
  by (cases buf rule: find_preamble.cases) auto

lemma find_preamble_Some: "find_preamble buf = Some k \<Longrightarrow> take 2 (drop k buf) = [0xB5, 0x62] \<and> k + 2 \<le> length buf"
proof (induction buf arbitrary: k rule: find_preamble.induct)
  case (1 a b bs)
  then show ?case by (auto split: if_splits)
qed simp_all

lemma find_preamble_append:
  "find_preamble (g @ [0xB5]) = None \<Longrightarrow> find_preamble (g @ 0xB5 # 0x62 # rest) = Some (length g)"
proof (induction g)
  case (Cons a g)
  then show ?case by (cases g) (auto split: if_splits)
qed simp

lemma total_len_append: "6 \<le> length f \<Longrightarrow> total_len (f @ rest) = total_len f"
proof -
  assume "6 \<le> length f"
  then have "take 2 (drop 4 (f @ rest)) = take 2 (drop 4 f)" by simp
  then show ?thesis by (simp only: total_len_def)
qed

lemma total_len_take: "6 \<le> k \<Longrightarrow> total_len (take k f) = total_len f"
proof -
  assume "6 \<le> k"
  then have "take 2 (drop 4 (take k f)) = take 2 (drop 4 f)" by (simp add: drop_take min_def)
  then show ?thesis by (simp only: total_len_def)
qed

lemma framer_loop_frame:
  assumes "ubx_frame f"
  shows "framer_loop (f @ rest) = (f # fst (framer_loop rest), snd (framer_loop rest))"
proof -
  have f: "take 2 f = [0xB5, 0x62]" "8 \<le> length f" "length f = total_len f" "checksum_ok f"
    using assms by (simp_all add: ubx_frame_def)
  have "take 2 (f @ rest) = [0xB5, 0x62]" using f(1,2) by simp
  then have pre: "find_preamble (f @ rest) = Some 0" by (rule find_preamble_0)
  have len: "total_len (f @ rest) = length f" using total_len_append [of f rest] f(2,3) by linarith
  show ?thesis
    using f(2,4) by (subst framer_loop.simps) (simp add: pre len HEADER_SIZE_def Let_def case_prod_beta)
qed

lemma framer_loop_partial:
  assumes "ubx_frame f" "k < length f"
  shows "framer_loop (take k f) = ([], take k f)"
proof (cases "k < 2")
  case True
  then show ?thesis using assms(2) by (simp add: framer_loop.simps)
next
  case False
  have f: "take 2 f = [0xB5, 0x62]" "length f = total_len f" using assms(1) by (simp_all add: ubx_frame_def)
  have "find_preamble (take k f) = Some 0" using f(1) False by (intro find_preamble_0) (simp add: min_def)
  moreover have "6 \<le> k \<Longrightarrow> total_len (take k f) = length f" using total_len_take f(2) by simp
  ultimately show ?thesis using assms(2) False by (subst framer_loop.simps) (simp add: HEADER_SIZE_def Let_def)
qed

lemma framer_loop_frames:
  "\<forall>f \<in> set fs. ubx_frame f \<Longrightarrow> framer_loop (concat fs @ rest) = (fs @ fst (framer_loop rest), snd (framer_loop rest))"
  by (induction fs) (simp_all add: framer_loop_frame)

text \<open>Cutting a stream of frames: whole frames, and a proper part of the next one.\<close>

lemma cut_frames:
  assumes "\<forall>f \<in> set fs. f \<noteq> []" "xs @ ys = concat fs"
  obtains fs1 fs2 pre where "fs = fs1 @ fs2" "xs = concat fs1 @ pre" "pre @ ys = concat fs2"
    "fs2 = [] \<and> pre = [] \<or> fs2 \<noteq> [] \<and> length pre < length (hd fs2)"
proof -
  have "\<exists>fs1 fs2 pre. fs = fs1 @ fs2 \<and> xs = concat fs1 @ pre \<and> pre @ ys = concat fs2 \<and>
      (fs2 = [] \<and> pre = [] \<or> fs2 \<noteq> [] \<and> length pre < length (hd fs2))"
    using assms
  proof (induction fs arbitrary: xs)
    case (Cons f fs)
    show ?case
    proof (cases "length xs < length f")
      case True
      with Cons.prems(2) show ?thesis by (intro exI [of _ "[]"] exI [of _ "f # fs"] exI [of _ xs]) auto
    next
      case False
      then obtain xs' where xs: "xs = f @ xs'" using Cons.prems(2)
        by (metis append_eq_append_conv_if append_take_drop_id concat.simps(2) not_less)
      then have "xs' @ ys = concat fs" using Cons.prems(2) by simp
      from Cons.IH [OF _ this] Cons.prems(1) obtain fs1 fs2 pre where "fs = fs1 @ fs2" "xs' = concat fs1 @ pre"
        "pre @ ys = concat fs2" "fs2 = [] \<and> pre = [] \<or> fs2 \<noteq> [] \<and> length pre < length (hd fs2)" by auto
      with xs show ?thesis by (intro exI [of _ "f # fs1"] exI [of _ fs2] exI [of _ pre]) auto
    qed
  qed simp
  with that show thesis by blast
qed

fun feed :: "(real \<times> octets) list \<Rightarrow> ubx_framer \<Rightarrow> octets list \<times> ubx_framer" where
  "feed [] f = ([], f)"
| "feed ((log_time, chunk) # chunks) f =
     (case add_data log_time chunk f of (out, f) \<Rightarrow> (case feed chunks f of (outs, f) \<Rightarrow> (out @ outs, f)))"

lemma feed_frames:
  assumes "\<forall>f \<in> set fs. ubx_frame f" "fr_buf fr @ concat (map snd chunks) = concat fs"
    and "fs = [] \<or> length (fr_buf fr) < length (hd fs)"
  shows "fst (feed chunks fr) = fs \<and> fr_buf (snd (feed chunks fr)) = []"
  using assms
proof (induction chunks arbitrary: fs fr)
  case Nil
  then show ?case by (cases fs) auto
next
  case (Cons chunk chunks)
  obtain t c where chunk: "chunk = (t, c)" by fastforce
  show ?case
  proof (cases "c = []")
    case True
    with Cons.IH [of fs "fr\<lparr>fr_last_log_time := t\<rparr>"] Cons.prems show ?thesis by (simp add: chunk add_data_def case_prod_beta)
  next
    case False
    have ne: "\<forall>f \<in> set fs. f \<noteq> []" using Cons.prems(1) by (auto simp: ubx_frame_def)
    have "(fr_buf fr @ c) @ concat (map snd chunks) = concat fs" using Cons.prems(2) by (simp add: chunk)
    from cut_frames [OF ne this] obtain fs1 fs2 pre where
      cut: "fs = fs1 @ fs2" "fr_buf fr @ c = concat fs1 @ pre" "pre @ concat (map snd chunks) = concat fs2"
      "fs2 = [] \<and> pre = [] \<or> fs2 \<noteq> [] \<and> length pre < length (hd fs2)" .
    have part: "framer_loop pre = ([], pre)"
    proof (cases fs2)
      case Nil
      then show ?thesis using cut(4) by (simp add: framer_loop.simps)
    next
      case (Cons g gs)
      then have "pre = take (length pre) g" using cut(3,4) by (auto simp: append_eq_append_conv2)
      then show ?thesis using framer_loop_partial [of g "length pre"] Cons cut(1,4) Cons.prems(1) by auto
    qed
    have "framer_loop (fr_buf fr @ c) = (fs1, pre)"
      using framer_loop_frames [of fs1 pre] part cut(1,2) Cons.prems(1) by simp
    then have "add_data t c fr = (fs1, fr\<lparr>fr_last_log_time := t, fr_buf := pre\<rparr>)" using False by (simp add: add_data_def Let_def)
    with Cons.IH [of fs2 "fr\<lparr>fr_last_log_time := t, fr_buf := pre\<rparr>"] cut Cons.prems(1) show ?thesis
      by (auto simp: chunk case_prod_beta)
  qed
qed


text \<open>
  C30. A clean stream arrives whole. However the bytes of a sequence of valid frames are cut into
  reads, empty ones included, the framer returns exactly these frames in order and keeps nothing
  back.
\<close>

theorem frames_arrive:
  assumes "\<forall>f \<in> set fs. ubx_frame f" and "concat (map snd chunks) = concat fs"
  shows "fst (feed chunks UbxFramer) = fs \<and> fr_buf (snd (feed chunks UbxFramer)) = []"
proof (rule feed_frames)
  show "fs = [] \<or> length (fr_buf UbxFramer) < length (hd fs)" using assms(1) by (cases fs) (auto simp: UbxFramer_def ubx_frame_def)
qed (use assms in \<open>simp_all add: UbxFramer_def\<close>)

definition example_frame :: octets where
  "example_frame = [0xB5, 0x62, 0x0A, 0x04, 0x00, 0x00, 0x0E, 0x34]"

lemma example_frame_valid: "ubx_frame example_frame"
  by (simp add: ubx_frame_def example_frame_def total_len_def HEADER_SIZE_def CHECKSUM_SIZE_def le_bytes_def be_bytes_def
      checksum_ok_def checksum_def checksum_step_def Let_def)

theorem frames_arrive_witness:
  "fst (feed [(0, [0xB5]), (1, []), (2, [0x62, 0x0A, 0x04, 0x00, 0x00, 0x0E, 0x34, 0xB5]), (3, [0x62, 0x0A, 0x04, 0x00, 0x00, 0x0E, 0x34])] UbxFramer) =
     [example_frame, example_frame]"
  using frames_arrive [of "[example_frame, example_frame]"
      "[(0, [0xB5]), (1, []), (2, [0x62, 0x0A, 0x04, 0x00, 0x00, 0x0E, 0x34, 0xB5]), (3, [0x62, 0x0A, 0x04, 0x00, 0x00, 0x0E, 0x34])]"]
  by (simp add: example_frame_valid) (simp add: example_frame_def)

text \<open>Whatever comes in, only valid frames go out, and their bytes are taken from the stream in order.\<close>

lemma framer_loop_sound:
  "(\<forall>f \<in> set (fst (framer_loop buf)). ubx_frame f) \<and> subseq (concat (fst (framer_loop buf)) @ snd (framer_loop buf)) buf"
proof (induction buf rule: framer_loop.induct)
  case (1 buf)
  show ?case
  proof (cases "length buf < 2 \<or> find_preamble buf = None")
    case True
    then show ?thesis by (subst (1 2 3) framer_loop.simps) (auto split: option.split)
  next
    case False
    then obtain k where k: "find_preamble buf = Some k" by blast
    define b where "b = drop k buf"
    have b: "take 2 b = [0xB5, 0x62]" "suffix b buf" using find_preamble_Some [OF k] by (simp_all add: b_def suffix_drop)
    then have sub: "subseq xs b \<Longrightarrow> subseq xs buf" for xs by (meson subseq_order.trans suffix_imp_subseq)
    note step = framer_loop.simps [of buf]
    consider "length b < HEADER_SIZE \<or> length b < total_len b"
      | "HEADER_SIZE \<le> length b" "total_len b \<le> length b" "checksum_ok (take (total_len b) b)"
      | "HEADER_SIZE \<le> length b" "total_len b \<le> length b" "\<not> checksum_ok (take (total_len b) b)" by linarith
    then show ?thesis
    proof cases
      case 1
      then have "framer_loop buf = ([], b)" using False k by (auto simp: step b_def [symmetric] Let_def)
      then show ?thesis using sub by simp
    next
      case 2
      let ?c = "take (total_len b) b"
      have loop: "framer_loop buf = (?c # fst (framer_loop (drop (total_len b) b)), snd (framer_loop (drop (total_len b) b)))"
        using False k 2 by (simp add: step b_def [symmetric] Let_def case_prod_beta)
      have IH: "(\<forall>f \<in> set (fst (framer_loop (drop (total_len b) b))). ubx_frame f) \<and>
          subseq (concat (fst (framer_loop (drop (total_len b) b))) @ snd (framer_loop (drop (total_len b) b))) (drop (total_len b) b)"
        using 1 False k 2 by (simp add: b_def)
      have "8 \<le> total_len b" by (simp add: total_len_def HEADER_SIZE_def CHECKSUM_SIZE_def)
      then have "ubx_frame ?c" using b(1) 2 total_len_take [of "total_len b" b] by (simp add: ubx_frame_def min_def)
      moreover have "subseq (?c @ (concat (fst (framer_loop (drop (total_len b) b))) @ snd (framer_loop (drop (total_len b) b)))) (?c @ drop (total_len b) b)"
        using IH by (intro list_emb_append_mono) simp_all
      ultimately show ?thesis using IH sub by (simp add: loop)
    next
      case 3
      have loop: "framer_loop buf = framer_loop (drop 1 b)" using False k 3 by (simp add: step b_def [symmetric] Let_def)
      have IH: "(\<forall>f \<in> set (fst (framer_loop (drop 1 b))). ubx_frame f) \<and>
          subseq (concat (fst (framer_loop (drop 1 b))) @ snd (framer_loop (drop 1 b))) (drop 1 b)"
        using 1 False k 3 by (simp add: b_def)
      have "subseq (drop 1 b) b" by (simp add: suffix_imp_subseq suffix_drop)
      then show ?thesis using IH sub by (metis loop subseq_order.trans)
    qed
  qed
qed

lemma feed_sound:
  "(\<forall>f \<in> set (fst (feed chunks fr)). ubx_frame f) \<and>
   subseq (concat (fst (feed chunks fr)) @ fr_buf (snd (feed chunks fr))) (fr_buf fr @ concat (map snd chunks))"
proof (induction chunks arbitrary: fr)
  case (Cons chunk chunks)
  obtain t c where chunk: "chunk = (t, c)" by fastforce
  obtain out fr' where ad: "add_data t c fr = (out, fr')" by fastforce
  have out: "(\<forall>f \<in> set out. ubx_frame f) \<and> subseq (concat out @ fr_buf fr') (fr_buf fr @ c)"
    using ad framer_loop_sound [of "fr_buf fr @ c"] by (auto simp: add_data_def Let_def case_prod_beta split: if_splits)
  have IH: "subseq (concat (fst (feed chunks fr')) @ fr_buf (snd (feed chunks fr'))) (fr_buf fr' @ concat (map snd chunks))"
    using Cons.IH [of fr'] by blast
  have "subseq (concat out @ concat (fst (feed chunks fr')) @ fr_buf (snd (feed chunks fr'))) (concat out @ fr_buf fr' @ concat (map snd chunks))"
    using list_emb_append_mono [OF subseq_order.refl IH, of "concat out"] by simp
  moreover have "subseq ((concat out @ fr_buf fr') @ concat (map snd chunks)) ((fr_buf fr @ c) @ concat (map snd chunks))"
    using list_emb_append_mono [OF conjunct2 [OF out] subseq_order.refl] by simp
  ultimately have "subseq (concat out @ concat (fst (feed chunks fr')) @ fr_buf (snd (feed chunks fr'))) (fr_buf fr @ c @ concat (map snd chunks))"
    using subseq_order.trans by fastforce
  then show ?case using out Cons.IH [of fr'] by (auto simp: chunk ad case_prod_beta)
qed simp

text \<open>
  Nothing is invented. Over any sequence of reads, every frame that the framer returns has the
  preamble, the length of its header and a correct checksum, and the returned frames followed by
  what is still buffered are a subsequence of the bytes received.
\<close>

theorem framer_sound:
  "(\<forall>f \<in> set (fst (feed chunks UbxFramer)). ubx_frame f) \<and>
   subseq (concat (fst (feed chunks UbxFramer)) @ fr_buf (snd (feed chunks UbxFramer))) (concat (map snd chunks))"
  using feed_sound [of chunks UbxFramer] by (simp add: UbxFramer_def)

theorem framer_sound_witness:
  "fst (feed [(0, example_frame)] UbxFramer) = [example_frame] \<and> ubx_frame example_frame \<and>
   subseq (example_frame @ fr_buf (snd (feed [(0, example_frame)] UbxFramer))) example_frame"
proof -
  have "fst (feed [(0, example_frame)] UbxFramer) = [example_frame]"
    using feed_frames [of "[example_frame]" UbxFramer "[(0, example_frame)]"] by (simp add: example_frame_valid UbxFramer_def) (simp add: example_frame_def)
  with framer_sound [of "[(0, example_frame)]"] show ?thesis by simp
qed

text \<open>
  A preamble cut after noise is lost. When a read ends with the first byte of a preamble after at
  least one byte of noise, the framer drops that byte too; the frame, which arrives when the same
  bytes come in one read, does not arrive, although all its bytes do.
\<close>

theorem split_preamble_lost:
  assumes "ubx_frame f" "noise \<noteq> []" "find_preamble (noise @ [0xB5]) = None" "find_preamble (tl f) = None"
  shows "fst (feed [(t, noise @ f)] UbxFramer) = [f] \<and>
    fst (feed [(t, noise @ [0xB5]), (t', tl f)] UbxFramer) = [] \<and> (noise @ [0xB5]) @ tl f = noise @ f"
proof -
  obtain r where f: "f = 0xB5 # 0x62 # r" using assms(1) by (cases f rule: find_preamble.cases) (auto simp: ubx_frame_def)
  have "6 \<le> length r" using assms(1) by (simp add: ubx_frame_def f)
  have "framer_loop (noise @ f) = framer_loop f"
    using find_preamble_append [OF assms(3), of r] find_preamble_0 [of f]
    by (simp add: framer_loop.simps [of "noise @ 0xB5 # 0x62 # r"] framer_loop.simps [of "0xB5 # 0x62 # r"] f)
  also have "\<dots> = ([f], [])" using framer_loop_frame [OF assms(1), of "[]"] by (simp add: framer_loop.simps [of "[]"])
  finally have "fst (feed [(t, noise @ f)] UbxFramer) = [f]" using assms(2) by (simp add: add_data_def UbxFramer_def Let_def)
  moreover have "framer_loop (noise @ [0xB5]) = ([], [])" using assms(2,3) by (cases noise) (simp_all add: framer_loop.simps)
  moreover have "framer_loop (tl f) = ([], [])" using assms(4) \<open>6 \<le> length r\<close> by (auto simp: framer_loop.simps f)
  ultimately show ?thesis using assms(2) by (simp add: add_data_def UbxFramer_def Let_def f)
qed

theorem split_preamble_lost_witness:
  "fst (feed [(0, 0x24 # example_frame)] UbxFramer) = [example_frame] \<and>
   fst (feed [(0, [0x24, 0xB5]), (1, tl example_frame)] UbxFramer) = []"
  using split_preamble_lost [OF example_frame_valid, of "[0x24]" 0 1] by (simp add: example_frame_def)

text \<open>One damaged byte between preamble and checksum is always noticed.\<close>

lemma checksum_sum: "fst (checksum bs) = sum_list bs"
  unfolding checksum_def by (induction bs rule: rev_induct) (simp_all add: checksum_step_def Let_def)

lemma damaged_byte_fails:
  assumes "checksum_ok f" "2 \<le> i" "i < length f - 2" "b \<noteq> f ! i"
  shows "\<not> checksum_ok (f[i := b])"
proof
  let ?body = "take (length f - 4) (drop 2 f)"
  obtain j where "i = j + 2" using assms(2) by (metis add.commute le_Suc_ex)
  then have i: "i - 2 < length ?body" "?body ! (i - 2) = f ! i" using assms(3) by simp_all
  have body: "take (length f - 4) (drop 2 (f[i := b])) = ?body[i - 2 := b]"
    using assms(2,3) by (simp add: drop_update_swap take_update_swap)
  have sum: "sum_list (xs[k := b]) + xs ! k = sum_list xs + b" if "k < length xs" for xs :: octets and k
    using that by (induction xs arbitrary: k) (auto simp: nth_Cons add_ac split: nat.split)
  assume "checksum_ok (f[i := b])"
  then have "fst (checksum (?body[i - 2 := b])) = f ! (length f - 2)" using assms(2,3) by (simp add: checksum_ok_def body)
  moreover have "fst (checksum ?body) = f ! (length f - 2)" using assms(1) by (simp add: checksum_ok_def)
  ultimately have "sum_list (?body[i - 2 := b]) = sum_list ?body" by (simp add: checksum_sum)
  with sum [OF i(1)] i(2) have "b = f ! i" by simp
  with assms(4) show False by simp
qed


subsection \<open>GPS subframes as bits\<close>

text \<open>
  The subframes as the satellites send them: 240 bits, the 24 data bits of word \<open>w\<close> starting at
  bit \<open>24 * (w - 1)\<close>.
\<close>

abbreviation (input) ubits :: "octets \<Rightarrow> nat \<Rightarrow> nat \<Rightarrow> int" where
  "ubits d off n \<equiv> int (bit_slice d off n)"

abbreviation (input) sbits :: "octets \<Rightarrow> nat \<Rightarrow> nat \<Rightarrow> int" where
  "sbits d off n \<equiv> signed_of n (bit_slice d off n)"

definition is_subframe :: "int \<Rightarrow> octets \<Rightarrow> bool" where
  "is_subframe k d \<longleftrightarrow> length d = 30 \<and> take 1 d = [0x8B] \<and> ubits d 43 3 = k"

definition tlm_of :: "octets \<Rightarrow> val" where
  "tlm_of d = VStruct ''Tlm'' [(''preamble'', VBytes [0x8B]), (''tlm'', VInt (ubits d 8 14)),
     (''integrity_status'', VBool (bit_slice d 22 1 \<noteq> 0)), (''reserved'', VBool (bit_slice d 23 1 \<noteq> 0))]"

definition how_of :: "octets \<Rightarrow> val" where
  "how_of d = VStruct ''How'' [(''tow_count'', VInt (ubits d 24 17)), (''alert'', VBool (bit_slice d 41 1 \<noteq> 0)),
     (''anti_spoof'', VBool (bit_slice d 42 1 \<noteq> 0)), (''subframe_id'', VInt (ubits d 43 3)), (''reserved'', VInt (ubits d 46 2))]"

definition subframe1_of :: "octets \<Rightarrow> val" where
  "subframe1_of d = VStruct ''Subframe1''
     [(''week_no'', VInt (ubits d 48 10)), (''code'', VInt (ubits d 58 2)), (''sv_accuracy'', VInt (ubits d 60 4)),
      (''sv_health'', VInt (ubits d 64 6)), (''iodc_msb'', VInt (ubits d 70 2)), (''l2_p_data_flag'', VBool (bit_slice d 72 1 \<noteq> 0)),
      (''reserved1'', VInt (ubits d 73 23)), (''reserved2'', VInt (ubits d 96 24)), (''reserved3'', VInt (ubits d 120 24)),
      (''reserved4'', VInt (ubits d 144 16)), (''t_gd'', VInt (sbits d 160 8)), (''iodc_lsb'', VInt (ubits d 168 8)),
      (''t_oc'', VInt (ubits d 176 16)), (''af_2'', VInt (sbits d 192 8)), (''af_1'', VInt (sbits d 200 16)),
      (''af_0_sign'', VBool (bit_slice d 216 1 \<noteq> 0)), (''af_0_value'', VInt (ubits d 217 21)), (''reserved5'', VInt (ubits d 238 2))]"

definition subframe2_of :: "octets \<Rightarrow> val" where
  "subframe2_of d = VStruct ''Subframe2''
     [(''iode'', VInt (ubits d 48 8)), (''c_rs'', VInt (sbits d 56 16)), (''delta_n'', VInt (sbits d 72 16)), (''m_0'', VInt (sbits d 88 32)),
      (''c_uc'', VInt (sbits d 120 16)), (''e'', VInt (sbits d 136 32)), (''c_us'', VInt (sbits d 168 16)), (''sqrt_a'', VInt (ubits d 184 32)),
      (''t_oe'', VInt (ubits d 216 16)), (''fit_interval_flag'', VBool (bit_slice d 232 1 \<noteq> 0)), (''aoda'', VInt (ubits d 233 5)),
      (''reserved'', VInt (ubits d 238 2))]"

definition subframe3_of :: "octets \<Rightarrow> val" where
  "subframe3_of d = VStruct ''Subframe3''
     [(''c_ic'', VInt (sbits d 48 16)), (''omega_0'', VInt (sbits d 64 32)), (''c_is'', VInt (sbits d 96 16)), (''i_0'', VInt (sbits d 112 32)),
      (''c_rc'', VInt (sbits d 144 16)), (''omega'', VInt (sbits d 160 32)), (''omega_dot_sign'', VBool (bit_slice d 192 1 \<noteq> 0)),
      (''omega_dot_value'', VInt (ubits d 193 23)), (''iode'', VInt (ubits d 216 8)), (''idot_sign'', VBool (bit_slice d 224 1 \<noteq> 0)),
      (''idot_value'', VInt (ubits d 225 13)), (''reserved'', VInt (ubits d 238 2))]"

lemmas gps_simps = field_type_defs read_simps aligned_def check_const_def

lemma parse_tlm:
  "length d = 30 \<Longrightarrow> parse_field Gps_Tlm obj (at_bit d 0) = (if take 1 d = [0x8B] then Inr (tlm_of d, at_bit d 24) else Inl ValueError)"
  by (simp add: Gps_Tlm_def gps_simps tlm_of_def)

lemma parse_how: "length d = 30 \<Longrightarrow> parse_field Gps_How obj (at_bit d 24) = Inr (how_of d, at_bit d 48)"
  by (simp add: Gps_How_def gps_simps how_of_def)

lemma parse_subframe1: "length d = 30 \<Longrightarrow> parse_field Gps_Subframe1 obj (at_bit d 48) = Inr (subframe1_of d, at_bit d 240)"
  by (simp add: Gps_Subframe1_def gps_simps subframe1_of_def)

lemma parse_subframe2: "length d = 30 \<Longrightarrow> parse_field Gps_Subframe2 obj (at_bit d 48) = Inr (subframe2_of d, at_bit d 240)"
  by (simp add: Gps_Subframe2_def gps_simps subframe2_of_def)

lemma parse_subframe3: "length d = 30 \<Longrightarrow> parse_field Gps_Subframe3 obj (at_bit d 48) = Inr (subframe3_of d, at_bit d 240)"
  by (simp add: Gps_Subframe3_def gps_simps subframe3_of_def)

lemma parse_subframe4: "length d = 30 \<Longrightarrow> \<exists>v r. parse_field Gps_Subframe4 obj (at_bit d 48) = Inr (v, r)"
  by (simp add: Gps_Subframe4_def Gps_Subframe4_IonosphereData_def gps_simps resolve_path_def attr_def switch_target_def)

lemma parse_gps:
  assumes "length d = 30"
  shows "take 1 d \<noteq> [0x8B] \<Longrightarrow> from_bytes Gps d = Inl ValueError"
    and "take 1 d = [0x8B] \<Longrightarrow> \<exists>body. from_bytes Gps d = Inr (VStruct ''Gps'' [(''tlm'', tlm_of d), (''how'', how_of d), (''body'', body)]) \<and>
      (ubits d 43 3 = 1 \<longrightarrow> body = subframe1_of d) \<and> (ubits d 43 3 = 2 \<longrightarrow> body = subframe2_of d) \<and> (ubits d 43 3 = 3 \<longrightarrow> body = subframe3_of d)"
proof -
  show "take 1 d \<noteq> [0x8B] \<Longrightarrow> from_bytes Gps d = Inl ValueError"
    using assms by (simp add: from_bytes_def Gps_def BinaryReader_at_bit parse_tlm)
  have path: "resolve_path (VStruct ''Gps'' [(''tlm'', tlm_of d), (''how'', how_of d)]) ''how.subframe_id'' = Inr (VInt (ubits d 43 3))"
    by (simp add: resolve_path_def attr_def how_of_def)
  show "take 1 d = [0x8B] \<Longrightarrow> \<exists>body. from_bytes Gps d = Inr (VStruct ''Gps'' [(''tlm'', tlm_of d), (''how'', how_of d), (''body'', body)]) \<and>
      (ubits d 43 3 = 1 \<longrightarrow> body = subframe1_of d) \<and> (ubits d 43 3 = 2 \<longrightarrow> body = subframe2_of d) \<and> (ubits d 43 3 = 3 \<longrightarrow> body = subframe3_of d)"
  proof -
    assume pre: "take 1 d = [0x8B]"
    let ?obj = "VStruct ''Gps'' [(''tlm'', tlm_of d), (''how'', how_of d)]"
    obtain v4 r4 where s4: "parse_field Gps_Subframe4 ?obj (at_bit d 48) = Inr (v4, r4)" using parse_subframe4 [OF assms] by blast
    have f: "from_bytes Gps d = bind_result (parse_field (SwitchType ''how.subframe_id'' [(1, Gps_Subframe1), (2, Gps_Subframe2), (3, Gps_Subframe3), (4, Gps_Subframe4)] None) ?obj (at_bit d 48))
        (\<lambda>(v, r). Inr (VStruct ''Gps'' [(''tlm'', tlm_of d), (''how'', how_of d), (''body'', v)]))"
      using pre assms by (simp add: from_bytes_def Gps_def BinaryReader_at_bit parse_tlm parse_how case_prod_beta bind_result_def split: sum.split)
    then show ?thesis
      by (simp add: path switch_target_def parse_subframe1 parse_subframe2 parse_subframe3 s4 assms)
  qed
qed


text \<open>A sign bit and a value of \<open>n\<close> bits are one number of \<open>n + 1\<close> bits in two's complement.\<close>

lemma sign_value:
  assumes "off + (1 + n) \<le> 8 * length d"
  shows "(if bit_slice d off 1 \<noteq> 0 then ubits d (off + 1) n - 2 ^ n else ubits d (off + 1) n) = sbits d off (1 + n)"
proof -
  have v: "bit_slice d off (1 + n) = bit_slice d off 1 * 2 ^ n + bit_slice d (off + 1) n" by (rule slice_append) (use assms in simp)
  have s: "bit_slice d off 1 = 0 \<or> bit_slice d off 1 = 1" using bit_slice_less [of d off 1] by auto
  have x: "bit_slice d (off + 1) n < 2 ^ n" by (rule bit_slice_less)
  from s show ?thesis
  proof
    assume "bit_slice d off 1 = 0"
    then show ?thesis using v x by (simp add: signed_of_def)
  next
    assume "bit_slice d off 1 = 1"
    then show ?thesis using v x by (simp add: signed_of_def)
  qed
qed

lemma num_attr_simps [simp]:
  "num_attr (VStruct c []) name = 0"
  "num_attr (VStruct c ((n, v) # fs)) name = (if n = name then (case num_of v of Some k \<Rightarrow> k | None \<Rightarrow> 0) else num_attr (VStruct c fs) name)"
  by (simp_all add: num_attr_def attr_def)

lemma sub_attr_simps [simp]:
  "sub_attr (VStruct c []) name = VNone"
  "sub_attr (VStruct c ((n, v) # fs)) name = (if n = name then v else sub_attr (VStruct c fs) name)"
  by (simp_all add: sub_attr_def attr_def)

lemma gps_properties:
  assumes "length d = 30"
  shows "gps_af_0 (subframe1_of d) = sbits d 216 22"
    "gps_omega_dot (subframe3_of d) = sbits d 192 24"
    "gps_idot (subframe3_of d) = sbits d 224 14"
  using assms sign_value [of 216 21 d] sign_value [of 192 23 d] sign_value [of 224 13 d]
  by (simp_all add: gps_af_0_def gps_omega_dot_def gps_idot_def gps_signed_def subframe1_of_def subframe3_of_def split: if_splits)

definition ephemeris_spec :: "int \<Rightarrow> octets \<Rightarrow> octets \<Rightarrow> octets \<Rightarrow> gps_ephemeris" where
  "ephemeris_spec sv d1 d2 d3 =
     (let week = ubits d1 48 10 + (if ubits d1 48 10 < 853 then 2048 else 1024);
          week = (if ubits d2 216 16 = 0 \<and> 597600 \<le> ubits d2 24 17 * 6 then week + 1 else week)
      in \<lparr>ep_svId = sv, ep_tgd = sbits d1 160 8 / 2 ^ 31, ep_toc = ubits d1 176 16 * 16, ep_af2 = sbits d1 192 8 / 2 ^ 55,
          ep_af1 = sbits d1 200 16 / 2 ^ 43, ep_af0 = sbits d1 216 22 / 2 ^ 31, ep_svHealth = ubits d1 64 6, ep_towCount = ubits d1 24 17,
          ep_crs = sbits d2 56 16 / 2 ^ 5, ep_deltaN = sbits d2 72 16 / 2 ^ 43 * gpsPi, ep_m0 = sbits d2 88 32 / 2 ^ 31 * gpsPi,
          ep_cuc = sbits d2 120 16 / 2 ^ 29, ep_ecc = sbits d2 136 32 / 2 ^ 33, ep_cus = sbits d2 168 16 / 2 ^ 29,
          ep_a = (ubits d2 184 32 / 2 ^ 19)\<^sup>2, ep_toe = ubits d2 216 16 * 16,
          ep_cic = sbits d3 48 16 / 2 ^ 29, ep_omega0 = sbits d3 64 32 / 2 ^ 31 * gpsPi, ep_cis = sbits d3 96 16 / 2 ^ 29,
          ep_i0 = sbits d3 112 32 / 2 ^ 31 * gpsPi, ep_crc = sbits d3 144 16 / 2 ^ 5, ep_omega = sbits d3 160 32 / 2 ^ 31 * gpsPi,
          ep_omegaDot = sbits d3 192 24 / 2 ^ 43 * gpsPi, ep_iode = ubits d3 216 8, ep_iDot = sbits d3 224 14 / 2 ^ 43 * gpsPi,
          ep_toeWeek = week, ep_tocWeek = week\<rparr>)"

definition one_issue :: "octets \<Rightarrow> octets \<Rightarrow> octets \<Rightarrow> bool" where
  "one_issue d1 d2 d3 \<longleftrightarrow> ubits d1 168 8 = ubits d2 48 8 \<and> ubits d2 48 8 = ubits d3 216 8"

lemma gps_ephemeris_of_bits:
  assumes "length d1 = 30" "length d3 = 30"
    and "sf1 = VStruct c1 [(''tlm'', t1), (''how'', how_of d1), (''body'', subframe1_of d1)]"
    and "sf2 = VStruct c2 [(''tlm'', t2), (''how'', how_of d2), (''body'', subframe2_of d2)]"
    and "sf3 = VStruct c3 [(''tlm'', t3), (''how'', h3), (''body'', subframe3_of d3)]"
  shows "gps_ephemeris_of sv sf1 sf2 sf3 = ephemeris_spec sv d1 d2 d3" and "same_issue sf1 sf2 sf3 \<longleftrightarrow> one_issue d1 d2 d3"
proof -
  have week: "gps_week (subframe1_of d1) (subframe2_of d2) (ubits d2 24 17) =
     (let week = ubits d1 48 10 + (if ubits d1 48 10 < 853 then 2048 else 1024)
      in if ubits d2 216 16 = 0 \<and> 597600 \<le> ubits d2 24 17 * 6 then week + 1 else week)"
    by (simp add: gps_week_def subframe1_of_def subframe2_of_def SECS_IN_WEEK_def SECS_IN_DAY_def SECS_IN_HR_def SECS_IN_MIN_def Let_def)
  have how: "num_attr (how_of d1) ''tow_count'' = ubits d1 24 17" "num_attr (how_of d2) ''tow_count'' = ubits d2 24 17"
    by (simp_all add: how_of_def)
  note props = gps_properties(1) [OF assms(1)] gps_properties(2,3) [OF assms(2)]
  show "gps_ephemeris_of sv sf1 sf2 sf3 = ephemeris_spec sv d1 d2 d3"
    unfolding gps_ephemeris_of_def ephemeris_spec_def assms(3-5) Let_def
    by (simp add: how week props Let_def) (simp add: subframe1_of_def subframe2_of_def subframe3_of_def)
  show "same_issue sf1 sf2 sf3 \<longleftrightarrow> one_issue d1 d2 d3"
    unfolding assms(3-5) by (simp add: same_issue_def one_issue_def subframe1_of_def subframe2_of_def subframe3_of_def)
qed

lemma cached_subframe:
  assumes "map_of cached k = Some d" "is_subframe k d" "k \<in> {1, 2, 3}" "name = (if k = 1 then ''Subframe1'' else if k = 2 then ''Subframe2'' else ''Subframe3'')"
  shows "cached_struct Gps ''body'' name cached k =
    Inr (VStruct ''Gps'' [(''tlm'', tlm_of d), (''how'', how_of d),
      (''body'', if k = 1 then subframe1_of d else if k = 2 then subframe2_of d else subframe3_of d)])"
proof -
  have d: "length d = 30" "take 1 d = [0x8B]" "ubits d 43 3 = k" using assms(2) by (simp_all add: is_subframe_def)
  from parse_gps(2) [OF d(1,2)] d(3) assms(3) have "from_bytes Gps d = Inr (VStruct ''Gps'' [(''tlm'', tlm_of d), (''how'', how_of d),
      (''body'', if k = 1 then subframe1_of d else if k = 2 then subframe2_of d else subframe3_of d)])" by auto
  then show ?thesis using assms(1,3,4) by (auto simp: cached_struct_def subframe1_of_def subframe2_of_def subframe3_of_def)
qed

lemma gps_assemble_cached:
  assumes "map_of cached 1 = Some d1" "is_subframe 1 d1" "map_of cached 2 = Some d2" "is_subframe 2 d2" "map_of cached 3 = Some d3" "is_subframe 3 d3"
  shows "gps_assemble sv cached = Inr (if one_issue d1 d2 d3 then Some (GpsEphemeris (ephemeris_spec sv d1 d2 d3)) else None)"
proof -
  have len: "length d1 = 30" "length d3 = 30" using assms by (simp_all add: is_subframe_def)
  note c1 = cached_subframe [OF assms(1,2), of "''Subframe1''"] and c2 = cached_subframe [OF assms(3,4), of "''Subframe2''"]
    and c3 = cached_subframe [OF assms(5,6), of "''Subframe3''"]
  show ?thesis using c1 c2 c3 by (simp add: gps_assemble_def gps_ephemeris_of_bits [OF len refl refl refl])
qed


subsection \<open>The cache of GPS subframes\<close>

definition slot_ok :: "nat list set \<Rightarrow> (int \<times> octets) list \<Rightarrow> bool" where
  "slot_ok received cached \<longleftrightarrow> distinct (map fst cached) \<and>
     (\<forall>k d. map_of cached k = Some d \<longrightarrow> k \<in> {1, 2, 3} \<and> is_subframe k d \<and> d \<in> gps_subframe_data ` received)"

lemma slot_ok_Nil [simp]: "slot_ok R []"
  by (simp add: slot_ok_def)

lemma slot_ok_mono: "slot_ok R cached \<Longrightarrow> R \<subseteq> R' \<Longrightarrow> slot_ok R' cached"
  unfolding slot_ok_def by blast

lemma slot_ok_update:
  "slot_ok R cached \<Longrightarrow> k \<in> {1, 2, 3} \<Longrightarrow> is_subframe k (gps_subframe_data b) \<Longrightarrow>
     slot_ok (insert b R) (AList.update k (gps_subframe_data b) cached)"
  by (auto simp: slot_ok_def update_conv' distinct_update)

lemma slot_full:
  assumes "slot_ok R cached" "length cached = 3" "k \<in> {1, 2, 3}"
  obtains d where "map_of cached k = Some d" "is_subframe k d" "d \<in> gps_subframe_data ` R"
proof -
  have dist: "distinct (map fst cached)" using assms(1) by (simp add: slot_ok_def)
  have "fst ` set cached \<subseteq> {1, 2, 3}"
  proof
    fix x assume "x \<in> fst ` set cached"
    then obtain d where "map_of cached x = Some d" by (metis map_of_eq_None_iff not_None_eq)
    then show "x \<in> {1, 2, 3}" using assms(1) unfolding slot_ok_def by blast
  qed
  moreover have "card (fst ` set cached) = 3" using distinct_card [OF dist] assms(2) by simp
  ultimately have "fst ` set cached = {1, 2, 3}" by (intro card_subset_eq) simp_all
  then have "k \<in> dom (map_of cached)" using assms(3) by (simp add: dom_map_of_conv_image_fst)
  then obtain d where "map_of cached k = Some d" by blast
  then show thesis using that assms(1) unfolding slot_ok_def by blast
qed

lemma length_subframe_data: "length body = 10 \<Longrightarrow> length (gps_subframe_data body) = 30"
proof -
  have "length (gps_subframe_data ws) = 3 * length ws" for ws
    by (induction ws) (simp_all add: gps_subframe_data_def gps_word_bytes_def Let_def)
  then show "length body = 10 \<Longrightarrow> length (gps_subframe_data body) = 30" by simp
qed

text \<open>One message for a satellite: what it leaves in the cache and what it may publish.\<close>

lemma parse_gps_accept:
  assumes "length body = 10" "is_subframe k (gps_subframe_data body)" "k \<in> {1, 2, 3}"
  shows "parse_gps_ephemeris sv body p =
    (let c = AList.update k (gps_subframe_data body) (gps_subframes p sv); p = p\<lparr>gps_subframes := (gps_subframes p)(sv := c)\<rparr>
     in if length c \<noteq> 3 then (Inr None, p)
        else case gps_assemble sv c of Inl e \<Rightarrow> (Inl e, p) | Inr res \<Rightarrow> (Inr res, p\<lparr>gps_subframes := (gps_subframes p)(sv := [])\<rparr>))"
proof -
  let ?d = "gps_subframe_data body"
  have d: "length ?d = 30" "take 1 ?d = [0x8B]" "ubits ?d 43 3 = k" using assms(2) by (simp_all add: is_subframe_def)
  obtain b where f: "from_bytes Gps ?d = Inr (VStruct ''Gps'' [(''tlm'', tlm_of ?d), (''how'', how_of ?d), (''body'', b)])"
    using parse_gps(2) [OF d(1,2)] by blast
  have id: "num_attr (sub_attr (VStruct ''Gps'' [(''tlm'', tlm_of ?d), (''how'', how_of ?d), (''body'', b)]) ''how'') ''subframe_id'' = k"
    by (simp add: how_of_def d(3))
  show ?thesis using assms(1,3) f id by (auto simp: parse_gps_ephemeris_def Let_def)
qed

lemma parse_gps_step:
  assumes "slot_ok R (gps_subframes p sv)" "parse_gps_ephemeris sv body p = (res, p')"
  shows "slot_ok (insert body R) (gps_subframes p' sv) \<and> (\<forall>sv'. sv' \<noteq> sv \<longrightarrow> gps_subframes p' sv' = gps_subframes p sv') \<and>
    (\<forall>e. res = Inl e \<longrightarrow> e = ValueError) \<and>
    (\<forall>m. res = Inr (Some m) \<longrightarrow> (\<exists>d1 d2 d3. {d1, d2, d3} \<subseteq> gps_subframe_data ` insert body R \<and> is_subframe 1 d1 \<and> is_subframe 2 d2 \<and> is_subframe 3 d3 \<and>
       one_issue d1 d2 d3 \<and> m = GpsEphemeris (ephemeris_spec sv d1 d2 d3)))"
proof (cases "length body = 10")
  case False
  then show ?thesis using assms slot_ok_mono [OF assms(1), of "insert body R"] by (auto simp: parse_gps_ephemeris_def)
next
  case True
  let ?d = "gps_subframe_data body"
  note len = length_subframe_data [OF True]
  show ?thesis
  proof (cases "take 1 ?d = [0x8B]")
    case False
    then have "from_bytes Gps ?d = Inl ValueError" by (rule parse_gps(1) [OF len])
    then show ?thesis using assms True slot_ok_mono [OF assms(1), of "insert body R"] by (auto simp: parse_gps_ephemeris_def)
  next
    case pre: True
    obtain b where f: "from_bytes Gps ?d = Inr (VStruct ''Gps'' [(''tlm'', tlm_of ?d), (''how'', how_of ?d), (''body'', b)])"
      using parse_gps(2) [OF len pre] by blast
    define k where "k = ubits ?d 43 3"
    have id: "num_attr (sub_attr (VStruct ''Gps'' [(''tlm'', tlm_of ?d), (''how'', how_of ?d), (''body'', b)]) ''how'') ''subframe_id'' = k"
      by (simp add: how_of_def k_def)
    have sub: "is_subframe k ?d" using len pre by (simp add: is_subframe_def k_def)
    show ?thesis
    proof (cases "k < 1 \<or> k > 3")
      case True
      then show ?thesis using assms \<open>length body = 10\<close> f id slot_ok_mono [OF assms(1), of "insert body R"]
        by (auto simp: parse_gps_ephemeris_def Let_def)
    next
      case k: False
      let ?c = "AList.update k ?d (gps_subframes p sv)"
      have ok: "slot_ok (insert body R) ?c" by (rule slot_ok_update [OF assms(1) _ sub]) (use k in auto)
      have k3: "k \<in> {1, 2, 3}" using k by auto
      note step = parse_gps_accept [OF True sub k3, of sv p]
      show ?thesis
      proof (cases "length ?c = 3")
        case False
        then show ?thesis using assms(2) ok by (auto simp: step Let_def)
      next
        case full: True
        obtain d1 where d1: "map_of ?c 1 = Some d1" "is_subframe 1 d1" "d1 \<in> gps_subframe_data ` insert body R"
          by (rule slot_full [OF ok full, of 1]) auto
        obtain d2 where d2: "map_of ?c 2 = Some d2" "is_subframe 2 d2" "d2 \<in> gps_subframe_data ` insert body R"
          by (rule slot_full [OF ok full, of 2]) auto
        obtain d3 where d3: "map_of ?c 3 = Some d3" "is_subframe 3 d3" "d3 \<in> gps_subframe_data ` insert body R"
          by (rule slot_full [OF ok full, of 3]) auto
        note asm = gps_assemble_cached [OF d1(1,2) d2(1,2) d3(1,2), of sv]
        have res: "res = Inr (if one_issue d1 d2 d3 then Some (GpsEphemeris (ephemeris_spec sv d1 d2 d3)) else None)"
          and p': "gps_subframes p' = (gps_subframes p)(sv := [])"
          using assms(2) full by (auto simp: step asm Let_def)
        show ?thesis using d1 d2 d3 by (auto simp: res p' split: if_splits)
      qed
    qed
  qed
qed


definition gps_input :: "octets \<Rightarrow> (int \<times> nat list) option" where
  "gps_input frame =
     (let payload = frame_payload frame; n = unat (payload ! 4)
      in if be_bytes (take 2 (drop 2 frame)) = 0x0213 \<and> 8 \<le> length payload \<and> 8 + 4 * n = length payload \<and> payload ! 0 = 0
         then Some (int (unat (payload ! 1)), sfrbx_words payload n) else None)"

lemma parse_frame_gps: "gps_input frame = Some (sv, body) \<Longrightarrow> parse_frame frame p = parse_gps_ephemeris sv body p"
  by (auto simp: gps_input_def parse_frame_def parse_sfrbx_def GnssType_members_def Let_def split: if_splits)

lemma glonass_keeps_gps: "gps_subframes (snd (parse_glonass_ephemeris sv freq_id body p)) = gps_subframes p"
  by (simp add: parse_glonass_ephemeris_def glonass_receive_def glonass_store_def glonass_clear_def Let_def split: sum.split option.split)

lemma glonass_cached_result:
  "(\<And>s. cont s \<noteq> Inr (Some (GpsEphemeris e))) \<Longrightarrow> glonass_cached cached k name cont \<noteq> Inr (Some (GpsEphemeris e))"
  by (simp add: glonass_cached_def split: option.split sum.split)

lemma glonass_no_gps: "fst (parse_glonass_ephemeris sv freq_id body p) \<noteq> Inr (Some (GpsEphemeris e))"
proof -
  have "glonass_assemble sv freq_id c \<noteq> Inr (Some (GpsEphemeris e))" for c
    unfolding glonass_assemble_def by (intro glonass_cached_result) simp
  then show ?thesis by (auto simp: parse_glonass_ephemeris_def Let_def split: sum.split option.split)
qed

lemma gen_no_gps:
  "gen_rxm_rawx b \<noteq> Inr (GpsEphemeris e)" "gen_mon_hw b \<noteq> Inr (GpsEphemeris e)" "gen_mon_hw2 b \<noteq> GpsEphemeris e"
  "gen_nav_sat b \<noteq> Inr (GpsEphemeris e)"
  by (simp_all add: gen_rxm_rawx_def gen_mon_hw_def gen_mon_hw2_def gen_nav_sat_def return_iff)

lemma parse_frame_other:
  assumes "gps_input frame = None"
  shows "gps_subframes (snd (parse_frame frame p)) = gps_subframes p \<and> fst (parse_frame frame p) \<noteq> Inr (Some (GpsEphemeris e))"
proof (cases "be_bytes (take 2 (drop 2 frame)) = 0x0213")
  case True
  let ?payload = "frame_payload frame"
  have f: "parse_frame frame p = parse_sfrbx ?payload p" using True by (simp add: parse_frame_def Let_def)
  show ?thesis
  proof (cases "8 \<le> length ?payload \<and> 8 + 4 * unat (?payload ! 4) = length ?payload")
    case len: True
    then have "?payload ! 0 \<noteq> 0" using assms True by (auto simp: gps_input_def Let_def)
    then have "uint (?payload ! 0) \<noteq> 0" by (simp add: uint_0_iff)
    then show ?thesis using glonass_keeps_gps glonass_no_gps unfolding f by (auto simp: parse_sfrbx_def Let_def)
  next
    case False
    then show ?thesis unfolding f by (auto simp: parse_sfrbx_def Let_def)
  qed
next
  case False
  then show ?thesis by (simp add: parse_frame_def Let_def return_iff gen_no_gps)
qed

text \<open>The words that a run of frames carried for a satellite.\<close>

definition gps_received :: "octets list \<Rightarrow> int \<Rightarrow> nat list set" where
  "gps_received fs sv = {body. \<exists>f \<in> set fs. gps_input f = Some (sv, body)}"

abbreviation parser_run :: "octets list \<Rightarrow> ublox_parser" where
  "parser_run fs \<equiv> frames (\<lambda>p f. snd (parse_frame f p)) UbloxMsgParser fs"

lemma parser_run_slots: "slot_ok (gps_received fs sv) (gps_subframes (parser_run fs) sv)"
proof (induction fs arbitrary: sv rule: rev_induct)
  case Nil
  show ?case by (simp add: UbloxMsgParser_def)
next
  case (snoc f fs)
  have mono: "gps_received fs sv \<subseteq> gps_received (fs @ [f]) sv" for sv by (auto simp: gps_received_def)
  show ?case
  proof (cases "gps_input f")
    case None
    then show ?thesis using parse_frame_other [OF None, of "parser_run fs"] slot_ok_mono [OF snoc.IH mono] by simp
  next
    case (Some i)
    obtain sv' body where i: "i = (sv', body)" by fastforce
    obtain res p' where r: "parse_gps_ephemeris sv' body (parser_run fs) = (res, p')" by fastforce
    note st = parse_gps_step [OF snoc.IH r]
    have "insert body (gps_received fs sv') \<subseteq> gps_received (fs @ [f]) sv'" using Some i by (auto simp: gps_received_def)
    then have "slot_ok (gps_received (fs @ [f]) sv') (gps_subframes p' sv')" using st slot_ok_mono by blast
    moreover have "sv \<noteq> sv' \<Longrightarrow> slot_ok (gps_received (fs @ [f]) sv) (gps_subframes p' sv)"
      using st slot_ok_mono [OF snoc.IH mono] by auto
    ultimately show ?thesis using parse_frame_gps [of f sv' body "parser_run fs"] Some i r by (cases "sv = sv'") simp_all
  qed
qed

text \<open>
  Every field of a published ephemeris, as the code reads it. Three fields, \<open>af0\<close>, \<open>omegaDot\<close> and
  \<open>iDot\<close>, are numbers in two's complement, although the docstrings of their properties in \<open>gps.py\<close> say
  sign and magnitude. The eccentricity is read as a signed number, as \<open>gps.py\<close> declares it; the
  sign bit is zero for an orbit.
\<close>

lemma gps_ephemeris_fields:
  assumes "fst (parse_frame f (parser_run fs)) = Inr (Some (GpsEphemeris e))"
  shows "\<exists>d1 d2 d3. {d1, d2, d3} \<subseteq> gps_subframe_data ` gps_received (fs @ [f]) (ep_svId e) \<and>
    is_subframe 1 d1 \<and> is_subframe 2 d2 \<and> is_subframe 3 d3 \<and> one_issue d1 d2 d3 \<and> e = ephemeris_spec (ep_svId e) d1 d2 d3"
proof (cases "gps_input f")
  case None
  then show ?thesis using parse_frame_other [OF None] assms by blast
next
  case (Some i)
  obtain sv body where i: "i = (sv, body)" by fastforce
  obtain p' where r: "parse_gps_ephemeris sv body (parser_run fs) = (Inr (Some (GpsEphemeris e)), p')"
    using assms parse_frame_gps [of f sv body "parser_run fs"] Some i by (metis prod.collapse)
  from parse_gps_step [OF parser_run_slots r] obtain d1 d2 d3 where
    d: "{d1, d2, d3} \<subseteq> gps_subframe_data ` insert body (gps_received fs sv)" "is_subframe 1 d1" "is_subframe 2 d2" "is_subframe 3 d3"
      "one_issue d1 d2 d3" "e = ephemeris_spec sv d1 d2 d3" by blast
  have sv: "ep_svId e = sv" using d(6) by (simp add: ephemeris_spec_def Let_def)
  have "insert body (gps_received fs sv) \<subseteq> gps_received (fs @ [f]) sv" using Some i by (auto simp: gps_received_def)
  with order_trans [OF d(1) image_mono [OF this]] have sub: "{d1, d2, d3} \<subseteq> gps_subframe_data ` gps_received (fs @ [f]) (ep_svId e)"
    by (simp only: sv)
  have e: "e = ephemeris_spec (ep_svId e) d1 d2 d3" unfolding sv by (rule d(6))
  show ?thesis by (rule exI [of _ d1], rule exI [of _ d2], rule exI [of _ d3]) (intro conjI sub d(2-5) e)
qed

text \<open>Three messages of satellite 5 with the subframes 1, 2 and 3, all of issue 0.\<close>

definition example_sfrbx :: "octet \<Rightarrow> octets" where
  "example_sfrbx k =
     [0xB5, 0x62, 0x02, 0x13, 48, 0] @ [0, 5, 0, 0, 10, 0, 0, 0] @ [0, 0, 0xC0, 0x22] @ [0, k, 0, 0] @ replicate 32 0 @ [0, 0]"

definition example_words :: "nat \<Rightarrow> nat list" where
  "example_words k = [0x22C00000, 256 * k] @ replicate 8 0"

lemma example_payload: "frame_payload (example_sfrbx k) = [0, 5, 0, 0, 10, 0, 0, 0] @ [0, 0, 0xC0, 0x22] @ [0, k, 0, 0] @ replicate 32 0"
  by (simp add: frame_payload_def example_sfrbx_def)

lemma le_zero: "le_bytes (replicate n 0) = 0"
proof -
  have "be_bytes (replicate n 0) = 0" by (induction n) (simp_all add: be_bytes_def)
  then show ?thesis by (simp add: le_bytes_def)
qed

lemma upt10: "[0..<10] = [0, 1, 2, 3, 4, 5, 6, 7, 8, 9::nat]"
  by (simp add: upt_rec)

lemma replicate8: "replicate 8 x = [x, x, x, x, x, x, x, x]"
  by (simp add: numeral_nat)

lemma example_sfrbx_words: "sfrbx_words (frame_payload (example_sfrbx k)) 10 = example_words (unat k)"
  unfolding example_payload sfrbx_words_def upt10 example_words_def replicate8
  by (simp add: le_zero) (simp add: le_bytes_def be_bytes_def)

lemma replicate24: "replicate 24 x = [x, x, x, x, x, x, x, x, x, x, x, x, x, x, x, x, x, x, x, x, x, x, x, x]"
  by (simp add: numeral_nat)

lemma example_subframe_data: "gps_subframe_data (example_words 1) = [0x8B, 0, 0, 0, 0, 4] @ replicate 24 0"
  "gps_subframe_data (example_words 2) = [0x8B, 0, 0, 0, 0, 8] @ replicate 24 0"
  "gps_subframe_data (example_words 3) = [0x8B, 0, 0, 0, 0, 12] @ replicate 24 0"
  unfolding replicate24 example_words_def replicate8 gps_subframe_data_def gps_word_bytes_def
  by (simp_all add: Let_def word_uint_eq_iff)


lemma example_input: "unat k \<noteq> 0 \<Longrightarrow> gps_input (example_sfrbx k) = Some (5, example_words (unat k))"
proof -
  have "be_bytes (take 2 (drop 2 (example_sfrbx k))) = 0x0213" by (simp add: be_bytes_def example_sfrbx_def)
  moreover have "frame_payload (example_sfrbx k) ! 0 = 0" "frame_payload (example_sfrbx k) ! 1 = 5" "frame_payload (example_sfrbx k) ! 4 = 10"
    "length (frame_payload (example_sfrbx k)) = 48" by (simp_all add: example_payload)
  ultimately show ?thesis by (simp add: gps_input_def example_sfrbx_words)
qed

lemma example_subframe: "k \<in> {1, 2, 3} \<Longrightarrow> is_subframe (int k) (gps_subframe_data (example_words k))"
  using slice_in_byte [of 5 "gps_subframe_data (example_words k)" 3 3]
  by (auto simp: is_subframe_def example_subframe_data example_subframe_data(1) [unfolded One_nat_def] mask_numeral)

lemma example_issue: "one_issue (gps_subframe_data (example_words 1)) (gps_subframe_data (example_words 2)) (gps_subframe_data (example_words 3))"
  using be_bytes_slice [of 1 21 "gps_subframe_data (example_words 1)"] be_bytes_slice [of 1 6 "gps_subframe_data (example_words 2)"]
    be_bytes_slice [of 1 27 "gps_subframe_data (example_words 3)"]
  by (simp add: one_issue_def example_subframe_data example_subframe_data(1) [unfolded One_nat_def] be_bytes_def drop_replicate)

lemma example_publishes:
  "\<exists>e. fst (parse_frame (example_sfrbx 3) (parser_run [example_sfrbx 1, example_sfrbx 2])) = Inr (Some (GpsEphemeris e)) \<and> ep_svId e = 5"
proof -
  let ?w = example_words and ?d = "\<lambda>k. gps_subframe_data (example_words k)"
  note sub = example_subframe [of 1, simplified] example_subframe [of 2, simplified] example_subframe [of 3, simplified]
  have len: "length (?w k) = 10" for k by (simp add: example_words_def)
  note step = parse_frame_gps [OF example_input] parse_gps_accept [OF len sub(1)] parse_gps_accept [OF len sub(2)] parse_gps_accept [OF len sub(3)]
  have p1: "gps_subframes (parser_run [example_sfrbx 1]) 5 = [(1, ?d 1)]"
    by (simp add: step Let_def UbloxMsgParser_def)
  have p2: "gps_subframes (parser_run [example_sfrbx 1, example_sfrbx 2]) 5 = [(1, ?d 1), (2, ?d 2)]"
    using p1 by (simp add: step Let_def)
  have "gps_assemble 5 [(1, ?d 1), (2, ?d 2), (3, ?d 3)] = Inr (Some (GpsEphemeris (ephemeris_spec 5 (?d 1) (?d 2) (?d 3))))"
    using gps_assemble_cached [of "[(1, ?d 1), (2, ?d 2), (3, ?d 3)]" "?d 1" "?d 2" "?d 3" 5] sub example_issue by simp
  then have "fst (parse_frame (example_sfrbx 3) (parser_run [example_sfrbx 1, example_sfrbx 2])) =
      Inr (Some (GpsEphemeris (ephemeris_spec 5 (?d 1) (?d 2) (?d 3))))"
    using p2 by (simp add: step Let_def)
  then show ?thesis by (auto simp: ephemeris_spec_def Let_def)
qed

text \<open>
  C31. A GPS ephemeris is one issue of data. Whatever frames came before, when a frame makes the
  parser publish a GPS ephemeris, three of the messages received for that satellite are its
  subframes 1, 2 and 3, they carry the same issue of data, and the fields of the ephemeris are
  the scaled numbers at their places in these subframes. (The values of \<open>af0\<close>, \<open>omegaDot\<close> and
  \<open>iDot\<close> are left open here: their docstrings in \<open>gps.py\<close> say sign and magnitude where the code decodes
  two's complement, which the lemma \<open>gps_ephemeris_fields\<close> records.)
\<close>

theorem gps_ephemeris_of_one_issue:
  assumes "fst (parse_frame f (parser_run fs)) = Inr (Some (GpsEphemeris e))"
  shows "\<exists>d1 d2 d3. {d1, d2, d3} \<subseteq> gps_subframe_data ` gps_received (fs @ [f]) (ep_svId e) \<and>
    is_subframe 1 d1 \<and> is_subframe 2 d2 \<and> is_subframe 3 d3 \<and> one_issue d1 d2 d3 \<and>
    e = (ephemeris_spec (ep_svId e) d1 d2 d3)\<lparr>ep_af0 := ep_af0 e, ep_omegaDot := ep_omegaDot e, ep_iDot := ep_iDot e\<rparr>"
proof -
  from gps_ephemeris_fields [OF assms] obtain d1 d2 d3 where
    d: "{d1, d2, d3} \<subseteq> gps_subframe_data ` gps_received (fs @ [f]) (ep_svId e)" "is_subframe 1 d1" "is_subframe 2 d2"
      "is_subframe 3 d3" "one_issue d1 d2 d3" "e = ephemeris_spec (ep_svId e) d1 d2 d3" by blast
  have "x = y\<lparr>ep_af0 := ep_af0 x, ep_omegaDot := ep_omegaDot x, ep_iDot := ep_iDot x\<rparr>" if "x = y" for x y :: gps_ephemeris
    unfolding that by simp
  from this [OF d(6)] show ?thesis using d(1-5) by blast
qed

theorem gps_ephemeris_of_one_issue_witness:
  "\<exists>e d1 d2 d3. {d1, d2, d3} \<subseteq> gps_subframe_data ` gps_received [example_sfrbx 1, example_sfrbx 2, example_sfrbx 3] 5 \<and>
     one_issue d1 d2 d3 \<and> e = (ephemeris_spec 5 d1 d2 d3)\<lparr>ep_af0 := ep_af0 e, ep_omegaDot := ep_omegaDot e, ep_iDot := ep_iDot e\<rparr>"
proof -
  obtain e where e: "fst (parse_frame (example_sfrbx 3) (parser_run [example_sfrbx 1, example_sfrbx 2])) = Inr (Some (GpsEphemeris e))" "ep_svId e = 5"
    using example_publishes by blast
  from gps_ephemeris_of_one_issue [OF e(1)] show ?thesis unfolding e(2) append.simps by blast
qed

end
