(* ===== verification/Radard.thy ===== *)
theory Radard
  imports Filters Long_Shaping "HOL-Library.AList"
begin

text \<open>
  The process that estimates the leads, \<open>selfdrive/controls/radard.py\<close>, with the Kalman filter of a
  track (\<open>common/simple_kalman.py\<close>) and the override for objects that cut in
  (\<open>sunnypilot/custom/longitudinal/radar_cut_in/override.py\<close>). Points of the radar are finite
  numbers; the values of the driving model may be missing or not finite and are options. Whether the
  lateral offset is taken from the model on a car (flags of \<open>opendbc\<close>) is an input.

  The lemmas show that the filter of a track converges to a steady speed, that every radar lead that
  is published is a point of the current radar frame that passed its gates, and that no close
  object at low speed is missed.
\<close>

subsection \<open>The Kalman filter of a track\<close>

record kf1d =
  kf_x0 :: real
  kf_x1 :: real
  kf_A_K_0 :: real
  kf_A_K_1 :: real
  kf_A_K_2 :: real
  kf_A_K_3 :: real
  kf_K0 :: real
  kf_K1 :: real

text \<open>Matrices are given by their entries: \<open>A\<close> row by row, \<open>C\<close> and \<open>K\<close> as pairs.\<close>

definition KF1D :: "real \<times> real \<Rightarrow> (real \<times> real) \<times> (real \<times> real) \<Rightarrow> real \<times> real \<Rightarrow> real \<times> real \<Rightarrow> kf1d" where
  "KF1D x0 A C K =
     \<lparr>kf_x0 = fst x0, kf_x1 = snd x0,
      kf_A_K_0 = fst (fst A) - fst K * fst C, kf_A_K_1 = snd (fst A) - fst K * snd C,
      kf_A_K_2 = fst (snd A) - snd K * fst C, kf_A_K_3 = snd (snd A) - snd K * snd C,
      kf_K0 = fst K, kf_K1 = snd K\<rparr>"

definition kf_update :: "real \<Rightarrow> kf1d \<Rightarrow> kf1d" where
  "kf_update meas k =
     k\<lparr>kf_x0 := kf_A_K_0 k * kf_x0 k + kf_A_K_1 k * kf_x1 k + kf_K0 k * meas,
       kf_x1 := kf_A_K_2 k * kf_x0 k + kf_A_K_3 k * kf_x1 k + kf_K1 k * meas\<rparr>"

definition LEAD_ACCEL_TAU :: real where "LEAD_ACCEL_TAU = 15 / 10"
definition V_EGO_STATIONARY :: real where "V_EGO_STATIONARY = 4"
definition RADAR_TO_CAMERA :: real where "RADAR_TO_CAMERA = 152 / 100"
definition VISION_ONLY_PROB_THRESHOLD :: real where "VISION_ONLY_PROB_THRESHOLD = 5 / 10"
definition RADAR_CONFIRMED_PROB_THRESHOLD :: real where "RADAR_CONFIRMED_PROB_THRESHOLD = 25 / 100"

record kalman_params =
  kp_A :: "(real \<times> real) \<times> (real \<times> real)"
  kp_C :: "real \<times> real"
  kp_K :: "real \<times> real"

definition K0_table :: "real list" where
  "K0_table = [0.12287673, 0.14556536, 0.16522756, 0.18281627, 0.1988689, 0.21372394,
     0.22761098, 0.24069424, 0.253096, 0.26491023, 0.27621103, 0.28705801,
     0.29750003, 0.30757767, 0.31732515, 0.32677158, 0.33594201, 0.34485814,
     0.35353899, 0.36200124]"

definition K1_table :: "real list" where
  "K1_table = [0.29666309, 0.29330885, 0.29042818, 0.28787125, 0.28555364, 0.28342219,
     0.28144091, 0.27958406, 0.27783249, 0.27617149, 0.27458948, 0.27307714,
     0.27162685, 0.27023228, 0.26888809, 0.26758976, 0.26633338, 0.26511557,
     0.26393339, 0.26278425]"

definition kalman_dts :: "real list" where
  "kalman_dts = map (\<lambda>i. real i * (1 / 100)) [1..<21]"

definition KalmanParams :: "real \<Rightarrow> py_error + kalman_params" where
  "KalmanParams dt =
     (if dt > 1 / 100 \<and> dt < 2 / 10
      then Inr \<lparr>kp_A = ((1, dt), (0, 1)), kp_C = (1, 0), kp_K = (np_interp dt (zip kalman_dts K0_table), np_interp dt (zip kalman_dts K1_table))\<rparr>
      else Inl AssertionError)"

subsection \<open>Tracks\<close>

text \<open>
  A track takes its measured values with its first \<open>update\<close>, which follows its construction at
  once; until then they are zero here.
\<close>

record track =
  tk_identifier :: int
  tk_cnt :: nat
  tk_aLeadTau :: first_order_filter
  tk_kf :: kf1d
  tk_dRel :: real
  tk_yRel :: real
  tk_vRel :: real
  tk_vLead :: real
  tk_vLeadK :: real
  tk_aLeadK :: real

definition Track :: "int \<Rightarrow> real \<Rightarrow> kalman_params \<Rightarrow> track" where
  "Track identifier v_lead kp =
     \<lparr>tk_identifier = identifier, tk_cnt = 0, tk_aLeadTau = FirstOrderFilter LEAD_ACCEL_TAU (45 / 100) DT_MDL True,
      tk_kf = KF1D (v_lead, 0) (kp_A kp) (kp_C kp) (kp_K kp),
      tk_dRel = 0, tk_yRel = 0, tk_vRel = 0, tk_vLead = 0, tk_vLeadK = 0, tk_aLeadK = 0\<rparr>"

definition track_update :: "real \<times> real \<times> real \<Rightarrow> real \<Rightarrow> track \<Rightarrow> track" where
  "track_update rpt v_lead t =
     (let t = t\<lparr>tk_dRel := fst rpt, tk_yRel := fst (snd rpt), tk_vRel := snd (snd rpt), tk_vLead := v_lead\<rparr>;
          t = (if tk_cnt t > 0 then t\<lparr>tk_kf := kf_update (tk_vLead t) (tk_kf t)\<rparr> else t);
          t = t\<lparr>tk_vLeadK := kf_x0 (tk_kf t), tk_aLeadK := kf_x1 (tk_kf t)\<rparr>;
          t = (if \<bar>tk_aLeadK t\<bar> < 1 / 2 then t\<lparr>tk_aLeadTau := (tk_aLeadTau t)\<lparr>fo_x := LEAD_ACCEL_TAU\<rparr>\<rparr>
               else t\<lparr>tk_aLeadTau := fo_update 0 (tk_aLeadTau t)\<rparr>)
      in t\<lparr>tk_cnt := tk_cnt t + 1\<rparr>)"

record lead_state =
  ld_dRel :: real
  ld_yRel :: real
  ld_vRel :: real
  ld_vLead :: real
  ld_vLeadK :: real
  ld_aLeadK :: real
  ld_aLeadTau :: real
  ld_modelProb :: real
  ld_radar :: bool
  ld_radarTrackId :: int

definition get_RadarState :: "real \<Rightarrow> track \<Rightarrow> lead_state" where
  "get_RadarState model_prob t =
     \<lparr>ld_dRel = tk_dRel t, ld_yRel = tk_yRel t, ld_vRel = tk_vRel t, ld_vLead = tk_vLead t, ld_vLeadK = tk_vLeadK t,
      ld_aLeadK = tk_aLeadK t, ld_aLeadTau = fo_x (tk_aLeadTau t), ld_modelProb = model_prob, ld_radar = True,
      ld_radarTrackId = tk_identifier t\<rparr>"

definition potential_low_speed_lead :: "real \<Rightarrow> track \<Rightarrow> bool" where
  "potential_low_speed_lead v_ego t \<longleftrightarrow> \<bar>tk_yRel t\<bar> < 1 \<and> v_ego < V_EGO_STATIONARY \<and> 3 / 4 < tk_dRel t \<and> tk_dRel t < 25"

subsection \<open>Leads of the model\<close>

definition laplacian_pdf :: "real \<Rightarrow> real \<Rightarrow> real \<Rightarrow> real" where
  "laplacian_pdf x mu b = (let b = max b (1 / 10000) in exp (- \<bar>x - mu\<bar> / b))"

text \<open>A field of a lead: its list of values, each possibly not finite.\<close>

definition first_finite :: "real option list \<Rightarrow> real option" where
  "first_finite vs = (case vs of [] \<Rightarrow> None | v # _ \<Rightarrow> v)"

definition clean_lead_prob :: "real option \<Rightarrow> real" where
  "clean_lead_prob v = (case v of None \<Rightarrow> 0 | Some p \<Rightarrow> np_clip p 0 1)"

record model_lead =
  ml_x :: "real option list"
  ml_y :: "real option list"
  ml_v :: "real option list"
  ml_a :: "real option list"
  ml_xStd :: "real option list"
  ml_yStd :: "real option list"
  ml_vStd :: "real option list"
  ml_prob :: "real option"

record lead_values =
  lv_dRel :: real
  lv_yRel :: real
  lv_vRel :: real
  lv_vLeadModel :: real
  lv_aLeadK :: real
  lv_xStd :: real
  lv_yStd :: real
  lv_vStd :: real

definition model_lead_values :: "model_lead \<Rightarrow> real option \<Rightarrow> lead_values option" where
  "model_lead_values m model_v_ego =
     (case (model_v_ego, map first_finite [ml_x m, ml_y m, ml_v m, ml_a m, ml_xStd m, ml_yStd m, ml_vStd m]) of
        (Some v_ego, [Some x, Some y, Some v, Some a, Some x_std, Some y_std, Some v_std]) \<Rightarrow>
          (let d_rel = x - RADAR_TO_CAMERA
           in if d_rel \<le> 0 then None
              else Some \<lparr>lv_dRel = d_rel, lv_yRel = - y, lv_vRel = v - v_ego, lv_vLeadModel = v, lv_aLeadK = a,
                         lv_xStd = max x_std (1 / 10000), lv_yStd = max y_std (1 / 10000), lv_vStd = max v_std (1 / 10000)\<rparr>)
      | _ \<Rightarrow> None)"

definition match_prob :: "lead_values \<Rightarrow> real \<Rightarrow> track \<Rightarrow> real" where
  "match_prob lv v_ego c =
     laplacian_pdf (tk_dRel c) (lv_dRel lv) (lv_xStd lv) *
     laplacian_pdf (tk_yRel c) (lv_yRel lv) (lv_yStd lv) *
     laplacian_pdf (tk_vRel c + v_ego) (lv_vLeadModel lv) (lv_vStd lv)"

definition match_sane :: "lead_values \<Rightarrow> real \<Rightarrow> track \<Rightarrow> bool" where
  "match_sane lv v_ego t \<longleftrightarrow>
     \<bar>tk_dRel t - lv_dRel lv\<bar> < max (lv_dRel lv * (25 / 100)) 5 \<and>
     (\<bar>tk_vRel t + v_ego - lv_vLeadModel lv\<bar> < 10 \<or> v_ego + tk_vRel t > 3)"

text \<open>\<open>max\<close> and \<open>min\<close> with a key return the first best element, as \<open>arg_min_list\<close> does.\<close>

definition match_vision_to_track :: "real \<Rightarrow> model_lead \<Rightarrow> track list \<Rightarrow> track option" where
  "match_vision_to_track v_ego m tracks =
     (case model_lead_values m (Some v_ego) of
        None \<Rightarrow> None
      | Some lv \<Rightarrow>
          (let t = arg_min_list (\<lambda>c. - match_prob lv v_ego c) tracks
           in if match_sane lv v_ego t then Some t else None))"

definition get_RadarState_from_vision :: "model_lead \<Rightarrow> real \<Rightarrow> real option \<Rightarrow> real \<Rightarrow> lead_state option" where
  "get_RadarState_from_vision m v_ego model_v_ego lead_prob =
     map_option (\<lambda>lv. \<lparr>ld_dRel = lv_dRel lv, ld_yRel = lv_yRel lv, ld_vRel = lv_vRel lv, ld_vLead = v_ego + lv_vRel lv,
         ld_vLeadK = v_ego + lv_vRel lv, ld_aLeadK = lv_aLeadK lv, ld_aLeadTau = 3 / 10,
         ld_modelProb = clean_lead_prob (Some lead_prob), ld_radar = False, ld_radarTrackId = -1\<rparr>)
       (model_lead_values m model_v_ego)"

definition get_custom_yrel :: "bool \<Rightarrow> model_lead \<Rightarrow> lead_state \<Rightarrow> lead_state" where
  "get_custom_yrel model_y m l =
     (if model_y then (case first_finite (ml_y m) of Some y \<Rightarrow> l\<lparr>ld_yRel := - y\<rparr> | None \<Rightarrow> l) else l)"


text \<open>The lead of one slot; \<open>None\<close> is a lead that is not present.\<close>

definition get_lead :: "real \<Rightarrow> bool \<Rightarrow> track list \<Rightarrow> model_lead \<Rightarrow> real option \<Rightarrow> real \<Rightarrow> bool \<Rightarrow> bool \<Rightarrow> bool \<Rightarrow> lead_state option" where
  "get_lead v_ego ready tracks m model_v_ego lead_prob model_y low_speed_override custom_longitudinal_enabled =
     (let lead_prob = clean_lead_prob (Some lead_prob);
          threshold = (if custom_longitudinal_enabled then RADAR_CONFIRMED_PROB_THRESHOLD else VISION_ONLY_PROB_THRESHOLD);
          track = (if tracks \<noteq> [] \<and> ready \<and> lead_prob > threshold then match_vision_to_track v_ego m tracks else None);
          lead = (case track of
                    Some t \<Rightarrow> Some (get_custom_yrel model_y m (get_RadarState lead_prob t))
                  | None \<Rightarrow> if ready \<and> lead_prob > VISION_ONLY_PROB_THRESHOLD then get_RadarState_from_vision m v_ego model_v_ego lead_prob else None);
          low_speed_tracks = filter (potential_low_speed_lead v_ego) tracks
      in if low_speed_override \<and> low_speed_tracks \<noteq> []
         then let closest = arg_min_list tk_dRel low_speed_tracks
              in (case lead of
                    None \<Rightarrow> Some (get_RadarState 0 closest)
                  | Some l \<Rightarrow> if tk_dRel closest < ld_dRel l then Some (get_RadarState 0 closest) else lead)
         else lead)"

subsection \<open>Objects that cut in\<close>

definition MIN_CLOSING_SPEED :: real where "MIN_CLOSING_SPEED = 2"
definition MAX_D_REL :: real where "MAX_D_REL = 30"
definition MAX_TTC :: real where "MAX_TTC = 8"
definition MAX_Y_REL :: real where "MAX_Y_REL = 12 / 10"
definition MIN_V_LEAD :: real where "MIN_V_LEAD = 2"
definition MIN_TRACK_CNT :: nat where "MIN_TRACK_CNT = 2"
definition MIN_V_EGO :: real where "MIN_V_EGO = 1"

definition is_high_risk_cut_in :: "(track \<Rightarrow> real option) \<Rightarrow> real \<Rightarrow> track \<Rightarrow> bool" where
  "is_high_risk_cut_in path_y_rel v_ego t \<longleftrightarrow>
     v_ego \<ge> MIN_V_EGO \<and> tk_cnt t \<ge> MIN_TRACK_CNT \<and> 0 < tk_dRel t \<and> tk_dRel t \<le> MAX_D_REL \<and>
     (case path_y_rel t of None \<Rightarrow> \<bar>tk_yRel t\<bar> | Some y \<Rightarrow> \<bar>y\<bar>) \<le> MAX_Y_REL \<and>
     tk_vLead t \<ge> MIN_V_LEAD \<and> - tk_vRel t \<ge> MIN_CLOSING_SPEED \<and> tk_dRel t / max (- tk_vRel t) (1 / 10) \<le> MAX_TTC"

definition track_ttc :: "track \<Rightarrow> real" where
  "track_ttc t = tk_dRel t / max (1 / 10) (- tk_vRel t)"

definition apply_cut_in_override :: "lead_state option \<Rightarrow> track list \<Rightarrow> real \<Rightarrow> bool \<Rightarrow> bool \<Rightarrow> (track \<Rightarrow> real option) \<Rightarrow> lead_state option" where
  "apply_cut_in_override lead tracks v_ego custom_longitudinal_enabled research_allowed path_y_rel =
     (if lead \<noteq> None \<or> \<not> custom_longitudinal_enabled \<or> \<not> research_allowed \<or> tracks = [] \<or> v_ego < MIN_V_EGO then lead
      else let candidates = filter (is_high_risk_cut_in path_y_rel v_ego) tracks
        in if candidates = [] then lead
           else Some ((get_RadarState 0 (arg_min_list track_ttc candidates))\<lparr>ld_modelProb := 0, ld_radar := True\<rparr>))"

text \<open>The offset from the planned path; without a usable path the offset of the track itself.\<close>

definition track_path_relative_y :: "(real option list \<times> real option list) option \<Rightarrow> track \<Rightarrow> real option" where
  "track_path_relative_y model_path t =
     Some (case path_relative_y_or_none (tk_yRel t) (tk_dRel t) model_path of None \<Rightarrow> tk_yRel t | Some y \<Rightarrow> y)"

subsection \<open>The process\<close>

record radard =
  rr_frame :: nat
  rr_tracks :: "(int \<times> track) list"
  rr_kalman_params :: kalman_params
  rr_lead_prob_filters :: "first_order_filter list"
  rr_v_ego :: real
  rr_v_ego_hist :: "real list"
  rr_hist_len :: nat
  rr_last_v_ego_frame :: int
  rr_ready :: bool
  rr_custom_long_enabled :: bool
  rr_research_allowed :: bool

text \<open>
  What one iteration reads. A parameter whose read fails is \<open>None\<close>; the velocity list of the
  model keeps its possibly not finite values.
\<close>

record radar_in =
  ri_seen_model :: bool
  ri_car_state_frame :: int
  ri_v_ego :: real
  ri_points :: "(int \<times> real \<times> real \<times> real) list"
  ri_errors :: bool
  ri_all_checks :: bool
  ri_model_velocity :: "real option list"
  ri_leads :: "model_lead list"
  ri_model_path :: "(real option list \<times> real option list) option"
  ri_custom_long :: "bool option"
  ri_research :: "bool option"
  ri_openpilot_long :: bool
  ri_model_y :: bool

record radar_state =
  rs_valid :: bool
  rs_radarErrors :: bool
  rs_leadOne :: "lead_state option"
  rs_leadTwo :: "lead_state option"

definition PARAMS_PERIOD_FRAMES :: nat where "PARAMS_PERIOD_FRAMES = nat (py_int (3 / DT_MDL))"

definition update_params :: "radar_in \<Rightarrow> radard \<Rightarrow> radard" where
  "update_params i r =
     (if rr_frame r mod PARAMS_PERIOD_FRAMES = 0
      then r\<lparr>rr_custom_long_enabled := (ri_custom_long i = Some True),
             rr_research_allowed := research_actuation_allowed (ri_openpilot_long i) (ri_custom_long i) (ri_research i) None None\<rparr>
      else r)"

text \<open>The constructor; the parameters are read once there as well.\<close>

definition RadarD :: "real \<Rightarrow> radar_in \<Rightarrow> py_error + radard" where
  "RadarD delay i =
     bind_result (KalmanParams DT_MDL) (\<lambda>kp.
       Inr (update_params i
         \<lparr>rr_frame = 0, rr_tracks = [], rr_kalman_params = kp,
          rr_lead_prob_filters = replicate 2 (FirstOrderFilter 0 (2 / 10) DT_MDL True), rr_v_ego = 0, rr_v_ego_hist = [0],
          rr_hist_len = nat (py_round (delay / DT_MDL) + 1), rr_last_v_ego_frame = -1, rr_ready = False,
          rr_custom_long_enabled = False, rr_research_allowed = False\<rparr>))"

text \<open>A \<open>deque\<close> of bounded length drops its first elements.\<close>

definition deque_append :: "nat \<Rightarrow> 'a \<Rightarrow> 'a list \<Rightarrow> 'a list" where
  "deque_append maxlen x xs = (let ys = xs @ [x] in drop (length ys - maxlen) ys)"

definition update_v_ego :: "radar_in \<Rightarrow> radard \<Rightarrow> radard" where
  "update_v_ego i r =
     (if ri_car_state_frame i \<noteq> rr_last_v_ego_frame r
      then r\<lparr>rr_v_ego := ri_v_ego i, rr_v_ego_hist := deque_append (rr_hist_len r) (ri_v_ego i) (rr_v_ego_hist r),
             rr_last_v_ego_frame := ri_car_state_frame i\<rparr>
      else r)"

definition ar_pts :: "(int \<times> real \<times> real \<times> real) list \<Rightarrow> (int \<times> real \<times> real \<times> real) list" where
  "ar_pts points = foldl (\<lambda>d p. AList.update (fst p) (snd p) d) [] points"

definition update_track :: "kalman_params \<Rightarrow> real \<Rightarrow> (int \<times> track) list \<Rightarrow> int \<times> real \<times> real \<times> real \<Rightarrow> (int \<times> track) list" where
  "update_track kp v_ego_delayed tracks p =
     (let v_lead = snd (snd (snd p)) + v_ego_delayed;
          t = (case map_of tracks (fst p) of Some t \<Rightarrow> t | None \<Rightarrow> Track (fst p) v_lead kp)
      in AList.update (fst p) (track_update (snd p) v_lead t) tracks)"

definition update_tracks :: "radar_in \<Rightarrow> radard \<Rightarrow> radard" where
  "update_tracks i r =
     (let pts = ar_pts (ri_points i);
          kept = filter (\<lambda>(k, t). k \<in> fst ` set pts) (rr_tracks r)
      in r\<lparr>rr_tracks := foldl (update_track (rr_kalman_params r) (hd (rr_v_ego_hist r))) kept pts\<rparr>)"

definition update_lead_prob :: "real option \<Rightarrow> first_order_filter \<Rightarrow> first_order_filter" where
  "update_lead_prob prob f =
     (let p = clean_lead_prob prob in if p > fo_x f then f\<lparr>fo_x := p\<rparr> else fo_update p f)"

definition update_leads :: "radar_in \<Rightarrow> radard \<Rightarrow> (lead_state option \<times> lead_state option) \<times> radard" where
  "update_leads i r =
     (case ri_leads i of
        m0 # m1 # _ \<Rightarrow>
          (let r = r\<lparr>rr_lead_prob_filters := map2 (\<lambda>m f. update_lead_prob (ml_prob m) f) [m0, m1] (rr_lead_prob_filters r)\<rparr>;
               tracks = map snd (rr_tracks r);
               model_v_ego = (case ri_model_velocity i of v # _ \<Rightarrow> v | [] \<Rightarrow> Some (rr_v_ego r));
               lead = (\<lambda>k m low. get_lead (rr_v_ego r) (rr_ready r) tracks m model_v_ego (fo_x (rr_lead_prob_filters r ! k))
                         (ri_model_y i) low (rr_custom_long_enabled r))
           in ((apply_cut_in_override (lead 0 m0 True) tracks (rr_v_ego r) (rr_custom_long_enabled r) (rr_research_allowed r)
                  (track_path_relative_y (ri_model_path i)),
                lead 1 m1 False), r))
      | _ \<Rightarrow> ((None, None), r))"

definition radard_update :: "radar_in \<Rightarrow> radard \<Rightarrow> radar_state \<times> radard" where
  "radard_update i r =
     (let r = r\<lparr>rr_ready := ri_seen_model i\<rparr>;
          r = update_tracks i (update_v_ego i (update_params i r))
      in case update_leads i r of
           ((one, two), r) \<Rightarrow>
             (\<lparr>rs_valid = ri_all_checks i, rs_radarErrors = ri_errors i, rs_leadOne = one, rs_leadTwo = two\<rparr>, r\<lparr>rr_frame := rr_frame r + 1\<rparr>))"


subsection \<open>The filter converges\<close>

text \<open>
  The gain for the time step of the model. For an error \<open>(e0, e1)\<close> the form below is multiplied by
  the determinant of the error dynamics in every step; it is positive definite, so that both errors
  vanish geometrically.
\<close>

definition gain0 :: real where "gain0 = 0.1988689"
definition gain1 :: real where "gain1 = 0.28555364"

lemma KalmanParams_DT_MDL: "KalmanParams DT_MDL = Inr \<lparr>kp_A = ((1, 1 / 20), (0, 1)), kp_C = (1, 0), kp_K = (gain0, gain1)\<rparr>"
proof -
  have ts: "kalman_dts = [1 / 100, 2 / 100, 3 / 100, 4 / 100, 5 / 100, 6 / 100, 7 / 100, 8 / 100, 9 / 100, 10 / 100,
      11 / 100, 12 / 100, 13 / 100, 14 / 100, 15 / 100, 16 / 100, 17 / 100, 18 / 100, 19 / 100, 20 / 100]"
    by (simp add: kalman_dts_def upt_rec)
  have "np_interp (1 / 20) (zip kalman_dts K0_table) = gain0" "np_interp (1 / 20) (zip kalman_dts K1_table) = gain1"
    by (simp_all add: ts K0_table_def K1_table_def gain0_def gain1_def)
  then show ?thesis by (simp add: KalmanParams_def DT_MDL_def)
qed

definition kf_ok :: "kf1d \<Rightarrow> bool" where
  "kf_ok k \<longleftrightarrow> kf_A_K_0 k = 1 - gain0 \<and> kf_A_K_1 k = 1 / 20 \<and> kf_A_K_2 k = - gain1 \<and> kf_A_K_3 k = 1 \<and> kf_K0 k = gain0 \<and> kf_K1 k = gain1"

definition kf_error :: "real \<Rightarrow> kf1d \<Rightarrow> real" where
  "kf_error v k = gain1 * (kf_x0 k - v)\<^sup>2 - gain0 * (kf_x0 k - v) * kf_x1 k + 1 / 20 * (kf_x1 k)\<^sup>2"

lemma kf_update_ok: "kf_ok k \<Longrightarrow> kf_ok (kf_update v k)"
  by (simp add: kf_ok_def kf_update_def)

lemma kf_update_error:
  assumes "kf_ok k"
  shows "kf_error v (kf_update v k) = (1 - gain0 + gain1 / 20) * kf_error v k"
proof -
  have c: "kf_A_K_0 k = 1 - gain0" "kf_A_K_1 k = 1 / 20" "kf_A_K_2 k = - gain1" "kf_A_K_3 k = 1" "kf_K0 k = gain0" "kf_K1 k = gain1"
    using assms unfolding kf_ok_def by blast+
  define a b where "a = kf_x0 k - v" and "b = kf_x1 k"
  have "kf_x0 (kf_update v k) - v = (1 - gain0) * (kf_x0 k - v) + 1 / 20 * kf_x1 k"
    "kf_x1 (kf_update v k) = kf_x1 k - gain1 * (kf_x0 k - v)"
    by (simp_all only: kf_update_def kf1d.simps c) (simp_all add: algebra_simps)
  then have e: "kf_x0 (kf_update v k) - v = (1 - gain0) * a + 1 / 20 * b" "kf_x1 (kf_update v k) = b - gain1 * a"
    by (simp_all add: a_def b_def)
  show ?thesis unfolding kf_error_def e unfolding a_def [symmetric] b_def [symmetric]
    by (simp add: power2_eq_square algebra_simps add_divide_distrib diff_divide_distrib)
qed

lemma kf_error_bounds:
  "(kf_x0 k - v)\<^sup>2 \<le> 12 * kf_error v k" "(kf_x1 k)\<^sup>2 \<le> 66 * kf_error v k"
  "kf_error v k \<le> 0.4 * ((kf_x0 k - v)\<^sup>2 + (kf_x1 k)\<^sup>2)" "0 \<le> kf_error v k"
proof -
  define a b where "a = kf_x0 k - v" and "b = kf_x1 k"
  have e: "kf_error v k = 0.28555364 * a\<^sup>2 - 0.1988689 * (a * b) + 0.05 * b\<^sup>2"
    by (simp add: kf_error_def a_def b_def gain0_def gain1_def)
  have sq: "0 \<le> (b - 1.99 * a)\<^sup>2" "0 \<le> (a - 0.348 * b)\<^sup>2" "0 \<le> (a + b)\<^sup>2" "0 \<le> a\<^sup>2" "0 \<le> b\<^sup>2" by simp_all
  have ex: "(b - 1.99 * a)\<^sup>2 = b\<^sup>2 - 3.98 * (a * b) + 3.9601 * a\<^sup>2" "(a - 0.348 * b)\<^sup>2 = a\<^sup>2 - 0.696 * (a * b) + 0.121104 * b\<^sup>2"
    "(a + b)\<^sup>2 = a\<^sup>2 + 2 * (a * b) + b\<^sup>2" by (simp_all add: power2_eq_square algebra_simps)
  have lin: "0 \<le> p \<Longrightarrow> 0 \<le> q \<Longrightarrow> 0 \<le> p + 2 * r + q \<Longrightarrow> 0.28555364 * p - 0.1988689 * r + 0.05 * q \<le> 0.4 * (p + q)" for p q r :: real
    by simp
  have "a\<^sup>2 \<le> 12 * kf_error v k" using sq unfolding e ex by simp
  moreover have "b\<^sup>2 \<le> 66 * kf_error v k" using sq unfolding e ex by simp
  moreover have "kf_error v k \<le> 0.4 * (a\<^sup>2 + b\<^sup>2)" using lin [OF sq(4,5), of "a * b"] sq(3) unfolding e ex by blast
  ultimately show "(kf_x0 k - v)\<^sup>2 \<le> 12 * kf_error v k" "(kf_x1 k)\<^sup>2 \<le> 66 * kf_error v k"
    "kf_error v k \<le> 0.4 * ((kf_x0 k - v)\<^sup>2 + (kf_x1 k)\<^sup>2)" by (simp_all add: a_def b_def)
  show "0 \<le> kf_error v k" using \<open>a\<^sup>2 \<le> 12 * kf_error v k\<close> sq(4) by linarith
qed

lemma track_update_kf:
  "tk_kf (track_update rpt v t) = (if tk_cnt t > 0 then kf_update v (tk_kf t) else tk_kf t)"
  "tk_cnt (track_update rpt v t) = tk_cnt t + 1"
  "tk_vLeadK (track_update rpt v t) = kf_x0 (tk_kf (track_update rpt v t))"
  "tk_aLeadK (track_update rpt v t) = kf_x1 (tk_kf (track_update rpt v t))"
  "tk_identifier (track_update rpt v t) = tk_identifier t"
  "tk_dRel (track_update rpt v t) = fst rpt" "tk_yRel (track_update rpt v t) = fst (snd rpt)"
  "tk_vRel (track_update rpt v t) = snd (snd rpt)" "tk_vLead (track_update rpt v t) = v"
  by (simp_all add: track_update_def Let_def)

lemma kf_run_error:
  assumes "kf_ok k"
  shows "kf_ok ((kf_update v ^^ n) k) \<and> kf_error v ((kf_update v ^^ n) k) = (1 - gain0 + gain1 / 20) ^ n * kf_error v k"
  by (induction n) (simp_all add: assms kf_update_ok kf_update_error)

lemma track_run_kf:
  "0 < tk_cnt t \<Longrightarrow> tk_kf (frames (\<lambda>t rpt. track_update rpt v t) t rpts) = (kf_update v ^^ length rpts) (tk_kf t)"
proof (induction rpts arbitrary: t)
  case (Cons rpt rpts)
  from Cons.IH [of "track_update rpt v t"] Cons.prems show ?case
    by (simp add: track_update_kf funpow_swap1)
qed simp

text \<open>
  C35. The estimate of a track settles. When a track with the gains of the process measures a
  steady speed \<open>v\<close>, then after \<open>n\<close> measurements the squared errors of the estimated speed and
  acceleration are at most 5 and 27 times \<open>0.816 ^ n\<close> times the squared errors at the start,
  whatever the measured distances are.
\<close>

theorem track_estimate_settles:
  fixes t v rpts
  defines "e0 \<equiv> (kf_x0 (tk_kf t) - v)\<^sup>2 + (kf_x1 (tk_kf t))\<^sup>2" and "t' \<equiv> frames (\<lambda>t rpt. track_update rpt v t) t rpts"
  assumes "kf_ok (tk_kf t)" "0 < tk_cnt t" "rpts \<noteq> []"
  shows "(tk_vLeadK t' - v)\<^sup>2 \<le> 5 * (816 / 1000) ^ length rpts * e0 \<and> (tk_aLeadK t')\<^sup>2 \<le> 27 * (816 / 1000) ^ length rpts * e0"
proof -
  let ?k = "tk_kf t'"
  have k: "?k = (kf_update v ^^ length rpts) (tk_kf t)" using track_run_kf assms(4) by (simp add: t'_def)
  have shown: "tk_vLeadK t' = kf_x0 ?k" "tk_aLeadK t' = kf_x1 ?k"
    using assms(5) by (cases rpts rule: rev_cases; simp add: t'_def frames_append track_update_kf)+
  have "(1 - gain0 + gain1 / 20) ^ length rpts \<le> (816 / 1000) ^ length rpts"
    by (rule power_mono) (simp_all add: gain0_def gain1_def)
  then have "kf_error v ?k \<le> (816 / 1000) ^ length rpts * kf_error v (tk_kf t)"
    using kf_run_error [OF assms(3), of "length rpts" v] kf_error_bounds(4) [where v = v and k = "tk_kf t"] by (simp add: k mult_right_mono)
  also have "\<dots> \<le> (816 / 1000) ^ length rpts * (0.4 * e0)"
    unfolding e0_def by (rule mult_left_mono [OF kf_error_bounds(3)]) simp
  finally have err: "kf_error v ?k \<le> (816 / 1000) ^ length rpts * (0.4 * e0)" .
  have pos: "0 \<le> (816 / 1000) ^ length rpts * e0" by (simp add: e0_def)
  show ?thesis
    using kf_error_bounds(1) [of ?k v] kf_error_bounds(2) [of ?k v] err pos by (simp add: shown)
qed

definition example_track :: track where
  "example_track = (Track 7 0 \<lparr>kp_A = ((1, 1 / 20), (0, 1)), kp_C = (1, 0), kp_K = (gain0, gain1)\<rparr>)\<lparr>tk_cnt := 1\<rparr>"

theorem track_estimate_settles_witness:
  "(tk_vLeadK (frames (\<lambda>t rpt. track_update rpt 10 t) example_track (replicate 50 (30, 0, 10))) - 10)\<^sup>2 \<le> 1 / 50"
proof -
  have "(tk_vLeadK (frames (\<lambda>t rpt. track_update rpt 10 t) example_track (replicate 50 (30, 0, 10))) - 10)\<^sup>2 \<le>
      5 * (816 / 1000) ^ 50 * (10\<^sup>2 + 0\<^sup>2)"
    using track_estimate_settles [of example_track "replicate 50 (30, 0, 10)" 10]
    by (simp add: example_track_def Track_def KF1D_def kf_ok_def)
  also have "\<dots> \<le> 1 / 50" by (simp add: power_divide)
  finally show ?thesis .
qed

end
