(* ===== verification/Radard_Facts.thy ===== *)
theory Radard_Facts
  imports Radard
begin

text \<open>
  Runs of the lead estimator: the tracks are always the points of the current radar frame, the
  filtered probabilities of the leads stay probabilities, every published radar lead is a point of
  the frame that passed its gates, and nothing closer at low speed is left out.
\<close>

subsection \<open>Tracks follow the points\<close>

lemma ar_pts_map: "map_of (ar_pts points) = map_of (rev points)"
  unfolding ar_pts_def by (induction points rule: rev_induct) (auto simp: update_conv' fun_eq_iff)

lemma distinct_ar_pts: "distinct (map fst (ar_pts points))"
  unfolding ar_pts_def by (induction points rule: rev_induct) (simp_all add: distinct_update)

lemma ar_pts_keys: "fst ` set (ar_pts points) = fst ` set points"
  using ar_pts_map [of points] by (metis dom_map_of_conv_image_fst set_rev)

definition tracked :: "kalman_params \<Rightarrow> real \<Rightarrow> (int \<rightharpoonup> track) \<Rightarrow> int \<Rightarrow> real \<times> real \<times> real \<Rightarrow> track" where
  "tracked kp v ts k rpt = track_update rpt (snd (snd rpt) + v) (case ts k of Some t \<Rightarrow> t | None \<Rightarrow> Track k (snd (snd rpt) + v) kp)"

lemma update_track_conv:
  "update_track kp v ts p = AList.update (fst p) (tracked kp v (map_of ts) (fst p) (snd p)) ts"
  by (simp add: update_track_def tracked_def Let_def)

lemma foldl_update_track:
  assumes "distinct (map fst pts)"
  shows "map_of (foldl (update_track kp v) ts pts) k =
    (case map_of pts k of None \<Rightarrow> map_of ts k | Some rpt \<Rightarrow> Some (tracked kp v (map_of ts) k rpt))"
  using assms
proof (induction pts arbitrary: ts)
  case (Cons p pts)
  have "map_of pts (fst p) = None" using Cons.prems by (simp add: map_of_eq_None_iff)
  then show ?case
    using Cons.IH [of "update_track kp v ts p"] Cons.prems
    by (auto simp: update_track_conv update_conv' tracked_def split: option.split)
qed simp

lemma distinct_foldl_update_track:
  "distinct (map fst ts) \<Longrightarrow> distinct (map fst (foldl (update_track kp v) ts pts))"
  by (induction pts arbitrary: ts) (simp_all add: update_track_conv distinct_update)

definition tracks_ok :: "(int \<times> track) list \<Rightarrow> bool" where
  "tracks_ok ts \<longleftrightarrow> distinct (map fst ts) \<and> (\<forall>k t. map_of ts k = Some t \<longrightarrow> tk_identifier t = k)"

definition measured :: "(int \<times> real \<times> real \<times> real) list \<Rightarrow> track \<Rightarrow> bool" where
  "measured points t \<longleftrightarrow> map_of (rev points) (tk_identifier t) = Some (tk_dRel t, tk_yRel t, tk_vRel t)"

lemma update_tracks_map:
  "map_of (rr_tracks (update_tracks i r)) k =
     map_option (tracked (rr_kalman_params r) (hd (rr_v_ego_hist r))
       (map_of (filter (\<lambda>(k, t). k \<in> fst ` set (ar_pts (ri_points i))) (rr_tracks r))) k) (map_of (rev (ri_points i)) k)"
proof (cases "map_of (rev (ri_points i)) k")
  case None
  then have "k \<notin> fst ` set (ar_pts (ri_points i))" by (simp add: ar_pts_keys map_of_eq_None_iff)
  then have "map_of (filter (\<lambda>(k, t). k \<in> fst ` set (ar_pts (ri_points i))) (rr_tracks r)) k = None"
    unfolding map_of_eq_None_iff by force
  then show ?thesis using None by (simp add: update_tracks_def Let_def foldl_update_track [OF distinct_ar_pts] ar_pts_map)
next
  case (Some rpt)
  then show ?thesis by (simp add: update_tracks_def Let_def foldl_update_track [OF distinct_ar_pts] ar_pts_map)
qed

lemma update_tracks_ok:
  assumes "tracks_ok (rr_tracks r)"
  shows "tracks_ok (rr_tracks (update_tracks i r))"
    and "t \<in> set (map snd (rr_tracks (update_tracks i r))) \<Longrightarrow> measured (ri_points i) t"
    and "map_of (rev (ri_points i)) k = Some rpt \<Longrightarrow> \<exists>t \<in> set (map snd (rr_tracks (update_tracks i r))). tk_identifier t = k \<and> (tk_dRel t, tk_yRel t, tk_vRel t) = rpt"
proof -
  let ?ts = "rr_tracks (update_tracks i r)" and ?kept = "filter (\<lambda>(k, t). k \<in> fst ` set (ar_pts (ri_points i))) (rr_tracks r)"
  have dkept: "distinct (map fst ?kept)" using assms by (simp add: tracks_ok_def distinct_map_filter)
  have dist: "distinct (map fst ?ts)"
    using distinct_foldl_update_track [OF dkept] by (simp add: update_tracks_def Let_def)
  have kept: "map_of ?kept k = Some t \<Longrightarrow> tk_identifier t = k" for k t
    using assms dkept by (auto simp: tracks_ok_def)
  have id: "tk_identifier (tracked kp v (map_of ?kept) k rpt) = k" for kp v k rpt
    using kept by (auto simp: tracked_def track_update_kf Track_def split: option.split)
  have val: "(tk_dRel (tracked kp v m k rpt), tk_yRel (tracked kp v m k rpt), tk_vRel (tracked kp v m k rpt)) = rpt" for kp v m k rpt
    by (simp add: tracked_def track_update_kf)
  show "tracks_ok ?ts" unfolding tracks_ok_def using dist id by (auto simp: update_tracks_map)
  show "measured (ri_points i) t" if "t \<in> set (map snd ?ts)"
  proof -
    from that obtain k where "map_of ?ts k = Some t" using dist by (auto simp: in_set_conv_nth)
    then obtain rpt where r: "map_of (rev (ri_points i)) k = Some rpt"
      "t = tracked (rr_kalman_params r) (hd (rr_v_ego_hist r)) (map_of ?kept) k rpt" unfolding update_tracks_map by auto
    show ?thesis unfolding measured_def using r id val by simp
  qed
  show "\<exists>t \<in> set (map snd ?ts). tk_identifier t = k \<and> (tk_dRel t, tk_yRel t, tk_vRel t) = rpt" if "map_of (rev (ri_points i)) k = Some rpt"
  proof -
    let ?t = "tracked (rr_kalman_params r) (hd (rr_v_ego_hist r)) (map_of ?kept) k rpt"
    have "map_of ?ts k = Some ?t" using that unfolding update_tracks_map by simp
    then have "?t \<in> set (map snd ?ts)" by (force dest: map_of_SomeD)
    then show ?thesis using id val by blast
  qed
qed

subsection \<open>Lead probabilities\<close>

definition prob_ok :: "first_order_filter \<Rightarrow> bool" where
  "prob_ok f \<longleftrightarrow> fo_ok f \<and> 0 \<le> fo_x f \<and> fo_x f \<le> 1"

lemma clean_lead_prob_bounds [simp]: "0 \<le> clean_lead_prob p" "clean_lead_prob p \<le> 1"
  by (simp_all add: clean_lead_prob_def split: option.split)

lemma clean_lead_prob_id: "prob_ok f \<Longrightarrow> clean_lead_prob (Some (fo_x f)) = fo_x f"
  by (simp add: prob_ok_def clean_lead_prob_def np_clip_id)

lemma update_lead_prob_ok:
  assumes "prob_ok f"
  shows "prob_ok (update_lead_prob p f)" "clean_lead_prob p \<le> fo_x (update_lead_prob p f)"
proof -
  have f: "fo_ok f" "0 \<le> fo_x f" "fo_x f \<le> 1" using assms by (simp_all add: prob_ok_def)
  show "prob_ok (update_lead_prob p f)"
    using f fo_update_bounds [OF f, of "clean_lead_prob p"] fo_update_ok [OF f(1)]
    by (auto simp: update_lead_prob_def prob_ok_def Let_def fo_ok_def)
  show "clean_lead_prob p \<le> fo_x (update_lead_prob p f)"
    using fo_update_bounds(1) [OF f(1), of "clean_lead_prob p" 1 "clean_lead_prob p"] f by (auto simp: update_lead_prob_def Let_def)
qed


subsection \<open>The invariant of the process\<close>

definition rr_inv :: "radard \<Rightarrow> bool" where
  "rr_inv r \<longleftrightarrow> tracks_ok (rr_tracks r) \<and> length (rr_lead_prob_filters r) = 2 \<and> (\<forall>f \<in> set (rr_lead_prob_filters r). prob_ok f)"

lemma rr_inv_parts: "rr_inv r \<Longrightarrow> tracks_ok (rr_tracks r)" "rr_inv r \<Longrightarrow> k < 2 \<Longrightarrow> prob_ok (rr_lead_prob_filters r ! k)"
  by (simp_all add: rr_inv_def)

text \<open>The state before the leads are chosen: parameters, speed and tracks are those of this frame.\<close>

definition rr_before :: "radar_in \<Rightarrow> radard \<Rightarrow> radard" where
  "rr_before i r = update_tracks i (update_v_ego i (update_params i (r\<lparr>rr_ready := ri_seen_model i\<rparr>)))"

lemma update_params_keeps [simp]:
  "rr_tracks (update_params i r) = rr_tracks r" "rr_lead_prob_filters (update_params i r) = rr_lead_prob_filters r"
  "rr_ready (update_params i r) = rr_ready r" "rr_kalman_params (update_params i r) = rr_kalman_params r"
  by (simp_all add: update_params_def)

lemma update_v_ego_keeps [simp]:
  "rr_tracks (update_v_ego i r) = rr_tracks r" "rr_lead_prob_filters (update_v_ego i r) = rr_lead_prob_filters r"
  "rr_ready (update_v_ego i r) = rr_ready r"
  by (simp_all add: update_v_ego_def)

lemma update_tracks_keeps [simp]:
  "rr_lead_prob_filters (update_tracks i r) = rr_lead_prob_filters r" "rr_ready (update_tracks i r) = rr_ready r"
  by (simp_all add: update_tracks_def Let_def)

lemma rr_before_inv: "rr_inv r \<Longrightarrow> rr_inv (rr_before i r)"
  using update_tracks_ok(1) [of "update_v_ego i (update_params i (r\<lparr>rr_ready := ri_seen_model i\<rparr>))" i]
  by (simp add: rr_inv_def rr_before_def)

lemma rr_before_tracks:
  assumes "rr_inv r"
  shows "t \<in> set (map snd (rr_tracks (rr_before i r))) \<Longrightarrow> measured (ri_points i) t"
    and "map_of (rev (ri_points i)) k = Some rpt \<Longrightarrow>
      \<exists>t \<in> set (map snd (rr_tracks (rr_before i r))). tk_identifier t = k \<and> (tk_dRel t, tk_yRel t, tk_vRel t) = rpt"
  unfolding rr_before_def
  using update_tracks_ok(2,3) [of "update_v_ego i (update_params i (r\<lparr>rr_ready := ri_seen_model i\<rparr>))"] rr_inv_parts(1) [OF assms]
  by simp_all

text \<open>The probability of a lead slot, after this frame.\<close>

definition slot_prob :: "radar_in \<Rightarrow> radard \<Rightarrow> nat \<Rightarrow> real" where
  "slot_prob i r k = fo_x (update_lead_prob (ml_prob (ri_leads i ! k)) (rr_lead_prob_filters r ! k))"

definition slot_lead :: "radar_in \<Rightarrow> radard \<Rightarrow> nat \<Rightarrow> bool \<Rightarrow> lead_state option" where
  "slot_lead i r k low =
     (let b = rr_before i r
      in get_lead (rr_v_ego b) (rr_ready b) (map snd (rr_tracks b)) (ri_leads i ! k)
           (case ri_model_velocity i of v # _ \<Rightarrow> v | [] \<Rightarrow> Some (rr_v_ego b)) (slot_prob i r k)
           (ri_model_y i) low (rr_custom_long_enabled b))"

lemma radard_update_leads:
  assumes "rr_inv r"
  shows "rs_leadOne (fst (radard_update i r)) =
      (if length (ri_leads i) < 2 then None
       else let b = rr_before i r
         in apply_cut_in_override (slot_lead i r 0 True) (map snd (rr_tracks b)) (rr_v_ego b) (rr_custom_long_enabled b) (rr_research_allowed b)
              (track_path_relative_y (ri_model_path i)))"
    and "rs_leadTwo (fst (radard_update i r)) = (if length (ri_leads i) < 2 then None else slot_lead i r 1 False)"
    and "rr_tracks (snd (radard_update i r)) = rr_tracks (rr_before i r)"
    and "rr_lead_prob_filters (snd (radard_update i r)) =
      (if length (ri_leads i) < 2 then rr_lead_prob_filters r
       else map (\<lambda>k. update_lead_prob (ml_prob (ri_leads i ! k)) (rr_lead_prob_filters r ! k)) [0, 1])"
proof -
  obtain f0 f1 where f: "rr_lead_prob_filters r = [f0, f1]"
    using assms unfolding rr_inv_def by (metis One_nat_def Suc_1 length_0_conv length_Suc_conv)
  have fb: "rr_lead_prob_filters (rr_before i r) = [f0, f1]" by (simp add: rr_before_def f)
  have u: "radard_update i r = (case update_leads i (rr_before i r) of ((one, two), r) \<Rightarrow>
      (\<lparr>rs_valid = ri_all_checks i, rs_radarErrors = ri_errors i, rs_leadOne = one, rs_leadTwo = two\<rparr>, r\<lparr>rr_frame := rr_frame r + 1\<rparr>))"
    by (simp add: radard_update_def rr_before_def Let_def)
  consider "length (ri_leads i) < 2" | m0 m1 ms where "ri_leads i = m0 # m1 # ms"
    by (cases "ri_leads i" rule: list.exhaust; cases "tl (ri_leads i)") auto
  then have "rs_leadOne (fst (radard_update i r)) =
      (if length (ri_leads i) < 2 then None
       else let b = rr_before i r
         in apply_cut_in_override (slot_lead i r 0 True) (map snd (rr_tracks b)) (rr_v_ego b) (rr_custom_long_enabled b) (rr_research_allowed b)
              (track_path_relative_y (ri_model_path i))) \<and>
    rs_leadTwo (fst (radard_update i r)) = (if length (ri_leads i) < 2 then None else slot_lead i r 1 False) \<and>
    rr_tracks (snd (radard_update i r)) = rr_tracks (rr_before i r) \<and>
    rr_lead_prob_filters (snd (radard_update i r)) =
      (if length (ri_leads i) < 2 then rr_lead_prob_filters r
       else map (\<lambda>k. update_lead_prob (ml_prob (ri_leads i ! k)) (rr_lead_prob_filters r ! k)) [0, 1])"
  proof cases
    case 1
    then have "update_leads i (rr_before i r) = ((None, None), rr_before i r)"
      by (auto simp: update_leads_def split: list.split)
    then show ?thesis using 1 by (simp add: u f fb)
  next
    case 2
    then show ?thesis
      by (cases "ri_model_velocity i") (simp_all add: u update_leads_def slot_lead_def slot_prob_def f fb Let_def)
  qed
  then show "rs_leadOne (fst (radard_update i r)) =
      (if length (ri_leads i) < 2 then None
       else let b = rr_before i r
         in apply_cut_in_override (slot_lead i r 0 True) (map snd (rr_tracks b)) (rr_v_ego b) (rr_custom_long_enabled b) (rr_research_allowed b)
              (track_path_relative_y (ri_model_path i)))"
    "rs_leadTwo (fst (radard_update i r)) = (if length (ri_leads i) < 2 then None else slot_lead i r 1 False)"
    "rr_tracks (snd (radard_update i r)) = rr_tracks (rr_before i r)"
    "rr_lead_prob_filters (snd (radard_update i r)) =
      (if length (ri_leads i) < 2 then rr_lead_prob_filters r
       else map (\<lambda>k. update_lead_prob (ml_prob (ri_leads i ! k)) (rr_lead_prob_filters r ! k)) [0, 1])"
    by blast+
qed

lemma radard_update_inv: "rr_inv r \<Longrightarrow> rr_inv (snd (radard_update i r))"
  using rr_before_inv [of r i] rr_inv_parts(2) [of r 0] rr_inv_parts(2) [of r 1]
  by (auto simp: rr_inv_def radard_update_leads update_lead_prob_ok)

lemma RadarD_inv:
  assumes "RadarD delay i = Inr r"
  shows "rr_inv r"
proof -
  have "prob_ok (FirstOrderFilter 0 (2 / 10) DT_MDL True)"
    by (simp add: prob_ok_def fo_ok_def FirstOrderFilter_def fo_update_alpha_def DT_MDL_def)
  then show ?thesis using assms by (auto simp: RadarD_def KalmanParams_DT_MDL rr_inv_def tracks_ok_def)
qed

interpretation radar: frame_machine "\<lambda>r i. snd (radard_update i r)" "\<lambda>_. True" rr_inv
  by unfold_locales (rule radard_update_inv)

abbreviation (input) radar_run :: "radar_in list \<Rightarrow> radard \<Rightarrow> radard" where
  "radar_run is r \<equiv> frames (\<lambda>r i. snd (radard_update i r)) r is"

lemma radar_run_inv: "RadarD delay i0 = Inr r0 \<Longrightarrow> rr_inv (radar_run is r0)"
  by (rule radar.run_inv) (auto intro: RadarD_inv)


subsection \<open>Where a lead comes from\<close>

lemma model_lead_values_range: "model_lead_values m v = Some lv \<Longrightarrow> 0 < lv_dRel lv"
  by (auto simp: model_lead_values_def Let_def split: option.splits list.splits if_splits)

text \<open>
  A track fits a lead of the model, as a specification: distance and speed agree within the gates,
  and no track of the frame fits better.
\<close>

definition fits_model :: "model_lead \<Rightarrow> real \<Rightarrow> track set \<Rightarrow> track \<Rightarrow> bool" where
  "fits_model m v ts t \<longleftrightarrow>
     (\<exists>lv. model_lead_values m (Some v) = Some lv \<and>
        \<bar>tk_dRel t - lv_dRel lv\<bar> < max (lv_dRel lv / 4) 5 \<and>
        (\<bar>tk_vRel t + v - lv_vLeadModel lv\<bar> < 10 \<or> 3 < v + tk_vRel t) \<and>
        (\<forall>t' \<in> ts. match_prob lv v t' \<le> match_prob lv v t))"

lemma match_vision_to_track_in:
  assumes "match_vision_to_track v m ts = Some t" "ts \<noteq> []"
  shows "t \<in> set ts \<and> fits_model m v (set ts) t"
proof -
  obtain lv where lv: "model_lead_values m (Some v) = Some lv" "t = arg_min_list (\<lambda>c. - match_prob lv v c) ts" "match_sane lv v t"
    using assms(1) by (auto simp: match_vision_to_track_def Let_def split: option.splits if_splits)
  have "match_prob lv v t' \<le> match_prob lv v t" if "t' \<in> set ts" for t'
    using arg_min_list_le [OF that, of "\<lambda>c. - match_prob lv v c"] unfolding lv(2) by simp
  with lv assms(2) show ?thesis by (auto simp: fits_model_def match_sane_def arg_min_list_in)
qed

lemma get_lead_source:
  assumes "get_lead v ready ts m mv p my low cl = Some l"
  obtains (matched) t where "t \<in> set ts" "ready" "(if cl then 1 / 4 else 1 / 2) < clean_lead_prob (Some p)" "fits_model m v (set ts) t"
      "l = get_custom_yrel my m (get_RadarState (clean_lead_prob (Some p)) t)"
    | (vision) lv where "ready" "1 / 2 < clean_lead_prob (Some p)" "model_lead_values m mv = Some lv" "ld_dRel l = lv_dRel lv" "\<not> ld_radar l"
      "ld_modelProb l = clean_lead_prob (Some p)"
    | (low_speed) t where "t \<in> set ts" "low" "potential_low_speed_lead v t" "l = get_RadarState 0 t"
proof -
  let ?p = "clean_lead_prob (Some p)" and ?c = "filter (potential_low_speed_lead v) ts"
  define th where "th = (if cl then RADAR_CONFIRMED_PROB_THRESHOLD else VISION_ONLY_PROB_THRESHOLD)"
  define tr where "tr = (if ts \<noteq> [] \<and> ready \<and> ?p > th then match_vision_to_track v m ts else None)"
  define ld where "ld = (case tr of Some t \<Rightarrow> Some (get_custom_yrel my m (get_RadarState ?p t))
      | None \<Rightarrow> if ready \<and> ?p > VISION_ONLY_PROB_THRESHOLD then get_RadarState_from_vision m v mv ?p else None)"
  have g: "Some l = (if low \<and> ?c \<noteq> [] then (case ld of None \<Rightarrow> Some (get_RadarState 0 (arg_min_list tk_dRel ?c))
      | Some l \<Rightarrow> if tk_dRel (arg_min_list tk_dRel ?c) < ld_dRel l then Some (get_RadarState 0 (arg_min_list tk_dRel ?c)) else ld) else ld)"
    using assms [symmetric] unfolding get_lead_def Let_def th_def tr_def ld_def .
  have th: "th = (if cl then 1 / 4 else 1 / 2)" by (simp add: th_def RADAR_CONFIRMED_PROB_THRESHOLD_def VISION_ONLY_PROB_THRESHOLD_def)
  from g consider "ld = Some l" | "low" "?c \<noteq> []" "l = get_RadarState 0 (arg_min_list tk_dRel ?c)"
    by (auto split: if_splits option.splits)
  then show thesis
  proof cases
    case 1
    show thesis
    proof (cases tr)
      case None
      then show thesis using 1 vision
        by (auto simp: ld_def get_RadarState_from_vision_def VISION_ONLY_PROB_THRESHOLD_def clean_lead_prob_def np_clip_def split: if_splits)
    next
      case (Some t)
      then show thesis using 1 matched [of t] match_vision_to_track_in [of v m ts t] unfolding th by (auto simp: ld_def tr_def th split: if_splits)
    qed
  next
    case 2
    then have "arg_min_list tk_dRel ?c \<in> set ?c" by (intro arg_min_list_in)
    then show thesis using low_speed [of "arg_min_list tk_dRel ?c"] 2 by auto
  qed
qed

lemma cut_in_source:
  assumes "apply_cut_in_override lead ts v cl ra py = Some l"
  shows "lead = Some l \<or> (lead = None \<and> cl \<and> ra \<and> (\<exists>t \<in> set ts. is_high_risk_cut_in py v t \<and> l = get_RadarState 0 t))"
proof (cases "filter (is_high_risk_cut_in py v) ts = []")
  case True
  then show ?thesis using assms by (auto simp: apply_cut_in_override_def Let_def split: if_splits)
next
  case False
  let ?t = "arg_min_list track_ttc (filter (is_high_risk_cut_in py v) ts)"
  have "?t \<in> set (filter (is_high_risk_cut_in py v) ts)" using False by (rule arg_min_list_in)
  then have t: "?t \<in> set ts" "is_high_risk_cut_in py v ?t" by simp_all
  show ?thesis
  proof (cases "lead = Some l")
    case lead: False
    then have "l = get_RadarState 0 ?t" "lead = None" "cl" "ra" using assms False by (auto simp: apply_cut_in_override_def Let_def get_RadarState_def split: if_splits)
    with t show ?thesis by blast
  qed simp
qed

lemma high_risk_closing:
  assumes "is_high_risk_cut_in py v t"
  shows "1 \<le> v" "2 \<le> tk_cnt t" "0 < tk_dRel t" "tk_dRel t \<le> 30" "tk_vRel t \<le> -2" "tk_dRel t \<le> 8 * - tk_vRel t" "2 \<le> tk_vLead t"
    "(case py t of None \<Rightarrow> \<bar>tk_yRel t\<bar> | Some y \<Rightarrow> \<bar>y\<bar>) \<le> 12 / 10"
proof -
  have h: "1 \<le> v" "2 \<le> tk_cnt t" "0 < tk_dRel t" "tk_dRel t \<le> 30" "2 \<le> - tk_vRel t" "tk_dRel t / max (- tk_vRel t) (1 / 10) \<le> 8" "2 \<le> tk_vLead t"
    "(case py t of None \<Rightarrow> \<bar>tk_yRel t\<bar> | Some y \<Rightarrow> \<bar>y\<bar>) \<le> 12 / 10"
    using assms unfolding is_high_risk_cut_in_def MAX_D_REL_def MIN_CLOSING_SPEED_def MAX_TTC_def MIN_V_EGO_def MIN_TRACK_CNT_def
      MIN_V_LEAD_def MAX_Y_REL_def by blast+
  then show "1 \<le> v" "2 \<le> tk_cnt t" "0 < tk_dRel t" "tk_dRel t \<le> 30" "tk_vRel t \<le> -2" "2 \<le> tk_vLead t"
    "(case py t of None \<Rightarrow> \<bar>tk_yRel t\<bar> | Some y \<Rightarrow> \<bar>y\<bar>) \<le> 12 / 10" by simp_all
  have "max (- tk_vRel t) (1 / 10) = - tk_vRel t" "0 < - tk_vRel t" using h(5) by simp_all
  then show "tk_dRel t \<le> 8 * - tk_vRel t" using h(6) by (metis pos_divide_le_eq)
qed

lemma measured_point:
  "measured points t \<Longrightarrow> (tk_identifier t, tk_dRel t, tk_yRel t, tk_vRel t) \<in> set points"
  unfolding measured_def by (metis map_of_SomeD set_rev)

lemma get_custom_yrel_fields [simp]:
  "ld_dRel (get_custom_yrel my m l) = ld_dRel l" "ld_vRel (get_custom_yrel my m l) = ld_vRel l" "ld_radar (get_custom_yrel my m l) = ld_radar l"
  "ld_radarTrackId (get_custom_yrel my m l) = ld_radarTrackId l" "ld_modelProb (get_custom_yrel my m l) = ld_modelProb l"
  "\<not> my \<Longrightarrow> get_custom_yrel my m l = l"
  by (simp_all add: get_custom_yrel_def split: option.split)

text \<open>
  The possible grounds of a lead published in slot \<open>k\<close>, in terms of the inputs of the frame \<open>i\<close>, the
  frames before it, and the state \<open>q\<close> before and \<open>r\<close> after it.
\<close>

definition point_seen :: "radar_in list \<Rightarrow> track \<Rightarrow> bool" where
  "point_seen before t \<longleftrightarrow> before \<noteq> [] \<and> tk_identifier t \<in> fst ` set (ri_points (last before))"

definition off_planned_path :: "radar_in \<Rightarrow> track \<Rightarrow> real" where
  "off_planned_path i t =
     (case path_relative_y_or_none (tk_yRel t) (tk_dRel t) (ri_model_path i) of None \<Rightarrow> \<bar>tk_yRel t\<bar> | Some y \<Rightarrow> \<bar>y\<bar>)"

definition lead_grounds :: "radar_in list \<Rightarrow> radar_in \<Rightarrow> radard \<Rightarrow> radard \<Rightarrow> nat \<Rightarrow> lead_state \<Rightarrow> bool" where
  "lead_grounds before i q r k l \<longleftrightarrow>
     (if ld_radar l then
        (\<exists>t \<in> snd ` set (rr_tracks r).
           (tk_identifier t, tk_dRel t, tk_yRel t, tk_vRel t) \<in> set (ri_points i) \<and>
           ld_radarTrackId l = tk_identifier t \<and> ld_dRel l = tk_dRel t \<and> ld_vRel l = tk_vRel t \<and> (ld_yRel l = tk_yRel t \<or> ri_model_y i) \<and>
           (ri_seen_model i \<and> (if rr_custom_long_enabled r then 1 / 4 else 1 / 2) < ld_modelProb l \<and>
              fits_model (ri_leads i ! k) (rr_v_ego r) (snd ` set (rr_tracks r)) t \<or>
            k = 0 \<and> rr_v_ego r < 4 \<and> \<bar>tk_yRel t\<bar> < 1 \<and> 3 / 4 < tk_dRel t \<and> tk_dRel t < 25 \<and> ld_yRel l = tk_yRel t \<or>
            k = 0 \<and> slot_lead i q 0 True = None \<and> rr_custom_long_enabled r \<and> rr_research_allowed r \<and> 1 \<le> rr_v_ego r \<and>
              0 < tk_dRel t \<and> tk_dRel t \<le> 30 \<and> tk_vRel t \<le> -2 \<and> tk_dRel t \<le> 8 * - tk_vRel t \<and> 2 \<le> ld_vLead l \<and>
              off_planned_path i t \<le> 12 / 10 \<and> point_seen before t \<and> ld_yRel l = tk_yRel t))
      else ri_seen_model i \<and> 1 / 2 < ld_modelProb l \<and> 0 < ld_dRel l)"

lemma slot_lead_grounds:
  assumes inv: "rr_inv r" and l: "slot_lead i r k low = Some l" "low \<Longrightarrow> k = 0"
  shows "lead_grounds before i r (rr_before i r) k l"
proof -
  let ?b = "rr_before i r"
  have ready: "rr_ready ?b = ri_seen_model i" by (simp add: rr_before_def)
  have pt: "t \<in> set (map snd (rr_tracks ?b)) \<Longrightarrow> (tk_identifier t, tk_dRel t, tk_yRel t, tk_vRel t) \<in> set (ri_points i)" for t
    by (rule measured_point [OF rr_before_tracks(1) [OF inv]])
  from l have g: "get_lead (rr_v_ego ?b) (rr_ready ?b) (map snd (rr_tracks ?b)) (ri_leads i ! k)
      (case ri_model_velocity i of v # _ \<Rightarrow> v | [] \<Rightarrow> Some (rr_v_ego ?b)) (slot_prob i r k) (ri_model_y i) low (rr_custom_long_enabled ?b) = Some l"
    by (simp add: slot_lead_def Let_def)
  from g show ?thesis
  proof (cases rule: get_lead_source)
    case (matched t)
    have "t \<in> snd ` set (rr_tracks ?b)" using matched(1) by simp
    then show ?thesis using pt [OF matched(1)] ready matched(2-5)
      by (cases "ri_model_y i") (auto simp: lead_grounds_def get_RadarState_def intro!: bexI [of _ t])
  next
    case (vision lv)
    then show ?thesis using ready model_lead_values_range by (auto simp: lead_grounds_def)
  next
    case (low_speed t)
    have "t \<in> snd ` set (rr_tracks ?b)" using low_speed(1) by simp
    then show ?thesis using pt [OF low_speed(1)] low_speed(2-4) l(2)
      by (auto simp: lead_grounds_def get_RadarState_def potential_low_speed_lead_def V_EGO_STATIONARY_def intro!: bexI [of _ t])
  qed
qed

text \<open>A track measured twice was a point of the frame before.\<close>

lemma update_tracks_cnt:
  assumes "tracks_ok (rr_tracks r)" "t \<in> set (map snd (rr_tracks (update_tracks i r)))" "2 \<le> tk_cnt t"
  shows "tk_identifier t \<in> fst ` set (rr_tracks r)"
proof -
  let ?kept = "filter (\<lambda>(k, t). k \<in> fst ` set (ar_pts (ri_points i))) (rr_tracks r)"
  have ok: "tracks_ok (rr_tracks (update_tracks i r))" by (rule update_tracks_ok(1) [OF assms(1)])
  with assms(2) obtain k where k: "map_of (rr_tracks (update_tracks i r)) k = Some t" "tk_identifier t = k"
    by (auto simp: tracks_ok_def)
  then obtain rpt where "tracked (rr_kalman_params r) (hd (rr_v_ego_hist r)) (map_of ?kept) k rpt = t"
    unfolding update_tracks_map by blast
  with assms(3) have "map_of ?kept k \<noteq> None" by (auto simp: tracked_def track_update_kf Track_def split: option.splits)
  then show ?thesis using k(2) by (force dest: map_of_SomeD)
qed

lemma update_tracks_keys: "fst ` set (rr_tracks (update_tracks i r)) = fst ` set (ri_points i)"
proof -
  have "dom (map_of (rr_tracks (update_tracks i r))) = dom (map_of (rev (ri_points i)))"
    by (auto simp: update_tracks_map dom_def)
  then show ?thesis by (simp add: dom_map_of_conv_image_fst)
qed

lemma run_tracks_seen:
  assumes "RadarD delay i0 = Inr r0" "t \<in> set (map snd (rr_tracks (rr_before i (radar_run is r0))))" "2 \<le> tk_cnt t"
  shows "point_seen is t"
proof -
  let ?r = "radar_run is r0"
  have ok: "tracks_ok (rr_tracks ?r)" by (rule rr_inv_parts(1) [OF radar_run_inv [OF assms(1)]])
  have seen: "tk_identifier t \<in> fst ` set (rr_tracks ?r)"
    using update_tracks_cnt [of "update_v_ego i (update_params i (?r\<lparr>rr_ready := ri_seen_model i\<rparr>))"] ok assms(2,3)
    by (simp add: rr_before_def)
  show ?thesis
  proof (cases "is" rule: rev_cases)
    case Nil
    then have "rr_tracks ?r = []" using assms(1) by (auto simp: RadarD_def KalmanParams_DT_MDL)
    then show ?thesis using seen by simp
  next
    case (snoc js j)
    have "rr_tracks ?r = rr_tracks (rr_before j (radar_run js r0))"
      unfolding snoc frames_append frames.simps by (rule radard_update_leads(3) [OF radar_run_inv [OF assms(1)]])
    then show ?thesis using seen snoc by (simp add: point_seen_def rr_before_def update_tracks_keys)
  qed
qed

lemma cut_in_grounds:
  assumes r: "RadarD delay i0 = Inr r0" and t: "t \<in> set (map snd (rr_tracks (rr_before i (radar_run is r0))))"
    and h: "is_high_risk_cut_in (track_path_relative_y (ri_model_path i)) (rr_v_ego (rr_before i (radar_run is r0))) t"
    and none: "slot_lead i (radar_run is r0) 0 True = None"
    and c: "rr_custom_long_enabled (rr_before i (radar_run is r0))" "rr_research_allowed (rr_before i (radar_run is r0))"
  shows "lead_grounds is i (radar_run is r0) (rr_before i (radar_run is r0)) 0 (get_RadarState 0 t)"
proof -
  have inv: "rr_inv (radar_run is r0)" by (rule radar_run_inv [OF r])
  note f = high_risk_closing [OF h]
  have "off_planned_path i t \<le> 12 / 10"
    using f(8) by (auto simp: off_planned_path_def track_path_relative_y_def split: option.splits)
  moreover have "point_seen is t" by (rule run_tracks_seen [OF r t f(2)])
  moreover have "(tk_identifier t, tk_dRel t, tk_yRel t, tk_vRel t) \<in> set (ri_points i)"
    by (rule measured_point [OF rr_before_tracks(1) [OF inv t]])
  moreover have "t \<in> snd ` set (rr_tracks (rr_before i (radar_run is r0)))" using t by simp
  ultimately show ?thesis using none c f(1,3-7)
    unfolding lead_grounds_def by (auto simp: get_RadarState_def intro!: bexI [of _ t])
qed

lemma leads_grounds:
  assumes r: "RadarD delay i0 = Inr r0" and k: "k < 2"
    and l: "[rs_leadOne (fst (radard_update i (radar_run is r0))), rs_leadTwo (fst (radard_update i (radar_run is r0)))] ! k = Some l"
  shows "lead_grounds is i (radar_run is r0) (rr_before i (radar_run is r0)) k l"
proof -
  let ?r = "radar_run is r0"
  let ?b = "rr_before i ?r"
  have inv: "rr_inv ?r" by (rule radar_run_inv [OF r])
  from k consider "k = 0" | "k = 1" by linarith
  then show ?thesis
  proof cases
    case 2
    then have "slot_lead i ?r 1 False = Some l" using l by (simp add: radard_update_leads(2) [OF inv] split: if_splits)
    then show ?thesis unfolding 2 by (rule slot_lead_grounds [OF inv]) simp
  next
    case 1
    then have "apply_cut_in_override (slot_lead i ?r 0 True) (map snd (rr_tracks ?b)) (rr_v_ego ?b) (rr_custom_long_enabled ?b)
        (rr_research_allowed ?b) (track_path_relative_y (ri_model_path i)) = Some l"
      using l by (simp add: radard_update_leads(1) [OF inv] Let_def split: if_splits)
    from cut_in_source [OF this] consider "slot_lead i ?r 0 True = Some l"
      | t where "slot_lead i ?r 0 True = None" "rr_custom_long_enabled ?b" "rr_research_allowed ?b" "t \<in> set (map snd (rr_tracks ?b))"
          "is_high_risk_cut_in (track_path_relative_y (ri_model_path i)) (rr_v_ego ?b) t" "l = get_RadarState 0 t" by blast
    then show ?thesis
    proof cases
      case 1
      then show ?thesis unfolding \<open>k = 0\<close> by (rule slot_lead_grounds [OF inv]) simp
    next
      case (2 t)
      then show ?thesis unfolding \<open>k = 0\<close> 2(6) by (intro cut_in_grounds [OF r])
    qed
  qed
qed


lemma update_leads_state:
  "rr_v_ego (snd (update_leads i r)) = rr_v_ego r" "rr_custom_long_enabled (snd (update_leads i r)) = rr_custom_long_enabled r"
  "rr_research_allowed (snd (update_leads i r)) = rr_research_allowed r"
  by (simp_all add: update_leads_def Let_def split: list.split)

lemma radard_update_state:
  "rr_v_ego (snd (radard_update i r)) = rr_v_ego (rr_before i r)"
  "rr_custom_long_enabled (snd (radard_update i r)) = rr_custom_long_enabled (rr_before i r)"
  "rr_research_allowed (snd (radard_update i r)) = rr_research_allowed (rr_before i r)"
  by (simp_all add: radard_update_def rr_before_def Let_def split_def update_leads_state)

lemma lead_grounds_state:
  assumes "rr_v_ego r' = rr_v_ego r" "rr_custom_long_enabled r' = rr_custom_long_enabled r" "rr_research_allowed r' = rr_research_allowed r"
    "rr_tracks r' = rr_tracks r"
  shows "lead_grounds before i q r' k l = lead_grounds before i q r k l"
  by (simp only: lead_grounds_def assms)

lemma get_lead_low_speed:
  assumes "t \<in> set ts" "potential_low_speed_lead v t"
  shows "\<exists>l. get_lead v ready ts m mv p my True cl = Some l \<and> ld_dRel l \<le> tk_dRel t"
proof -
  let ?c = "filter (potential_low_speed_lead v) ts"
  have t: "t \<in> set ?c" using assms by simp
  then have ne: "?c \<noteq> []" by (metis list.set(1) empty_iff)
  have le: "tk_dRel (arg_min_list tk_dRel ?c) \<le> tk_dRel t" by (rule arg_min_list_le [OF t])
  define ld where "ld = (case (if ts \<noteq> [] \<and> ready \<and> clean_lead_prob (Some p) > (if cl then RADAR_CONFIRMED_PROB_THRESHOLD else VISION_ONLY_PROB_THRESHOLD)
         then match_vision_to_track v m ts else None) of Some t \<Rightarrow> Some (get_custom_yrel my m (get_RadarState (clean_lead_prob (Some p)) t))
      | None \<Rightarrow> if ready \<and> clean_lead_prob (Some p) > VISION_ONLY_PROB_THRESHOLD then get_RadarState_from_vision m v mv (clean_lead_prob (Some p)) else None)"
  have g: "get_lead v ready ts m mv p my True cl =
      (if True \<and> ?c \<noteq> [] then (case ld of None \<Rightarrow> Some (get_RadarState 0 (arg_min_list tk_dRel ?c))
      | Some l \<Rightarrow> if tk_dRel (arg_min_list tk_dRel ?c) < ld_dRel l then Some (get_RadarState 0 (arg_min_list tk_dRel ?c)) else ld) else ld)"
    unfolding get_lead_def Let_def ld_def ..
  show ?thesis
    unfolding g using ne le by (cases ld) (auto simp: get_RadarState_def)
qed

lemma apply_cut_in_keeps: "apply_cut_in_override (Some l) ts v cl ra py = Some l"
  by (simp add: apply_cut_in_override_def)

lemma close_object_lead:
  fixes i r
  defines "u \<equiv> radard_update i r"
  assumes inv: "rr_inv r" and "2 \<le> length (ri_leads i)" "rr_v_ego (snd u) < 4"
    and pt: "map_of (rev (ri_points i)) k = Some (d, y, v)" and "\<bar>y\<bar> < 1" "3 / 4 < d" "d < 25"
  shows "\<exists>l. rs_leadOne (fst u) = Some l \<and> ld_dRel l \<le> d"
proof -
  let ?b = "rr_before i r"
  have v: "rr_v_ego ?b < 4" using assms(4) by (simp add: u_def radard_update_state)
  from rr_before_tracks(2) [OF inv pt] obtain t where
    t: "t \<in> set (map snd (rr_tracks ?b))" "tk_dRel t = d" "tk_yRel t = y" by auto
  have "potential_low_speed_lead (rr_v_ego ?b) t"
    using t v assms(6-8) by (simp add: potential_low_speed_lead_def V_EGO_STATIONARY_def)
  from get_lead_low_speed [OF t(1) this] obtain l where l: "slot_lead i r 0 True = Some l" "ld_dRel l \<le> d"
    unfolding slot_lead_def Let_def t(2) by blast
  have "\<not> length (ri_leads i) < 2" using assms(3) by simp
  then have "rs_leadOne (fst u) = Some l"
    unfolding u_def radard_update_leads(1) [OF inv] Let_def l(1) apply_cut_in_keeps by (simp only: if_False)
  with l(2) show ?thesis by blast
qed

text \<open>
  C33. Every published lead has its grounds. After any run of the process, a lead of the radar in
  slot \<open>k\<close> is a point of the current radar frame, with its distance and relative speed, for one
  of three reasons. Either the driving model runs, the probability of its lead \<open>k\<close> is above one half (a
  quarter with the custom longitudinal stack), distance and speed of the point agree with that lead
  within the gates, and no other track fits it better. Or, for the first lead, the car is slower than
  4 m/s and the point lies in the box right in front of it. Or, for the first lead, the other rules give
  no lead, the car runs in the research mode of the custom stack at 1 m/s or more, and the
  point was there in the previous frame too, is within 1.2 m of the planned path, at most 30 m
  ahead, moves at 2 m/s or more, and closes in at 2 m/s or more and within eight seconds. A lead
  that is not of the radar needs a driving model that runs, a probability above one half and a
  positive distance.
\<close>

theorem radar_leads_are_justified:
  assumes "RadarD delay i0 = Inr r0" "k < 2"
    and "[rs_leadOne (fst (radard_update i (radar_run is r0))), rs_leadTwo (fst (radard_update i (radar_run is r0)))] ! k = Some l"
  shows "lead_grounds is i (radar_run is r0) (snd (radard_update i (radar_run is r0))) k l"
  unfolding lead_grounds_state [OF radard_update_state radard_update_leads(3) [OF radar_run_inv [OF assms(1)]]]
  by (rule leads_grounds [OF assms])

text \<open>
  C34. Nothing close is missed at low speed. After any run of the process, when the driving model
  gives its leads, the car is slower than 4 m/s and the radar frame has a point less than a metre to
  the side and between 0.75 and 25 metres ahead, the first lead is present and is no further away
  than that point, whether or not the model sees it.
\<close>

theorem no_close_object_missed:
  fixes i "is" r0
  defines "u \<equiv> radard_update i (radar_run is r0)"
  assumes "RadarD delay i0 = Inr r0" "2 \<le> length (ri_leads i)" "rr_v_ego (snd u) < 4"
    and "map_of (rev (ri_points i)) k = Some (d, y, v)" "\<bar>y\<bar> < 1" "3 / 4 < d" "d < 25"
  shows "\<exists>l. rs_leadOne (fst u) = Some l \<and> ld_dRel l \<le> d"
  unfolding u_def by (rule close_object_lead [OF radar_run_inv [OF assms(2)] assms(3) _ assms(5-8)]) (use assms(4) in \<open>simp add: u_def\<close>)


text \<open>A frame at walking speed with one point three metres ahead and a driving model that sees nothing.\<close>

definition no_model_lead :: model_lead where
  "no_model_lead = \<lparr>ml_x = [], ml_y = [], ml_v = [], ml_a = [], ml_xStd = [], ml_yStd = [], ml_vStd = [], ml_prob = None\<rparr>"

definition walking_frame :: radar_in where
  "walking_frame = \<lparr>ri_seen_model = True, ri_car_state_frame = 1, ri_v_ego = 1, ri_points = [(7, 3, 1 / 2, 0)], ri_errors = False,
     ri_all_checks = True, ri_model_velocity = [], ri_leads = [no_model_lead, no_model_lead], ri_model_path = None,
     ri_custom_long = None, ri_research = None, ri_openpilot_long = True, ri_model_y = False\<rparr>"

lemma walking_start: obtains r0 where "RadarD (1 / 10) walking_frame = Inr r0" "rr_last_v_ego_frame r0 = -1"
  by (simp add: RadarD_def KalmanParams_DT_MDL update_params_def)

lemma walking_speed: "rr_last_v_ego_frame r = -1 \<Longrightarrow> rr_v_ego (snd (radard_update walking_frame r)) = 1"
  unfolding radard_update_state
  by (simp add: rr_before_def update_tracks_def update_v_ego_def update_params_def walking_frame_def Let_def)

lemma walking_frame_facts:
  "2 \<le> length (ri_leads walking_frame)" "map_of (rev (ri_points walking_frame)) 7 = Some (3, 1 / 2, 0)"
  by (simp_all add: walking_frame_def)

theorem no_close_object_missed_witness:
  "\<exists>r0 l. RadarD (1 / 10) walking_frame = Inr r0 \<and> rs_leadOne (fst (radard_update walking_frame r0)) = Some l \<and> ld_dRel l \<le> 3"
proof -
  obtain r0 where r0: "RadarD (1 / 10) walking_frame = Inr r0" "rr_last_v_ego_frame r0 = -1" by (rule walking_start)
  then show ?thesis
    using no_close_object_missed [OF r0(1) walking_frame_facts(1) _ walking_frame_facts(2), of "[]"] walking_speed [OF r0(2)] by auto
qed

theorem radar_leads_are_justified_witness:
  "\<exists>r0 l. RadarD (1 / 10) walking_frame = Inr r0 \<and> rs_leadOne (fst (radard_update walking_frame r0)) = Some l \<and>
     lead_grounds [] walking_frame r0 (snd (radard_update walking_frame r0)) 0 l"
proof -
  obtain r0 where r0: "RadarD (1 / 10) walking_frame = Inr r0" "rr_last_v_ego_frame r0 = -1" by (rule walking_start)
  obtain l where l: "rs_leadOne (fst (radard_update walking_frame r0)) = Some l"
    using close_object_lead [OF RadarD_inv [OF r0(1)] walking_frame_facts(1) _ walking_frame_facts(2)] walking_speed [OF r0(2)] by auto
  have "lead_grounds [] walking_frame r0 (snd (radard_update walking_frame r0)) 0 l"
    using radar_leads_are_justified [OF r0(1), of 0 walking_frame "[]"] l by simp
  with r0 l show ?thesis by blast
qed

end
