(* ===== verification/Output_Governor.thy ===== *)
theory Output_Governor
  imports Prelude
begin

text \<open>
  The last stage of the torque controller v2.1, \<open>sunnypilot/custom/lateral/output_governor.py\<close> with
  its constants (\<open>_output_governor_constants.py\<close>): raise the cap for an under-responding car,
  restrict the command for safety and comfort, limit its rate of change. The model is the pure Python
  version of the helpers; the optional compiled helpers are built from a Cython file.

  The method \<open>update\<close> is long; it is split along its own sections (floor, cap, clipping, arrival,
  rate limit), each section a definition that the next one uses. The six numbers that it checks
  together are one record, which is absent when one of them is not finite. The error rate, the
  delay and the holding torque are \<open>None\<close> when they are not numbers.

  The lemmas show that the output never jumps: it does not cross zero within a frame, grows and
  (without a safety reason) shrinks with bounded rate, stays within the largest output seen, and
  yields to the driver within a bounded number of frames.
\<close>

subsection \<open>Constants\<close>

definition OUTPUT_SLEW_RATE_BP :: "real list" where "OUTPUT_SLEW_RATE_BP = [0, 5, 10, 20, 30, 40]"
definition OUTPUT_SLEW_RATE_V :: "real list" where "OUTPUT_SLEW_RATE_V = [0.8, 0.8, 0.8, 0.8, 0.8, 0.8]"
definition SIGN_CHANGE_SLEW_RATE_BP :: "real list" where "SIGN_CHANGE_SLEW_RATE_BP = [0, 5, 10, 20, 30, 40]"
definition SIGN_CHANGE_SLEW_RATE_V :: "real list" where "SIGN_CHANGE_SLEW_RATE_V = [1.25, 1.25, 1.25, 1.25, 1.25, 1.25]"
definition SAME_DIRECTION_LIMIT_RATE_BP :: "real list" where "SAME_DIRECTION_LIMIT_RATE_BP = [0, 10, 20, 30, 40]"
definition SAME_DIRECTION_LIMIT_RATE_V :: "real list" where "SAME_DIRECTION_LIMIT_RATE_V = [1.3, 1.3, 2.1, 3.2, 3.6]"
definition RELEASE_SLEW_SCALE :: real where "RELEASE_SLEW_SCALE = 1.5625"
definition SLEW_RATE_SCALE_STEP :: real where "SLEW_RATE_SCALE_STEP = 1.125"

definition TARGET_ARRIVAL_TAPER_START :: real where "TARGET_ARRIVAL_TAPER_START = 0.25"
definition TARGET_ARRIVAL_TAPER_FULL :: real where "TARGET_ARRIVAL_TAPER_FULL = 0.05"
definition TARGET_ARRIVAL_MIN_CLOSING_RATE :: real where "TARGET_ARRIVAL_MIN_CLOSING_RATE = 0.05"

definition OVER_TURN_MARGIN :: real where "OVER_TURN_MARGIN = 0.08"
definition OVER_TURN_RAMP_EXCESS :: real where "OVER_TURN_RAMP_EXCESS = 0.01"
definition OVER_TURN_MAX_OPPOSITE_FRAC :: real where "OVER_TURN_MAX_OPPOSITE_FRAC = 0.1"
definition OVER_TURN_REVERSAL_FRAC :: real where "OVER_TURN_REVERSAL_FRAC = 0.3"
definition OVER_TURN_MAX_SPEED :: real where "OVER_TURN_MAX_SPEED = 12"
definition OVER_TURN_FADE_SPEED :: real where "OVER_TURN_FADE_SPEED = 15"
definition SAME_DIRECTION_LIMIT_CAP :: real where "SAME_DIRECTION_LIMIT_CAP = 0.85"
definition STEERING_RATE_COMFORT_START_DEG :: real where "STEERING_RATE_COMFORT_START_DEG = 25"
definition STEERING_RATE_COMFORT_FULL_DEG :: real where "STEERING_RATE_COMFORT_FULL_DEG = 80"
definition STEERING_RATE_COMFORT_MIN_CAP :: real where "STEERING_RATE_COMFORT_MIN_CAP = 0.88"
definition STEERING_RATE_COMFORT_MIN_SLEW_SCALE :: real where "STEERING_RATE_COMFORT_MIN_SLEW_SCALE = 0.75"
definition HIGH_RATE_START_DEG :: real where "HIGH_RATE_START_DEG = 80"
definition HIGH_RATE_FULL_DEG :: real where "HIGH_RATE_FULL_DEG = 100"
definition HIGH_RATE_MIN_CAP :: real where "HIGH_RATE_MIN_CAP = 0.62"
definition HIGH_RATE_SLEW_SCALE :: real where "HIGH_RATE_SLEW_SCALE = 0.7"
definition SIGN_CONFLICT_CAP :: real where "SIGN_CONFLICT_CAP = 0.8"
definition OVERRIDE_RELEASE_CAP :: real where "OVERRIDE_RELEASE_CAP = 0.8"
definition OVER_RESPONSE_MARGIN :: real where "OVER_RESPONSE_MARGIN = 0.08"
definition OVER_RESPONSE_FULL_EXCESS :: real where "OVER_RESPONSE_FULL_EXCESS = 0.45"
definition OVER_RESPONSE_MIN_SCALE :: real where "OVER_RESPONSE_MIN_SCALE = 0.3"
definition ISO_LATERAL_ACCEL :: real where "ISO_LATERAL_ACCEL = 3"
definition ISO_ACCEL_MARGIN :: real where "ISO_ACCEL_MARGIN = 2.6"
definition NEAR_ISO_ACCEL_CAP :: real where "NEAR_ISO_ACCEL_CAP = 0.85"
definition OVER_ISO_ACCEL_CAP :: real where "OVER_ISO_ACCEL_CAP = 0.8"
definition UNDER_RESPONSE_MAX_TORQUE_FRACTION :: real where "UNDER_RESPONSE_MAX_TORQUE_FRACTION = 0.9"
definition TRACKING_CORRECTION_MARGIN :: real where "TRACKING_CORRECTION_MARGIN = 0.06"
definition UNDER_RESPONSE_MARGIN :: real where "UNDER_RESPONSE_MARGIN = 0.12"
definition UNDER_RESPONSE_FULL_SPEED :: real where "UNDER_RESPONSE_FULL_SPEED = 9"
definition UNDER_RESPONSE_FADE_SPEED :: real where "UNDER_RESPONSE_FADE_SPEED = 12"
definition SIGN_THRESHOLD :: real where "SIGN_THRESHOLD = 0.05"

lemmas governor_consts =
  RELEASE_SLEW_SCALE_def TARGET_ARRIVAL_TAPER_START_def TARGET_ARRIVAL_TAPER_FULL_def TARGET_ARRIVAL_MIN_CLOSING_RATE_def
  OVER_TURN_MARGIN_def OVER_TURN_RAMP_EXCESS_def OVER_TURN_MAX_OPPOSITE_FRAC_def OVER_TURN_REVERSAL_FRAC_def
  OVER_TURN_MAX_SPEED_def OVER_TURN_FADE_SPEED_def SAME_DIRECTION_LIMIT_CAP_def STEERING_RATE_COMFORT_START_DEG_def
  STEERING_RATE_COMFORT_FULL_DEG_def STEERING_RATE_COMFORT_MIN_CAP_def STEERING_RATE_COMFORT_MIN_SLEW_SCALE_def
  HIGH_RATE_START_DEG_def HIGH_RATE_FULL_DEG_def HIGH_RATE_MIN_CAP_def HIGH_RATE_SLEW_SCALE_def SIGN_CONFLICT_CAP_def
  OVERRIDE_RELEASE_CAP_def OVER_RESPONSE_MARGIN_def OVER_RESPONSE_FULL_EXCESS_def OVER_RESPONSE_MIN_SCALE_def
  ISO_LATERAL_ACCEL_def ISO_ACCEL_MARGIN_def NEAR_ISO_ACCEL_CAP_def OVER_ISO_ACCEL_CAP_def UNDER_RESPONSE_MAX_TORQUE_FRACTION_def
  TRACKING_CORRECTION_MARGIN_def UNDER_RESPONSE_MARGIN_def UNDER_RESPONSE_FULL_SPEED_def UNDER_RESPONSE_FADE_SPEED_def
  SIGN_THRESHOLD_def

subsection \<open>Inputs\<close>

record governor_floats =
  gf_v_ego :: real
  gf_steering_rate_deg :: real
  gf_nominal_torque :: real
  gf_max_output :: real
  gf_desired_lateral_accel :: real
  gf_actual_lateral_accel :: real

record governor_inputs =
  gi_active :: bool
  gi_floats :: "governor_floats option"
  gi_same_direction_limit :: bool
  gi_release_active :: bool
  gi_path_evidence_valid :: bool
  gi_controller_evidence_stable :: bool
  gi_lateral_accel_error_rate :: "real option"
  gi_lat_delay :: "real option"
  gi_holding_torque :: "real option"

subsection \<open>Helpers\<close>

definition sign :: "real \<Rightarrow> real" where
  "sign value = (if value > 0 then 1 else if value < 0 then -1 else 0)"

definition approach :: "real \<Rightarrow> real \<Rightarrow> real \<Rightarrow> real" where
  "approach value target step = (if target > value then min target (value + step) else max target (value - step))"

text \<open>\<open>bisect_right\<close> on an increasing list is the number of its entries up to \<open>x\<close>.\<close>

definition interp :: "real \<Rightarrow> real list \<Rightarrow> real list \<Rightarrow> real" where
  "interp x xp fp =
     (if x \<le> xp ! 0 then fp ! 0
      else if x \<ge> last xp then last fp
      else
        (let idx = length (takeWhile (\<lambda>p. p \<le> x) xp) - 1;
             x0 = xp ! idx; x1 = xp ! (idx + 1); denom = x1 - x0
         in if denom = 0 then fp ! idx
            else let y0 = fp ! idx; y1 = fp ! (idx + 1) in y0 + (x - x0) * (y1 - y0) / denom))"

definition limit :: "real \<Rightarrow> real \<Rightarrow> real \<Rightarrow> real" where
  "limit value lower upper = max lower (min value upper)"

definition over_response_scale :: "governor_floats \<Rightarrow> real" where
  "over_response_scale f =
     (let desired_sign = sign (gf_desired_lateral_accel f);
          actual_sign = sign (gf_actual_lateral_accel f);
          torque_sign = sign (gf_nominal_torque f);
          over_response = desired_sign * (gf_actual_lateral_accel f - gf_desired_lateral_accel f)
      in if desired_sign = 0 \<or> actual_sign \<noteq> desired_sign \<or> torque_sign \<noteq> actual_sign then 1
         else if over_response \<le> OVER_RESPONSE_MARGIN then 1
         else
           (let ratio = limit ((over_response - OVER_RESPONSE_MARGIN) / max (OVER_RESPONSE_FULL_EXCESS - OVER_RESPONSE_MARGIN) (1 / 1000)) 0 1
            in 1 + ratio * (OVER_RESPONSE_MIN_SCALE - 1)))"

definition signed_beyond :: "real \<Rightarrow> real" where
  "signed_beyond a = (if \<bar>a\<bar> > SIGN_THRESHOLD then sign a else 0)"

definition over_turn_cap_frac :: "governor_floats \<Rightarrow> real option \<Rightarrow> real" where
  "over_turn_cap_frac f error_rate =
     (let actual_sign = signed_beyond (gf_actual_lateral_accel f);
          torque_sign = sign (gf_nominal_torque f);
          over_turn = actual_sign * (gf_actual_lateral_accel f - gf_desired_lateral_accel f);
          desired_sign = signed_beyond (gf_desired_lateral_accel f);
          reversal = (desired_sign \<noteq> 0 \<and> desired_sign \<noteq> actual_sign);
          opening = (case error_rate of Some r \<Rightarrow> actual_sign * r < 0 | None \<Rightarrow> False);
          ceiling = (if reversal \<and> opening then OVER_TURN_REVERSAL_FRAC else OVER_TURN_MAX_OPPOSITE_FRAC);
          ratio = limit ((over_turn - OVER_TURN_MARGIN) / max OVER_TURN_RAMP_EXCESS (1 / 1000)) 0 1;
          frac = 1 + ratio * (ceiling - 1)
      in if gf_v_ego f \<ge> OVER_TURN_FADE_SPEED then 1
         else if actual_sign = 0 \<or> torque_sign = 0 \<or> torque_sign = actual_sign then 1
         else if over_turn \<le> OVER_TURN_MARGIN then 1
         else if gf_v_ego f \<le> OVER_TURN_MAX_SPEED then frac
         else 1 + ((OVER_TURN_FADE_SPEED - gf_v_ego f) / max (OVER_TURN_FADE_SPEED - OVER_TURN_MAX_SPEED) (1 / 1000)) * (frac - 1))"

definition sign_conflict :: "governor_floats \<Rightarrow> bool" where
  "sign_conflict f \<longleftrightarrow>
     sign (gf_desired_lateral_accel f) \<noteq> 0 \<and> sign (gf_actual_lateral_accel f) \<noteq> 0 \<and>
     sign (gf_desired_lateral_accel f) \<noteq> sign (gf_actual_lateral_accel f) \<and> \<bar>gf_actual_lateral_accel f\<bar> > SIGN_THRESHOLD"

definition iso_cap :: "governor_floats \<Rightarrow> real" where
  "iso_cap f =
     (let reinforces = (sign (gf_nominal_torque f) \<noteq> 0 \<and> sign (gf_nominal_torque f) = sign (gf_actual_lateral_accel f))
      in if \<not> reinforces \<or> \<bar>gf_actual_lateral_accel f\<bar> \<le> ISO_ACCEL_MARGIN then 1
         else if \<bar>gf_actual_lateral_accel f\<bar> > ISO_LATERAL_ACCEL then OVER_ISO_ACCEL_CAP else NEAR_ISO_ACCEL_CAP)"

text \<open>The car responds too little: it lags on the desired side, or the output corrects it back.\<close>

definition under_responds :: "governor_floats \<Rightarrow> bool" where
  "under_responds f \<longleftrightarrow>
     (let desired_sign = sign (gf_desired_lateral_accel f);
          actual_sign = signed_beyond (gf_actual_lateral_accel f);
          output_sign = sign (gf_nominal_torque f);
          under_response = desired_sign * (gf_desired_lateral_accel f - gf_actual_lateral_accel f);
          same_sign_lag = (desired_sign \<noteq> 0 \<and> output_sign = desired_sign \<and> (actual_sign = 0 \<or> actual_sign = desired_sign));
          corrective_reversal = (desired_sign \<noteq> 0 \<and> actual_sign \<noteq> 0 \<and> actual_sign \<noteq> desired_sign \<and> output_sign = desired_sign)
      in under_response > UNDER_RESPONSE_MARGIN \<and> (same_sign_lag \<or> corrective_reversal))"

definition under_response_floor :: "governor_floats \<Rightarrow> real" where
  "under_response_floor f =
     (if gf_v_ego f \<ge> UNDER_RESPONSE_FADE_SPEED then 0
      else if \<not> under_responds f then 0
      else if gf_v_ego f \<le> UNDER_RESPONSE_FULL_SPEED then 1
      else limit ((UNDER_RESPONSE_FADE_SPEED - gf_v_ego f) / max (UNDER_RESPONSE_FADE_SPEED - UNDER_RESPONSE_FULL_SPEED) (1 / 1000)) 0 1)"

definition tracking_correction_needed :: "governor_floats \<Rightarrow> bool" where
  "tracking_correction_needed f \<longleftrightarrow>
     (let error = gf_desired_lateral_accel f - gf_actual_lateral_accel f
      in \<bar>error\<bar> > TRACKING_CORRECTION_MARGIN \<and> sign (gf_nominal_torque f) = sign error \<or> under_responds f)"

definition steering_rate_comfort_blend :: "governor_floats \<Rightarrow> bool \<Rightarrow> real" where
  "steering_rate_comfort_blend f release_active =
     (if sign (gf_nominal_torque f) = 0 \<or> sign (gf_nominal_torque f) \<noteq> sign (gf_steering_rate_deg f) then 0
      else if release_active \<or> tracking_correction_needed f then 0
      else limit ((\<bar>gf_steering_rate_deg f\<bar> - STEERING_RATE_COMFORT_START_DEG) /
                  max (STEERING_RATE_COMFORT_FULL_DEG - STEERING_RATE_COMFORT_START_DEG) (1 / 1000)) 0 1)"

subsection \<open>Augment and restrict\<close>

definition torque_fraction_guard :: "governor_floats \<Rightarrow> bool" where
  "torque_fraction_guard f \<longleftrightarrow> \<bar>gf_nominal_torque f\<bar> \<ge> UNDER_RESPONSE_MAX_TORQUE_FRACTION * gf_max_output f"

text \<open>The guards that the floor and the arrival blend share.\<close>

definition common_guards :: "governor_inputs \<Rightarrow> governor_floats \<Rightarrow> bool" where
  "common_guards i f \<longleftrightarrow>
     \<not> gi_path_evidence_valid i \<or> \<not> gi_controller_evidence_stable i \<or> gi_release_active i \<or> gi_same_direction_limit i \<or>
     \<bar>gf_steering_rate_deg f\<bar> \<ge> HIGH_RATE_START_DEG \<or> sign_conflict f \<or> over_response_scale f < 1 \<or> iso_cap f < 1"

definition floor_guarded :: "governor_inputs \<Rightarrow> governor_floats \<Rightarrow> bool" where
  "floor_guarded i f \<longleftrightarrow> under_response_floor f > 0 \<and> (common_guards i f \<or> torque_fraction_guard f)"

definition gov_floor :: "governor_inputs \<Rightarrow> governor_floats \<Rightarrow> real" where
  "gov_floor i f = (if floor_guarded i f then 0 else under_response_floor f)"

definition high_rate_blend :: "governor_floats \<Rightarrow> real" where
  "high_rate_blend f =
     limit ((\<bar>gf_steering_rate_deg f\<bar> - HIGH_RATE_START_DEG) / max (HIGH_RATE_FULL_DEG - HIGH_RATE_START_DEG) (1 / 1000)) 0 1"

definition cap_without_sign_conflict :: "governor_inputs \<Rightarrow> governor_floats \<Rightarrow> real" where
  "cap_without_sign_conflict i f =
     (let cap = 1;
          comfort = steering_rate_comfort_blend f (gi_release_active i);
          cap = (if comfort > 0 then min cap (1 + comfort * (STEERING_RATE_COMFORT_MIN_CAP - 1)) else cap);
          cap = (if high_rate_blend f > 0 then min cap (1 + high_rate_blend f * (HIGH_RATE_MIN_CAP - 1)) else cap);
          cap = (if gi_same_direction_limit i then min cap SAME_DIRECTION_LIMIT_CAP else cap);
          cap = (if over_response_scale f < 1 then min cap (over_response_scale f) else cap);
          over_turn = over_turn_cap_frac f (gi_lateral_accel_error_rate i)
      in if over_turn < 1 then min cap over_turn else cap)"

definition gov_cap :: "governor_inputs \<Rightarrow> governor_floats \<Rightarrow> real" where
  "gov_cap i f =
     (let cap = cap_without_sign_conflict i f;
          cap = (if sign_conflict f then min cap SIGN_CONFLICT_CAP else cap);
          cap = (if iso_cap f < 1 then min cap (iso_cap f) else cap)
      in if gi_release_active i then min cap OVERRIDE_RELEASE_CAP else cap)"

definition cap_eff :: "governor_inputs \<Rightarrow> governor_floats \<Rightarrow> real" where
  "cap_eff i f = gov_cap i f + gov_floor i f * (1 - gov_cap i f)"

definition gov_clipped :: "governor_inputs \<Rightarrow> governor_floats \<Rightarrow> real" where
  "gov_clipped i f =
     (let output_cap_abs = cap_eff i f * gf_max_output f;
          capped = limit (gf_nominal_torque f) (- output_cap_abs) output_cap_abs;
          attenuated = (if over_response_scale f < 1 then gf_nominal_torque f * over_response_scale f else gf_nominal_torque f)
      in if \<bar>capped\<bar> \<le> \<bar>attenuated\<bar> then capped else attenuated)"

subsection \<open>Target arrival\<close>

text \<open>Blend towards the holding torque when the target is about to be reached; the flag says that it happened.\<close>

definition gov_arrival :: "governor_inputs \<Rightarrow> governor_floats \<Rightarrow> real \<Rightarrow> real \<times> bool" where
  "gov_arrival i f clipped =
     (case (gi_lateral_accel_error_rate i, gi_lat_delay i, gi_holding_torque i) of
        (Some rate, Some delay, Some holding_torque) \<Rightarrow>
          (let error = gf_desired_lateral_accel f - gf_actual_lateral_accel f;
               error_sign = sign error;
               guarded = (gov_floor i f > 0 \<or> common_guards i f);
               closing_rate = - error_sign * rate
           in if \<not> guarded \<and> error_sign \<noteq> 0 \<and> closing_rate > TARGET_ARRIVAL_MIN_CLOSING_RATE then
                (let predicted_remaining = max 0 (error_sign * (error + rate * max delay 0));
                     time_to_target = predicted_remaining / closing_rate;
                     blend_x = limit ((TARGET_ARRIVAL_TAPER_START - time_to_target) / (TARGET_ARRIVAL_TAPER_START - TARGET_ARRIVAL_TAPER_FULL)) 0 1;
                     blend = blend_x * blend_x * (3 - 2 * blend_x);
                     holding = limit holding_torque (- \<bar>clipped\<bar>) \<bar>clipped\<bar>
                 in if blend > 0 \<and> (sign holding = 0 \<or> sign holding = sign clipped) \<and> \<bar>holding\<bar> < \<bar>clipped\<bar>
                    then (clipped + blend * (holding - clipped), True)
                    else (clipped, False))
              else (clipped, False))
      | _ \<Rightarrow> (clipped, False))"


subsection \<open>Rate limit\<close>

definition sign_change :: "real \<Rightarrow> real \<Rightarrow> bool" where
  "sign_change previous clipped \<longleftrightarrow> sign previous \<noteq> 0 \<and> sign clipped \<noteq> 0 \<and> sign previous \<noteq> sign clipped"

definition decreases_same_direction :: "real \<Rightarrow> real \<Rightarrow> bool" where
  "decreases_same_direction previous clipped \<longleftrightarrow>
     sign previous \<noteq> 0 \<and> (sign clipped = 0 \<or> sign clipped = sign previous) \<and> \<bar>clipped\<bar> \<le> \<bar>previous\<bar>"

definition slew_rate :: "real \<Rightarrow> governor_inputs \<Rightarrow> governor_floats \<Rightarrow> bool \<Rightarrow> real" where
  "slew_rate slew_rate_scale i f change =
     (let rate = (if change then interp (gf_v_ego f) SIGN_CHANGE_SLEW_RATE_BP SIGN_CHANGE_SLEW_RATE_V
                  else interp (gf_v_ego f) OUTPUT_SLEW_RATE_BP OUTPUT_SLEW_RATE_V * slew_rate_scale);
          comfort = steering_rate_comfort_blend f (gi_release_active i);
          rate = (if comfort > 0 then rate * (1 + comfort * (STEERING_RATE_COMFORT_MIN_SLEW_SCALE - 1)) else rate);
          rate = (if high_rate_blend f > 0 then rate * HIGH_RATE_SLEW_SCALE else rate)
      in if gi_same_direction_limit i then min rate (interp (gf_v_ego f) SAME_DIRECTION_LIMIT_RATE_BP SAME_DIRECTION_LIMIT_RATE_V)
         else rate)"

definition fast_release :: "governor_inputs \<Rightarrow> governor_floats \<Rightarrow> bool" where
  "fast_release i f \<longleftrightarrow> gi_release_active i \<or> sign_conflict f \<or> iso_cap f < 1"

definition rate_limited :: "real \<Rightarrow> real \<Rightarrow> governor_inputs \<Rightarrow> governor_floats \<Rightarrow> real \<Rightarrow> real \<Rightarrow> real" where
  "rate_limited dt slew_rate_scale i f previous clipped =
     (let change = sign_change previous clipped
      in if decreases_same_direction previous clipped then
           (if fast_release i f then clipped
            else
              (let release_rate = interp (gf_v_ego f) OUTPUT_SLEW_RATE_BP OUTPUT_SLEW_RATE_V * RELEASE_SLEW_SCALE
               in approach previous clipped (release_rate * dt)))
         else approach previous (if change then 0 else clipped) (slew_rate slew_rate_scale i f change * dt))"

subsection \<open>Reasons and diagnostics\<close>

datatype governor_reason =
  CLIPPED | SLEW_LIMITED | SIGN_CHANGE_LIMITED | SAME_DIRECTION_LIMIT | HIGH_STEERING_RATE | OVER_RESPONSE | SIGN_CONFLICT
| NEAR_ISO_ACCEL | OVERRIDE_RELEASE | UNDER_RESPONSE_FLOOR | INVALID | UNDER_RESPONSE_GUARDED | STEERING_RATE_COMFORT
| TARGET_ARRIVAL | SLEW_SCALE_APPLIED | OVER_TURN

fun reason_bit :: "governor_reason \<Rightarrow> nat" where
  "reason_bit CLIPPED = 0"
| "reason_bit SLEW_LIMITED = 1"
| "reason_bit SIGN_CHANGE_LIMITED = 2"
| "reason_bit SAME_DIRECTION_LIMIT = 3"
| "reason_bit HIGH_STEERING_RATE = 4"
| "reason_bit OVER_RESPONSE = 5"
| "reason_bit SIGN_CONFLICT = 6"
| "reason_bit NEAR_ISO_ACCEL = 7"
| "reason_bit OVERRIDE_RELEASE = 8"
| "reason_bit UNDER_RESPONSE_FLOOR = 9"
| "reason_bit INVALID = 10"
| "reason_bit UNDER_RESPONSE_GUARDED = 11"
| "reason_bit STEERING_RATE_COMFORT = 12"
| "reason_bit TARGET_ARRIVAL = 13"
| "reason_bit SLEW_SCALE_APPLIED = 14"
| "reason_bit OVER_TURN = 15"

text \<open>The bit field of a set of reasons; \<open>update\<close> adds every flag at most once.\<close>

definition reason_code :: "governor_reason list \<Rightarrow> nat" where
  "reason_code rs = sum_list (map (\<lambda>r. 2 ^ reason_bit r) rs)"

record governor_diagnostics =
  gd_signConflictActive :: bool
  gd_signConflictBinding :: bool
  gd_signConflictFloorGuarded :: bool
  gd_underResponseGuardPathEvidenceInvalid :: bool
  gd_underResponseGuardControllerUnstable :: bool
  gd_underResponseGuardRelease :: bool
  gd_underResponseGuardSameDirectionLimit :: bool
  gd_underResponseGuardHighSteeringRate :: bool
  gd_underResponseGuardSignConflict :: bool
  gd_underResponseGuardOverResponse :: bool
  gd_underResponseGuardIsoAccel :: bool
  gd_underResponseGuardTorqueFraction :: bool

definition no_diagnostics :: governor_diagnostics where
  "no_diagnostics = \<lparr>gd_signConflictActive = False, gd_signConflictBinding = False, gd_signConflictFloorGuarded = False,
     gd_underResponseGuardPathEvidenceInvalid = False, gd_underResponseGuardControllerUnstable = False,
     gd_underResponseGuardRelease = False, gd_underResponseGuardSameDirectionLimit = False,
     gd_underResponseGuardHighSteeringRate = False, gd_underResponseGuardSignConflict = False,
     gd_underResponseGuardOverResponse = False, gd_underResponseGuardIsoAccel = False, gd_underResponseGuardTorqueFraction = False\<rparr>"

definition gov_diagnostics :: "governor_inputs \<Rightarrow> governor_floats \<Rightarrow> governor_diagnostics" where
  "gov_diagnostics i f =
     (let cap0 = cap_without_sign_conflict i f;
          cap_eff0 = cap0 + gov_floor i f * (1 - cap0);
          context_floor = (under_response_floor f > 0)
      in \<lparr>gd_signConflictActive = sign_conflict f,
          gd_signConflictBinding = (sign_conflict f \<and> gov_cap i f < cap0 \<and>
            (\<bar>gf_nominal_torque f\<bar> > cap_eff0 * gf_max_output f \<or> \<bar>gf_nominal_torque f\<bar> > SIGN_CONFLICT_CAP * gf_max_output f)),
          gd_signConflictFloorGuarded = (context_floor \<and> sign_conflict f \<and> floor_guarded i f),
          gd_underResponseGuardPathEvidenceInvalid = (context_floor \<and> \<not> gi_path_evidence_valid i),
          gd_underResponseGuardControllerUnstable = (context_floor \<and> \<not> gi_controller_evidence_stable i),
          gd_underResponseGuardRelease = (context_floor \<and> gi_release_active i),
          gd_underResponseGuardSameDirectionLimit = (context_floor \<and> gi_same_direction_limit i),
          gd_underResponseGuardHighSteeringRate = (context_floor \<and> \<bar>gf_steering_rate_deg f\<bar> \<ge> HIGH_RATE_START_DEG),
          gd_underResponseGuardSignConflict = (context_floor \<and> sign_conflict f),
          gd_underResponseGuardOverResponse = (context_floor \<and> over_response_scale f < 1),
          gd_underResponseGuardIsoAccel = (context_floor \<and> iso_cap f < 1),
          gd_underResponseGuardTorqueFraction = (context_floor \<and> torque_fraction_guard f)\<rparr>)"

subsection \<open>The governor\<close>

record governor_result =
  gr_output_torque :: real
  gr_active :: bool
  gr_reason :: nat
  gr_cap :: real
  gr_floor :: real
  gr_diagnostics :: governor_diagnostics
  gr_pre_slew_target :: real

record output_governor =
  og_dt :: real
  og_slew_rate_scale :: real
  og_previous_output :: real

definition OutputGovernor :: "real \<Rightarrow> real \<Rightarrow> output_governor" where
  "OutputGovernor dt slew_rate_scale = \<lparr>og_dt = max dt (1 / 1000), og_slew_rate_scale = slew_rate_scale, og_previous_output = 0\<rparr>"

definition og_reset :: "output_governor \<Rightarrow> output_governor" where
  "og_reset g = g\<lparr>og_previous_output := 0\<rparr>"

definition flag_if :: "bool \<Rightarrow> governor_reason \<Rightarrow> governor_reason list" where
  "flag_if b r = (if b then [r] else [])"

definition gov_reasons :: "governor_inputs \<Rightarrow> governor_floats \<Rightarrow> real \<Rightarrow> governor_reason list" where
  "gov_reasons i f previous =
     (let clipped0 = gov_clipped i f;
          arrival = gov_arrival i f clipped0
      in flag_if (under_response_floor f > 0 \<and> floor_guarded i f) UNDER_RESPONSE_GUARDED @
         flag_if (under_response_floor f > 0 \<and> \<not> floor_guarded i f) UNDER_RESPONSE_FLOOR @
         flag_if (steering_rate_comfort_blend f (gi_release_active i) > 0) STEERING_RATE_COMFORT @
         flag_if (high_rate_blend f > 0) HIGH_STEERING_RATE @
         flag_if (gi_same_direction_limit i) SAME_DIRECTION_LIMIT @
         flag_if (over_response_scale f < 1) OVER_RESPONSE @
         flag_if (over_turn_cap_frac f (gi_lateral_accel_error_rate i) < 1) OVER_TURN @
         flag_if (sign_conflict f) SIGN_CONFLICT @
         flag_if (iso_cap f < 1) NEAR_ISO_ACCEL @
         flag_if (gi_release_active i) OVERRIDE_RELEASE @
         flag_if (\<bar>clipped0 - gf_nominal_torque f\<bar> > 1 / 10 ^ 6) CLIPPED @
         flag_if (snd arrival) TARGET_ARRIVAL @
         flag_if (sign_change previous (fst arrival)) SIGN_CHANGE_LIMITED)"

definition gov_update :: "governor_inputs \<Rightarrow> output_governor \<Rightarrow> governor_result \<times> output_governor" where
  "gov_update i g =
     (if \<not> gi_active i then
        (\<lparr>gr_output_torque = 0, gr_active = False, gr_reason = 0, gr_cap = 1, gr_floor = 0, gr_diagnostics = no_diagnostics,
          gr_pre_slew_target = 0\<rparr>, og_reset g)
      else case gi_floats i of
        None \<Rightarrow>
          (\<lparr>gr_output_torque = 0, gr_active = True, gr_reason = reason_code [INVALID], gr_cap = 1, gr_floor = 0,
            gr_diagnostics = no_diagnostics, gr_pre_slew_target = 0\<rparr>, og_reset g)
      | Some f \<Rightarrow>
          if gf_max_output f \<le> 0 then
            (\<lparr>gr_output_torque = 0, gr_active = True, gr_reason = reason_code [INVALID], gr_cap = 1, gr_floor = 0,
              gr_diagnostics = no_diagnostics, gr_pre_slew_target = 0\<rparr>, og_reset g)
          else
            (let previous = og_previous_output g;
                 clipped = fst (gov_arrival i f (gov_clipped i f));
                 output = rate_limited (og_dt g) (og_slew_rate_scale g) i f previous clipped;
                 pre_slew_target = (if decreases_same_direction previous clipped \<or> \<not> sign_change previous clipped then clipped else 0);
                 reasons = gov_reasons i f previous @ flag_if (\<bar>output - clipped\<bar> > 1 / 10 ^ 6) SLEW_LIMITED
             in (\<lparr>gr_output_torque = output,
                   gr_active = (\<bar>output - gf_nominal_torque f\<bar> > 1 / 10 ^ 6 \<or> reasons \<noteq> []),
                   gr_reason = reason_code reasons, gr_cap = cap_eff i f, gr_floor = gov_floor i f,
                   gr_diagnostics = gov_diagnostics i f, gr_pre_slew_target = pre_slew_target\<rparr>,
                 g\<lparr>og_previous_output := output\<rparr>)))"



subsection \<open>Ranges of the helpers\<close>

lemma sign_iff [simp]:
  "sign x = 0 \<longleftrightarrow> x = 0" "sign x = 1 \<longleftrightarrow> 0 < x" "sign x = -1 \<longleftrightarrow> x < 0" "sign 0 = 0"
  by (auto simp: sign_def)

lemma sign_eq_cases: "sign x = sign y \<longleftrightarrow> (0 < x \<and> 0 < y) \<or> (x < 0 \<and> y < 0) \<or> (x = 0 \<and> y = 0)"
  by (auto simp: sign_def)

lemma limit_bounds: "lower \<le> upper \<Longrightarrow> lower \<le> limit v lower upper \<and> limit v lower upper \<le> upper"
  by (auto simp: limit_def)

lemma limit01: "0 \<le> limit v 0 1" "limit v 0 1 \<le> 1"
  using limit_bounds [of 0 1 v] by simp_all

lemma blend_range:
  fixes t a :: real
  assumes "0 \<le> t" "t \<le> 1" "a \<le> 1"
  shows "a \<le> 1 + t * (a - 1)" "1 + t * (a - 1) \<le> 1"
proof -
  have "t * (1 - a) \<le> 1 * (1 - a)" using assms by (intro mult_right_mono) auto
  moreover have "0 \<le> t * (1 - a)" using assms by simp
  ultimately show "a \<le> 1 + t * (a - 1)" "1 + t * (a - 1) \<le> 1" by (simp_all add: algebra_simps)
qed

lemma blend_in:
  fixes t a lo :: real
  assumes "lo \<le> a" "a \<le> 1" "0 \<le> t" "t \<le> 1"
  shows "lo \<le> 1 + t * (a - 1) \<and> 1 + t * (a - 1) \<le> 1"
  using blend_range [OF assms(3,4,2)] assms(1) by linarith

lemma between:
  fixes t a b :: real
  assumes "0 \<le> t" "t \<le> 1"
  shows "min a b \<le> a + t * (b - a)" "a + t * (b - a) \<le> max a b"
proof -
  have "a + t * (b - a) = (1 - t) * a + t * b" by (simp add: algebra_simps)
  moreover have "(1 - t) * min a b \<le> (1 - t) * a" "t * min a b \<le> t * b" "(1 - t) * a \<le> (1 - t) * max a b" "t * b \<le> t * max a b"
    using assms by (auto intro!: mult_left_mono)
  moreover have "(1 - t) * min a b + t * min a b = min a b" "(1 - t) * max a b + t * max a b = max a b" by (simp_all add: algebra_simps)
  ultimately show "min a b \<le> a + t * (b - a)" "a + t * (b - a) \<le> max a b" by linarith+
qed

lemma interp_bounds:
  assumes len: "length fp = length xp" "xp \<noteq> []" and range: "\<And>y. y \<in> set fp \<Longrightarrow> lo \<le> y \<and> y \<le> hi"
  shows "lo \<le> interp x xp fp \<and> interp x xp fp \<le> hi"
proof -
  have nth: "k < length xp \<Longrightarrow> lo \<le> fp ! k \<and> fp ! k \<le> hi" for k using range len by simp
  consider "x \<le> xp ! 0" | "\<not> x \<le> xp ! 0" "x \<ge> last xp" | (mid) "\<not> x \<le> xp ! 0" "\<not> x \<ge> last xp" by blast
  then show ?thesis
  proof cases
    case 1
    then show ?thesis using nth [of 0] len by (simp add: interp_def)
  next
    case 2
    moreover have "fp \<noteq> []" using len by auto
    ultimately show ?thesis using range [OF last_in_set] by (simp add: interp_def)
  next
    case mid
    define n where "n = length (takeWhile (\<lambda>p. p \<le> x) xp)"
    have n1: "n < length xp"
      unfolding n_def by (metis len(2) length_takeWhile_le last_in_set le_neq_implies_less mid(2) takeWhile_eq_all_conv takeWhile_eq_take take_all_iff)
    have "0 < n" using mid(1) len unfolding n_def by (cases xp) auto
    have lt: "x < xp ! n" using n1 nth_length_takeWhile [of "\<lambda>p. p \<le> x" xp] by (simp add: n_def)
    have "xp ! (n - 1) = takeWhile (\<lambda>p. p \<le> x) xp ! (n - 1)" using \<open>0 < n\<close> by (simp add: n_def takeWhile_nth)
    then have le: "xp ! (n - 1) \<le> x" using \<open>0 < n\<close> set_takeWhileD [of "xp ! (n - 1)" "\<lambda>p. p \<le> x" xp]
      by (metis diff_less n_def nth_mem zero_less_one)
    define t where "t = (x - xp ! (n - 1)) / (xp ! n - xp ! (n - 1))"
    have t: "0 \<le> t" "t \<le> 1" using lt le by (auto simp: t_def divide_simps)
    have "interp x xp fp = fp ! (n - 1) + t * (fp ! n - fp ! (n - 1))"
      using mid lt le \<open>0 < n\<close> by (auto simp: interp_def n_def [symmetric] Let_def t_def)
    then show ?thesis using between [OF t, of "fp ! (n - 1)" "fp ! n"] nth [of "n - 1"] nth [of n] n1 by linarith
  qed
qed

lemma slew_tables:
  "interp x OUTPUT_SLEW_RATE_BP OUTPUT_SLEW_RATE_V = 0.8"
  "interp x SIGN_CHANGE_SLEW_RATE_BP SIGN_CHANGE_SLEW_RATE_V = 1.25"
  "1.3 \<le> interp x SAME_DIRECTION_LIMIT_RATE_BP SAME_DIRECTION_LIMIT_RATE_V"
proof -
  have "0.8 \<le> interp x OUTPUT_SLEW_RATE_BP OUTPUT_SLEW_RATE_V \<and> interp x OUTPUT_SLEW_RATE_BP OUTPUT_SLEW_RATE_V \<le> 0.8"
    by (rule interp_bounds) (auto simp: OUTPUT_SLEW_RATE_BP_def OUTPUT_SLEW_RATE_V_def)
  then show "interp x OUTPUT_SLEW_RATE_BP OUTPUT_SLEW_RATE_V = 0.8" by linarith
  have "1.25 \<le> interp x SIGN_CHANGE_SLEW_RATE_BP SIGN_CHANGE_SLEW_RATE_V \<and> interp x SIGN_CHANGE_SLEW_RATE_BP SIGN_CHANGE_SLEW_RATE_V \<le> 1.25"
    by (rule interp_bounds) (auto simp: SIGN_CHANGE_SLEW_RATE_BP_def SIGN_CHANGE_SLEW_RATE_V_def)
  then show "interp x SIGN_CHANGE_SLEW_RATE_BP SIGN_CHANGE_SLEW_RATE_V = 1.25" by linarith
  have "1.3 \<le> interp x SAME_DIRECTION_LIMIT_RATE_BP SAME_DIRECTION_LIMIT_RATE_V \<and> interp x SAME_DIRECTION_LIMIT_RATE_BP SAME_DIRECTION_LIMIT_RATE_V \<le> 3.6"
    by (rule interp_bounds) (auto simp: SAME_DIRECTION_LIMIT_RATE_BP_def SAME_DIRECTION_LIMIT_RATE_V_def)
  then show "1.3 \<le> interp x SAME_DIRECTION_LIMIT_RATE_BP SAME_DIRECTION_LIMIT_RATE_V" by simp
qed

lemma over_response_range: "0.3 \<le> over_response_scale f" "over_response_scale f \<le> 1"
  using blend_range [of "limit x 0 1" "OVER_RESPONSE_MIN_SCALE" for x]
  by (auto simp: over_response_scale_def Let_def OVER_RESPONSE_MIN_SCALE_def limit01)

lemma over_turn_frac_range:
  "0.1 \<le> 1 + limit x 0 1 * ((if b then OVER_TURN_REVERSAL_FRAC else OVER_TURN_MAX_OPPOSITE_FRAC) - 1)"
  "1 + limit x 0 1 * ((if b then OVER_TURN_REVERSAL_FRAC else OVER_TURN_MAX_OPPOSITE_FRAC) - 1) \<le> 1"
proof -
  have "0.1 \<le> (if b then OVER_TURN_REVERSAL_FRAC else OVER_TURN_MAX_OPPOSITE_FRAC)" "(if b then OVER_TURN_REVERSAL_FRAC else OVER_TURN_MAX_OPPOSITE_FRAC) \<le> 1"
    by (simp_all add: OVER_TURN_REVERSAL_FRAC_def OVER_TURN_MAX_OPPOSITE_FRAC_def)
  then show "0.1 \<le> 1 + limit x 0 1 * ((if b then OVER_TURN_REVERSAL_FRAC else OVER_TURN_MAX_OPPOSITE_FRAC) - 1)"
    "1 + limit x 0 1 * ((if b then OVER_TURN_REVERSAL_FRAC else OVER_TURN_MAX_OPPOSITE_FRAC) - 1) \<le> 1"
    using blend_range [OF limit01, of "if b then OVER_TURN_REVERSAL_FRAC else OVER_TURN_MAX_OPPOSITE_FRAC" x] by linarith+
qed

lemma over_turn_fade_range:
  assumes "0.1 \<le> a" "a \<le> 1" "\<not> v \<le> OVER_TURN_MAX_SPEED" "\<not> OVER_TURN_FADE_SPEED \<le> v"
  shows "0.1 \<le> 1 + (OVER_TURN_FADE_SPEED - v) / max (OVER_TURN_FADE_SPEED - OVER_TURN_MAX_SPEED) (1 / 1000) * (a - 1)"
    "1 + (OVER_TURN_FADE_SPEED - v) / max (OVER_TURN_FADE_SPEED - OVER_TURN_MAX_SPEED) (1 / 1000) * (a - 1) \<le> 1"
proof -
  have "0 \<le> (OVER_TURN_FADE_SPEED - v) / max (OVER_TURN_FADE_SPEED - OVER_TURN_MAX_SPEED) (1 / 1000)"
    "(OVER_TURN_FADE_SPEED - v) / max (OVER_TURN_FADE_SPEED - OVER_TURN_MAX_SPEED) (1 / 1000) \<le> 1"
    using assms(3,4) by (simp_all add: OVER_TURN_FADE_SPEED_def OVER_TURN_MAX_SPEED_def)
  from blend_range [OF this assms(2)] assms(1)
  show "0.1 \<le> 1 + (OVER_TURN_FADE_SPEED - v) / max (OVER_TURN_FADE_SPEED - OVER_TURN_MAX_SPEED) (1 / 1000) * (a - 1)"
    "1 + (OVER_TURN_FADE_SPEED - v) / max (OVER_TURN_FADE_SPEED - OVER_TURN_MAX_SPEED) (1 / 1000) * (a - 1) \<le> 1"
    by linarith+
qed

lemma if_chain:
  fixes x y lo :: real
  assumes "lo \<le> x \<and> x \<le> 1" "\<not> d \<Longrightarrow> \<not> a \<Longrightarrow> lo \<le> y \<and> y \<le> 1" "lo \<le> 1"
  shows "lo \<le> (if a then 1 else if b then 1 else if c then 1 else if d then x else y) \<and>
    (if a then 1 else if b then 1 else if c then 1 else if d then x else y) \<le> 1"
  using assms by simp

lemma over_turn_range: "0.1 \<le> over_turn_cap_frac f r" "over_turn_cap_frac f r \<le> 1"
proof -
  have "0.1 \<le> over_turn_cap_frac f r \<and> over_turn_cap_frac f r \<le> 1"
    unfolding over_turn_cap_frac_def Let_def
  proof (rule if_chain, goal_cases)
    case 1
    show ?case by (intro conjI over_turn_frac_range)
  next
    case 2
    show ?case by (intro conjI over_turn_fade_range over_turn_frac_range) (rule 2)+
  qed simp
  then show "0.1 \<le> over_turn_cap_frac f r" "over_turn_cap_frac f r \<le> 1" by simp_all
qed

lemma iso_cap_range: "0.8 \<le> iso_cap f" "iso_cap f \<le> 1"
  by (simp_all add: iso_cap_def NEAR_ISO_ACCEL_CAP_def OVER_ISO_ACCEL_CAP_def Let_def)

lemma blends01:
  "0 \<le> under_response_floor f" "under_response_floor f \<le> 1" "0 \<le> high_rate_blend f" "high_rate_blend f \<le> 1"
  "0 \<le> steering_rate_comfort_blend f b" "steering_rate_comfort_blend f b \<le> 1"
  unfolding under_response_floor_def high_rate_blend_def steering_rate_comfort_blend_def
  by (auto intro: limit01)

lemma cap_without_sign_conflict_range: "0.1 \<le> cap_without_sign_conflict i f" "cap_without_sign_conflict i f \<le> 1"
proof -
  let ?in = "\<lambda>c::real. 0.1 \<le> c \<and> c \<le> 1"
  have keep: "?in c \<Longrightarrow> ?in d \<Longrightarrow> ?in (if b then min c d else c)" for b c d by (simp add: min_def)
  have "?in (1 + steering_rate_comfort_blend f (gi_release_active i) * (STEERING_RATE_COMFORT_MIN_CAP - 1))"
    by (rule blend_in [OF _ _ blends01(5,6)]) (simp_all add: STEERING_RATE_COMFORT_MIN_CAP_def)
  moreover have "?in (1 + high_rate_blend f * (HIGH_RATE_MIN_CAP - 1))"
    by (rule blend_in [OF _ _ blends01(3,4)]) (simp_all add: HIGH_RATE_MIN_CAP_def)
  moreover have "?in SAME_DIRECTION_LIMIT_CAP" by (simp add: SAME_DIRECTION_LIMIT_CAP_def)
  moreover have "?in (over_response_scale f)" "?in (over_turn_cap_frac f (gi_lateral_accel_error_rate i))"
    using over_response_range [of f] over_turn_range [of f "gi_lateral_accel_error_rate i"] by linarith+
  moreover have "?in 1" by simp
  ultimately have "?in (cap_without_sign_conflict i f)"
    unfolding cap_without_sign_conflict_def Let_def by (intro keep)
  then show "0.1 \<le> cap_without_sign_conflict i f" "cap_without_sign_conflict i f \<le> 1" by blast+
qed

lemma gov_cap_range: "0.1 \<le> gov_cap i f" "gov_cap i f \<le> 1" "gi_release_active i \<Longrightarrow> gov_cap i f \<le> 0.8"
  using cap_without_sign_conflict_range [of i f] iso_cap_range [of f]
  by (auto simp: gov_cap_def Let_def SIGN_CONFLICT_CAP_def OVERRIDE_RELEASE_CAP_def)

lemma gov_floor_range: "0 \<le> gov_floor i f" "gov_floor i f \<le> 1" "common_guards i f \<Longrightarrow> gov_floor i f = 0"
  using blends01(1,2) [of f] by (auto simp: gov_floor_def floor_guarded_def)

lemma cap_eff_range: "0.1 \<le> cap_eff i f" "cap_eff i f \<le> 1" "gi_release_active i \<Longrightarrow> cap_eff i f \<le> 0.8"
proof -
  have "cap_eff i f = 1 + (1 - gov_floor i f) * (gov_cap i f - 1)" by (simp add: cap_eff_def algebra_simps)
  then show "0.1 \<le> cap_eff i f" "cap_eff i f \<le> 1"
    using blend_range [of "1 - gov_floor i f" "gov_cap i f"] gov_cap_range [of i f] gov_floor_range [of i f] by auto
  show "cap_eff i f \<le> 0.8" if "gi_release_active i"
    using gov_floor_range(3) [of i f] gov_cap_range(3) [OF that] that by (simp add: cap_eff_def common_guards_def)
qed



subsection \<open>The clipped target\<close>

lemma limit_sym:
  assumes "0 \<le> c"
  shows "\<bar>limit v (- c) c\<bar> \<le> c" "\<bar>limit v (- c) c\<bar> \<le> \<bar>v\<bar>" "0 \<le> v \<Longrightarrow> 0 \<le> limit v (- c) c" "v \<le> 0 \<Longrightarrow> limit v (- c) c \<le> 0"
  using assms by (auto simp: limit_def)

text \<open>\<open>weaker c n\<close>: the value \<open>c\<close> is \<open>n\<close> moved towards zero, at most to zero.\<close>

definition weaker :: "real \<Rightarrow> real \<Rightarrow> bool" where
  "weaker c n \<longleftrightarrow> (0 \<le> n \<longrightarrow> 0 \<le> c \<and> c \<le> n) \<and> (n \<le> 0 \<longrightarrow> n \<le> c \<and> c \<le> 0)"

lemma weaker_abs: "weaker c n \<Longrightarrow> \<bar>c\<bar> \<le> \<bar>n\<bar>"
  by (cases "0 \<le> n") (auto simp: weaker_def)

lemma weaker_refl [simp]: "weaker c c"
  by (simp add: weaker_def)

lemma weaker_trans: "weaker a b \<Longrightarrow> weaker b c \<Longrightarrow> weaker a c"
  unfolding weaker_def by (cases "0 \<le> c") auto

lemma weaker_scaled: "0 \<le> t \<Longrightarrow> t \<le> 1 \<Longrightarrow> weaker (n * t) n"
  using mult_left_le [of t n] mult_left_le [of t "- n"] by (auto simp: weaker_def mult_nonpos_nonneg)

lemma weaker_limit: "0 \<le> c \<Longrightarrow> weaker (limit v (- c) c) v"
  by (auto simp: weaker_def limit_def)

lemma gov_clipped_weaker:
  assumes "0 < gf_max_output f"
  shows "weaker (gov_clipped i f) (gf_nominal_torque f)" "\<bar>gov_clipped i f\<bar> \<le> cap_eff i f * gf_max_output f"
proof -
  have c: "0 \<le> cap_eff i f * gf_max_output f" using assms cap_eff_range(1) [of i f] by simp
  show "weaker (gov_clipped i f) (gf_nominal_torque f)"
    using weaker_limit [OF c] weaker_scaled [of "over_response_scale f" "gf_nominal_torque f"] over_response_range [of f]
    by (auto simp: gov_clipped_def Let_def)
  show "\<bar>gov_clipped i f\<bar> \<le> cap_eff i f * gf_max_output f"
    unfolding gov_clipped_def Let_def using limit_sym(1) [OF c, of "gf_nominal_torque f"] by (auto split: if_split)
qed

lemma smoothstep: "0 \<le> x \<Longrightarrow> x \<le> 1 \<Longrightarrow> 0 \<le> x * x * (3 - 2 * x) \<and> x * x * (3 - 2 * x) \<le> (1 :: real)"
proof
  assume x: "0 \<le> x" "x \<le> 1"
  then show "0 \<le> x * x * (3 - 2 * x)" by simp
  have "0 \<le> (1 - x)\<^sup>2 * (1 + 2 * x)" using x by simp
  then show "x * x * (3 - 2 * x) \<le> 1" by (simp add: power2_eq_square algebra_simps)
qed

lemma blend_weaker:
  fixes b c h :: real
  assumes "0 \<le> b" "b \<le> 1" "sign h = 0 \<or> sign h = sign c" "\<bar>h\<bar> < \<bar>c\<bar>"
  shows "weaker (c + b * (h - c)) c"
proof -
  have "weaker h c" using assms(3,4) by (auto simp: weaker_def sign_eq_cases)
  then show ?thesis using between [OF assms(1,2), of c h] by (cases "0 \<le> c") (auto simp: weaker_def)
qed

lemma gov_arrival_weaker: "weaker (fst (gov_arrival i f c)) c"
  unfolding gov_arrival_def Let_def
  by (auto split: option.split intro!: blend_weaker smoothstep [THEN conjunct1] smoothstep [THEN conjunct2] limit01)

text \<open>The target of the rate limit.\<close>

definition gov_target :: "governor_inputs \<Rightarrow> governor_floats \<Rightarrow> real" where
  "gov_target i f = fst (gov_arrival i f (gov_clipped i f))"

lemma gov_target_range:
  assumes "0 < gf_max_output f"
  shows "weaker (gov_target i f) (gf_nominal_torque f)" "\<bar>gov_target i f\<bar> \<le> cap_eff i f * gf_max_output f"
    "\<bar>gov_target i f\<bar> \<le> gf_max_output f"
proof -
  show "weaker (gov_target i f) (gf_nominal_torque f)"
    unfolding gov_target_def by (rule weaker_trans [OF gov_arrival_weaker gov_clipped_weaker(1) [OF assms]])
  show c: "\<bar>gov_target i f\<bar> \<le> cap_eff i f * gf_max_output f"
    using weaker_abs [OF gov_arrival_weaker, of i f "gov_clipped i f"] gov_clipped_weaker(2) [OF assms, of i] by (simp add: gov_target_def)
  have "cap_eff i f * gf_max_output f \<le> 1 * gf_max_output f" using assms cap_eff_range(2) by (intro mult_right_mono) auto
  with c show "\<bar>gov_target i f\<bar> \<le> gf_max_output f" by simp
qed


subsection \<open>The rate limit\<close>

lemma slew_rate_range:
  assumes "0 \<le> s"
  shows "0 \<le> slew_rate s i f False" "slew_rate s i f False \<le> 0.8 * s" "0.65 \<le> slew_rate s i f True" "slew_rate s i f True \<le> 1.25"
proof -
  define a where "a = (if steering_rate_comfort_blend f (gi_release_active i) > 0
    then 1 + steering_rate_comfort_blend f (gi_release_active i) * (STEERING_RATE_COMFORT_MIN_SLEW_SCALE - 1) else 1)"
  define b where "b = (if high_rate_blend f > 0 then HIGH_RATE_SLEW_SCALE else 1)"
  have a: "0.75 \<le> a" "a \<le> 1" unfolding a_def
    using blend_range [OF blends01(5,6), of STEERING_RATE_COMFORT_MIN_SLEW_SCALE f "gi_release_active i"]
    unfolding STEERING_RATE_COMFORT_MIN_SLEW_SCALE_def by (simp_all split: if_split)
  have b: "0.7 \<le> b" "b \<le> 1" by (simp_all add: b_def HIGH_RATE_SLEW_SCALE_def)
  have "0.75 * 0.7 \<le> a * b" "a * b \<le> 1 * 1" using a b by (intro mult_mono; simp)+
  then have ab: "0.525 \<le> a * b" "a * b \<le> 1" by simp_all
  have rate: "slew_rate s i f change = (if gi_same_direction_limit i
      then min ((if change then 1.25 else 0.8 * s) * a * b) (interp (gf_v_ego f) SAME_DIRECTION_LIMIT_RATE_BP SAME_DIRECTION_LIMIT_RATE_V)
      else (if change then 1.25 else 0.8 * s) * a * b)" for change
    unfolding slew_rate_def Let_def slew_tables a_def b_def by simp
  have lim: "1.3 \<le> interp (gf_v_ego f) SAME_DIRECTION_LIMIT_RATE_BP SAME_DIRECTION_LIMIT_RATE_V" by (rule slew_tables(3))
  have "0 \<le> a * b" using a b by (intro mult_nonneg_nonneg) simp_all
  then have "0.8 * s * (a * b) \<le> 0.8 * s" "0 \<le> 0.8 * s * (a * b)"
    using mult_left_le [of "a * b" "0.8 * s"] ab(2) assms by simp_all
  moreover have "0.65 \<le> 1.25 * (a * b)" "1.25 * (a * b) \<le> 1.25" using ab by simp_all
  moreover have "0.65 \<le> interp (gf_v_ego f) SAME_DIRECTION_LIMIT_RATE_BP SAME_DIRECTION_LIMIT_RATE_V"
    "0 \<le> interp (gf_v_ego f) SAME_DIRECTION_LIMIT_RATE_BP SAME_DIRECTION_LIMIT_RATE_V" using lim by simp_all
  moreover have low: "lo \<le> (if gi_same_direction_limit i then min u x else u)" if "lo \<le> u" "lo \<le> x" for lo u x :: real
    using that by simp
  moreover have up: "(if gi_same_direction_limit i then min u x else u) \<le> hi" if "u \<le> hi" for hi u x :: real
    using that by (simp add: min_le_iff_disj)
  ultimately show "0 \<le> slew_rate s i f False" "slew_rate s i f False \<le> 0.8 * s" "0.65 \<le> slew_rate s i f True" "slew_rate s i f True \<le> 1.25"
    using lim unfolding rate by (auto simp only: mult.assoc if_True if_False intro!: low up)
qed


lemma approach_range:
  assumes "0 \<le> r"
  shows "min v t \<le> approach v t r" "approach v t r \<le> max v t" "v - r \<le> approach v t r" "approach v t r \<le> v + r"
    "\<bar>approach v 0 r\<bar> \<le> max 0 (\<bar>v\<bar> - r)"
  using assms by (auto simp: approach_def min_def max_def abs_if)

lemma rate_limited_facts:
  fixes dt s i f p c
  assumes "0 < dt" "0 \<le> s"
  defines "out \<equiv> rate_limited dt s i f p c"
  shows "0 \<le> p \<and> 0 \<le> out \<or> p \<le> 0 \<and> out \<le> 0" "\<bar>out\<bar> \<le> max \<bar>p\<bar> \<bar>c\<bar>" "\<bar>out\<bar> \<le> \<bar>p\<bar> + 0.8 * s * dt"
    "fast_release i f \<or> \<bar>p\<bar> - 1.25 * dt \<le> \<bar>out\<bar>" "min (min p c) 0 \<le> out" "out \<le> max (max p c) 0"
    "fast_release i f \<Longrightarrow> \<bar>out\<bar> \<le> max \<bar>c\<bar> (\<bar>p\<bar> - 0.65 * dt)"
proof -
  define b1 b2 where "b1 = slew_rate s i f False * dt" and "b2 = slew_rate s i f True * dt"
  define q where "q = 0.8 * s * dt"
  have r: "0 \<le> b1" "b1 \<le> q" "0.65 * dt \<le> b2" "b2 \<le> 1.25 * dt"
    using slew_rate_range [OF assms(2), of i f] assms(1) by (simp_all add: b1_def b2_def q_def mult_right_mono)
  have sdt: "0 \<le> q" using assms by (simp add: q_def)
  consider (fast) "decreases_same_direction p c" "fast_release i f" "out = c"
    | (slow) "decreases_same_direction p c" "\<not> fast_release i f" "out = approach p c (1.25 * dt)"
    | (change) "sign_change p c" "out = approach p 0 b2"
    | (build) "\<not> decreases_same_direction p c" "\<not> sign_change p c" "out = approach p c b1"
    unfolding out_def rate_limited_def Let_def slew_tables b1_def b2_def RELEASE_SLEW_SCALE_def
    by (cases "decreases_same_direction p c"; cases "sign_change p c"; cases "fast_release i f") simp_all
  then have "(0 \<le> p \<and> 0 \<le> out \<or> p \<le> 0 \<and> out \<le> 0) \<and> \<bar>out\<bar> \<le> max \<bar>p\<bar> \<bar>c\<bar> \<and> \<bar>out\<bar> \<le> \<bar>p\<bar> + q \<and>
    (fast_release i f \<or> \<bar>p\<bar> - 1.25 * dt \<le> \<bar>out\<bar>) \<and> min (min p c) 0 \<le> out \<and> out \<le> max (max p c) 0 \<and>
    (fast_release i f \<longrightarrow> \<bar>out\<bar> \<le> max \<bar>c\<bar> (\<bar>p\<bar> - 0.65 * dt))"
  proof cases
    case fast
    then have "0 < p \<and> 0 \<le> c \<and> c \<le> p \<or> p < 0 \<and> c \<le> 0 \<and> p \<le> c" by (auto simp: decreases_same_direction_def sign_eq_cases)
    with fast sdt show ?thesis by auto
  next
    case slow
    then have "0 < p \<and> 0 \<le> c \<and> c \<le> p \<or> p < 0 \<and> c \<le> 0 \<and> p \<le> c" by (auto simp: decreases_same_direction_def sign_eq_cases)
    with approach_range(1-4) [of "1.25 * dt" p c] slow assms(1) sdt show ?thesis by auto
  next
    case change
    have "0 \<le> b2" using r(3) assms(1) by simp
    from approach_range(1-4) [OF this, of p 0] approach_range(5) [OF this, of p] change(2) r(3,4) assms(1) sdt show ?thesis by auto
  next
    case build
    then have "p = 0 \<or> 0 < p \<and> p < c \<or> p < 0 \<and> c < p"
      by (auto simp: decreases_same_direction_def sign_change_def sign_eq_cases)
    with approach_range(1-4) [OF r(1), of p c] build(3) r(2) assms(1) show ?thesis by auto
  qed
  then show "0 \<le> p \<and> 0 \<le> out \<or> p \<le> 0 \<and> out \<le> 0" "\<bar>out\<bar> \<le> max \<bar>p\<bar> \<bar>c\<bar>" "\<bar>out\<bar> \<le> \<bar>p\<bar> + 0.8 * s * dt"
    "fast_release i f \<or> \<bar>p\<bar> - 1.25 * dt \<le> \<bar>out\<bar>" "min (min p c) 0 \<le> out" "out \<le> max (max p c) 0"
    "fast_release i f \<Longrightarrow> \<bar>out\<bar> \<le> max \<bar>c\<bar> (\<bar>p\<bar> - 0.65 * dt)" unfolding q_def by blast+
qed

text \<open>The frame of a governor, and what it does with valid inputs.\<close>

definition gov_step :: "output_governor \<Rightarrow> governor_inputs \<Rightarrow> output_governor" where
  "gov_step g i = snd (gov_update i g)"

definition valid_frame :: "governor_inputs \<Rightarrow> governor_floats \<Rightarrow> bool" where
  "valid_frame i f \<longleftrightarrow> gi_active i \<and> gi_floats i = Some f \<and> 0 < gf_max_output f"

lemma gov_update_valid:
  assumes "valid_frame i f"
  shows "gr_output_torque (fst (gov_update i g)) = rate_limited (og_dt g) (og_slew_rate_scale g) i f (og_previous_output g) (gov_target i f)"
    "gov_step g i = g\<lparr>og_previous_output := gr_output_torque (fst (gov_update i g))\<rparr>"
  using assms by (simp_all add: valid_frame_def gov_update_def gov_target_def gov_step_def Let_def)

lemma gov_update_invalid:
  assumes "\<And>f. \<not> valid_frame i f"
  shows "gr_output_torque (fst (gov_update i g)) = 0" "gov_step g i = g\<lparr>og_previous_output := 0\<rparr>"
  using assms [of "the (gi_floats i)"] by (auto simp: valid_frame_def gov_update_def gov_step_def og_reset_def not_less split: option.split)

lemma gov_update_previous: "og_previous_output (gov_step g i) = gr_output_torque (fst (gov_update i g))"
  by (cases "\<exists>f. valid_frame i f") (auto simp: gov_update_valid gov_update_invalid)

text \<open>
  C36. The output of the governor never jumps up or to the other side. In every frame with valid
  inputs (a frame that is not active or not valid gives zero), whatever the previous output was, the
  new output does not have the opposite sign of the previous one, grows in magnitude by at most 0.8
  per second times \<open>slew_rate_scale\<close> (at most 1.125, which makes 0.9 per second), and never lies beyond
  both the previous output and the torque that was asked for. How fast it may fall is not part of this.
\<close>

theorem output_never_jumps:
  fixes i g f
  defines "out \<equiv> gr_output_torque (fst (gov_update i g))" and "p \<equiv> og_previous_output g"
  assumes "valid_frame i f" "0 < og_dt g" "0 \<le> og_slew_rate_scale g"
  shows "(0 \<le> p \<and> 0 \<le> out \<or> p \<le> 0 \<and> out \<le> 0) \<and> \<bar>out\<bar> \<le> \<bar>p\<bar> + 0.8 * og_slew_rate_scale g * og_dt g \<and>
    min (min p (gf_nominal_torque f)) 0 \<le> out \<and> out \<le> max (max p (gf_nominal_torque f)) 0"
proof -
  have out: "out = rate_limited (og_dt g) (og_slew_rate_scale g) i f p (gov_target i f)"
    using gov_update_valid(1) [OF assms(3)] by (simp add: out_def p_def)
  note facts = rate_limited_facts [OF assms(4,5), where i = i and f = f and p = p and c = "gov_target i f", folded out]
  have "weaker (gov_target i f) (gf_nominal_torque f)"
    using gov_target_range(1) assms(3) by (simp add: valid_frame_def)
  then have "min (min p (gf_nominal_torque f)) 0 \<le> out" "out \<le> max (max p (gf_nominal_torque f)) 0"
    using facts(5,6) by (auto simp: weaker_def)
  with facts(1,3) show ?thesis by auto
qed

text \<open>
  The code's limit on the way down: at most 1.25 per second unless the driver overrides, desired and
  actual lateral acceleration conflict, or the lateral acceleration is near its limit. The header of the
  module also exempts cuts for over-response; the code does not.
\<close>

lemma release_backstop:
  fixes i g f
  defines "out \<equiv> gr_output_torque (fst (gov_update i g))" and "p \<equiv> og_previous_output g"
  assumes "valid_frame i f" "0 < og_dt g" "0 \<le> og_slew_rate_scale g"
  shows "gi_release_active i \<or> sign_conflict f \<or> iso_cap f < 1 \<or> \<bar>p\<bar> - 1.25 * og_dt g \<le> \<bar>out\<bar>"
proof -
  have out: "out = rate_limited (og_dt g) (og_slew_rate_scale g) i f p (gov_target i f)"
    using gov_update_valid(1) [OF assms(3)] by (simp add: out_def p_def)
  from rate_limited_facts(4) [OF assms(4,5), where i = i and f = f and p = p and c = "gov_target i f", folded out]
  show ?thesis by (auto simp: fast_release_def)
qed

definition gov_inv :: "real \<Rightarrow> output_governor \<Rightarrow> bool" where
  "gov_inv M g \<longleftrightarrow> \<bar>og_previous_output g\<bar> \<le> M \<and> 0 < og_dt g \<and> 0 \<le> og_slew_rate_scale g"

definition max_output_le :: "real \<Rightarrow> governor_inputs \<Rightarrow> bool" where
  "max_output_le M i \<longleftrightarrow> (\<forall>f. gi_floats i = Some f \<longrightarrow> gf_max_output f \<le> M)"

lemma gov_step_inv:
  assumes "gov_inv M g" "max_output_le M i"
  shows "gov_inv M (gov_step g i)"
proof (cases "\<exists>f. valid_frame i f")
  case True
  then obtain f where f: "valid_frame i f" by blast
  have "\<bar>gov_target i f\<bar> \<le> M" using gov_target_range(3) [of f i] f assms(2) by (force simp: valid_frame_def max_output_le_def)
  then show ?thesis
    using assms(1) rate_limited_facts(2) [where dt = "og_dt g" and s = "og_slew_rate_scale g" and i = i and f = f and p = "og_previous_output g" and c = "gov_target i f"]
    by (simp add: gov_inv_def gov_update_valid [OF f] max_def split: if_splits)
next
  case False
  then show ?thesis using assms(1) by (auto simp: gov_inv_def gov_update_invalid)
qed

interpretation governor: frame_machine gov_step "max_output_le M" "gov_inv M" for M
  by unfold_locales (rule gov_step_inv)


lemma gov_step_config [simp]: "og_dt (gov_step g i) = og_dt g" "og_slew_rate_scale (gov_step g i) = og_slew_rate_scale g"
  by (cases "\<exists>f. valid_frame i f"; auto simp: gov_update_valid gov_update_invalid)+

text \<open>
  The output stays in range. Over every run of a governor from its constructor, with frames of
  any kind (inactive, invalid, any reason), the output of every frame is at most the largest
  \<open>max_output\<close> \<open>M\<close> of the frames in magnitude.
\<close>

theorem output_in_range:
  assumes "0 \<le> s" "0 \<le> M" "\<forall>i \<in> set (is @ [i]). max_output_le M i"
  shows "\<bar>gr_output_torque (fst (gov_update i (frames gov_step (OutputGovernor dt s) is)))\<bar> \<le> M"
proof -
  have "gov_inv M (OutputGovernor dt s)" using assms(1,2) by (simp add: gov_inv_def OutputGovernor_def)
  from governor.run_inv [OF this assms(3)] have "gov_inv M (gov_step (frames gov_step (OutputGovernor dt s) is) i)"
    by (simp add: frames_append)
  then show ?thesis by (simp add: gov_inv_def gov_update_previous)
qed

text \<open>The driver overrides: every frame is valid and has the release flag.\<close>

definition override_frame :: "real \<Rightarrow> governor_inputs \<Rightarrow> bool" where
  "override_frame M i \<longleftrightarrow> gi_release_active i \<and> (\<exists>f. valid_frame i f \<and> gf_max_output f \<le> M)"

lemma override_step:
  assumes "override_frame M i" "0 < og_dt g" "0 \<le> og_slew_rate_scale g"
  shows "\<bar>og_previous_output (gov_step g i)\<bar> \<le> max (0.8 * M) (\<bar>og_previous_output g\<bar> - 0.65 * og_dt g)"
proof -
  obtain f where f: "valid_frame i f" "gf_max_output f \<le> M" "gi_release_active i" using assms(1) by (auto simp: override_frame_def)
  have pos: "0 < gf_max_output f" using f(1) by (simp add: valid_frame_def)
  have "cap_eff i f * gf_max_output f \<le> 0.8 * M"
    using mult_mono [of "cap_eff i f" "0.8" "gf_max_output f" M] cap_eff_range(3) [OF f(3), of f] f(2) pos by simp
  then have "\<bar>gov_target i f\<bar> \<le> 0.8 * M" using gov_target_range(2) [OF pos, of i] by linarith
  moreover have "\<bar>rate_limited (og_dt g) (og_slew_rate_scale g) i f (og_previous_output g) (gov_target i f)\<bar>
      \<le> max \<bar>gov_target i f\<bar> (\<bar>og_previous_output g\<bar> - 0.65 * og_dt g)"
    by (rule rate_limited_facts(7) [OF assms(2,3)]) (simp add: fast_release_def f(3))
  ultimately show ?thesis unfolding gov_update_previous gov_update_valid(1) [OF f(1)] by linarith
qed

text \<open>
  The output yields to the driver. While the driver overrides, from any state of the governor,
  the output falls by at least 0.65 per second until it is at most 80 percent of the largest output,
  and stays there. From full output at 100 Hz this takes 31 frames.
\<close>

theorem override_yields:
  assumes "0 < og_dt g" "0 \<le> og_slew_rate_scale g" "\<forall>i \<in> set is. override_frame M i"
  shows "\<bar>og_previous_output (frames gov_step g is)\<bar> \<le> max (0.8 * M) (\<bar>og_previous_output g\<bar> - real (length is) * (0.65 * og_dt g))"
  using assms
proof (induction "is" arbitrary: g)
  case (Cons i "is")
  have "\<bar>og_previous_output (frames gov_step (gov_step g i) is)\<bar> \<le>
      max (0.8 * M) (\<bar>og_previous_output (gov_step g i)\<bar> - real (length is) * (0.65 * og_dt g))"
    using Cons.IH [of "gov_step g i"] Cons.prems by simp
  moreover have "\<bar>og_previous_output (gov_step g i)\<bar> \<le> max (0.8 * M) (\<bar>og_previous_output g\<bar> - 0.65 * og_dt g)"
    using Cons.prems by (intro override_step) simp_all
  moreover have "0 \<le> real (length is) * (0.65 * og_dt g)" using Cons.prems by simp
  moreover have "real (length (i # is)) * (0.65 * og_dt g) = 0.65 * og_dt g + real (length is) * (0.65 * og_dt g)"
    by (simp add: algebra_simps)
  ultimately show ?case unfolding frames.simps by linarith
qed simp

text \<open>The rate limit for a steer-limited car never binds, for any build scale up to 1.625.\<close>

lemma same_direction_rate_never_binds:
  assumes "0 \<le> s" "s \<le> 1.625"
  shows "slew_rate s (i\<lparr>gi_same_direction_limit := b\<rparr>) f change = slew_rate s (i\<lparr>gi_same_direction_limit := False\<rparr>) f change"
proof -
  let ?j = "i\<lparr>gi_same_direction_limit := False\<rparr>"
  have "slew_rate s ?j f change \<le> 1.3"
    using slew_rate_range(2,4) [OF assms(1), of ?j f] assms(2) by (cases change) simp_all
  then have "slew_rate s ?j f change \<le> interp (gf_v_ego f) SAME_DIRECTION_LIMIT_RATE_BP SAME_DIRECTION_LIMIT_RATE_V"
    using slew_tables(3) [of "gf_v_ego f"] by linarith
  moreover have "slew_rate s (i\<lparr>gi_same_direction_limit := b\<rparr>) f change =
      (if b then min (slew_rate s ?j f change) (interp (gf_v_ego f) SAME_DIRECTION_LIMIT_RATE_BP SAME_DIRECTION_LIMIT_RATE_V)
       else slew_rate s ?j f change)"
    by (simp add: slew_rate_def Let_def)
  ultimately show ?thesis by (simp add: min_absorb1)
qed

text \<open>An example: the driver takes over while the governor gives full output.\<close>

definition takeover_floats :: governor_floats where
  "takeover_floats = \<lparr>gf_v_ego = 20, gf_steering_rate_deg = 0, gf_nominal_torque = - 1, gf_max_output = 1,
     gf_desired_lateral_accel = 0, gf_actual_lateral_accel = 0\<rparr>"

definition takeover_frame :: governor_inputs where
  "takeover_frame = \<lparr>gi_active = True, gi_floats = Some takeover_floats, gi_same_direction_limit = False, gi_release_active = True,
     gi_path_evidence_valid = True, gi_controller_evidence_stable = True, gi_lateral_accel_error_rate = None, gi_lat_delay = None,
     gi_holding_torque = None\<rparr>"

lemma takeover_facts: "valid_frame takeover_frame takeover_floats" "max_output_le 1 takeover_frame" "override_frame 1 takeover_frame"
  by (auto simp: valid_frame_def max_output_le_def override_frame_def takeover_frame_def takeover_floats_def)

theorem output_never_jumps_witness:
  "0 \<le> gr_output_torque (fst (gov_update takeover_frame ((OutputGovernor (1 / 100) 1)\<lparr>og_previous_output := 1\<rparr>)))"
  using output_never_jumps [OF takeover_facts(1), of "(OutputGovernor (1 / 100) 1)\<lparr>og_previous_output := 1\<rparr>"]
  by (auto simp: OutputGovernor_def)

theorem output_in_range_witness:
  "\<bar>gr_output_torque (fst (gov_update takeover_frame (frames gov_step (OutputGovernor (1 / 100) 1) [takeover_frame])))\<bar> \<le> 1"
  by (rule output_in_range) (simp_all add: takeover_facts)

theorem override_yields_witness:
  "\<bar>og_previous_output (frames gov_step ((OutputGovernor (1 / 100) 1)\<lparr>og_previous_output := 1\<rparr>) (replicate 31 takeover_frame))\<bar> \<le> 8 / 10"
  using override_yields [of "(OutputGovernor (1 / 100) 1)\<lparr>og_previous_output := 1\<rparr>" "replicate 31 takeover_frame" 1]
  by (simp add: takeover_facts OutputGovernor_def)

end
