(* ===== verification/Lat_Control.thy ===== *)
theory Lat_Control
  imports Long_Control
begin

text \<open>
  The lateral controllers of \<open>selfdrive/controls/lib\<close>: the base class with its saturation timer
  (\<open>latcontrol.py\<close>), steering by torque from a PID loop (\<open>latcontrol_pid.py\<close>), by angle
  (\<open>latcontrol_angle.py\<close>) and by curvature (\<open>latcontrol_curvature.py\<close>). The vehicle model and the
  feedforward function come from \<open>opendbc\<close>; a frame carries them as functions, already applied to
  speed, roll and the live parameters. The torque controllers with their learned extensions are
  not modelled.

  The locale \<open>lateral_controller\<close> is the contract that \<open>controlsd\<close> relies on: a torque within
  \<open>[-1, 1]\<close>, none while inactive. The other lemmas are about the saturation timer: it warns after
  enough saturated frames, and never without them.
\<close>

subsection \<open>The base class\<close>

record lat_base =
  lb_dt :: real
  lb_sat_limit :: real
  lb_sat_time :: real
  lb_sat_check_min_speed :: real
  lb_steer_max :: real

definition LatControl :: "real \<Rightarrow> real \<Rightarrow> lat_base" where
  "LatControl steerLimitTimer dt = \<lparr>lb_dt = dt, lb_sat_limit = steerLimitTimer, lb_sat_time = 0, lb_sat_check_min_speed = 10, lb_steer_max = 1\<rparr>"

definition lb_reset :: "lat_base \<Rightarrow> lat_base" where
  "lb_reset b = b\<lparr>lb_sat_time := 0\<rparr>"

definition sat_counts :: "bool \<Rightarrow> car_state \<Rightarrow> bool \<Rightarrow> bool \<Rightarrow> lat_base \<Rightarrow> bool" where
  "sat_counts saturated CS steer_limited_by_safety curvature_limited b \<longleftrightarrow>
     (saturated \<or> curvature_limited) \<and> cs_vEgo CS > lb_sat_check_min_speed b \<and> \<not> steer_limited_by_safety \<and> \<not> cs_steeringPressed CS"

definition check_saturation :: "bool \<Rightarrow> car_state \<Rightarrow> bool \<Rightarrow> bool \<Rightarrow> lat_base \<Rightarrow> bool \<times> lat_base" where
  "check_saturation saturated CS steer_limited_by_safety curvature_limited b =
     (let t = (if sat_counts saturated CS steer_limited_by_safety curvature_limited b then lb_sat_time b + lb_dt b else lb_sat_time b - lb_dt b);
          b = b\<lparr>lb_sat_time := np_clip t 0 (lb_sat_limit b)\<rparr>
      in (lb_sat_time b > lb_sat_limit b - 1 / 1000, b))"

text \<open>What one call of \<open>update\<close> reads. Angles of the vehicle model are in radians.\<close>

record lat_in =
  li_active :: bool
  li_CS :: car_state
  li_steeringAngleDeg :: real
  li_steeringRateDeg :: real
  li_angleOffsetDeg :: real
  li_steer_from_curvature :: "real \<Rightarrow> real"
  li_calc_curvature :: "real \<Rightarrow> real"
  li_steer_feedforward :: "real \<Rightarrow> real"
  li_steer_limited_by_safety :: bool
  li_desired_curvature :: real
  li_curvature_limited :: bool

definition degrees :: "real \<Rightarrow> real" where "degrees x = x * 180 / pi"
definition radians :: "real \<Rightarrow> real" where "radians x = x * pi / 180"

subsection \<open>Torque from a PID loop\<close>

record lat_pid =
  lpi_base :: lat_base
  lpi_pid :: pid
  lpi_ff_factor :: real

definition LatControlPID :: "gain \<Rightarrow> gain \<Rightarrow> real \<Rightarrow> real \<Rightarrow> real \<Rightarrow> lat_pid" where
  "LatControlPID kp ki kf steerLimitTimer dt =
     (let b = LatControl steerLimitTimer dt
      in \<lparr>lpi_base = b, lpi_pid = PIDController kp ki [(0, 0)] (lb_steer_max b) (- lb_steer_max b) 100, lpi_ff_factor = kf\<rparr>)"

definition lpi_reset :: "lat_pid \<Rightarrow> lat_pid" where
  "lpi_reset s = s\<lparr>lpi_base := lb_reset (lpi_base s)\<rparr>"

record lat_pid_log =
  pl_steeringAngleDeg :: real
  pl_steeringRateDeg :: real
  pl_steeringAngleDesiredDeg :: real
  pl_angleError :: real
  pl_active :: bool
  pl_p :: real
  pl_i :: real
  pl_f :: real
  pl_output :: real
  pl_saturated :: bool

definition lpi_update :: "lat_in \<Rightarrow> lat_pid \<Rightarrow> (real \<times> real \<times> lat_pid_log) \<times> lat_pid" where
  "lpi_update x s =
     (let des_no_offset = degrees (li_steer_from_curvature x (- li_desired_curvature x));
          des = des_no_offset + li_angleOffsetDeg x;
          error = des - li_steeringAngleDeg x;
          log = \<lparr>pl_steeringAngleDeg = li_steeringAngleDeg x, pl_steeringRateDeg = li_steeringRateDeg x, pl_steeringAngleDesiredDeg = des,
                 pl_angleError = error, pl_active = False, pl_p = 0, pl_i = 0, pl_f = 0, pl_output = 0, pl_saturated = False\<rparr>
      in if \<not> li_active x then ((0, des, log), s)
         else
           (let ff = lpi_ff_factor s * li_steer_feedforward x des_no_offset;
                freeze = (li_steer_limited_by_safety x \<or> cs_steeringPressed (li_CS x) \<or> cs_vEgo (li_CS x) < 5);
                pid = pid_update error 0 (cs_vEgo (li_CS x)) ff freeze (lpi_pid s);
                output_torque = pid_control pid;
                (saturated, b) = check_saturation (lb_steer_max (lpi_base s) - \<bar>output_torque\<bar> < 1 / 1000) (li_CS x)
                                   (li_steer_limited_by_safety x) (li_curvature_limited x) (lpi_base s)
            in ((output_torque, des, log\<lparr>pl_active := True, pl_p := pid_p pid, pl_i := pid_i pid, pl_f := pid_f pid,
                                          pl_output := output_torque, pl_saturated := saturated\<rparr>),
                s\<lparr>lpi_pid := pid, lpi_base := b\<rparr>)))"

subsection \<open>Angle\<close>

definition STEER_ANGLE_SATURATION_THRESHOLD :: real where "STEER_ANGLE_SATURATION_THRESHOLD = 25 / 10"

record lat_angle =
  lan_base :: lat_base
  lan_use_steer_limited_by_safety :: bool

definition LatControlAngle :: "string \<Rightarrow> real \<Rightarrow> real \<Rightarrow> lat_angle" where
  "LatControlAngle brand steerLimitTimer dt =
     \<lparr>lan_base = (LatControl steerLimitTimer dt)\<lparr>lb_sat_check_min_speed := 5\<rparr>,
      lan_use_steer_limited_by_safety = (brand = ''tesla'' \<or> brand = ''hyundai'')\<rparr>"

definition lan_reset :: "lat_angle \<Rightarrow> lat_angle" where
  "lan_reset s = s\<lparr>lan_base := lb_reset (lan_base s)\<rparr>"

record lat_angle_log =
  al_active :: bool
  al_saturated :: bool
  al_steeringAngleDeg :: real
  al_steeringAngleDesiredDeg :: real

definition lan_update :: "lat_in \<Rightarrow> lat_angle \<Rightarrow> (real \<times> real \<times> lat_angle_log) \<times> lat_angle" where
  "lan_update x s =
     (let des = (if \<not> li_active x then li_steeringAngleDeg x
                 else degrees (li_steer_from_curvature x (- li_desired_curvature x)) + li_angleOffsetDeg x);
          angle_control_saturated =
            (if lan_use_steer_limited_by_safety s then li_steer_limited_by_safety x
             else \<bar>des - li_steeringAngleDeg x\<bar> > STEER_ANGLE_SATURATION_THRESHOLD);
          (saturated, b) = check_saturation angle_control_saturated (li_CS x) False (li_curvature_limited x) (lan_base s)
      in ((0, des, \<lparr>al_active = li_active x, al_saturated = saturated, al_steeringAngleDeg = li_steeringAngleDeg x,
                    al_steeringAngleDesiredDeg = des\<rparr>),
          s\<lparr>lan_base := b\<rparr>))"

subsection \<open>Curvature\<close>

definition CURVATURE_SATURATION_THRESHOLD :: real where "CURVATURE_SATURATION_THRESHOLD = 1 / 1000"

text \<open>\<open>None\<close> instead of a PID loop is feedforward only.\<close>

record lat_curvature =
  lcu_base :: lat_base
  lcu_pid :: "pid option"
  lcu_kf :: real

definition LatControlCurvature :: "(gain \<times> gain \<times> real) option \<Rightarrow> real \<Rightarrow> real \<Rightarrow> lat_curvature" where
  "LatControlCurvature pid_tuning steerLimitTimer dt =
     (let b = (LatControl steerLimitTimer dt)\<lparr>lb_sat_check_min_speed := 5\<rparr>
      in case pid_tuning of
           Some (kp, ki, kf) \<Rightarrow>
             \<lparr>lcu_base = b, lcu_pid = Some (PIDController kp ki [(0, 0)] MAX_CURVATURE (- MAX_CURVATURE) (1 / dt)), lcu_kf = kf\<rparr>
         | None \<Rightarrow> \<lparr>lcu_base = b, lcu_pid = None, lcu_kf = 1\<rparr>)"

definition lcu_reset :: "lat_curvature \<Rightarrow> lat_curvature" where
  "lcu_reset s = s\<lparr>lcu_base := lb_reset (lcu_base s), lcu_pid := map_option pid_reset (lcu_pid s)\<rparr>"

record lat_curvature_log =
  ul_active :: bool
  ul_error :: real
  ul_p :: real
  ul_i :: real
  ul_f :: real
  ul_actualCurvature :: real
  ul_desiredCurvature :: real
  ul_output :: real
  ul_saturated :: bool

definition lcu_update :: "lat_in \<Rightarrow> lat_curvature \<Rightarrow> (real \<times> real \<times> lat_curvature_log) \<times> lat_curvature" where
  "lcu_update x s =
     (let actual = - li_calc_curvature x (radians (li_steeringAngleDeg x - li_angleOffsetDeg x));
          error = li_desired_curvature x - actual;
          (output_curvature, pid, p, i, f) =
            (if \<not> li_active x then (0, map_option pid_reset (lcu_pid s), 0, 0, 0)
             else case lcu_pid s of
                 None \<Rightarrow> (lcu_kf s * li_desired_curvature x, None, 0, 0, 0)
               | Some pid \<Rightarrow>
                   if cs_steeringPressed (li_CS x) then (lcu_kf s * li_desired_curvature x, Some (pid_reset pid), 0, 0, 0)
                   else
                     (let pid = pid_update error 0 (cs_vEgo (li_CS x)) (lcu_kf s * li_desired_curvature x) False pid
                      in (pid_control pid, Some pid, pid_p pid, pid_i pid, pid_f pid)));
          (saturated, b) = check_saturation (\<bar>error\<bar> > CURVATURE_SATURATION_THRESHOLD) (li_CS x) False (li_curvature_limited x) (lcu_base s)
      in ((0, output_curvature,
           \<lparr>ul_active = li_active x, ul_error = error, ul_p = p, ul_i = i, ul_f = f, ul_actualCurvature = actual,
            ul_desiredCurvature = li_desired_curvature x, ul_output = output_curvature, ul_saturated = saturated\<rparr>),
          s\<lparr>lcu_pid := pid, lcu_base := b\<rparr>))"


subsection \<open>The contract of a lateral controller\<close>

locale lateral_controller =
  fixes upd :: "lat_in \<Rightarrow> 's \<Rightarrow> (real \<times> real \<times> 'l) \<times> 's"
    and rst :: "'s \<Rightarrow> 's"
    and good :: "'s \<Rightarrow> bool"
  assumes upd_good: "good s \<Longrightarrow> good (snd (upd x s))"
    and rst_good: "good s \<Longrightarrow> good (rst s)"
    and torque_bound: "good s \<Longrightarrow> \<bar>fst (fst (upd x s))\<bar> \<le> 1"
    and inactive_torque: "\<not> li_active x \<Longrightarrow> fst (fst (upd x s)) = 0"

definition lpi_good :: "lat_pid \<Rightarrow> bool" where
  "lpi_good s \<longleftrightarrow> pid_pos_limit (lpi_pid s) = 1 \<and> pid_neg_limit (lpi_pid s) = - 1"

lemma lpi_update_parts:
  "fst (fst (lpi_update x s)) =
     (if li_active x then pid_control (lpi_pid (snd (lpi_update x s))) else 0)"
  "pid_pos_limit (lpi_pid (snd (lpi_update x s))) = pid_pos_limit (lpi_pid s)"
  "pid_neg_limit (lpi_pid (snd (lpi_update x s))) = pid_neg_limit (lpi_pid s)"
  by (simp_all add: lpi_update_def Let_def split_def)

lemma lpi_update_torque:
  assumes "lpi_good s"
  shows "\<bar>fst (fst (lpi_update x s))\<bar> \<le> 1"
proof -
  have "pid_neg_limit (lpi_pid s) \<le> pid_pos_limit (lpi_pid s)" using assms by (simp add: lpi_good_def)
  then show ?thesis
    using pid_control_bounds [of "lpi_pid s"] assms by (auto simp: lpi_update_def lpi_good_def Let_def split_def abs_le_iff)
qed

interpretation pid_steering: lateral_controller lpi_update lpi_reset lpi_good
proof
  show "lpi_good (snd (lpi_update x s))" if "lpi_good s" for x s using that by (simp add: lpi_good_def lpi_update_parts)
  show "lpi_good (lpi_reset s)" if "lpi_good s" for s using that by (simp add: lpi_good_def lpi_reset_def)
  show "\<bar>fst (fst (lpi_update x s))\<bar> \<le> 1" if "lpi_good s" for x s by (rule lpi_update_torque [OF that])
  show "fst (fst (lpi_update x s)) = 0" if "\<not> li_active x" for x s using that by (simp add: lpi_update_parts)
qed

interpretation angle_steering: lateral_controller lan_update lan_reset "\<lambda>_. True"
  by unfold_locales (simp_all add: lan_update_def Let_def split_def)

interpretation curvature_steering: lateral_controller lcu_update lcu_reset "\<lambda>_. True"
  by unfold_locales (simp_all add: lcu_update_def Let_def split_def)



subsection \<open>The saturation timer\<close>

text \<open>One call of \<open>_check_saturation\<close> as a frame.\<close>

record sat_in =
  si_saturated :: bool
  si_CS :: car_state
  si_steer_limited :: bool
  si_curvature_limited :: bool

definition sat_step :: "lat_base \<Rightarrow> sat_in \<Rightarrow> lat_base" where
  "sat_step b i = snd (check_saturation (si_saturated i) (si_CS i) (si_steer_limited i) (si_curvature_limited i) b)"

definition counted :: "real \<Rightarrow> sat_in \<Rightarrow> bool" where
  "counted v i \<longleftrightarrow> (si_saturated i \<or> si_curvature_limited i) \<and> cs_vEgo (si_CS i) > v \<and> \<not> si_steer_limited i \<and> \<not> cs_steeringPressed (si_CS i)"

lemma sat_step_fields [simp]:
  "lb_dt (sat_step b i) = lb_dt b" "lb_sat_limit (sat_step b i) = lb_sat_limit b"
  "lb_sat_check_min_speed (sat_step b i) = lb_sat_check_min_speed b"
  by (simp_all add: sat_step_def check_saturation_def Let_def)

lemma sat_step_time:
  "lb_sat_time (sat_step b i) =
     np_clip (if counted (lb_sat_check_min_speed b) i then lb_sat_time b + lb_dt b else lb_sat_time b - lb_dt b) 0 (lb_sat_limit b)"
  by (simp add: sat_step_def check_saturation_def Let_def sat_counts_def counted_def)

lemma sat_frames_fields [simp]:
  "lb_dt (frames sat_step b is) = lb_dt b" "lb_sat_limit (frames sat_step b is) = lb_sat_limit b"
  "lb_sat_check_min_speed (frames sat_step b is) = lb_sat_check_min_speed b"
  by (induction "is" arbitrary: b) simp_all

lemma sat_time_le_count:
  assumes "0 < lb_dt b" "lb_sat_time b = 0"
  shows "lb_sat_time (frames sat_step b is) \<le> real (length (filter (counted (lb_sat_check_min_speed b)) is)) * lb_dt b"
proof (induction "is" rule: rev_induct)
  case (snoc i "is")
  let ?n = "real (length (filter (counted (lb_sat_check_min_speed b)) is)) * lb_dt b"
  have "0 \<le> ?n" using assms(1) by simp
  with snoc assms(1) show ?case
    by (auto simp: frames_append sat_step_time np_clip_def min_le_iff_disj algebra_simps)
qed (use assms in simp)

lemma sat_time_ge_count:
  assumes "0 < lb_dt b" "0 \<le> lb_sat_limit b" "lb_sat_time b = 0" "\<forall>i \<in> set is. counted (lb_sat_check_min_speed b) i"
  shows "min (lb_sat_limit b) (real (length is) * lb_dt b) \<le> lb_sat_time (frames sat_step b is)"
  using assms(4)
proof (induction "is" rule: rev_induct)
  case (snoc i "is")
  then have IH: "min (lb_sat_limit b) (real (length is) * lb_dt b) \<le> lb_sat_time (frames sat_step b is)" by simp
  have "real (length (is @ [i])) * lb_dt b = real (length is) * lb_dt b + lb_dt b" by (simp add: algebra_simps)
  moreover have "lb_sat_time (frames sat_step b (is @ [i])) = min (max (lb_sat_time (frames sat_step b is) + lb_dt b) 0) (lb_sat_limit b)"
    using snoc.prems by (simp add: frames_append sat_step_time np_clip_def)
  ultimately show ?case using IH assms(1,2) by linarith
qed (use assms in simp)

definition sat_warns :: "lat_base \<Rightarrow> sat_in \<Rightarrow> bool" where
  "sat_warns b i = fst (check_saturation (si_saturated i) (si_CS i) (si_steer_limited i) (si_curvature_limited i) b)"

lemma sat_warns_time: "sat_warns b i \<longleftrightarrow> lb_sat_time (sat_step b i) > lb_sat_limit b - 1 / 1000"
  by (simp add: sat_warns_def sat_step_def check_saturation_def Let_def)

text \<open>
  The saturation warning is neither early nor lost. From a reset controller, the warning in the
  last of a sequence of frames means that saturated frames, at sufficient speed and with neither a
  limit of the car nor a hand on the wheel, lasted for at least the limit but a millisecond; and when
  all frames are such frames and last for the limit, the warning is there.
\<close>

theorem saturation_warning_in_time:
  assumes "0 < lb_dt b" "0 \<le> lb_sat_limit b"
  defines "w is \<equiv> sat_warns (frames sat_step (lb_reset b) (butlast is)) (last is)"
    and "n is \<equiv> real (length (filter (counted (lb_sat_check_min_speed b)) is)) * lb_dt b"
  assumes "is \<noteq> []"
  shows "(w is \<longrightarrow> lb_sat_limit b - 1 / 1000 < n is) \<and>
    (lb_sat_limit b \<le> n is \<and> (\<forall>i \<in> set is. counted (lb_sat_check_min_speed b) i) \<longrightarrow> w is)"
proof -
  let ?b = "lb_reset b"
  have b: "lb_sat_time ?b = 0" "lb_dt ?b = lb_dt b" "lb_sat_limit ?b = lb_sat_limit b" "lb_sat_check_min_speed ?b = lb_sat_check_min_speed b"
    by (simp_all add: lb_reset_def)
  have "frames sat_step ?b is = sat_step (frames sat_step ?b (butlast is)) (last is)"
    by (subst append_butlast_last_id [OF assms(5), symmetric]) (simp only: frames_append frames.simps)
  then have w: "w is \<longleftrightarrow> lb_sat_time (frames sat_step ?b is) > lb_sat_limit b - 1 / 1000"
    unfolding w_def sat_warns_time by (simp add: b)
  have "lb_sat_time (frames sat_step ?b is) \<le> n is"
    using sat_time_le_count [of ?b "is"] assms(1) by (simp add: b n_def)
  moreover have "lb_sat_limit b \<le> n is \<Longrightarrow> \<forall>i \<in> set is. counted (lb_sat_check_min_speed b) i \<Longrightarrow>
      lb_sat_limit b \<le> lb_sat_time (frames sat_step ?b is)"
    using sat_time_ge_count [of ?b "is"] assms(1,2) by (simp add: b n_def)
  ultimately show ?thesis unfolding w by auto
qed

definition saturated_frame :: sat_in where
  "saturated_frame = \<lparr>si_saturated = True, si_CS = (car_state_default GS_drive)\<lparr>cs_vEgo := 20\<rparr>, si_steer_limited = False,
     si_curvature_limited = False\<rparr>"

theorem saturation_warning_in_time_witness:
  "sat_warns (frames sat_step (lb_reset (LatControl 1 (1 / 100))) (replicate 99 saturated_frame)) saturated_frame"
proof -
  have c: "counted (lb_sat_check_min_speed (LatControl 1 (1 / 100))) saturated_frame"
    by (simp add: counted_def saturated_frame_def car_state_default_def LatControl_def)
  have r: "butlast (replicate 100 saturated_frame) = replicate 99 saturated_frame" "last (replicate 100 saturated_frame) = saturated_frame"
    by (simp_all add: butlast_conv_take)
  show ?thesis
    using saturation_warning_in_time [of "LatControl 1 (1 / 100)" "replicate 100 saturated_frame"] c unfolding r
    by (simp add: LatControl_def)
qed

end
