(* ===== verification/Controlsd.thy ===== *)
theory Controlsd
  imports Lat_Control Lane_Change SelfdriveD
begin

text \<open>
  The process that commands the actuators, \<open>selfdrive/controls/controlsd.py\<close> with the methods of
  \<open>sunnypilot/selfdrive/controls/controlsd_ext.py\<close> it uses. Its lateral controller is an argument
  (an \<open>update\<close> and a \<open>reset\<close>), so that the model covers every controller that meets the contract
  \<open>lateral_controller\<close> of \<open>Lat_Control\<close>. Vehicle model, acceleration limits and feedforward of
  \<open>opendbc\<close> are part of the environment. The custom lateral pipeline is not modelled: what it returned
  is an input of the frame, so that the results hold whatever it returns. Poses, which are only
  copied, the extra messages and the live torque parameters are left out; numbers are finite, so
  that the replacement of NaN and infinity by zero changes nothing.

  The lemmas show that an actuator is only commanded while it may be, that the commanded
  curvature is limited also when control is handed over, and, joined to \<open>SelfdriveD\<close>, that pressing
  the brake reaches the actuators.
\<close>

datatype steer_control_type = SCT_torque | SCT_angle | SCT_curvature

record ctl_env =
  ce_CP :: car_params
  ce_CP_SP :: car_params_sp
  ce_steerControlType :: steer_control_type
  ce_steerAtStandstill :: bool
  ce_long :: long_params
  ce_pid_accel_limits :: "real \<Rightarrow> real \<Rightarrow> real \<times> real"
  ce_calc_curvature :: "real \<Rightarrow> real \<Rightarrow> real \<Rightarrow> real \<Rightarrow> real \<Rightarrow> real"
  ce_steer_from_curvature :: "real \<Rightarrow> real \<Rightarrow> real \<Rightarrow> real \<Rightarrow> real \<Rightarrow> real"
  ce_steer_feedforward :: "real \<Rightarrow> real \<Rightarrow> real"

text \<open>The parameters read when the period of \<open>get_params_sp\<close> has elapsed.\<close>

record ctl_params =
  cq_blinker_pause :: bool
  cq_is_metric :: bool
  cq_blinker_min_speed :: "real option"
  cq_blinker_delay :: "real option"
  cq_lagd_toggle :: bool
  cq_lagd_cache :: real

text \<open>
  What one frame reads. \<open>ci_live_delay\<close> is the delay of \<open>liveDelay\<close> while that service is alive and
  valid, \<open>None\<close> otherwise or when it is not a finite number; optional messages are \<open>None\<close> when they are
  not valid.
\<close>

record ctl_in =
  ci_CS :: car_state
  ci_steeringAngleDeg :: real
  ci_steeringRateDeg :: real
  ci_vCruiseCluster :: real
  ci_ss :: selfdrive_state_msg
  ci_override_longitudinal :: "bool list"
  ci_stiffnessFactor :: real
  ci_steerRatio :: real
  ci_roll :: real
  ci_angleOffsetDeg :: real
  ci_live_delay :: "real option"
  ci_lateralDelay :: real
  ci_aTarget :: real
  ci_shouldStop :: bool
  ci_hasLead :: bool
  ci_laneChangeState :: lane_change_state
  ci_laneChangeDirection :: lane_change_direction
  ci_model_curvature :: real
  ci_maneuver_curvature :: "real option"
  ci_pipeline_enabled :: bool
  ci_pipeline_curvature :: real
  ci_driverAssistance :: "(bool \<times> bool) option"
  ci_noResponseForceDecel :: bool
  ci_output_torque :: real
  ci_output_angle :: real
  ci_params :: "ctl_params option"

record 's controls =
  ct_steer_limited_by_safety :: bool
  ct_curvature :: real
  ct_desired_curvature :: real
  ct_curvature_limited :: bool
  ct_LoC :: long_control
  ct_LaC :: 's
  ct_blinker_pause :: blinker_pause
  ct_live_lat_delay_enabled :: bool
  ct_lat_delay :: real

definition Controls :: "ctl_env \<Rightarrow> 's \<Rightarrow> bool \<Rightarrow> bool \<Rightarrow> bool \<Rightarrow> real \<Rightarrow> 's controls" where
  "Controls E lac blinker_pause is_metric lagd lat_delay =
     \<lparr>ct_steer_limited_by_safety = False, ct_curvature = 0, ct_desired_curvature = 0, ct_curvature_limited = False,
      ct_LoC = LongControl (ce_long E), ct_LaC = lac, ct_blinker_pause = bp_init blinker_pause is_metric,
      ct_live_lat_delay_enabled = lagd, ct_lat_delay = lat_delay\<rparr>"

subsection \<open>Messages\<close>

record actuators =
  ac_longControlState :: long_ctrl_state
  ac_accel :: real
  ac_curvature :: real
  ac_torque :: real
  ac_steeringAngleDeg :: real

record control_msg =
  cx_enabled :: bool
  cx_latActive :: bool
  cx_longActive :: bool
  cx_leftBlinker :: bool
  cx_rightBlinker :: bool
  cx_actuators :: actuators
  cx_currentCurvature :: real
  cx_cruise_override :: bool
  cx_cruise_cancel :: bool
  cx_cruise_resume :: bool
  cx_hud_setSpeed :: real
  cx_hud_speedVisible :: bool
  cx_hud_lanesVisible :: bool
  cx_hud_leadVisible :: bool
  cx_hud_leadDistanceBars :: int
  cx_hud_visualAlert :: visual_alert
  cx_hud_leftLaneDepart :: bool
  cx_hud_rightLaneDepart :: bool
  cx_driverMonitoringEscalation :: bool

record 'l controls_state =
  cst_valid :: bool
  cst_curvature :: real
  cst_desiredCurvature :: real
  cst_longControlState :: long_ctrl_state
  cst_upAccelCmd :: real
  cst_uiAccelCmd :: real
  cst_ufAccelCmd :: real
  cst_forceDecel :: bool
  cst_lateralControlState :: 'l

subsection \<open>The control step\<close>

definition LAT_SMOOTH_SECONDS :: real where "LAT_SMOOTH_SECONDS = 0"

definition current_lateral_delay :: "ctl_in \<Rightarrow> 's controls \<Rightarrow> 's controls" where
  "current_lateral_delay i c =
     (if ct_live_lat_delay_enabled c
      then (case ci_live_delay i of Some d \<Rightarrow> (if d \<ge> 0 then c\<lparr>ct_lat_delay := d\<rparr> else c) | None \<Rightarrow> c)
      else c)"

definition get_lat_active :: "ctl_in \<Rightarrow> 's controls \<Rightarrow> bool \<times> 's controls" where
  "get_lat_active i c =
     (let (bp, pause) = bp_update (ci_CS i) (ct_blinker_pause c);
          c = c\<lparr>ct_blinker_pause := bp\<rparr>
      in (if pause then False
          else if ss_mads_available (ci_ss i) then ss_mads_active (ci_ss i)
          else ss_active (ci_ss i), c))"

definition conditioned_lateral_demand :: "ctl_in \<Rightarrow> real \<Rightarrow> real" where
  "conditioned_lateral_demand i new_desired_curvature =
     (if \<not> ci_pipeline_enabled i then new_desired_curvature
      else if ci_maneuver_curvature i \<noteq> None then new_desired_curvature
      else ci_pipeline_curvature i)"

definition lat_in_of :: "ctl_env \<Rightarrow> ctl_in \<Rightarrow> bool \<Rightarrow> 's controls \<Rightarrow> lat_in" where
  "lat_in_of E i active c =
     (let x = max (ci_stiffnessFactor i) (1 / 10); sr = max (ci_steerRatio i) (1 / 10); v = cs_vEgo (ci_CS i)
      in \<lparr>li_active = active, li_CS = ci_CS i, li_steeringAngleDeg = ci_steeringAngleDeg i, li_steeringRateDeg = ci_steeringRateDeg i,
          li_angleOffsetDeg = ci_angleOffsetDeg i,
          li_steer_from_curvature = (\<lambda>k. ce_steer_from_curvature E x sr k v (ci_roll i)),
          li_calc_curvature = (\<lambda>sa. ce_calc_curvature E x sr sa v (ci_roll i)),
          li_steer_feedforward = (\<lambda>a. ce_steer_feedforward E a v),
          li_steer_limited_by_safety = ct_steer_limited_by_safety c, li_desired_curvature = ct_desired_curvature c,
          li_curvature_limited = ct_curvature_limited c\<rparr>)"

definition lat_allowed :: "ctl_env \<Rightarrow> ctl_in \<Rightarrow> bool \<Rightarrow> bool" where
  "lat_allowed E i lat_active \<longleftrightarrow>
     (let standstill = (\<bar>cs_vEgo (ci_CS i)\<bar> \<le> max (cp_minSteerSpeed (ce_CP E)) (3 / 10) \<or> cs_standstill (ci_CS i))
      in lat_active \<and> \<not> cs_steerFaultTemporary (ci_CS i) \<and> \<not> cs_steerFaultPermanent (ci_CS i) \<and> (\<not> standstill \<or> ce_steerAtStandstill E))"

definition long_allowed :: "ctl_env \<Rightarrow> ctl_in \<Rightarrow> bool" where
  "long_allowed E i \<longleftrightarrow>
     ss_enabled (ci_ss i) \<and> True \<notin> set (ci_override_longitudinal i) \<and>
     (cp_openpilotLongitudinalControl (ce_CP E) \<or> \<not> cpsp_pcmCruiseSpeed (ce_CP_SP E))"

definition state_control ::
  "(lat_in \<Rightarrow> 's \<Rightarrow> (real \<times> real \<times> 'l) \<times> 's) \<Rightarrow> ('s \<Rightarrow> 's) \<Rightarrow> ctl_env \<Rightarrow> ctl_in \<Rightarrow> 's controls \<Rightarrow> (control_msg \<times> 'l) \<times> 's controls" where
  "state_control upd rst E i c =
     (let CS = ci_CS i;
          x = max (ci_stiffnessFactor i) (1 / 10); sr = max (ci_steerRatio i) (1 / 10);
          c = c\<lparr>ct_curvature := - ce_calc_curvature E x sr (radians (ci_steeringAngleDeg i - ci_angleOffsetDeg i)) (cs_vEgo CS) (ci_roll i)\<rparr>;
          c = current_lateral_delay i c;
          (lat_active, c) = get_lat_active i c;
          latActive = lat_allowed E i lat_active;
          longActive = long_allowed E i;
          longControlState = lc_state (ct_LoC c);
          lane_change = (ci_laneChangeState i \<noteq> LC_off);
          c = (if \<not> latActive then c\<lparr>ct_LaC := rst (ct_LaC c)\<rparr> else c);
          c = (if \<not> longActive then c\<lparr>ct_LoC := lc_reset (ct_LoC c)\<rparr> else c);
          limits = ce_pid_accel_limits E (cs_vEgo CS) (cs_vCruise CS * KPH_TO_MS);
          c = c\<lparr>ct_LoC := lc_update (ce_long E) (ce_CP_SP E) longActive CS (ci_aTarget i) (ci_shouldStop i) limits (ct_LoC c)\<rparr>;
          new_desired_curvature =
            (if \<not> latActive then ct_curvature c
             else case ci_maneuver_curvature i of Some k \<Rightarrow> k | None \<Rightarrow> ci_model_curvature i);
          new_desired_curvature = conditioned_lateral_demand i new_desired_curvature;
          (desired, limited) = clip_curvature (cs_vEgo CS) (ct_desired_curvature c) new_desired_curvature (ci_roll i);
          c = c\<lparr>ct_desired_curvature := desired, ct_curvature_limited := limited\<rparr>;
          ((steer, lateral_output, lac_log), lac) = upd (lat_in_of E i latActive c) (ct_LaC c);
          c = c\<lparr>ct_LaC := lac\<rparr>;
          curvature_steering = (ce_steerControlType E = SCT_curvature)
      in ((\<lparr>cx_enabled = ss_enabled (ci_ss i), cx_latActive = latActive, cx_longActive = longActive,
            cx_leftBlinker = (lane_change \<and> ci_laneChangeDirection i = LD_left),
            cx_rightBlinker = (lane_change \<and> ci_laneChangeDirection i = LD_right),
            cx_actuators = \<lparr>ac_longControlState = longControlState, ac_accel = lc_last_output_accel (ct_LoC c),
              ac_curvature = (if curvature_steering then lateral_output else desired), ac_torque = steer,
              ac_steeringAngleDeg = (if curvature_steering then 0 else lateral_output)\<rparr>,
            cx_currentCurvature = 0, cx_cruise_override = False, cx_cruise_cancel = False, cx_cruise_resume = False,
            cx_hud_setSpeed = 0, cx_hud_speedVisible = False, cx_hud_lanesVisible = False, cx_hud_leadVisible = False,
            cx_hud_leadDistanceBars = 0, cx_hud_visualAlert = VA_none, cx_hud_leftLaneDepart = False, cx_hud_rightLaneDepart = False,
            cx_driverMonitoringEscalation = False\<rparr>, lac_log), c))"

text \<open>\<open>publish\<close> completes the message and compares the command with what the car accepted.\<close>

definition publish :: "ctl_env \<Rightarrow> ctl_in \<Rightarrow> control_msg \<Rightarrow> 'l \<Rightarrow> 's controls \<Rightarrow> (control_msg \<times> 'l controls_state) \<times> 's controls" where
  "publish E i CC lac_log c =
     (let CS = ci_CS i;
          own_long = (cp_openpilotLongitudinalControl (ce_CP E) \<or> \<not> cpsp_pcmCruiseSpeed (ce_CP_SP E));
          forceDecel = (ci_noResponseForceDecel i \<or> ss_state (ci_ss i) = OP_softDisabling);
          CC = CC\<lparr>cx_currentCurvature := ct_curvature c,
                  cx_cruise_override := cx_enabled CC \<and> \<not> cx_longActive CC \<and> own_long,
                  cx_cruise_cancel := cr_enabled (cs_cruiseState CS) \<and> (\<not> cx_enabled CC \<or> \<not> cp_pcmCruise (ce_CP E)),
                  cx_cruise_resume := cx_enabled CC \<and> cr_standstill (cs_cruiseState CS) \<and> \<not> ci_shouldStop i,
                  cx_hud_setSpeed := ci_vCruiseCluster i * KPH_TO_MS,
                  cx_hud_speedVisible := cx_enabled CC,
                  cx_hud_lanesVisible := cx_enabled CC,
                  cx_hud_leadVisible := ci_hasLead i,
                  cx_hud_leadDistanceBars := ss_personality (ci_ss i) + 1,
                  cx_hud_visualAlert := al_visual (ss_alert (ci_ss i)),
                  cx_hud_leftLaneDepart := (case ci_driverAssistance i of Some (l, _) \<Rightarrow> l | None \<Rightarrow> False),
                  cx_hud_rightLaneDepart := (case ci_driverAssistance i of Some (_, r) \<Rightarrow> r | None \<Rightarrow> False),
                  cx_driverMonitoringEscalation := forceDecel\<rparr>;
          (lat_active, c) = get_lat_active i c;
          c = (if lat_active then
                 c\<lparr>ct_steer_limited_by_safety :=
                   (if ce_steerControlType E = SCT_angle
                    then \<bar>ac_steeringAngleDeg (cx_actuators CC) - ci_output_angle i\<bar> > STEER_ANGLE_SATURATION_THRESHOLD
                    else \<bar>ac_torque (cx_actuators CC) - ci_output_torque i\<bar> > 1 / 100)\<rparr>
               else c)
      in ((CC, \<lparr>cst_valid = cs_canValid CS, cst_curvature = ct_curvature c, cst_desiredCurvature = ct_desired_curvature c,
                cst_longControlState = lc_state (ct_LoC c), cst_upAccelCmd = pid_p (lc_pid (ct_LoC c)),
                cst_uiAccelCmd = pid_i (lc_pid (ct_LoC c)), cst_ufAccelCmd = pid_f (lc_pid (ct_LoC c)),
                cst_forceDecel = forceDecel, cst_lateralControlState = lac_log\<rparr>), c))"

definition get_params_sp :: "ctl_in \<Rightarrow> 's controls \<Rightarrow> 's controls" where
  "get_params_sp i c =
     (case ci_params i of
        None \<Rightarrow> c
      | Some q \<Rightarrow> c\<lparr>ct_blinker_pause := bp_get_params (cq_blinker_pause q) (cq_is_metric q) (cq_blinker_min_speed q) (cq_blinker_delay q)
                                         (ct_blinker_pause c),
                   ct_live_lat_delay_enabled := cq_lagd_toggle q,
                   ct_lat_delay := (if cq_lagd_toggle q then ci_lateralDelay i else cq_lagd_cache q)\<rparr>)"

text \<open>One pass of the loop in \<open>run\<close>.\<close>

definition controls_step ::
  "(lat_in \<Rightarrow> 's \<Rightarrow> (real \<times> real \<times> 'l) \<times> 's) \<Rightarrow> ('s \<Rightarrow> 's) \<Rightarrow> ctl_env \<Rightarrow> ctl_in \<Rightarrow> 's controls \<Rightarrow>
    (control_msg \<times> 'l controls_state) \<times> 's controls" where
  "controls_step upd rst E i c =
     (let ((CC, lac_log), c) = state_control upd rst E i c;
          (msgs, c) = publish E i CC lac_log c
      in (msgs, get_params_sp i c))"



subsection \<open>One frame\<close>

text \<open>The decision on lateral control that a frame takes first.\<close>

definition lat_engaged :: "ctl_in \<Rightarrow> 's controls \<Rightarrow> bool" where
  "lat_engaged i c \<longleftrightarrow>
     \<not> snd (bp_update (ci_CS i) (ct_blinker_pause c)) \<and>
     (if ss_mads_available (ci_ss i) then ss_mads_active (ci_ss i) else ss_active (ci_ss i))"

lemma get_lat_active_fst: "fst (get_lat_active i c) = lat_engaged i c"
  by (simp add: get_lat_active_def lat_engaged_def Let_def split_def)

lemma get_lat_active_snd: "snd (get_lat_active i c) = c\<lparr>ct_blinker_pause := fst (bp_update (ci_CS i) (ct_blinker_pause c))\<rparr>"
  by (simp add: get_lat_active_def Let_def split_def)

lemma current_lateral_delay_keeps [simp]:
  "ct_blinker_pause (current_lateral_delay i c) = ct_blinker_pause c" "ct_LoC (current_lateral_delay i c) = ct_LoC c"
  "ct_LaC (current_lateral_delay i c) = ct_LaC c" "ct_desired_curvature (current_lateral_delay i c) = ct_desired_curvature c"
  "ct_curvature (current_lateral_delay i c) = ct_curvature c"
  by (simp_all add: current_lateral_delay_def split: option.split)

lemma lat_engaged_cong: "ct_blinker_pause c = ct_blinker_pause d \<Longrightarrow> lat_engaged i c = lat_engaged i d"
  by (simp add: lat_engaged_def)

lemma li_active_lat_in_of [simp]: "li_active (lat_in_of E i a c) = a"
  by (simp add: lat_in_of_def Let_def)

lemma state_control_msg:
  fixes upd rst E i c
  defines "m \<equiv> fst (fst (state_control upd rst E i c))" and "lat \<equiv> lat_allowed E i (lat_engaged i c)"
  shows "cx_enabled m = ss_enabled (ci_ss i)" "cx_latActive m = lat" "cx_longActive m = long_allowed E i"
    "\<exists>lc. ac_accel (cx_actuators m) =
      lc_last_output_accel (lc_update (ce_long E) (ce_CP_SP E) (long_allowed E i) (ci_CS i) (ci_aTarget i) (ci_shouldStop i)
        (ce_pid_accel_limits E (cs_vEgo (ci_CS i)) (cs_vCruise (ci_CS i) * KPH_TO_MS)) lc)"
    "\<exists>x. ac_torque (cx_actuators m) = fst (fst (upd x (if lat then ct_LaC c else rst (ct_LaC c)))) \<and>
      ct_LaC (snd (state_control upd rst E i c)) = snd (upd x (if lat then ct_LaC c else rst (ct_LaC c))) \<and> li_active x = lat"
proof -
  have eng: "lat_engaged i (current_lateral_delay i (c\<lparr>ct_curvature := k\<rparr>)) = lat_engaged i c" for k
    by (simp add: lat_engaged_def)
  note simps = state_control_def Let_def split_def get_lat_active_fst get_lat_active_snd eng
  show "cx_enabled m = ss_enabled (ci_ss i)" "cx_latActive m = lat" "cx_longActive m = long_allowed E i"
    by (simp_all add: m_def lat_def simps)
  show "\<exists>lc. ac_accel (cx_actuators m) =
      lc_last_output_accel (lc_update (ce_long E) (ce_CP_SP E) (long_allowed E i) (ci_CS i) (ci_aTarget i) (ci_shouldStop i)
        (ce_pid_accel_limits E (cs_vEgo (ci_CS i)) (cs_vCruise (ci_CS i) * KPH_TO_MS)) lc)"
    by (rule exI) (simp add: m_def simps)
  show "\<exists>x. ac_torque (cx_actuators m) = fst (fst (upd x (if lat then ct_LaC c else rst (ct_LaC c)))) \<and>
      ct_LaC (snd (state_control upd rst E i c)) = snd (upd x (if lat then ct_LaC c else rst (ct_LaC c))) \<and> li_active x = lat"
  proof (cases lat)
    case True
    then show ?thesis
      by (simp add: m_def lat_def simps) ((intro impI conjI exI)?, (rule refl | simp)+)
  next
    case False
    then show ?thesis
      by (simp add: m_def lat_def simps) ((intro impI conjI exI)?, (rule refl | simp)+)
  qed
qed

lemma publish_keeps [simp]:
  "cx_enabled (fst (fst (publish E i m l c))) = cx_enabled m" "cx_latActive (fst (fst (publish E i m l c))) = cx_latActive m"
  "cx_longActive (fst (fst (publish E i m l c))) = cx_longActive m" "cx_actuators (fst (fst (publish E i m l c))) = cx_actuators m"
  "cx_cruise_cancel (fst (fst (publish E i m l c))) \<longleftrightarrow> cr_enabled (cs_cruiseState (ci_CS i)) \<and> (\<not> cx_enabled m \<or> \<not> cp_pcmCruise (ce_CP E))"
  by (simp_all add: publish_def Let_def split_def)

lemma publish_state [simp]:
  "ct_LaC (snd (publish E i m l c)) = ct_LaC c" "ct_LoC (snd (publish E i m l c)) = ct_LoC c"
  "ct_desired_curvature (snd (publish E i m l c)) = ct_desired_curvature c"
  "ct_blinker_pause (snd (publish E i m l c)) = fst (bp_update (ci_CS i) (ct_blinker_pause c))"
  by (simp_all add: publish_def Let_def split_def get_lat_active_snd)

lemma get_params_sp_keeps [simp]:
  "ct_LaC (get_params_sp i c) = ct_LaC c" "ct_LoC (get_params_sp i c) = ct_LoC c"
  "ct_desired_curvature (get_params_sp i c) = ct_desired_curvature c"
  "ci_params i = None \<Longrightarrow> get_params_sp i c = c"
  by (simp_all add: get_params_sp_def split: option.split)

lemma controls_step_conv:
  "controls_step upd rst E i c =
     (let s = state_control upd rst E i c; p = publish E i (fst (fst s)) (snd (fst s)) (snd s)
      in (fst p, get_params_sp i (snd p)))"
  by (simp add: controls_step_def Let_def split_def)

text \<open>The message to the car and the next state.\<close>

abbreviation (input) car_msg ::
  "(lat_in \<Rightarrow> 's \<Rightarrow> (real \<times> real \<times> 'l) \<times> 's) \<Rightarrow> ('s \<Rightarrow> 's) \<Rightarrow> ctl_env \<Rightarrow> 's controls \<Rightarrow> ctl_in \<Rightarrow> control_msg" where
  "car_msg upd rst E c i \<equiv> fst (fst (controls_step upd rst E i c))"

abbreviation (input) next_controls ::
  "(lat_in \<Rightarrow> 's \<Rightarrow> (real \<times> real \<times> 'l) \<times> 's) \<Rightarrow> ('s \<Rightarrow> 's) \<Rightarrow> ctl_env \<Rightarrow> 's controls \<Rightarrow> ctl_in \<Rightarrow> 's controls" where
  "next_controls upd rst E c i \<equiv> snd (controls_step upd rst E i c)"

lemma car_msg_fields:
  fixes upd rst E i c
  defines "m \<equiv> car_msg upd rst E c i"
  shows "cx_enabled m = ss_enabled (ci_ss i)" "cx_latActive m = lat_allowed E i (lat_engaged i c)" "cx_longActive m = long_allowed E i"
    "cx_actuators m = cx_actuators (fst (fst (state_control upd rst E i c)))"
    "cx_cruise_cancel m \<longleftrightarrow> cr_enabled (cs_cruiseState (ci_CS i)) \<and> (\<not> ss_enabled (ci_ss i) \<or> \<not> cp_pcmCruise (ce_CP E))"
  by (simp_all add: m_def controls_step_conv Let_def state_control_msg)

lemma inactive_accel:
  assumes "fst ab \<le> 0" "0 \<le> snd ab"
  shows "lc_last_output_accel (lc_update P SP False CS t st ab lc) = 0"
  using assms by (simp add: lc_update_def long_control_state_trans_def Let_def np_clip_def)

context lateral_controller
begin

lemma frame_torque:
  assumes "good (ct_LaC c)"
  shows "\<bar>ac_torque (cx_actuators (car_msg upd rst E c i))\<bar> \<le> 1"
    "\<not> cx_latActive (car_msg upd rst E c i) \<Longrightarrow> ac_torque (cx_actuators (car_msg upd rst E c i)) = 0"
    "good (ct_LaC (next_controls upd rst E c i))"
proof -
  obtain x where x: "ac_torque (cx_actuators (fst (fst (state_control upd rst E i c)))) =
       fst (fst (upd x (if lat_allowed E i (lat_engaged i c) then ct_LaC c else rst (ct_LaC c))))"
    "ct_LaC (snd (state_control upd rst E i c)) = snd (upd x (if lat_allowed E i (lat_engaged i c) then ct_LaC c else rst (ct_LaC c)))"
    "li_active x = lat_allowed E i (lat_engaged i c)"
    using state_control_msg(5) by blast
  have g: "good (if lat_allowed E i (lat_engaged i c) then ct_LaC c else rst (ct_LaC c))" using assms rst_good by simp
  show "\<bar>ac_torque (cx_actuators (car_msg upd rst E c i))\<bar> \<le> 1"
    unfolding car_msg_fields(4) x(1) by (rule torque_bound [OF g])
  show "ac_torque (cx_actuators (car_msg upd rst E c i)) = 0" if "\<not> cx_latActive (car_msg upd rst E c i)"
    using that inactive_torque [of x] unfolding car_msg_fields(2,4) x(1) x(3) [symmetric] by blast
  show "good (ct_LaC (next_controls upd rst E c i))"
    using upd_good [OF g, of x] by (simp add: controls_step_conv Let_def x(2))
qed

lemma run_good: "good (ct_LaC c) \<Longrightarrow> good (ct_LaC (frames (next_controls upd rst E) c is))"
  by (induction "is" arbitrary: c) (simp_all add: frame_torque(3))

end



subsection \<open>Properties of the process\<close>

lemma lat_allowed_engaged: "lat_allowed E i b \<Longrightarrow> b"
  by (simp add: lat_allowed_def Let_def)

text \<open>
  C4. Actuators are only commanded while they may be. In every frame, from any state and with every
  lateral controller that meets the contract: the torque is within \<open>[-1, 1]\<close> and zero unless lateral
  control is active, which needs an active MADS (or, without MADS, an active openpilot), no
  steering fault and a moving car (or one that steers at standstill); the acceleration is zero
  unless longitudinal control is active, which needs an engaged openpilot and no override event; and
  the car's cruise control is cancelled while it is on and openpilot is not engaged.
\<close>

theorem actuators_only_when_allowed:
  fixes upd rst E c i
  defines "m \<equiv> car_msg upd rst E c i"
  assumes "lateral_controller upd rst good" "good (ct_LaC c)"
    and "\<forall>v k. fst (ce_pid_accel_limits E v k) \<le> 0 \<and> 0 \<le> snd (ce_pid_accel_limits E v k)"
  shows "\<bar>ac_torque (cx_actuators m)\<bar> \<le> 1 \<and> (\<not> cx_latActive m \<longrightarrow> ac_torque (cx_actuators m) = 0) \<and>
    (cx_latActive m \<longrightarrow>
       (if ss_mads_available (ci_ss i) then ss_mads_active (ci_ss i) else ss_active (ci_ss i)) \<and>
       \<not> cs_steerFaultTemporary (ci_CS i) \<and> \<not> cs_steerFaultPermanent (ci_CS i) \<and>
       (ce_steerAtStandstill E \<or> max (cp_minSteerSpeed (ce_CP E)) (3 / 10) < \<bar>cs_vEgo (ci_CS i)\<bar> \<and> \<not> cs_standstill (ci_CS i))) \<and>
    (\<not> cx_longActive m \<longrightarrow> ac_accel (cx_actuators m) = 0) \<and>
    (cx_longActive m \<longrightarrow> ss_enabled (ci_ss i) \<and> True \<notin> set (ci_override_longitudinal i)) \<and>
    (cr_enabled (cs_cruiseState (ci_CS i)) \<and> \<not> ss_enabled (ci_ss i) \<longrightarrow> cx_cruise_cancel m)"
proof -
  have m: "cx_latActive m = lat_allowed E i (lat_engaged i c)" "cx_longActive m = long_allowed E i"
    "cx_actuators m = cx_actuators (fst (fst (state_control upd rst E i c)))"
    by (simp_all add: m_def car_msg_fields)
  have torque: "\<bar>ac_torque (cx_actuators m)\<bar> \<le> 1" "\<not> cx_latActive m \<Longrightarrow> ac_torque (cx_actuators m) = 0"
    unfolding m_def by (rule lateral_controller.frame_torque [OF assms(2,3)])+
  have "ac_accel (cx_actuators m) = 0" if "\<not> cx_longActive m"
  proof -
    obtain lc where "ac_accel (cx_actuators m) =
        lc_last_output_accel (lc_update (ce_long E) (ce_CP_SP E) (long_allowed E i) (ci_CS i) (ci_aTarget i) (ci_shouldStop i)
          (ce_pid_accel_limits E (cs_vEgo (ci_CS i)) (cs_vCruise (ci_CS i) * KPH_TO_MS)) lc)"
      unfolding m(3) using state_control_msg(4) by blast
    with that assms(4) show ?thesis unfolding m(2) by (simp add: inactive_accel)
  qed
  moreover have "cx_latActive m \<Longrightarrow> (if ss_mads_available (ci_ss i) then ss_mads_active (ci_ss i) else ss_active (ci_ss i)) \<and>
       \<not> cs_steerFaultTemporary (ci_CS i) \<and> \<not> cs_steerFaultPermanent (ci_CS i) \<and>
       (ce_steerAtStandstill E \<or> max (cp_minSteerSpeed (ce_CP E)) (3 / 10) < \<bar>cs_vEgo (ci_CS i)\<bar> \<and> \<not> cs_standstill (ci_CS i))"
    unfolding m(1) by (auto simp: lat_allowed_def lat_engaged_def Let_def)
  moreover have "cr_enabled (cs_cruiseState (ci_CS i)) \<and> \<not> ss_enabled (ci_ss i) \<Longrightarrow> cx_cruise_cancel m"
    by (simp add: m_def car_msg_fields)
  moreover have "cx_longActive m \<Longrightarrow> ss_enabled (ci_ss i) \<and> True \<notin> set (ci_override_longitudinal i)"
    unfolding m(2) by (simp add: long_allowed_def)
  ultimately show ?thesis using torque by blast
qed

text \<open>The commanded curvature over a run.\<close>

lemma next_curvature:
  "\<exists>k. ct_desired_curvature (next_controls upd rst E c i) = fst (clip_curvature (cs_vEgo (ci_CS i)) (ct_desired_curvature c) k (ci_roll i))"
proof -
  have eng: "lat_engaged i (current_lateral_delay i (c\<lparr>ct_curvature := k\<rparr>)) = lat_engaged i c" for k
    by (simp add: lat_engaged_def)
  show ?thesis
    by (rule exI [where x = "conditioned_lateral_demand i
          (if \<not> lat_allowed E i (lat_engaged i c)
           then - ce_calc_curvature E (max (ci_stiffnessFactor i) (1 / 10)) (max (ci_steerRatio i) (1 / 10))
             (radians (ci_steeringAngleDeg i - ci_angleOffsetDeg i)) (cs_vEgo (ci_CS i)) (ci_roll i)
           else case ci_maneuver_curvature i of Some k \<Rightarrow> k | None \<Rightarrow> ci_model_curvature i)"])
      (simp add: controls_step_conv Let_def state_control_def split_def get_lat_active_fst get_lat_active_snd eng)
qed

lemma clip_curvature_abs: "\<bar>fst (clip_curvature v c0 k roll)\<bar> \<le> 1 / 5"
proof -
  have "- 1 / 5 \<le> fst (clip_curvature v c0 k roll)" "fst (clip_curvature v c0 k roll) \<le> 1 / 5"
    unfolding clip_curvature_fst by (rule np_clip_bounds; simp)+
  then show ?thesis by linarith
qed

lemma run_curvature: "\<bar>ct_desired_curvature (frames (next_controls upd rst E) (Controls E lac bp im lagd d) is)\<bar> \<le> 1 / 5"
proof (cases "is" rule: rev_cases)
  case (snoc xs x)
  obtain k where "ct_desired_curvature (next_controls upd rst E (frames (next_controls upd rst E) (Controls E lac bp im lagd d) xs) x) =
      fst (clip_curvature (cs_vEgo (ci_CS x)) (ct_desired_curvature (frames (next_controls upd rst E) (Controls E lac bp im lagd d) xs)) k (ci_roll x))"
    using next_curvature by blast
  then show ?thesis
    unfolding snoc frames_append frames.simps by (simp only: clip_curvature_abs)
qed (simp add: Controls_def)

text \<open>
  C16. The desired curvature that \<open>controlsd\<close> keeps from frame to frame, the demand of its lateral
  controllers, is limited over every run of the process, with any lateral controller, any custom
  pipeline, and any handing over between driver, model and manoeuvre. In the frame after any run it is
  at most 0.2 1/m. On a road banked so little that standing straight is within the limits (the
  part of the bank at most 3 m/s^2), its lateral acceleration without the part of the bank is within
  3 m/s^2, and if this held for the previous demand at the new speed, it moved by at most the jerk
  limit of 5 m/s^3. On cars steered by curvature the actuators carry the output of the controller
  instead of the demand.
\<close>

theorem commanded_curvature_limited:
  fixes upd rst E lac bp im lagd d "is" i
  defines "c \<equiv> frames (next_controls upd rst E) (Controls E lac bp im lagd d) is"
  defines "k0 \<equiv> ct_desired_curvature c" and "k \<equiv> ct_desired_curvature (next_controls upd rst E c i)"
    and "w \<equiv> (max (cs_vEgo (ci_CS i)) 1)\<^sup>2" and "bank \<equiv> ci_roll i * (981 / 100)"
  shows "\<bar>k\<bar> \<le> 1 / 5 \<and>
    (\<bar>bank\<bar> \<le> 3 \<longrightarrow> \<bar>k * w - bank\<bar> \<le> 3 \<and> (\<bar>k0 * w - bank\<bar> \<le> 3 \<longrightarrow> \<bar>k - k0\<bar> * w \<le> 5 * DT_CTRL))"
proof -
  obtain x where x: "k = fst (clip_curvature (cs_vEgo (ci_CS i)) k0 x (ci_roll i))"
    unfolding k_def k0_def using next_curvature by blast
  have "\<bar>k\<bar> \<le> 1 / 5" unfolding x by (rule clip_curvature_abs)
  moreover have "\<bar>k0\<bar> \<le> 1 / 5" unfolding k0_def c_def by (rule run_curvature)
  ultimately show ?thesis
    using clip_curvature_safe [of "ci_roll i" "cs_vEgo (ci_CS i)" k0 x] unfolding x w_def bank_def Let_def by blast
qed


subsection \<open>From the brake to the actuators\<close>

text \<open>What \<open>selfdrived\<close> publishes at the end of a frame, with whatever alert.\<close>

definition published :: "env \<Rightarrow> sm_in \<Rightarrow> sdd \<Rightarrow> alert_manager \<Rightarrow> selfdrive_state_msg" where
  "published S j s am =
     (let t = (snd (step_controls S j s))\<lparr>sdd_AM := am\<rparr> in publish_selfdriveState (sdd_config t) t)"

lemma sdd_step_publishes: "sdd_step S j s = Inr (s', msg) \<Longrightarrow> \<exists>am. msg = published S j s am"
proof -
  let ?t = "snd (step_controls S j s)"
  assume "sdd_step S j s = Inr (s', msg)"
  then obtain u where u: "update_alerts S (sdd_config ?t) j ?t = Inr u" "msg = publish_selfdriveState (sdd_config u) u"
    by (auto simp: sdd_step_def split_def Let_def split: sum.splits)
  from update_alerts_only_AM [OF u(1)] show ?thesis unfolding u(2) published_def Let_def by metis
qed

text \<open>
  C1. Pressing the brake reaches the actuators, through both processes. In an initialised process
  \<open>selfdrived\<close> that is not in dashcam mode, a frame with a valid car state in which the brake goes
  down or is held while moving (or regenerative braking, or the accelerator if so configured)
  publishes a state with which \<open>controlsd\<close>, in any state of its own and with any other inputs,
  commands no acceleration, does not claim longitudinal control and cancels the car's cruise control
  if that is on. This is the part that holds for every pedal event; the torque is a matter of MADS.
  It is zero as well if the car is no body, the accelerator is not pressed, MADS is available, its
  toggle is on, it was active in the frame before, and its steering mode is PAUSE or DISENGAGE; the
  accelerator alone does not end the steering of MADS. The lateral controller is any with the
  contract \<open>lateral_controller\<close>, and the acceleration limits of the car contain zero.
\<close>

theorem brake_reaches_actuators:
  assumes sd: "sdd_inv S s" "sdd_initialized s" "\<not> cp_passive (env_CP S)" "cs_canValid (sample_CS j s)"
    and pedal: "pedal_event (sample_CS j s) (sdd_CS_prev s) (cf_disengage_on_accelerator (sdd_config s))"
    and msg: "ci_ss i = published S j s am"
    and lat: "lateral_controller upd rst good" "good (ct_LaC c)"
    and lims: "\<forall>v k. fst (ce_pid_accel_limits E v k) \<le> 0 \<and> 0 \<le> snd (ce_pid_accel_limits E v k)"
  shows "let m = car_msg upd rst E c i in
    \<not> cx_enabled m \<and> \<not> cx_longActive m \<and> ac_accel (cx_actuators m) = 0 \<and>
    (cr_enabled (cs_cruiseState (ci_CS i)) \<longrightarrow> cx_cruise_cancel m) \<and>
    (\<not> cp_notCar (env_CP S) \<and> \<not> cs_gasPressed (sample_CS j s) \<and> md_active (sdd_mads s) \<and> md_enabled_toggle (sdd_mads s) \<and>
     md_steering_mode_on_brake (sdd_mads s) \<in> {MODE_PAUSE, MODE_DISENGAGE} \<and> ss_mads_available (ci_ss i) \<longrightarrow>
       \<not> cx_latActive m \<and> ac_torque (cx_actuators m) = 0)"
proof -
  let ?m = "car_msg upd rst E c i"
  have ss: "ss_enabled (ci_ss i) = sdd_enabled (snd (step_controls S j s))" "ss_mads_active (ci_ss i) = md_active (sdd_mads (snd (step_controls S j s)))"
    by (simp_all add: msg published_def publish_selfdriveState_def sdd_enabled_def)
  note brake = brake_press_disengages [OF sd pedal]
  have en: "\<not> ss_enabled (ci_ss i)" using brake ss(1) by blast
  have off: "\<not> cx_enabled ?m" "\<not> cx_longActive ?m" using en by (simp_all add: car_msg_fields long_allowed_def)
  have acc: "ac_accel (cx_actuators ?m) = 0"
  proof -
    have "\<not> long_allowed E i" using off(2) by (simp add: car_msg_fields)
    moreover obtain lc where "ac_accel (cx_actuators ?m) =
        lc_last_output_accel (lc_update (ce_long E) (ce_CP_SP E) (long_allowed E i) (ci_CS i) (ci_aTarget i) (ci_shouldStop i)
          (ce_pid_accel_limits E (cs_vEgo (ci_CS i)) (cs_vCruise (ci_CS i) * KPH_TO_MS)) lc)"
      unfolding car_msg_fields(4) using state_control_msg(4) by blast
    ultimately show ?thesis using lims by (simp add: inactive_accel)
  qed
  have "cr_enabled (cs_cruiseState (ci_CS i)) \<Longrightarrow> cx_cruise_cancel ?m" using en by (simp add: car_msg_fields)
  moreover have "\<not> cx_latActive ?m \<and> ac_torque (cx_actuators ?m) = 0"
    if "\<not> cp_notCar (env_CP S) \<and> \<not> cs_gasPressed (sample_CS j s) \<and> md_active (sdd_mads s) \<and> md_enabled_toggle (sdd_mads s) \<and>
     md_steering_mode_on_brake (sdd_mads s) \<in> {MODE_PAUSE, MODE_DISENGAGE} \<and> ss_mads_available (ci_ss i)"
  proof -
    have "\<not> ss_mads_active (ci_ss i)" using brake ss(2) that by blast
    then have "\<not> lat_engaged i c" using that by (simp add: lat_engaged_def)
    then have "\<not> cx_latActive ?m" using lat_allowed_engaged by (auto simp: car_msg_fields)
    then show ?thesis using lateral_controller.frame_torque(2) [OF lat] by blast
  qed
  ultimately show ?thesis unfolding Let_def using off acc by blast
qed



subsection \<open>The pause on blinkers\<close>

text \<open>
  \<open>get_lat_active\<close> advances the timer of the pause, and a frame calls it twice: in \<open>state_control\<close> and
  in \<open>publish\<close>.
\<close>

definition blinkers_off :: "ctl_in \<Rightarrow> bool" where
  "blinkers_off i \<longleftrightarrow> \<not> one_blinker (ci_CS i) \<and> ci_params i = None"

lemma bp_update_off:
  assumes "\<not> one_blinker CS" "bp_enabled b"
  shows "bp_blinker_off_timer (fst (bp_update CS b)) = (if 0 < bp_blinker_off_timer b then bp_blinker_off_timer b - 1 / 100 else bp_blinker_off_timer b)"
    "bp_enabled (fst (bp_update CS b))" "snd (bp_update CS b) \<longleftrightarrow> 0 < bp_blinker_off_timer (fst (bp_update CS b))"
  using assms by (simp_all add: bp_update_def Let_def DT_CTRL_def)

lemma next_blinker_pause:
  assumes "blinkers_off i"
  shows "ct_blinker_pause (next_controls upd rst E c i) = fst (bp_update (ci_CS i) (fst (bp_update (ci_CS i) (ct_blinker_pause c))))"
  using assms by (simp add: blinkers_off_def controls_step_conv Let_def state_control_def split_def get_lat_active_snd)

lemma pause_timer_runs_double:
  assumes "\<forall>i \<in> set is. blinkers_off i" "bp_enabled (ct_blinker_pause c)"
  defines "t \<equiv> \<lambda>c. bp_blinker_off_timer (ct_blinker_pause c)"
  shows "bp_enabled (ct_blinker_pause (frames (next_controls upd rst E) c is)) \<and>
    t (frames (next_controls upd rst E) c is) \<le> max 0 (t c - 2 * real (length is) * (1 / 100))"
  using assms(1,2)
proof (induction "is" arbitrary: c)
  case (Cons i "is")
  let ?b = "ct_blinker_pause c" and ?d = "next_controls upd rst E c i"
  have off: "\<not> one_blinker (ci_CS i)" "blinkers_off i" using Cons.prems(1) by (simp_all add: blinkers_off_def)
  have en: "bp_enabled (ct_blinker_pause ?d)"
    unfolding next_blinker_pause [OF off(2)] using off(1) Cons.prems(2) by (simp add: bp_update_off)
  have "t ?d \<le> max 0 (t c - 2 / 100)"
    using bp_update_off [OF off(1) Cons.prems(2)] bp_update_off(1) [OF off(1) bp_update_off(2) [OF off(1) Cons.prems(2)]]
    by (auto simp: t_def next_blinker_pause [OF off(2)])
  with Cons.IH [of ?d] Cons.prems(1) en show ?case by (auto simp: algebra_simps)
qed (simp add: t_def)

text \<open>
  The delay before lateral control resumes after a blinker is half of the parameter. Once the
  blinkers are off, with the pause timer at its full delay of \<open>D\<close> seconds, lateral control is no longer
  held back after as many frames of 0.01 seconds as make up half of \<open>D\<close>: MADS (or openpilot, without
  MADS) alone decides.
\<close>

theorem lateral_resumes_after_half_the_delay:
  fixes upd rst E c "is"
  defines "c' \<equiv> frames (next_controls upd rst E) c is"
  assumes "\<forall>i \<in> set (is @ [i]). blinkers_off i" "bp_enabled (ct_blinker_pause c)"
    and "bp_blinker_off_timer (ct_blinker_pause c) = D" "D / 2 \<le> real (length is) * (1 / 100)"
  shows "lat_engaged i c' = (if ss_mads_available (ci_ss i) then ss_mads_active (ci_ss i) else ss_active (ci_ss i))"
proof -
  have "bp_enabled (ct_blinker_pause c') \<and> bp_blinker_off_timer (ct_blinker_pause c') \<le> max 0 (D - 2 * real (length is) * (1 / 100))"
    unfolding c'_def using pause_timer_runs_double [of "is" c upd rst E] assms(2-4) by simp
  then have en: "bp_enabled (ct_blinker_pause c')" and "bp_blinker_off_timer (ct_blinker_pause c') \<le> 0" using assms(5) by auto
  moreover have "\<not> one_blinker (ci_CS i)" using assms(2) by (simp add: blinkers_off_def)
  ultimately have "\<not> snd (bp_update (ci_CS i) (ct_blinker_pause c'))" using bp_update_off [OF _ en] by simp
  then show ?thesis by (simp add: lat_engaged_def)
qed


subsection \<open>Examples\<close>

definition example_ctl_env :: ctl_env where
  "example_ctl_env = \<lparr>ce_CP = example_CP, ce_CP_SP = example_CPSP, ce_steerControlType = SCT_torque, ce_steerAtStandstill = False,
     ce_long = example_long_params, ce_pid_accel_limits = (\<lambda>v k. (-4, 2)), ce_calc_curvature = (\<lambda>x sr sa v r. sa / 40),
     ce_steer_from_curvature = (\<lambda>x sr k v r. 40 * k), ce_steer_feedforward = (\<lambda>a v. a)\<rparr>"

definition example_controls :: "lat_pid controls" where
  "example_controls = Controls example_ctl_env (LatControlPID [(0, 1)] [(0, 1)] 1 1 (1 / 100)) True True False (1 / 5)"

definition example_ctl_in :: "selfdrive_state_msg \<Rightarrow> ctl_in" where
  "example_ctl_in ss = \<lparr>ci_CS = (car_state_default GS_drive)\<lparr>cs_vEgo := 20\<rparr>, ci_steeringAngleDeg = 0, ci_steeringRateDeg = 0,
     ci_vCruiseCluster = 100, ci_ss = ss, ci_override_longitudinal = [], ci_stiffnessFactor = 1, ci_steerRatio = 15, ci_roll = 0,
     ci_angleOffsetDeg = 0, ci_live_delay = None, ci_lateralDelay = 1 / 5, ci_aTarget = 1, ci_shouldStop = False, ci_hasLead = False,
     ci_laneChangeState = LC_off, ci_laneChangeDirection = LD_none, ci_model_curvature = 1 / 100, ci_maneuver_curvature = None,
     ci_pipeline_enabled = False, ci_pipeline_curvature = 0, ci_driverAssistance = None, ci_noResponseForceDecel = False,
     ci_output_torque = 0, ci_output_angle = 0, ci_params = None\<rparr>"

abbreviation (input) braked :: selfdrive_state_msg where
  "braked \<equiv> published example_env (example_in example_brake [] True) (example_sdd True) am_init"

lemma example_ctl_facts:
  "lpi_good (ct_LaC example_controls)" "\<forall>v k. fst (ce_pid_accel_limits example_ctl_env v k) \<le> 0 \<and> 0 \<le> snd (ce_pid_accel_limits example_ctl_env v k)"
  "ci_ss (example_ctl_in ss) = ss" "blinkers_off (example_ctl_in ss)" "bp_enabled (ct_blinker_pause example_controls)"
  "bp_blinker_off_timer (ct_blinker_pause example_controls) = 0" "ci_roll (example_ctl_in ss) = 0"
  by (simp_all add: example_controls_def Controls_def LatControlPID_def PIDController_def pid_reset_def pid_set_limits_def LatControl_def
      lpi_good_def example_ctl_env_def example_ctl_in_def blinkers_off_def one_blinker_def car_state_default_def bp_init_def Let_def)

theorem actuators_only_when_allowed_witness:
  "\<forall>ss. \<bar>ac_torque (cx_actuators (car_msg lpi_update lpi_reset example_ctl_env example_controls (example_ctl_in ss)))\<bar> \<le> 1"
  using actuators_only_when_allowed [OF pid_steering.lateral_controller_axioms example_ctl_facts(1,2)] by blast

theorem commanded_curvature_limited_witness:
  "\<forall>ss. \<bar>ct_desired_curvature (next_controls lpi_update lpi_reset example_ctl_env
      (frames (next_controls lpi_update lpi_reset example_ctl_env) example_controls [example_ctl_in ss]) (example_ctl_in ss))\<bar> \<le> 1 / 5"
proof
  fix ss
  show "\<bar>ct_desired_curvature (next_controls lpi_update lpi_reset example_ctl_env
      (frames (next_controls lpi_update lpi_reset example_ctl_env) example_controls [example_ctl_in ss]) (example_ctl_in ss))\<bar> \<le> 1 / 5"
    unfolding example_controls_def by (rule commanded_curvature_limited [THEN conjunct1])
qed

theorem brake_reaches_actuators_witness:
  "ac_accel (cx_actuators (car_msg lpi_update lpi_reset example_ctl_env example_controls (example_ctl_in braked))) = 0"
proof -
  have "pedal_event example_brake (car_state_default GS_drive) False" "cs_canValid example_brake"
    by (simp_all add: pedal_event_def example_brake_def car_state_default_def)
  then show ?thesis
    using brake_reaches_actuators [of example_env "example_sdd True" "example_in example_brake [] True" "example_ctl_in braked" am_init,
      OF _ _ _ _ _ _ pid_steering.lateral_controller_axioms example_ctl_facts(1,2)]
    by (simp add: Let_def example_config_def example_ctl_facts)
qed

theorem lateral_resumes_after_half_the_delay_witness:
  "let c = example_controls\<lparr>ct_blinker_pause := (ct_blinker_pause example_controls)\<lparr>bp_blinker_off_timer := 1\<rparr>\<rparr>; i = example_ctl_in braked in
   lat_engaged i (frames (next_controls lpi_update lpi_reset example_ctl_env) c (replicate 50 i)) =
     (if ss_mads_available braked then ss_mads_active braked else ss_active braked)"
  unfolding Let_def
  by (subst lateral_resumes_after_half_the_delay [where D = 1]) (auto simp: example_ctl_facts)

end
