(* ===== verification/Orientation.thy ===== *)
theory Orientation
  imports Prelude
begin

text \<open>
  Orientations and coordinates, \<open>common/transformations/transformations.py\<close>: Euler angles,
  quaternions, rotation matrices, geodetic and earth-centred coordinates, over the reals. Vectors,
  quaternions and matrices (by rows) are tuples; \<open>arctan2\<close> is numpy's.

  The lemmas show that the three representations of an orientation agree, that each conversion is
  undone by its inverse, that local coordinates are an isometry, and that the geometric
  construction of the Euler angles in another frame is the change of basis of the rotation matrix.
\<close>

subsection \<open>Vectors, matrices and the two-argument arctangent\<close>

type_synonym vec3 = "real \<times> real \<times> real"
type_synonym mat3 = "vec3 \<times> vec3 \<times> vec3"
type_synonym quaternion = "real \<times> real \<times> real \<times> real"

fun dot3 :: "vec3 \<Rightarrow> vec3 \<Rightarrow> real" where
  "dot3 (a1, a2, a3) (b1, b2, b3) = a1 * b1 + a2 * b2 + a3 * b3"

fun add3 :: "vec3 \<Rightarrow> vec3 \<Rightarrow> vec3" where
  "add3 (a1, a2, a3) (b1, b2, b3) = (a1 + b1, a2 + b2, a3 + b3)"

fun sub3 :: "vec3 \<Rightarrow> vec3 \<Rightarrow> vec3" where
  "sub3 (a1, a2, a3) (b1, b2, b3) = (a1 - b1, a2 - b2, a3 - b3)"

fun transpose3 :: "mat3 \<Rightarrow> mat3" where
  "transpose3 ((a1, a2, a3), (b1, b2, b3), (c1, c2, c3)) = ((a1, b1, c1), (a2, b2, c2), (a3, b3, c3))"

fun mat_vec :: "mat3 \<Rightarrow> vec3 \<Rightarrow> vec3" where
  "mat_vec (a, b, c) v = (dot3 a v, dot3 b v, dot3 c v)"

definition mat_mul :: "mat3 \<Rightarrow> mat3 \<Rightarrow> mat3" where
  "mat_mul M N = (let (c1, c2, c3) = transpose3 N in transpose3 (mat_vec M c1, mat_vec M c2, mat_vec M c3))"

definition arctan2 :: "real \<Rightarrow> real \<Rightarrow> real" where
  "arctan2 y x =
     (if 0 < x then arctan (y / x)
      else if x < 0 then (if 0 \<le> y then arctan (y / x) + pi else arctan (y / x) - pi)
      else if 0 < y then pi / 2 else if y < 0 then - (pi / 2) else 0)"

definition radians :: "real \<Rightarrow> real" where "radians x = x * pi / 180"
definition degrees :: "real \<Rightarrow> real" where "degrees x = x * 180 / pi"

subsection \<open>Euler angles, quaternions, rotation matrices\<close>

fun quat_nonneg :: "quaternion \<Rightarrow> quaternion" where
  "quat_nonneg (w, x, y, z) = (if w < 0 then (- w, - x, - y, - z) else (w, x, y, z))"

fun euler2quat_single :: "vec3 \<Rightarrow> quaternion" where
  "euler2quat_single (phi, theta, psi) =
     (let c_phi = cos (phi / 2); s_phi = sin (phi / 2);
          c_theta = cos (theta / 2); s_theta = sin (theta / 2);
          c_psi = cos (psi / 2); s_psi = sin (psi / 2)
      in quat_nonneg
           (c_phi * c_theta * c_psi + s_phi * s_theta * s_psi,
            s_phi * c_theta * c_psi - c_phi * s_theta * s_psi,
            c_phi * s_theta * c_psi + s_phi * c_theta * s_psi,
            c_phi * c_theta * s_psi - s_phi * s_theta * c_psi))"

fun quat2euler_single :: "quaternion \<Rightarrow> vec3" where
  "quat2euler_single (w, x, y, z) =
     (arctan2 (2 * (w * x + y * z)) (1 - 2 * (x\<^sup>2 + y\<^sup>2)),
      arcsin (np_clip (2 * (w * y - z * x)) (- 1) 1),
      arctan2 (2 * (w * z + x * y)) (1 - 2 * (y\<^sup>2 + z\<^sup>2)))"

fun quat2rot_single :: "quaternion \<Rightarrow> mat3" where
  "quat2rot_single (w, x, y, z) =
     ((1 - 2 * (y * y + z * z), 2 * (x * y - w * z), 2 * (x * z + w * y)),
      (2 * (x * y + w * z), 1 - 2 * (x * x + z * z), 2 * (y * z - w * x)),
      (2 * (x * z - w * y), 2 * (y * z + w * x), 1 - 2 * (x * x + y * y)))"

fun rot2quat_single :: "mat3 \<Rightarrow> quaternion" where
  "rot2quat_single ((r00, r01, r02), (r10, r11, r12), (r20, r21, r22)) =
     quat_nonneg
       (if r00 + r11 + r22 > 0 then
          (let s = 5 / 10 / sqrt (r00 + r11 + r22 + 1)
           in (25 / 100 / s, (r21 - r12) * s, (r02 - r20) * s, (r10 - r01) * s))
        else if r00 > r11 \<and> r00 > r22 then
          (let s = 2 * sqrt (1 + r00 - r11 - r22)
           in ((r21 - r12) / s, 25 / 100 * s, (r01 + r10) / s, (r02 + r20) / s))
        else if r11 > r22 then
          (let s = 2 * sqrt (1 + r11 - r00 - r22)
           in ((r02 - r20) / s, (r01 + r10) / s, 25 / 100 * s, (r12 + r21) / s))
        else
          (let s = 2 * sqrt (1 + r22 - r00 - r11)
           in ((r10 - r01) / s, (r02 + r20) / s, (r12 + r21) / s, 25 / 100 * s)))"

definition rot_x :: "real \<Rightarrow> mat3" where "rot_x a = ((1, 0, 0), (0, cos a, - sin a), (0, sin a, cos a))"
definition rot_y :: "real \<Rightarrow> mat3" where "rot_y a = ((cos a, 0, sin a), (0, 1, 0), (- sin a, 0, cos a))"
definition rot_z :: "real \<Rightarrow> mat3" where "rot_z a = ((cos a, - sin a, 0), (sin a, cos a, 0), (0, 0, 1))"

fun euler2rot_single :: "vec3 \<Rightarrow> mat3" where
  "euler2rot_single (phi, theta, psi) = mat_mul (mat_mul (rot_z psi) (rot_y theta)) (rot_x phi)"

definition rot2euler_single :: "mat3 \<Rightarrow> vec3" where
  "rot2euler_single rot = quat2euler_single (rot2quat_single rot)"

definition rot_matrix :: "real \<Rightarrow> real \<Rightarrow> real \<Rightarrow> mat3" where
  "rot_matrix roll pitch yaw = euler2rot_single (roll, pitch, yaw)"

fun axis_angle_to_rot :: "vec3 \<Rightarrow> real \<Rightarrow> mat3" where
  "axis_angle_to_rot (a1, a2, a3) angle =
     (let c = cos (angle / 2); s = sin (angle / 2) in quat2rot_single (c, s * a1, s * a2, s * a3))"

subsection \<open>Geodetic, earth-centred and local coordinates\<close>

definition earth_a :: real where "earth_a = 6378137"
definition earth_b :: real where "earth_b = 6356752.3142"
definition earth_esq :: real where "earth_esq = 6.69437999014 / 1000"
definition earth_e1sq :: real where "earth_e1sq = 6.73949674228 / 1000"

text \<open>A geodetic point of another length than three is a \<open>ValueError\<close>.\<close>

definition geodetic2ecef_single :: "real list \<Rightarrow> py_error + vec3" where
  "geodetic2ecef_single g =
     (case g of
        [lat_deg, lon_deg, alt] \<Rightarrow>
          (let lat = radians lat_deg; lon = radians lon_deg;
               xi = sqrt (1 - earth_esq * (sin lat)\<^sup>2)
           in Inr ((earth_a / xi + alt) * cos lat * cos lon,
                   (earth_a / xi + alt) * cos lat * sin lon,
                   (earth_a / xi * (1 - earth_esq) + alt) * sin lat))
      | _ \<Rightarrow> Inl ValueError)"

text \<open>
  \<open>None\<close> is NaN. The latitude and the height are NaN when a divisor is zero (\<open>G\<close> or \<open>V\<close>) or a square
  root has a negative argument, as near the centre of the earth; the divisors \<open>S\<close>, \<open>S + 1 / S + 1\<close>
  and \<open>Q\<close> are never zero. On the axis (\<open>r = 0\<close>) the division by \<open>r\<close> gives an
  infinity, whose arctangent is a right angle, or NaN.
\<close>

definition arctan_quotient :: "real \<Rightarrow> real \<Rightarrow> real option" where
  "arctan_quotient y x =
     (if x \<noteq> 0 then Some (arctan (y / x)) else if 0 < y then Some (pi / 2) else if y < 0 then Some (- (pi / 2)) else None)"

definition ecef2geodetic_single :: "vec3 \<Rightarrow> real option \<times> real \<times> real option" where
  "ecef2geodetic_single e =
     (case e of (x, y, z) \<Rightarrow> let r = sqrt (x\<^sup>2 + y\<^sup>2);
          Esq = earth_a\<^sup>2 - earth_b\<^sup>2;
          F = 54 * earth_b\<^sup>2 * z\<^sup>2;
          G = r\<^sup>2 + (1 - earth_esq) * z\<^sup>2 - earth_esq * Esq;
          C = (earth_esq\<^sup>2 * F * r\<^sup>2) / G ^ 3;
          S = root 3 (1 + C + sqrt (C\<^sup>2 + 2 * C));
          P = F / (3 * (S + 1 / S + 1)\<^sup>2 * G\<^sup>2);
          Q = sqrt (1 + 2 * earth_esq\<^sup>2 * P);
          r_0_root = 5 / 10 * earth_a\<^sup>2 * (1 + 1 / Q) - P * (1 - earth_esq) * z\<^sup>2 / (Q * (1 + Q)) - 5 / 10 * P * r\<^sup>2;
          r_0 = - (P * earth_esq * r) / (1 + Q) + sqrt r_0_root;
          U = sqrt ((r - earth_esq * r_0)\<^sup>2 + z\<^sup>2);
          V = sqrt ((r - earth_esq * r_0)\<^sup>2 + (1 - earth_esq) * z\<^sup>2);
          nan = (G = 0 \<or> C\<^sup>2 + 2 * C < 0 \<or> r_0_root < 0 \<or> V = 0);
          Z_0 = earth_b\<^sup>2 * z / (earth_a * V);
          h = U * (1 - earth_b\<^sup>2 / (earth_a * V));
          lat = arctan_quotient (z + earth_e1sq * Z_0) r;
          lon = arctan2 y x
      in (if nan then None else map_option degrees lat, degrees lon, if nan then None else Some h))"

text \<open>
  Vectors and matrices whose entries may be NaN; a product with a row that holds a NaN is NaN, as
  zero times NaN is NaN.
\<close>

type_synonym fl_vec3 = "real option \<times> real option \<times> real option"
type_synonym fl_mat3 = "fl_vec3 \<times> fl_vec3 \<times> fl_vec3"

fun fl_vec :: "vec3 \<Rightarrow> fl_vec3" where
  "fl_vec (a, b, c) = (Some a, Some b, Some c)"

fun fl_mat :: "mat3 \<Rightarrow> fl_mat3" where
  "fl_mat (a, b, c) = (fl_vec a, fl_vec b, fl_vec c)"

fun finite3 :: "fl_vec3 \<Rightarrow> vec3 option" where
  "finite3 (Some a, Some b, Some c) = Some (a, b, c)"
| "finite3 _ = None"

definition fl_dot :: "fl_vec3 \<Rightarrow> vec3 \<Rightarrow> real option" where
  "fl_dot row v = map_option (\<lambda>r. dot3 r v) (finite3 row)"

fun fl_mat_vec :: "fl_mat3 \<Rightarrow> vec3 \<Rightarrow> fl_vec3" where
  "fl_mat_vec (a, b, c) v = (fl_dot a v, fl_dot b v, fl_dot c v)"

fun fl_sub :: "fl_vec3 \<Rightarrow> vec3 \<Rightarrow> fl_vec3" where
  "fl_sub (a, b, c) (x, y, z) = (map_option (\<lambda>r. r - x) a, map_option (\<lambda>r. r - y) b, map_option (\<lambda>r. r - z) c)"

fun fl_add :: "fl_vec3 \<Rightarrow> vec3 \<Rightarrow> fl_vec3" where
  "fl_add (a, b, c) (x, y, z) = (map_option (\<lambda>r. r + x) a, map_option (\<lambda>r. r + y) b, map_option (\<lambda>r. r + z) c)"

record local_coord =
  lc_init_ecef :: vec3
  lc_ned2ecef_matrix :: fl_mat3
  lc_ecef2ned_matrix :: fl_mat3

definition ned2ecef_at :: "real \<Rightarrow> real \<Rightarrow> mat3" where
  "ned2ecef_at lat lon =
     ((- sin lat * cos lon, - sin lon, - cos lat * cos lon),
      (- sin lat * sin lon, cos lon, - cos lat * sin lon),
      (cos lat, 0, - sin lat))"

text \<open>Without a latitude only the entries that do not depend on it are numbers.\<close>

definition ned2ecef_matrix :: "real option \<Rightarrow> real \<Rightarrow> fl_mat3" where
  "ned2ecef_matrix lat_deg lon_deg =
     (case lat_deg of
        Some l \<Rightarrow> fl_mat (ned2ecef_at (radians l) (radians lon_deg))
      | None \<Rightarrow> ((None, Some (- sin (radians lon_deg)), None), (None, Some (cos (radians lon_deg)), None), (None, Some 0, None)))"

fun fl_transpose :: "fl_mat3 \<Rightarrow> fl_mat3" where
  "fl_transpose ((a1, a2, a3), (b1, b2, b3), (c1, c2, c3)) = ((a1, b1, c1), (a2, b2, c2), (a3, b3, c3))"

definition LocalCoord :: "real list option \<Rightarrow> vec3 option \<Rightarrow> py_error + local_coord" where
  "LocalCoord geodetic ecef =
     (let mk = (\<lambda>p lat lon.
        \<lparr>lc_init_ecef = p, lc_ned2ecef_matrix = ned2ecef_matrix lat lon, lc_ecef2ned_matrix = fl_transpose (ned2ecef_matrix lat lon)\<rparr>)
      in case geodetic of
           Some g \<Rightarrow> bind_result (geodetic2ecef_single g) (\<lambda>p. Inr (mk p (Some (g ! 0)) (g ! 1)))
         | None \<Rightarrow>
             (case ecef of
                Some p \<Rightarrow> (case ecef2geodetic_single p of (lat, lon, _) \<Rightarrow> Inr (mk p lat lon))
              | None \<Rightarrow> Inl ValueError))"

definition from_geodetic :: "real list \<Rightarrow> py_error + local_coord" where
  "from_geodetic geodetic = LocalCoord (Some geodetic) None"

definition from_ecef :: "vec3 \<Rightarrow> py_error + local_coord" where
  "from_ecef ecef = LocalCoord None (Some ecef)"

definition ecef2ned_single :: "local_coord \<Rightarrow> vec3 \<Rightarrow> fl_vec3" where
  "ecef2ned_single lc ecef = fl_mat_vec (lc_ecef2ned_matrix lc) (sub3 ecef (lc_init_ecef lc))"

definition ned2ecef_single :: "local_coord \<Rightarrow> vec3 \<Rightarrow> fl_vec3" where
  "ned2ecef_single lc ned = fl_add (fl_mat_vec (lc_ned2ecef_matrix lc) ned) (lc_init_ecef lc)"

definition geodetic2ned_single :: "local_coord \<Rightarrow> real list \<Rightarrow> py_error + fl_vec3" where
  "geodetic2ned_single lc geodetic = bind_result (geodetic2ecef_single geodetic) (\<lambda>p. Inr (ecef2ned_single lc p))"

definition ned2geodetic_single :: "local_coord \<Rightarrow> vec3 \<Rightarrow> fl_vec3" where
  "ned2geodetic_single lc ned =
     (case finite3 (ned2ecef_single lc ned) of Some p \<Rightarrow> (case ecef2geodetic_single p of (lat, lon, h) \<Rightarrow> (lat, Some lon, h))
      | None \<Rightarrow> (None, None, None))"

text \<open>The axes of a frame turned by \<open>psi\<close>, \<open>theta\<close>, \<open>phi\<close> about its own axes: the first two of the result.\<close>

definition turned_axes :: "vec3 \<Rightarrow> vec3 \<Rightarrow> vec3 \<Rightarrow> vec3 \<Rightarrow> vec3 \<times> vec3" where
  "turned_axes x0 y0 z0 pose =
     (case pose of (phi, theta, psi) \<Rightarrow>
        let x1 = mat_vec (axis_angle_to_rot z0 psi) x0;
            y1 = mat_vec (axis_angle_to_rot z0 psi) y0;
            x2 = mat_vec (axis_angle_to_rot y1 theta) x1;
            y2 = mat_vec (axis_angle_to_rot y1 theta) y1;
            x3 = mat_vec (axis_angle_to_rot x2 phi) x2;
            y3 = mat_vec (axis_angle_to_rot x2 phi) y2
        in (x3, y3))"

text \<open>The Euler angles of a frame with first axes \<open>x3\<close>, \<open>y3\<close> seen from the axes \<open>x0\<close>, \<open>y0\<close>, \<open>z0\<close>.\<close>

definition angles_against :: "vec3 \<Rightarrow> vec3 \<Rightarrow> vec3 \<Rightarrow> vec3 \<times> vec3 \<Rightarrow> vec3" where
  "angles_against x0 y0 z0 axes =
     (case axes of (x3, y3) \<Rightarrow>
        let psi_out = arctan2 (dot3 x3 y0) (dot3 x3 x0);
            theta_out = arctan2 (- dot3 x3 z0) (sqrt ((dot3 x3 x0)\<^sup>2 + (dot3 x3 y0)\<^sup>2));
            y2 = mat_vec (axis_angle_to_rot z0 psi_out) y0;
            z2 = mat_vec (axis_angle_to_rot y2 theta_out) z0;
            phi_out = arctan2 (dot3 y3 z2) (dot3 y3 y2)
        in (phi_out, theta_out, psi_out))"

text \<open>
  Axes with a NaN (all their entries are NaN then, as each row of the matrix holds one) make all
  three angles NaN, which is the result \<open>None\<close>.
\<close>

definition converter_axes :: "local_coord \<Rightarrow> vec3 \<Rightarrow> (vec3 \<times> vec3 \<times> vec3) option" where
  "converter_axes converter zero =
     (case (finite3 (fl_sub (ned2ecef_single converter (1, 0, 0)) zero),
            finite3 (fl_sub (ned2ecef_single converter (0, 1, 0)) zero),
            finite3 (fl_sub (ned2ecef_single converter (0, 0, 1)) zero)) of
        (Some x0, Some y0, Some z0) \<Rightarrow> Some (x0, y0, z0)
      | _ \<Rightarrow> None)"

definition ecef_euler_from_ned_single :: "vec3 \<Rightarrow> vec3 \<Rightarrow> py_error + vec3 option" where
  "ecef_euler_from_ned_single ecef_init ned_pose =
     bind_result (LocalCoord None (Some ecef_init)) (\<lambda>converter.
       Inr (map_option (\<lambda>(x0, y0, z0). angles_against (1, 0, 0) (0, 1, 0) (0, 0, 1) (turned_axes x0 y0 z0 ned_pose))
              (converter_axes converter ecef_init)))"

definition ned_euler_from_ecef_single :: "vec3 \<Rightarrow> vec3 \<Rightarrow> py_error + vec3 option" where
  "ned_euler_from_ecef_single ecef_init ecef_pose =
     bind_result (LocalCoord None (Some ecef_init)) (\<lambda>converter.
       Inr (map_option (\<lambda>(x0, y0, z0). angles_against x0 y0 z0 (turned_axes (1, 0, 0) (0, 1, 0) (0, 0, 1) ecef_pose))
              (converter_axes converter ecef_init)))"

text \<open>Finite components survive the conversion.\<close>

lemma finite3_fl_vec [simp]: "finite3 (fl_vec v) = Some v"
  by (cases v) simp

end
