(* ===== verification/Orientation_Facts.thy ===== *)
theory Orientation_Facts
  imports Orientation
begin

text \<open>
  Facts about the orientations of theory \<open>Orientation\<close>: the two-argument arctangent is the angle of
  a point, quaternions and Euler angles describe the same matrices, the conversions invert each
  other, and the change of frame of Euler angles is the change of basis of their matrix.
\<close>

subsection \<open>The two-argument arctangent\<close>

lemma arctan2_polar:
  assumes r: "0 < r" and a: "- pi < a" "a \<le> pi"
  shows "arctan2 (r * sin a) (r * cos a) = a"
proof -
  consider "- (pi / 2) < a \<and> a < pi / 2" | "a = pi / 2" | "a = - (pi / 2)" | "pi / 2 < a" | "a < - (pi / 2)"
    by linarith
  then show ?thesis
  proof cases
    case 1
    then have "0 < cos a" by (intro cos_gt_zero_pi) auto
    moreover have "arctan (tan a) = a" using 1 by (intro arctan_tan) auto
    ultimately show ?thesis using r by (simp add: arctan2_def tan_def)
  next
    case 4
    have neg: "cos a < 0" using cos_gt_zero_pi [of "a - pi"] 4 a by (simp add: cos_diff)
    have "0 \<le> sin a" using 4 a by (intro sin_ge_zero) auto
    moreover have "arctan (tan a) = a - pi"
      using arctan_tan [of "a - pi"] 4 a by (simp add: tan_def sin_diff cos_diff)
    moreover have "r * cos a < 0" using neg r by (simp add: mult_pos_neg)
    ultimately show ?thesis using r by (simp add: arctan2_def tan_def)
  next
    case 5
    have neg: "cos a < 0" using cos_gt_zero_pi [of "a + pi"] 5 a by (simp add: cos_add)
    have "sin (a + pi) > 0" using 5 a by (intro sin_gt_zero) auto
    then have "sin a < 0" by simp
    moreover have "arctan (tan a) = a + pi"
      using arctan_tan [of "a + pi"] 5 a by (simp add: tan_def sin_add cos_add)
    moreover have "r * cos a < 0" using neg r by (simp add: mult_pos_neg)
    moreover have "r * sin a < 0" using \<open>sin a < 0\<close> r by (simp add: mult_pos_neg)
    ultimately show ?thesis using r by (simp add: arctan2_def tan_def not_le)
  next
    case 2
    show ?thesis unfolding 2 using r by (simp add: arctan2_def)
  next
    case 3
    show ?thesis unfolding 3 using r by (simp add: arctan2_def)
  qed
qed

lemma polar_angle:
  obtains r a where "0 \<le> r" "- pi < a" "a \<le> pi" "x = r * cos a" "y = r * sin a" "r = sqrt (x\<^sup>2 + y\<^sup>2)"
    "0 < r \<or> x = 0 \<and> y = 0"
proof (cases "x = 0 \<and> y = 0")
  case True
  then show ?thesis by (intro that [of 0 0]) auto
next
  case False
  let ?r = "sqrt (x\<^sup>2 + y\<^sup>2)"
  have pos: "0 < ?r" using False by (simp add: sum_power2_gt_zero_iff)
  have sq: "?r\<^sup>2 = x\<^sup>2 + y\<^sup>2" by simp
  have one: "(x / ?r)\<^sup>2 + (y / ?r)\<^sup>2 = 1"
    using pos sq False by (simp add: power_divide add_divide_distrib [symmetric] sum_power2_eq_zero_iff)
  then obtain t where t: "0 \<le> t" "t < 2 * pi" "x / ?r = cos t" "y / ?r = sin t"
    by (rule sincos_total_2pi)
  have xy: "x = ?r * cos t" "y = ?r * sin t" unfolding t(3,4) [symmetric] using pos by simp_all
  show ?thesis
  proof (cases "t \<le> pi")
    case True
    show ?thesis by (rule that [of ?r t]) (use t pos xy True pi_gt_zero in \<open>auto intro: less_le_trans [of _ 0]\<close>)
  next
    case False
    show ?thesis by (rule that [of ?r "t - 2 * pi"]) (use t pos xy False in \<open>auto simp: cos_diff sin_diff\<close>)
  qed
qed

lemma arctan2_cos_sin:
  "sqrt (x\<^sup>2 + y\<^sup>2) * cos (arctan2 y x) = x" "sqrt (x\<^sup>2 + y\<^sup>2) * sin (arctan2 y x) = y"
proof -
  obtain r a where ra: "0 \<le> r" "- pi < a" "a \<le> pi" "x = r * cos a" "y = r * sin a"
    "r = sqrt (x\<^sup>2 + y\<^sup>2)" "0 < r \<or> x = 0 \<and> y = 0" by (rule polar_angle)
  have "r * cos (arctan2 y x) = x \<and> r * sin (arctan2 y x) = y"
  proof (cases "0 < r")
    case True
    have "arctan2 y x = a" unfolding ra(4,5) by (rule arctan2_polar [OF True ra(2,3)])
    then show ?thesis using ra(4,5) by simp
  next
    case False
    then have "x = 0" "y = 0" "r = 0" using ra(1,7) by auto
    then show ?thesis by simp
  qed
  then show "sqrt (x\<^sup>2 + y\<^sup>2) * cos (arctan2 y x) = x" "sqrt (x\<^sup>2 + y\<^sup>2) * sin (arctan2 y x) = y"
    unfolding ra(6) by simp_all
qed

text \<open>Of a point on the unit circle.\<close>

lemma arctan2_unit:
  assumes "x\<^sup>2 + y\<^sup>2 = 1"
  shows "cos (arctan2 y x) = x" "sin (arctan2 y x) = y"
  using arctan2_cos_sin [of x y] assms by simp_all

lemma arctan2_range: "- pi < arctan2 y x \<and> arctan2 y x \<le> pi"
proof -
  obtain r a where ra: "- pi < a" "a \<le> pi" "x = r * cos a" "y = r * sin a" "0 < r \<or> x = 0 \<and> y = 0"
    by (rule polar_angle)
  show ?thesis
  proof (cases "0 < r")
    case True
    have "arctan2 y x = a" unfolding ra(3,4) by (rule arctan2_polar [OF True ra(1,2)])
    then show ?thesis using ra(1,2) by simp
  next
    case False
    then have "x = 0" "y = 0" using ra(5) by auto
    then show ?thesis by (simp add: arctan2_def)
  qed
qed

subsection \<open>Quaternions and matrices\<close>

fun quat_norm2 :: "quaternion \<Rightarrow> real" where
  "quat_norm2 (w, x, y, z) = w\<^sup>2 + x\<^sup>2 + y\<^sup>2 + z\<^sup>2"

fun quat_neg :: "quaternion \<Rightarrow> quaternion" where
  "quat_neg (w, x, y, z) = (- w, - x, - y, - z)"

lemma quat_nonneg_cases: "quat_nonneg q = q \<or> quat_nonneg q = quat_neg q"
  by (cases q) simp

lemma quat_nonneg_norm: "quat_norm2 (quat_nonneg q) = quat_norm2 q"
  by (cases q) simp

lemma quat_nonneg_fixed: "0 < fst q \<Longrightarrow> quat_nonneg q = q \<and> quat_nonneg (quat_neg q) = q"
  by (cases q) simp

lemma quat2rot_neg: "quat2rot_single (quat_neg q) = quat2rot_single q"
  by (cases q) simp

lemma quat2rot_nonneg: "quat2rot_single (quat_nonneg q) = quat2rot_single q"
  using quat_nonneg_cases [of q] quat2rot_neg [of q] by auto

lemma quat2euler_neg: "quat2euler_single (quat_neg q) = quat2euler_single q"
  by (cases q) simp

lemma half_angle: "cos (x::real) = (cos (x / 2))\<^sup>2 - (sin (x / 2))\<^sup>2" "sin x = 2 * sin (x / 2) * cos (x / 2)"
  using cos_double [of "x / 2"] sin_double [of "x / 2"] by simp_all

lemma mat_mul_rows:
  "mat_mul ((a1, a2, a3), (b1, b2, b3), (c1, c2, c3)) ((d1, d2, d3), (e1, e2, e3), (f1, f2, f3)) =
     ((a1 * d1 + a2 * e1 + a3 * f1, a1 * d2 + a2 * e2 + a3 * f2, a1 * d3 + a2 * e3 + a3 * f3),
      (b1 * d1 + b2 * e1 + b3 * f1, b1 * d2 + b2 * e2 + b3 * f2, b1 * d3 + b2 * e3 + b3 * f3),
      (c1 * d1 + c2 * e1 + c3 * f1, c1 * d2 + c2 * e2 + c3 * f2, c1 * d3 + c2 * e3 + c3 * f3))"
  by (simp add: mat_mul_def)

lemma euler2rot_entries:
  "euler2rot_single (phi, theta, psi) =
     ((cos psi * cos theta, cos psi * sin theta * sin phi - sin psi * cos phi,
       cos psi * sin theta * cos phi + sin psi * sin phi),
      (sin psi * cos theta, sin psi * sin theta * sin phi + cos psi * cos phi,
       sin psi * sin theta * cos phi - cos psi * sin phi),
      (- sin theta, cos theta * sin phi, cos theta * cos phi))"
  by (simp add: rot_x_def rot_y_def rot_z_def mat_mul_rows)

lemma sin_cos_unit: "(sin x)\<^sup>2 + (cos x)\<^sup>2 = (1::real)"
  by simp

lemma euler2quat_unit: "quat_norm2 (euler2quat_single e) = 1"
proof (cases e)
  case (fields phi theta psi)
  have "(sin (phi / 2))\<^sup>2 + (cos (phi / 2))\<^sup>2 = 1" "(sin (theta / 2))\<^sup>2 + (cos (theta / 2))\<^sup>2 = 1"
    "(sin (psi / 2))\<^sup>2 + (cos (psi / 2))\<^sup>2 = 1" by simp_all
  then show ?thesis unfolding fields euler2quat_single.simps Let_def quat_nonneg_norm quat_norm2.simps
    by algebra
qed

lemma euler_product:
  fixes a b :: real
  assumes "a\<^sup>2 + b\<^sup>2 = 1" "c\<^sup>2 + d\<^sup>2 = 1" "e\<^sup>2 + f\<^sup>2 = 1"
  defines "w \<equiv> b * d * f + a * c * e" and "x \<equiv> a * d * f - b * c * e"
    and "y \<equiv> b * c * f + a * d * e" and "z \<equiv> b * d * e - a * c * f"
  shows "1 - 2 * (y * y + z * z) = (f\<^sup>2 - e\<^sup>2) * (d\<^sup>2 - c\<^sup>2)"
    "2 * (x * y + w * z) = 2 * e * f * (d\<^sup>2 - c\<^sup>2)"
    "2 * (x * z - w * y) = - (2 * c * d)"
    "2 * (y * z + w * x) = (d\<^sup>2 - c\<^sup>2) * (2 * a * b)"
    "1 - 2 * (x * x + y * y) = (d\<^sup>2 - c\<^sup>2) * (b\<^sup>2 - a\<^sup>2)"
    "2 * (x * y - w * z) = (f\<^sup>2 - e\<^sup>2) * (2 * c * d) * (2 * a * b) - 2 * e * f * (b\<^sup>2 - a\<^sup>2)"
    "2 * (x * z + w * y) = (f\<^sup>2 - e\<^sup>2) * (2 * c * d) * (b\<^sup>2 - a\<^sup>2) + 2 * e * f * (2 * a * b)"
    "1 - 2 * (x * x + z * z) = 2 * e * f * (2 * c * d) * (2 * a * b) + (f\<^sup>2 - e\<^sup>2) * (b\<^sup>2 - a\<^sup>2)"
    "2 * (y * z - w * x) = 2 * e * f * (2 * c * d) * (b\<^sup>2 - a\<^sup>2) - (f\<^sup>2 - e\<^sup>2) * (2 * a * b)"
  using assms(1-3) unfolding w_def x_def y_def z_def by algebra+

lemma quat2rot_euler2quat: "quat2rot_single (euler2quat_single e) = euler2rot_single e"
proof (cases e)
  case (fields phi theta psi)
  have ha: "cos phi = (cos (phi / 2))\<^sup>2 - (sin (phi / 2))\<^sup>2" "sin phi = 2 * sin (phi / 2) * cos (phi / 2)"
    "cos theta = (cos (theta / 2))\<^sup>2 - (sin (theta / 2))\<^sup>2" "sin theta = 2 * sin (theta / 2) * cos (theta / 2)"
    "cos psi = (cos (psi / 2))\<^sup>2 - (sin (psi / 2))\<^sup>2" "sin psi = 2 * sin (psi / 2) * cos (psi / 2)"
    by (rule half_angle)+
  note p = euler_product [OF sin_cos_unit [of "phi / 2"] sin_cos_unit [of "theta / 2"] sin_cos_unit [of "psi / 2"]]
  show ?thesis
    unfolding fields euler2quat_single.simps Let_def quat2rot_nonneg quat2rot_single.simps euler2rot_entries p ha
    by simp
qed

text \<open>Each branch of \<open>rot2quat_single\<close> divides by the component it finds to be away from zero.\<close>

lemma sqrt_four: "sqrt (4 * (x::real)\<^sup>2) = 2 * \<bar>x\<bar>"
  by (simp add: real_sqrt_mult)

lemma scaled_by_sign:
  fixes p :: real
  assumes "p \<noteq> 0"
  shows "25 / 100 * (2 * (2 * \<bar>p\<bar>)) = (if 0 < p then p else - p)"
    and "4 * (p * b) / (2 * (2 * \<bar>p\<bar>)) = (if 0 < p then b else - b)"
  using assms by (auto simp: abs_if)

lemma rot2quat_quat2rot_sign:
  assumes unit: "quat_norm2 q = 1"
  shows "rot2quat_single (quat2rot_single q) = quat_nonneg q \<or> rot2quat_single (quat2rot_single q) = quat_nonneg (quat_neg q)"
proof (cases q)
  case (fields w x y z)
  have n: "w\<^sup>2 + x\<^sup>2 + y\<^sup>2 + z\<^sup>2 = 1" using unit fields by simp
  let ?r00 = "1 - 2 * (y * y + z * z)" and ?r11 = "1 - 2 * (x * x + z * z)" and ?r22 = "1 - 2 * (x * x + y * y)"
  have tr: "?r00 + ?r11 + ?r22 = 4 * w\<^sup>2 - 1" "4 * w\<^sup>2 - 1 + 1 = 4 * w\<^sup>2" "1 + ?r00 - ?r11 - ?r22 = 4 * x\<^sup>2"
    "1 + ?r11 - ?r00 - ?r22 = 4 * y\<^sup>2" "1 + ?r22 - ?r00 - ?r11 = 4 * z\<^sup>2"
    using n by (simp_all add: power2_eq_square algebra_simps)
  have cmp: "?r00 > ?r11 \<longleftrightarrow> x\<^sup>2 > y\<^sup>2" "?r00 > ?r22 \<longleftrightarrow> x\<^sup>2 > z\<^sup>2" "?r11 > ?r22 \<longleftrightarrow> y\<^sup>2 > z\<^sup>2"
    by (auto simp: power2_eq_square algebra_simps)
  have df: "2 * (y * z + w * x) - 2 * (y * z - w * x) = 4 * (w * x)" "2 * (x * z + w * y) - 2 * (x * z - w * y) = 4 * (w * y)"
    "2 * (x * y + w * z) - 2 * (x * y - w * z) = 4 * (w * z)" "2 * (x * y - w * z) + 2 * (x * y + w * z) = 4 * (x * y)"
    "2 * (x * z + w * y) + 2 * (x * z - w * y) = 4 * (x * z)" "2 * (y * z - w * x) + 2 * (y * z + w * x) = 4 * (y * z)"
    by (simp_all add: algebra_simps)
  note red = fields quat2rot_single.simps rot2quat_single.simps Let_def tr cmp df sqrt_four quat_neg.simps
  consider "4 * w\<^sup>2 - 1 > 0" | "\<not> 4 * w\<^sup>2 - 1 > 0" "x\<^sup>2 > y\<^sup>2 \<and> x\<^sup>2 > z\<^sup>2"
    | "\<not> 4 * w\<^sup>2 - 1 > 0" "\<not> (x\<^sup>2 > y\<^sup>2 \<and> x\<^sup>2 > z\<^sup>2)" "y\<^sup>2 > z\<^sup>2"
    | "\<not> 4 * w\<^sup>2 - 1 > 0" "\<not> (x\<^sup>2 > y\<^sup>2 \<and> x\<^sup>2 > z\<^sup>2)" "\<not> y\<^sup>2 > z\<^sup>2" by blast
  then show ?thesis
  proof cases
    case 1
    then have "w \<noteq> 0" by auto
    then show ?thesis unfolding red using 1 by (auto simp: abs_if)
  next
    case 2
    then have "x \<noteq> 0" by auto
    note s = scaled_by_sign [OF this]
    have c: "4 * (w * x) = 4 * (x * w)" by simp
    show ?thesis unfolding red c s if_not_P [OF 2(1)] if_P [OF 2(2)] by (cases "0 < x") simp_all
  next
    case 3
    then have "y \<noteq> 0" by auto
    note s = scaled_by_sign [OF this]
    have c: "4 * (w * y) = 4 * (y * w)" "4 * (x * y) = 4 * (y * x)" by simp_all
    show ?thesis unfolding red c s if_not_P [OF 3(1)] if_not_P [OF 3(2)] if_P [OF 3(3)] by (cases "0 < y") simp_all
  next
    case 4
    then have "z\<^sup>2 > 0" using n by linarith
    then have "z \<noteq> 0" by auto
    note s = scaled_by_sign [OF this]
    have c: "4 * (w * z) = 4 * (z * w)" "4 * (x * z) = 4 * (z * x)" "4 * (y * z) = 4 * (z * y)" by simp_all
    show ?thesis unfolding red c s if_not_P [OF 4(1)] if_not_P [OF 4(2)] if_not_P [OF 4(3)] by (cases "0 < z") simp_all
  qed
qed

lemma quat2rot_rot2quat: "quat_norm2 q = 1 \<Longrightarrow> quat2rot_single (rot2quat_single (quat2rot_single q)) = quat2rot_single q"
  using rot2quat_quat2rot_sign [of q] quat2rot_nonneg quat2rot_neg by metis

lemma quat2euler_rot2quat: "quat_norm2 q = 1 \<Longrightarrow> quat2euler_single (rot2quat_single (quat2rot_single q)) = quat2euler_single q"
  using rot2quat_quat2rot_sign [of q] quat_nonneg_cases [of q] quat_nonneg_cases [of "quat_neg q"] quat2euler_neg by metis

subsection \<open>Matrices and Euler angles\<close>

fun euler_of_rot :: "mat3 \<Rightarrow> vec3" where
  "euler_of_rot ((r00, r01, r02), (r10, r11, r12), (r20, r21, r22)) =
     (arctan2 r21 r22, arcsin (np_clip (- r20) (- 1) 1), arctan2 r10 r00)"

lemma quat2euler_rot: "quat2euler_single q = euler_of_rot (quat2rot_single q)"
  by (cases q) (simp add: power2_eq_square algebra_simps)

lemma rot2euler_quat2rot: "quat_norm2 q = 1 \<Longrightarrow> rot2euler_single (quat2rot_single q) = euler_of_rot (quat2rot_single q)"
  by (simp add: rot2euler_single_def quat2euler_rot quat2rot_rot2quat)

lemma rot2euler_euler2rot: "rot2euler_single (euler2rot_single e) = euler_of_rot (euler2rot_single e)"
  using rot2euler_quat2rot [OF euler2quat_unit [of e]] by (simp add: quat2rot_euler2quat)

lemma euler_of_euler2rot:
  assumes "- pi < phi" "phi \<le> pi" "- (pi / 2) < theta" "theta < pi / 2" "- pi < psi" "psi \<le> pi"
  shows "euler_of_rot (euler2rot_single (phi, theta, psi)) = (phi, theta, psi)"
proof -
  have c: "0 < cos theta" using assms by (intro cos_gt_zero_pi) auto
  have "np_clip (sin theta) (- 1) 1 = sin theta" by (simp add: np_clip_def)
  then show ?thesis
    using arctan2_polar [OF c assms(1,2)] arctan2_polar [OF c assms(5,6)] assms(3,4)
    unfolding euler2rot_entries by (simp add: mult.commute [of _ "cos theta"] arcsin_sin)
qed

text \<open>Off the vertical the other entries of a rotation matrix follow from the five the angles are read from.\<close>

lemma rot_entries_follow:
  fixes w :: real
  assumes n: "w\<^sup>2 + x\<^sup>2 + y\<^sup>2 + z\<^sup>2 = 1"
  defines "s \<equiv> 2 * (w * y - z * x)"
  shows "(2 * (y * z + w * x))\<^sup>2 + (1 - 2 * (x * x + y * y))\<^sup>2 = 1 - s\<^sup>2"
    "(2 * (x * y + w * z))\<^sup>2 + (1 - 2 * (y * y + z * z))\<^sup>2 = 1 - s\<^sup>2"
    "2 * (x * y - w * z) * (1 - s\<^sup>2) = (1 - 2 * (y * y + z * z)) * s * (2 * (y * z + w * x)) - 2 * (x * y + w * z) * (1 - 2 * (x * x + y * y))"
    "2 * (x * z + w * y) * (1 - s\<^sup>2) = (1 - 2 * (y * y + z * z)) * s * (1 - 2 * (x * x + y * y)) + 2 * (x * y + w * z) * (2 * (y * z + w * x))"
    "(1 - 2 * (x * x + z * z)) * (1 - s\<^sup>2) = 2 * (x * y + w * z) * s * (2 * (y * z + w * x)) + (1 - 2 * (y * y + z * z)) * (1 - 2 * (x * x + y * y))"
    "2 * (y * z - w * x) * (1 - s\<^sup>2) = 2 * (x * y + w * z) * s * (1 - 2 * (x * x + y * y)) - (1 - 2 * (y * y + z * z)) * (2 * (y * z + w * x))"
  using n unfolding s_def by algebra+

lemma euler2rot_rot2euler:
  assumes unit: "quat_norm2 q = 1" and off: "\<bar>fst (snd (snd (quat2rot_single q)))\<bar> \<noteq> 1"
  shows "euler2rot_single (rot2euler_single (quat2rot_single q)) = quat2rot_single q"
proof (cases q)
  case (fields w x y z)
  have n: "w\<^sup>2 + x\<^sup>2 + y\<^sup>2 + z\<^sup>2 = 1" using unit fields by simp
  let ?s = "2 * (w * y - z * x)" and ?m21 = "2 * (y * z + w * x)" and ?m22 = "1 - 2 * (x * x + y * y)"
    and ?m10 = "2 * (x * y + w * z)" and ?m00 = "1 - 2 * (y * y + z * z)"
  note e = rot_entries_follow [OF n]
  have m20: "2 * (x * z - w * y) = - ?s" by (simp add: algebra_simps)
  have "?s\<^sup>2 \<le> 1" using e(1) sum_power2_ge_zero [of ?m21 ?m22] by linarith
  then have s1: "\<bar>?s\<bar> \<le> 1" by (simp add: abs_square_le_1)
  moreover have "\<bar>?s\<bar> \<noteq> 1" using off unfolding fields quat2rot_single.simps fst_conv snd_conv m20 by simp
  ultimately have s: "?s\<^sup>2 < 1" by (simp add: abs_square_less_1)
  define c where "c = sqrt (1 - ?s\<^sup>2)"
  have c: "0 < c" "c\<^sup>2 = 1 - ?s\<^sup>2" using s by (simp_all add: c_def)
  define \<phi> where "\<phi> = arctan2 ?m21 ?m22"
  define \<theta> where "\<theta> = arcsin ?s"
  define \<psi> where "\<psi> = arctan2 ?m10 ?m00"
  have ph: "c * cos \<phi> = ?m22" "c * sin \<phi> = ?m21"
    using arctan2_cos_sin [of ?m22 ?m21] e(1) unfolding c_def \<phi>_def by (simp_all add: add.commute)
  have ps: "c * cos \<psi> = ?m00" "c * sin \<psi> = ?m10"
    using arctan2_cos_sin [of ?m00 ?m10] e(2) unfolding c_def \<psi>_def by (simp_all add: add.commute)
  have th: "sin \<theta> = ?s" "cos \<theta> = c" using s1 unfolding \<theta>_def c_def by (simp_all add: cos_arcsin abs_le_iff)
  have e': "2 * (x * y - w * z) * c\<^sup>2 = c * cos \<psi> * ?s * (c * sin \<phi>) - c * sin \<psi> * (c * cos \<phi>)"
    "2 * (x * z + w * y) * c\<^sup>2 = c * cos \<psi> * ?s * (c * cos \<phi>) + c * sin \<psi> * (c * sin \<phi>)"
    "(1 - 2 * (x * x + z * z)) * c\<^sup>2 = c * sin \<psi> * ?s * (c * sin \<phi>) + c * cos \<psi> * (c * cos \<phi>)"
    "2 * (y * z - w * x) * c\<^sup>2 = c * sin \<psi> * ?s * (c * cos \<phi>) - c * cos \<psi> * (c * sin \<phi>)"
    unfolding c ph ps using e(3-6) by simp_all
  have cancel: "u = v" if "u * c\<^sup>2 = v * c\<^sup>2" for u v using that c(1) by simp
  have rest: "2 * (x * y - w * z) = cos \<psi> * ?s * sin \<phi> - sin \<psi> * cos \<phi>"
    "2 * (x * z + w * y) = cos \<psi> * ?s * cos \<phi> + sin \<psi> * sin \<phi>"
    "1 - 2 * (x * x + z * z) = sin \<psi> * ?s * sin \<phi> + cos \<psi> * cos \<phi>"
    "2 * (y * z - w * x) = sin \<psi> * ?s * cos \<phi> - cos \<psi> * sin \<phi>"
    by (rule cancel, use e' in \<open>simp add: power2_eq_square algebra_simps\<close>)+
  have clip: "np_clip ?s (- 1) 1 = ?s" unfolding np_clip_def using s1 by (simp only: abs_le_iff) linarith
  have eul: "rot2euler_single (quat2rot_single q) = (\<phi>, \<theta>, \<psi>)"
    unfolding rot2euler_quat2rot [OF unit] unfolding fields quat2rot_single.simps euler_of_rot.simps m20 minus_minus clip
      \<phi>_def \<theta>_def \<psi>_def by (rule refl)
  show ?thesis unfolding eul euler2rot_entries th
    using ph ps rest m20 by (simp add: fields mult.commute [of _ c])
qed

text \<open>
  C39. The representations of an orientation agree: angles in the canonical range are recovered from
  their quaternion and from their rotation matrix, in every branch of \<open>rot2quat_single\<close>.
\<close>

theorem euler_angles_roundtrip:
  assumes "- pi < phi" "phi \<le> pi" "- (pi / 2) < theta" "theta < pi / 2" "- pi < psi" "psi \<le> pi"
  shows "rot2euler_single (euler2rot_single (phi, theta, psi)) = (phi, theta, psi) \<and>
    quat2euler_single (euler2quat_single (phi, theta, psi)) = (phi, theta, psi) \<and>
    quat2rot_single (euler2quat_single (phi, theta, psi)) = euler2rot_single (phi, theta, psi)"
  unfolding rot2euler_euler2rot quat2euler_rot quat2rot_euler2quat
  using euler_of_euler2rot [OF assms] by blast

theorem euler_angles_roundtrip_witness:
  "rot2euler_single (euler2rot_single (2, 1 / 2, - 1)) = (2, 1 / 2, - 1)"
  by (rule conjunct1 [OF euler_angles_roundtrip]) (use pi_ge_two in auto)

subsection \<open>Frames\<close>

text \<open>
  A frame is a right-handed triple of orthogonal unit vectors. \<open>lin2\<close> is a linear combination of two
  vectors; turning about an axis of a frame combines the other two.
\<close>

fun cross3 :: "vec3 \<Rightarrow> vec3 \<Rightarrow> vec3" where
  "cross3 (a1, a2, a3) (b1, b2, b3) = (a2 * b3 - a3 * b2, a3 * b1 - a1 * b3, a1 * b2 - a2 * b1)"

fun lin2 :: "real \<Rightarrow> vec3 \<Rightarrow> real \<Rightarrow> vec3 \<Rightarrow> vec3" where
  "lin2 a (u1, u2, u3) b (v1, v2, v3) = (a * u1 + b * v1, a * u2 + b * v2, a * u3 + b * v3)"

definition frame3 :: "vec3 \<Rightarrow> vec3 \<Rightarrow> vec3 \<Rightarrow> bool" where
  "frame3 f1 f2 f3 \<longleftrightarrow>
     dot3 f1 f1 = 1 \<and> dot3 f2 f2 = 1 \<and> dot3 f3 f3 = 1 \<and> dot3 f1 f2 = 0 \<and> dot3 f2 f3 = 0 \<and> dot3 f3 f1 = 0 \<and>
     cross3 f1 f2 = f3 \<and> cross3 f2 f3 = f1 \<and> cross3 f3 f1 = f2"

lemma frame3_cycle: "frame3 f1 f2 f3 \<Longrightarrow> frame3 f2 f3 f1"
  by (simp add: frame3_def)

lemma dot3_commute: "dot3 u v = dot3 v u"
  by (cases u; cases v) (simp add: mult.commute)

lemma dot3_lin2:
  "dot3 (lin2 a u b v) w = a * dot3 u w + b * dot3 v w" "dot3 w (lin2 a u b v) = a * dot3 w u + b * dot3 w v"
  by (cases u; cases v; cases w, simp add: algebra_simps)+

lemma cross3_lin2: "cross3 (lin2 a u b v) (lin2 (- b) u a v) = lin2 (a * a + b * b) (cross3 u v) 0 u"
  by (cases u; cases v) (simp add: algebra_simps)

lemma cross3_turned:
  "cross3 (lin2 (- b) u a v) w = lin2 a (cross3 v w) b (cross3 w u)"
  "cross3 w (lin2 a u b v) = lin2 (- b) (cross3 v w) a (cross3 w u)"
  by (cases u; cases v; cases w, simp add: algebra_simps)+

lemma lin2_trivial [simp]: "lin2 1 u 0 v = u" "lin2 0 u 1 v = v"
  by (cases u; cases v, simp)+

lemma mat_vec_lin2: "mat_vec m (lin2 a u b v) = lin2 a (mat_vec m u) b (mat_vec m v)"
  by (cases m; cases u; cases v) (auto simp: algebra_simps dot3_lin2)

lemma frame3_turn:
  assumes f: "frame3 f1 f2 f3" and u: "a * a + b * b = 1"
  shows "frame3 (lin2 a f1 b f2) (lin2 (- b) f1 a f2) f3"
proof -
  have d: "dot3 f1 f1 = 1" "dot3 f2 f2 = 1" "dot3 f3 f3 = 1" "dot3 f1 f2 = 0" "dot3 f2 f1 = 0" "dot3 f2 f3 = 0"
    "dot3 f3 f2 = 0" "dot3 f3 f1 = 0" "dot3 f1 f3 = 0"
    and c: "cross3 f1 f2 = f3" "cross3 f2 f3 = f1" "cross3 f3 f1 = f2"
    using f by (simp_all add: frame3_def dot3_commute)
  have x: "cross3 (lin2 a f1 b f2) (lin2 (- b) f1 a f2) = f3"
    unfolding cross3_lin2 c u by simp
  show ?thesis unfolding frame3_def x cross3_turned(1) [of b f1 a f2 f3] cross3_turned(2) [of f3 a f1 b f2] c
    using u by (simp add: dot3_lin2 d algebra_simps)
qed

lemma axis_angle_rodrigues:
  assumes a: "dot3 a a = 1"
  shows "mat_vec (axis_angle_to_rot a t) v =
    lin2 1 (lin2 (cos t) v (sin t) (cross3 a v)) ((1 - cos t) * dot3 a v) a"
proof (cases a; cases v)
  fix a1 a2 a3 v1 v2 v3
  assume e: "a = (a1, a2, a3)" "v = (v1, v2, v3)"
  have n: "a1 * a1 + a2 * a2 + a3 * a3 = 1" using a e by simp
  define C where "C = cos (t / 2)"
  define S where "S = sin (t / 2)"
  have u: "C\<^sup>2 + S\<^sup>2 = 1" by (simp add: C_def S_def)
  have ct: "cos t = C\<^sup>2 - S\<^sup>2" "sin t = 2 * S * C" unfolding C_def S_def by (rule half_angle)+
  show ?thesis
    unfolding e axis_angle_to_rot.simps Let_def C_def [symmetric] S_def [symmetric] quat2rot_single.simps
      mat_vec.simps dot3.simps cross3.simps lin2.simps ct prod.inject
    using n u by (intro conjI) algebra+
qed

lemma frame3_axis_turn:
  assumes f: "frame3 f1 f2 f3"
  shows "mat_vec (axis_angle_to_rot f3 t) f1 = lin2 (cos t) f1 (sin t) f2"
    "mat_vec (axis_angle_to_rot f3 t) f2 = lin2 (- sin t) f1 (cos t) f2"
    "mat_vec (axis_angle_to_rot f3 t) f3 = f3"
proof -
  have d: "dot3 f3 f3 = 1" "dot3 f3 f1 = 0" "dot3 f3 f2 = 0" and c: "cross3 f3 f1 = f2" "cross3 f2 f3 = f1"
    using f by (simp_all add: frame3_def dot3_commute)
  have c2: "cross3 f3 f2 = lin2 (- 1) f1 0 f1" using c(2) by (cases f1; cases f2; cases f3) auto
  have c3: "cross3 f3 f3 = lin2 0 f1 0 f1" by (cases f1; cases f3) simp
  show "mat_vec (axis_angle_to_rot f3 t) f1 = lin2 (cos t) f1 (sin t) f2"
    unfolding axis_angle_rodrigues [OF d(1)] d c by (cases f1; cases f2; cases f3) simp
  show "mat_vec (axis_angle_to_rot f3 t) f2 = lin2 (- sin t) f1 (cos t) f2"
    unfolding axis_angle_rodrigues [OF d(1)] d c2 by (cases f1; cases f2; cases f3) simp
  show "mat_vec (axis_angle_to_rot f3 t) f3 = f3"
    unfolding axis_angle_rodrigues [OF d(1)] d c3 by (cases f1; cases f3) (simp add: algebra_simps)
qed

text \<open>A vector in the coordinates of a frame.\<close>

lemma frame3_expand:
  assumes "frame3 f1 f2 f3"
  shows "v = lin2 1 (lin2 (dot3 v f1) f1 (dot3 v f2) f2) (dot3 v f3) f3"
proof (cases f1; cases f2; cases f3; cases v)
  fix a1 a2 a3 b1 b2 b3 c1 c2 c3 v1 v2 v3
  assume e: "f1 = (a1, a2, a3)" "f2 = (b1, b2, b3)" "f3 = (c1, c2, c3)" "v = (v1, v2, v3)"
  have h: "a1 * a1 + a2 * a2 + a3 * a3 = 1" "b1 * b1 + b2 * b2 + b3 * b3 = 1" "a1 * b1 + a2 * b2 + a3 * b3 = 0"
    and c: "c1 = a2 * b3 - a3 * b2" "c2 = a3 * b1 - a1 * b3" "c3 = a1 * b2 - a2 * b1"
    using assms e by (simp_all add: frame3_def)
  show ?thesis unfolding e dot3.simps lin2.simps c prod.inject
    using h by (intro conjI) algebra+
qed

lemma frame3_axes: "frame3 (1, 0, 0) (0, 1, 0) (0, 0, 1)"
  by (simp add: frame3_def)

lemma turned_axes_frame:
  assumes f: "frame3 x0 y0 z0"
  defines "x1 \<equiv> \<lambda>psi. lin2 (cos psi) x0 (sin psi) y0" and "y1 \<equiv> \<lambda>psi. lin2 (- sin psi) x0 (cos psi) y0"
  defines "x2 \<equiv> \<lambda>theta psi. lin2 (- sin theta) z0 (cos theta) (x1 psi)"
    and "z2 \<equiv> \<lambda>theta psi. lin2 (cos theta) z0 (sin theta) (x1 psi)"
  shows "frame3 (x2 theta psi) (y1 psi) (z2 theta psi)"
    "mat_vec (axis_angle_to_rot z0 psi) y0 = y1 psi" "mat_vec (axis_angle_to_rot (y1 psi) theta) z0 = z2 theta psi"
    "turned_axes x0 y0 z0 (phi, theta, psi) = (x2 theta psi, lin2 (cos phi) (y1 psi) (sin phi) (z2 theta psi))"
proof -
  have u: "cos t * cos t + sin t * sin t = 1" for t :: real
    using sin_cos_squared_add3 [of t] by simp
  have f1: "frame3 (x1 psi) (y1 psi) z0" unfolding x1_def y1_def by (rule frame3_turn [OF f u])
  have f1': "frame3 z0 (x1 psi) (y1 psi)" using f1 frame3_cycle by blast
  have f2: "frame3 (z2 theta psi) (x2 theta psi) (y1 psi)"
    unfolding z2_def x2_def by (rule frame3_turn [OF f1' u])
  then show f2': "frame3 (x2 theta psi) (y1 psi) (z2 theta psi)" by (rule frame3_cycle)
  show t1: "mat_vec (axis_angle_to_rot z0 psi) y0 = y1 psi" unfolding y1_def by (rule frame3_axis_turn(2) [OF f])
  have t2: "mat_vec (axis_angle_to_rot z0 psi) x0 = x1 psi" unfolding x1_def by (rule frame3_axis_turn(1) [OF f])
  note g = frame3_axis_turn [OF f1', of theta]
  show t3: "mat_vec (axis_angle_to_rot (y1 psi) theta) z0 = z2 theta psi" unfolding z2_def by (rule g(1))
  have t4: "mat_vec (axis_angle_to_rot (y1 psi) theta) (x1 psi) = x2 theta psi" unfolding x2_def by (rule g(2))
  have f3: "frame3 (y1 psi) (z2 theta psi) (x2 theta psi)" using f2' by (rule frame3_cycle)
  note h = frame3_axis_turn [OF f3, of phi]
  show "turned_axes x0 y0 z0 (phi, theta, psi) = (x2 theta psi, lin2 (cos phi) (y1 psi) (sin phi) (z2 theta psi))"
    unfolding turned_axes_def Let_def prod.case t1 t2 t4 g(3) h(1,3) by (rule refl)
qed

text \<open>
  The angles read off a turned frame reproduce it, with no exception at the vertical: the roll is
  read against the axes turned by the other two angles.
\<close>

lemma turned_axes_angles_against:
  assumes f: "frame3 x0 y0 z0" and a: "frame3 a b c"
  shows "turned_axes x0 y0 z0 (angles_against x0 y0 z0 (a, b)) = (a, b)"
proof -
  define psi where "psi = arctan2 (dot3 a y0) (dot3 a x0)"
  define r where "r = sqrt ((dot3 a x0)\<^sup>2 + (dot3 a y0)\<^sup>2)"
  define theta where "theta = arctan2 (- dot3 a z0) r"
  define x1 where "x1 = lin2 (cos psi) x0 (sin psi) y0"
  define y1 where "y1 = lin2 (- sin psi) x0 (cos psi) y0"
  define z2 where "z2 = lin2 (cos theta) z0 (sin theta) x1"
  define x2 where "x2 = lin2 (- sin theta) z0 (cos theta) x1"
  define phi where "phi = arctan2 (dot3 b z2) (dot3 b y1)"
  note fr = turned_axes_frame(1) [OF f, where psi = psi and theta = theta, folded x1_def y1_def, folded x2_def z2_def]
    turned_axes_frame(2) [OF f, where psi = psi, folded x1_def y1_def]
    turned_axes_frame(3,4) [OF f, where psi = psi and theta = theta, folded x1_def y1_def, folded x2_def z2_def]
  have ang: "angles_against x0 y0 z0 (a, b) = (phi, theta, psi)"
    unfolding angles_against_def Let_def prod.case psi_def [symmetric] r_def [symmetric] theta_def [symmetric]
      fr(2,3) phi_def by (rule refl)
  have ea: "a = lin2 1 (lin2 (dot3 a x0) x0 (dot3 a y0) y0) (dot3 a z0) z0" by (rule frame3_expand [OF f])
  have "dot3 a a = dot3 a x0 * dot3 a x0 + dot3 a y0 * dot3 a y0 + dot3 a z0 * dot3 a z0"
    by (subst (2) ea) (simp add: dot3_lin2)
  then have unit: "r\<^sup>2 + (- dot3 a z0)\<^sup>2 = 1"
    using a unfolding r_def by (simp add: frame3_def power2_eq_square)
  have th: "cos theta = r" "sin theta = - dot3 a z0" unfolding theta_def by (rule arctan2_unit [OF unit])+
  have ps: "r * cos psi = dot3 a x0" "r * sin psi = dot3 a y0"
    unfolding r_def psi_def by (rule arctan2_cos_sin)+
  have x2: "x2 = a"
    by (subst ea) (simp add: x2_def x1_def th ps [symmetric], cases x0; cases y0; cases z0; simp add: algebra_simps)
  have eb: "b = lin2 1 (lin2 (dot3 b x2) x2 (dot3 b y1) y1) (dot3 b z2) z2" by (rule frame3_expand [OF fr(1)])
  have ba: "dot3 b x2 = 0" using a unfolding x2 by (simp add: frame3_def dot3_commute)
  have "dot3 b b = dot3 b y1 * dot3 b y1 + dot3 b z2 * dot3 b z2"
    by (subst (2) eb) (simp add: dot3_lin2 ba)
  then have "(dot3 b y1)\<^sup>2 + (dot3 b z2)\<^sup>2 = 1" using a by (simp add: frame3_def power2_eq_square)
  then have ph: "cos phi = dot3 b y1" "sin phi = dot3 b z2" unfolding phi_def by (rule arctan2_unit)+
  have "lin2 (cos phi) y1 (sin phi) z2 = b"
    by (subst eb) (simp add: ph ba, cases x2; cases y1; cases z2; simp)
  then show ?thesis unfolding ang fr(4) [of phi] x2 by simp
qed

subsection \<open>Local coordinates\<close>

lemma ned2ecef_frame:
  "frame3 (- sin lat * cos lon, - sin lat * sin lon, cos lat) (- sin lon, cos lon, 0)
     (- cos lat * cos lon, - cos lat * sin lon, - sin lat)"
proof -
  have "(sin lat)\<^sup>2 + (cos lat)\<^sup>2 = 1" "(sin lon)\<^sup>2 + (cos lon)\<^sup>2 = 1" by simp_all
  then show ?thesis unfolding frame3_def dot3.simps cross3.simps prod.inject by (intro conjI; (algebra | (simp add: algebra_simps; fail)))
qed

fun mat_cols :: "vec3 \<Rightarrow> vec3 \<Rightarrow> vec3 \<Rightarrow> mat3" where
  "mat_cols a b c = transpose3 (a, b, c)"

lemma ned2ecef_cols:
  "ned2ecef_at lat lon = mat_cols (- sin lat * cos lon, - sin lat * sin lon, cos lat) (- sin lon, cos lon, 0)
     (- cos lat * cos lon, - cos lat * sin lon, - sin lat)"
  by (simp add: ned2ecef_at_def)

text \<open>A matrix whose columns are a frame, and its transpose, are inverse and keep inner products.\<close>

lemma transpose_cols: "transpose3 (mat_cols a b c) = (a, b, c)"
  by (cases a; cases b; cases c) simp

lemma mat_cols_vec: "mat_vec (mat_cols a b c) (u1, u2, u3) = lin2 1 (lin2 u1 a u2 b) u3 c"
  by (cases a; cases b; cases c) (simp add: algebra_simps)

lemma frame_isometry:
  assumes f: "frame3 a b c"
  shows "mat_vec (mat_cols a b c) (mat_vec (a, b, c) v) = v" "mat_vec (a, b, c) (mat_vec (mat_cols a b c) v) = v"
    "dot3 (mat_vec (a, b, c) u) (mat_vec (a, b, c) v) = dot3 u v"
proof -
  have e: "mat_vec (mat_cols a b c) (mat_vec (a, b, c) v) = v" for v
    using frame3_expand [OF f, of v] by (simp add: mat_cols_vec dot3_commute del: mat_cols.simps)
  show "mat_vec (mat_cols a b c) (mat_vec (a, b, c) v) = v" by (rule e)
  have d: "dot3 a a = 1" "dot3 b b = 1" "dot3 c c = 1" "dot3 a b = 0" "dot3 b a = 0" "dot3 b c = 0" "dot3 c b = 0"
    "dot3 c a = 0" "dot3 a c = 0" using f by (simp_all add: frame3_def dot3_commute)
  show "mat_vec (a, b, c) (mat_vec (mat_cols a b c) v) = v"
    by (cases v) (simp add: mat_cols_vec dot3_lin2 d del: mat_cols.simps)
  have "dot3 u v = dot3 u (mat_vec (mat_cols a b c) (mat_vec (a, b, c) v))" by (simp only: e)
  also have "\<dots> = dot3 (mat_vec (a, b, c) u) (mat_vec (a, b, c) v)"
    by (simp add: mat_cols_vec dot3_lin2 dot3_commute del: mat_cols.simps)
  finally show "dot3 (mat_vec (a, b, c) u) (mat_vec (a, b, c) v) = dot3 u v" by simp
qed

lemma fl_mat_vec_finite: "fl_mat_vec (fl_mat m) v = fl_vec (mat_vec m v)"
  by (cases m) (simp add: fl_dot_def)

lemma fl_vec_arith: "fl_add (fl_vec u) v = fl_vec (add3 u v)" "fl_sub (fl_vec u) v = fl_vec (sub3 u v)"
  by (cases u; cases v, simp)+

lemma fl_transpose_mat: "fl_transpose (fl_mat m) = fl_mat (transpose3 m)"
  by (cases m rule: transpose3.cases) simp

text \<open>The matrices of a place with a latitude come from one frame; else only the second column is finite.\<close>

lemma ned2ecef_matrix_cases:
  obtains (frame) a b c where "lat \<noteq> None" "frame3 a b c" "ned2ecef_matrix lat lon = fl_mat (mat_cols a b c)"
      "fl_transpose (ned2ecef_matrix lat lon) = fl_mat (a, b, c)"
  | (nan) x y z where "lat = None" "ned2ecef_matrix lat lon = ((None, x, None), (None, y, None), (None, z, None))"
proof (cases lat)
  case None
  then show thesis by (intro nan) (simp_all add: ned2ecef_matrix_def)
next
  case (Some l)
  show thesis
    by (rule frame [OF _ ned2ecef_frame [of "radians l" "radians lon"]])
      (simp_all only: Some ned2ecef_matrix_def option.case fl_transpose_mat ned2ecef_cols transpose_cols option.distinct not_False_eq_True)
qed

lemma LocalCoord_matrices:
  assumes "LocalCoord geodetic ecef = Inr lc"
  shows "\<exists>lat lon. lc_ned2ecef_matrix lc = ned2ecef_matrix lat lon \<and> lc_ecef2ned_matrix lc = fl_transpose (ned2ecef_matrix lat lon)"
proof (cases geodetic)
  case None
  then obtain q where q: "ecef = Some q" using assms by (cases ecef) (simp_all add: LocalCoord_def Let_def)
  obtain lat lon h where "ecef2geodetic_single q = (lat, lon, h)" by (cases "ecef2geodetic_single q")
  then have "lc_ned2ecef_matrix lc = ned2ecef_matrix lat lon" "lc_ecef2ned_matrix lc = fl_transpose (ned2ecef_matrix lat lon)"
    using assms None q by (auto simp: LocalCoord_def Let_def)
  then show ?thesis by blast
next
  case (Some g)
  then have "lc_ned2ecef_matrix lc = ned2ecef_matrix (Some (g ! 0)) (g ! 1)"
    "lc_ecef2ned_matrix lc = fl_transpose (ned2ecef_matrix (Some (g ! 0)) (g ! 1))"
    using assms by (auto simp: LocalCoord_def Let_def return_iff)
  then show ?thesis by blast
qed

lemma add3_sub3 [simp]: "add3 (sub3 u v) v = u" "sub3 (add3 u v) v = u"
  by (cases u; cases v, simp)+

lemma mat_vec_sub3: "mat_vec m (sub3 u v) = sub3 (mat_vec m u) (mat_vec m v)"
  by (cases m; cases u; cases v) (auto simp: algebra_simps)

lemma sub3_sub3: "sub3 (sub3 u w) (sub3 v w) = sub3 u v"
  by (cases u; cases v; cases w) simp

text \<open>
  Local coordinates at any origin with a latitude are inverse to each other and keep distances.
\<close>

theorem local_coordinates_isometry:
  assumes "LocalCoord geodetic ecef = Inr lc" "ned2ecef_single lc n = fl_vec p'" "q' = the (finite3 (ecef2ned_single lc q))"
  shows "ecef2ned_single lc p' = fl_vec n" "ned2ecef_single lc q' = fl_vec q"
    "dot3 (sub3 q' n) (sub3 q' n) = dot3 (sub3 q p') (sub3 q p')"
proof -
  obtain lat lon where m: "lc_ned2ecef_matrix lc = ned2ecef_matrix lat lon" "lc_ecef2ned_matrix lc = fl_transpose (ned2ecef_matrix lat lon)"
    using LocalCoord_matrices [OF assms(1)] by blast
  obtain a b c where f: "frame3 a b c" and m': "lc_ned2ecef_matrix lc = fl_mat (mat_cols a b c)" "lc_ecef2ned_matrix lc = fl_mat (a, b, c)"
  proof (cases rule: ned2ecef_matrix_cases [of lat lon])
    case frame
    then show ?thesis using that m by simp
  next
    case nan
    then have "finite3 (ned2ecef_single lc n) = None"
      unfolding ned2ecef_single_def m by (cases "lc_init_ecef lc") (simp add: fl_dot_def)
    then show ?thesis using assms(2) by simp
  qed
  note d = ned2ecef_single_def ecef2ned_single_def m' fl_mat_vec_finite fl_vec_arith
  have "fl_vec u = fl_vec v \<Longrightarrow> u = v" for u v by (cases u; cases v) simp
  then have p': "p' = add3 (mat_vec (mat_cols a b c) n) (lc_init_ecef lc)" using assms(2) unfolding d by metis
  have q': "q' = mat_vec (a, b, c) (sub3 q (lc_init_ecef lc))" using assms(3) unfolding d finite3_fl_vec by simp
  show p: "ecef2ned_single lc p' = fl_vec n" unfolding d p' by (simp only: frame_isometry [OF f] add3_sub3)
  show "ned2ecef_single lc q' = fl_vec q" unfolding d q' by (simp only: frame_isometry [OF f] add3_sub3)
  have "n = mat_vec (a, b, c) (sub3 p' (lc_init_ecef lc))" unfolding p' by (simp only: frame_isometry [OF f] add3_sub3)
  then have "sub3 q' n = mat_vec (a, b, c) (sub3 q p')"
    unfolding q' by (simp only: mat_vec_sub3 [symmetric] sub3_sub3)
  then show "dot3 (sub3 q' n) (sub3 q' n) = dot3 (sub3 q p') (sub3 q p')"
    by (simp only: frame_isometry(3) [OF f])
qed

subsection \<open>Euler angles in another frame\<close>

lemma euler2rot_cols:
  "euler2rot_single (phi, theta, psi) =
     mat_cols (cos theta * cos psi, cos theta * sin psi, - sin theta)
       (cos phi * - sin psi + sin phi * sin theta * cos psi, cos phi * cos psi + sin phi * sin theta * sin psi, sin phi * cos theta)
       (cross3 (cos theta * cos psi, cos theta * sin psi, - sin theta)
          (cos phi * - sin psi + sin phi * sin theta * cos psi, cos phi * cos psi + sin phi * sin theta * sin psi, sin phi * cos theta))"
proof -
  have "(sin theta)\<^sup>2 + (cos theta)\<^sup>2 = 1" "(sin psi)\<^sup>2 + (cos psi)\<^sup>2 = 1" by simp_all
  then show ?thesis unfolding euler2rot_entries mat_cols.simps cross3.simps transpose3.simps prod.inject
    by (intro conjI; (algebra | (simp add: algebra_simps; fail)))
qed

lemma turned_axes_rot:
  assumes f: "frame3 x0 y0 z0"
  obtains c1 c2 where "euler2rot_single e = mat_cols c1 c2 (cross3 c1 c2)" "frame3 c1 c2 (cross3 c1 c2)"
    "turned_axes x0 y0 z0 e = (mat_vec (mat_cols x0 y0 z0) c1, mat_vec (mat_cols x0 y0 z0) c2)"
proof (cases e)
  case (fields phi theta psi)
  have "(sin phi)\<^sup>2 + (cos phi)\<^sup>2 = 1" "(sin theta)\<^sup>2 + (cos theta)\<^sup>2 = 1" "(sin psi)\<^sup>2 + (cos psi)\<^sup>2 = 1"
    by simp_all
  then have fr: "frame3 (cos theta * cos psi, cos theta * sin psi, - sin theta)
       (cos phi * - sin psi + sin phi * sin theta * cos psi, cos phi * cos psi + sin phi * sin theta * sin psi, sin phi * cos theta)
       (cross3 (cos theta * cos psi, cos theta * sin psi, - sin theta)
         (cos phi * - sin psi + sin phi * sin theta * cos psi, cos phi * cos psi + sin phi * sin theta * sin psi, sin phi * cos theta))"
    unfolding frame3_def dot3.simps cross3.simps prod.inject by (intro conjI; (algebra | (simp add: algebra_simps; fail)))
  have ax: "turned_axes x0 y0 z0 e = (mat_vec (mat_cols x0 y0 z0) (cos theta * cos psi, cos theta * sin psi, - sin theta),
     mat_vec (mat_cols x0 y0 z0) (cos phi * - sin psi + sin phi * sin theta * cos psi,
       cos phi * cos psi + sin phi * sin theta * sin psi, sin phi * cos theta))"
    unfolding fields turned_axes_frame(4) [OF f] mat_cols_vec
    by (cases x0; cases y0; cases z0) (simp add: algebra_simps)
  show ?thesis by (rule that [OF _ fr ax]) (simp only: fields euler2rot_cols)
qed

lemma cross3_coordinates:
  assumes "frame3 a b c"
  shows "mat_vec (a, b, c) (cross3 u v) = cross3 (mat_vec (a, b, c) u) (mat_vec (a, b, c) v)"
proof -
  have "cross3 (mat_vec (a, b, c) u) (mat_vec (a, b, c) v) =
      (dot3 (cross3 b c) (cross3 u v), dot3 (cross3 c a) (cross3 u v), dot3 (cross3 a b) (cross3 u v))"
    by (cases a; cases b; cases c; cases u; cases v) (simp add: algebra_simps)
  then show ?thesis using assms by (simp add: frame3_def)
qed

lemma mat_mul_cols: "mat_mul m (mat_cols c1 c2 c3) = mat_cols (mat_vec m c1) (mat_vec m c2) (mat_vec m c3)"
  by (cases m; cases c1; cases c2; cases c3) (auto simp: mat_mul_def)

lemma converter_axes_frame:
  assumes "frame3 a b c" "lc_ned2ecef_matrix lc = fl_mat (mat_cols a b c)" "lc_init_ecef lc = p"
  shows "converter_axes lc p = Some (a, b, c)"
proof -
  have "mat_vec (mat_cols a b c) (1, 0, 0) = a" "mat_vec (mat_cols a b c) (0, 1, 0) = b" "mat_vec (mat_cols a b c) (0, 0, 1) = c"
    unfolding mat_cols_vec by (cases a; cases b; cases c, simp)+
  then show ?thesis
    unfolding converter_axes_def ned2ecef_single_def assms fl_mat_vec_finite fl_vec_arith add3_sub3 finite3_fl_vec
    by (simp del: mat_cols.simps)
qed

lemma converter_axes_nan:
  assumes "lc_ned2ecef_matrix lc = ((None, x, None), (None, y, None), (None, z, None))"
  shows "converter_axes lc p = None"
  unfolding converter_axes_def ned2ecef_single_def assms
  by (cases p; cases "lc_init_ecef lc") (simp add: fl_dot_def)

lemma LocalCoord_ecef:
  obtains lc where "LocalCoord None (Some p) = Inr lc" "lc_init_ecef lc = p"
    "lc_ned2ecef_matrix lc = ned2ecef_matrix (fst (ecef2geodetic_single p)) (fst (snd (ecef2geodetic_single p)))"
    "lc_ecef2ned_matrix lc = fl_transpose (ned2ecef_matrix (fst (ecef2geodetic_single p)) (fst (snd (ecef2geodetic_single p))))"
proof (cases "ecef2geodetic_single p")
  case (fields lat lon h)
  show thesis
    by (rule that [of "\<lparr>lc_init_ecef = p, lc_ned2ecef_matrix = ned2ecef_matrix lat lon,
      lc_ecef2ned_matrix = fl_transpose (ned2ecef_matrix lat lon)\<rparr>"]) (simp_all add: LocalCoord_def Let_def fields)
qed

text \<open>
  C40. The Euler angles that \<open>ned_euler_from_ecef_single\<close> constructs are, at every origin that has a
  latitude and for every pose, vertical ones included, those of the rotation matrix in the local
  frame; at an origin without one (as at the centre of the earth) they are NaN.
\<close>

theorem ned_euler_is_change_of_basis:
  "\<exists>lc. LocalCoord None (Some p) = Inr lc \<and>
     (case fst (ecef2geodetic_single p) of
        None \<Rightarrow> ned_euler_from_ecef_single p e = Inr None
      | Some lat \<Rightarrow>
          \<exists>m e'. lc_ecef2ned_matrix lc = fl_mat m \<and> ned_euler_from_ecef_single p e = Inr (Some e') \<and>
            euler2rot_single e' = mat_mul m (euler2rot_single e))"
proof -
  obtain lc where lc: "LocalCoord None (Some p) = Inr lc" "lc_init_ecef lc = p"
    "lc_ned2ecef_matrix lc = ned2ecef_matrix (fst (ecef2geodetic_single p)) (fst (snd (ecef2geodetic_single p)))"
    "lc_ecef2ned_matrix lc = fl_transpose (ned2ecef_matrix (fst (ecef2geodetic_single p)) (fst (snd (ecef2geodetic_single p))))"
    by (rule LocalCoord_ecef)
  show ?thesis
  proof (cases rule: ned2ecef_matrix_cases [of "fst (ecef2geodetic_single p)" "fst (snd (ecef2geodetic_single p))"])
    case (frame a b c)
    obtain c1 c2 where e: "euler2rot_single e = mat_cols c1 c2 (cross3 c1 c2)" "frame3 c1 c2 (cross3 c1 c2)"
      "turned_axes (1, 0, 0) (0, 1, 0) (0, 0, 1) e = (mat_vec (mat_cols (1, 0, 0) (0, 1, 0) (0, 0, 1)) c1, mat_vec (mat_cols (1, 0, 0) (0, 1, 0) (0, 0, 1)) c2)"
      by (rule turned_axes_rot [OF frame3_axes])
    have id: "mat_vec (mat_cols (1, 0, 0) (0, 1, 0) (0, 0, 1)) v = v" for v by (cases v) simp
    define e' where "e' = angles_against a b c (c1, c2)"
    obtain d1 d2 where e': "euler2rot_single e' = mat_cols d1 d2 (cross3 d1 d2)"
      "turned_axes a b c e' = (mat_vec (mat_cols a b c) d1, mat_vec (mat_cols a b c) d2)"
      by (rule turned_axes_rot [OF frame(2)])
    have "turned_axes a b c e' = (c1, c2)" unfolding e'_def by (rule turned_axes_angles_against [OF frame(2) e(2)])
    then have "c1 = mat_vec (mat_cols a b c) d1" "c2 = mat_vec (mat_cols a b c) d2" using e'(2) by simp_all
    then have d: "mat_vec (a, b, c) c1 = d1" "mat_vec (a, b, c) c2 = d2" using frame_isometry(2) [OF frame(2)] by simp_all
    have "euler2rot_single e' = mat_mul (a, b, c) (euler2rot_single e)"
      unfolding e'(1) e(1) mat_mul_cols cross3_coordinates [OF frame(2)] d by (rule refl)
    moreover have "lc_ecef2ned_matrix lc = fl_mat (a, b, c)" unfolding lc(4) by (rule frame(4))
    moreover have "lc_ned2ecef_matrix lc = fl_mat (mat_cols a b c)" unfolding lc(3) by (rule frame(3))
    then have "ned_euler_from_ecef_single p e = Inr (Some e')"
      unfolding ned_euler_from_ecef_single_def lc(1) bind_result_simps e(3) id e'_def
      using converter_axes_frame [OF frame(2) _ lc(2)] by simp
    ultimately have "\<exists>m e'. lc_ecef2ned_matrix lc = fl_mat m \<and> ned_euler_from_ecef_single p e = Inr (Some e') \<and>
        euler2rot_single e' = mat_mul m (euler2rot_single e)" by blast
    then show ?thesis using lc(1) frame(1) by (auto simp del: fl_mat.simps split: option.split)
  next
    case (nan x y z)
    have "ned_euler_from_ecef_single p e = Inr None"
      unfolding ned_euler_from_ecef_single_def lc(1) bind_result_simps converter_axes_nan [OF lc(3) [unfolded nan(2)]] by simp
    then show ?thesis using lc(1) nan(1) by simp
  qed
qed

text \<open>Origins on the equator have a latitude.\<close>

lemma equator_has_latitude: "fst (ecef2geodetic_single (earth_a, 0, 0)) = Some 0"
proof -
  have G: "earth_a\<^sup>2 - earth_esq * (earth_a\<^sup>2 - earth_b\<^sup>2) \<noteq> 0" "earth_a - earth_esq * earth_a \<noteq> 0" "earth_a \<noteq> 0"
    by (simp_all add: earth_a_def earth_b_def earth_esq_def power2_eq_square)
  have a: "0 \<le> earth_a" by (simp add: earth_a_def)
  show ?thesis using G a
    by (simp add: ecef2geodetic_single_def Let_def arctan_quotient_def degrees_def)
qed

end
