(* ===== verification/Calibration.thy ===== *)
theory Calibration
  imports Orientation Events_Table
begin

text \<open>
  The calibration of the camera mount, \<open>selfdrive/locationd/calibrationd.py\<close>: blocks of averaged
  angles, their status, the reset when they spread, and the message. A float that may be NaN is an
  option (infinite values are not modelled). The device type decides the limits of the pitch and is
  the argument \<open>mici\<close>; the stored parameter \<open>CalibrationParams\<close> is part of the state.

  The lemmas show that no frame fails on its indices, that every angle in use and published is
  within the limits, what the status \<open>calibrated\<close> stands for, that 500 good frames finish a
  calibration, and that a change of the mount does not make the angles jump.
\<close>

subsection \<open>Constants\<close>

type_synonym fl = "real option"

definition fl_less :: "fl \<Rightarrow> fl \<Rightarrow> bool" where
  "fl_less a b = (case (a, b) of (Some x, Some y) \<Rightarrow> x < y | _ \<Rightarrow> False)"

definition fl2 :: "(real \<Rightarrow> real \<Rightarrow> real) \<Rightarrow> fl \<Rightarrow> fl \<Rightarrow> fl" where
  "fl2 f a b = (case (a, b) of (Some x, Some y) \<Rightarrow> Some (f x y) | _ \<Rightarrow> None)"

definition MAX_VEL_ANGLE_STD :: real where "MAX_VEL_ANGLE_STD = radians (25 / 100)"
definition MAX_YAW_RATE_FILTER :: real where "MAX_YAW_RATE_FILTER = radians 2"
definition MAX_HEIGHT_STD :: real where "MAX_HEIGHT_STD = exp (- 35 / 10)"
definition SMOOTH_CYCLES :: real where "SMOOTH_CYCLES = 10"
definition BLOCK_SIZE :: nat where "BLOCK_SIZE = 100"
definition INPUTS_NEEDED :: nat where "INPUTS_NEEDED = 5"
definition INPUTS_WANTED :: nat where "INPUTS_WANTED = 50"
definition MAX_ALLOWED_YAW_SPREAD :: real where "MAX_ALLOWED_YAW_SPREAD = radians 2"
definition MAX_ALLOWED_PITCH_SPREAD :: real where "MAX_ALLOWED_PITCH_SPREAD = radians 4"
definition RPY_INIT :: vec3 where "RPY_INIT = (0, 0, 0)"
definition WIDE_FROM_DEVICE_EULER_INIT :: "fl \<times> fl \<times> fl" where "WIDE_FROM_DEVICE_EULER_INIT = (Some 0, Some 0, Some 0)"
definition HEIGHT_INIT :: fl where "HEIGHT_INIT = Some (122 / 100)"

definition PITCH_LIMITS :: "bool \<Rightarrow> real \<times> real" where
  "PITCH_LIMITS mici = (if mici then (- 0.143101, 0.22235988) else (- 0.09074112085129739, 0.17))"

definition YAW_LIMITS :: "real \<times> real" where
  "YAW_LIMITS = (- 0.06912048084718224, 0.06912048084718235)"

fun is_calibration_valid :: "bool \<Rightarrow> vec3 \<Rightarrow> bool" where
  "is_calibration_valid mici (r, p, y) =
     ((fst (PITCH_LIMITS mici) < p \<and> p < snd (PITCH_LIMITS mici)) \<and> (fst YAW_LIMITS < y \<and> y < snd YAW_LIMITS))"

text \<open>No angles (a NaN among them) stand for \<open>None\<close>.\<close>

definition sanity_clip :: "bool \<Rightarrow> vec3 option \<Rightarrow> vec3" where
  "sanity_clip mici rpy =
     (case (case rpy of None \<Rightarrow> RPY_INIT | Some v \<Rightarrow> v) of (r, p, y) \<Rightarrow>
        (r, np_clip p (fst (PITCH_LIMITS mici) - 5 / 1000) (snd (PITCH_LIMITS mici) + 5 / 1000),
         np_clip y (fst YAW_LIMITS - 5 / 1000) (snd YAW_LIMITS + 5 / 1000)))"

definition moving_avg_with_linear_decay :: "real \<Rightarrow> real \<Rightarrow> nat \<Rightarrow> real \<Rightarrow> real" where
  "moving_avg_with_linear_decay prev_mean new_val idx block_size =
     (real idx * prev_mean + (block_size - real idx) * new_val) / block_size"

fun map3 :: "('a \<Rightarrow> 'b \<Rightarrow> 'c) \<Rightarrow> 'a \<times> 'a \<times> 'a \<Rightarrow> 'b \<times> 'b \<times> 'b \<Rightarrow> 'c \<times> 'c \<times> 'c" where
  "map3 f (a1, a2, a3) (b1, b2, b3) = (f a1 b1, f a2 b2, f a3 b3)"

subsection \<open>State\<close>

text \<open>A published message; the stored parameter is one of them.\<close>

record live_calibration =
  lcal_valid :: bool
  lcal_validBlocks :: int
  lcal_calStatus :: cal_status
  lcal_calPerc :: int
  lcal_rpyCalib :: "fl \<times> fl \<times> fl"
  lcal_rpyCalibSpread :: vec3
  lcal_wideFromDeviceEuler :: "fl list"
  lcal_height :: "fl list"

record calibrator =
  ca_param_put :: bool
  ca_not_car :: bool
  ca_params :: "live_calibration option"  \<comment> \<open>\<open>CalibrationParams\<close>, readable\<close>
  ca_cal_status :: cal_status
  ca_rpy :: vec3
  ca_height :: fl
  ca_wide_from_device_euler :: "fl \<times> fl \<times> fl"
  ca_valid_blocks :: nat
  ca_rpys :: "vec3 list"
  ca_wide_from_device_eulers :: "(fl \<times> fl \<times> fl) list"
  ca_heights :: "fl list"
  ca_idx :: nat
  ca_block_idx :: nat
  ca_v_ego :: real
  ca_old_rpy :: vec3
  ca_old_rpy_weight :: real
  ca_calib_spread :: vec3

text \<open>The initial values come as the message has them: angles and lists that may hold NaN.\<close>

definition calib_reset ::
  "(fl \<times> fl \<times> fl) \<Rightarrow> int \<Rightarrow> fl list \<Rightarrow> fl list \<Rightarrow> vec3 option \<Rightarrow> calibrator \<Rightarrow> calibrator" where
  "calib_reset rpy_init valid_blocks wide_init height_init smooth_from c =
     (let rpy = (case finite3 rpy_init of None \<Rightarrow> RPY_INIT | Some v \<Rightarrow> v);
          height = (case height_init of [Some h] \<Rightarrow> Some h | _ \<Rightarrow> HEIGHT_INIT);
          wide = (case wide_init of [Some a, Some b, Some d] \<Rightarrow> (Some a, Some b, Some d) | _ \<Rightarrow> WIDE_FROM_DEVICE_EULER_INIT)
      in c\<lparr>ca_rpy := rpy, ca_height := height, ca_wide_from_device_euler := wide,
           ca_valid_blocks := (if valid_blocks < 0 then 0 else nat valid_blocks),
           ca_rpys := replicate INPUTS_WANTED rpy,
           ca_wide_from_device_eulers := replicate INPUTS_WANTED wide,
           ca_heights := replicate INPUTS_WANTED height,
           ca_idx := 0, ca_block_idx := 0, ca_v_ego := 0,
           ca_old_rpy := (case smooth_from of None \<Rightarrow> RPY_INIT | Some r \<Rightarrow> r),
           ca_old_rpy_weight := (case smooth_from of None \<Rightarrow> 0 | Some _ \<Rightarrow> 1)\<rparr>)"

definition get_valid_idxs :: "calibrator \<Rightarrow> nat list" where
  "get_valid_idxs c =
     [0..<ca_block_idx c] @ [min (ca_valid_blocks c) (ca_block_idx c + 1)..<ca_valid_blocks c]"

definition get_smooth_rpy :: "calibrator \<Rightarrow> vec3" where
  "get_smooth_rpy c =
     (if ca_old_rpy_weight c > 0
      then map3 (\<lambda>old new. ca_old_rpy_weight c * old + (1 - ca_old_rpy_weight c) * new) (ca_old_rpy c) (ca_rpy c)
      else ca_rpy c)"

fun list3 :: "'a \<times> 'a \<times> 'a \<Rightarrow> 'a list" where
  "list3 (a, b, c) = [a, b, c]"

definition calib_get_msg :: "bool \<Rightarrow> calibrator \<Rightarrow> live_calibration" where
  "calib_get_msg valid c =
     (let msg = \<lparr>lcal_valid = valid, lcal_validBlocks = int (ca_valid_blocks c), lcal_calStatus = ca_cal_status c,
        lcal_calPerc = min (100 * (int (ca_valid_blocks c) * int BLOCK_SIZE + int (ca_idx c)) div (int INPUTS_NEEDED * int BLOCK_SIZE)) 100,
        lcal_rpyCalib = fl_vec (get_smooth_rpy c), lcal_rpyCalibSpread = ca_calib_spread c,
        lcal_wideFromDeviceEuler = list3 (ca_wide_from_device_euler c), lcal_height = [ca_height c]\<rparr>
      in if ca_not_car c
         then msg\<lparr>lcal_validBlocks := int INPUTS_NEEDED, lcal_calStatus := CAL_calibrated, lcal_calPerc := 100,
                  lcal_rpyCalib := (Some 0, Some 0, Some 0), lcal_rpyCalibSpread := ca_calib_spread c\<rparr>
         else msg)"

subsection \<open>The status\<close>

definition rows_at :: "'a list \<Rightarrow> nat list \<Rightarrow> py_error + 'a list" where
  "rows_at rows idxs = (if \<forall>i\<in>set idxs. i < length rows then Inr (map ((!) rows) idxs) else Inl IndexError)"

definition mean :: "real list \<Rightarrow> real" where "mean xs = sum_list xs / real (length xs)"

definition fl_mean :: "fl list \<Rightarrow> fl" where
  "fl_mean xs = (if None \<in> set xs then None else Some (mean (map the xs)))"

definition cols3 :: "('a list \<Rightarrow> 'b) \<Rightarrow> ('a \<times> 'a \<times> 'a) list \<Rightarrow> 'b \<times> 'b \<times> 'b" where
  "cols3 f rows = (f (map fst rows), f (map (fst \<circ> snd) rows), f (map (snd \<circ> snd) rows))"

definition spread :: "real list \<Rightarrow> real" where
  "spread xs = \<bar>Max (set xs) - Min (set xs)\<bar>"

definition calib_average :: "calibrator \<Rightarrow> py_error + calibrator" where
  "calib_average c =
     (let valid_idxs = get_valid_idxs c
      in if valid_idxs \<noteq> [] then
           bind_result (rows_at (ca_wide_from_device_eulers c) valid_idxs) (\<lambda>wides.
           bind_result (rows_at (ca_heights c) valid_idxs) (\<lambda>heights.
           bind_result (rows_at (ca_rpys c) valid_idxs) (\<lambda>rpys.
           Inr (c\<lparr>ca_wide_from_device_euler := cols3 fl_mean wides, ca_height := fl_mean heights,
                  ca_rpy := cols3 mean rpys, ca_calib_spread := cols3 spread rpys\<rparr>))))
         else Inr (c\<lparr>ca_calib_spread := (0, 0, 0)\<rparr>))"

definition calib_classify :: "bool \<Rightarrow> calibrator \<Rightarrow> calibrator" where
  "calib_classify mici c =
     c\<lparr>ca_cal_status :=
        (if ca_valid_blocks c < INPUTS_NEEDED then
           (if ca_cal_status c = CAL_recalibrating then CAL_recalibrating else CAL_uncalibrated)
         else if is_calibration_valid mici (ca_rpy c) then CAL_calibrated
         else CAL_invalid)\<rparr>"

definition spread_too_high :: "calibrator \<Rightarrow> bool" where
  "spread_too_high c \<longleftrightarrow>
     (case ca_calib_spread c of (_, p, y) \<Rightarrow> p > MAX_ALLOWED_PITCH_SPREAD \<or> y > MAX_ALLOWED_YAW_SPREAD)"

text \<open>\<open>rpys[block_idx - 1]\<close>: Python's index \<open>-1\<close> is the last row.\<close>

definition last_block :: "calibrator \<Rightarrow> py_error + vec3" where
  "last_block c =
     (let n = length (ca_rpys c)
      in if ca_block_idx c = 0 then py_index (ca_rpys c) (n - 1) else py_index (ca_rpys c) (ca_block_idx c - 1))"

definition calib_restart :: "calibrator \<Rightarrow> py_error + calibrator" where
  "calib_restart c =
     (if spread_too_high c \<and> ca_cal_status c = CAL_calibrated then
        bind_result (last_block c) (\<lambda>r.
          Inr ((calib_reset (fl_vec r) 1 (list3 WIDE_FROM_DEVICE_EULER_INIT) [HEIGHT_INIT] (Some (ca_rpy c)) c)
                 \<lparr>ca_cal_status := CAL_recalibrating\<rparr>))
      else Inr c)"

definition calib_save :: "calibrator \<Rightarrow> calibrator" where
  "calib_save c =
     (let write_this_cycle = (ca_idx c = 0 \<and> ca_block_idx c mod (INPUTS_WANTED div 5) = 5)
      in if ca_param_put c \<and> write_this_cycle then c\<lparr>ca_params := Some (calib_get_msg True c)\<rparr> else c)"

definition update_status :: "bool \<Rightarrow> calibrator \<Rightarrow> py_error + calibrator" where
  "update_status mici c =
     bind_result (calib_average c) (\<lambda>c.
     bind_result (calib_restart (calib_classify mici c)) (\<lambda>c.
     Inr (calib_save c)))"

definition Calibrator :: "bool \<Rightarrow> bool \<Rightarrow> live_calibration option \<Rightarrow> py_error + calibrator" where
  "Calibrator mici param_put params =
     (let c = \<lparr>ca_param_put = param_put, ca_not_car = False, ca_params = params, ca_cal_status = CAL_uncalibrated,
             ca_rpy = RPY_INIT, ca_height = HEIGHT_INIT, ca_wide_from_device_euler = WIDE_FROM_DEVICE_EULER_INIT,
             ca_valid_blocks = 0, ca_rpys = [], ca_wide_from_device_eulers = [], ca_heights = [],
             ca_idx = 0, ca_block_idx = 0, ca_v_ego = 0, ca_old_rpy = RPY_INIT, ca_old_rpy_weight = 0,
             ca_calib_spread = (0, 0, 0)\<rparr>
      in update_status mici
           (case (if param_put then params else None) of
              Some m \<Rightarrow> calib_reset (lcal_rpyCalib m) (lcal_validBlocks m) (lcal_wideFromDeviceEuler m) (lcal_height m) None c
            | None \<Rightarrow> calib_reset (fl_vec RPY_INIT) 0 (list3 WIDE_FROM_DEVICE_EULER_INIT) [HEIGHT_INIT] None c))"

subsection \<open>A camera odometry\<close>

record cam_odom =
  od_trans :: "fl list"
  od_rot :: "fl list"
  od_wide_from_device_euler :: "fl list"
  od_trans_std :: "fl list"
  od_road_transform_trans :: "fl list"
  od_road_transform_trans_std :: "fl list"

definition handle_v_ego :: "real \<Rightarrow> calibrator \<Rightarrow> calibrator" where
  "handle_v_ego v_ego c = c\<lparr>ca_v_ego := v_ego\<rparr>"

definition straight_and_fast :: "calibrator \<Rightarrow> cam_odom \<Rightarrow> py_error + bool" where
  "straight_and_fast c od =
     (if ca_v_ego c > MIN_SPEED_FILTER then
        bind_result (py_index (od_trans od) 0) (\<lambda>t0.
        if fl_less (Some MIN_SPEED_FILTER) t0 then
          bind_result (py_index (od_rot od) 2) (\<lambda>r2. Inr (fl_less (map_option abs r2) (Some MAX_YAW_RATE_FILTER)))
        else Inr False)
      else Inr False)"

definition certain_if_calib :: "calibrator \<Rightarrow> cam_odom \<Rightarrow> py_error + bool" where
  "certain_if_calib c od =
     bind_result (py_index (od_trans_std od) 1) (\<lambda>s1.
     bind_result (py_index (od_trans od) 0) (\<lambda>t0.
     let rpy_certain = fl_less (fl2 arctan2 s1 t0) (Some MAX_VEL_ANGLE_STD);
         height_certain = (if length (od_road_transform_trans_std od) = 3
                           then fl_less (od_road_transform_trans_std od ! 2) (Some MAX_HEIGHT_STD) else True)
     in Inr (rpy_certain \<and> height_certain \<or> ca_valid_blocks c < INPUTS_NEEDED)))"

text \<open>
  The observed angles in the frame of the device; a NaN among them makes every entry of the product
  of matrices, and so all angles, NaN.
\<close>

definition observed_rpy :: "cam_odom \<Rightarrow> py_error + vec3 option" where
  "observed_rpy od =
     bind_result (py_index (od_trans od) 2) (\<lambda>t2.
     bind_result (py_index (od_trans od) 0) (\<lambda>t0.
     bind_result (py_index (od_trans od) 1) (\<lambda>t1.
     Inr (finite3 (Some 0, map_option uminus (fl2 arctan2 t2 t0), fl2 arctan2 t1 t0)))))"

definition calib_new_rpy :: "bool \<Rightarrow> calibrator \<Rightarrow> vec3 option \<Rightarrow> vec3" where
  "calib_new_rpy mici c observed =
     sanity_clip mici
       (map_option (\<lambda>o3. rot2euler_single (mat_mul (euler2rot_single (get_smooth_rpy c)) (euler2rot_single o3))) observed)"

definition calib_store ::
  "vec3 \<Rightarrow> cam_odom \<Rightarrow> calibrator \<Rightarrow> py_error + calibrator" where
  "calib_store new_rpy od c =
     (let new_wide = (case od_wide_from_device_euler od of [a, b, d] \<Rightarrow> (a, b, d) | _ \<Rightarrow> WIDE_FROM_DEVICE_EULER_INIT);
          new_height = (case od_road_transform_trans od of [_, _, h] \<Rightarrow> h | _ \<Rightarrow> HEIGHT_INIT);
          avg = (\<lambda>old new. moving_avg_with_linear_decay old new (ca_idx c) (real BLOCK_SIZE));
          k = ca_block_idx c
      in bind_result (py_index (ca_rpys c) k) (\<lambda>r.
         bind_result (py_index (ca_wide_from_device_eulers c) k) (\<lambda>w.
         bind_result (py_index (ca_heights c) k) (\<lambda>h.
         Inr (c\<lparr>ca_rpys := (ca_rpys c)[k := map3 avg r new_rpy],
                ca_wide_from_device_eulers := (ca_wide_from_device_eulers c)[k := map3 (fl2 avg) w new_wide],
                ca_heights := (ca_heights c)[k := fl2 avg h new_height]\<rparr>)))))"

definition calib_advance :: "calibrator \<Rightarrow> calibrator" where
  "calib_advance c =
     (let idx = (ca_idx c + 1) mod BLOCK_SIZE
      in if idx = 0 then
           c\<lparr>ca_idx := idx, ca_valid_blocks := max (ca_block_idx c + 1) (ca_valid_blocks c),
             ca_block_idx := (ca_block_idx c + 1) mod INPUTS_WANTED\<rparr>
         else c\<lparr>ca_idx := idx\<rparr>)"

definition handle_cam_odom :: "bool \<Rightarrow> cam_odom \<Rightarrow> calibrator \<Rightarrow> py_error + (calibrator \<times> vec3 option)" where
  "handle_cam_odom mici od c0 =
     (let c = c0\<lparr>ca_old_rpy_weight := max 0 (ca_old_rpy_weight c0 - 1 / SMOOTH_CYCLES)\<rparr>
      in bind_result (straight_and_fast c od) (\<lambda>fast.
         bind_result (certain_if_calib c od) (\<lambda>certain.
         if \<not> (fast \<and> certain) then Inr (c, None)
         else
           bind_result (observed_rpy od) (\<lambda>observed.
           let new_rpy = calib_new_rpy mici c observed
           in bind_result (calib_store new_rpy od c) (\<lambda>c.
              bind_result (update_status mici (calib_advance c)) (\<lambda>c.
              Inr (c, Some new_rpy)))))))"

subsection \<open>The loop\<close>

record calib_frame =
  cf_sm_frame :: int
  cf_odometry :: "cam_odom option"  \<comment> \<open>when \<open>cameraOdometry\<close> is updated and valid\<close>
  cf_v_ego :: real
  cf_all_checks :: bool

definition calib_step :: "bool \<Rightarrow> calib_frame \<Rightarrow> calibrator \<Rightarrow> py_error + (calibrator \<times> live_calibration option)" where
  "calib_step mici f c =
     bind_result
       (case cf_odometry f of
          None \<Rightarrow> Inr c
        | Some od \<Rightarrow> bind_result (handle_cam_odom mici od (handle_v_ego (cf_v_ego f) c)) (\<lambda>(c, _). Inr c))
       (\<lambda>c. Inr (c, if cf_sm_frame f mod 5 = 0 then Some (calib_get_msg (cf_all_checks f) c) else None))"

fun calib_run :: "bool \<Rightarrow> calib_frame list \<Rightarrow> calibrator \<Rightarrow> py_error + calibrator" where
  "calib_run mici [] c = Inr c"
| "calib_run mici (f # fs) c = bind_result (calib_step mici f c) (\<lambda>(c, _). calib_run mici fs c)"

subsection \<open>Angles within the limits\<close>

fun mount_ok :: "bool \<Rightarrow> vec3 \<Rightarrow> bool" where
  "mount_ok mici (r, p, y) \<longleftrightarrow>
     fst (PITCH_LIMITS mici) - 5 / 1000 \<le> p \<and> p \<le> snd (PITCH_LIMITS mici) + 5 / 1000 \<and>
     fst YAW_LIMITS - 5 / 1000 \<le> y \<and> y \<le> snd YAW_LIMITS + 5 / 1000"

named_theorems calib_defs \<open>the operations of the calibrator that cannot fail\<close>
declare calib_reset_def [calib_defs] calib_classify_def [calib_defs] calib_save_def [calib_defs] calib_advance_def [calib_defs]

lemma convex_between:
  fixes a :: real
  assumes "0 \<le> a" "a \<le> 1"
  shows "lo \<le> x \<Longrightarrow> lo \<le> y \<Longrightarrow> lo \<le> a * x + (1 - a) * y" "x \<le> hi \<Longrightarrow> y \<le> hi \<Longrightarrow> a * x + (1 - a) * y \<le> hi"
proof -
  assume "lo \<le> x" "lo \<le> y"
  then have "a * lo + (1 - a) * lo \<le> a * x + (1 - a) * y" using assms by (intro add_mono mult_left_mono) auto
  then show "lo \<le> a * x + (1 - a) * y" by (simp add: algebra_simps)
next
  assume "x \<le> hi" "y \<le> hi"
  then have "a * x + (1 - a) * y \<le> a * hi + (1 - a) * hi" using assms by (intro add_mono mult_left_mono) auto
  then show "a * x + (1 - a) * y \<le> hi" by (simp add: algebra_simps)
qed

lemma mount_ok_convex:
  assumes "0 \<le> a" "a \<le> 1" "mount_ok mici u" "mount_ok mici v"
  shows "mount_ok mici (map3 (\<lambda>x y. a * x + (1 - a) * y) u v)"
  using assms by (cases u; cases v) (simp add: convex_between)

lemma moving_avg_convex:
  "moving_avg_with_linear_decay x y idx (real BLOCK_SIZE) = real idx / 100 * x + (1 - real idx / 100) * y"
  by (simp add: moving_avg_with_linear_decay_def BLOCK_SIZE_def field_simps)

lemma mount_ok_moving_avg:
  assumes "idx < BLOCK_SIZE" "mount_ok mici u" "mount_ok mici v"
  shows "mount_ok mici (map3 (\<lambda>x y. moving_avg_with_linear_decay x y idx (real BLOCK_SIZE)) u v)"
  unfolding moving_avg_convex using assms by (intro mount_ok_convex) (auto simp: BLOCK_SIZE_def)

lemma limits_order: "fst (PITCH_LIMITS mici) < 0" "0 < snd (PITCH_LIMITS mici)" "fst YAW_LIMITS < 0" "0 < snd YAW_LIMITS"
  by (simp_all add: PITCH_LIMITS_def YAW_LIMITS_def)

lemma mount_ok_init: "mount_ok mici RPY_INIT"
  using limits_order(1,2) [of mici] limits_order(3,4) by (simp add: RPY_INIT_def)

lemma sanity_clip_within: "mount_ok mici (sanity_clip mici v)"
proof -
  have "lo \<le> np_clip x lo hi \<and> np_clip x lo hi \<le> hi" if "lo \<le> hi" for x lo hi :: real
    using that by (auto simp: np_clip_def)
  from this [of "fst (PITCH_LIMITS mici) - 5 / 1000" "snd (PITCH_LIMITS mici) + 5 / 1000"]
    this [of "fst YAW_LIMITS - 5 / 1000" "snd YAW_LIMITS + 5 / 1000"] limits_order(1,2) [of mici] limits_order(3,4)
  show ?thesis by (auto simp: sanity_clip_def split: prod.splits)
qed

lemma mean_between:
  assumes "xs \<noteq> []" "\<And>x. x \<in> set xs \<Longrightarrow> lo \<le> x \<and> x \<le> hi"
  shows "lo \<le> mean xs \<and> mean xs \<le> hi"
proof -
  have "real (length xs) * lo \<le> sum_list xs \<and> sum_list xs \<le> real (length xs) * hi"
    using assms(2) by (induction xs) (auto simp: algebra_simps intro: add_mono)
  then show ?thesis using assms(1) by (simp add: mean_def field_simps)
qed

lemma mount_ok_mean:
  assumes "rows \<noteq> []" "\<And>r. r \<in> set rows \<Longrightarrow> mount_ok mici r"
  shows "mount_ok mici (cols3 mean rows)"
proof -
  have *: "mount_ok mici (fst r, fst (snd r), snd (snd r))" if "r \<in> set rows" for r using assms(2) [OF that] by simp
  have p: "fst (PITCH_LIMITS mici) - 5 / 1000 \<le> mean (map (fst \<circ> snd) rows) \<and>
      mean (map (fst \<circ> snd) rows) \<le> snd (PITCH_LIMITS mici) + 5 / 1000"
    by (rule mean_between) (use * assms(1) in auto)
  have y: "fst YAW_LIMITS - 5 / 1000 \<le> mean (map (snd \<circ> snd) rows) \<and>
      mean (map (snd \<circ> snd) rows) \<le> snd YAW_LIMITS + 5 / 1000"
    by (rule mean_between) (use * assms(1) in auto)
  show ?thesis unfolding cols3_def mount_ok.simps using p y by simp
qed

subsection \<open>The invariant\<close>

text \<open>What a calibrator keeps: sizes and counts, angles in the limits, and the grounds of its status.\<close>

definition calib_sizes :: "calibrator \<Rightarrow> bool" where
  "calib_sizes c \<longleftrightarrow>
     length (ca_rpys c) = INPUTS_WANTED \<and> length (ca_wide_from_device_eulers c) = INPUTS_WANTED \<and>
     length (ca_heights c) = INPUTS_WANTED \<and> ca_valid_blocks c \<le> INPUTS_WANTED \<and>
     ca_block_idx c < INPUTS_WANTED \<and> ca_block_idx c \<le> ca_valid_blocks c \<and> ca_idx c < BLOCK_SIZE"

definition calib_angles :: "bool \<Rightarrow> calibrator \<Rightarrow> bool" where
  "calib_angles mici c \<longleftrightarrow>
     (\<forall>r\<in>set (ca_rpys c). mount_ok mici r) \<and> mount_ok mici (ca_rpy c) \<and> mount_ok mici (ca_old_rpy c) \<and>
     0 \<le> ca_old_rpy_weight c \<and> ca_old_rpy_weight c \<le> 1"

definition calib_earned :: "bool \<Rightarrow> calibrator \<Rightarrow> bool" where
  "calib_earned mici c \<longleftrightarrow>
     (ca_cal_status c = CAL_calibrated \<longrightarrow>
        INPUTS_NEEDED \<le> ca_valid_blocks c \<and> is_calibration_valid mici (ca_rpy c) \<and> \<not> spread_too_high c)"

definition calib_ok :: "bool \<Rightarrow> calibrator \<Rightarrow> bool" where
  "calib_ok mici c \<longleftrightarrow> calib_sizes c \<and> calib_angles mici c \<and> calib_earned mici c"

lemma smooth_rpy_within: "calib_angles mici c \<Longrightarrow> mount_ok mici (get_smooth_rpy c)"
  by (auto simp: calib_angles_def get_smooth_rpy_def mount_ok_convex)

lemma rows_at_Inr: "(\<And>i. i \<in> set idxs \<Longrightarrow> i < length rows) \<Longrightarrow> rows_at rows idxs = Inr (map ((!) rows) idxs)"
  by (simp add: rows_at_def)

lemma calib_reset_ok:
  assumes "0 \<le> vb" "vb \<le> int INPUTS_WANTED" "\<And>v. finite3 r = Some v \<Longrightarrow> mount_ok mici v"
    "\<And>v. sf = Some v \<Longrightarrow> mount_ok mici v"
  shows "calib_sizes (calib_reset r vb w h sf c) \<and> calib_angles mici (calib_reset r vb w h sf c)"
proof -
  have "mount_ok mici (case finite3 r of None \<Rightarrow> RPY_INIT | Some v \<Rightarrow> v)"
    using assms(3) mount_ok_init by (cases "finite3 r") auto
  moreover have "mount_ok mici (case sf of None \<Rightarrow> RPY_INIT | Some v \<Rightarrow> v)"
    using assms(4) mount_ok_init by (cases sf) auto
  ultimately show ?thesis using assms(1,2)
    by (auto simp: calib_reset_def Let_def calib_sizes_def calib_angles_def BLOCK_SIZE_def nat_le_iff
      INPUTS_WANTED_def split: option.splits)
qed

lemma calib_average_ok:
  assumes s: "calib_sizes c" and a: "calib_angles mici c"
  shows "\<exists>c'. calib_average c = Inr c' \<and> calib_sizes c' \<and> calib_angles mici c' \<and>
    ca_cal_status c' = ca_cal_status c \<and> ca_valid_blocks c' = ca_valid_blocks c"
proof (cases "get_valid_idxs c = []")
  case True
  then show ?thesis using s a by (simp add: calib_average_def Let_def calib_sizes_def calib_angles_def)
next
  case False
  have lt: "i < INPUTS_WANTED" if "i \<in> set (get_valid_idxs c)" for i
    using that s by (auto simp: get_valid_idxs_def calib_sizes_def)
  let ?rows = "map ((!) (ca_rpys c)) (get_valid_idxs c)"
  have "mount_ok mici (cols3 mean ?rows)"
    by (rule mount_ok_mean) (use False lt s a in \<open>auto simp: calib_sizes_def calib_angles_def\<close>)
  moreover have "rows_at (ca_rpys c) (get_valid_idxs c) = Inr ?rows"
    "rows_at (ca_wide_from_device_eulers c) (get_valid_idxs c) = Inr (map ((!) (ca_wide_from_device_eulers c)) (get_valid_idxs c))"
    "rows_at (ca_heights c) (get_valid_idxs c) = Inr (map ((!) (ca_heights c)) (get_valid_idxs c))"
    by (rule rows_at_Inr, use lt s in \<open>simp add: calib_sizes_def\<close>)+
  ultimately show ?thesis using False s a by (simp add: calib_average_def Let_def calib_sizes_def calib_angles_def)
qed

lemma calib_classify_earned:
  "ca_cal_status (calib_classify mici c) = CAL_calibrated \<Longrightarrow>
    INPUTS_NEEDED \<le> ca_valid_blocks c \<and> is_calibration_valid mici (ca_rpy c)"
  by (auto simp: calib_classify_def split: if_splits)

lemma calib_classify_same [simp]:
  "calib_sizes (calib_classify mici c) = calib_sizes c" "calib_angles mici' (calib_classify mici c) = calib_angles mici' c"
  "ca_rpy (calib_classify mici c) = ca_rpy c" "ca_rpys (calib_classify mici c) = ca_rpys c"
  "ca_valid_blocks (calib_classify mici c) = ca_valid_blocks c" "ca_block_idx (calib_classify mici c) = ca_block_idx c"
  "spread_too_high (calib_classify mici c) = spread_too_high c"
  by (simp_all add: calib_classify_def calib_sizes_def calib_angles_def spread_too_high_def)

lemma last_block_ok:
  assumes "calib_sizes c"
  shows "\<exists>r\<in>set (ca_rpys c). last_block c = Inr r"
  using assms by (auto simp: last_block_def Let_def py_index_def calib_sizes_def INPUTS_WANTED_def)

lemma calib_restart_ok:
  assumes s: "calib_sizes c" and a: "calib_angles mici c"
    and e: "ca_cal_status c = CAL_calibrated \<Longrightarrow> INPUTS_NEEDED \<le> ca_valid_blocks c \<and> is_calibration_valid mici (ca_rpy c)"
  shows "\<exists>c'. calib_restart c = Inr c' \<and> calib_ok mici c'"
proof (cases "spread_too_high c \<and> ca_cal_status c = CAL_calibrated")
  case True
  obtain r where r: "r \<in> set (ca_rpys c)" "last_block c = Inr r" using last_block_ok [OF s] by blast
  have "calib_sizes (calib_reset (fl_vec r) 1 (list3 WIDE_FROM_DEVICE_EULER_INIT) [HEIGHT_INIT] (Some (ca_rpy c)) c) \<and>
      calib_angles mici (calib_reset (fl_vec r) 1 (list3 WIDE_FROM_DEVICE_EULER_INIT) [HEIGHT_INIT] (Some (ca_rpy c)) c)"
    by (rule calib_reset_ok) (use a r in \<open>auto simp: calib_angles_def INPUTS_WANTED_def\<close>)
  then show ?thesis using True r by (simp add: calib_restart_def calib_ok_def calib_earned_def calib_sizes_def calib_angles_def)
next
  case False
  then show ?thesis using s a e by (auto simp: calib_restart_def calib_ok_def calib_earned_def)
qed

lemma calib_save_same [simp]: "calib_ok mici (calib_save c) = calib_ok mici c"
  by (simp add: calib_save_def Let_def calib_ok_def calib_sizes_def calib_angles_def calib_earned_def spread_too_high_def)

lemma update_status_ok:
  assumes "calib_sizes c" "calib_angles mici c"
  shows "\<exists>c'. update_status mici c = Inr c' \<and> calib_ok mici c'"
proof -
  obtain c1 where c1: "calib_average c = Inr c1" "calib_sizes c1" "calib_angles mici c1"
    using calib_average_ok [OF assms] by blast
  have "\<exists>c2. calib_restart (calib_classify mici c1) = Inr c2 \<and> calib_ok mici c2"
    by (rule calib_restart_ok) (use c1 calib_classify_earned [of mici c1] in auto)
  then show ?thesis using c1(1) by (auto simp: update_status_def)
qed

text \<open>Messages carry the translation with its deviation and the rotation.\<close>

definition complete_odom :: "cam_odom \<Rightarrow> bool" where
  "complete_odom od \<longleftrightarrow> 3 \<le> length (od_trans od) \<and> 3 \<le> length (od_rot od) \<and> 2 \<le> length (od_trans_std od)"

lemma complete_odom_reads:
  assumes "complete_odom od"
  shows "\<exists>b. straight_and_fast c od = Inr b" "\<exists>b. certain_if_calib c od = Inr b" "\<exists>v. observed_rpy od = Inr v"
  using assms
  by (auto simp: complete_odom_def straight_and_fast_def certain_if_calib_def observed_rpy_def py_index_def Let_def)

lemma calib_store_ok:
  assumes "calib_sizes c" "calib_angles mici c" "mount_ok mici v"
  shows "\<exists>c'. calib_store v od c = Inr c' \<and> calib_sizes c' \<and> calib_angles mici c' \<and>
    ca_idx c' = ca_idx c \<and> ca_block_idx c' = ca_block_idx c \<and> ca_valid_blocks c' = ca_valid_blocks c \<and>
    ca_cal_status c' = ca_cal_status c \<and> ca_v_ego c' = ca_v_ego c"
proof -
  have k: "ca_block_idx c < INPUTS_WANTED" and i: "ca_idx c < BLOCK_SIZE" using assms(1) by (simp_all add: calib_sizes_def)
  then have "mount_ok mici (ca_rpys c ! ca_block_idx c)" using assms(1,2) by (simp add: calib_sizes_def calib_angles_def)
  then have "mount_ok mici (map3 (\<lambda>x y. moving_avg_with_linear_decay x y (ca_idx c) (real BLOCK_SIZE)) (ca_rpys c ! ca_block_idx c) v)"
    using mount_ok_moving_avg i assms(3) by blast
  then show ?thesis using assms(1,2) k
    by (auto simp: calib_store_def Let_def py_index_def calib_sizes_def calib_angles_def dest: set_update_subset_insert [THEN subsetD])
qed

lemma calib_advance_ok:
  assumes "calib_sizes c" "calib_angles mici c"
  shows "calib_sizes (calib_advance c)" "calib_angles mici (calib_advance c)"
proof -
  show "calib_angles mici (calib_advance c)" using assms(2) by (simp add: calib_advance_def Let_def calib_angles_def)
  have "(ca_block_idx c + 1) mod INPUTS_WANTED \<le> ca_block_idx c + 1" by (rule mod_less_eq_dividend)
  then show "calib_sizes (calib_advance c)" using assms(1)
    by (auto simp: calib_advance_def Let_def calib_sizes_def INPUTS_WANTED_def BLOCK_SIZE_def)
qed

lemma handle_cam_odom_ok:
  assumes ok: "calib_ok mici c" and od: "complete_odom od"
  shows "\<exists>c' r. handle_cam_odom mici od c = Inr (c', r) \<and> calib_ok mici c'"
proof -
  define c1 where "c1 = c\<lparr>ca_old_rpy_weight := max 0 (ca_old_rpy_weight c - 1 / SMOOTH_CYCLES)\<rparr>"
  have c1: "calib_sizes c1" "calib_angles mici c1" "calib_ok mici c1"
    using ok by (auto simp: c1_def calib_ok_def calib_sizes_def calib_angles_def calib_earned_def spread_too_high_def SMOOTH_CYCLES_def)
  obtain f g v where r: "straight_and_fast c1 od = Inr f" "certain_if_calib c1 od = Inr g" "observed_rpy od = Inr v"
    using complete_odom_reads [OF od] by metis
  obtain c2 where c2: "calib_store (calib_new_rpy mici c1 v) od c1 = Inr c2" "calib_sizes c2" "calib_angles mici c2"
    using calib_store_ok [OF c1(1,2)] sanity_clip_within by (metis calib_new_rpy_def)
  obtain c3 where c3: "update_status mici (calib_advance c2) = Inr c3" "calib_ok mici c3"
    using update_status_ok [OF calib_advance_ok [OF c2(2,3)]] by blast
  show ?thesis unfolding handle_cam_odom_def c1_def [symmetric] Let_def r bind_result_simps c2 c3(1)
    using c1(3) c3(2) by auto
qed

definition complete_frame :: "calib_frame \<Rightarrow> bool" where
  "complete_frame f \<longleftrightarrow> (case cf_odometry f of None \<Rightarrow> True | Some od \<Rightarrow> complete_odom od)"

lemma calib_step_ok:
  assumes "calib_ok mici c" "complete_frame f"
  shows "\<exists>c' m. calib_step mici f c = Inr (c', m) \<and> calib_ok mici c'"
proof (cases "cf_odometry f")
  case None
  then show ?thesis using assms by (simp add: calib_step_def)
next
  case (Some od)
  have "calib_ok mici (handle_v_ego (cf_v_ego f) c)"
    using assms by (simp add: handle_v_ego_def calib_ok_def calib_sizes_def calib_angles_def calib_earned_def spread_too_high_def)
  then show ?thesis using handle_cam_odom_ok [of mici _ od] assms(2) Some
    by (fastforce simp: calib_step_def complete_frame_def)
qed

lemma calib_run_ok:
  assumes "calib_ok mici c" "\<And>f. f \<in> set fs \<Longrightarrow> complete_frame f"
  shows "\<exists>c'. calib_run mici fs c = Inr c' \<and> calib_ok mici c'"
  using assms
proof (induction fs arbitrary: c)
  case (Cons f fs)
  obtain c1 m where c1: "calib_step mici f c = Inr (c1, m)" "calib_ok mici c1"
    using calib_step_ok [OF Cons.prems(1), of f] Cons.prems(2) by auto
  obtain c' where "calib_run mici fs c1 = Inr c'" "calib_ok mici c'" using Cons.IH [OF c1(2)] Cons.prems(2) by auto
  then show ?case using c1(1) by simp
qed simp

text \<open>A stored calibration as the process writes it: at most 50 blocks, angles within the limits.\<close>

definition stored_ok :: "bool \<Rightarrow> live_calibration \<Rightarrow> bool" where
  "stored_ok mici m \<longleftrightarrow> 0 \<le> lcal_validBlocks m \<and> lcal_validBlocks m \<le> int INPUTS_WANTED \<and>
     (case finite3 (lcal_rpyCalib m) of None \<Rightarrow> True | Some v \<Rightarrow> mount_ok mici v)"

lemma saved_is_ok: "calib_ok mici c \<Longrightarrow> stored_ok mici (calib_get_msg True c)"
  using smooth_rpy_within [of mici c] mount_ok_init [of mici]
  by (auto simp: calib_get_msg_def Let_def stored_ok_def calib_ok_def calib_sizes_def INPUTS_NEEDED_def INPUTS_WANTED_def RPY_INIT_def)

lemma Calibrator_ok:
  assumes "case params of None \<Rightarrow> True | Some m \<Rightarrow> stored_ok mici m"
  shows "\<exists>c. Calibrator mici param_put params = Inr c \<and> calib_ok mici c"
proof -
  have fresh: "calib_sizes (calib_reset (fl_vec RPY_INIT) 0 w h None c) \<and> calib_angles mici (calib_reset (fl_vec RPY_INIT) 0 w h None c)"
    for w h c by (rule calib_reset_ok) (simp_all add: INPUTS_WANTED_def mount_ok_init)
  have stored: "calib_sizes (calib_reset (lcal_rpyCalib m) (lcal_validBlocks m) w h None c) \<and>
      calib_angles mici (calib_reset (lcal_rpyCalib m) (lcal_validBlocks m) w h None c)" if "stored_ok mici m" for m w h c
    by (rule calib_reset_ok) (use that in \<open>auto simp: stored_ok_def\<close>)
  show ?thesis unfolding Calibrator_def Let_def
    by (rule update_status_ok; cases params; cases param_put) (use assms fresh stored in auto)
qed

text \<open>
  C37. From the start, with a stored calibration or none, over every sequence of complete messages
  (NaN among their values allowed) the calibrator returns, the angles it publishes are within the
  limits, and the status \<open>calibrated\<close> stands for five blocks, angles strictly inside and no spread.
\<close>

theorem calibration_in_limits:
  assumes "case params of None \<Rightarrow> True | Some m \<Rightarrow> stored_ok mici m" "\<forall>f\<in>set fs. complete_frame f"
  shows "\<exists>c0 c. Calibrator mici param_put params = Inr c0 \<and> calib_run mici fs c0 = Inr c \<and>
    mount_ok mici (get_smooth_rpy c) \<and>
    (ca_cal_status c = CAL_calibrated \<longrightarrow>
       INPUTS_NEEDED \<le> ca_valid_blocks c \<and> is_calibration_valid mici (ca_rpy c) \<and> \<not> spread_too_high c)"
proof -
  obtain c0 where c0: "Calibrator mici param_put params = Inr c0" "calib_ok mici c0" using Calibrator_ok [OF assms(1)] by blast
  then obtain c where c: "calib_run mici fs c0 = Inr c" "calib_ok mici c" using calib_run_ok assms(2) by blast
  have "mount_ok mici (get_smooth_rpy c)" "calib_earned mici c" using c(2) smooth_rpy_within by (auto simp: calib_ok_def)
  then show ?thesis using c0(1) c(1) unfolding calib_earned_def by blast
qed

definition sample_odom :: cam_odom where
  "sample_odom = \<lparr>od_trans = [Some 20, Some 0, None], od_rot = [Some 0, Some 0, Some 0], od_wide_from_device_euler = [],
     od_trans_std = [Some 0, Some 0, Some 0], od_road_transform_trans = [], od_road_transform_trans_std = []\<rparr>"

definition sample_frame :: calib_frame where
  "sample_frame = \<lparr>cf_sm_frame = 0, cf_odometry = Some sample_odom, cf_v_ego = 20, cf_all_checks = True\<rparr>"

theorem calibration_in_limits_witness:
  "\<exists>c0 c. Calibrator False True None = Inr c0 \<and> calib_run False [sample_frame, sample_frame] c0 = Inr c \<and>
     mount_ok False (get_smooth_rpy c)"
  using calibration_in_limits [where params = None and mici = False and fs = "[sample_frame, sample_frame]" and param_put = True]
  by (auto simp: complete_frame_def complete_odom_def sample_frame_def sample_odom_def)

subsection \<open>Progress\<close>

text \<open>What an update of the status does to the counters.\<close>

lemma calib_average_same:
  assumes "calib_average c = Inr c'"
  shows "ca_idx c' = ca_idx c" "ca_block_idx c' = ca_block_idx c" "ca_valid_blocks c' = ca_valid_blocks c"
    "ca_cal_status c' = ca_cal_status c"
  using assms by (auto simp: calib_average_def Let_def return_iff split: if_splits)

lemma calib_save_fields [simp]:
  "ca_idx (calib_save c) = ca_idx c" "ca_block_idx (calib_save c) = ca_block_idx c"
  "ca_valid_blocks (calib_save c) = ca_valid_blocks c" "ca_cal_status (calib_save c) = ca_cal_status c"
  "get_smooth_rpy (calib_save c) = get_smooth_rpy c"
  by (simp_all add: calib_save_def Let_def get_smooth_rpy_def)

lemma update_status_counts:
  assumes "update_status mici c = Inr c'"
  shows "ca_valid_blocks c < INPUTS_NEEDED \<Longrightarrow>
      ca_idx c' = ca_idx c \<and> ca_block_idx c' = ca_block_idx c \<and> ca_valid_blocks c' = ca_valid_blocks c \<and>
      ca_cal_status c' = (if ca_cal_status c = CAL_recalibrating then CAL_recalibrating else CAL_uncalibrated)"
    "INPUTS_NEEDED \<le> ca_valid_blocks c \<Longrightarrow>
      ca_valid_blocks c' = ca_valid_blocks c \<and> ca_cal_status c' \<in> {CAL_calibrated, CAL_invalid} \<or>
      ca_valid_blocks c' = 1 \<and> ca_cal_status c' = CAL_recalibrating"
proof -
  obtain c1 c2 where c: "calib_average c = Inr c1" "calib_restart (calib_classify mici c1) = Inr c2" "c' = calib_save c2"
    using assms by (auto simp: update_status_def return_iff)
  note s = calib_average_same [OF c(1)]
  show "ca_valid_blocks c < INPUTS_NEEDED \<Longrightarrow>
      ca_idx c' = ca_idx c \<and> ca_block_idx c' = ca_block_idx c \<and> ca_valid_blocks c' = ca_valid_blocks c \<and>
      ca_cal_status c' = (if ca_cal_status c = CAL_recalibrating then CAL_recalibrating else CAL_uncalibrated)"
    using c(2,3) s by (auto simp: calib_restart_def calib_classify_def split: if_splits)
  show "INPUTS_NEEDED \<le> ca_valid_blocks c \<Longrightarrow>
      ca_valid_blocks c' = ca_valid_blocks c \<and> ca_cal_status c' \<in> {CAL_calibrated, CAL_invalid} \<or>
      ca_valid_blocks c' = 1 \<and> ca_cal_status c' = CAL_recalibrating"
    using c(2,3) s by (auto simp: calib_restart_def calib_classify_def calib_reset_def Let_def return_iff split: if_splits)
qed

text \<open>A frame that counts while the calibration is young: driving fast and straight.\<close>

definition good_frame :: "calib_frame \<Rightarrow> bool" where
  "good_frame f \<longleftrightarrow> cf_v_ego f > MIN_SPEED_FILTER \<and>
     (case cf_odometry f of
        None \<Rightarrow> False
      | Some od \<Rightarrow> complete_odom od \<and> fl_less (Some MIN_SPEED_FILTER) (od_trans od ! 0) \<and>
                   fl_less (map_option abs (od_rot od ! 2)) (Some MAX_YAW_RATE_FILTER))"

lemma good_frame_counts:
  assumes ok: "calib_ok mici c" and young: "ca_valid_blocks c < INPUTS_NEEDED" and good: "good_frame f"
  obtains c1 c' m where "calib_step mici f c = Inr (c', m)" "calib_ok mici c'" "update_status mici (calib_advance c1) = Inr c'"
    "ca_idx c1 = ca_idx c" "ca_block_idx c1 = ca_block_idx c" "ca_valid_blocks c1 = ca_valid_blocks c"
    "ca_cal_status c1 = ca_cal_status c"
proof -
  obtain od where od: "cf_odometry f = Some od" "complete_odom od" "fl_less (Some MIN_SPEED_FILTER) (od_trans od ! 0)"
    "fl_less (map_option abs (od_rot od ! 2)) (Some MAX_YAW_RATE_FILTER)"
    using good by (auto simp: good_frame_def split: option.splits)
  define d where "d = (handle_v_ego (cf_v_ego f) c)\<lparr>ca_old_rpy_weight := max 0 (ca_old_rpy_weight (handle_v_ego (cf_v_ego f) c) - 1 / SMOOTH_CYCLES)\<rparr>"
  have d: "calib_sizes d" "calib_angles mici d" "ca_v_ego d = cf_v_ego f"
    "ca_idx d = ca_idx c" "ca_block_idx d = ca_block_idx c" "ca_valid_blocks d = ca_valid_blocks c" "ca_cal_status d = ca_cal_status c"
    using ok by (auto simp: d_def handle_v_ego_def calib_ok_def calib_sizes_def calib_angles_def SMOOTH_CYCLES_def)
  have "straight_and_fast d od = Inr True"
    using good od d(3) by (auto simp: straight_and_fast_def good_frame_def py_index_def complete_odom_def)
  moreover have "certain_if_calib d od = Inr True"
    using young od(2) d(6) by (auto simp: certain_if_calib_def py_index_def complete_odom_def Let_def)
  moreover obtain v where "observed_rpy od = Inr v" using complete_odom_reads(3) [OF od(2)] by blast
  moreover obtain c1 where c1: "calib_store (calib_new_rpy mici d v) od d = Inr c1" "calib_sizes c1" "calib_angles mici c1"
    "ca_idx c1 = ca_idx d" "ca_block_idx c1 = ca_block_idx d" "ca_valid_blocks c1 = ca_valid_blocks d" "ca_cal_status c1 = ca_cal_status d"
    using calib_store_ok [OF d(1,2)] sanity_clip_within by (metis calib_new_rpy_def)
  moreover obtain c' where c': "update_status mici (calib_advance c1) = Inr c'" "calib_ok mici c'"
    using update_status_ok [OF calib_advance_ok [OF c1(2,3)]] by blast
  ultimately have "calib_step mici f c = Inr (c', if cf_sm_frame f mod 5 = 0 then Some (calib_get_msg (cf_all_checks f) c') else None)"
    unfolding calib_step_def od(1) option.case handle_cam_odom_def d_def [symmetric] Let_def by simp
  then show thesis using that c' c1 d by metis
qed

text \<open>The frames counted so far, as long as no block beyond the fifth is complete.\<close>

definition counted :: "nat \<Rightarrow> calibrator \<Rightarrow> bool" where
  "counted n c \<longleftrightarrow> ca_block_idx c * BLOCK_SIZE + ca_idx c = n \<and> ca_valid_blocks c = ca_block_idx c \<and>
     ca_cal_status c = CAL_uncalibrated"

definition calib_concluded :: "calibrator \<Rightarrow> bool" where
  "calib_concluded c \<longleftrightarrow>
     ca_valid_blocks c = INPUTS_NEEDED \<and> ca_cal_status c \<in> {CAL_calibrated, CAL_invalid} \<or>
     ca_valid_blocks c = 1 \<and> ca_cal_status c = CAL_recalibrating"

lemma calib_advance_counts:
  assumes "ca_block_idx c * BLOCK_SIZE + ca_idx c = n" "ca_valid_blocks c = ca_block_idx c" "ca_idx c < BLOCK_SIZE" "n < 500"
  shows "ca_block_idx (calib_advance c) * BLOCK_SIZE + ca_idx (calib_advance c) = Suc n"
    "ca_valid_blocks (calib_advance c) = ca_block_idx (calib_advance c)" "ca_cal_status (calib_advance c) = ca_cal_status c"
    "ca_idx (calib_advance c) < BLOCK_SIZE"
proof -
  have b: "ca_block_idx c < 5" using assms by (simp add: BLOCK_SIZE_def)
  show "ca_block_idx (calib_advance c) * BLOCK_SIZE + ca_idx (calib_advance c) = Suc n"
    "ca_valid_blocks (calib_advance c) = ca_block_idx (calib_advance c)" "ca_cal_status (calib_advance c) = ca_cal_status c"
    "ca_idx (calib_advance c) < BLOCK_SIZE"
    using assms b by (auto simp: calib_advance_def Let_def BLOCK_SIZE_def INPUTS_WANTED_def mod_Suc)
qed

lemma counted_step:
  assumes ok: "calib_ok mici c" and n: "counted n c" "n < 500" and good: "good_frame f"
  shows "\<exists>c' m. calib_step mici f c = Inr (c', m) \<and> calib_ok mici c' \<and>
    (if Suc n < 500 then counted (Suc n) c' else calib_concluded c')"
proof -
  have i: "ca_idx c < BLOCK_SIZE" using ok by (simp add: calib_ok_def calib_sizes_def)
  have "ca_block_idx c * 100 + ca_idx c = n" using n by (simp add: counted_def BLOCK_SIZE_def)
  then have young: "ca_valid_blocks c < INPUTS_NEEDED" using n by (simp add: counted_def INPUTS_NEEDED_def)
  obtain c1 c' m where c1: "calib_step mici f c = Inr (c', m)" "calib_ok mici c'" "update_status mici (calib_advance c1) = Inr c'"
    "ca_idx c1 = ca_idx c" "ca_block_idx c1 = ca_block_idx c" "ca_valid_blocks c1 = ca_valid_blocks c"
    "ca_cal_status c1 = ca_cal_status c" by (rule good_frame_counts [OF ok young good])
  have a: "ca_block_idx (calib_advance c1) * BLOCK_SIZE + ca_idx (calib_advance c1) = Suc n"
    "ca_valid_blocks (calib_advance c1) = ca_block_idx (calib_advance c1)" "ca_cal_status (calib_advance c1) = ca_cal_status c1"
    "ca_idx (calib_advance c1) < BLOCK_SIZE"
    using calib_advance_counts [of c1 n] n i c1(4-6) by (simp_all add: counted_def)
  have "if Suc n < 500 then counted (Suc n) c' else calib_concluded c'"
  proof (cases "Suc n < 500")
    case True
    then have "ca_valid_blocks (calib_advance c1) < INPUTS_NEEDED" using a by (simp add: BLOCK_SIZE_def INPUTS_NEEDED_def)
    then show ?thesis using update_status_counts(1) [OF c1(3)] a c1(7) n True by (simp add: counted_def)
  next
    case False
    then have "ca_valid_blocks (calib_advance c1) = INPUTS_NEEDED" using a n(2) by (simp add: BLOCK_SIZE_def INPUTS_NEEDED_def)
    then show ?thesis using update_status_counts(2) [OF c1(3)] False by (auto simp: calib_concluded_def)
  qed
  then show ?thesis using c1(1,2) by blast
qed

lemma counted_run:
  assumes "calib_ok mici c" "counted n c" "n + length fs = 500" "n < 500" "\<forall>f\<in>set fs. good_frame f"
  shows "\<exists>c'. calib_run mici fs c = Inr c' \<and> calib_concluded c'"
  using assms
proof (induction fs arbitrary: c n)
  case (Cons f fs)
  obtain c1 m where c1: "calib_step mici f c = Inr (c1, m)" "calib_ok mici c1"
    "if Suc n < 500 then counted (Suc n) c1 else calib_concluded c1"
    using counted_step [OF Cons.prems(1,2,4), of f] Cons.prems(5) by auto
  show ?case
  proof (cases "Suc n < 500")
    case True
    then show ?thesis using Cons.IH [of c1 "Suc n"] Cons.prems c1 by auto
  next
    case False
    then have "length fs = 0" using Cons.prems(3,4) by (simp only: list.size)
    then have "fs = []" by simp
    then show ?thesis using c1 False by simp
  qed
qed simp

text \<open>
  C38. From a start with no stored calibration, 500 frames driven fast and straight conclude the
  calibration: it is calibrated or judged invalid, or the mount moved and it has started over.
\<close>

theorem calibration_concludes:
  assumes "length fs = 500" "\<forall>f\<in>set fs. good_frame f"
  shows "\<exists>c0 c. Calibrator mici param_put None = Inr c0 \<and> calib_run mici fs c0 = Inr c \<and> calib_concluded c"
proof -
  obtain c0 where c0: "Calibrator mici param_put None = Inr c0" "calib_ok mici c0" using Calibrator_ok [where params = None] by auto
  have "counted 0 c0" using c0(1) update_status_counts(1) [of mici _ c0]
    by (simp add: Calibrator_def Let_def counted_def calib_reset_def INPUTS_NEEDED_def)
  then show ?thesis using counted_run [OF c0(2), of 0 fs] assms c0(1) by auto
qed

definition steady_frame :: calib_frame where
  "steady_frame = sample_frame\<lparr>cf_odometry := Some (sample_odom\<lparr>od_trans := [Some 20, Some 0, Some 0]\<rparr>)\<rparr>"

theorem calibration_concludes_witness:
  "\<exists>c0 c. Calibrator True False None = Inr c0 \<and> calib_run True (replicate 500 steady_frame) c0 = Inr c \<and> calib_concluded c"
proof (rule calibration_concludes)
  show "\<forall>f\<in>set (replicate 500 steady_frame). good_frame f"
    by (simp add: good_frame_def steady_frame_def sample_frame_def sample_odom_def complete_odom_def fl_less_def
      MIN_SPEED_FILTER_def MAX_YAW_RATE_FILTER_def radians_def const_defs)
qed simp

lemma calib_reset_smooth:
  "get_smooth_rpy (calib_reset r vb w h (Some s) c\<lparr>ca_cal_status := x\<rparr>) = s"
  "ca_valid_blocks (calib_reset r 1 w h sf c\<lparr>ca_cal_status := x\<rparr>) = 1"
proof -
  have "map3 (\<lambda>a b. a) u v = u" for u v :: vec3 by (cases u; cases v) simp
  then show "get_smooth_rpy (calib_reset r vb w h (Some s) c\<lparr>ca_cal_status := x\<rparr>) = s"
    by (simp add: get_smooth_rpy_def calib_reset_def Let_def)
  show "ca_valid_blocks (calib_reset r 1 w h sf c\<lparr>ca_cal_status := x\<rparr>) = 1"
    by (simp add: calib_reset_def Let_def)
qed

text \<open>When the mount moved, the angles in use do not jump: they start at the average before.\<close>

theorem recalibration_is_smooth:
  assumes "update_status mici c = Inr c'" "ca_cal_status c \<noteq> CAL_recalibrating" "ca_cal_status c' = CAL_recalibrating"
  shows "\<exists>c1. calib_average c = Inr c1 \<and> spread_too_high c1 \<and> get_smooth_rpy c' = ca_rpy c1 \<and> ca_valid_blocks c' = 1"
proof -
  obtain c1 c2 where c: "calib_average c = Inr c1" "calib_restart (calib_classify mici c1) = Inr c2" "c' = calib_save c2"
    using assms(1) by (auto simp: update_status_def return_iff)
  have ne: "ca_cal_status (calib_classify mici c1) \<noteq> CAL_recalibrating"
    using calib_average_same(4) [OF c(1)] assms(2) by (simp add: calib_classify_def)
  then have "spread_too_high c1 \<and> ca_cal_status (calib_classify mici c1) = CAL_calibrated"
    using c(2,3) assms(3) by (auto simp: calib_restart_def split: if_splits)
  then show ?thesis using c by (auto simp: calib_restart_def return_iff calib_reset_smooth)
qed

text \<open>A NaN height is never averaged away (zero times NaN is NaN): it stays in its block until a reset.\<close>

theorem nan_height_stays:
  assumes "calib_store v od c = Inr c'" "ca_heights c ! ca_block_idx c = None"
  shows "ca_heights c' ! ca_block_idx c = None"
  using assms by (auto simp: calib_store_def Let_def return_iff fl2_def)

end
