(* ===== verification/Spec2Isabelle.thy ===== *)
theory Spec2Isabelle
  imports Monitoring_Link Lane_Change Modem_Diag Speed_Limit_Runs Dec Long_Shaping Hardwared Storage_Facts Ubloxd_Facts Radard_Facts Output_Governor Controlsd Orientation_Facts Calibration
begin

text \<open>
  A verification development for sunnypilot (openpilot with sunnypilot's additions), a driver
  assistance system. The repository's Python code runs as a set of processes that exchange
  messages. This library models the processes that decide whether and how the car is controlled.

  \<^bold>\<open>The parts and how they interact.\<close> \<open>selfdrived\<close> (\<open>selfdrive/selfdrived/selfdrived.py\<close>) reads
  the car state and the messages of all other processes at 100 Hz, turns every condition into
  events, feeds the events to the engagement state machine (\<open>selfdrived/state.py\<close>) and to MADS
  (\<open>sunnypilot/mads\<close>), which shares the event stores and the soft-disable timer with it, creates
  alerts from the events and publishes the result. \<open>card\<close> (\<open>selfdrive/car/card.py\<close>) keeps the
  cruise set speed. The driver monitor, the lane change helper, the speed limit assist and the
  longitudinal decision core and controllers work beside it and exchange messages with it; \<open>radard\<close>
  estimates the leads; \<open>controlsd\<close> turns the published state and the plans into commands to the
  actuators. The hardware daemon decides whether the device is onroad; the process manager reads that decision
  and starts or stops the processes; deleter and uploader take care of the recordings.

  \<^bold>\<open>Theories, from the bottom up.\<close>
  \<^item> \<open>Prelude\<close>: Python's rounding and truncation, runs of a step function over a list of inputs
    (\<open>frames\<close>), and the locales \<open>frame_machine\<close> (an invariant kept by every frame) and
    \<open>ranked_machine\<close> (a rank that every frame lowers); the components interpret them.
  \<^item> \<open>Events_Base\<close>: \<open>EventsBase\<close>, \<open>Alert\<close> and the alert classes of
    \<open>sunnypilot/selfdrive/selfdrived/events_base.py\<close>. The store keeps a sorted list of events and
    two counting caches; the lemmas show that the caches always equal a recount, so that the
    store behaves as a bag of events.
  \<^item> \<open>Event_Names\<close>, \<open>Events_Table\<close>, \<open>Events_SP_Table\<close>: the enumerations of the message schema and
    the tables \<open>EVENTS\<close> and \<open>EVENTS_SP\<close> with their alert callbacks (\<open>selfdrived/events.py\<close>,
    \<open>sunnypilot/selfdrive/selfdrived/events.py\<close>), for both device types.
  \<^item> \<open>Selfdrive_State\<close>: the engagement state machine; a transition system it refines, the exact
    condition for being enabled, the invariant of its reachable states, termination of soft
    disabling.
  \<^item> \<open>Car_State\<close>: the message records shared by the components (\<open>CarState\<close>, \<open>CarParams\<close>,
    \<open>PandaState\<close> and others), with the fields the modelled code reads.
  \<^item> \<open>Mads\<close>: the MADS state machine, its event handling and its parameters.
  \<^item> \<open>Alert_Manager\<close>: \<open>AlertManager\<close>: lifetime of alerts and the choice of the one shown, which no alert of the frame outranks.
  \<^item> \<open>Cruise\<close>: \<open>VCruiseHelper\<close> and \<open>VCruiseHelperSP\<close>: set speed, buttons, speed-limit assist.
  \<^item> \<open>Icbm\<close>: the intelligent cruise button management controller.
  \<^item> \<open>Car_Events\<close>: events derived from the car state, per brand; the excessive-actuation check;
    the experimental-mode button.
  \<^item> \<open>SelfdriveD\<close>: the constructor, \<open>update_events\<close> section by section, \<open>data_sample\<close>, \<open>step\<close> and
    the parameter thread; the end-to-end safety properties.
  \<^item> \<open>Filters\<close>: \<open>FirstOrderFilter\<close> and \<open>RunningStat\<close> of \<open>common\<close>: bounds and convergence.
  \<^item> \<open>Driver_Monitoring\<close>, \<open>Driver_Monitoring_Runs\<close>: \<open>selfdrive/monitoring\<close>: the policy object, the
    packet it publishes, runs of the monitor: its invariant, the terminal alert for a distracted
    driver, the lockout clock. \<open>Monitoring_Link\<close> joins the packet to \<open>SelfdriveD\<close>.
  \<^item> \<open>Long_Control\<close>: \<open>PIDController\<close>, \<open>LongControl\<close> and the drive helpers: limits, stopping, the
    commanded curvature.
  \<^item> \<open>Lane_Change\<close>: \<open>DesireHelper\<close> with the automatic lane change and lane turn controllers, the
    lane departure warning and the pause of lateral control on blinkers: every lane change has
    been requested.
  \<^item> \<open>Modem_Diag\<close>: the diagnostic protocol of the modem (\<open>system/qcomgpsd/modemdiag.py\<close>): the
    checksum against its bitwise definition, framing, delivery over a line that splits frames.
  \<^item> \<open>Speed_Limit\<close>, \<open>Speed_Limit_Runs\<close>: resolver and assist of
    \<open>sunnypilot/custom/longitudinal/speed_limit\<close>: the resolver against its specification, the
    confirmation behind every active assist.
  \<^item> \<open>Dec\<close>: the dynamic experimental controller: ranges, minimal dwell in \<open>blended\<close>, return to \<open>acc\<close>.
  \<^item> \<open>Power_Monitor\<close>: \<open>PowerMonitoring\<close> and the fan controller: the energy account of a parked car.
  \<^item> \<open>Long_Decision\<close>: modes, admission of evidence and arbitration of candidates in
    \<open>sunnypilot/custom/longitudinal\<close>: hazards bind, excluded evidence has no effect.
  \<^item> \<open>Long_Shaping\<close>: coast horizon and runway governor, trajectory synthesis, the envelope for
    following a lead, cut-in assist, cut-out release, standstill release confidence.
  \<^item> \<open>Process_Manager\<close>: \<open>system/manager\<close>: managed processes over an explicit operating system, the
    table of processes and its conditions, the loop and the clean-up: one instance per process,
    one controller, nothing survives the manager.
  \<^item> \<open>Hardwared\<close>: the loop of \<open>system/hardware/hardwared.py\<close>: onroad and offroad, temperature bands,
    shutdown; joined to \<open>Process_Manager\<close>: the drive ends when its conditions end.
  \<^item> \<open>Storage\<close>, \<open>Storage_Facts\<close>: \<open>system/loggerd\<close>: file attributes with their cache, the deleter and
    the uploader: what is deleted first, that uploading finishes, and the stale attribute cache.
  \<^item> \<open>Binary_Struct\<close>, \<open>Ublox_Schemas\<close>, \<open>Ubloxd\<close>, \<open>Ubloxd_Facts\<close>: \<open>system/ubloxd\<close>: the parser of binary
    structures against the sequence of bits, the layouts of the satellite messages, the framer and
    the assembly of ephemerides: clean streams arrive whole, a GPS ephemeris is one issue of data.
  \<^item> \<open>Radard\<close>, \<open>Radard_Facts\<close>: \<open>selfdrive/controls/radard.py\<close> with \<open>common/simple_kalman.py\<close> and
    \<open>radar_cut_in/override.py\<close>: the tracks and their filter, the choice of the leads: every lead
    has its grounds in the current frame, nothing close is missed at low speed.
  \<^item> \<open>Lat_Control\<close>: the lateral controllers of \<open>selfdrive/controls/lib\<close> (torque by PID, angle,
    curvature) with the saturation timer, and their contract as the locale \<open>lateral_controller\<close>.
  \<^item> \<open>Controlsd\<close>: \<open>selfdrive/controls/controlsd.py\<close> for every lateral controller: the control step and
    the message to the car; joined to \<open>SelfdriveD\<close>: the brake reaches the actuators.
  \<^item> \<open>Output_Governor\<close>: the last stage of the torque controller v2.1
    (\<open>sunnypilot/custom/lateral/output_governor.py\<close>): the torque never jumps up or to the other side and yields to the driver.
  \<^item> \<open>Orientation\<close>, \<open>Orientation_Facts\<close>: \<open>common/transformations\<close>: Euler angles, quaternions, matrices
    and coordinates: round trips, local coordinates as an isometry, change of frame.
  \<^item> \<open>Calibration\<close>: \<open>selfdrive/locationd/calibrationd.py\<close>, on top of \<open>Orientation\<close>: the mount angles in
    blocks: what is published is within the limits, what \<open>calibrated\<close> stands for, progress.

  \<^bold>\<open>Modelling conventions.\<close> A class is a record, a method a function from state to state, an
  exception the left value of a sum type. Floating-point numbers are reals: rounding errors of
  IEEE arithmetic are not modelled, Python's \<open>round\<close> (half to even), \<open>int\<close> and \<open>//\<close> are. Python
  integers are \<open>int\<close>. What lies outside the repository (\<open>opendbc\<close>: flag values, gear tables,
  limits, \<open>apply_hysteresis\<close>; the messaging library's liveness checks; the parameter store) is a
  parameter or an input. Log calls are left out. No definition uses fuel: nearly every loop of
  the modelled code runs over a list or a number that shrinks, and the one that may wait for ever
  (\<open>recv_answer\<close> of \<open>Modem_Diag\<close>, which skips foreign packets) is a partial function whose result
  is proved to exist when the answer comes. The runs that the theorems speak of are lists of inputs of any
  length; the 301 frames of the soft-disable theorems are the countdown \<open>int(3 / 0.01) = 300\<close>
  and the frame that enters it.

  \<^bold>\<open>What is not modelled\<close> and why: neural networks and their runners, the numerical solvers and the other
  filters (their outputs are inputs here), user interfaces and drivers, the remote services
  (\<open>athenad\<close>), the initialisation of the parameter store, the network and usage fields of the
  hardware daemon (effects outside the control decisions); the tools under \<open>tools\<close>, which are not
  part of the running system. Left for a later extension: the custom lateral stack
  but for its output governor (in \<open>Controlsd\<close> the result of its demand pipeline is an input), the
  torque controllers, the finalizer, stack and lead context of the custom longitudinal planner, and
  the process \<open>plannerd\<close>.
\<close>

end
